(* ===== verification/Revpd_Prelude.thy ===== *)
theory Revpd_Prelude
  imports Main "HOL-Library.Word"
begin

unbundle bit_operations_syntax

text \<open>
  Shared vocabulary of the development: bytes and the fixed-width integers of
  \<open>encoding/binary\<close>, Go's run-time failures as values, the wrap-around of Go's 64-bit
  \<open>int\<close>, and the generic list and word lemmas that the component theories use.

  Conventions.  A Go \<open>string\<close> is a byte sequence and is modelled by HOL's \<^typ>\<open>string\<close>,
  whose characters are bytes as well; a \<open>[]byte\<close> is a list of 8-bit words.  A function that
  can fail returns \<^typ>\<open>'e + 'a\<close> with the error on the left.  A \<open>time.Time\<close> is an integer
  count of nanoseconds since the Unix epoch.
\<close>

section \<open>Bytes, results, time\<close>

type_synonym byte = "8 word"
type_synonym bytes = "byte list"
type_synonym time = int

named_theorems wire_simps \<open>reading back what an encoder wrote\<close>
named_theorems store_simps \<open>effect of the store operations on the tables\<close>

definition unix :: "time \<Rightarrow> int" where
  "unix t = t div 1000000000"

definition seconds :: "int \<Rightarrow> int" where
  "seconds n = n * 1000000000"

lemma unix_mono: "s \<le> t \<Longrightarrow> unix s \<le> unix t"
  by (simp add: unix_def zdiv_mono1)

lemma unix_add_seconds [simp]: "unix (t + seconds n) = unix t + n"
  by (simp add: unix_def seconds_def)

text \<open>Go's \<open>int\<close> and \<open>int64\<close> arithmetic wraps at 64 bits.\<close>

definition wrap64 :: "int \<Rightarrow> int" where
  "wrap64 x = (x + 2 ^ 63) mod 2 ^ 64 - 2 ^ 63"

definition max_int64 :: int where
  "max_int64 = 2 ^ 63 - 1"

lemma wrap64_id: "- (2 ^ 63) \<le> x \<Longrightarrow> x < 2 ^ 63 \<Longrightarrow> wrap64 x = x"
  by (simp add: wrap64_def)

lemma wrap64_range: "- (2 ^ 63) \<le> wrap64 x \<and> wrap64 x < 2 ^ 63"
proof -
  have "0 \<le> (x + 2 ^ 63) mod 2 ^ 64" and "(x + 2 ^ 63) mod 2 ^ 64 < (2::int) ^ 64"
    by simp_all
  then show ?thesis by (simp add: wrap64_def)
qed

section \<open>Guards\<close>

text \<open>A guarded statement succeeds only past its guard.\<close>

lemma guard_Inr [simp]:
  "(if b then Inl e else X) = Inr y \<longleftrightarrow> \<not> b \<and> X = Inr y"
  "(if b then X else Inl e) = Inr y \<longleftrightarrow> b \<and> X = Inr y"
  by auto

lemma guard_Some [simp]:
  "(if b then None else X) = Some y \<longleftrightarrow> \<not> b \<and> X = Some y"
  "(if b then X else None) = Some y \<longleftrightarrow> b \<and> X = Some y"
  by auto

section \<open>Fixed-width integers on the wire\<close>

definition le16 :: "16 word \<Rightarrow> bytes" where
  "le16 v = [ucast v, ucast (drop_bit 8 v)]"

definition le32 :: "32 word \<Rightarrow> bytes" where
  "le32 v = [ucast v, ucast (drop_bit 8 v), ucast (drop_bit 16 v), ucast (drop_bit 24 v)]"

definition be16 :: "16 word \<Rightarrow> bytes" where
  "be16 v = [ucast (drop_bit 8 v), ucast v]"

definition be32 :: "32 word \<Rightarrow> bytes" where
  "be32 v = [ucast (drop_bit 24 v), ucast (drop_bit 16 v), ucast (drop_bit 8 v), ucast v]"

fun get_le16 :: "bytes \<Rightarrow> 16 word" where
  "get_le16 (a # b # _) = ucast a OR push_bit 8 (ucast b)"
| "get_le16 _ = 0"

fun get_le32 :: "bytes \<Rightarrow> 32 word" where
  "get_le32 (a # b # c # d # _) =
     ucast a OR push_bit 8 (ucast b) OR push_bit 16 (ucast c) OR push_bit 24 (ucast d)"
| "get_le32 _ = 0"

fun get_be16 :: "bytes \<Rightarrow> 16 word" where
  "get_be16 (a # b # _) = ucast b OR push_bit 8 (ucast a)"
| "get_be16 _ = 0"

fun get_be32 :: "bytes \<Rightarrow> 32 word" where
  "get_be32 (a # b # c # d # _) =
     ucast d OR push_bit 8 (ucast c) OR push_bit 16 (ucast b) OR push_bit 24 (ucast a)"
| "get_be32 _ = 0"

text \<open>
  A fixed-width field: every value is written on the same number of bytes, and reading the
  front of a buffer gives back the value that was written there.  The four encoders above are
  instances, and the packet theories only use the facts derived here.
\<close>

locale fixed_field =
  fixes enc :: "'a \<Rightarrow> bytes" and dec :: "bytes \<Rightarrow> 'a" and width :: nat
  assumes width: "length (enc v) = width"
    and dec_enc: "dec (enc v @ rest) = v"
begin

lemma dec_whole: "dec (enc v) = v"
  using dec_enc [of v "[]"] by simp

lemma take_enc: "take width (enc v @ rest) = enc v"
  by (simp add: width)

lemma drop_enc: "drop width (enc v @ rest) = rest"
  by (simp add: width)

lemma enc_inj: "enc v = enc w \<Longrightarrow> v = w"
  by (metis dec_whole)

lemma enc_prefix_inj: "enc v @ r = enc w @ s \<Longrightarrow> v = w \<and> r = s"
  by (metis dec_enc append_eq_append_conv width)

end

lemma le16_dec: "get_le16 (le16 v @ rest) = v"
proof (rule bit_word_eqI)
  fix n assume "n < LENGTH(16)"
  then show "bit (get_le16 (le16 v @ rest)) n = bit v n"
    by (cases "n < 8") (auto simp: le16_def bit_simps)
qed

lemma be16_dec: "get_be16 (be16 v @ rest) = v"
  using le16_dec [of v rest] by (simp add: be16_def le16_def)

lemma le32_dec: "get_le32 (le32 v @ rest) = v"
proof (rule bit_word_eqI)
  fix n assume n: "n < LENGTH(32)"
  consider "n < 8" | "8 \<le> n" "n < 16" | "16 \<le> n" "n < 24" | "24 \<le> n" by linarith
  then show "bit (get_le32 (le32 v @ rest)) n = bit v n"
    by cases (use n in \<open>auto simp: le32_def bit_simps\<close>)
qed

lemma be32_dec: "get_be32 (be32 v @ rest) = v"
  using le32_dec [of v rest] by (simp add: be32_def le32_def)

interpretation le16: fixed_field le16 get_le16 2
  by unfold_locales (simp_all add: le16_dec, simp add: le16_def)

interpretation be16: fixed_field be16 get_be16 2
  by unfold_locales (simp_all add: be16_dec, simp add: be16_def)

interpretation le32: fixed_field le32 get_le32 4
  by unfold_locales (simp_all add: le32_dec, simp add: le32_def)

interpretation be32: fixed_field be32 get_be32 4
  by unfold_locales (simp_all add: be32_dec, simp add: be32_def)

lemmas field_simps_wire =
  le16.width le16.dec_enc le16.dec_whole be16.width be16.dec_enc be16.dec_whole
  le32.width le32.dec_enc le32.dec_whole be32.width be32.dec_enc be32.dec_whole

declare field_simps_wire [wire_simps]

text \<open>A length that fits its field reads back as itself.\<close>

lemma unat_word_8: "n < 256 \<Longrightarrow> unat (word_of_nat n :: 8 word) = n"
  and unat_word_16: "n < 65536 \<Longrightarrow> unat (word_of_nat n :: 16 word) = n"
  and unat_word_32: "n < 4294967296 \<Longrightarrow> unat (word_of_nat n :: 32 word) = n"
  by (simp_all add: unat_of_nat take_bit_eq_mod)

end
