(* ===== verification/Go_Strings.thy ===== *)
theory Go_Strings
  imports Revpd_Prelude
begin

text \<open>
  The part of Go's \<open>strings\<close>, \<open>unicode\<close> and \<open>unicode/utf8\<close> packages that the program uses.
  A Go string is bytes; ranging over it decodes UTF-8, and a byte that does not start a
  well-formed sequence yields U+FFFD and is skipped alone.  Case mapping outside ASCII needs
  the Unicode tables, which are a parameter of the functions that use them.
\<close>

section \<open>UTF-8\<close>

type_synonym rune = nat

definition rune_error :: rune where
  "rune_error = 65533"

definition valid_rune :: "rune \<Rightarrow> bool" where
  "valid_rune r \<longleftrightarrow> r < 55296 \<or> (57343 < r \<and> r < 1114112)"

abbreviation byte_val :: "char \<Rightarrow> nat" where
  "byte_val c \<equiv> of_char c"

definition cont :: "nat \<Rightarrow> bool" where
  "cont b \<longleftrightarrow> 128 \<le> b \<and> b < 192"

text \<open>\<open>utf8.DecodeRune\<close>: the first rune and the number of bytes it takes.\<close>

definition decode2 :: "nat \<Rightarrow> nat \<Rightarrow> rune option" where
  "decode2 a b = (if 194 \<le> a \<and> a < 224 \<and> cont b then Some ((a - 192) * 64 + (b - 128)) else None)"

definition decode3 :: "nat \<Rightarrow> nat \<Rightarrow> nat \<Rightarrow> rune option" where
  "decode3 a b c =
     (if 224 \<le> a \<and> a < 240 \<and> cont b \<and> cont c \<and> (a = 224 \<longrightarrow> 160 \<le> b) \<and> (a = 237 \<longrightarrow> b < 160)
      then Some ((a - 224) * 4096 + (b - 128) * 64 + (c - 128)) else None)"

definition decode4 :: "nat \<Rightarrow> nat \<Rightarrow> nat \<Rightarrow> nat \<Rightarrow> rune option" where
  "decode4 a b c d =
     (if 240 \<le> a \<and> a < 245 \<and> cont b \<and> cont c \<and> cont d \<and> (a = 240 \<longrightarrow> 144 \<le> b) \<and> (a = 244 \<longrightarrow> b < 144)
      then Some ((a - 240) * 262144 + (b - 128) * 4096 + (c - 128) * 64 + (d - 128)) else None)"

definition rune2 :: "nat list \<Rightarrow> rune option" where
  "rune2 bs = (case bs of a # b # _ \<Rightarrow> decode2 a b | _ \<Rightarrow> None)"

definition rune3 :: "nat list \<Rightarrow> rune option" where
  "rune3 bs = (case bs of a # b # c # _ \<Rightarrow> decode3 a b c | _ \<Rightarrow> None)"

definition rune4 :: "nat list \<Rightarrow> rune option" where
  "rune4 bs = (case bs of a # b # c # d # _ \<Rightarrow> decode4 a b c d | _ \<Rightarrow> None)"

definition decode_rune :: "nat list \<Rightarrow> rune \<times> nat" where
  "decode_rune bs =
     (if bs \<noteq> [] \<and> hd bs < 128 then (hd bs, 1)
      else case rune2 bs of Some r \<Rightarrow> (r, 2)
      | None \<Rightarrow> (case rune3 bs of Some r \<Rightarrow> (r, 3)
      | None \<Rightarrow> (case rune4 bs of Some r \<Rightarrow> (r, 4)
      | None \<Rightarrow> (rune_error, 1))))"

lemma decode_rune_width: "1 \<le> snd (decode_rune bs)"
  by (simp add: decode_rune_def split: option.splits)

text \<open>\<open>for _, r := range s\<close>, and \<open>string(runes)\<close> with \<open>utf8.AppendRune\<close>.\<close>

function runes_of :: "nat list \<Rightarrow> rune list" where
  "runes_of [] = []"
| "runes_of (b # bs) =
     fst (decode_rune (b # bs)) # runes_of (drop (snd (decode_rune (b # bs))) (b # bs))"
  by pat_completeness auto
termination
  by (relation "measure length") (use decode_rune_width in \<open>auto simp: Suc_le_eq\<close>)

definition runes :: "string \<Rightarrow> rune list" where
  "runes s = runes_of (map of_char s)"

definition utf8_bytes :: "rune \<Rightarrow> nat list" where
  "utf8_bytes r0 =
     (let r = (if valid_rune r0 then r0 else rune_error) in
      if r < 128 then [r]
      else if r < 2048 then [192 + r div 64, 128 + r mod 64]
      else if r < 65536 then [224 + r div 4096, 128 + r div 64 mod 64, 128 + r mod 64]
      else [240 + r div 262144, 128 + r div 4096 mod 64, 128 + r div 64 mod 64, 128 + r mod 64])"

definition utf8 :: "rune \<Rightarrow> string" where
  "utf8 r = map char_of (utf8_bytes r)"

definition string_of_runes :: "rune list \<Rightarrow> string" where
  "string_of_runes rs = concat (map utf8 rs)"

lemma utf8_bytes_range: "\<forall>b \<in> set (utf8_bytes r). b < 256"
  by (auto simp: utf8_bytes_def Let_def valid_rune_def rune_error_def)

lemma of_char_utf8: "map of_char (utf8 r) = utf8_bytes r"
proof -
  have "map (of_char \<circ> char_of) (utf8_bytes r) = utf8_bytes r"
    using utf8_bytes_range [of r] by (intro map_idI) simp
  then show ?thesis by (simp add: utf8_def)
qed

lemma div_4096: "(r::nat) div 4096 = r div 64 div 64"
  by (simp add: div_mult2_eq [of r 64 64, simplified])

lemma div_262144: "(r::nat) div 262144 = r div 64 div 64 div 64"
  by (simp add: div_mult2_eq [of r 64 4096, simplified] div_4096)

lemma decode_utf8:
  assumes "valid_rune r"
  shows "decode_rune (utf8_bytes r @ rest) = (r, length (utf8_bytes r)) \<and> utf8_bytes r \<noteq> []"
proof -
  consider "r < 128" | "128 \<le> r" "r < 2048" | "2048 \<le> r" "r < 65536" | "65536 \<le> r" by linarith
  then show ?thesis
  proof cases
    case 1 with assms show ?thesis by (simp add: utf8_bytes_def decode_rune_def)
  next
    case 2
    then have "r div 64 < 32" and "2 \<le> r div 64" by auto
    with 2 assms show ?thesis
      by (simp add: utf8_bytes_def decode_rune_def rune2_def decode2_def cont_def)
  next
    case 3
    define q where "q = r div 64"
    have r: "r = q * 64 + r mod 64" by (simp add: q_def)
    have q: "q = q div 64 * 64 + q mod 64" by simp
    from 3 have q_le: "32 \<le> q" "q < 1024" by (simp_all add: q_def)
    then have a: "q div 64 < 16" and d: "q div 64 = 0 \<longrightarrow> 32 \<le> q mod 64" by auto
    have "q < 864 \<or> 895 < q" using assms r by (auto simp: valid_rune_def q_def)
    then have e: "q div 64 = 13 \<longrightarrow> q mod 64 < 32" using q by arith
    have c: "q div 64 * 4096 + q mod 64 * 64 + r mod 64 = r" using r q by arith
    from a c d e 3 assms show ?thesis
      by (simp add: utf8_bytes_def div_4096 q_def [symmetric] decode_rune_def rune2_def rune3_def
          decode2_def decode3_def cont_def)
  next
    case 4
    define q where "q = r div 64"
    define p where "p = q div 64"
    have r: "r = q * 64 + r mod 64" by (simp add: q_def)
    have q: "q = p * 64 + q mod 64" by (simp add: p_def)
    have p: "p = p div 64 * 64 + p mod 64" by simp
    from 4 assms have p_le: "16 \<le> p" "p < 272" by (auto simp: p_def q_def valid_rune_def)
    then have a: "p div 64 < 5" and d: "p div 64 = 0 \<longrightarrow> 16 \<le> p mod 64" by auto
    have e: "p div 64 = 4 \<longrightarrow> p mod 64 < 16" using p_le p by arith
    have c: "p div 64 * 262144 + p mod 64 * 4096 + q mod 64 * 64 + r mod 64 = r"
      using r q p by arith
    from a c d e 4 assms show ?thesis
      by (simp add: utf8_bytes_def div_262144 div_4096 q_def [symmetric] p_def [symmetric]
          decode_rune_def rune2_def rune3_def rune4_def decode2_def decode3_def decode4_def cont_def)
  qed
qed

lemma runes_of_utf8: "valid_rune r \<Longrightarrow> runes_of (utf8_bytes r @ rest) = r # runes_of rest"
proof -
  assume v: "valid_rune r"
  then obtain b bs where bs: "utf8_bytes r = b # bs"
    using decode_utf8 [of r rest] by (cases "utf8_bytes r") auto
  from decode_utf8 [OF v, of rest] bs show ?thesis by simp
qed

lemma runes_utf8 [wire_simps]: "valid_rune r \<Longrightarrow> runes (utf8 r @ s) = r # runes s"
  by (simp add: runes_def of_char_utf8 runes_of_utf8)

lemma runes_Nil [simp]: "runes [] = []"
  by (simp add: runes_def)

lemma runes_string_of_runes: "(\<forall>r \<in> set rs. valid_rune r) \<Longrightarrow> runes (string_of_runes rs) = rs"
  by (induction rs) (auto simp: string_of_runes_def runes_utf8)

section \<open>Searching, slicing, trimming\<close>

text \<open>\<open>strings.Index\<close> and \<open>strings.LastIndex\<close> for a one-byte needle, as an option.\<close>

fun index_of :: "char \<Rightarrow> string \<Rightarrow> nat option" where
  "index_of c [] = None"
| "index_of c (x # xs) = (if x = c then Some 0 else map_option Suc (index_of c xs))"

fun last_index_of :: "char \<Rightarrow> string \<Rightarrow> nat option" where
  "last_index_of c [] = None"
| "last_index_of c (x # xs) =
     (case last_index_of c xs of Some i \<Rightarrow> Some (Suc i) | None \<Rightarrow> if x = c then Some 0 else None)"

lemma index_of_None [simp]: "index_of c s = None \<longleftrightarrow> c \<notin> set s"
  by (induction s) auto

lemma last_index_of_None [simp]: "last_index_of c s = None \<longleftrightarrow> c \<notin> set s"
  by (induction s) (auto split: option.splits)

lemma index_of_Some:
  "index_of c s = Some i \<Longrightarrow> i < length s \<and> s ! i = c \<and> c \<notin> set (take i s)"
  by (induction s arbitrary: i) (auto split: if_splits)

lemma last_index_of_Some:
  "last_index_of c s = Some i \<Longrightarrow> i < length s \<and> s ! i = c \<and> c \<notin> set (drop (Suc i) s)"
  by (induction s arbitrary: i) (auto split: option.splits if_splits)

lemma last_index_of_append: "c \<notin> set t \<Longrightarrow> last_index_of c (s @ c # t) = Some (length s)"
  by (induction s) (auto split: option.splits simp: last_index_of_None [THEN iffD2])

definition has_prefix :: "string \<Rightarrow> string \<Rightarrow> bool" where
  "has_prefix s p \<longleftrightarrow> take (length p) s = p"

lemma has_prefix_nonempty: "has_prefix s p \<Longrightarrow> p \<noteq> [] \<Longrightarrow> 0 < length s"
  by (cases s) (auto simp: has_prefix_def)

definition trim_prefix :: "string \<Rightarrow> string \<Rightarrow> string" where
  "trim_prefix s p = (if has_prefix s p then drop (length p) s else s)"

fun split_byte :: "char \<Rightarrow> string \<Rightarrow> string list" where
  "split_byte c [] = [[]]"
| "split_byte c (x # xs) =
     (if x = c then [] # split_byte c xs
      else case split_byte c xs of [] \<Rightarrow> [[x]] | p # ps \<Rightarrow> (x # p) # ps)"

text \<open>\<open>strings.Join\<close> with a one-byte separator.\<close>

fun join_byte :: "char \<Rightarrow> string list \<Rightarrow> string" where
  "join_byte c [] = []"
| "join_byte c [p] = p"
| "join_byte c (p # ps) = p @ c # join_byte c ps"

lemma split_byte_nonempty [simp]: "split_byte c s \<noteq> []"
  by (induction s) (auto split: list.splits)

lemma join_split_byte: "join_byte c (split_byte c s) = s"
proof (induction s)
  case (Cons x xs)
  then show ?case
    by (cases "split_byte c xs"; cases "tl (split_byte c xs)") (auto split: list.splits)
qed simp

lemma split_byte_notin: "p \<in> set (split_byte c s) \<Longrightarrow> c \<notin> set p"
  by (induction s arbitrary: p) (auto split: list.splits if_splits)

lemma split_join_byte: "ps \<noteq> [] \<Longrightarrow> \<forall>p \<in> set ps. c \<notin> set p \<Longrightarrow> split_byte c (join_byte c ps) = ps"
proof (induction c ps rule: join_byte.induct)
  case (2 c p)
  then show ?case by (induction p) (auto split: list.splits)
next
  case (3 c p q ps)
  have "c \<notin> set p" using 3(3) by simp
  then have "split_byte c (p @ c # join_byte c (q # ps)) = p # split_byte c (join_byte c (q # ps))"
    by (induction p) (auto split: list.splits)
  with 3 show ?case by simp
qed simp

lemma find_holds: "find P xs = Some x \<Longrightarrow> P x \<and> x \<in> set xs"
  by (induction xs) (auto split: if_splits)

text \<open>
  \<open>strings.TrimSpace\<close>: the UTF-8 encodings of the runes \<open>unicode.IsSpace\<close> accepts, cut from
  the front and, read backwards, from the back.
\<close>

definition space_runes :: "rune list" where
  "space_runes = [32, 9, 10, 11, 12, 13, 133, 160, 5760, 8192, 8193, 8194, 8195, 8196, 8197, 8198,
     8199, 8200, 8201, 8202, 8232, 8233, 8239, 8287, 12288]"

definition space_seqs :: "string list" where
  "space_seqs = map utf8 space_runes"

function strip :: "string list \<Rightarrow> string \<Rightarrow> string" where
  "strip seqs s =
     (case find (\<lambda>p. p \<noteq> [] \<and> has_prefix s p) seqs of
        None \<Rightarrow> s | Some p \<Rightarrow> strip seqs (drop (length p) s))"
  by pat_completeness auto
termination
  by (relation "measure (length \<circ> snd)")
    (auto dest!: find_holds intro!: diff_less has_prefix_nonempty simp: has_prefix_def)

declare strip.simps [simp del]

definition trim_space :: "string \<Rightarrow> string" where
  "trim_space s = rev (strip (map rev space_seqs) (rev (strip space_seqs s)))"

definition plain_char :: "char \<Rightarrow> bool" where
  "plain_char c \<longleftrightarrow> 32 < byte_val c \<and> byte_val c < 128"

lemma strip_id: "(\<forall>p \<in> set seqs. p = [] \<or> \<not> has_prefix s p) \<Longrightarrow> strip seqs s = s"
  by (subst strip.simps) (auto split: option.splits dest!: find_holds)

text \<open>On ASCII text, trimming is dropping the six ASCII blanks at both ends.\<close>

definition ascii_space :: "char \<Rightarrow> bool" where
  "ascii_space c \<longleftrightarrow> byte_val c = 32 \<or> (9 \<le> byte_val c \<and> byte_val c \<le> 13)"

definition ascii_string :: "string \<Rightarrow> bool" where
  "ascii_string s \<longleftrightarrow> (\<forall>c \<in> set s. byte_val c < 128)"

definition space_table :: "string list \<Rightarrow> bool" where
  "space_table seqs \<longleftrightarrow>
     (\<forall>p \<in> set seqs. (\<exists>c. p = [c] \<and> ascii_space c) \<or> (p \<noteq> [] \<and> (\<forall>c \<in> set p. 128 \<le> byte_val c)))
     \<and> (\<forall>c. ascii_space c \<longrightarrow> [c] \<in> set seqs)"

lemma strip_ascii: "space_table seqs \<Longrightarrow> ascii_string s \<Longrightarrow> strip seqs s = dropWhile ascii_space s"
proof (induction s)
  case Nil
  show ?case by (rule strip_id [THEN trans]) (auto simp: has_prefix_def)
next
  case (Cons x xs)
  let ?F = "find (\<lambda>p. p \<noteq> [] \<and> has_prefix (x # xs) p) seqs"
  have only: "p = [x] \<and> ascii_space x" if p: "p \<in> set seqs" "p \<noteq> []" "has_prefix (x # xs) p" for p
  proof -
    from p(2,3) obtain ps where ps: "p = x # ps" by (cases p) (auto simp: has_prefix_def)
    with p(1) Cons.prems show ?thesis by (fastforce simp: space_table_def ascii_string_def)
  qed
  show ?case
  proof (cases ?F)
    case None
    then have "\<not> ascii_space x"
      using Cons.prems(1) by (auto simp: find_None_iff space_table_def has_prefix_def)
    with None show ?thesis by (subst strip.simps) simp
  next
    case (Some p)
    with only have "p = [x] \<and> ascii_space x" by (auto dest!: find_holds)
    with Some Cons show ?thesis
      by (subst strip.simps) (simp add: ascii_string_def)
  qed
qed

lemma ascii_space_cases: "ascii_space c \<Longrightarrow> c \<in> char_of ` {32, 9, 10, 11, 12, 13::nat}"
proof -
  assume "ascii_space c"
  then have "of_char c \<in> {32, 9, 10, 11, 12, 13::nat}" by (auto simp: ascii_space_def)
  then have "char_of (of_char c :: nat) \<in> char_of ` {32, 9, 10, 11, 12, 13::nat}" by (rule imageI)
  then show ?thesis by simp
qed

lemma space_table_fwd: "space_table space_seqs"
  unfolding space_table_def
  by (auto dest!: ascii_space_cases)
    (auto simp: space_seqs_def space_runes_def utf8_def utf8_bytes_def valid_rune_def ascii_space_def)

lemma space_table_bwd: "space_table (map rev space_seqs)"
  using space_table_fwd unfolding space_table_def by (auto simp: image_iff)

lemma trim_space_ascii:
  "ascii_string s \<Longrightarrow> trim_space s = rev (dropWhile ascii_space (rev (dropWhile ascii_space s)))"
  by (simp add: trim_space_def strip_ascii space_table_fwd space_table_bwd ascii_string_def
      set_dropWhileD)

lemma trim_space_id: "ascii_string s \<Longrightarrow> (\<forall>c \<in> set s. \<not> ascii_space c) \<Longrightarrow> trim_space s = s"
proof -
  assume a: "ascii_string s" and n: "\<forall>c \<in> set s. \<not> ascii_space c"
  have id: "dropWhile ascii_space t = t" if "set t \<subseteq> set s" for t
    using that n by (cases t) auto
  show ?thesis by (simp add: trim_space_ascii [OF a] id)
qed

text \<open>ASCII case mapping, and \<open>strings.ToUpper\<close> over the Unicode table \<open>uc\<close>.\<close>

definition ascii_upper :: "nat \<Rightarrow> nat" where
  "ascii_upper r = (if 97 \<le> r \<and> r \<le> 122 then r - 32 else r)"

definition ascii_lower :: "nat \<Rightarrow> nat" where
  "ascii_lower r = (if 65 \<le> r \<and> r \<le> 90 then r + 32 else r)"

definition lower_string :: "string \<Rightarrow> string" where
  "lower_string s = map (\<lambda>c. char_of (ascii_lower (of_char c))) s"

definition to_upper :: "(rune \<Rightarrow> rune) \<Rightarrow> string \<Rightarrow> string" where
  "to_upper uc s = string_of_runes (map (\<lambda>r. if r < 128 then ascii_upper r else uc r) (runes s))"

text \<open>
  \<open>strings.EqualFold\<close> against an ASCII word.  The simple case-folding orbits of ASCII letters
  leave ASCII for \<open>s\<close> (U+017F) and \<open>k\<close> (U+212A) only.
\<close>

definition fold_eq :: "rune \<Rightarrow> char \<Rightarrow> bool" where
  "fold_eq r c \<longleftrightarrow> ascii_lower r = ascii_lower (of_char c)
     \<or> (ascii_lower (of_char c) = 115 \<and> r = 383) \<or> (ascii_lower (of_char c) = 107 \<and> r = 8490)"

definition equal_fold :: "string \<Rightarrow> string \<Rightarrow> bool" where
  "equal_fold s w \<longleftrightarrow> list_all2 fold_eq (runes s) w"

end
