(* ===== verification/Base64.thy ===== *)
theory Base64
  imports Go_Strings
begin

text \<open>
  \<open>encoding/base64\<close> without padding (\<open>RawStdEncoding\<close>, \<open>RawURLEncoding\<close>), with padding
  (\<open>StdEncoding\<close>, \<open>URLEncoding\<close>), and \<open>encoding/hex\<close>.  Values are computed on naturals: a
  group of three bytes is a 24-bit number cut into four 6-bit digits.
\<close>

section \<open>Digits of an alphabet\<close>

lemma index_of_nth: "distinct xs \<Longrightarrow> n < length xs \<Longrightarrow> index_of (xs ! n) xs = Some n"
proof (induction xs arbitrary: n)
  case (Cons x xs)
  then show ?case by (cases n) (auto simp: in_set_conv_nth)
qed simp

definition b64_std :: string where
  "b64_std = ''ABCDEFGHIJKLMNOPQRSTUVWXYZabcdefghijklmnopqrstuvwxyz0123456789+/''"

definition b64_url :: string where
  "b64_url = ''ABCDEFGHIJKLMNOPQRSTUVWXYZabcdefghijklmnopqrstuvwxyz0123456789-_''"

section \<open>Encoding\<close>

fun sextets :: "nat list \<Rightarrow> nat list" where
  "sextets (a # b # c # bs) =
     (a div 4) # (a mod 4 * 16 + b div 16) # (b mod 16 * 4 + c div 64) # (c mod 64) # sextets bs"
| "sextets [a, b] = [a div 4, a mod 4 * 16 + b div 16, b mod 16 * 4]"
| "sextets [a] = [a div 4, a mod 4 * 16]"
| "sextets [] = []"

definition b64_encode :: "string \<Rightarrow> bytes \<Rightarrow> string" where
  "b64_encode alpha bs = map (\<lambda>n. alpha ! n) (sextets (map unat bs))"

section \<open>Decoding\<close>

text \<open>
  The decoder skips carriage returns and newlines, refuses any other character outside the
  alphabet and a lone last digit, and ignores the unused low bits of the last digit.
\<close>

fun octets :: "nat list \<Rightarrow> nat list option" where
  "octets (p # q # r # s # ds) =
     map_option (\<lambda>bs. (p * 4 + q div 16) # (q mod 16 * 16 + r div 4) # (r mod 4 * 64 + s) # bs) (octets ds)"
| "octets [p, q, r] = Some [p * 4 + q div 16, q mod 16 * 16 + r div 4]"
| "octets [p, q] = Some [p * 4 + q div 16]"
| "octets [p] = None"
| "octets [] = Some []"

fun digits_of :: "string \<Rightarrow> string \<Rightarrow> nat list option" where
  "digits_of alpha [] = Some []"
| "digits_of alpha (c # cs) =
     (if byte_val c = 10 \<or> byte_val c = 13 then digits_of alpha cs
      else case index_of c alpha of None \<Rightarrow> None
           | Some n \<Rightarrow> map_option (\<lambda>ns. n # ns) (digits_of alpha cs))"

definition b64_decode :: "string \<Rightarrow> string \<Rightarrow> bytes option" where
  "b64_decode alpha s =
     (case digits_of alpha s of None \<Rightarrow> None
      | Some ns \<Rightarrow> map_option (map word_of_nat) (octets ns))"

section \<open>Round trip\<close>

lemma unat_lt_256: "unat (b :: byte) < 256"
  using unsigned_less [of b] by simp

lemma octets_sextets: "(\<forall>b \<in> set bs. b < 256) \<Longrightarrow> octets (sextets bs) = Some bs"
proof (induction bs rule: sextets.induct)
  case (1 a b c bs)
  then show ?case by (auto simp: div_mult2_eq)
next
  case (2 a b)
  then show ?case by auto
qed auto

lemma sextets_small: "(\<forall>b \<in> set bs. b < 256) \<Longrightarrow> n \<in> set (sextets bs) \<Longrightarrow> n < 64"
  by (induction bs rule: sextets.induct) auto

locale b64_alphabet =
  fixes alpha :: string
  assumes alpha_distinct: "distinct alpha" and alpha_length: "length alpha = 64"
    and alpha_clean: "\<forall>c \<in> set alpha. byte_val c \<noteq> 10 \<and> byte_val c \<noteq> 13"
begin

lemma digits_of_map: "(\<forall>n \<in> set ns. n < 64) \<Longrightarrow> digits_of alpha (map (\<lambda>n. alpha ! n) ns) = Some ns"
  by (induction ns)
    (use alpha_clean in \<open>auto simp: index_of_nth alpha_distinct alpha_length\<close>)

lemma bytes_small: "\<forall>b \<in> set (map unat (bs :: bytes)). b < 256"
  by (auto simp: unat_lt_256)

lemma decode_encode: "b64_decode alpha (b64_encode alpha bs) = Some bs"
proof -
  have small: "\<forall>n \<in> set (sextets (map unat bs)). n < 64"
    using sextets_small [OF bytes_small] by blast
  show ?thesis
    by (simp add: b64_decode_def b64_encode_def digits_of_map [OF small] octets_sextets [OF bytes_small] comp_def)
qed

lemma encode_chars: "c \<in> set (b64_encode alpha bs) \<Longrightarrow> c \<in> set alpha"
  using sextets_small [OF bytes_small, of _ bs] by (auto simp: b64_encode_def alpha_length)

lemma encode_inj: "b64_encode alpha bs = b64_encode alpha cs \<Longrightarrow> bs = cs"
  by (metis decode_encode option.inject)

end

interpretation std_alphabet: b64_alphabet b64_std
  by (unfold_locales; code_simp)

interpretation url_alphabet: b64_alphabet b64_url
  by (unfold_locales; code_simp)

lemma length_sextets: "length (sextets bs) = (length bs * 4 + 2) div 3"
  by (induction bs rule: sextets.induct) auto

lemma length_b64_encode: "length (b64_encode alpha bs) = (length bs * 4 + 2) div 3"
  by (simp add: b64_encode_def length_sextets)

section \<open>Hexadecimal\<close>

definition hex_digits :: string where
  "hex_digits = ''0123456789abcdef''"

definition hex_encode :: "bytes \<Rightarrow> string" where
  "hex_encode bs = concat (map (\<lambda>b. [hex_digits ! (unat b div 16), hex_digits ! (unat b mod 16)]) bs)"

definition hex_val :: "char \<Rightarrow> nat option" where
  "hex_val c = index_of (char_of (ascii_lower (of_char c))) hex_digits"

fun hex_decode :: "string \<Rightarrow> bytes option" where
  "hex_decode [] = Some []"
| "hex_decode [c] = None"
| "hex_decode (c # d # cs) =
     (case (hex_val c, hex_val d, hex_decode cs) of
        (Some m, Some n, Some bs) \<Rightarrow> Some (word_of_nat (m * 16 + n) # bs)
      | _ \<Rightarrow> None)"

lemma hex_digits_lower: "\<forall>c \<in> set hex_digits. ascii_lower (of_char c :: nat) = of_char c"
  by (simp add: hex_digits_def ascii_lower_def)

lemma hex_digits_index: "distinct hex_digits \<and> length hex_digits = 16"
  by (simp add: hex_digits_def)

lemma hex_val_digit: "n < 16 \<Longrightarrow> hex_val (hex_digits ! n) = Some n"
  using hex_digits_lower hex_digits_index by (simp add: hex_val_def index_of_nth)

lemma hex_decode_encode: "hex_decode (hex_encode bs) = Some bs"
proof (induction bs)
  case (Cons b bs)
  have "unat b < 256" by (rule unat_lt_256)
  then have "unat b div 16 < 16" by simp
  with Cons show ?case by (simp add: hex_encode_def hex_val_digit)
qed (simp add: hex_encode_def)

lemma hex_encode_inj: "hex_encode bs = hex_encode cs \<Longrightarrow> bs = cs"
  by (metis hex_decode_encode option.inject)

end
