(* ===== verification/Decimal.thy ===== *)
theory Decimal
  imports Go_Strings
begin

text \<open>
  Decimal text: \<open>strconv.Itoa\<close> and the \<open>%d\<close> verb of \<open>fmt\<close>, the digit run \<open>fmt.Sscanf\<close> reads
  back, the facts that make printing injective and reading its inverse, and the text of a moment.
\<close>

section \<open>Printing\<close>

definition digit :: "nat \<Rightarrow> char" where
  "digit n = ''0123456789'' ! n"

fun decimal :: "nat \<Rightarrow> string" where
  "decimal n = (if n < 10 then [digit n] else decimal (n div 10) @ [digit (n mod 10)])"

declare decimal.simps [simp del]

definition decimal_int :: "int \<Rightarrow> string" where
  "decimal_int i = (if i < 0 then CHR ''-'' # decimal (nat (- i)) else decimal (nat i))"

section \<open>Reading\<close>

definition is_digit :: "char \<Rightarrow> bool" where
  "is_digit c \<longleftrightarrow> 48 \<le> byte_val c \<and> byte_val c \<le> 57"

definition digit_val :: "char \<Rightarrow> nat" where
  "digit_val c = byte_val c - 48"

definition digits_value :: "string \<Rightarrow> nat" where
  "digits_value s = foldl (\<lambda>v c. v * 10 + digit_val c) 0 s"

lemma digit_table: "\<forall>n \<in> set [0..<10]. is_digit (digit n) \<and> digit_val (digit n) = n"
  by (simp add: upt_rec digit_def is_digit_def digit_val_def)

lemma is_digit_digit [simp]: "n < 10 \<Longrightarrow> is_digit (digit n)"
  and digit_val_digit [simp]: "n < 10 \<Longrightarrow> digit_val (digit n) = n"
  using digit_table by auto

lemma digits_value_snoc [simp]: "digits_value (s @ [c]) = digits_value s * 10 + digit_val c"
  by (simp add: digits_value_def)

lemma digits_value_decimal [wire_simps]: "digits_value (decimal n) = n"
proof (induction n rule: decimal.induct)
  case (1 n)
  then show ?case
    by (subst decimal.simps) (auto simp: digits_value_def)
qed

lemma decimal_digits: "c \<in> set (decimal n) \<Longrightarrow> is_digit c"
proof (induction n rule: decimal.induct)
  case (1 n)
  from 1(2) show ?case
    by (subst (asm) decimal.simps) (use 1(1) in \<open>auto split: if_split_asm\<close>)
qed

lemma decimal_nonempty [simp]: "decimal n \<noteq> []"
  by (subst decimal.simps) simp

lemma decimal_inj: "decimal m = decimal n \<Longrightarrow> m = n"
  by (metis digits_value_decimal)

text \<open>A run of digits followed by something that is not a digit is read back whole.\<close>

lemma takeWhile_decimal [wire_simps]:
  "(s = [] \<or> \<not> is_digit (hd s)) \<Longrightarrow> takeWhile is_digit (decimal n @ s) = decimal n"
  by (cases s) (auto simp: takeWhile_append2 decimal_digits takeWhile_eq_all_conv)

lemma dropWhile_decimal [wire_simps]:
  "(s = [] \<or> \<not> is_digit (hd s)) \<Longrightarrow> dropWhile is_digit (decimal n @ s) = s"
  by (cases s) (auto simp: dropWhile_append2 decimal_digits)

lemma decimal_prefix:
  assumes "decimal m @ c # s = decimal n @ c # t" and "\<not> is_digit c"
  shows "m = n \<and> s = t"
proof -
  have "decimal m = decimal n"
    using arg_cong [OF assms(1), of "takeWhile is_digit"] assms(2) by (simp add: takeWhile_decimal)
  with assms(1) show ?thesis by (auto dest: decimal_inj)
qed

chapter \<open>Moments as text\<close>

text \<open>
  \<open>time.Unix(n, 0).UTC().Format(time.RFC3339)\<close>: the proleptic Gregorian calendar.  Years count from
  March, so that the leap day is the last day of a year.
\<close>

definition civil :: "int \<Rightarrow> int \<times> int \<times> int" where
  "civil days =
     (let z = days + 719468; era = z div 146097; doe = z mod 146097;
          yoe = (doe - doe div 1460 + doe div 36524 - doe div 146096) div 365;
          doy = doe - (365 * yoe + yoe div 4 - yoe div 100);
          mp = (5 * doy + 2) div 153;
          d = doy - (153 * mp + 2) div 5 + 1;
          m = (if mp < 10 then mp + 3 else mp - 9) in
      (yoe + era * 400 + (if m \<le> 2 then 1 else 0), m, d))"

definition padded :: "nat \<Rightarrow> int \<Rightarrow> string" where
  "padded n i = replicate (n - length (decimal_int i)) (CHR ''0'') @ decimal_int i"

definition rfc3339 :: "int \<Rightarrow> string" where
  "rfc3339 t =
     (case civil (t div 86400) of (y, m, d) \<Rightarrow>
       let s = t mod 86400 in
       padded 4 y @ ''-'' @ padded 2 m @ ''-'' @ padded 2 d @ ''T'' @
       padded 2 (s div 3600) @ '':'' @ padded 2 (s div 60 mod 60) @ '':'' @ padded 2 (s mod 60) @ ''Z'')"

end
