(* ===== verification/Net_Addr.thy ===== *)
theory Net_Addr
  imports Revpd_Prelude
begin

unbundle bit_operations_syntax

text \<open>
  Addresses (\<open>net.IP\<close>) and the key grants are bound to (\<open>store.NormalizeIP\<close>).

  A \<open>net.IP\<close> is nil, four bytes or sixteen bytes; \<open>To4\<close> recognises the four-byte form and
  the IPv4-mapped sixteen-byte form.  The textual form of an address only ever serves as a key
  that is compared for equality, so keys are kept structured: one constructor per shape of
  text the code can produce (\<open>a.b.c.d\<close>, \<open>a.b.c.0/24\<close>, \<open>2001:db8::/64\<close>, \<open><nil>/-1\<close>, the
  empty string).
\<close>

datatype ip = NilIP | V4 "32 word" | V6 "128 word"

datatype ip_key = KNone | KExact ip | KNet ip int | KBadMask int

definition v4_mapped :: "128 word \<Rightarrow> bool" where
  "v4_mapped w \<longleftrightarrow> drop_bit 32 w = 0xFFFF"

fun to4 :: "ip \<Rightarrow> 32 word option" where
  "to4 NilIP = None"
| "to4 (V4 w) = Some w"
| "to4 (V6 w) = (if v4_mapped w then Some (ucast w) else None)"

text \<open>\<open>ip.String()\<close> as a key: mapped addresses print in IPv4 form.\<close>

definition ip_string :: "ip \<Rightarrow> ip_key" where
  "ip_string ip = KExact (case to4 ip of Some w \<Rightarrow> V4 w | None \<Rightarrow> ip)"

text \<open>\<open>ip.Mask(net.CIDRMask(bits, n))\<close>; \<open>CIDRMask\<close> is nil for a negative number of ones.\<close>

definition mask_bits :: "nat \<Rightarrow> int \<Rightarrow> 'a::len word \<Rightarrow> 'a word" where
  "mask_bits n bits w = push_bit (n - nat bits) (drop_bit (n - nat bits) w)"

definition normalize_ip :: "int \<Rightarrow> int \<Rightarrow> ip \<Rightarrow> ip_key" where
  "normalize_ip v4bits v6bits ip =
     (if ip = NilIP then KNone
      else case to4 ip of
        Some w \<Rightarrow>
          if 32 \<le> v4bits then KExact (V4 w)
          else if v4bits < 0 then KBadMask v4bits
          else KNet (V4 (mask_bits 32 v4bits w)) v4bits
      | None \<Rightarrow>
          (case ip of V6 w \<Rightarrow>
             if 128 \<le> v6bits then KExact (V6 w)
             else if v6bits < 0 then KBadMask v6bits
             else KNet (V6 (mask_bits 128 v6bits w)) v6bits
           | _ \<Rightarrow> KNone))"

text \<open>Two addresses agree on their first \<open>bits\<close> bits.\<close>

definition same_prefix :: "nat \<Rightarrow> int \<Rightarrow> 'a::len word \<Rightarrow> 'a word \<Rightarrow> bool" where
  "same_prefix n bits v w \<longleftrightarrow> drop_bit (n - nat bits) v = drop_bit (n - nat bits) w"

lemma mask_bits_eq_iff:
  fixes v w :: "'a::len word"
  assumes "n \<le> LENGTH('a)"
  shows "mask_bits n bits v = mask_bits n bits w \<longleftrightarrow> same_prefix n bits v w"
proof -
  have inj: "drop_bit k (push_bit k (drop_bit k x)) = drop_bit k x" if "k \<le> LENGTH('a)" for k and x :: "'a word"
    by (rule bit_word_eqI) (auto simp: bit_simps dest: bit_imp_le_length)
  show ?thesis
    unfolding mask_bits_def same_prefix_def
    by (metis inj assms diff_le_self le_trans)
qed

text \<open>
  Two addresses share a grant key exactly when they are of the same family and agree on the
  configured number of leading bits; nothing wider than the configured prefix is ever merged.
\<close>

definition same_key_spec :: "int \<Rightarrow> int \<Rightarrow> ip \<Rightarrow> ip \<Rightarrow> bool" where
  "same_key_spec v4bits v6bits a b \<longleftrightarrow>
     (case (to4 a, to4 b) of
        (Some v, Some w) \<Rightarrow> same_prefix 32 v4bits v w
      | (None, None) \<Rightarrow>
          (case (a, b) of (V6 v, V6 w) \<Rightarrow> same_prefix 128 v6bits v w | (NilIP, NilIP) \<Rightarrow> True | _ \<Rightarrow> False)
      | _ \<Rightarrow> False)"

lemma same_prefix_full: "32 \<le> bits \<Longrightarrow> same_prefix 32 bits v w \<longleftrightarrow> v = w"
  by (simp add: same_prefix_def nat_le_iff le_nat_iff)

lemma same_prefix_full6: "128 \<le> bits \<Longrightarrow> same_prefix 128 bits v w \<longleftrightarrow> v = w"
  by (simp add: same_prefix_def nat_le_iff le_nat_iff)

lemma normalize_ip_eq_iff:
  assumes "0 \<le> v4bits" and "0 \<le> v6bits"
  shows "normalize_ip v4bits v6bits a = normalize_ip v4bits v6bits b \<longleftrightarrow> same_key_spec v4bits v6bits a b"
  using assms
  by (cases a; cases b)
    (auto simp: normalize_ip_def same_key_spec_def mask_bits_eq_iff same_prefix_full same_prefix_full6
      split: if_splits)

lemma ip_string_eq_key: "128 \<le> v6bits \<Longrightarrow> 32 \<le> v4bits \<Longrightarrow> ip \<noteq> NilIP \<Longrightarrow> normalize_ip v4bits v6bits ip = ip_string ip"
  by (cases ip) (auto simp: normalize_ip_def ip_string_def)

end
