(* ===== verification/Crypto.thy ===== *)
theory Crypto
  imports Base64 Decimal Net_Addr
begin

text \<open>
  \<open>internal/crypto\<close>: password hashes in PHC form, sealed secrets, tokens, backup codes.

  The primitives (SHA-256, Argon2id, AES-GCM, the Unicode case table, the TOTP comparison) and
  the outside world a login depends on (the approval channel, the network) are the fields of an
  \<open>env\<close>, an argument of every definition that uses one of them.  \<open>x_argon2id\<close> is an option
  because the library panics on a zero time or parallelism parameter.
\<close>

section \<open>The environment\<close>

datatype approval = Approved | Declined | ApprovalError bool

record env =
  x_sha256 :: "bytes \<Rightarrow> bytes"
  x_argon2id :: "bytes \<Rightarrow> bytes \<Rightarrow> 32 word \<Rightarrow> 32 word \<Rightarrow> byte \<Rightarrow> 32 word \<Rightarrow> bytes option"
  x_gcm_seal :: "bytes \<Rightarrow> bytes \<Rightarrow> bytes \<Rightarrow> bytes \<Rightarrow> bytes"
  x_gcm_open :: "bytes \<Rightarrow> bytes \<Rightarrow> bytes \<Rightarrow> bytes \<Rightarrow> bytes option"
  x_upper :: "rune \<Rightarrow> rune"
  x_totp :: "string \<Rightarrow> string \<Rightarrow> int \<Rightarrow> bool"
  x_approver :: "(nat \<Rightarrow> string \<Rightarrow> ip \<Rightarrow> string \<Rightarrow> approval) option"
  x_alive :: "nat \<Rightarrow> string \<times> int \<Rightarrow> bool"
  x_ready :: "nat \<Rightarrow> string \<times> int \<Rightarrow> bool"
  x_send_ok :: "nat \<Rightarrow> bool"
  x_waking :: "nat \<Rightarrow> int \<Rightarrow> bool"
  x_woken :: "nat \<Rightarrow> int \<Rightarrow> bool"
  x_dummy_hash :: string
  x_es256 :: "nat \<Rightarrow> nat \<Rightarrow> bytes \<Rightarrow> bytes \<Rightarrow> bool"
  x_rs256 :: "nat \<Rightarrow> int \<Rightarrow> bytes \<Rightarrow> bytes \<Rightarrow> bool"
  x_totp_enroll :: "nat \<Rightarrow> string \<Rightarrow> string \<Rightarrow> (string \<times> string) option"

lemma byte_val_less: "byte_val c < 256"
  by (metis mod_less_divisor of_char_mod_256 zero_less_numeral)

lemma char_of_eq_iff: "n < 256 \<Longrightarrow> char_of n = c \<longleftrightarrow> n = byte_val c"
  by (metis char_of_char mod_less of_char_of)

definition byte_of :: "char \<Rightarrow> byte" where
  "byte_of c = word_of_nat (byte_val c)"

definition bytes_of :: "string \<Rightarrow> bytes" where
  "bytes_of s = map byte_of s"

definition string_of :: "bytes \<Rightarrow> string" where
  "string_of bs = map (\<lambda>b. char_of (unat b)) bs"

lemma byte_of_char_of [simp]: "byte_of (char_of (unat b)) = b"
  using unat_lt_256 [of b] by (simp add: byte_of_def)

lemma char_of_byte_of [simp]: "char_of (unat (byte_of c)) = c"
  by (simp add: byte_of_def unat_of_nat take_bit_eq_mod)

lemma bytes_of_string_of [simp]: "bytes_of (string_of bs) = bs"
  by (simp add: bytes_of_def string_of_def comp_def)

lemma string_of_bytes_of [simp]: "string_of (bytes_of s) = s"
  by (simp add: bytes_of_def string_of_def comp_def)

lemma bytes_of_inj: "bytes_of s = bytes_of t \<Longrightarrow> s = t"
  by (metis string_of_bytes_of)

section \<open>Password hashes\<close>

datatype hash_error = ErrInvalidHash | ErrMismatch | ErrRandom | HashPanic

definition argon2_version :: nat where "argon2_version = 19"
definition argonTime :: nat where "argonTime = 3"
definition argonMemory :: nat where "argonMemory = 65536"
definition argonThreads :: nat where "argonThreads = 4"
definition argonKeyLen :: nat where "argonKeyLen = 32"
definition argonSaltLen :: nat where "argonSaltLen = 16"

lemmas argon_consts = argon2_version_def argonTime_def argonMemory_def argonThreads_def argonKeyLen_def
  argonSaltLen_def

definition phc_params :: string where
  "phc_params = ''m='' @ decimal argonMemory @ '',t='' @ decimal argonTime @ '',p='' @ decimal argonThreads"

definition HashPassword :: "env \<Rightarrow> bytes option \<Rightarrow> string \<Rightarrow> hash_error + string" where
  "HashPassword E salt0 pw =
     (case salt0 of None \<Rightarrow> Inl ErrRandom
      | Some salt \<Rightarrow>
        (case x_argon2id E (bytes_of pw) salt (word_of_nat argonTime) (word_of_nat argonMemory)
                (word_of_nat argonThreads) (word_of_nat argonKeyLen) of
           None \<Rightarrow> Inl HashPanic
         | Some key \<Rightarrow>
             Inr (''$argon2id$v='' @ decimal argon2_version @ ''$'' @ phc_params @ ''$''
                  @ b64_encode b64_std salt @ ''$'' @ b64_encode b64_std key)))"

text \<open>
  \<open>fmt.Sscanf\<close> with the \<open>%d\<close> verb skips blanks (a newline is an error), reads an optional sign
  for a signed operand and at least one digit, and fails when the value does not fit.  It does
  not look at what follows the last operand.
\<close>

fun scan_blanks :: "rune list \<Rightarrow> rune list option" where
  "scan_blanks [] = Some []"
| "scan_blanks (r # rs) =
     (if r = 13 \<and> rs \<noteq> [] \<and> hd rs = 10 then None
      else if r = 10 then None
      else if r \<in> set space_runes then scan_blanks rs
      else Some (r # rs))"

definition rune_digit :: "rune \<Rightarrow> bool" where
  "rune_digit r \<longleftrightarrow> 48 \<le> r \<and> r \<le> 57"

definition runes_value :: "rune list \<Rightarrow> nat" where
  "runes_value rs = foldl (\<lambda>v r. v * 10 + (r - 48)) 0 rs"

definition scan_uint :: "nat \<Rightarrow> rune list \<Rightarrow> (nat \<times> rune list) option" where
  "scan_uint bits rs0 =
     (case scan_blanks rs0 of None \<Rightarrow> None
      | Some rs \<Rightarrow>
        (let ds = takeWhile rune_digit rs; v = runes_value ds in
         if ds = [] \<or> 2 ^ bits \<le> v then None else Some (v, dropWhile rune_digit rs)))"

definition scan_int :: "nat \<Rightarrow> rune list \<Rightarrow> (int \<times> rune list) option" where
  "scan_int bits rs0 =
     (case scan_blanks rs0 of None \<Rightarrow> None
      | Some rs \<Rightarrow>
        (let neg = (rs \<noteq> [] \<and> hd rs = 45);
             rs1 = (if rs \<noteq> [] \<and> (hd rs = 45 \<or> hd rs = 43) then tl rs else rs);
             ds = takeWhile rune_digit rs1;
             v = (if neg then - int (runes_value ds) else int (runes_value ds)) in
         if ds = [] \<or> v < - (2 ^ (bits - 1)) \<or> 2 ^ (bits - 1) \<le> v then None
         else Some (v, dropWhile rune_digit rs1)))"

definition scan_lit :: "string \<Rightarrow> rune list \<Rightarrow> rune list option" where
  "scan_lit lit rs =
     (let n = length lit in if take n rs = map of_char lit then Some (drop n rs) else None)"

definition scan_version :: "string \<Rightarrow> int option" where
  "scan_version s =
     Option.bind (scan_lit ''v='' (runes s)) (\<lambda>rs. map_option fst (scan_int 64 rs))"

definition scan_params :: "string \<Rightarrow> (nat \<times> nat \<times> nat) option" where
  "scan_params s =
     Option.bind (scan_lit ''m='' (runes s)) (\<lambda>r1.
     Option.bind (scan_uint 32 r1) (\<lambda>(m, r2).
     Option.bind (scan_lit '',t='' r2) (\<lambda>r3.
     Option.bind (scan_uint 32 r3) (\<lambda>(t, r4).
     Option.bind (scan_lit '',p='' r4) (\<lambda>r5.
     Option.bind (scan_uint 8 r5) (\<lambda>(p, _). Some (m, t, p)))))))"

definition VerifyPassword :: "env \<Rightarrow> string \<Rightarrow> string \<Rightarrow> hash_error + unit" where
  "VerifyPassword E pw encoded =
     (let parts = split_byte (CHR ''$'') encoded in
      if length parts \<noteq> 6 \<or> parts ! 1 \<noteq> ''argon2id'' then Inl ErrInvalidHash
      else case scan_version (parts ! 2) of
        None \<Rightarrow> Inl ErrInvalidHash
      | Some v \<Rightarrow>
        if v \<noteq> int argon2_version then Inl ErrInvalidHash
        else case scan_params (parts ! 3) of
          None \<Rightarrow> Inl ErrInvalidHash
        | Some (m, t, p) \<Rightarrow>
          (case b64_decode b64_std (parts ! 4) of
             None \<Rightarrow> Inl ErrInvalidHash
           | Some salt \<Rightarrow>
             (case b64_decode b64_std (parts ! 5) of
                None \<Rightarrow> Inl ErrInvalidHash
              | Some want \<Rightarrow>
                (case x_argon2id E (bytes_of pw) salt (word_of_nat t) (word_of_nat m) (word_of_nat p)
                        (word_of_nat (length want)) of
                   None \<Rightarrow> Inl HashPanic
                 | Some got \<Rightarrow> if got = want then Inr () else Inl ErrMismatch))))"

section \<open>Sealed secrets\<close>

datatype seal_error = ErrBadHex | ErrKeyLength | ErrTooShort | ErrDecrypt | ErrNonce

definition nonce_size :: nat where "nonce_size = 12"

definition NewSealer :: "string \<Rightarrow> seal_error + bytes" where
  "NewSealer hexkey =
     (case hex_decode (trim_space hexkey) of
        None \<Rightarrow> Inl ErrBadHex
      | Some key \<Rightarrow> if length key \<noteq> 32 then Inl ErrKeyLength else Inr key)"

definition Seal :: "env \<Rightarrow> bytes \<Rightarrow> bytes option \<Rightarrow> string \<Rightarrow> bytes \<Rightarrow> seal_error + bytes" where
  "Seal E key nonce label plain =
     (case nonce of None \<Rightarrow> Inl ErrNonce
      | Some n \<Rightarrow> Inr (n @ x_gcm_seal E key n plain (bytes_of label)))"

definition Open :: "env \<Rightarrow> bytes \<Rightarrow> string \<Rightarrow> bytes \<Rightarrow> seal_error + bytes" where
  "Open E key label sealed =
     (if length sealed < nonce_size then Inl ErrTooShort
      else case x_gcm_open E key (take nonce_size sealed) (drop nonce_size sealed) (bytes_of label) of
             None \<Rightarrow> Inl ErrDecrypt | Some p \<Rightarrow> Inr p)"

definition NewMasterKey :: "bytes option \<Rightarrow> string option" where
  "NewMasterKey k = map_option hex_encode k"

section \<open>Tokens\<close>

definition RandomToken :: "bytes option \<Rightarrow> string option" where
  "RandomToken b = map_option (b64_encode b64_url) b"

definition HashToken :: "env \<Rightarrow> string \<Rightarrow> string" where
  "HashToken E tok = hex_encode (x_sha256 E (bytes_of tok))"

definition ConstantTimeEqualString :: "string \<Rightarrow> string \<Rightarrow> bool" where
  "ConstantTimeEqualString a b \<longleftrightarrow> bytes_of a = bytes_of b"

section \<open>Backup codes\<close>

definition backupAlphabet :: string where
  "backupAlphabet = ''ABCDEFGHJKLMNPQRSTUVWXYZ23456789''"

text \<open>\<open>base32\<close> without padding of seven bytes: twelve digits of the 56-bit number, high end first.\<close>

definition b32_digits :: "bytes \<Rightarrow> nat list" where
  "b32_digits bs =
     (let n = foldl (\<lambda>v b. v * 256 + unat b) 0 bs * 16 in
      map (\<lambda>i. n div 32 ^ (11 - i) mod 32) [0..<12])"

definition NewBackupCode :: "bytes option \<Rightarrow> string option" where
  "NewBackupCode b =
     (case b of None \<Rightarrow> None
      | Some bs \<Rightarrow>
        (let s = take 10 (map (\<lambda>n. backupAlphabet ! n) (b32_digits bs)) in
         Some (take 5 s @ ''-'' @ drop 5 s)))"

definition NormalizeBackupCode :: "env \<Rightarrow> string \<Rightarrow> string" where
  "NormalizeBackupCode E s = to_upper (x_upper E) (filter (\<lambda>c. c \<notin> {CHR ''-'', CHR '' '', CHR 0x09}) s)"


section \<open>Reading a hash back\<close>

lemma split_byte_append: "c \<notin> set p \<Longrightarrow> split_byte c (p @ c # s) = p # split_byte c s"
  by (induction p) auto

lemma split_byte_single: "c \<notin> set p \<Longrightarrow> split_byte c p = [p]"
  by (induction p) auto

lemma dollar_free [simp]: "CHR ''$'' \<notin> set (b64_encode b64_std bs)" "CHR ''$'' \<notin> set (decimal n)"
proof -
  have "CHR ''$'' \<notin> set b64_std" by (simp add: b64_std_def)
  then show "CHR ''$'' \<notin> set (b64_encode b64_std bs)" by (blast dest: std_alphabet.encode_chars)
  show "CHR ''$'' \<notin> set (decimal n)" by (auto dest!: decimal_digits simp: is_digit_def)
qed

lemma phc_literals:
  "decimal argon2_version = ''19''" "phc_params = ''m=65536,t=3,p=4''"
  by (simp_all add: argon_consts phc_params_def decimal.simps digit_def)

lemma scan_version_19: "scan_version ''19'' = None" "scan_version ''v=19'' = Some 19"
  by (simp_all add: scan_version_def scan_lit_def runes_def decode_rune_def scan_int_def space_runes_def
      rune_digit_def runes_value_def Let_def)

lemma scan_params_default: "scan_params ''m=65536,t=3,p=4'' = Some (65536, 3, 4)"
  by (simp add: scan_params_def scan_lit_def runes_def decode_rune_def scan_uint_def space_runes_def
      rune_digit_def runes_value_def Let_def)

lemma hash_parts:
  assumes "h = ''$argon2id$v='' @ decimal argon2_version @ ''$'' @ phc_params @ ''$''
                  @ b64_encode b64_std salt @ ''$'' @ b64_encode b64_std key"
  shows "split_byte (CHR ''$'') h = [[], ''argon2id'', ''v=19'', ''m=65536,t=3,p=4'',
           b64_encode b64_std salt, b64_encode b64_std key]"
  unfolding assms phc_literals by (simp add: split_byte_append split_byte_single)

text \<open>
  Documented behaviour of \<open>argon2.IDKey\<close>: the key has the length asked for, and the call
  returns for positive time and parallelism.
\<close>

definition argon2_spec :: "env \<Rightarrow> bool" where
  "argon2_spec E \<longleftrightarrow>
     (\<forall>pw salt t m p n k. x_argon2id E pw salt t m p n = Some k \<longrightarrow> length k = unat n) \<and>
     (\<forall>pw salt t m p n. t \<noteq> 0 \<longrightarrow> p \<noteq> 0 \<longrightarrow> n \<noteq> 0 \<longrightarrow> x_argon2id E pw salt t m p n \<noteq> None)"

abbreviation derive :: "env \<Rightarrow> bytes \<Rightarrow> string \<Rightarrow> bytes option" where
  "derive E salt pw \<equiv> x_argon2id E (bytes_of pw) salt 3 65536 4 32"

lemma HashPassword_total: "argon2_spec E \<Longrightarrow> \<exists>h. HashPassword E (Some salt) pw = Inr h"
  by (auto simp: HashPassword_def argon_consts argon2_spec_def split: option.splits)

lemma VerifyPassword_of_hash:
  assumes "argon2_spec E" and "HashPassword E (Some salt) pw = Inr h"
  shows "VerifyPassword E q h =
     (if derive E salt q = derive E salt pw then Inr () else Inl ErrMismatch)"
proof -
  from assms(2) obtain key where k: "derive E salt pw = Some key"
    and h: "h = ''$argon2id$v='' @ decimal argon2_version @ ''$'' @ phc_params @ ''$''
                  @ b64_encode b64_std salt @ ''$'' @ b64_encode b64_std key"
    by (auto simp: HashPassword_def argon_consts split: option.splits)
  from assms(1) k have len: "length key = 32" by (fastforce simp: argon2_spec_def)
  from assms(1) obtain got where "derive E salt q = Some got" by (fastforce simp: argon2_spec_def)
  with k show ?thesis
    unfolding VerifyPassword_def Let_def hash_parts [OF h]
    by (simp add: scan_version_19 scan_params_default argon2_version_def std_alphabet.decode_encode len)
qed

section \<open>Sealing and labels\<close>

text \<open>
  Documented behaviour of \<open>cipher.AEAD\<close>: \<open>Open\<close> returns a plaintext exactly when \<open>Seal\<close> of it
  under the same key, nonce and additional data is the ciphertext.
\<close>

definition gcm_spec :: "env \<Rightarrow> bool" where
  "gcm_spec E \<longleftrightarrow> (\<forall>k n c a p. x_gcm_open E k n c a = Some p \<longleftrightarrow> x_gcm_seal E k n p a = c)"

lemma Open_Seal:
  assumes "gcm_spec E" and "Seal E key (Some n) label plain = Inr c" and "length n = nonce_size"
  shows "Open E key label c = Inr plain"
    and "Open E key label' c = Inr plain' \<Longrightarrow>
         x_gcm_seal E key n plain' (bytes_of label') = x_gcm_seal E key n plain (bytes_of label)"
proof -
  from assms(2) have c: "c = n @ x_gcm_seal E key n plain (bytes_of label)" by (simp add: Seal_def)
  show "Open E key label c = Inr plain"
  proof -
    have "x_gcm_open E key n (x_gcm_seal E key n plain (bytes_of label)) (bytes_of label) = Some plain"
      using assms(1) by (simp add: gcm_spec_def)
    then show ?thesis using assms(3) by (simp add: Open_def c)
  qed
  show "x_gcm_seal E key n plain' (bytes_of label') = x_gcm_seal E key n plain (bytes_of label)"
    if "Open E key label' c = Inr plain'"
    using that assms(1,3) by (auto simp: Open_def c gcm_spec_def split: option.splits)
qed

section \<open>Tokens are compared by digest\<close>

lemma HashToken_eq: "HashToken E s = HashToken E t \<longleftrightarrow> x_sha256 E (bytes_of s) = x_sha256 E (bytes_of t)"
  by (auto simp: HashToken_def dest: hex_encode_inj)

text \<open>Two different inputs with one SHA-256 digest.\<close>

definition sha_collision :: "env \<Rightarrow> bytes \<Rightarrow> bytes \<Rightarrow> bool" where
  "sha_collision E x y \<longleftrightarrow> x \<noteq> y \<and> x_sha256 E x = x_sha256 E y"

lemma HashToken_collision:
  "HashToken E s = HashToken E t \<Longrightarrow> s = t \<or> sha_collision E (bytes_of s) (bytes_of t)"
  by (metis HashToken_eq bytes_of_inj sha_collision_def)

lemma RandomToken_inj: "RandomToken a = RandomToken b \<Longrightarrow> a = b"
  by (cases a; cases b) (auto simp: RandomToken_def dest: url_alphabet.encode_inj)

section \<open>Backup codes as typed\<close>

lemma backupAlphabet_chars:
  "length backupAlphabet = 32 \<and> (\<forall>c \<in> set backupAlphabet. byte_val c < 128 \<and> c \<notin> {CHR ''-'', CHR '' '', CHR 0x09}
     \<and> ascii_upper (byte_val c) = byte_val c)"
  by (simp add: backupAlphabet_def ascii_upper_def)

lemma runes_ascii: "ascii_string s \<Longrightarrow> runes s = map of_char s"
proof (induction s)
  case (Cons c s)
  then have "byte_val c < 128" by (simp add: ascii_string_def)
  with Cons show ?case
    by (simp add: runes_def decode_rune_def ascii_string_def)
qed simp

lemma to_upper_ascii: "ascii_string s \<Longrightarrow> to_upper uc s = map (\<lambda>c. char_of (ascii_upper (of_char c))) s"
proof -
  assume a: "ascii_string s"
  have "utf8 (ascii_upper (of_char c)) = [char_of (ascii_upper (of_char c))]" if "c \<in> set s" for c
  proof -
    from a that have "ascii_upper (of_char c) < 128"
      by (auto simp: ascii_string_def ascii_upper_def)
    then show ?thesis by (simp add: utf8_def utf8_bytes_def valid_rune_def)
  qed
  with a show ?thesis
    unfolding to_upper_def runes_ascii [OF a] string_of_runes_def
    by (induction s) (auto simp: ascii_string_def)
qed

lemma b32_digits_range: "n \<in> set (b32_digits bs) \<Longrightarrow> n < 32"
  by (auto simp: b32_digits_def Let_def)

lemma NewBackupCode_shape:
  assumes "NewBackupCode (Some bs) = Some code"
  shows "\<exists>a b. code = a @ ''-'' @ b \<and> length a = 5 \<and> length b = 5 \<and> set (a @ b) \<subseteq> set backupAlphabet"
proof -
  let ?s = "take 10 (map (\<lambda>n. backupAlphabet ! n) (b32_digits bs))"
  have len: "length ?s = 10" by (simp add: b32_digits_def Let_def)
  have sub: "set ?s \<subseteq> set backupAlphabet"
    using b32_digits_range backupAlphabet_chars by (fastforce dest: in_set_takeD)
  have "set (take 5 ?s @ drop 5 ?s) \<subseteq> set backupAlphabet"
    unfolding append_take_drop_id by (rule sub)
  moreover have "code = take 5 ?s @ ''-'' @ drop 5 ?s" using assms by (simp add: NewBackupCode_def Let_def)
  ultimately show ?thesis using len by (intro exI [of _ "take 5 ?s"] exI [of _ "drop 5 ?s"]) simp
qed

definition typed_chars :: "string \<Rightarrow> string" where
  "typed_chars s = filter (\<lambda>c. c \<notin> {CHR ''-'', CHR '' '', CHR 0x09}) s"

lemma upper_lower: "ascii_upper (ascii_lower n) = ascii_upper n"
  by (simp add: ascii_upper_def ascii_lower_def)

lemma ascii_lower_range: "byte_val c < 128 \<Longrightarrow> ascii_lower (of_char c) < 128"
  by (simp add: ascii_lower_def)

lemma upper_of_lower_string:
  "ascii_string s \<Longrightarrow> map (\<lambda>c. char_of (ascii_upper (of_char c))) (lower_string s) =
     map (\<lambda>c. char_of (ascii_upper (of_char c))) s"
proof -
  assume a: "ascii_string s"
  have "char_of (ascii_upper (of_char (char_of (ascii_lower (of_char c)) :: char))) = (char_of (ascii_upper (of_char c)) :: char)"
    if "c \<in> set s" for c
    using a that ascii_lower_range [of c] by (simp add: ascii_string_def upper_lower)
  then show ?thesis by (simp add: lower_string_def)
qed

lemma NormalizeBackupCode_alt: "NormalizeBackupCode E s = to_upper (x_upper E) (typed_chars s)"
  by (simp add: NormalizeBackupCode_def typed_chars_def)

lemma NormalizeBackupCode_typed:
  assumes "ascii_string s" and "ascii_string t" and "lower_string (typed_chars s) = lower_string (typed_chars t)"
  shows "NormalizeBackupCode E s = NormalizeBackupCode E t"
proof -
  have a: "ascii_string (typed_chars s)" "ascii_string (typed_chars t)"
    using assms(1,2) by (auto simp: ascii_string_def typed_chars_def)
  have "map (\<lambda>c. char_of (ascii_upper (of_char c))) (typed_chars s) =
        map (\<lambda>c. char_of (ascii_upper (of_char c))) (typed_chars t)"
    by (metis a assms(3) upper_of_lower_string)
  then show ?thesis
    using a by (simp add: NormalizeBackupCode_alt to_upper_ascii)
qed

lemma NormalizeBackupCode_fresh:
  assumes "set s \<subseteq> set backupAlphabet"
  shows "NormalizeBackupCode E s = s" and "ascii_string s"
proof -
  have c: "byte_val c < 128 \<and> c \<notin> {CHR ''-'', CHR '' '', CHR 0x09} \<and> ascii_upper (byte_val c) = byte_val c"
    if "c \<in> set s" for c using assms that backupAlphabet_chars by blast
  then show a: "ascii_string s" by (simp add: ascii_string_def)
  have "filter (\<lambda>c. c \<notin> {CHR ''-'', CHR '' '', CHR 0x09}) s = s"
    using c by (simp add: filter_id_conv)
  with a c show "NormalizeBackupCode E s = s"
    by (simp add: NormalizeBackupCode_def to_upper_ascii map_idI)
qed


section \<open>Guarantees\<close>

text \<open>
  An environment with simple primitives that behave as documented: a key derivation that pads
  its input, a seal that prepends the label, an identity digest.  It serves the concrete
  instances of the theorems.
\<close>

definition sample_env :: env where
  "sample_env = \<lparr>x_sha256 = (\<lambda>bs. bs),
     x_argon2id = (\<lambda>pw salt t m p n. if t = 0 \<or> p = 0 then None
        else Some (take (unat n) (pw @ replicate (unat n) 0))),
     x_gcm_seal = (\<lambda>k n p a. a @ p),
     x_gcm_open = (\<lambda>k n c a. if take (length a) c = a then Some (drop (length a) c) else None),
     x_upper = (\<lambda>r. r), x_totp = (\<lambda>code secret t. code = ''123456'' \<and> t = 30),
     x_approver = Some (\<lambda>n u src t. if u = ''alice'' then Approved else Declined),
     x_alive = (\<lambda>n b. True), x_ready = (\<lambda>n b. True), x_send_ok = (\<lambda>n. True),
     x_waking = (\<lambda>n i. False), x_woken = (\<lambda>n i. True),
     x_dummy_hash = ''dummy'', x_es256 = (\<lambda>x y dig sig. sig = dig), x_rs256 = (\<lambda>n e dig sig. sig = dig),
     x_totp_enroll = (\<lambda>n issuer name. Some (''JBSWY3DP'', ''otpauth://totp/''))\<rparr>"

lemma sample_argon2: "argon2_spec sample_env"
  by (auto simp: argon2_spec_def sample_env_def)

lemma sample_gcm: "gcm_spec sample_env"
  by (auto simp: gcm_spec_def sample_env_def) (metis append_take_drop_id)

text \<open>Password hashes: hashing succeeds whenever the system has entropy, the stored text is
  read back with the parameters and the salt it was made with, and a password verifies
  against it exactly when it derives the same key as the original; otherwise the answer is
  "mismatch", never "malformed" and never a crash.\<close>

theorem password_hash_verifies:
  assumes "argon2_spec E"
  shows "\<exists>h. HashPassword E (Some salt) pw = Inr h \<and>
    (\<forall>q. VerifyPassword E q h = (if derive E salt q = derive E salt pw then Inr () else Inl ErrMismatch))"
  using HashPassword_total [OF assms] VerifyPassword_of_hash [OF assms] by blast

theorem password_hash_verifies_witness:
  "\<exists>h. HashPassword sample_env (Some [1, 2]) ''pw'' = Inr h \<and>
     VerifyPassword sample_env ''pw'' h = Inr () \<and> VerifyPassword sample_env ''qw'' h = Inl ErrMismatch"
proof -
  obtain h where "HashPassword sample_env (Some [1, 2]) ''pw'' = Inr h"
    and v: "\<And>q. VerifyPassword sample_env q h =
      (if derive sample_env [1, 2] q = derive sample_env [1, 2] ''pw'' then Inr () else Inl ErrMismatch)"
    using password_hash_verifies [OF sample_argon2, of "[1, 2]" "''pw''"] by blast
  moreover have "derive sample_env [1, 2] ''qw'' \<noteq> derive sample_env [1, 2] ''pw''"
    by (simp add: sample_env_def bytes_of_def byte_of_def)
  ultimately show ?thesis by auto
qed

text \<open>A printed backup code survives the way people type it: however the ten characters are
  split by dashes, blanks and tabs and whatever case they are typed in, normalising gives the
  ten printed characters, all from the alphabet without look-alikes.\<close>

theorem backup_code_as_typed:
  assumes "NewBackupCode (Some bs) = Some code" and "ascii_string s"
    and "lower_string (typed_chars s) = lower_string (typed_chars code)"
  shows "length (NormalizeBackupCode E s) = 10 \<and> set (NormalizeBackupCode E s) \<subseteq> set backupAlphabet \<and>
     NormalizeBackupCode E s = take 5 code @ drop 6 code"
proof -
  from NewBackupCode_shape [OF assms(1)] obtain a b where c: "code = a @ ''-'' @ b"
    and l: "length a = 5" "length b = 5" and sub: "set (a @ b) \<subseteq> set backupAlphabet" by blast
  have ab: "ascii_string (a @ b)" "NormalizeBackupCode E (a @ b) = a @ b"
    using NormalizeBackupCode_fresh [OF sub] by auto
  then have "ascii_string code" by (simp add: c ascii_string_def)
  with assms have "NormalizeBackupCode E s = NormalizeBackupCode E code"
    by (intro NormalizeBackupCode_typed)
  also have "NormalizeBackupCode E code = NormalizeBackupCode E (a @ b)"
    by (simp add: NormalizeBackupCode_alt typed_chars_def c)
  finally show ?thesis using ab l sub by (simp add: c)
qed

theorem backup_code_as_typed_witness:
  "\<exists>code. NewBackupCode (Some [0, 0, 0, 0, 0, 0, 0]) = Some code \<and>
     NormalizeBackupCode sample_env ''aaa aa-aaAaa'' = take 5 code @ drop 6 code"
proof -
  have c: "NewBackupCode (Some [0, 0, 0, 0, 0, 0, 0]) = Some ''AAAAA-AAAAA''"
    by (simp add: NewBackupCode_def b32_digits_def backupAlphabet_def upt_rec)
  have "NormalizeBackupCode sample_env ''aaa aa-aaAaa'' = take 5 ''AAAAA-AAAAA'' @ drop 6 ''AAAAA-AAAAA''"
    using backup_code_as_typed [OF c, of "''aaa aa-aaAaa''" sample_env]
    by (simp add: ascii_string_def typed_chars_def lower_string_def ascii_lower_def)
  with c show ?thesis by blast
qed

end
