(* ===== verification/Store.thy ===== *)
theory Store
  imports Net_Addr Go_Strings "HOL-Library.List_Lexorder" "HOL-Library.Char_ord"
begin

text \<open>
  The SQLite tables behind \<open>internal/store\<close> and the statements issued on them (schema:
  \<open>internal/store/migrations\<close>).  A table is the list of its rows in rowid order: every table
  uses \<open>AUTOINCREMENT\<close>, so a new row has an id above every id ever used and is appended.
  UNIQUE, CHECK and foreign-key constraints are the branches that return \<open>ErrConstraint\<close>;
  \<open>ON DELETE CASCADE\<close> and \<open>SET NULL\<close> are written out.  Timestamps are Unix seconds, and the
  clock is an argument of every statement that reads it.
\<close>

section \<open>Rows\<close>

record user =
  u_id :: int
  u_username :: string
  u_display :: string
  u_pwhash :: string
  u_role :: string
  u_rdp_hint :: string
  u_totp_secret :: bytes
  u_totp_counter :: int
  u_status :: string
  u_created :: int

record target =
  t_id :: int
  t_name :: string
  t_hostname :: string
  t_ip :: string
  t_rdp_port :: int
  t_mac :: string
  t_wol_broadcast :: string
  t_wol_port :: int
  t_boot_timeout :: int
  t_icon :: string
  t_notes :: string

record grant =
  g_id :: int
  g_user :: int
  g_target :: int
  g_src :: ip_key
  g_token_hash :: string
  g_mode :: string
  g_created :: int
  g_expires :: int
  g_consumed :: "int option"
  g_revoked :: "int option"

record websession =
  s_id :: int
  s_user :: int
  s_token_hash :: string
  s_src :: ip_key
  s_agent :: string
  s_created :: int
  s_expires :: int
  s_last_seen :: int

record rtoken =
  r_id :: int
  r_hash :: string
  r_user :: int
  r_target :: int
  r_src :: ip_key
  r_created :: int
  r_expires :: int
  r_used :: "int option"

record jit_request =
  j_id :: int
  j_hint :: string
  j_user :: "int option"
  j_target :: "int option"
  j_src :: ip_key
  j_state :: string
  j_created :: int
  j_decided :: "int option"
  j_via :: string

record rdp_session =
  p_id :: int
  p_grant :: "int option"
  p_target :: "int option"
  p_src :: ip_key
  p_started :: int
  p_ended :: "int option"
  p_in :: int
  p_out :: int
  p_reason :: string

record backup_code =
  b_id :: int
  b_user :: int
  b_hash :: string
  b_used :: "int option"

record passkey =
  k_id :: int
  k_user :: int
  k_cred :: bytes
  k_key :: bytes
  k_count :: "32 word"
  k_name :: string
  k_created :: int

record setting =
  v_value :: string
  v_updated_at :: int
  v_updated_by :: string

datatype table = TUsers | TTargets | TGrants | TSessions | TRTokens | TJit | TRdp | TCodes | TCreds

record db =
  users :: "user list"
  targets :: "target list"
  user_targets :: "(int \<times> int) list"
  grants :: "grant list"
  sessions :: "websession list"
  rtokens :: "rtoken list"
  jits :: "jit_request list"
  rdp_sessions :: "rdp_session list"
  codes :: "backup_code list"
  creds :: "passkey list"
  app_settings :: "string \<Rightarrow> setting option"
  seq :: "table \<Rightarrow> int"

definition empty_db :: db where
  "empty_db = \<lparr>users = [], targets = [], user_targets = [], grants = [], sessions = [], rtokens = [],
     jits = [], rdp_sessions = [], codes = [], creds = [], app_settings = Map.empty, seq = (\<lambda>_. 0)\<rparr>"

datatype store_error = ErrNotFound | ErrCounterAlreadyUsed | ErrCodeAlreadyUsed | ErrConstraint | ErrDatabase

section \<open>Generic statements\<close>

definition next_id :: "db \<Rightarrow> table \<Rightarrow> int" where
  "next_id d t = seq d t + 1"

definition bump :: "db \<Rightarrow> table \<Rightarrow> db" where
  "bump d t = d\<lparr>seq := (seq d)(t := seq d t + 1)\<rparr>"

text \<open>\<open>UPDATE ... SET f WHERE p\<close> and its \<open>RowsAffected\<close>.\<close>

definition update_where :: "('r \<Rightarrow> bool) \<Rightarrow> ('r \<Rightarrow> 'r) \<Rightarrow> 'r list \<Rightarrow> 'r list" where
  "update_where p f rows = map (\<lambda>r. if p r then f r else r) rows"

definition affected :: "('r \<Rightarrow> bool) \<Rightarrow> 'r list \<Rightarrow> nat" where
  "affected p rows = length (filter p rows)"

definition row_or_not_found :: "'r option \<Rightarrow> store_error + 'r" where
  "row_or_not_found r = (case r of None \<Rightarrow> Inl ErrNotFound | Some x \<Rightarrow> Inr x)"

text \<open>\<open>ORDER BY id DESC LIMIT 1\<close> over rows kept in id order.\<close>

definition last_where :: "('r \<Rightarrow> bool) \<Rightarrow> 'r list \<Rightarrow> 'r option" where
  "last_where p rows = (case filter p rows of [] \<Rightarrow> None | xs \<Rightarrow> Some (last xs))"

section \<open>Users\<close>

definition is_admin :: "user \<Rightarrow> bool" where
  "is_admin u \<longleftrightarrow> u_role u = ''admin''"

definition is_active :: "user \<Rightarrow> bool" where
  "is_active u \<longleftrightarrow> u_status u = ''active''"

definition user_exists :: "db \<Rightarrow> int \<Rightarrow> bool" where
  "user_exists d i \<longleftrightarrow> (\<exists>u \<in> set (users d). u_id u = i)"

definition target_exists :: "db \<Rightarrow> int \<Rightarrow> bool" where
  "target_exists d i \<longleftrightarrow> (\<exists>t \<in> set (targets d). t_id t = i)"

definition CreateUser :: "int \<Rightarrow> user \<Rightarrow> db \<Rightarrow> store_error + (int \<times> db)" where
  "CreateUser now u d =
     (let row = u\<lparr>u_id := next_id d TUsers, u_totp_secret := [], u_totp_counter := 0,
                  u_status := ''active'', u_created := now\<rparr> in
      if (\<exists>v \<in> set (users d). u_username v = u_username u) \<or>
         (u_rdp_hint u \<noteq> [] \<and>
          (\<exists>v \<in> set (users d). lower_string (u_rdp_hint v) = lower_string (u_rdp_hint u))) \<or>
         (u_role u \<noteq> ''admin'' \<and> u_role u \<noteq> ''user'')
      then Inl ErrConstraint
      else Inr (u_id row, bump (d\<lparr>users := users d @ [row]\<rparr>) TUsers))"

definition UserByName :: "string \<Rightarrow> db \<Rightarrow> store_error + user" where
  "UserByName name d = row_or_not_found (find (\<lambda>u. u_username u = name) (users d))"

definition UserByID :: "int \<Rightarrow> db \<Rightarrow> store_error + user" where
  "UserByID i d = row_or_not_found (find (\<lambda>u. u_id u = i) (users d))"

definition bare_hint :: "string \<Rightarrow> string" where
  "bare_hint h0 =
     (let h1 = (case last_index_of (CHR 0x5C) h0 of Some i \<Rightarrow> drop (Suc i) h0 | None \<Rightarrow> h0) in
      case index_of (CHR ''@'') h1 of Some i \<Rightarrow> if 0 < i then take i h1 else h1 | None \<Rightarrow> h1)"

definition UserByRDPHint :: "string \<Rightarrow> db \<Rightarrow> store_error + user" where
  "UserByRDPHint hint0 d =
     (let trimmed = trim_space hint0 in
      if trimmed = [] then Inl ErrNotFound
      else let h = bare_hint trimmed in
        row_or_not_found (find (\<lambda>u. u_status u = ''active'' \<and>
            (lower_string (u_username u) = lower_string h \<or>
             (u_rdp_hint u \<noteq> [] \<and> lower_string (u_rdp_hint u) = lower_string h))) (users d)))"

definition ClaimTOTPCounter :: "int \<Rightarrow> int \<Rightarrow> db \<Rightarrow> store_error + db" where
  "ClaimTOTPCounter uid c d =
     (let p = (\<lambda>u. u_id u = uid \<and> u_totp_counter u < c) in
      if affected p (users d) \<noteq> 1 then Inl ErrCounterAlreadyUsed
      else Inr (d\<lparr>users := update_where p (\<lambda>u. u\<lparr>u_totp_counter := c\<rparr>) (users d)\<rparr>))"

definition SetTOTPCounter :: "int \<Rightarrow> int \<Rightarrow> db \<Rightarrow> store_error + db" where
  "SetTOTPCounter uid c d =
     (case ClaimTOTPCounter uid c d of
        Inl ErrCounterAlreadyUsed \<Rightarrow> Inr d | Inl e \<Rightarrow> Inl e | Inr d' \<Rightarrow> Inr d')"

definition SetTOTPSecret :: "int \<Rightarrow> bytes \<Rightarrow> db \<Rightarrow> store_error + db" where
  "SetTOTPSecret uid enc d =
     Inr (d\<lparr>users := update_where (\<lambda>u. u_id u = uid)
            (\<lambda>u. u\<lparr>u_totp_secret := enc, u_totp_counter := 0\<rparr>) (users d)\<rparr>)"

definition valid_status :: "string \<Rightarrow> bool" where
  "valid_status s \<longleftrightarrow> s \<in> {''active'', ''locked'', ''disabled''}"

definition SetUserStatus :: "int \<Rightarrow> string \<Rightarrow> db \<Rightarrow> store_error + db" where
  "SetUserStatus uid st d =
     (if affected (\<lambda>u. u_id u = uid) (users d) \<noteq> 0 \<and> \<not> valid_status st then Inl ErrConstraint
      else Inr (d\<lparr>users := update_where (\<lambda>u. u_id u = uid) (\<lambda>u. u\<lparr>u_status := st\<rparr>) (users d)\<rparr>))"

definition ListUsers :: "db \<Rightarrow> user list" where
  "ListUsers d = sort_key u_username (users d)"

text \<open>
  Deleting rows of \<open>grants\<close> sets \<open>rdp_sessions.grant_id\<close> to NULL; deleting a user or a target
  cascades to everything that references it.
\<close>

definition null_if :: "(int \<Rightarrow> bool) \<Rightarrow> int option \<Rightarrow> int option" where
  "null_if gone r = (case r of Some i \<Rightarrow> if gone i then None else Some i | None \<Rightarrow> None)"

definition delete_grants :: "(grant \<Rightarrow> bool) \<Rightarrow> db \<Rightarrow> db" where
  "delete_grants p d =
     (let gone = (\<lambda>i. \<exists>g \<in> set (grants d). g_id g = i \<and> p g) in
      d\<lparr>grants := filter (\<lambda>g. \<not> p g) (grants d),
        rdp_sessions := map (\<lambda>s. s\<lparr>p_grant := null_if gone (p_grant s)\<rparr>) (rdp_sessions d)\<rparr>)"

definition DeleteUser :: "int \<Rightarrow> db \<Rightarrow> store_error + db" where
  "DeleteUser uid d =
     (if affected (\<lambda>u. u_id u = uid) (users d) = 0 then Inl ErrNotFound
      else let d1 = delete_grants (\<lambda>g. g_user g = uid) d in
        Inr (d1\<lparr>users := filter (\<lambda>u. u_id u \<noteq> uid) (users d1),
                codes := filter (\<lambda>c. b_user c \<noteq> uid) (codes d1),
                creds := filter (\<lambda>k. k_user k \<noteq> uid) (creds d1),
                user_targets := filter (\<lambda>(u, t). u \<noteq> uid) (user_targets d1),
                sessions := filter (\<lambda>s. s_user s \<noteq> uid) (sessions d1),
                rtokens := filter (\<lambda>r. r_user r \<noteq> uid) (rtokens d1),
                jits := map (\<lambda>j. j\<lparr>j_user := null_if (\<lambda>i. i = uid) (j_user j)\<rparr>) (jits d1)\<rparr>))"

section \<open>Targets and access\<close>

definition target_defaults :: "target \<Rightarrow> target" where
  "target_defaults t =
     t\<lparr>t_rdp_port := (if t_rdp_port t = 0 then 3389 else t_rdp_port t),
       t_wol_port := (if t_wol_port t = 0 then 9 else t_wol_port t),
       t_wol_broadcast := (if t_wol_broadcast t = [] then ''255.255.255.255'' else t_wol_broadcast t),
       t_boot_timeout := (if t_boot_timeout t = 0 then 120 else t_boot_timeout t),
       t_icon := (if t_icon t = [] then ''monitor'' else t_icon t)\<rparr>"

definition CreateTarget :: "target \<Rightarrow> db \<Rightarrow> store_error + (int \<times> db)" where
  "CreateTarget t0 d =
     (let t = (target_defaults t0)\<lparr>t_id := next_id d TTargets\<rparr> in
      if \<exists>v \<in> set (targets d). t_name v = t_name t then Inl ErrConstraint
      else Inr (t_id t, bump (d\<lparr>targets := targets d @ [t]\<rparr>) TTargets))"

definition TargetByID :: "int \<Rightarrow> db \<Rightarrow> store_error + target" where
  "TargetByID i d = row_or_not_found (find (\<lambda>t. t_id t = i) (targets d))"

definition TargetByName :: "string \<Rightarrow> db \<Rightarrow> store_error + target" where
  "TargetByName n d = row_or_not_found (find (\<lambda>t. t_name t = n) (targets d))"

definition DeleteTarget :: "int \<Rightarrow> db \<Rightarrow> store_error + db" where
  "DeleteTarget tid d =
     (if affected (\<lambda>t. t_id t = tid) (targets d) = 0 then Inl ErrNotFound
      else let d1 = delete_grants (\<lambda>g. g_target g = tid) d in
        Inr (d1\<lparr>targets := filter (\<lambda>t. t_id t \<noteq> tid) (targets d1),
                user_targets := filter (\<lambda>(u, t). t \<noteq> tid) (user_targets d1),
                rtokens := filter (\<lambda>r. r_target r \<noteq> tid) (rtokens d1),
                rdp_sessions := map (\<lambda>s. s\<lparr>p_target := null_if (\<lambda>i. i = tid) (p_target s)\<rparr>) (rdp_sessions d1),
                jits := map (\<lambda>j. j\<lparr>j_target := null_if (\<lambda>i. i = tid) (j_target j)\<rparr>) (jits d1)\<rparr>))"

text \<open>\<open>Target.Addr\<close> joins the host and the port; the pair stands for \<open>net.JoinHostPort\<close>'s text.\<close>

type_synonym backend = "string \<times> int"

definition Addr :: "target \<Rightarrow> backend" where
  "Addr t = (if t_hostname t = [] then t_ip t else t_hostname t, t_rdp_port t)"

definition ListTargets :: "db \<Rightarrow> target list" where
  "ListTargets d = sort_key t_name (targets d)"

definition ListTargetsForUser :: "user \<Rightarrow> db \<Rightarrow> target list" where
  "ListTargetsForUser u d =
     (if is_admin u then ListTargets d
      else sort_key t_name (filter (\<lambda>t. (u_id u, t_id t) \<in> set (user_targets d)) (targets d)))"

definition CanReach :: "user \<Rightarrow> int \<Rightarrow> db \<Rightarrow> bool" where
  "CanReach u tid d =
     (if \<not> is_active u then False
      else if is_admin u then True
      else 0 < affected (\<lambda>(a, b). a = u_id u \<and> b = tid) (user_targets d))"

definition GrantTargetAccess :: "int \<Rightarrow> int \<Rightarrow> db \<Rightarrow> store_error + db" where
  "GrantTargetAccess uid tid d =
     (if (uid, tid) \<in> set (user_targets d) then Inr d
      else if \<not> user_exists d uid \<or> \<not> target_exists d tid then Inl ErrConstraint
      else Inr (d\<lparr>user_targets := user_targets d @ [(uid, tid)]\<rparr>))"

definition RevokeTargetAccess :: "int \<Rightarrow> int \<Rightarrow> db \<Rightarrow> store_error + db" where
  "RevokeTargetAccess uid tid d =
     Inr (d\<lparr>user_targets := filter (\<lambda>(a, b). \<not> (a = uid \<and> b = tid)) (user_targets d)\<rparr>)"

section \<open>Grants\<close>

definition valid_mode :: "string \<Rightarrow> bool" where
  "valid_mode m \<longleftrightarrow> m \<in> {''portal'', ''jit'', ''rdgw''}"

definition CreateGrant :: "grant \<Rightarrow> string \<Rightarrow> db \<Rightarrow> store_error + (int \<times> db)" where
  "CreateGrant g th d =
     (let row = g\<lparr>g_id := next_id d TGrants, g_token_hash := th, g_consumed := None, g_revoked := None\<rparr> in
      if \<not> user_exists d (g_user g) \<or> \<not> target_exists d (g_target g) \<or> \<not> valid_mode (g_mode g)
      then Inl ErrConstraint
      else Inr (g_id row, bump (d\<lparr>grants := grants d @ [row]\<rparr>) TGrants))"

definition live_grant :: "ip_key \<Rightarrow> int \<Rightarrow> grant \<Rightarrow> bool" where
  "live_grant src now g \<longleftrightarrow> g_src g = src \<and> g_revoked g = None \<and> now < g_expires g"

definition ActiveGrant :: "ip_key \<Rightarrow> int \<Rightarrow> db \<Rightarrow> store_error + grant" where
  "ActiveGrant src now d = row_or_not_found (last_where (live_grant src now) (grants d))"

definition ConsumeGrant :: "int \<Rightarrow> int \<Rightarrow> int \<Rightarrow> db \<Rightarrow> store_error + db" where
  "ConsumeGrant now i reuse d =
     Inr (d\<lparr>grants := update_where (\<lambda>g. g_id g = i \<and> g_revoked g = None)
            (\<lambda>g. g\<lparr>g_consumed := Some (case g_consumed g of Some c \<Rightarrow> c | None \<Rightarrow> now),
                   g_expires := max (g_expires g) reuse\<rparr>) (grants d)\<rparr>)"

definition RevokeGrantsForUser :: "int \<Rightarrow> int \<Rightarrow> db \<Rightarrow> store_error + db" where
  "RevokeGrantsForUser now uid d =
     Inr (d\<lparr>grants := update_where (\<lambda>g. g_user g = uid \<and> g_revoked g = None)
            (\<lambda>g. g\<lparr>g_revoked := Some now\<rparr>) (grants d)\<rparr>)"

definition PurgeExpired :: "int \<Rightarrow> db \<Rightarrow> store_error + db" where
  "PurgeExpired older d =
     (let d1 = delete_grants (\<lambda>g. g_expires g < older) d in
      Inr (d1\<lparr>sessions := filter (\<lambda>s. \<not> s_expires s < older) (sessions d1)\<rparr>))"

section \<open>Recorded RDP sessions and JIT requests\<close>

definition grant_exists :: "db \<Rightarrow> int \<Rightarrow> bool" where
  "grant_exists d i \<longleftrightarrow> (\<exists>g \<in> set (grants d). g_id g = i)"

definition OpenRDPSession :: "int \<Rightarrow> int \<Rightarrow> int \<Rightarrow> ip_key \<Rightarrow> db \<Rightarrow> store_error + (int \<times> db)" where
  "OpenRDPSession now gid tid src d =
     (let row = \<lparr>p_id = next_id d TRdp, p_grant = Some gid, p_target = Some tid, p_src = src,
                 p_started = now, p_ended = None, p_in = 0, p_out = 0, p_reason = []\<rparr> in
      if \<not> grant_exists d gid \<or> \<not> target_exists d tid then Inl ErrConstraint
      else Inr (p_id row, bump (d\<lparr>rdp_sessions := rdp_sessions d @ [row]\<rparr>) TRdp))"

definition CloseRDPSession :: "int \<Rightarrow> int \<Rightarrow> int \<Rightarrow> int \<Rightarrow> string \<Rightarrow> db \<Rightarrow> store_error + db" where
  "CloseRDPSession now i bin bout reason d =
     Inr (d\<lparr>rdp_sessions := update_where (\<lambda>s. p_id s = i \<and> p_ended s = None)
            (\<lambda>s. s\<lparr>p_ended := Some now, p_in := bin, p_out := bout, p_reason := reason\<rparr>)
            (rdp_sessions d)\<rparr>)"

definition MarkStaleSessionsClosed :: "int \<Rightarrow> db \<Rightarrow> store_error + db" where
  "MarkStaleSessionsClosed now d =
     Inr (d\<lparr>rdp_sessions := update_where (\<lambda>s. p_ended s = None)
            (\<lambda>s. s\<lparr>p_ended := Some now, p_reason := ''gateway restarted''\<rparr>) (rdp_sessions d)\<rparr>)"

record live_session =
  l_id :: int
  l_username :: string
  l_target :: string
  l_src :: ip_key
  l_started :: int

text \<open>The left joins: a session whose grant, user or target row is gone shows as \<open>?\<close>.\<close>

definition live_row :: "db \<Rightarrow> rdp_session \<Rightarrow> live_session" where
  "live_row d s =
     \<lparr>l_id = p_id s,
      l_username = (case p_grant s of None \<Rightarrow> ''?''
        | Some i \<Rightarrow> (case find (\<lambda>g. g_id g = i) (grants d) of None \<Rightarrow> ''?''
        | Some g \<Rightarrow> (case find (\<lambda>u. u_id u = g_user g) (users d) of None \<Rightarrow> ''?'' | Some u \<Rightarrow> u_username u))),
      l_target = (case p_target s of None \<Rightarrow> ''?''
        | Some i \<Rightarrow> (case find (\<lambda>t. t_id t = i) (targets d) of None \<Rightarrow> ''?'' | Some t \<Rightarrow> t_name t)),
      l_src = p_src s, l_started = p_started s\<rparr>"

definition ListLiveSessions :: "db \<Rightarrow> live_session list" where
  "ListLiveSessions d =
     rev (sort_key l_started (map (live_row d) (filter (\<lambda>s. p_ended s = None) (rdp_sessions d))))"

definition CreateJITRequest ::
    "int \<Rightarrow> string \<Rightarrow> int \<Rightarrow> int \<Rightarrow> ip_key \<Rightarrow> db \<Rightarrow> store_error + (int \<times> db)" where
  "CreateJITRequest now hint uid tid src d =
     (let row = \<lparr>j_id = next_id d TJit, j_hint = hint, j_user = Some uid, j_target = Some tid,
                 j_src = src, j_state = ''pending'', j_created = now, j_decided = None, j_via = []\<rparr> in
      if \<not> user_exists d uid \<or> \<not> target_exists d tid then Inl ErrConstraint
      else Inr (j_id row, bump (d\<lparr>jits := jits d @ [row]\<rparr>) TJit))"

definition valid_jit_state :: "string \<Rightarrow> bool" where
  "valid_jit_state s \<longleftrightarrow> s \<in> {''pending'', ''approved'', ''denied'', ''timeout''}"

definition SetJITState :: "int \<Rightarrow> int \<Rightarrow> string \<Rightarrow> string \<Rightarrow> db \<Rightarrow> store_error + db" where
  "SetJITState now i st via d =
     (let p = (\<lambda>j. j_id j = i \<and> j_state j = ''pending'') in
      if affected p (jits d) \<noteq> 0 \<and> \<not> valid_jit_state st then Inl ErrConstraint
      else Inr (d\<lparr>jits := update_where p
             (\<lambda>j. j\<lparr>j_state := st, j_decided := Some now, j_via := via\<rparr>) (jits d)\<rparr>))"

definition PendingJITCount :: "ip_key \<Rightarrow> int \<Rightarrow> db \<Rightarrow> nat" where
  "PendingJITCount src since d =
     affected (\<lambda>j. j_src j = src \<and> j_state j = ''pending'' \<and> since \<le> j_created j) (jits d)"

definition ExpirePendingJIT :: "int \<Rightarrow> int \<Rightarrow> db \<Rightarrow> store_error + db" where
  "ExpirePendingJIT now older d =
     Inr (d\<lparr>jits := update_where (\<lambda>j. j_state j = ''pending'' \<and> j_created j < older)
            (\<lambda>j. j\<lparr>j_state := ''timeout'', j_decided := Some now, j_via := ''expired''\<rparr>) (jits d)\<rparr>)"

section \<open>Redirect tokens\<close>

definition CreateRedirectToken ::
    "int \<Rightarrow> string \<Rightarrow> int \<Rightarrow> int \<Rightarrow> ip_key \<Rightarrow> int \<Rightarrow> db \<Rightarrow> store_error + db" where
  "CreateRedirectToken now th uid tid src expires d =
     (let row = \<lparr>r_id = next_id d TRTokens, r_hash = th, r_user = uid, r_target = tid, r_src = src,
                 r_created = now, r_expires = expires, r_used = None\<rparr> in
      if (\<exists>r \<in> set (rtokens d). r_hash r = th) \<or> \<not> user_exists d uid \<or> \<not> target_exists d tid
      then Inl ErrConstraint
      else Inr (bump (d\<lparr>rtokens := rtokens d @ [row]\<rparr>) TRTokens))"

definition open_token :: "string \<Rightarrow> ip_key \<Rightarrow> int \<Rightarrow> rtoken \<Rightarrow> bool" where
  "open_token th src now r \<longleftrightarrow> r_hash r = th \<and> r_used r = None \<and> now < r_expires r \<and> r_src r = src"

text \<open>
  \<open>ConsumeRedirectToken\<close> is two statements.  The \<open>UPDATE\<close> that checks and claims comes first;
  when the \<open>SELECT\<close> after it fails, the token stays claimed.
\<close>

definition claim_token :: "int \<Rightarrow> string \<Rightarrow> ip_key \<Rightarrow> db \<Rightarrow> store_error + db" where
  "claim_token now th src d =
     (if affected (open_token th src now) (rtokens d) \<noteq> 1 then Inl ErrNotFound
      else Inr (d\<lparr>rtokens := update_where (open_token th src now)
                   (\<lambda>r. r\<lparr>r_used := Some now\<rparr>) (rtokens d)\<rparr>))"

definition token_by_hash :: "string \<Rightarrow> db \<Rightarrow> store_error + rtoken" where
  "token_by_hash th d = row_or_not_found (find (\<lambda>r. r_hash r = th) (rtokens d))"

definition ConsumeRedirectToken :: "int \<Rightarrow> string \<Rightarrow> ip_key \<Rightarrow> db \<Rightarrow> (store_error + rtoken) \<times> db" where
  "ConsumeRedirectToken now th src d =
     (case claim_token now th src d of
        Inl e \<Rightarrow> (Inl e, d)
      | Inr d' \<Rightarrow> (token_by_hash th d', d'))"

definition PurgeRedirectTokens :: "int \<Rightarrow> db \<Rightarrow> store_error + db" where
  "PurgeRedirectTokens older d = Inr (d\<lparr>rtokens := filter (\<lambda>r. \<not> r_expires r < older) (rtokens d)\<rparr>)"

section \<open>Backup codes, passkeys, settings\<close>

definition AddBackupCode :: "int \<Rightarrow> string \<Rightarrow> db \<Rightarrow> store_error + db" where
  "AddBackupCode uid h d =
     (if \<not> user_exists d uid then Inl ErrConstraint
      else Inr (bump (d\<lparr>codes := codes d @ [\<lparr>b_id = next_id d TCodes, b_user = uid, b_hash = h,
                                               b_used = None\<rparr>]\<rparr>) TCodes))"

definition DeleteBackupCodes :: "int \<Rightarrow> db \<Rightarrow> store_error + db" where
  "DeleteBackupCodes uid d = Inr (d\<lparr>codes := filter (\<lambda>c. b_user c \<noteq> uid) (codes d)\<rparr>)"

definition OpenBackupCodes :: "int \<Rightarrow> db \<Rightarrow> backup_code list" where
  "OpenBackupCodes uid d = filter (\<lambda>c. b_user c = uid \<and> b_used c = None) (codes d)"

definition ClaimBackupCode :: "int \<Rightarrow> int \<Rightarrow> db \<Rightarrow> store_error + db" where
  "ClaimBackupCode now i d =
     (let p = (\<lambda>c. b_id c = i \<and> b_used c = None) in
      if affected p (codes d) \<noteq> 1 then Inl ErrCodeAlreadyUsed
      else Inr (d\<lparr>codes := update_where p (\<lambda>c. c\<lparr>b_used := Some now\<rparr>) (codes d)\<rparr>))"

definition CountBackupCodes :: "int \<Rightarrow> db \<Rightarrow> nat" where
  "CountBackupCodes uid d = affected (\<lambda>c. b_user c = uid \<and> b_used c = None) (codes d)"

definition AddPasskey :: "int \<Rightarrow> passkey \<Rightarrow> db \<Rightarrow> store_error + (int \<times> db)" where
  "AddPasskey now k d =
     (let row = k\<lparr>k_id := next_id d TCreds, k_created := now\<rparr> in
      if \<not> user_exists d (k_user k) \<or> (\<exists>v \<in> set (creds d). k_cred v = k_cred k) then Inl ErrConstraint
      else Inr (k_id row, bump (d\<lparr>creds := creds d @ [row]\<rparr>) TCreds))"

definition PasskeysFor :: "int \<Rightarrow> db \<Rightarrow> passkey list" where
  "PasskeysFor uid d = filter (\<lambda>k. k_user k = uid) (creds d)"

definition PasskeyByCredentialID :: "bytes \<Rightarrow> db \<Rightarrow> store_error + passkey" where
  "PasskeyByCredentialID c d = row_or_not_found (find (\<lambda>k. k_cred k = c) (creds d))"

definition UpdateSignCount :: "int \<Rightarrow> 32 word \<Rightarrow> db \<Rightarrow> store_error + db" where
  "UpdateSignCount i n d =
     Inr (d\<lparr>creds := update_where (\<lambda>k. k_id k = i) (\<lambda>k. k\<lparr>k_count := n\<rparr>) (creds d)\<rparr>)"

definition DeletePasskey :: "int \<Rightarrow> int \<Rightarrow> db \<Rightarrow> store_error + db" where
  "DeletePasskey uid i d = Inr (d\<lparr>creds := filter (\<lambda>k. \<not> (k_id k = i \<and> k_user k = uid)) (creds d)\<rparr>)"

definition CountPasskeys :: "int \<Rightarrow> db \<Rightarrow> nat" where
  "CountPasskeys uid d = affected (\<lambda>k. k_user k = uid) (creds d)"

definition Setting :: "string \<Rightarrow> db \<Rightarrow> string option" where
  "Setting key d = map_option v_value (app_settings d key)"

definition SetSetting :: "int \<Rightarrow> string \<Rightarrow> string \<Rightarrow> string \<Rightarrow> db \<Rightarrow> store_error + db" where
  "SetSetting now key v who d =
     Inr (d\<lparr>app_settings := (app_settings d)(key \<mapsto> \<lparr>v_value = v, v_updated_at = now, v_updated_by = who\<rparr>)\<rparr>)"

definition ClearSetting :: "string \<Rightarrow> db \<Rightarrow> store_error + db" where
  "ClearSetting key d = Inr (d\<lparr>app_settings := (app_settings d)(key := None)\<rparr>)"

text \<open>\<open>strconv.ParseBool\<close>.\<close>

definition parse_bool :: "string \<Rightarrow> bool option" where
  "parse_bool s =
     (if s \<in> {''1'', ''t'', ''T'', ''true'', ''TRUE'', ''True''} then Some True
      else if s \<in> {''0'', ''f'', ''F'', ''false'', ''FALSE'', ''False''} then Some False else None)"

definition format_bool :: "bool \<Rightarrow> string" where
  "format_bool b = (if b then ''true'' else ''false'')"

definition BoolSetting :: "string \<Rightarrow> bool \<Rightarrow> db \<Rightarrow> bool" where
  "BoolSetting key def d =
     (case Setting key d of None \<Rightarrow> def | Some v \<Rightarrow> (case parse_bool v of None \<Rightarrow> def | Some b \<Rightarrow> b))"

definition SetBoolSetting :: "int \<Rightarrow> string \<Rightarrow> bool \<Rightarrow> string \<Rightarrow> db \<Rightarrow> store_error + db" where
  "SetBoolSetting now key v who d = SetSetting now key (format_bool v) who d"

text \<open>
  \<open>ReplaceSettings\<close> runs one upsert per entry inside a transaction: either every entry is
  stored or none is.  \<open>ok\<close> says which of the upserts the database accepts.
\<close>

fun replace_settings :: "int \<Rightarrow> string \<Rightarrow> (string \<times> string) list \<Rightarrow> bool list \<Rightarrow> db \<Rightarrow> db option" where
  "replace_settings now who [] oks d = Some d"
| "replace_settings now who ((k, v) # kvs) oks d =
     (if oks \<noteq> [] \<and> \<not> hd oks then None
      else case SetSetting now k v who d of
             Inr d' \<Rightarrow> replace_settings now who kvs (tl oks) d' | Inl _ \<Rightarrow> None)"

definition ReplaceSettings :: "int \<Rightarrow> (string \<times> string) list \<Rightarrow> string \<Rightarrow> bool list \<Rightarrow> db \<Rightarrow> bool \<times> db" where
  "ReplaceSettings now kvs who oks d =
     (case replace_settings now who kvs oks d of None \<Rightarrow> (False, d) | Some d' \<Rightarrow> (True, d'))"

section \<open>Portal sessions\<close>

text \<open>The statements \<open>internal/auth\<close> issues on the \<open>sessions\<close> table.\<close>

definition insert_session :: "int \<Rightarrow> string \<Rightarrow> ip_key \<Rightarrow> string \<Rightarrow> int \<Rightarrow> int \<Rightarrow> db \<Rightarrow> store_error + db" where
  "insert_session uid th src agent created expires d =
     (let row = \<lparr>s_id = next_id d TSessions, s_user = uid, s_token_hash = th, s_src = src, s_agent = agent,
                 s_created = created, s_expires = expires, s_last_seen = created\<rparr> in
      if \<not> user_exists d uid \<or> (\<exists>v \<in> set (sessions d). s_token_hash v = th) then Inl ErrConstraint
      else Inr (bump (d\<lparr>sessions := sessions d @ [row]\<rparr>) TSessions))"

definition session_by_hash :: "string \<Rightarrow> db \<Rightarrow> store_error + websession" where
  "session_by_hash th d = row_or_not_found (find (\<lambda>s. s_token_hash s = th) (sessions d))"

definition delete_sessions :: "(websession \<Rightarrow> bool) \<Rightarrow> db \<Rightarrow> db" where
  "delete_sessions p d = d\<lparr>sessions := filter (\<lambda>s. \<not> p s) (sessions d)\<rparr>"

definition touch_session :: "int \<Rightarrow> int \<Rightarrow> db \<Rightarrow> db" where
  "touch_session now i d =
     d\<lparr>sessions := update_where (\<lambda>s. s_id s = i) (\<lambda>s. s\<lparr>s_last_seen := now\<rparr>) (sessions d)\<rparr>"

end
