(* ===== verification/Rdp_Types.thy ===== *)
theory Rdp_Types
  imports Crypto Store
begin

text \<open>
  The values the proxy packages hand to each other: the credentials a client typed, the
  redirection it is answered with, what the first packet said, and the policy's decision.
\<close>

record credentials =
  cr_domain :: string
  cr_username :: string
  cr_password :: string

record redirection =
  rd_session :: "32 word"
  rd_token :: string
  rd_username :: string
  rd_domain :: string
  rd_password :: string

record connection_request =
  cq_raw :: bytes
  cq_cookie :: string
  cq_routing_token :: string

record decision =
  dc_allow :: bool
  dc_backend :: "backend option"
  dc_grant :: int
  dc_target :: int
  dc_reason :: string

definition refuse :: "string \<Rightarrow> decision" where
  "refuse reason = \<lparr>dc_allow = False, dc_backend = None, dc_grant = 0, dc_target = 0, dc_reason = reason\<rparr>"

definition allow :: "target \<Rightarrow> int \<Rightarrow> decision" where
  "allow t gid = \<lparr>dc_allow = True, dc_backend = Some (Addr t), dc_grant = gid, dc_target = t_id t, dc_reason = []\<rparr>"

lemma refuse_not_allow [simp]: "\<not> dc_allow (refuse r)" and allow_allows [simp]: "dc_allow (allow t g)"
  by (simp_all add: refuse_def allow_def)

text \<open>\<open>rdp.SplitPassword\<close>: the second factor follows the last comma.\<close>

definition SplitPassword :: "string \<Rightarrow> string \<times> string" where
  "SplitPassword raw =
     (case last_index_of (CHR '','') raw of
        None \<Rightarrow> (raw, [])
      | Some i \<Rightarrow> (take i raw, trim_space (drop (Suc i) raw)))"

text \<open>
  Appending a comma and a factor without commas is split again into exactly the two parts,
  whatever the password contains.
\<close>

lemma SplitPassword_append:
  "CHR '','' \<notin> set f \<Longrightarrow> SplitPassword (pw @ CHR '','' # f) = (pw, trim_space f)"
  by (simp add: SplitPassword_def last_index_of_append)

lemma SplitPassword_no_factor: "CHR '','' \<notin> set raw \<Longrightarrow> SplitPassword raw = (raw, [])"
  by (simp add: SplitPassword_def last_index_of_None [THEN iffD2])

end
