(* ===== verification/X224.thy ===== *)
theory X224
  imports Rdp_Types
begin

unbundle bit_operations_syntax

text \<open>
  \<open>internal/proxy/x224\<close>: the first packet of a connection.  The reader is the bytes the client has
  sent before the stream ends or times out; \<open>Read\<close> returns the request and the bytes left.
\<close>

datatype x224_error = ErrNotTPKT | ErrNotCR | ErrTooLarge | ErrTruncated

definition tpktHeader :: nat where "tpktHeader = 4"
definition x224MinLen :: nat where "x224MinLen = 7"
definition MaxCRSize :: nat where "MaxCRSize = 2048"
definition crCode :: byte where "crCode = 0xE0"

definition cookiePrefix :: string where
  "cookiePrefix = ''Cookie: mstshash=''"

definition mstsPrefix :: string where
  "mstsPrefix = ''Cookie: msts=''"

fun firstLine :: "bytes \<Rightarrow> bytes option" where
  "firstLine (a # b # bs) =
     (if a = 0x0D \<and> b = 0x0A then Some [] else map_option (\<lambda>l. a # l) (firstLine (b # bs)))"
| "firstLine _ = None"

definition cookie_rune :: "rune \<Rightarrow> bool" where
  "cookie_rune r \<longleftrightarrow> (97 \<le> r \<and> r \<le> 122) \<or> (65 \<le> r \<and> r \<le> 90) \<or> (48 \<le> r \<and> r \<le> 57) \<or>
     r \<in> {46, 45, 95, 64, 92}"

fun sanitize_runes :: "rune list \<Rightarrow> string \<Rightarrow> string" where
  "sanitize_runes [] b = b"
| "sanitize_runes (r # rs) b =
     (if 64 \<le> length b then b
      else sanitize_runes rs (if cookie_rune r then b @ utf8 r else b))"

definition sanitize :: "string \<Rightarrow> string" where
  "sanitize s = sanitize_runes (runes s) []"

definition parse_cookie :: "bytes \<Rightarrow> string \<times> string" where
  "parse_cookie body =
     (case firstLine body of
        None \<Rightarrow> ([], [])
      | Some l \<Rightarrow>
        (let line = string_of l in
         if has_prefix line cookiePrefix then (sanitize (trim_prefix line cookiePrefix), [])
         else if has_prefix line mstsPrefix then ([], sanitize (trim_prefix line mstsPrefix))
         else ([], [])))"

definition Read :: "bytes \<Rightarrow> x224_error + connection_request \<times> bytes" where
  "Read r =
     (if length r < tpktHeader then Inl ErrTruncated
      else if r ! 0 \<noteq> 3 then Inl ErrNotTPKT
      else let len = unat (get_be16 (drop 2 r)) in
        if len < tpktHeader + x224MinLen then Inl ErrTruncated
        else if MaxCRSize < len then Inl ErrTooLarge
        else if length r < len then Inl ErrTruncated
        else let raw = take len r in
          if raw ! 5 \<noteq> crCode then Inl ErrNotCR
          else if len < unat (raw ! 4) + tpktHeader + 1 then Inl ErrTruncated
          else case parse_cookie (drop (tpktHeader + x224MinLen) raw) of
            (cookie, token) \<Rightarrow> Inr (\<lparr>cq_raw = raw, cq_cookie = cookie, cq_routing_token = token\<rparr>, drop len r))"

section \<open>What a request can contain\<close>

definition cookie_char :: "char \<Rightarrow> bool" where
  "cookie_char c \<longleftrightarrow> cookie_rune (byte_val c)"

lemma cookie_rune_ascii: "cookie_rune r \<Longrightarrow> r < 128"
  by (auto simp: cookie_rune_def)

lemma utf8_cookie_rune: "cookie_rune r \<Longrightarrow> utf8 r = [char_of r]"
  using cookie_rune_ascii [of r] by (simp add: utf8_def utf8_bytes_def valid_rune_def)

lemma sanitize_runes_shape:
  "length b \<le> 64 \<Longrightarrow> \<forall>c \<in> set b. cookie_char c \<Longrightarrow>
     length (sanitize_runes rs b) \<le> 64 \<and> (\<forall>c \<in> set (sanitize_runes rs b). cookie_char c)"
proof (induction rs arbitrary: b)
  case (Cons r rs)
  show ?case
  proof (cases "cookie_rune r \<and> length b < 64")
    case True
    then have cc: "cookie_char (char_of r)" using cookie_rune_ascii [of r] by (simp add: cookie_char_def)
    have step: "sanitize_runes (r # rs) b = sanitize_runes rs (b @ [char_of r])"
      using True by (simp add: utf8_cookie_rune)
    show ?thesis
      unfolding step by (rule Cons.IH) (use True cc Cons.prems in auto)
  next
    case False
    then have "sanitize_runes (r # rs) b = b \<or> sanitize_runes (r # rs) b = sanitize_runes rs b" by auto
    then show ?thesis using Cons.IH [OF Cons.prems] Cons.prems by auto
  qed
qed simp

lemma sanitize_shape: "length (sanitize s) \<le> 64 \<and> (\<forall>c \<in> set (sanitize s). cookie_char c)"
  unfolding sanitize_def by (rule sanitize_runes_shape) simp_all

lemma sanitize_runes_id:
  "length b + length s \<le> 64 \<Longrightarrow> \<forall>c \<in> set s. cookie_char c \<Longrightarrow> sanitize_runes (map of_char s) b = b @ s"
  by (induction s arbitrary: b) (auto simp: cookie_char_def utf8_cookie_rune)

lemma cookie_char_ascii: "cookie_char c \<Longrightarrow> byte_val c < 128"
  by (simp add: cookie_char_def cookie_rune_ascii)

lemma sanitize_id:
  assumes "length s \<le> 64" and "\<forall>c \<in> set s. cookie_char c"
  shows "sanitize s = s"
proof -
  have "ascii_string s" using assms(2) by (auto simp: ascii_string_def dest: cookie_char_ascii)
  then show ?thesis using sanitize_runes_id [of "[]" s] assms by (simp add: sanitize_def runes_ascii)
qed

lemma firstLine_append:
  "0x0D \<notin> set l \<Longrightarrow> firstLine (l @ 0x0D # 0x0A # rest) = Some l"
proof (induction l)
  case (Cons a l)
  then show ?case by (cases l) auto
qed simp

lemma get_be16_take: "2 \<le> k \<Longrightarrow> get_be16 (take k xs) = get_be16 xs"
proof -
  assume "2 \<le> k"
  then obtain j where "k = Suc (Suc j)" by (metis Suc_le_D numeral_2_eq_2 Suc_le_mono)
  then show ?thesis by (cases xs; cases "tl xs") auto
qed

lemma Read_Inr:
  assumes "Read r = Inr (cq, rest)"
  shows "r = cq_raw cq @ rest \<and> 11 \<le> length (cq_raw cq) \<and> length (cq_raw cq) \<le> 2048 \<and>
     cq_raw cq ! 0 = 3 \<and> unat (get_be16 (drop 2 (cq_raw cq))) = length (cq_raw cq) \<and>
     cq_raw cq ! 5 = crCode \<and> unat (cq_raw cq ! 4) + 5 \<le> length (cq_raw cq) \<and>
     (cq_cookie cq, cq_routing_token cq) = parse_cookie (drop 11 (cq_raw cq))"
proof -
  let ?n = "unat (get_be16 (drop 2 r))"
  have raw: "cq_raw cq = take ?n r" "rest = drop ?n r" and n: "11 \<le> ?n" "?n \<le> 2048" "?n \<le> length r"
    and c: "r ! 0 = 3" "take ?n r ! 5 = crCode" "unat (take ?n r ! 4) + 5 \<le> ?n"
    and p: "parse_cookie (drop 11 (take ?n r)) = (cq_cookie cq, cq_routing_token cq)"
    using assms by (auto simp: Read_def Let_def tpktHeader_def x224MinLen_def MaxCRSize_def not_less split: prod.split_asm)
  have "get_be16 (drop 2 (take ?n r)) = get_be16 (drop 2 r)"
    using n by (simp add: drop_take get_be16_take)
  with raw n c p show ?thesis by simp
qed

lemma parse_cookie_shape:
  assumes "parse_cookie body = (cookie, token)"
  shows "(cookie = [] \<or> token = []) \<and> length cookie \<le> 64 \<and> length token \<le> 64 \<and>
     (\<forall>c \<in> set cookie \<union> set token. cookie_char c)"
  using assms by (auto simp: parse_cookie_def Let_def sanitize_shape split: option.split_asm if_split_asm)

section \<open>Requests as clients build them\<close>

text \<open>
  The request a client sends: the TPKT and X.224 headers, then the variable part.  A client that
  was redirected starts that part with the routing token it was handed, byte for byte.
\<close>

definition cr_packet :: "bytes \<Rightarrow> bytes" where
  "cr_packet var =
     [3, 0] @ be16 (word_of_nat (11 + length var)) @ [word_of_nat (6 + length var), crCode, 0, 0, 0, 0, 0] @ var"

definition routingToken :: "string \<Rightarrow> bytes" where
  "routingToken token = bytes_of (mstsPrefix @ token) @ [0x0D, 0x0A]"

lemma length_cr_packet: "length (cr_packet var) = 11 + length var"
  by (simp add: cr_packet_def be16_def)

lemma Read_cr_packet:
  assumes "length var \<le> 2037"
  shows "Read (cr_packet var @ rest) =
    (case parse_cookie var of (c, t) \<Rightarrow> Inr (\<lparr>cq_raw = cr_packet var, cq_cookie = c, cq_routing_token = t\<rparr>, rest))"
proof -
  let ?n = "11 + length var" and ?r = "cr_packet var @ rest"
  obtain h l where be: "be16 (word_of_nat ?n) = [h, l]" by (simp add: be16_def)
  have pkt: "cr_packet var = [3, 0, h, l, word_of_nat (6 + length var), crCode, 0, 0, 0, 0, 0] @ var"
    unfolding cr_packet_def be by simp
  have "get_be16 (h # l # xs) = word_of_nat ?n" for xs
    using be16.dec_enc [of "word_of_nat ?n" xs] by (simp only: be append_Cons append_Nil)
  then have "get_be16 (drop 2 ?r) = word_of_nat ?n" by (simp add: pkt)
  moreover have "unat (word_of_nat ?n :: 16 word) = ?n"
    by (rule unat_word_16) (use assms in simp)
  ultimately have len: "unat (get_be16 (drop 2 ?r)) = ?n" by simp
  have take_n: "take ?n ?r = cr_packet var" "drop ?n ?r = rest"
    using length_cr_packet [of var] by simp_all
  have li: "unat (word_of_nat (6 + length var) :: byte) \<le> 6 + length var"
    unfolding unat_of_nat by (rule mod_less_eq_dividend)
  have nth: "?r ! 0 = 3" "cr_packet var ! 5 = crCode" "cr_packet var ! 4 = word_of_nat (6 + length var)"
    "drop 11 (cr_packet var) = var" "length ?r = ?n + length rest"
    by (simp_all add: pkt)
  show ?thesis
    unfolding Read_def Let_def len take_n nth tpktHeader_def x224MinLen_def MaxCRSize_def
    using assms li nth by (simp split: prod.split)
qed

lemma unat_numeral_13: "unat (13 :: byte) = 13"
  by simp

lemma no_CR: "\<forall>c \<in> set s. byte_val c \<noteq> 13 \<Longrightarrow> 0x0D \<notin> set (bytes_of s)"
proof
  assume n: "\<forall>c \<in> set s. byte_val c \<noteq> 13" and "0x0D \<in> set (bytes_of s)"
  then obtain c where "c \<in> set s" "byte_of c = 13" by (auto simp: bytes_of_def)
  then have "char_of (unat (13 :: byte)) = c" by (metis char_of_byte_of)
  then have "byte_val c = 13" by (metis (full_types) char_of_eq_iff unat_lt_256 unat_numeral_13)
  with n \<open>c \<in> set s\<close> show False by simp
qed

lemma b64_url_cookie: "c \<in> set (b64_encode b64_url bs) \<Longrightarrow> cookie_char c"
proof -
  have "\<forall>c \<in> set b64_url. cookie_char c" by (simp add: b64_url_def cookie_char_def cookie_rune_def)
  then show "c \<in> set (b64_encode b64_url bs) \<Longrightarrow> cookie_char c" by (blast dest: url_alphabet.encode_chars)
qed

lemma parse_routing_token:
  assumes "length token \<le> 64" and "\<forall>c \<in> set token. cookie_char c"
  shows "parse_cookie (routingToken token @ extra) = ([], token)"
proof -
  have cr: "byte_val c \<noteq> 13" if "cookie_char c" for c
    using that by (auto simp: cookie_char_def cookie_rune_def)
  have "\<forall>c \<in> set (mstsPrefix @ token). byte_val c \<noteq> 13"
    using assms(2) cr by (auto simp: mstsPrefix_def)
  then have "firstLine (routingToken token @ extra) = Some (bytes_of (mstsPrefix @ token))"
    using firstLine_append [OF no_CR, of "mstsPrefix @ token" extra] by (simp add: routingToken_def)
  moreover have "\<not> has_prefix (mstsPrefix @ token) cookiePrefix" "has_prefix (mstsPrefix @ token) mstsPrefix"
    by (simp_all add: has_prefix_def mstsPrefix_def cookiePrefix_def)
  ultimately show ?thesis
    using sanitize_id [OF assms] by (simp add: parse_cookie_def trim_prefix_def mstsPrefix_def)
qed

section \<open>Guarantees\<close>

text \<open>Reading the first packet is exact and safe: an accepted request is precisely the packet its
  header announces - at least a full header, at most 2048 bytes, a connection request whose
  length indicator fits - every later byte is left for the relay, and what it says about the
  caller is at most one of a name and a routing token, of at most 64 characters, none of which
  can be a control character, a blank or a quote.\<close>

theorem first_packet_exact:
  assumes "Read r = Inr (cq, rest)"
  shows "r = cq_raw cq @ rest \<and> 11 \<le> length (cq_raw cq) \<and> length (cq_raw cq) \<le> 2048 \<and>
     cq_raw cq ! 0 = 3 \<and> cq_raw cq ! 5 = 0xE0 \<and> unat (get_be16 (drop 2 (cq_raw cq))) = length (cq_raw cq) \<and>
     unat (cq_raw cq ! 4) + 5 \<le> length (cq_raw cq) \<and>
     (cq_cookie cq = [] \<or> cq_routing_token cq = []) \<and>
     length (cq_cookie cq) \<le> 64 \<and> length (cq_routing_token cq) \<le> 64 \<and>
     (\<forall>c \<in> set (cq_cookie cq) \<union> set (cq_routing_token cq).
        c \<in> set (b64_url @ ''.@'' @ [CHR 0x5C]))"
proof -
  note R = Read_Inr [OF assms]
  have "c \<in> set (b64_url @ ''.@'' @ [CHR 0x5C])" if "cookie_char c" for c
  proof -
    have "byte_val c \<in> set ([48..<58] @ [65..<91] @ [97..<123] @ [46, 45, 95, 64, 92])"
      using that by (auto simp: cookie_char_def cookie_rune_def simp del: upt_rec_numeral)
    moreover have "\<forall>n \<in> set ([48..<58] @ [65..<91] @ [97..<123] @ [46, 45, 95, 64, 92]).
        char_of n \<in> set (b64_url @ ''.@'' @ [CHR 0x5C])"
      by (simp add: upt_rec b64_url_def char_of_eq_iff)
    ultimately have "char_of (byte_val c) \<in> set (b64_url @ ''.@'' @ [CHR 0x5C])" by blast
    then show ?thesis by simp
  qed
  moreover have "(cq_cookie cq = [] \<or> cq_routing_token cq = []) \<and> length (cq_cookie cq) \<le> 64 \<and>
      length (cq_routing_token cq) \<le> 64 \<and> (\<forall>c \<in> set (cq_cookie cq) \<union> set (cq_routing_token cq). cookie_char c)"
    using R by (intro parse_cookie_shape) simp
  ultimately show ?thesis using R by (simp add: crCode_def)
qed

text \<open>The token of a redirection comes back intact: a client that echoes the routing token it was
  handed at the start of its next connection request, whatever it adds after it, is read as
  carrying exactly that token and no user name, and the request is kept byte for byte.\<close>

theorem redirect_token_roundtrip:
  assumes "RandomToken (Some bs) = Some token" and "length bs = 24" and "length extra \<le> 1900"
  shows "Read (cr_packet (routingToken token @ extra) @ rest) =
     Inr (\<lparr>cq_raw = cr_packet (routingToken token @ extra), cq_cookie = [], cq_routing_token = token\<rparr>, rest)"
proof -
  have t: "token = b64_encode b64_url bs" using assms(1) by (simp add: RandomToken_def)
  then have len: "length token = 32" using assms(2) by (simp add: length_b64_encode)
  have "length (routingToken token @ extra) \<le> 2037"
    using assms(3) len by (simp add: routingToken_def mstsPrefix_def bytes_of_def)
  moreover have "parse_cookie (routingToken token @ extra) = ([], token)"
    using len t by (intro parse_routing_token) (auto intro: b64_url_cookie)
  ultimately show ?thesis by (simp add: Read_cr_packet)
qed

theorem redirect_token_roundtrip_witness:
  "\<exists>token cq. RandomToken (Some (replicate 24 0)) = Some token \<and>
     Read (cr_packet (routingToken token @ [1, 0, 8, 0, 3, 0, 0, 0]) @ [9]) = Inr (cq, [9]) \<and> cq_routing_token cq = token"
proof -
  obtain token where t: "RandomToken (Some (replicate 24 0)) = Some token" by (simp add: RandomToken_def)
  with redirect_token_roundtrip [OF t, of "[1, 0, 8, 0, 3, 0, 0, 0]" "[9]"] show ?thesis by auto
qed

theorem first_packet_exact_witness:
  "\<exists>cq. Read (cr_packet [1, 0, 8, 0, 3, 0, 0, 0] @ [7]) = Inr (cq, [7]) \<and> length (cq_raw cq) \<le> 2048"
proof -
  obtain c t where "parse_cookie [1, 0, 8, 0, 3, 0, 0, 0] = (c, t)" by fastforce
  then obtain cq where r: "Read (cr_packet [1, 0, 8, 0, 3, 0, 0, 0] @ [7]) = Inr (cq, [7])"
    by (simp add: Read_cr_packet)
  with first_packet_exact [OF r] show ?thesis by blast
qed

end
