(* ===== verification/Store_Inv.thy ===== *)
theory Store_Inv
  imports Store
begin

text \<open>
  What every statement keeps of the database: row ids increase and stay below the
  autoincrement counter, unique columns are unique, references resolve, and the CHECK
  constraints hold.  The statements are the rules of \<open>db_step\<close>; the invariant holds of every
  database reachable from the empty one.
\<close>

section \<open>Tables in id order\<close>

definition ids :: "('r \<Rightarrow> int) \<Rightarrow> 'r list \<Rightarrow> int \<Rightarrow> bool" where
  "ids f rows n \<longleftrightarrow> sorted_wrt (<) (map f rows) \<and> (\<forall>r \<in> set rows. 0 < f r \<and> f r \<le> n) \<and> 0 \<le> n"

lemma ids_Nil [simp]: "ids f [] n \<longleftrightarrow> 0 \<le> n"
  by (simp add: ids_def)

lemma ids_snoc: "ids f rows n \<Longrightarrow> f r = m \<Longrightarrow> m = n + 1 \<Longrightarrow> ids f (rows @ [r]) m"
  by (fastforce simp: ids_def sorted_wrt_append)

lemma ids_filter: "ids f rows n \<Longrightarrow> ids f (filter p rows) n"
proof -
  have "sorted_wrt (<) (map f rows) \<Longrightarrow> sorted_wrt (<) (map f (filter p rows))"
    by (induction rows) auto
  then show "ids f rows n \<Longrightarrow> ids f (filter p rows) n" by (simp add: ids_def)
qed

lemma ids_map: "ids f rows n \<Longrightarrow> (\<And>r. f (h r) = f r) \<Longrightarrow> ids f (map h rows) n"
proof -
  assume a: "ids f rows n" and h: "\<And>r. f (h r) = f r"
  have "map f (map h rows) = map f rows" by (simp add: h)
  with a show ?thesis by (auto simp: ids_def h simp del: map_map)
qed

lemma ids_update_where: "ids f rows n \<Longrightarrow> (\<And>r. f (h r) = f r) \<Longrightarrow> ids f (update_where p h rows) n"
  unfolding update_where_def by (rule ids_map) auto

lemma ids_inj: "ids f rows n \<Longrightarrow> r \<in> set rows \<Longrightarrow> s \<in> set rows \<Longrightarrow> f r = f s \<Longrightarrow> r = s"
proof -
  assume a: "ids f rows n" and m: "r \<in> set rows" "s \<in> set rows" "f r = f s"
  from a have "distinct (map f rows)"
    by (simp add: ids_def strict_sorted_iff)
  then have "inj_on f (set rows)" by (simp add: distinct_map)
  with m show ?thesis by (auto dest: inj_onD)
qed

lemma find_by_id:
  assumes "ids f rows n" and "r \<in> set rows" and "f r = i"
  shows "find (\<lambda>r. f r = i) rows = Some r"
proof (cases "find (\<lambda>r. f r = i) rows")
  case None
  with assms show ?thesis by (auto simp: find_None_iff)
next
  case (Some s)
  then have "s \<in> set rows" and "f s = i" by (auto dest: find_holds)
  with assms Some show ?thesis by (metis ids_inj)
qed

lemma affected_le_one:
  assumes "ids f rows n"
  shows "affected (\<lambda>r. f r = i \<and> q r) rows \<le> 1"
proof -
  have "distinct (map f (filter (\<lambda>r. f r = i \<and> q r) rows))"
    using ids_filter [OF assms] by (simp add: ids_def strict_sorted_iff)
  moreover have "map f (filter (\<lambda>r. f r = i \<and> q r) rows) = replicate (affected (\<lambda>r. f r = i \<and> q r) rows) i"
    by (auto simp: affected_def intro!: replicate_eqI)
  ultimately have "distinct (replicate (affected (\<lambda>r. f r = i \<and> q r) rows) i)" by simp
  then show ?thesis by (cases "affected (\<lambda>r. f r = i \<and> q r) rows") (auto simp: not_less_eq_eq dest: Suc_le_D)
qed

lemma set_update_where: "set (update_where p h rows) = (\<lambda>r. if p r then h r else r) ` set rows"
  by (simp add: update_where_def)

lemma map_update_where: "(\<And>r. f (h r) = f r) \<Longrightarrow> map f (update_where p h rows) = map f rows"
  by (simp add: update_where_def)

section \<open>The invariant\<close>

definition ids_ok :: "db \<Rightarrow> bool" where
  "ids_ok d \<longleftrightarrow>
     ids u_id (users d) (seq d TUsers) \<and> ids t_id (targets d) (seq d TTargets) \<and>
     ids g_id (grants d) (seq d TGrants) \<and> ids s_id (sessions d) (seq d TSessions) \<and>
     ids r_id (rtokens d) (seq d TRTokens) \<and> ids j_id (jits d) (seq d TJit) \<and>
     ids p_id (rdp_sessions d) (seq d TRdp) \<and> ids b_id (codes d) (seq d TCodes) \<and>
     ids k_id (creds d) (seq d TCreds)"

text \<open>The index on the RDP hints covers the hints that are not empty, without regard to case.\<close>

definition hints :: "user list \<Rightarrow> string list" where
  "hints us = map (\<lambda>u. lower_string (u_rdp_hint u)) (filter (\<lambda>u. u_rdp_hint u \<noteq> []) us)"

definition unique_ok :: "db \<Rightarrow> bool" where
  "unique_ok d \<longleftrightarrow>
     distinct (map u_username (users d)) \<and> distinct (hints (users d)) \<and>
     distinct (map t_name (targets d)) \<and>
     distinct (map s_token_hash (sessions d)) \<and> distinct (map r_hash (rtokens d)) \<and>
     distinct (map k_cred (creds d)) \<and> distinct (user_targets d)"

definition check_ok :: "db \<Rightarrow> bool" where
  "check_ok d \<longleftrightarrow>
     (\<forall>u \<in> set (users d). (u_role u = ''admin'' \<or> u_role u = ''user'') \<and> valid_status (u_status u)) \<and>
     (\<forall>g \<in> set (grants d). valid_mode (g_mode g)) \<and>
     (\<forall>j \<in> set (jits d). valid_jit_state (j_state j))"

definition refs :: "int set \<Rightarrow> int option \<Rightarrow> bool" where
  "refs S r \<longleftrightarrow> (case r of None \<Rightarrow> True | Some i \<Rightarrow> i \<in> S)"

abbreviation user_ids :: "db \<Rightarrow> int set" where "user_ids d \<equiv> u_id ` set (users d)"
abbreviation target_ids :: "db \<Rightarrow> int set" where "target_ids d \<equiv> t_id ` set (targets d)"
abbreviation grant_ids :: "db \<Rightarrow> int set" where "grant_ids d \<equiv> g_id ` set (grants d)"

definition fk_ok :: "db \<Rightarrow> bool" where
  "fk_ok d \<longleftrightarrow>
     (\<forall>(u, t) \<in> set (user_targets d). u \<in> user_ids d \<and> t \<in> target_ids d) \<and>
     (\<forall>g \<in> set (grants d). g_user g \<in> user_ids d \<and> g_target g \<in> target_ids d) \<and>
     (\<forall>s \<in> set (sessions d). s_user s \<in> user_ids d) \<and>
     (\<forall>r \<in> set (rtokens d). r_user r \<in> user_ids d \<and> r_target r \<in> target_ids d) \<and>
     (\<forall>j \<in> set (jits d). refs (user_ids d) (j_user j) \<and> refs (target_ids d) (j_target j)) \<and>
     (\<forall>s \<in> set (rdp_sessions d). refs (grant_ids d) (p_grant s) \<and> refs (target_ids d) (p_target s)) \<and>
     (\<forall>c \<in> set (codes d). b_user c \<in> user_ids d) \<and>
     (\<forall>k \<in> set (creds d). k_user k \<in> user_ids d)"

definition db_ok :: "db \<Rightarrow> bool" where
  "db_ok d \<longleftrightarrow> ids_ok d \<and> unique_ok d \<and> check_ok d \<and> fk_ok d"

section \<open>Statements as steps\<close>

inductive db_step :: "db \<Rightarrow> db \<Rightarrow> bool" where
  create_user: "CreateUser now u d = Inr (i, d') \<Longrightarrow> db_step d d'"
| claim_counter: "ClaimTOTPCounter uid c d = Inr d' \<Longrightarrow> db_step d d'"
| set_secret: "SetTOTPSecret uid enc d = Inr d' \<Longrightarrow> db_step d d'"
| set_status: "SetUserStatus uid st d = Inr d' \<Longrightarrow> db_step d d'"
| delete_user: "DeleteUser uid d = Inr d' \<Longrightarrow> db_step d d'"
| create_target: "CreateTarget t d = Inr (i, d') \<Longrightarrow> db_step d d'"
| delete_target: "DeleteTarget tid d = Inr d' \<Longrightarrow> db_step d d'"
| grant_access: "GrantTargetAccess uid tid d = Inr d' \<Longrightarrow> db_step d d'"
| revoke_access: "RevokeTargetAccess uid tid d = Inr d' \<Longrightarrow> db_step d d'"
| create_grant: "CreateGrant g th d = Inr (i, d') \<Longrightarrow> db_step d d'"
| consume_grant: "ConsumeGrant now i reuse d = Inr d' \<Longrightarrow> db_step d d'"
| revoke_grants: "RevokeGrantsForUser now uid d = Inr d' \<Longrightarrow> db_step d d'"
| purge: "PurgeExpired older d = Inr d' \<Longrightarrow> db_step d d'"
| open_rdp: "OpenRDPSession now gid tid src d = Inr (i, d') \<Longrightarrow> db_step d d'"
| close_rdp: "CloseRDPSession now i bin bout reason d = Inr d' \<Longrightarrow> db_step d d'"
| stale_rdp: "MarkStaleSessionsClosed now d = Inr d' \<Longrightarrow> db_step d d'"
| create_jit: "CreateJITRequest now hint uid tid src d = Inr (i, d') \<Longrightarrow> db_step d d'"
| set_jit: "SetJITState now i st via d = Inr d' \<Longrightarrow> db_step d d'"
| expire_jit: "ExpirePendingJIT now older d = Inr d' \<Longrightarrow> db_step d d'"
| create_token: "CreateRedirectToken now th uid tid src ex d = Inr d' \<Longrightarrow> db_step d d'"
| claim_rtoken: "claim_token now th src d = Inr d' \<Longrightarrow> db_step d d'"
| purge_tokens: "PurgeRedirectTokens older d = Inr d' \<Longrightarrow> db_step d d'"
| add_code: "AddBackupCode uid h d = Inr d' \<Longrightarrow> db_step d d'"
| delete_codes: "DeleteBackupCodes uid d = Inr d' \<Longrightarrow> db_step d d'"
| claim_code: "ClaimBackupCode now i d = Inr d' \<Longrightarrow> db_step d d'"
| add_passkey: "AddPasskey now k d = Inr (i, d') \<Longrightarrow> db_step d d'"
| sign_count: "UpdateSignCount i n d = Inr d' \<Longrightarrow> db_step d d'"
| delete_passkey: "DeletePasskey uid i d = Inr d' \<Longrightarrow> db_step d d'"
| set_setting: "SetSetting now key v who d = Inr d' \<Longrightarrow> db_step d d'"
| clear_setting: "ClearSetting key d = Inr d' \<Longrightarrow> db_step d d'"
| session_insert: "insert_session uid th src agent created ex d = Inr d' \<Longrightarrow> db_step d d'"
| session_delete: "db_step d (delete_sessions p d)"
| session_touch: "db_step d (touch_session now i d)"

inductive db_reachable :: "db \<Rightarrow> bool" where
  start: "db_reachable empty_db"
| step: "db_reachable d \<Longrightarrow> db_step d d' \<Longrightarrow> db_reachable d'"

lemmas statement_defs =
  CreateUser_def ClaimTOTPCounter_def SetTOTPSecret_def SetUserStatus_def DeleteUser_def
  CreateTarget_def DeleteTarget_def GrantTargetAccess_def RevokeTargetAccess_def CreateGrant_def
  ConsumeGrant_def RevokeGrantsForUser_def PurgeExpired_def OpenRDPSession_def CloseRDPSession_def
  MarkStaleSessionsClosed_def CreateJITRequest_def SetJITState_def ExpirePendingJIT_def
  CreateRedirectToken_def claim_token_def PurgeRedirectTokens_def AddBackupCode_def DeleteBackupCodes_def
  ClaimBackupCode_def AddPasskey_def UpdateSignCount_def DeletePasskey_def SetSetting_def
  ClearSetting_def insert_session_def delete_sessions_def touch_session_def
  delete_grants_def bump_def next_id_def Let_def

lemma ids_ok_step: "db_step d d' \<Longrightarrow> ids_ok d \<Longrightarrow> ids_ok d'"
  by (induction rule: db_step.induct)
    (clarsimp simp: ids_ok_def statement_defs ids_filter ids_update_where ids_map split: if_split_asm;
     (rule ids_snoc, assumption)?; simp)+

lemma distinct_map_filter: "distinct (map f xs) \<Longrightarrow> distinct (map f (filter p xs))"
  by (induction xs) auto

lemma hints_filter: "distinct (hints us) \<Longrightarrow> distinct (hints (filter p us))"
  by (induction us) (auto simp: hints_def)

lemma hints_snoc:
  "distinct (hints (us @ [u])) \<longleftrightarrow> distinct (hints us) \<and>
     (u_rdp_hint u \<noteq> [] \<longrightarrow> (\<forall>v \<in> set us. u_rdp_hint v \<noteq> [] \<longrightarrow> lower_string (u_rdp_hint v) \<noteq> lower_string (u_rdp_hint u)))"
  by (auto simp: hints_def image_iff)

lemma hints_update_where: "(\<And>u. u_rdp_hint (h u) = u_rdp_hint u) \<Longrightarrow> hints (update_where p h us) = hints us"
  by (induction us) (auto simp: hints_def update_where_def)

lemma unique_ok_step: "db_step d d' \<Longrightarrow> unique_ok d \<Longrightarrow> unique_ok d'"
  by (induction rule: db_step.induct)
    (clarsimp simp: unique_ok_def statement_defs map_update_where distinct_map_filter comp_def
      hints_filter hints_snoc hints_update_where split: if_split_asm; fastforce)+

lemma ball_update_where:
  "(\<forall>r \<in> set (update_where p h rows). Q r) \<longleftrightarrow> (\<forall>r \<in> set rows. if p r then Q (h r) else Q r)"
  by (auto simp: update_where_def)

lemma affected_0 [simp]: "affected p rows = 0 \<longleftrightarrow> (\<forall>r \<in> set rows. \<not> p r)"
  by (auto simp: affected_def filter_empty_conv)

lemma status_literals [simp]:
  "valid_status ''active''" "valid_jit_state ''pending''" "valid_jit_state ''timeout''"
  by (simp_all add: valid_status_def valid_jit_state_def)

lemma check_ok_step: "db_step d d' \<Longrightarrow> check_ok d \<Longrightarrow> check_ok d'"
  by (induction rule: db_step.induct)
    (clarsimp simp: check_ok_def statement_defs ball_update_where split: if_split_asm; blast?)+

section \<open>References\<close>

lemma refs_simps [simp]: "refs S None" "refs S (Some i) \<longleftrightarrow> i \<in> S"
  by (simp_all add: refs_def)

lemma refs_insert: "refs S r \<Longrightarrow> refs (insert x S) r"
  by (auto simp: refs_def split: option.splits)

lemma refs_delete:
  "refs (f ` set rows) r \<Longrightarrow>
     refs (f ` {x \<in> set rows. \<not> P x}) (null_if (\<lambda>i. \<exists>x \<in> set rows. f x = i \<and> P x) r)"
  by (auto simp: refs_def null_if_def split: option.splits)

lemma refs_delete_id: "refs S r \<Longrightarrow> refs (S - {i}) (null_if (\<lambda>j. j = i) r)"
  by (auto simp: refs_def null_if_def split: option.splits)

lemma image_without: "f ` {x \<in> set rows. f x \<noteq> i} = f ` set rows - {i}"
  by auto

lemma image_update_where: "(\<And>r. f (h r) = f r) \<Longrightarrow> f ` set (update_where p h rows) = f ` set rows"
  unfolding set_update_where image_image by (rule image_cong) auto

lemma user_exists_ids: "user_exists d i \<longleftrightarrow> i \<in> user_ids d"
  and target_exists_ids: "target_exists d i \<longleftrightarrow> i \<in> target_ids d"
  and grant_exists_ids: "grant_exists d i \<longleftrightarrow> i \<in> grant_ids d"
  by (auto simp: user_exists_def target_exists_def grant_exists_def image_iff)

lemmas fk_simps = fk_ok_def statement_defs ball_update_where image_update_where
  user_exists_ids target_exists_ids grant_exists_ids

lemma fk_ok_step: "db_step d d' \<Longrightarrow> fk_ok d \<Longrightarrow> fk_ok d'"
  by (induction rule: db_step.induct)
    (clarsimp simp: fk_simps image_without refs_insert refs_delete refs_delete_id
        refs_delete [where P = "\<lambda>g. g_user g = i" for i, simplified]
        refs_delete [where P = "\<lambda>g. g_target g = i" for i, simplified]
      split: if_split_asm; fastforce)+

theorem db_ok_step: "db_step d d' \<Longrightarrow> db_ok d \<Longrightarrow> db_ok d'"
  by (simp add: db_ok_def ids_ok_step unique_ok_step check_ok_step fk_ok_step)

lemma db_ok_empty: "db_ok empty_db"
  by (simp add: db_ok_def empty_db_def ids_ok_def unique_ok_def hints_def check_ok_def fk_ok_def)

lemma reachable_db_ok: "db_reachable d \<Longrightarrow> db_ok d"
  by (induction rule: db_reachable.induct) (auto intro: db_ok_empty db_ok_step)

end
