(* ===== verification/Contracts.thy ===== *)
theory Contracts
  imports Revpd_Prelude
begin

text \<open>
  Interfaces that several components provide or rely on, as locales: a resource that can be
  claimed once, and an invariant kept by every step of a transition system.
\<close>

section \<open>Systems with an invariant\<close>

locale guarded_system =
  fixes start :: 's and step :: "'s \<Rightarrow> 's \<Rightarrow> bool" and inv :: "'s \<Rightarrow> bool"
  assumes inv_start: "inv start"
    and inv_step: "step s t \<Longrightarrow> inv s \<Longrightarrow> inv t"
begin

lemma inv_run: "step\<^sup>*\<^sup>* s t \<Longrightarrow> inv s \<Longrightarrow> inv t"
  by (induction rule: rtranclp_induct) (auto intro: inv_step)

lemma inv_reachable: "step\<^sup>*\<^sup>* start t \<Longrightarrow> inv t"
  using inv_run inv_start by blast

end

section \<open>Claiming a resource once\<close>

text \<open>
  \<open>claims k s t\<close>: a caller asked for \<open>k\<close> in \<open>s\<close> and got it, leaving \<open>t\<close>.
  \<open>between k\<close>: what else may happen to the state without issuing \<open>k\<close> afresh.
\<close>

locale one_shot =
  fixes claims :: "'k \<Rightarrow> 's \<Rightarrow> 's \<Rightarrow> bool"
    and spent :: "'k \<Rightarrow> 's \<Rightarrow> bool"
    and between :: "'k \<Rightarrow> 's \<Rightarrow> 's \<Rightarrow> bool"
    and inv :: "'s \<Rightarrow> bool"
  assumes claim_spends: "claims k s t \<Longrightarrow> inv s \<Longrightarrow> spent k t"
    and claim_inv: "claims k s t \<Longrightarrow> inv s \<Longrightarrow> inv t"
    and spent_refuses: "spent k s \<Longrightarrow> inv s \<Longrightarrow> \<not> claims k s t"
    and between_spent: "between k s t \<Longrightarrow> inv s \<Longrightarrow> spent k s \<Longrightarrow> spent k t"
    and between_inv: "between k s t \<Longrightarrow> inv s \<Longrightarrow> inv t"
begin

lemma run_spent: "(between k)\<^sup>*\<^sup>* s t \<Longrightarrow> inv s \<and> spent k s \<Longrightarrow> inv t \<and> spent k t"
  by (induction rule: rtranclp_induct) (auto intro: between_spent between_inv)

lemma at_most_once:
  assumes "inv s" and "claims k s t" and "(between k)\<^sup>*\<^sup>* t u"
  shows "\<not> claims k u v"
  using assms run_spent [of k t u] claim_spends claim_inv spent_refuses by blast

end

end
