(* ===== verification/Store_Props.thy ===== *)
theory Store_Props
  imports Store_Inv Contracts
begin

text \<open>
  What the statements promise their callers: the grant lookup, revocation, deletion, and the
  three resources that are claimed once (redirect tokens, backup codes, TOTP steps); then the properties of the
  whole database.
\<close>

interpretation database: guarded_system empty_db db_step db_ok
  by unfold_locales (auto intro: db_ok_empty db_ok_step)

section \<open>Lookups\<close>

lemma row_or_not_found_Inr [simp]: "row_or_not_found r = Inr x \<longleftrightarrow> r = Some x"
  and row_or_not_found_Inl [simp]: "row_or_not_found r = Inl e \<longleftrightarrow> r = None \<and> e = ErrNotFound"
  by (auto simp: row_or_not_found_def split: option.splits)

lemma last_where_None [simp]: "last_where p rows = None \<longleftrightarrow> (\<forall>r \<in> set rows. \<not> p r)"
proof -
  have "last_where p rows = None \<longleftrightarrow> filter p rows = []"
    by (simp add: last_where_def split: list.splits)
  then show ?thesis by (simp add: filter_empty_conv)
qed

lemma sorted_last: "sorted_wrt (<) (map f xs) \<Longrightarrow> x \<in> set xs \<Longrightarrow> (f x :: int) \<le> f (last xs)"
  by (induction xs) (auto intro: less_imp_le)

lemma last_where_Some:
  assumes "ids f rows n" and "last_where p rows = Some r"
  shows "r \<in> set rows \<and> p r \<and> (\<forall>s \<in> set rows. p s \<longrightarrow> f s \<le> f r)"
proof -
  let ?xs = "filter p rows"
  from assms(2) have ne: "?xs \<noteq> []" and r: "r = last ?xs"
    by (auto simp: last_where_def split: list.splits)
  have "sorted_wrt (<) (map f ?xs)" using ids_filter [OF assms(1), of p] by (simp add: ids_def)
  then have "\<forall>s \<in> set ?xs. f s \<le> f r" unfolding r by (blast intro: sorted_last)
  moreover have "r \<in> set ?xs" unfolding r by (rule last_in_set [OF ne])
  ultimately show ?thesis unfolding set_filter by blast
qed

lemma ActiveGrant_Inr:
  assumes "db_ok d" and "ActiveGrant src now d = Inr g"
  shows "g \<in> set (grants d) \<and> live_grant src now g \<and>
     (\<forall>h \<in> set (grants d). live_grant src now h \<longrightarrow> g_id h \<le> g_id g)"
  using assms last_where_Some [of g_id "grants d" "seq d TGrants"]
  by (auto simp: ActiveGrant_def db_ok_def ids_ok_def)

lemma ActiveGrant_Inl: "ActiveGrant src now d = Inl e \<longleftrightarrow>
   e = ErrNotFound \<and> (\<forall>g \<in> set (grants d). \<not> live_grant src now g)"
  by (auto simp: ActiveGrant_def)

lemma find_id_iff: "ids f rows n \<Longrightarrow> find (\<lambda>r. f r = i) rows = Some r \<longleftrightarrow> r \<in> set rows \<and> f r = i"
  using find_by_id find_holds by fastforce

lemma UserByID_iff: "db_ok d \<Longrightarrow> UserByID i d = Inr u \<longleftrightarrow> u \<in> set (users d) \<and> u_id u = i"
  by (simp add: UserByID_def find_id_iff [of u_id _ "seq d TUsers"] db_ok_def ids_ok_def)

lemma TargetByID_iff: "db_ok d \<Longrightarrow> TargetByID i d = Inr t \<longleftrightarrow> t \<in> set (targets d) \<and> t_id t = i"
  by (simp add: TargetByID_def find_id_iff [of t_id _ "seq d TTargets"] db_ok_def ids_ok_def)

text \<open>A live grant always has its user and its target: the lookups that follow cannot miss.\<close>

lemma grant_refs:
  assumes "db_ok d" and "g \<in> set (grants d)"
  shows "\<exists>u t. UserByID (g_user g) d = Inr u \<and> TargetByID (g_target g) d = Inr t"
proof -
  from assms have "g_user g \<in> user_ids d" "g_target g \<in> target_ids d"
    by (auto simp: db_ok_def fk_ok_def)
  then obtain u t where "u \<in> set (users d)" "u_id u = g_user g" "t \<in> set (targets d)" "t_id t = g_target g"
    by auto
  then show ?thesis using assms(1) by (metis UserByID_iff TargetByID_iff)
qed

section \<open>Revocation and deletion\<close>

text \<open>No live grant of a user, and no way for one to come back except a new grant.\<close>

definition no_live_grant :: "int \<Rightarrow> db \<Rightarrow> bool" where
  "no_live_grant uid d \<longleftrightarrow> (\<forall>g \<in> set (grants d). g_user g = uid \<longrightarrow> g_revoked g \<noteq> None)"

definition grants_nothing_to :: "int \<Rightarrow> db \<Rightarrow> db \<Rightarrow> bool" where
  "grants_nothing_to uid d d' \<longleftrightarrow> db_step d d' \<and> (\<forall>g th r. CreateGrant g th d = Inr r \<longrightarrow> snd r = d' \<longrightarrow> g_user g \<noteq> uid)"

lemma revoke_no_live: "RevokeGrantsForUser now uid d = Inr d' \<Longrightarrow> no_live_grant uid d'"
proof -
  assume "RevokeGrantsForUser now uid d = Inr d'"
  then have "grants d' = update_where (\<lambda>g. g_user g = uid \<and> g_revoked g = None)
      (\<lambda>g. g\<lparr>g_revoked := Some now\<rparr>) (grants d)"
    by (auto simp: RevokeGrantsForUser_def)
  then show ?thesis by (simp add: no_live_grant_def ball_update_where)
qed

lemma no_live_step: "db_step d d' \<Longrightarrow> grants_nothing_to uid d d' \<Longrightarrow> no_live_grant uid d \<Longrightarrow> no_live_grant uid d'"
proof (induction rule: db_step.induct)
  case (create_grant g th d i d')
  then have "g_user g \<noteq> uid" by (force simp: grants_nothing_to_def)
  with create_grant show ?case by (auto simp: no_live_grant_def statement_defs)
qed (auto simp: no_live_grant_def statement_defs set_update_where split: if_split_asm)

lemma no_live_run: "(grants_nothing_to uid)\<^sup>*\<^sup>* d d' \<Longrightarrow> no_live_grant uid d \<Longrightarrow> no_live_grant uid d'"
  by (induction rule: rtranclp_induct) (auto intro: no_live_step simp: grants_nothing_to_def)

lemma grants_run_ok: "(grants_nothing_to uid)\<^sup>*\<^sup>* d d' \<Longrightarrow> db_ok d \<Longrightarrow> db_ok d'"
  by (induction rule: rtranclp_induct) (auto intro: db_ok_step simp: grants_nothing_to_def)

lemma no_live_ActiveGrant: "db_ok d \<Longrightarrow> no_live_grant uid d \<Longrightarrow> ActiveGrant src now d = Inr g \<Longrightarrow> g_user g \<noteq> uid"
  by (auto dest!: ActiveGrant_Inr simp: no_live_grant_def live_grant_def)

text \<open>Row ids are never reused, so what was deleted stays gone.\<close>

definition gone :: "int \<Rightarrow> db \<Rightarrow> bool" where
  "gone uid d \<longleftrightarrow> uid \<le> seq d TUsers \<and> uid \<notin> user_ids d"

lemma gone_step: "db_step d d' \<Longrightarrow> gone uid d \<Longrightarrow> gone uid d'"
  by (induction rule: db_step.induct)
    (clarsimp simp: gone_def statement_defs image_update_where image_without split: if_split_asm; fastforce?)+

lemma gone_run: "db_step\<^sup>*\<^sup>* d d' \<Longrightarrow> gone uid d \<Longrightarrow> gone uid d'"
  by (induction rule: rtranclp_induct) (auto intro: gone_step)

lemma delete_user_gone:
  assumes "db_ok d" and "DeleteUser uid d = Inr d'"
  shows "gone uid d'"
proof -
  from assms obtain u where "u \<in> set (users d)" "u_id u = uid" by (auto simp: DeleteUser_def)
  with assms(1) have "uid \<le> seq d TUsers" by (auto simp: db_ok_def ids_ok_def ids_def)
  with assms(2) show ?thesis by (auto simp: DeleteUser_def delete_grants_def gone_def Let_def)
qed

text \<open>With its references resolved, a database has nothing left that names a deleted user.\<close>

definition mentions_user :: "int \<Rightarrow> db \<Rightarrow> bool" where
  "mentions_user uid d \<longleftrightarrow>
     (\<exists>u \<in> set (users d). u_id u = uid) \<or> (\<exists>g \<in> set (grants d). g_user g = uid) \<or>
     (\<exists>s \<in> set (sessions d). s_user s = uid) \<or> (\<exists>r \<in> set (rtokens d). r_user r = uid) \<or>
     (\<exists>c \<in> set (codes d). b_user c = uid) \<or> (\<exists>k \<in> set (creds d). k_user k = uid) \<or>
     (\<exists>(u, t) \<in> set (user_targets d). u = uid) \<or> (\<exists>j \<in> set (jits d). j_user j = Some uid)"

lemma gone_unmentioned: "db_ok d \<Longrightarrow> gone uid d \<Longrightarrow> \<not> mentions_user uid d"
  by (fastforce simp: mentions_user_def gone_def db_ok_def fk_ok_def refs_def image_iff)

section \<open>Resources claimed once\<close>

definition token_claims :: "string \<Rightarrow> db \<Rightarrow> db \<Rightarrow> bool" where
  "token_claims th d d' \<longleftrightarrow> (\<exists>now src. claim_token now th src d = Inr d')"

definition token_spent :: "string \<Rightarrow> db \<Rightarrow> bool" where
  "token_spent th d \<longleftrightarrow> (\<forall>r \<in> set (rtokens d). r_hash r = th \<longrightarrow> r_used r \<noteq> None)"

definition not_reissued :: "string \<Rightarrow> db \<Rightarrow> db \<Rightarrow> bool" where
  "not_reissued th d d' \<longleftrightarrow>
     db_step d d' \<and> (\<forall>now uid tid src ex. CreateRedirectToken now th uid tid src ex d \<noteq> Inr d')"

lemma unique_affected:
  assumes "distinct (map f rows)" and "r \<in> set rows" and "f r = k" and "p r" and "\<And>s. p s \<Longrightarrow> f s = k"
  shows "affected p rows = 1"
proof -
  have "filter p rows = [r]"
    using assms
    by (induction rows) (auto simp: filter_empty_conv image_iff)
  then show ?thesis by (simp add: affected_def)
qed

lemma affected_1_unique:
  assumes "affected p rows = 1" and "r \<in> set rows" and "s \<in> set rows" and "p r" and "p s"
  shows "r = s"
proof -
  from assms(1) obtain x where "filter p rows = [x]"
    by (auto simp: affected_def length_Suc_conv)
  then have "set (filter p rows) = {x}" by (simp only: list.set empty_iff insert_iff)
  then have "\<forall>y. y \<in> set rows \<and> p y \<longrightarrow> y = x" unfolding set_filter by blast
  with assms show ?thesis by metis
qed

lemma claim_token_spends: "claim_token now th src d = Inr d' \<Longrightarrow> unique_ok d \<Longrightarrow> token_spent th d'"
proof -
  assume c: "claim_token now th src d = Inr d'" and u: "unique_ok d"
  from c obtain r where r: "r \<in> set (rtokens d)" "open_token th src now r"
    by (metis affected_0 claim_token_def guard_Inr(1) one_neq_zero)
  have only: "s = r" if "s \<in> set (rtokens d)" "r_hash s = th" for s
    using that r u by (auto simp: unique_ok_def open_token_def distinct_map dest: inj_onD)
  from c show ?thesis
    by (clarsimp simp: claim_token_def token_spent_def)
      (use only r in \<open>auto simp: update_where_def\<close>)
qed

lemma spent_refuses_token: "token_spent th d \<Longrightarrow> claim_token now th src d \<noteq> Inr d'"
  by (auto simp: claim_token_def token_spent_def affected_def filter_empty_conv open_token_def
      dest!: length_Suc_conv [THEN iffD1])

lemma token_spent_step: "db_step d d' \<Longrightarrow> not_reissued th d d' \<Longrightarrow> token_spent th d \<Longrightarrow> token_spent th d'"
proof (induction rule: db_step.induct)
  case (create_token now th' uid tid src ex d d')
  then have "th' \<noteq> th" by (auto simp: not_reissued_def)
  with create_token show ?case by (auto simp: token_spent_def statement_defs)
qed (auto simp: token_spent_def statement_defs set_update_where split: if_split_asm)

interpretation tokens: one_shot token_claims token_spent not_reissued db_ok
proof
  fix k s t assume "token_claims k s t" "db_ok s"
  then show "token_spent k t" "db_ok t"
    by (auto simp: token_claims_def db_ok_def intro: claim_token_spends)
       (meson db_ok_def db_ok_step db_step.claim_rtoken)+
next
  show "\<And>k s t. token_spent k s \<Longrightarrow> db_ok s \<Longrightarrow> \<not> token_claims k s t"
    by (auto simp: token_claims_def dest: spent_refuses_token)
qed (auto simp: not_reissued_def intro: token_spent_step db_ok_step)

definition code_claims :: "int \<Rightarrow> db \<Rightarrow> db \<Rightarrow> bool" where
  "code_claims i d d' \<longleftrightarrow> (\<exists>now. ClaimBackupCode now i d = Inr d')"

definition code_spent :: "int \<Rightarrow> db \<Rightarrow> bool" where
  "code_spent i d \<longleftrightarrow> i \<le> seq d TCodes \<and> (\<forall>c \<in> set (codes d). b_id c = i \<longrightarrow> b_used c \<noteq> None)"

lemma claim_code_spends: "ClaimBackupCode now i d = Inr d' \<Longrightarrow> ids_ok d \<Longrightarrow> code_spent i d'"
proof -
  assume c: "ClaimBackupCode now i d = Inr d'" and ok: "ids_ok d"
  let ?p = "\<lambda>c. b_id c = i \<and> b_used c = None"
  from c have "affected ?p (codes d) \<noteq> 0" by (simp add: ClaimBackupCode_def Let_def del: affected_0)
  then obtain r where "r \<in> set (codes d)" "b_id r = i" by auto
  with ok have "i \<le> seq d TCodes" by (auto simp: ids_ok_def ids_def)
  moreover from c have "codes d' = update_where ?p (\<lambda>c. c\<lparr>b_used := Some now\<rparr>) (codes d)" "seq d' = seq d"
    by (auto simp: ClaimBackupCode_def Let_def)
  ultimately show ?thesis by (auto simp: code_spent_def ball_update_where)
qed

lemma code_spent_step: "db_step d d' \<Longrightarrow> code_spent i d \<Longrightarrow> code_spent i d'"
  by (induction rule: db_step.induct)
    (auto simp: code_spent_def statement_defs set_update_where split: if_split_asm)

interpretation backup_codes: one_shot code_claims code_spent "\<lambda>_. db_step" db_ok
proof
  fix k s t assume "code_claims k s t" "db_ok s"
  then show "code_spent k t" "db_ok t"
    by (auto simp: code_claims_def db_ok_def intro: claim_code_spends)
       (meson db_ok_def db_ok_step db_step.claim_code)+
next
  show "\<And>k s t. code_spent k s \<Longrightarrow> db_ok s \<Longrightarrow> \<not> code_claims k s t"
    by (fastforce simp: code_claims_def code_spent_def ClaimBackupCode_def affected_def filter_empty_conv
        dest!: length_Suc_conv [THEN iffD1])
qed (auto intro: code_spent_step db_ok_step)

text \<open>
  A TOTP step \<open>(uid, c)\<close>.  Only enrolling a new secret resets the counter, so that is the one
  statement excluded between two claims.
\<close>

definition totp_claims :: "int \<times> int \<Rightarrow> db \<Rightarrow> db \<Rightarrow> bool" where
  "totp_claims k d d' \<longleftrightarrow> ClaimTOTPCounter (fst k) (snd k) d = Inr d'"

definition totp_spent :: "int \<times> int \<Rightarrow> db \<Rightarrow> bool" where
  "totp_spent k d \<longleftrightarrow> fst k \<le> seq d TUsers \<and> (\<forall>u \<in> set (users d). u_id u = fst k \<longrightarrow> snd k \<le> u_totp_counter u)"

definition not_reenrolled :: "int \<times> int \<Rightarrow> db \<Rightarrow> db \<Rightarrow> bool" where
  "not_reenrolled k d d' \<longleftrightarrow> db_step d d' \<and> (\<forall>enc. SetTOTPSecret (fst k) enc d \<noteq> Inr d')"

lemma claim_totp_spends: "ClaimTOTPCounter uid c d = Inr d' \<Longrightarrow> ids_ok d \<Longrightarrow> totp_spent (uid, c) d'"
proof -
  assume cl: "ClaimTOTPCounter uid c d = Inr d'" and ok: "ids_ok d"
  let ?p = "\<lambda>u. u_id u = uid \<and> u_totp_counter u < c"
  from cl have "affected ?p (users d) \<noteq> 0" by (simp add: ClaimTOTPCounter_def Let_def del: affected_0)
  then obtain r where "r \<in> set (users d)" "u_id r = uid" by auto
  with ok have "uid \<le> seq d TUsers" by (auto simp: ids_ok_def ids_def)
  moreover from cl have "users d' = update_where ?p (\<lambda>u. u\<lparr>u_totp_counter := c\<rparr>) (users d)" "seq d' = seq d"
    by (auto simp: ClaimTOTPCounter_def Let_def)
  ultimately show ?thesis by (auto simp: totp_spent_def ball_update_where)
qed

lemma totp_spent_step: "db_step d d' \<Longrightarrow> not_reenrolled k d d' \<Longrightarrow> totp_spent k d \<Longrightarrow> totp_spent k d'"
proof (induction rule: db_step.induct)
  case (set_secret uid enc d d')
  then have "uid \<noteq> fst k" by (auto simp: not_reenrolled_def)
  with set_secret show ?case by (auto simp: totp_spent_def statement_defs set_update_where)
qed (fastforce simp: totp_spent_def statement_defs set_update_where split: if_split_asm)+

lemma totp_spent_refuses: "totp_spent k d \<Longrightarrow> \<not> totp_claims k d d'"
proof -
  assume "totp_spent k d"
  then have "affected (\<lambda>u. u_id u = fst k \<and> u_totp_counter u < snd k) (users d) = 0"
    by (auto simp: totp_spent_def)
  then show ?thesis by (simp add: totp_claims_def ClaimTOTPCounter_def Let_def del: affected_0)
qed

interpretation totp_steps: one_shot totp_claims totp_spent not_reenrolled db_ok
proof
  fix k s t assume "totp_claims k s t" "db_ok s"
  then show "totp_spent k t" "db_ok t"
    by (auto simp: totp_claims_def db_ok_def intro: claim_totp_spends [where uid = "fst k" and c = "snd k", simplified])
       (meson db_ok_def db_ok_step db_step.claim_counter)+
next
  show "\<And>k s t. totp_spent k s \<Longrightarrow> db_ok s \<Longrightarrow> \<not> totp_claims k s t" by (rule totp_spent_refuses)
qed (auto simp: not_reenrolled_def intro: totp_spent_step db_ok_step)

chapter \<open>What the store guarantees\<close>

text \<open>
  The guarantees of \<open>internal/store\<close> the rest of the program builds on, each with an instance
  on a small concrete database (two users, two computers, one grant, one redirect token, one
  backup code).
\<close>

section \<open>A concrete database\<close>

definition client_ip :: ip_key where
  "client_ip = KExact (V4 0xCB007105)"

definition alice :: user where
  "alice = \<lparr>u_id = 1, u_username = ''alice'', u_display = ''Alice'', u_pwhash = ''x'', u_role = ''user'',
     u_rdp_hint = ''al'', u_totp_secret = [1, 2, 3], u_totp_counter = 0, u_status = ''active'', u_created = 100\<rparr>"

definition root_admin :: user where
  "root_admin = alice\<lparr>u_id := 2, u_username := ''root'', u_role := ''admin'', u_rdp_hint := [], u_totp_secret := []\<rparr>"

definition desk :: target where
  "desk = \<lparr>t_id = 1, t_name = ''desk'', t_hostname = [], t_ip = ''10.0.0.5'', t_rdp_port = 3389, t_mac = [],
     t_wol_broadcast = ''255.255.255.255'', t_wol_port = 9, t_boot_timeout = 120, t_icon = ''monitor'', t_notes = []\<rparr>"

definition vault :: target where
  "vault = desk\<lparr>t_id := 2, t_name := ''vault'', t_ip := ''10.0.0.6''\<rparr>"

definition sample_grant :: grant where
  "sample_grant = \<lparr>g_id = 1, g_user = 1, g_target = 1, g_src = client_ip, g_token_hash = ''gh'',
     g_mode = ''portal'', g_created = 100, g_expires = 160, g_consumed = None, g_revoked = None\<rparr>"

definition sample_token :: rtoken where
  "sample_token = \<lparr>r_id = 1, r_hash = ''th'', r_user = 1, r_target = 1, r_src = client_ip,
     r_created = 100, r_expires = 130, r_used = None\<rparr>"

definition sample_code :: backup_code where
  "sample_code = \<lparr>b_id = 1, b_user = 1, b_hash = ''ch'', b_used = None\<rparr>"

definition sample_db :: db where
  "sample_db = empty_db\<lparr>users := [alice, root_admin], targets := [desk, vault], user_targets := [(1, 1)],
     grants := [sample_grant], rtokens := [sample_token], codes := [sample_code],
     seq := (\<lambda>_. 0)(TUsers := 2, TTargets := 2, TGrants := 1, TRTokens := 1, TCodes := 1)\<rparr>"

lemmas sample_defs = sample_db_def alice_def root_admin_def desk_def vault_def sample_grant_def
  sample_token_def sample_code_def empty_db_def

lemma sample_ok: "db_ok sample_db"
  by (simp add: db_ok_def ids_ok_def ids_def unique_ok_def hints_def lower_string_def check_ok_def fk_ok_def sample_defs
      valid_status_def valid_mode_def)

section \<open>The guarantees\<close>

text \<open>C15. Whatever sequence of statements the program runs from the empty database: row ids
  are positive, increasing and never above the autoincrement counter, the unique columns are
  unique, no two RDP hints are equal but for case, roles, statuses, modes and states are among the allowed ones, and no reference
  dangles.\<close>

theorem database_invariant: "db_reachable d \<Longrightarrow> db_ok d"
  by (rule reachable_db_ok)

theorem database_invariant_witness:
  "db_ok (snd (projr (CreateUser 100 alice empty_db)))"
proof (rule database_invariant)
  have "CreateUser 100 alice empty_db = Inr (projr (CreateUser 100 alice empty_db))"
    by (simp add: CreateUser_def sample_defs Let_def)
  then have "db_step empty_db (snd (projr (CreateUser 100 alice empty_db)))"
    by (metis db_step.create_user prod.collapse)
  then show "db_reachable (snd (projr (CreateUser 100 alice empty_db)))"
    by (blast intro: db_reachable.intros)
qed

text \<open>The grant lookup is exact: it returns a grant that is stored, bound to the source
  address asked for, not revoked and not expired, and the newest such grant; and it reports
  "not found" only when there is none.\<close>

theorem active_grant_exact:
  assumes "db_ok d"
  shows "case ActiveGrant src now d of
     Inr g \<Rightarrow> g \<in> set (grants d) \<and> g_src g = src \<and> g_revoked g = None \<and> now < g_expires g \<and>
       (\<forall>h \<in> set (grants d). live_grant src now h \<longrightarrow> g_id h \<le> g_id g)
   | Inl e \<Rightarrow> e = ErrNotFound \<and> (\<forall>h \<in> set (grants d). \<not> live_grant src now h)"
  using assms ActiveGrant_Inr [of d src now] ActiveGrant_Inl [of src now d]
  by (auto simp: live_grant_def split: sum.splits)

theorem active_grant_exact_witness:
  "ActiveGrant client_ip 159 sample_db = Inr sample_grant \<and> live_grant client_ip 159 sample_grant \<and>
   ActiveGrant client_ip 160 sample_db = Inl ErrNotFound"
  using active_grant_exact [OF sample_ok, of client_ip 159] active_grant_exact [OF sample_ok, of client_ip 160]
  by (simp add: ActiveGrant_def last_where_def live_grant_def row_or_not_found_def sample_defs)

text \<open>Revocation is effective and final: after \<open>RevokeGrantsForUser\<close>, no later lookup at any
  source address and at any time returns a grant of that user, whatever other statements run
  in between, short of creating a new grant for the user.\<close>

theorem revoked_until_regranted:
  assumes "db_ok d" and "RevokeGrantsForUser now uid d = Inr d'"
    and "(grants_nothing_to uid)\<^sup>*\<^sup>* d' e" and "ActiveGrant src t e = Inr g"
  shows "g_user g \<noteq> uid"
proof
  assume "g_user g = uid"
  have "db_ok d'" using assms(1,2) by (blast intro: db_ok_step db_step.revoke_grants)
  then have "db_ok e" using assms(3) by (blast intro: grants_run_ok)
  moreover have "no_live_grant uid e" using revoke_no_live [OF assms(2)] assms(3) by (rule no_live_run [rotated])
  ultimately show False
    using assms(4) \<open>g_user g = uid\<close> no_live_ActiveGrant by blast
qed

theorem revoked_until_regranted_witness:
  "\<exists>d'. RevokeGrantsForUser 150 2 sample_db = Inr d' \<and> ActiveGrant client_ip 150 d' = Inr sample_grant
     \<and> g_user sample_grant \<noteq> 2"
proof -
  obtain d' where r: "RevokeGrantsForUser 150 2 sample_db = Inr d'"
      and a: "ActiveGrant client_ip 150 d' = Inr sample_grant"
    by (simp add: RevokeGrantsForUser_def update_where_def ActiveGrant_def last_where_def live_grant_def
        row_or_not_found_def sample_defs)
  show ?thesis using r a revoked_until_regranted [OF sample_ok r rtranclp.rtrancl_refl a] by blast
qed

text \<open>Deleting a user is complete and permanent: in no later state does any grant, portal
  session, redirect token, backup code, passkey, access entry or pending request name the
  deleted id, and the id is never given to a new user.\<close>

theorem deleted_user_leaves_nothing:
  assumes "db_ok d" and "DeleteUser uid d = Inr d'" and "db_step\<^sup>*\<^sup>* d' e"
  shows "\<not> mentions_user uid e"
proof -
  have "db_ok e" using assms by (blast intro: database.inv_run db_ok_step db_step.delete_user)
  moreover have "gone uid e" using assms by (blast intro: gone_run delete_user_gone)
  ultimately show ?thesis by (rule gone_unmentioned)
qed

theorem deleted_user_leaves_nothing_witness:
  "mentions_user 1 sample_db \<and> (\<exists>d'. DeleteUser 1 sample_db = Inr d' \<and> \<not> mentions_user 1 d')"
proof -
  obtain d' where r: "DeleteUser 1 sample_db = Inr d'"
    by (simp add: DeleteUser_def affected_def sample_defs Let_def)
  have "mentions_user 1 sample_db" by (simp add: mentions_user_def sample_defs)
  with r deleted_user_leaves_nothing [OF sample_ok r rtranclp.rtrancl_refl] show ?thesis by blast
qed

text \<open>A redirect token opens at most one connection: once it has been claimed, every later
  claim of the same hash fails, at any time and from any address, unless a token with that
  hash is issued again.\<close>

theorem redirect_token_single_use:
  assumes "db_ok d" and "claim_token now th src d = Inr d1" and "(not_reissued th)\<^sup>*\<^sup>* d1 d2"
  shows "fst (ConsumeRedirectToken now2 th src2 d2) = Inl ErrNotFound"
proof -
  have "\<not> token_claims th d2 d3" for d3
    using assms by (intro tokens.at_most_once) (auto simp: token_claims_def)
  then have "claim_token now2 th src2 d2 = Inl ErrNotFound"
    by (auto simp: token_claims_def claim_token_def split: if_split_asm)
  then show ?thesis by (simp add: ConsumeRedirectToken_def)
qed

theorem redirect_token_single_use_witness:
  "\<exists>d1. ConsumeRedirectToken 120 ''th'' client_ip sample_db = (Inr (sample_token\<lparr>r_used := Some 120\<rparr>), d1)
     \<and> fst (ConsumeRedirectToken 121 ''th'' client_ip d1) = Inl ErrNotFound"
proof -
  obtain d1 where c: "claim_token 120 ''th'' client_ip sample_db = Inr d1"
      and t: "token_by_hash ''th'' d1 = Inr (sample_token\<lparr>r_used := Some 120\<rparr>)"
    by (simp add: claim_token_def affected_def open_token_def token_by_hash_def update_where_def
        row_or_not_found_def sample_defs)
  have "ConsumeRedirectToken 120 ''th'' client_ip sample_db = (Inr (sample_token\<lparr>r_used := Some 120\<rparr>), d1)"
    using c t by (simp add: ConsumeRedirectToken_def)
  with redirect_token_single_use [OF sample_ok c rtranclp.rtrancl_refl, of 121 client_ip] show ?thesis by blast
qed

text \<open>A backup code is redeemed at most once, whatever happens in between.\<close>

theorem backup_code_single_use:
  assumes "db_ok d" and "ClaimBackupCode now i d = Inr d1" and "db_step\<^sup>*\<^sup>* d1 d2"
  shows "ClaimBackupCode now2 i d2 = Inl ErrCodeAlreadyUsed"
proof -
  have "\<not> code_claims i d2 d3" for d3
    using assms by (intro backup_codes.at_most_once) (auto simp: code_claims_def)
  then show ?thesis by (auto simp: code_claims_def ClaimBackupCode_def Let_def split: if_split_asm)
qed

theorem backup_code_single_use_witness:
  "\<exists>d1. ClaimBackupCode 120 1 sample_db = Inr d1 \<and> ClaimBackupCode 121 1 d1 = Inl ErrCodeAlreadyUsed"
proof -
  obtain d1 where c: "ClaimBackupCode 120 1 sample_db = Inr d1"
    by (simp add: ClaimBackupCode_def affected_def sample_defs)
  with backup_code_single_use [OF sample_ok c rtranclp.rtrancl_refl, of 121] show ?thesis by blast
qed

text \<open>A TOTP step is accepted at most once per user, and accepting a step also retires every
  earlier step, until a new secret is enrolled.\<close>

theorem totp_step_single_use:
  assumes "db_ok d" and "ClaimTOTPCounter uid c d = Inr d1" and "(not_reenrolled (uid, c))\<^sup>*\<^sup>* d1 d2"
    and "c' \<le> c"
  shows "ClaimTOTPCounter uid c' d2 = Inl ErrCounterAlreadyUsed"
proof -
  have "db_ok d1" using assms(1,2) by (blast intro: db_ok_step db_step.claim_counter)
  moreover have "totp_spent (uid, c) d1" using assms(1,2) by (simp add: claim_totp_spends db_ok_def)
  ultimately have "totp_spent (uid, c) d2" using totp_steps.run_spent [OF assms(3)] by blast
  with assms(4) have "\<not> totp_claims (uid, c') d2 d3" for d3
    by (intro totp_spent_refuses) (fastforce simp: totp_spent_def)
  then show ?thesis by (auto simp: totp_claims_def ClaimTOTPCounter_def Let_def split: if_split_asm)
qed

theorem totp_step_single_use_witness:
  "\<exists>d1. ClaimTOTPCounter 1 56 sample_db = Inr d1 \<and> ClaimTOTPCounter 1 55 d1 = Inl ErrCounterAlreadyUsed"
proof -
  obtain d1 where c: "ClaimTOTPCounter 1 56 sample_db = Inr d1"
    by (simp add: ClaimTOTPCounter_def affected_def sample_defs)
  with totp_step_single_use [OF sample_ok c rtranclp.rtrancl_refl, of 55] show ?thesis by auto
qed

text \<open>Two client addresses get the same grant key exactly when they belong to the same family
  and agree on the configured number of leading bits: normalisation neither splits a
  configured network nor merges two of them.\<close>

theorem normalize_ip_exact:
  assumes "0 \<le> v4bits" and "0 \<le> v6bits"
  shows "normalize_ip v4bits v6bits a = normalize_ip v4bits v6bits b \<longleftrightarrow> same_key_spec v4bits v6bits a b"
  using assms by (rule normalize_ip_eq_iff)

theorem normalize_ip_exact_witness:
  "normalize_ip 32 64 (V6 0x20010db8000000010000000000000001) = normalize_ip 32 64 (V6 0x20010db8000000010000000000000002)
   \<and> normalize_ip 32 64 (V4 0x0A000001) \<noteq> normalize_ip 32 64 (V4 0x0A000002)"
  using normalize_ip_exact [of 32 64 "V6 0x20010db8000000010000000000000001" "V6 0x20010db8000000010000000000000002"]
    normalize_ip_exact [of 32 64 "V4 0x0A000001" "V4 0x0A000002"]
  by (simp add: same_key_spec_def v4_mapped_def same_prefix_def drop_bit_eq_div)

end
