(* ===== verification/World.thy ===== *)
theory World
  imports Store_Props Crypto "HOL-Library.State_Monad"
begin

text \<open>
  The state a request runs in, and the steps it takes there: a database statement (which may
  fail for reasons of its own), a clock reading, a read of the system's random source, an audit
  entry, a question to the outside world.  The operations of \<open>internal/auth\<close> and
  \<open>internal/policy\<close> are programs of the state monad over this record.

  \<open>w_faults\<close> says which of the coming statements fail; an exhausted list means none does.
  \<open>w_clock\<close> gives the successive clock readings, \<open>w_rand\<close> the successive random bytes;
  \<open>w_spawned\<close> lists the targets whose wake-up was started in the background.
\<close>

section \<open>State\<close>

datatype lock_key = LockIP ip_key | LockUser string | LockMFA string

record failure =
  f_count :: int
  f_until :: "time option"

type_synonym lockouts = "lock_key \<Rightarrow> failure option"

record event =
  ev_actor :: string
  ev_action :: string
  ev_object :: string
  ev_src :: "ip_key option"
  ev_detail :: "(string \<times> string) list"

text \<open>
  A pending passkey registration or login, kept in memory under the text of its kind, the source
  address and the account id, joined by colons.  Kind and id hold no colon, so the text determines
  the three parts, and the key keeps them apart.
\<close>

type_synonym challenge_key = "string \<times> ip_key \<times> string"

record challenge =
  ch_value :: bytes
  ch_user :: int
  ch_expires :: time

record world =
  w_db :: db
  w_log :: "event list"
  w_lock :: lockouts
  w_clock :: "nat \<Rightarrow> time"
  w_tick :: nat
  w_faults :: "bool list"
  w_rand :: "nat \<Rightarrow> byte"
  w_pos :: nat
  w_spawned :: "target list"
  w_challenges :: "challenge_key \<Rightarrow> challenge option"

type_synonym 'a act = "(world, 'a) state"

abbreviation ret :: "'a \<Rightarrow> 'a act" where
  "ret \<equiv> State_Monad.return"

section \<open>Steps\<close>

definition read_clock :: "time act" where
  "read_clock = State (\<lambda>w. (w_clock w (w_tick w), w\<lparr>w_tick := Suc (w_tick w)\<rparr>))"

definition ask :: "(nat \<Rightarrow> 'a) \<Rightarrow> 'a act" where
  "ask f = State (\<lambda>w. (f (w_tick w), w\<lparr>w_tick := Suc (w_tick w)\<rparr>))"

definition fault :: "bool act" where
  "fault = State (\<lambda>w. (w_faults w \<noteq> [] \<and> hd (w_faults w), w\<lparr>w_faults := tl (w_faults w)\<rparr>))"

definition get_db :: "db act" where
  "get_db = State (\<lambda>w. (w_db w, w))"

definition put_db :: "db \<Rightarrow> unit act" where
  "put_db d = State (\<lambda>w. ((), w\<lparr>w_db := d\<rparr>))"

definition get_lock :: "lockouts act" where
  "get_lock = State (\<lambda>w. (w_lock w, w))"

definition put_lock :: "lockouts \<Rightarrow> unit act" where
  "put_lock m = State (\<lambda>w. ((), w\<lparr>w_lock := m\<rparr>))"

definition get_challenges :: "(challenge_key \<Rightarrow> challenge option) act" where
  "get_challenges = State (\<lambda>w. (w_challenges w, w))"

definition put_challenges :: "(challenge_key \<Rightarrow> challenge option) \<Rightarrow> unit act" where
  "put_challenges m = State (\<lambda>w. ((), w\<lparr>w_challenges := m\<rparr>))"

definition spawn_wake :: "target \<Rightarrow> unit act" where
  "spawn_wake t = State (\<lambda>w. ((), w\<lparr>w_spawned := w_spawned w @ [t]\<rparr>))"

text \<open>\<open>crypto/rand.Read\<close> of \<open>n\<close> bytes.\<close>

definition read_rand :: "nat \<Rightarrow> bytes option act" where
  "read_rand n = do {
     bad \<leftarrow> fault;
     if bad then ret None
     else State (\<lambda>w. (Some (map (w_rand w) [w_pos w..<w_pos w + n]), w\<lparr>w_pos := w_pos w + n\<rparr>))
   }"

text \<open>A query, a statement without a result, and an insert that returns the new row's id.\<close>

definition query :: "(db \<Rightarrow> store_error + 'a) \<Rightarrow> (store_error + 'a) act" where
  "query q = do {
     bad \<leftarrow> fault;
     if bad then ret (Inl ErrDatabase)
     else do { d \<leftarrow> get_db; ret (q d) }
   }"

definition exec :: "(db \<Rightarrow> store_error + db) \<Rightarrow> (store_error + unit) act" where
  "exec s = do {
     bad \<leftarrow> fault;
     if bad then ret (Inl ErrDatabase)
     else do {
       d \<leftarrow> get_db;
       case s d of
         Inl e \<Rightarrow> ret (Inl e)
       | Inr d' \<Rightarrow> do { put_db d'; ret (Inr ()) }
     }
   }"

definition insert_row :: "(db \<Rightarrow> store_error + (int \<times> db)) \<Rightarrow> (store_error + int) act" where
  "insert_row s = do {
     bad \<leftarrow> fault;
     if bad then ret (Inl ErrDatabase)
     else do {
       d \<leftarrow> get_db;
       case s d of
         Inl e \<Rightarrow> ret (Inl e)
       | Inr (i, d') \<Rightarrow> do { put_db d'; ret (Inr i) }
     }
   }"

text \<open>
  \<open>e.audit\<close>: a failed append is only reported on the system log, so the caller goes on either
  way and the entry is missing.
\<close>

definition record_event :: "event \<Rightarrow> unit act" where
  "record_event ev = do {
     bad \<leftarrow> fault;
     State (\<lambda>w. ((), if bad then w else w\<lparr>w_log := w_log w @ [ev]\<rparr>))
   }"

section \<open>Running the steps\<close>

named_theorems run_simps \<open>the effect of one step on the world\<close>

lemma run_read_clock [run_simps]:
  "run_state read_clock w = (w_clock w (w_tick w), w\<lparr>w_tick := Suc (w_tick w)\<rparr>)"
  by (simp add: read_clock_def)

lemma run_ask [run_simps]: "run_state (ask f) w = (f (w_tick w), w\<lparr>w_tick := Suc (w_tick w)\<rparr>)"
  by (simp add: ask_def)

lemma run_lock [run_simps]:
  "run_state get_lock w = (w_lock w, w)" "run_state (put_lock m) w = ((), w\<lparr>w_lock := m\<rparr>)"
  by (simp_all add: get_lock_def put_lock_def)

lemma run_challenges [run_simps]:
  "run_state get_challenges w = (w_challenges w, w)"
  "run_state (put_challenges m) w = ((), w\<lparr>w_challenges := m\<rparr>)"
  by (simp_all add: get_challenges_def put_challenges_def)

lemma run_spawn_wake [run_simps]: "run_state (spawn_wake t) w = ((), w\<lparr>w_spawned := w_spawned w @ [t]\<rparr>)"
  by (simp add: spawn_wake_def)

abbreviation faulty :: "world \<Rightarrow> bool" where
  "faulty w \<equiv> w_faults w \<noteq> [] \<and> hd (w_faults w)"

abbreviation calm :: "world \<Rightarrow> world" where
  "calm w \<equiv> w\<lparr>w_faults := tl (w_faults w)\<rparr>"

text \<open>The result of a statement: its own, unless the database failed.\<close>

definition outcome :: "bool \<Rightarrow> store_error + 'a \<Rightarrow> store_error + 'a" where
  "outcome bad r = (if bad then Inl ErrDatabase else r)"

lemma outcome_Inr [simp]: "outcome bad r = Inr x \<longleftrightarrow> \<not> bad \<and> r = Inr x"
  by (simp add: outcome_def)

lemma outcome_False [simp]: "outcome False r = r"
  by (simp add: outcome_def)

lemma run_query [run_simps]:
  "run_state (query q) w = (outcome (faulty w) (q (w_db w)), calm w)"
  by (simp add: query_def fault_def get_db_def outcome_def)

lemma run_exec [run_simps]:
  "run_state (exec s) w =
     (case outcome (faulty w) (s (w_db w)) of
        Inl e \<Rightarrow> (Inl e, calm w) | Inr d' \<Rightarrow> (Inr (), calm w\<lparr>w_db := d'\<rparr>))"
  by (simp add: exec_def fault_def get_db_def put_db_def outcome_def split: sum.splits)

lemma run_insert_row [run_simps]:
  "run_state (insert_row s) w =
     (case outcome (faulty w) (s (w_db w)) of
        Inl e \<Rightarrow> (Inl e, calm w) | Inr (i, d') \<Rightarrow> (Inr i, calm w\<lparr>w_db := d'\<rparr>))"
  by (simp add: insert_row_def fault_def get_db_def put_db_def outcome_def split: sum.splits)

lemma run_read_rand [run_simps]:
  "run_state (read_rand n) w =
     (if faulty w then (None, calm w)
      else (Some (map (w_rand w) [w_pos w..<w_pos w + n]), calm w\<lparr>w_pos := w_pos w + n\<rparr>))"
  by (simp add: read_rand_def fault_def)

lemma run_record_event [run_simps]:
  "run_state (record_event ev) w = ((), calm (if faulty w then w else w\<lparr>w_log := w_log w @ [ev]\<rparr>))"
  by (simp add: record_event_def fault_def)

text \<open>
  A world relation that every step of a program respects.  \<open>state_io_rel\<close> of the library is the
  right notion; these rules push it through the program.
\<close>

definition keeps :: "(world \<Rightarrow> 'b) \<Rightarrow> 'a act \<Rightarrow> bool" where
  "keeps f m \<longleftrightarrow> (\<forall>w. f (snd (run_state m w)) = f w)"

named_theorems keep_intros \<open>a program leaves a part of the world alone\<close>

lemma keeps_ret [keep_intros]: "keeps f (ret x)"
  by (simp add: keeps_def)

lemma keeps_bind [keep_intros]: "keeps f m \<Longrightarrow> (\<And>x. keeps f (k x)) \<Longrightarrow> keeps f (State_Monad.bind m k)"
  by (auto simp: keeps_def split: prod.splits) (metis fst_conv snd_conv surj_pair)

lemma keeps_if [keep_intros]: "(b \<Longrightarrow> keeps f m) \<Longrightarrow> (\<not> b \<Longrightarrow> keeps f n) \<Longrightarrow> keeps f (if b then m else n)"
  by simp

lemma keeps_run: "keeps f m \<Longrightarrow> run_state m w = (x, w') \<Longrightarrow> f w' = f w"
  by (metis keeps_def snd_conv)

section \<open>A concrete world\<close>

definition sample_world :: world where
  "sample_world = \<lparr>w_db = sample_db, w_log = [], w_lock = Map.empty, w_clock = (\<lambda>_. seconds 120),
     w_tick = 0, w_faults = [], w_rand = (\<lambda>_. 0), w_pos = 0, w_spawned = [], w_challenges = Map.empty\<rparr>"

end
