(* ===== verification/Relay.thy ===== *)
theory Relay
  imports X224 World Contracts
begin

text \<open>
  \<open>internal/proxy/relay\<close>: the data plane.  \<open>handle\<close> follows one connection from its first packet to
  the end of the copy; the policy, the recorder and the login handler it is configured with are
  the fields of a record of programs, so that nothing here depends on how they decide.
\<close>

section \<open>Configuration and collaborators\<close>

record relay_opts =
  ro_jit :: bool
  ro_max_per_ip :: int

record 's collaborators =
  co_authorize :: "ip \<Rightarrow> ('s, decision) state"
  co_authorize_token :: "ip \<Rightarrow> string \<Rightarrow> ('s, decision) state"
  co_review :: "ip \<Rightarrow> connection_request \<Rightarrow> ('s, decision) state"
  co_login :: "(ip \<Rightarrow> connection_request \<Rightarrow> ('s, bool) state) option"
  co_rejected :: "ip \<Rightarrow> string \<Rightarrow> string \<Rightarrow> ('s, unit) state"
  co_opened :: "decision \<Rightarrow> ip \<Rightarrow> ('s, int) state"
  co_closed :: "int \<Rightarrow> int \<Rightarrow> int \<Rightarrow> string \<Rightarrow> ('s, unit) state"

section \<open>Copying\<close>

text \<open>
  One turn of \<open>copyIdle\<close>: whether the deadline could be set, what the read returned (bytes, and an
  error if any), and what the write did with them (bytes taken, and whether it failed).
\<close>

datatype io_error = EndOfStream | TimedOut | OtherError

record turn =
  tn_deadline_ok :: bool
  tn_chunk :: bytes
  tn_read_err :: "io_error option"
  tn_taken :: nat
  tn_write_err :: bool

datatype copy_end = Idle | Failed | More

fun copyIdle :: "bool \<Rightarrow> turn list \<Rightarrow> bytes \<times> nat \<times> copy_end" where
  "copyIdle idle [] = ([], 0, More)"
| "copyIdle idle (t # ts) =
     (if idle \<and> \<not> tn_deadline_ok t then ([], 0, Failed)
      else let w = take (tn_taken t) (tn_chunk t); n = (if tn_chunk t = [] then 0 else tn_taken t) in
        if tn_chunk t \<noteq> [] \<and> tn_write_err t then (w, n, Failed)
        else case tn_read_err t of
          Some TimedOut \<Rightarrow> (w, n, Idle)
        | Some _ \<Rightarrow> (w, n, Failed)
        | None \<Rightarrow> (case copyIdle idle ts of (out, k, e) \<Rightarrow> (w @ out, n + k, e)))"

text \<open>
  The contract of \<open>io.Writer\<close>: it takes at most what it was given, and all of it unless it reports
  an error.
\<close>

definition writer_ok :: "turn \<Rightarrow> bool" where
  "writer_ok t \<longleftrightarrow> tn_taken t \<le> length (tn_chunk t) \<and> (\<not> tn_write_err t \<longrightarrow> tn_taken t = length (tn_chunk t))"

section \<open>One connection\<close>

text \<open>
  How a connection ends: dropped without a backend (with or without the tarpit), handed to the
  login, refused by an unreachable backend, or relayed - with every byte the backend got.
\<close>

datatype relay_end =
    Dropped bool
  | LoginRan bool
  | Unreachable backend
  | ReplayFailed backend
  | Relayed backend bytes

text \<open>What closes both ends of a relayed connection; the first to happen gives the reason.\<close>

datatype finisher = ShuttingDown | ClientSide | TargetSide

record wire =
  wi_received :: bytes
  wi_buffered :: nat
  wi_dial_ok :: bool
  wi_replay_ok :: bool
  wi_up :: "turn list"
  wi_down :: "turn list"
  wi_idle :: bool
  wi_ends :: "finisher list"

definition finish_cause :: "copy_end \<Rightarrow> copy_end \<Rightarrow> finisher list \<Rightarrow> string" where
  "finish_cause up down ends =
     (case ends of [] \<Rightarrow> []
      | ShuttingDown # _ \<Rightarrow> ''gateway shutting down''
      | ClientSide # _ \<Rightarrow> (if up = Idle then ''idle timeout'' else ''client disconnected'')
      | TargetSide # _ \<Rightarrow> (if down = Idle then ''idle timeout'' else ''target disconnected''))"

text \<open>\<open>pump\<close>: the bytes passed on in each direction and why it ended; \<open>wi_ends\<close> is the order in which the two copies and a
  shutdown came to finish.\<close>

definition pump :: "wire \<Rightarrow> int \<times> int \<times> string" where
  "pump c =
     (case copyIdle (wi_idle c) (wi_up c) of (_, inn, up) \<Rightarrow>
        case copyIdle (wi_idle c) (wi_down c) of (_, out, down) \<Rightarrow> (int inn, int out, finish_cause up down (wi_ends c)))"

definition sreturn :: "'a \<Rightarrow> ('s, 'a) state" where
  "sreturn = State_Monad.return"

definition forward ::
    "'s collaborators \<Rightarrow> ip \<Rightarrow> connection_request \<Rightarrow> wire \<Rightarrow> decision \<Rightarrow> ('s, relay_end) state" where
  "forward P src cr c d =
     (case dc_backend d of
        None \<Rightarrow> do {
          co_rejected P src ''policy allowed the connection but named no backend'' [];
          sreturn (Dropped False)
        }
      | Some b \<Rightarrow>
          if \<not> wi_dial_ok c then do {
            co_rejected P src ''backend unreachable'' [];
            sreturn (Unreachable b)
          }
          else if \<not> wi_replay_ok c then sreturn (ReplayFailed b)
          else do {
            i \<leftarrow> co_opened P d src;
            (case pump c of (inn, out, why) \<Rightarrow> co_closed P i inn out why);
            sreturn (Relayed b (cq_raw cr @ fst (copyIdle (wi_idle c) (wi_up c))))
          })"

definition turn_away :: "'s collaborators \<Rightarrow> ip \<Rightarrow> string \<Rightarrow> string \<Rightarrow> ('s, relay_end) state" where
  "turn_away P src reason hint = do { co_rejected P src reason hint; sreturn (Dropped True) }"

definition decide :: "'s collaborators \<Rightarrow> ip \<Rightarrow> connection_request \<Rightarrow> ('s, decision) state" where
  "decide P src cr =
     (if cq_routing_token cr \<noteq> [] then co_authorize_token P src (cq_routing_token cr) else co_authorize P src)"

definition no_grant ::
    "relay_opts \<Rightarrow> 's collaborators \<Rightarrow> ip \<Rightarrow> connection_request \<Rightarrow> wire \<Rightarrow> decision \<Rightarrow> ('s, relay_end) state" where
  "no_grant opts P src cr c d =
     (if cq_routing_token cr \<noteq> [] then turn_away P src (dc_reason d) (cq_cookie cr)
      else case co_login P of
        Some run \<Rightarrow>
          if 0 < wi_buffered c then turn_away P src ''client sent data before the server answered'' (cq_cookie cr)
          else do {
            ok \<leftarrow> run src cr;
            if ok then sreturn (LoginRan True)
            else do { co_rejected P src ''login failed'' (cq_cookie cr); sreturn (LoginRan False) }
          }
      | None \<Rightarrow>
          if ro_jit opts then do {
            d2 \<leftarrow> co_review P src cr;
            if dc_allow d2 then forward P src cr c d2 else turn_away P src (dc_reason d2) (cq_cookie cr)
          }
          else turn_away P src (dc_reason d) (cq_cookie cr))"

definition serve :: "relay_opts \<Rightarrow> 's collaborators \<Rightarrow> ip \<Rightarrow> wire \<Rightarrow> ('s, relay_end) state" where
  "serve opts P src c =
     (case Read (wi_received c) of
        Inl _ \<Rightarrow> turn_away P src ''malformed connection request'' []
      | Inr (cr, rest) \<Rightarrow> do {
          d \<leftarrow> decide P src cr;
          if dc_allow d then forward P src cr c d else no_grant opts P src cr c d
        })"

section \<open>Connections per address\<close>

definition acquire :: "relay_opts \<Rightarrow> ip_key \<Rightarrow> (ip_key \<Rightarrow> int option) \<Rightarrow> bool \<times> (ip_key \<Rightarrow> int option)" where
  "acquire opts k m =
     (if ro_max_per_ip opts \<le> 0 then (True, m)
      else let n = (case m k of None \<Rightarrow> 0 | Some n \<Rightarrow> n) in
        if ro_max_per_ip opts \<le> n then (False, m) else (True, m(k \<mapsto> n + 1)))"

definition release :: "relay_opts \<Rightarrow> ip_key \<Rightarrow> (ip_key \<Rightarrow> int option) \<Rightarrow> (ip_key \<Rightarrow> int option)" where
  "release opts k m =
     (if ro_max_per_ip opts \<le> 0 then m
      else let n = (case m k of None \<Rightarrow> 0 | Some n \<Rightarrow> n) in
        if n \<le> 1 then m(k := None) else m(k \<mapsto> n - 1))"

definition handle ::
    "relay_opts \<Rightarrow> 's collaborators \<Rightarrow> ip \<Rightarrow> wire \<Rightarrow> (ip_key \<Rightarrow> int option) \<Rightarrow>
      ('s, relay_end \<times> (ip_key \<Rightarrow> int option)) state" where
  "handle opts P src c m =
     (if src = NilIP then sreturn (Dropped False, m)
      else case acquire opts (ip_string src) m of
        (False, m1) \<Rightarrow> do {
          e \<leftarrow> turn_away P src ''too many concurrent connections from this address'' [];
          sreturn (e, m1)
        }
      | (True, m1) \<Rightarrow> do {
          e \<leftarrow> serve opts P src c;
          sreturn (e, release opts (ip_string src) m1)
        })"

text \<open>
  Connections as they overlap: \<open>live\<close> lists the addresses of the connections that are inside
  \<open>handle\<close> and have been admitted.
\<close>

inductive conn_step ::
    "relay_opts \<Rightarrow> (ip_key \<Rightarrow> int option) \<times> ip_key list \<Rightarrow> (ip_key \<Rightarrow> int option) \<times> ip_key list \<Rightarrow> bool"
  for opts where
  admit: "acquire opts k m = (True, m') \<Longrightarrow> conn_step opts (m, live) (m', k # live)"
| turn: "acquire opts k m = (False, m') \<Longrightarrow> conn_step opts (m, live) (m', live)"
| finish: "k \<in> set live \<Longrightarrow> conn_step opts (m, live) (release opts k m, remove1 k live)"

inductive_cases conn_stepE: "conn_step opts s t"

section \<open>Bytes are passed on unchanged\<close>

definition prefix_of :: "'a list \<Rightarrow> 'a list \<Rightarrow> bool" where
  "prefix_of xs ys \<longleftrightarrow> (\<exists>zs. ys = xs @ zs)"

lemma prefix_of_take [simp]: "prefix_of (take n xs) (xs @ ys)"
  unfolding prefix_of_def by (rule exI [of _ "drop n xs @ ys"]) simp

lemma prefix_of_append [simp]: "prefix_of (xs @ ys) (xs @ zs) \<longleftrightarrow> prefix_of ys zs"
  by (auto simp: prefix_of_def)

lemma prefix_of_trans: "prefix_of xs ys \<Longrightarrow> prefix_of ys zs \<Longrightarrow> prefix_of xs zs"
  by (auto simp: prefix_of_def)

lemma copyIdle_prefix:
  "\<forall>t \<in> set ts. writer_ok t \<Longrightarrow>
     prefix_of (fst (copyIdle idle ts)) (concat (map tn_chunk ts)) \<and>
     fst (snd (copyIdle idle ts)) = length (fst (copyIdle idle ts))"
proof (induction ts)
  case (Cons t ts)
  show ?case
  proof (cases "\<not> (idle \<and> \<not> tn_deadline_ok t) \<and> \<not> (tn_chunk t \<noteq> [] \<and> tn_write_err t) \<and> tn_read_err t = None")
    case True
    obtain out k e where c: "copyIdle idle ts = (out, k, e)" by (metis surj_pair)
    have "take (tn_taken t) (tn_chunk t) = tn_chunk t"
      using True Cons.prems by (cases "tn_chunk t = []") (auto simp: writer_ok_def)
    with True Cons c show ?thesis by (auto simp: Let_def writer_ok_def)
  next
    case False
    moreover have "tn_taken t \<le> length (tn_chunk t)" using Cons.prems by (simp add: writer_ok_def)
    ultimately show ?thesis
      by (auto simp: Let_def prefix_of_def [of "[]"] split: option.split io_error.split)
  qed
qed (simp add: prefix_of_def)

text \<open>
  A client that closes its half in the ordinary way: every turn moves what it read, and only the
  last one may say that the stream has ended - with its last bytes still in hand.
\<close>

definition clean_turn :: "turn \<Rightarrow> bool" where
  "clean_turn t \<longleftrightarrow> writer_ok t \<and> tn_deadline_ok t \<and> \<not> tn_write_err t"

definition clean_end :: "turn list \<Rightarrow> bool" where
  "clean_end ts \<longleftrightarrow> (\<forall>t \<in> set ts. clean_turn t) \<and> (\<forall>t \<in> set (butlast ts). tn_read_err t = None) \<and>
     (ts \<noteq> [] \<longrightarrow> tn_read_err (last ts) \<in> {None, Some EndOfStream})"

lemma copyIdle_complete:
  "clean_end ts \<Longrightarrow> fst (copyIdle idle ts) = concat (map tn_chunk ts)"
proof (induction ts)
  case (Cons t ts)
  have t: "writer_ok t" "tn_deadline_ok t" "\<not> tn_write_err t"
    using Cons.prems by (auto simp: clean_end_def clean_turn_def)
  show ?case
  proof (cases "ts = []")
    case True
    then have "tn_read_err t \<in> {None, Some EndOfStream}" using Cons.prems by (simp add: clean_end_def)
    with t True show ?thesis by (auto simp: Let_def writer_ok_def)
  next
    case False
    then have e: "tn_read_err t = None" "clean_end ts" using Cons.prems by (auto simp: clean_end_def)
    have "fst (copyIdle idle ts) = concat (map tn_chunk ts)" by (rule Cons.IH [OF e(2)])
    with t e show ?thesis by (auto simp: Let_def writer_ok_def split: prod.split)
  qed
qed simp

text \<open>The bytes that are recorded for a session are those the backend was given after the first packet.\<close>

lemma pump_counts:
  assumes "\<forall>t \<in> set (wi_up c). writer_ok t"
  shows "fst (pump c) = int (length (fst (copyIdle (wi_idle c) (wi_up c))))"
  using copyIdle_prefix [OF assms, of "wi_idle c"] by (auto simp: pump_def split: prod.split)

section \<open>No connection without a decision\<close>

text \<open>
  What the relay may assume of its policy: a decision that allows is justified in the state its
  operation was started in.  From this alone follows that the relay never contacts a machine on
  its own account: the decision it acts on is the one this very run obtained.
\<close>

locale relay_contract =
  fixes P :: "'s collaborators"
    and granted :: "'s \<Rightarrow> ip \<Rightarrow> decision \<Rightarrow> bool"
    and redeemed :: "'s \<Rightarrow> ip \<Rightarrow> string \<Rightarrow> decision \<Rightarrow> bool"
    and approved :: "'s \<Rightarrow> ip \<Rightarrow> connection_request \<Rightarrow> decision \<Rightarrow> bool"
  assumes authorize: "run_state (co_authorize P src) s = (d, s') \<Longrightarrow> dc_allow d \<Longrightarrow> granted s src d"
    and token: "run_state (co_authorize_token P src tk) s = (d, s') \<Longrightarrow> dc_allow d \<Longrightarrow> redeemed s src tk d"
    and review: "run_state (co_review P src cr) s = (d, s') \<Longrightarrow> dc_allow d \<Longrightarrow> approved s src cr d"
begin

lemma forward_contact:
  assumes "run_state (forward P src cr c d) s = (e, s')" and "e \<in> {Unreachable b, ReplayFailed b, Relayed b bs}"
  shows "dc_backend d = Some b \<and> (e = Relayed b bs \<longrightarrow> bs = cq_raw cr @ fst (copyIdle (wi_idle c) (wi_up c)))"
  using assms by (auto simp: forward_def sreturn_def split: option.split_asm if_split_asm prod.split_asm)

lemma turn_away_contact: "run_state (turn_away P src why hint) s = (e, s') \<Longrightarrow> e = Dropped True"
  by (auto simp: turn_away_def sreturn_def split: prod.split_asm)

lemma no_grant_contact:
  assumes "run_state (no_grant opts P src cr c d) s = (e, s')" and "e \<in> {Unreachable b, ReplayFailed b, Relayed b bs}"
  shows "\<exists>d2 s1. run_state (co_review P src cr) s = (d2, s1) \<and> run_state (forward P src cr c d2) s1 = (e, s') \<and>
     dc_allow d2 \<and> cq_routing_token cr = [] \<and> co_login P = None \<and> ro_jit opts"
proof (cases "cq_routing_token cr \<noteq> [] \<or> co_login P \<noteq> None \<or> \<not> ro_jit opts")
  case True
  with assms show ?thesis
    by (auto simp: no_grant_def sreturn_def dest!: turn_away_contact
        split: if_split_asm option.split_asm prod.split_asm)
next
  case False
  obtain d2 s1 where r: "run_state (co_review P src cr) s = (d2, s1)" by (metis surj_pair)
  have "dc_allow d2"
    using assms False r by (auto simp: no_grant_def dest!: turn_away_contact split: if_split_asm)
  with assms False r show ?thesis by (auto simp: no_grant_def)
qed

text \<open>Which operation of the policy ruled, in which state it was started and in which it left the world.\<close>

lemma serve_contact:
  assumes "run_state (serve opts P src c) s = (e, s')" and "e \<in> {Unreachable b, ReplayFailed b, Relayed b bs}"
  obtains cr rest d s2 where "Read (wi_received c) = Inr (cr, rest)" "dc_allow d" "dc_backend d = Some b"
    "run_state (forward P src cr c d) s2 = (e, s')"
    "e = Relayed b bs \<longrightarrow> bs = cq_raw cr @ fst (copyIdle (wi_idle c) (wi_up c))"
    "(cq_routing_token cr \<noteq> [] \<and> run_state (co_authorize_token P src (cq_routing_token cr)) s = (d, s2) \<and>
        redeemed s src (cq_routing_token cr) d) \<or>
     (cq_routing_token cr = [] \<and> run_state (co_authorize P src) s = (d, s2) \<and> granted s src d) \<or>
     (cq_routing_token cr = [] \<and> co_login P = None \<and> ro_jit opts \<and>
        (\<exists>d0 s1. run_state (co_authorize P src) s = (d0, s1) \<and> \<not> dc_allow d0 \<and>
           run_state (co_review P src cr) s1 = (d, s2) \<and> approved s1 src cr d))"
proof (cases "Read (wi_received c)")
  case (Inl x)
  with assms show thesis by (auto simp: serve_def dest!: turn_away_contact)
next
  case (Inr p)
  obtain cr rest where p: "p = (cr, rest)" by fastforce
  obtain d s1 where d: "run_state (decide P src cr) s = (d, s1)" by (metis surj_pair)
  show thesis
  proof (cases "dc_allow d")
    case True
    then have f: "run_state (forward P src cr c d) s1 = (e, s')"
      using assms(1) Inr p d by (simp add: serve_def)
    have "(cq_routing_token cr \<noteq> [] \<and> run_state (co_authorize_token P src (cq_routing_token cr)) s = (d, s1) \<and>
        redeemed s src (cq_routing_token cr) d) \<or>
      (cq_routing_token cr = [] \<and> run_state (co_authorize P src) s = (d, s1) \<and> granted s src d)"
      using d True by (auto simp: decide_def split: if_split_asm intro: authorize token)
    with forward_contact [OF f assms(2)] Inr p True f show thesis by (intro that [of cr rest d s1]) auto
  next
    case False
    then have "run_state (no_grant opts P src cr c d) s1 = (e, s')"
      using assms(1) Inr p d by (simp add: serve_def)
    from no_grant_contact [OF this assms(2)] obtain d2 s2 where n:
      "run_state (co_review P src cr) s1 = (d2, s2)" "run_state (forward P src cr c d2) s2 = (e, s')" "dc_allow d2"
      "cq_routing_token cr = []" "co_login P = None" "ro_jit opts" by blast
    with d have "run_state (co_authorize P src) s = (d, s1)" by (simp add: decide_def)
    with forward_contact [OF n(2) assms(2)] Inr p n False review [OF n(1,3)] show thesis
      by (intro that [of cr rest d2 s2]) auto
  qed
qed

lemma handle_serve:
  assumes "run_state (handle opts P src c m) s = ((e, m'), s')" and "e \<in> {Unreachable b, ReplayFailed b, Relayed b bs}"
  shows "run_state (serve opts P src c) s = (e, s')"
proof -
  obtain ok m1 where a: "acquire opts (ip_string src) m = (ok, m1)" by fastforce
  have "src \<noteq> NilIP \<and> ok"
    using assms a by (auto simp: handle_def sreturn_def dest!: turn_away_contact split: if_split_asm bool.split_asm prod.split_asm)
  then show ?thesis using assms a by (auto simp: handle_def sreturn_def split: prod.split_asm)
qed

end

section \<open>The per-address limit\<close>

definition conn_count :: "(ip_key \<Rightarrow> int option) \<Rightarrow> ip_key \<Rightarrow> int" where
  "conn_count m k = (case m k of None \<Rightarrow> 0 | Some n \<Rightarrow> n)"

definition conn_inv :: "relay_opts \<Rightarrow> (ip_key \<Rightarrow> int option) \<times> ip_key list \<Rightarrow> bool" where
  "conn_inv opts s \<longleftrightarrow>
     (0 < ro_max_per_ip opts \<longrightarrow>
        (\<forall>k. conn_count (fst s) k = int (count_list (snd s) k) \<and> int (count_list (snd s) k) \<le> ro_max_per_ip opts))"

lemma count_list_remove1: "count_list (remove1 x xs) y = count_list xs y - (if x = y then 1 else 0)"
  by (induction xs) auto

lemma count_list_pos: "x \<in> set xs \<Longrightarrow> 0 < count_list xs x"
  by (simp add: count_list_0_iff zero_less_iff_neq_zero)

lemma release_count:
  "0 < ro_max_per_ip opts \<Longrightarrow> 1 \<le> n \<Longrightarrow> conn_count m k = int n \<Longrightarrow>
     conn_count (release opts k m) j = conn_count m j - (if k = j then 1 else 0)"
  by (cases "m k") (auto simp: release_def conn_count_def)

interpretation conns: guarded_system "(Map.empty, [])" "conn_step opts" "conn_inv opts" for opts
proof
  show "conn_inv opts (Map.empty, [])" by (simp add: conn_inv_def conn_count_def)
next
  fix s t assume "conn_step opts s t" "conn_inv opts s"
  then show "conn_inv opts t"
  proof cases
    case (admit k m m' live)
    then show ?thesis using \<open>conn_inv opts s\<close>
      by (auto simp: conn_inv_def acquire_def conn_count_def Let_def split: if_split_asm option.splits)
        (metis option.distinct(1) option.inject)+
  next
    case (turn k m m' live)
    then show ?thesis using \<open>conn_inv opts s\<close> by (auto simp: conn_inv_def acquire_def Let_def split: if_split_asm)
  next
    case (finish k live m)
    show ?thesis
    proof (cases "0 < ro_max_per_ip opts")
      case True
      with finish \<open>conn_inv opts s\<close> have inv: "conn_count m j = int (count_list live j)"
          "int (count_list live j) \<le> ro_max_per_ip opts" for j
        by (simp_all add: conn_inv_def)
      have one: "1 \<le> count_list live k" using count_list_pos [OF finish(3)] by simp
      have "int (count_list (remove1 k live) j) = int (count_list live j) - (if k = j then 1 else 0)" for j
        using one by (cases "k = j") (simp_all add: count_list_remove1 of_nat_diff)
      moreover have "conn_count (release opts k m) j = conn_count m j - (if k = j then 1 else 0)" for j
        using True one inv(1) [of k] by (rule release_count)
      ultimately have "conn_count (release opts k m) j = int (count_list (remove1 k live) j) \<and>
          int (count_list (remove1 k live) j) \<le> ro_max_per_ip opts" for j
        using inv [of j] by simp
      with finish(2) show ?thesis by (simp add: conn_inv_def)
    qed (simp add: conn_inv_def)
  qed
qed

end
