(* ===== verification/Auth.thy ===== *)
theory Auth
  imports World
begin

text \<open>
  \<open>internal/auth/auth.go\<close>: brute-force lockout, the password check of the portal, portal
  sessions and their two stages, and the CSRF double submit.
\<close>

section \<open>Lockout\<close>

record auth_opts =
  o_ttl :: int
  o_idle :: int
  o_max_failures :: int
  o_lockout_base :: int
  o_lockout_max :: int

text \<open>\<open>time.Now().After(f.until)\<close>; a zero \<open>until\<close> lies before every reading of the clock.\<close>

definition after_until :: "time \<Rightarrow> failure \<Rightarrow> bool" where
  "after_until now f \<longleftrightarrow> (case f_until f of None \<Rightarrow> True | Some t \<Rightarrow> t < now)"

definition Locked :: "lock_key \<Rightarrow> time \<Rightarrow> lockouts \<Rightarrow> bool \<times> int" where
  "Locked key now m =
     (case m key of
        None \<Rightarrow> (False, 0)
      | Some f \<Rightarrow> if after_until now f then (False, 0)
                  else (True, case f_until f of None \<Rightarrow> 0 | Some t \<Rightarrow> t - now))"

text \<open>\<open>m.lockoutBase << min(f.count - m.maxFailures, 16)\<close> on a 64-bit duration.\<close>

definition backoff :: "auth_opts \<Rightarrow> int \<Rightarrow> int" where
  "backoff opts count =
     (let b = wrap64 (o_lockout_base opts * 2 ^ nat (min (count - o_max_failures opts) 16)) in
      if o_lockout_max opts < b \<or> b \<le> 0 then o_lockout_max opts else b)"

definition Fail :: "auth_opts \<Rightarrow> lock_key \<Rightarrow> time \<Rightarrow> lockouts \<Rightarrow> lockouts" where
  "Fail opts key now m =
     (let f = (case m key of None \<Rightarrow> \<lparr>f_count = 0, f_until = None\<rparr> | Some f \<Rightarrow> f);
          f1 = f\<lparr>f_count := f_count f + 1\<rparr> in
      if f_count f1 < o_max_failures opts then m(key \<mapsto> f1)
      else m(key \<mapsto> f1\<lparr>f_until := Some (now + backoff opts (f_count f1))\<rparr>))"

definition Succeed :: "lock_key \<Rightarrow> lockouts \<Rightarrow> lockouts" where
  "Succeed key m = m(key := None)"

definition SweepLockouts :: "time \<Rightarrow> lockouts \<Rightarrow> lockouts" where
  "SweepLockouts now m =
     (\<lambda>k. case m k of None \<Rightarrow> None
          | Some f \<Rightarrow> (case f_until f of None \<Rightarrow> None
                       | Some t \<Rightarrow> if t + seconds 3600 < now then None else Some f))"

definition locked :: "lock_key \<Rightarrow> (bool \<times> int) act" where
  "locked key = do { now \<leftarrow> read_clock; m \<leftarrow> get_lock; ret (Locked key now m) }"

definition fail :: "auth_opts \<Rightarrow> lock_key \<Rightarrow> unit act" where
  "fail opts key = do { now \<leftarrow> read_clock; m \<leftarrow> get_lock; put_lock (Fail opts key now m) }"

definition succeed :: "lock_key \<Rightarrow> unit act" where
  "succeed key = do { m \<leftarrow> get_lock; put_lock (Succeed key m) }"

section \<open>Password check\<close>

datatype auth_error = ErrNoSession | ErrLockedOut | ErrBadPassword | ErrSessionStore | ErrNoToken

definition CheckPassword :: "env \<Rightarrow> auth_opts \<Rightarrow> string \<Rightarrow> string \<Rightarrow> ip_key \<Rightarrow> (auth_error + user) act" where
  "CheckPassword E opts username password srcIP = do {
     ipl \<leftarrow> locked (LockIP srcIP);
     if fst ipl then ret (Inl ErrLockedOut)
     else do {
       ul \<leftarrow> locked (LockUser username);
       if fst ul then ret (Inl ErrLockedOut)
       else do {
         r \<leftarrow> query (UserByName username);
         case r of
           Inl _ \<Rightarrow> do { fail opts (LockIP srcIP); ret (Inl ErrBadPassword) }
         | Inr u \<Rightarrow>
             (case VerifyPassword E password (u_pwhash u) of
                Inl _ \<Rightarrow> do {
                  fail opts (LockIP srcIP);
                  fail opts (LockUser username);
                  ret (Inl ErrBadPassword)
                }
              | Inr _ \<Rightarrow> ret (if is_active u then Inr u else Inl ErrBadPassword))
       }
     }
   }"

section \<open>Sessions\<close>

datatype stage = StagePending | StageFull

fun stage_text :: "stage \<Rightarrow> string" where
  "stage_text StagePending = ''pending''"
| "stage_text StageFull = ''full''"

record session =
  se_id :: int
  se_user :: int
  se_stage :: stage
  se_src :: ip_key
  se_expiry :: int

definition stageHash :: "env \<Rightarrow> string \<Rightarrow> stage \<Rightarrow> string" where
  "stageHash E token st = HashToken E (stage_text st @ '':'' @ token)"

definition session_ttl :: "auth_opts \<Rightarrow> stage \<Rightarrow> int" where
  "session_ttl opts st = (if st = StagePending then seconds 300 else o_ttl opts)"

definition Start :: "env \<Rightarrow> auth_opts \<Rightarrow> int \<Rightarrow> stage \<Rightarrow> ip_key \<Rightarrow> string \<Rightarrow> (auth_error + string) act" where
  "Start E opts uid st srcIP agent = do {
     rnd \<leftarrow> read_rand 32;
     case RandomToken rnd of
       None \<Rightarrow> ret (Inl ErrNoToken)
     | Some token \<Rightarrow> do {
         now \<leftarrow> read_clock;
         r \<leftarrow> exec (insert_session uid (stageHash E token st) srcIP agent (unix now)
                      (unix (now + session_ttl opts st)));
         case r of Inl _ \<Rightarrow> ret (Inl ErrSessionStore) | Inr _ \<Rightarrow> ret (Inr token)
       }
   }"

definition Destroy :: "env \<Rightarrow> string \<Rightarrow> stage \<Rightarrow> (auth_error + unit) act" where
  "Destroy E token st =
     (if token = [] then ret (Inr ())
      else do {
        r \<leftarrow> exec (\<lambda>d. Inr (delete_sessions (\<lambda>s. s_token_hash s = stageHash E token st) d));
        case r of Inl _ \<Rightarrow> ret (Inl ErrSessionStore) | Inr _ \<Rightarrow> ret (Inr ())
      })"

definition DestroyAllForUser :: "int \<Rightarrow> (auth_error + unit) act" where
  "DestroyAllForUser uid = do {
     r \<leftarrow> exec (\<lambda>d. Inr (delete_sessions (\<lambda>s. s_user s = uid) d));
     case r of Inl _ \<Rightarrow> ret (Inl ErrSessionStore) | Inr _ \<Rightarrow> ret (Inr ())
   }"

definition Promote :: "env \<Rightarrow> auth_opts \<Rightarrow> string \<Rightarrow> int \<Rightarrow> ip_key \<Rightarrow> string \<Rightarrow> (auth_error + string) act" where
  "Promote E opts token uid srcIP agent = do {
     r \<leftarrow> Destroy E token StagePending;
     case r of Inl e \<Rightarrow> ret (Inl e) | Inr _ \<Rightarrow> Start E opts uid StageFull srcIP agent
   }"

definition idle_too_long :: "auth_opts \<Rightarrow> time \<Rightarrow> websession \<Rightarrow> bool" where
  "idle_too_long opts now s \<longleftrightarrow> 0 < o_idle opts \<and> o_idle opts < now - seconds (s_last_seen s)"

definition Lookup :: "env \<Rightarrow> auth_opts \<Rightarrow> string \<Rightarrow> stage \<Rightarrow> ip_key \<Rightarrow> (auth_error + session) act" where
  "Lookup E opts token st srcIP =
     (if token = [] then ret (Inl ErrNoSession)
      else do {
        r \<leftarrow> query (session_by_hash (stageHash E token st));
        case r of
          Inl e \<Rightarrow> ret (Inl (if e = ErrNotFound then ErrNoSession else ErrSessionStore))
        | Inr s \<Rightarrow> do {
            now \<leftarrow> read_clock;
            if s_expires s < unix now \<or> idle_too_long opts now s then do {
              _ \<leftarrow> exec (\<lambda>d. Inr (delete_sessions (\<lambda>x. s_id x = s_id s) d));
              ret (Inl ErrNoSession)
            }
            else if s_src s \<noteq> srcIP then ret (Inl ErrNoSession)
            else do {
              _ \<leftarrow> exec (\<lambda>d. Inr (touch_session (unix now) (s_id s) d));
              ret (Inr \<lparr>se_id = s_id s, se_user = s_user s, se_stage = st, se_src = s_src s,
                        se_expiry = s_expires s\<rparr>)
            }
          }
      })"

section \<open>Cookies and CSRF\<close>

text \<open>
  What the program reads of an \<open>http.Request\<close>: method, parsed cookies in order, headers (the first
  line of each name), the peer's address, whether the connection is TLS, the Host, the body, the
  \<open>id\<close> of the matched path and the query.
\<close>

record request =
  rq_method :: string
  rq_cookies :: "(string \<times> string) list"
  rq_header :: "string \<Rightarrow> string"
  rq_remote :: string
  rq_tls :: bool
  rq_host :: string
  rq_body :: string
  rq_id :: string
  rq_query :: "string \<Rightarrow> string"

definition cookieName :: "string \<Rightarrow> bool \<Rightarrow> string" where
  "cookieName base secure = (if secure then ''__Host-'' @ base else base)"

definition cookie_value :: "request \<Rightarrow> string \<Rightarrow> string" where
  "cookie_value r name = (case find (\<lambda>(n, v). n = name) (rq_cookies r) of None \<Rightarrow> [] | Some (n, v) \<Rightarrow> v)"

definition readCookie :: "request \<Rightarrow> string \<Rightarrow> string" where
  "readCookie r base =
     (let host = cookie_value r (''__Host-'' @ base) in
      if host \<noteq> [] then host else cookie_value r base)"

definition SessionToken :: "request \<Rightarrow> string" where
  "SessionToken r = readCookie r ''revpd_session''"

definition CheckCSRF :: "request \<Rightarrow> bool" where
  "CheckCSRF r =
     (if rq_method r \<in> {''GET'', ''HEAD'', ''OPTIONS''} then True
      else let cookie = readCookie r ''revpd_csrf'' in
        if cookie = [] then False
        else ConstantTimeEqualString cookie (rq_header r ''X-CSRF-Token''))"

end
