(* ===== verification/Totp.thy ===== *)
theory Totp
  imports Crypto
begin

text \<open>
  \<open>internal/mfa/totp.go\<close>: the window of accepted steps and the replay guard.  Whether a code
  matches a step (\<open>totp.ValidateCustom\<close> without error) is the field \<open>x_totp\<close> of the environment.
\<close>

datatype totp_error = ErrBadCode | ErrReplayed

definition Period :: int where
  "Period = 30"

definition window :: "nat \<Rightarrow> int list" where
  "window skew = 0 # concat (map (\<lambda>i. [- int i, int i]) [1..<Suc skew])"

fun verify_steps :: "env \<Rightarrow> string \<Rightarrow> string \<Rightarrow> int \<Rightarrow> int \<Rightarrow> int list \<Rightarrow> totp_error + int" where
  "verify_steps E secret code lastc step [] = Inl ErrBadCode"
| "verify_steps E secret code lastc step (off # offs) =
     (let c = step + off in
      if \<not> x_totp E code secret (c * Period) then verify_steps E secret code lastc step offs
      else if c \<le> lastc then Inl ErrReplayed
      else Inr c)"

text \<open>Go's integer division truncates; Unix time is not negative here.\<close>

definition Verify :: "env \<Rightarrow> nat \<Rightarrow> string \<Rightarrow> string \<Rightarrow> int \<Rightarrow> time \<Rightarrow> totp_error + int" where
  "Verify E skew secret code lastc now = verify_steps E secret code lastc (unix now div Period) (window skew)"

section \<open>The window\<close>

lemma window_set: "set (window skew) = {- int skew..int skew}"
proof (intro equalityI subsetI)
  fix x assume "x \<in> {- int skew..int skew}"
  then have "x = 0 \<or> (\<exists>k \<in> set [1..<Suc skew]. x \<in> {- int k, int k})"
    by (cases "x = 0") (auto intro!: bexI [of _ "nat \<bar>x\<bar>"])
  then show "x \<in> set (window skew)" by (auto simp: window_def simp del: upt_Suc)
qed (auto simp: window_def)

lemma verify_steps_Inr:
  "verify_steps E secret code lastc step offs = Inr c \<Longrightarrow>
     c - step \<in> set offs \<and> lastc < c \<and> x_totp E code secret (c * Period)"
  by (induction offs) (auto simp: Let_def split: if_split_asm)

lemma verify_steps_BadCode:
  "verify_steps E secret code lastc step offs = Inl ErrBadCode \<longleftrightarrow>
     (\<forall>off \<in> set offs. \<not> x_totp E code secret ((step + off) * Period))"
  by (induction offs) (auto simp: Let_def)

lemma verify_steps_fresh:
  "(\<forall>off \<in> set offs. x_totp E code secret ((step + off) * Period) \<longrightarrow> lastc < step + off) \<Longrightarrow>
     verify_steps E secret code lastc step offs \<noteq> Inl ErrReplayed"
  by (induction offs) (auto simp: Let_def)

lemma Verify_Inr:
  "Verify E skew secret code lastc now = Inr c \<Longrightarrow>
     lastc < c \<and> x_totp E code secret (c * Period) \<and> \<bar>c - unix now div Period\<bar> \<le> int skew"
  unfolding Verify_def by (drule verify_steps_Inr) (auto simp: window_set)

text \<open>C18. The TOTP check accepts a code only for a step inside the configured window around now that
  is newer than the last step used and that the code is right for; it says "bad code" exactly
  when the code is right for no step of the window; and it never refuses a code as a replay
  unless the code is right for some step that is not newer than the last one used.\<close>

theorem totp_verify_exact:
  "case Verify E skew secret code lastc now of
     Inr c \<Rightarrow> lastc < c \<and> x_totp E code secret (c * Period) \<and> \<bar>c - unix now div Period\<bar> \<le> int skew
   | Inl ErrBadCode \<Rightarrow> (\<forall>c. \<bar>c - unix now div Period\<bar> \<le> int skew \<longrightarrow> \<not> x_totp E code secret (c * Period))
   | Inl ErrReplayed \<Rightarrow>
       (\<exists>c \<le> lastc. \<bar>c - unix now div Period\<bar> \<le> int skew \<and> x_totp E code secret (c * Period))"
proof (cases "Verify E skew secret code lastc now")
  case (Inr c)
  then show ?thesis by (auto dest: Verify_Inr)
next
  case (Inl e)
  let ?s = "unix now div Period"
  show ?thesis
  proof (cases e)
    case ErrBadCode
    with Inl have bad: "\<forall>off \<in> {- int skew..int skew}. \<not> x_totp E code secret ((?s + off) * Period)"
      by (simp add: Verify_def verify_steps_BadCode window_set)
    have "\<not> x_totp E code secret (c * Period)" if "\<bar>c - ?s\<bar> \<le> int skew" for c
    proof -
      have "c - ?s \<in> {- int skew..int skew}" using that by auto
      from bad [rule_format, OF this] show ?thesis by simp
    qed
    with Inl ErrBadCode show ?thesis by simp
  next
    case ErrReplayed
    with Inl verify_steps_fresh obtain off where "off \<in> set (window skew)" "\<not> lastc < ?s + off"
      "x_totp E code secret ((?s + off) * Period)"
      unfolding Verify_def by blast
    with Inl ErrReplayed show ?thesis by (auto simp: window_set intro!: exI [of _ "?s + off"])
  qed
qed

theorem totp_verify_exact_witness:
  "Verify sample_env 1 ''secret'' ''123456'' 0 (seconds 61) = Inr 1 \<and>
   Verify sample_env 1 ''secret'' ''123456'' 1 (seconds 61) = Inl ErrReplayed \<and>
   x_totp sample_env ''123456'' ''secret'' (1 * Period)"
  using totp_verify_exact [where E = sample_env and skew = 1 and secret = "''secret''" and code = "''123456''"
      and lastc = 0 and now = "seconds 61"]
  by (simp add: Verify_def window_def sample_env_def Period_def unix_def seconds_def Let_def)

end
