(* ===== verification/Wol.thy ===== *)
theory Wol
  imports Crypto
begin

text \<open>
  \<open>internal/wol/wol.go\<close>: hardware addresses as people paste them, and the magic packet.  The
  sends are a list of outcomes the network gives, the readiness probe is a field of the
  environment.
\<close>

datatype wol_error = ErrBadMAC | ErrBroadcast | ErrDial | ErrWrite

definition clean_mac :: "string \<Rightarrow> string" where
  "clean_mac s = filter (\<lambda>c. c \<notin> {CHR '':'', CHR ''-'', CHR ''.'', CHR '' ''}) (trim_space s)"

definition ParseMAC :: "string \<Rightarrow> wol_error + bytes" where
  "ParseMAC s =
     (let clean = clean_mac s in
      if length clean \<noteq> 12 then Inl ErrBadMAC
      else case hex_decode clean of None \<Rightarrow> Inl ErrBadMAC | Some b \<Rightarrow> Inr b)"

definition MagicPacket :: "bytes \<Rightarrow> wol_error + bytes" where
  "MagicPacket mac =
     (if length mac \<noteq> 6 then Inl ErrBadMAC
      else Inr (replicate 6 0xFF @ concat (replicate 16 mac)))"

text \<open>
  \<open>Sender.Send\<close>: the datagrams written before it returns.  \<open>ip_ok\<close> and \<open>dial_ok\<close> say whether the
  broadcast address parses and the socket opens, \<open>writes i\<close> whether the i-th write succeeds.
\<close>

fun send_loop :: "nat \<Rightarrow> nat \<Rightarrow> (nat \<Rightarrow> bool) \<Rightarrow> bytes \<Rightarrow> (wol_error + unit) \<times> bytes list" where
  "send_loop i 0 writes pkt = (Inr (), [])"
| "send_loop i (Suc n) writes pkt =
     (if \<not> writes i then (Inl ErrWrite, [])
      else case send_loop (Suc i) n writes pkt of (r, sent) \<Rightarrow> (r, pkt # sent))"

definition Send :: "int \<Rightarrow> bool \<Rightarrow> bool \<Rightarrow> (nat \<Rightarrow> bool) \<Rightarrow> bytes \<Rightarrow> (wol_error + unit) \<times> bytes list" where
  "Send repeat_count ip_ok dial_ok writes mac =
     (case MagicPacket mac of
        Inl e \<Rightarrow> (Inl e, [])
      | Inr pkt \<Rightarrow>
          if \<not> ip_ok then (Inl ErrBroadcast, [])
          else if \<not> dial_ok then (Inl ErrDial, [])
          else send_loop 0 (nat (if repeat_count < 1 then 1 else repeat_count)) writes pkt)"

section \<open>Reading an address back\<close>

lemma hex_val_char: "hex_val c = Some n \<Longrightarrow> n < 16 \<and> hex_digits ! n = char_of (ascii_lower (of_char c))"
  unfolding hex_val_def by (drule index_of_Some) (simp add: hex_digits_def)

lemma hex_encode_decode: "hex_decode s = Some bs \<Longrightarrow> hex_encode bs = lower_string s"
proof (induction s arbitrary: bs rule: hex_decode.induct)
  case (3 c d cs)
  then obtain m n cs' where v: "hex_val c = Some m" "hex_val d = Some n" "hex_decode cs = Some cs'"
      and bs: "bs = word_of_nat (m * 16 + n) # cs'"
    by (auto split: option.splits)
  from v(1,2) have b: "m < 16" "n < 16" by (auto dest: hex_val_char)
  then have "unat (word_of_nat (m * 16 + n) :: byte) = m * 16 + n"
    by (simp add: unat_of_nat take_bit_eq_mod flip: of_nat_mult of_nat_add)
  then have "hex_encode bs = hex_digits ! m # hex_digits ! n # hex_encode cs'"
    using b by (simp add: hex_encode_def bs)
  with 3 v show ?case by (simp add: lower_string_def hex_val_char)
qed (auto simp: hex_encode_def lower_string_def)

lemma length_hex_decode: "hex_decode s = Some bs \<Longrightarrow> length s = 2 * length bs"
  by (induction s arbitrary: bs rule: hex_decode.induct) (auto split: option.splits)

lemma hex_val_lower: "hex_val (char_of (ascii_lower (of_char c))) = hex_val c"
proof -
  have "ascii_lower (of_char c) < (256::nat)" using byte_val_less [of c]
    by (auto simp: ascii_lower_def)
  then show ?thesis by (simp add: hex_val_def) (simp add: ascii_lower_def)
qed

lemma hex_decode_lower: "hex_decode (lower_string s) = hex_decode s"
  by (induction s rule: hex_decode.induct) (auto simp: lower_string_def hex_val_lower)

lemma magic_blocks: "i < n \<Longrightarrow> take (length m) (drop (length m * i) (concat (replicate n m))) = m"
proof (induction n arbitrary: i)
  case (Suc n)
  then show ?case by (cases i) auto
qed simp

text \<open>
  \<open>Prober.WaitReady\<close>: the attempts that can still be made, each with whether the port answered and whether the caller's
  deadline passed before the next; nothing is returned while there is more to wait for.
\<close>

datatype wait_end = Ready | GivenUp | CutShort

definition probe_interval :: "int \<Rightarrow> int" where
  "probe_interval configured = (if configured \<le> 0 then 500000000 else configured)"

fun WaitReady :: "int \<Rightarrow> bool \<Rightarrow> (bool \<times> bool) list \<Rightarrow> wait_end option" where
  "WaitReady settle late_settling [] = None"
| "WaitReady settle late_settling ((alive, late) # attempts) =
     (if alive then Some (if 0 < settle \<and> late_settling then CutShort else Ready)
      else if late then Some GivenUp
      else WaitReady settle late_settling attempts)"

text \<open>It is ready only after an answer, at the first one, and before the deadline.\<close>

lemma wait_ready_iff:
  "WaitReady settle late_settling attempts = Some Ready \<longleftrightarrow>
     (\<exists>late later. dropWhile ((=) (False, False)) attempts = (True, late) # later) \<and> (settle \<le> 0 \<or> \<not> late_settling)"
proof (induction settle late_settling attempts rule: WaitReady.induct)
  case (2 settle late_settling alive late attempts)
  then show ?case by (cases alive; cases late) auto
qed simp

text \<open>Hardware addresses: the text is accepted exactly when, stripped of surrounding blanks and
  of the separators colon, dash, dot and space and read without regard to case, it is the
  hexadecimal form of six bytes - and those six bytes are the result; and the magic packet made
  from them is 102 bytes: six 0xFF, then the address sixteen times.\<close>

theorem mac_and_magic_packet:
  "(ParseMAC s = Inr mac \<longleftrightarrow> length mac = 6 \<and> lower_string (clean_mac s) = hex_encode mac) \<and>
   (ParseMAC s = Inr mac \<longrightarrow>
      (\<exists>p. MagicPacket mac = Inr p \<and> length p = 102 \<and> take 6 p = replicate 6 0xFF \<and>
         (\<forall>i < 16. take 6 (drop (6 + 6 * i) p) = mac)))"
proof -
  have fwd: "length mac = 6 \<and> lower_string (clean_mac s) = hex_encode mac" if "ParseMAC s = Inr mac"
    using that by (auto simp: ParseMAC_def Let_def split: option.splits dest: hex_encode_decode length_hex_decode)
  have bwd: "ParseMAC s = Inr mac" if "length mac = 6" "lower_string (clean_mac s) = hex_encode mac"
  proof -
    have "hex_decode (clean_mac s) = Some mac"
      using that(2) hex_decode_encode [of mac] hex_decode_lower [of "clean_mac s"] by simp
    with that(1) show ?thesis by (auto simp: ParseMAC_def Let_def dest: length_hex_decode)
  qed
  have blocks: "take 6 (drop (6 * i) (concat (replicate 16 mac))) = mac" if "length mac = 6" "i < 16" for i
    using magic_blocks [OF that(2), of mac] that(1) by simp
  have "\<exists>p. MagicPacket mac = Inr p \<and> length p = 102 \<and> take 6 p = replicate 6 0xFF \<and>
         (\<forall>i < 16. take 6 (drop (6 + 6 * i) p) = mac)" if "length mac = 6"
    using that blocks [OF that]
    by (simp add: MagicPacket_def length_concat sum_list_replicate)
  with fwd bwd show ?thesis by blast
qed

theorem mac_and_magic_packet_witness:
  "ParseMAC ''AA-bb.00:11 22ff '' = Inr [0xAA, 0xBB, 0, 0x11, 0x22, 0xFF]"
proof -
  have "trim_space ''AA-bb.00:11 22ff '' = ''AA-bb.00:11 22ff''"
    by (simp add: trim_space_ascii ascii_string_def ascii_space_def)
  then show ?thesis
    using mac_and_magic_packet [of "''AA-bb.00:11 22ff ''" "[0xAA, 0xBB, 0, 0x11, 0x22, 0xFF]"]
    by (simp add: clean_mac_def lower_string_def ascii_lower_def hex_encode_def hex_digits_def char_of_eq_iff)
qed

end
