(* ===== verification/Policy.thy ===== *)
theory Policy
  imports Auth Totp Wol Rdp_Types
begin

text \<open>
  \<open>internal/policy\<close>: who may reach which target.  \<open>Authorize\<close>, \<open>Review\<close> and \<open>AuthorizeToken\<close> answer the
  relay, \<open>Authenticate\<close> answers the RDP login, \<open>Unlock\<close> the portal, and \<open>Opened\<close>, \<open>Closed\<close> and
  \<open>Rejected\<close> record what the relay did.  Every operation is a program over the world; waking a
  machine and asking the approval channel are questions to the environment.
\<close>

section \<open>Configuration and small helpers\<close>

record engine =
  g_v4bits :: int
  g_v6bits :: int
  g_ttl :: int
  g_reuse :: int
  g_jit :: bool
  g_default_target :: string
  g_require_factor :: bool
  g_totp_skew :: nat
  g_pass_through :: bool
  g_sealer :: "bytes option"
  g_lockout :: "auth_opts option"

definition key :: "engine \<Rightarrow> ip \<Rightarrow> ip_key" where
  "key C ip = normalize_ip (g_v4bits C) (g_v6bits C) ip"

definition e_locked :: "engine \<Rightarrow> ip_key \<Rightarrow> string \<Rightarrow> (bool \<times> int) act" where
  "e_locked C ipKey name =
     (case g_lockout C of
        None \<Rightarrow> ret (False, 0)
      | Some _ \<Rightarrow> do {
          r \<leftarrow> locked (LockIP ipKey);
          if fst r then ret r else locked (LockUser name)
        })"

definition e_fail :: "engine \<Rightarrow> ip_key \<Rightarrow> string \<Rightarrow> unit act" where
  "e_fail C ipKey name =
     (case g_lockout C of
        None \<Rightarrow> ret ()
      | Some opts \<Rightarrow> do { fail opts (LockIP ipKey); fail opts (LockUser name) })"

definition e_succeed :: "engine \<Rightarrow> ip_key \<Rightarrow> string \<Rightarrow> unit act" where
  "e_succeed C ipKey name =
     (case g_lockout C of
        None \<Rightarrow> ret ()
      | Some _ \<Rightarrow> do { succeed (LockIP ipKey); succeed (LockUser name) })"

definition event_of :: "string \<Rightarrow> string \<Rightarrow> string \<Rightarrow> ip_key option \<Rightarrow> (string \<times> string) list \<Rightarrow> event" where
  "event_of actor action object src detail =
     \<lparr>ev_actor = actor, ev_action = action, ev_object = object, ev_src = src, ev_detail = detail\<rparr>"

definition audit :: "string \<Rightarrow> string \<Rightarrow> string \<Rightarrow> ip \<Rightarrow> (string \<times> string) list \<Rightarrow> unit act" where
  "audit actor action object src detail =
     record_event (event_of actor action object (Some (ip_string src)) detail)"

section \<open>Waking a target\<close>

definition wake :: "env \<Rightarrow> target \<Rightarrow> unit act" where
  "wake E t = do {
     busy \<leftarrow> ask (\<lambda>n. x_waking E n (t_id t));
     if busy then ret ()
     else do {
       up \<leftarrow> ask (\<lambda>n. x_alive E n (Addr t));
       if up then ret ()
       else case ParseMAC (t_mac t) of
         Inl _ \<Rightarrow> ret ()
       | Inr mac \<Rightarrow> do {
           sent \<leftarrow> ask (x_send_ok E);
           if \<not> sent then ret ()
           else do {
             record_event (event_of [] ''wol.sent'' (t_name t) None
               [(''mac'', t_mac t), (''broadcast'', t_wol_broadcast t)]);
             ready \<leftarrow> ask (\<lambda>n. x_ready E n (Addr t));
             record_event (event_of [] (if ready then ''target.online'' else ''target.timeout'') (t_name t) None [])
           }
         }
     }
   }"

definition waitReady :: "env \<Rightarrow> target \<Rightarrow> bool act" where
  "waitReady E t = do {
     busy \<leftarrow> ask (\<lambda>n. x_waking E n (t_id t));
     if busy then ask (\<lambda>n. x_woken E n (t_id t)) else ask (\<lambda>n. x_ready E n (Addr t))
   }"

definition TestWake :: "env \<Rightarrow> target \<Rightarrow> (wol_error + unit) act" where
  "TestWake E t =
     (case ParseMAC (t_mac t) of
        Inl e \<Rightarrow> ret (Inl e)
      | Inr mac \<Rightarrow> do { sent \<leftarrow> ask (x_send_ok E); ret (if sent then Inr () else Inl ErrWrite) })"

section \<open>Grants\<close>

definition issueFor :: "user \<Rightarrow> target \<Rightarrow> ip_key \<Rightarrow> string \<Rightarrow> int \<Rightarrow> (store_error + int) act" where
  "issueFor u t ipKey mode ttl = do {
     now \<leftarrow> read_clock;
     insert_row (CreateGrant \<lparr>g_id = 0, g_user = u_id u, g_target = t_id t, g_src = ipKey, g_token_hash = [],
       g_mode = mode, g_created = unix now, g_expires = unix (now + ttl), g_consumed = None, g_revoked = None\<rparr> [])
   }"

definition issue :: "engine \<Rightarrow> user \<Rightarrow> target \<Rightarrow> ip_key \<Rightarrow> string \<Rightarrow> (store_error + int) act" where
  "issue C u t ipKey mode = issueFor u t ipKey mode (g_ttl C)"

definition reach :: "user \<Rightarrow> int \<Rightarrow> (store_error + bool) act" where
  "reach u tid = query (\<lambda>d. Inr (CanReach u tid d))"

definition Authorize :: "engine \<Rightarrow> ip \<Rightarrow> decision act" where
  "Authorize C src = do {
     now \<leftarrow> read_clock;
     rg \<leftarrow> query (ActiveGrant (key C src) (unix now));
     case rg of
       Inl e \<Rightarrow> ret (refuse (if e = ErrNotFound then ''no valid grant for this address'' else ''grant lookup failed''))
     | Inr g \<Rightarrow> do {
         rt \<leftarrow> query (TargetByID (g_target g));
         case rt of
           Inl _ \<Rightarrow> ret (refuse ''target no longer exists'')
         | Inr t \<Rightarrow> do {
             ru \<leftarrow> query (UserByID (g_user g));
             case ru of
               Inl _ \<Rightarrow> ret (refuse ''account is no longer active'')
             | Inr u \<Rightarrow>
                 if \<not> is_active u then ret (refuse ''account is no longer active'')
                 else do {
                   ok \<leftarrow> reach u (t_id t);
                   if ok \<noteq> Inr True then ret (refuse ''account may no longer reach this target'')
                   else do {
                     stamp \<leftarrow> read_clock;
                     _ \<leftarrow> exec (ConsumeGrant (unix stamp) (g_id g) (unix (now + g_reuse C)));
                     ret (allow t (g_id g))
                   }
                 }
           }
       }
   }"

section \<open>The portal\<close>

datatype unlock_error = ErrAccessCheck | ErrNotAllowed | ErrLoadTarget | ErrIssue

definition Unlock :: "engine \<Rightarrow> user \<Rightarrow> int \<Rightarrow> ip \<Rightarrow> (unlock_error + target \<times> int) act" where
  "Unlock C u tid src = do {
     ok \<leftarrow> reach u tid;
     case ok of
       Inl _ \<Rightarrow> ret (Inl ErrAccessCheck)
     | Inr may \<Rightarrow>
         if \<not> may then do {
           audit (u_username u) ''grant.denied'' [] src [(''target_id'', decimal_int tid)];
           ret (Inl ErrNotAllowed)
         }
         else do {
           rt \<leftarrow> query (TargetByID tid);
           case rt of
             Inl _ \<Rightarrow> ret (Inl ErrLoadTarget)
           | Inr t \<Rightarrow> do {
               r \<leftarrow> issue C u t (key C src) ''portal'';
               case r of
                 Inl _ \<Rightarrow> ret (Inl ErrIssue)
               | Inr i \<Rightarrow> do {
                   audit (u_username u) ''grant.issued'' (t_name t) src
                     [(''ttl_s'', decimal_int (g_ttl C div 1000000000))];
                   spawn_wake t;
                   ret (Inr (t, i))
                 }
             }
         }
   }"

section \<open>Approval on a phone\<close>

definition jitTarget :: "engine \<Rightarrow> target list \<Rightarrow> target option" where
  "jitTarget C ts =
     (if ts = [] then None
      else case (if g_default_target C = [] then None else find (\<lambda>t. t_name t = g_default_target C) ts) of
             Some t \<Rightarrow> Some t
           | None \<Rightarrow> if 1 < length ts then None else Some (hd ts))"

definition targets_of :: "user \<Rightarrow> (store_error + target list) act" where
  "targets_of u = query (\<lambda>d. Inr (ListTargetsForUser u d))"

definition set_jit :: "int \<Rightarrow> string \<Rightarrow> string \<Rightarrow> unit act" where
  "set_jit i st via = do { now \<leftarrow> read_clock; _ \<leftarrow> exec (SetJITState (unix now) i st via); ret () }"

definition jit_outcome ::
    "env \<Rightarrow> engine \<Rightarrow> user \<Rightarrow> target \<Rightarrow> int \<Rightarrow> ip \<Rightarrow> approval \<Rightarrow> decision act" where
  "jit_outcome E C u t reqID src answer =
     (case answer of
        ApprovalError True \<Rightarrow> do {
          set_jit reqID ''timeout'' ''hold expired'';
          audit (u_username u) ''jit.timeout'' (t_name t) src [];
          ret (refuse ''approval timed out'')
        }
      | ApprovalError False \<Rightarrow> do {
          set_jit reqID ''denied'' ''approval channel error'';
          ret (refuse ''approval channel unavailable'')
        }
      | Declined \<Rightarrow> do {
          set_jit reqID ''denied'' ''user declined'';
          audit (u_username u) ''jit.denied'' (t_name t) src [];
          ret (refuse ''approval declined'')
        }
      | Approved \<Rightarrow> do {
          up \<leftarrow> waitReady E t;
          if \<not> up then do {
            set_jit reqID ''timeout'' ''target did not wake'';
            ret (refuse ''target did not come up in time'')
          }
          else do {
            r \<leftarrow> issue C u t (key C src) ''jit'';
            case r of
              Inl _ \<Rightarrow> ret (refuse ''could not issue a grant'')
            | Inr g \<Rightarrow> do {
                set_jit reqID ''approved'' ''push'';
                audit (u_username u) ''jit.approved'' (t_name t) src [];
                ret (allow t g)
              }
          }
        })"

definition Review :: "env \<Rightarrow> engine \<Rightarrow> ip \<Rightarrow> connection_request \<Rightarrow> decision act" where
  "Review E C src cr =
     (if \<not> g_jit C then ret (refuse ''direct connections are disabled'')
      else case x_approver E of
        None \<Rightarrow> ret (refuse ''no approval channel is configured'')
      | Some approve \<Rightarrow>
          if cq_cookie cr = [] then ret (refuse ''client sent no username, cannot route an approval'')
          else do {
            ru \<leftarrow> query (UserByRDPHint (cq_cookie cr));
            case ru of
              Inl _ \<Rightarrow> ret (refuse ''no approval possible for this request'')
            | Inr u \<Rightarrow> do {
                rts \<leftarrow> targets_of u;
                case (case rts of Inl _ \<Rightarrow> None | Inr ts \<Rightarrow> jitTarget C ts) of
                  None \<Rightarrow> ret (refuse ''no target available for this account'')
                | Some t \<Rightarrow> do {
                    ok \<leftarrow> reach u (t_id t);
                    if ok \<noteq> Inr True then ret (refuse ''no approval possible for this request'')
                    else do {
                      now \<leftarrow> read_clock;
                      rq \<leftarrow> insert_row (CreateJITRequest (unix now) (cq_cookie cr) (u_id u) (t_id t) (key C src));
                      case rq of
                        Inl _ \<Rightarrow> ret (refuse ''could not record the request'')
                      | Inr reqID \<Rightarrow> do {
                          audit (u_username u) ''jit.requested'' (t_name t) src [(''hint'', cq_cookie cr)];
                          spawn_wake t;
                          answer \<leftarrow> ask (\<lambda>n. approve n (u_username u) src (t_name t));
                          jit_outcome E C u t reqID src answer
                        }
                    }
                  }
              }
          })"

end
