(* ===== verification/Login_Policy.thy ===== *)
theory Login_Policy
  imports Policy
begin

text \<open>
  \<open>internal/policy/login.go\<close>: the policy of the RDP-native login and of the reconnect that follows
  it, and the session records the relay keeps through \<open>policy.go\<close>.
\<close>

section \<open>Names and digits\<close>

definition bareUsername :: "string \<Rightarrow> string" where
  "bareUsername s = trim_space (bare_hint s)"

definition isAllDigits :: "string \<Rightarrow> bool" where
  "isAllDigits s \<longleftrightarrow> s \<noteq> [] \<and> (\<forall>r \<in> set (runes s). 48 \<le> r \<and> r \<le> 57)"

section \<open>Second factors\<close>

fun first_match :: "env \<Rightarrow> string \<Rightarrow> backup_code list \<Rightarrow> backup_code option" where
  "first_match E norm [] = None"
| "first_match E norm (c # cs) =
     (case VerifyPassword E norm (b_hash c) of Inr _ \<Rightarrow> Some c | Inl _ \<Rightarrow> first_match E norm cs)"

definition consumeBackupCode :: "env \<Rightarrow> user \<Rightarrow> string \<Rightarrow> bool act" where
  "consumeBackupCode E u norm = do {
     cs \<leftarrow> query (\<lambda>d. Inr (OpenBackupCodes (u_id u) d));
     case cs of
       Inl _ \<Rightarrow> ret False
     | Inr candidates \<Rightarrow>
         (case first_match E norm candidates of
            None \<Rightarrow> ret False
          | Some c \<Rightarrow> do {
              stamp \<leftarrow> read_clock;
              r \<leftarrow> exec (ClaimBackupCode (unix stamp) (b_id c));
              ret (r = Inr ())
            })
   }"

definition totp_label :: "user \<Rightarrow> string" where
  "totp_label u = ''totp:'' @ decimal_int (u_id u)"

definition check_totp :: "env \<Rightarrow> engine \<Rightarrow> user \<Rightarrow> string \<Rightarrow> bool act" where
  "check_totp E C u factor =
     (case (if u_totp_secret u = [] then None else g_sealer C) of
        None \<Rightarrow> ret False
      | Some mk \<Rightarrow>
        (case Open E mk (totp_label u) (u_totp_secret u) of
           Inl _ \<Rightarrow> ret False
         | Inr secret \<Rightarrow> do {
             now \<leftarrow> read_clock;
             case Verify E (g_totp_skew C) (string_of secret) factor (u_totp_counter u) now of
               Inl _ \<Rightarrow> ret False
             | Inr c \<Rightarrow> do { r \<leftarrow> exec (ClaimTOTPCounter (u_id u) c); ret (r = Inr ()) }
           }))"

definition checkSecondFactor :: "env \<Rightarrow> engine \<Rightarrow> user \<Rightarrow> string \<Rightarrow> ip \<Rightarrow> bool act" where
  "checkSecondFactor E C u factor src =
     (if equal_fold factor ''push'' then
        (case x_approver E of
           None \<Rightarrow> ret False
         | Some approve \<Rightarrow> do { a \<leftarrow> ask (\<lambda>n. approve n (u_username u) src []); ret (a = Approved) })
      else let norm = NormalizeBackupCode E factor in
        if length norm = 10 \<and> \<not> isAllDigits norm then consumeBackupCode E u norm
        else check_totp E C u factor)"

section \<open>Authenticate\<close>

definition targetFor :: "engine \<Rightarrow> target list \<Rightarrow> target option" where
  "targetFor C ts =
     (if ts = [] then None
      else if length ts = 1 then Some (hd ts)
      else if g_default_target C = [] then None
      else find (\<lambda>t. t_name t = g_default_target C) ts)"

datatype login_error = ErrLoginRefused | ErrTargetDown | ErrNoRandom | ErrTokenStore

definition redirectTTL :: int where
  "redirectTTL = seconds 60"

definition log_denied :: "string \<Rightarrow> ip \<Rightarrow> string \<Rightarrow> unit act" where
  "log_denied name src reason = audit name ''login.fail'' [] src [(''via'', ''rdp''), (''reason'', reason)]"

definition refused :: "engine \<Rightarrow> ip_key \<Rightarrow> string \<Rightarrow> ip \<Rightarrow> string \<Rightarrow> (login_error + 'a) act" where
  "refused C ipKey name src reason = do {
     e_fail C ipKey name;
     log_denied name src reason;
     ret (Inl ErrLoginRefused)
   }"

text \<open>Everything up to the point where the person is known: the account, or a refusal.\<close>

definition identify :: "env \<Rightarrow> engine \<Rightarrow> ip \<Rightarrow> credentials \<Rightarrow> (login_error + user) act" where
  "identify E C src cred =
     (let password = fst (SplitPassword (cr_password cred));
          factor = snd (SplitPassword (cr_password cred));
          name = bareUsername (cr_username cred);
          ipKey = key C src in do {
     l \<leftarrow> e_locked C ipKey name;
     if fst l then do { log_denied name src ''locked out''; ret (Inl ErrLoginRefused) }
     else do {
       ru \<leftarrow> query (UserByName name);
       case ru of
         Inl _ \<Rightarrow> refused C ipKey name src ''unknown account''
       | Inr u \<Rightarrow>
           if \<not> is_active u then refused C ipKey name src ''account not active''
           else if VerifyPassword E password (u_pwhash u) \<noteq> Inr () then refused C ipKey name src ''wrong password''
           else if factor = [] then
             (if g_require_factor C \<or> u_totp_secret u \<noteq> [] then refused C ipKey name src ''no second factor supplied''
              else do {
                e_succeed C ipKey name;
                audit (u_username u) ''login.ok'' [] src [(''via'', ''rdp''), (''second_factor'', ''false'')];
                ret (Inr u)
              })
           else do {
             ok \<leftarrow> checkSecondFactor E C u factor src;
             if \<not> ok then do {
               e_fail C ipKey name;
               audit (u_username u) ''mfa.fail'' [] src [(''via'', ''rdp'')];
               ret (Inl ErrLoginRefused)
             }
             else do {
               e_succeed C ipKey name;
               audit (u_username u) ''mfa.ok'' [] src [(''via'', ''rdp'')];
               ret (Inr u)
             }
           }
     }
   })"

definition redirect_for :: "engine \<Rightarrow> credentials \<Rightarrow> string \<Rightarrow> redirection" where
  "redirect_for C cred token =
     (let pass = g_pass_through C in
      \<lparr>rd_session = 0, rd_token = token,
       rd_username = (if pass then cr_username cred else []),
       rd_domain = (if pass then cr_domain cred else []),
       rd_password = (if pass then fst (SplitPassword (cr_password cred)) else [])\<rparr>)"

text \<open>From the account to the redirection: pick, wake, wait, mint the token.\<close>

definition redirect_user ::
    "env \<Rightarrow> engine \<Rightarrow> ip \<Rightarrow> credentials \<Rightarrow> user \<Rightarrow> (login_error + redirection) act" where
  "redirect_user E C src cred u = do {
     rts \<leftarrow> targets_of u;
     case (case rts of Inl _ \<Rightarrow> None | Inr ts \<Rightarrow> targetFor C ts) of
       None \<Rightarrow> do {
         log_denied (bareUsername (cr_username cred)) src ''no target available'';
         ret (Inl ErrLoginRefused)
       }
     | Some t \<Rightarrow> do {
         wake E t;
         up \<leftarrow> waitReady E t;
         if \<not> up then do {
           audit (u_username u) ''target.timeout'' (t_name t) src [];
           ret (Inl ErrTargetDown)
         }
         else do {
           rnd \<leftarrow> read_rand 24;
           case RandomToken rnd of
             None \<Rightarrow> ret (Inl ErrNoRandom)
           | Some token \<Rightarrow> do {
               now \<leftarrow> read_clock;
               r \<leftarrow> exec (CreateRedirectToken (unix now) (HashToken E token) (u_id u) (t_id t) (key C src)
                            (unix (now + redirectTTL)));
               case r of
                 Inl _ \<Rightarrow> ret (Inl ErrTokenStore)
               | Inr _ \<Rightarrow> do {
                   audit (u_username u) ''grant.issued'' (t_name t) src [(''via'', ''rdp-redirect'')];
                   ret (Inr (redirect_for C cred token))
                 }
             }
         }
       }
   }"

definition Authenticate :: "env \<Rightarrow> engine \<Rightarrow> ip \<Rightarrow> credentials \<Rightarrow> (login_error + redirection) act" where
  "Authenticate E C src cred = do {
     who \<leftarrow> identify E C src cred;
     case who of Inl e \<Rightarrow> ret (Inl e) | Inr u \<Rightarrow> redirect_user E C src cred u
   }"

section \<open>The reconnect\<close>

definition consume_token :: "string \<Rightarrow> ip_key \<Rightarrow> (store_error + rtoken) act" where
  "consume_token th src = do {
     now \<leftarrow> read_clock;
     c \<leftarrow> exec (claim_token (unix now) th src);
     case c of Inl e \<Rightarrow> ret (Inl e) | Inr _ \<Rightarrow> query (token_by_hash th)
   }"

definition AuthorizeToken :: "env \<Rightarrow> engine \<Rightarrow> ip \<Rightarrow> string \<Rightarrow> decision act" where
  "AuthorizeToken E C src token = do {
     rr \<leftarrow> consume_token (HashToken E token) (key C src);
     case rr of
       Inl _ \<Rightarrow> ret (refuse ''redirect token is not valid'')
     | Inr rt \<Rightarrow> do {
         tt \<leftarrow> query (TargetByID (r_target rt));
         case tt of
           Inl _ \<Rightarrow> ret (refuse ''target no longer exists'')
         | Inr t \<Rightarrow> do {
             ru \<leftarrow> query (UserByID (r_user rt));
             case ru of
               Inl _ \<Rightarrow> ret (refuse ''account is no longer active'')
             | Inr u \<Rightarrow>
                 if \<not> is_active u then ret (refuse ''account is no longer active'')
                 else do {
                   ok \<leftarrow> reach u (t_id t);
                   if ok \<noteq> Inr True then ret (refuse ''account may no longer reach this target'')
                   else do {
                     gr \<leftarrow> issueFor u t (key C src) ''portal'' (g_reuse C);
                     ret (allow t (case gr of Inl _ \<Rightarrow> 0 | Inr i \<Rightarrow> i))
                   }
                 }
           }
       }
   }"

section \<open>Session records\<close>

definition Opened :: "decision \<Rightarrow> ip \<Rightarrow> int act" where
  "Opened d src = do {
     now \<leftarrow> read_clock;
     r \<leftarrow> insert_row (OpenRDPSession (unix now) (dc_grant d) (dc_target d) (ip_string src));
     case r of
       Inl _ \<Rightarrow> ret 0
     | Inr i \<Rightarrow> do {
         tt \<leftarrow> query (TargetByID (dc_target d));
         audit [] ''relay.open'' (case tt of Inl _ \<Rightarrow> [] | Inr t \<Rightarrow> t_name t) src [(''session'', decimal_int i)];
         ret i
       }
   }"

definition Closed :: "int \<Rightarrow> int \<Rightarrow> int \<Rightarrow> string \<Rightarrow> unit act" where
  "Closed i bin bout reason =
     (if i = 0 then ret ()
      else do {
        now \<leftarrow> read_clock;
        _ \<leftarrow> exec (CloseRDPSession (unix now) i bin bout reason);
        record_event (event_of [] ''relay.close'' [] None
          [(''session'', decimal_int i), (''bytes_in'', decimal_int bin), (''bytes_out'', decimal_int bout),
           (''reason'', reason)])
      })"

definition Rejected :: "ip \<Rightarrow> string \<Rightarrow> string \<Rightarrow> unit act" where
  "Rejected src reason hint =
     audit [] ''relay.rejected'' [] src
       ((''reason'', reason) # (if hint = [] then [] else [(''hint'', hint)]))"

end
