(* ===== verification/Auth_Guarantees.thy ===== *)
theory Auth_Guarantees
  imports Auth
begin

text \<open>
  What \<open>internal/auth\<close> promises: the lockout schedule, the binding of sessions to stage, address
  and time, and that the password check answers every refusal alike.
\<close>

section \<open>Failure counters\<close>

definition fails :: "auth_opts \<Rightarrow> lock_key \<Rightarrow> time list \<Rightarrow> lockouts \<Rightarrow> lockouts" where
  "fails opts key ts m = fold (Fail opts key) ts m"

lemma fails_snoc: "fails opts key (ts @ [t]) m = Fail opts key t (fails opts key ts m)"
  by (simp add: fails_def)

lemma Fail_other: "k \<noteq> key \<Longrightarrow> Fail opts key t m k = m k"
  by (simp add: Fail_def Let_def)

lemma fails_other: "k \<noteq> key \<Longrightarrow> fails opts key ts m k = m k"
  by (induction ts rule: rev_induct) (simp_all add: fails_snoc Fail_other, simp add: fails_def)

lemma fails_state:
  assumes "m key = None" and "ts \<noteq> []"
  shows "fails opts key ts m key = Some \<lparr>f_count = int (length ts),
     f_until = (if int (length ts) < o_max_failures opts then None
                else Some (last ts + backoff opts (int (length ts))))\<rparr>"
  using assms(2)
proof (induction ts rule: rev_induct)
  case (snoc t ts)
  then show ?case
    by (cases "ts = []") (auto simp: fails_snoc Fail_def assms(1) fails_def add.commute)
qed simp

lemma backoff_exact:
  assumes "0 < o_lockout_base opts" and "o_lockout_base opts * 2 ^ 16 < 2 ^ 63" and "o_max_failures opts \<le> n"
  shows "backoff opts n = min (o_lockout_max opts) (o_lockout_base opts * 2 ^ nat (min (n - o_max_failures opts) 16))"
proof -
  let ?k = "nat (min (n - o_max_failures opts) 16)"
  have "(2::int) ^ ?k \<le> 2 ^ 16" by (rule power_increasing) auto
  then have "o_lockout_base opts * 2 ^ ?k \<le> o_lockout_base opts * 2 ^ 16"
    using assms(1) by simp
  then have hi: "o_lockout_base opts * 2 ^ ?k < 2 ^ 63" using assms(2) by linarith
  have pos: "0 < o_lockout_base opts * 2 ^ ?k" using assms(1) by simp
  have "wrap64 (o_lockout_base opts * 2 ^ ?k) = o_lockout_base opts * 2 ^ ?k"
    using hi pos by (intro wrap64_id) linarith+
  then show ?thesis using pos by (simp add: backoff_def Let_def min_def)
qed

lemma Succeed_clears: "Locked key now (Succeed key m) = (False, 0)"
  by (simp add: Locked_def Succeed_def)

definition swept_rounds :: "auth_opts \<Rightarrow> lock_key \<Rightarrow> (time list \<times> time) list \<Rightarrow> lockouts \<Rightarrow> lockouts" where
  "swept_rounds opts key rounds m = fold (\<lambda>(ts, s) m. SweepLockouts s (fails opts key ts m)) rounds m"

lemma partial_count_swept:
  "m key = None \<Longrightarrow> int (length ts) < o_max_failures opts \<Longrightarrow> SweepLockouts s (fails opts key ts m) key = None"
  by (cases "ts = []") (simp_all add: SweepLockouts_def fails_state, simp add: fails_def)

lemma swept_rounds_None:
  "m key = None \<Longrightarrow> (\<forall>(ts, s) \<in> set rounds. int (length ts) < o_max_failures opts) \<Longrightarrow>
     swept_rounds opts key rounds m key = None"
  by (induction rounds arbitrary: m) (auto simp: swept_rounds_def partial_count_swept)

text \<open>C17. The lockout schedule is exact: after n consecutive failures of a key, the key is barred
  exactly when n has reached the configured maximum, from the last failure on for the base
  time doubled once per failure past the maximum (at most 16 times), capped at the configured
  maximum; and no other key is affected.\<close>

theorem lockout_schedule:
  assumes "m key = None" and "1 \<le> o_max_failures opts"
    and "0 < o_lockout_base opts" and "o_lockout_base opts * 2 ^ 16 < 2 ^ 63"
  shows "(fst (Locked key now (fails opts key ts m)) \<longleftrightarrow>
      o_max_failures opts \<le> int (length ts) \<and>
      now \<le> last ts + min (o_lockout_max opts)
        (o_lockout_base opts * 2 ^ nat (min (int (length ts) - o_max_failures opts) 16))) \<and>
    (\<forall>k. k \<noteq> key \<longrightarrow> Locked k now (fails opts key ts m) = Locked k now m)"
proof (cases "ts = []")
  case True
  then show ?thesis using assms(1,2) by (simp add: fails_def Locked_def)
next
  case False
  have st: "fails opts key ts m key = Some \<lparr>f_count = int (length ts),
     f_until = (if int (length ts) < o_max_failures opts then None
                else Some (last ts + backoff opts (int (length ts))))\<rparr>"
    by (rule fails_state) (use assms(1) False in auto)
  show ?thesis
    using backoff_exact [OF assms(3,4), of "int (length ts)"]
    by (auto simp: Locked_def st fails_other after_until_def)
qed

definition sample_opts :: auth_opts where
  "sample_opts = \<lparr>o_ttl = seconds 3600, o_idle = seconds 900, o_max_failures = 3,
     o_lockout_base = seconds 60, o_lockout_max = seconds 86400\<rparr>"

theorem lockout_schedule_witness:
  "fst (Locked (LockUser ''eve'') (seconds 200) (fails sample_opts (LockUser ''eve'') [1, 2, seconds 100, seconds 101] Map.empty))
   \<and> \<not> fst (Locked (LockUser ''eve'') (seconds 222) (fails sample_opts (LockUser ''eve'') [1, 2, seconds 100, seconds 101] Map.empty))"
  using lockout_schedule [of Map.empty "LockUser ''eve''" sample_opts "seconds 200" "[1, 2, seconds 100, seconds 101]"]
    lockout_schedule [of Map.empty "LockUser ''eve''" sample_opts "seconds 222" "[1, 2, seconds 100, seconds 101]"]
  by (simp add: sample_opts_def seconds_def)

text \<open>The periodic sweep forgets every counter that has not reached the maximum: guessing one
  attempt short of the maximum between two sweeps is never barred, however many rounds are
  played and however close together they are.\<close>

theorem sweep_forgets_partial_counts:
  assumes "\<forall>(ts, s) \<in> set rounds. int (length ts) < o_max_failures opts"
    and "int (length ts) < o_max_failures opts"
  shows "\<not> fst (Locked key now (fails opts key ts (swept_rounds opts key rounds Map.empty)))"
proof -
  let ?m = "swept_rounds opts key rounds Map.empty"
  have none: "?m key = None" using assms(1) by (simp add: swept_rounds_None)
  show ?thesis
  proof (cases "ts = []")
    case True
    with none show ?thesis by (simp add: fails_def Locked_def)
  next
    case False
    then show ?thesis using assms(2) fails_state [of ?m, OF none False]
      by (simp add: Locked_def after_until_def)
  qed
qed

theorem sweep_forgets_partial_counts_witness:
  "\<not> fst (Locked (LockUser ''eve'') 5
     (fails sample_opts (LockUser ''eve'') [3, 4] (swept_rounds sample_opts (LockUser ''eve'') [([1, 1], 2), ([2, 2], 3)] Map.empty)))
   \<and> fst (Locked (LockUser ''eve'') 5 (fails sample_opts (LockUser ''eve'') [1, 1, 2, 2, 3, 4] Map.empty))"
  using sweep_forgets_partial_counts [of "[([1, 1], 2), ([2, 2], 3)]" sample_opts "[3, 4]" "LockUser ''eve''" 5]
  by (simp add: fails_def Fail_def Locked_def after_until_def sample_opts_def backoff_def wrap64_def seconds_def Let_def)

section \<open>Sessions\<close>

lemma stage_prefix_inj: "stage_text a @ '':'' @ s = stage_text b @ '':'' @ t \<Longrightarrow> a = b \<and> s = t"
  by (cases a; cases b) auto

text \<open>What is hashed for a cookie of a stage.\<close>

definition stage_input :: "string \<Rightarrow> stage \<Rightarrow> bytes" where
  "stage_input tok st = bytes_of (stage_text st @ '':'' @ tok)"

lemma stageHash_bound:
  "stageHash E a sa = stageHash E b sb \<Longrightarrow>
     (a = b \<and> sa = sb) \<or> sha_collision E (stage_input a sa) (stage_input b sb)"
  unfolding stageHash_def stage_input_def by (drule HashToken_collision) (auto dest!: stage_prefix_inj [simplified])

lemma session_by_hash_Inr: "session_by_hash h d = Inr s \<Longrightarrow> s \<in> set (sessions d) \<and> s_token_hash s = h"
  by (auto simp: session_by_hash_def dest: find_holds)

lemma Lookup_Inr:
  assumes "run_state (Lookup E opts token st src) w = (Inr s, w')"
  shows "\<exists>row. row \<in> set (sessions (w_db w)) \<and> s_token_hash row = stageHash E token st \<and> token \<noteq> [] \<and>
     unix (w_clock w (w_tick w)) \<le> s_expires row \<and> \<not> idle_too_long opts (w_clock w (w_tick w)) row \<and>
     s_src row = src \<and> s = \<lparr>se_id = s_id row, se_user = s_user row, se_stage = st, se_src = src, se_expiry = s_expires row\<rparr>"
  using assms unfolding Lookup_def
  by (auto simp: run_simps split: if_split_asm sum.splits dest!: session_by_hash_Inr)

text \<open>A session cookie is accepted only for what it was issued for: an accepted lookup found a
  stored session that has not expired, has not been idle too long, and was opened from the same
  address; and the cookie was issued for that very session row at that very stage - a pending
  cookie never passes as a full one - unless the two cookies collide under SHA-256.\<close>

theorem session_lookup_sound:
  assumes "run_state (Lookup E opts token st src) w = (Inr s, w')"
  shows "\<exists>row \<in> set (sessions (w_db w)).
     se_id s = s_id row \<and> se_user s = s_user row \<and> se_stage s = st \<and> s_src row = src \<and>
     unix (w_clock w (w_tick w)) \<le> s_expires row \<and>
     (0 < o_idle opts \<longrightarrow> w_clock w (w_tick w) - seconds (s_last_seen row) \<le> o_idle opts) \<and>
     (\<forall>token' st'. s_token_hash row = stageHash E token' st' \<longrightarrow>
        (token' = token \<and> st' = st) \<or> sha_collision E (stage_input token' st') (stage_input token st))"
proof -
  obtain row where r: "row \<in> set (sessions (w_db w))" "s_token_hash row = stageHash E token st"
     "unix (w_clock w (w_tick w)) \<le> s_expires row" "\<not> idle_too_long opts (w_clock w (w_tick w)) row"
     "s_src row = src"
     "s = \<lparr>se_id = s_id row, se_user = s_user row, se_stage = st, se_src = src, se_expiry = s_expires row\<rparr>"
    using Lookup_Inr [OF assms] by blast
  have "(token' = token \<and> st' = st) \<or> sha_collision E (stage_input token' st') (stage_input token st)"
    if "s_token_hash row = stageHash E token' st'" for token' st'
    using stageHash_bound [of E token' st' token st] that r(2) by (metis (no_types))
  with r show ?thesis by (intro bexI [of _ row]) (auto simp: idle_too_long_def)
qed

theorem session_lookup_sound_witness:
  "\<exists>w s w'. run_state (Lookup sample_env sample_opts ''tok'' StageFull client_ip) w = (Inr s, w') \<and> se_user s = 1 \<and>
     s_token_hash (hd (sessions (w_db w))) = stageHash sample_env ''tok'' StageFull"
proof -
  define row where "row = \<lparr>s_id = 1, s_user = 1, s_token_hash = stageHash sample_env ''tok'' StageFull,
      s_src = client_ip, s_agent = [], s_created = 100, s_expires = 500, s_last_seen = 110\<rparr>"
  define w where "w = sample_world\<lparr>w_db := sample_db\<lparr>sessions := [row]\<rparr>\<rparr>"
  have hash: "session_by_hash (stageHash sample_env ''tok'' StageFull) (w_db w) = Inr row"
    by (simp add: w_def row_def session_by_hash_def row_or_not_found_def)
  obtain s w' where l: "run_state (Lookup sample_env sample_opts ''tok'' StageFull client_ip) w = (Inr s, w')"
    using hash by (simp add: Lookup_def run_simps w_def sample_world_def row_def idle_too_long_def sample_opts_def
        seconds_def unix_def)
  from session_lookup_sound [OF l] have "se_user s = 1" by (auto simp: w_def row_def)
  with l show ?thesis by (intro exI [of _ w] exI [of _ s] exI [of _ w']) (simp add: w_def row_def)
qed

lemma Start_Inr:
  assumes "run_state (Start E opts uid st src agent) w = (Inr tok, w')"
  shows "\<exists>d. insert_session uid (stageHash E tok st) src agent (unix (w_clock w (w_tick w)))
        (unix (w_clock w (w_tick w) + session_ttl opts st)) (w_db w) = Inr d \<and> w_db w' = d \<and>
     tok \<noteq> [] \<and> w_clock w' = w_clock w \<and> w_tick w' = Suc (w_tick w)"
  using assms unfolding Start_def RandomToken_def
  by (auto simp: run_simps split: if_split_asm sum.splits dest!: arg_cong [of _ _ length] simp: length_b64_encode)

lemma find_snoc: "(\<forall>x \<in> set xs. \<not> P x) \<Longrightarrow> find P (xs @ ys) = find P ys"
  by (induction xs) auto

lemma session_by_hash_new:
  assumes "insert_session uid h src agent c x d = Inr d'"
  shows "\<exists>row. session_by_hash h d' = Inr row \<and> s_user row = uid \<and> s_token_hash row = h \<and> s_src row = src \<and>
     s_expires row = x \<and> s_last_seen row = c \<and> sessions d' = sessions d @ [row]"
  using assms
  by (auto simp: insert_session_def Let_def bump_def session_by_hash_def row_or_not_found_def find_snoc)

text \<open>A session that was just started is usable, and only from where it was started: as long
  as it has neither expired nor been idle too long, looking its token up at its stage from the
  same address gives the session of that user, and from any other address gives nothing.\<close>

theorem started_session_usable:
  assumes "run_state (Start E opts uid st src agent) w = (Inr tok, w1)" and "\<not> faulty w1"
    and "unix (w_clock w (Suc (w_tick w))) \<le> unix (w_clock w (w_tick w) + session_ttl opts st)"
    and "0 < o_idle opts \<longrightarrow> w_clock w (Suc (w_tick w)) - seconds (unix (w_clock w (w_tick w))) \<le> o_idle opts"
  shows "case fst (run_state (Lookup E opts tok st src') w1) of
     Inr s \<Rightarrow> src' = src \<and> se_user s = uid \<and> se_stage s = st
   | Inl e \<Rightarrow> src' \<noteq> src \<and> e = ErrNoSession"
proof -
  from Start_Inr [OF assms(1)] obtain row where
    "session_by_hash (stageHash E tok st) (w_db w1) = Inr row" "s_user row = uid" "s_src row = src"
    "s_expires row = unix (w_clock w (w_tick w) + session_ttl opts st)"
    "s_last_seen row = unix (w_clock w (w_tick w))"
    "tok \<noteq> []" "w_clock w1 = w_clock w" "w_tick w1 = Suc (w_tick w)"
    by (metis session_by_hash_new)
  with assms(2-4) show ?thesis
    by (auto simp: Lookup_def run_simps idle_too_long_def not_less split: sum.splits)
qed

theorem started_session_usable_witness:
  "\<exists>tok w1. run_state (Start sample_env sample_opts 1 StageFull client_ip ''ua'') sample_world = (Inr tok, w1) \<and>
     (\<exists>s. fst (run_state (Lookup sample_env sample_opts tok StageFull client_ip) w1) = Inr s \<and> se_user s = 1)"
proof -
  obtain tok w1 where r: "run_state (Start sample_env sample_opts 1 StageFull client_ip ''ua'') sample_world = (Inr tok, w1)"
      and f: "w_faults w1 = []"
    by (simp add: Start_def run_simps sample_world_def RandomToken_def insert_session_def user_exists_def
        sample_defs Let_def)
  have "case fst (run_state (Lookup sample_env sample_opts tok StageFull client_ip) w1) of
     Inr s \<Rightarrow> client_ip = client_ip \<and> se_user s = 1 \<and> se_stage s = StageFull
   | Inl e \<Rightarrow> client_ip \<noteq> client_ip \<and> e = ErrNoSession"
    by (rule started_session_usable [OF r])
      (simp_all add: f sample_world_def sample_opts_def session_ttl_def seconds_def unix_def)
  then show ?thesis using r by (auto split: sum.splits)
qed

text \<open>Finishing the second factor retires the first: after \<open>Promote\<close> the pending cookie no
  longer resolves, from any address, unless it collides under SHA-256 with the new one; and the promotion does
  not touch the sessions of anybody else.\<close>

theorem promote_retires_pending:
  assumes "run_state (Promote E opts tok uid src agent) w = (Inr tok2, w')" and "tok \<noteq> []"
  shows "(\<forall>src'. sha_collision E (stage_input tok2 StageFull) (stage_input tok StagePending) \<or>
            (\<forall>s. fst (run_state (Lookup E opts tok StagePending src') w') \<noteq> Inr s)) \<and>
     (\<forall>s \<in> set (sessions (w_db w)). s_token_hash s \<noteq> stageHash E tok StagePending \<longrightarrow> s \<in> set (sessions (w_db w')))"
proof -
  let ?p = "\<lambda>s. s_token_hash s = stageHash E tok StagePending"
  obtain w1 where s: "run_state (Start E opts uid StageFull src agent) w1 = (Inr tok2, w')"
      and d1: "w_db w1 = delete_sessions ?p (w_db w)"
    using assms unfolding Promote_def Destroy_def
    by (auto simp: run_simps split: if_split_asm sum.splits)
  from Start_Inr [OF s] session_by_hash_new obtain row where
    row: "sessions (w_db w') = filter (\<lambda>s. \<not> ?p s) (sessions (w_db w)) @ [row]"
      "s_token_hash row = stageHash E tok2 StageFull"
    unfolding d1 delete_sessions_def by fastforce
  have "sha_collision E (stage_input tok2 StageFull) (stage_input tok StagePending)"
    if l: "fst (run_state (Lookup E opts tok StagePending src') w') = Inr s" for src' s
  proof -
    from l obtain w'' where "run_state (Lookup E opts tok StagePending src') w' = (Inr s, w'')"
      by (metis prod.collapse)
    then obtain r where "r \<in> set (sessions (w_db w'))" "?p r" using Lookup_Inr by blast
    then have "stageHash E tok2 StageFull = stageHash E tok StagePending" using row by auto
    then show ?thesis using stageHash_bound by (metis stage.distinct(1))
  qed
  with row(1) show ?thesis by auto
qed

theorem promote_retires_pending_witness:
  "\<exists>tok2 w'. run_state (Promote sample_env sample_opts ''tok'' 1 client_ip ''ua'') sample_world = (Inr tok2, w') \<and>
     (\<forall>s. fst (run_state (Lookup sample_env sample_opts ''tok'' StagePending client_ip) w') \<noteq> Inr s)"
proof -
  obtain tok2 w' where r: "run_state (Promote sample_env sample_opts ''tok'' 1 client_ip ''ua'') sample_world = (Inr tok2, w')"
    by (simp add: Promote_def Destroy_def Start_def run_simps sample_world_def RandomToken_def insert_session_def
        delete_sessions_def user_exists_def sample_defs Let_def)
  have "\<not> sha_collision sample_env x y" for x y by (simp add: sample_env_def sha_collision_def)
  then have "fst (run_state (Lookup sample_env sample_opts ''tok'' StagePending client_ip) w') \<noteq> Inr s" for s
    using promote_retires_pending [OF r] by (metis list.distinct(1))
  with r show ?thesis by (intro exI [of _ tok2] exI [of _ w']) simp
qed

section \<open>The password check\<close>

text \<open>The portal's password check lets in only an active account whose stored hash verifies the
  password, from an address and under a name that are not locked out, and leaves the failure
  counters alone when it does; every other outcome is one of two errors, and the error for an
  unknown account, a wrong password and a disabled account is the same.  A wrong password or
  an unknown account counts against the address.\<close>

theorem check_password_sound:
  assumes "run_state (CheckPassword E opts name pw src) w = (r, w')"
  shows "case r of
     Inr u \<Rightarrow> UserByName name (w_db w) = Inr u \<and> is_active u \<and> VerifyPassword E pw (u_pwhash u) = Inr () \<and>
       \<not> fst (Locked (LockIP src) (w_clock w (w_tick w)) (w_lock w)) \<and>
       \<not> fst (Locked (LockUser name) (w_clock w (Suc (w_tick w))) (w_lock w)) \<and> w_lock w' = w_lock w
   | Inl e \<Rightarrow> e = ErrLockedOut \<and> w_lock w' = w_lock w \<or>
       e = ErrBadPassword \<and>
        (w_lock w' = w_lock w \<and>
           (\<exists>u. UserByName name (w_db w) = Inr u \<and> \<not> is_active u \<and> VerifyPassword E pw (u_pwhash u) = Inr ()) \<or>
         w_lock w' (LockIP src) = Fail opts (LockIP src) (w_clock w (w_tick w + 2)) (w_lock w) (LockIP src))"
proof -
  let ?ip = "fst (Locked (LockIP src) (w_clock w (w_tick w)) (w_lock w))"
  let ?user = "fst (Locked (LockUser name) (w_clock w (Suc (w_tick w))) (w_lock w))"
  show ?thesis
  proof (cases "?ip \<or> ?user")
    case True
    with assms show ?thesis by (cases ?ip) (auto simp: CheckPassword_def locked_def run_simps)
  next
    case False
    let ?q = "outcome (faulty w) (UserByName name (w_db w))"
    show ?thesis
    proof (cases ?q)
      case (Inl e)
      with False assms show ?thesis
        by (auto simp: CheckPassword_def locked_def fail_def run_simps)
    next
      case (Inr u)
      then have u: "UserByName name (w_db w) = Inr u" "\<not> faulty w" by auto
      show ?thesis
      proof (cases "VerifyPassword E pw (u_pwhash u)")
        case Inl: (Inl e)
        with False Inr assms show ?thesis
          by (auto simp: CheckPassword_def locked_def fail_def run_simps Fail_other)
      next
        case ok: (Inr z)
        from False Inr ok assms have "r = (if is_active u then Inr u else Inl ErrBadPassword) \<and> w_lock w' = w_lock w"
          by (auto simp: CheckPassword_def locked_def run_simps)
        with False u ok show ?thesis by simp
      qed
    qed
  qed
qed

theorem check_password_sound_witness:
  "\<exists>w'. run_state (CheckPassword sample_env sample_opts ''alice'' ''guess'' client_ip) sample_world = (Inl ErrBadPassword, w') \<and>
     w_lock w' (LockIP client_ip) \<noteq> None"
proof -
  obtain w' where r: "run_state (CheckPassword sample_env sample_opts ''alice'' ''guess'' client_ip) sample_world = (Inl ErrBadPassword, w')"
    by (simp add: CheckPassword_def locked_def fail_def run_simps sample_world_def Locked_def UserByName_def
        row_or_not_found_def sample_defs VerifyPassword_def)
  have no: "\<not> (\<exists>u. UserByName ''alice'' (w_db sample_world) = Inr u \<and> \<not> is_active u \<and>
      VerifyPassword sample_env ''guess'' (u_pwhash u) = Inr ())"
    by (simp add: sample_world_def UserByName_def row_or_not_found_def sample_defs is_active_def)
  from check_password_sound [OF r] no show ?thesis
    using r by (auto simp: Fail_def Let_def)
qed

end
