(* ===== verification/Policy_Guarantees.thy ===== *)
theory Policy_Guarantees
  imports Login_Policy Auth_Guarantees
begin

text \<open>
  The enforcement point: what an allowed connection, an accepted login and an issued grant imply
  about the database, whatever statements fail on the way.
\<close>

section \<open>A concrete gateway\<close>

definition sample_engine :: engine where
  "sample_engine = \<lparr>g_v4bits = 32, g_v6bits = 64, g_ttl = seconds 60, g_reuse = seconds 3600, g_jit = True,
     g_default_target = [], g_require_factor = True, g_totp_skew = 1, g_pass_through = True,
     g_sealer = Some (replicate 32 0), g_lockout = Some sample_opts\<rparr>"

lemma sample_key: "key sample_engine (V4 0xCB007105) = client_ip"
  by (simp add: key_def normalize_ip_def sample_engine_def client_ip_def)

lemmas sample_world_defs = sample_world_def sample_defs sample_key

lemma sample_authorized: "fst (run_state (Authorize sample_engine (V4 0xCB007105)) sample_world) = allow desk 1"
  by (simp add: Authorize_def reach_def run_simps sample_key sample_world_def ActiveGrant_def last_where_def
      live_grant_def row_or_not_found_def TargetByID_def UserByID_def CanReach_def affected_def is_active_def
      is_admin_def seconds_def unix_def sample_defs ConsumeGrant_def)

section \<open>Authorize\<close>

text \<open>The first \<open>n\<close> statements of the operation did not fail.\<close>

definition no_fault :: "nat \<Rightarrow> world \<Rightarrow> bool" where
  "no_fault n w \<longleftrightarrow> True \<notin> set (take n (w_faults w))"

lemma no_fault_0 [simp]: "no_fault 0 w"
  by (simp add: no_fault_def)

lemma no_fault_Suc: "no_fault (Suc n) w \<longleftrightarrow> \<not> faulty w \<and> no_fault n (calm w)"
  by (cases "w_faults w") (auto simp: no_fault_def)

lemma no_fault_world [simp]:
  "no_fault n (w\<lparr>w_tick := k\<rparr>) = no_fault n w" "no_fault n (w\<lparr>w_db := d\<rparr>) = no_fault n w"
  by (simp_all add: no_fault_def)

lemma Authorize_allow:
  assumes "run_state (Authorize C src) w = (dc, w')" and "dc_allow dc"
  shows "\<exists>g t u. ActiveGrant (key C src) (unix (w_clock w (w_tick w))) (w_db w) = Inr g \<and>
     TargetByID (g_target g) (w_db w) = Inr t \<and> UserByID (g_user g) (w_db w) = Inr u \<and>
     is_active u \<and> CanReach u (t_id t) (w_db w) \<and> dc = allow t (g_id g) \<and> no_fault 4 w"
  using assms unfolding Authorize_def reach_def
  by (auto simp: run_simps no_fault_Suc eval_nat_numeral split: sum.split_asm if_split_asm)

lemma CanReach_iff:
  "CanReach u tid d \<longleftrightarrow> is_active u \<and> (is_admin u \<or> (u_id u, tid) \<in> set (user_targets d))"
proof -
  have "0 < affected (\<lambda>(a, b). a = u_id u \<and> b = tid) (user_targets d) \<longleftrightarrow> (u_id u, tid) \<in> set (user_targets d)"
    unfolding neq0_conv [symmetric] affected_0 by auto
  then show ?thesis by (simp add: CanReach_def)
qed

text \<open>C3. The portal path forwards nothing without a valid grant: whatever statements fail, an
  allowed connection has a stored grant for its source address that is neither revoked nor
  expired at that moment and is the newest such grant; its account is active and may reach the
  grant's machine at that moment; the backend and the record point to that machine; and none of
  the four lookups failed.\<close>

theorem authorize_only_live_grants:
  assumes "db_ok (w_db w)" and "run_state (Authorize C src) w = (dc, w')" and "dc_allow dc"
  shows "\<exists>g \<in> set (grants (w_db w)). \<exists>t \<in> set (targets (w_db w)). \<exists>u \<in> set (users (w_db w)).
     live_grant (key C src) (unix (w_clock w (w_tick w))) g \<and>
     (\<forall>h \<in> set (grants (w_db w)). live_grant (key C src) (unix (w_clock w (w_tick w))) h \<longrightarrow> g_id h \<le> g_id g) \<and>
     t_id t = g_target g \<and> u_id u = g_user g \<and> is_active u \<and>
     (is_admin u \<or> (u_id u, t_id t) \<in> set (user_targets (w_db w))) \<and>
     dc_backend dc = Some (Addr t) \<and> dc_grant dc = g_id g \<and> dc_target dc = t_id t \<and> no_fault 4 w"
proof -
  obtain g t u where a: "ActiveGrant (key C src) (unix (w_clock w (w_tick w))) (w_db w) = Inr g"
     "TargetByID (g_target g) (w_db w) = Inr t" "UserByID (g_user g) (w_db w) = Inr u"
     "is_active u" "CanReach u (t_id t) (w_db w)" "dc = allow t (g_id g)" "no_fault 4 w"
    using Authorize_allow [OF assms(2,3)] by blast
  note g = ActiveGrant_Inr [OF assms(1) a(1)]
  have t: "t \<in> set (targets (w_db w))" "t_id t = g_target g" using a(2) assms(1) by (auto simp: TargetByID_iff)
  have u: "u \<in> set (users (w_db w))" "u_id u = g_user g" using a(3) assms(1) by (auto simp: UserByID_iff)
  show ?thesis
    by (intro bexI [of _ g] bexI [of _ t] bexI [of _ u])
      (use a g t u in \<open>simp_all add: allow_def CanReach_iff\<close>)
qed

theorem authorize_only_live_grants_witness:
  "\<exists>w'. run_state (Authorize sample_engine (V4 0xCB007105)) sample_world = (allow desk 1, w') \<and>
     (\<exists>g \<in> set (grants sample_db). g_id g = 1 \<and> g_src g = client_ip)"
proof -
  obtain w' where r: "run_state (Authorize sample_engine (V4 0xCB007105)) sample_world = (allow desk 1, w')"
    using sample_authorized by (metis prod.collapse)
  have "\<exists>g \<in> set (grants (w_db sample_world)). g_src g = client_ip \<and> g_id g = 1"
    using authorize_only_live_grants [OF _ r] sample_ok
    by (fastforce simp: sample_world_def live_grant_def sample_key allow_def)
  with r show ?thesis by (auto simp: sample_world_def)
qed

lemma ActiveGrant_eq:
  assumes "db_ok d" and "g \<in> set (grants d)" and "live_grant src now g"
    and "\<forall>h \<in> set (grants d). live_grant src now h \<longrightarrow> g_id h \<le> g_id g"
  shows "ActiveGrant src now d = Inr g"
proof (cases "ActiveGrant src now d")
  case (Inl e)
  with assms(2,3) show ?thesis by (auto simp: ActiveGrant_Inl)
next
  case (Inr h)
  from ActiveGrant_Inr [OF assms(1) Inr] assms have "g_id h = g_id g" by (metis order_antisym)
  moreover have "ids g_id (grants d) (seq d TGrants)" using assms(1) by (simp add: db_ok_def ids_ok_def)
  ultimately have "h = g" using ActiveGrant_Inr [OF assms(1) Inr] assms(2) by (metis ids_inj)
  with Inr show ?thesis by simp
qed

lemma CanReach_cong: "user_targets d = user_targets d' \<Longrightarrow> CanReach u t d = CanReach u t d'"
  by (simp add: CanReach_iff)

lemma Authorize_run:
  assumes "w_faults w = []" and "ActiveGrant (key C src) (unix (w_clock w (w_tick w))) (w_db w) = Inr g"
    and "TargetByID (g_target g) (w_db w) = Inr t" and "UserByID (g_user g) (w_db w) = Inr u"
    and "CanReach u (t_id t) (w_db w)"
  shows "run_state (Authorize C src) w = (allow t (g_id g), w\<lparr>w_tick := w_tick w + 2,
     w_db := projr (ConsumeGrant (unix (w_clock w (Suc (w_tick w)))) (g_id g)
       (unix (w_clock w (w_tick w) + g_reuse C)) (w_db w))\<rparr>)"
proof -
  have "is_active u" using assms(5) by (simp add: CanReach_iff)
  with assms show ?thesis by (simp add: Authorize_def reach_def run_simps ConsumeGrant_def)
qed

text \<open>A dropped connection can come back: after an allowed connection, with no failing
  statement, a second attempt from the same address before the reuse window closes is allowed
  again, on the same grant and to the same machine.\<close>

theorem reconnect_within_reuse_window:
  assumes "db_ok (w_db w)" and "w_faults w = []"
    and "run_state (Authorize C src) w = (dc, w')" and "dc_allow dc"
    and "w_clock w (w_tick w) \<le> w_clock w (w_tick w + 2)"
    and "unix (w_clock w (w_tick w + 2)) < unix (w_clock w (w_tick w) + g_reuse C)"
  shows "fst (run_state (Authorize C src) w') = dc"
proof -
  let ?now = "unix (w_clock w (w_tick w))" and ?then = "unix (w_clock w (w_tick w + 2))"
  let ?reuse = "unix (w_clock w (w_tick w) + g_reuse C)"
  obtain g t u where a: "ActiveGrant (key C src) ?now (w_db w) = Inr g"
     "TargetByID (g_target g) (w_db w) = Inr t" "UserByID (g_user g) (w_db w) = Inr u"
     "CanReach u (t_id t) (w_db w)" and dc: "dc = allow t (g_id g)"
    using Authorize_allow [OF assms(3,4)] by blast
  note g = ActiveGrant_Inr [OF assms(1) a(1)]
  define touch where "touch h = h\<lparr>g_consumed := Some (case g_consumed h of Some c \<Rightarrow> c
      | None \<Rightarrow> unix (w_clock w (Suc (w_tick w)))), g_expires := max (g_expires h) ?reuse\<rparr>" for h :: grant
  define d' where "d' = projr (ConsumeGrant (unix (w_clock w (Suc (w_tick w)))) (g_id g) ?reuse (w_db w))"
  have w': "w' = w\<lparr>w_tick := w_tick w + 2, w_db := d'\<rparr>"
    using assms(3) unfolding Authorize_run [OF assms(2) a] by (simp add: d'_def)
  have grants': "grants d' = update_where (\<lambda>h. g_id h = g_id g \<and> g_revoked h = None) touch (grants (w_db w))"
    by (simp add: d'_def ConsumeGrant_def touch_def [abs_def])
  have other: "users d' = users (w_db w)" "targets d' = targets (w_db w)" "user_targets d' = user_targets (w_db w)"
    by (simp_all add: d'_def ConsumeGrant_def)
  have ok': "db_ok d'" using assms(1) by (rule db_ok_step [rotated]) (auto simp: d'_def ConsumeGrant_def intro: db_step.consume_grant)
  have mono: "?now \<le> ?then" using assms(5) by (rule unix_mono)
  have "ActiveGrant (key C src) ?then d' = Inr (touch g)"
  proof (rule ActiveGrant_eq [OF ok'])
    show "touch g \<in> set (grants d')" using g by (auto simp: grants' set_update_where live_grant_def image_iff)
    show "live_grant (key C src) ?then (touch g)"
      using g assms(6) by (auto simp: live_grant_def touch_def)
    show "\<forall>h \<in> set (grants d'). live_grant (key C src) ?then h \<longrightarrow> g_id h \<le> g_id (touch g)"
      using g mono by (auto simp: grants' ball_update_where live_grant_def touch_def)
  qed
  moreover have "g_target (touch g) = g_target g" "g_user (touch g) = g_user g" "g_id (touch g) = g_id g"
    by (simp_all add: touch_def)
  ultimately show ?thesis
    using a dc Authorize_run [of w' C src "touch g" t u] assms(2) other
    by (simp add: w' TargetByID_def UserByID_def CanReach_cong [of d' "w_db w"])
qed

theorem reconnect_within_reuse_window_witness:
  "\<exists>w'. run_state (Authorize sample_engine (V4 0xCB007105)) sample_world = (allow desk 1, w') \<and>
     fst (run_state (Authorize sample_engine (V4 0xCB007105)) w') = allow desk 1"
proof -
  obtain w' where r: "run_state (Authorize sample_engine (V4 0xCB007105)) sample_world = (allow desk 1, w')"
    using sample_authorized by (metis prod.collapse)
  have "fst (run_state (Authorize sample_engine (V4 0xCB007105)) w') = allow desk 1"
    by (rule reconnect_within_reuse_window [OF _ _ r])
      (simp_all add: sample_world_def sample_ok sample_engine_def unix_def seconds_def)
  with r show ?thesis by blast
qed

end
