(* ===== verification/Login_Guarantees.thy ===== *)
theory Login_Guarantees
  imports Policy_Guarantees
begin

text \<open>
  The RDP-native login and the reconnect with its token: what a success implies, what a refusal
  leaves behind, and that the two halves fit together.
\<close>

section \<open>The reconnect\<close>

lemma token_by_hash_claimed:
  assumes "db_ok d" and "claim_token now th src d = Inr d'"
  shows "\<exists>r \<in> set (rtokens d). open_token th src now r \<and> token_by_hash th d' = Inr (r\<lparr>r_used := Some now\<rparr>)"
proof -
  from assms(2) obtain r where r: "r \<in> set (rtokens d)" "open_token th src now r"
    and d': "rtokens d' = update_where (open_token th src now) (\<lambda>r. r\<lparr>r_used := Some now\<rparr>) (rtokens d)"
    by (auto simp: claim_token_def affected_def dest!: length_Suc_conv [THEN iffD1] split: if_split_asm)
      (metis filter_eq_ConsD in_set_conv_decomp list.set_intros(1))
  have "distinct (map r_hash (rtokens d))" using assms(1) by (simp add: db_ok_def unique_ok_def)
  moreover have "map r_hash (rtokens d') = map r_hash (rtokens d)" by (simp add: d' map_update_where)
  ultimately have dist: "distinct (map r_hash (rtokens d'))" by simp
  let ?r = "r\<lparr>r_used := Some now\<rparr>"
  have mem: "?r \<in> set (rtokens d')" using r by (force simp: d' set_update_where)
  have hash: "r_hash ?r = th" using r by (simp add: open_token_def)
  have "find (\<lambda>x. r_hash x = th) (rtokens d') = Some ?r"
  proof (cases "find (\<lambda>x. r_hash x = th) (rtokens d')")
    case None
    with mem hash show ?thesis by (auto simp: find_None_iff)
  next
    case (Some s)
    then have "s \<in> set (rtokens d')" "r_hash s = th" by (auto dest: find_holds)
    moreover have "inj_on r_hash (set (rtokens d'))" using dist by (simp add: distinct_map)
    ultimately have "s = ?r" using mem hash by (metis inj_onD)
    with Some show ?thesis by simp
  qed
  with r show ?thesis by (auto simp: token_by_hash_def)
qed

lemma consume_token_Inr:
  "run_state (consume_token th src) w = (Inr rt, w1) \<Longrightarrow>
     claim_token (unix (w_clock w (w_tick w))) th src (w_db w) = Inr (w_db w1) \<and>
     token_by_hash th (w_db w1) = Inr rt \<and> \<not> faulty w \<and> \<not> faulty (calm w) \<and> w_faults w1 = w_faults (calm (calm w))"
  unfolding consume_token_def by (auto simp: run_simps split: sum.split_asm)

lemma AuthorizeToken_allow:
  assumes "run_state (AuthorizeToken E C src token) w = (dc, w')" and "dc_allow dc"
  shows "\<exists>d1 rt t u gid. claim_token (unix (w_clock w (w_tick w))) (HashToken E token) (key C src) (w_db w) = Inr d1 \<and>
     token_by_hash (HashToken E token) d1 = Inr rt \<and> TargetByID (r_target rt) d1 = Inr t \<and>
     UserByID (r_user rt) d1 = Inr u \<and> CanReach u (t_id t) d1 \<and> dc = allow t gid \<and>
     (w_db w' = d1 \<or> (\<exists>g th i. CreateGrant g th d1 = Inr (i, w_db w'))) \<and> no_fault 5 w"
proof -
  obtain rr w1 where c: "run_state (consume_token (HashToken E token) (key C src)) w = (rr, w1)"
    by (metis surj_pair)
  then obtain rt where rr: "rr = Inr rt" using assms
    by (cases rr) (auto simp: AuthorizeToken_def)
  note tok = consume_token_Inr [OF c [unfolded rr]]
  let ?t = "outcome (faulty w1) (TargetByID (r_target rt) (w_db w1))"
  let ?u = "outcome (faulty (calm w1)) (UserByID (r_user rt) (w_db w1))"
  obtain t where t: "?t = Inr t"
    using assms c rr by (cases ?t) (auto simp: AuthorizeToken_def run_simps)
  obtain u where u: "?u = Inr u"
    using assms c rr t by (cases ?u) (auto simp: AuthorizeToken_def run_simps)
  have ok: "is_active u" "outcome (faulty (calm (calm w1))) (Inr (CanReach u (t_id t) (w_db w1))) = Inr True"
    using assms c rr t u by (auto simp: AuthorizeToken_def run_simps reach_def split: if_split_asm)
  have "no_fault 5 w"
    using tok t u ok by (simp add: no_fault_Suc eval_nat_numeral)
  moreover have "\<exists>gid. dc = allow t gid"
    and "w_db w' = w_db w1 \<or> (\<exists>g th i. CreateGrant g th (w_db w1) = Inr (i, w_db w'))"
    using assms(1) c rr t u ok
    by (auto simp: AuthorizeToken_def run_simps reach_def issueFor_def split: sum.split_asm)
  ultimately show ?thesis using tok t u ok by auto
qed

lemma AuthorizeToken_refuses_spent:
  assumes "token_spent (HashToken E token) (w_db w)"
  shows "\<not> dc_allow (fst (run_state (AuthorizeToken E C src token) w))"
proof
  assume "dc_allow (fst (run_state (AuthorizeToken E C src token) w))"
  then obtain d1 where "claim_token (unix (w_clock w (w_tick w))) (HashToken E token) (key C src) (w_db w) = Inr d1"
    using AuthorizeToken_allow [of E C src token w] by (metis prod.collapse)
  with assms show False by (simp add: spent_refuses_token)
qed

lemma claim_token_frame:
  "claim_token now th src d = Inr d' \<Longrightarrow> users d' = users d \<and> targets d' = targets d \<and> user_targets d' = user_targets d"
  by (auto simp: claim_token_def)

lemma CreateGrant_frame:
  "CreateGrant g th d = Inr (i, d') \<Longrightarrow>
     users d' = users d \<and> targets d' = targets d \<and> user_targets d' = user_targets d \<and> rtokens d' = rtokens d \<and>
     grants d' = grants d @ [g\<lparr>g_id := i, g_token_hash := th, g_consumed := None, g_revoked := None\<rparr>]"
  by (auto simp: CreateGrant_def bump_def Let_def)

text \<open>C4. A redirected reconnect is forwarded only on a token this gateway issued: an allowed
  connection claimed a stored, unused, unexpired token whose hash is the hash of what the
  client sent and which was issued to the same source address; the account it was issued to is
  active and may reach the machine it names at that moment, and the connection goes to that
  machine.  From then on the same token is refused, from every address, until a token with the
  same hash is issued anew.\<close>

theorem authorize_token_sound:
  assumes "db_ok (w_db w)" and "run_state (AuthorizeToken E C src token) w = (dc, w')" and "dc_allow dc"
  shows "(\<exists>r \<in> set (rtokens (w_db w)). \<exists>t \<in> set (targets (w_db w)). \<exists>u \<in> set (users (w_db w)).
       open_token (HashToken E token) (key C src) (unix (w_clock w (w_tick w))) r \<and>
       t_id t = r_target r \<and> u_id u = r_user r \<and> is_active u \<and>
       (is_admin u \<or> (u_id u, t_id t) \<in> set (user_targets (w_db w))) \<and>
       dc_backend dc = Some (Addr t) \<and> dc_target dc = t_id t) \<and>
     (\<forall>w2 C2 src2. (not_reissued (HashToken E token))\<^sup>*\<^sup>* (w_db w') (w_db w2) \<longrightarrow>
        \<not> dc_allow (fst (run_state (AuthorizeToken E C2 src2 token) w2)))"
proof -
  let ?now = "unix (w_clock w (w_tick w))" and ?th = "HashToken E token"
  obtain d1 rt t u gid where c: "claim_token ?now ?th (key C src) (w_db w) = Inr d1"
    and b: "token_by_hash ?th d1 = Inr rt" and t: "TargetByID (r_target rt) d1 = Inr t"
    and u: "UserByID (r_user rt) d1 = Inr u" and reach: "CanReach u (t_id t) d1" and dc: "dc = allow t gid"
    and last: "w_db w' = d1 \<or> (\<exists>g th i. CreateGrant g th d1 = Inr (i, w_db w'))"
    using AuthorizeToken_allow [OF assms(2,3)] by blast
  have ok1: "db_ok d1" using assms(1) c by (blast intro: db_ok_step db_step.claim_rtoken)
  then have ok': "db_ok (w_db w')" using last by (blast intro: db_ok_step db_step.create_grant)
  obtain r where r: "r \<in> set (rtokens (w_db w))" "open_token ?th (key C src) ?now r"
    and rt: "rt = r\<lparr>r_used := Some ?now\<rparr>"
    using token_by_hash_claimed [OF assms(1) c] b by auto
  have "token_spent ?th d1" using c assms(1) by (auto simp: db_ok_def intro: claim_token_spends)
  then have "token_spent ?th (w_db w')"
    using last by (auto simp: token_spent_def dest: CreateGrant_frame)
  then have later: "token_spent ?th d2" if "(not_reissued ?th)\<^sup>*\<^sup>* (w_db w') d2" for d2
    using tokens.run_spent [OF that] ok' by blast
  have tt: "t \<in> set (targets (w_db w))" "t_id t = r_target r" and uu: "u \<in> set (users (w_db w))" "u_id u = r_user r"
    using t u ok1 claim_token_frame [OF c] by (auto simp: TargetByID_iff UserByID_iff rt)
  have may: "is_active u" "is_admin u \<or> (u_id u, t_id t) \<in> set (user_targets (w_db w))"
    using reach claim_token_frame [OF c] by (auto simp: CanReach_iff)
  show ?thesis
  proof (intro conjI)
    show "\<exists>r \<in> set (rtokens (w_db w)). \<exists>t \<in> set (targets (w_db w)). \<exists>u \<in> set (users (w_db w)).
       open_token ?th (key C src) ?now r \<and> t_id t = r_target r \<and> u_id u = r_user r \<and> is_active u \<and>
       (is_admin u \<or> (u_id u, t_id t) \<in> set (user_targets (w_db w))) \<and>
       dc_backend dc = Some (Addr t) \<and> dc_target dc = t_id t"
      by (intro bexI [of _ r] bexI [of _ t] bexI [of _ u]) (use r tt uu may dc in \<open>simp_all add: allow_def\<close>)
    show "\<forall>w2 C2 src2. (not_reissued ?th)\<^sup>*\<^sup>* (w_db w') (w_db w2) \<longrightarrow>
        \<not> dc_allow (fst (run_state (AuthorizeToken E C2 src2 token) w2))"
      using later AuthorizeToken_refuses_spent by blast
  qed
qed

theorem authorize_token_sound_witness:
  "\<exists>w dc w'. run_state (AuthorizeToken sample_env sample_engine (V4 0xCB007105) ''tok'') w = (dc, w') \<and>
     dc_backend dc = Some (''10.0.0.5'', 3389) \<and>
     \<not> dc_allow (fst (run_state (AuthorizeToken sample_env sample_engine (V4 0xCB007105) ''tok'') w'))"
proof -
  let ?h = "HashToken sample_env ''tok''"
  define w where "w = sample_world\<lparr>w_db := sample_db\<lparr>rtokens := [sample_token\<lparr>r_hash := ?h\<rparr>]\<rparr>\<rparr>"
  have ok: "db_ok (w_db w)"
    by (simp add: w_def db_ok_def ids_ok_def ids_def unique_ok_def hints_def lower_string_def check_ok_def fk_ok_def sample_defs
        valid_status_def valid_mode_def)
  obtain dc w' where r: "run_state (AuthorizeToken sample_env sample_engine (V4 0xCB007105) ''tok'') w = (dc, w')"
      and d: "dc_allow dc" "dc_backend dc = Some (''10.0.0.5'', 3389)"
    by (simp add: w_def AuthorizeToken_def consume_token_def reach_def issueFor_def run_simps sample_world_defs
        claim_token_def affected_def open_token_def update_where_def token_by_hash_def row_or_not_found_def
        TargetByID_def UserByID_def CanReach_def is_active_def is_admin_def CreateGrant_def user_exists_def
        target_exists_def valid_mode_def Let_def allow_def Addr_def seconds_def unix_def split: prod.splits)
  from authorize_token_sound [OF ok r d(1)]
  have "\<not> dc_allow (fst (run_state (AuthorizeToken sample_env sample_engine (V4 0xCB007105) ''tok'') w'))" by blast
  with r d show ?thesis by blast
qed

section \<open>Unlocking from the portal\<close>

text \<open>What \<open>Authorize\<close> reads of the database: the grant of the address, machines, accounts and rights.\<close>

lemma Authorize_view:
  assumes "\<And>now. ActiveGrant (key C src) now d = ActiveGrant (key C src) now (w_db w)"
    and "\<And>i. TargetByID i d = TargetByID i (w_db w)" and "\<And>i. UserByID i d = UserByID i (w_db w)"
    and "\<And>u i. CanReach u i d = CanReach u i (w_db w)"
  shows "fst (run_state (Authorize C src) (w\<lparr>w_db := d\<rparr>)) = fst (run_state (Authorize C src) w)"
  unfolding Authorize_def reach_def
  by (simp add: run_simps assms ConsumeGrant_def split: sum.split prod.split)

lemma last_where_snoc: "last_where P (xs @ [x]) = (if P x then Some x else last_where P xs)"
  by (cases "filter P xs") (auto simp: last_where_def)

text \<open>A new grant is seen from its own address only.\<close>

lemma CreateGrant_view:
  assumes "CreateGrant g th d = Inr (i, d')" and "g_src g \<noteq> k"
  shows "ActiveGrant k now d' = ActiveGrant k now d"
  using CreateGrant_frame [OF assms(1)] assms(2) by (simp add: ActiveGrant_def last_where_snoc live_grant_def)

text \<open>C14. Unlocking works end to end and is confined: when \<open>Unlock\<close> succeeds for an account, that
  account could reach the machine, and a connection from the unlocking address within the
  configured lifetime is forwarded to exactly that machine on exactly that grant - while for every
  address of another network key the gateway decides exactly as it would have without the
  unlock.\<close>

theorem unlock_then_connect:
  assumes "db_ok (w_db w)" and "UserByID (u_id u) (w_db w) = Inr u"
    and "run_state (Unlock C u tid src) w = (Inr (t, i), w1)"
    and "w_faults w1 = []" and "unix (w_clock w (Suc (w_tick w))) < unix (w_clock w (w_tick w) + g_ttl C)"
  shows "CanReach u tid (w_db w) \<and> t_id t = tid \<and>
     fst (run_state (Authorize C src) w1) = allow t i \<and>
     (\<forall>other. key C other \<noteq> key C src \<longrightarrow>
        fst (run_state (Authorize C other) w1) = fst (run_state (Authorize C other) (w1\<lparr>w_db := w_db w\<rparr>)))"
proof -
  let ?now = "unix (w_clock w (Suc (w_tick w)))"
  define g where "g = \<lparr>g_id = 0, g_user = u_id u, g_target = t_id t, g_src = key C src, g_token_hash = [],
       g_mode = ''portal'', g_created = unix (w_clock w (w_tick w)), g_expires = unix (w_clock w (w_tick w) + g_ttl C),
       g_consumed = None, g_revoked = None\<rparr>"
  have reach: "CanReach u tid (w_db w)" and t: "TargetByID tid (w_db w) = Inr t"
    and cg: "CreateGrant g [] (w_db w) = Inr (i, w_db w1)"
    and tick: "w_tick w1 = Suc (w_tick w)" "w_clock w1 = w_clock w"
    using assms(3) unfolding Unlock_def reach_def issue_def issueFor_def audit_def g_def
    by (auto simp: run_simps split: sum.split_asm if_split_asm)
  have tt: "t \<in> set (targets (w_db w))" "t_id t = tid" using t assms(1) by (auto simp: TargetByID_iff)
  have ok1: "db_ok (w_db w1)" using assms(1) cg by (blast intro: db_ok_step db_step.create_grant)
  note fr = CreateGrant_frame [OF cg]
  let ?g = "g\<lparr>g_id := i, g_token_hash := [], g_consumed := None, g_revoked := None\<rparr>"
  have "sorted_wrt (<) (map g_id (grants (w_db w) @ [?g]))"
    using ok1 fr by (simp add: db_ok_def ids_ok_def ids_def)
  then have newest: "\<forall>h \<in> set (grants (w_db w1)). g_id h \<le> i"
    using fr by (auto simp: sorted_wrt_append intro: less_imp_le)
  have "ActiveGrant (key C src) ?now (w_db w1) = Inr ?g"
    by (rule ActiveGrant_eq [OF ok1]) (use fr newest assms(5) in \<open>auto simp: live_grant_def g_def\<close>)
  moreover have "TargetByID (g_target ?g) (w_db w1) = Inr t" "UserByID (g_user ?g) (w_db w1) = Inr u"
    using fr t assms(2) tt by (simp_all add: TargetByID_def UserByID_def g_def)
  moreover have "CanReach u (t_id t) (w_db w1)" using reach tt fr by (simp add: CanReach_iff)
  ultimately have "fst (run_state (Authorize C src) w1) = allow t i"
    using Authorize_run [of w1 C src ?g t u] assms(4) tt by (simp add: tick)
  moreover have "fst (run_state (Authorize C other) w1) = fst (run_state (Authorize C other) (w1\<lparr>w_db := w_db w\<rparr>))"
    if "key C other \<noteq> key C src" for other
  proof -
    have "ActiveGrant (key C other) now (w_db w1) = ActiveGrant (key C other) now (w_db w)" for now
      by (rule CreateGrant_view [OF cg]) (use that in \<open>simp add: g_def\<close>)
    then show ?thesis
      by (intro Authorize_view [symmetric]) (use fr in \<open>simp_all add: TargetByID_def UserByID_def CanReach_def\<close>)
  qed
  ultimately show ?thesis using reach tt by blast
qed

theorem unlock_then_connect_witness:
  "\<exists>i w1. run_state (Unlock sample_engine alice 1 (V4 0x0A000001)) sample_world = (Inr (desk, i), w1) \<and>
     fst (run_state (Authorize sample_engine (V4 0x0A000001)) w1) = allow desk i \<and>
     \<not> dc_allow (fst (run_state (Authorize sample_engine (V4 0x0A000002)) w1))"
proof -
  obtain i w1 where r: "run_state (Unlock sample_engine alice 1 (V4 0x0A000001)) sample_world = (Inr (desk, i), w1)"
      and f: "w_faults w1 = []"
    by (simp add: Unlock_def reach_def issue_def issueFor_def audit_def run_simps sample_world_def CanReach_def
        affected_def is_active_def is_admin_def TargetByID_def row_or_not_found_def CreateGrant_def user_exists_def
        target_exists_def valid_mode_def Let_def sample_defs split: prod.splits)
  have u: "UserByID (u_id alice) (w_db sample_world) = Inr alice"
    by (simp add: UserByID_def row_or_not_found_def sample_world_def sample_defs)
  have ok: "db_ok (w_db sample_world)" using sample_ok by (simp add: sample_world_def)
  have soon: "unix (w_clock sample_world (Suc (w_tick sample_world)))
      < unix (w_clock sample_world (w_tick sample_world) + g_ttl sample_engine)"
    by (simp add: sample_world_def sample_engine_def unix_def seconds_def)
  note th = unlock_then_connect [OF ok u r f soon]
  have other: "key sample_engine (V4 0x0A000002) \<noteq> key sample_engine (V4 0x0A000001)" by code_simp
  have "ActiveGrant (key sample_engine (V4 0x0A000002)) now sample_db = Inl ErrNotFound" for now
  proof -
    have "\<forall>g \<in> set (grants sample_db). g_src g \<noteq> key sample_engine (V4 0x0A000002)" by code_simp
    then have "filter (live_grant (key sample_engine (V4 0x0A000002)) now) (grants sample_db) = []"
      by (auto simp: filter_empty_conv live_grant_def)
    then show ?thesis by (simp add: ActiveGrant_def last_where_def row_or_not_found_def)
  qed
  then have "\<not> dc_allow (fst (run_state (Authorize sample_engine (V4 0x0A000002)) (w1\<lparr>w_db := w_db sample_world\<rparr>)))"
    using f by (simp add: Authorize_def run_simps sample_world_def refuse_def)
  moreover have "fst (run_state (Authorize sample_engine (V4 0x0A000002)) w1) =
      fst (run_state (Authorize sample_engine (V4 0x0A000002)) (w1\<lparr>w_db := w_db sample_world\<rparr>))"
    using th other by blast
  ultimately show ?thesis using th r by auto
qed

section \<open>The login\<close>

text \<open>
  What stands behind an accepted second factor, on the database before and after: an approved
  push, an open backup code of the account that the typed code verifies and that is now
  claimed, or a TOTP step inside the window, newer than the last one used and now claimed.
\<close>

definition factor_proof :: "env \<Rightarrow> engine \<Rightarrow> user \<Rightarrow> string \<Rightarrow> ip \<Rightarrow> db \<Rightarrow> db \<Rightarrow> bool" where
  "factor_proof E C u factor src d d' \<longleftrightarrow>
     (equal_fold factor ''push'' \<and> d' = d \<and>
        (\<exists>approve n. x_approver E = Some approve \<and> approve n (u_username u) src [] = Approved)) \<or>
     (\<exists>c now. c \<in> set (OpenBackupCodes (u_id u) d) \<and>
        VerifyPassword E (NormalizeBackupCode E factor) (b_hash c) = Inr () \<and>
        ClaimBackupCode now (b_id c) d = Inr d') \<or>
     (\<exists>mk secret c now. g_sealer C = Some mk \<and> Open E mk (totp_label u) (u_totp_secret u) = Inr secret \<and>
        u_totp_counter u < c \<and> \<bar>c - unix now div Period\<bar> \<le> int (g_totp_skew C) \<and>
        x_totp E factor (string_of secret) (c * Period) \<and> ClaimTOTPCounter (u_id u) c d = Inr d')"

lemma first_match_Some:
  "first_match E norm cs = Some c \<Longrightarrow> c \<in> set cs \<and> VerifyPassword E norm (b_hash c) = Inr ()"
  by (induction cs) (auto split: sum.split_asm)

lemma consumeBackupCode_True:
  "run_state (consumeBackupCode E u norm) w = (True, w') \<Longrightarrow>
     \<exists>c now. c \<in> set (OpenBackupCodes (u_id u) (w_db w)) \<and> VerifyPassword E norm (b_hash c) = Inr () \<and>
       ClaimBackupCode now (b_id c) (w_db w) = Inr (w_db w')"
  unfolding consumeBackupCode_def
  by (auto simp: run_simps split: sum.split_asm option.split_asm) (blast dest: first_match_Some)+

lemma check_totp_True:
  "run_state (check_totp E C u factor) w = (True, w') \<Longrightarrow>
     \<exists>mk secret c now. g_sealer C = Some mk \<and> Open E mk (totp_label u) (u_totp_secret u) = Inr secret \<and>
        u_totp_counter u < c \<and> \<bar>c - unix now div Period\<bar> \<le> int (g_totp_skew C) \<and>
        x_totp E factor (string_of secret) (c * Period) \<and> ClaimTOTPCounter (u_id u) c (w_db w) = Inr (w_db w')"
  unfolding check_totp_def
  by (auto simp: run_simps split: sum.split_asm option.split_asm if_split_asm) (blast dest: Verify_Inr)+

lemma checkSecondFactor_True:
  assumes "run_state (checkSecondFactor E C u factor src) w = (True, w')"
  shows "factor_proof E C u factor src (w_db w) (w_db w')"
proof (cases "equal_fold factor ''push''")
  case True
  with assms show ?thesis
    by (auto simp: checkSecondFactor_def run_simps factor_proof_def split: option.split_asm)
next
  case False
  with assms consider "run_state (consumeBackupCode E u (NormalizeBackupCode E factor)) w = (True, w')"
    | "run_state (check_totp E C u factor) w = (True, w')"
    by (auto simp: checkSecondFactor_def Let_def split: if_split_asm)
  then show ?thesis
    unfolding factor_proof_def by cases (blast dest: consumeBackupCode_True check_totp_True)+
qed

lemma audit_keeps: "w_db (snd (run_state (audit a b c s d) w)) = w_db w"
  by (simp add: audit_def run_simps)

lemma run_audit [run_simps]:
  "run_state (audit a b c s d) w =
     ((), calm (if faulty w then w else w\<lparr>w_log := w_log w @ [event_of a b c (Some (ip_string s)) d]\<rparr>))"
  by (simp add: audit_def run_simps)

lemma run_e_succeed_db: "w_db (snd (run_state (e_succeed C k n) w)) = w_db w"
  by (simp add: e_succeed_def succeed_def run_simps split: option.split)

lemma e_locked_result:
  "run_state (e_locked C k n) w = (l, w1) \<Longrightarrow> w_db w1 = w_db w \<and> w_faults w1 = w_faults w \<and> w_lock w1 = w_lock w"
  by (auto simp: e_locked_def locked_def run_simps split: option.split_asm if_split_asm)

lemma refused_not_Inr [simp]: "fst (run_state (refused C k n src why) w) = Inl ErrLoginRefused"
  by (simp add: refused_def split: prod.split)

lemma identify_Inr:
  assumes "run_state (identify E C src cred) w = (Inr u, w1)"
  shows "\<exists>l wl. run_state (e_locked C (key C src) (bareUsername (cr_username cred))) w = (l, wl) \<and> \<not> fst l \<and>
     UserByName (bareUsername (cr_username cred)) (w_db w) = Inr u \<and> is_active u \<and>
     VerifyPassword E (fst (SplitPassword (cr_password cred))) (u_pwhash u) = Inr () \<and>
     (snd (SplitPassword (cr_password cred)) = [] \<and> \<not> g_require_factor C \<and> u_totp_secret u = [] \<and> w_db w1 = w_db w \<or>
      snd (SplitPassword (cr_password cred)) \<noteq> [] \<and>
        factor_proof E C u (snd (SplitPassword (cr_password cred))) src (w_db w) (w_db w1))"
proof -
  let ?name = "bareUsername (cr_username cred)"
  let ?factor = "snd (SplitPassword (cr_password cred))"
  obtain l wl where l: "run_state (e_locked C (key C src) ?name) w = (l, wl)" by (metis surj_pair)
  note db = e_locked_result [OF l]
  from assms l have nl: "\<not> fst l"
    by (auto simp: identify_def Let_def log_denied_def run_simps split: if_split_asm prod.split_asm)
  let ?q = "outcome (faulty wl) (UserByName ?name (w_db wl))"
  obtain v where q: "?q = Inr v"
    using assms l nl by (cases ?q) (auto simp: identify_def Let_def run_simps dest: arg_cong [of _ _ fst])
  have act: "is_active v"
    using assms l nl q by (auto simp: identify_def Let_def run_simps dest: arg_cong [of _ _ fst] split: if_split_asm)
  have pw: "VerifyPassword E (fst (SplitPassword (cr_password cred))) (u_pwhash v) = Inr ()"
    using assms l nl q act by (auto simp: identify_def Let_def run_simps dest: arg_cong [of _ _ fst] split: if_split_asm)
  show ?thesis
  proof (cases "?factor = []")
    case True
    have "\<not> (g_require_factor C \<or> u_totp_secret v \<noteq> [])"
      using assms l nl q act pw True
      by (auto simp: identify_def Let_def run_simps dest: arg_cong [of _ _ fst] split: if_split_asm)
    moreover from this have "v = u \<and> w_db w1 = w_db wl"
      using assms l nl q act pw True run_e_succeed_db [of C "key C src" ?name "calm wl"]
      by (auto simp: identify_def Let_def run_simps split: prod.split_asm)
    ultimately show ?thesis using l nl q act pw db True by auto
  next
    case False
    obtain b wf where f: "run_state (checkSecondFactor E C v ?factor src) (calm wl) = (b, wf)" by (metis surj_pair)
    have b: b
      using assms l nl q act pw False f
      by (auto simp: identify_def Let_def run_simps split: if_split_asm prod.split_asm)
    then have "v = u \<and> w_db w1 = w_db wf"
      using assms l nl q act pw False f run_e_succeed_db [of C "key C src" ?name wf]
      by (auto simp: identify_def Let_def run_simps split: prod.split_asm)
    with checkSecondFactor_True [of E C v ?factor src "calm wl" wf] f b show ?thesis
      using l nl q act pw db False by auto
  qed
qed

lemma wake_keeps: "w_db (snd (run_state (wake E t) w)) = w_db w"
  by (auto simp: wake_def run_simps split: sum.split)

lemma waitReady_keeps: "w_db (snd (run_state (waitReady E t) w)) = w_db w"
  by (simp add: waitReady_def run_simps)

lemma read_rand_keeps: "w_db (snd (run_state (read_rand n) w)) = w_db w"
  by (simp add: run_simps)

lemma targetFor_mem: "targetFor C ts = Some t \<Longrightarrow> t \<in> set ts"
  by (auto simp: targetFor_def split: if_split_asm dest: find_holds)

lemma redirect_user_Inr:
  assumes "run_state (redirect_user E C src cred u) w = (Inr rd, w')"
  shows "\<exists>t now. targetFor C (ListTargetsForUser u (w_db w)) = Some t \<and>
     CreateRedirectToken (unix now) (HashToken E (rd_token rd)) (u_id u) (t_id t) (key C src)
       (unix (now + redirectTTL)) (w_db w) = Inr (w_db w') \<and> rd = redirect_for C cred (rd_token rd)"
proof -
  obtain w1 rts where r: "run_state (targets_of u) w = (rts, w1)" "w_db w1 = w_db w"
    by (simp add: targets_of_def run_simps)
  let ?pick = "case rts of Inl _ \<Rightarrow> None | Inr ts \<Rightarrow> targetFor C ts"
  obtain t where t: "?pick = Some t"
    using assms r by (cases ?pick) (auto simp: redirect_user_def split: prod.split_asm)
  then have rts: "targetFor C (ListTargetsForUser u (w_db w)) = Some t"
    using r by (auto simp: targets_of_def run_simps split: sum.split_asm)
  obtain w2 where w2: "run_state (wake E t) w1 = ((), w2)" "w_db w2 = w_db w"
    using wake_keeps [of E t w1] r by (metis old.unit.exhaust prod.collapse)
  obtain up w3 where w3: "run_state (waitReady E t) w2 = (up, w3)" "w_db w3 = w_db w"
    using waitReady_keeps [of E t w2] w2 by (metis prod.collapse)
  have up: up using assms r t w2 w3 by (auto simp: redirect_user_def split: if_split_asm prod.split_asm)
  obtain rnd w4 where w4: "run_state (read_rand 24) w3 = (rnd, w4)" "w_db w4 = w_db w"
    using read_rand_keeps [of 24 w3] w3 by (metis prod.collapse)
  obtain token where token: "RandomToken rnd = Some token"
    using assms r t w2 w3 up w4 by (cases "RandomToken rnd") (auto simp: redirect_user_def)
  let ?now = "w_clock w4 (w_tick w4)"
  have "CreateRedirectToken (unix ?now) (HashToken E token) (u_id u) (t_id t) (key C src)
       (unix (?now + redirectTTL)) (w_db w) = Inr (w_db w') \<and> rd = redirect_for C cred token"
    using assms r t w2 w3 up w4 token
    by (auto simp: redirect_user_def run_simps split: sum.split_asm)
  then show ?thesis using rts by (auto simp: redirect_for_def Let_def)
qed

text \<open>C2. A login that ends in a redirection proves the person: the name, stripped of its domain,
  is an active account that is not locked out; its stored hash verifies the password before the
  last comma; and either what follows the comma is backed by a push, an open backup code or a
  fresh TOTP step - the last two spent in the same login - or nothing follows and the gateway
  does not require a second factor and the account has no TOTP secret.  The token handed out is
  stored only as its hash, for that account, for one of the account's own machines, bound to
  the client's address and valid for sixty seconds.\<close>

theorem authenticate_sound:
  assumes "run_state (Authenticate E C src cred) w = (Inr rd, w')"
  defines "password \<equiv> fst (SplitPassword (cr_password cred))"
    and "factor \<equiv> snd (SplitPassword (cr_password cred))"
    and "name \<equiv> bareUsername (cr_username cred)"
  shows "\<exists>u d1 t now.
     UserByName name (w_db w) = Inr u \<and> is_active u \<and>
     \<not> fst (fst (run_state (e_locked C (key C src) name) w)) \<and>
     VerifyPassword E password (u_pwhash u) = Inr () \<and>
     (if factor = [] then \<not> g_require_factor C \<and> u_totp_secret u = [] \<and> d1 = w_db w
      else factor_proof E C u factor src (w_db w) d1) \<and>
     t \<in> set (ListTargetsForUser u d1) \<and>
     CreateRedirectToken (unix now) (HashToken E (rd_token rd)) (u_id u) (t_id t) (key C src)
       (unix now + 60) d1 = Inr (w_db w')"
proof -
  obtain u w1 where i: "run_state (identify E C src cred) w = (Inr u, w1)"
    and r: "run_state (redirect_user E C src cred u) w1 = (Inr rd, w')"
    using assms(1) by (auto simp: Authenticate_def split: prod.split_asm sum.split_asm)
  from redirect_user_Inr [OF r] obtain t now where
    "targetFor C (ListTargetsForUser u (w_db w1)) = Some t"
    "CreateRedirectToken (unix now) (HashToken E (rd_token rd)) (u_id u) (t_id t) (key C src)
       (unix now + 60) (w_db w1) = Inr (w_db w')"
    by (auto simp: redirectTTL_def)
  with identify_Inr [OF i] show ?thesis
    unfolding password_def factor_def name_def
    by (intro exI [of _ u] exI [of _ "w_db w1"] exI [of _ t] exI [of _ now])
      (auto dest: targetFor_mem)
qed

text \<open>A machine and an account for the login: the password is \<open>pw\<close>, the second factor a push.\<close>

definition login_hash :: string where
  "login_hash = projr (HashPassword sample_env (Some [1, 2]) ''pw'')"

definition login_world :: world where
  "login_world = sample_world\<lparr>w_db := sample_db\<lparr>users := [alice\<lparr>u_pwhash := login_hash\<rparr>, root_admin]\<rparr>\<rparr>"

definition login_creds :: credentials where
  "login_creds = \<lparr>cr_domain = ''HOME'', cr_username = ''HOME'' @ [CHR 0x5C] @ ''alice'', cr_password = ''pw,push''\<rparr>"

lemma login_hash_verifies: "VerifyPassword sample_env ''pw'' login_hash = Inr ()"
proof -
  obtain h where "HashPassword sample_env (Some [1, 2]) ''pw'' = Inr h"
    using HashPassword_total [OF sample_argon2] by blast
  with VerifyPassword_of_hash [OF sample_argon2 this, of "''pw''"] show ?thesis by (simp add: login_hash_def)
qed

lemma login_split: "SplitPassword (cr_password login_creds) = (''pw'', ''push'')"
proof -
  have "trim_space ''push'' = ''push''" by (simp add: trim_space_ascii ascii_string_def ascii_space_def)
  then show ?thesis by (simp add: SplitPassword_def login_creds_def)
qed

lemma login_name: "bareUsername (cr_username login_creds) = ''alice''"
proof -
  have "bare_hint (cr_username login_creds) = ''alice''" by (simp add: login_creds_def bare_hint_def)
  moreover have "trim_space ''alice'' = ''alice''" by (simp add: trim_space_ascii ascii_string_def ascii_space_def)
  ultimately show ?thesis by (simp add: bareUsername_def)
qed

lemma push_folds: "equal_fold ''push'' ''push''"
  by (simp add: equal_fold_def runes_def decode_rune_def fold_eq_def)

lemma sample_env_waking:
  "x_waking sample_env n i = False" "x_alive sample_env n b = True" "x_ready sample_env n b = True"
  by (simp_all add: sample_env_def)

lemma length_hex_encode: "length (hex_encode bs) = 2 * length bs"
  by (induction bs) (simp_all add: hex_encode_def)

lemma length_sample_hash: "length bs = 24 \<Longrightarrow> length (HashToken sample_env (b64_encode b64_url bs)) = 64"
  by (simp add: HashToken_def length_hex_encode sample_env_def bytes_of_def length_b64_encode)

lemma login_identified:
  "\<exists>w1. run_state (identify sample_env sample_engine (V4 0x0A000001) login_creds) login_world =
     (Inr (alice\<lparr>u_pwhash := login_hash\<rparr>), w1) \<and> w_db w1 = w_db login_world \<and> w_faults w1 = [] \<and>
     w_clock w1 = w_clock login_world"
  unfolding identify_def login_split login_name
  by (simp add: Let_def e_locked_def locked_def run_simps sample_engine_def Locked_def login_world_def
      sample_world_def UserByName_def row_or_not_found_def sample_defs is_active_def login_hash_verifies
      checkSecondFactor_def push_folds sample_env_def [THEN arg_cong [of _ _ x_approver]] e_succeed_def succeed_def)

lemma login_db_ok: "db_ok (w_db login_world)"
proof -
  have "w_db login_world = sample_db\<lparr>users := [alice\<lparr>u_pwhash := login_hash\<rparr>, root_admin]\<rparr>"
    by (simp add: login_world_def)
  then show ?thesis
    by (simp add: db_ok_def ids_ok_def ids_def unique_ok_def hints_def lower_string_def check_ok_def fk_ok_def sample_defs
        valid_status_def valid_mode_def)
qed

lemma login_redirected:
  "\<exists>rd w'. run_state (Authenticate sample_env sample_engine (V4 0x0A000001) login_creds) login_world = (Inr rd, w') \<and>
     rd_password rd = ''pw'' \<and> w_faults w' = [] \<and>
     (\<forall>r \<in> set (rtokens (w_db w')). r_hash r = HashToken sample_env (rd_token rd) \<longrightarrow>
           unix (w_clock w' (w_tick w')) < r_expires r)"
proof -
  obtain w1 where i: "run_state (identify sample_env sample_engine (V4 0x0A000001) login_creds) login_world =
     (Inr (alice\<lparr>u_pwhash := login_hash\<rparr>), w1)"
    and w1: "w_db w1 = w_db login_world" "w_faults w1 = []" "w_clock w1 = w_clock login_world"
    using login_identified by blast
  have other: "''th'' \<noteq> HashToken sample_env (b64_encode b64_url bs)" if "length bs = 24" for bs
  proof
    assume "''th'' = HashToken sample_env (b64_encode b64_url bs)"
    from arg_cong [OF this, of length] length_sample_hash [OF that] show False by simp
  qed
  show ?thesis
    unfolding Authenticate_def run_state_bind i
    by (simp add: redirect_user_def targets_of_def run_simps w1 login_world_def sample_world_def other
        ListTargetsForUser_def is_admin_def targetFor_def wake_def waitReady_def sample_env_waking RandomToken_def
        CreateRedirectToken_def sample_defs user_exists_def target_exists_def Let_def redirect_for_def
        sample_engine_def redirectTTL_def seconds_def unix_def bump_def login_split)
qed

theorem authenticate_sound_witness:
  "\<exists>rd w'. run_state (Authenticate sample_env sample_engine (V4 0x0A000001) login_creds) login_world = (Inr rd, w') \<and>
     rd_password rd = ''pw'' \<and> is_active (alice\<lparr>u_pwhash := login_hash\<rparr>)"
proof -
  obtain rd w' where r: "run_state (Authenticate sample_env sample_engine (V4 0x0A000001) login_creds) login_world = (Inr rd, w')"
      and p: "rd_password rd = ''pw''"
    using login_redirected by blast
  from authenticate_sound [OF r] login_name have "is_active (alice\<lparr>u_pwhash := login_hash\<rparr>)"
    by (auto simp: login_world_def sample_world_def UserByName_def row_or_not_found_def sample_defs)
  with r p show ?thesis by blast
qed

section \<open>Login and reconnect together\<close>

lemma UserByName_ByID: "db_ok d \<Longrightarrow> UserByName n d = Inr u \<Longrightarrow> UserByID (u_id u) d = Inr u"
  by (auto simp: UserByID_iff UserByName_def dest: find_holds)

lemma ClaimTOTPCounter_frame:
  assumes "db_ok d" and "ClaimTOTPCounter i c d = Inr d'" and "UserByID j d = Inr u"
  shows "\<exists>n. UserByID j d' = Inr (u\<lparr>u_totp_counter := n\<rparr>)"
proof -
  have ok: "db_ok d'" using assms(1,2) by (blast intro: db_ok_step db_step.claim_counter)
  from assms have u: "u \<in> set (users d)" "u_id u = j" by (simp_all add: UserByID_iff)
  have "users d' = update_where (\<lambda>u. u_id u = i \<and> u_totp_counter u < c) (\<lambda>u. u\<lparr>u_totp_counter := c\<rparr>) (users d)"
    using assms(2) by (auto simp: ClaimTOTPCounter_def Let_def)
  then have "(if u_id u = i \<and> u_totp_counter u < c then u\<lparr>u_totp_counter := c\<rparr> else u) \<in> set (users d')"
    using u by (auto simp: set_update_where)
  moreover have "u = u\<lparr>u_totp_counter := u_totp_counter u\<rparr>" by simp
  ultimately obtain n where "u\<lparr>u_totp_counter := n\<rparr> \<in> set (users d')" by metis
  then show ?thesis using ok u by (auto simp: UserByID_iff)
qed

lemma factor_proof_frame:
  assumes "factor_proof E C v factor src d d'" and "db_ok d"
  shows "db_ok d' \<and> targets d' = targets d \<and> user_targets d' = user_targets d \<and>
     (UserByID i d = Inr u \<longrightarrow> (\<exists>n. UserByID i d' = Inr (u\<lparr>u_totp_counter := n\<rparr>)))"
proof -
  have same: "\<exists>n. u = u\<lparr>u_totp_counter := n\<rparr>" by (rule exI [of _ "u_totp_counter u"]) simp
  consider "d' = d" | now j where "ClaimBackupCode now j d = Inr d'" | j c where "ClaimTOTPCounter j c d = Inr d'"
    using assms(1) unfolding factor_proof_def by blast
  then show ?thesis
  proof cases
    case 1
    with assms(2) same show ?thesis by auto
  next
    case 2
    then have "users d' = users d" "targets d' = targets d" "user_targets d' = user_targets d"
      by (auto simp: ClaimBackupCode_def Let_def)
    moreover have "db_ok d'" using 2 assms(2) by (blast intro: db_ok_step db_step.claim_code)
    ultimately have "db_ok d'" "users d' = users d" "targets d' = targets d" "user_targets d' = user_targets d"
      by simp_all
    with same show ?thesis by (auto simp: UserByID_def)
  next
    case 3
    then have "targets d' = targets d" "user_targets d' = user_targets d"
      by (auto simp: ClaimTOTPCounter_def Let_def)
    moreover have "db_ok d'" using 3 assms(2) by (blast intro: db_ok_step db_step.claim_counter)
    ultimately show ?thesis using ClaimTOTPCounter_frame [OF assms(2) 3] by blast
  qed
qed

lemma ListTargets_reach:
  "is_active u \<Longrightarrow> t \<in> set (ListTargetsForUser u d) \<Longrightarrow> t \<in> set (targets d) \<and> CanReach u (t_id t) d"
  by (auto simp: ListTargetsForUser_def ListTargets_def CanReach_iff split: if_split_asm)

lemma AuthorizeToken_run:
  assumes "w_faults w = []"
    and "claim_token (unix (w_clock w (w_tick w))) (HashToken E token) (key C src) (w_db w) = Inr d1"
    and "token_by_hash (HashToken E token) d1 = Inr rt" and "TargetByID (r_target rt) d1 = Inr t"
    and "UserByID (r_user rt) d1 = Inr u" and "is_active u" and "CanReach u (t_id t) d1"
  shows "\<exists>gid. fst (run_state (AuthorizeToken E C src token) w) = allow t gid"
  using assms
  by (auto simp: AuthorizeToken_def consume_token_def reach_def issueFor_def run_simps split: sum.split prod.split)

lemma fresh_token_claimable:
  assumes "db_ok d" and "CreateRedirectToken now th uid tid src ex d = Inr d'" and "now' < ex"
  shows "\<exists>d2 rt. claim_token now' th src d' = Inr d2 \<and> token_by_hash th d2 = Inr rt \<and> r_user rt = uid \<and> r_target rt = tid \<and>
     users d2 = users d \<and> targets d2 = targets d \<and> user_targets d2 = user_targets d \<and> db_ok d2"
proof -
  have ok: "db_ok d'" using assms(1,2) by (blast intro: db_ok_step db_step.create_token)
  define row where "row = \<lparr>r_id = next_id d TRTokens, r_hash = th, r_user = uid, r_target = tid, r_src = src,
                 r_created = now, r_expires = ex, r_used = None\<rparr>"
  have d': "rtokens d' = rtokens d @ [row]" and fresh: "\<forall>r \<in> set (rtokens d). r_hash r \<noteq> th"
    and fr: "users d' = users d" "targets d' = targets d" "user_targets d' = user_targets d"
    using assms(2) by (auto simp: CreateRedirectToken_def Let_def bump_def row_def)
  have "affected (open_token th src now') (rtokens d') = 1"
    by (rule unique_affected [where f = r_hash and r = row and k = th])
      (use ok assms(3) in \<open>auto simp: d' row_def open_token_def db_ok_def unique_ok_def\<close>)
  then obtain d2 where c: "claim_token now' th src d' = Inr d2" by (simp add: claim_token_def)
  from token_by_hash_claimed [OF ok c] obtain r where "r \<in> set (rtokens d')" "open_token th src now' r"
    "token_by_hash th d2 = Inr (r\<lparr>r_used := Some now'\<rparr>)" by blast
  moreover from this fresh have "r = row" by (auto simp: d' open_token_def)
  moreover have "db_ok d2" using ok c by (blast intro: db_ok_step db_step.claim_rtoken)
  ultimately show ?thesis using c fr claim_token_frame [OF c] by (auto simp: row_def)
qed

lemma CreateRedirectToken_row:
  "CreateRedirectToken now th uid tid src ex d = Inr d' \<Longrightarrow> \<exists>r \<in> set (rtokens d'). r_hash r = th \<and> ex = r_expires r"
  by (auto simp: CreateRedirectToken_def Let_def bump_def)

text \<open>Login and reconnect fit together: after a login that ended in a redirection, the client
  that comes back with the token it was given, from the same network, before the stored token
  expires and with the database answering, is forwarded to one of the machines of the account
  that logged in.\<close>

theorem login_then_reconnect:
  assumes "db_ok (w_db w)" and "run_state (Authenticate E C src cred) w = (Inr rd, w')"
    and "w_db w2 = w_db w'" and "w_faults w2 = []" and "key C src2 = key C src"
    and "\<forall>r \<in> set (rtokens (w_db w')). r_hash r = HashToken E (rd_token rd) \<longrightarrow>
           unix (w_clock w2 (w_tick w2)) < r_expires r"
  shows "\<exists>u t gid. UserByName (bareUsername (cr_username cred)) (w_db w) = Inr u \<and>
     t \<in> set (ListTargetsForUser u (w_db w)) \<and>
     fst (run_state (AuthorizeToken E C src2 (rd_token rd)) w2) = allow t gid"
proof -
  let ?now = "unix (w_clock w2 (w_tick w2))" and ?th = "HashToken E (rd_token rd)"
  obtain u w1 where i: "run_state (identify E C src cred) w = (Inr u, w1)"
    and r: "run_state (redirect_user E C src cred u) w1 = (Inr rd, w')"
    using assms(2) by (auto simp: Authenticate_def split: prod.split_asm sum.split_asm)
  note id = identify_Inr [OF i]
  then have name: "UserByName (bareUsername (cr_username cred)) (w_db w) = Inr u" and act: "is_active u" by auto
  have byid: "UserByID (u_id u) (w_db w) = Inr u" using assms(1) name by (rule UserByName_ByID)
  have "\<exists>n. db_ok (w_db w1) \<and> targets (w_db w1) = targets (w_db w) \<and>
      user_targets (w_db w1) = user_targets (w_db w) \<and> UserByID (u_id u) (w_db w1) = Inr (u\<lparr>u_totp_counter := n\<rparr>)"
  proof (cases "snd (SplitPassword (cr_password cred)) = []")
    case True
    with id have "w_db w1 = w_db w" by auto
    then show ?thesis using assms(1) byid by (intro exI [of _ "u_totp_counter u"]) simp
  next
    case False
    with id have "factor_proof E C u (snd (SplitPassword (cr_password cred))) src (w_db w) (w_db w1)" by auto
    from factor_proof_frame [OF this assms(1)] byid show ?thesis by blast
  qed
  then obtain n where ok1: "db_ok (w_db w1)" and fr1: "targets (w_db w1) = targets (w_db w)"
      "user_targets (w_db w1) = user_targets (w_db w)"
    and u1: "UserByID (u_id u) (w_db w1) = Inr (u\<lparr>u_totp_counter := n\<rparr>)"
    by blast
  obtain t now where t: "targetFor C (ListTargetsForUser u (w_db w1)) = Some t"
    and cr: "CreateRedirectToken (unix now) ?th (u_id u) (t_id t) (key C src) (unix (now + redirectTTL)) (w_db w1) = Inr (w_db w')"
    using redirect_user_Inr [OF r] by blast
  have lt: "ListTargetsForUser u (w_db w1) = ListTargetsForUser u (w_db w)"
    by (simp add: ListTargetsForUser_def ListTargets_def fr1)
  then have mem: "t \<in> set (ListTargetsForUser u (w_db w))" using t by (auto dest: targetFor_mem)
  note tr = ListTargets_reach [OF act mem]
  have "?now < unix (now + redirectTTL)"
    using assms(6) CreateRedirectToken_row [OF cr] by auto
  then obtain d2 rt where c: "claim_token ?now ?th (key C src) (w_db w') = Inr d2" "token_by_hash ?th d2 = Inr rt"
      "r_user rt = u_id u" "r_target rt = t_id t"
    and fr2: "users d2 = users (w_db w1)" "targets d2 = targets (w_db w1)" "user_targets d2 = user_targets (w_db w1)" "db_ok d2"
    using fresh_token_claimable [OF ok1 cr] by blast
  have "TargetByID (r_target rt) d2 = Inr t" using fr2 c tr fr1 by (simp add: TargetByID_iff)
  moreover have "UserByID (r_user rt) d2 = Inr (u\<lparr>u_totp_counter := n\<rparr>)" using u1 fr2 c by (simp add: UserByID_def)
  moreover have "CanReach (u\<lparr>u_totp_counter := n\<rparr>) (t_id t) d2"
    using tr fr2 fr1 by (simp add: CanReach_iff is_active_def is_admin_def)
  ultimately have "\<exists>gid. fst (run_state (AuthorizeToken E C src2 (rd_token rd)) w2) = allow t gid"
    using AuthorizeToken_run [of w2 E "rd_token rd" C src2 d2 rt t "u\<lparr>u_totp_counter := n\<rparr>"] assms(3-5) c act
    by (simp add: is_active_def)
  with name mem show ?thesis by blast
qed

theorem login_then_reconnect_witness:
  "\<exists>rd w' gid. run_state (Authenticate sample_env sample_engine (V4 0x0A000001) login_creds) login_world = (Inr rd, w') \<and>
     fst (run_state (AuthorizeToken sample_env sample_engine (V4 0x0A000001) (rd_token rd)) w') = allow desk gid"
proof -
  obtain rd w' where r: "run_state (Authenticate sample_env sample_engine (V4 0x0A000001) login_creds) login_world = (Inr rd, w')"
      and f: "w_faults w' = []" and x: "\<forall>r \<in> set (rtokens (w_db w')). r_hash r = HashToken sample_env (rd_token rd) \<longrightarrow>
           unix (w_clock w' (w_tick w')) < r_expires r"
    using login_redirected by blast
  have "ListTargetsForUser (alice\<lparr>u_pwhash := login_hash\<rparr>) (w_db login_world) = [desk]"
    by (simp add: ListTargetsForUser_def login_world_def sample_world_def sample_defs is_admin_def)
  moreover have "UserByName ''alice'' (w_db login_world) = Inr (alice\<lparr>u_pwhash := login_hash\<rparr>)"
    by (simp add: UserByName_def row_or_not_found_def login_world_def sample_world_def sample_defs)
  ultimately show ?thesis
    using login_then_reconnect [OF login_db_ok r refl f refl x] r login_name by auto
qed

end
