(* ===== verification/Refusals.thy ===== *)
theory Refusals
  imports Login_Guarantees
begin

text \<open>
  What a refused RDP login leaves behind, and a limit of the backup codes on that path.
\<close>

section \<open>Refused logins are counted\<close>

definition count_of :: "lockouts \<Rightarrow> lock_key \<Rightarrow> int" where
  "count_of m k = (case m k of None \<Rightarrow> 0 | Some f \<Rightarrow> f_count f)"

lemma count_Fail: "count_of (Fail opts k now m) j = count_of m j + (if j = k then 1 else 0)"
  by (auto simp: Fail_def count_of_def Let_def split: option.split)

lemma e_fail_counts:
  assumes "g_lockout C = Some opts" and "run_state (e_fail C k n) w = ((), w')"
  shows "count_of (w_lock w') (LockIP k) = count_of (w_lock w) (LockIP k) + 1 \<and>
     count_of (w_lock w') (LockUser n) = count_of (w_lock w) (LockUser n) + 1 \<and> w_db w' = w_db w"
  using assms by (auto simp: e_fail_def fail_def run_simps count_Fail)

lemma run_log_denied:
  "w_lock (snd (run_state (log_denied n s why) w)) = w_lock w \<and> w_db (snd (run_state (log_denied n s why) w)) = w_db w"
  by (simp add: log_denied_def run_simps)

lemma consumeBackupCode_lock: "w_lock (snd (run_state (consumeBackupCode E u norm) w)) = w_lock w"
  by (auto simp: consumeBackupCode_def run_simps split: sum.split option.split)

lemma check_totp_lock: "w_lock (snd (run_state (check_totp E C u factor) w)) = w_lock w"
  by (auto simp: check_totp_def run_simps split: sum.split option.split)

lemma checkSecondFactor_lock: "w_lock (snd (run_state (checkSecondFactor E C u factor src) w)) = w_lock w"
  by (auto simp: checkSecondFactor_def run_simps Let_def consumeBackupCode_lock check_totp_lock split: option.split)

lemma refused_counts:
  assumes "g_lockout C = Some opts" and "run_state (refused C k n src why) w = (r, w')"
  shows "r = Inl ErrLoginRefused \<and> count_of (w_lock w') (LockIP k) = count_of (w_lock w) (LockIP k) + 1 \<and>
     count_of (w_lock w') (LockUser n) = count_of (w_lock w) (LockUser n) + 1"
proof -
  obtain w1 where f: "run_state (e_fail C k n) w = ((), w1)" by (metis old.unit.exhaust prod.collapse)
  have "r = Inl ErrLoginRefused \<and> w_lock w' = w_lock w1"
    using assms(2) f run_log_denied [of n src why w1] by (auto simp: refused_def split: prod.split_asm)
  with e_fail_counts [OF assms(1) f] show ?thesis by simp
qed

lemma identify_refused:
  assumes "g_lockout C = Some opts" and "run_state (identify E C src cred) w = (Inl e, w')"
  defines "name \<equiv> bareUsername (cr_username cred)"
  shows "e = ErrLoginRefused \<and>
    (if fst (fst (run_state (e_locked C (key C src) name) w))
     then w_db w' = w_db w \<and> w_lock w' = w_lock w
     else count_of (w_lock w') (LockIP (key C src)) = count_of (w_lock w) (LockIP (key C src)) + 1 \<and>
       count_of (w_lock w') (LockUser name) = count_of (w_lock w) (LockUser name) + 1)"
proof -
  let ?factor = "snd (SplitPassword (cr_password cred))"
  let ?counted = "\<lambda>wa wb. count_of (w_lock wb) (LockIP (key C src)) = count_of (w_lock wa) (LockIP (key C src)) + 1 \<and>
       count_of (w_lock wb) (LockUser name) = count_of (w_lock wa) (LockUser name) + 1"
  obtain l wl where l: "run_state (e_locked C (key C src) name) w = (l, wl)" by (metis surj_pair)
  note db = e_locked_result [OF l]
  have counted: "e = ErrLoginRefused \<and> ?counted w w'"
    if "run_state (refused C (key C src) name src why) (calm wl) = (Inl e :: login_error + user, w')" for why
    using refused_counts [OF assms(1) that] db by simp
  show ?thesis
  proof (cases "fst l")
    case True
    with assms(2) l run_log_denied [of name src "''locked out''" wl] db show ?thesis
      by (auto simp: identify_def Let_def name_def split: prod.split_asm)
  next
    case nl: False
    let ?q = "outcome (faulty wl) (UserByName name (w_db wl))"
    have "e = ErrLoginRefused \<and> ?counted w w'"
    proof (cases ?q)
      case (Inl x)
      then show ?thesis
        using assms(2) l nl counted [of "''unknown account''"] by (auto simp: identify_def Let_def run_simps name_def)
    next
      case (Inr u)
      note run = assms(2) l nl Inr
      consider "\<not> is_active u" | "is_active u" "VerifyPassword E (fst (SplitPassword (cr_password cred))) (u_pwhash u) \<noteq> Inr ()"
        | "is_active u" "VerifyPassword E (fst (SplitPassword (cr_password cred))) (u_pwhash u) = Inr ()" "?factor = []"
        | "is_active u" "VerifyPassword E (fst (SplitPassword (cr_password cred))) (u_pwhash u) = Inr ()" "?factor \<noteq> []"
        by blast
      then show ?thesis
      proof cases
        case 1
        then show ?thesis using run counted [of "''account not active''"]
          by (auto simp: identify_def Let_def run_simps name_def)
      next
        case 2
        then show ?thesis using run counted [of "''wrong password''"]
          by (auto simp: identify_def Let_def run_simps name_def)
      next
        case 3
        then have "g_require_factor C \<or> u_totp_secret u \<noteq> []"
          using run by (auto simp: identify_def Let_def run_simps name_def split: prod.split_asm)
        with 3 show ?thesis using run counted [of "''no second factor supplied''"]
          by (auto simp: identify_def Let_def run_simps name_def)
      next
        case 4
        obtain b wf where f: "run_state (checkSecondFactor E C u ?factor src) (calm wl) = (b, wf)" by (metis surj_pair)
        obtain we where e: "run_state (e_fail C (key C src) name) wf = ((), we)" by (metis old.unit.exhaust prod.collapse)
        have nb: "\<not> b" using 4 run f by (auto simp: identify_def Let_def run_simps name_def split: prod.split_asm)
        then have "e = ErrLoginRefused \<and> w_lock w' = w_lock we"
          using 4 run f e by (auto simp: identify_def Let_def run_simps name_def)
        then show ?thesis
          using e_fail_counts [OF assms(1) e] checkSecondFactor_lock [of E C u ?factor src "calm wl"] f db by simp
      qed
    qed
    with nl l show ?thesis by simp
  qed
qed

text \<open>Once the person is known, what follows counts nothing and, when it fails, writes nothing.\<close>

lemma wake_lock: "w_lock (snd (run_state (wake E t) w)) = w_lock w"
  by (auto simp: wake_def run_simps split: sum.split)

lemma waitReady_lock: "w_lock (snd (run_state (waitReady E t) w)) = w_lock w"
  by (simp add: waitReady_def run_simps)

lemma read_rand_lock: "w_lock (snd (run_state (read_rand n) w)) = w_lock w"
  by (simp add: run_simps)

lemma redirect_user_Inl:
  assumes "run_state (redirect_user E C src cred u) w = (Inl e, w')"
  shows "w_lock w' = w_lock w \<and> w_db w' = w_db w"
proof -
  obtain w1 rts where r: "run_state (targets_of u) w = (rts, w1)" "w_db w1 = w_db w" "w_lock w1 = w_lock w"
    by (simp add: targets_of_def run_simps)
  let ?pick = "case rts of Inl _ \<Rightarrow> None | Inr ts \<Rightarrow> targetFor C ts"
  show ?thesis
  proof (cases ?pick)
    case None
    with assms r show ?thesis by (auto simp: redirect_user_def log_denied_def run_simps split: if_split_asm)
  next
    case (Some t)
    obtain w2 where w2: "run_state (wake E t) w1 = ((), w2)" "w_db w2 = w_db w" "w_lock w2 = w_lock w"
      using wake_keeps [of E t w1] wake_lock [of E t w1] r by (metis old.unit.exhaust prod.collapse)
    obtain up w3 where w3: "run_state (waitReady E t) w2 = (up, w3)" "w_db w3 = w_db w" "w_lock w3 = w_lock w"
      using waitReady_keeps [of E t w2] waitReady_lock [of E t w2] w2 by (metis prod.collapse)
    obtain rnd w4 where w4: "run_state (read_rand 24) w3 = (rnd, w4)" "w_db w4 = w_db w" "w_lock w4 = w_lock w"
      using read_rand_keeps [of 24 w3] read_rand_lock [of 24 w3] w3 by (metis prod.collapse)
    show ?thesis
      using assms r Some w2 w3 w4
      by (cases "RandomToken rnd")
        (auto simp: redirect_user_def run_simps split: if_split_asm sum.split_asm)
  qed
qed



section \<open>Backup codes made of digits only\<close>

text \<open>A backup code whose ten characters all happen to be digits - the generator can print one -
  cannot be redeemed over RDP: a factor that normalises to digits only never reads or claims a
  backup code, and is accepted only if the TOTP check takes it.\<close>

theorem all_digit_backup_code_unusable:
  "(\<exists>bs code. length bs = 7 \<and> NewBackupCode (Some bs) = Some code \<and> isAllDigits (NormalizeBackupCode E code) \<and>
      length (NormalizeBackupCode E code) = 10) \<and>
   (\<forall>factor w. isAllDigits (NormalizeBackupCode E factor) \<and> \<not> equal_fold factor ''push'' \<longrightarrow>
      codes (w_db (snd (run_state (checkSecondFactor E C u factor src) w))) = codes (w_db w) \<and>
      (fst (run_state (checkSecondFactor E C u factor src) w) \<longrightarrow> fst (run_state (check_totp E C u factor) w)))"
proof (intro conjI allI impI)
  have c: "NewBackupCode (Some [0xC6, 0x31, 0x8C, 0x63, 0x18, 0xC6, 0x00]) = Some ''22222-22222''"
    by (simp add: NewBackupCode_def b32_digits_def backupAlphabet_def upt_rec)
  have n: "NormalizeBackupCode E ''22222-22222'' = ''2222222222''"
    by (simp add: NormalizeBackupCode_alt typed_chars_def to_upper_ascii ascii_string_def ascii_upper_def char_of_eq_iff)
  have "isAllDigits ''2222222222''" by (simp add: isAllDigits_def runes_ascii ascii_string_def)
  with c n show "\<exists>bs code. length bs = 7 \<and> NewBackupCode (Some bs) = Some code \<and>
      isAllDigits (NormalizeBackupCode E code) \<and> length (NormalizeBackupCode E code) = 10"
    by (intro exI [of _ "[0xC6, 0x31, 0x8C, 0x63, 0x18, 0xC6, 0x00]"] exI [of _ "''22222-22222''"]) simp
next
  fix factor w assume a: "isAllDigits (NormalizeBackupCode E factor) \<and> \<not> equal_fold factor ''push''"
  then have eq: "checkSecondFactor E C u factor src = check_totp E C u factor"
    by (simp add: checkSecondFactor_def Let_def)
  then show "fst (run_state (checkSecondFactor E C u factor src) w) \<Longrightarrow> fst (run_state (check_totp E C u factor) w)"
    by simp
  show "codes (w_db (snd (run_state (checkSecondFactor E C u factor src) w))) = codes (w_db w)"
    unfolding eq
    by (auto simp: check_totp_def run_simps ClaimTOTPCounter_def outcome_def Let_def split: sum.split option.split if_split_asm)
qed

theorem all_digit_backup_code_unusable_witness:
  "\<exists>w. codes (w_db (snd (run_state (checkSecondFactor sample_env sample_engine alice ''22222-22222'' NilIP) w))) = codes (w_db w)"
proof -
  have n: "NormalizeBackupCode sample_env ''22222-22222'' = ''2222222222''"
    by (simp add: NormalizeBackupCode_alt typed_chars_def to_upper_ascii ascii_string_def ascii_upper_def char_of_eq_iff)
  have "isAllDigits ''2222222222'' \<and> \<not> equal_fold ''22222-22222'' ''push''"
    by (simp add: isAllDigits_def runes_ascii ascii_string_def equal_fold_def)
  then show ?thesis
    using all_digit_backup_code_unusable [of sample_env sample_engine alice NilIP] n by metis
qed

end
