(* ===== verification/Gateway.thy ===== *)
theory Gateway
  imports Relay Refusals
begin

text \<open>
  The relay with the real policy behind it, as \<open>cmd/revpd\<close> wires them: the collaborators are the
  operations of \<open>internal/policy\<close>, and the contract the relay was verified against is discharged
  for them.
\<close>

section \<open>Approval on a phone\<close>

lemma jit_outcome_allow:
  assumes "run_state (jit_outcome E C u t i src answer) w = (d, w')" and "dc_allow d"
  shows "answer = Approved \<and> (\<exists>gid. d = allow t gid)"
  using assms
  by (auto simp: jit_outcome_def split: approval.split_asm bool.split_asm if_split_asm sum.split_asm prod.split_asm)

lemma Review_allow:
  assumes "run_state (Review E C src cr) w = (d, w')" and "dc_allow d"
  shows "g_jit C \<and> cq_cookie cr \<noteq> [] \<and>
     (\<exists>approve u t gid. x_approver E = Some approve \<and>
        approve (Suc (w_tick w)) (u_username u) src (t_name t) = Approved \<and>
        UserByRDPHint (cq_cookie cr) (w_db w) = Inr u \<and> jitTarget C (ListTargetsForUser u (w_db w)) = Some t \<and>
        CanReach u (t_id t) (w_db w) \<and> d = allow t gid)"
proof -
  from assms obtain approve where a: "x_approver E = Some approve" "g_jit C" "cq_cookie cr \<noteq> []"
    by (cases "x_approver E") (auto simp: Review_def split: if_split_asm)
  let ?u = "outcome (faulty w) (UserByRDPHint (cq_cookie cr) (w_db w))"
  obtain u where u: "?u = Inr u"
    using assms a by (cases ?u) (auto simp: Review_def run_simps)
  let ?ts = "outcome (faulty (calm w)) (Inr (ListTargetsForUser u (w_db w)))"
  let ?t = "case ?ts of Inl _ \<Rightarrow> None | Inr ts \<Rightarrow> jitTarget C ts"
  obtain t where t: "?t = Some t"
    using assms a u by (cases ?t) (auto simp: Review_def targets_of_def run_simps)
  have ok: "outcome (faulty (calm (calm w))) (Inr (CanReach u (t_id t) (w_db w))) = Inr True"
    using assms a u t by (auto simp: Review_def targets_of_def reach_def run_simps split: if_split_asm)
  have "\<exists>i w2. run_state (jit_outcome E C u t i src (approve (Suc (w_tick w)) (u_username u) src (t_name t))) w2 = (d, w')"
    using assms a u t ok
    by (auto simp: Review_def targets_of_def reach_def run_simps split: sum.split_asm prod.split_asm if_split_asm) blast+
  then obtain i w2 where "run_state (jit_outcome E C u t i src (approve (Suc (w_tick w)) (u_username u) src (t_name t))) w2 = (d, w')"
    by blast
  from jit_outcome_allow [OF this assms(2)] obtain gid
    where "approve (Suc (w_tick w)) (u_username u) src (t_name t) = Approved" "d = allow t gid" by blast
  moreover have "jitTarget C (ListTargetsForUser u (w_db w)) = Some t"
    using t by (auto split: sum.split_asm)
  ultimately show ?thesis using a u ok by auto
qed

section \<open>The gateway\<close>

definition gateway :: "env \<Rightarrow> engine \<Rightarrow> (ip \<Rightarrow> connection_request \<Rightarrow> bool act) option \<Rightarrow> world collaborators" where
  "gateway E C login =
     \<lparr>co_authorize = Authorize C, co_authorize_token = AuthorizeToken E C, co_review = Review E C,
      co_login = login, co_rejected = Rejected, co_opened = Opened, co_closed = Closed\<rparr>"

text \<open>
  Why a connection may be forwarded, in the state the decision was started in: a live grant for the
  address, an open redirect token for the address, or a person who said yes when the review asked -
  its first reading of the clock comes before the question.
\<close>

definition by_grant :: "engine \<Rightarrow> world \<Rightarrow> ip \<Rightarrow> decision \<Rightarrow> bool" where
  "by_grant C w src d \<longleftrightarrow>
     (\<exists>g t u. ActiveGrant (key C src) (unix (w_clock w (w_tick w))) (w_db w) = Inr g \<and>
        TargetByID (g_target g) (w_db w) = Inr t \<and> UserByID (g_user g) (w_db w) = Inr u \<and>
        CanReach u (t_id t) (w_db w) \<and> d = allow t (g_id g))"

definition by_token :: "env \<Rightarrow> engine \<Rightarrow> world \<Rightarrow> ip \<Rightarrow> string \<Rightarrow> decision \<Rightarrow> bool" where
  "by_token E C w src token d \<longleftrightarrow>
     (\<exists>d1 rt t u gid. claim_token (unix (w_clock w (w_tick w))) (HashToken E token) (key C src) (w_db w) = Inr d1 \<and>
        token_by_hash (HashToken E token) d1 = Inr rt \<and> TargetByID (r_target rt) d1 = Inr t \<and>
        UserByID (r_user rt) d1 = Inr u \<and> CanReach u (t_id t) d1 \<and> d = allow t gid)"

definition by_approval :: "env \<Rightarrow> engine \<Rightarrow> world \<Rightarrow> ip \<Rightarrow> string \<Rightarrow> decision \<Rightarrow> bool" where
  "by_approval E C w src hint d \<longleftrightarrow> g_jit C \<and>
     (\<exists>approve u t gid. x_approver E = Some approve \<and>
        approve (Suc (w_tick w)) (u_username u) src (t_name t) = Approved \<and>
        UserByRDPHint hint (w_db w) = Inr u \<and> t \<in> set (ListTargetsForUser u (w_db w)) \<and>
        CanReach u (t_id t) (w_db w) \<and> d = allow t gid)"

lemma jitTarget_mem: "jitTarget C ts = Some t \<Longrightarrow> t \<in> set ts"
  by (auto simp: jitTarget_def split: if_split_asm option.split_asm dest: find_holds)

interpretation relay_gateway: relay_contract "gateway E C login" "by_grant C" "by_token E C"
    "\<lambda>w src cr. by_approval E C w src (cq_cookie cr)" for E C login
proof
  show "by_grant C s src d" if "run_state (co_authorize (gateway E C login) src) s = (d, s')" "dc_allow d"
    for s src d s'
    using that Authorize_allow [of C src s d s'] by (auto simp: gateway_def by_grant_def)
  show "by_token E C s src tk d"
    if "run_state (co_authorize_token (gateway E C login) src tk) s = (d, s')" "dc_allow d" for s src tk d s'
    using that AuthorizeToken_allow [of E C src tk s d s'] unfolding by_token_def gateway_def by simp blast
  show "by_approval E C s src (cq_cookie cr) d"
    if "run_state (co_review (gateway E C login) src cr) s = (d, s')" "dc_allow d" for s src cr d s'
    using that Review_allow [of E C src cr s d s'] jitTarget_mem
    unfolding by_approval_def gateway_def by simp blast
qed

section \<open>Guarantees\<close>

text \<open>C1. The invariant of the data plane: when the relay contacts a machine - successfully or not -
  this very connection was decided on first, in the state the relay found, and the machine is the
  one that decision names.  A connection with a routing token was allowed by \<open>AuthorizeToken\<close>, on
  an open redirect token of that address; one without was allowed by \<open>Authorize\<close>, on a live grant for
  that address - or \<open>Authorize\<close> refused it, no login is configured, direct connections are on, and the review that
  followed on it allowed it because a person, asked during this review, said yes for an account that may reach
  the machine.  This holds whatever statements fail and whatever the client sends.\<close>

theorem no_forward_without_decision:
  assumes "run_state (handle opts (gateway E C login) src c m) w = ((e, m'), w')"
    and "e = Unreachable b \<or> e = ReplayFailed b \<or> e = Relayed b bs"
  shows "\<exists>cr rest d. Read (wi_received c) = Inr (cr, rest) \<and> dc_allow d \<and> dc_backend d = Some b \<and>
     ((cq_routing_token cr \<noteq> [] \<and> d = fst (run_state (AuthorizeToken E C src (cq_routing_token cr)) w) \<and>
         by_token E C w src (cq_routing_token cr) d) \<or>
      (cq_routing_token cr = [] \<and> d = fst (run_state (Authorize C src) w) \<and> by_grant C w src d) \<or>
      (cq_routing_token cr = [] \<and> login = None \<and> ro_jit opts \<and>
         (\<exists>d0 w1. run_state (Authorize C src) w = (d0, w1) \<and> \<not> dc_allow d0 \<and>
            d = fst (run_state (Review E C src cr) w1) \<and> by_approval E C w1 src (cq_cookie cr) d)))"
proof -
  have "e \<in> {Unreachable b, ReplayFailed b, Relayed b bs}" using assms(2) by blast
  note s = relay_gateway.handle_serve [OF assms(1) this] and e = this
  show ?thesis
  proof (rule relay_gateway.serve_contact [OF s e])
    fix cr rest d w2
    assume "Read (wi_received c) = Inr (cr, rest)" "dc_allow d" "dc_backend d = Some b" and
      "(cq_routing_token cr \<noteq> [] \<and>
          run_state (co_authorize_token (gateway E C login) src (cq_routing_token cr)) w = (d, w2) \<and>
          by_token E C w src (cq_routing_token cr) d) \<or>
       (cq_routing_token cr = [] \<and> run_state (co_authorize (gateway E C login) src) w = (d, w2) \<and> by_grant C w src d) \<or>
       (cq_routing_token cr = [] \<and> co_login (gateway E C login) = None \<and> ro_jit opts \<and>
          (\<exists>d0 w1. run_state (co_authorize (gateway E C login) src) w = (d0, w1) \<and> \<not> dc_allow d0 \<and>
             run_state (co_review (gateway E C login) src cr) w1 = (d, w2) \<and> by_approval E C w1 src (cq_cookie cr) d))"
    then show ?thesis
      by (intro exI [of _ cr] exI [of _ rest] exI [of _ d]) (auto simp: gateway_def)
  qed
qed

definition sample_wire :: wire where
  "sample_wire = \<lparr>wi_received = cr_packet [1, 0, 8, 0, 3, 0, 0, 0] @ [7, 7, 9], wi_buffered = 3, wi_dial_ok = True,
     wi_replay_ok = True,
     wi_up = [\<lparr>tn_deadline_ok = True, tn_chunk = [7, 7], tn_read_err = None, tn_taken = 2, tn_write_err = False\<rparr>,
       \<lparr>tn_deadline_ok = True, tn_chunk = [9], tn_read_err = Some EndOfStream, tn_taken = 1, tn_write_err = False\<rparr>],
     wi_down = [], wi_idle = True, wi_ends = [ClientSide, TargetSide]\<rparr>"

lemma sample_relayed:
  "\<exists>w' m'. run_state (handle \<lparr>ro_jit = False, ro_max_per_ip = 2\<rparr> (gateway sample_env sample_engine None)
     (V4 0xCB007105) sample_wire Map.empty) sample_world
     = ((Relayed (Addr desk) (cr_packet [1, 0, 8, 0, 3, 0, 0, 0] @ [7, 7, 9]), m'), w')"
proof -
  have p: "parse_cookie [1, 0, 8, 0, 3, 0, 0, 0] = ([], [])" by (simp add: parse_cookie_def)
  obtain w1 where a: "run_state (Authorize sample_engine (V4 0xCB007105)) sample_world = (allow desk 1, w1)"
    using sample_authorized by (metis prod.collapse)
  show ?thesis
    by (simp add: handle_def acquire_def serve_def sample_wire_def Read_cr_packet p decide_def gateway_def a
        forward_def sreturn_def Let_def allow_def split: prod.split)
qed

lemma sample_read:
  "Read (wi_received sample_wire) = Inr (\<lparr>cq_raw = cr_packet [1, 0, 8, 0, 3, 0, 0, 0], cq_cookie = [],
      cq_routing_token = []\<rparr>, [7, 7, 9])"
  by (simp add: sample_wire_def Read_cr_packet parse_cookie_def)

theorem no_forward_without_decision_witness:
  "\<exists>m' w' d. run_state (handle \<lparr>ro_jit = False, ro_max_per_ip = 2\<rparr> (gateway sample_env sample_engine None)
      (V4 0xCB007105) sample_wire Map.empty) sample_world
      = ((Relayed (Addr desk) (cr_packet [1, 0, 8, 0, 3, 0, 0, 0] @ [7, 7, 9]), m'), w') \<and>
     d = fst (run_state (Authorize sample_engine (V4 0xCB007105)) sample_world) \<and> dc_allow d \<and>
     dc_backend d = Some (Addr desk) \<and> by_grant sample_engine sample_world (V4 0xCB007105) d"
proof -
  obtain w' m' where r: "run_state (handle \<lparr>ro_jit = False, ro_max_per_ip = 2\<rparr> (gateway sample_env sample_engine None)
     (V4 0xCB007105) sample_wire Map.empty) sample_world
     = ((Relayed (Addr desk) (cr_packet [1, 0, 8, 0, 3, 0, 0, 0] @ [7, 7, 9]), m'), w')"
    using sample_relayed by blast
  from no_forward_without_decision [OF r, of "Addr desk" "cr_packet [1, 0, 8, 0, 3, 0, 0, 0] @ [7, 7, 9]"] sample_read r
  show ?thesis by auto
qed

text \<open>C16. The relay is transparent: what the machine behind it received is a prefix of what the client
  sent - the first packet byte for byte, then the rest in order, nothing added, altered or
  skipped - and it is all of it when the client closed in the ordinary way, bytes handed over together with
  the end of the stream included, and no deadline and no write failed.\<close>

theorem relay_transparent:
  assumes "run_state (handle opts (gateway E C login) src c m) w = ((Relayed b bs, m'), w')"
    and "Read (wi_received c) = Inr (cr, rest)" and "rest = concat (map tn_chunk (wi_up c))"
    and "\<forall>t \<in> set (wi_up c). writer_ok t"
  shows "prefix_of bs (wi_received c) \<and> prefix_of (cq_raw cr) bs \<and> (clean_end (wi_up c) \<longrightarrow> bs = wi_received c)"
proof -
  have r: "Relayed b bs \<in> {Unreachable b, ReplayFailed b, Relayed b bs}" by simp
  have bs: "bs = cq_raw cr @ fst (copyIdle (wi_idle c) (wi_up c))"
  proof (rule relay_gateway.serve_contact [OF relay_gateway.handle_serve [OF assms(1) r] r])
    fix cr' rest'
    assume "Read (wi_received c) = Inr (cr', rest')"
      "Relayed b bs = Relayed b bs \<longrightarrow> bs = cq_raw cr' @ fst (copyIdle (wi_idle c) (wi_up c))"
    with assms(2) show ?thesis by simp
  qed
  have rec: "wi_received c = cq_raw cr @ rest" using Read_Inr [OF assms(2)] by simp
  have "prefix_of bs (wi_received c)"
    using copyIdle_prefix [OF assms(4)] assms(3) by (simp add: bs rec)
  moreover have "prefix_of (cq_raw cr) bs" by (auto simp: bs prefix_of_def)
  moreover have "bs = wi_received c" if "clean_end (wi_up c)"
    using copyIdle_complete [OF that] assms(3) by (simp add: bs rec)
  ultimately show ?thesis by blast
qed

theorem relay_transparent_witness:
  "\<exists>bs m' w'. run_state (handle \<lparr>ro_jit = False, ro_max_per_ip = 2\<rparr> (gateway sample_env sample_engine None)
     (V4 0xCB007105) sample_wire Map.empty) sample_world = ((Relayed (Addr desk) bs, m'), w') \<and>
     tn_read_err (last (wi_up sample_wire)) = Some EndOfStream \<and> bs = wi_received sample_wire"
proof -
  obtain w' m' where r: "run_state (handle \<lparr>ro_jit = False, ro_max_per_ip = 2\<rparr> (gateway sample_env sample_engine None)
     (V4 0xCB007105) sample_wire Map.empty) sample_world
     = ((Relayed (Addr desk) (cr_packet [1, 0, 8, 0, 3, 0, 0, 0] @ [7, 7, 9]), m'), w')"
    using sample_relayed by blast
  have "cr_packet [1, 0, 8, 0, 3, 0, 0, 0] @ [7, 7, 9] = wi_received sample_wire"
    using relay_transparent [OF r sample_read]
    by (simp add: sample_wire_def writer_ok_def clean_end_def clean_turn_def)
  moreover have "tn_read_err (last (wi_up sample_wire)) = Some EndOfStream" by (simp add: sample_wire_def)
  ultimately show ?thesis using r by blast
qed

text \<open>No address ever has more connections inside the relay than the configured maximum, and the
  counter kept for an address is exactly the number of its connections, however admissions,
  refusals and endings interleave.\<close>

theorem connections_bounded:
  assumes "(conn_step opts)\<^sup>*\<^sup>* (Map.empty, []) (m, live)" and "0 < ro_max_per_ip opts"
  shows "int (count_list live k) \<le> ro_max_per_ip opts \<and>
     (case m k of None \<Rightarrow> 0 | Some n \<Rightarrow> n) = int (count_list live k)"
  using conns.inv_reachable [OF assms(1)] assms(2) by (simp add: conn_inv_def conn_count_def)

theorem connections_bounded_witness:
  "\<exists>m. (conn_step \<lparr>ro_jit = False, ro_max_per_ip = 1\<rparr>)\<^sup>*\<^sup>* (Map.empty, []) (m, [client_ip]) \<and>
     (case m client_ip of None \<Rightarrow> 0 | Some n \<Rightarrow> n) = 1 \<and>
     acquire \<lparr>ro_jit = False, ro_max_per_ip = 1\<rparr> client_ip m = (False, m)"
proof -
  let ?o = "\<lparr>ro_jit = False, ro_max_per_ip = 1\<rparr>"
  have "conn_step ?o (Map.empty, []) ([client_ip \<mapsto> 1], [client_ip])"
    by (rule conn_step.admit) (simp add: acquire_def)
  then have s: "(conn_step ?o)\<^sup>*\<^sup>* (Map.empty, []) ([client_ip \<mapsto> 1], [client_ip])" by (rule r_into_rtranclp)
  from connections_bounded [OF s, of client_ip] s show ?thesis
    by (intro exI [of _ "[client_ip \<mapsto> 1]"]) (simp add: acquire_def)
qed

end
