(* ===== verification/Json.thy ===== *)
theory Json
  imports Decimal Base64 "HOL-Library.List_Lexorder" "HOL-Library.Char_ord"
begin

text \<open>
  What the program uses of \<open>encoding/json\<close>: \<open>json.Marshal\<close> of the values that go into an audit
  entry.  Object keys are sorted, strings are escaped for HTML as well, bytes that are not UTF-8
  become the replacement character, and a value Go cannot represent is an error.
\<close>

datatype json =
    JNull
  | JBool bool
  | JInt int
  | JStr string
  | JArr "json list"
  | JObj "(string \<times> json) list"
  | JUnsupported

definition quote_char :: char where
  "quote_char = char_of (34::nat)"

definition hex4 :: "nat \<Rightarrow> string" where
  "hex4 n = hex_encode [word_of_nat (n div 256), word_of_nat n]"

definition json_byte :: "nat \<Rightarrow> string" where
  "json_byte b =
     (if b = 34 then [CHR 0x5C, quote_char]
      else if b = 92 then [CHR 0x5C, CHR 0x5C]
      else if b = 8 then [CHR 0x5C, CHR ''b'']
      else if b = 12 then [CHR 0x5C, CHR ''f'']
      else if b = 10 then [CHR 0x5C, CHR ''n'']
      else if b = 13 then [CHR 0x5C, CHR ''r'']
      else if b = 9 then [CHR 0x5C, CHR ''t'']
      else if b < 32 \<or> b = 60 \<or> b = 62 \<or> b = 38 then CHR 0x5C # ''u'' @ hex4 b
      else [char_of b])"

text \<open>A replacement rune one byte wide stands for a byte that is not UTF-8.\<close>

function json_chars :: "nat list \<Rightarrow> string" where
  "json_chars [] = []"
| "json_chars (b # bs) =
     (if b < 128 then json_byte b @ json_chars bs
      else let (r, n) = decode_rune (b # bs) in
        (if r = rune_error \<and> n = 1 then CHR 0x5C # ''ufffd''
         else if r = 8232 then CHR 0x5C # ''u2028''
         else if r = 8233 then CHR 0x5C # ''u2029''
         else map char_of (take n (b # bs))) @ json_chars (drop n (b # bs)))"
  by pat_completeness auto
termination
proof (relation "measure length", goal_cases)
  case (3 b bs p r n)
  then have "1 \<le> n" using decode_rune_width [of "b # bs"] by (metis snd_conv)
  then show ?case by simp
qed simp_all

definition json_string :: "string \<Rightarrow> string" where
  "json_string s = quote_char # json_chars (map of_char s) @ [quote_char]"

fun commas :: "string list \<Rightarrow> string" where
  "commas [] = []"
| "commas [s] = s"
| "commas (s # ss) = s @ CHR '','' # commas ss"

fun marshal :: "json \<Rightarrow> string option"
  and marshal_all :: "json list \<Rightarrow> string list option"
  and marshal_fields :: "(string \<times> json) list \<Rightarrow> (string \<times> string) list option" where
  "marshal JNull = Some ''null''"
| "marshal (JBool b) = Some (if b then ''true'' else ''false'')"
| "marshal (JInt i) = Some (decimal_int i)"
| "marshal (JStr s) = Some (json_string s)"
| "marshal (JArr vs) = (case marshal_all vs of None \<Rightarrow> None | Some ss \<Rightarrow> Some (CHR ''['' # commas ss @ '']''))"
| "marshal (JObj fs) =
     (case marshal_fields fs of None \<Rightarrow> None
      | Some ps \<Rightarrow> Some (CHR ''{'' # commas (map (\<lambda>(k, v). json_string k @ CHR '':'' # v) (sort_key fst ps)) @ ''}''))"
| "marshal JUnsupported = None"
| "marshal_all [] = Some []"
| "marshal_all (v # vs) =
     (case marshal v of None \<Rightarrow> None
      | Some s \<Rightarrow> (case marshal_all vs of None \<Rightarrow> None | Some ss \<Rightarrow> Some (s # ss)))"
| "marshal_fields [] = Some []"
| "marshal_fields ((k, v) # fs) =
     (case marshal v of None \<Rightarrow> None
      | Some s \<Rightarrow> (case marshal_fields fs of None \<Rightarrow> None | Some ps \<Rightarrow> Some ((k, s) # ps)))"

end
