(* ===== verification/Audit_Log.thy ===== *)
theory Audit_Log
  imports Json Crypto Contracts
begin

text \<open>
  \<open>internal/audit\<close>: the append-only log whose rows carry the digest of the row before them.
  Rows are kept in the order of the table; \<open>attempt\<close> says what one transaction of \<open>appendOnce\<close>
  met - which statement failed, and what other processes committed in the meantime, in which
  case SQLite refuses the commit.
\<close>

section \<open>Actions\<close>

definition Actions :: "string list" where
  "Actions =
    [''login.ok'', ''login.fail'', ''mfa.ok'', ''mfa.fail'', ''logout'', ''lockout'',
     ''grant.issued'', ''grant.consumed'', ''grant.revoked'', ''grant.denied'',
     ''wol.sent'', ''target.online'', ''target.timeout'',
     ''relay.open'', ''relay.close'', ''relay.rejected'',
     ''jit.requested'', ''jit.approved'', ''jit.denied'', ''jit.timeout'',
     ''user.created'', ''user.updated'', ''user.deleted'',
     ''target.created'', ''target.updated'', ''target.deleted'',
     ''settings.updated'', ''update.checked'', ''update.staged'', ''update.applied'',
     ''enroll.totp'', ''enroll.passkey'', ''mfa.reset'']"

definition KnownAction :: "string \<Rightarrow> bool" where
  "KnownAction name \<longleftrightarrow> list_ex (\<lambda>a. a = name) Actions"

section \<open>Rows and the chain hash\<close>

definition genesis :: string where
  "genesis = replicate 64 (CHR ''0'')"

record content =
  au_ts :: int
  au_actor :: string
  au_action :: string
  au_object :: string
  au_src :: string
  au_detail :: string

record audit_row =
  al_id :: int
  al_content :: content
  al_prev :: string
  al_hash :: string

record audit_log =
  al_rows :: "audit_row list"
  al_next :: int

definition field :: "string \<Rightarrow> string" where
  "field f = decimal (length f) @ CHR '':'' # f"

definition chain_text :: "string \<Rightarrow> content \<Rightarrow> string" where
  "chain_text prev c = prev @ field (decimal_int (au_ts c)) @ field (au_actor c) @ field (au_action c) @
     field (au_object c) @ field (au_src c) @ field (au_detail c)"

definition chainHash :: "env \<Rightarrow> string \<Rightarrow> content \<Rightarrow> string" where
  "chainHash E prev c = hex_encode (x_sha256 E (bytes_of (chain_text prev c)))"

section \<open>Appending\<close>

definition head_hash :: "audit_row list \<Rightarrow> string" where
  "head_hash rows = (if rows = [] then genesis else al_hash (last (sort_key al_id rows)))"

definition push_row :: "env \<Rightarrow> content \<Rightarrow> audit_log \<Rightarrow> audit_log" where
  "push_row E c l =
     (let prev = head_hash (al_rows l) in
        \<lparr>al_rows = al_rows l @ [\<lparr>al_id = al_next l, al_content = c, al_prev = prev, al_hash = chainHash E prev c\<rparr>],
         al_next = al_next l + 1\<rparr>)"

record attempt =
  at_begun :: bool
  at_read :: bool
  at_inserted :: bool
  at_committed :: bool
  at_raced :: "content list"
  at_cancelled :: bool

definition appendOnce :: "env \<Rightarrow> content \<Rightarrow> attempt \<Rightarrow> audit_log \<Rightarrow> bool \<times> audit_log" where
  "appendOnce E c a l =
     (if at_begun a \<and> at_read a \<and> at_inserted a \<and> at_committed a \<and> at_raced a = []
      then (True, push_row E c l)
      else (False, fold (push_row E) (at_raced a) l))"

fun append_tries :: "env \<Rightarrow> content \<Rightarrow> nat \<Rightarrow> attempt list \<Rightarrow> audit_log \<Rightarrow> bool \<times> audit_log" where
  "append_tries E c 0 as l = (False, l)"
| "append_tries E c (Suc n) [] l = (True, push_row E c l)"
| "append_tries E c (Suc n) (a # as) l =
     (case appendOnce E c a l of
        (True, l1) \<Rightarrow> (True, l1)
      | (False, l1) \<Rightarrow> if at_cancelled a then (False, l1) else append_tries E c n as l1)"

definition appendChained :: "env \<Rightarrow> content \<Rightarrow> attempt list \<Rightarrow> audit_log \<Rightarrow> bool \<times> audit_log" where
  "appendChained E c as l = append_tries E c 8 as l"

record entry =
  en_ts :: "time option"
  en_actor :: string
  en_action :: string
  en_object :: string
  en_src :: string
  en_detail :: "(string \<times> json) list option"

definition fill :: "time \<Rightarrow> entry \<Rightarrow> entry" where
  "fill now e = e\<lparr>en_ts := Some (case en_ts e of None \<Rightarrow> now | Some t \<Rightarrow> t),
                  en_detail := Some (case en_detail e of None \<Rightarrow> [] | Some d \<Rightarrow> d)\<rparr>"

definition content_of :: "entry \<Rightarrow> string \<Rightarrow> content" where
  "content_of e detail =
     \<lparr>au_ts = (case en_ts e of None \<Rightarrow> 0 | Some t \<Rightarrow> t div 1000000), au_actor = en_actor e, au_action = en_action e,
      au_object = en_object e, au_src = en_src e, au_detail = detail\<rparr>"

datatype audit_error = MarshalFailed | AppendFailed | QueryFailed

text \<open>The last component lists the calls of the watchers, in order.\<close>

definition Append ::
    "env \<Rightarrow> 'f list \<Rightarrow> time \<Rightarrow> attempt list \<Rightarrow> entry \<Rightarrow> audit_log \<Rightarrow>
      (audit_error + unit) \<times> audit_log \<times> ('f \<times> entry) list" where
  "Append E watchers now as e0 l =
     (let e = fill now e0 in
      case marshal (JObj (case en_detail e of None \<Rightarrow> [] | Some d \<Rightarrow> d)) of
        None \<Rightarrow> (Inl MarshalFailed, l, [])
      | Some detail \<Rightarrow>
          (case appendChained E (content_of e detail) as l of
             (False, l1) \<Rightarrow> (Inl AppendFailed, l1, [])
           | (True, l1) \<Rightarrow> (Inr (), l1, map (\<lambda>f. (f, e)) watchers)))"

definition Watch :: "'f option \<Rightarrow> 'f list \<Rightarrow> 'f list" where
  "Watch fn watchers = (case fn of None \<Rightarrow> watchers | Some f \<Rightarrow> watchers @ [f])"

section \<open>Verification and queries\<close>

datatype break_reason = RowRemoved | RowEdited

datatype chain_break = Break int break_reason

fun verify_rows :: "env \<Rightarrow> string \<Rightarrow> nat \<Rightarrow> audit_row list \<Rightarrow> chain_break option \<times> nat" where
  "verify_rows E prev n [] = (None, n)"
| "verify_rows E prev n (r # rs) =
     (if al_prev r \<noteq> prev then (Some (Break (al_id r) RowRemoved), Suc n)
      else if chainHash E prev (al_content r) \<noteq> al_hash r then (Some (Break (al_id r) RowEdited), Suc n)
      else verify_rows E (al_hash r) (Suc n) rs)"

text \<open>\<open>readable = Some k\<close>: the cursor fails after \<open>k\<close> rows.\<close>

definition Verify_log :: "env \<Rightarrow> nat option \<Rightarrow> audit_row list \<Rightarrow> audit_error + (chain_break option \<times> nat)" where
  "Verify_log E readable rows =
     (let sorted_rows = sort_key al_id rows in
      case readable of
        None \<Rightarrow> Inr (verify_rows E genesis 0 sorted_rows)
      | Some k \<Rightarrow> (case verify_rows E genesis 0 (take k sorted_rows) of
           (None, _) \<Rightarrow> Inl QueryFailed
         | broken \<Rightarrow> Inr broken))"

definition Head :: "bool \<Rightarrow> audit_row list \<Rightarrow> string" where
  "Head readable rows = (if readable then head_hash rows else [])"

record audit_query =
  qu_actor :: string
  qu_action :: string
  qu_since :: "time option"
  qu_limit :: int

definition List :: "audit_query \<Rightarrow> audit_row list \<Rightarrow> audit_row list" where
  "List q rows =
     (let limit = (if qu_limit q \<le> 0 \<or> 500 < qu_limit q then 200 else qu_limit q) in
      take (nat limit) (rev (sort_key al_id (filter (\<lambda>r.
        (qu_actor q = [] \<or> au_actor (al_content r) = qu_actor q) \<and>
        (qu_action q = [] \<or> au_action (al_content r) = qu_action q) \<and>
        (case qu_since q of None \<Rightarrow> True | Some t \<Rightarrow> t div 1000000 \<le> au_ts (al_content r))) rows))))"

end
