(* ===== verification/Audit_Guarantees.thy ===== *)
theory Audit_Guarantees
  imports Audit_Log
begin

text \<open>
  What the audit chain gives: logs written by the program verify, a verified log is determined by
  its length-prefixed contents up to SHA-256 collisions, and an edit or a removal in the middle is
  located.  Removing the newest rows is not noticed.
\<close>

section \<open>Framing\<close>

lemma colon_not_digit: "\<not> is_digit (CHR '':'')"
  by (simp add: is_digit_def)

lemma field_inj: "field f @ r = field g @ s \<Longrightarrow> f = g \<and> r = s"
proof -
  assume a: "field f @ r = field g @ s"
  have "length f = length g"
  proof -
    have "takeWhile is_digit (field f @ r) = decimal (length f)" for f r
      using colon_not_digit by (simp add: field_def takeWhile_decimal)
    with a have "decimal (length f) = decimal (length g)" by metis
    then show ?thesis by (rule decimal_inj)
  qed
  with a show ?thesis by (simp add: field_def)
qed

lemma decimal_int_inj: "decimal_int i = decimal_int j \<Longrightarrow> i = j"
proof -
  have neg: "decimal n \<noteq> CHR ''-'' # t" for n t
    using decimal_digits [of "CHR ''-''" n] by (auto simp: is_digit_def)
  assume "decimal_int i = decimal_int j"
  then show ?thesis using neg neg [symmetric] by (auto simp: decimal_int_def split: if_splits dest!: decimal_inj)
qed

lemma chain_text_inj:
  assumes "chain_text p c = chain_text q d" and "length p = length q"
  shows "p = q \<and> c = d"
proof -
  let ?t = "\<lambda>c. field (decimal_int (au_ts c)) @ field (au_actor c) @ field (au_action c) @
     field (au_object c) @ field (au_src c) @ field (au_detail c) @ []"
  have "p = q" and r: "?t c = ?t d" using assms by (simp_all add: chain_text_def)
  note f = field_inj [OF r] 
  from f have e1: "au_ts c = au_ts d" using decimal_int_inj by blast
  note f2 = field_inj [OF conjunct2 [OF f]]
  note f3 = field_inj [OF conjunct2 [OF f2]]
  note f4 = field_inj [OF conjunct2 [OF f3]]
  note f5 = field_inj [OF conjunct2 [OF f4]]
  note f6 = field_inj [OF conjunct2 [OF f5]]
  show ?thesis using \<open>p = q\<close> e1 f2 f3 f4 f5 f6 by (simp add: content.equality)
qed

section \<open>Chains\<close>

fun chained :: "env \<Rightarrow> string \<Rightarrow> audit_row list \<Rightarrow> bool" where
  "chained E p [] = True"
| "chained E p (r # rs) \<longleftrightarrow> al_prev r = p \<and> al_hash r = chainHash E p (al_content r) \<and> chained E (al_hash r) rs"

definition tip :: "string \<Rightarrow> audit_row list \<Rightarrow> string" where
  "tip p rows = (if rows = [] then p else al_hash (last rows))"

lemma tip_simps [simp]: "tip p [] = p" "tip p (rows @ [r]) = al_hash r"
  by (simp_all add: tip_def)

lemma tip_Cons: "tip p (r # rs) = tip (al_hash r) rs"
  by (simp add: tip_def)

lemma chained_append: "chained E p (xs @ ys) \<longleftrightarrow> chained E p xs \<and> chained E (tip p xs) ys"
  by (induction xs arbitrary: p) (auto simp: tip_Cons)

lemma verify_rows_None: "verify_rows E p n rows = (None, k) \<longleftrightarrow> chained E p rows \<and> k = n + length rows"
  by (induction rows arbitrary: p n) auto

lemma verify_rows_skip:
  "chained E p xs \<Longrightarrow> verify_rows E p n (xs @ ys) = verify_rows E (tip p xs) (n + length xs) ys"
  by (induction xs arbitrary: p n) (auto simp: tip_Cons)

text \<open>The log as the program keeps it: chained, with increasing identifiers.\<close>

definition log_ok :: "env \<Rightarrow> audit_log \<Rightarrow> bool" where
  "log_ok E l \<longleftrightarrow> chained E genesis (al_rows l) \<and> sorted (map al_id (al_rows l)) \<and>
     (\<forall>r \<in> set (al_rows l). al_id r < al_next l)"

lemma sort_ok: "log_ok E l \<Longrightarrow> sort_key al_id (al_rows l) = al_rows l"
  by (simp add: log_ok_def sorted_sort_id sort_key_id_if_sorted)

lemma head_tip: "log_ok E l \<Longrightarrow> head_hash (al_rows l) = tip genesis (al_rows l)"
  by (simp add: head_hash_def tip_def sort_ok)

lemma push_row_ok:
  assumes "log_ok E l"
  shows "log_ok E (push_row E c l)" and "al_rows (push_row E c l) \<noteq> [] \<and> butlast (al_rows (push_row E c l)) = al_rows l \<and>
     al_content (last (al_rows (push_row E c l))) = c"
  using assms head_tip [OF assms]
  by (auto simp: log_ok_def push_row_def Let_def chained_append sorted_append intro: less_imp_le less_trans)

lemma fold_push_ok: "log_ok E l \<Longrightarrow> log_ok E (fold (push_row E) cs l) \<and>
     map al_content (al_rows (fold (push_row E) cs l)) = map al_content (al_rows l) @ cs"
proof (induction cs arbitrary: l)
  case (Cons c cs)
  have "map al_content (al_rows (push_row E c l)) = map al_content (al_rows l) @ [c]"
    using push_row_ok(2) [OF Cons.prems] by (simp add: push_row_def Let_def)
  with Cons.IH [OF push_row_ok(1) [OF Cons.prems]] show ?case by simp
qed simp

lemma append_tries_ok:
  "append_tries E c n as l = (ok, l') \<Longrightarrow> log_ok E l \<Longrightarrow>
     log_ok E l' \<and> (\<exists>cs. map al_content (al_rows l') = map al_content (al_rows l) @ cs @ (if ok then [c] else []) \<and>
        set cs \<subseteq> (\<Union>a \<in> set as. set (at_raced a)))"
proof (induction E c n as l arbitrary: ok l' rule: append_tries.induct)
  case (3 E c n a as l)
  show ?case
  proof (cases "fst (appendOnce E c a l)")
    case True
    then show ?thesis using "3.prems" push_row_ok [OF "3.prems"(2)] fold_push_ok [OF "3.prems"(2), of "[c]"]
      by (auto simp: appendOnce_def split: if_split_asm)
  next
    case False
    then have o: "appendOnce E c a l = (False, fold (push_row E) (at_raced a) l)"
      by (auto simp: appendOnce_def split: if_split_asm)
    note f = fold_push_ok [OF "3.prems"(2), of "at_raced a"]
    show ?thesis
    proof (cases "at_cancelled a")
      case True
      with o f "3.prems" show ?thesis by auto
    next
      case nc: False
      then have "append_tries E c n as (fold (push_row E) (at_raced a) l) = (ok, l')"
        using o "3.prems" by simp
      from "3.IH" [OF o [symmetric] refl nc this conjunct1 [OF f]] obtain cs where
        "log_ok E l'" "map al_content (al_rows l') =
          map al_content (al_rows (fold (push_row E) (at_raced a) l)) @ cs @ (if ok then [c] else [])"
        "set cs \<subseteq> (\<Union>a \<in> set as. set (at_raced a))" by auto
      with f show ?thesis by (intro conjI exI [of _ "at_raced a @ cs"]) auto
    qed
  qed
qed (auto simp: push_row_ok fold_push_ok [where cs = "[_]", simplified])

lemma append_tries_calm:
  "length as < n \<Longrightarrow> \<forall>a \<in> set as. \<not> at_cancelled a \<Longrightarrow> fst (append_tries E c n as l)"
  by (induction E c n as l rule: append_tries.induct) (auto split: prod.split bool.split)

definition empty_log :: audit_log where
  "empty_log = \<lparr>al_rows = [], al_next = 1\<rparr>"

definition contents :: "audit_log \<Rightarrow> content list" where
  "contents l = map al_content (al_rows l)"

lemma Append_ok:
  assumes "Append E ws now as e l = (r, l', calls)" and "log_ok E l"
  shows "log_ok E l' \<and>
     (\<exists>cs own. contents l' = contents l @ cs @ own \<and> set cs \<subseteq> (\<Union>a \<in> set as. set (at_raced a)) \<and>
       (case r of
          Inr _ \<Rightarrow> \<exists>detail. marshal (JObj (the (en_detail (fill now e)))) = Some detail \<and>
            own = [content_of (fill now e) detail] \<and> calls = map (\<lambda>f. (f, fill now e)) ws
        | Inl _ \<Rightarrow> own = [] \<and> calls = []))"
proof (cases "marshal (JObj (the (en_detail (fill now e))))")
  case None
  with assms show ?thesis by (auto simp: Append_def Let_def fill_def)
next
  case (Some detail)
  obtain ok l1 where a: "appendChained E (content_of (fill now e) detail) as l = (ok, l1)" by fastforce
  note t = append_tries_ok [OF a [unfolded appendChained_def] assms(2)]
  show ?thesis
    using assms(1) Some a t by (cases ok) (auto simp: Append_def Let_def fill_def contents_def)
qed

inductive log_step :: "env \<Rightarrow> audit_log \<Rightarrow> audit_log \<Rightarrow> bool" for E where
  append: "Append E (ws :: string list) now as e l = (r, l', calls) \<Longrightarrow> log_step E l l'"

interpretation audit_chain: guarded_system empty_log "log_step E" "log_ok E" for E
  by unfold_locales (auto simp: empty_log_def log_ok_def elim!: log_step.cases dest: Append_ok)

lemma log_ok_verifies: "log_ok E l \<Longrightarrow> Verify_log E None (al_rows l) = Inr (None, length (al_rows l))"
  by (simp add: Verify_log_def Let_def sort_ok verify_rows_None) (simp add: log_ok_def)

text \<open>C19. Appending, exactly: from any log the program can have written - by this process and others,
  with statements failing at any point - an append either links its own entry, with the marshalled
  detail, to the end of the chain and tells every watcher once, or adds nothing of its own and
  tells nobody; what other processes wrote meanwhile stays in front of it; the log still
  verifies; and fewer than eight failed attempts never lose an entry.\<close>

theorem audit_append_exact:
  assumes "(log_step E)\<^sup>*\<^sup>* empty_log l" and "Append E ws now as e l = (r, l', calls)"
  shows "Verify_log E None (al_rows l') = Inr (None, length (al_rows l')) \<and>
     (\<exists>cs own. contents l' = contents l @ cs @ own \<and> set cs \<subseteq> (\<Union>a \<in> set as. set (at_raced a)) \<and>
       (case r of
          Inr _ \<Rightarrow> \<exists>detail. marshal (JObj (the (en_detail (fill now e)))) = Some detail \<and>
            own = [content_of (fill now e) detail] \<and> calls = map (\<lambda>f. (f, fill now e)) ws
        | Inl _ \<Rightarrow> own = [] \<and> calls = [])) \<and>
     (length as < 8 \<and> (\<forall>a \<in> set as. \<not> at_cancelled a) \<longrightarrow> r \<noteq> Inl AppendFailed)"
proof -
  have ok: "log_ok E l" by (rule audit_chain.inv_reachable [OF assms(1)])
  have "r \<noteq> Inl AppendFailed" if "length as < 8" "\<forall>a \<in> set as. \<not> at_cancelled a"
    using append_tries_calm [OF that] assms(2)
    by (auto simp: Append_def Let_def appendChained_def split: option.split_asm prod.split_asm bool.split_asm) (metis fst_conv)+
  with Append_ok [OF assms(2) ok] log_ok_verifies show ?thesis by blast
qed

definition sample_entry :: entry where
  "sample_entry = \<lparr>en_ts = None, en_actor = ''alice'', en_action = ''login.ok'', en_object = [], en_src = ''10.0.0.1'',
     en_detail = Some [(''via'', JStr ''rdp''), (''second_factor'', JBool False)]\<rparr>"

definition raced_attempt :: attempt where
  "raced_attempt = \<lparr>at_begun = True, at_read = True, at_inserted = True, at_committed = False,
     at_raced = [\<lparr>au_ts = 5, au_actor = ''cli'', au_action = ''user.created'', au_object = ''bob'', au_src = [],
       au_detail = ''{}''\<rparr>], at_cancelled = False\<rparr>"

lemma sample_entry_detail:
  "marshal (JObj (the (en_detail (fill 7000000 sample_entry)))) =
     Some ([CHR ''{''] @ json_string ''second_factor'' @ '':false,'' @ json_string ''via'' @ '':'' @ json_string ''rdp'' @ ''}'')"
  by (simp add: fill_def sample_entry_def)

lemma append_tries_race:
  "append_tries E c 8 [raced_attempt] l = (True, push_row E c (push_row E (hd (at_raced raced_attempt)) l))"
proof -
  have n: "(8::nat) = Suc (Suc 6)" by simp
  have o: "appendOnce E c raced_attempt l = (False, push_row E (hd (at_raced raced_attempt)) l)"
    by (simp add: appendOnce_def raced_attempt_def)
  show ?thesis unfolding n append_tries.simps o by (simp add: raced_attempt_def)
qed

lemma Append_race:
  assumes "marshal (JObj (the (en_detail (fill now e)))) = Some detail"
  shows "Append E ws now [raced_attempt] e empty_log =
     (Inr (), push_row E (content_of (fill now e) detail) (push_row E (hd (at_raced raced_attempt)) empty_log),
        map (\<lambda>f. (f, fill now e)) ws)"
proof -
  obtain d where "en_detail (fill now e) = Some d" by (simp add: fill_def)
  then show ?thesis using assms unfolding Append_def Let_def appendChained_def
    by (simp add: append_tries_race del: marshal.simps)
qed

theorem audit_append_exact_witness:
  "\<exists>l'. Append sample_env [''watch''] 7000000 [raced_attempt] sample_entry empty_log =
       (Inr (), l', [(''watch'', fill 7000000 sample_entry)]) \<and> length (al_rows l') = 2 \<and>
     Verify_log sample_env None (al_rows l') = Inr (None, 2) \<and>
     au_detail (al_content (last (al_rows l'))) =
       [CHR ''{''] @ json_string ''second_factor'' @ '':false,'' @ json_string ''via'' @ '':'' @ json_string ''rdp'' @ ''}''"
proof -
  note a = Append_race [OF sample_entry_detail, of sample_env "[''watch'']"]
  from audit_append_exact [OF rtranclp.rtrancl_refl a]
  show ?thesis unfolding a by (intro exI conjI, simp) (simp_all add: push_row_def Let_def content_of_def empty_log_def)
qed

section \<open>Tampering\<close>

definition chain_input :: "string \<Rightarrow> content \<Rightarrow> bytes" where
  "chain_input prev c = bytes_of (chain_text prev c)"

definition inputs :: "audit_row list \<Rightarrow> bytes set" where
  "inputs rows = (\<lambda>r. chain_input (al_prev r) (al_content r)) ` set rows"

lemma chainHash_eq:
  assumes "chainHash E p c = chainHash E q d" and "length p = length q"
  shows "p = q \<and> c = d \<or> sha_collision E (chain_input p c) (chain_input q d)"
proof -
  have "x_sha256 E (chain_input p c) = x_sha256 E (chain_input q d)"
    using assms(1) hex_encode_inj by (simp add: chainHash_def chain_input_def)
  moreover have "chain_input p c = chain_input q d \<Longrightarrow> p = q \<and> c = d"
    using chain_text_inj [OF _ assms(2)] bytes_of_inj unfolding chain_input_def by blast
  ultimately show ?thesis by (auto simp: sha_collision_def)
qed

lemma length_hex_encode_64: "length bs = 32 \<Longrightarrow> length (hex_encode bs) = 64"
  by (simp add: hex_encode_def length_concat comp_def sum_list_triv)

lemma chained_tip_length:
  "chained E genesis rows \<Longrightarrow> \<forall>x. length (x_sha256 E x) = 32 \<Longrightarrow> length (tip genesis rows) = 64"
  by (cases rows rule: rev_cases)
    (simp_all add: genesis_def chained_append chainHash_def length_hex_encode_64)

lemma inputs_snoc: "inputs (rows @ [r]) = insert (chain_input (al_prev r) (al_content r)) (inputs rows)"
  by (simp add: inputs_def)

definition hits_genesis :: "env \<Rightarrow> bytes \<Rightarrow> bool" where
  "hits_genesis E x \<longleftrightarrow> hex_encode (x_sha256 E x) = genesis"

lemma chained_last_hash: "chained E p (rows @ [r]) \<Longrightarrow>
   al_hash r = hex_encode (x_sha256 E (chain_input (al_prev r) (al_content r))) \<and> al_prev r = tip p rows"
  by (simp add: chained_append chainHash_def chain_input_def)

lemma chain_determined:
  assumes len: "\<forall>x. length (x_sha256 E x) = 32"
    and "chained E genesis xs" and "chained E genesis ys" and "tip genesis xs = tip genesis ys"
  shows "map al_content xs = map al_content ys \<or> (\<exists>x \<in> inputs xs. \<exists>y \<in> inputs ys. sha_collision E x y) \<or>
     (\<exists>x \<in> inputs xs \<union> inputs ys. hits_genesis E x)"
  using assms(2-)
proof (induction xs arbitrary: ys rule: rev_induct)
  case Nil
  then show ?case
    by (cases ys rule: rev_cases) (auto simp: inputs_snoc hits_genesis_def dest: chained_last_hash)
next
  case (snoc r xs)
  show ?case
  proof (cases ys rule: rev_cases)
    case Nil
    with snoc.prems show ?thesis by (auto simp: inputs_snoc hits_genesis_def dest: chained_last_hash)
  next
    case (snoc zs q)
    have c: "chained E genesis xs" "chained E genesis zs" "al_prev r = tip genesis xs" "al_prev q = tip genesis zs"
      using \<open>chained E genesis (xs @ [r])\<close> \<open>chained E genesis ys\<close> snoc by (simp_all add: chained_append)
    have "chainHash E (al_prev r) (al_content r) = chainHash E (al_prev q) (al_content q)"
      using snoc.prems snoc by (simp add: chained_append)
    moreover have "length (al_prev r) = length (al_prev q)"
      using chained_tip_length [OF c(1) len] chained_tip_length [OF c(2) len] c by simp
    ultimately consider "al_prev r = al_prev q" "al_content r = al_content q"
      | "sha_collision E (chain_input (al_prev r) (al_content r)) (chain_input (al_prev q) (al_content q))"
      using chainHash_eq by blast
    then show ?thesis
    proof cases
      case 1
      then have "tip genesis xs = tip genesis zs" using c by simp
      from snoc.IH [OF c(1,2) this] 1(2) snoc show ?thesis by (auto simp: inputs_snoc)
    qed (auto simp: inputs_snoc snoc)
  qed
qed

lemma Verify_log_None: "Verify_log E None rows = Inr (None, n) \<longleftrightarrow>
    chained E genesis (sort_key al_id rows) \<and> n = length rows"
  by (auto simp: Verify_log_def Let_def verify_rows_None)

lemma Head_tip: "Head True rows = tip genesis (sort_key al_id rows)"
proof -
  have "sort_key al_id rows = [] \<longleftrightarrow> rows = []" by (metis length_0_conv length_sort)
  then show ?thesis by (simp add: Head_def head_hash_def tip_def)
qed

text \<open>C20. The chain is tamper evident: of two logs that both verify and end in the same hash, every
  entry is the same in the same order - or two of the texts hashed along the two chains collide
  under SHA-256, or one of them hashes to the all-zero genesis value.  (Row numbers are not
  covered by the hash.)\<close>

theorem audit_tamper_evident:
  assumes "\<forall>x. length (x_sha256 E x) = 32"
    and "Verify_log E None rows = Inr (None, n)" and "Verify_log E None rows' = Inr (None, n')"
    and "Head True rows = Head True rows'"
  shows "map al_content (sort_key al_id rows) = map al_content (sort_key al_id rows') \<or>
     (\<exists>x \<in> inputs (sort_key al_id rows). \<exists>y \<in> inputs (sort_key al_id rows'). sha_collision E x y) \<or>
     (\<exists>x \<in> inputs (sort_key al_id rows) \<union> inputs (sort_key al_id rows'). hits_genesis E x)"
  using assms by (intro chain_determined) (simp_all add: Verify_log_None Head_tip)

text \<open>A digest for evaluation: the last 32 bytes of the text, backwards.\<close>

definition tail_env :: env where
  "tail_env = sample_env\<lparr>x_sha256 := (\<lambda>bs. take 32 (rev bs @ replicate 32 0))\<rparr>"

definition note_entry :: "string \<Rightarrow> content" where
  "note_entry d = \<lparr>au_ts = 1, au_actor = ''a'', au_action = ''logout'', au_object = ''o'', au_src = ''s'', au_detail = d\<rparr>"

definition note_row :: "string \<Rightarrow> audit_row" where
  "note_row d = \<lparr>al_id = 1, al_content = note_entry d, al_prev = genesis, al_hash = chainHash tail_env genesis (note_entry d)\<rparr>"

lemma note_row_verifies: "Verify_log tail_env None [note_row d] = Inr (None, 1)"
  by (simp add: Verify_log_None note_row_def)

definition note_input :: "string \<Rightarrow> bytes" where
  "note_input d = chain_input genesis (note_entry d)"

lemma tail_env_length: "\<forall>x. length (x_sha256 tail_env x) = 32"
  by (intro allI) (simp add: tail_env_def min_def)

lemma note_bytes: "hd (bytes_of ''x'') = 120" "hd (bytes_of ''y'') = 121"
  by (simp_all add: bytes_of_def byte_of_def)

lemma hex_encode_zeros: "hex_encode (replicate n 0) = replicate (2 * n) (CHR ''0'')"
  by (induction n) (simp_all add: hex_encode_def hex_digits_def)

lemma tail_hd: "length d = 1 \<Longrightarrow> hd (x_sha256 tail_env (note_input d)) = hd (bytes_of d)"
  by (cases d) (auto simp: tail_env_def note_input_def chain_input_def chain_text_def note_entry_def field_def bytes_of_def)

lemma hits_genesis_hd: "hits_genesis tail_env x \<Longrightarrow> hd (x_sha256 tail_env x) = 0"
proof -
  assume "hits_genesis tail_env x"
  moreover have "genesis = hex_encode (replicate 32 0)"
    by (simp only: hex_encode_zeros genesis_def) simp
  ultimately have "x_sha256 tail_env x = replicate 32 0"
    unfolding hits_genesis_def using hex_encode_inj by metis
  then show ?thesis by simp
qed

lemma note_no_collision: "\<not> sha_collision tail_env (note_input ''x'') (note_input ''y'')"
  using tail_hd [of "''x''"] tail_hd [of "''y''"] note_bytes by (auto simp: sha_collision_def)

lemma note_not_genesis: "\<not> hits_genesis tail_env (note_input ''x'')" "\<not> hits_genesis tail_env (note_input ''y'')"
  using tail_hd [of "''x''"] tail_hd [of "''y''"] note_bytes hits_genesis_hd by fastforce+

theorem audit_tamper_evident_witness:
  "Verify_log tail_env None [note_row ''x''] = Inr (None, 1) \<and> Verify_log tail_env None [note_row ''y''] = Inr (None, 1) \<and>
   Head True [note_row ''x''] \<noteq> Head True [note_row ''y'']"
proof -
  have "map al_content (sort_key al_id [note_row ''x'']) \<noteq> map al_content (sort_key al_id [note_row ''y''])"
    by (simp add: note_row_def note_entry_def)
  then show ?thesis
    using audit_tamper_evident [OF tail_env_length note_row_verifies [of "''x''"] note_row_verifies [of "''y''"]]
      note_row_verifies note_no_collision note_not_genesis
    by (auto simp: inputs_def note_input_def note_row_def)
qed

text \<open>Tampering in the middle is located: in a log that verifies, rewriting the content of one
  entry makes verification stop at exactly that row (or the old and the new text collide under
  SHA-256), and taking out an entry that is not the newest makes it stop at the entry after it
  (or the digest of that entry equals its predecessor's).\<close>

theorem audit_tampering_located:
  assumes "chained E genesis (pre @ r # post)" and "sorted (map al_id (pre @ r # post))"
  shows "(al_content r \<noteq> c \<longrightarrow>
      Verify_log E None (pre @ r\<lparr>al_content := c\<rparr> # post) = Inr (Some (Break (al_id r) RowEdited), Suc (length pre)) \<or>
      sha_collision E (chain_input (al_prev r) (al_content r)) (chain_input (al_prev r) c)) \<and>
    (post \<noteq> [] \<longrightarrow>
      Verify_log E None (pre @ post) = Inr (Some (Break (al_id (hd post)) RowRemoved), Suc (length pre)) \<or>
      al_hash r = al_prev r)"
proof -
  have srt: "sort_key al_id (pre @ r\<lparr>al_content := c\<rparr> # post) = pre @ r\<lparr>al_content := c\<rparr> # post"
    "sort_key al_id (pre @ post) = pre @ post"
    using assms(2) by (auto intro!: sort_key_id_if_sorted simp: sorted_append)
  have c: "chained E genesis pre" "al_prev r = tip genesis pre" "al_hash r = chainHash E (al_prev r) (al_content r)"
    "post \<noteq> [] \<Longrightarrow> al_prev (hd post) = al_hash r"
    using assms(1) by (cases post; simp add: chained_append)+
  have "chainHash E (al_prev r) c \<noteq> al_hash r \<or> sha_collision E (chain_input (al_prev r) (al_content r)) (chain_input (al_prev r) c)"
    if "al_content r \<noteq> c"
    using chainHash_eq [of E "al_prev r" "al_content r" "al_prev r" c] that c(3) by auto
  moreover have "verify_rows E genesis 0 (pre @ post) = (Some (Break (al_id (hd post)) RowRemoved), Suc (length pre))"
    if "post \<noteq> []" "al_hash r \<noteq> al_prev r"
    using that c by (cases post) (auto simp: verify_rows_skip)
  ultimately show ?thesis
    using c by (auto simp: Verify_log_def Let_def srt verify_rows_skip)
qed

definition two_notes :: "audit_row list" where
  "two_notes = al_rows (push_row tail_env (note_entry ''y'') \<lparr>al_rows = [note_row ''x''], al_next = 2\<rparr>)"

lemma two_notes: "\<exists>r2. two_notes = [] @ note_row ''x'' # [r2] \<and> al_id r2 = 2 \<and> chained tail_env genesis two_notes"
  by (auto simp: two_notes_def push_row_def Let_def head_hash_def note_row_def)

theorem audit_tampering_located_witness:
  "\<exists>r2. two_notes = [note_row ''x'', r2] \<and>
     Verify_log tail_env None [note_row ''x''\<lparr>al_content := note_entry ''y''\<rparr>, r2] = Inr (Some (Break 1 RowEdited), 1) \<and>
     Verify_log tail_env None [r2] = Inr (Some (Break 2 RowRemoved), 1)"
proof -
  obtain r2 where r: "two_notes = [] @ note_row ''x'' # [r2]" "al_id r2 = 2" "chained tail_env genesis two_notes"
    using two_notes by blast
  have "al_hash (note_row ''x'') \<noteq> al_prev (note_row ''x'')"
    using note_not_genesis(1)
    by (simp add: note_row_def hits_genesis_def chainHash_def note_input_def chain_input_def)
  moreover have "al_content (note_row ''x'') \<noteq> note_entry ''y''" by (simp add: note_row_def note_entry_def)
  moreover have "\<not> sha_collision tail_env (chain_input (al_prev (note_row ''x'')) (al_content (note_row ''x'')))
      (chain_input (al_prev (note_row ''x'')) (note_entry ''y''))"
    using note_no_collision by (simp add: note_row_def note_input_def)
  moreover have "sorted (map al_id ([] @ note_row ''x'' # [r2]))" by (simp add: r(2) note_row_def)
  ultimately show ?thesis
    using audit_tampering_located [OF r(3) [unfolded r(1)], of "note_entry ''y''"] r(1,2)
    by (intro exI [of _ r2]) (simp add: note_row_def [THEN arg_cong [of _ _ al_id]])
qed

text \<open>Removing the newest entries is not noticed: whatever is cut off the end of a log that
  verifies, the rest verifies, so verification alone cannot tell that rows are missing there.\<close>

theorem audit_truncation_unnoticed:
  assumes "Verify_log E None rows = Inr (None, n)"
  shows "Verify_log E None (take k (sort_key al_id rows)) = Inr (None, min k n)"
proof -
  let ?s = "sort_key al_id rows"
  have "chained E genesis (take k ?s @ drop k ?s)" using assms by (simp add: Verify_log_None)
  then have "chained E genesis (take k ?s)" by (simp only: chained_append)
  moreover have "sort_key al_id (take k ?s) = take k ?s"
    by (rule sort_key_id_if_sorted) (metis sorted_sort_key sorted_wrt_take take_map)
  moreover have "n = length rows" using assms by (simp add: Verify_log_None)
  ultimately show ?thesis by (simp add: Verify_log_None min.commute)
qed

theorem audit_truncation_unnoticed_witness:
  "length two_notes = 2 \<and> Verify_log tail_env None (take 1 (sort_key al_id two_notes)) = Inr (None, 1)"
proof -
  obtain r2 where r: "two_notes = [] @ note_row ''x'' # [r2]" "al_id r2 = 2" "chained tail_env genesis two_notes"
    using two_notes by blast
  have "sort_key al_id two_notes = two_notes"
    unfolding r(1) by (intro sort_key_id_if_sorted) (simp add: note_row_def r(2))
  moreover have two: "length two_notes = 2" by (simp only: r(1)) simp
  ultimately have "Verify_log tail_env None two_notes = Inr (None, 2)" using r(3) by (simp add: Verify_log_None)
  from audit_truncation_unnoticed [OF this, of 1] two show ?thesis by simp
qed

end
