(* ===== verification/Utf16.thy ===== *)
theory Utf16
  imports Go_Strings Crypto
begin

text \<open>
  UTF-16 fields as Windows writes them: \<open>decodeUTF16\<close> of \<open>proxy/rdp/ber.go\<close> and
  \<open>proxy/rdgw/packet.go\<close> (which does the same through \<open>unicode/utf16\<close>), and the encoder.
\<close>

fun units_of :: "bytes \<Rightarrow> nat list" where
  "units_of (a # b # bs) = (let u = unat (get_le16 [a, b]) in if u = 0 then [] else u # units_of bs)"
| "units_of _ = []"

definition high_surrogate :: "nat \<Rightarrow> bool" where
  "high_surrogate u \<longleftrightarrow> 0xD800 \<le> u \<and> u \<le> 0xDBFF"

definition low_surrogate :: "nat \<Rightarrow> bool" where
  "low_surrogate u \<longleftrightarrow> 0xDC00 \<le> u \<and> u \<le> 0xDFFF"

fun utf16_runes :: "nat list \<Rightarrow> rune list" where
  "utf16_runes [] = []"
| "utf16_runes [u] = [u]"
| "utf16_runes (u # v # us) =
     (if high_surrogate u \<and> low_surrogate v
      then ((u - 0xD800) * 1024 + (v - 0xDC00) + 0x10000) # utf16_runes us
      else u # utf16_runes (v # us))"

definition decodeUTF16 :: "bytes \<Rightarrow> string" where
  "decodeUTF16 b = string_of_runes (utf16_runes (units_of b))"

definition rune_units :: "rune \<Rightarrow> nat list" where
  "rune_units r =
     (if 0xFFFF < r then [0xD800 + (r - 0x10000) div 1024, 0xDC00 + (r - 0x10000) mod 1024] else [r])"

definition put_unit :: "nat \<Rightarrow> bytes" where
  "put_unit u = le16 (word_of_nat u)"

definition utf16le :: "string \<Rightarrow> bytes" where
  "utf16le s = concat (map (\<lambda>r. concat (map put_unit (rune_units r))) (runes s))"

definition utf16leZ :: "string \<Rightarrow> bytes" where
  "utf16leZ s = utf16le s @ [0, 0]"

section \<open>Reading back\<close>

lemma units_put_unit: "u < 65536 \<Longrightarrow> units_of (put_unit u @ bs) = (if u = 0 then [] else u # units_of bs)"
proof -
  assume u: "u < 65536"
  have l: "put_unit u = [ucast (word_of_nat u :: 16 word), ucast (drop_bit 8 (word_of_nat u :: 16 word))]"
    by (simp add: put_unit_def le16_def)
  have "unat (get_le16 (put_unit u)) = u"
    using u by (simp add: put_unit_def wire_simps unat_word_16)
  then show ?thesis using u by (simp add: l Let_def del: get_le16.simps)
qed

lemma units_of_units:
  "\<forall>u \<in> set us. 0 < u \<and> u < 65536 \<Longrightarrow> units_of (concat (map put_unit us) @ bs) = us @ units_of bs"
  by (induction us) (auto simp: units_put_unit)

lemma rune_units_range: "valid_rune r \<Longrightarrow> 0 < r \<Longrightarrow> \<forall>u \<in> set (rune_units r). 0 < u \<and> u < 65536"
proof -
  assume v: "valid_rune r" "0 < r"
  have "(r - 65536) div 1024 < 1024" if "65535 < r"
    using v that by (simp add: valid_rune_def less_mult_imp_div_less)
  moreover have "(r - 65536) mod 1024 < 1024" by simp
  ultimately show ?thesis using v by (auto simp: rune_units_def)
qed

lemma utf16_runes_unit: "valid_rune r \<Longrightarrow> utf16_runes (rune_units r @ us) = r # utf16_runes us"
proof (cases "65535 < r")
  case True
  assume v: "valid_rune r"
  let ?h = "(r - 65536) div 1024" and ?l = "(r - 65536) mod 1024"
  have h: "?h < 1024" using v True by (simp add: valid_rune_def less_mult_imp_div_less)
  have l: "?l < 1024" by simp
  have "?h * 1024 + ?l + 65536 = r" using True by simp
  moreover have "high_surrogate (0xD800 + ?h)" "low_surrogate (0xDC00 + ?l)"
    using h l by (simp_all add: high_surrogate_def low_surrogate_def)
  ultimately show ?thesis using True by (simp add: rune_units_def)
next
  case False
  assume "valid_rune r"
  with False have "\<not> high_surrogate r" by (auto simp: valid_rune_def high_surrogate_def)
  with False show ?thesis by (cases us) (simp_all add: rune_units_def)
qed

lemma utf16_runes_units:
  "\<forall>r \<in> set rs. valid_rune r \<Longrightarrow> utf16_runes (concat (map rune_units rs)) = rs"
  by (induction rs) (simp_all add: utf16_runes_unit)

lemma concat_map_concat: "concat (concat (map f xs)) = concat (map (\<lambda>x. concat (f x)) xs)"
  by (induction xs) simp_all

lemma utf16le_units: "utf16le s = concat (map put_unit (concat (map rune_units (runes s))))"
  by (simp add: utf16le_def map_concat comp_def concat_map_concat)

text \<open>
  \<open>text_field s\<close>: valid UTF-8 without a NUL, which is what survives the trip through a
  NUL-terminated UTF-16 field.
\<close>

definition text_field :: "string \<Rightarrow> bool" where
  "text_field s \<longleftrightarrow> string_of_runes (runes s) = s \<and> list_all (\<lambda>r. valid_rune r \<and> 0 < r) (runes s)"

lemma units_utf16le:
  "text_field s \<Longrightarrow> units_of (utf16le s @ bs) = concat (map rune_units (runes s)) @ units_of bs"
  unfolding utf16le_units
  by (rule units_of_units) (auto simp: text_field_def list_all_iff dest: rune_units_range)

lemma decode_utf16leZ: "text_field s \<Longrightarrow> decodeUTF16 (utf16le s @ 0 # 0 # rest) = s"
  by (simp add: decodeUTF16_def units_utf16le Let_def)
    (simp add: text_field_def utf16_runes_units list_all_iff)

lemma decode_utf16le: "text_field s \<Longrightarrow> decodeUTF16 (utf16le s) = s"
  using units_utf16le [of s "[]"]
  by (simp add: decodeUTF16_def) (simp add: text_field_def utf16_runes_units list_all_iff)

lemma length_put_unit [simp]: "length (put_unit u) = 2"
  by (simp add: put_unit_def wire_simps)

lemma length_utf16le: "length (utf16le s) = 2 * length (concat (map rune_units (runes s)))"
  by (simp add: utf16le_units length_concat comp_def sum_list_triv)

end
