(* ===== verification/Rdgw.thy ===== *)
theory Rdgw
  imports Utf16 Net_Addr Contracts "HOL-Library.State_Monad"
begin

text \<open>
  \<open>internal/proxy/rdgw\<close>: the packets of the Remote Desktop Gateway protocol and the tunnel state
  machine.  What resolves a cookie (\<open>Authorizer\<close>) is outside this package: it is an argument, a
  program over a state of its own that answers with a backend or an error.
\<close>

datatype rdgw_error = ErrShort | ErrPacketTooLarge | ErrUnknown | ErrSequence | ErrMalformed | ErrRefused

definition MaxPacket :: "32 word" where "MaxPacket = 65536"

section \<open>Constants\<close>

definition PktHandshakeRequest :: "16 word" where "PktHandshakeRequest = 0x0001"
definition PktHandshakeResponse :: "16 word" where "PktHandshakeResponse = 0x0002"
definition PktTunnelCreate :: "16 word" where "PktTunnelCreate = 0x0004"
definition PktTunnelResponse :: "16 word" where "PktTunnelResponse = 0x0005"
definition PktTunnelAuth :: "16 word" where "PktTunnelAuth = 0x0006"
definition PktTunnelAuthResponse :: "16 word" where "PktTunnelAuthResponse = 0x0007"
definition PktChannelCreate :: "16 word" where "PktChannelCreate = 0x0008"
definition PktChannelResponse :: "16 word" where "PktChannelResponse = 0x0009"
definition PktData :: "16 word" where "PktData = 0x000A"
definition PktKeepalive :: "16 word" where "PktKeepalive = 0x000D"
definition PktCloseChannel :: "16 word" where "PktCloseChannel = 0x0010"
definition PktCloseChannelResp :: "16 word" where "PktCloseChannelResp = 0x0011"

lemmas pkt_type_defs =
  PktHandshakeRequest_def PktHandshakeResponse_def PktTunnelCreate_def PktTunnelResponse_def PktTunnelAuth_def
  PktTunnelAuthResponse_def PktChannelCreate_def PktChannelResponse_def PktData_def PktKeepalive_def
  PktCloseChannel_def PktCloseChannelResp_def

definition StatusSuccess :: "32 word" where "StatusSuccess = 0x00"
definition StatusAccessDenied :: "32 word" where "StatusAccessDenied = 0x05"
definition StatusNotSupported :: "32 word" where "StatusNotSupported = 0x32"

definition CapabilityIdle :: "16 word" where "CapabilityIdle = 0x0001"
definition CapabilityMessaging :: "16 word" where "CapabilityMessaging = 0x0002"

definition AuthPAA :: "16 word" where "AuthPAA = 0x0002"

section \<open>The packet header\<close>

record packet =
  pk_type :: "16 word"
  pk_body :: bytes

definition ParsePacket :: "bytes \<Rightarrow> rdgw_error + packet \<times> nat" where
  "ParsePacket b =
     (if length b < 8 then Inl ErrShort
      else let typ = get_le16 b; len = get_le32 (drop 4 b) in
        if len < 8 then Inl ErrMalformed
        else if MaxPacket < len then Inl ErrPacketTooLarge
        else if (word_of_nat (length b) :: 32 word) < len then Inl ErrShort
        else Inr (\<lparr>pk_type = typ, pk_body = drop 8 (take (unat len) b)\<rparr>, unat len))"

definition Build :: "16 word \<Rightarrow> bytes \<Rightarrow> bytes" where
  "Build typ body = le16 typ @ [0, 0] @ le32 (word_of_nat (8 + length body)) @ body"

section \<open>The messages\<close>

record handshake_request =
  hs_major :: byte
  hs_minor :: byte
  hs_version :: "16 word"
  hs_auth :: "16 word"

definition ParseHandshakeRequest :: "bytes \<Rightarrow> rdgw_error + handshake_request" where
  "ParseHandshakeRequest body =
     (if length body < 6 then Inl ErrShort
      else Inr \<lparr>hs_major = body ! 0, hs_minor = body ! 1, hs_version = get_le16 (drop 2 body),
                hs_auth = get_le16 (drop 4 body)\<rparr>)"

definition BuildHandshakeResponse :: "32 word \<Rightarrow> 16 word \<Rightarrow> bytes" where
  "BuildHandshakeResponse status extendedAuth =
     Build PktHandshakeResponse (le32 status @ [1, 0] @ le16 1 @ le16 extendedAuth)"

record tunnel_create =
  tc_capabilities :: "32 word"
  tc_cookie :: string

text \<open>A field of text: its length in bytes, then UTF-16; also gives what follows it.\<close>

definition take_text :: "bytes \<Rightarrow> rdgw_error + string \<times> bytes" where
  "take_text rest =
     (if length rest < 2 then Inl ErrShort
      else let n = unat (get_le16 rest); rest1 = drop 2 rest in
        if length rest1 < n then Inl ErrMalformed
        else Inr (decodeUTF16 (take n rest1), drop n rest1))"

definition ParseTunnelCreate :: "bytes \<Rightarrow> rdgw_error + tunnel_create" where
  "ParseTunnelCreate body =
     (if length body < 8 then Inl ErrShort
      else let caps = get_le32 body; fields = get_le16 (drop 4 body) in
        if fields AND 1 \<noteq> 0 then
          (case take_text (drop 8 body) of
             Inl e \<Rightarrow> Inl e
           | Inr (cookie, _) \<Rightarrow> Inr \<lparr>tc_capabilities = caps, tc_cookie = cookie\<rparr>)
        else Inr \<lparr>tc_capabilities = caps, tc_cookie = []\<rparr>)"

definition BuildTunnelResponse :: "32 word \<Rightarrow> 32 word \<Rightarrow> 16 word \<Rightarrow> bytes" where
  "BuildTunnelResponse status tunnelID capabilities =
     Build PktTunnelResponse (le16 1 @ le32 status @ le32 tunnelID @ le32 0 @ le16 capabilities @ le16 0)"

definition ParseTunnelAuth :: "bytes \<Rightarrow> rdgw_error + string" where
  "ParseTunnelAuth body = (case take_text body of Inl e \<Rightarrow> Inl e | Inr (name, _) \<Rightarrow> Inr name)"

definition BuildTunnelAuthResponse :: "32 word \<Rightarrow> bytes" where
  "BuildTunnelAuthResponse status = Build PktTunnelAuthResponse (le32 status @ le32 0 @ le32 0 @ le32 0)"

record channel_create =
  cc_resources :: "string list"
  cc_port :: "16 word"

fun parse_resources :: "nat \<Rightarrow> bytes \<Rightarrow> rdgw_error + string list" where
  "parse_resources 0 rest = Inr []"
| "parse_resources (Suc n) rest =
     (case take_text rest of
        Inl e \<Rightarrow> Inl e
      | Inr (name, rest1) \<Rightarrow>
          (case parse_resources n rest1 of Inl e \<Rightarrow> Inl e | Inr names \<Rightarrow> Inr (name # names)))"

definition ParseChannelCreate :: "bytes \<Rightarrow> rdgw_error + channel_create" where
  "ParseChannelCreate body =
     (if length body < 4 then Inl ErrShort
      else let count = unat (body ! 0); port = get_le16 (drop 2 body) in
        if 16 < count then Inl ErrMalformed
        else case parse_resources count (drop 4 body) of
               Inl e \<Rightarrow> Inl e
             | Inr names \<Rightarrow> Inr \<lparr>cc_resources = names, cc_port = port\<rparr>)"

definition BuildChannelResponse :: "32 word \<Rightarrow> 32 word \<Rightarrow> bytes" where
  "BuildChannelResponse status channelID =
     Build PktChannelResponse (le32 status @ le32 0 @ le32 channelID @ le16 0)"

definition ParseData :: "bytes \<Rightarrow> rdgw_error + bytes" where
  "ParseData body =
     (if length body < 2 then Inl ErrShort
      else let n = unat (get_le16 body); rest = drop 2 body in
        if length rest < n then Inl ErrMalformed else Inr (take n rest))"

definition BuildData :: "bytes \<Rightarrow> bytes" where
  "BuildData payload = Build PktData (le16 (word_of_nat (length payload)) @ payload)"

definition BuildCloseChannelResponse :: "32 word \<Rightarrow> bytes" where
  "BuildCloseChannelResponse status = Build PktCloseChannelResp (le32 status)"

section \<open>The tunnel\<close>

datatype tunnel_state = StHandshake | StTunnelCreate | StTunnelAuth | StChannelCreate | StReady | StClosed

fun state_String :: "tunnel_state \<Rightarrow> string" where
  "state_String StHandshake = ''handshake''"
| "state_String StTunnelCreate = ''tunnel create''"
| "state_String StTunnelAuth = ''tunnel auth''"
| "state_String StChannelCreate = ''channel create''"
| "state_String StReady = ''ready''"
| "state_String StClosed = ''closed''"

record tunnel =
  tu_state :: tunnel_state
  tu_cookie :: string
  tu_backend :: string
  tu_requested :: "string list"

definition NewTunnel :: tunnel where
  "NewTunnel = \<lparr>tu_state = StHandshake, tu_cookie = [], tu_backend = [], tu_requested = []\<rparr>"

definition Ready :: "tunnel \<Rightarrow> bool" where
  "Ready t \<longleftrightarrow> tu_state t = StReady"

definition Refused :: "rdgw_error \<Rightarrow> bool" where
  "Refused e \<longleftrightarrow> e = ErrRefused"

record answer =
  an_reply :: "bytes option"
  an_payload :: "bytes option"
  an_error :: "rdgw_error option"

definition reply :: "bytes \<Rightarrow> answer" where
  "reply b = \<lparr>an_reply = Some b, an_payload = None, an_error = None\<rparr>"

definition refuse_with :: "bytes \<Rightarrow> answer" where
  "refuse_with b = \<lparr>an_reply = Some b, an_payload = None, an_error = Some ErrRefused\<rparr>"

definition failed_with :: "rdgw_error \<Rightarrow> answer" where
  "failed_with e = \<lparr>an_reply = None, an_payload = None, an_error = Some e\<rparr>"

definition silence :: answer where
  "silence = \<lparr>an_reply = None, an_payload = None, an_error = None\<rparr>"

type_synonym 's authorizer = "ip \<Rightarrow> string \<Rightarrow> ('s, string option) state"

definition on_handshake :: "tunnel \<Rightarrow> packet \<Rightarrow> answer \<times> tunnel" where
  "on_handshake t p =
     (if pk_type p \<noteq> PktHandshakeRequest then (failed_with ErrSequence, t)
      else case ParseHandshakeRequest (pk_body p) of
        Inl e \<Rightarrow> (failed_with e, t)
      | Inr req \<Rightarrow>
          if hs_auth req AND AuthPAA = 0 then (refuse_with (BuildHandshakeResponse StatusNotSupported AuthPAA), t)
          else (reply (BuildHandshakeResponse StatusSuccess AuthPAA), t\<lparr>tu_state := StTunnelCreate\<rparr>))"

definition on_tunnel_create :: "'s authorizer \<Rightarrow> ip \<Rightarrow> tunnel \<Rightarrow> packet \<Rightarrow> ('s, answer \<times> tunnel) state" where
  "on_tunnel_create A src t p =
     (if pk_type p \<noteq> PktTunnelCreate then State_Monad.return (failed_with ErrSequence, t)
      else case ParseTunnelCreate (pk_body p) of
        Inl e \<Rightarrow> State_Monad.return (failed_with e, t)
      | Inr req \<Rightarrow>
          if trim_space (tc_cookie req) = [] then
            State_Monad.return (refuse_with (BuildTunnelResponse StatusAccessDenied 0 0), t)
          else do {
            r \<leftarrow> A src (tc_cookie req);
            State_Monad.return (case r of
                None \<Rightarrow> (refuse_with (BuildTunnelResponse StatusAccessDenied 0 0), t)
              | Some backend \<Rightarrow>
                  if backend = [] then (refuse_with (BuildTunnelResponse StatusAccessDenied 0 0), t)
                  else (reply (BuildTunnelResponse StatusSuccess 1 (CapabilityIdle OR CapabilityMessaging)),
                    t\<lparr>tu_cookie := tc_cookie req, tu_backend := backend, tu_state := StTunnelAuth\<rparr>))
          })"

definition on_tunnel_auth :: "tunnel \<Rightarrow> packet \<Rightarrow> answer \<times> tunnel" where
  "on_tunnel_auth t p =
     (if pk_type p \<noteq> PktTunnelAuth then (failed_with ErrSequence, t)
      else case ParseTunnelAuth (pk_body p) of
        Inl e \<Rightarrow> (failed_with e, t)
      | Inr _ \<Rightarrow> (reply (BuildTunnelAuthResponse StatusSuccess), t\<lparr>tu_state := StChannelCreate\<rparr>))"

definition on_channel_create :: "tunnel \<Rightarrow> packet \<Rightarrow> answer \<times> tunnel" where
  "on_channel_create t p =
     (if pk_type p \<noteq> PktChannelCreate then (failed_with ErrSequence, t)
      else case ParseChannelCreate (pk_body p) of
        Inl e \<Rightarrow> (failed_with e, t)
      | Inr req \<Rightarrow> (reply (BuildChannelResponse StatusSuccess 1),
          t\<lparr>tu_requested := cc_resources req, tu_state := StReady\<rparr>))"

definition on_ready :: "tunnel \<Rightarrow> packet \<Rightarrow> answer \<times> tunnel" where
  "on_ready t p =
     (if pk_type p = PktData then
        (case ParseData (pk_body p) of
           Inl e \<Rightarrow> (failed_with e, t)
         | Inr bs \<Rightarrow> (\<lparr>an_reply = None, an_payload = Some bs, an_error = None\<rparr>, t))
      else if pk_type p = PktCloseChannel then
        (reply (BuildCloseChannelResponse StatusSuccess), t\<lparr>tu_state := StClosed\<rparr>)
      else (silence, t))"

definition Handle :: "'s authorizer \<Rightarrow> ip \<Rightarrow> tunnel \<Rightarrow> packet \<Rightarrow> ('s, answer \<times> tunnel) state" where
  "Handle A src t p =
     (if pk_type p = PktKeepalive then State_Monad.return (silence, t)
      else case tu_state t of
        StHandshake \<Rightarrow> State_Monad.return (on_handshake t p)
      | StTunnelCreate \<Rightarrow> on_tunnel_create A src t p
      | StTunnelAuth \<Rightarrow> State_Monad.return (on_tunnel_auth t p)
      | StChannelCreate \<Rightarrow> State_Monad.return (on_channel_create t p)
      | StReady \<Rightarrow> State_Monad.return (on_ready t p)
      | StClosed \<Rightarrow> State_Monad.return (failed_with ErrSequence, t))"

end
