(* ===== verification/Rdgw_Guarantees.thy ===== *)
theory Rdgw_Guarantees
  imports Rdgw
begin

text \<open>
  What the gateway protocol guarantees: packets read back, the tunnel follows the fixed sequence of
  the protocol, and it never forwards anywhere but to the backend its cookie was resolved to.
\<close>

section \<open>Packets read back\<close>

lemma word_le_of_nat_32: "n \<le> m \<Longrightarrow> m < 4294967296 \<Longrightarrow> (word_of_nat n :: 32 word) \<le> word_of_nat m"
  by (simp add: word_le_nat_alt unat_word_32)

lemma ParsePacket_Build:
  assumes "8 + length body \<le> 65536" and "8 + length body + length rest < 4294967296"
  shows "ParsePacket (Build typ body @ rest) = Inr (\<lparr>pk_type = typ, pk_body = body\<rparr>, 8 + length body)"
proof -
  let ?n = "8 + length body"
  have l: "length (Build typ body @ rest) = ?n + length rest" by (simp add: Build_def wire_simps)
  have ty: "get_le16 (Build typ body @ rest) = typ" by (simp add: Build_def wire_simps)
  have len: "get_le32 (drop 4 (Build typ body @ rest)) = word_of_nat ?n"
  proof -
    have "drop 4 (Build typ body @ rest) = le32 (word_of_nat ?n) @ body @ rest"
      by (simp add: Build_def wire_simps)
    then show ?thesis by (simp only: wire_simps)
  qed
  have "\<not> (word_of_nat ?n :: 32 word) < 8" "\<not> MaxPacket < word_of_nat ?n"
    using assms(1) by (simp_all only: word_less_nat_alt unat_word_32 MaxPacket_def) (simp_all add: unat_word_32)
  moreover have "\<not> (word_of_nat (?n + length rest) :: 32 word) < word_of_nat ?n"
    using word_le_of_nat_32 [of ?n "?n + length rest"] assms(2) by (simp only: not_less)
  moreover have "drop 8 (take ?n (Build typ body @ rest)) = body"
  proof -
    define hdr where "hdr = le16 typ @ [0, 0] @ le32 (word_of_nat ?n)"
    have "Build typ body @ rest = hdr @ body @ rest" "length hdr = 8"
      by (simp_all add: Build_def hdr_def wire_simps)
    then show ?thesis by simp
  qed
  moreover have "unat (word_of_nat ?n :: 32 word) = ?n" using assms by (intro unat_word_32) simp
  ultimately show ?thesis
    unfolding ParsePacket_def Let_def l ty len by simp
qed

lemma ParseData_Build: "length payload < 65536 \<Longrightarrow>
    ParseData (le16 (word_of_nat (length payload)) @ payload @ junk) = Inr payload"
  by (simp add: ParseData_def wire_simps Let_def unat_word_16)

definition text_block :: "string \<Rightarrow> bytes" where
  "text_block s = le16 (word_of_nat (length (utf16le s))) @ utf16le s"

lemma take_text_block:
  "text_field s \<Longrightarrow> length (utf16le s) < 65536 \<Longrightarrow> take_text (text_block s @ rest) = Inr (s, rest)"
  by (simp add: take_text_def text_block_def wire_simps Let_def unat_word_16 decode_utf16le)

lemma parse_resources_blocks:
  "\<forall>s \<in> set ss. text_field s \<and> length (utf16le s) < 65536 \<Longrightarrow>
     parse_resources (length ss) (concat (map text_block ss) @ rest) = Inr ss"
  by (induction ss) (simp_all add: take_text_block)

text \<open>What a client puts on the wire is read back: a payload sent as a data packet comes out
  unchanged with the exact number of bytes consumed, whatever follows it in the buffer; a cookie
  and up to sixteen machine names come out as they were typed.\<close>

theorem rdgw_roundtrip:
  assumes "length payload \<le> 65526" and "length rest < 2 ^ 31"
    and "text_field cookie" and "length (utf16le cookie) < 65536"
    and "length machines \<le> 16" and "\<forall>s \<in> set machines. text_field s \<and> length (utf16le s) < 65536"
  shows "(\<exists>p. ParsePacket (BuildData payload @ rest) = Inr (p, length (BuildData payload)) \<and>
       pk_type p = PktData \<and> ParseData (pk_body p) = Inr payload) \<and>
     ParseTunnelCreate (le32 caps @ le16 1 @ le16 0 @ text_block cookie @ junk) =
       Inr \<lparr>tc_capabilities = caps, tc_cookie = cookie\<rparr> \<and>
     ParseChannelCreate ([word_of_nat (length machines), 0] @ le16 port @ concat (map text_block machines) @ junk) =
       Inr \<lparr>cc_resources = machines, cc_port = port\<rparr>"
proof (intro conjI)
  let ?body = "le16 (word_of_nat (length payload)) @ payload"
  have b: "length ?body = 2 + length payload" by (simp add: wire_simps)
  have "ParsePacket (BuildData payload @ rest) = Inr (\<lparr>pk_type = PktData, pk_body = ?body\<rparr>, 8 + length ?body)"
    unfolding BuildData_def by (rule ParsePacket_Build) (use assms(1,2) b in simp_all)
  moreover have "length (BuildData payload) = 8 + length ?body"
    by (simp add: BuildData_def Build_def wire_simps)
  moreover have "ParseData ?body = Inr payload"
    using ParseData_Build [of payload "[]"] assms(1) by simp
  ultimately show "\<exists>p. ParsePacket (BuildData payload @ rest) = Inr (p, length (BuildData payload)) \<and>
       pk_type p = PktData \<and> ParseData (pk_body p) = Inr payload" by simp
next
  show "ParseTunnelCreate (le32 caps @ le16 1 @ le16 0 @ text_block cookie @ junk) =
       Inr \<lparr>tc_capabilities = caps, tc_cookie = cookie\<rparr>"
    using take_text_block [OF assms(3,4), of junk]
    by (simp add: ParseTunnelCreate_def wire_simps Let_def)
next
  have "unat (word_of_nat (length machines) :: 8 word) = length machines"
    using assms(5) by (intro unat_word_8) simp
  then show "ParseChannelCreate ([word_of_nat (length machines), 0] @ le16 port @ concat (map text_block machines) @ junk) =
       Inr \<lparr>cc_resources = machines, cc_port = port\<rparr>"
    using parse_resources_blocks [OF assms(6), of junk] assms(5)
    by (simp add: ParseChannelCreate_def wire_simps Let_def)
qed

theorem rdgw_roundtrip_witness:
  "(\<exists>p. ParsePacket (BuildData [1, 2, 3] @ [9]) = Inr (p, 13) \<and> ParseData (pk_body p) = Inr [1, 2, 3]) \<and>
   ParseTunnelCreate (le32 0 @ le16 1 @ le16 0 @ text_block ''tok'') = Inr \<lparr>tc_capabilities = 0, tc_cookie = ''tok''\<rparr>"
proof -
  have r: "runes ''tok'' = [116, 111, 107]" and r1: "runes ''pc'' = [112, 99]"
    by (simp_all add: runes_def decode_rune_def)
  have f: "text_field ''tok''" "length (utf16le ''tok'') < 65536" "text_field ''pc''" "length (utf16le ''pc'') < 65536"
    by (simp_all add: text_field_def r r1 length_utf16le rune_units_def valid_rune_def string_of_runes_def utf8_def utf8_bytes_def char_of_eq_iff)
  have d: "length (BuildData [1, 2, 3]) = 13" by (simp add: BuildData_def Build_def wire_simps)
  show ?thesis
    using rdgw_roundtrip [of "[1, 2, 3]" "[9]" "''tok''" "[''pc'']" 0 "[]" 3389] f d by auto
qed

section \<open>The sequence\<close>

text \<open>
  The protocol as a machine over packet types alone: which type each phase takes and where it
  leads.  Once the tunnel is open every type is taken, and only a close leaves it.
\<close>

fun tunnel_next :: "tunnel_state \<Rightarrow> 16 word \<Rightarrow> tunnel_state option" where
  "tunnel_next StHandshake k = (if k = PktHandshakeRequest then Some StTunnelCreate else None)"
| "tunnel_next StTunnelCreate k = (if k = PktTunnelCreate then Some StTunnelAuth else None)"
| "tunnel_next StTunnelAuth k = (if k = PktTunnelAuth then Some StChannelCreate else None)"
| "tunnel_next StChannelCreate k = (if k = PktChannelCreate then Some StReady else None)"
| "tunnel_next StReady k = Some (if k = PktCloseChannel then StClosed else StReady)"
| "tunnel_next StClosed k = None"

fun tunnel_spec :: "tunnel_state \<Rightarrow> 16 word list \<Rightarrow> tunnel_state option" where
  "tunnel_spec s [] = Some s"
| "tunnel_spec s (k # ks) = (case tunnel_next s k of None \<Rightarrow> None | Some s' \<Rightarrow> tunnel_spec s' ks)"

lemmas handler_defs = on_handshake_def on_tunnel_create_def on_tunnel_auth_def on_channel_create_def on_ready_def
lemmas answer_defs = reply_def refuse_with_def failed_with_def silence_def

lemma Handle_next:
  assumes "run_state (Handle A src t p) s = ((a, t'), s')"
  shows "(an_error a \<noteq> None \<longrightarrow> t' = t) \<and>
     (an_error a = None \<longrightarrow> (if pk_type p = PktKeepalive then t' = t
        else tunnel_next (tu_state t) (pk_type p) = Some (tu_state t')))"
proof (cases "pk_type p = PktKeepalive")
  case True
  with assms show ?thesis by (simp add: Handle_def answer_defs)
next
  case False
  with assms show ?thesis
    by (cases "tu_state t")
      (auto simp: Handle_def handler_defs answer_defs PktData_def PktCloseChannel_def
        split: if_split_asm sum.split_asm option.split_asm prod.split_asm)
qed

lemma Handle_out_of_turn:
  assumes "tunnel_next (tu_state t) (pk_type p) = None" and "pk_type p \<noteq> PktKeepalive"
  shows "run_state (Handle A src t p) s = ((failed_with ErrSequence, t), s)"
  using assms by (cases "tu_state t") (auto simp: Handle_def handler_defs split: if_split_asm)

fun drive :: "'s authorizer \<Rightarrow> ip \<Rightarrow> tunnel \<Rightarrow> packet list \<Rightarrow> ('s, answer list \<times> tunnel) state" where
  "drive A src t [] = State_Monad.return ([], t)"
| "drive A src t (p # ps) = do {
     (a, t1) \<leftarrow> Handle A src t p;
     (as, t2) \<leftarrow> drive A src t1 ps;
     State_Monad.return (a # as, t2)
   }"

text \<open>The types of the packets that were taken: no keepalive, and no error in the answer.\<close>

definition taken :: "packet list \<Rightarrow> answer list \<Rightarrow> 16 word list" where
  "taken ps as = map (pk_type \<circ> fst) (filter (\<lambda>(p, a). pk_type p \<noteq> PktKeepalive \<and> an_error a = None) (zip ps as))"

lemma taken_Cons: "taken (p # ps) (a # as) =
    (if pk_type p \<noteq> PktKeepalive \<and> an_error a = None then pk_type p # taken ps as else taken ps as)"
  by (simp add: taken_def)

lemma drive_spec:
  "run_state (drive A src t ps) s = ((as, t'), s') \<Longrightarrow> tunnel_spec (tu_state t) (taken ps as) = Some (tu_state t')"
proof (induction ps arbitrary: t as s)
  case (Cons p ps)
  obtain a t1 s1 where h: "run_state (Handle A src t p) s = ((a, t1), s1)" by (metis surj_pair)
  obtain as2 t2 s2 where d: "run_state (drive A src t1 ps) s1 = ((as2, t2), s2)" by (metis surj_pair)
  have e: "as = a # as2" "t2 = t'" "s2 = s'" using Cons.prems h d by auto
  then show ?case using Cons.IH [OF d [unfolded e(2,3)]] Handle_next [OF h] e(1) by (auto simp: taken_Cons split: if_split_asm)
qed (simp add: taken_def)

lemma spec_Ready:
  assumes "tunnel_spec StHandshake ks = Some s" and "s \<in> {StReady, StClosed}"
  shows "take 4 ks = [PktHandshakeRequest, PktTunnelCreate, PktTunnelAuth, PktChannelCreate]"
proof -
  have "\<exists>k1 k2 k3 k4 r. ks = k1 # k2 # k3 # k4 # r"
    using assms by (cases ks; cases "tl ks"; cases "tl (tl ks)"; cases "tl (tl (tl ks))")
      (auto split: if_split_asm option.split_asm)
  with assms show ?thesis by (auto split: if_split_asm)
qed

text \<open>C40. The tunnel implements the protocol's sequence: forgetting everything but the packet types,
  the packets a tunnel takes without an error are a run of the abstract machine, so a tunnel is
  ready only after handshake, tunnel create, tunnel auth and channel create were taken in this
  order; a packet out of turn is answered with nothing, changes nothing and asks nobody, and a
  packet that ends in an error leaves the tunnel as it was.\<close>

theorem rdgw_refines_sequence:
  assumes "run_state (drive A src NewTunnel ps) s = ((as, t), s')"
  shows "tunnel_spec StHandshake (taken ps as) = Some (tu_state t) \<and>
     (Ready t \<longrightarrow> take 4 (taken ps as) = [PktHandshakeRequest, PktTunnelCreate, PktTunnelAuth, PktChannelCreate]) \<and>
     (\<forall>p. pk_type p \<noteq> PktKeepalive \<and> tunnel_next (tu_state t) (pk_type p) = None \<longrightarrow>
        run_state (Handle A src t p) s' = ((failed_with ErrSequence, t), s')) \<and>
     (\<forall>p a t2 s2. run_state (Handle A src t p) s' = ((a, t2), s2) \<and> an_error a \<noteq> None \<longrightarrow> t2 = t)"
proof -
  have spec: "tunnel_spec StHandshake (taken ps as) = Some (tu_state t)"
    using drive_spec [OF assms] by (simp add: NewTunnel_def)
  show ?thesis
  proof (intro conjI allI impI)
    show "take 4 (taken ps as) = [PktHandshakeRequest, PktTunnelCreate, PktTunnelAuth, PktChannelCreate]" if "Ready t"
      using spec_Ready [OF spec] that by (simp add: Ready_def)
    fix p a t2 s2
    assume "run_state (Handle A src t p) s' = ((a, t2), s2) \<and> an_error a \<noteq> None"
    with Handle_next [of A src t p s' a t2 s2] show "t2 = t" by simp
  qed (use spec in \<open>simp_all add: Handle_out_of_turn\<close>)
qed

text \<open>A client that knows the cookie \<open>tok\<close> and asks for a machine of its own choosing.\<close>

definition sample_auth :: "unit authorizer" where
  "sample_auth src ck = State_Monad.return (if ck = ''tok'' then Some ''10.0.0.5:3389'' else None)"

definition create_body :: bytes where
  "create_body = le32 0 @ le16 1 @ le16 0 @ text_block ''tok''"

definition auth_body :: bytes where
  "auth_body = text_block ''pc''"

definition channel_body :: bytes where
  "channel_body = [1, 0] @ le16 3389 @ text_block ''pc''"

definition sample_packets :: "packet list" where
  "sample_packets =
     [\<lparr>pk_type = PktHandshakeRequest, pk_body = [1, 0, 0, 0, 2, 0]\<rparr>,
      \<lparr>pk_type = PktTunnelCreate, pk_body = create_body\<rparr>,
      \<lparr>pk_type = PktTunnelAuth, pk_body = auth_body\<rparr>,
      \<lparr>pk_type = PktChannelCreate, pk_body = channel_body\<rparr>]"

lemma sample_fields: "text_field ''tok''" "length (utf16le ''tok'') < 65536" "text_field ''pc''" "length (utf16le ''pc'') < 65536"
proof -
  have r: "runes ''tok'' = [116, 111, 107]" and r1: "runes ''pc'' = [112, 99]"
    by (simp_all add: runes_def decode_rune_def)
  show "text_field ''tok''" "length (utf16le ''tok'') < 65536" "text_field ''pc''" "length (utf16le ''pc'') < 65536"
    by (simp_all add: text_field_def r r1 length_utf16le rune_units_def valid_rune_def string_of_runes_def utf8_def
        utf8_bytes_def char_of_eq_iff)
qed

lemma sample_parses:
  "ParseTunnelCreate create_body = Inr \<lparr>tc_capabilities = 0, tc_cookie = ''tok''\<rparr>"
  "ParseTunnelAuth auth_body = Inr ''pc''"
  "ParseChannelCreate channel_body = Inr \<lparr>cc_resources = [''pc''], cc_port = 3389\<rparr>"
proof -
  note take = take_text_block [OF sample_fields(1,2), of "[]"] take_text_block [OF sample_fields(3,4), of "[]"]
  show "ParseTunnelCreate create_body = Inr \<lparr>tc_capabilities = 0, tc_cookie = ''tok''\<rparr>"
    using take(1) by (simp add: create_body_def ParseTunnelCreate_def wire_simps Let_def)
  show "ParseTunnelAuth auth_body = Inr ''pc''"
    using take(2) by (simp add: auth_body_def ParseTunnelAuth_def)
  show "ParseChannelCreate channel_body = Inr \<lparr>cc_resources = [''pc''], cc_port = 3389\<rparr>"
    using parse_resources_blocks [of "[''pc'']" "[]"] sample_fields(3,4)
    by (simp add: channel_body_def ParseChannelCreate_def wire_simps Let_def)
qed

lemma sample_cookie_kept: "trim_space ''tok'' \<noteq> []"
  by (subst trim_space_id) (auto simp: ascii_string_def ascii_space_def)

lemma sample_drive:
  "\<exists>as t. run_state (drive sample_auth (V4 1) NewTunnel sample_packets) () = ((as, t), ()) \<and> Ready t \<and>
     tu_cookie t = ''tok'' \<and> tu_backend t = ''10.0.0.5:3389'' \<and> tu_requested t = [''pc''] \<and> taken sample_packets as = map pk_type sample_packets"
proof -
  have hs: "ParseHandshakeRequest [1, 0, 0, 0, 2, 0] = Inr \<lparr>hs_major = 1, hs_minor = 0, hs_version = 0, hs_auth = 2\<rparr>"
    by (simp add: ParseHandshakeRequest_def)
  show ?thesis
    unfolding sample_packets_def
    by (simp add: Handle_def NewTunnel_def pkt_type_defs handler_defs hs sample_parses sample_cookie_kept sample_auth_def
        answer_defs Ready_def taken_def AuthPAA_def)
qed

theorem rdgw_refines_sequence_witness:
  "\<exists>as t. run_state (drive sample_auth (V4 1) NewTunnel sample_packets) () = ((as, t), ()) \<and> Ready t \<and>
     take 4 (taken sample_packets as) = [PktHandshakeRequest, PktTunnelCreate, PktTunnelAuth, PktChannelCreate]"
  using sample_drive rdgw_refines_sequence by metis

section \<open>No open proxy\<close>

text \<open>The authorizer with a record of what it was asked and what it answered.\<close>

definition logged :: "'s authorizer \<Rightarrow> ('s \<times> (string \<times> string option) list) authorizer" where
  "logged A src ck = State (\<lambda>(s, h). case run_state (A src ck) s of (r, s') \<Rightarrow> (r, (s', h @ [(ck, r)])))"

inductive tunnel_step ::
    "'s authorizer \<Rightarrow> ip \<Rightarrow> tunnel \<times> 's \<times> (string \<times> string option) list \<Rightarrow>
      tunnel \<times> 's \<times> (string \<times> string option) list \<Rightarrow> bool" for A src where
  packet: "run_state (Handle (logged A) src t p) sh = ((a, t'), sh') \<Longrightarrow> tunnel_step A src (t, sh) (t', sh')"

inductive_cases tunnel_stepE: "tunnel_step A src (t, sh) (t', sh')"

definition resolved :: "tunnel \<Rightarrow> (string \<times> string option) list \<Rightarrow> bool" where
  "resolved t h \<longleftrightarrow> (tu_cookie t, Some (tu_backend t)) \<in> set h \<and> tu_backend t \<noteq> [] \<and> trim_space (tu_cookie t) \<noteq> []"

definition tunnel_inv :: "tunnel \<times> 's \<times> (string \<times> string option) list \<Rightarrow> bool" where
  "tunnel_inv c \<longleftrightarrow> (case c of (t, _, h) \<Rightarrow>
     if tu_state t \<in> {StHandshake, StTunnelCreate} then tu_backend t = [] \<and> tu_requested t = [] else resolved t h)"

lemma run_logged: "run_state (logged A src ck) (s, h) =
    (fst (run_state (A src ck) s), (snd (run_state (A src ck) s), h @ [(ck, fst (run_state (A src ck) s))]))"
  by (simp add: logged_def split: prod.split)

lemma Handle_logged:
  assumes "run_state (Handle (logged A) src t p) (s, h) = ((a, t'), (s', h'))" and "tunnel_inv (t, s, h)"
  shows "tunnel_inv (t', s', h') \<and> (tu_state t \<notin> {StHandshake, StTunnelCreate} \<longrightarrow>
     tu_backend t' = tu_backend t \<and> tu_cookie t' = tu_cookie t \<and> h' = h)"
  using assms
  by (cases "tu_state t")
    (auto simp: Handle_def handler_defs tunnel_inv_def resolved_def run_logged
      split: if_split_asm sum.split_asm option.split_asm prod.split_asm)

interpretation tunnels: guarded_system "(NewTunnel, s0, [])" "tunnel_step A src" tunnel_inv for s0 A src
proof
  show "tunnel_inv (NewTunnel, s0, [])" by (simp add: tunnel_inv_def NewTunnel_def)
  show "tunnel_inv t" if "tunnel_step A src s t" "tunnel_inv s" for s t
    using that by (auto elim!: tunnel_step.cases dest: Handle_logged)
qed

text \<open>C39. A tunnel is no open proxy: whatever packets a client sends and in whatever order, if the
  tunnel is ready or hands out payload, its backend is what the authorizer answered to the very
  cookie the client presented, and that cookie is not blank; no later packet changes the backend
  or the cookie, whichever machine the client names, and the authorizer is not asked again.\<close>

theorem rdgw_no_open_proxy:
  assumes "(tunnel_step A src)\<^sup>*\<^sup>* (NewTunnel, s0, []) (t, s, h)"
    and "run_state (Handle (logged A) src t p) (s, h) = ((a, t'), (s', h'))"
    and "Ready t \<or> an_payload a \<noteq> None"
  shows "(tu_cookie t, Some (tu_backend t)) \<in> set h \<and> tu_backend t \<noteq> [] \<and> trim_space (tu_cookie t) \<noteq> [] \<and>
     tu_backend t' = tu_backend t \<and> tu_cookie t' = tu_cookie t \<and> h' = h"
proof -
  have inv: "tunnel_inv (t, s, h)" by (rule tunnels.inv_reachable [OF assms(1)])
  have "Ready t"
    using assms(2,3) by (cases "tu_state t")
      (auto simp: Ready_def Handle_def handler_defs answer_defs run_logged
        split: if_split_asm sum.split_asm option.split_asm prod.split_asm)
  with Handle_logged [OF assms(2) inv] inv show ?thesis
    by (simp add: Ready_def tunnel_inv_def resolved_def)
qed

lemma drive_logged_reaches:
  "run_state (drive (logged A) src t ps) sh = ((as, t'), sh') \<Longrightarrow> (tunnel_step A src)\<^sup>*\<^sup>* (t, sh) (t', sh')"
proof (induction ps arbitrary: t as sh)
  case (Cons p ps)
  obtain a t1 s1 where h: "run_state (Handle (logged A) src t p) sh = ((a, t1), s1)" by (metis surj_pair)
  obtain as2 t2 s2 where d: "run_state (drive (logged A) src t1 ps) s1 = ((as2, t2), s2)" by (metis surj_pair)
  have "t2 = t'" "s2 = sh'" using Cons.prems h d by auto
  then show ?case using Cons.IH [of t1 s1 as2] d packet [OF h] by (meson converse_rtranclp_into_rtranclp)
qed simp

definition data_packet :: packet where
  "data_packet = \<lparr>pk_type = PktData, pk_body = [1, 0, 42]\<rparr>"

theorem rdgw_no_open_proxy_witness:
  "\<exists>t h. (tunnel_step sample_auth (V4 1))\<^sup>*\<^sup>* (NewTunnel, (), []) (t, (), h) \<and>
     an_payload (fst (fst (run_state (Handle (logged sample_auth) (V4 1) t data_packet) ((), h)))) = Some [42] \<and>
     tu_requested t = [''pc''] \<and> (''tok'', Some ''10.0.0.5:3389'') \<in> set h"
proof -
  have hs: "ParseHandshakeRequest [1, 0, 0, 0, 2, 0] = Inr \<lparr>hs_major = 1, hs_minor = 0, hs_version = 0, hs_auth = 2\<rparr>"
    by (simp add: ParseHandshakeRequest_def)
  have "\<exists>as t h. run_state (drive (logged sample_auth) (V4 1) NewTunnel sample_packets) ((), []) = ((as, t), ((), h)) \<and>
      tu_state t = StReady \<and> tu_requested t = [''pc''] \<and> tu_cookie t = ''tok'' \<and> tu_backend t = ''10.0.0.5:3389''"
    unfolding sample_packets_def
    by (simp add: Handle_def NewTunnel_def pkt_type_defs handler_defs hs sample_parses sample_cookie_kept sample_auth_def
        answer_defs AuthPAA_def run_logged)
  then obtain as t h where r: "run_state (drive (logged sample_auth) (V4 1) NewTunnel sample_packets) ((), []) = ((as, t), ((), h))"
      "tu_state t = StReady" "tu_requested t = [''pc'']" "tu_cookie t = ''tok''" "tu_backend t = ''10.0.0.5:3389''"
    by blast
  have reach: "(tunnel_step sample_auth (V4 1))\<^sup>*\<^sup>* (NewTunnel, (), []) (t, (), h)"
    by (rule drive_logged_reaches [OF r(1)])
  have hd: "run_state (Handle (logged sample_auth) (V4 1) t data_packet) ((), h) =
      ((\<lparr>an_reply = None, an_payload = Some [42], an_error = None\<rparr>, t), ((), h))"
    by (simp add: Handle_def r(2) data_packet_def pkt_type_defs on_ready_def ParseData_def)
  from rdgw_no_open_proxy [OF reach hd] r reach hd show ?thesis
    by (intro exI [of _ t] exI [of _ h]) (simp add: Ready_def)
qed

end
