(* ===== verification/Tpkt.thy ===== *)
theory Tpkt
  imports Rdp_Types Utf16 "HOL-Library.State_Monad"
begin

text \<open>
  \<open>proxy/rdp/tpkt.go\<close>: framing, the X.224 negotiation and the cursor every parser of the package
  reads with.  The cursor of the code never panics on short input - it remembers the first error
  and hands out zeros from then on; the one way it could panic, asking for a negative number of
  bytes after an error, is recorded in \<open>cu_crash\<close> so that its absence can be proved.
\<close>

datatype rdp_error =
    ErrProtocol
  | ErrPduTooLarge
  | ReadFailed
  | WriteFailed
  | ClientDisconnected
  | NoTLSOffered
  | TLSFailed
  | LoginRefused
  | NoRedirection

definition MaxPDU :: nat where "MaxPDU = 16384"

section \<open>Frames\<close>

definition readTPKT :: "bytes \<Rightarrow> rdp_error + bytes \<times> bytes" where
  "readTPKT r =
     (if length r < 4 then Inl ReadFailed
      else if r ! 0 \<noteq> 3 then Inl ErrProtocol
      else let total = unat (get_be16 (drop 2 r)) in
        if total < 4 then Inl ErrProtocol
        else if MaxPDU < total then Inl ErrPduTooLarge
        else if length r < total then Inl ReadFailed
        else Inr (drop 4 (take total r), drop total r))"

definition tpkt_frame :: "bytes \<Rightarrow> rdp_error + bytes" where
  "tpkt_frame payload =
     (let total = length payload + 4 in
      if 0xFFFF < total then Inl ErrPduTooLarge else Inr ([3, 0] @ be16 (word_of_nat total) @ payload))"

section \<open>Negotiation\<close>

definition ProtocolSSL :: "32 word" where "ProtocolSSL = 1"
definition failSSLRequiredByServer :: "32 word" where "failSSLRequiredByServer = 1"

record neg_request =
  ng_present :: bool
  ng_flags :: byte
  ng_protocols :: "32 word"

text \<open>What follows the first line end, or everything when there is none.\<close>

fun after_line :: "bytes \<Rightarrow> bytes option" where
  "after_line (a # b # bs) = (if a = 0x0D \<and> b = 0x0A then Some bs else after_line (b # bs))"
| "after_line _ = None"

definition parseNegRequest :: "bytes \<Rightarrow> neg_request" where
  "parseNegRequest variable =
     (let v = (case after_line variable of None \<Rightarrow> variable | Some rest \<Rightarrow> rest) in
      if length v < 8 \<or> v ! 0 \<noteq> 1 then \<lparr>ng_present = False, ng_flags = 0, ng_protocols = 0\<rparr>
      else \<lparr>ng_present = True, ng_flags = v ! 1, ng_protocols = get_le32 (drop 4 v)\<rparr>)"

definition connection_confirm :: "32 word \<Rightarrow> bytes" where
  "connection_confirm selected = [0x0E, 0xD0, 0, 0, 0, 0, 0, 0x02, 0, 0x08, 0] @ le32 selected"

definition negotiation_failure :: "32 word \<Rightarrow> bytes" where
  "negotiation_failure code = [0x0E, 0xD0, 0, 0, 0, 0, 0, 0x03, 0, 0x08, 0] @ le32 code"

definition crVariablePart :: "bytes \<Rightarrow> bytes" where
  "crVariablePart raw = (if length raw \<le> 11 then [] else drop 11 raw)"

section \<open>The cursor\<close>

record cursor =
  cu_b :: bytes
  cu_pos :: int
  cu_err :: bool
  cu_crash :: bool

type_synonym 'a reading = "(cursor, 'a) state"

definition cursor_at :: "int \<Rightarrow> bytes \<Rightarrow> cursor" where
  "cursor_at p b = \<lparr>cu_b = b, cu_pos = p, cu_err = False, cu_crash = False\<rparr>"

definition remaining :: "cursor \<Rightarrow> int" where
  "remaining c = int (length (cu_b c)) - cu_pos c"

definition fail_c :: "unit reading" where
  "fail_c = State (\<lambda>c. ((), c\<lparr>cu_err := True\<rparr>))"

definition err_c :: "bool reading" where
  "err_c = State (\<lambda>c. (cu_err c, c))"

definition remaining_c :: "int reading" where
  "remaining_c = State (\<lambda>c. (remaining c, c))"

definition take_c :: "int \<Rightarrow> bytes reading" where
  "take_c n = State (\<lambda>c.
     if cu_err c then (replicate (nat n) 0, c\<lparr>cu_crash := cu_crash c \<or> n < 0\<rparr>)
     else if n < 0 \<or> remaining c < n then (replicate (nat n) 0, c\<lparr>cu_err := True\<rparr>)
     else (take (nat n) (drop (nat (cu_pos c)) (cu_b c)), c\<lparr>cu_pos := cu_pos c + n\<rparr>))"

definition u8_c :: "byte reading" where
  "u8_c = do { b \<leftarrow> take_c 1; State_Monad.return (b ! 0) }"

definition u16le_c :: "16 word reading" where
  "u16le_c = do { b \<leftarrow> take_c 2; State_Monad.return (get_le16 b) }"

definition u32le_c :: "32 word reading" where
  "u32le_c = do { b \<leftarrow> take_c 4; State_Monad.return (get_le32 b) }"

text \<open>Two single bytes, the high one first.\<close>

definition u16be_c :: "16 word reading" where
  "u16be_c = do { hi \<leftarrow> u8_c; lo \<leftarrow> u8_c; State_Monad.return (push_bit 8 (ucast hi) OR ucast lo) }"

definition skip_c :: "int \<Rightarrow> unit reading" where
  "skip_c n = do { _ \<leftarrow> take_c n; State_Monad.return () }"

text \<open>Finishing a parse: the value, unless the cursor met an error.\<close>

definition finish_c :: "'a \<Rightarrow> cursor \<Rightarrow> rdp_error + 'a" where
  "finish_c x c = (if cu_err c then Inl ErrProtocol else Inr x)"

section \<open>The cursor stays in bounds\<close>

definition cursor_ok :: "cursor \<Rightarrow> bool" where
  "cursor_ok c \<longleftrightarrow> \<not> cu_crash c \<and> 0 \<le> cu_pos c \<and> (cu_err c \<or> cu_pos c \<le> int (length (cu_b c)))"

text \<open>\<open>safe m\<close>: from a cursor in bounds \<open>m\<close> reaches one in bounds on the same bytes.\<close>

definition safe :: "'a reading \<Rightarrow> bool" where
  "safe m \<longleftrightarrow> (\<forall>c. cursor_ok c \<longrightarrow> cursor_ok (snd (run_state m c)) \<and> cu_b (snd (run_state m c)) = cu_b c)"

named_theorems safe_intros \<open>a reading step keeps the cursor in bounds\<close>

lemma safe_return [safe_intros]: "safe (State_Monad.return x)"
  by (simp add: safe_def)

lemma safe_bind [safe_intros]: "safe m \<Longrightarrow> (\<And>x. safe (f x)) \<Longrightarrow> safe (State_Monad.bind m f)"
  by (auto simp: safe_def split: prod.split)

lemma safe_if [safe_intros]: "(b \<Longrightarrow> safe m) \<Longrightarrow> (\<not> b \<Longrightarrow> safe n) \<Longrightarrow> safe (if b then m else n)"
  by simp

lemma safe_take [safe_intros]: "0 \<le> n \<Longrightarrow> safe (take_c n)"
  by (auto simp: safe_def take_c_def cursor_ok_def remaining_def)

lemma safe_fail [safe_intros]: "safe fail_c"
  by (auto simp: safe_def fail_c_def cursor_ok_def)

lemma safe_peeks [safe_intros]: "safe err_c" "safe remaining_c"
  by (simp_all add: safe_def err_c_def remaining_c_def)

lemma safe_fields [safe_intros]: "safe u8_c" "safe u16le_c" "safe u32le_c" "safe u16be_c" "0 \<le> n \<Longrightarrow> safe (skip_c n)"
  by (auto simp: u8_c_def u16le_c_def u32le_c_def u16be_c_def skip_c_def intro!: safe_intros)

lemma safe_start: "safe m \<Longrightarrow> 0 \<le> p \<Longrightarrow> p \<le> int (length b) \<Longrightarrow> cursor_ok (snd (run_state m (cursor_at p b)))"
proof -
  assume "safe m" "0 \<le> p" "p \<le> int (length b)"
  moreover from this have "cursor_ok (cursor_at p b)" by (simp add: cursor_at_def cursor_ok_def)
  ultimately show ?thesis by (simp add: safe_def)
qed

section \<open>Reading what is there\<close>

text \<open>A cursor in front of \<open>bs\<close>, having read \<open>pre\<close>.\<close>

definition facing :: "bytes \<Rightarrow> bytes \<Rightarrow> cursor" where
  "facing pre bs = \<lparr>cu_b = pre @ bs, cu_pos = int (length pre), cu_err = False, cu_crash = False\<rparr>"

lemma facing_start: "cursor_at 0 b = facing [] b" "length a = n \<Longrightarrow> cursor_at (int n) (a @ b) = facing a b"
  by (simp_all add: facing_def cursor_at_def)

lemma facing_fields [simp]: "cu_err (facing pre bs) = False" "cu_crash (facing pre bs) = False"
    "remaining (facing pre bs) = int (length bs)"
  by (simp_all add: facing_def remaining_def)

named_theorems read_simps \<open>reading a field in front of the cursor\<close>

lemma run_take [read_simps]:
  "length a = n \<Longrightarrow> run_state (take_c (int n)) (facing pre (a @ bs)) = (a, facing (pre @ a) bs)"
  by (auto simp: take_c_def facing_def remaining_def)

lemma run_take_append:
  "int (length a) = n \<Longrightarrow> run_state (take_c n) (facing pre (a @ bs)) = (a, facing (pre @ a) bs)"
  using run_take [of a "length a"] by simp

lemma run_u8 [read_simps]: "run_state u8_c (facing pre (b # bs)) = (b, facing (pre @ [b]) bs)"
  using run_take_append [of "[b]" 1 pre bs] by (simp add: u8_c_def)

lemma run_u16le [read_simps]: "run_state u16le_c (facing pre (le16 v @ bs)) = (v, facing (pre @ le16 v) bs)"
  using run_take_append [of "le16 v" 2 pre bs] by (simp add: u16le_c_def wire_simps)

lemma run_u32le [read_simps]: "run_state u32le_c (facing pre (le32 v @ bs)) = (v, facing (pre @ le32 v) bs)"
  using run_take_append [of "le32 v" 4 pre bs] by (simp add: u32le_c_def wire_simps)

lemma run_u16be [read_simps]: "run_state u16be_c (facing pre (be16 v @ bs)) = (v, facing (pre @ be16 v) bs)"
proof -
  have "push_bit 8 (ucast (ucast (drop_bit 8 v) :: byte)) OR ucast (ucast v :: byte) = v"
    using be16_dec [of v "[]"] by (simp add: be16_def or.commute)
  then show ?thesis by (simp add: u16be_c_def be16_def run_u8)
qed

lemma run_skip [read_simps]:
  "int (length a) = n \<Longrightarrow> run_state (skip_c n) (facing pre (a @ bs)) = ((), facing (pre @ a) bs)"
  by (simp add: skip_c_def run_take_append)

lemma run_peeks [read_simps]: "run_state err_c c = (cu_err c, c)" "run_state remaining_c c = (remaining c, c)"
  by (simp_all add: err_c_def remaining_c_def)

section \<open>Frames read back\<close>

lemma readTPKT_frame:
  "length payload + 4 \<le> MaxPDU \<Longrightarrow> tpkt_frame payload = Inr f \<Longrightarrow> readTPKT (f @ rest) = Inr (payload, rest)"
proof -
  assume l: "length payload + 4 \<le> MaxPDU" and f: "tpkt_frame payload = Inr f"
  let ?t = "length payload + 4"
  have u: "unat (word_of_nat ?t :: 16 word) = ?t" using l by (intro unat_word_16) (simp add: MaxPDU_def)
  have f': "f = [3, 0] @ be16 (word_of_nat ?t) @ payload"
    using f l by (simp add: tpkt_frame_def Let_def MaxPDU_def)
  have "length f = ?t" by (simp add: f' wire_simps)
  moreover have "get_be16 (drop 2 (f @ rest)) = word_of_nat ?t"
  proof -
    have "drop 2 (f @ rest) = be16 (word_of_nat ?t) @ payload @ rest" by (simp add: f')
    then show ?thesis by (simp only: wire_simps)
  qed
  moreover have "drop 4 f = payload"
  proof -
    define hdr where "hdr = [3, 0] @ be16 (word_of_nat ?t)"
    have "f = hdr @ payload" "length hdr = 4" by (simp_all add: f' hdr_def wire_simps)
    then show ?thesis by simp
  qed
  moreover have "(f @ rest) ! 0 = 3" by (simp add: f')
  ultimately show ?thesis using l u by (simp add: readTPKT_def Let_def MaxPDU_def)
qed

end
