(* ===== verification/Ber_Per.thy ===== *)
theory Ber_Per
  imports Tpkt
begin

text \<open>
  \<open>proxy/rdp/ber.go\<close> and \<open>per.go\<close>: the two encodings of the connection sequence, as far as the
  code writes and reads them.
\<close>

section \<open>BER, writing\<close>

definition ber_length :: "nat \<Rightarrow> bytes" where
  "ber_length n =
     (if n < 0x80 then [word_of_nat n]
      else if n \<le> 0xFF then [0x81, word_of_nat n]
      else [0x82, word_of_nat (n div 256), word_of_nat n])"

definition ber_tagged :: "byte \<Rightarrow> bytes \<Rightarrow> bytes" where
  "ber_tagged tag body = tag # ber_length (length body) @ body"

definition ber_application :: "16 word \<Rightarrow> bytes \<Rightarrow> bytes" where
  "ber_application tag body = be16 tag @ ber_length (length body) @ body"

definition ber_boolean :: "bool \<Rightarrow> bytes" where
  "ber_boolean v = ber_tagged 0x01 [if v then 0xFF else 0]"

definition ber_integer :: "32 word \<Rightarrow> bytes" where
  "ber_integer v = ber_tagged 0x02
     (if v < 0x80 then [ucast v]
      else if v < 0x8000 then [ucast (drop_bit 8 v), ucast v]
      else if v < 0x800000 then [ucast (drop_bit 16 v), ucast (drop_bit 8 v), ucast v]
      else [ucast (drop_bit 24 v), ucast (drop_bit 16 v), ucast (drop_bit 8 v), ucast v])"

definition ber_enumerated :: "byte \<Rightarrow> bytes" where
  "ber_enumerated v = ber_tagged 0x0A [v]"

definition ber_octetString :: "bytes \<Rightarrow> bytes" where
  "ber_octetString b = ber_tagged 0x04 b"

section \<open>BER, reading\<close>

definition bytes_value :: "bytes \<Rightarrow> int" where
  "bytes_value bs = foldl (\<lambda>out b. out * 256 + int (unat b)) 0 bs"

definition readLength :: "int reading" where
  "readLength = do {
     b \<leftarrow> u8_c;
     if b < 0x80 then State_Monad.return (int (unat b))
     else let n = int (unat (b AND 0x7F)) in
       if n = 0 \<or> n > 3 then do { fail_c; State_Monad.return 0 }
       else do { bs \<leftarrow> take_c n; State_Monad.return (bytes_value bs) }
   }"

definition expectTag :: "byte \<Rightarrow> int reading" where
  "expectTag tag = do {
     got \<leftarrow> u8_c;
     if got \<noteq> tag then do { fail_c; State_Monad.return 0 } else readLength
   }"

definition expectApplication :: "16 word \<Rightarrow> int reading" where
  "expectApplication tag = do {
     got \<leftarrow> u16be_c;
     if got \<noteq> tag then do { fail_c; State_Monad.return 0 } else readLength
   }"

definition skipValue :: "unit reading" where
  "skipValue = do {
     tag \<leftarrow> u8_c;
     _ \<leftarrow> (if tag AND 0x1F = 0x1F then do { _ \<leftarrow> u8_c; State_Monad.return () } else State_Monad.return ());
     n \<leftarrow> readLength;
     skip_c n
   }"

definition read_octetString :: "bytes reading" where
  "read_octetString = do { n \<leftarrow> expectTag 0x04; take_c n }"

section \<open>PER\<close>

definition t124OID :: bytes where
  "t124OID = [0x05, 0x00, 0x14, 0x7C, 0x00, 0x01]"

definition h221ClientToServer :: bytes where
  "h221ClientToServer = bytes_of ''Duca''"

definition h221ServerToClient :: bytes where
  "h221ServerToClient = bytes_of ''McDn''"

definition per_length :: "nat \<Rightarrow> bytes" where
  "per_length n = (if n > 0x7F then be16 (word_of_nat n OR 0x8000) else [word_of_nat n])"

definition per_integer16 :: "16 word \<Rightarrow> 16 word \<Rightarrow> bytes" where
  "per_integer16 v mn = be16 (v - mn)"

definition per_integer :: "32 word \<Rightarrow> bytes" where
  "per_integer v =
     (if v \<le> 0xFF then per_length 1 @ [ucast v]
      else if v \<le> 0xFFFF then per_length 2 @ be16 (ucast v)
      else per_length 4 @ be32 v)"

text \<open>Two digits per byte; \<open>s[i] - 0x30\<close> is byte arithmetic.\<close>

fun per_digits :: "bytes \<Rightarrow> bytes" where
  "per_digits [] = []"
| "per_digits [a] = [push_bit 4 ((a - 0x30) mod 10)]"
| "per_digits (a # b # bs) = (push_bit 4 ((a - 0x30) mod 10) OR ((b - 0x30) mod 10)) # per_digits bs"

definition per_above :: "nat \<Rightarrow> nat \<Rightarrow> nat" where
  "per_above n mn = (if n \<ge> mn then n - mn else mn)"

definition per_numericString :: "string \<Rightarrow> nat \<Rightarrow> bytes" where
  "per_numericString s mn = per_length (per_above (length s) mn) @ per_digits (bytes_of s)"

definition per_octetString :: "bytes \<Rightarrow> nat \<Rightarrow> bytes" where
  "per_octetString b mn = per_length (per_above (length b) mn) @ b"

definition read_per_length :: "int reading" where
  "read_per_length = do {
     b \<leftarrow> u8_c;
     if b AND 0x80 \<noteq> 0 then do {
       second \<leftarrow> u8_c;
       State_Monad.return (int (unat (b AND 0x7F)) * 256 + int (unat second))
     }
     else State_Monad.return (int (unat b))
   }"

fun find_sub :: "bytes \<Rightarrow> bytes \<Rightarrow> nat option" where
  "find_sub [] needle = None"
| "find_sub (b # bs) needle =
     (if take (length needle) (b # bs) = needle then Some 0 else map_option Suc (find_sub bs needle))"

definition indexOf :: "bytes \<Rightarrow> bytes \<Rightarrow> nat option" where
  "indexOf haystack needle = (if needle = [] \<or> length haystack < length needle then None else find_sub haystack needle)"

definition findUserData :: "bytes \<Rightarrow> rdp_error + bytes" where
  "findUserData body =
     (case indexOf body h221ClientToServer of
        None \<Rightarrow> Inl ErrProtocol
      | Some idx \<Rightarrow>
          (case run_state read_per_length (cursor_at (int (idx + 4)) body) of (n, c) \<Rightarrow>
             if cu_err c then Inl ErrProtocol
             else if n \<le> 0 \<or> remaining c < n then Inl ErrProtocol
             else case run_state (take_c n) c of (bs, c1) \<Rightarrow> finish_c bs c1))"

section \<open>Every reader keeps the cursor in bounds\<close>

lemma bytes_value_nonneg: "0 \<le> bytes_value bs"
  by (induction bs rule: rev_induct) (simp_all add: bytes_value_def)

text \<open>A length that was read is never negative, so it can be asked for.\<close>

definition gives_length :: "int reading \<Rightarrow> bool" where
  "gives_length m \<longleftrightarrow> safe m \<and> (\<forall>c. 0 \<le> fst (run_state m c))"

lemma safe_sized: "gives_length m \<Longrightarrow> (\<And>n. 0 \<le> n \<Longrightarrow> safe (f n)) \<Longrightarrow> safe (State_Monad.bind m f)"
  by (auto simp: gives_length_def safe_def split: prod.split) (metis fst_conv snd_conv)+

lemma readLength_sized: "gives_length readLength"
  unfolding gives_length_def
  by (auto simp: readLength_def Let_def bytes_value_nonneg intro!: safe_intros split: prod.split)

lemma expectTag_sized: "gives_length (expectTag tag)"
  using readLength_sized unfolding gives_length_def
  by (auto simp: expectTag_def intro!: safe_intros split: prod.split)

lemma expectApplication_sized: "gives_length (expectApplication tag)"
  using readLength_sized unfolding gives_length_def
  by (auto simp: expectApplication_def intro!: safe_intros split: prod.split)

lemma per_length_sized: "gives_length read_per_length"
  unfolding gives_length_def by (auto simp: read_per_length_def intro!: safe_intros split: prod.split)

lemma safe_readers [safe_intros]:
  "safe readLength" "safe (expectTag tag)" "safe (expectApplication a)" "safe read_per_length"
  using readLength_sized expectTag_sized expectApplication_sized per_length_sized by (auto simp: gives_length_def)

lemma safe_values [safe_intros]: "safe skipValue" "safe read_octetString"
  unfolding skipValue_def read_octetString_def
  by (intro safe_bind safe_intros safe_if safe_sized [OF readLength_sized] safe_sized [OF expectTag_sized]; assumption?)+

section \<open>Lengths read back\<close>

lemma uint_word_8: "n < 256 \<Longrightarrow> uint (word_of_nat n :: byte) = int n"
  using unat_word_8 [of n] by (metis int_eq_iff uint_nat)

lemma uint_word_16: "n < 65536 \<Longrightarrow> uint (word_of_nat n :: 16 word) = int n"
  using unat_word_16 [of n] by (metis int_eq_iff uint_nat)

lemma byte_top_clear: "n < 128 \<Longrightarrow> (word_of_nat n :: byte) AND 0x80 = 0"
proof -
  assume "n < 128"
  have "\<forall>n \<in> set [0..<128]. (word_of_nat n :: byte) AND 0x80 = 0" by code_simp
  with \<open>n < 128\<close> show ?thesis by simp
qed

lemma word_high_byte: "n < 65536 \<Longrightarrow> unat (ucast (drop_bit 8 (word_of_nat n :: 16 word)) :: byte) = n div 256"
  by (simp only: unsigned_ucast_eq unat_drop_bit_eq unat_word_16) (simp add: take_bit_eq_mod drop_bit_eq_div less_mult_imp_div_less)

lemma word_low_byte: "n < 65536 \<Longrightarrow> unat (ucast (word_of_nat n :: 16 word) :: byte) = n mod 256"
  by (simp add: unsigned_ucast_eq take_bit_eq_mod unat_word_16)

lemma flagged_high_byte: "n < 32768 \<Longrightarrow>
     (ucast (drop_bit 8 (word_of_nat n OR 0x8000 :: 16 word)) :: byte) AND 0x7F = ucast (drop_bit 8 (word_of_nat n :: 16 word))"
proof (rule bit_word_eqI)
  fix i assume n: "n < 32768" and i: "i < LENGTH(8)"
  have "\<not> bit (word_of_nat n :: 16 word) 15"
  proof -
    have "bit (word_of_nat n :: 16 word) 15 = bit (unat (word_of_nat n :: 16 word)) 15"
      by (simp only: bit_unsigned_iff) simp
    then show ?thesis using n by (simp add: unat_word_16 bit_iff_odd)
  qed
  moreover have "\<forall>i \<in> set [0..<8]. bit (0x7F :: byte) i \<longleftrightarrow> i < 7" by code_simp
  then have "bit (0x7F :: byte) i \<longleftrightarrow> i < 7" using i by auto
  moreover have "\<forall>i \<in> set [0..<8]. (bit (0x80 :: nat) i \<longleftrightarrow> i = 7) \<and> (bit (0x80 :: int) i \<longleftrightarrow> i = 7) \<and>
      (bit (0x80 :: 16 word) i \<longleftrightarrow> i = 7) \<and> (bit (0x80 :: byte) i \<longleftrightarrow> i = 7)" by code_simp
  then have "bit (0x80 :: 16 word) i \<longleftrightarrow> i = 7" "bit (0x80 :: nat) i \<longleftrightarrow> i = 7" "bit (0x80 :: byte) i \<longleftrightarrow> i = 7"
    "bit (0x80 :: int) i \<longleftrightarrow> i = 7" using i by auto
  ultimately show "bit ((ucast (drop_bit 8 (word_of_nat n OR 0x8000 :: 16 word)) :: byte) AND 0x7F) i =
      bit (ucast (drop_bit 8 (word_of_nat n :: 16 word)) :: byte) i"
    using i by (cases "i = 7") (auto simp: bit_simps)
qed

lemma unat_numeral_small: "n < 128 \<Longrightarrow> (word_of_nat n :: byte) < 0x80"
  by (simp add: word_less_nat_alt unat_word_8)

lemma read_ber_length [read_simps]:
  assumes "n < 65536"
  shows "run_state readLength (facing pre (ber_length n @ bs)) = (int n, facing (pre @ ber_length n) bs)"
proof -
  consider "n < 128" | "128 \<le> n" "n \<le> 255" | "255 < n" by linarith
  then show ?thesis
  proof cases
    case 1
    then show ?thesis
      by (simp add: ber_length_def readLength_def read_simps unat_numeral_small unat_word_8)
  next
    case 2
    have "run_state (take_c 1) (facing (pre @ [0x81]) ([word_of_nat n] @ bs)) =
        ([word_of_nat n], facing ((pre @ [0x81]) @ [word_of_nat n]) bs)"
      by (rule run_take_append) simp
    with 2 show ?thesis
      by (simp add: ber_length_def readLength_def read_simps Let_def bytes_value_def uint_word_8)
  next
    case 3
    have "n div 256 < 256" using assms by (simp add: less_mult_imp_div_less)
    then have "uint (word_of_nat (n div 256) :: byte) = int (n div 256)" by (rule uint_word_8)
    moreover have "uint (word_of_nat n :: byte) = int (n mod 256)"
      by (simp only: uint_nat unat_of_nat) (simp add: take_bit_eq_mod)
    moreover have "int (n div 256) * 256 + int (n mod 256) = int n" by (simp add: zdiv_int zmod_int)
    moreover have "run_state (take_c 2) (facing (pre @ [0x82]) ([word_of_nat (n div 256), word_of_nat n] @ bs)) =
        ([word_of_nat (n div 256), word_of_nat n], facing ((pre @ [0x82]) @ [word_of_nat (n div 256), word_of_nat n]) bs)"
      by (rule run_take_append) simp
    ultimately show ?thesis using 3
      by (simp add: ber_length_def readLength_def read_simps Let_def bytes_value_def unat_word_8)
  qed
qed

lemma read_ber_tagged [read_simps]:
  "length body < 65536 \<Longrightarrow>
     run_state (expectTag tag) (facing pre (ber_tagged tag body @ bs)) =
       (int (length body), facing (pre @ tag # ber_length (length body)) (body @ bs))"
  using read_ber_length [of "length body" "pre @ [tag]" "body @ bs"]
  by (simp add: ber_tagged_def expectTag_def read_simps)

lemma read_octets [read_simps]:
  "length body < 65536 \<Longrightarrow>
     run_state read_octetString (facing pre (ber_octetString body @ bs)) = (body, facing (pre @ ber_octetString body) bs)"
  using read_ber_tagged [of body 4 pre bs]
    run_take_append [of body "int (length body)" "pre @ 4 # ber_length (length body)" bs]
  by (simp add: read_octetString_def ber_octetString_def ber_tagged_def)

lemma skip_ber_tagged [read_simps]:
  "length body < 65536 \<Longrightarrow> tag AND 0x1F \<noteq> 0x1F \<Longrightarrow>
     run_state skipValue (facing pre (ber_tagged tag body @ bs)) = ((), facing (pre @ ber_tagged tag body) bs)"
  using read_ber_length [of "length body" "pre @ [tag]" "body @ bs"]
    run_skip [of body "int (length body)" "pre @ tag # ber_length (length body)" bs]
  by (simp add: skipValue_def ber_tagged_def read_simps)

lemma read_per_length_back [read_simps]:
  assumes "n < 32768"
  shows "run_state read_per_length (facing pre (per_length n @ bs)) = (int n, facing (pre @ per_length n) bs)"
proof (cases "n > 0x7F")
  case False
  then have "n < 128" by simp
  then have "uint (word_of_nat n :: byte) = int n" "(word_of_nat n :: byte) AND 0x80 = 0"
    by (simp_all add: uint_word_8 byte_top_clear)
  with False show ?thesis by (simp add: per_length_def read_per_length_def read_simps)
next
  case True
  let ?w = "word_of_nat n OR 0x8000 :: 16 word"
  have top: "(ucast (drop_bit 8 ?w) :: byte) AND 0x80 \<noteq> 0"
  proof -
    have "bit (0x8000 :: 16 word) 15" "bit (0x80 :: byte) 7" by code_simp+
    then have "bit ((ucast (drop_bit 8 ?w) :: byte) AND 0x80) 7" by (simp only: bit_simps) (simp add: bit_or_iff)
    then show ?thesis by auto
  qed
  have "unat ((ucast (drop_bit 8 ?w) :: byte) AND 0x7F) = n div 256"
    using assms by (simp only: flagged_high_byte) (simp only: word_high_byte)
  moreover have "uint (ucast ?w :: byte) = int (n mod 256)"
  proof -
    have "ucast ?w = (ucast (word_of_nat n :: 16 word) :: byte)"
    proof (rule bit_word_eqI)
      fix i assume i: "i < LENGTH(8)"
      have "\<forall>i \<in> set [0..<8]. \<not> bit (0x8000 :: 16 word) i" by code_simp
      with i show "bit (ucast ?w :: byte) i = bit (ucast (word_of_nat n :: 16 word) :: byte) i"
        by (simp only: bit_simps) auto
    qed
    then show ?thesis using assms by (simp only: uint_nat) (simp only: word_low_byte)
  qed
  moreover have "int (n div 256) * 256 + int (n mod 256) = int n" by (simp add: zdiv_int zmod_int)
  ultimately show ?thesis using True top
    by (simp add: per_length_def be16_def read_per_length_def read_simps)
qed

end
