(* ===== verification/Mcs.thy ===== *)
theory Mcs
  imports Ber_Per
begin

text \<open>
  \<open>proxy/rdp/gcc.go\<close> and \<open>mcs.go\<close>: the user data blocks of the conference, and the connect and
  domain PDUs the login answers.
\<close>

section \<open>User data blocks\<close>

definition csCore :: "16 word" where "csCore = 0xC001"
definition csNet :: "16 word" where "csNet = 0xC003"
definition scCore :: "16 word" where "scCore = 0x0C01"
definition scSecurity :: "16 word" where "scSecurity = 0x0C02"
definition scNet :: "16 word" where "scNet = 0x0C03"
definition mcsServerChannel :: "16 word" where "mcsServerChannel = 1001"
definition mcsIOChannel :: "16 word" where "mcsIOChannel = 1003"
definition mcsFirstVirtualCh :: "16 word" where "mcsFirstVirtualCh = 1004"

record client_blocks =
  cb_channels :: "string list"
  cb_protocols :: "32 word"

definition trimZero :: "string \<Rightarrow> string" where
  "trimZero s = takeWhile (\<lambda>c. of_char c \<noteq> (0::nat)) s"

text \<open>The body of a block is a cursor of its own.\<close>

definition read_core :: "client_blocks \<Rightarrow> client_blocks reading" where
  "read_core out = do {
     n \<leftarrow> remaining_c;
     if 128 + 4 \<le> n then do {
       _ \<leftarrow> skip_c 128;
       m \<leftarrow> remaining_c;
       if 4 \<le> m then do { p \<leftarrow> u32le_c; State_Monad.return (out\<lparr>cb_protocols := p\<rparr>) }
       else State_Monad.return out
     }
     else State_Monad.return out
   }"

fun read_channels :: "nat \<Rightarrow> string list reading" where
  "read_channels 0 = State_Monad.return []"
| "read_channels (Suc n) = do {
     name \<leftarrow> take_c 8;
     _ \<leftarrow> skip_c 4;
     names \<leftarrow> read_channels n;
     State_Monad.return (trimZero (string_of name) # names)
   }"

definition read_net :: "client_blocks \<Rightarrow> (rdp_error + client_blocks) reading" where
  "read_net out = do {
     count \<leftarrow> u32le_c;
     bad \<leftarrow> err_c;
     if bad then State_Monad.return (Inl ErrProtocol)
     else do {
       n \<leftarrow> remaining_c;
       if 31 < unat count \<or> n < int (unat count) * 12 then State_Monad.return (Inl ErrProtocol)
       else do {
         names \<leftarrow> read_channels (unat count);
         State_Monad.return (Inr (out\<lparr>cb_channels := cb_channels out @ names\<rparr>))
       }
     }
   }"

definition read_block :: "16 word \<Rightarrow> client_blocks \<Rightarrow> (rdp_error + client_blocks) reading" where
  "read_block kind out =
     (if kind = csCore then do { out1 \<leftarrow> read_core out; State_Monad.return (Inr out1) }
      else if kind = csNet then read_net out
      else State_Monad.return (Inr out))"

definition block_header :: "(16 word \<times> 16 word) reading" where
  "block_header = do { kind \<leftarrow> u16le_c; blen \<leftarrow> u16le_c; State_Monad.return (kind, blen) }"

lemma take_advances:
  assumes "run_state (take_c n) c = (bs, c')" and "\<not> cu_err c'"
  shows "c' = c\<lparr>cu_pos := cu_pos c + n\<rparr> \<and> 0 \<le> n \<and> n \<le> remaining c \<and> \<not> cu_err c"
  using assms by (auto simp: take_c_def split: if_split_asm)

lemma take_available:
  "run_state (take_c n) c = (bs, c') \<Longrightarrow> \<not> cu_err c \<Longrightarrow> 0 \<le> n \<Longrightarrow> n \<le> remaining c \<Longrightarrow> remaining c' = remaining c - n"
  by (auto simp: take_c_def remaining_def)

lemma block_header_advances:
  assumes "run_state block_header c = (h, c')" and "\<not> cu_err c'"
  shows "remaining c' = remaining c - 4"
  using assms
  by (auto simp: block_header_def u16le_c_def remaining_def split: prod.split_asm dest!: take_advances)

text \<open>The walk over the blocks: the blocks so far, and where the cursor stands.\<close>

function parse_blocks :: "cursor \<Rightarrow> client_blocks \<Rightarrow> (rdp_error + client_blocks) \<times> cursor" where
  "parse_blocks c out =
     (if remaining c < 4 then (finish_c out c, c)
      else case run_state block_header c of ((kind, blen), c1) \<Rightarrow>
        if cu_err c1 then (Inl ErrProtocol, c1)
        else if unat blen < 4 \<or> remaining c1 < int (unat blen) - 4 then (Inl ErrProtocol, c1)
        else case run_state (take_c (int (unat blen) - 4)) c1 of (body, c2) \<Rightarrow>
          case run_state (read_block kind out) (cursor_at 0 body) of (r, cb) \<Rightarrow>
            case r of
              Inl e \<Rightarrow> (Inl e, c2)
            | Inr out1 \<Rightarrow> if cu_err cb then (Inl ErrProtocol, c2) else parse_blocks c2 out1)"
  by pat_completeness auto
termination
proof (relation "measure (\<lambda>(c, _). nat (remaining c))", goal_cases)
  case (2 c out h c1 kind blen body c2 r cb out1)
  then have h: "remaining c1 = remaining c - 4" using block_header_advances [of c h c1] by simp
  from 2 have n: "0 \<le> int (unat blen) - 4" "int (unat blen) - 4 \<le> remaining c1" by linarith+
  have "remaining c2 = remaining c1 - (int (unat blen) - 4)"
    using take_available [of "int (unat blen) - 4" c1 body c2] 2 n by simp
  with h n 2 show ?case by simp
qed simp

declare parse_blocks.simps [simp del]

definition parseClientBlocks :: "bytes \<Rightarrow> rdp_error + client_blocks" where
  "parseClientBlocks b = fst (parse_blocks (cursor_at 0 b) \<lparr>cb_channels = [], cb_protocols = 0\<rparr>)"

definition channelIDs :: "client_blocks \<Rightarrow> 16 word list" where
  "channelIDs cb = map (\<lambda>i. mcsFirstVirtualCh + word_of_nat i) [0..<length (cb_channels cb)]"

definition gcc_block :: "16 word \<Rightarrow> bytes \<Rightarrow> bytes" where
  "gcc_block t body = le16 t @ le16 (word_of_nat (length body + 4)) @ body"

definition buildServerBlocks :: "client_blocks \<Rightarrow> 32 word \<Rightarrow> bytes" where
  "buildServerBlocks cb selected =
     (let ids = channelIDs cb in
      gcc_block scCore (le32 0x00080004 @ le32 selected @ le32 0) @
      gcc_block scNet (le16 mcsIOChannel @ le16 (word_of_nat (length ids)) @ concat (map le16 ids) @
        (if odd (length ids) then [0, 0] else [])) @
      gcc_block scSecurity (le32 0 @ le32 0))"

definition buildConferenceCreateResponse :: "bytes \<Rightarrow> bytes" where
  "buildConferenceCreateResponse user_data =
     [0x14] @ t124OID @ per_length (length user_data + 14) @
     [0x14] @ per_integer16 0x79F3 1001 @ per_integer 1 @ [0] @ [1] @ [0xC0] @
     per_octetString h221ServerToClient 4 @ per_octetString user_data 0"

section \<open>Connect PDUs\<close>

definition connect_reader :: "bytes reading" where
  "connect_reader = do {
     _ \<leftarrow> expectApplication 0x7F65;
     _ \<leftarrow> skipValue;
     _ \<leftarrow> skipValue;
     _ \<leftarrow> skipValue;
     _ \<leftarrow> skipValue;
     _ \<leftarrow> skipValue;
     _ \<leftarrow> skipValue;
     read_octetString
   }"

definition parseConnectInitial :: "bytes \<Rightarrow> rdp_error + client_blocks" where
  "parseConnectInitial body =
     (case run_state connect_reader (cursor_at 0 body) of (user_data, c) \<Rightarrow>
      if cu_err c then Inl ErrProtocol
      else case findUserData user_data of
             Inl e \<Rightarrow> Inl e
           | Inr blocks \<Rightarrow> parseClientBlocks blocks)"

definition domainParameters :: bytes where
  "domainParameters = ber_integer 34 @ ber_integer 3 @ ber_integer 0 @ ber_integer 1 @
     ber_integer 0 @ ber_integer 1 @ ber_integer 65535 @ ber_integer 2"

definition buildConnectResponse :: "client_blocks \<Rightarrow> 32 word \<Rightarrow> bytes" where
  "buildConnectResponse cb selected =
     ber_application 0x7F66
       (ber_enumerated 0 @ ber_integer 0 @ ber_tagged 0x30 domainParameters @
        ber_octetString (buildConferenceCreateResponse (buildServerBlocks cb selected)))"

section \<open>Domain PDUs\<close>

definition mcsErectDomainRequest :: byte where "mcsErectDomainRequest = 0x04"
definition mcsDisconnectUltimatum :: byte where "mcsDisconnectUltimatum = 0x20"
definition mcsAttachUserRequest :: byte where "mcsAttachUserRequest = 0x28"
definition mcsAttachUserConfirm :: byte where "mcsAttachUserConfirm = 0x2C"
definition mcsChannelJoinRequest :: byte where "mcsChannelJoinRequest = 0x38"
definition mcsChannelJoinConfirm :: byte where "mcsChannelJoinConfirm = 0x3C"
definition mcsSendDataRequest :: byte where "mcsSendDataRequest = 0x64"
definition mcsSendDataIndication :: byte where "mcsSendDataIndication = 0x68"
definition mcsUserID :: "16 word" where "mcsUserID = 1002"

lemmas mcs_choice_defs =
  mcsErectDomainRequest_def mcsDisconnectUltimatum_def mcsAttachUserRequest_def mcsAttachUserConfirm_def
  mcsChannelJoinRequest_def mcsChannelJoinConfirm_def mcsSendDataRequest_def mcsSendDataIndication_def

definition domainPDUType :: "bytes \<Rightarrow> byte" where
  "domainPDUType body = (case body of [] \<Rightarrow> 0 | b # _ \<Rightarrow> b AND NOT 0x03)"

definition buildAttachUserConfirm :: "16 word \<Rightarrow> bytes" where
  "buildAttachUserConfirm userID = [mcsAttachUserConfirm OR 0x02] @ [0] @ per_integer16 userID mcsServerChannel"

definition join_reader :: "(16 word) reading" where
  "join_reader = do {
     _ \<leftarrow> skip_c 2;
     u16be_c
   }"

definition parseChannelJoinRequest :: "bytes \<Rightarrow> rdp_error + 16 word" where
  "parseChannelJoinRequest body =
     (if remaining (cursor_at 1 body) < 4 then Inl ErrProtocol
      else case run_state join_reader (cursor_at 1 body) of (ch, c) \<Rightarrow> finish_c ch c)"

definition buildChannelJoinConfirm :: "16 word \<Rightarrow> 16 word \<Rightarrow> bytes" where
  "buildChannelJoinConfirm userID channelID =
     [mcsChannelJoinConfirm OR 0x02] @ [0] @ per_integer16 userID mcsServerChannel @
     per_integer16 channelID 0 @ per_integer16 channelID 0"

definition send_data_reader :: "(16 word \<times> int) reading" where
  "send_data_reader = do {
     _ \<leftarrow> skip_c 2;
     ch \<leftarrow> u16be_c;
     _ \<leftarrow> skip_c 1;
     n \<leftarrow> read_per_length;
     State_Monad.return (ch, n)
   }"

definition parseSendDataRequest :: "bytes \<Rightarrow> rdp_error + 16 word \<times> bytes" where
  "parseSendDataRequest body =
     (case run_state send_data_reader (cursor_at 1 body) of ((ch, n), c) \<Rightarrow>
      if cu_err c then Inl ErrProtocol
      else if n < 0 \<or> remaining c < n then Inl ErrProtocol
      else case run_state (take_c n) c of (bs, c1) \<Rightarrow> finish_c (ch, bs) c1)"

definition buildSendData :: "byte \<Rightarrow> 16 word \<Rightarrow> 16 word \<Rightarrow> bytes \<Rightarrow> bytes" where
  "buildSendData choice userID channelID payload =
     [choice] @ per_integer16 userID mcsServerChannel @ be16 channelID @ [0x70] @
     per_length (length payload) @ payload"

definition buildSendDataIndication :: "16 word \<Rightarrow> 16 word \<Rightarrow> bytes \<Rightarrow> bytes" where
  "buildSendDataIndication userID channelID payload = buildSendData mcsSendDataIndication userID channelID payload"

definition buildSendDataRequest :: "16 word \<Rightarrow> 16 word \<Rightarrow> bytes \<Rightarrow> bytes" where
  "buildSendDataRequest userID channelID payload = buildSendData mcsSendDataRequest userID channelID payload"

definition buildDisconnectUltimatum :: "byte \<Rightarrow> bytes" where
  "buildDisconnectUltimatum reason = [mcsDisconnectUltimatum OR 0x01] @ [reason]"

end
