(* ===== verification/Client_Info.thy ===== *)
theory Client_Info
  imports Mcs X224
begin

text \<open>
  \<open>proxy/rdp/clientinfo.go\<close> and \<open>redirect.go\<close>: the PDU that carries the credentials, the licence
  answer, and the redirection the client is sent away with.
\<close>

section \<open>Client info\<close>

definition secExchangePkt :: "16 word" where "secExchangePkt = 0x0001"
definition secEncrypt :: "16 word" where "secEncrypt = 0x0008"
definition secInfoPkt :: "16 word" where "secInfoPkt = 0x0040"
definition secLicensePkt :: "16 word" where "secLicensePkt = 0x0080"
definition secRedirectionPkt :: "16 word" where "secRedirectionPkt = 0x0400"
definition infoUnicode :: "32 word" where "infoUnicode = 0x00000010"

lemmas sec_defs = secExchangePkt_def secEncrypt_def secInfoPkt_def secLicensePkt_def secRedirectionPkt_def

text \<open>The closure \<open>read\<close>: a string field and its terminator.\<close>

definition read_text :: "bool \<Rightarrow> int \<Rightarrow> string reading" where
  "read_text unicode cb =
     (if cb < 0 \<or> 8192 < cb then do { fail_c; State_Monad.return [] }
      else do {
        raw \<leftarrow> take_c (cb + (if unicode then 2 else 1));
        bad \<leftarrow> err_c;
        State_Monad.return (if bad then [] else if unicode then decodeUTF16 raw else trimZero (string_of raw))
      })"

definition read_header :: "(16 word) reading" where
  "read_header = do { flags \<leftarrow> u16le_c; _ \<leftarrow> skip_c 2; State_Monad.return flags }"

definition read_sizes :: "(bool \<times> int \<times> int \<times> int) reading" where
  "read_sizes = do {
     _ \<leftarrow> skip_c 4;
     infoFlags \<leftarrow> u32le_c;
     cbDomain \<leftarrow> u16le_c;
     cbUserName \<leftarrow> u16le_c;
     cbPassword \<leftarrow> u16le_c;
     cbAltShell \<leftarrow> u16le_c;
     cbWorkingDir \<leftarrow> u16le_c;
     State_Monad.return (infoFlags AND infoUnicode \<noteq> 0, int (unat cbDomain), int (unat cbUserName), int (unat cbPassword))
   }"

definition read_texts :: "bool \<Rightarrow> int \<Rightarrow> int \<Rightarrow> int \<Rightarrow> credentials reading" where
  "read_texts unicode nd nu np = do {
     domain \<leftarrow> read_text unicode nd;
     username \<leftarrow> read_text unicode nu;
     password \<leftarrow> read_text unicode np;
     State_Monad.return \<lparr>cr_domain = domain, cr_username = username, cr_password = password\<rparr>
   }"

definition parseClientInfo :: "bytes \<Rightarrow> rdp_error + credentials" where
  "parseClientInfo payload =
     (case run_state read_header (cursor_at 0 payload) of (flags, c) \<Rightarrow>
      if cu_err c then Inl ErrProtocol
      else if flags AND secInfoPkt = 0 then Inl ErrProtocol
      else if flags AND secEncrypt \<noteq> 0 then Inl ErrProtocol
      else case run_state read_sizes c of ((unicode, nd, nu, np), c1) \<Rightarrow>
        if cu_err c1 then Inl ErrProtocol
        else case run_state (read_texts unicode nd nu np) c1 of (ci, c2) \<Rightarrow>
          if cu_err c2 then Inl ErrProtocol
          else if cr_username ci = [] then Inl ErrProtocol
          else Inr ci)"

section \<open>Licence\<close>

definition buildLicenseValidClient :: bytes where
  "buildLicenseValidClient =
     le16 secLicensePkt @ le16 0 @ [0xFF, 0x03] @ le16 16 @ le32 0x00000007 @ le32 0x00000002 @ le16 0x0004 @ le16 0"

section \<open>Redirection\<close>

definition lbLoadBalanceInfo :: "32 word" where "lbLoadBalanceInfo = 0x00000002"
definition lbUsername :: "32 word" where "lbUsername = 0x00000004"
definition lbDomain :: "32 word" where "lbDomain = 0x00000008"
definition lbPassword :: "32 word" where "lbPassword = 0x00000010"
definition lbDontStoreUsername :: "32 word" where "lbDontStoreUsername = 0x00000020"

lemmas lb_defs = lbLoadBalanceInfo_def lbUsername_def lbDomain_def lbPassword_def lbDontStoreUsername_def

definition lengthPrefixed :: "bytes \<Rightarrow> bytes" where
  "lengthPrefixed b = le32 (word_of_nat (length b)) @ b"

definition redirection_flags :: "redirection \<Rightarrow> 32 word" where
  "redirection_flags r =
     (if rd_token r \<noteq> [] then lbLoadBalanceInfo else 0) OR
     (if rd_username r \<noteq> [] then lbUsername else 0) OR
     (if rd_domain r \<noteq> [] then lbDomain else 0) OR
     (if rd_password r \<noteq> [] then lbPassword OR lbDontStoreUsername else 0)"

definition redirection_fields :: "redirection \<Rightarrow> bytes" where
  "redirection_fields r =
     (if rd_token r \<noteq> [] then lengthPrefixed (routingToken (rd_token r)) else []) @
     (if rd_username r \<noteq> [] then lengthPrefixed (utf16leZ (rd_username r)) else []) @
     (if rd_domain r \<noteq> [] then lengthPrefixed (utf16leZ (rd_domain r)) else []) @
     (if rd_password r \<noteq> [] then lengthPrefixed (utf16leZ (rd_password r)) else [])"

definition buildRedirectionPacket :: "redirection \<Rightarrow> bytes" where
  "buildRedirectionPacket r =
     (let fields = redirection_fields r; total = 12 + length fields in
      le16 secRedirectionPkt @ le16 (word_of_nat total) @ le32 (rd_session r) @ le32 (redirection_flags r) @ fields)"

definition buildRedirectionPDU :: "16 word \<Rightarrow> redirection \<Rightarrow> bytes" where
  "buildRedirectionPDU userID r =
     (let packet = buildRedirectionPacket r; total = 6 + 2 + length packet + 1 in
      le16 (word_of_nat total) @ le16 (0x0010 OR 0x000A) @ le16 userID @ [0, 0] @ packet @ [0])"

end
