(* ===== verification/Rdp_Login.thy ===== *)
theory Rdp_Login
  imports Client_Info Net_Addr
begin

text \<open>
  \<open>proxy/rdp/server.go\<close>: the login that runs inside the client.  A session reads what the client
  sent over TLS (\<open>si_in\<close>, up to the end of the stream or the step timeout) and records every
  frame it wrote (\<open>si_out\<close>); \<open>si_faults\<close> says which of the coming writes fail.  The
  authenticator is an argument: a program over a state of its own.
\<close>

section \<open>The session\<close>

record session_io =
  si_in :: bytes
  si_out :: "bytes list"
  si_faults :: "bool list"
  si_user :: "16 word"
  si_channels :: "16 word list"

type_synonym 'a io = "(session_io, rdp_error + 'a) state"

definition read_pdu :: "bytes io" where
  "read_pdu = State (\<lambda>s. case readTPKT (si_in s) of
       Inl e \<Rightarrow> (Inl e, s)
     | Inr (body, rest) \<Rightarrow> (Inr body, s\<lparr>si_in := rest\<rparr>))"

definition write_pdu :: "bytes \<Rightarrow> unit io" where
  "write_pdu payload = State (\<lambda>s. case tpkt_frame payload of
       Inl e \<Rightarrow> (Inl e, s)
     | Inr f \<Rightarrow>
         if si_faults s \<noteq> [] \<and> hd (si_faults s) then (Inl WriteFailed, s\<lparr>si_faults := tl (si_faults s)\<rparr>)
         else (Inr (), s\<lparr>si_out := si_out s @ [f], si_faults := tl (si_faults s)\<rparr>))"

definition get_user :: "(session_io, 16 word) state" where
  "get_user = State (\<lambda>s. (si_user s, s))"

definition set_channels :: "16 word list \<Rightarrow> (session_io, unit) state" where
  "set_channels cs = State (\<lambda>s. ((), s\<lparr>si_channels := cs\<rparr>))"

definition writeX224Data :: "bytes \<Rightarrow> unit io" where
  "writeX224Data payload = write_pdu ([0x02, 0xF0, 0x80] @ payload)"

definition safeAt :: "bytes \<Rightarrow> nat \<Rightarrow> byte" where
  "safeAt b i = (if i < length b then b ! i else 0)"

definition readX224Data :: "bytes io" where
  "readX224Data = do {
     r \<leftarrow> read_pdu;
     State_Monad.return (case r of
         Inl e \<Rightarrow> Inl e
       | Inr body \<Rightarrow> if length body < 3 \<or> body ! 1 \<noteq> 0xF0 then Inl ErrProtocol else Inr (drop 3 body))
   }"

definition sendOnIO :: "bytes \<Rightarrow> unit io" where
  "sendOnIO payload = do {
     u \<leftarrow> get_user;
     writeX224Data (buildSendDataIndication u mcsIOChannel payload)
   }"

definition sendRedirection :: "redirection \<Rightarrow> unit io" where
  "sendRedirection r = do { u \<leftarrow> get_user; sendOnIO (buildRedirectionPDU u r) }"

definition disconnect :: "unit io" where
  "disconnect = writeX224Data (buildDisconnectUltimatum 1)"

section \<open>The connection sequence\<close>

text \<open>
  One PDU of the sequence: stop with a result, or go on.  \<open>answer_pdu\<close> writes the reply to the
  requests that have one.
\<close>

datatype 'a step = Done "rdp_error + 'a" | Again

definition answer_pdu :: "bytes \<Rightarrow> (session_io, 'a step) state" where
  "answer_pdu payload = do {
     r \<leftarrow> writeX224Data payload;
     State_Monad.return (case r of Inl e \<Rightarrow> Done (Inl e) | Inr _ \<Rightarrow> Again)
   }"

definition on_client_info :: "bytes \<Rightarrow> (session_io, credentials step) state" where
  "on_client_info bs =
     (case parseClientInfo bs of
        Inl e \<Rightarrow> State_Monad.return (Done (Inl e))
      | Inr ci \<Rightarrow> do {
          r \<leftarrow> sendOnIO buildLicenseValidClient;
          State_Monad.return (case r of Inl e \<Rightarrow> Done (Inl e) | Inr _ \<Rightarrow> Done (Inr ci))
        })"

definition on_send_data :: "bytes \<Rightarrow> (session_io, credentials step) state" where
  "on_send_data payload =
     (case parseSendDataRequest payload of
        Inl e \<Rightarrow> State_Monad.return (Done (Inl e))
      | Inr (ch, bs) \<Rightarrow>
          if ch \<noteq> mcsIOChannel \<or> length bs < 4 then State_Monad.return Again
          else let flags = ucast (bs ! 0) OR push_bit 8 (ucast (bs ! 1)) in
            if flags AND secInfoPkt \<noteq> 0 then on_client_info bs
            else if flags AND secExchangePkt \<noteq> 0 then State_Monad.return (Done (Inl ErrProtocol))
            else State_Monad.return Again)"

definition on_join :: "bytes \<Rightarrow> (session_io, credentials step) state" where
  "on_join payload =
     (case parseChannelJoinRequest payload of
        Inl e \<Rightarrow> State_Monad.return (Done (Inl e))
      | Inr ch \<Rightarrow> do { u \<leftarrow> get_user; answer_pdu (buildChannelJoinConfirm u ch) })"

definition on_pdu :: "bytes \<Rightarrow> (session_io, credentials step) state" where
  "on_pdu payload =
     (if payload = [] then State_Monad.return Again
      else let kind = domainPDUType payload in
        if kind = mcsErectDomainRequest then State_Monad.return Again
        else if kind = mcsAttachUserRequest then do { u \<leftarrow> get_user; answer_pdu (buildAttachUserConfirm u) }
        else if kind = mcsChannelJoinRequest then on_join payload
        else if kind = mcsSendDataRequest then on_send_data payload
        else if kind = mcsDisconnectUltimatum then State_Monad.return (Done (Inl ClientDisconnected))
        else State_Monad.return Again)"

fun pdu_loop :: "nat \<Rightarrow> credentials io" where
  "pdu_loop 0 = State_Monad.return (Inl ErrProtocol)"
| "pdu_loop (Suc n) = do {
     r \<leftarrow> readX224Data;
     case r of
       Inl e \<Rightarrow> State_Monad.return (Inl e)
     | Inr payload \<Rightarrow> do {
         st \<leftarrow> on_pdu payload;
         case st of Done x \<Rightarrow> State_Monad.return x | Again \<Rightarrow> pdu_loop n
       }
   }"

definition negotiate :: "32 word \<Rightarrow> credentials io" where
  "negotiate selected = do {
     r \<leftarrow> read_pdu;
     case r of
       Inl e \<Rightarrow> State_Monad.return (Inl e)
     | Inr body \<Rightarrow>
         if length body < 3 \<or> body ! 1 \<noteq> 0xF0 then State_Monad.return (Inl ErrProtocol)
         else (case parseConnectInitial (drop 3 body) of
             Inl e \<Rightarrow> State_Monad.return (Inl e)
           | Inr blocks \<Rightarrow> do {
               _ \<leftarrow> set_channels (mcsIOChannel # channelIDs blocks);
               w \<leftarrow> writeX224Data (buildConnectResponse blocks selected);
               case w of
                 Inl e \<Rightarrow> State_Monad.return (Inl e)
               | Inr _ \<Rightarrow> pdu_loop 64
             })
   }"

section \<open>The login\<close>

datatype outcome = OutcomeRedirected | OutcomeRejected | OutcomeFailed

text \<open>
  The connection as \<open>Run\<close> finds it: whether writes to the bare socket succeed, what was written
  there, whether the TLS handshake completes, and the session inside.  \<open>on_io\<close> runs a step of
  the session, \<open>on_auth\<close> one of the authenticator.
\<close>

record login_conn =
  lc_raw_ok :: bool
  lc_raw :: "bytes list"
  lc_tls_ok :: bool
  lc_io :: session_io

type_synonym 'w authenticator = "ip \<Rightarrow> credentials \<Rightarrow> ('w, rdp_error + redirection option) state"

definition on_io :: "(session_io, 'a) state \<Rightarrow> ('w \<times> login_conn, 'a) state" where
  "on_io m = State (\<lambda>(w, l). case run_state m (lc_io l) of (x, s) \<Rightarrow> (x, (w, l\<lparr>lc_io := s\<rparr>)))"

definition on_auth :: "('w, 'a) state \<Rightarrow> ('w \<times> login_conn, 'a) state" where
  "on_auth m = State (\<lambda>(w, l). case run_state m w of (x, w') \<Rightarrow> (x, (w', l)))"

definition raw_write :: "bytes \<Rightarrow> login_conn \<Rightarrow> (rdp_error + unit) \<times> login_conn" where
  "raw_write payload l = (case tpkt_frame payload of
       Inl e \<Rightarrow> (Inl e, l)
     | Inr f \<Rightarrow> if lc_raw_ok l then (Inr (), l\<lparr>lc_raw := lc_raw l @ [f]\<rparr>) else (Inl WriteFailed, l))"

definition write_raw :: "bytes \<Rightarrow> ('w \<times> login_conn, rdp_error + unit) state" where
  "write_raw payload = State (\<lambda>(w, l). case raw_write payload l of (r, l') \<Rightarrow> (r, (w, l')))"

definition tls_handshake :: "('w \<times> login_conn, bool) state" where
  "tls_handshake = State (\<lambda>(w, l). (lc_tls_ok l, (w, l)))"

text \<open>What follows once the credentials are known.\<close>

definition authenticate ::
    "'w authenticator \<Rightarrow> ip \<Rightarrow> credentials \<Rightarrow> ('w \<times> login_conn, outcome \<times> string \<times> rdp_error option) state" where
  "authenticate A src ci = do {
     r \<leftarrow> on_auth (A src ci);
     case r of
       Inl e \<Rightarrow> do { _ \<leftarrow> on_io disconnect; State_Monad.return (OutcomeRejected, cr_username ci, Some e) }
     | Inr None \<Rightarrow> do { _ \<leftarrow> on_io disconnect; State_Monad.return (OutcomeRejected, cr_username ci, Some NoRedirection) }
     | Inr (Some redir) \<Rightarrow> do {
         s \<leftarrow> on_io (sendRedirection redir);
         State_Monad.return (case s of
             Inl e \<Rightarrow> (OutcomeFailed, cr_username ci, Some e)
           | Inr _ \<Rightarrow> (OutcomeRedirected, cr_username ci, None))
       }
   }"

definition login_run ::
    "'w authenticator \<Rightarrow> connection_request \<Rightarrow> ip \<Rightarrow>
      ('w \<times> login_conn, outcome \<times> string \<times> rdp_error option) state" where
  "login_run A cr src =
     (let neg = parseNegRequest (crVariablePart (cq_raw cr)) in
      if (ng_present neg \<and> ng_protocols neg AND ProtocolSSL = 0) \<or> \<not> ng_present neg then do {
        _ \<leftarrow> write_raw (negotiation_failure failSSLRequiredByServer);
        State_Monad.return (OutcomeRejected, [], Some NoTLSOffered)
      }
      else do {
        c \<leftarrow> write_raw (connection_confirm ProtocolSSL);
        case c of
          Inl e \<Rightarrow> State_Monad.return (OutcomeFailed, [], Some e)
        | Inr _ \<Rightarrow> do {
            ok \<leftarrow> tls_handshake;
            if \<not> ok then State_Monad.return (OutcomeFailed, [], Some TLSFailed)
            else do {
              r \<leftarrow> on_io (negotiate ProtocolSSL);
              case r of
                Inl e \<Rightarrow> State_Monad.return (OutcomeFailed, [], Some e)
              | Inr ci \<Rightarrow> authenticate A src ci
            }
          }
      })"

definition login_Run ::
    "'w authenticator \<Rightarrow> connection_request \<Rightarrow> ip \<Rightarrow> ('w \<times> login_conn, string \<times> rdp_error option) state" where
  "login_Run A cr src = do {
     (result, user, e) \<leftarrow> login_run A cr src;
     State_Monad.return (case e of
         Some x \<Rightarrow> (user, Some x)
       | None \<Rightarrow> if result \<noteq> OutcomeRedirected then (user, Some LoginRefused) else (user, None))
   }"

section \<open>Running the steps\<close>

named_theorems io_simps \<open>the effect of one step of the session\<close>

lemma run_io [io_simps]:
  "run_state get_user s = (si_user s, s)"
  "run_state (set_channels cs) s = ((), s\<lparr>si_channels := cs\<rparr>)"
  by (simp_all add: get_user_def set_channels_def)

lemma run_write_pdu_ok [io_simps]:
  "length payload + 4 \<le> 0xFFFF \<Longrightarrow> si_faults s = [] \<Longrightarrow>
     run_state (write_pdu payload) s = (Inr (), s\<lparr>si_out := si_out s @ [[3, 0] @ be16 (word_of_nat (length payload + 4)) @ payload]\<rparr>)"
  by (simp add: write_pdu_def tpkt_frame_def Let_def)

lemma run_read_pdu [io_simps]:
  "run_state read_pdu s = (case readTPKT (si_in s) of
       Inl e \<Rightarrow> (Inl e, s) | Inr (body, rest) \<Rightarrow> (Inr body, s\<lparr>si_in := rest\<rparr>))"
  by (simp add: read_pdu_def)

lemma run_on [io_simps]:
  "run_state (on_io m) (w, l) = (case run_state m (lc_io l) of (x, s) \<Rightarrow> (x, (w, l\<lparr>lc_io := s\<rparr>)))"
  "run_state (on_auth n) (w, l) = (case run_state n w of (x, w') \<Rightarrow> (x, (w', l)))"
  "run_state tls_handshake (w, l) = (lc_tls_ok l, (w, l))"
  "run_state (write_raw p) (w, l) = (case raw_write p l of (r, l') \<Rightarrow> (r, (w, l')))"
  by (simp_all add: write_raw_def on_io_def on_auth_def tls_handshake_def)

end
