(* ===== verification/Rdp_Parsing.thy ===== *)
theory Rdp_Parsing
  imports Client_Info
begin

text \<open>
  The parsers of the login, seen from the wire: none of them leaves its input or panics, whatever
  an unauthenticated client sends, and what a client sends is read back.
\<close>

section \<open>In bounds\<close>

lemma safe_connect [safe_intros]: "safe connect_reader"
  unfolding connect_reader_def by (intro safe_intros)

lemma safe_join [safe_intros]: "safe join_reader"
  unfolding join_reader_def by (intro safe_intros) simp_all

lemma safe_send_data [safe_intros]: "safe send_data_reader"
  unfolding send_data_reader_def by (intro safe_intros) simp_all

lemma safe_client_info [safe_intros]: "safe read_header" "safe read_sizes" "safe (read_texts u a b c)"
proof -
  have t: "safe (read_text u n)" for n
    unfolding read_text_def by (intro safe_intros) auto
  show "safe read_header" unfolding read_header_def by (intro safe_intros) simp
  show "safe read_sizes" unfolding read_sizes_def by (intro safe_intros) simp
  show "safe (read_texts u a b c)" unfolding read_texts_def by (intro safe_intros t)
qed

lemma safe_run: "safe m \<Longrightarrow> cursor_ok c \<Longrightarrow> cursor_ok (snd (run_state m c))"
  by (simp add: safe_def)

lemma find_sub_Some: "find_sub h n = Some i \<Longrightarrow> take (length n) (drop i h) = n \<and> i < length h"
  by (induction h arbitrary: i) (auto split: if_split_asm)

lemma indexOf_Some: "indexOf h n = Some i \<Longrightarrow> i + length n \<le> length h"
proof -
  assume "indexOf h n = Some i"
  then have "take (length n) (drop i h) = n" "i < length h"
    using find_sub_Some by (auto simp: indexOf_def split: if_split_asm)
  then have "length n \<le> length h - i" by (metis length_drop length_take min.cobounded1)
  with \<open>i < length h\<close> show ?thesis by linarith
qed

lemma length_keys [simp]: "length h221ClientToServer = 4" "length h221ServerToClient = 4"
  by (simp_all add: h221ClientToServer_def h221ServerToClient_def bytes_of_def)

text \<open>
  The walk over the user data blocks checks every size before it reads: \<open>fits m c\<close> says that \<open>m\<close>, started
  at \<open>c\<close>, stays in bounds without ever asking for a byte that is not there.
\<close>

definition clean :: "cursor \<Rightarrow> bool" where
  "clean c \<longleftrightarrow> cursor_ok c \<and> \<not> cu_err c"

lemma clean_take:
  assumes "clean c" and "0 \<le> n" and "n \<le> remaining c"
  shows "\<exists>bs c'. run_state (take_c n) c = (bs, c') \<and> clean c' \<and> remaining c' = remaining c - n \<and> length bs = nat n"
  using assms by (auto simp: take_c_def clean_def cursor_ok_def remaining_def)

lemma clean_u32:
  assumes "clean c" and "4 \<le> remaining c"
  shows "\<exists>v c'. run_state u32le_c c = (v, c') \<and> clean c' \<and> remaining c' = remaining c - 4"
  using clean_take [of c 4] assms by (auto simp: u32le_c_def)

lemma clean_channels:
  "clean c \<Longrightarrow> int n * 12 \<le> remaining c \<Longrightarrow>
     \<exists>names c'. run_state (read_channels n) c = (names, c') \<and> clean c' \<and> length names = n"
proof (induction n arbitrary: c)
  case (Suc n)
  obtain b1 c1 where t: "run_state (take_c 8) c = (b1, c1)" "clean c1" "remaining c1 = remaining c - 8"
    using clean_take [of c 8] Suc.prems by auto
  obtain b2 c2 where k: "run_state (take_c 4) c1 = (b2, c2)" "clean c2" "remaining c2 = remaining c1 - 4"
    using clean_take [of c1 4] t Suc.prems by auto
  obtain names c3 where "run_state (read_channels n) c2 = (names, c3)" "clean c3" "length names = n"
    using Suc.IH [OF k(2)] Suc.prems(2) t(3) k(3) by auto
  with t k show ?case by (simp add: skip_c_def)
qed simp

lemma clean_start: "clean (cursor_at 0 body)" "remaining (cursor_at 0 body) = int (length body)"
  by (simp_all add: clean_def cursor_ok_def cursor_at_def remaining_def)

lemma read_block_fits:
  "cursor_ok (snd (run_state (read_block kind out) (cursor_at 0 body))) \<and>
   (kind = csNet \<and> length body < 4 \<or> clean (snd (run_state (read_block kind out) (cursor_at 0 body))))"
proof -
  consider "kind = csCore" | "kind = csNet" | "kind \<noteq> csCore \<and> kind \<noteq> csNet" by blast
  then show ?thesis
  proof cases
    case 1
    have "clean (snd (run_state (read_core out) (cursor_at 0 body)))"
    proof (cases "132 \<le> int (length body)")
      case True
      obtain b1 c1 where t: "run_state (take_c 128) (cursor_at 0 body) = (b1, c1)" "clean c1"
          "remaining c1 = int (length body) - 128"
        using clean_take [of "cursor_at 0 body" 128] True clean_start by auto
      moreover obtain v c2 where "run_state u32le_c c1 = (v, c2)" "clean c2"
        using clean_u32 [of c1] t True by auto
      ultimately show ?thesis using True clean_start by (simp add: read_core_def skip_c_def run_peeks)
    qed (simp add: read_core_def run_peeks clean_start)
    moreover obtain out1 c' where "run_state (read_core out) (cursor_at 0 body) = (out1, c')" by fastforce
    ultimately show ?thesis using 1 by (simp add: read_block_def clean_def)
  next
    case 2
    have k: "read_block kind out = read_net out" using 2 by (simp add: read_block_def csNet_def csCore_def)
    show ?thesis
    proof (cases "length body < 4")
      case True
      then have "run_state u32le_c (cursor_at 0 body) = (0, (cursor_at 0 body)\<lparr>cu_err := True\<rparr>)"
        by (simp add: u32le_c_def take_c_def remaining_def cursor_at_def eval_nat_numeral)
      with True 2 clean_start show ?thesis
        unfolding k by (simp add: read_net_def run_peeks clean_def cursor_ok_def cursor_at_def)
    next
      case False
      obtain v c1 where v: "run_state u32le_c (cursor_at 0 body) = (v, c1)" "clean c1"
        using clean_u32 [of "cursor_at 0 body"] clean_start False by auto
      show ?thesis
      proof (cases "31 < unat v \<or> remaining c1 < int (unat v) * 12")
        case True
        with v show ?thesis unfolding k by (auto simp: read_net_def run_peeks clean_def)
      next
        case False
        then obtain names c2 where "run_state (read_channels (unat v)) c1 = (names, c2)" "clean c2"
          using clean_channels [OF v(2), of "unat v"] by auto
        with False v show ?thesis unfolding k by (auto simp: read_net_def run_peeks clean_def)
      qed
    qed
  next
    case 3
    with clean_start(1) show ?thesis by (simp add: read_block_def clean_def)
  qed
qed

lemma clean_header:
  assumes "clean c" and "4 \<le> remaining c"
  shows "\<exists>h c'. run_state block_header c = (h, c') \<and> clean c' \<and> remaining c' = remaining c - 4"
proof -
  obtain b1 c1 where t: "run_state (take_c 2) c = (b1, c1)" "clean c1" "remaining c1 = remaining c - 2"
    using clean_take [of c 2] assms by auto
  moreover obtain b2 c2 where "run_state (take_c 2) c1 = (b2, c2)" "clean c2" "remaining c2 = remaining c1 - 2"
    using clean_take [of c1 2] t assms by auto
  ultimately show ?thesis by (simp add: block_header_def u16le_c_def)
qed

lemma parse_blocks_fits: "clean c \<Longrightarrow> clean (snd (parse_blocks c out))"
proof (induction c out rule: parse_blocks.induct)
  case (1 c out)
  show ?case
  proof (cases "remaining c < 4")
    case True
    with "1.prems" show ?thesis by (simp add: parse_blocks.simps [of c])
  next
    case False
    obtain kind blen c1 where h: "run_state block_header c = ((kind, blen), c1)" "clean c1"
      using clean_header [OF "1.prems"] False by force
    show ?thesis
    proof (cases "unat blen < 4 \<or> remaining c1 < int (unat blen) - 4")
      case True
      with False h show ?thesis by (simp add: parse_blocks.simps [of c] clean_def)
    next
      case ok: False
      then have "0 \<le> int (unat blen) - 4" "int (unat blen) - 4 \<le> remaining c1" by linarith+
      from clean_take [OF h(2) this] obtain body c2 where
        b: "run_state (take_c (int (unat blen) - 4)) c1 = (body, c2)" "clean c2" by blast
      obtain r cb where r: "run_state (read_block kind out) (cursor_at 0 body) = (r, cb)" by fastforce
      have "clean (snd (parse_blocks c2 out1))" if "r = Inr out1" "\<not> cu_err cb" for out1
        using "1.IH" [OF False h(1) [symmetric] refl _ ok b(1) [symmetric] r [symmetric] that] b(2) h(2)
        by (simp add: clean_def)
      then show ?thesis
        using False h ok b r by (auto simp: parse_blocks.simps [of c] clean_def split: sum.split)
    qed
  qed
qed


text \<open>Two hostile blocks: a channel block too short to hold its own count, which is the one case where the
  error flag goes up, and one that announces 31 channels and ends there.\<close>

definition no_blocks :: client_blocks where "no_blocks = \<lparr>cb_channels = [], cb_protocols = 0\<rparr>"


section \<open>Client info, read back\<close>

definition client_info :: "32 word \<Rightarrow> 32 word \<Rightarrow> 16 word \<Rightarrow> 16 word \<Rightarrow> credentials \<Rightarrow> bytes \<Rightarrow> bytes" where
  "client_info codepage fl alt dir ci rest =
     le16 secInfoPkt @ le16 0 @ le32 codepage @ le32 (fl OR infoUnicode) @
     le16 (word_of_nat (length (utf16le (cr_domain ci)))) @ le16 (word_of_nat (length (utf16le (cr_username ci)))) @
     le16 (word_of_nat (length (utf16le (cr_password ci)))) @ le16 alt @ le16 dir @
     utf16leZ (cr_domain ci) @ utf16leZ (cr_username ci) @ utf16leZ (cr_password ci) @ rest"

definition credentials_field :: "string \<Rightarrow> bool" where
  "credentials_field s \<longleftrightarrow> text_field s \<and> length (utf16le s) \<le> 8192"

lemma read_text_unicode [read_simps]:
  assumes "credentials_field s" and "n = int (length (utf16le s))"
  shows "run_state (read_text True n) (facing pre (utf16leZ s @ bs)) = (s, facing (pre @ utf16leZ s) bs)"
proof -
  have t: "run_state (take_c (n + 2)) (facing pre (utf16leZ s @ bs)) = (utf16leZ s, facing (pre @ utf16leZ s) bs)"
    using assms(2) by (intro run_take_append) (simp add: utf16leZ_def)
  have d: "decodeUTF16 (utf16leZ s) = s"
    using decode_utf16leZ [of s "[]"] assms(1) by (simp add: utf16leZ_def credentials_field_def)
  show ?thesis using assms t d by (simp add: read_text_def credentials_field_def read_simps)
qed

lemma unicode_flag: "(fl OR infoUnicode) AND infoUnicode \<noteq> 0"
proof -
  have "bit infoUnicode 4" unfolding infoUnicode_def by code_simp
  then have "bit ((fl OR infoUnicode) AND infoUnicode) 4" by (simp only: bit_simps) simp
  then show ?thesis by auto
qed

lemma client_info_read:
  assumes "credentials_field (cr_domain ci)" and "credentials_field (cr_username ci)"
    and "credentials_field (cr_password ci)" and "cr_username ci \<noteq> []"
  shows "parseClientInfo (client_info codepage fl alt dir ci rest) = Inr ci"
proof -
  let ?d = "utf16le (cr_domain ci)" and ?u = "utf16le (cr_username ci)" and ?p = "utf16le (cr_password ci)"
  define tail where "tail = utf16leZ (cr_domain ci) @ utf16leZ (cr_username ci) @ utf16leZ (cr_password ci) @ rest"
  define sizes where "sizes = le32 codepage @ le32 (fl OR infoUnicode) @ le16 (word_of_nat (length ?d)) @
      le16 (word_of_nat (length ?u)) @ le16 (word_of_nat (length ?p)) @ le16 alt @ le16 dir"
  define hdr where "hdr = le16 secInfoPkt @ le16 0"
  have len: "length ?d < 65536" "length ?u < 65536" "length ?p < 65536"
    using assms by (simp_all add: credentials_field_def)
  have split: "client_info codepage fl alt dir ci rest = hdr @ sizes @ tail"
    by (simp add: client_info_def hdr_def sizes_def tail_def)
  have h: "run_state read_header (cursor_at 0 (hdr @ sizes @ tail)) = (secInfoPkt, facing hdr (sizes @ tail))"
    using run_skip [of "le16 0" 2 "le16 secInfoPkt" "sizes @ tail"]
    by (simp add: read_header_def facing_start hdr_def read_simps wire_simps)
  have s: "run_state read_sizes (facing hdr (sizes @ tail)) =
      ((True, int (length ?d), int (length ?u), int (length ?p)), facing (hdr @ sizes) tail)"
    using run_skip [of "le32 codepage" 4 hdr] unicode_flag len
    by (simp add: read_sizes_def sizes_def read_simps wire_simps uint_word_16)
  have t: "run_state (read_texts True (int (length ?d)) (int (length ?u)) (int (length ?p))) (facing (hdr @ sizes) tail) =
      (ci, facing (hdr @ sizes @ utf16leZ (cr_domain ci) @ utf16leZ (cr_username ci) @ utf16leZ (cr_password ci)) rest)"
    using assms by (simp add: read_texts_def tail_def read_simps)
  have "secInfoPkt AND secInfoPkt \<noteq> 0" "secInfoPkt AND secEncrypt = 0" by (simp_all add: sec_defs)
  then show ?thesis using assms(4) by (simp add: parseClientInfo_def split h s t)
qed

section \<open>Data and join PDUs, read back\<close>

lemma length_be16 [simp]: "length (be16 v) = 2" and length_le16 [simp]: "length (le16 v) = 2"
  and length_le32 [simp]: "length (le32 w) = 4"
  by (simp_all add: wire_simps)

lemma send_data_read:
  assumes "length payload < 32768"
  shows "parseSendDataRequest (buildSendDataRequest u ch payload) = Inr (ch, payload)"
proof -
  define hdr where "hdr = be16 (u - mcsServerChannel)"
  have b: "buildSendDataRequest u ch payload =
      [mcsSendDataRequest] @ hdr @ be16 ch @ [0x70] @ per_length (length payload) @ payload @ []"
    by (simp add: buildSendDataRequest_def buildSendData_def per_integer16_def hdr_def)
  have start: "cursor_at 1 ([mcsSendDataRequest] @ x) = facing [mcsSendDataRequest] x" for x
    by (simp add: facing_def cursor_at_def)
  have r: "run_state send_data_reader (cursor_at 1 (buildSendDataRequest u ch payload)) =
      ((ch, int (length payload)),
       facing ([mcsSendDataRequest] @ hdr @ be16 ch @ [0x70] @ per_length (length payload)) (payload @ []))"
    unfolding b start
    using run_skip [of hdr 2 "[mcsSendDataRequest]"] run_skip [of "[0x70]" 1 "mcsSendDataRequest # hdr @ be16 ch"]
      read_per_length_back [OF assms, of "mcsSendDataRequest # hdr @ be16 ch @ [0x70]" payload]
    by (simp add: send_data_reader_def read_simps hdr_def)
  have t: "run_state (take_c (int (length payload))) (facing pre (payload @ [])) = (payload, facing (pre @ payload) [])" for pre
    by (rule run_take_append) simp
  show ?thesis using t by (simp add: parseSendDataRequest_def r finish_c_def)
qed

definition channel_join :: "16 word \<Rightarrow> 16 word \<Rightarrow> bytes" where
  "channel_join u ch = [mcsChannelJoinRequest] @ per_integer16 u mcsServerChannel @ be16 ch"

lemma join_read: "parseChannelJoinRequest (channel_join u ch) = Inr ch"
proof -
  define hdr where "hdr = be16 (u - mcsServerChannel)"
  have start: "cursor_at 1 (channel_join u ch) = facing [mcsChannelJoinRequest] (hdr @ be16 ch @ [])"
    by (simp add: facing_def cursor_at_def channel_join_def per_integer16_def hdr_def)
  have "run_state join_reader (cursor_at 1 (channel_join u ch)) =
      (ch, facing ([mcsChannelJoinRequest] @ hdr @ be16 ch) [])"
    unfolding start using run_skip [of hdr 2 "[mcsChannelJoinRequest]"] run_u16be [of "[mcsChannelJoinRequest] @ hdr" ch "[]"]
    by (simp add: join_reader_def read_simps hdr_def)
  then show ?thesis by (simp add: parseChannelJoinRequest_def start finish_c_def hdr_def)
qed

section \<open>Connect initial, read back\<close>

text \<open>
  What a client sends: the conference request carries the key \<open>Duca\<close> somewhere behind an
  envelope that does not contain its first letter, then the length and the user data blocks.
\<close>

definition channel_def :: "string \<times> 32 word \<Rightarrow> bytes" where
  "channel_def c = bytes_of (fst c) @ replicate (8 - length (fst c)) 0 @ le32 (snd c)"

definition channel_name :: "string \<Rightarrow> bool" where
  "channel_name s \<longleftrightarrow> length s \<le> 8 \<and> (\<forall>c \<in> set s. of_char c \<noteq> (0::nat))"

definition user_data :: "bytes \<Rightarrow> (string \<times> 32 word) list \<Rightarrow> bytes" where
  "user_data core cs = gcc_block csCore core @
     gcc_block csNet (le32 (word_of_nat (length cs)) @ concat (map channel_def cs))"

definition conference_request :: "bytes \<Rightarrow> bytes \<Rightarrow> bytes" where
  "conference_request envelope blocks = envelope @ h221ClientToServer @ per_length (length blocks) @ blocks"

definition connect_initial :: "bytes \<Rightarrow> bytes \<Rightarrow> bool \<Rightarrow> bytes \<Rightarrow> bytes \<Rightarrow> bytes \<Rightarrow> bytes \<Rightarrow> bytes" where
  "connect_initial calling called up p1 p2 p3 gcc = ber_application 0x7F65
     (ber_octetString calling @ ber_octetString called @ ber_boolean up @ ber_tagged 0x30 p1 @ ber_tagged 0x30 p2 @
      ber_tagged 0x30 p3 @ ber_octetString gcc)"

lemma string_of_append: "string_of (a @ b) = string_of a @ string_of b"
  by (simp add: string_of_def)

lemma length_channel_def: "channel_name (fst c) \<Longrightarrow> length (channel_def c) = 12"
  by (simp add: channel_def_def channel_name_def bytes_of_def)

lemma trimZero_padded:
  assumes "channel_name s"
  shows "trimZero (string_of (bytes_of s @ replicate n 0)) = s"
proof (cases n)
  case 0
  then show ?thesis using assms by (simp add: trimZero_def channel_name_def)
next
  case (Suc k)
  have "of_char (char_of (unat (0 :: byte)) :: char) = (0::nat)" by simp
  then show ?thesis using assms Suc
    by (auto simp: trimZero_def string_of_append channel_name_def string_of_def [of "_ # _"])
qed

lemma read_channels_back:
  "\<forall>c \<in> set cs. channel_name (fst c) \<Longrightarrow>
     run_state (read_channels (length cs)) (facing pre (concat (map channel_def cs) @ rest)) =
       (map fst cs, facing (pre @ concat (map channel_def cs)) rest)"
proof (induction cs arbitrary: pre)
  case (Cons c cs)
  let ?name = "bytes_of (fst c) @ replicate (8 - length (fst c)) 0"
  let ?tail = "concat (map channel_def cs) @ rest"
  have l: "channel_name (fst c)" using Cons.prems by simp
  then have e: "length ?name = 8" by (simp add: channel_name_def bytes_of_def)
  have cd: "channel_def c = ?name @ le32 (snd c)" by (simp add: channel_def_def)
  have t: "run_state (take_c 8) (facing pre (?name @ le32 (snd c) @ ?tail)) = (?name, facing (pre @ ?name) (le32 (snd c) @ ?tail))"
    by (rule run_take_append) (metis e of_nat_numeral)
  have k: "run_state (skip_c 4) (facing (pre @ ?name) (le32 (snd c) @ ?tail)) = ((), facing ((pre @ ?name) @ le32 (snd c)) ?tail)"
    by (rule run_skip) (simp add: wire_simps)
  show ?case
    using Cons.IH [of "(pre @ ?name) @ le32 (snd c)"] Cons.prems t k trimZero_padded [OF l] cd by simp
qed simp

lemma length_channel_defs: "\<forall>c \<in> set cs. channel_name (fst c) \<Longrightarrow> length (concat (map channel_def cs)) = 12 * length cs"
  by (induction cs) (simp_all add: length_channel_def)

lemma parse_gcc_block:
  assumes "length body + 4 < 65536"
  shows "parse_blocks (facing pre (gcc_block kind body @ rest)) out =
     (case run_state (read_block kind out) (cursor_at 0 body) of (r, cb) \<Rightarrow>
        (case r of Inl e \<Rightarrow> (Inl e, facing (pre @ gcc_block kind body) rest)
        | Inr out1 \<Rightarrow> if cu_err cb then (Inl ErrProtocol, facing (pre @ gcc_block kind body) rest)
            else parse_blocks (facing (pre @ gcc_block kind body) rest) out1))"
proof -
  let ?n = "word_of_nat (length body + 4) :: 16 word"
  have u: "unat ?n = length body + 4" using assms by (rule unat_word_16)
  have h: "run_state block_header (facing pre (gcc_block kind body @ rest)) = ((kind, ?n), facing (pre @ le16 kind @ le16 ?n) (body @ rest))"
    using run_u16le [of pre kind "le16 ?n @ body @ rest"] run_u16le [of "pre @ le16 kind" ?n "body @ rest"]
    by (simp add: block_header_def gcc_block_def)
  have m: "int (unat ?n) - 4 = int (length body)" using u by linarith
  have t: "run_state (take_c (int (unat ?n) - 4)) (facing (pre @ le16 kind @ le16 ?n) (body @ rest)) =
      (body, facing (pre @ gcc_block kind body) rest)"
    unfolding m using run_take_append [of body "int (length body)" "pre @ le16 kind @ le16 ?n" rest]
    by (simp add: gcc_block_def)
  have "\<not> remaining (facing pre (gcc_block kind body @ rest)) < 4" by (simp add: gcc_block_def wire_simps)
  moreover have "\<not> (unat ?n < 4 \<or> remaining (facing (pre @ le16 kind @ le16 ?n) (body @ rest)) < int (unat ?n) - 4)"
    unfolding m by (simp only: u) simp
  ultimately show ?thesis
    by (subst parse_blocks.simps) (simp only: h t if_False if_True prod.case facing_fields)
qed

lemma four_bytes: "4 \<le> length ys \<Longrightarrow> \<exists>a b c d xs. ys = a # b # c # d # xs"
  by (auto simp: Suc_le_length_iff eval_nat_numeral)

lemma read_core_back:
  assumes "132 \<le> length core"
  shows "\<exists>cb. run_state (read_block csCore out) (cursor_at 0 core) = (Inr (out\<lparr>cb_protocols := get_le32 (drop 128 core)\<rparr>), cb) \<and>
    \<not> cu_err cb"
proof -
  have "4 \<le> length (drop 128 core)" using assms by simp
  from four_bytes [OF this] obtain a b c d xs where d: "drop 128 core = a # b # c # d # xs" by blast
  show ?thesis
    using assms by (simp add: read_block_def read_core_def skip_c_def take_c_def remaining_c_def u32le_c_def cursor_at_def
        remaining_def d)
qed

lemma read_net_back:
  assumes "length cs \<le> 31" and "\<forall>c \<in> set cs. channel_name (fst c)"
  shows "\<exists>cb. run_state (read_block csNet out) (cursor_at 0 (le32 (word_of_nat (length cs)) @ concat (map channel_def cs))) =
    (Inr (out\<lparr>cb_channels := cb_channels out @ map fst cs\<rparr>), cb) \<and> \<not> cu_err cb"
proof -
  let ?n = "word_of_nat (length cs) :: 32 word"
  have u: "unat ?n = length cs" using assms(1) by (simp add: unat_word_32)
  have start: "cursor_at 0 (le32 ?n @ concat (map channel_def cs)) = facing [] (le32 ?n @ concat (map channel_def cs) @ [])"
    by (simp add: facing_def cursor_at_def)
  have r: "run_state (read_channels (unat ?n)) (facing ([] @ le32 ?n) (concat (map channel_def cs) @ [])) =
      (map fst cs, facing (([] @ le32 ?n) @ concat (map channel_def cs)) [])"
    unfolding u by (rule read_channels_back [OF assms(2)])
  show ?thesis
    unfolding start using assms(1) length_channel_defs [OF assms(2)] r u
    by (simp add: read_block_def csNet_def csCore_def read_net_def read_simps run_u32le [of "[]"])
qed

lemma user_data_read:
  assumes "132 \<le> length core" and "length core < 65000" and "length cs \<le> 31"
    and "\<forall>c \<in> set cs. channel_name (fst c)"
  shows "parseClientBlocks (user_data core cs) =
     Inr \<lparr>cb_channels = map fst cs, cb_protocols = get_le32 (drop 128 core)\<rparr>"
proof -
  let ?net = "le32 (word_of_nat (length cs)) @ concat (map channel_def cs)"
  let ?out = "\<lparr>cb_channels = [], cb_protocols = 0\<rparr>" and ?p = "get_le32 (drop 128 core)"
  have n: "length ?net + 4 < 65536" using length_channel_defs [OF assms(4)] assms(3) by simp
  have c: "length core + 4 < 65536" using assms(2) by simp
  have start: "cursor_at 0 (user_data core cs) = facing [] (gcc_block csCore core @ gcc_block csNet ?net @ [])"
    by (simp add: facing_def cursor_at_def user_data_def)
  obtain cb where core: "run_state (read_block csCore ?out) (cursor_at 0 core) = (Inr (?out\<lparr>cb_protocols := ?p\<rparr>), cb)" "\<not> cu_err cb"
    using read_core_back [OF assms(1)] by blast
  obtain cb2 where net: "run_state (read_block csNet (?out\<lparr>cb_protocols := ?p\<rparr>)) (cursor_at 0 ?net) =
      (Inr (?out\<lparr>cb_protocols := ?p, cb_channels := map fst cs\<rparr>), cb2)" "\<not> cu_err cb2"
    using read_net_back [OF assms(3,4), of "?out\<lparr>cb_protocols := ?p\<rparr>"] by auto
  have "parse_blocks (cursor_at 0 (user_data core cs)) ?out =
      parse_blocks (facing ([] @ gcc_block csCore core) (gcc_block csNet ?net @ [])) (?out\<lparr>cb_protocols := ?p\<rparr>)"
    unfolding start parse_gcc_block [OF c] using core by simp
  also have "\<dots> = parse_blocks (facing (([] @ gcc_block csCore core) @ gcc_block csNet ?net) []) (?out\<lparr>cb_protocols := ?p, cb_channels := map fst cs\<rparr>)"
    unfolding parse_gcc_block [OF n] using net by simp
  finally show ?thesis by (simp add: parseClientBlocks_def parse_blocks.simps finish_c_def)
qed

lemma find_key: "68 \<notin> set envelope \<Longrightarrow> find_sub (envelope @ h221ClientToServer @ rest) h221ClientToServer = Some (length envelope)"
proof (induction envelope)
  case Nil
  then show ?case by (simp add: h221ClientToServer_def bytes_of_def)
next
  case (Cons b bs)
  have "hd h221ClientToServer = 68" by (simp add: h221ClientToServer_def bytes_of_def byte_of_def)
  then have "take (length h221ClientToServer) ((b # bs) @ h221ClientToServer @ rest) \<noteq> h221ClientToServer"
    using Cons.prems by (metis hd_take append_Cons length_keys(1) list.sel(1) list.set_intros(1) zero_less_numeral)
  with Cons show ?case by simp
qed

lemma conference_read:
  assumes "68 \<notin> set envelope" and "0 < length blocks" and "length blocks < 32768"
  shows "findUserData (conference_request envelope blocks) = Inr blocks"
proof -
  let ?pre = "envelope @ h221ClientToServer"
  have i: "indexOf (conference_request envelope blocks) h221ClientToServer = Some (length envelope)"
    using find_key [OF assms(1)] length_keys(1) by (auto simp: indexOf_def conference_request_def simp del: length_keys)
  have c: "cursor_at (int (length envelope + 4)) (conference_request envelope blocks) =
      facing ?pre (per_length (length blocks) @ blocks @ [])"
    by (simp add: facing_def cursor_at_def conference_request_def)
  have t: "run_state (take_c (int (length blocks))) (facing pre (blocks @ [])) = (blocks, facing (pre @ blocks) [])" for pre
    by (rule run_take_append) simp
  show ?thesis
    unfolding findUserData_def i option.case c read_per_length_back [OF assms(3)] prod.case
    using assms(2) t by (simp add: finish_c_def)
qed

lemma expect_application [read_simps]:
  "length body < 65536 \<Longrightarrow>
     run_state (expectApplication tag) (facing pre (ber_application tag body @ bs)) =
       (int (length body), facing (pre @ be16 tag @ ber_length (length body)) (body @ bs))"
  using read_ber_length [of "length body" "pre @ be16 tag" "body @ bs"]
  by (simp add: ber_application_def expectApplication_def read_simps)

lemma tag_classes: "(0x04 :: byte) AND 0x1F \<noteq> 0x1F" "(0x01 :: byte) AND 0x1F \<noteq> 0x1F" "(0x30 :: byte) AND 0x1F \<noteq> 0x1F"
  by code_simp+

lemma skip_values [read_simps]:
  "length b < 65536 \<Longrightarrow> run_state skipValue (facing pre (ber_octetString b @ bs)) = ((), facing (pre @ ber_octetString b) bs)"
  "run_state skipValue (facing pre (ber_boolean up @ bs)) = ((), facing (pre @ ber_boolean up) bs)"
  "length b < 65536 \<Longrightarrow> run_state skipValue (facing pre (ber_tagged 0x30 b @ bs)) = ((), facing (pre @ ber_tagged 0x30 b) bs)"
  unfolding ber_octetString_def ber_boolean_def by (rule skip_ber_tagged; simp add: tag_classes)+

lemma connect_read:
  assumes "length calling < 65536" and "length called < 65536" and "length p1 < 65536" and "length p2 < 65536"
    and "length p3 < 65536" and "length gcc < 65536"
    and "length (connect_initial calling called up p1 p2 p3 gcc) < 65536"
  shows "\<exists>pre. run_state connect_reader (cursor_at 0 (connect_initial calling called up p1 p2 p3 gcc)) = (gcc, facing pre [])"
proof -
  let ?body = "ber_octetString calling @ ber_octetString called @ ber_boolean up @ ber_tagged 0x30 p1 @
      ber_tagged 0x30 p2 @ ber_tagged 0x30 p3 @ ber_octetString gcc"
  have "length ?body < 65536" using assms(7) by (simp add: connect_initial_def ber_application_def)
  then have a: "run_state (expectApplication 0x7F65) (facing [] (connect_initial calling called up p1 p2 p3 gcc @ [])) =
      (int (length ?body), facing (be16 0x7F65 @ ber_length (length ?body)) (?body @ []))"
    unfolding connect_initial_def by (subst expect_application) simp_all
  show ?thesis
    unfolding connect_reader_def facing_start(1)
    using a assms(1-6) read_octets [OF assms(6), of _ "[]"] by (simp add: read_simps) (rule exI, rule refl)
qed

lemma connect_initial_read:
  assumes "132 \<le> length core" and "length core < 20000" and "length cs \<le> 31" and "\<forall>c \<in> set cs. channel_name (fst c)"
    and "68 \<notin> set envelope" and "length envelope < 1000"
    and "length calling < 1000" and "length called < 1000" and "length p1 < 1000" and "length p2 < 1000" and "length p3 < 1000"
  shows "parseConnectInitial (connect_initial calling called up p1 p2 p3 (conference_request envelope (user_data core cs))) =
       Inr \<lparr>cb_channels = map fst cs, cb_protocols = get_le32 (drop 128 core)\<rparr>"
proof -
  let ?ud = "user_data core cs" and ?gcc = "conference_request envelope (user_data core cs)"
  have ud: "length ?ud \<le> length core + 400" "0 < length ?ud"
    using length_channel_defs [OF assms(4)] assms(3) by (simp_all add: user_data_def gcc_block_def)
  have gcc: "length ?gcc \<le> length core + 1500"
    using ud(1) assms(6) by (simp add: conference_request_def per_length_def)
  have len: "length (connect_initial calling called up p1 p2 p3 ?gcc) < 65536"
    using gcc assms by (simp add: connect_initial_def ber_application_def ber_octetString_def ber_boolean_def ber_tagged_def ber_length_def)
  from connect_read [OF _ _ _ _ _ _ len] obtain pre where
    "run_state connect_reader (cursor_at 0 (connect_initial calling called up p1 p2 p3 ?gcc)) = (?gcc, facing pre [])"
    using gcc assms by fastforce
  then show ?thesis
    using conference_read [OF assms(5) ud(2)] user_data_read [OF assms(1) _ assms(3,4)] ud(1) assms(2)
    by (simp add: parseConnectInitial_def)
qed

text \<open>
  The layout \<open>gcc.go\<close> itself writes down for the core block: 128 bytes of fixed fields, then the colour depth and the
  product id, 76 bytes of further optional fields, and only then the protocol the server is said to have
  selected.  What the parser takes for the protocol is the depth and the product id, whatever the client confirms.
\<close>

definition client_core :: "bytes \<Rightarrow> 16 word \<Rightarrow> 16 word \<Rightarrow> bytes \<Rightarrow> 32 word \<Rightarrow> bytes" where
  "client_core fixed depth product optional confirmed = fixed @ le16 depth @ le16 product @ optional @ le32 confirmed"

lemma confirmed_protocol_is_not_read:
  assumes "length fixed = 128" and "length optional = 76" and "length cs \<le> 31" and "\<forall>c \<in> set cs. channel_name (fst c)"
  shows "parseClientBlocks (user_data (client_core fixed depth product optional confirmed) cs) =
     Inr \<lparr>cb_channels = map fst cs, cb_protocols = get_le32 (le16 depth @ le16 product)\<rparr>"
proof -
  have "drop 128 (client_core fixed depth product optional confirmed) = (le16 depth @ le16 product) @ optional @ le32 confirmed"
    using assms(1) by (simp add: client_core_def)
  moreover have "get_le32 ((le16 depth @ le16 product) @ optional @ le32 confirmed) = get_le32 (le16 depth @ le16 product)"
    by (simp add: le16_def)
  moreover have "length (client_core fixed depth product optional confirmed) = 212"
    using assms(1,2) by (simp add: client_core_def)
  ultimately show ?thesis using user_data_read [of "client_core fixed depth product optional confirmed" cs] assms(3,4) by simp
qed

text \<open>C12. A client that follows the protocol is understood: its connect initial yields exactly the
  virtual channels it asked for and the four bytes at offset 128 of its core block, which the code takes for the confirmed
  protocol though by its own layout they are the colour depth and the product id (the value is
  used nowhere); its joins and data PDUs yield their
  channel and payload; and its client info PDU yields exactly the domain, user name and password
  it was given, up to 8 KiB each and in any script.\<close>

theorem connection_sequence_read:
  assumes "132 \<le> length core" and "length core < 20000" and "length cs \<le> 31" and "\<forall>c \<in> set cs. channel_name (fst c)"
    and "68 \<notin> set envelope" and "length envelope < 1000"
    and "length calling < 1000" and "length called < 1000" and "length p1 < 1000" and "length p2 < 1000" and "length p3 < 1000"
    and "length payload < 32768"
    and "credentials_field (cr_domain ci)" and "credentials_field (cr_username ci)"
    and "credentials_field (cr_password ci)" and "cr_username ci \<noteq> []"
  shows "parseConnectInitial (connect_initial calling called up p1 p2 p3 (conference_request envelope (user_data core cs))) =
       Inr \<lparr>cb_channels = map fst cs, cb_protocols = get_le32 (drop 128 core)\<rparr> \<and>
     parseChannelJoinRequest (channel_join u ch) = Inr ch \<and>
     parseSendDataRequest (buildSendDataRequest u ch payload) = Inr (ch, payload) \<and>
     parseClientInfo (client_info codepage fl alt dir ci rest) = Inr ci"
  by (intro conjI connect_initial_read join_read send_data_read client_info_read assms)

definition sample_login :: credentials where
  "sample_login = \<lparr>cr_domain = [], cr_username = ''al'', cr_password = ''pw,1''\<rparr>"

lemma sample_login_fields:
  "credentials_field (cr_domain sample_login)" "credentials_field (cr_username sample_login)"
  "credentials_field (cr_password sample_login)"
proof -
  have r: "runes ''al'' = [97, 108]" "runes ''pw,1'' = [112, 119, 44, 49]"
    by (simp_all add: runes_def decode_rune_def)
  show "credentials_field (cr_domain sample_login)" "credentials_field (cr_username sample_login)"
    "credentials_field (cr_password sample_login)"
    by (simp_all add: credentials_field_def text_field_def sample_login_def r length_utf16le rune_units_def valid_rune_def
        string_of_runes_def utf8_def utf8_bytes_def char_of_eq_iff)
qed

theorem connection_sequence_read_witness:
  "parseConnectInitial (connect_initial [1] [1] True [] [] [] (conference_request [0] (user_data (replicate 132 1) [(''rdpdr'', 0)]))) =
       Inr \<lparr>cb_channels = [''rdpdr''], cb_protocols = 0x01010101\<rparr> \<and>
   parseClientInfo (client_info 0 0 0 0 sample_login []) = Inr sample_login"
proof -
  have "get_le32 (drop 128 (replicate 132 (1 :: byte))) = 0x01010101" by (simp add: eval_nat_numeral)
  moreover have "channel_name ''rdpdr''" by (simp add: channel_name_def)
  moreover have "cr_username sample_login \<noteq> []" by (simp add: sample_login_def)
  ultimately show ?thesis
    using connection_sequence_read [of "replicate 132 1" "[(''rdpdr'', 0)]" "[0]" "[1]" "[1]" "[]" "[]" "[]" "[]"
        sample_login True 0 0 0 0 0 0 "[]"] sample_login_fields by simp
qed

end
