(* ===== verification/Rdp_Login_Guarantees.thy ===== *)
theory Rdp_Login_Guarantees
  imports Rdp_Login Rdp_Parsing Refusals
begin

text \<open>
  What the login inside the RDP client guarantees, whoever authenticates: credentials only over
  TLS, one question to the authenticator, one kind of refusal, a bounded conversation, and a
  redirection for every client that follows the protocol.
\<close>

section \<open>One authentication, over TLS\<close>

definition offers_tls :: "connection_request \<Rightarrow> bool" where
  "offers_tls cr \<longleftrightarrow> (let neg = parseNegRequest (crVariablePart (cq_raw cr)) in
     ng_present neg \<and> ng_protocols neg AND ProtocolSSL \<noteq> 0)"

definition is_redirect :: "rdp_error + redirection option \<Rightarrow> bool" where
  "is_redirect r \<longleftrightarrow> (case r of Inr (Some _) \<Rightarrow> True | _ \<Rightarrow> False)"

lemma write_raw_frame: "run_state (write_raw p) (w, l) = (r, w', l') \<Longrightarrow> w' = w \<and> lc_io l' = lc_io l \<and> lc_tls_ok l' = lc_tls_ok l"
  by (auto simp: write_raw_def raw_write_def split: sum.split_asm if_split_asm)

text \<open>A login either never gets to the authenticator, or asks it once about what the client sent.\<close>

lemma login_run_cases:
  assumes "run_state (login_run A cr src) (w, l) = ((res, user, e), (w', l'))"
  shows "(w' = w \<and> e \<noteq> None \<and> res \<noteq> OutcomeRedirected \<and>
       (lc_io l' = lc_io l \<or> (\<exists>x. run_state (negotiate ProtocolSSL) (lc_io l) = (Inl x, lc_io l')))) \<or>
     (\<exists>ci s1 l1. offers_tls cr \<and> lc_tls_ok l \<and> run_state (negotiate ProtocolSSL) (lc_io l) = (Inr ci, s1) \<and>
        lc_io l1 = s1 \<and> run_state (authenticate A src ci) (w, l1) = ((res, user, e), (w', l')))"
proof (cases "offers_tls cr")
  case False
  then show ?thesis
    using assms by (auto simp: login_run_def offers_tls_def Let_def dest: write_raw_frame split: prod.split_asm if_split_asm)
next
  case True
  obtain c l0 where c: "run_state (write_raw (connection_confirm ProtocolSSL)) (w, l) = (c, w, l0)"
      "lc_io l0 = lc_io l" "lc_tls_ok l0 = lc_tls_ok l"
    using write_raw_frame [of "connection_confirm ProtocolSSL" w l] by (metis prod.collapse)
  show ?thesis
  proof (cases "\<exists>u. c = Inr u \<and> lc_tls_ok l")
    case False
    then show ?thesis using assms True c
      by (cases c) (auto simp: login_run_def offers_tls_def Let_def io_simps split: if_split_asm)
  next
    case ok: True
    obtain r s1 where n: "run_state (negotiate ProtocolSSL) (lc_io l) = (r, s1)" by fastforce
    show ?thesis
    proof (cases r)
      case (Inl x)
      then show ?thesis using assms True c ok n
        by (auto simp: login_run_def offers_tls_def Let_def io_simps split: if_split_asm)
    next
      case (Inr ci)
      then have "run_state (authenticate A src ci) (w, l0\<lparr>lc_io := s1\<rparr>) = ((res, user, e), (w', l'))"
        using assms True c ok n by (auto simp: login_run_def offers_tls_def Let_def io_simps split: if_split_asm)
      with True ok n Inr show ?thesis
        by (intro disjI2 exI [of _ ci] exI [of _ s1] exI [of _ "l0\<lparr>lc_io := s1\<rparr>"]) simp
    qed
  qed
qed

lemma write_pdu_out: "run_state (write_pdu p) s = (r, s') \<Longrightarrow>
    si_in s' = si_in s \<and> si_user s' = si_user s \<and>
    (case r of Inr _ \<Rightarrow> tpkt_frame p = Inr (last (si_out s')) \<and> si_out s' = si_out s @ [last (si_out s')]
     | Inl _ \<Rightarrow> si_out s' = si_out s)"
  by (auto simp: write_pdu_def split: sum.split_asm if_split_asm)

definition x224_data :: "bytes \<Rightarrow> bytes" where
  "x224_data payload = [0x02, 0xF0, 0x80] @ payload"

definition redirection_frame :: "16 word \<Rightarrow> redirection \<Rightarrow> rdp_error + bytes" where
  "redirection_frame u r = tpkt_frame (x224_data (buildSendDataIndication u mcsIOChannel (buildRedirectionPDU u r)))"

definition ultimatum_frame :: "rdp_error + bytes" where
  "ultimatum_frame = tpkt_frame (x224_data (buildDisconnectUltimatum 1))"

definition next_write_fails :: "session_io \<Rightarrow> bool" where
  "next_write_fails s \<longleftrightarrow> si_faults s \<noteq> [] \<and> hd (si_faults s)"

lemma write_pdu_exact:
  "run_state (write_pdu p) s =
     (case tpkt_frame p of Inl e \<Rightarrow> (Inl e, s)
      | Inr f \<Rightarrow> if next_write_fails s then (Inl WriteFailed, s\<lparr>si_faults := tl (si_faults s)\<rparr>)
          else (Inr (), s\<lparr>si_out := si_out s @ [f], si_faults := tl (si_faults s)\<rparr>))"
  by (simp add: write_pdu_def next_write_fails_def split: sum.split)

lemma run_sendRedirection:
  "run_state (sendRedirection redir) s =
     run_state (write_pdu (x224_data (buildSendDataIndication (si_user s) mcsIOChannel (buildRedirectionPDU (si_user s) redir)))) s"
  by (simp add: sendRedirection_def sendOnIO_def writeX224Data_def io_simps x224_data_def)

lemma run_disconnect: "run_state disconnect s = run_state (write_pdu (x224_data (buildDisconnectUltimatum 1))) s"
  by (simp add: disconnect_def writeX224Data_def x224_data_def)

lemma ultimatum_fits: "\<exists>f. ultimatum_frame = Inr f"
  by (simp add: ultimatum_frame_def tpkt_frame_def x224_data_def buildDisconnectUltimatum_def)

text \<open>What the session writes once the authenticator has answered, and how the login ends.\<close>

definition answered :: "session_io \<Rightarrow> rdp_error + redirection option \<Rightarrow> outcome \<Rightarrow> bytes list \<Rightarrow> bool" where
  "answered s r res out \<longleftrightarrow>
     (case r of
        Inr (Some redir) \<Rightarrow>
          (case redirection_frame (si_user s) redir of
             Inr f \<Rightarrow> if next_write_fails s then res = OutcomeFailed \<and> out = [] else res = OutcomeRedirected \<and> out = [f]
           | Inl _ \<Rightarrow> res = OutcomeFailed \<and> out = [])
      | _ \<Rightarrow> res = OutcomeRejected \<and> (\<exists>f. ultimatum_frame = Inr f \<and> out = (if next_write_fails s then [] else [f])))"

lemma authenticate_cases:
  assumes "run_state (authenticate A src ci) (w, l) = ((res, user, e), (w', l'))"
  shows "\<exists>r out. run_state (A src ci) w = (r, w') \<and> user = cr_username ci \<and> (res = OutcomeRedirected \<longleftrightarrow> e = None) \<and>
     si_out (lc_io l') = si_out (lc_io l) @ out \<and> answered (lc_io l) r res out"
proof -
  obtain r w1 where r: "run_state (A src ci) w = (r, w1)" by fastforce
  show ?thesis
  proof (cases "\<exists>redir. r = Inr (Some redir)")
    case False
    obtain f where f: "ultimatum_frame = Inr f" using ultimatum_fits by blast
    then have "run_state disconnect (lc_io l) =
       (if next_write_fails (lc_io l) then (Inl WriteFailed, (lc_io l)\<lparr>si_faults := tl (si_faults (lc_io l))\<rparr>)
        else (Inr (), (lc_io l)\<lparr>si_out := si_out (lc_io l) @ [f], si_faults := tl (si_faults (lc_io l))\<rparr>))"
      by (simp add: run_disconnect write_pdu_exact ultimatum_frame_def)
    with assms r False f show ?thesis
      by (cases r) (auto simp: authenticate_def io_simps answered_def split: option.split_asm if_split_asm)
  next
    case True
    then obtain redir where redir: "r = Inr (Some redir)" by blast
    show ?thesis
    proof (cases "redirection_frame (si_user (lc_io l)) redir")
      case (Inl x)
      then have "run_state (sendRedirection redir) (lc_io l) = (Inl x, lc_io l)"
        by (simp add: run_sendRedirection write_pdu_exact redirection_frame_def)
      with assms r redir Inl show ?thesis by (auto simp: authenticate_def io_simps answered_def)
    next
      case (Inr f)
      then have "run_state (sendRedirection redir) (lc_io l) =
         (if next_write_fails (lc_io l) then (Inl WriteFailed, (lc_io l)\<lparr>si_faults := tl (si_faults (lc_io l))\<rparr>)
          else (Inr (), (lc_io l)\<lparr>si_out := si_out (lc_io l) @ [f], si_faults := tl (si_faults (lc_io l))\<rparr>))"
        by (simp add: run_sendRedirection write_pdu_exact redirection_frame_def)
      with assms r redir Inr show ?thesis
        by (auto simp: authenticate_def io_simps answered_def split: if_split_asm)
    qed
  qed
qed

text \<open>C7. Credentials are only ever taken over TLS and put to the authenticator once.  A login that did
  not get that far leaves the authenticator's state alone, ends in an error, and inside TLS has written at most what a
  failed negotiation wrote.  Otherwise the client had offered TLS, the handshake had completed, and the
  authenticator was asked exactly once, about exactly the credentials parsed from the session; what is
  written after that is decided by its answer alone: one frame, the redirection it gave, when it gave one -
  nothing if that frame is too long or the write fails, and then the login has failed - and one
  disconnect, never a redirection, when it gave none.  The login reports no error exactly when it
  redirected.\<close>

theorem login_run_sound:
  assumes "run_state (login_run A cr src) (w, l) = ((res, user, e), (w', l'))"
  shows "(res = OutcomeRedirected \<longleftrightarrow> e = None) \<and>
     ((w' = w \<and> e \<noteq> None \<and>
         (lc_io l' = lc_io l \<or> (\<exists>x. run_state (negotiate ProtocolSSL) (lc_io l) = (Inl x, lc_io l')))) \<or>
      (\<exists>ci s1 r out. offers_tls cr \<and> lc_tls_ok l \<and> run_state (negotiate ProtocolSSL) (lc_io l) = (Inr ci, s1) \<and>
         run_state (A src ci) w = (r, w') \<and> user = cr_username ci \<and> si_out (lc_io l') = si_out s1 @ out \<and>
         (case r of
            Inr (Some redir) \<Rightarrow>
              (case redirection_frame (si_user s1) redir of
                 Inr f \<Rightarrow> if next_write_fails s1 then res = OutcomeFailed \<and> out = [] else res = OutcomeRedirected \<and> out = [f]
               | Inl _ \<Rightarrow> res = OutcomeFailed \<and> out = [])
          | _ \<Rightarrow> res = OutcomeRejected \<and>
              (\<exists>f. ultimatum_frame = Inr f \<and> out = (if next_write_fails s1 then [] else [f])))))"
  using login_run_cases [OF assms]
proof (elim disjE exE conjE)
  fix ci s1 l1
  assume a: "offers_tls cr" "lc_tls_ok l" "run_state (negotiate ProtocolSSL) (lc_io l) = (Inr ci, s1)" "lc_io l1 = s1"
    and r: "run_state (authenticate A src ci) (w, l1) = ((res, user, e), w', l')"
  from authenticate_cases [OF r] obtain x out where "run_state (A src ci) w = (x, w')" "user = cr_username ci"
    "res = OutcomeRedirected \<longleftrightarrow> e = None" "si_out (lc_io l') = si_out s1 @ out" "answered s1 x res out"
    using a(4) by blast
  with a show ?thesis unfolding answered_def by blast
qed auto

text \<open>
  An authenticator that refuses what this very run asks it: the credentials the client negotiated,
  in the state it is asked in.  What it does with other credentials or in other states is open.
\<close>

definition refused_in :: "'w authenticator \<Rightarrow> ip \<Rightarrow> 'w \<Rightarrow> login_conn \<Rightarrow> bool" where
  "refused_in A src w l \<longleftrightarrow>
     (case fst (run_state (negotiate ProtocolSSL) (lc_io l)) of
        Inl _ \<Rightarrow> True | Inr ci \<Rightarrow> \<not> is_redirect (fst (run_state (A src ci) w)))"

text \<open>What a client and the relay can see of a finished login.\<close>

definition seen :: "(outcome \<times> string \<times> rdp_error option) \<times> 'w \<times> login_conn \<Rightarrow> outcome \<times> string \<times> bool \<times> login_conn" where
  "seen x = (case x of ((res, user, e), (w, l)) \<Rightarrow> (res, user, e = None, l))"

lemma authenticate_refuses:
  assumes "\<not> is_redirect (fst (run_state (A src ci) w))"
  shows "seen (run_state (authenticate A src ci) (w, l)) =
     (OutcomeRejected, cr_username ci, False, l\<lparr>lc_io := snd (run_state disconnect (lc_io l))\<rparr>)"
proof -
  obtain r w1 where r: "run_state (A src ci) w = (r, w1)" by fastforce
  with assms show ?thesis
    by (auto simp: authenticate_def io_simps is_redirect_def seen_def split: sum.split option.split prod.split)
qed

lemma login_run_refused:
  assumes "refused_in A src w l"
  shows "seen (run_state (login_run A cr src) (w, l)) =
     (if \<not> offers_tls cr then (OutcomeRejected, [], False, snd (raw_write (negotiation_failure failSSLRequiredByServer) l))
      else case raw_write (connection_confirm ProtocolSSL) l of
        (Inl e, l0) \<Rightarrow> (OutcomeFailed, [], False, l0)
      | (Inr _, l0) \<Rightarrow> if \<not> lc_tls_ok l0 then (OutcomeFailed, [], False, l0)
          else case run_state (negotiate ProtocolSSL) (lc_io l0) of
            (Inl e, s1) \<Rightarrow> (OutcomeFailed, [], False, l0\<lparr>lc_io := s1\<rparr>)
          | (Inr ci, s1) \<Rightarrow> (OutcomeRejected, cr_username ci, False, l0\<lparr>lc_io := snd (run_state disconnect s1)\<rparr>))"
proof (cases "offers_tls cr")
  case False
  then show ?thesis
    by (auto simp: login_run_def offers_tls_def Let_def io_simps seen_def split: prod.split)
next
  case True
  have io: "lc_io l0 = lc_io l" if "raw_write p l = (r, l0)" for p r l0
    using that by (auto simp: raw_write_def split: sum.split_asm if_split_asm)
  have "\<not> is_redirect (fst (run_state (A src ci) w))"
    if "run_state (negotiate ProtocolSSL) (lc_io l) = (Inr ci, s1)" for ci s1
    using assms that by (simp add: refused_in_def)
  with True show ?thesis
    using authenticate_refuses [of A src _ w]
    by (auto simp: login_run_def offers_tls_def Let_def io_simps dest: io split: prod.split sum.split) (auto simp: seen_def dest: io)
qed

text \<open>C8. A refusal tells the client nothing: two logins on the same connection whose authenticators refuse the
  credentials they are asked about - two different ones, or one and the same, the gateway's own included, in two
  different states, for whatever reasons, after whatever work, or by returning nothing at all - leave the client with the very
  same bytes.  The relay gets the same outcome and the same user name, and in both cases an error; which one is only
  ever logged.\<close>

theorem refusals_look_alike:
  assumes "refused_in A src w l" and "refused_in B src v l"
    and "run_state (login_run A cr src) (w, l) = ((res, user, e), (w', l'))"
    and "run_state (login_run B cr src) (v, l) = ((res2, user2, e2), (v', l2))"
  shows "l' = l2 \<and> res = res2 \<and> user = user2 \<and> res \<noteq> OutcomeRedirected \<and> e \<noteq> None \<and> e2 \<noteq> None"
proof -
  have one: "seen ((res, user, e), (w', l')) = seen ((res2, user2, e2), (v', l2))"
    using login_run_refused [OF assms(1), of cr] login_run_refused [OF assms(2), of cr] assms(3,4) by simp
  have "fst (seen ((res, user, e), (w', l'))) \<noteq> OutcomeRedirected \<and> \<not> fst (snd (snd (seen ((res, user, e), (w', l')))))"
    using login_run_refused [OF assms(1), of cr] unfolding assms(3) by (auto split: prod.split sum.split)
  with one show ?thesis by (simp add: seen_def)
qed

section \<open>A bounded conversation\<close>

text \<open>One complete frame, and a step that takes at most \<open>k\<close> of them off the wire and writes at most \<open>n\<close>.\<close>

definition is_frame :: "bytes \<Rightarrow> bool" where
  "is_frame f \<longleftrightarrow> length f \<le> MaxPDU \<and> (\<exists>body. readTPKT f = Inr (body, []))"

definition grows :: "nat \<Rightarrow> nat \<Rightarrow> session_io \<Rightarrow> session_io \<Rightarrow> bool" where
  "grows k n s s' \<longleftrightarrow> length (si_out s') \<le> length (si_out s) + n \<and>
     (\<exists>fs. si_in s = concat fs @ si_in s' \<and> length fs \<le> k \<and> (\<forall>f \<in> set fs. is_frame f))"

lemma grows_refl: "grows k n s s"
  by (auto simp: grows_def intro: exI [of _ "[]"])

lemma grows_trans:
  assumes "grows a m s t" and "grows b n t u"
  shows "grows (a + b) (m + n) s u"
proof -
  obtain fs gs where "si_in s = concat fs @ si_in t" "length fs \<le> a" "\<forall>f \<in> set fs. is_frame f"
    "si_in t = concat gs @ si_in u" "length gs \<le> b" "\<forall>f \<in> set gs. is_frame f"
    using assms unfolding grows_def by blast
  then have "si_in s = concat (fs @ gs) @ si_in u" "length (fs @ gs) \<le> a + b" "\<forall>f \<in> set (fs @ gs). is_frame f"
    by auto
  moreover have "length (si_out u) \<le> length (si_out s) + (m + n)" using assms by (simp add: grows_def)
  ultimately show ?thesis unfolding grows_def by blast
qed

lemma grows_mono: "grows a m s t \<Longrightarrow> a \<le> b \<Longrightarrow> m \<le> n \<Longrightarrow> grows b n s t"
  unfolding grows_def by (elim conjE exE) (intro conjI exI, auto)

lemma readTPKT_takes_frame:
  assumes "readTPKT r = Inr (body, rest)"
  shows "\<exists>f. r = f @ rest \<and> is_frame f"
proof -
  let ?n = "unat (get_be16 (drop 2 r))"
  have n: "4 \<le> length r" "r ! 0 = 3" "4 \<le> ?n" "?n \<le> MaxPDU" "?n \<le> length r" "rest = drop ?n r"
    using assms by (auto simp: readTPKT_def Let_def not_less split: if_split_asm)
  have "get_be16 (drop 2 (take ?n r)) = get_be16 (drop 2 r)"
  proof -
    obtain a b c d xs where r: "r = a # b # c # d # xs"
      using n(1) by (auto simp: Suc_le_length_iff eval_nat_numeral)
    obtain m where "?n = 4 + m" using n(3) le_Suc_ex by blast
    then show ?thesis by (simp add: r eval_nat_numeral)
  qed
  then have "readTPKT (take ?n r) = Inr (drop 4 (take ?n r), [])"
    using n by (simp add: readTPKT_def Let_def)
  then have "is_frame (take ?n r)" using n by (auto simp: is_frame_def)
  with n(6) show ?thesis by (metis append_take_drop_id)
qed

lemma read_pdu_grows: "grows 1 0 s (snd (run_state read_pdu s))"
proof (cases "readTPKT (si_in s)")
  case (Inr x)
  then obtain body rest where x: "readTPKT (si_in s) = Inr (body, rest)" by (cases x) simp
  with readTPKT_takes_frame obtain f where "si_in s = f @ rest" "is_frame f" by blast
  with x show ?thesis by (auto simp: io_simps grows_def intro: exI [of _ "[f]"])
qed (simp add: io_simps grows_refl)

lemma readX224Data_grows: "grows 1 0 s (snd (run_state readX224Data s))"
  using read_pdu_grows [of s] by (simp add: readX224Data_def case_prod_unfold)

lemma writeX224_grows: "grows 0 1 s (snd (run_state (writeX224Data p) s))"
  by (auto simp: writeX224Data_def write_pdu_def grows_def split: sum.split)

lemma answer_grows: "grows 0 1 s (snd (run_state (answer_pdu p) s))"
  using writeX224_grows [of s p] by (simp add: answer_pdu_def case_prod_unfold)

lemma sendOnIO_grows: "grows 0 1 s (snd (run_state (sendOnIO p) s))"
  using writeX224_grows by (simp add: sendOnIO_def io_simps)

lemma on_pdu_grows: "grows 0 1 s (snd (run_state (on_pdu p) s))"
proof -
  have info: "grows 0 1 s (snd (run_state (on_client_info bs) s))" for bs
    using sendOnIO_grows [of s buildLicenseValidClient]
    by (auto simp: on_client_info_def grows_refl split: sum.split prod.split)
  have join: "grows 0 1 s (snd (run_state (on_join p) s))"
    using answer_grows by (auto simp: on_join_def io_simps grows_refl split: sum.split)
  have sdata: "grows 0 1 s (snd (run_state (on_send_data p) s))"
    using info by (auto simp: on_send_data_def Let_def grows_refl split: sum.split prod.split)
  show ?thesis
    using join sdata answer_grows by (auto simp: on_pdu_def Let_def io_simps grows_refl)
qed

lemma pdu_loop_grows: "grows n n s (snd (run_state (pdu_loop n) s))"
proof (induction n arbitrary: s)
  case (Suc n)
  obtain r s1 where r: "run_state readX224Data s = (r, s1)" by fastforce
  have g1: "grows 1 0 s s1" using readX224Data_grows [of s] r by simp
  show ?case
  proof (cases r)
    case (Inl e)
    then show ?thesis using r grows_mono [OF g1] by simp
  next
    case (Inr p)
    obtain st s2 where st: "run_state (on_pdu p) s1 = (st, s2)" by fastforce
    have g2: "grows 1 1 s s2" using grows_trans [OF g1] on_pdu_grows [of s1 p] st by fastforce
    show ?thesis
      using r Inr st Suc.IH [of s2] grows_trans [OF g2 Suc.IH [of s2]] grows_mono [OF g2] by (cases st) simp_all
  qed
qed (simp add: grows_refl)

text \<open>C10. The conversation is bounded, so no client can hold the login in a loop: negotiation always
  ends with credentials or an error, after taking at most 65 complete frames of at most 16 KiB each off
  what the client sent, in order, and after writing at most 65 frames.\<close>

theorem negotiation_bounded:
  assumes "run_state (negotiate selected) s = (r, s')"
  shows "length (si_out s') \<le> length (si_out s) + 65 \<and>
     (\<exists>fs. si_in s = concat fs @ si_in s' \<and> length fs \<le> 65 \<and>
        (\<forall>f \<in> set fs. length f \<le> MaxPDU \<and> (\<exists>body. readTPKT f = Inr (body, []))))"
proof -
  have "grows 65 65 s s'"
  proof -
    obtain x s1 where x: "run_state read_pdu s = (x, s1)" by fastforce
    have g1: "grows 1 0 s s1" using read_pdu_grows [of s] x by simp
    have stop: ?thesis if "s' = s1" using that grows_mono [OF g1] by simp
    show ?thesis
    proof (cases "\<exists>body blocks. x = Inr body \<and> \<not> (length body < 3 \<or> body ! 1 \<noteq> 0xF0) \<and> parseConnectInitial (drop 3 body) = Inr blocks")
      case False
      then have "s' = s1" using assms x
        by (auto simp: negotiate_def split: sum.split_asm if_split_asm)
      then show ?thesis by (rule stop)
    next
      case True
      then obtain body blocks where b: "x = Inr body" "\<not> (length body < 3 \<or> body ! 1 \<noteq> 0xF0)"
        "parseConnectInitial (drop 3 body) = Inr blocks" by blast
      let ?s2 = "s1\<lparr>si_channels := mcsIOChannel # channelIDs blocks\<rparr>"
      obtain y s3 where y: "run_state (writeX224Data (buildConnectResponse blocks selected)) ?s2 = (y, s3)" by fastforce
      have "grows 0 1 ?s2 s3" using writeX224_grows y by (metis snd_conv)
      then have "grows 0 1 s1 s3" by (simp add: grows_def)
      then have g2: "grows 1 1 s s3" using grows_trans [OF g1, of 0 1 s3] by simp
      show ?thesis
        using assms x b y grows_mono [OF g2] grows_trans [OF g2 pdu_loop_grows [of 64 s3]]
        by (cases y) (auto simp: negotiate_def io_simps)
    qed
  qed
  then show ?thesis unfolding grows_def is_frame_def .
qed

section \<open>A client that follows the protocol\<close>

definition client_frame :: "bytes \<Rightarrow> bytes" where
  "client_frame p = [3, 0] @ be16 (word_of_nat (length (x224_data p) + 4)) @ x224_data p"

definition small_pdu :: "bytes \<Rightarrow> bool" where
  "small_pdu p \<longleftrightarrow> length p + 7 \<le> MaxPDU"

lemma tpkt_client_frame: "small_pdu p \<Longrightarrow> tpkt_frame (x224_data p) = Inr (client_frame p)"
  by (simp add: tpkt_frame_def Let_def client_frame_def x224_data_def small_pdu_def MaxPDU_def)

lemma read_client_frame:
  assumes "small_pdu p"
  shows "readTPKT (client_frame p @ rest) = Inr (x224_data p, rest)"
  by (rule readTPKT_frame [OF _ tpkt_client_frame [OF assms]]) (use assms in \<open>simp add: small_pdu_def x224_data_def\<close>)

lemma run_read_client [io_simps]:
  "small_pdu p \<Longrightarrow> si_in s = client_frame p @ rest \<Longrightarrow> run_state readX224Data s = (Inr p, s\<lparr>si_in := rest\<rparr>)"
  by (simp add: readX224Data_def io_simps read_client_frame x224_data_def)

lemma run_writeX224 [io_simps]:
  "small_pdu p \<Longrightarrow> si_faults s = [] \<Longrightarrow> run_state (writeX224Data p) s = (Inr (), s\<lparr>si_out := si_out s @ [client_frame p]\<rparr>)"
  using tpkt_client_frame [of p] by (simp add: writeX224Data_def write_pdu_def x224_data_def)

text \<open>The requests a client may send between connect initial and its credentials.\<close>

definition polite :: "bytes \<Rightarrow> bool" where
  "polite p \<longleftrightarrow> small_pdu p \<and> p \<noteq> [] \<and>
     (domainPDUType p = mcsErectDomainRequest \<or> domainPDUType p = mcsAttachUserRequest \<or> (\<exists>u ch. p = channel_join u ch))"

definition reply_to :: "16 word \<Rightarrow> bytes \<Rightarrow> bytes list" where
  "reply_to user p =
     (if domainPDUType p = mcsAttachUserRequest then [client_frame (buildAttachUserConfirm user)]
      else case parseChannelJoinRequest p of
        Inr ch \<Rightarrow> if domainPDUType p = mcsChannelJoinRequest then [client_frame (buildChannelJoinConfirm user ch)] else []
      | Inl _ \<Rightarrow> [])"

lemma choices:
  "mcsErectDomainRequest \<noteq> mcsAttachUserRequest" "mcsErectDomainRequest \<noteq> mcsChannelJoinRequest"
  "mcsAttachUserRequest \<noteq> mcsChannelJoinRequest" "mcsSendDataRequest \<noteq> mcsErectDomainRequest"
  "mcsSendDataRequest \<noteq> mcsAttachUserRequest" "mcsSendDataRequest \<noteq> mcsChannelJoinRequest"
  by (simp_all add: mcs_choice_defs)

lemma choice_types: "domainPDUType (mcsChannelJoinRequest # x) = mcsChannelJoinRequest"
    "domainPDUType (mcsSendDataRequest # x) = mcsSendDataRequest"
  by (simp_all add: domainPDUType_def mcs_choice_defs)

lemma polite_step:
  assumes "polite p" and "si_faults s = []"
  shows "run_state (on_pdu p) s = (Again, s\<lparr>si_out := si_out s @ reply_to (si_user s) p\<rparr>)"
proof -
  have small: "small_pdu (buildAttachUserConfirm u)" "small_pdu (buildChannelJoinConfirm u ch)" for u ch
    by (simp_all add: small_pdu_def MaxPDU_def buildAttachUserConfirm_def buildChannelJoinConfirm_def per_integer16_def)
  consider "domainPDUType p = mcsErectDomainRequest" | "domainPDUType p = mcsAttachUserRequest"
    | u ch where "p = channel_join u ch" "domainPDUType p = mcsChannelJoinRequest"
    using assms(1) choice_types(1) by (auto simp: polite_def channel_join_def)
  then show ?thesis
  proof cases
    case 1
    then show ?thesis using assms choices
      by (auto simp: on_pdu_def polite_def reply_to_def split: sum.split)
  next
    case 2
    then show ?thesis using assms choices small
      by (auto simp: on_pdu_def polite_def reply_to_def io_simps answer_pdu_def Let_def)
  next
    case 3
    then show ?thesis using assms choices small join_read [of u ch]
      by (auto simp: on_pdu_def polite_def reply_to_def io_simps answer_pdu_def on_join_def Let_def)
  qed
qed

definition info_pdu :: "16 word \<Rightarrow> bytes \<Rightarrow> bytes" where
  "info_pdu u info = buildSendDataRequest u mcsIOChannel info"

lemma info_flags: "4 \<le> length (client_info cp fl alt dir ci rest)"
    "(ucast (client_info cp fl alt dir ci rest ! 0) OR push_bit 8 (ucast (client_info cp fl alt dir ci rest ! 1)) :: 16 word) = secInfoPkt"
proof -
  have "client_info cp fl alt dir ci rest = [0x40, 0x00] @ drop 2 (client_info cp fl alt dir ci rest)"
    by (simp add: client_info_def le16_def secInfoPkt_def)
  then have "client_info cp fl alt dir ci rest ! 0 = 0x40" "client_info cp fl alt dir ci rest ! 1 = 0"
    by (metis append_Cons nth_Cons_0, metis One_nat_def append_Cons nth_Cons_0 nth_Cons_Suc)
  then show "(ucast (client_info cp fl alt dir ci rest ! 0) OR push_bit 8 (ucast (client_info cp fl alt dir ci rest ! 1)) :: 16 word) = secInfoPkt"
    by (simp add: secInfoPkt_def)
  show "4 \<le> length (client_info cp fl alt dir ci rest)" by (simp add: client_info_def)
qed

definition good_credentials :: "credentials \<Rightarrow> bool" where
  "good_credentials ci \<longleftrightarrow> credentials_field (cr_domain ci) \<and> credentials_field (cr_username ci) \<and>
     credentials_field (cr_password ci) \<and> cr_username ci \<noteq> []"

definition licence_frame :: "16 word \<Rightarrow> bytes" where
  "licence_frame u = client_frame (buildSendDataIndication u mcsIOChannel buildLicenseValidClient)"

lemma info_step:
  assumes "good_credentials ci" and "length (client_info cp fl alt dir ci rest) < 32768" and "si_faults s = []"
  shows "run_state (on_pdu (info_pdu u (client_info cp fl alt dir ci rest))) s =
     (Done (Inr ci), s\<lparr>si_out := si_out s @ [licence_frame (si_user s)]\<rparr>)"
proof -
  let ?i = "client_info cp fl alt dir ci rest"
  have small: "small_pdu (buildSendDataIndication v mcsIOChannel buildLicenseValidClient)" for v
    by (simp add: small_pdu_def MaxPDU_def buildSendDataIndication_def buildSendData_def per_integer16_def
        buildLicenseValidClient_def per_length_def)
  have p: "parseSendDataRequest (info_pdu u ?i) = Inr (mcsIOChannel, ?i)"
    unfolding info_pdu_def by (rule send_data_read [OF assms(2)])
  have "parseClientInfo ?i = Inr ci"
    using assms(1) by (intro client_info_read) (auto simp: good_credentials_def)
  then have c: "run_state (on_client_info ?i) s = (Done (Inr ci), s\<lparr>si_out := si_out s @ [licence_frame (si_user s)]\<rparr>)"
    using assms(3) small by (simp add: on_client_info_def sendOnIO_def io_simps licence_frame_def)
  have "secInfoPkt AND secInfoPkt \<noteq> 0" by (simp add: secInfoPkt_def)
  then have d: "on_send_data (info_pdu u ?i) = on_client_info ?i"
    unfolding on_send_data_def p sum.case prod.case Let_def info_flags(2)
    using info_flags(1) [of cp fl alt dir ci rest] by simp
  have k: "domainPDUType (info_pdu u ?i) = mcsSendDataRequest" "info_pdu u ?i \<noteq> []"
    by (simp_all add: info_pdu_def buildSendDataRequest_def buildSendData_def choice_types)
  show ?thesis unfolding on_pdu_def Let_def k using k(2) choices c d by simp
qed

lemma pdu_loop_polite:
  assumes "\<forall>p \<in> set pdus. polite p" and "length pdus < n" and "si_faults s = []" and "good_credentials ci"
    and "small_pdu (info_pdu u (client_info cp fl alt dir ci extra))" and "length (client_info cp fl alt dir ci extra) < 32768"
    and "si_in s = concat (map client_frame (pdus @ [info_pdu u (client_info cp fl alt dir ci extra)])) @ rest"
  shows "run_state (pdu_loop n) s =
     (Inr ci, s\<lparr>si_in := rest, si_out := si_out s @ concat (map (reply_to (si_user s)) pdus) @ [licence_frame (si_user s)]\<rparr>)"
  using assms
proof (induction pdus arbitrary: n s)
  case Nil
  then obtain m where n: "n = Suc m" by (cases n) auto
  have r: "run_state readX224Data s = (Inr (info_pdu u (client_info cp fl alt dir ci extra)), s\<lparr>si_in := rest\<rparr>)"
    using Nil.prems by (intro run_read_client) simp_all
  show ?case using Nil.prems info_step [of ci cp fl alt dir extra "s\<lparr>si_in := rest\<rparr>" u] by (simp add: n r)
next
  case (Cons p pdus)
  then obtain m where n: "n = Suc m" by (cases n) auto
  let ?tail = "concat (map client_frame (pdus @ [info_pdu u (client_info cp fl alt dir ci extra)])) @ rest"
  let ?s1 = "s\<lparr>si_in := ?tail\<rparr>"
  let ?s2 = "?s1\<lparr>si_out := si_out s @ reply_to (si_user s) p\<rparr>"
  have r: "run_state readX224Data s = (Inr p, ?s1)"
    using Cons.prems by (intro run_read_client) (simp_all add: polite_def)
  have st: "run_state (on_pdu p) ?s1 = (Again, ?s2)"
    using polite_step [of p ?s1] Cons.prems by simp
  have "run_state (pdu_loop m) ?s2 =
     (Inr ci, ?s2\<lparr>si_in := rest, si_out := si_out ?s2 @ concat (map (reply_to (si_user ?s2)) pdus) @ [licence_frame (si_user ?s2)]\<rparr>)"
    using Cons.prems n by (intro Cons.IH) simp_all
  then show ?case using r st by (simp add: n)
qed

lemma length_concat_le16: "length (concat (map le16 vs)) = 2 * length vs"
  by (induction vs) simp_all

lemma length_per_integer: "length (per_integer v) \<le> 8"
  by (simp add: per_integer_def per_length_def wire_simps)

lemma connect_response_small:
  assumes "length (cb_channels cb) \<le> 31"
  shows "small_pdu (buildConnectResponse cb selected)"
proof -
  let ?sb = "buildServerBlocks cb selected"
  have sb: "length ?sb \<le> 200"
  proof -
    have "length (channelIDs cb) \<le> 31" using assms by (simp add: channelIDs_def)
    then show ?thesis by (simp add: buildServerBlocks_def Let_def gcc_block_def length_concat_le16)
  qed
  have "length (buildConferenceCreateResponse ?sb) \<le> 300"
    using sb length_per_integer [of 1]
    by (simp add: buildConferenceCreateResponse_def per_length_def per_octetString_def per_above_def t124OID_def
        per_integer16_def)
  moreover have "length domainParameters \<le> 60" by (simp add: domainParameters_def ber_integer_def ber_tagged_def ber_length_def)
  moreover have "length (ber_integer 0) = 3" by (simp add: ber_integer_def ber_tagged_def ber_length_def)
  ultimately show ?thesis
    by (simp add: small_pdu_def MaxPDU_def buildConnectResponse_def ber_application_def ber_enumerated_def
        ber_octetString_def ber_tagged_def ber_length_def)
qed

lemma negotiate_polite:
  assumes "small_pdu ini" and "parseConnectInitial ini = Inr blocks" and "length (cb_channels blocks) \<le> 31"
    and "\<forall>p \<in> set pdus. polite p" and "length pdus < 64" and "si_faults s = []" and "good_credentials ci"
    and "small_pdu (info_pdu u (client_info cp fl alt dir ci extra))" and "length (client_info cp fl alt dir ci extra) < 32768"
    and "si_in s = concat (map client_frame (ini # pdus @ [info_pdu u (client_info cp fl alt dir ci extra)])) @ rest"
  shows "run_state (negotiate selected) s =
     (Inr ci, s\<lparr>si_in := rest, si_channels := mcsIOChannel # channelIDs blocks,
        si_out := si_out s @ client_frame (buildConnectResponse blocks selected) #
          concat (map (reply_to (si_user s)) pdus) @ [licence_frame (si_user s)]\<rparr>)"
proof -
  let ?tail = "concat (map client_frame (pdus @ [info_pdu u (client_info cp fl alt dir ci extra)])) @ rest"
  let ?resp = "buildConnectResponse blocks selected"
  let ?s2 = "s\<lparr>si_in := ?tail, si_channels := mcsIOChannel # channelIDs blocks, si_out := si_out s @ [client_frame ?resp]\<rparr>"
  have r: "run_state read_pdu s = (Inr (x224_data ini), s\<lparr>si_in := ?tail\<rparr>)"
    using assms(1,10) read_client_frame [of ini ?tail] by (simp add: io_simps)
  have w: "run_state (writeX224Data ?resp) (s\<lparr>si_in := ?tail, si_channels := mcsIOChannel # channelIDs blocks\<rparr>) = (Inr (), ?s2)"
    using connect_response_small [OF assms(3)] assms(6) by (simp add: io_simps)
  have l: "run_state (pdu_loop 64) ?s2 =
     (Inr ci, ?s2\<lparr>si_in := rest, si_out := si_out ?s2 @ concat (map (reply_to (si_user ?s2)) pdus) @ [licence_frame (si_user ?s2)]\<rparr>)"
    by (rule pdu_loop_polite) (use assms in simp_all)
  have x: "\<not> (length (x224_data ini) < 3 \<or> x224_data ini ! 1 \<noteq> 0xF0)" "drop 3 (x224_data ini) = ini"
    by (simp_all add: x224_data_def)
  show ?thesis using r w l x assms(2) by (simp add: negotiate_def io_simps del: pdu_loop.simps)
qed

text \<open>C9. A client that follows the protocol gets in: offering TLS, sending a connect initial the gateway
  understands, at most 63 requests in any order and mixture, then its credentials, and with an
  authenticator that answers these credentials with a redirection, the login succeeds, reports the
  client's user name, and the client has received - in this order and nothing else - the TLS
  confirmation, the connect response, one answer per request that wants one, the licence message
  and the redirection.\<close>

theorem login_completes:
  assumes "offers_tls cr" and "lc_raw_ok l" and "lc_tls_ok l" and "si_faults (lc_io l) = []"
    and "small_pdu ini" and "parseConnectInitial ini = Inr blocks" and "length (cb_channels blocks) \<le> 31"
    and "\<forall>p \<in> set pdus. polite p" and "length pdus < 64" and "good_credentials ci"
    and "small_pdu (info_pdu u (client_info cp fl alt dir ci extra))" and "length (client_info cp fl alt dir ci extra) < 32768"
    and "si_in (lc_io l) = concat (map client_frame (ini # pdus @ [info_pdu u (client_info cp fl alt dir ci extra)])) @ rest"
    and "run_state (A src ci) w = (Inr (Some redir), w')"
    and "redirection_frame (si_user (lc_io l)) redir = Inr f"
  shows "\<exists>l' confirm. run_state (login_run A cr src) (w, l) = ((OutcomeRedirected, cr_username ci, None), (w', l')) \<and>
     tpkt_frame (connection_confirm ProtocolSSL) = Inr confirm \<and> lc_raw l' = lc_raw l @ [confirm] \<and>
     si_out (lc_io l') = si_out (lc_io l) @ client_frame (buildConnectResponse blocks ProtocolSSL) #
       concat (map (reply_to (si_user (lc_io l))) pdus) @ [licence_frame (si_user (lc_io l)), f]"
proof -
  obtain confirm where c: "tpkt_frame (connection_confirm ProtocolSSL) = Inr confirm"
    by (simp add: tpkt_frame_def connection_confirm_def Let_def wire_simps)
  let ?l1 = "l\<lparr>lc_raw := lc_raw l @ [confirm]\<rparr>"
  have raw: "raw_write (connection_confirm ProtocolSSL) l = (Inr (), ?l1)"
    using c assms(2) by (simp add: raw_write_def)
  note n = negotiate_polite [OF assms(5-9,4,10-13), of ProtocolSSL]
  define s2 where "s2 = snd (run_state (negotiate ProtocolSSL) (lc_io l))"
  have n2: "run_state (negotiate ProtocolSSL) (lc_io l) = (Inr ci, s2)" "si_user s2 = si_user (lc_io l)" "si_faults s2 = []"
    "si_out s2 = si_out (lc_io l) @ client_frame (buildConnectResponse blocks ProtocolSSL) #
       concat (map (reply_to (si_user (lc_io l))) pdus) @ [licence_frame (si_user (lc_io l))]"
    using n assms(4) by (simp_all add: s2_def)
  have red: "run_state (sendRedirection redir) s2 = (Inr (), s2\<lparr>si_out := si_out s2 @ [f]\<rparr>)"
    using assms(15) n2(2,3)
    by (simp add: sendRedirection_def sendOnIO_def writeX224Data_def io_simps write_pdu_def redirection_frame_def x224_data_def)
  show ?thesis
    using assms(1,3,14) c raw n2 red
    by (simp add: login_run_def offers_tls_def Let_def io_simps authenticate_def)
qed

section \<open>A login, step by step\<close>

definition sample_cr :: connection_request where
  "sample_cr = \<lparr>cq_raw = replicate 11 0 @ [1, 0, 8, 0, 1, 0, 0, 0], cq_cookie = [], cq_routing_token = []\<rparr>"

definition sample_ini :: bytes where
  "sample_ini = connect_initial [1] [1] True [] [] [] (conference_request [0] (user_data (replicate 132 1) [(''rdpdr'', 0)]))"

definition sample_info :: bytes where
  "sample_info = info_pdu 1002 (client_info 0 0 0 0 sample_login [])"

definition sample_requests :: "bytes list" where
  "sample_requests = [[0x04, 1, 0, 1, 0], [0x28], channel_join 1002 1003]"

definition sample_conn :: login_conn where
  "sample_conn = \<lparr>lc_raw_ok = True, lc_raw = [], lc_tls_ok = True,
     lc_io = \<lparr>si_in = concat (map client_frame (sample_ini # sample_requests @ [sample_info])) @ [], si_out = [],
       si_faults = [], si_user = mcsUserID, si_channels = []\<rparr>\<rparr>"

definition sample_redirection :: redirection where
  "sample_redirection = \<lparr>rd_session = 0, rd_token = ''t'', rd_username = [], rd_domain = [], rd_password = []\<rparr>"

definition yes_auth :: "nat authenticator" where
  "yes_auth src ci = State (\<lambda>n. (Inr (Some sample_redirection), Suc n))"

definition no_auth :: "nat authenticator" where
  "no_auth src ci = State (\<lambda>n. (Inl LoginRefused, Suc n))"

definition nil_auth :: "nat authenticator" where
  "nil_auth src ci = State (\<lambda>n. (Inr None, n))"

lemma sample_offers: "offers_tls sample_cr"
  by (simp add: offers_tls_def sample_cr_def crVariablePart_def parseNegRequest_def Let_def ProtocolSSL_def)

lemma sample_good: "good_credentials sample_login"
  using sample_login_fields by (simp add: good_credentials_def sample_login_def)

lemma sample_ini_read: "parseConnectInitial sample_ini = Inr \<lparr>cb_channels = [''rdpdr''], cb_protocols = 0x01010101\<rparr>"
proof -
  have "get_le32 (drop 128 (replicate 132 (1 :: byte))) = 0x01010101" by (simp add: eval_nat_numeral)
  moreover have "channel_name ''rdpdr''" by (simp add: channel_name_def)
  ultimately show ?thesis
    unfolding sample_ini_def using connect_initial_read [of "replicate 132 1" "[(''rdpdr'', 0)]" "[0]" "[1]" "[1]" "[]" "[]" "[]"]
    by simp
qed

lemma sample_login_length: "length (client_info 0 0 0 0 sample_login []) < 100"
proof -
  have r: "runes ''al'' = [97, 108]" "runes ''pw,1'' = [112, 119, 44, 49]"
    by (simp_all add: runes_def decode_rune_def)
  show ?thesis by (simp add: client_info_def sample_login_def utf16leZ_def length_utf16le r rune_units_def)
qed

lemma sample_small: "small_pdu sample_ini" "small_pdu sample_info"
proof -
  have "channel_name ''rdpdr''" by (simp add: channel_name_def)
  then have "length (channel_def (''rdpdr'', 0)) = 12" using length_channel_def [of "(''rdpdr'', 0)"] by simp
  then show "small_pdu sample_ini"
    by (simp add: small_pdu_def sample_ini_def MaxPDU_def connect_initial_def ber_application_def ber_octetString_def
        ber_boolean_def ber_tagged_def ber_length_def conference_request_def per_length_def user_data_def gcc_block_def)
  show "small_pdu sample_info"
    using sample_login_length
    by (simp add: small_pdu_def sample_info_def info_pdu_def MaxPDU_def buildSendDataRequest_def buildSendData_def
        per_integer16_def per_length_def)
qed

lemma sample_polite: "\<forall>p \<in> set sample_requests. polite p"
  by (auto simp: sample_requests_def polite_def small_pdu_def MaxPDU_def channel_join_def per_integer16_def
      domainPDUType_def mcs_choice_defs)

lemma sample_frame: "\<exists>f. redirection_frame mcsUserID sample_redirection = Inr f"
  by (simp add: redirection_frame_def tpkt_frame_def x224_data_def buildSendDataIndication_def buildSendData_def
      per_integer16_def per_length_def buildRedirectionPDU_def buildRedirectionPacket_def redirection_fields_def Let_def
      sample_redirection_def lengthPrefixed_def routingToken_def mstsPrefix_def bytes_of_def)

theorem login_completes_witness:
  "\<exists>l' f. run_state (login_run yes_auth sample_cr (V4 7)) (0, sample_conn) = ((OutcomeRedirected, ''al'', None), (1, l')) \<and>
     redirection_frame mcsUserID sample_redirection = Inr f \<and> last (si_out (lc_io l')) = f"
proof -
  obtain f where f: "redirection_frame mcsUserID sample_redirection = Inr f" using sample_frame by blast
  have "\<exists>l' confirm. run_state (login_run yes_auth sample_cr (V4 7)) (0, sample_conn) =
       ((OutcomeRedirected, cr_username sample_login, None), (Suc 0, l')) \<and>
     tpkt_frame (connection_confirm ProtocolSSL) = Inr confirm \<and> lc_raw l' = lc_raw sample_conn @ [confirm] \<and>
     si_out (lc_io l') = si_out (lc_io sample_conn) @
       client_frame (buildConnectResponse \<lparr>cb_channels = [''rdpdr''], cb_protocols = 0x01010101\<rparr> ProtocolSSL) #
       concat (map (reply_to (si_user (lc_io sample_conn))) sample_requests) @ [licence_frame (si_user (lc_io sample_conn)), f]"
    by (rule login_completes [OF sample_offers _ _ _ sample_small(1) sample_ini_read _ sample_polite _ sample_good
          sample_small(2) [unfolded sample_info_def]])
      (use sample_login_length f in \<open>simp_all add: sample_conn_def sample_requests_def yes_auth_def sample_info_def\<close>)
  with f show ?thesis by (auto simp: sample_login_def)
qed

text \<open>
  The gateway's own authenticator: the engine of the policy, its errors under one name since the
  login only hands them on to the log.
\<close>

definition own_authenticator :: "env \<Rightarrow> engine \<Rightarrow> world authenticator" where
  "own_authenticator E C src ci = do {
     r \<leftarrow> Authenticate E C src ci;
     State_Monad.return (case r of Inl _ \<Rightarrow> Inl LoginRefused | Inr rd \<Rightarrow> Inr (Some rd))
   }"

lemma own_authenticator_refuses:
  assumes "\<And>u. UserByName (bareUsername (cr_username ci)) (w_db w) = Inr u \<Longrightarrow> \<not> is_active u"
  shows "\<not> is_redirect (fst (run_state (own_authenticator E C src ci) w))"
proof -
  obtain who w1 where i: "run_state (identify E C src ci) w = (who, w1)" by fastforce
  have "who \<noteq> Inr u" for u using identify_Inr [of E C src ci w u w1] i assms by auto
  then obtain x where "who = Inl x" by (cases who) auto
  with i show ?thesis by (simp add: own_authenticator_def Authenticate_def is_redirect_def)
qed

definition locked_world :: world where
  "locked_world = sample_world\<lparr>w_db := sample_db\<lparr>users := [alice\<lparr>u_username := ''al'', u_status := ''locked''\<rparr>]\<rparr>\<rparr>"

lemma sample_negotiation:
  "\<exists>s1. run_state (negotiate ProtocolSSL) (lc_io sample_conn) = (Inr sample_login, s1) \<and> si_faults s1 = []"
proof -
  have "run_state (negotiate ProtocolSSL) (lc_io sample_conn) =
     (Inr sample_login, (lc_io sample_conn)\<lparr>si_in := [], si_channels := mcsIOChannel # channelIDs \<lparr>cb_channels = [''rdpdr''], cb_protocols = 0x01010101\<rparr>,
        si_out := si_out (lc_io sample_conn) @ client_frame (buildConnectResponse \<lparr>cb_channels = [''rdpdr''], cb_protocols = 0x01010101\<rparr> ProtocolSSL) #
          concat (map (reply_to (si_user (lc_io sample_conn))) sample_requests) @ [licence_frame (si_user (lc_io sample_conn))]\<rparr>)"
    by (rule negotiate_polite [OF sample_small(1) sample_ini_read _ sample_polite _ _ sample_good
          sample_small(2) [unfolded sample_info_def]])
      (use sample_login_length in \<open>simp_all add: sample_conn_def sample_requests_def sample_info_def\<close>)
  moreover have "si_faults (lc_io sample_conn) = []" by (simp add: sample_conn_def)
  ultimately show ?thesis by simp
qed

lemma sample_negotiated: "fst (run_state (negotiate ProtocolSSL) (lc_io sample_conn)) = Inr sample_login"
  using sample_negotiation by auto

theorem login_run_sound_witness:
  "\<exists>l' s1 f. run_state (login_run no_auth sample_cr (V4 7)) (0, sample_conn) =
       ((OutcomeRejected, ''al'', Some LoginRefused), (1, l')) \<and>
     run_state (negotiate ProtocolSSL) (lc_io sample_conn) = (Inr sample_login, s1) \<and>
     ultimatum_frame = Inr f \<and> si_out (lc_io l') = si_out s1 @ [f]"
proof -
  obtain s1 where s1: "run_state (negotiate ProtocolSSL) (lc_io sample_conn) = (Inr sample_login, s1)" "si_faults s1 = []"
    using sample_negotiation by blast
  have "tpkt_frame (connection_confirm ProtocolSSL) = Inr ([3, 0] @ be16 19 @ connection_confirm ProtocolSSL)"
    by (simp add: tpkt_frame_def connection_confirm_def Let_def wire_simps)
  moreover have "lc_raw_ok sample_conn" "lc_tls_ok sample_conn" by (simp_all add: sample_conn_def)
  moreover obtain x s2 where "run_state disconnect s1 = (x, s2)" by fastforce
  ultimately obtain l' where r: "run_state (login_run no_auth sample_cr (V4 7)) (0, sample_conn) =
      ((OutcomeRejected, ''al'', Some LoginRefused), (Suc 0, l'))"
    using sample_offers s1
    by (simp add: login_run_def offers_tls_def Let_def io_simps raw_write_def authenticate_def no_auth_def sample_login_def
        split: prod.split)
  have "\<not> next_write_fails s1" using s1(2) by (simp add: next_write_fails_def)
  with login_run_sound [OF r] s1 r show ?thesis by (auto simp: no_auth_def)
qed

lemma sample_name: "bareUsername (cr_username sample_login) = ''al''"
proof -
  have "bare_hint ''al'' = ''al''" by (simp add: bare_hint_def)
  moreover have "trim_space ''al'' = ''al''" by (simp add: trim_space_ascii ascii_string_def ascii_space_def)
  ultimately show ?thesis by (simp add: bareUsername_def sample_login_def)
qed

theorem refusals_look_alike_witness:
  "\<exists>out. seen (run_state (login_run (own_authenticator sample_env sample_engine) sample_cr (V4 7)) (sample_world, sample_conn)) = out \<and>
     seen (run_state (login_run (own_authenticator sample_env sample_engine) sample_cr (V4 7)) (locked_world, sample_conn)) = out \<and>
     fst out \<noteq> OutcomeRedirected"
proof -
  let ?A = "own_authenticator sample_env sample_engine"
  have unknown: "refused_in ?A (V4 7) sample_world sample_conn"
    using own_authenticator_refuses [of sample_login sample_world sample_env sample_engine "V4 7"]
    by (simp add: refused_in_def sample_negotiated sample_name sample_world_def UserByName_def row_or_not_found_def sample_defs)
  have inactive: "refused_in ?A (V4 7) locked_world sample_conn"
    using own_authenticator_refuses [of sample_login locked_world sample_env sample_engine "V4 7"]
    by (simp add: refused_in_def sample_negotiated sample_name locked_world_def sample_world_def UserByName_def
        row_or_not_found_def sample_defs is_active_def)
  obtain res user e w' l' where a: "run_state (login_run ?A sample_cr (V4 7)) (sample_world, sample_conn) = ((res, user, e), (w', l'))"
    by (metis prod.collapse)
  obtain res2 user2 e2 v' l2 where b: "run_state (login_run ?A sample_cr (V4 7)) (locked_world, sample_conn) = ((res2, user2, e2), (v', l2))"
    by (metis prod.collapse)
  from refusals_look_alike [OF unknown inactive a b] show ?thesis by (auto simp: a b seen_def)
qed

theorem negotiation_bounded_witness:
  "\<exists>s s'. si_in s = [3, 0, 0, 7, 2, 0xF1, 0x80, 9] \<and> run_state (negotiate ProtocolSSL) s = (Inl ErrProtocol, s') \<and>
     si_in s' = [9] \<and> length (si_out s') \<le> 65 \<and>
     (\<exists>fs. concat fs = [3, 0, 0, 7, 2, 0xF1, 0x80 :: byte] \<and> length fs \<le> 65 \<and> (\<forall>f \<in> set fs. length f \<le> MaxPDU))"
proof -
  let ?s = "(lc_io sample_conn)\<lparr>si_in := [3, 0, 0, 7, 2, 0xF1, 0x80, 9]\<rparr>"
  have "readTPKT [3, 0, 0, 7, 2, 0xF1, 0x80, 9] = Inr ([2, 0xF1, 0x80], [9])"
    by (simp add: readTPKT_def MaxPDU_def)
  then have r: "run_state (negotiate ProtocolSSL) ?s = (Inl ErrProtocol, ?s\<lparr>si_in := [9]\<rparr>)"
    by (simp add: negotiate_def io_simps)
  from negotiation_bounded [OF this] obtain fs where
    fs: "[3, 0, 0, 7, 2, 0xF1, 0x80, 9] = concat fs @ [9 :: byte]" "length fs \<le> 65" "\<forall>f \<in> set fs. length f \<le> MaxPDU"
    by auto
  then have "concat fs = [3, 0, 0, 7, 2, 0xF1, 0x80]"
    by (metis append_Cons append_Nil butlast_snoc)
  with fs r show ?thesis
    by (intro exI [of _ ?s] exI [of _ "?s\<lparr>si_in := [9]\<rparr>"]) (auto simp: sample_conn_def)
qed

end
