(* ===== verification/Net_Text.thy ===== *)
theory Net_Text
  imports Net_Addr Decimal Base64 "HOL-Library.Code_Target_Numeral"
begin

unbundle bit_operations_syntax

text \<open>
  Addresses as text, the part of \<open>net\<close> the program reads with: \<open>ParseIP\<close>, \<open>ParseCIDR\<close> with
  \<open>IPNet.Contains\<close>, \<open>IP.Equal\<close>, \<open>SplitHostPort\<close> and \<open>JoinHostPort\<close>.

  \<open>ParseIP\<close> gives sixteen bytes, an IPv4 address in its mapped form; an address with a zone is
  not one.
\<close>

section \<open>Addresses\<close>

definition octet :: "string \<Rightarrow> nat option" where
  "octet s =
     (if s = [] \<or> \<not> list_all is_digit s \<or> (hd s = CHR ''0'' \<and> s \<noteq> ''0'') \<or> 255 < digits_value s then None
      else Some (digits_value s))"

definition parse_v4 :: "string \<Rightarrow> 32 word option" where
  "parse_v4 s =
     (case map octet (split_byte (CHR ''.'') s) of
        [Some a, Some b, Some c, Some d] \<Rightarrow> Some (word_of_nat (((a * 256 + b) * 256 + c) * 256 + d))
      | _ \<Rightarrow> None)"

text \<open>For evaluation: the same word, computed over integers.\<close>

lemma parse_v4_code [code]:
  "parse_v4 s = (case map octet (split_byte (CHR ''.'') s) of
        [Some a, Some b, Some c, Some d] \<Rightarrow> Some (word_of_int (((int a * 256 + int b) * 256 + int c) * 256 + int d))
      | _ \<Rightarrow> None)" unfolding parse_v4_def by (simp split: list.split option.split)

definition is_hex :: "char \<Rightarrow> bool" where
  "is_hex c \<longleftrightarrow> hex_val c \<noteq> None"

definition hex_value :: "string \<Rightarrow> nat" where
  "hex_value s = foldl (\<lambda>v c. v * 16 + the (hex_val c)) 0 s"

text \<open>
  The groups of an IPv6 address read so far, and where the ellipsis stood.  The last two groups
  may be written as an IPv4 address.
\<close>

function v6_groups :: "nat list \<Rightarrow> nat option \<Rightarrow> string \<Rightarrow> (nat list \<times> nat option) option" where
  "v6_groups gs ell s =
     (if 8 \<le> length gs then (if s = [] then Some (gs, ell) else None)
      else let ds = takeWhile is_hex s; r = drop (length ds) s; gs' = gs @ [hex_value ds] in
        if ds = [] \<or> 4 < length ds then None
        else case r of
          [] \<Rightarrow> Some (gs', ell)
        | c # s1 \<Rightarrow>
            if c = CHR ''.'' then
              (if (ell = None \<and> length gs \<noteq> 6) \<or> 6 < length gs then None
               else case parse_v4 s of None \<Rightarrow> None
                    | Some w \<Rightarrow> Some (gs @ [unat w div 65536, unat w mod 65536], ell))
            else if c \<noteq> CHR '':'' then None
            else (case s1 of
                [] \<Rightarrow> None
              | d # s2 \<Rightarrow>
                  if d \<noteq> CHR '':'' then v6_groups gs' ell s1
                  else if ell \<noteq> None then None
                  else if s2 = [] then Some (gs', Some (length gs'))
                  else v6_groups gs' (Some (length gs')) s2))"
  by pat_completeness auto
termination
proof (relation "measure (\<lambda>(gs, ell, s). length s)", goal_cases)
  case (2 gs ell s ds r gs' c s1 d s2)
  then have "length (c # d # s2) \<le> length s" by (metis diff_le_self length_drop)
  with 2 show ?case by simp
next
  case (3 gs ell s ds r gs' c s1 d s2)
  then have "length (c # d # s2) \<le> length s" by (metis diff_le_self length_drop)
  with 3 show ?case by simp
qed simp

declare v6_groups.simps [simp del]

definition groups_value :: "nat list \<Rightarrow> 128 word" where
  "groups_value gs = word_of_nat (foldl (\<lambda>v g. v * 65536 + g) 0 gs)"

definition parse_v6 :: "string \<Rightarrow> 128 word option" where
  "parse_v6 s =
     (let lead = take 2 s = ''::'' in
      case (if s = ''::'' then Some ([], Some 0)
            else if lead then v6_groups [] (Some 0) (drop 2 s) else v6_groups [] None s) of
        None \<Rightarrow> None
      | Some (gs, ell) \<Rightarrow>
          (case ell of
             None \<Rightarrow> if length gs = 8 then Some (groups_value gs) else None
           | Some k \<Rightarrow>
               if length gs = 8 then None
               else Some (groups_value (take k gs @ replicate (8 - length gs) 0 @ drop k gs))))"

definition v4_in_v6 :: "32 word \<Rightarrow> 128 word" where
  "v4_in_v6 w = push_bit 32 0xFFFF OR ucast w"

lemma v4_in_v6_code [code]: "v4_in_v6 w = word_of_int (0xFFFF00000000 + uint w)"
proof -
  have or: "push_bit 32 m OR ucast w = push_bit 32 m + ucast w" for m :: "128 word"
    by (rule disjunctive_add [symmetric]) (auto simp: bit_simps dest: bit_imp_le_length)
  have high: "push_bit 32 (0xFFFF :: 128 word) = 0xFFFF00000000" by simp
  show ?thesis unfolding v4_in_v6_def or unfolding high by (simp only: ucast_eq of_int_add of_int_numeral)
qed

text \<open>\<open>netip.ParseAddr\<close>: the first of dot, colon and percent sign decides the family.\<close>

definition parse_addr :: "string \<Rightarrow> ip option" where
  "parse_addr s =
     (case dropWhile (\<lambda>c. c \<notin> {CHR ''.'', CHR '':'', CHR ''%''}) s of
        c # _ \<Rightarrow>
          if c = CHR ''.'' then map_option V4 (parse_v4 s)
          else if c = CHR '':'' \<and> CHR ''%'' \<notin> set s then map_option V6 (parse_v6 s)
          else None
      | [] \<Rightarrow> None)"

fun as16 :: "ip \<Rightarrow> ip" where
  "as16 (V4 w) = V6 (v4_in_v6 w)"
| "as16 a = a"

definition ParseIP :: "string \<Rightarrow> ip" where
  "ParseIP s = (case parse_addr s of None \<Rightarrow> NilIP | Some a \<Rightarrow> as16 a)"

definition ip_equal :: "ip \<Rightarrow> ip \<Rightarrow> bool" where
  "ip_equal a b \<longleftrightarrow> ip_string a = ip_string b"

section \<open>Networks\<close>

definition mask_length :: "string \<Rightarrow> nat option" where
  "mask_length s =
     (if s = [] \<or> \<not> list_all is_digit s \<or> 0xFFFFFF \<le> digits_value s then None else Some (digits_value s))"

definition ParseCIDR :: "string \<Rightarrow> (ip \<times> nat) option" where
  "ParseCIDR s =
     (case index_of (CHR ''/'') s of None \<Rightarrow> None
      | Some i \<Rightarrow>
          (case (parse_addr (take i s), mask_length (drop (Suc i) s)) of
             (Some (V4 w), Some n) \<Rightarrow> if n \<le> 32 then Some (V4 w, n) else None
           | (Some (V6 w), Some n) \<Rightarrow> if n \<le> 128 then Some (V6 w, n) else None
           | _ \<Rightarrow> None))"

text \<open>
  Both sides shrink to four bytes where they can.  A network written in IPv6 form shrinks when it
  is the mapped prefix after masking, which takes a mask of 96 bits or more.
\<close>

fun cidr_contains :: "ip \<times> nat \<Rightarrow> ip \<Rightarrow> bool" where
  "cidr_contains (V4 w, n) a = (case to4 a of Some x \<Rightarrow> same_prefix 32 (int n) x w | None \<Rightarrow> False)"
| "cidr_contains (V6 w, n) a =
     (if v4_mapped (mask_bits 128 (int n) w)
      then (case to4 a of Some x \<Rightarrow> same_prefix 32 (int n - 96) x (ucast w) | None \<Rightarrow> False)
      else (case (to4 a, a) of (None, V6 x) \<Rightarrow> same_prefix 128 (int n) x w | _ \<Rightarrow> False))"
| "cidr_contains (NilIP, n) a = False"

section \<open>Host and port\<close>

definition SplitHostPort :: "string \<Rightarrow> (string \<times> string) option" where
  "SplitHostPort s =
     (case last_index_of (CHR '':'') s of None \<Rightarrow> None
      | Some i \<Rightarrow>
          if hd s = CHR ''['' then
            (case index_of (CHR '']'') s of None \<Rightarrow> None
             | Some e \<Rightarrow>
                 if Suc e \<noteq> i \<or> CHR ''['' \<in> set (drop 1 s) \<or> CHR '']'' \<in> set (drop (Suc e) s) then None
                 else Some (drop 1 (take e s), drop (Suc i) s))
          else if CHR '':'' \<in> set (take i s) \<or> CHR ''['' \<in> set s \<or> CHR '']'' \<in> set s then None
          else Some (take i s, drop (Suc i) s))"

definition JoinHostPort :: "string \<Rightarrow> string \<Rightarrow> string" where
  "JoinHostPort host port =
     (if CHR '':'' \<in> set host then CHR ''['' # host @ '']:'' @ port else host @ CHR '':'' # port)"

section \<open>Printing\<close>

definition v4_text :: "32 word \<Rightarrow> string" where
  "v4_text w =
     (let n = unat w in
      join_byte (CHR ''.'') (map decimal [n div 16777216, n div 65536 mod 256, n div 256 mod 256, n mod 256]))"

fun hex_text :: "nat \<Rightarrow> string" where
  "hex_text n = (if n < 16 then [hex_digits ! n] else hex_text (n div 16) @ [hex_digits ! (n mod 16)])"

declare hex_text.simps [simp del]

definition v6_parts :: "128 word \<Rightarrow> nat list" where
  "v6_parts w = map (\<lambda>i. unat w div 65536 ^ (7 - i) mod 65536) [0..<8]"

text \<open>The longest run of at least two zero groups, the first of them, is written as an ellipsis.\<close>

definition zero_run :: "nat list \<Rightarrow> nat \<Rightarrow> nat" where
  "zero_run gs i = length (takeWhile (\<lambda>g. g = 0) (drop i gs))"

definition longest_run :: "nat list \<Rightarrow> (nat \<times> nat) option" where
  "longest_run gs =
     foldl (\<lambda>best i. let l = zero_run gs i in
        if 2 \<le> l \<and> (case best of None \<Rightarrow> 0 | Some (_, m) \<Rightarrow> m) < l then Some (i, l) else best) None [0..<length gs]"

definition v6_text :: "128 word \<Rightarrow> string" where
  "v6_text w =
     (let gs = v6_parts w; show_groups = (\<lambda>xs. join_byte (CHR '':'') (map hex_text xs)) in
      case longest_run gs of
        None \<Rightarrow> show_groups gs
      | Some (i, l) \<Rightarrow> show_groups (take i gs) @ ''::'' @ show_groups (drop (i + l) gs))"

definition ip_text :: "ip \<Rightarrow> string" where
  "ip_text a =
     (case to4 a of Some w \<Rightarrow> v4_text w
      | None \<Rightarrow> (case a of V6 w \<Rightarrow> v6_text w | _ \<Rightarrow> ''<nil>''))"

text \<open>The text behind a key.\<close>

fun key_text :: "ip_key \<Rightarrow> string" where
  "key_text KNone = []"
| "key_text (KExact a) = ip_text a"
| "key_text (KNet a n) = ip_text a @ CHR ''/'' # decimal_int n"
| "key_text (KBadMask n) = ''<nil>/'' @ decimal_int n"

end
