(* ===== verification/Json_Read.thy ===== *)
theory Json_Read
  imports Json Utf16 "HOL-Library.AList"
begin

text \<open>
  What the program uses of \<open>encoding/json\<close> for reading: the value grammar with its escapes and
  nesting limit, and the decoding of a value into a struct of strings, integers, booleans and
  nested structs, as \<open>json.Unmarshal\<close> and \<open>Decoder.Decode\<close> do it.

  A number that is not an integer literal is \<^const>\<open>JUnsupported\<close>: no field of the program
  takes one.
\<close>

section \<open>Strings\<close>

definition json_space :: "char \<Rightarrow> bool" where
  "json_space c \<longleftrightarrow> byte_val c \<in> {9, 10, 13, 32}"

definition skip_ws :: "string \<Rightarrow> string" where
  "skip_ws s = dropWhile json_space s"

text \<open>The four hexadecimal digits of a \<open>\u\<close> escape.\<close>

fun hex_rune :: "string \<Rightarrow> (nat \<times> string) option" where
  "hex_rune (a # b # c # d # r) =
     (case (hex_val a, hex_val b, hex_val c, hex_val d) of
        (Some w, Some x, Some y, Some z) \<Rightarrow> Some (w * 4096 + x * 256 + y * 16 + z, r)
      | _ \<Rightarrow> None)"
| "hex_rune _ = None"

text \<open>A high surrogate takes the low one of a following escape; a lone one is replaced.\<close>

definition unescape_rune :: "nat \<Rightarrow> string \<Rightarrow> rune \<times> string" where
  "unescape_rune u r =
     (if high_surrogate u then
        (case r of
           b # c # r1 \<Rightarrow>
             (case (if byte_val b = 92 \<and> byte_val c = 117 then hex_rune r1 else None) of
                Some (v, r2) \<Rightarrow>
                  if low_surrogate v then ((u - 0xD800) * 1024 + (v - 0xDC00) + 0x10000, r2) else (rune_error, r)
              | None \<Rightarrow> (rune_error, r))
         | _ \<Rightarrow> (rune_error, r))
      else if low_surrogate u then (rune_error, r)
      else (u, r))"

definition json_escape :: "string \<Rightarrow> (string \<times> string) option" where
  "json_escape s =
     (case s of [] \<Rightarrow> None
      | e # r \<Rightarrow>
        (let b = byte_val e in
         if b = 34 \<or> b = 92 \<or> b = 47 then Some ([e], r)
         else if b = 98 then Some ([char_of (8::nat)], r)
         else if b = 102 then Some ([char_of (12::nat)], r)
         else if b = 110 then Some ([char_of (10::nat)], r)
         else if b = 114 then Some ([char_of (13::nat)], r)
         else if b = 116 then Some ([char_of (9::nat)], r)
         else if b = 117 then
           (case hex_rune r of None \<Rightarrow> None
            | Some (u, r1) \<Rightarrow> (case unescape_rune u r1 of (x, r2) \<Rightarrow> Some (utf8 x, r2)))
         else None))"

lemma hex_rune_shorter: "hex_rune s = Some (u, r) \<Longrightarrow> length r < length s"
  by (induction s rule: hex_rune.induct) (auto split: option.splits)

lemma unescape_rune_shorter: "unescape_rune u s = (x, r) \<Longrightarrow> length r \<le> length s"
  by (auto simp: unescape_rune_def dest!: hex_rune_shorter split: if_splits list.splits option.splits prod.splits)

lemma json_escape_shorter: "json_escape s = Some (t, r) \<Longrightarrow> length r \<le> length s"
  by (auto simp: json_escape_def Let_def dest!: hex_rune_shorter unescape_rune_shorter
      split: if_splits list.splits option.splits prod.splits)

text \<open>What follows an opening quote: the text up to the closing one, and the rest.\<close>

function json_text :: "string \<Rightarrow> (string \<times> string) option" where
  "json_text [] = None"
| "json_text (c # cs) =
     (let b = byte_val c in
      if b = 34 then Some ([], cs)
      else if b = 92 then
        (case json_escape cs of None \<Rightarrow> None
         | Some (t, r) \<Rightarrow> map_option (\<lambda>(s, r'). (t @ s, r')) (json_text r))
      else if b < 32 then None
      else if b < 128 then map_option (\<lambda>(s, r'). (c # s, r')) (json_text cs)
      else (let (x, n) = decode_rune (map of_char (c # cs)) in
            map_option (\<lambda>(s, r'). (utf8 x @ s, r')) (json_text (drop n (c # cs)))))"
  by pat_completeness auto
termination
proof (relation "measure length", goal_cases)
  case (4 c cs b p x n)
  then have "1 \<le> n" using decode_rune_width [of "map of_char (c # cs)"] by (metis snd_conv)
  then show ?case by simp
qed (auto dest: json_escape_shorter)

lemma json_text_shorter: "json_text s = Some (t, r) \<Longrightarrow> length r < length s"
proof (induction s arbitrary: t r rule: json_text.induct)
  case (2 c cs)
  consider "byte_val c = 34" | "byte_val c = 92" | "32 \<le> byte_val c" "byte_val c < 128" "byte_val c \<noteq> 34" "byte_val c \<noteq> 92"
    | "128 \<le> byte_val c" | "byte_val c < 32" by linarith
  then show ?case
  proof cases
    case 2
    then obtain t1 r1 s where e: "json_escape cs = Some (t1, r1)" and s: "json_text r1 = Some (s, r)"
      using "2.prems" by (auto split: option.splits)
    have "length r < length r1" by (rule "2.IH"(1) [OF refl _ 2 e refl s]) (simp add: 2)
    then show ?thesis using json_escape_shorter [OF e] by simp
  next
    case 3
    then obtain s where s: "json_text cs = Some (s, r)" using "2.prems" by auto
    then show ?thesis using "2.IH"(2) [OF refl _ _ _ _ s] 3 by simp
  next
    case 4
    obtain x n where d: "decode_rune (map of_char (c # cs)) = (x, n)" by fastforce
    then have n: "1 \<le> n" using decode_rune_width [of "map of_char (c # cs)"] by simp
    obtain s where s: "json_text (drop n (c # cs)) = Some (s, r)" using "2.prems" 4 d by auto
    have "length r < length (drop n (c # cs))"
      by (rule "2.IH"(3) [OF refl _ _ _ _ d [symmetric] refl s]) (use 4 in auto)
    then show ?thesis using n by simp
  qed (use "2.prems" in auto)
qed simp

section \<open>Values\<close>

text \<open>An integer literal has no fraction and no exponent; a leading zero stands alone.\<close>

definition fraction :: "string \<Rightarrow> (bool \<times> string) option" where
  "fraction s =
     (case s of [] \<Rightarrow> Some (True, s)
      | c # r \<Rightarrow>
          if c \<noteq> CHR ''.'' then Some (True, s)
          else if takeWhile is_digit r = [] then None else Some (False, dropWhile is_digit r))"

definition drop_sign :: "string \<Rightarrow> string" where
  "drop_sign s = (case s of [] \<Rightarrow> [] | c # r \<Rightarrow> if c = CHR ''+'' \<or> c = CHR ''-'' then r else s)"

definition exponent :: "string \<Rightarrow> (bool \<times> string) option" where
  "exponent s =
     (case s of [] \<Rightarrow> Some (True, s)
      | c # r \<Rightarrow>
          if c \<noteq> CHR ''e'' \<and> c \<noteq> CHR ''E'' then Some (True, s)
          else if takeWhile is_digit (drop_sign r) = [] then None
          else Some (False, dropWhile is_digit (drop_sign r)))"

definition number_tail :: "string \<Rightarrow> (bool \<times> string) option" where
  "number_tail s =
     (case fraction s of None \<Rightarrow> None
      | Some (w, t) \<Rightarrow> map_option (\<lambda>(w', r). (w \<and> w', r)) (exponent t))"

definition int_digits :: "string \<Rightarrow> string" where
  "int_digits s = (if s \<noteq> [] \<and> hd s = CHR ''0'' then [CHR ''0''] else takeWhile is_digit s)"

definition unsigned_number :: "bool \<Rightarrow> string \<Rightarrow> (json \<times> string) option" where
  "unsigned_number neg s =
     (let ds = int_digits s in
      if ds = [] then None
      else case number_tail (drop (length ds) s) of None \<Rightarrow> None
      | Some (whole, r) \<Rightarrow>
          Some (if whole then JInt (if neg then - int (digits_value ds) else int (digits_value ds))
                else JUnsupported, r))"

definition json_number :: "string \<Rightarrow> (json \<times> string) option" where
  "json_number s =
     (if s \<noteq> [] \<and> hd s = CHR ''-'' then unsigned_number True (tl s) else unsigned_number False s)"

definition literal :: "string \<Rightarrow> json \<Rightarrow> string \<Rightarrow> (json \<times> string) option" where
  "literal w v s = (if take (length w) s = w then Some (v, drop (length w) s) else None)"

definition max_nesting :: nat where
  "max_nesting = 10000"

text \<open>
  The recursion carries fuel and the nesting depth.  \<open>json_first\<close> gives it two units per byte and
  three more, and \<open>json_fuel\<close> below shows that no more fuel would change the result.
\<close>

fun json_val :: "nat \<Rightarrow> nat \<Rightarrow> string \<Rightarrow> (json \<times> string) option"
  and json_elems :: "nat \<Rightarrow> nat \<Rightarrow> string \<Rightarrow> (json list \<times> string) option"
  and json_members :: "nat \<Rightarrow> nat \<Rightarrow> string \<Rightarrow> ((string \<times> json) list \<times> string) option" where
  "json_val 0 d s = None"
| "json_val (Suc f) d s =
     (case skip_ws s of [] \<Rightarrow> None
      | c # r \<Rightarrow>
          if c = CHR ''{'' then
            (if max_nesting \<le> d then None
             else case skip_ws r of
               x # r' \<Rightarrow> if x = CHR ''}'' then Some (JObj [], r')
                         else map_option (\<lambda>(ms, t). (JObj ms, t)) (json_members f (Suc d) r)
             | [] \<Rightarrow> None)
          else if c = CHR ''['' then
            (if max_nesting \<le> d then None
             else case skip_ws r of
               x # r' \<Rightarrow> if x = CHR '']'' then Some (JArr [], r')
                         else map_option (\<lambda>(vs, t). (JArr vs, t)) (json_elems f (Suc d) r)
             | [] \<Rightarrow> None)
          else if byte_val c = 34 then map_option (\<lambda>(t, r'). (JStr t, r')) (json_text r)
          else if c = CHR ''t'' then literal ''true'' (JBool True) (c # r)
          else if c = CHR ''f'' then literal ''false'' (JBool False) (c # r)
          else if c = CHR ''n'' then literal ''null'' JNull (c # r)
          else json_number (c # r))"
| "json_elems 0 d s = None"
| "json_elems (Suc f) d s =
     (case json_val f d s of None \<Rightarrow> None
      | Some (v, r) \<Rightarrow>
          (case skip_ws r of [] \<Rightarrow> None
           | c # r' \<Rightarrow>
               if c = CHR '','' then map_option (\<lambda>(vs, t). (v # vs, t)) (json_elems f d r')
               else if c = CHR '']'' then Some ([v], r')
               else None))"
| "json_members 0 d s = None"
| "json_members (Suc f) d s =
     (case skip_ws s of [] \<Rightarrow> None
      | q # s1 \<Rightarrow>
          if byte_val q \<noteq> 34 then None
          else case json_text s1 of None \<Rightarrow> None
          | Some (k, s2) \<Rightarrow>
              (case skip_ws s2 of [] \<Rightarrow> None
               | x # s3 \<Rightarrow>
                   if x \<noteq> CHR '':'' then None
                   else case json_val f d s3 of None \<Rightarrow> None
                   | Some (v, s4) \<Rightarrow>
                       (case skip_ws s4 of [] \<Rightarrow> None
                        | y # s5 \<Rightarrow>
                            if y = CHR '','' then map_option (\<lambda>(ms, t). ((k, v) # ms, t)) (json_members f d s5)
                            else if y = CHR ''}'' then Some ([(k, v)], s5)
                            else None)))"

definition json_first :: "string \<Rightarrow> (json \<times> string) option" where
  "json_first s = json_val (2 * length s + 3) 0 s"

section \<open>The fuel is enough\<close>

lemma skip_ws_shorter: "length (skip_ws s) \<le> length s"
  by (simp add: skip_ws_def length_dropWhile_le)

lemma skip_ws_Cons: "skip_ws s = c # r \<Longrightarrow> length r < length s"
  using skip_ws_shorter [of s] by simp

lemma fraction_shorter: "fraction s = Some (w, r) \<Longrightarrow> length r \<le> length s"
  by (auto simp: fraction_def length_dropWhile_le le_SucI split: list.splits if_splits)

lemma exponent_shorter: "exponent s = Some (w, r) \<Longrightarrow> length r \<le> length s"
proof -
  have "length (dropWhile is_digit (drop_sign x)) \<le> Suc (length x)" for x
    using length_dropWhile_le [of is_digit "drop_sign x"] by (auto simp: drop_sign_def split: list.splits)
  then show "exponent s = Some (w, r) \<Longrightarrow> length r \<le> length s"
    by (auto simp: exponent_def split: list.splits if_splits)
qed

lemma number_tail_shorter: "number_tail s = Some (w, r) \<Longrightarrow> length r \<le> length s"
  by (auto simp: number_tail_def dest!: fraction_shorter exponent_shorter split: option.splits)

lemma unsigned_number_shorter: "unsigned_number neg s = Some (v, r) \<Longrightarrow> length r < length s"
proof -
  assume "unsigned_number neg s = Some (v, r)"
  then obtain w where t: "number_tail (drop (length (int_digits s)) s) = Some (w, r)" and ds: "int_digits s \<noteq> []"
    by (auto simp: unsigned_number_def Let_def split: if_splits option.splits)
  have "s \<noteq> []" using ds by (auto simp: int_digits_def)
  then show "length r < length s" using number_tail_shorter [OF t] ds by (cases s; cases "int_digits s") auto
qed

lemma json_number_shorter: "json_number s = Some (v, r) \<Longrightarrow> length r < length s"
  using unsigned_number_shorter by (cases s) (fastforce simp: json_number_def split: if_splits)+

lemma literal_shorter: "literal w v s = Some (x, r) \<Longrightarrow> w \<noteq> [] \<Longrightarrow> length r < length s"
  by (cases s) (auto simp: literal_def)

lemma json_shorter:
  "json_val f d s = Some (v, r) \<Longrightarrow> length r < length s"
  "json_elems f d s = Some (vs, r) \<Longrightarrow> length r < length s"
  "json_members f d s = Some (ms, r) \<Longrightarrow> length r < length s"
proof (induction f d s and f d s and f d s arbitrary: v r and vs r and ms r
    rule: json_val_json_elems_json_members.induct)
  case (2 f d s)
  then obtain c t where c: "skip_ws s = c # t" by (auto split: list.splits)
  have t: "length t < length s" by (rule skip_ws_Cons [OF c])
  have members: "\<lbrakk>json_members f (Suc d) t = Some (ms, r); skip_ws t = x # y; x \<noteq> CHR ''}''; c = CHR ''{''; \<not> max_nesting \<le> d\<rbrakk>
      \<Longrightarrow> length r < length s" for ms x y
    by (rule less_trans [OF 2(1) t]) (use c in auto)
  have elems: "\<lbrakk>json_elems f (Suc d) t = Some (vs, r); skip_ws t = x # y; x \<noteq> CHR '']''; c = CHR ''[''; \<not> max_nesting \<le> d\<rbrakk>
      \<Longrightarrow> length r < length s" for vs x y
    by (rule less_trans [OF 2(2) t]) (use c in auto)
  have "length (c # t) \<le> length s" using t by simp
  then show ?case
    using 2(3) c t members elems
    by (auto split: if_splits list.splits option.splits dest: members elems skip_ws_Cons dest!: json_text_shorter
        json_number_shorter literal_shorter)
next
  case (4 f d s)
  then show ?case
    by (auto split: if_splits list.splits option.splits dest!: skip_ws_Cons) (fastforce intro: less_trans)+
next
  case (6 f d s)
  then show ?case
    by (auto split: if_splits list.splits option.splits dest!: skip_ws_Cons json_text_shorter)
      (fastforce intro: less_trans)+
qed auto

lemma json_fuel_step:
  "2 * length s < f \<Longrightarrow> json_val (Suc f) d s = json_val f d s"
  "2 * length s + 1 < f \<Longrightarrow> json_elems (Suc f) d s = json_elems f d s"
  "2 * length s + 1 < f \<Longrightarrow> json_members (Suc f) d s = json_members f d s"
proof (induction f arbitrary: d s)
  case (Suc g)
  have inner: "2 * length t + 1 < g" if "skip_ws s = c # t" "2 * length s < Suc g" for c t s
    using skip_ws_Cons [OF that(1)] that(2) by linarith
  {
    case 1
    have later: "json_members (Suc g) (Suc d) t = json_members g (Suc d) t"
      "json_elems (Suc g) (Suc d) t = json_elems g (Suc d) t" if "skip_ws s = c # t" for c t
      using Suc.IH(2,3) [of t "Suc d"] inner [OF that 1] by simp_all
    show ?case
      by (subst (1 2) json_val.simps(2))
        (auto split: list.split simp: later simp del: json_members.simps json_elems.simps)
  next
    case 2
    have later: "json_elems (Suc g) d r' = json_elems g d r'" if "json_val g d s = Some (v, r)" "skip_ws r = c # r'" for v r c r'
      using Suc.IH(2) [of r' d] json_shorter(1) [OF that(1)] skip_ws_Cons [OF that(2)] 2 by simp
    have "json_val (Suc g) d s = json_val g d s" using Suc.IH(1) [of s d] 2 by simp
    then show ?case
      by (subst (1 2) json_elems.simps(2)) (auto split: option.split list.split simp: later simp del: json_elems.simps json_val.simps)
  next
    case 3
    have val: "json_val (Suc g) d s3 = json_val g d s3"
      and later: "json_val g d s3 = Some (v, s4) \<Longrightarrow> skip_ws s4 = y # s5 \<Longrightarrow> json_members (Suc g) d s5 = json_members g d s5"
      if "skip_ws s = q # s1" "json_text s1 = Some (k, s2)" "skip_ws s2 = x # s3" for q s1 k s2 x s3 v s4 y s5
    proof -
      have "length s3 < length s"
        using skip_ws_Cons [OF that(1)] json_text_shorter [OF that(2)] skip_ws_Cons [OF that(3)] by simp
      then show "json_val (Suc g) d s3 = json_val g d s3" using Suc.IH(1) [of s3 d] 3 by simp
      assume "json_val g d s3 = Some (v, s4)" "skip_ws s4 = y # s5"
      then have "length s5 < length s" using json_shorter(1) skip_ws_Cons \<open>length s3 < length s\<close> by (meson less_trans)
      then show "json_members (Suc g) d s5 = json_members g d s5" using Suc.IH(3) [of s5 d] 3 by simp
    qed
    show ?case
      by (subst (1 2) json_members.simps(2)) (auto split: option.split list.split simp: val later simp del: json_members.simps json_val.simps)
  }
qed simp_all

lemma json_fuel: "2 * length s < f \<Longrightarrow> f \<le> g \<Longrightarrow> json_val g d s = json_val f d s"
proof (induction g)
  case (Suc g)
  then show ?case using json_fuel_step(1) [of s g d] by (cases "f = Suc g") auto
qed simp

lemma json_first_fuel: "2 * length s < f \<Longrightarrow> json_val f 0 s = json_first s"
  using json_fuel [of s f "max f (2 * length s + 3)" 0] json_fuel [of s "2 * length s + 3" "max f (2 * length s + 3)" 0]
  by (simp add: json_first_def)

section \<open>Decoding into a struct\<close>

datatype shape = SString | SInt | SInts | SBool | SStruct "(string \<times> shape) list"

datatype goval = GString string | GInt int | GInts "int list" | GBool bool | GStruct "(string \<times> goval) list"

fun zero_value :: "shape \<Rightarrow> goval" where
  "zero_value SString = GString []"
| "zero_value SInt = GInt 0"
| "zero_value SInts = GInts []"
| "zero_value SBool = GBool False"
| "zero_value (SStruct fs) = GStruct (map (\<lambda>(n, sh). (n, zero_value sh)) fs)"

text \<open>The field a key names: by its exact name, else by its name in another case.\<close>

definition field_named :: "(string \<times> shape) list \<Rightarrow> string \<Rightarrow> (string \<times> shape) option" where
  "field_named fs k =
     (case map_of fs k of Some sh \<Rightarrow> Some (k, sh) | None \<Rightarrow> find (\<lambda>(n, _). equal_fold k n) fs)"

definition fits_int :: "int \<Rightarrow> bool" where
  "fits_int i \<longleftrightarrow> - (2 ^ 63) \<le> i \<and> i < 2 ^ 63"

definition ints_of :: "goval \<Rightarrow> int list" where
  "ints_of g = (case g of GInts is \<Rightarrow> is | _ \<Rightarrow> [])"

text \<open>
  A value of the wrong kind is an error, which is reported although the decoding goes on.  A
  \<open>null\<close> leaves a field as it is and makes a slice nil; a field given twice keeps the later value,
  over the earlier one.
\<close>

fun fill_ints :: "int list \<Rightarrow> json list \<Rightarrow> int list option" where
  "fill_ints cur [] = Some []"
| "fill_ints cur (v # vs) =
     (case (case v of JNull \<Rightarrow> Some (if cur = [] then 0 else hd cur)
            | JInt i \<Rightarrow> if fits_int i then Some i else None
            | _ \<Rightarrow> None) of
        None \<Rightarrow> None
      | Some i \<Rightarrow> map_option (\<lambda>is. i # is) (fill_ints (tl cur) vs))"

fun fill :: "bool \<Rightarrow> shape \<Rightarrow> goval \<Rightarrow> json \<Rightarrow> goval option"
  and fill_members :: "bool \<Rightarrow> (string \<times> shape) list \<Rightarrow> (string \<times> goval) list \<Rightarrow> (string \<times> json) list \<Rightarrow>
    (string \<times> goval) list option" where
  "fill strict sh cur JNull = Some (if sh = SInts then GInts [] else cur)"
| "fill strict sh cur (JStr t) = (if sh = SString then Some (GString t) else None)"
| "fill strict sh cur (JInt i) = (if sh = SInt \<and> fits_int i then Some (GInt i) else None)"
| "fill strict sh cur (JBool b) = (if sh = SBool then Some (GBool b) else None)"
| "fill strict sh cur (JArr vs) = (if sh = SInts then map_option GInts (fill_ints (ints_of cur) vs) else None)"
| "fill strict sh cur (JObj ms) =
     (case (sh, cur) of
        (SStruct fs, GStruct gs) \<Rightarrow> map_option GStruct (fill_members strict fs gs ms)
      | _ \<Rightarrow> None)"
| "fill strict sh cur JUnsupported = None"
| "fill_members strict fs gs [] = Some gs"
| "fill_members strict fs gs ((k, v) # ms) =
     (case field_named fs k of
        None \<Rightarrow> if strict then None else fill_members strict fs gs ms
      | Some (n, sh) \<Rightarrow>
          (case map_of gs n of None \<Rightarrow> None
           | Some g \<Rightarrow>
               (case fill strict sh g v of None \<Rightarrow> None
                | Some g' \<Rightarrow> fill_members strict fs (AList.update n g' gs) ms)))"

text \<open>
  \<open>json.Unmarshal\<close> reads one value and nothing after it; a decoder with
  \<open>DisallowUnknownFields\<close> stops after the first value and refuses a key no field has.
\<close>

definition unmarshal :: "shape \<Rightarrow> string \<Rightarrow> goval option" where
  "unmarshal sh s =
     (case json_first s of
        Some (v, r) \<Rightarrow> if skip_ws r = [] then fill False sh (zero_value sh) v else None
      | None \<Rightarrow> None)"

definition decode_strict :: "shape \<Rightarrow> string \<Rightarrow> goval option" where
  "decode_strict sh s =
     (case json_first s of Some (v, r) \<Rightarrow> fill True sh (zero_value sh) v | None \<Rightarrow> None)"

definition field :: "string \<Rightarrow> goval \<Rightarrow> goval option" where
  "field n g = (case g of GStruct gs \<Rightarrow> map_of gs n | _ \<Rightarrow> None)"

definition str_field :: "string \<Rightarrow> goval \<Rightarrow> string" where
  "str_field n g = (case field n g of Some (GString t) \<Rightarrow> t | _ \<Rightarrow> [])"

definition int_field :: "string \<Rightarrow> goval \<Rightarrow> int" where
  "int_field n g = (case field n g of Some (GInt i) \<Rightarrow> i | _ \<Rightarrow> 0)"

definition ints_field :: "string \<Rightarrow> goval \<Rightarrow> int list" where
  "ints_field n g = (case field n g of Some (GInts is) \<Rightarrow> is | _ \<Rightarrow> [])"

definition struct_field :: "string \<Rightarrow> goval \<Rightarrow> goval" where
  "struct_field n g = (case field n g of Some v \<Rightarrow> v | None \<Rightarrow> GStruct [])"

end
