(* ===== verification/Http.thy ===== *)
theory Http
  imports Auth Policy Net_Text Json_Read
begin

text \<open>
  The HTTP layer of the portal: \<open>ClientIP\<close> and the cookies of \<open>internal/auth/auth.go\<close>, and the
  helpers of \<open>internal/api/api.go\<close> every handler uses.  A handler is a program over the world that
  turns a request into a response; the fixed security headers are left out.
\<close>

section \<open>Where a request comes from\<close>

definition isTrusted :: "ip \<Rightarrow> string list \<Rightarrow> bool" where
  "isTrusted a trusted \<longleftrightarrow>
     list_ex (\<lambda>t. case ParseCIDR t of
          Some net \<Rightarrow> cidr_contains net a
        | None \<Rightarrow> ParseIP t \<noteq> NilIP \<and> ip_equal (ParseIP t) a) trusted"

definition blank :: "char \<Rightarrow> bool" where
  "blank c \<longleftrightarrow> c = CHR '' '' \<or> byte_val c = 9"

definition trim_blanks :: "string \<Rightarrow> string" where
  "trim_blanks s = rev (dropWhile blank (rev (dropWhile blank s)))"

definition splitAndTrim :: "string \<Rightarrow> string list" where
  "splitAndTrim s = filter (\<lambda>p. p \<noteq> []) (map trim_blanks (split_byte (CHR '','') s))"

definition client_of :: "string list \<Rightarrow> string \<Rightarrow> bool" where
  "client_of trusted part \<longleftrightarrow> ParseIP part \<noteq> NilIP \<and> \<not> isTrusted (ParseIP part) trusted"

definition ClientIP :: "request \<Rightarrow> string list \<Rightarrow> ip" where
  "ClientIP r trusted =
     (let host = (case SplitHostPort (rq_remote r) of Some (h, _) \<Rightarrow> h | None \<Rightarrow> rq_remote r);
          peer = ParseIP host;
          xff = rq_header r ''X-Forwarded-For'';
          real = rq_header r ''X-Real-IP'' in
      if trusted = [] \<or> peer = NilIP \<or> \<not> isTrusted peer trusted then peer
      else case (if xff = [] then None else find (client_of trusted) (rev (splitAndTrim xff))) of
             Some part \<Rightarrow> ParseIP part
           | None \<Rightarrow> if real \<noteq> [] \<and> ParseIP real \<noteq> NilIP then ParseIP real else peer)"

section \<open>Cookies\<close>

record cookie =
  ck_name :: string
  ck_value :: string
  ck_http_only :: bool
  ck_secure :: bool
  ck_max_age :: int

definition SetSessionCookie :: "string \<Rightarrow> int \<Rightarrow> bool \<Rightarrow> cookie" where
  "SetSessionCookie token ttl secure =
     \<lparr>ck_name = cookieName ''revpd_session'' secure, ck_value = token, ck_http_only = True, ck_secure = secure,
      ck_max_age = ttl div 1000000000\<rparr>"

definition ClearSessionCookie :: "bool \<Rightarrow> cookie list" where
  "ClearSessionCookie secure =
     map (\<lambda>b. \<lparr>ck_name = cookieName ''revpd_session'' b, ck_value = [], ck_http_only = True, ck_secure = secure,
               ck_max_age = -1\<rparr>) [True, False]"

text \<open>The handlers ignore the error of \<open>NewCSRFToken\<close>: no cookie is set and the token is empty.\<close>

definition NewCSRFToken :: "bool \<Rightarrow> (string \<times> cookie list) act" where
  "NewCSRFToken secure = do {
     rnd \<leftarrow> read_rand 32;
     ret (case RandomToken rnd of
            None \<Rightarrow> ([], [])
          | Some tok \<Rightarrow>
              (tok, [\<lparr>ck_name = cookieName ''revpd_csrf'' secure, ck_value = tok, ck_http_only = False,
                      ck_secure = secure, ck_max_age = 0\<rparr>]))
   }"

section \<open>Responses\<close>

record response =
  rs_status :: nat
  rs_cookies :: "cookie list"
  rs_body :: json

type_synonym handler = "request \<Rightarrow> response act"

definition reply :: "nat \<Rightarrow> cookie list \<Rightarrow> json \<Rightarrow> response" where
  "reply code cks body = \<lparr>rs_status = code, rs_cookies = cks, rs_body = body\<rparr>"

definition fail_with :: "nat \<Rightarrow> string \<Rightarrow> response act" where
  "fail_with code msg = ret (reply code [] (JObj [(''error'', JStr msg)]))"

definition send :: "cookie list \<Rightarrow> (string \<times> json) list \<Rightarrow> response act" where
  "send cks fs = ret (reply 200 cks (JObj fs))"

definition serverError :: "response act" where
  "serverError = fail_with 500 ''internal error''"

definition max_body :: nat where
  "max_body = 65536"

text \<open>
  The body reader stops at the cap; a value that is complete before it is accepted all the same.
\<close>

definition decode :: "shape \<Rightarrow> request \<Rightarrow> goval option" where
  "decode sh r = decode_strict sh (take max_body (rq_body r))"

definition parse_int64 :: "string \<Rightarrow> int option" where
  "parse_int64 s =
     (let neg = (s \<noteq> [] \<and> hd s = CHR ''-'');
          ds = (if s \<noteq> [] \<and> (hd s = CHR ''-'' \<or> hd s = CHR ''+'') then tl s else s);
          v = (if neg then - int (digits_value ds) else int (digits_value ds)) in
      if ds = [] \<or> \<not> list_all is_digit ds \<or> \<not> fits_int v then None else Some v)"

definition pathID :: "request \<Rightarrow> int option" where
  "pathID r = (case parse_int64 (rq_id r) of Some i \<Rightarrow> if i \<le> 0 then None else Some i | None \<Rightarrow> None)"

definition atoiDefault :: "string \<Rightarrow> int \<Rightarrow> int" where
  "atoiDefault s dflt = (case parse_int64 s of Some n \<Rightarrow> if n \<le> 0 then dflt else n | None \<Rightarrow> dflt)"

section \<open>The server\<close>

text \<open>
  The fields of \<open>Server\<close> and of its configuration that the handlers read.  \<open>pt_tls\<close>: ACME is on or
  a certificate is configured.
\<close>

record portal =
  pt_engine :: engine
  pt_auth :: auth_opts
  pt_sealer :: bytes
  pt_require_factor :: bool
  pt_totp_skew :: nat
  pt_backup_codes :: int
  pt_trusted :: "string list"
  pt_tls :: bool
  pt_hostname :: string

definition clientIP :: "portal \<Rightarrow> request \<Rightarrow> ip" where
  "clientIP P r = ClientIP r (pt_trusted P)"

definition secure :: "portal \<Rightarrow> request \<Rightarrow> bool" where
  "secure P r \<longleftrightarrow> rq_tls r \<or> pt_tls P"

definition user_agent :: "request \<Rightarrow> string" where
  "user_agent r = rq_header r ''User-Agent''"

definition get_user :: "(store_error + user) \<Rightarrow> user option" where
  "get_user r = (case r of Inr u \<Rightarrow> if is_active u then Some u else None | Inl _ \<Rightarrow> None)"

text \<open>\<open>authed\<close> puts the account of a full session before a handler, \<open>admin\<close> an administrator's.\<close>

definition authed :: "env \<Rightarrow> portal \<Rightarrow> (user \<Rightarrow> handler) \<Rightarrow> handler" where
  "authed E P h r =
     (if \<not> CheckCSRF r then fail_with 403 ''csrf token missing or wrong''
      else do {
        s \<leftarrow> Lookup E (pt_auth P) (SessionToken r) StageFull (ip_string (clientIP P r));
        case s of
          Inl _ \<Rightarrow> fail_with 401 ''not signed in''
        | Inr sess \<Rightarrow> do {
            ru \<leftarrow> query (UserByID (se_user sess));
            case get_user ru of
              None \<Rightarrow> fail_with 401 ''account is not active''
            | Some u \<Rightarrow> h u r
          }
      })"

definition admin :: "env \<Rightarrow> portal \<Rightarrow> (user \<Rightarrow> handler) \<Rightarrow> handler" where
  "admin E P h = authed E P (\<lambda>u r. if \<not> is_admin u then fail_with 403 ''administrator role required'' else h u r)"

end
