(* ===== verification/Cbor.thy ===== *)
theory Cbor
  imports Crypto "HOL-Library.AList"
begin

text \<open>
  \<open>internal/mfa/webauthn/cbor.go\<close>: the CBOR reader behind passkey registration and login.  It
  reads bytes nobody has authenticated yet, so it refuses whatever it does not recognise.

  The reader's slice and position are the list of the bytes still to be read.  Every failure is
  the one error \<open>errCBOR\<close>, hence \<^const>\<open>None\<close>.  A Go map keeps one value per key, the last one
  read: \<^const>\<open>AList.update\<close>.
\<close>

section \<open>Values\<close>

datatype ckey = KInt int | KText string

datatype cval =
    CInt int
  | CBytes bytes
  | CText string
  | CArr "cval list"
  | CMap "(ckey \<times> cval) list"
  | CBool bool
  | CNull

definition maxItems :: nat where
  "maxItems = 1024"

section \<open>Reading\<close>

definition take_cbor :: "nat \<Rightarrow> bytes \<Rightarrow> (bytes \<times> bytes) option" where
  "take_cbor n bs = (if length bs < n then None else Some (take n bs, drop n bs))"

definition be_value :: "bytes \<Rightarrow> nat" where
  "be_value bs = foldl (\<lambda>v b. v * 256 + unat b) 0 bs"

text \<open>The major type and its argument, a 64-bit unsigned number.\<close>

definition arg_of :: "nat \<Rightarrow> nat \<Rightarrow> bytes \<Rightarrow> (nat \<times> nat \<times> bytes) option" where
  "arg_of major n r = map_option (\<lambda>(b, r'). (major, be_value b, r')) (take_cbor n r)"

definition head_cbor :: "bytes \<Rightarrow> (nat \<times> nat \<times> bytes) option" where
  "head_cbor bs =
     (case bs of [] \<Rightarrow> None
      | c # r \<Rightarrow>
        (let major = unat c div 32; info = unat c mod 32 in
         if info < 24 then Some (major, info, r)
         else if info = 24 then arg_of major 1 r
         else if info = 25 then arg_of major 2 r
         else if info = 26 then arg_of major 4 r
         else if info = 27 then arg_of major 8 r
         else None))"

fun key_of :: "cval \<Rightarrow> ckey option" where
  "key_of (CInt i) = Some (KInt i)"
| "key_of (CText s) = Some (KText s)"
| "key_of _ = None"

definition simple_value :: "nat \<Rightarrow> cval option" where
  "simple_value n =
     (if n = 20 then Some (CBool False) else if n = 21 then Some (CBool True)
      else if n = 22 \<or> n = 23 then Some CNull else None)"

text \<open>
  One item at a nesting depth; the items of an array and the pairs of a map are the loops of the
  same function.  Depth 8 is the deepest that is read.
\<close>

function cbor_value :: "nat \<Rightarrow> bytes \<Rightarrow> (cval \<times> bytes) option"
  and cbor_items :: "nat \<Rightarrow> nat \<Rightarrow> bytes \<Rightarrow> (cval list \<times> bytes) option"
  and cbor_pairs :: "nat \<Rightarrow> nat \<Rightarrow> (ckey \<times> cval) list \<Rightarrow> bytes \<Rightarrow> ((ckey \<times> cval) list \<times> bytes) option" where
  "cbor_value d bs =
     (if 8 < d then None
      else case head_cbor bs of None \<Rightarrow> None
      | Some (major, arg, r) \<Rightarrow>
          if major = 0 then (if max_int64 < int arg then None else Some (CInt (int arg), r))
          else if major = 1 then (if max_int64 - 1 < int arg then None else Some (CInt (- 1 - int arg), r))
          else if major = 2 then
            (if maxItems * 64 < arg then None else map_option (\<lambda>(b, r'). (CBytes b, r')) (take_cbor arg r))
          else if major = 3 then
            (if maxItems * 64 < arg then None else map_option (\<lambda>(b, r'). (CText (string_of b), r')) (take_cbor arg r))
          else if major = 4 then
            (if maxItems < arg then None else map_option (\<lambda>(vs, r'). (CArr vs, r')) (cbor_items (Suc d) arg r))
          else if major = 5 then
            (if maxItems < arg then None else map_option (\<lambda>(m, r'). (CMap m, r')) (cbor_pairs (Suc d) arg [] r))
          else if major = 6 then cbor_value (Suc d) r
          else map_option (\<lambda>v. (v, r)) (simple_value arg))"
| "cbor_items d 0 bs = Some ([], bs)"
| "cbor_items d (Suc n) bs =
     (case cbor_value d bs of None \<Rightarrow> None
      | Some (v, r) \<Rightarrow> map_option (\<lambda>(vs, r'). (v # vs, r')) (cbor_items d n r))"
| "cbor_pairs d 0 m bs = Some (m, bs)"
| "cbor_pairs d (Suc n) m bs =
     (case cbor_value d bs of None \<Rightarrow> None
      | Some (k, r) \<Rightarrow>
          (case cbor_value d r of None \<Rightarrow> None
           | Some (v, r') \<Rightarrow>
               (case key_of k of None \<Rightarrow> None
                | Some key \<Rightarrow> cbor_pairs d n (AList.update key v m) r')))"
  by pat_completeness auto
termination
  by (relation "measures
       [case_sum (\<lambda>(d, _). 9 - d) (case_sum (\<lambda>(d, n, _). 9 - d) (\<lambda>(d, n, _). 9 - d)),
        case_sum (\<lambda>_. 0) (case_sum (\<lambda>(d, n, _). Suc n) (\<lambda>(d, n, _). Suc n))]")
    auto

declare cbor_value.simps [simp del]

definition decodeCBORMap :: "bytes \<Rightarrow> (ckey \<times> cval) list option" where
  "decodeCBORMap b = (case cbor_value 0 b of Some (CMap m, _) \<Rightarrow> Some m | _ \<Rightarrow> None)"

definition extractAuthData :: "bytes \<Rightarrow> bytes option" where
  "extractAuthData att =
     (case decodeCBORMap att of None \<Rightarrow> None
      | Some m \<Rightarrow>
          (case map_of m (KText ''authData'') of
             Some (CBytes raw) \<Rightarrow> if raw = [] then None else Some raw
           | _ \<Rightarrow> None))"

section \<open>A reference encoder\<close>

text \<open>
  The canonical encoding of RFC 8949: the argument in as few bytes as possible.  It says what the
  reader has to give back.
\<close>

fun be_digits :: "nat \<Rightarrow> nat \<Rightarrow> bytes" where
  "be_digits 0 v = []"
| "be_digits (Suc n) v = be_digits n (v div 256) @ [word_of_nat (v mod 256)]"

definition cbor_head :: "nat \<Rightarrow> nat \<Rightarrow> bytes" where
  "cbor_head major n =
     (let first = (\<lambda>info. word_of_nat (major * 32 + info)) in
      if n < 24 then [first n]
      else if n < 256 then first 24 # be_digits 1 n
      else if n < 65536 then first 25 # be_digits 2 n
      else if n < 4294967296 then first 26 # be_digits 4 n
      else first 27 # be_digits 8 n)"

fun enc_key :: "ckey \<Rightarrow> bytes" where
  "enc_key (KInt i) = (if 0 \<le> i then cbor_head 0 (nat i) else cbor_head 1 (nat (- 1 - i)))"
| "enc_key (KText s) = cbor_head 3 (length s) @ bytes_of s"

fun enc_cbor :: "cval \<Rightarrow> bytes" where
  "enc_cbor (CInt i) = enc_key (KInt i)"
| "enc_cbor (CText s) = enc_key (KText s)"
| "enc_cbor (CBytes b) = cbor_head 2 (length b) @ b"
| "enc_cbor (CArr vs) = cbor_head 4 (length vs) @ concat (map enc_cbor vs)"
| "enc_cbor (CMap m) = cbor_head 5 (length m) @ concat (map (\<lambda>(k, v). enc_key k @ enc_cbor v) m)"
| "enc_cbor (CBool b) = cbor_head 7 (if b then 21 else 20)"
| "enc_cbor CNull = cbor_head 7 22"

definition int64 :: "int \<Rightarrow> bool" where
  "int64 i \<longleftrightarrow> - max_int64 \<le> i \<and> i \<le> max_int64"

fun key_fits :: "ckey \<Rightarrow> bool" where
  "key_fits (KInt i) \<longleftrightarrow> int64 i"
| "key_fits (KText s) \<longleftrightarrow> length s \<le> maxItems * 64"

text \<open>What the reader is meant to accept below a nesting depth.\<close>

fun fits :: "nat \<Rightarrow> cval \<Rightarrow> bool" where
  "fits d (CInt i) \<longleftrightarrow> d \<le> 8 \<and> int64 i"
| "fits d (CText s) \<longleftrightarrow> d \<le> 8 \<and> length s \<le> maxItems * 64"
| "fits d (CBytes b) \<longleftrightarrow> d \<le> 8 \<and> length b \<le> maxItems * 64"
| "fits d (CArr vs) \<longleftrightarrow> d \<le> 8 \<and> length vs \<le> maxItems \<and> (\<forall>v \<in> set vs. fits (Suc d) v)"
| "fits d (CMap m) \<longleftrightarrow> d \<le> 8 \<and> length m \<le> maxItems \<and> distinct (map fst m) \<and> (m = [] \<or> d < 8) \<and>
     (\<forall>(k, v) \<in> set m. key_fits k \<and> fits (Suc d) v)"
| "fits d (CBool b) \<longleftrightarrow> d \<le> 8"
| "fits d CNull \<longleftrightarrow> d \<le> 8"

section \<open>Reading back what the encoder wrote\<close>

lemma be_value_snoc: "be_value (bs @ [b]) = be_value bs * 256 + unat b"
  by (simp add: be_value_def)

lemma length_be_digits [simp]: "length (be_digits n v) = n"
  by (induction n arbitrary: v) auto

lemma be_value_digits: "v < 256 ^ n \<Longrightarrow> be_value (be_digits n v) = v"
proof (induction n arbitrary: v)
  case (Suc n)
  then have "v div 256 < 256 ^ n" by (simp add: less_mult_imp_div_less)
  then show ?case by (simp add: Suc.IH be_value_snoc unat_word_8)
qed (simp add: be_value_def)

lemma take_cbor_append [simp]: "n = length b \<Longrightarrow> take_cbor n (b @ r) = Some (b, r)"
  by (simp add: take_cbor_def)

lemma take_cbor_Some: "take_cbor n bs = Some (b, r) \<longleftrightarrow> length b = n \<and> bs = b @ r"
  by (auto simp: take_cbor_def)

lemma first_byte:
  assumes "major < 8" and "info < 32"
  shows "unat (word_of_nat (major * 32 + info) :: byte) div 32 = major"
    and "unat (word_of_nat (major * 32 + info) :: byte) mod 32 = info"
proof -
  have "unat (word_of_nat (major * 32 + info) :: byte) = major * 32 + info"
    using assms by (intro unat_word_8) linarith
  then show "unat (word_of_nat (major * 32 + info) :: byte) div 32 = major"
    and "unat (word_of_nat (major * 32 + info) :: byte) mod 32 = info"
    using assms by simp_all
qed

lemma arg_of_digits: "v < 256 ^ n \<Longrightarrow> arg_of major n (be_digits n v @ r) = Some (major, v, r)"
  by (simp add: arg_of_def be_value_digits)

lemma head_cbor_head:
  assumes m: "major < 8" and n: "n < 2 ^ 64"
  shows "head_cbor (cbor_head major n @ r) = Some (major, n, r)"
proof -
  note first = first_byte [OF m]
  consider "n < 24" | "24 \<le> n" "n < 256 ^ 1" | "256 \<le> n" "n < 256 ^ 2" | "65536 \<le> n" "n < 256 ^ 4"
    | "4294967296 \<le> n" "n < 256 ^ 8"
    using n by force
  then show ?thesis
  proof cases
    case 1
    then show ?thesis using first [of n] by (simp add: cbor_head_def head_cbor_def)
  next
    case 2
    then show ?thesis using first [of 24] arg_of_digits [OF 2(2)]
      by (simp add: cbor_head_def head_cbor_def del: be_digits.simps)
  next
    case 3
    then show ?thesis using first [of 25] arg_of_digits [OF 3(2)]
      by (simp add: cbor_head_def head_cbor_def del: be_digits.simps)
  next
    case 4
    then show ?thesis using first [of 26] arg_of_digits [OF 4(2)]
      by (simp add: cbor_head_def head_cbor_def del: be_digits.simps)
  next
    case 5
    then show ?thesis using first [of 27] arg_of_digits [OF 5(2)]
      by (simp add: cbor_head_def head_cbor_def del: be_digits.simps)
  qed
qed

lemma cbor_value_head:
  assumes "d \<le> 8" and "major < 8" and "n < 2 ^ 64"
  shows "cbor_value d (cbor_head major n @ r) =
     (if major = 0 then (if max_int64 < int n then None else Some (CInt (int n), r))
      else if major = 1 then (if max_int64 - 1 < int n then None else Some (CInt (- 1 - int n), r))
      else if major = 2 then
        (if maxItems * 64 < n then None else map_option (\<lambda>(b, r'). (CBytes b, r')) (take_cbor n r))
      else if major = 3 then
        (if maxItems * 64 < n then None else map_option (\<lambda>(b, r'). (CText (string_of b), r')) (take_cbor n r))
      else if major = 4 then
        (if maxItems < n then None else map_option (\<lambda>(vs, r'). (CArr vs, r')) (cbor_items (Suc d) n r))
      else if major = 5 then
        (if maxItems < n then None else map_option (\<lambda>(m, r'). (CMap m, r')) (cbor_pairs (Suc d) n [] r))
      else if major = 6 then cbor_value (Suc d) r
      else map_option (\<lambda>v. (v, r)) (simple_value n))"
  using assms by (subst cbor_value.simps) (simp add: head_cbor_head del: power_numeral)

fun key_value :: "ckey \<Rightarrow> cval" where
  "key_value (KInt i) = CInt i"
| "key_value (KText s) = CText s"

lemma key_of_key_value [simp]: "key_of (key_value k) = Some k"
  by (cases k) simp_all

lemma maxItems_le: "n \<le> maxItems * 64 \<Longrightarrow> n < 2 ^ 64" "n \<le> maxItems \<Longrightarrow> n < 2 ^ 64"
  by (simp_all add: maxItems_def)

lemma cbor_key_roundtrip:
  assumes "d \<le> 8" and "key_fits k"
  shows "cbor_value d (enc_key k @ r) = Some (key_value k, r)"
proof (cases k)
  case (KInt i)
  then have i: "- max_int64 \<le> i" "i \<le> max_int64" using assms by (simp_all add: int64_def)
  show ?thesis
  proof (cases "0 \<le> i")
    case True
    then have "nat i < 2 ^ 64" using i by (simp add: max_int64_def nat_less_iff)
    then show ?thesis using True i assms KInt by (simp add: cbor_value_head del: power_numeral)
  next
    case False
    then have "nat (- 1 - i) < 2 ^ 64" using i by (simp add: max_int64_def nat_less_iff)
    then show ?thesis using False i assms KInt by (simp add: cbor_value_head del: power_numeral)
  qed
next
  case (KText s)
  then have "length s \<le> maxItems * 64" using assms by simp
  then show ?thesis
    using assms KText maxItems_le(1) [of "length s"] by (simp add: cbor_value_head bytes_of_def string_of_def comp_def del: power_numeral)
qed

lemma cbor_items_roundtrip:
  assumes "\<And>v r. v \<in> set vs \<Longrightarrow> cbor_value d (enc_cbor v @ r) = Some (v, r)"
  shows "cbor_items d (length vs) (concat (map enc_cbor vs) @ r) = Some (vs, r)"
  using assms by (induction vs) simp_all

lemma cbor_pairs_roundtrip:
  assumes "\<And>k v r. (k, v) \<in> set m \<Longrightarrow> cbor_value d (enc_cbor v @ r) = Some (v, r)"
    and "\<forall>k \<in> fst ` set m. key_fits k" and "m = [] \<or> d \<le> 8"
    and "distinct (map fst (acc @ m))"
  shows "cbor_pairs d (length m) acc (concat (map (\<lambda>(k, v). enc_key k @ enc_cbor v) m) @ r) = Some (acc @ m, r)"
  using assms
proof (induction m arbitrary: acc)
  case (Cons p m)
  obtain k v where p: "p = (k, v)" by (cases p)
  have "AList.update k v acc = acc @ [(k, v)]"
    using Cons.prems(4) p by (simp add: AList.update_conv' map_of_eq_None_iff) (induction acc; force)
  moreover have "cbor_value d (enc_key k @ t) = Some (key_value k, t)" for t
    using Cons.prems p by (intro cbor_key_roundtrip) simp_all
  moreover have "cbor_value d (enc_cbor v @ t) = Some (v, t)" for t
    using Cons.prems(1) [of k v] p by simp
  moreover have "cbor_pairs d (length m) (acc @ [(k, v)])
      (concat (map (\<lambda>(k, v). enc_key k @ enc_cbor v) m) @ r) = Some ((acc @ [(k, v)]) @ m, r)"
    using Cons.prems p by (intro Cons.IH) (auto)
  ultimately show ?case using p by simp
qed simp

text \<open>Reading an encoding gives the value back, and leaves what follows it alone.\<close>

lemma cbor_value_roundtrip: "fits d v \<Longrightarrow> cbor_value d (enc_cbor v @ r) = Some (v, r)"
proof (induction v arbitrary: d r)
  case (CInt i)
  then show ?case using cbor_key_roundtrip [of d "KInt i"] by simp
next
  case (CText s)
  then show ?case using cbor_key_roundtrip [of d "KText s"] by simp
next
  case (CBytes b)
  then show ?case by (simp add: cbor_value_head maxItems_le del: power_numeral)
next
  case (CArr vs)
  then show ?case using cbor_items_roundtrip [of vs "Suc d" r]
    by (simp add: cbor_value_head maxItems_le del: power_numeral)
next
  case (CMap m)
  have "cbor_pairs (Suc d) (length m) [] (concat (map (\<lambda>(k, v). enc_key k @ enc_cbor v) m) @ r) = Some ([] @ m, r)"
    using CMap by (intro cbor_pairs_roundtrip) (force simp: less_eq_Suc_le)+
  then show ?case using CMap.prems by (simp add: cbor_value_head maxItems_le del: power_numeral)
qed (simp_all add: cbor_value_head simple_value_def)

section \<open>What is read is no larger than what was sent\<close>

fun nodes :: "cval \<Rightarrow> nat" where
  "nodes (CArr vs) = Suc (sum_list (map nodes vs))"
| "nodes (CMap m) = Suc (sum_list (map (\<lambda>(k, v). Suc (nodes v)) m))"
| "nodes (CBytes b) = Suc (length b)"
| "nodes (CText s) = Suc (length s)"
| "nodes _ = 1"

abbreviation pair_nodes :: "(ckey \<times> cval) list \<Rightarrow> nat" where
  "pair_nodes m \<equiv> sum_list (map (\<lambda>(k, v). Suc (nodes v)) m)"

lemma pair_nodes_update: "pair_nodes (AList.update k v m) \<le> pair_nodes m + Suc (nodes v)"
  by (induction m) auto

lemma head_cbor_shorter: "head_cbor bs = Some (major, arg, r) \<Longrightarrow> length r < length bs"
  by (auto simp: head_cbor_def arg_of_def take_cbor_Some Let_def split: list.splits if_splits)

lemma cbor_bounded:
  "cbor_value d bs = Some (v, r) \<Longrightarrow> nodes v + length r \<le> length bs"
  "cbor_items d n bs = Some (vs, r) \<Longrightarrow> sum_list (map nodes vs) + length r \<le> length bs"
  "cbor_pairs d n m bs = Some (m', r) \<Longrightarrow> pair_nodes m' + length r \<le> pair_nodes m + length bs"
proof (induction d bs and d n bs and d n m bs arbitrary: v r and vs r and m' r
    rule: cbor_value_cbor_items_cbor_pairs.induct)
  case (1 d bs)
  have val: "cbor_value d bs = Some (v, r)" by fact
  then obtain major arg r0 where h: "head_cbor bs = Some (major, arg, r0)" and d: "d \<le> 8"
    by (subst (asm) cbor_value.simps) (auto split: if_splits option.splits)
  have r0: "length r0 < length bs" by (rule head_cbor_shorter [OF h])
  from val consider "nodes v = 1" "r = r0" | b where "v = CBytes b \<or> v = CText (string_of b)" "r0 = b @ r"
    | vs where "v = CArr vs" "cbor_items (Suc d) arg r0 = Some (vs, r)" "major = 4" "arg \<le> maxItems"
    | m where "v = CMap m" "cbor_pairs (Suc d) arg [] r0 = Some (m, r)" "major = 5" "arg \<le> maxItems"
    | "cbor_value (Suc d) r0 = Some (v, r)" "major = 6"
    using h d by (subst (asm) cbor_value.simps)
      (auto simp: take_cbor_Some simple_value_def split: if_splits)
  then show ?case
  proof cases
    case 2
    then show ?thesis using r0 by (auto simp: string_of_def)
  next
    case 3
    then show ?thesis using 1(1) [OF _ h] d r0 by fastforce
  next
    case 4
    then show ?thesis using 1(2) [OF _ h] d r0 by fastforce
  next
    case 5
    then show ?thesis using 1(3) [OF _ h] d r0 by fastforce
  qed (use r0 in simp)
next
  case (3 d n bs)
  then show ?case by (fastforce split: option.splits)
next
  case (5 d n m bs)
  from 5(4) obtain k r1 w r2 key where k: "cbor_value d bs = Some (k, r1)" and w: "cbor_value d r1 = Some (w, r2)"
    and key: "key_of k = Some key" and rest: "cbor_pairs d n (AList.update key w m) r2 = Some (m', r)"
    by (auto split: option.splits)
  have "1 + length r1 \<le> length bs" using 5(1) [OF k] by (cases k) auto
  moreover have "nodes w + length r2 \<le> length r1" by (rule 5(2) [OF k refl w])
  moreover have "pair_nodes m' + length r \<le> pair_nodes (AList.update key w m) + length r2"
    by (rule 5(3) [OF k refl w refl key rest])
  ultimately show ?case using pair_nodes_update [of key w m] by linarith
qed auto

section \<open>The guarantee\<close>

text \<open>Reading CBOR undoes writing it: a map of integers, byte strings, texts, arrays and nested maps
  within the reader's limits - a COSE key, an attestation object - is read back exactly from its
  canonical encoding, whatever bytes follow; and whatever bytes come in, the value read never holds
  more nodes and payload bytes than the input had, so a few bytes that announce a huge array make
  the reader allocate nothing.\<close>

theorem cbor_map_roundtrip:
  "(fits 0 (CMap m) \<longrightarrow> decodeCBORMap (enc_cbor (CMap m) @ r) = Some m) \<and>
   (decodeCBORMap b = Some m' \<longrightarrow> nodes (CMap m') \<le> length b)"
proof (intro conjI impI)
  assume "fits 0 (CMap m)"
  then show "decodeCBORMap (enc_cbor (CMap m) @ r) = Some m"
    using cbor_value_roundtrip [of 0 "CMap m" r] by (simp add: decodeCBORMap_def)
next
  assume "decodeCBORMap b = Some m'"
  then obtain r' where "cbor_value 0 b = Some (CMap m', r')"
    by (auto simp: decodeCBORMap_def split: option.splits prod.splits cval.splits)
  from cbor_bounded(1) [OF this] show "nodes (CMap m') \<le> length b" by simp
qed

theorem cbor_map_roundtrip_witness:
  "decodeCBORMap (enc_cbor (CMap [(KInt 1, CInt 2), (KInt 3, CInt (-7)), (KInt (-1), CBytes [9])]) @ [0xFF]) =
     Some [(KInt 1, CInt 2), (KInt 3, CInt (-7)), (KInt (-1), CBytes [9])]"
  using cbor_map_roundtrip [of "[(KInt 1, CInt 2), (KInt 3, CInt (-7)), (KInt (-1), CBytes [9])]" "[0xFF]"]
  by (simp add: int64_def max_int64_def maxItems_def)

end
