(* ===== verification/Webauthn.thy ===== *)
theory Webauthn
  imports World Cbor Json_Read
begin

text \<open>
  \<open>internal/mfa/webauthn/webauthn.go\<close>: the server half of WebAuthn, registration and assertion.

  SHA-256, ECDSA over P-256 and RSASSA-PKCS1-v1_5 are fields of the environment.  A key's
  coordinates and modulus are natural numbers, as \<open>big.Int.SetBytes\<close> makes them; the RSA exponent
  is a Go \<open>int\<close> and wraps.
\<close>

section \<open>Configuration and messages\<close>

datatype wa_error = ErrChallenge | ErrOrigin | ErrRPID | ErrNotPresent | ErrSignature | ErrCloned | ErrMalformed

record wa_config =
  wc_rpid :: string
  wc_origin :: string
  wc_name :: string

record registration_options =
  ro_challenge :: string
  ro_rp_id :: string
  ro_rp_name :: string
  ro_user_id :: string
  ro_user_name :: string
  ro_display :: string
  ro_algs :: "int list"
  ro_timeout :: int
  ro_verification :: string
  ro_resident :: string
  ro_require_resident :: bool
  ro_attestation :: string
  ro_exclude :: "string list"

record reg_response =
  rr_client_data :: string
  rr_attestation :: string

record assertion_options =
  ao_challenge :: string
  ao_timeout :: int
  ao_rpid :: string
  ao_allow :: "string list"
  ao_verification :: string

record assertion_response =
  ar_client_data :: string
  ar_auth_data :: string
  ar_signature :: string

record credential =
  cd_id :: bytes
  cd_key :: bytes
  cd_count :: "32 word"

definition algES256 :: int where "algES256 = -7"
definition algRS256 :: int where "algRS256 = -257"

section \<open>Base64 for URLs\<close>

definition b64 :: "bytes \<Rightarrow> string" where
  "b64 bs = b64_encode b64_url bs"

text \<open>\<open>base64.URLEncoding\<close>: padding completes the last group of four, and nothing follows it.\<close>

definition b64_padded :: "string \<Rightarrow> bytes option" where
  "b64_padded s =
     (let t = filter (\<lambda>c. byte_val c \<noteq> 10 \<and> byte_val c \<noteq> 13) s;
          ds = takeWhile (\<lambda>c. c \<noteq> CHR ''='') t;
          ps = drop (length ds) t in
      if ps \<in> {[], ''='', ''==''} \<and> length t mod 4 = 0 then b64_decode b64_url ds else None)"

definition unb64 :: "string \<Rightarrow> bytes option" where
  "unb64 s = (case b64_decode b64_url s of Some b \<Rightarrow> Some b | None \<Rightarrow> b64_padded s)"

section \<open>Challenges\<close>

definition NewChallenge :: "int \<Rightarrow> int \<Rightarrow> challenge option act" where
  "NewChallenge uid ttl = do {
     rnd \<leftarrow> read_rand 32;
     case rnd of None \<Rightarrow> ret None
     | Some b \<Rightarrow> do {
         now \<leftarrow> read_clock;
         ret (Some \<lparr>ch_value = b, ch_user = uid, ch_expires = now + ttl\<rparr>)
       }
   }"

definition Expired :: "time \<Rightarrow> challenge \<Rightarrow> bool" where
  "Expired now ch \<longleftrightarrow> ch_expires ch < now"

definition be64 :: "int \<Rightarrow> bytes" where
  "be64 i = be_digits 8 (nat (i mod 2 ^ 64))"

definition BeginRegistration :: "wa_config \<Rightarrow> challenge \<Rightarrow> int \<Rightarrow> string \<Rightarrow> string \<Rightarrow> bytes list \<Rightarrow> registration_options" where
  "BeginRegistration c ch uid username display existing =
     \<lparr>ro_challenge = b64 (ch_value ch), ro_rp_id = wc_rpid c, ro_rp_name = wc_name c,
      ro_user_id = b64 (be64 uid), ro_user_name = username, ro_display = display,
      ro_algs = [algES256, algRS256], ro_timeout = 120000,
      ro_verification = ''preferred'', ro_resident = ''preferred'', ro_require_resident = False,
      ro_attestation = ''none'', ro_exclude = map b64 existing\<rparr>"

definition BeginAssertion :: "wa_config \<Rightarrow> challenge \<Rightarrow> bytes list \<Rightarrow> assertion_options" where
  "BeginAssertion c ch allowed =
     \<lparr>ao_challenge = b64 (ch_value ch), ao_timeout = 120000, ao_rpid = wc_rpid c,
      ao_allow = map b64 allowed, ao_verification = ''preferred''\<rparr>"

section \<open>Client data and authenticator data\<close>

definition client_data_shape :: shape where
  "client_data_shape = SStruct [(''type'', SString), (''challenge'', SString), (''origin'', SString)]"

definition checkClientData :: "wa_config \<Rightarrow> bytes \<Rightarrow> bytes \<Rightarrow> string \<Rightarrow> wa_error + unit" where
  "checkClientData c raw challenge wantType =
     (case unmarshal client_data_shape (string_of raw) of
        None \<Rightarrow> Inl ErrMalformed
      | Some cd \<Rightarrow>
          if str_field ''type'' cd \<noteq> wantType then Inl ErrMalformed
          else case unb64 (str_field ''challenge'' cd) of
            None \<Rightarrow> Inl ErrMalformed
          | Some got \<Rightarrow>
              if got \<noteq> challenge then Inl ErrChallenge
              else if str_field ''origin'' cd \<noteq> wc_origin c then Inl ErrOrigin
              else Inr ())"

record auth_data =
  ad_rpid :: bytes
  ad_flags :: byte
  ad_count :: "32 word"
  ad_cred :: "bytes option"
  ad_key :: "bytes option"

definition flagUserPresent :: byte where "flagUserPresent = 0x01"
definition flagUserVerified :: byte where "flagUserVerified = 0x04"
definition flagAttestedData :: byte where "flagAttestedData = 0x40"

definition parseAuthData :: "bytes \<Rightarrow> wa_error + auth_data" where
  "parseAuthData b =
     (if length b < 37 then Inl ErrMalformed
      else let a = \<lparr>ad_rpid = take 32 b, ad_flags = b ! 32, ad_count = get_be32 (drop 33 b),
                    ad_cred = None, ad_key = None\<rparr>;
               rest = drop 37 b in
        if ad_flags a AND flagAttestedData = 0 then Inr a
        else if length rest < 18 then Inl ErrMalformed
        else let idLen = unat (get_be16 (drop 16 rest)) in
          if idLen = 0 \<or> 1023 < idLen \<or> length rest < 18 + idLen then Inl ErrMalformed
          else Inr (a\<lparr>ad_cred := Some (take idLen (drop 18 rest)), ad_key := Some (drop (18 + idLen) rest)\<rparr>))"

definition checkAuthData :: "env \<Rightarrow> wa_config \<Rightarrow> auth_data \<Rightarrow> wa_error + unit" where
  "checkAuthData E c a =
     (if ad_rpid a \<noteq> x_sha256 E (bytes_of (wc_rpid c)) then Inl ErrRPID
      else if ad_flags a AND flagUserPresent = 0 then Inl ErrNotPresent
      else Inr ())"

section \<open>Public keys\<close>

datatype public_key = EcKey nat nat | RsaKey nat int

definition int_label :: "(ckey \<times> cval) list \<Rightarrow> int \<Rightarrow> int" where
  "int_label m l = (case map_of m (KInt l) of Some (CInt i) \<Rightarrow> i | _ \<Rightarrow> 0)"

definition bytes_label :: "(ckey \<times> cval) list \<Rightarrow> int \<Rightarrow> bytes option" where
  "bytes_label m l = (case map_of m (KInt l) of Some (CBytes b) \<Rightarrow> Some b | _ \<Rightarrow> None)"

text \<open>\<open>exp<<8 | int(x)\<close> on a 64-bit \<open>int\<close>: the shifted value ends in a zero byte.\<close>

definition rsa_exponent :: "bytes \<Rightarrow> int" where
  "rsa_exponent e = foldl (\<lambda>v b. wrap64 (v * 256) + int (unat b)) 0 e"

definition parseCOSEKey :: "bytes \<Rightarrow> wa_error + public_key" where
  "parseCOSEKey b =
     (case decodeCBORMap b of None \<Rightarrow> Inl ErrMalformed
      | Some m \<Rightarrow>
        (let kty = int_label m 1; alg = int_label m 3 in
         if kty = 2 \<and> alg = algES256 then
           (case (bytes_label m (-2), bytes_label m (-3)) of
              (Some x, Some y) \<Rightarrow>
                if length x \<noteq> 32 \<or> length y \<noteq> 32 then Inl ErrMalformed
                else Inr (EcKey (be_value x) (be_value y))
            | _ \<Rightarrow> Inl ErrMalformed)
         else if kty = 3 \<and> alg = algRS256 then
           (case (bytes_label m (-1), bytes_label m (-2)) of
              (Some n, Some e) \<Rightarrow>
                if n = [] \<or> e = [] then Inl ErrMalformed
                else Inr (RsaKey (be_value n) (rsa_exponent e))
            | _ \<Rightarrow> Inl ErrMalformed)
         else Inl ErrMalformed))"

fun verify_sig :: "env \<Rightarrow> public_key \<Rightarrow> bytes \<Rightarrow> bytes \<Rightarrow> wa_error + unit" where
  "verify_sig E (EcKey x y) msg sig =
     (if x_es256 E x y (x_sha256 E msg) sig then Inr () else Inl ErrSignature)"
| "verify_sig E (RsaKey n e) msg sig =
     (if x_rs256 E n e (x_sha256 E msg) sig then Inr () else Inl ErrSignature)"

section \<open>Registration and assertion\<close>

definition verify_registration :: "env \<Rightarrow> wa_config \<Rightarrow> bytes \<Rightarrow> reg_response \<Rightarrow> wa_error + credential" where
  "verify_registration E c challenge resp =
     (case unb64 (rr_client_data resp) of None \<Rightarrow> Inl ErrMalformed
      | Some cd \<Rightarrow>
        (case checkClientData c cd challenge ''webauthn.create'' of Inl e \<Rightarrow> Inl e
         | Inr _ \<Rightarrow>
           (case unb64 (rr_attestation resp) of None \<Rightarrow> Inl ErrMalformed
            | Some att \<Rightarrow>
              (case extractAuthData att of None \<Rightarrow> Inl ErrMalformed
               | Some raw \<Rightarrow>
                 (case parseAuthData raw of Inl e \<Rightarrow> Inl e
                  | Inr a \<Rightarrow>
                    (case checkAuthData E c a of Inl e \<Rightarrow> Inl e
                     | Inr _ \<Rightarrow>
                       (case (ad_cred a, ad_key a) of
                          (Some i, Some k) \<Rightarrow>
                            (case parseCOSEKey k of Inl e \<Rightarrow> Inl e
                             | Inr _ \<Rightarrow> Inr \<lparr>cd_id = i, cd_key = k, cd_count = ad_count a\<rparr>)
                        | _ \<Rightarrow> Inl ErrMalformed)))))))"

definition FinishRegistration ::
    "env \<Rightarrow> wa_config \<Rightarrow> challenge option \<Rightarrow> reg_response \<Rightarrow> (wa_error + credential) act" where
  "FinishRegistration E c pending resp =
     (case pending of None \<Rightarrow> ret (Inl ErrChallenge)
      | Some ch \<Rightarrow> do {
          now \<leftarrow> read_clock;
          ret (if Expired now ch then Inl ErrChallenge else verify_registration E c (ch_value ch) resp)
        })"

text \<open>Zero on both sides means the authenticator keeps no counter.\<close>

definition counter_advances :: "32 word \<Rightarrow> 32 word \<Rightarrow> bool" where
  "counter_advances stored fresh \<longleftrightarrow> (stored = 0 \<and> fresh = 0) \<or> stored < fresh"

definition verify_assertion ::
    "env \<Rightarrow> wa_config \<Rightarrow> bytes \<Rightarrow> assertion_response \<Rightarrow> bytes \<Rightarrow> 32 word \<Rightarrow> wa_error + 32 word" where
  "verify_assertion E c challenge resp pk stored =
     (case unb64 (ar_client_data resp) of None \<Rightarrow> Inl ErrMalformed
      | Some cd \<Rightarrow>
        (case checkClientData c cd challenge ''webauthn.get'' of Inl e \<Rightarrow> Inl e
         | Inr _ \<Rightarrow>
           (case unb64 (ar_auth_data resp) of None \<Rightarrow> Inl ErrMalformed
            | Some raw \<Rightarrow>
              (case parseAuthData raw of Inl e \<Rightarrow> Inl e
               | Inr a \<Rightarrow>
                 (case checkAuthData E c a of Inl e \<Rightarrow> Inl e
                  | Inr _ \<Rightarrow>
                    (case unb64 (ar_signature resp) of None \<Rightarrow> Inl ErrMalformed
                     | Some sig \<Rightarrow>
                       (case parseCOSEKey pk of Inl e \<Rightarrow> Inl e
                        | Inr k \<Rightarrow>
                          (case verify_sig E k (raw @ x_sha256 E cd) sig of Inl e \<Rightarrow> Inl e
                           | Inr _ \<Rightarrow>
                             if counter_advances stored (ad_count a) then Inr (ad_count a)
                             else Inl ErrCloned))))))))"

definition FinishAssertion ::
    "env \<Rightarrow> wa_config \<Rightarrow> challenge option \<Rightarrow> assertion_response \<Rightarrow> bytes \<Rightarrow> 32 word \<Rightarrow> (wa_error + 32 word) act" where
  "FinishAssertion E c pending resp pk stored =
     (case pending of None \<Rightarrow> ret (Inl ErrChallenge)
      | Some ch \<Rightarrow> do {
          now \<leftarrow> read_clock;
          ret (if Expired now ch then Inl ErrChallenge else verify_assertion E c (ch_value ch) resp pk stored)
        })"

end
