(* ===== verification/Portal_Login.thy ===== *)
theory Portal_Login
  imports Http Login_Policy Webauthn Decimal
begin

text \<open>
  Signing in to the portal: the login, second-factor and log-out handlers of \<open>internal/api/api.go\<close>
  and the passkey handlers of \<open>internal/api/webauthn.go\<close>.  The challenge store is part of the world.
\<close>

section \<open>Second factors\<close>

definition backup_marks :: string where
  "backup_marks = ''-ABCDEFGHJKLMNPQRSTUVWXYZabcdefghjklmnpqrstuvwxyz''"

definition verify_totp :: "env \<Rightarrow> portal \<Rightarrow> user \<Rightarrow> string \<Rightarrow> bool act" where
  "verify_totp E P u code =
     (if u_totp_secret u = [] then ret False
      else case Open E (pt_sealer P) (totp_label u) (u_totp_secret u) of
        Inl _ \<Rightarrow> ret False
      | Inr secret \<Rightarrow> do {
          now \<leftarrow> read_clock;
          case Verify E (pt_totp_skew P) (string_of secret) code (u_totp_counter u) now of
            Inl _ \<Rightarrow> ret False
          | Inr c \<Rightarrow> do { r \<leftarrow> exec (ClaimTOTPCounter (u_id u) c); ret (r = Inr ()) }
        })"

definition verifySecondFactor :: "env \<Rightarrow> portal \<Rightarrow> user \<Rightarrow> string \<Rightarrow> bool act" where
  "verifySecondFactor E P u raw =
     (let code = trim_space raw in
      if code = [] then ret False
      else if length (NormalizeBackupCode E code) = 10 \<and> (\<exists>c \<in> set code. c \<in> set backup_marks)
      then consumeBackupCode E u (NormalizeBackupCode E code)
      else verify_totp E P u code)"

definition hasBackupCodes :: "user \<Rightarrow> bool act" where
  "hasBackupCodes u = do {
     n \<leftarrow> query (\<lambda>d. Inr (CountBackupCodes (u_id u) d));
     ret (case n of Inr k \<Rightarrow> 0 < k | Inl _ \<Rightarrow> False)
   }"

definition methodsFor :: "user \<Rightarrow> string list act" where
  "methodsFor u = do {
     b \<leftarrow> hasBackupCodes u;
     ret ((if u_totp_secret u \<noteq> [] then [''totp''] else []) @ (if b then [''backup''] else []))
   }"

section \<open>Login\<close>

definition sign_in :: "env \<Rightarrow> portal \<Rightarrow> request \<Rightarrow> user \<Rightarrow> (string \<times> string) list option \<Rightarrow> (string \<times> json) list \<Rightarrow> response act" where
  "sign_in E P r u note fs = do {
     s \<leftarrow> Start E (pt_auth P) (u_id u) StageFull (ip_string (clientIP P r)) (user_agent r);
     case s of
       Inl _ \<Rightarrow> serverError
     | Inr tok \<Rightarrow> do {
         (case note of None \<Rightarrow> ret ()
          | Some detail \<Rightarrow> audit (u_username u) ''login.ok'' [] (clientIP P r) detail);
         csrf \<leftarrow> NewCSRFToken (secure P r);
         send (SetSessionCookie tok (o_ttl (pt_auth P)) (secure P r) # snd csrf) (fs @ [(''csrf'', JStr (fst csrf))])
       }
   }"

definition login_shape :: shape where
  "login_shape = SStruct [(''username'', SString), (''password'', SString)]"

definition start_session :: "env \<Rightarrow> portal \<Rightarrow> request \<Rightarrow> user \<Rightarrow> bool \<Rightarrow> response act" where
  "start_session E P r u nothing_enrolled =
     (if nothing_enrolled then
       (if pt_require_factor P then do {
          audit (u_username u) ''login.fail'' [] (clientIP P r) [(''reason'', ''no second factor enrolled'')];
          fail_with 403 (''this account has no second factor set up, and one is required. '' @
            ''Set it up under Settings, or ask an administrator to turn the requirement off.'')
        }
        else sign_in E P r u (Some [(''second_factor'', ''false'')]) [(''stage'', JStr ''full'')])
      else do {
       s \<leftarrow> Start E (pt_auth P) (u_id u) StagePending (ip_string (clientIP P r)) (user_agent r);
       case s of
         Inl _ \<Rightarrow> serverError
       | Inr tok \<Rightarrow> do {
           csrf \<leftarrow> NewCSRFToken (secure P r);
           ms \<leftarrow> methodsFor u;
           send (SetSessionCookie tok (seconds 300) (secure P r) # snd csrf)
             [(''stage'', JStr ''mfa''), (''methods'', JArr (map JStr ms)), (''csrf'', JStr (fst csrf))]
         }
      })"

definition nothing_enrolled :: "user \<Rightarrow> bool act" where
  "nothing_enrolled u =
     (if u_totp_secret u \<noteq> [] then ret False else do { b \<leftarrow> hasBackupCodes u; ret (\<not> b) })"

definition password_accepted :: "env \<Rightarrow> portal \<Rightarrow> request \<Rightarrow> user \<Rightarrow> response act" where
  "password_accepted E P r u = do {
     audit (u_username u) ''login.ok'' [] (clientIP P r) [];
     none \<leftarrow> nothing_enrolled u;
     start_session E P r u none
   }"

definition handleLogin :: "env \<Rightarrow> portal \<Rightarrow> handler" where
  "handleLogin E P r =
     (case decode login_shape r of None \<Rightarrow> fail_with 400 ''malformed request body''
      | Some req \<Rightarrow>
        (let name = str_field ''username'' req; src = clientIP P r in do {
           c \<leftarrow> CheckPassword E (pt_auth P) name (str_field ''password'' req) (ip_string src);
           case c of
             Inl e \<Rightarrow>
               if e = ErrLockedOut then do {
                 audit name ''lockout'' [] src [];
                 fail_with 429 ''too many attempts, try again later''
               }
               else do {
                 audit name ''login.fail'' [] src [];
                 fail_with 401 ''wrong username or password''
               }
           | Inr u \<Rightarrow> password_accepted E P r u
         }))"

section \<open>Second step\<close>

definition mfa_shape :: shape where
  "mfa_shape = SStruct [(''code'', SString)]"

definition promote_session :: "env \<Rightarrow> portal \<Rightarrow> request \<Rightarrow> user \<Rightarrow> response act" where
  "promote_session E P r u = do {
     full \<leftarrow> Promote E (pt_auth P) (SessionToken r) (u_id u) (ip_string (clientIP P r)) (user_agent r);
     case full of
       Inl _ \<Rightarrow> serverError
     | Inr tok \<Rightarrow> do {
         csrf \<leftarrow> NewCSRFToken (secure P r);
         send (SetSessionCookie tok (o_ttl (pt_auth P)) (secure P r) # snd csrf)
           [(''stage'', JStr ''full''), (''csrf'', JStr (fst csrf))]
       }
   }"

definition check_code :: "env \<Rightarrow> portal \<Rightarrow> request \<Rightarrow> string \<Rightarrow> user \<Rightarrow> response act" where
  "check_code E P r code u =
     (let src = clientIP P r in do {
      l \<leftarrow> locked (LockMFA (u_username u));
      if fst l then fail_with 429 ''too many attempts, try again later''
      else do {
        ok \<leftarrow> verifySecondFactor E P u code;
        if \<not> ok then do {
          fail (pt_auth P) (LockMFA (u_username u));
          fail (pt_auth P) (LockIP (ip_string src));
          audit (u_username u) ''mfa.fail'' [] src [];
          fail_with 401 ''code is not valid''
        }
        else do {
          succeed (LockMFA (u_username u));
          succeed (LockIP (ip_string src));
          audit (u_username u) ''mfa.ok'' [] src [];
          promote_session E P r u
        }
      }
    })"

definition handleMFA :: "env \<Rightarrow> portal \<Rightarrow> handler" where
  "handleMFA E P r =
     (if \<not> CheckCSRF r then fail_with 403 ''csrf token missing or wrong''
      else case decode mfa_shape r of None \<Rightarrow> fail_with 400 ''malformed request body''
      | Some req \<Rightarrow> do {
          s \<leftarrow> Lookup E (pt_auth P) (SessionToken r) StagePending (ip_string (clientIP P r));
          case s of
            Inl _ \<Rightarrow> fail_with 401 ''login step expired, start again''
          | Inr sess \<Rightarrow> do {
              ru \<leftarrow> query (UserByID (se_user sess));
              case get_user ru of
                None \<Rightarrow> fail_with 401 ''account is not active''
              | Some u \<Rightarrow> check_code E P r (str_field ''code'' req) u
            }
        })"

definition handleLogout :: "env \<Rightarrow> portal \<Rightarrow> handler" where
  "handleLogout E P r = do {
     _ \<leftarrow> Destroy E (SessionToken r) StageFull;
     _ \<leftarrow> Destroy E (SessionToken r) StagePending;
     send (ClearSessionCookie (secure P r)) [(''ok'', JBool True)]
   }"

definition handleMe :: "user \<Rightarrow> handler" where
  "handleMe u r = send []
     [(''username'', JStr (u_username u)), (''display_name'', JStr (u_display u)), (''role'', JStr (u_role u)),
      (''totp_enrolled'', JBool (u_totp_secret u \<noteq> []))]"

section \<open>Challenges\<close>

definition challengeTTL :: int where
  "challengeTTL = seconds 120"

text \<open>\<open>put\<close> drops what has expired, then stores; each entry is compared with its own clock reading,
  which the model takes once.\<close>

definition put_challenge :: "challenge_key \<Rightarrow> challenge \<Rightarrow> unit act" where
  "put_challenge k ch = do {
     now \<leftarrow> read_clock;
     m \<leftarrow> get_challenges;
     put_challenges ((\<lambda>x. case m x of Some c \<Rightarrow> if Expired now c then None else Some c | None \<Rightarrow> None)(k \<mapsto> ch))
   }"

definition take_challenge :: "challenge_key \<Rightarrow> challenge option act" where
  "take_challenge k = do { m \<leftarrow> get_challenges; put_challenges (m(k := None)); ret (m k) }"

text \<open>\<open>itoa\<close> prints nothing for a negative number.\<close>

definition itoa :: "int \<Rightarrow> string" where
  "itoa n = (if n < 0 then [] else decimal (nat n))"

definition challengeKey :: "string \<Rightarrow> int \<Rightarrow> ip \<Rightarrow> challenge_key" where
  "challengeKey kind uid a = (kind, ip_string a, itoa uid)"

definition hostOnly :: "string \<Rightarrow> string" where
  "hostOnly hp = (case SplitHostPort hp of Some (h, _) \<Rightarrow> h | None \<Rightarrow> hp)"

definition webauthnConfig :: "portal \<Rightarrow> request \<Rightarrow> wa_config" where
  "webauthnConfig P r =
     (let scheme = (if secure P r then ''https'' else ''http'') in
      \<lparr>wc_rpid = hostOnly (rq_host r), wc_origin = scheme @ ''://'' @ rq_host r, wc_name = ''Revpd''\<rparr>)"

section \<open>Passkey registration\<close>

definition descriptors :: "string list \<Rightarrow> json" where
  "descriptors xs = JArr (map (\<lambda>i. JObj [(''type'', JStr ''public-key''), (''id'', JStr i)]) xs)"

definition registration_json :: "registration_options \<Rightarrow> (string \<times> json) list" where
  "registration_json o' =
     [(''challenge'', JStr (ro_challenge o')),
      (''rp'', JObj [(''id'', JStr (ro_rp_id o')), (''name'', JStr (ro_rp_name o'))]),
      (''user'', JObj [(''id'', JStr (ro_user_id o')), (''name'', JStr (ro_user_name o')),
                       (''displayName'', JStr (ro_display o'))]),
      (''pubKeyCredParams'', JArr (map (\<lambda>a. JObj [(''type'', JStr ''public-key''), (''alg'', JInt a)]) (ro_algs o'))),
      (''timeout'', JInt (ro_timeout o')),
      (''authenticatorSelection'', JObj [(''userVerification'', JStr (ro_verification o')),
         (''residentKey'', JStr (ro_resident o')), (''requireResidentKey'', JBool (ro_require_resident o'))]),
      (''attestation'', JStr (ro_attestation o')),
      (''excludeCredentials'', descriptors (ro_exclude o'))]"

definition handlePasskeyRegisterBegin :: "portal \<Rightarrow> user \<Rightarrow> handler" where
  "handlePasskeyRegisterBegin P u r = do {
     c \<leftarrow> NewChallenge (u_id u) challengeTTL;
     case c of None \<Rightarrow> serverError
     | Some ch \<Rightarrow> do {
         ks \<leftarrow> query (\<lambda>d. Inr (PasskeysFor (u_id u) d));
         case ks of
           Inl _ \<Rightarrow> serverError
         | Inr existing \<Rightarrow> do {
             put_challenge (challengeKey ''reg'' (u_id u) (clientIP P r)) ch;
             send [] (registration_json (BeginRegistration (webauthnConfig P r) ch (u_id u) (u_username u)
               (if u_display u = [] then u_username u else u_display u) (map k_cred existing)))
           }
       }
   }"

definition reg_response_shape :: shape where
  "reg_response_shape = SStruct
     [(''id'', SString), (''rawId'', SString), (''type'', SString),
      (''response'', SStruct [(''clientDataJSON'', SString), (''attestationObject'', SString)])]"

definition register_shape :: shape where
  "register_shape = SStruct [(''name'', SString), (''credential'', reg_response_shape)]"

definition reg_response_of :: "goval \<Rightarrow> reg_response" where
  "reg_response_of g =
     (let r = struct_field ''response'' g in
      \<lparr>rr_client_data = str_field ''clientDataJSON'' r, rr_attestation = str_field ''attestationObject'' r\<rparr>)"

definition handlePasskeyRegisterFinish :: "env \<Rightarrow> portal \<Rightarrow> user \<Rightarrow> handler" where
  "handlePasskeyRegisterFinish E P u r =
     (case decode register_shape r of None \<Rightarrow> fail_with 400 ''malformed request body''
      | Some req \<Rightarrow> do {
          ch \<leftarrow> take_challenge (challengeKey ''reg'' (u_id u) (clientIP P r));
          c \<leftarrow> FinishRegistration E (webauthnConfig P r) ch (reg_response_of (struct_field ''credential'' req));
          case c of
            Inl _ \<Rightarrow> fail_with 400 ''the passkey could not be verified''
          | Inr cred \<Rightarrow>
            (let name = (if str_field ''name'' req = [] then ''Passkey'' else str_field ''name'' req) in do {
              stamp \<leftarrow> read_clock;
              a \<leftarrow> insert_row (AddPasskey (unix stamp) \<lparr>k_id = 0, k_user = u_id u, k_cred = cd_id cred,
                     k_key = cd_key cred, k_count = cd_count cred, k_name = name, k_created = 0\<rparr>);
              case a of
                Inl _ \<Rightarrow> fail_with 409 ''this passkey is already registered''
              | Inr _ \<Rightarrow> do {
                  audit (u_username u) ''enroll.passkey'' [] (clientIP P r) [(''name'', name)];
                  send [] [(''ok'', JBool True), (''name'', JStr name)]
                }
            })
        })"

definition handlePasskeyList :: "user \<Rightarrow> handler" where
  "handlePasskeyList u r = do {
     ks \<leftarrow> query (\<lambda>d. Inr (PasskeysFor (u_id u) d));
     case ks of
       Inl _ \<Rightarrow> serverError
     | Inr existing \<Rightarrow>
         send [] [(''passkeys'', JArr (map (\<lambda>k. JObj [(''id'', JInt (k_id k)), (''name'', JStr (k_name k)),
           (''created_at'', JStr (rfc3339 (k_created k)))]) existing))]
   }"

definition handlePasskeyDelete :: "user \<Rightarrow> handler" where
  "handlePasskeyDelete u r =
     (case pathID r of None \<Rightarrow> fail_with 400 ''invalid id''
      | Some i \<Rightarrow> do {
          sole \<leftarrow> (if u_totp_secret u = [] then do {
                     n \<leftarrow> query (\<lambda>d. Inr (CountPasskeys (u_id u) d));
                     ret (case n of Inr k \<Rightarrow> k \<le> 1 | Inl _ \<Rightarrow> False)
                   } else ret False);
          if sole then
            fail_with 409 (''this is the only second factor left '' @ utf8 0x2014 @ '' set up an authenticator app first'')
          else do {
            d \<leftarrow> exec (DeletePasskey (u_id u) i);
            case d of Inl _ \<Rightarrow> serverError | Inr _ \<Rightarrow> send [] [(''ok'', JBool True)]
          }
        })"

section \<open>Passkey login\<close>

definition allowed_for :: "user option \<Rightarrow> bytes list act" where
  "allowed_for ou =
     (case ou of None \<Rightarrow> ret []
      | Some u \<Rightarrow> do {
          ks \<leftarrow> query (\<lambda>d. Inr (PasskeysFor (u_id u) d));
          ret (case ks of Inr existing \<Rightarrow> map k_cred existing | Inl _ \<Rightarrow> [])
        })"

definition assertion_json :: "assertion_options \<Rightarrow> json" where
  "assertion_json a = JObj
     [(''challenge'', JStr (ao_challenge a)), (''timeout'', JInt (ao_timeout a)), (''rpId'', JStr (ao_rpid a)),
      (''allowCredentials'', descriptors (ao_allow a)), (''userVerification'', JStr (ao_verification a))]"

definition begin_shape :: shape where
  "begin_shape = SStruct [(''username'', SString)]"

definition handlePasskeyLoginBegin :: "portal \<Rightarrow> handler" where
  "handlePasskeyLoginBegin P r =
     (case decode begin_shape r of None \<Rightarrow> fail_with 400 ''malformed request body''
      | Some req \<Rightarrow> do {
          ru \<leftarrow> query (UserByName (str_field ''username'' req));
          allowed \<leftarrow> allowed_for (get_user ru);
          c \<leftarrow> NewChallenge (case get_user ru of Some u \<Rightarrow> u_id u | None \<Rightarrow> 0) challengeTTL;
          case c of None \<Rightarrow> serverError
          | Some ch \<Rightarrow> do {
              put_challenge (challengeKey ''login'' 0 (clientIP P r)) ch;
              csrf \<leftarrow> NewCSRFToken (secure P r);
              send (snd csrf) [(''options'', assertion_json (BeginAssertion (webauthnConfig P r) ch allowed)),
                (''csrf'', JStr (fst csrf))]
            }
        })"

definition assertion_shape :: shape where
  "assertion_shape = SStruct
     [(''id'', SString), (''rawId'', SString), (''type'', SString),
      (''response'', SStruct [(''clientDataJSON'', SString), (''authenticatorData'', SString),
                              (''signature'', SString), (''userHandle'', SString)])]"

definition finish_shape :: shape where
  "finish_shape = SStruct [(''credential'', assertion_shape)]"

definition assertion_of :: "goval \<Rightarrow> assertion_response" where
  "assertion_of g =
     (let r = struct_field ''response'' g in
      \<lparr>ar_client_data = str_field ''clientDataJSON'' r, ar_auth_data = str_field ''authenticatorData'' r,
       ar_signature = str_field ''signature'' r\<rparr>)"

definition decodeCredentialID :: "string \<Rightarrow> string \<Rightarrow> bytes option" where
  "decodeCredentialID rawID i = (if rawID \<noteq> [] then unb64 rawID else unb64 i)"

definition refuse_passkey :: "portal \<Rightarrow> ip \<Rightarrow> response act" where
  "refuse_passkey P src = do {
     fail (pt_auth P) (LockIP (ip_string src));
     fail_with 401 ''the passkey could not be verified''
   }"

definition passkey_accepted :: "env \<Rightarrow> portal \<Rightarrow> request \<Rightarrow> passkey \<Rightarrow> 32 word \<Rightarrow> response act" where
  "passkey_accepted E P r k count = do {
     ru \<leftarrow> query (UserByID (k_user k));
     case get_user ru of
       None \<Rightarrow> fail_with 401 ''account is not active''
     | Some u \<Rightarrow> do {
         up \<leftarrow> exec (UpdateSignCount (k_id k) count);
         case up of
           Inl _ \<Rightarrow> serverError
         | Inr _ \<Rightarrow> do {
             succeed (LockIP (ip_string (clientIP P r)));
             audit (u_username u) ''mfa.ok'' [] (clientIP P r) [(''via'', ''passkey''), (''key'', k_name k)];
             sign_in E P r u None [(''stage'', JStr ''full'')]
           }
       }
   }"

definition finish_passkey :: "env \<Rightarrow> portal \<Rightarrow> request \<Rightarrow> goval \<Rightarrow> response act" where
  "finish_passkey E P r cred =
     (let src = clientIP P r in do {
      ch \<leftarrow> take_challenge (challengeKey ''login'' 0 src);
      case decodeCredentialID (str_field ''rawId'' cred) (str_field ''id'' cred) of
        None \<Rightarrow> refuse_passkey P src
      | Some rawID \<Rightarrow> do {
          rk \<leftarrow> query (PasskeyByCredentialID rawID);
          case rk of
            Inl _ \<Rightarrow> refuse_passkey P src
          | Inr k \<Rightarrow> do {
              v \<leftarrow> FinishAssertion E (webauthnConfig P r) ch (assertion_of cred) (k_key k) (k_count k);
              case v of
                Inl _ \<Rightarrow> do {
                  fail (pt_auth P) (LockIP (ip_string src));
                  audit [] ''mfa.fail'' [] src [(''via'', ''passkey'')];
                  fail_with 401 ''the passkey could not be verified''
                }
              | Inr count \<Rightarrow> passkey_accepted E P r k count
            }
        }
    })"

definition handlePasskeyLoginFinish :: "env \<Rightarrow> portal \<Rightarrow> handler" where
  "handlePasskeyLoginFinish E P r =
     (if \<not> CheckCSRF r then fail_with 403 ''csrf token missing or wrong''
      else case decode finish_shape r of None \<Rightarrow> fail_with 400 ''malformed request body''
      | Some req \<Rightarrow> do {
          l \<leftarrow> locked (LockIP (ip_string (clientIP P r)));
          if fst l then fail_with 429 ''too many attempts, try again later''
          else finish_passkey E P r (struct_field ''credential'' req)
        })"

end
