(* ===== verification/Portal_Admin.thy ===== *)
theory Portal_Admin
  imports Portal_Login
begin

text \<open>
  First-run set-up (\<open>internal/api/setup.go\<close>) and the administrator's handlers of
  \<open>internal/api/api.go\<close>: accounts, their access, targets.
\<close>

section \<open>Set-up\<close>

definition setupNeeded :: "(store_error + bool) act" where
  "setupNeeded = query (\<lambda>d. Inr (users d = []))"

definition openDuringSetup :: "handler \<Rightarrow> handler" where
  "openDuringSetup h r = do {
     n \<leftarrow> setupNeeded;
     case n of
       Inl _ \<Rightarrow> serverError
     | Inr needed \<Rightarrow>
         if \<not> needed then fail_with 404 ''not found''
         else if \<not> CheckCSRF r then fail_with 403 ''csrf token missing or wrong''
         else h r
   }"

definition setupCompleteKey :: string where
  "setupCompleteKey = ''setup.completed''"

definition handleSetupComplete :: "user \<Rightarrow> handler" where
  "handleSetupComplete u r = do {
     stamp \<leftarrow> read_clock;
     s \<leftarrow> exec (SetBoolSetting (unix stamp) setupCompleteKey True (u_username u));
     case s of Inl _ \<Rightarrow> serverError | Inr _ \<Rightarrow> send [] [(''ok'', JBool True)]
   }"

datatype setup_error = SetupClosed | SetupFailed

definition first_admin :: "string \<Rightarrow> string \<Rightarrow> string \<Rightarrow> user" where
  "first_admin username display hash =
     \<lparr>u_id = 0, u_username = username, u_display = display, u_pwhash = hash, u_role = ''admin'',
      u_rdp_hint = username, u_totp_secret = [], u_totp_counter = 0, u_status = ''active'', u_created = 0\<rparr>"

text \<open>
  One transaction: the count and the insert see the same database, and a failed commit takes the
  insert back.
\<close>

definition insert_first_admin :: "db \<Rightarrow> string \<Rightarrow> string \<Rightarrow> string \<Rightarrow> (setup_error + int) act" where
  "insert_first_admin before username display hash = do {
     stamp \<leftarrow> read_clock;
     i \<leftarrow> insert_row (CreateUser (unix stamp)
            (first_admin username (if display = [] then username else display) hash));
     case i of
       Inl _ \<Rightarrow> ret (Inl SetupFailed)
     | Inr uid \<Rightarrow> do {
         commit_failed \<leftarrow> fault;
         if commit_failed then do { put_db before; ret (Inl SetupFailed) } else ret (Inr uid)
       }
   }"

definition createFirstAdmin :: "string \<Rightarrow> string \<Rightarrow> string \<Rightarrow> (setup_error + int) act" where
  "createFirstAdmin username display hash = do {
     begin_failed \<leftarrow> fault;
     if begin_failed then ret (Inl SetupFailed)
     else do {
       before \<leftarrow> get_db;
       n \<leftarrow> query (\<lambda>d. Inr (length (users d)));
       case n of
         Inl _ \<Rightarrow> ret (Inl SetupFailed)
       | Inr k \<Rightarrow> if 0 < k then ret (Inl SetupClosed) else insert_first_admin before username display hash
     }
   }"

definition hash_password :: "env \<Rightarrow> string \<Rightarrow> (hash_error + string) act" where
  "hash_password E pw = do { salt \<leftarrow> read_rand argonSaltLen; ret (HashPassword E salt pw) }"

definition setup_shape :: shape where
  "setup_shape = SStruct [(''username'', SString), (''display_name'', SString), (''password'', SString)]"

definition handleSetupAdmin :: "env \<Rightarrow> portal \<Rightarrow> handler" where
  "handleSetupAdmin E P r =
     (case decode setup_shape r of None \<Rightarrow> fail_with 400 ''malformed request body''
      | Some req \<Rightarrow>
        (let name = str_field ''username'' req; pw = str_field ''password'' req in
         if name = [] then fail_with 400 ''a username is required''
         else if length pw < 12 then fail_with 400 ''the password must be at least 12 characters''
         else do {
           h \<leftarrow> hash_password E pw;
           case h of
             Inl _ \<Rightarrow> serverError
           | Inr hash \<Rightarrow> do {
               c \<leftarrow> createFirstAdmin name (str_field ''display_name'' req) hash;
               case c of
                 Inl SetupClosed \<Rightarrow> fail_with 409 ''an account already exists''
               | Inl SetupFailed \<Rightarrow> fail_with 409 ''could not create the account''
               | Inr uid \<Rightarrow> do {
                   audit name ''user.created'' name (clientIP P r) [(''via'', ''setup''), (''role'', ''admin'')];
                   s \<leftarrow> Start E (pt_auth P) uid StageFull (ip_string (clientIP P r)) (user_agent r);
                   case s of
                     Inl _ \<Rightarrow> serverError
                   | Inr tok \<Rightarrow> do {
                       csrf \<leftarrow> NewCSRFToken (secure P r);
                       send (SetSessionCookie tok (o_ttl (pt_auth P)) (secure P r) # snd csrf)
                         [(''id'', JInt uid), (''csrf'', JStr (fst csrf))]
                     }
                 }
             }
         }))"

section \<open>Enrolment\<close>

fun add_codes :: "env \<Rightarrow> int \<Rightarrow> nat \<Rightarrow> string list \<Rightarrow> string list option act" where
  "add_codes E uid 0 acc = ret (Some acc)"
| "add_codes E uid (Suc n) acc = do {
     rnd \<leftarrow> read_rand 7;
     case NewBackupCode rnd of None \<Rightarrow> ret None
     | Some code \<Rightarrow> do {
         h \<leftarrow> hash_password E (NormalizeBackupCode E code);
         case h of Inl _ \<Rightarrow> ret None
         | Inr hash \<Rightarrow> do {
             s \<leftarrow> exec (AddBackupCode uid hash);
             case s of Inl _ \<Rightarrow> ret None | Inr _ \<Rightarrow> add_codes E uid n (acc @ [code])
           }
       }
   }"

definition regenerateBackupCodes :: "env \<Rightarrow> portal \<Rightarrow> int \<Rightarrow> string list option act" where
  "regenerateBackupCodes E P uid = do {
     d \<leftarrow> exec (DeleteBackupCodes uid);
     case d of Inl _ \<Rightarrow> ret None | Inr _ \<Rightarrow> add_codes E uid (nat (pt_backup_codes P)) []
   }"

definition handleEnrollStart :: "env \<Rightarrow> portal \<Rightarrow> user \<Rightarrow> handler" where
  "handleEnrollStart E P u r = do {
     e \<leftarrow> ask (\<lambda>n. x_totp_enroll E n (''Revpd ('' @ pt_hostname P @ '')'') (u_username u));
     case e of None \<Rightarrow> serverError
     | Some (secret, uri) \<Rightarrow> do {
         nonce \<leftarrow> read_rand nonce_size;
         case Seal E (pt_sealer P) nonce (totp_label u) (bytes_of secret) of
           Inl _ \<Rightarrow> serverError
         | Inr enc \<Rightarrow> do {
             s \<leftarrow> exec (SetTOTPSecret (u_id u) enc);
             case s of
               Inl _ \<Rightarrow> serverError
             | Inr _ \<Rightarrow> do {
                 cs \<leftarrow> regenerateBackupCodes E P (u_id u);
                 case cs of None \<Rightarrow> serverError
                 | Some fresh \<Rightarrow> do {
                     audit (u_username u) ''enroll.totp'' [] (clientIP P r) [];
                     send [] [(''secret'', JStr secret), (''uri'', JStr uri), (''backup_codes'', JArr (map JStr fresh))]
                   }
               }
           }
       }
   }"

definition handleEnrollConfirm :: "env \<Rightarrow> portal \<Rightarrow> user \<Rightarrow> handler" where
  "handleEnrollConfirm E P u r =
     (case decode mfa_shape r of None \<Rightarrow> fail_with 400 ''malformed request body''
      | Some req \<Rightarrow> do {
          ok \<leftarrow> verifySecondFactor E P u (str_field ''code'' req);
          if \<not> ok then
            fail_with 400 (''that code is not valid '' @ utf8 0x2014 @ '' check the time on your phone and try again'')
          else send [] [(''ok'', JBool True)]
        })"

definition new_target :: "string \<Rightarrow> string \<Rightarrow> string \<Rightarrow> int \<Rightarrow> string \<Rightarrow> string \<Rightarrow> int \<Rightarrow> string \<Rightarrow> target" where
  "new_target name hostname addr port mac bcast boot notes =
     \<lparr>t_id = 0, t_name = name, t_hostname = hostname, t_ip = addr, t_rdp_port = port, t_mac = mac,
      t_wol_broadcast = bcast, t_wol_port = 0, t_boot_timeout = boot, t_icon = [], t_notes = notes\<rparr>"

definition setup_target_shape :: shape where
  "setup_target_shape = SStruct [(''name'', SString), (''ip'', SString), (''mac'', SString)]"

definition handleSetupTarget :: "portal \<Rightarrow> user \<Rightarrow> handler" where
  "handleSetupTarget P u r =
     (case decode setup_target_shape r of None \<Rightarrow> fail_with 400 ''malformed request body''
      | Some req \<Rightarrow>
        (let name = str_field ''name'' req; addr = str_field ''ip'' req; mac = str_field ''mac'' req in
         if name = [] \<or> addr = [] \<or> mac = [] then
           fail_with 400 ''name, IP address and MAC address are all required''
         else do {
           c \<leftarrow> insert_row (CreateTarget (new_target name [] addr 0 mac [] 0 []));
           case c of
             Inl _ \<Rightarrow> fail_with 409 ''could not create the machine, the name may already be taken''
           | Inr tid \<Rightarrow> do {
               g \<leftarrow> exec (GrantTargetAccess (u_id u) tid);
               case g of
                 Inl _ \<Rightarrow> serverError
               | Inr _ \<Rightarrow> do {
                   audit (u_username u) ''target.created'' name (clientIP P r) [(''via'', ''setup'')];
                   send [] [(''id'', JInt tid)]
                 }
             }
         }))"

section \<open>Accounts\<close>

definition user_shape :: shape where
  "user_shape = SStruct [(''username'', SString), (''display_name'', SString), (''password'', SString),
     (''role'', SString), (''rdp_hint'', SString)]"

definition handleCreateUser :: "env \<Rightarrow> portal \<Rightarrow> user \<Rightarrow> handler" where
  "handleCreateUser E P u r =
     (case decode user_shape r of None \<Rightarrow> fail_with 400 ''malformed request body''
      | Some req \<Rightarrow>
        (let name = str_field ''username'' req; pw = str_field ''password'' req;
             role = (if str_field ''role'' req = ''admin'' then ''admin'' else ''user'') in
         if name = [] \<or> length pw < 12 then
           fail_with 400 ''username required and password must be at least 12 characters''
         else do {
           h \<leftarrow> hash_password E pw;
           case h of
             Inl _ \<Rightarrow> serverError
           | Inr hash \<Rightarrow> do {
               stamp \<leftarrow> read_clock;
               c \<leftarrow> insert_row (CreateUser (unix stamp)
                      ((first_admin name (str_field ''display_name'' req) hash)
                         \<lparr>u_role := role, u_rdp_hint := str_field ''rdp_hint'' req\<rparr>));
               case c of
                 Inl _ \<Rightarrow> fail_with 409 ''could not create user, the name may already exist''
               | Inr uid \<Rightarrow> do {
                   audit (u_username u) ''user.created'' name (clientIP P r) [];
                   send [] [(''id'', JInt uid)]
                 }
             }
         }))"

definition targets_of_user :: "int \<Rightarrow> db \<Rightarrow> int list" where
  "targets_of_user uid d = map snd (filter (\<lambda>(a, b). a = uid) (user_targets d))"

definition user_json :: "user \<Rightarrow> int list \<Rightarrow> json" where
  "user_json u tids = JObj
     [(''id'', JInt (u_id u)), (''username'', JStr (u_username u)), (''display_name'', JStr (u_display u)),
      (''role'', JStr (u_role u)), (''status'', JStr (u_status u)), (''rdp_hint'', JStr (u_rdp_hint u)),
      (''totp_enrolled'', JBool (u_totp_secret u \<noteq> [])), (''target_ids'', JArr (map JInt tids))]"

fun users_json :: "user list \<Rightarrow> json list act" where
  "users_json [] = ret []"
| "users_json (u # us) = do {
     q \<leftarrow> query (\<lambda>d. Inr (targets_of_user (u_id u) d));
     js \<leftarrow> users_json us;
     ret (user_json u (case q of Inr tids \<Rightarrow> tids | Inl _ \<Rightarrow> []) # js)
   }"

definition handleListUsers :: "user \<Rightarrow> handler" where
  "handleListUsers u r = do {
     us \<leftarrow> query (\<lambda>d. Inr (ListUsers d));
     case us of
       Inl _ \<Rightarrow> serverError
     | Inr everyone \<Rightarrow> do { js \<leftarrow> users_json everyone; send [] [(''users'', JArr js)] }
   }"

definition status_shape :: shape where
  "status_shape = SStruct [(''status'', SString)]"

definition handleUserStatus :: "env \<Rightarrow> portal \<Rightarrow> user \<Rightarrow> handler" where
  "handleUserStatus E P u r =
     (case pathID r of None \<Rightarrow> fail_with 400 ''invalid id''
      | Some uid \<Rightarrow>
        (case decode status_shape r of None \<Rightarrow> fail_with 400 ''malformed request body''
         | Some req \<Rightarrow>
           (let st = str_field ''status'' req in
            if \<not> valid_status st then fail_with 400 ''status must be active, locked or disabled''
            else do {
              s \<leftarrow> exec (SetUserStatus uid st);
              case s of
                Inl _ \<Rightarrow> serverError
              | Inr _ \<Rightarrow> do {
                  (if st \<noteq> ''active'' then do {
                     _ \<leftarrow> DestroyAllForUser uid;
                     stamp \<leftarrow> read_clock;
                     _ \<leftarrow> exec (RevokeGrantsForUser (unix stamp) uid);
                     ret ()
                   } else ret ());
                  audit (u_username u) ''user.updated'' [] (clientIP P r)
                    [(''user_id'', decimal_int uid), (''status'', st)];
                  send [] [(''ok'', JBool True)]
                }
            })))"

fun set_access :: "int \<Rightarrow> int list \<Rightarrow> target list \<Rightarrow> unit act" where
  "set_access uid wanted [] = ret ()"
| "set_access uid wanted (t # ts) = do {
     _ \<leftarrow> exec (if t_id t \<in> set wanted then GrantTargetAccess uid (t_id t) else RevokeTargetAccess uid (t_id t));
     set_access uid wanted ts
   }"

definition access_shape :: shape where
  "access_shape = SStruct [(''target_ids'', SInts)]"

definition handleUserTargets :: "portal \<Rightarrow> user \<Rightarrow> handler" where
  "handleUserTargets P u r =
     (case pathID r of None \<Rightarrow> fail_with 400 ''invalid id''
      | Some uid \<Rightarrow>
        (case decode access_shape r of None \<Rightarrow> fail_with 400 ''malformed request body''
         | Some req \<Rightarrow> do {
             ts \<leftarrow> query (\<lambda>d. Inr (ListTargets d));
             case ts of
               Inl _ \<Rightarrow> serverError
             | Inr current \<Rightarrow> do {
                 set_access uid (ints_field ''target_ids'' req) current;
                 audit (u_username u) ''user.updated'' [] (clientIP P r)
                   [(''user_id'', decimal_int uid),
                    (''targets'', join_byte (CHR '' '') (map decimal_int (ints_field ''target_ids'' req)))];
                 send [] [(''ok'', JBool True)]
               }
           }))"

section \<open>Targets and sessions\<close>

definition target_shape :: shape where
  "target_shape = SStruct [(''name'', SString), (''hostname'', SString), (''ip'', SString), (''rdp_port'', SInt),
     (''mac'', SString), (''wol_broadcast'', SString), (''boot_timeout_s'', SInt), (''notes'', SString)]"

definition handleCreateTarget :: "portal \<Rightarrow> user \<Rightarrow> handler" where
  "handleCreateTarget P u r =
     (case decode target_shape r of None \<Rightarrow> fail_with 400 ''malformed request body''
      | Some req \<Rightarrow>
         if str_field ''name'' req = [] \<or> (str_field ''ip'' req = [] \<and> str_field ''hostname'' req = [])
         then fail_with 400 ''name and either an IP or a hostname are required''
         else do {
           c \<leftarrow> insert_row (CreateTarget (new_target (str_field ''name'' req) (str_field ''hostname'' req)
                  (str_field ''ip'' req) (int_field ''rdp_port'' req) (str_field ''mac'' req)
                  (str_field ''wol_broadcast'' req) (int_field ''boot_timeout_s'' req) (str_field ''notes'' req)));
           case c of
             Inl _ \<Rightarrow> fail_with 409 ''could not create target, the name may already exist''
           | Inr tid \<Rightarrow> do {
               audit (u_username u) ''target.created'' (str_field ''name'' req) (clientIP P r) [];
               send [] [(''id'', JInt tid)]
             }
         })"

text \<open>Ordinary users only see their own connections.\<close>

definition session_json :: "live_session \<Rightarrow> json" where
  "session_json l = JObj [(''id'', JInt (l_id l)), (''user'', JStr (l_username l)),
     (''target'', JStr (l_target l)), (''src_ip'', JStr (key_text (l_src l))),
     (''started_at'', JStr (rfc3339 (l_started l)))]"

definition handleSessions :: "user \<Rightarrow> handler" where
  "handleSessions u r = do {
     ls \<leftarrow> query (\<lambda>d. Inr (ListLiveSessions d));
     case ls of
       Inl _ \<Rightarrow> serverError
     | Inr live \<Rightarrow>
         send [] [(''sessions'', JArr (map session_json
           (filter (\<lambda>l. is_admin u \<or> l_username l = u_username u) live)))]
   }"

section \<open>Routes\<close>

text \<open>
  The routes whose handlers are modelled here, with the guard each is registered under.
\<close>

datatype route =
    RLogin | RMFA | RLogout
  | RSetupAdmin | REnroll | REnrollConfirm | RSetupTarget | RSetupComplete
  | RPasskeyLoginBegin | RPasskeyLoginFinish | RPasskeyList | RPasskeyRegisterBegin | RPasskeyRegisterFinish
  | RPasskeyDelete | RMe | RSessions
  | RListUsers | RCreateUser | RUserStatus | RUserTargets | RCreateTarget

fun portal_handler :: "env \<Rightarrow> portal \<Rightarrow> route \<Rightarrow> handler" where
  "portal_handler E P RLogin = handleLogin E P"
| "portal_handler E P RMFA = handleMFA E P"
| "portal_handler E P RLogout = handleLogout E P"
| "portal_handler E P RSetupAdmin = openDuringSetup (handleSetupAdmin E P)"
| "portal_handler E P REnroll = authed E P (handleEnrollStart E P)"
| "portal_handler E P REnrollConfirm = authed E P (handleEnrollConfirm E P)"
| "portal_handler E P RSetupTarget = admin E P (handleSetupTarget P)"
| "portal_handler E P RSetupComplete = authed E P handleSetupComplete"
| "portal_handler E P RPasskeyLoginBegin = handlePasskeyLoginBegin P"
| "portal_handler E P RPasskeyLoginFinish = handlePasskeyLoginFinish E P"
| "portal_handler E P RPasskeyList = authed E P handlePasskeyList"
| "portal_handler E P RPasskeyRegisterBegin = authed E P (handlePasskeyRegisterBegin P)"
| "portal_handler E P RPasskeyRegisterFinish = authed E P (handlePasskeyRegisterFinish E P)"
| "portal_handler E P RPasskeyDelete = authed E P handlePasskeyDelete"
| "portal_handler E P RMe = authed E P handleMe"
| "portal_handler E P RSessions = authed E P handleSessions"
| "portal_handler E P RListUsers = admin E P handleListUsers"
| "portal_handler E P RCreateUser = admin E P (handleCreateUser E P)"
| "portal_handler E P RUserStatus = admin E P (handleUserStatus E P)"
| "portal_handler E P RUserTargets = admin E P (handleUserTargets P)"
| "portal_handler E P RCreateTarget = admin E P (handleCreateTarget P)"

end
