(* ===== verification/Portal_Frames.thy ===== *)
theory Portal_Frames
  imports Portal_Admin Auth_Guarantees
begin

text \<open>
  What the operations of the portal leave alone.  \<open>leaves R m\<close>: whatever happens while \<open>m\<close> runs, \<open>R\<close> relates
  the database before and after.  The rules follow the shape of the programs, so
  that a handler is settled by the statements it issues.
\<close>

section \<open>The frame rules\<close>

definition leaves :: "(db \<Rightarrow> db \<Rightarrow> bool) \<Rightarrow> 'a act \<Rightarrow> bool" where
  "leaves R m \<longleftrightarrow> (\<forall>w. R (w_db w) (w_db (snd (run_state m w))))"

definition stmt_leaves :: "(db \<Rightarrow> db \<Rightarrow> bool) \<Rightarrow> (db \<Rightarrow> store_error + db) \<Rightarrow> bool" where
  "stmt_leaves R s \<longleftrightarrow> (\<forall>d d'. s d = Inr d' \<longrightarrow> R d d')"

definition row_leaves :: "(db \<Rightarrow> db \<Rightarrow> bool) \<Rightarrow> (db \<Rightarrow> store_error + (int \<times> db)) \<Rightarrow> bool" where
  "row_leaves R s \<longleftrightarrow> (\<forall>d i d'. s d = Inr (i, d') \<longrightarrow> R d d')"

lemma leavesD: "leaves R m \<Longrightarrow> run_state m w = (x, w') \<Longrightarrow> R (w_db w) (w_db w')"
  by (metis leaves_def snd_conv)

text \<open>Branching only passes the question on.\<close>

lemma leaves_branches:
  "leaves R m \<Longrightarrow> leaves R n \<Longrightarrow> leaves R (if b then m else n)"
  "(\<And>x. leaves R (k x)) \<Longrightarrow> leaves R (let x = a in k x)"
  "leaves R m \<Longrightarrow> (\<And>x. leaves R (k x)) \<Longrightarrow> leaves R (case oa of None \<Rightarrow> m | Some x \<Rightarrow> k x)"
  "(\<And>e. leaves R (f e)) \<Longrightarrow> (\<And>x. leaves R (k x)) \<Longrightarrow> leaves R (case sa of Inl e \<Rightarrow> f e | Inr x \<Rightarrow> k x)"
  "(\<And>x y. leaves R (g x y)) \<Longrightarrow> leaves R (case pa of (x, y) \<Rightarrow> g x y)"
  "leaves R m \<Longrightarrow> leaves R n \<Longrightarrow> leaves R (case se of SetupClosed \<Rightarrow> m | SetupFailed \<Rightarrow> n)"
  by (simp_all add: Let_def split: option.split sum.split prod.split setup_error.split)

lemma leaves_exec: "(\<And>d. R d d) \<Longrightarrow> stmt_leaves R s \<Longrightarrow> leaves R (exec s)"
  by (auto simp: leaves_def stmt_leaves_def run_simps split: sum.splits)

lemma leaves_insert_row: "(\<And>d. R d d) \<Longrightarrow> row_leaves R s \<Longrightarrow> leaves R (insert_row s)"
  by (auto simp: leaves_def row_leaves_def run_simps split: sum.splits)

text \<open>
  A relation between the database before and after that every step may be measured by.  Where it is
  reflexive and transitive, a program respects it as soon as its statements do.
\<close>

locale frame =
  fixes R :: "db \<Rightarrow> db \<Rightarrow> bool"
  assumes stays: "R d d"
    and joins: "R a b \<Longrightarrow> R b c \<Longrightarrow> R a c"
begin

lemma ret: "leaves R (ret x)"
  by (simp add: leaves_def stays)

lemma bind: "leaves R m \<Longrightarrow> (\<And>x. leaves R (k x)) \<Longrightarrow> leaves R (State_Monad.bind m k)"
  by (auto simp: leaves_def split: prod.splits) (metis joins snd_conv)

lemma steps:
  "leaves R read_clock" "leaves R (ask f)" "leaves R fault" "leaves R get_db" "leaves R get_lock"
  "leaves R (put_lock m)" "leaves R get_challenges" "leaves R (put_challenges c)" "leaves R (read_rand n)"
  "leaves R (query q)" "leaves R (record_event ev)"
  by (simp_all add: leaves_def run_simps fault_def get_db_def stays)

lemma exec: "stmt_leaves R s \<Longrightarrow> leaves R (exec s)"
  by (rule leaves_exec [OF stays])

lemma insert_row: "row_leaves R s \<Longrightarrow> leaves R (insert_row s)"
  by (rule leaves_insert_row [OF stays])

lemmas basics = ret bind leaves_branches steps exec insert_row

lemma lockout: "leaves R (locked k)" "leaves R (fail opts k)" "leaves R (succeed k)"
  unfolding locked_def fail_def succeed_def by (intro basics)+

lemma audit: "leaves R (audit a b c d e)"
  unfolding audit_def by (intro basics)

lemma check_password: "leaves R (CheckPassword E opts name pw src)"
  unfolding CheckPassword_def by (intro basics lockout)

lemma replies: "leaves R (fail_with code msg)" "leaves R (send cks fs)" "leaves R serverError"
  unfolding fail_with_def send_def serverError_def by (intro basics)+

lemma small:
  "leaves R (NewCSRFToken sec)" "leaves R (NewChallenge uid ttl)" "leaves R (put_challenge k ch)"
  "leaves R (take_challenge k)" "leaves R (hasBackupCodes u)" "leaves R (methodsFor u)"
  "leaves R (allowed_for ou)" "leaves R setupNeeded" "leaves R (hash_password E pw)"
  "leaves R (FinishRegistration E c och rr)" "leaves R (FinishAssertion E c och ar pk n)"
  "leaves R (refuse_passkey P src)"
  unfolding NewCSRFToken_def NewChallenge_def put_challenge_def take_challenge_def hasBackupCodes_def
    methodsFor_def allowed_for_def setupNeeded_def hash_password_def FinishRegistration_def FinishAssertion_def
    refuse_passkey_def
  by (intro basics lockout replies)+

lemmas rules = basics lockout audit check_password replies small

text \<open>Second factors touch the spent codes and the TOTP counter only.\<close>

lemma second_factor:
  assumes "\<And>now i. stmt_leaves R (ClaimBackupCode now i)" and "\<And>uid c. stmt_leaves R (ClaimTOTPCounter uid c)"
  shows "leaves R (verifySecondFactor E P u code)"
  unfolding verifySecondFactor_def consumeBackupCode_def verify_totp_def by (intro rules assms)

text \<open>Session handling touches the sessions only.\<close>

lemma ending_sessions:
  assumes "\<And>p. stmt_leaves R (\<lambda>d. Inr (delete_sessions p d))"
  shows "leaves R (Destroy E tok st)" "leaves R (DestroyAllForUser uid)"
  unfolding Destroy_def DestroyAllForUser_def by (intro rules assms)+

lemma looking_up:
  assumes "\<And>p. stmt_leaves R (\<lambda>d. Inr (delete_sessions p d))"
    and "\<And>now i. stmt_leaves R (\<lambda>d. Inr (touch_session now i d))"
  shows "leaves R (Lookup E opts tok st src)"
  unfolding Lookup_def by (intro rules assms)

lemma starting:
  assumes "\<And>tok ag c x. stmt_leaves R (insert_session uid (stageHash E tok st) src ag c x)"
  shows "leaves R (Start E opts uid st src ag)"
  unfolding Start_def by (intro rules assms)

lemma signing_in:
  assumes "\<And>tok ag c x. stmt_leaves R (insert_session (u_id u) (stageHash E tok StageFull) (ip_string (clientIP P r)) ag c x)"
  shows "leaves R (sign_in E P r u note fs)"
  unfolding sign_in_def by (intro rules starting assms)

lemma promoting:
  assumes "\<And>p. stmt_leaves R (\<lambda>d. Inr (delete_sessions p d))"
    and "\<And>tok ag c x. stmt_leaves R (insert_session uid (stageHash E tok StageFull) src ag c x)"
  shows "leaves R (Promote E opts tok uid src ag)"
  unfolding Promote_def by (intro rules ending_sessions starting assms)

end

section \<open>Accounts, targets and who may reach what\<close>

text \<open>The part of the database that decides who may do what.\<close>

definition account :: "user \<Rightarrow> int \<times> string \<times> string \<times> string \<times> string \<times> string" where
  "account u = (u_id u, u_username u, u_pwhash u, u_role u, u_status u, u_rdp_hint u)"

definition access_of ::
    "db \<Rightarrow> (int \<times> string \<times> string \<times> string \<times> string \<times> string) list \<times> target list \<times> (int \<times> int) list" where
  "access_of d = (map account (users d), targets d, user_targets d)"

abbreviation same_access :: "db \<Rightarrow> db \<Rightarrow> bool" where
  "same_access d d' \<equiv> access_of d' = access_of d"

interpretation access: frame same_access
  by unfold_locales simp_all

lemma account_update: "(\<And>u. account (f u) = account u) \<Longrightarrow> map account (update_where p f us) = map account us"
  by (simp add: update_where_def)

lemma access_stmts:
  "stmt_leaves same_access (ClaimBackupCode now i)" "stmt_leaves same_access (ClaimTOTPCounter uid c)"
  "stmt_leaves same_access (insert_session uid h src ag c x)" "stmt_leaves same_access (\<lambda>d. Inr (delete_sessions p d))"
  "stmt_leaves same_access (\<lambda>d. Inr (touch_session now i d))"
  "stmt_leaves same_access (SetTOTPSecret uid enc)" "stmt_leaves same_access (AddBackupCode uid h)"
  "stmt_leaves same_access (DeleteBackupCodes uid)" "stmt_leaves same_access (SetBoolSetting now k b who)"
  "stmt_leaves same_access (UpdateSignCount i n)" "stmt_leaves same_access (DeletePasskey uid i)"
  "row_leaves same_access (AddPasskey now pk)"
  by (auto simp: stmt_leaves_def row_leaves_def access_of_def ClaimBackupCode_def ClaimTOTPCounter_def
      insert_session_def delete_sessions_def touch_session_def SetTOTPSecret_def AddBackupCode_def
      DeleteBackupCodes_def SetBoolSetting_def SetSetting_def UpdateSignCount_def DeletePasskey_def AddPasskey_def
      account_update account_def Let_def bump_def split: if_splits)

lemmas access_rules = access.rules access_stmts access.second_factor [OF access_stmts(1,2)]
  access.ending_sessions [OF access_stmts(4)] access.looking_up [OF access_stmts(4,5)]
  access.starting [OF access_stmts(3)] access.signing_in [OF access_stmts(3)]
  access.promoting [OF access_stmts(4,3)]

lemma access_add_codes: "leaves same_access (add_codes E uid n acc)"
  by (induction n arbitrary: acc) (simp_all, (intro access_rules; assumption?)+)

lemma access_login:
  "leaves same_access (handleLogin E P r)" "leaves same_access (handleMFA E P r)"
  "leaves same_access (handleLogout E P r)" "leaves same_access (handleMe u r)"
  unfolding handleLogin_def password_accepted_def nothing_enrolled_def start_session_def handleMFA_def check_code_def promote_session_def
    handleLogout_def handleMe_def
  by (intro access_rules)+

lemma access_passkeys:
  "leaves same_access (handlePasskeyRegisterBegin P u r)" "leaves same_access (handlePasskeyRegisterFinish E P u r)"
  "leaves same_access (handlePasskeyList u r)" "leaves same_access (handlePasskeyDelete u r)"
  "leaves same_access (handlePasskeyLoginBegin P r)" "leaves same_access (handlePasskeyLoginFinish E P r)"
  unfolding handlePasskeyRegisterBegin_def handlePasskeyRegisterFinish_def handlePasskeyList_def
    handlePasskeyDelete_def handlePasskeyLoginBegin_def handlePasskeyLoginFinish_def finish_passkey_def
    passkey_accepted_def
  by (intro access_rules)+

lemma access_own_account:
  "leaves same_access (handleSetupComplete u r)" "leaves same_access (handleEnrollStart E P u r)"
  "leaves same_access (handleEnrollConfirm E P u r)" "leaves same_access (handleSessions u r)"
  unfolding handleSetupComplete_def handleEnrollStart_def handleEnrollConfirm_def handleSessions_def
    regenerateBackupCodes_def
  by (intro access_rules access_add_codes)+

lemma access_users_json: "leaves same_access (users_json us)"
  by (induction us) (simp_all, (intro access_rules; assumption?)+)

lemma access_list_users: "leaves same_access (handleListUsers u r)"
  unfolding handleListUsers_def by (intro access_rules access_users_json)

lemma access_authed: "(\<And>u. leaves same_access (h u r)) \<Longrightarrow> leaves same_access (authed E P h r)"
  unfolding authed_def by (intro access_rules)

text \<open>The routes that change who may do what.\<close>

definition access_routes :: "route set" where
  "access_routes = {RSetupAdmin, RSetupTarget, RCreateUser, RUserStatus, RUserTargets, RCreateTarget}"

lemma access_quiet_routes: "rt \<notin> access_routes \<Longrightarrow> leaves same_access (portal_handler E P rt r)"
proof (cases rt)
  case RListUsers
  show ?thesis
    unfolding RListUsers portal_handler.simps admin_def by (intro access_authed access_rules access_list_users)
qed (simp_all add: access_routes_def access_login access_passkeys access_authed access_own_account)

section \<open>Sessions\<close>

text \<open>What identifies a session: a touch leaves it, and only an insert adds one.\<close>

definition session_key :: "websession \<Rightarrow> int \<times> int \<times> string \<times> ip_key" where
  "session_key s = (s_id s, s_user s, s_token_hash s, s_src s)"

definition keys_of :: "db \<Rightarrow> (int \<times> int \<times> string \<times> ip_key) set" where
  "keys_of d = session_key ` set (sessions d)"

definition only_new :: "(int \<times> int \<times> string \<times> ip_key \<Rightarrow> bool) \<Rightarrow> db \<Rightarrow> db \<Rightarrow> bool" where
  "only_new P d d' \<longleftrightarrow> (\<forall>k \<in> keys_of d'. k \<in> keys_of d \<or> P k)"

interpretation fresh: frame "only_new P" for P
  by unfold_locales (auto simp: only_new_def)

lemma only_newD: "only_new P d d' \<Longrightarrow> k \<in> keys_of d' \<Longrightarrow> k \<notin> keys_of d \<Longrightarrow> P k"
  by (auto simp: only_new_def)

lemma only_new_mono: "only_new P d d' \<Longrightarrow> (\<And>k. P k \<Longrightarrow> Q k) \<Longrightarrow> only_new Q d d'"
  by (auto simp: only_new_def)

lemma keys_touch: "keys_of (touch_session now i d) = keys_of d"
proof -
  have "map session_key (sessions (touch_session now i d)) = map session_key (sessions d)"
    by (simp add: touch_session_def update_where_def session_key_def)
  then show ?thesis by (metis keys_of_def set_map)
qed

lemma fresh_touch: "stmt_leaves (only_new P) (\<lambda>d. Inr (touch_session now i d))"
  by (simp add: stmt_leaves_def only_new_def keys_touch)

lemma fresh_stmts:
  "stmt_leaves (only_new P) (ClaimBackupCode now i)" "stmt_leaves (only_new P) (ClaimTOTPCounter uid c)"
  "stmt_leaves (only_new P) (\<lambda>d. Inr (delete_sessions p d))"
  "stmt_leaves (only_new P) (SetTOTPSecret uid enc)" "stmt_leaves (only_new P) (AddBackupCode uid h)"
  "stmt_leaves (only_new P) (DeleteBackupCodes uid)" "stmt_leaves (only_new P) (SetBoolSetting now k b who)"
  "stmt_leaves (only_new P) (UpdateSignCount i n)" "stmt_leaves (only_new P) (DeletePasskey uid i)"
  "stmt_leaves (only_new P) (SetUserStatus uid st)" "stmt_leaves (only_new P) (GrantTargetAccess uid tid)"
  "stmt_leaves (only_new P) (RevokeTargetAccess uid tid)" "stmt_leaves (only_new P) (RevokeGrantsForUser now uid)"
  "row_leaves (only_new P) (AddPasskey now pk)" "row_leaves (only_new P) (CreateUser now u)"
  "row_leaves (only_new P) (CreateTarget t)"
  by (auto simp: stmt_leaves_def row_leaves_def only_new_def ClaimBackupCode_def ClaimTOTPCounter_def
      delete_sessions_def SetTOTPSecret_def AddBackupCode_def DeleteBackupCodes_def SetBoolSetting_def
      SetSetting_def UpdateSignCount_def DeletePasskey_def AddPasskey_def SetUserStatus_def GrantTargetAccess_def
      RevokeTargetAccess_def RevokeGrantsForUser_def CreateUser_def CreateTarget_def
      Let_def bump_def keys_of_def split: if_splits)

lemma fresh_insert:
  assumes "\<And>i. P (i, uid, h, src)"
  shows "stmt_leaves (only_new P) (insert_session uid h src ag c x)"
  using assms by (auto simp: stmt_leaves_def only_new_def keys_of_def insert_session_def session_key_def Let_def
      bump_def split: if_splits)

lemmas fresh_rules = fresh.rules fresh_stmts fresh_touch fresh.second_factor [OF fresh_stmts(1,2)]
  fresh.ending_sessions [OF fresh_stmts(3)] fresh.looking_up [OF fresh_stmts(3) fresh_touch]

lemma fresh_add_codes: "leaves (only_new P) (add_codes E uid n acc)"
  by (induction n arbitrary: acc) (simp_all, (intro fresh_rules; assumption?)+)

lemma fresh_users_json: "leaves (only_new P) (users_json us)"
  by (induction us) (simp_all, (intro fresh_rules; assumption?)+)

lemma fresh_set_access: "leaves (only_new P) (set_access uid wanted ts)"
proof (induction ts)
  case (Cons t ts)
  then show ?case
    unfolding set_access.simps by (cases "t_id t \<in> set wanted") (simp_all, (intro fresh_rules; assumption?)+)
qed (simp add: fresh.ret)

text \<open>The handlers that start no session.\<close>

lemma fresh_handlers:
  "leaves (only_new P) (handleLogout E Q r)" "leaves (only_new P) (handleMe u r)"
  "leaves (only_new P) (handlePasskeyRegisterBegin Q u r)" "leaves (only_new P) (handlePasskeyRegisterFinish E Q u r)"
  "leaves (only_new P) (handlePasskeyList u r)" "leaves (only_new P) (handlePasskeyDelete u r)"
  "leaves (only_new P) (handlePasskeyLoginBegin Q r)"
  "leaves (only_new P) (handleSetupComplete u r)" "leaves (only_new P) (handleEnrollStart E Q u r)"
  "leaves (only_new P) (handleEnrollConfirm E Q u r)" "leaves (only_new P) (handleSessions u r)"
  "leaves (only_new P) (handleSetupTarget Q u r)" "leaves (only_new P) (handleListUsers u r)"
  "leaves (only_new P) (handleCreateUser E Q u r)" "leaves (only_new P) (handleUserStatus E Q u r)"
  "leaves (only_new P) (handleUserTargets Q u r)" "leaves (only_new P) (handleCreateTarget Q u r)"
  unfolding handleLogout_def handleMe_def handlePasskeyRegisterBegin_def handlePasskeyRegisterFinish_def
    handlePasskeyList_def handlePasskeyDelete_def handlePasskeyLoginBegin_def handleSetupComplete_def
    handleEnrollStart_def handleEnrollConfirm_def handleSessions_def regenerateBackupCodes_def handleSetupTarget_def
    handleListUsers_def handleCreateUser_def handleUserStatus_def handleUserTargets_def handleCreateTarget_def
  by (intro fresh_rules fresh_add_codes fresh_users_json fresh_set_access)+

lemma fresh_authed: "(\<And>u. leaves (only_new P) (h u r)) \<Longrightarrow> leaves (only_new P) (authed E Q h r)"
  unfolding authed_def by (intro fresh_rules)

lemma fresh_admin: "(\<And>u. leaves (only_new P) (h u r)) \<Longrightarrow> leaves (only_new P) (admin E Q h r)"
  unfolding admin_def by (intro fresh_authed fresh_rules)

end
