(* ===== verification/Portal_Guarantees.thy ===== *)
theory Portal_Guarantees
  imports Portal_Frames Login_Guarantees 
begin

text \<open>
  What the portal guarantees: who may change accounts and access, how a session comes about, that
  set-up closes behind the first administrator, and that a forged header does not move a request
  to another address.
\<close>

section \<open>The guards\<close>

text \<open>The request carries the cookie of a live session of the stage, from the address it was started at.\<close>

definition holds_session :: "env \<Rightarrow> portal \<Rightarrow> request \<Rightarrow> stage \<Rightarrow> world \<Rightarrow> user \<Rightarrow> bool" where
  "holds_session E P r st w u \<longleftrightarrow>
     SessionToken r \<noteq> [] \<and>
     (\<exists>row \<in> set (sessions (w_db w)).
        s_token_hash row = stageHash E (SessionToken r) st \<and> s_src row = ip_string (clientIP P r) \<and>
        unix (w_clock w (w_tick w)) \<le> s_expires row \<and>
        UserByID (s_user row) (w_db w) = Inr u \<and> is_active u)"

definition signed_in :: "env \<Rightarrow> portal \<Rightarrow> request \<Rightarrow> world \<Rightarrow> user \<Rightarrow> bool" where
  "signed_in E P r w u \<longleftrightarrow> CheckCSRF r \<and> holds_session E P r StageFull w u"

lemma Lookup_users: "run_state (Lookup E opts tok st src) w = (x, w') \<Longrightarrow> users (w_db w') = users (w_db w)"
  by (auto simp: Lookup_def run_simps delete_sessions_def touch_session_def outcome_def
      split: if_split_asm sum.split_asm)

lemma Lookup_holds:
  assumes l: "run_state (Lookup E (pt_auth P) (SessionToken r) st (ip_string (clientIP P r))) w = (Inr s, w1)"
    and u: "get_user (outcome bad (UserByID (se_user s) (w_db w1))) = Some u"
  shows "holds_session E P r st w u"
proof -
  have "UserByID (se_user s) (w_db w) = Inr u" "is_active u"
    using u Lookup_users [OF l] by (auto simp: get_user_def UserByID_def split: sum.split_asm if_split_asm)
  then show ?thesis using Lookup_Inr [OF l] unfolding holds_session_def by fastforce
qed

lemma authed_cases:
  assumes "run_state (authed E P h r) w = (resp, w')"
  obtains "same_access (w_db w) (w_db w')" "only_new (\<lambda>_. False) (w_db w) (w_db w')"
  | u w1 where "signed_in E P r w u" "run_state (h u r) w1 = (resp, w')"
      "same_access (w_db w) (w_db w1)" "only_new (\<lambda>_. False) (w_db w) (w_db w1)"
proof -
  let ?look = "Lookup E (pt_auth P) (SessionToken r) StageFull (ip_string (clientIP P r))"
  obtain l w1 where l: "run_state ?look w = (l, w1)" by fastforce
  have frame: "same_access (w_db w) (w_db w1)" "only_new (\<lambda>_. False) (w_db w) (w_db w1)"
    by (rule leavesD [OF _ l], intro access_rules) (rule leavesD [OF _ l], intro fresh_rules)
  consider "\<not> CheckCSRF r" | e where "CheckCSRF r" "l = Inl e" | s where "CheckCSRF r" "l = Inr s"
    by (cases l) auto
  then show thesis
  proof cases
    case 1
    then have "w_db w' = w_db w" using assms by (auto simp: authed_def fail_with_def)
    then show thesis using that(1) by (simp add: only_new_def)
  next
    case 2
    then have "w_db w' = w_db w1" using assms l by (auto simp: authed_def fail_with_def)
    then show thesis using frame that(1) by simp
  next
    case 3
    let ?ru = "outcome (faulty w1) (UserByID (se_user s) (w_db w1))"
    show thesis
    proof (cases "get_user ?ru")
      case None
      then have "w_db w' = w_db w1" using assms l 3 by (auto simp: authed_def fail_with_def run_simps)
      then show thesis using frame that(1) by simp
    next
      case (Some u)
      then have "signed_in E P r w u"
        using Lookup_holds [OF l [unfolded 3(2)]] 3(1) by (simp add: signed_in_def)
      moreover have "run_state (h u r) (calm w1) = (resp, w')"
        using assms l 3 Some by (simp add: authed_def run_simps)
      ultimately show thesis using that(2) frame by simp
    qed
  qed
qed

lemma admin_cases:
  assumes "run_state (admin E P h r) w = (resp, w')"
  obtains "same_access (w_db w) (w_db w')" "only_new (\<lambda>_. False) (w_db w) (w_db w')"
  | u where "signed_in E P r w u" "is_admin u"
  using authed_cases [OF assms [unfolded admin_def]]
proof cases
  case 1
  then show thesis using that(1) by blast
next
  case (2 u w1)
  show thesis
  proof (cases "is_admin u")
    case False
    then have "w_db w' = w_db w1" using 2(2) by (auto simp: fail_with_def)
    then show thesis using 2 that(1) by simp
  next
    case True
    then show thesis using 2(1) that(2) by blast
  qed
qed

lemma createFirstAdmin_closed:
  assumes "users (w_db w) \<noteq> []"
  shows "fst (run_state (createFirstAdmin n d h) w) \<noteq> Inr i \<and> w_db (snd (run_state (createFirstAdmin n d h) w)) = w_db w"
  using assms
  by (cases "faulty w"; cases "faulty (calm w)") (simp_all add: createFirstAdmin_def fault_def get_db_def run_query outcome_def)

lemma openDuringSetup_closed:
  assumes "users (w_db w) \<noteq> []" and "run_state (openDuringSetup h r) w = (resp, w')"
  shows "w_db w' = w_db w \<and> rs_status resp \<in> {404, 500}"
  using assms
  by (auto simp: openDuringSetup_def setupNeeded_def run_simps outcome_def fail_with_def serverError_def reply_def
      split: sum.split_asm if_split_asm)

section \<open>A concrete portal\<close>

definition sample_portal :: portal where
  "sample_portal = \<lparr>pt_engine = sample_engine, pt_auth = sample_opts, pt_sealer = replicate 32 0,
     pt_require_factor = False, pt_totp_skew = 1, pt_backup_codes = 2, pt_trusted = [''10.0.0.0/8''], pt_tls = True,
     pt_hostname = ''rdp.example.org''\<rparr>"

definition sample_request :: request where
  "sample_request = \<lparr>rq_method = ''POST'', rq_cookies = [(''revpd_session'', ''tok''), (''revpd_csrf'', ''c'')],
     rq_header = (\<lambda>h. if h = ''X-CSRF-Token'' then ''c'' else []), rq_remote = ''203.0.113.5:50000'', rq_tls = True,
     rq_host = ''rdp.example.org'', rq_body = [], rq_id = ''1'', rq_query = (\<lambda>_. [])\<rparr>"

definition root_session :: websession where
  "root_session = \<lparr>s_id = 1, s_user = 2, s_token_hash = stageHash sample_env ''tok'' StageFull,
     s_src = client_ip, s_agent = [], s_created = 100, s_expires = 500, s_last_seen = 110\<rparr>"

definition root_world :: world where
  "root_world = sample_world\<lparr>w_db := sample_db\<lparr>sessions := [root_session]\<rparr>\<rparr>"

definition fresh_world :: world where
  "fresh_world = sample_world\<lparr>w_db := empty_db\<rparr>"

definition lock_request :: request where
  "lock_request = sample_request\<lparr>rq_body := ''{\"status\":\"locked\"}''\<rparr>"

definition setup_request :: request where
  "setup_request = sample_request\<lparr>rq_body := ''{\"username\":\"root\",\"password\":\"correct horse\"}''\<rparr>"

section \<open>Who may change accounts and access\<close>

text \<open>C5. Who may do what changes only by an administrator's hand, or while there is no account at
  all: whatever request reaches whatever route, if afterwards an account (its name, password, role,
  status or RDP name), a target or an access right differs, then the request carried the live full
  session and the CSRF token of an active administrator and went to an administrator's route, or it
  was the set-up request of a gateway without accounts.\<close>

theorem access_changes_need_admin:
  assumes "run_state (portal_handler E P rt r) w = (resp, w')" and "access_of (w_db w') \<noteq> access_of (w_db w)"
  shows "(rt = RSetupAdmin \<and> users (w_db w) = []) \<or>
     (rt \<in> {RSetupTarget, RCreateUser, RUserStatus, RUserTargets, RCreateTarget} \<and>
      (\<exists>u. signed_in E P r w u \<and> is_admin u))"
proof (cases "rt \<in> access_routes")
  case False
  then show ?thesis using access_quiet_routes [OF False] leavesD [OF _ assms(1)] assms(2) by blast
next
  case True
  have adm: "\<exists>u. signed_in E P r w u \<and> is_admin u" if "run_state (admin E P h r) w = (resp, w')" for h
    by (rule admin_cases [OF that]) (use assms(2) in auto)
  show ?thesis
  proof (cases "rt = RSetupAdmin")
    case True
    have "users (w_db w) = []"
      by (rule ccontr) (use openDuringSetup_closed [of w "handleSetupAdmin E P" r resp w'] assms True in simp)
    then show ?thesis using True by simp
  next
    case False
    then have "\<exists>h. run_state (admin E P h r) w = (resp, w')"
      using True assms(1) unfolding access_routes_def by auto
    then show ?thesis using adm True False unfolding access_routes_def by blast
  qed
qed

theorem access_changes_need_admin_witness:
  "\<exists>u. signed_in sample_env sample_portal lock_request root_world u \<and> is_admin u"
proof -
  let ?run = "run_state (portal_handler sample_env sample_portal RUserStatus lock_request) root_world"
  have "access_of (w_db (snd ?run)) \<noteq> access_of (w_db root_world)" by code_simp
  then show ?thesis
    using access_changes_need_admin [of sample_env sample_portal RUserStatus lock_request root_world "fst ?run" "snd ?run"]
    by auto
qed

section \<open>How a session comes about\<close>

lemma CheckPassword_Inr:
  assumes "run_state (CheckPassword E opts name pw src) w = (Inr u, w1)"
  shows "UserByName name (w_db w) = Inr u" "is_active u" "VerifyPassword E pw (u_pwhash u) = Inr ()"
    "\<not> fst (Locked (LockIP src) (w_clock w (w_tick w)) (w_lock w))" "w_db w1 = w_db w" "w_faults w1 = tl (w_faults w)"
  using assms unfolding CheckPassword_def locked_def fail_def
  by (auto simp: run_simps split: if_split_asm sum.split_asm)

text \<open>A session the password step may add for an account.\<close>

definition login_key :: "env \<Rightarrow> portal \<Rightarrow> request \<Rightarrow> user \<Rightarrow> world \<Rightarrow> int \<times> int \<times> string \<times> ip_key \<Rightarrow> bool" where
  "login_key E P r u w k \<longleftrightarrow>
     (\<exists>i tok st. k = (i, u_id u, stageHash E tok st, ip_string (clientIP P r)) \<and>
        (st = StageFull \<longrightarrow> u_totp_secret u = [] \<and> \<not> pt_require_factor P \<and>
           (w_faults w = [] \<longrightarrow> CountBackupCodes (u_id u) (w_db w) = 0)))"

lemma login_key_pending: "login_key E P r u w (i, u_id u, stageHash E tok StagePending, ip_string (clientIP P r))"
  by (auto simp: login_key_def)

lemma login_key_back:
  "login_key E P r u v k \<Longrightarrow> w_db v = w_db w \<Longrightarrow> (w_faults w = [] \<longrightarrow> w_faults v = []) \<Longrightarrow> login_key E P r u w k"
  unfolding login_key_def by metis

lemma nothing_enrolled_True:
  assumes "run_state (nothing_enrolled u) w = (b, w1)"
  shows "w_db w1 = w_db w"
    and "b \<Longrightarrow> u_totp_secret u = [] \<and> (w_faults w = [] \<longrightarrow> CountBackupCodes (u_id u) (w_db w) = 0)"
  using assms
  by (auto simp: nothing_enrolled_def hasBackupCodes_def run_simps outcome_def split: if_split_asm sum.split_asm)

lemma password_accepted_new:
  assumes "run_state (password_accepted E P r u) w = (resp, w')"
  shows "only_new (login_key E P r u w) (w_db w) (w_db w')"
proof -
  let ?K = "login_key E P r u w"
  define w0 where "w0 = snd (run_state (audit (u_username u) ''login.ok'' [] (clientIP P r) []) w)"
  obtain b w1 where b: "run_state (nothing_enrolled u) w0 = (b, w1)" by fastforce
  have w0: "w_db w0 = w_db w" "w_faults w = [] \<longrightarrow> w_faults w0 = []"
    by (simp_all add: w0_def run_simps)
  have pending: "leaves (only_new ?K) (Start E opts (u_id u) StagePending (ip_string (clientIP P r)) ag)" for opts ag
    by (intro fresh.starting fresh_insert login_key_pending)
  have full: "leaves (only_new ?K) (sign_in E P r u nt fs)" if b "\<not> pt_require_factor P" for nt fs
    using nothing_enrolled_True(2) [OF b that(1)] that(2) w0
    by (intro fresh.signing_in fresh_insert) (auto simp: login_key_def)
  have "leaves (only_new ?K) (start_session E P r u b)"
  proof (cases "b \<and> \<not> pt_require_factor P")
    case True
    then show ?thesis unfolding start_session_def by (simp add: full)
  next
    case False
    show ?thesis
    proof (cases b)
      case True
      then show ?thesis using False unfolding start_session_def by (simp del: append_Cons append_Nil, intro fresh_rules)
    next
      case False
      then show ?thesis unfolding start_session_def by (simp, intro fresh_rules pending)
    qed
  qed
  moreover have "run_state (start_session E P r u b) w1 = (resp, w')"
    using assms b by (simp add: password_accepted_def w0_def split: prod.splits)
  ultimately have "only_new ?K (w_db w1) (w_db w')" by (rule leavesD)
  then show ?thesis by (simp add: nothing_enrolled_True(1) [OF b] w0(1))
qed

lemma login_new:
  assumes "run_state (handleLogin E P r) w = (resp, w')" and "k \<in> keys_of (w_db w')" and "k \<notin> keys_of (w_db w)"
  shows "\<exists>req u. decode login_shape r = Some req \<and> UserByName (str_field ''username'' req) (w_db w) = Inr u \<and>
     is_active u \<and> VerifyPassword E (str_field ''password'' req) (u_pwhash u) = Inr () \<and> login_key E P r u w k"
proof -
  obtain req where req: "decode login_shape r = Some req"
    using assms by (cases "decode login_shape r") (auto simp: handleLogin_def fail_with_def)
  let ?c = "CheckPassword E (pt_auth P) (str_field ''username'' req) (str_field ''password'' req) (ip_string (clientIP P r))"
  obtain c w1 where c: "run_state ?c w = (c, w1)" by fastforce
  have same: "only_new (\<lambda>_. False) (w_db w) (w_db w1)" by (rule leavesD [OF _ c], rule fresh.check_password)
  show ?thesis
  proof (cases c)
    case (Inl e)
    define rest where "rest = (if e = ErrLockedOut then do {
        audit (str_field ''username'' req) ''lockout'' [] (clientIP P r) [];
        fail_with 429 ''too many attempts, try again later''
      } else do {
        audit (str_field ''username'' req) ''login.fail'' [] (clientIP P r) [];
        fail_with 401 ''wrong username or password''
      })"
    have "leaves (only_new (\<lambda>_. False)) rest" unfolding rest_def by (intro fresh_rules)
    moreover have "run_state rest w1 = (resp, w')"
      using assms(1) req c Inl by (simp add: handleLogin_def rest_def Let_def)
    ultimately have "only_new (\<lambda>_. False) (w_db w1) (w_db w')" by (rule leavesD)
    then show ?thesis using same assms(2,3) by (auto simp: only_new_def)
  next
    case (Inr u)
    note cp = CheckPassword_Inr [OF c [unfolded Inr]]
    have "run_state (password_accepted E P r u) w1 = (resp, w')"
      using assms(1) req c Inr by (simp add: handleLogin_def Let_def)
    then have "login_key E P r u w1 k"
      using password_accepted_new only_newD cp(5) assms(2,3) by metis
    then have "login_key E P r u w k" by (rule login_key_back) (simp_all add: cp(5,6))
    then show ?thesis using req cp by blast
  qed
qed

text \<open>
  The second factor was proved and spent: an open backup code, now claimed, or a fresh TOTP step of
  the window, now claimed.
\<close>

definition factor_spent :: "env \<Rightarrow> portal \<Rightarrow> user \<Rightarrow> string \<Rightarrow> db \<Rightarrow> db \<Rightarrow> bool" where
  "factor_spent E P u code d d' \<longleftrightarrow>
     (\<exists>c now. c \<in> set (OpenBackupCodes (u_id u) d) \<and>
        VerifyPassword E (NormalizeBackupCode E code) (b_hash c) = Inr () \<and> ClaimBackupCode now (b_id c) d = Inr d') \<or>
     (\<exists>secret c now. Open E (pt_sealer P) (totp_label u) (u_totp_secret u) = Inr secret \<and> u_totp_counter u < c \<and>
        \<bar>c - unix now div Period\<bar> \<le> int (pt_totp_skew P) \<and> x_totp E code (string_of secret) (c * Period) \<and>
        ClaimTOTPCounter (u_id u) c d = Inr d')"

lemma verifySecondFactor_True:
  assumes "run_state (verifySecondFactor E P u raw) w = (True, w')"
  shows "factor_spent E P u (trim_space raw) (w_db w) (w_db w')"
proof -
  let ?code = "trim_space raw"
  consider "run_state (consumeBackupCode E u (NormalizeBackupCode E ?code)) w = (True, w')"
    | "run_state (verify_totp E P u ?code) w = (True, w')"
    using assms by (auto simp: verifySecondFactor_def Let_def split: if_split_asm)
  then show ?thesis
  proof cases
    case 1
    then show ?thesis unfolding factor_spent_def by (blast dest: consumeBackupCode_True)
  next
    case 2
    then have "\<exists>secret c now. Open E (pt_sealer P) (totp_label u) (u_totp_secret u) = Inr secret \<and> u_totp_counter u < c \<and>
        \<bar>c - unix now div Period\<bar> \<le> int (pt_totp_skew P) \<and> x_totp E ?code (string_of secret) (c * Period) \<and>
        ClaimTOTPCounter (u_id u) c (w_db w) = Inr (w_db w')"
      unfolding verify_totp_def
      by (auto simp: run_simps split: sum.split_asm if_split_asm) (blast dest: Verify_Inr)+
    then show ?thesis unfolding factor_spent_def by blast
  qed
qed

abbreviation same_factors :: "db \<Rightarrow> db \<Rightarrow> bool" where
  "same_factors d d' \<equiv> users d' = users d \<and> codes d' = codes d"

interpretation factors: frame same_factors
  by unfold_locales simp_all

lemma factor_stmts:
  "stmt_leaves same_factors (insert_session uid h src ag c x)"
  "stmt_leaves same_factors (\<lambda>d. Inr (delete_sessions p d))"
  "stmt_leaves same_factors (\<lambda>d. Inr (touch_session now i d))"
  by (auto simp: stmt_leaves_def insert_session_def delete_sessions_def touch_session_def Let_def bump_def split: if_splits)

lemmas factor_rules = factors.rules factor_stmts factors.looking_up [OF factor_stmts(2,3)]
  factors.promoting [OF factor_stmts(2,1)]

text \<open>The new session is the full one of that account, for a token of its own.\<close>

definition full_key :: "env \<Rightarrow> portal \<Rightarrow> request \<Rightarrow> int \<Rightarrow> int \<times> int \<times> string \<times> ip_key \<Rightarrow> bool" where
  "full_key E P r uid k \<longleftrightarrow> (\<exists>i tok. k = (i, uid, stageHash E tok StageFull, ip_string (clientIP P r)))"

lemma check_code_new:
  assumes "run_state (check_code E P r code u) w = (resp, w')" and "k \<in> keys_of (w_db w')" and "k \<notin> keys_of (w_db w)"
  shows "\<exists>d. factor_spent E P u (trim_space code) (w_db w) d \<and> same_factors d (w_db w') \<and> full_key E P r (u_id u) k"
proof -
  obtain l w1 where l: "run_state (locked (LockMFA (u_username u))) w = (l, w1)" by fastforce
  have w1: "w_db w1 = w_db w" using l by (auto simp: locked_def run_simps)
  have nl: "\<not> fst l" using assms l w1 by (auto simp: check_code_def Let_def fail_with_def split: if_split_asm)
  obtain b w2 where b: "run_state (verifySecondFactor E P u code) w1 = (b, w2)" by fastforce
  have quiet: "only_new (\<lambda>_. False) (w_db w1) (w_db w2)" by (rule leavesD [OF _ b], intro fresh_rules)
  define bad where "bad = do {
      fail (pt_auth P) (LockMFA (u_username u));
      fail (pt_auth P) (LockIP (ip_string (clientIP P r)));
      audit (u_username u) ''mfa.fail'' [] (clientIP P r) [];
      fail_with 401 ''code is not valid''
    }"
  define good where "good = do {
      succeed (LockMFA (u_username u));
      succeed (LockIP (ip_string (clientIP P r)));
      audit (u_username u) ''mfa.ok'' [] (clientIP P r) [];
      promote_session E P r u
    }"
  have run: "run_state (if b then good else bad) w2 = (resp, w')"
    using assms(1) l nl b by (simp add: check_code_def Let_def good_def bad_def split: if_split_asm)
  have "leaves (only_new (\<lambda>_. False)) bad" unfolding bad_def by (intro fresh_rules)
  then have b: b using run quiet w1 assms(2,3) leavesD [of "only_new (\<lambda>_. False)" bad w2 resp w'] by (auto simp: only_new_def split: if_split_asm)
  have new: "leaves (only_new (full_key E P r (u_id u))) good"
    unfolding good_def promote_session_def
    by (intro fresh_rules fresh.promoting fresh_insert) (auto simp: full_key_def)
  have kept: "leaves same_factors good"
    unfolding good_def promote_session_def by (intro factor_rules)
  have g: "run_state good w2 = (resp, w')" using run b by simp
  show ?thesis
    using verifySecondFactor_True [of E P u code w1 w2] \<open>run_state (verifySecondFactor E P u code) w1 = (b, w2)\<close> b
      quiet w1 assms(2,3) leavesD [OF new g] leavesD [OF kept g] by (auto simp: only_new_def)
qed

lemma mfa_new:
  assumes "run_state (handleMFA E P r) w = (resp, w')" and "k \<in> keys_of (w_db w')" and "k \<notin> keys_of (w_db w)"
  shows "\<exists>req u d d'. decode mfa_shape r = Some req \<and> CheckCSRF r \<and> holds_session E P r StagePending w u \<and>
     same_factors (w_db w) d \<and> factor_spent E P u (trim_space (str_field ''code'' req)) d d' \<and>
     same_factors d' (w_db w') \<and> full_key E P r (u_id u) k"
proof -
  have csrf: "CheckCSRF r" using assms by (auto simp: handleMFA_def fail_with_def split: if_split_asm)
  obtain req where req: "decode mfa_shape r = Some req"
    using assms csrf by (cases "decode mfa_shape r") (auto simp: handleMFA_def fail_with_def)
  obtain l w1 where l: "run_state (Lookup E (pt_auth P) (SessionToken r) StagePending (ip_string (clientIP P r))) w = (l, w1)"
    by fastforce
  have quiet: "only_new (\<lambda>_. False) (w_db w) (w_db w1)" by (rule leavesD [OF _ l], intro fresh_rules)
  have same: "same_factors (w_db w) (w_db w1)" by (rule leavesD [OF _ l], intro factor_rules)
  obtain s where s: "l = Inr s"
    using assms csrf req l quiet by (cases l) (auto simp: handleMFA_def fail_with_def only_new_def)
  obtain u where u: "get_user (outcome (faulty w1) (UserByID (se_user s) (w_db w1))) = Some u"
    using assms csrf req l s quiet
    by (cases "get_user (outcome (faulty w1) (UserByID (se_user s) (w_db w1)))")
      (auto simp: handleMFA_def fail_with_def only_new_def run_simps)
  have "run_state (check_code E P r (str_field ''code'' req) u) (calm w1) = (resp, w')"
    using assms(1) csrf req l s u by (simp add: handleMFA_def run_simps)
  moreover have "k \<notin> keys_of (w_db (calm w1))" using quiet assms(3) by (auto simp: only_new_def)
  ultimately obtain d where "factor_spent E P u (trim_space (str_field ''code'' req)) (w_db w1) d"
      "same_factors d (w_db w')" "full_key E P r (u_id u) k"
    using check_code_new assms(2) by fastforce
  then show ?thesis
    using csrf req Lookup_holds [OF l [unfolded s] u] same by blast
qed

text \<open>A passkey login: the pending challenge of the address, a stored key, and its assertion.\<close>

definition passkey_proved ::
    "env \<Rightarrow> portal \<Rightarrow> request \<Rightarrow> goval \<Rightarrow> world \<Rightarrow> passkey \<Rightarrow> 32 word \<Rightarrow> user \<Rightarrow> bool" where
  "passkey_proved E P r cred w pk n u \<longleftrightarrow>
     (\<exists>ch now. w_challenges w (challengeKey ''login'' 0 (clientIP P r)) = Some ch \<and> \<not> Expired now ch \<and>
        pk \<in> set (creds (w_db w)) \<and>
        decodeCredentialID (str_field ''rawId'' cred) (str_field ''id'' cred) = Some (k_cred pk) \<and>
        verify_assertion E (webauthnConfig P r) (ch_value ch) (assertion_of cred) (k_key pk) (k_count pk) = Inr n \<and>
        UserByID (k_user pk) (w_db w) = Inr u \<and> is_active u)"

lemma passkey_accepted_new:
  assumes "run_state (passkey_accepted E P r pk n) w = (resp, w')" and "k \<in> keys_of (w_db w')" and "k \<notin> keys_of (w_db w)"
  shows "\<exists>u. UserByID (k_user pk) (w_db w) = Inr u \<and> is_active u \<and> full_key E P r (u_id u) k"
proof (cases "get_user (outcome (faulty w) (UserByID (k_user pk) (w_db w)))")
  case None
  then show ?thesis using assms by (auto simp: passkey_accepted_def run_simps fail_with_def)
next
  case (Some u)
  define rest where "rest = do {
      up \<leftarrow> exec (UpdateSignCount (k_id pk) n);
      case up of
        Inl _ \<Rightarrow> serverError
      | Inr _ \<Rightarrow> do {
          succeed (LockIP (ip_string (clientIP P r)));
          audit (u_username u) ''mfa.ok'' [] (clientIP P r) [(''via'', ''passkey''), (''key'', k_name pk)];
          sign_in E P r u None [(''stage'', JStr ''full'')]
        }
    }"
  have "leaves (only_new (full_key E P r (u_id u))) rest"
    unfolding rest_def by (intro fresh_rules fresh.signing_in fresh_insert) (auto simp: full_key_def)
  moreover have "run_state rest (calm w) = (resp, w')"
    using assms(1) Some by (simp add: passkey_accepted_def rest_def run_simps)
  ultimately have "only_new (full_key E P r (u_id u)) (w_db (calm w)) (w_db w')" by (rule leavesD)
  then show ?thesis
    using Some assms(2,3) by (auto simp: only_new_def get_user_def split: sum.split_asm if_split_asm)
qed

lemma finish_passkey_new:
  assumes "run_state (finish_passkey E P r cred) w = (resp, w')" and "k \<in> keys_of (w_db w')" and "k \<notin> keys_of (w_db w)"
  shows "\<exists>pk n u. passkey_proved E P r cred w pk n u \<and> full_key E P r (u_id u) k"
proof -
  let ?key = "challengeKey ''login'' 0 (clientIP P r)"
  define w1 where "w1 = w\<lparr>w_challenges := (w_challenges w)(?key := None)\<rparr>"
  have w1: "w_db w1 = w_db w" by (simp add: w1_def)
  have quiet: False if "run_state m v = (resp, w')" "leaves (only_new (\<lambda>_. False)) m" "w_db v = w_db w" for m :: "response act" and v
    using leavesD [OF that(2,1)] that(3) assms(2,3) by (auto simp: only_new_def)
  have refuse: "leaves (only_new (\<lambda>_. False)) (refuse_passkey P (clientIP P r))" by (rule fresh.small)
  obtain rawID where raw: "decodeCredentialID (str_field ''rawId'' cred) (str_field ''id'' cred) = Some rawID"
    using assms(1) quiet [OF _ refuse, of w1] w1
    by (cases "decodeCredentialID (str_field ''rawId'' cred) (str_field ''id'' cred)")
      (auto simp: finish_passkey_def take_challenge_def run_simps w1_def Let_def)
  obtain pk where pk: "PasskeyByCredentialID rawID (w_db w) = Inr pk"
    and run: "run_state (do {
        v \<leftarrow> FinishAssertion E (webauthnConfig P r) (w_challenges w ?key) (assertion_of cred) (k_key pk) (k_count pk);
        case v of
          Inl _ \<Rightarrow> do {
            fail (pt_auth P) (LockIP (ip_string (clientIP P r)));
            audit [] ''mfa.fail'' [] (clientIP P r) [(''via'', ''passkey'')];
            fail_with 401 ''the passkey could not be verified''
          }
        | Inr count \<Rightarrow> passkey_accepted E P r pk count
      }) (calm w1) = (resp, w')"
    using assms(1) raw quiet [OF _ refuse, of "calm w1"] w1
    by (cases "outcome (faulty w1) (PasskeyByCredentialID rawID (w_db w1))")
      (auto simp: finish_passkey_def take_challenge_def run_simps w1_def Let_def)
  obtain v w2 where v: "run_state (FinishAssertion E (webauthnConfig P r) (w_challenges w ?key) (assertion_of cred) (k_key pk) (k_count pk)) (calm w1) = (v, w2)"
    by fastforce
  have w2: "w_db w2 = w_db w"
    using v w1 by (auto simp: FinishAssertion_def run_simps split: option.split_asm)
  obtain n where n: "v = Inr n"
  proof (cases v)
    case (Inl e)
    then show ?thesis
      using run v quiet [of "do { fail (pt_auth P) (LockIP (ip_string (clientIP P r)));
          audit [] ''mfa.fail'' [] (clientIP P r) [(''via'', ''passkey'')];
          fail_with 401 ''the passkey could not be verified'' }" w2] w2
      by (simp, blast intro: fresh_rules)
  qed blast
  obtain ch now where ch: "w_challenges w ?key = Some ch" "\<not> Expired now ch"
      "verify_assertion E (webauthnConfig P r) (ch_value ch) (assertion_of cred) (k_key pk) (k_count pk) = Inr n"
    using v n by (auto simp: FinishAssertion_def run_simps split: option.split_asm if_split_asm)
  have "run_state (passkey_accepted E P r pk n) w2 = (resp, w')" using run v n by simp
  then obtain u where u: "UserByID (k_user pk) (w_db w2) = Inr u" "is_active u" "full_key E P r (u_id u) k"
    using passkey_accepted_new assms(2,3) w2 by metis
  have "pk \<in> set (creds (w_db w)) \<and> k_cred pk = rawID"
    using pk by (auto simp: PasskeyByCredentialID_def dest: find_holds)
  then have "passkey_proved E P r cred w pk n u"
    unfolding passkey_proved_def using ch raw u w2 by auto
  then show ?thesis using u(3) by blast
qed

text \<open>What each of the four ways in has proved when it ends in a session.\<close>

definition password_sign_in :: "env \<Rightarrow> portal \<Rightarrow> request \<Rightarrow> world \<Rightarrow> int \<times> int \<times> string \<times> ip_key \<Rightarrow> bool" where
  "password_sign_in E P r w k \<longleftrightarrow>
     (\<exists>req u. decode login_shape r = Some req \<and> UserByName (str_field ''username'' req) (w_db w) = Inr u \<and>
        is_active u \<and> VerifyPassword E (str_field ''password'' req) (u_pwhash u) = Inr () \<and> login_key E P r u w k)"

definition code_sign_in ::
    "env \<Rightarrow> portal \<Rightarrow> request \<Rightarrow> world \<Rightarrow> world \<Rightarrow> int \<times> int \<times> string \<times> ip_key \<Rightarrow> bool" where
  "code_sign_in E P r w w' k \<longleftrightarrow>
     (\<exists>req u d d'. decode mfa_shape r = Some req \<and> CheckCSRF r \<and> holds_session E P r StagePending w u \<and>
        same_factors (w_db w) d \<and> factor_spent E P u (trim_space (str_field ''code'' req)) d d' \<and>
        same_factors d' (w_db w') \<and> full_key E P r (u_id u) k)"

definition passkey_sign_in :: "env \<Rightarrow> portal \<Rightarrow> request \<Rightarrow> world \<Rightarrow> int \<times> int \<times> string \<times> ip_key \<Rightarrow> bool" where
  "passkey_sign_in E P r w k \<longleftrightarrow>
     (\<exists>req pk n u. decode finish_shape r = Some req \<and> CheckCSRF r \<and>
        passkey_proved E P r (struct_field ''credential'' req) w pk n u \<and> full_key E P r (u_id u) k)"

lemma passkey_new:
  assumes "run_state (handlePasskeyLoginFinish E P r) w = (resp, w')" and "k \<in> keys_of (w_db w')" and "k \<notin> keys_of (w_db w)"
  shows "passkey_sign_in E P r w k"
proof -
  have csrf: "CheckCSRF r" using assms by (auto simp: handlePasskeyLoginFinish_def fail_with_def split: if_split_asm)
  obtain req where req: "decode finish_shape r = Some req"
    using assms csrf by (cases "decode finish_shape r") (auto simp: handlePasskeyLoginFinish_def fail_with_def)
  obtain l w1 where l: "run_state (locked (LockIP (ip_string (clientIP P r)))) w = (l, w1)" by fastforce
  have w1: "w_db w1 = w_db w" "w_challenges w1 = w_challenges w" using l by (auto simp: locked_def run_simps)
  have "run_state (finish_passkey E P r (struct_field ''credential'' req)) w1 = (resp, w')"
    using assms csrf req l w1 by (auto simp: handlePasskeyLoginFinish_def fail_with_def split: if_split_asm)
  from finish_passkey_new [OF this] show ?thesis
    using assms(2,3) csrf req w1 unfolding passkey_sign_in_def passkey_proved_def by auto
qed

text \<open>The routes that start no session.\<close>

lemma quiet_routes:
  "rt \<notin> {RLogin, RMFA, RPasskeyLoginFinish, RSetupAdmin} \<Longrightarrow> leaves (only_new (\<lambda>_. False)) (portal_handler E P rt r)"
  by (cases rt) (simp_all add: fresh_handlers fresh_authed fresh_admin)

text \<open>C6. Nobody gets a portal session without proving who they are: whatever request reaches whatever
  route, a session that was not there before comes from a login with the right password of an
  active account (a full one at once only where no second factor is enrolled and none is required,
  a failed count of backup codes aside), from a second-factor request that carries the CSRF token
  and a live pending session and has spent an unspent backup code or an unused TOTP step of that
  account, from a passkey login whose assertion verified against the pending challenge and a stored
  key of an active account, or from the set-up of a gateway without accounts.\<close>

theorem sessions_are_earned:
  assumes "run_state (portal_handler E P rt r) w = (resp, w')" and "k \<in> keys_of (w_db w')" and "k \<notin> keys_of (w_db w)"
  shows "(rt = RLogin \<and> password_sign_in E P r w k) \<or> (rt = RMFA \<and> code_sign_in E P r w w' k) \<or>
     (rt = RPasskeyLoginFinish \<and> passkey_sign_in E P r w k) \<or> (rt = RSetupAdmin \<and> users (w_db w) = [])"
proof (cases "rt \<in> {RLogin, RMFA, RPasskeyLoginFinish, RSetupAdmin}")
  case False
  then show ?thesis using quiet_routes leavesD [OF _ assms(1)] only_newD assms(2,3) by metis
next
  case True
  then consider "rt = RLogin" | "rt = RMFA" | "rt = RPasskeyLoginFinish" | "rt = RSetupAdmin" by auto
  then show ?thesis
  proof cases
    case 1
    then show ?thesis using login_new [of E P r w] assms unfolding password_sign_in_def by simp
  next
    case 2
    then show ?thesis using mfa_new [of E P r w] assms unfolding code_sign_in_def by simp
  next
    case 3
    then show ?thesis using passkey_new [of E P r w] assms by simp
  next
    case 4
    have "users (w_db w) = []"
      by (rule ccontr) (use openDuringSetup_closed [of w "handleSetupAdmin E P" r resp w'] assms 4 in simp)
    then show ?thesis using 4 by simp
  qed
qed

theorem sessions_are_earned_witness:
  "users (w_db fresh_world) = [] \<and>
   keys_of (w_db (snd (run_state (portal_handler sample_env sample_portal RSetupAdmin setup_request) fresh_world))) \<noteq> {}"
proof -
  let ?run = "run_state (portal_handler sample_env sample_portal RSetupAdmin setup_request) fresh_world"
  have new: "keys_of (w_db (snd ?run)) \<noteq> {}" by code_simp
  then obtain k where "k \<in> keys_of (w_db (snd ?run))" by blast
  moreover have "keys_of (w_db fresh_world) = {}" by (simp add: fresh_world_def keys_of_def empty_db_def)
  ultimately have "users (w_db fresh_world) = []"
    using sessions_are_earned [of sample_env sample_portal RSetupAdmin setup_request fresh_world "fst ?run" "snd ?run" k]
    by simp
  with new show ?thesis by simp
qed

section \<open>Set-up\<close>

lemma insert_first_admin_cases:
  assumes "run_state (insert_first_admin b n d h) w = (r, w')" and "b = w_db w" and "users (w_db w) = []"
  shows "case r of Inl e \<Rightarrow> w_db w' = b
     | Inr i \<Rightarrow> \<exists>u. users (w_db w') = [u] \<and> u_id u = i \<and> u_username u = n \<and> u_pwhash u = h \<and> is_admin u \<and> is_active u"
  using assms
  by (auto simp: insert_first_admin_def run_simps fault_def put_db_def CreateUser_def first_admin_def is_admin_def
      is_active_def outcome_def bump_def Let_def split: sum.splits if_splits)

text \<open>C23. The first administrator is made once, by one transaction: if it fails, for whatever reason,
  the database is as it was; if it succeeds there was no account before and there is exactly one
  afterwards, an active administrator of that name and password.  So of two set-up requests that
  both found the gateway empty, only one makes an account.\<close>

theorem first_admin_once:
  "case run_state (createFirstAdmin n d h) w of
     (Inl e, w') \<Rightarrow> w_db w' = w_db w
   | (Inr i, w') \<Rightarrow> users (w_db w) = [] \<and>
       (\<exists>u. users (w_db w') = [u] \<and> u_id u = i \<and> u_username u = n \<and> u_pwhash u = h \<and> is_admin u \<and> is_active u)"
proof (cases "faulty w \<or> faulty (calm w) \<or> users (w_db w) \<noteq> []")
  case True
  then show ?thesis by (auto simp: createFirstAdmin_def fault_def get_db_def run_query outcome_def)
next
  case False
  then have run: "run_state (createFirstAdmin n d h) w = run_state (insert_first_admin (w_db w) n d h) (calm (calm w))"
    by (auto simp: createFirstAdmin_def fault_def get_db_def run_query)
  obtain x w' where x: "run_state (insert_first_admin (w_db w) n d h) (calm (calm w)) = (x, w')" by fastforce
  have "case x of Inl e \<Rightarrow> w_db w' = w_db w
     | Inr i \<Rightarrow> \<exists>u. users (w_db w') = [u] \<and> u_id u = i \<and> u_username u = n \<and> u_pwhash u = h \<and> is_admin u \<and> is_active u"
    by (rule insert_first_admin_cases [OF x]) (use False in simp_all)
  then show ?thesis using False unfolding run x by (cases x) simp_all
qed

section \<open>Passkeys\<close>

lemma flag_bits:
  "x AND flagUserPresent = 0 \<longleftrightarrow> \<not> bit x 0" "x AND flagAttestedData = 0 \<longleftrightarrow> \<not> bit x 6"
  using and_exp_eq_0_iff_not_bit [of x 0] and_exp_eq_0_iff_not_bit [of x 6]
  by (simp_all add: flagUserPresent_def flagAttestedData_def)

text \<open>The parts of the check, each exact.\<close>

lemma checkClientData_Inr:
  "checkClientData c cd challenge ty = Inr u \<longleftrightarrow>
     (\<exists>g. unmarshal client_data_shape (string_of cd) = Some g \<and> str_field ''type'' g = ty \<and>
        unb64 (str_field ''challenge'' g) = Some challenge \<and> str_field ''origin'' g = wc_origin c)"
  by (auto simp: checkClientData_def split: option.splits)

lemma parseAuthData_Inr:
  assumes "parseAuthData raw = Inr a"
  shows "37 \<le> length raw" "ad_rpid a = take 32 raw" "ad_flags a = raw ! 32" "ad_count a = get_be32 (drop 33 raw)"
  using assms by (auto simp: parseAuthData_def Let_def split: if_split_asm)

lemma checkAuthData_Inr:
  "checkAuthData E c a = Inr u \<longleftrightarrow> ad_rpid a = x_sha256 E (bytes_of (wc_rpid c)) \<and> bit (ad_flags a) 0"
  by (simp add: checkAuthData_def flag_bits)

text \<open>C21. A passkey assertion is accepted exactly when its client data is for an assertion, carries the
  pending challenge and names this site's origin, its authenticator data is well formed, is for this
  site and says the user was present, its signature over the authenticator data and the digest of the
  client data verifies under the stored key, and its counter has moved past the stored one (or both
  are zero); the counter it reports is the one returned.\<close>

theorem passkey_assertion_exact:
  "verify_assertion E c challenge resp pk stored = Inr n \<longleftrightarrow>
     (\<exists>cd g raw a sig k.
        unb64 (ar_client_data resp) = Some cd \<and> unmarshal client_data_shape (string_of cd) = Some g \<and>
        str_field ''type'' g = ''webauthn.get'' \<and> unb64 (str_field ''challenge'' g) = Some challenge \<and>
        str_field ''origin'' g = wc_origin c \<and>
        unb64 (ar_auth_data resp) = Some raw \<and> parseAuthData raw = Inr a \<and> 37 \<le> length raw \<and>
        take 32 raw = x_sha256 E (bytes_of (wc_rpid c)) \<and> bit (raw ! 32) 0 \<and>
        unb64 (ar_signature resp) = Some sig \<and> parseCOSEKey pk = Inr k \<and>
        verify_sig E k (raw @ x_sha256 E cd) sig = Inr () \<and>
        n = get_be32 (drop 33 raw) \<and> (stored < n \<or> stored = 0 \<and> n = 0))"
  (is "?ok \<longleftrightarrow> ?spec")
proof
  assume ?ok
  then show ?spec
    by (auto simp: verify_assertion_def checkClientData_Inr checkAuthData_Inr counter_advances_def parseAuthData_Inr
        split: option.split_asm sum.split_asm if_split_asm)
next
  assume ?spec
  then obtain cd g raw a sig k where
      1: "unb64 (ar_client_data resp) = Some cd" "unb64 (ar_auth_data resp) = Some raw" "parseAuthData raw = Inr a"
         "unb64 (ar_signature resp) = Some sig" "parseCOSEKey pk = Inr k"
         "verify_sig E k (raw @ x_sha256 E cd) sig = Inr ()"
    and 2: "checkClientData c cd challenge ''webauthn.get'' = Inr ()" "checkAuthData E c a = Inr ()"
         "counter_advances stored (ad_count a)" "n = ad_count a"
    by (auto simp: checkClientData_Inr checkAuthData_Inr counter_advances_def parseAuthData_Inr)
  then show ?ok by (simp add: verify_assertion_def)
qed

section \<open>Passkey challenges\<close>

lemma keeps_steps [keep_intros]:
  "keeps w_challenges read_clock" "keeps w_challenges (read_rand n)" "keeps w_challenges (query q)"
  "keeps w_challenges (exec s)" "keeps w_challenges (record_event ev)" "keeps w_challenges get_lock"
  "keeps w_challenges (put_lock m)"
  by (simp_all add: keeps_def run_simps split: sum.splits)

lemma keeps_branches [keep_intros]:
  "keeps f m \<Longrightarrow> (\<And>x. keeps f (k x)) \<Longrightarrow> keeps f (case oa of None \<Rightarrow> m | Some x \<Rightarrow> k x)"
  "(\<And>e. keeps f (g e)) \<Longrightarrow> (\<And>x. keeps f (k x)) \<Longrightarrow> keeps f (case sa of Inl e \<Rightarrow> g e | Inr x \<Rightarrow> k x)"
  by (simp_all split: option.split sum.split)

lemma keeps_lockout [keep_intros]:
  "keeps w_challenges (locked k)" "keeps w_challenges (fail opts k)" "keeps w_challenges (succeed k)"
  "keeps w_challenges (audit a b c d e)"
  unfolding locked_def fail_def succeed_def audit_def by (intro keep_intros)+

lemma keeps_replies [keep_intros]:
  "keeps w_challenges (fail_with code msg)" "keeps w_challenges (send cks fs)" "keeps w_challenges serverError"
  unfolding fail_with_def send_def serverError_def by (intro keep_intros)+

lemma keeps_signing_in [keep_intros]:
  "keeps w_challenges (Start E opts uid st src ag)" "keeps w_challenges (NewCSRFToken sec)"
  "keeps w_challenges (FinishAssertion E c och ar pk n)" "keeps w_challenges (refuse_passkey P addr)"
  unfolding Start_def NewCSRFToken_def FinishAssertion_def refuse_passkey_def by (intro keep_intros)+

lemma keeps_accepted [keep_intros]: "keeps w_challenges (passkey_accepted E P r pk n)"
  unfolding passkey_accepted_def sign_in_def by (intro keep_intros)

lemma finish_passkey_takes:
  assumes "run_state (finish_passkey E P r cred) w = (resp, w')"
  shows "w_challenges w' = (w_challenges w)(challengeKey ''login'' 0 (clientIP P r) := None)"
proof -
  let ?key = "challengeKey ''login'' 0 (clientIP P r)"
  define rest where "rest = (\<lambda>ch. case decodeCredentialID (str_field ''rawId'' cred) (str_field ''id'' cred) of
        None \<Rightarrow> refuse_passkey P (clientIP P r)
      | Some rawID \<Rightarrow> do {
          rk \<leftarrow> query (PasskeyByCredentialID rawID);
          case rk of
            Inl _ \<Rightarrow> refuse_passkey P (clientIP P r)
          | Inr k \<Rightarrow> do {
              v \<leftarrow> FinishAssertion E (webauthnConfig P r) ch (assertion_of cred) (k_key k) (k_count k);
              case v of
                Inl _ \<Rightarrow> do {
                  fail (pt_auth P) (LockIP (ip_string (clientIP P r)));
                  audit [] ''mfa.fail'' [] (clientIP P r) [(''via'', ''passkey'')];
                  fail_with 401 ''the passkey could not be verified''
                }
              | Inr count \<Rightarrow> passkey_accepted E P r k count
            }
        })"
  have "run_state (rest (w_challenges w ?key)) (w\<lparr>w_challenges := (w_challenges w)(?key := None)\<rparr>) = (resp, w')"
    using assms by (simp add: finish_passkey_def rest_def take_challenge_def run_simps Let_def)
  moreover have "keeps w_challenges (rest ch)" for ch unfolding rest_def by (intro keep_intros)
  ultimately show ?thesis using keeps_run by fastforce
qed

text \<open>C22. A passkey challenge answers one attempt: once a passkey login from an address has reached its
  check - whether it was accepted or refused - no further request to the passkey login route from that address starts a
  session, with that response or any other, until a new challenge has been handed out.\<close>

theorem passkey_challenge_single_use:
  assumes "run_state (finish_passkey E P r cred) w = (resp, w1)"
    and "w_challenges w2 = w_challenges w1" and "clientIP P r2 = clientIP P r"
    and "run_state (portal_handler E P RPasskeyLoginFinish r2) w2 = (resp2, w3)"
  shows "keys_of (w_db w3) \<subseteq> keys_of (w_db w2)"
proof
  fix k assume k: "k \<in> keys_of (w_db w3)"
  have none: "w_challenges w2 (challengeKey ''login'' 0 (clientIP P r2)) = None"
    using finish_passkey_takes [OF assms(1)] assms(2,3) by simp
  show "k \<in> keys_of (w_db w2)"
  proof (rule ccontr)
    assume "k \<notin> keys_of (w_db w2)"
    then have "passkey_sign_in E P r2 w2 k" using passkey_new assms(4) k by simp
    then show False using none by (auto simp: passkey_sign_in_def passkey_proved_def)
  qed
qed

text \<open>A stick whose key and signature are those of the sample environment, and the login it answers.\<close>

definition key_env :: env where "key_env = sample_env\<lparr>x_sha256 := (\<lambda>_. replicate 32 0)\<rparr>"

definition key_request :: request where
  "key_request = sample_request\<lparr>rq_host := ''a'', 
     rq_body := ''{\"credential\":{\"rawId\":\"CQ\",\"response\":{\"clientDataJSON\":\"eyJ0eXBlIjoid2ViYXV0aG4uZ2V0IiwiY2hhbGxlbmdlIjoiQVFJRCIsIm9yaWdpbiI6Imh0dHBzOi8vYSJ9\",\"authenticatorData\":\"AAAAAAAAAAAAAAAAAAAAAAAAAAAAAAAAAAAAAAAAAAAFAAAAAQ\",\"signature\":\"AAAAAAAAAAAAAAAAAAAAAAAAAAAAAAAAAAAAAAAAAAA\"}}}''\<rparr>"

definition key_stick :: passkey where
  "key_stick = \<lparr>k_id = 1, k_user = 2, k_cred = [9], k_key = [0xA4, 1, 3, 3, 0x39, 1, 0, 0x20, 0x41, 5, 0x21, 0x41, 3],
     k_count = 0, k_name = ''stick'', k_created = 100\<rparr>"

definition key_world :: world where
  "key_world = sample_world\<lparr>w_db := sample_db\<lparr>creds := [key_stick]\<rparr>,
     w_challenges := [challengeKey ''login'' 0 (clientIP sample_portal sample_request) \<mapsto>
       \<lparr>ch_value = [1, 2, 3], ch_user = 0, ch_expires = seconds 240\<rparr>]\<rparr>"

lemma key_accepted:
  "rs_status (fst (run_state (portal_handler key_env sample_portal RPasskeyLoginFinish key_request) key_world)) = 200"
  by code_simp

lemma passkey_login_reaches_check:
  assumes "run_state (portal_handler E P RPasskeyLoginFinish r) w = (resp, w')" and "rs_status resp = 200"
  shows "\<exists>cred v. run_state (finish_passkey E P r cred) v = (resp, w')"
  using assms
  by (auto simp: handlePasskeyLoginFinish_def fail_with_def reply_def split: if_split_asm option.split_asm prod.split_asm)

theorem passkey_challenge_single_use_witness:
  "\<exists>resp w1 resp2 w2. run_state (portal_handler key_env sample_portal RPasskeyLoginFinish key_request) key_world = (resp, w1) \<and>
     rs_status resp = 200 \<and>
     run_state (portal_handler key_env sample_portal RPasskeyLoginFinish key_request) w1 = (resp2, w2) \<and>
     keys_of (w_db w2) \<subseteq> keys_of (w_db w1)"
proof -
  obtain resp w1 where r: "run_state (portal_handler key_env sample_portal RPasskeyLoginFinish key_request) key_world = (resp, w1)"
    by fastforce
  obtain resp2 w2 where r2: "run_state (portal_handler key_env sample_portal RPasskeyLoginFinish key_request) w1 = (resp2, w2)"
    by fastforce
  have ok: "rs_status resp = 200" using key_accepted r by simp
  obtain cred v where "run_state (finish_passkey key_env sample_portal key_request cred) v = (resp, w1)"
    using passkey_login_reaches_check [OF r ok] by blast
  from passkey_challenge_single_use [OF this refl refl r2] r r2 ok show ?thesis by blast
qed

section \<open>Behind a reverse proxy\<close>

definition peer_of :: "request \<Rightarrow> ip" where
  "peer_of r = ParseIP (case SplitHostPort (rq_remote r) of Some (h, _) \<Rightarrow> h | None \<Rightarrow> rq_remote r)"

lemma split_byte_last: "c \<notin> set p \<Longrightarrow> split_byte c (s @ c # p) = split_byte c s @ [p]"
proof (induction s)
  case Nil
  then show ?case by (simp add: split_byte_single)
next
  case (Cons x s)
  then show ?case using split_byte_nonempty [of c s] by (cases "split_byte c s") auto
qed

lemma splitAndTrim_last:
  "CHR '','' \<notin> set p \<Longrightarrow> trim_blanks p \<noteq> [] \<Longrightarrow> splitAndTrim (s @ CHR '','' # p) = splitAndTrim s @ [trim_blanks p]"
  by (simp add: splitAndTrim_def split_byte_last)

text \<open>A client cannot choose its own address: the headers count only when the connection comes from a
  trusted proxy, and then the last entry of the forwarding header - the one that proxy appended -
  decides whenever it is an address outside the proxies, whatever the client put before it and
  whatever it sent in the other header.\<close>

theorem client_address_not_forged:
  "(\<not> isTrusted (peer_of r) trusted \<longrightarrow> ClientIP r trusted = peer_of r) \<and>
   (isTrusted (peer_of r) trusted \<and> peer_of r \<noteq> NilIP \<and>
      rq_header r ''X-Forwarded-For'' = forged @ CHR '','' # appended \<and> CHR '','' \<notin> set appended \<and>
      trim_blanks appended \<noteq> [] \<and> client_of trusted (trim_blanks appended) \<longrightarrow>
    ClientIP r trusted = ParseIP (trim_blanks appended))"
proof (intro conjI impI)
  assume "\<not> isTrusted (peer_of r) trusted"
  then show "ClientIP r trusted = peer_of r" by (simp add: ClientIP_def peer_of_def Let_def)
next
  assume a: "isTrusted (peer_of r) trusted \<and> peer_of r \<noteq> NilIP \<and>
      rq_header r ''X-Forwarded-For'' = forged @ CHR '','' # appended \<and> CHR '','' \<notin> set appended \<and>
      trim_blanks appended \<noteq> [] \<and> client_of trusted (trim_blanks appended)"
  then have "trusted \<noteq> []" by (auto simp: isTrusted_def)
  with a show "ClientIP r trusted = ParseIP (trim_blanks appended)"
    by (simp add: ClientIP_def peer_of_def Let_def splitAndTrim_last)
qed

definition proxied_request :: request where
  "proxied_request = sample_request\<lparr>rq_remote := ''10.0.0.7:40000'',
     rq_header := (\<lambda>h. if h = ''X-Forwarded-For'' then ''192.0.2.1, 203.0.113.9'' else [])\<rparr>"

theorem client_address_not_forged_witness:
  "ClientIP proxied_request [''10.0.0.0/8''] = ParseIP ''203.0.113.9''"
proof -
  have "isTrusted (peer_of proxied_request) [''10.0.0.0/8'']" "peer_of proxied_request \<noteq> NilIP"
    "client_of [''10.0.0.0/8''] ''203.0.113.9''" "trim_blanks '' 203.0.113.9'' = ''203.0.113.9''"
    by code_simp+
  then show ?thesis
    using client_address_not_forged [of proxied_request "[''10.0.0.0/8'']" "''192.0.2.1''" "'' 203.0.113.9''"]
    by (simp add: proxied_request_def)
qed

end
