(* ===== verification/Go_Url.thy ===== *)
theory Go_Url
  imports Net_Text
begin

text \<open>
  \<open>net/url.Parse\<close> as far as the program looks at its result: whether the text is a URL, its scheme
  in lower case, its host and the host name without port and brackets.  Paths, queries, fragments
  and user information only matter through the escapes that make them malformed.
\<close>

section \<open>Escapes\<close>

definition alpha :: "char \<Rightarrow> bool" where
  "alpha c \<longleftrightarrow> (65 \<le> byte_val c \<and> byte_val c \<le> 90) \<or> (97 \<le> byte_val c \<and> byte_val c \<le> 122)"

definition alnum :: "char \<Rightarrow> bool" where
  "alnum c \<longleftrightarrow> alpha c \<or> is_digit c"

text \<open>Every percent sign is followed by two hexadecimal digits.\<close>

fun escapes_ok :: "string \<Rightarrow> bool" where
  "escapes_ok [] = True"
| "escapes_ok (c # s) =
     (if c = CHR ''%'' then 2 \<le> length s \<and> is_hex (s ! 0) \<and> is_hex (s ! 1) \<and> escapes_ok s else escapes_ok s)"

definition host_chars :: string where
  "host_chars = ''-_.~!$&'' @ [CHR 39] @ ''()*+,;=:[]<>'' @ [CHR 0x22]"

definition should_escape :: "char \<Rightarrow> bool" where
  "should_escape c \<longleftrightarrow> \<not> alnum c \<and> c \<notin> set host_chars"

text \<open>
  In a host only bytes outside ASCII may be escaped, and the percent sign itself; in a zone also
  what need not be, and the blank.  An ASCII byte that would have to be escaped may not stand in
  either.
\<close>

function unescape_host :: "bool \<Rightarrow> string \<Rightarrow> string option" where
  "unescape_host zone [] = Some []"
| "unescape_host zone (c # s) =
     (if c = CHR ''%'' then
        (case s of
           h # l # r \<Rightarrow>
             if \<not> is_hex h \<or> \<not> is_hex l then None
             else let v = char_of (the (hex_val h) * 16 + the (hex_val l)) in
               if (h, l) \<noteq> (CHR ''2'', CHR ''5'') \<and>
                  (if zone then v \<noteq> CHR '' '' \<and> should_escape v else the (hex_val h) < 8) then None
               else map_option (\<lambda>t. v # t) (unescape_host zone r)
         | _ \<Rightarrow> None)
      else if byte_val c < 128 \<and> should_escape c then None
      else map_option (\<lambda>t. c # t) (unescape_host zone s))"
  by pat_completeness auto
termination by (relation "measure (\<lambda>(z, s). length s)") auto

section \<open>Authority\<close>

definition validOptionalPort :: "string \<Rightarrow> bool" where
  "validOptionalPort p \<longleftrightarrow> p = [] \<or> (hd p = CHR '':'' \<and> list_all is_digit (tl p))"

fun zone_start :: "string \<Rightarrow> nat option" where
  "zone_start [] = None"
| "zone_start (c # s) = (if has_prefix (c # s) ''%25'' then Some 0 else map_option Suc (zone_start s))"

definition parse_bracketed :: "nat \<Rightarrow> string \<Rightarrow> string option" where
  "parse_bracketed i h =
     (case zone_start (take i h) of None \<Rightarrow> unescape_host False h
      | Some z \<Rightarrow>
          (case (unescape_host False (take z h), unescape_host True (drop z (take i h)), unescape_host False (drop i h)) of
             (Some a, Some b, Some c) \<Rightarrow> Some (a @ b @ c)
           | _ \<Rightarrow> None))"

definition parse_host :: "string \<Rightarrow> string option" where
  "parse_host h =
     (if h \<noteq> [] \<and> hd h = CHR ''['' then
        (case last_index_of (CHR '']'') h of None \<Rightarrow> None
         | Some i \<Rightarrow> if validOptionalPort (drop (Suc i) h) then parse_bracketed i h else None)
      else (case last_index_of (CHR '':'') h of
          Some i \<Rightarrow> if validOptionalPort (drop i h) then unescape_host False h else None
        | None \<Rightarrow> unescape_host False h))"

definition userinfo_char :: "char \<Rightarrow> bool" where
  "userinfo_char c \<longleftrightarrow> alnum c \<or> c \<in> set (''-._:~!$&'' @ [CHR 39] @ ''()*+,;=%@'')"

definition parse_authority :: "string \<Rightarrow> string option" where
  "parse_authority a =
     (case last_index_of (CHR ''@'') a of
        None \<Rightarrow> parse_host a
      | Some i \<Rightarrow>
          (case parse_host (drop (Suc i) a) of None \<Rightarrow> None
           | Some h \<Rightarrow> if list_all userinfo_char (take i a) \<and> escapes_ok (take i a) then Some h else None))"

section \<open>URLs\<close>

record url =
  url_scheme :: string
  url_host :: string

fun scheme_end :: "nat \<Rightarrow> string \<Rightarrow> nat option option" where
  "scheme_end i [] = Some None"
| "scheme_end i (c # s) =
     (if alpha c then scheme_end (Suc i) s
      else if is_digit c \<or> c \<in> {CHR ''+'', CHR ''-'', CHR ''.''} then (if i = 0 then Some None else scheme_end (Suc i) s)
      else if c = CHR '':'' then (if i = 0 then None else Some (Some i))
      else Some None)"

definition cut_at :: "char \<Rightarrow> string \<Rightarrow> string" where
  "cut_at c s = takeWhile (\<lambda>x. x \<noteq> c) s"

definition lower_ascii :: "string \<Rightarrow> string" where
  "lower_ascii s = map (\<lambda>c. char_of (ascii_lower (byte_val c))) s"

text \<open>What follows the scheme, without query.\<close>

definition parse_rest :: "string \<Rightarrow> string \<Rightarrow> url option" where
  "parse_rest scheme rest =
     (if \<not> has_prefix rest ''/'' \<and> scheme \<noteq> [] then Some \<lparr>url_scheme = scheme, url_host = []\<rparr>
      else if \<not> has_prefix rest ''/'' \<and> CHR '':'' \<in> set (cut_at (CHR ''/'') rest) then None
      else if (scheme \<noteq> [] \<or> \<not> has_prefix rest ''///'') \<and> has_prefix rest ''//'' then
        (let authority = cut_at (CHR ''/'') (drop 2 rest); path = drop (2 + length authority) rest in
         case parse_authority authority of None \<Rightarrow> None
         | Some h \<Rightarrow> if escapes_ok path then Some \<lparr>url_scheme = scheme, url_host = h\<rparr> else None)
      else if escapes_ok rest then Some \<lparr>url_scheme = scheme, url_host = []\<rparr> else None)"

definition url_Parse :: "string \<Rightarrow> url option" where
  "url_Parse raw =
     (let u = cut_at (CHR ''#'') raw; frag = drop (Suc (length u)) raw in
      if (\<exists>c \<in> set u. byte_val c < 32 \<or> byte_val c = 127) then None
      else if u = ''*'' then (if escapes_ok frag then Some \<lparr>url_scheme = [], url_host = []\<rparr> else None)
      else (case scheme_end 0 u of None \<Rightarrow> None
        | Some e \<Rightarrow>
            (let scheme = lower_ascii (case e of None \<Rightarrow> [] | Some i \<Rightarrow> take i u);
                 rest = cut_at (CHR ''?'') (case e of None \<Rightarrow> u | Some i \<Rightarrow> drop (Suc i) u) in
             case parse_rest scheme rest of None \<Rightarrow> None
             | Some p \<Rightarrow> if escapes_ok frag then Some p else None)))"

definition Hostname :: "url \<Rightarrow> string" where
  "Hostname u =
     (let h = (case last_index_of (CHR '':'') (url_host u) of
                 Some i \<Rightarrow> if validOptionalPort (drop i (url_host u)) then take i (url_host u) else url_host u
               | None \<Rightarrow> url_host u) in
      if h \<noteq> [] \<and> hd h = CHR ''['' \<and> last h = CHR '']'' then butlast (tl h) else h)"

end
