(* ===== verification/Netcheck.thy ===== *)
theory Netcheck
  imports Go_Url Crypto "HOL-Library.Char_ord" "HOL-Library.List_Lexorder"
begin

text \<open>
  \<open>internal/netcheck/netcheck.go\<close>: the address the gateway is reached on from outside.  The machine's own
  interfaces and what a resolver answers are inputs; the choice between them is the code's.  Then \<open>service.go\<close>, which keeps the answer current, and \<open>probe.go\<close>, which knocks
  on it.
\<close>

section \<open>Kinds of address\<close>

text \<open>The predicates of \<open>net.IP\<close>, over the bytes of the address in its shortest form.\<close>

definition v4_octets :: "32 word \<Rightarrow> nat list" where
  "v4_octets w = (let n = unat w in [n div 16777216, n div 65536 mod 256, n div 256 mod 256, n mod 256])"

definition v6_octet :: "128 word \<Rightarrow> nat \<Rightarrow> nat" where
  "v6_octet w i = unat w div 256 ^ (15 - i) mod 256"

definition IsUnspecified :: "ip \<Rightarrow> bool" where
  "IsUnspecified a \<longleftrightarrow> (case to4 a of Some w \<Rightarrow> w = 0 | None \<Rightarrow> a = V6 0)"

definition IsLoopback :: "ip \<Rightarrow> bool" where
  "IsLoopback a \<longleftrightarrow> (case to4 a of Some w \<Rightarrow> v4_octets w ! 0 = 127 | None \<Rightarrow> a = V6 1)"

definition IsPrivate :: "ip \<Rightarrow> bool" where
  "IsPrivate a \<longleftrightarrow>
     (case to4 a of
        Some w \<Rightarrow> (let q = v4_octets w in q ! 0 = 10 \<or> (q ! 0 = 172 \<and> q ! 1 div 16 = 1) \<or> (q ! 0 = 192 \<and> q ! 1 = 168))
      | None \<Rightarrow> (case a of V6 w \<Rightarrow> v6_octet w 0 div 2 = 126 | _ \<Rightarrow> False))"

definition IsMulticast :: "ip \<Rightarrow> bool" where
  "IsMulticast a \<longleftrightarrow>
     (case to4 a of Some w \<Rightarrow> v4_octets w ! 0 div 16 = 14
      | None \<Rightarrow> (case a of V6 w \<Rightarrow> v6_octet w 0 = 255 | _ \<Rightarrow> False))"

definition IsLinkLocalUnicast :: "ip \<Rightarrow> bool" where
  "IsLinkLocalUnicast a \<longleftrightarrow>
     (case to4 a of Some w \<Rightarrow> v4_octets w ! 0 = 169 \<and> v4_octets w ! 1 = 254
      | None \<Rightarrow> (case a of V6 w \<Rightarrow> v6_octet w 0 = 254 \<and> v6_octet w 1 div 64 = 2 | _ \<Rightarrow> False))"

definition IsLinkLocalMulticast :: "ip \<Rightarrow> bool" where
  "IsLinkLocalMulticast a \<longleftrightarrow>
     (case to4 a of Some w \<Rightarrow> take 3 (v4_octets w) = [224, 0, 0]
      | None \<Rightarrow> (case a of V6 w \<Rightarrow> v6_octet w 0 = 255 \<and> v6_octet w 1 mod 16 = 2 | _ \<Rightarrow> False))"

definition IsGlobalUnicast :: "ip \<Rightarrow> bool" where
  "IsGlobalUnicast a \<longleftrightarrow> a \<noteq> NilIP \<and> to4 a \<noteq> Some 0xFFFFFFFF \<and> \<not> IsUnspecified a \<and> \<not> IsLoopback a \<and>
     \<not> IsMulticast a \<and> \<not> IsLinkLocalUnicast a"

text \<open>The ranges that look global and lead nowhere.\<close>

definition v4_reserved :: "32 word \<Rightarrow> bool" where
  "v4_reserved w \<longleftrightarrow>
     (let q = v4_octets w in
      (q ! 0 = 100 \<and> q ! 1 div 64 = 1) \<or> (q ! 0 = 192 \<and> q ! 1 = 0 \<and> q ! 2 = 0) \<or>
      (q ! 0 = 192 \<and> q ! 1 = 0 \<and> q ! 2 = 2) \<or> (q ! 0 = 198 \<and> q ! 1 div 2 = 9) \<or>
      (q ! 0 = 198 \<and> q ! 1 = 51 \<and> q ! 2 = 100) \<or> (q ! 0 = 203 \<and> q ! 1 = 0 \<and> q ! 2 = 113) \<or> 240 \<le> q ! 0)"

definition v6_reserved :: "128 word \<Rightarrow> bool" where
  "v6_reserved w \<longleftrightarrow>
     map (v6_octet w) [0..<4] = [0x20, 0x01, 0x0D, 0xB8] \<or> map (v6_octet w) [0..<8] = [1, 0, 0, 0, 0, 0, 0, 0]"

definition IsPublic :: "ip \<Rightarrow> bool" where
  "IsPublic a \<longleftrightarrow>
     (if a = NilIP \<or> \<not> IsGlobalUnicast a \<or> IsPrivate a then False
      else if IsLoopback a \<or> IsLinkLocalUnicast a \<or> IsUnspecified a then False
      else case to4 a of
        Some w \<Rightarrow> \<not> v4_reserved w
      | None \<Rightarrow> (case a of V6 w \<Rightarrow> \<not> v6_reserved w | _ \<Rightarrow> False))"

section \<open>Asking\<close>

datatype source = SourceConfigured | SourceInterface | SourceResolver

datatype detect_error = ErrNoResolvers | NoneReached | Disagree nat

text \<open>What came back for a question: nothing, or a status and a body.\<close>

type_synonym fetch = "string \<Rightarrow> (nat \<times> bytes) option"

definition maxAnswer :: nat where "maxAnswer = 128"

definition CheckResolver :: "string \<Rightarrow> bool" where
  "CheckResolver raw0 =
     (let raw = trim_space raw0 in
      raw \<noteq> [] \<and> has_prefix raw ''https://'' \<and> (\<forall>c \<in> set raw. byte_val c \<notin> {32, 9, 13, 10}))"

definition public_only :: "ip \<Rightarrow> ip option" where
  "public_only a = (if a = NilIP \<or> \<not> IsPublic a then None else Some a)"

fun read_answer :: "nat \<times> bytes \<Rightarrow> ip option" where
  "read_answer (status, body) =
     (if status \<noteq> 200 then None else public_only (ParseIP (trim_space (string_of (take maxAnswer body)))))"

definition askOne :: "fetch \<Rightarrow> string \<Rightarrow> ip option" where
  "askOne get url = (if \<not> CheckResolver url then None else case get url of None \<Rightarrow> None | Some r \<Rightarrow> read_answer r)"

text \<open>An answer is the text of the address, empty for an error.\<close>

definition answer_text :: "fetch \<Rightarrow> string \<Rightarrow> string" where
  "answer_text get url = (case askOne get url of Some a \<Rightarrow> ip_text a | None \<Rightarrow> [])"

definition ask :: "fetch \<Rightarrow> string list \<Rightarrow> string list" where
  "ask get urls = map (answer_text get) urls"

definition votes :: "string list \<Rightarrow> string \<Rightarrow> nat" where
  "votes answers k = length (filter (\<lambda>a. a = k) answers)"

text \<open>The first of the keys sorted by descending votes, then by text.\<close>

definition before_key :: "string list \<Rightarrow> string \<Rightarrow> string \<Rightarrow> bool" where
  "before_key answers a b \<longleftrightarrow> votes answers b < votes answers a \<or> (votes answers a = votes answers b \<and> a < b)"

definition tally :: "string list \<Rightarrow> (string \<times> nat) option" where
  "tally answers =
     (case remdups (filter (\<lambda>a. a \<noteq> []) answers) of
        [] \<Rightarrow> None
      | k # ks \<Rightarrow>
          (let best = foldl (\<lambda>b x. if before_key answers x b then x else b) k ks in Some (best, votes answers best)))"

definition quorum :: "string list \<Rightarrow> nat" where
  "quorum resolvers = (if length resolvers < 2 then 1 else 2)"

definition Detect :: "string list \<Rightarrow> ip list option \<Rightarrow> fetch \<Rightarrow> detect_error + (ip \<times> source \<times> nat)" where
  "Detect resolvers local_ips get =
     (case (case local_ips of None \<Rightarrow> None | Some ips \<Rightarrow> find IsPublic ips) of
        Some a \<Rightarrow> Inr (a, SourceInterface, 0)
      | None \<Rightarrow>
          if resolvers = [] then Inl ErrNoResolvers
          else case tally (ask get resolvers) of
            None \<Rightarrow> Inl NoneReached
          | Some (winner, n) \<Rightarrow>
              if n < quorum resolvers then Inl (Disagree (quorum resolvers))
              else Inr (ParseIP winner, SourceResolver, n))"

section \<open>The service\<close>

datatype mismatch = AddressDiffers | LookupFailed | NoAddress | PointsElsewhere "string list"

record net_state =
  ns_host :: string
  ns_source :: "source option"
  ns_configured :: string
  ns_detected :: string
  ns_detected_source :: "source option"
  ns_agreed :: nat
  ns_answers :: "string list"
  ns_checked :: "time option"
  ns_error :: "detect_error option"
  ns_mismatch :: "mismatch option"

definition no_state :: net_state where
  "no_state = \<lparr>ns_host = [], ns_source = None, ns_configured = [], ns_detected = [], ns_detected_source = None,
     ns_agreed = 0, ns_answers = [], ns_checked = None, ns_error = None, ns_mismatch = None\<rparr>"

record service =
  sv_detect :: bool
  sv_refresh :: int
  sv_min_interval :: int
  sv_resolvers :: "string list"
  sv_host :: string
  sv_state :: net_state

text \<open>What a check finds out there: the interfaces, the resolvers, name lookups, the clock.\<close>

record outside =
  out_ips :: "ip list option"
  out_get :: fetch
  out_lookup :: "string \<Rightarrow> ip list option"
  out_now :: time

definition NewService :: "string \<Rightarrow> bool \<Rightarrow> int \<Rightarrow> int \<Rightarrow> string list \<Rightarrow> service" where
  "NewService host detect refresh min_interval resolvers =
     (let h = trim_space host in
      \<lparr>sv_detect = detect, sv_refresh = (if refresh \<le> 0 then seconds 3600 else refresh),
       sv_min_interval = (if min_interval \<le> 0 then seconds 10 else min_interval), sv_resolvers = resolvers, sv_host = h,
       sv_state = no_state\<lparr>ns_host := h, ns_configured := h,
                           ns_source := (if h \<noteq> [] then Some SourceConfigured else None)\<rparr>\<rparr>)"

definition withEffectiveHost :: "net_state \<Rightarrow> string \<Rightarrow> net_state" where
  "withEffectiveHost st configured =
     (if configured \<noteq> [] then st\<lparr>ns_host := configured, ns_source := Some SourceConfigured\<rparr>
      else if ns_detected st \<noteq> [] then st\<lparr>ns_host := ns_detected st, ns_source := ns_detected_source st\<rparr>
      else st\<lparr>ns_host := [], ns_source := None\<rparr>)"

definition SetHost :: "string \<Rightarrow> service \<Rightarrow> service" where
  "SetHost host0 s =
     (let host = trim_space host0 in
      if sv_host s = host then s
      else s\<lparr>sv_host := host,
             sv_state := withEffectiveHost ((sv_state s)\<lparr>ns_configured := host, ns_mismatch := None\<rparr>) host\<rparr>)"

definition compare :: "outside \<Rightarrow> string \<Rightarrow> string \<Rightarrow> mismatch option" where
  "compare out host detected =
     (if ParseIP host \<noteq> NilIP then (if ip_text (ParseIP host) = detected then None else Some AddressDiffers)
      else case out_lookup out host of
        None \<Rightarrow> Some LookupFailed
      | Some ips \<Rightarrow>
          if \<exists>a \<in> set ips. ip_text a = detected then None
          else if ips = [] then Some NoAddress
          else Some (PointsElsewhere (map ip_text ips)))"

text \<open>What a check learns, for the host it read when it began.\<close>

definition checked_state :: "service \<Rightarrow> outside \<Rightarrow> string \<Rightarrow> net_state" where
  "checked_state s out host =
     (let base = no_state\<lparr>ns_configured := host, ns_checked := Some (out_now out)\<rparr>;
          asked = (if \<not> sv_detect s then base
            else case Detect (sv_resolvers s) (out_ips out) (out_get out) of
              Inl e \<Rightarrow> base\<lparr>ns_error := Some e,
                 ns_answers := (if e = ErrNoResolvers then [] else ask (out_get out) (sv_resolvers s))\<rparr>
            | Inr (a, src, n) \<Rightarrow> base\<lparr>ns_detected := ip_text a, ns_detected_source := Some src, ns_agreed := n,
                 ns_answers := (if src = SourceInterface then [] else ask (out_get out) (sv_resolvers s))\<rparr>);
          next = withEffectiveHost asked host in
      if host \<noteq> [] \<and> ns_detected next \<noteq> []
      then next\<lparr>ns_mismatch := compare out host (ns_detected next)\<rparr> else next)"

definition check :: "outside \<Rightarrow> service \<Rightarrow> service" where
  "check out s = s\<lparr>sv_state := checked_state s out (sv_host s)\<rparr>"

definition Refresh :: "outside \<Rightarrow> service \<Rightarrow> service" where
  "Refresh out s =
     (case ns_checked (sv_state s) of
        Some t \<Rightarrow> if out_now out - t < sv_min_interval s then s else check out s
      | None \<Rightarrow> check out s)"

text \<open>
  Checks exclude each other, but a change of the host does not wait for one: the check puts back what
  it computed for the host it had read.
\<close>

inductive net_step :: "service \<times> string option \<Rightarrow> service \<times> string option \<Rightarrow> bool" where
  set_host: "net_step (s, f) (SetHost h s, f)"
| begin_check: "net_step (s, None) (s, Some (sv_host s))"
| end_check: "net_step (s, Some h) (s\<lparr>sv_state := checked_state s out h\<rparr>, None)"

section \<open>Endpoints and probes\<close>

text \<open>\<open>netcheck.JoinHostPort\<close>.\<close>

definition join_endpoint :: "string \<Rightarrow> int \<Rightarrow> int \<Rightarrow> string" where
  "join_endpoint host port assumed =
     (if host = [] then [] else if port \<le> 0 \<or> port = assumed then host else JoinHostPort host (decimal_int port))"

datatype reach = ReachOpen | ReachRefused | ReachTimeout | ReachSkipped | ReachError

definition Confirmed :: "reach \<Rightarrow> bool" where
  "Confirmed r \<longleftrightarrow> r = ReachOpen"

text \<open>The outcome of a dial, and which address was dialled.\<close>

datatype dial = Connected | Refused_dial | TimedOut | DialError

definition Probe :: "(string \<Rightarrow> ip list option) \<Rightarrow> (ip \<times> int \<Rightarrow> dial) \<Rightarrow> string \<Rightarrow> int \<Rightarrow> reach \<times> ip option" where
  "Probe lookup dial host port =
     (if host = [] \<or> port \<le> 0 \<or> 65535 < port then (ReachSkipped, None)
      else case lookup host of
        None \<Rightarrow> (ReachError, None)
      | Some ips \<Rightarrow>
          (case find IsPublic ips of
             None \<Rightarrow> (ReachSkipped, None)
           | Some a \<Rightarrow>
               (case dial (a, port) of
                  Connected \<Rightarrow> ReachOpen | Refused_dial \<Rightarrow> ReachRefused | TimedOut \<Rightarrow> ReachTimeout
                | DialError \<Rightarrow> ReachError, Some a)))"

end
