(* ===== verification/Netcheck_Guarantees.thy ===== *)
theory Netcheck_Guarantees
  imports Netcheck
begin

text \<open>
  What the public-address check guarantees: which addresses count as public, that one resolver cannot
  move the answer, that the host in force is the configured one, and what a probe may dial.
\<close>

section \<open>Public addresses\<close>

definition v4_unroutable :: "(32 word \<times> nat) list" where
  "v4_unroutable = [(0, 32), (0x0A000000, 8), (0x64400000, 10), (0x7F000000, 8), (0xA9FE0000, 16), (0xAC100000, 12),
     (0xC0000000, 24), (0xC0000200, 24), (0xC0A80000, 16), (0xC6120000, 15), (0xC6336400, 24), (0xCB007100, 24),
     (0xE0000000, 3)]"

definition v6_unroutable :: "(128 word \<times> nat) list" where
  "v6_unroutable = [(0, 128), (1, 128), (0x01000000000000000000000000000000, 64),
     (0x20010DB8000000000000000000000000, 32), (0xFC000000000000000000000000000000, 7),
     (0xFE800000000000000000000000000000, 10), (0xFF000000000000000000000000000000, 8)]"

lemma same_prefix_nat: "same_prefix n (int k) v w \<longleftrightarrow> unat v div 2 ^ (n - k) = unat w div 2 ^ (n - k)"
  by (metis same_prefix_def nat_int word_unat_eq_iff unat_drop_bit_eq drop_bit_eq_div)

text \<open>A number by its bytes, and the prefixes of it.\<close>

lemma prefixes32:
  fixes n :: nat
  defines "a \<equiv> n div 16777216" and "b \<equiv> n div 65536 mod 256" and "c \<equiv> n div 256 mod 256" and "d \<equiv> n mod 256"
  shows "n = ((a * 256 + b) * 256 + c) * 256 + d" "n div 256 = (a * 256 + b) * 256 + c" "n div 65536 = a * 256 + b"
    "n div 131072 = a * 128 + b div 2" "n div 1048576 = a * 16 + b div 16" "n div 4194304 = a * 4 + b div 64"
    "n div 536870912 = a div 32"
proof -
  have 1: "n = n div 256 * 256 + d" "n div 256 = n div 65536 * 256 + c"
    using div_mult2_eq [of n 256 256] by (simp_all add: c_def d_def)
  have 2: "n div 65536 = a * 256 + b" using div_mult2_eq [of n 65536 256] by (simp add: a_def b_def)
  show "n div 65536 = a * 256 + b" by (rule 2)
  show "n div 256 = (a * 256 + b) * 256 + c" using 1(2) unfolding 2 .
  then show "n = ((a * 256 + b) * 256 + c) * 256 + d" using 1(1) by simp
  show "n div 131072 = a * 128 + b div 2" using div_mult2_eq [of n 65536 2] unfolding 2 by simp
  show "n div 1048576 = a * 16 + b div 16" using div_mult2_eq [of n 65536 16] unfolding 2 by simp
  show "n div 4194304 = a * 4 + b div 64" using div_mult2_eq [of n 65536 64] unfolding 2 by simp
  show "n div 536870912 = a div 32" using div_mult2_eq [of n 16777216 32] by (simp add: a_def)
qed

lemma digit_eq: "y < m \<Longrightarrow> (x * m + y = N) = (x = N div m \<and> y = N mod m)" for m :: nat
  by auto

lemma digit3_eq:
  fixes p :: nat
  assumes "q < 256" and "r < 256"
  shows "((p * 256 + q) * 256 + r = N) = (p = N div 256 div 256 \<and> q = N div 256 mod 256 \<and> r = N mod 256)"
  unfolding digit_eq [OF assms(2)] digit_eq [OF assms(1)] by blast

lemma v4_public:
  assumes "to4 a = Some w"
  shows "IsPublic a \<longleftrightarrow> \<not> (\<exists>(net, n) \<in> set v4_unroutable. same_prefix 32 (int n) w net)"
proof -
  let ?n = "unat w"
  obtain p q r s where b: "?n div 16777216 = p" "?n div 65536 mod 256 = q" "?n div 256 mod 256 = r" "?n mod 256 = s"
    by blast
  note pre = prefixes32 [of ?n, unfolded b]
  have zero: "w = 0 \<longleftrightarrow> ?n = 0" by (simp add: unat_eq_0)
  have top: "w = 0xFFFFFFFF \<longleftrightarrow> ?n = 4294967295" by (simp add: word_unat_eq_iff)
  have n32: "?n < 4294967296" using unsigned_less [of w] by simp
  have lt: "p < 256" "q < 256" "r < 256" "s < 256" using n32 b by auto
  have prefix: "same_prefix 32 (int k) w net \<longleftrightarrow> ?n div 2 ^ (32 - k) = unat net div 2 ^ (32 - k)" for k and net :: "32 word"
    by (rule same_prefix_nat)
  have eqs: "(p * 256 + q = 43518) = (p = 169 \<and> q = 254)" "(p * 16 + q div 16 = 2753) = (p = 172 \<and> q div 16 = 1)"
    "(p * 256 + q = 49320) = (p = 192 \<and> q = 168)" "(p * 128 + q div 2 = 25353) = (p = 198 \<and> q div 2 = 9)"
    "(p * 4 + q div 64 = 401) = (p = 100 \<and> q div 64 = 1)" "(p div 32 = 7) = (224 \<le> p)"
    using lt by (auto simp: digit_eq)
  have eqs3: "((p * 256 + q) * 256 + r = 12582912) = (p = 192 \<and> q = 0 \<and> r = 0)"
    "((p * 256 + q) * 256 + r = 12582914) = (p = 192 \<and> q = 0 \<and> r = 2)"
    "((p * 256 + q) * 256 + r = 12989284) = (p = 198 \<and> q = 51 \<and> r = 100)"
    "((p * 256 + q) * 256 + r = 13303921) = (p = 203 \<and> q = 0 \<and> r = 113)"
    unfolding digit3_eq [OF lt(2,3)] by simp_all
  have "(\<exists>(net, n) \<in> set v4_unroutable. same_prefix 32 (int n) w net) \<longleftrightarrow>
      ?n = 0 \<or> ?n div 16777216 = 10 \<or> ?n div 4194304 = 401 \<or> ?n div 16777216 = 127 \<or> ?n div 65536 = 43518 \<or>
      ?n div 1048576 = 2753 \<or> ?n div 256 = 12582912 \<or> ?n div 256 = 12582914 \<or> ?n div 65536 = 49320 \<or>
      ?n div 131072 = 25353 \<or> ?n div 256 = 12989284 \<or> ?n div 256 = 13303921 \<or> ?n div 536870912 = 7"
    by (simp add: v4_unroutable_def prefix)
  then have nets: "(\<exists>(net, n) \<in> set v4_unroutable. same_prefix 32 (int n) w net) \<longleftrightarrow>
      ?n = 0 \<or> p = 10 \<or> (p = 100 \<and> q div 64 = 1) \<or> p = 127 \<or> (p = 169 \<and> q = 254) \<or>
      (p = 172 \<and> q div 16 = 1) \<or> (p = 192 \<and> q = 0 \<and> r = 0) \<or> (p = 192 \<and> q = 0 \<and> r = 2) \<or> (p = 192 \<and> q = 168) \<or>
      (p = 198 \<and> q div 2 = 9) \<or> (p = 198 \<and> q = 51 \<and> r = 100) \<or> (p = 203 \<and> q = 0 \<and> r = 113) \<or> 224 \<le> p"
    unfolding pre(2-) b(1) eqs eqs3 .
  have kinds: "IsUnspecified a \<longleftrightarrow> ?n = 0" "IsLoopback a \<longleftrightarrow> p = 127" "IsMulticast a \<longleftrightarrow> p div 16 = 14"
    "IsLinkLocalUnicast a \<longleftrightarrow> p = 169 \<and> q = 254"
    "IsPrivate a \<longleftrightarrow> p = 10 \<or> (p = 172 \<and> q div 16 = 1) \<or> (p = 192 \<and> q = 168)"
    using assms by (simp_all add: IsUnspecified_def IsLoopback_def IsMulticast_def IsPrivate_def IsLinkLocalUnicast_def
        v4_octets_def zero b Let_def)
  have global: "a \<noteq> NilIP" "to4 a \<noteq> Some 0xFFFFFFFF \<longleftrightarrow> ?n \<noteq> 4294967295" using assms by (auto simp: top)
  have reserved: "v4_reserved w \<longleftrightarrow> (p = 100 \<and> q div 64 = 1) \<or> (p = 192 \<and> q = 0 \<and> r = 0) \<or>
      (p = 192 \<and> q = 0 \<and> r = 2) \<or> (p = 198 \<and> q div 2 = 9) \<or> (p = 198 \<and> q = 51 \<and> r = 100) \<or>
      (p = 203 \<and> q = 0 \<and> r = 113) \<or> 240 \<le> p"
    by (simp add: v4_reserved_def v4_octets_def b Let_def)
  have public: "IsPublic a \<longleftrightarrow> \<not> (?n = 0 \<or> ?n = 4294967295 \<or> p = 127 \<or> p div 16 = 14 \<or> (p = 169 \<and> q = 254) \<or>
      (p = 10 \<or> (p = 172 \<and> q div 16 = 1) \<or> (p = 192 \<and> q = 168)) \<or> v4_reserved w)"
    using assms global unfolding IsPublic_def IsGlobalUnicast_def kinds by simp
  have multi: "p div 16 = 14 \<or> 240 \<le> p \<longleftrightarrow> 224 \<le> p" using lt(1) by presburger
  have cast: "?n = 4294967295 \<Longrightarrow> 224 \<le> p" using b(1) by simp
  show ?thesis unfolding public nets reserved using multi cast by blast
qed

lemma div_byte: "i < 15 \<Longrightarrow> n div 256 ^ (15 - i) = n div 256 ^ (15 - Suc i) div 256" for n :: nat
proof -
  assume "i < 15"
  then obtain m where "15 - i = Suc m" "15 - Suc i = m" by (metis Suc_diff_Suc diff_Suc_Suc)
  then show ?thesis by (simp only: power_Suc2 div_mult2_eq)
qed

abbreviation horner :: "nat list \<Rightarrow> nat" where
  "horner bs \<equiv> foldl (\<lambda>v b. v * 256 + b) 0 bs"

lemma horner_bytes:
  assumes "n < 256 ^ 16" and "k \<le> 16"
  shows "horner (map (\<lambda>i. n div 256 ^ (15 - i) mod 256) [0..<k]) = n div 256 ^ (16 - k)"
  using assms(2)
proof (induction k)
  case 0
  then show ?case using assms(1) by simp
next
  case (Suc k)
  then have "n div 256 ^ (16 - k) = n div 256 ^ (15 - k) div 256"
    using div_byte [of "k - 1" n] assms(1) by (cases k) (auto simp: Suc_diff_le less_mult_imp_div_less)
  then show ?case using Suc by simp
qed

lemma horner_eq:
  "length xs = length ys \<Longrightarrow> \<forall>b \<in> set xs. b < 256 \<Longrightarrow> \<forall>b \<in> set ys. b < 256 \<Longrightarrow> horner xs = horner ys \<longleftrightarrow> xs = ys"
proof (induction xs arbitrary: ys rule: rev_induct)
  case (snoc x xs)
  then obtain y zs where ys: "ys = zs @ [y]" by (cases ys rule: rev_cases) auto
  then have "horner (xs @ [x]) = horner ys \<longleftrightarrow> horner xs = horner zs \<and> x = y"
    using snoc.prems digit_eq [of x 256 "horner xs" "horner zs * 256 + y"] by auto
  then show ?case using snoc ys by simp
qed simp

lemma v6_bytes:
  assumes "length bs \<le> 16" and "\<forall>b \<in> set bs. b < 256"
  shows "map (v6_octet w) [0..<length bs] = bs \<longleftrightarrow> unat w div 256 ^ (16 - length bs) = horner bs"
proof -
  have n: "unat w < 256 ^ 16" using unsigned_less [of w] by simp
  have "horner (map (v6_octet w) [0..<length bs]) = unat w div 256 ^ (16 - length bs)"
    using horner_bytes [OF n assms(1)] by (simp add: v6_octet_def [abs_def])
  moreover have "\<forall>b \<in> set (map (v6_octet w) [0..<length bs]). b < 256" by (simp add: v6_octet_def)
  ultimately show ?thesis using horner_eq [of "map (v6_octet w) [0..<length bs]" bs] assms(2) by simp
qed

lemma v6_public:
  assumes "to4 a = None" and "a = V6 w"
  shows "IsPublic a \<longleftrightarrow> \<not> (\<exists>(net, n) \<in> set v6_unroutable. same_prefix 128 (int n) w net)"
proof -
  let ?n = "unat w"
  obtain p q where b: "?n div 256 ^ 15 = p" "?n div 256 ^ 14 mod 256 = q" by blast
  have n: "?n < 256 ^ 16" using unsigned_less [of w] by simp
  have lt: "p < 256" "q < 256" using n b by auto
  have octets: "v6_octet w 0 = p" "v6_octet w 1 = q" "v6_octet w (Suc 0) = q" using b lt by (simp_all add: v6_octet_def)
  have small: "w = 0 \<longleftrightarrow> ?n = 0" "w = 1 \<longleftrightarrow> ?n = 1" by (simp add: unat_eq_0, metis unat_1 unsigned_word_eqI)
  have two: "?n div 256 ^ 14 = p * 256 + q"
    using div_byte [of 0 ?n] b div_mult_mod_eq [of "?n div 256 ^ 14" 256] by simp
  have pre: "?n div 2 ^ 118 = p * 4 + q div 64" "?n div 2 ^ 121 = p div 2" "?n div 2 ^ 120 = p"
  proof -
    have "?n div 2 ^ 118 = ?n div 256 ^ 14 div 64" "?n div 2 ^ 121 = ?n div 256 ^ 15 div 2"
      by (simp_all add: div_mult2_eq [symmetric])
    then show "?n div 2 ^ 118 = p * 4 + q div 64" "?n div 2 ^ 121 = p div 2" unfolding two b(1) by simp_all
    show "?n div 2 ^ 120 = p" using b(1) by simp
  qed
  have doc: "map (v6_octet w) [0..<4] = [0x20, 0x01, 0x0D, 0xB8] \<longleftrightarrow> ?n div 2 ^ 96 = 0x20010DB8"
  proof -
    have "[0..<4] = [0..<length [0x20, 0x01, 0x0D, 0xB8 :: nat]]" by (simp add: upt_rec)
    then show ?thesis using v6_bytes [of "[0x20, 0x01, 0x0D, 0xB8]" w] by simp
  qed
  have discard: "map (v6_octet w) [0..<8] = [1, 0, 0, 0, 0, 0, 0, 0] \<longleftrightarrow> ?n div 2 ^ 64 = 0x0100000000000000"
  proof -
    have "[0..<8] = [0..<length [1, 0, 0, 0, 0, 0, 0, 0 :: nat]]" by (simp add: upt_rec)
    then show ?thesis using v6_bytes [of "[1, 0, 0, 0, 0, 0, 0, 0]" w] by simp
  qed
  have link: "p * 4 + q div 64 = 1018 \<longleftrightarrow> p = 254 \<and> q div 64 = 2" using lt by (auto simp: digit_eq)
  have nets: "(\<exists>(net, n) \<in> set v6_unroutable. same_prefix 128 (int n) w net) \<longleftrightarrow>
      ?n = 0 \<or> ?n = 1 \<or> ?n div 2 ^ 64 = 0x0100000000000000 \<or> ?n div 2 ^ 96 = 0x20010DB8 \<or> ?n div 2 ^ 121 = 126 \<or>
      ?n div 2 ^ 118 = 1018 \<or> ?n div 2 ^ 120 = 255"
    by (simp add: v6_unroutable_def same_prefix_nat)
  have public: "IsPublic a \<longleftrightarrow> \<not> (?n = 0 \<or> ?n = 1 \<or> p = 255 \<or> (p = 254 \<and> q div 64 = 2) \<or> p div 2 = 126 \<or> v6_reserved w)"
    unfolding small [symmetric] using assms
    by (auto simp: IsPublic_def IsGlobalUnicast_def IsUnspecified_def IsLoopback_def IsMulticast_def
        IsPrivate_def IsLinkLocalUnicast_def octets)
  show ?thesis unfolding public nets v6_reserved_def doc discard pre link by blast
qed

definition unroutable :: "(ip \<times> nat) list" where
  "unroutable = map (\<lambda>(w, n). (V4 w, n)) v4_unroutable @ map (\<lambda>(w, n). (V6 w, n)) v6_unroutable"

lemma v6_nets_not_mapped: "\<forall>(w, n) \<in> set v6_unroutable. \<not> v4_mapped (mask_bits 128 (int n) w)"
  by (simp add: v6_unroutable_def v4_mapped_def mask_bits_def)

lemma v6_net_contains:
  "(w, n) \<in> set v6_unroutable \<Longrightarrow>
     cidr_contains (V6 w, n) a = (case (to4 a, a) of (None, V6 x) \<Rightarrow> same_prefix 128 (int n) x w | _ \<Rightarrow> False)"
  using v6_nets_not_mapped by auto

lemma pair_bex: "(\<exists>x \<in> S. P (case x of (w, n) \<Rightarrow> f w n)) \<longleftrightarrow> (\<exists>(w, n) \<in> S. P (f w n))"
  by (simp add: case_prod_beta)

text \<open>An address counts as public exactly when it is an address and lies in none of the networks that the
  internet does not route: loopback, private, link-local, carrier-grade NAT, protocol assignments,
  documentation, benchmarking, multicast, reserved, the two unspecified addresses and the discard
  prefix - whichever of its two forms an IPv4 address comes in.\<close>

theorem is_public_exact: "IsPublic a \<longleftrightarrow> a \<noteq> NilIP \<and> \<not> (\<exists>net \<in> set unroutable. cidr_contains net a)"
proof (cases "to4 a")
  case (Some w)
  have "(\<exists>net \<in> set unroutable. cidr_contains net a) \<longleftrightarrow> (\<exists>(net, n) \<in> set v4_unroutable. same_prefix 32 (int n) w net)"
  proof -
    have "\<And>x n. (x, n) \<in> set v6_unroutable \<Longrightarrow> \<not> cidr_contains (V6 x, n) a" using Some v6_net_contains [of _ _ a] by simp
    then have "(\<exists>net \<in> set unroutable. cidr_contains net a) \<longleftrightarrow> (\<exists>(x, n) \<in> set v4_unroutable. cidr_contains (V4 x, n) a)"
      unfolding unroutable_def set_append set_map bex_Un bex_simps(7) pair_bex [where P = "\<lambda>z. cidr_contains z a"]
      by (auto simp del: cidr_contains.simps)
    then show ?thesis using Some by simp
  qed
  then show ?thesis using v4_public [OF Some] Some by auto
next
  case None
  show ?thesis
  proof (cases a)
    case NilIP
    then show ?thesis by (simp add: IsPublic_def)
  next
    case (V4 w)
    then show ?thesis using None by simp
  next
    case (V6 w)
    have "(\<exists>net \<in> set unroutable. cidr_contains net a) \<longleftrightarrow> (\<exists>(net, n) \<in> set v6_unroutable. same_prefix 128 (int n) w net)"
    proof -
      have "\<And>x n. (x, n) \<in> set v6_unroutable \<Longrightarrow> cidr_contains (V6 x, n) a = same_prefix 128 (int n) w x"
        using v6_net_contains [of _ _ a] None V6 by simp
      then show ?thesis
        unfolding unroutable_def set_append set_map bex_Un bex_simps(7) pair_bex [where P = "\<lambda>z. cidr_contains z a"]
        using None by (auto simp del: cidr_contains.simps(2))
    qed
    then show ?thesis using v6_public [OF None V6] V6 by simp
  qed
qed

section \<open>Agreement\<close>

lemma foldl_pick: "foldl (\<lambda>b x. if Q x b then x else b) k ks \<in> set (k # ks)"
proof (induction ks arbitrary: k)
  case (Cons y ks)
  show ?case using Cons.IH [of "if Q y k then y else k"] by auto
qed simp

lemma tally_Some:
  assumes t: "tally answers = Some (k, n)"
  shows "k \<in> set answers" "k \<noteq> []" "n = votes answers k"
proof -
  let ?Q = "\<lambda>x b. before_key answers x b"
  obtain x xs where r: "remdups (filter (\<lambda>a. a \<noteq> []) answers) = x # xs"
    using t by (cases "remdups (filter (\<lambda>a. a \<noteq> []) answers)") (auto simp: tally_def)
  have "tally answers = (let b = foldl (\<lambda>b x. if ?Q x b then x else b) x xs in Some (b, votes answers b))"
    unfolding tally_def r by simp
  then have k: "k = foldl (\<lambda>b x. if ?Q x b then x else b) x xs" and n: "n = votes answers k"
    using t by (simp_all add: Let_def)
  have "k \<in> set (remdups (filter (\<lambda>a. a \<noteq> []) answers))" unfolding r k by (rule foldl_pick)
  then show "k \<in> set answers" "k \<noteq> []" by auto
  show "n = votes answers k" by (rule n)
qed

text \<open>A vote counted is an answer a resolver gave over HTTPS.\<close>

definition vouches :: "fetch \<Rightarrow> string \<Rightarrow> string \<Rightarrow> bool" where
  "vouches get k url \<longleftrightarrow>
     CheckResolver url \<and> (\<exists>body. get url = Some (200, body) \<and>
        (let a = ParseIP (trim_space (string_of (take maxAnswer body))) in IsPublic a \<and> ip_text a = k))"

lemma ask_vouches: "k \<noteq> [] \<Longrightarrow> answer_text get u = k \<Longrightarrow> vouches get k u"
  by (auto simp: answer_text_def askOne_def public_only_def vouches_def Let_def split: if_split_asm option.split_asm)

lemma votes_ask:
  assumes "k \<noteq> []"
  shows "votes (ask get urls) k \<le> length (filter (vouches get k) urls)"
  using ask_vouches [OF assms] by (induction urls) (auto simp: votes_def ask_def)

lemma Detect_resolver:
  assumes "Detect resolvers ips get = Inr (a, SourceResolver, n)"
  obtains k where "tally (ask get resolvers) = Some (k, n)" "quorum resolvers \<le> n" "a = ParseIP k"
    "case ips of None \<Rightarrow> True | Some xs \<Rightarrow> \<not> (\<exists>x \<in> set xs. IsPublic x)"
  using assms
  by (auto simp: Detect_def find_None_iff split: option.split_asm if_split_asm)

text \<open>C36. An address learned from the resolvers is not one resolver's word, as long as no resolver is configured
  twice: they are only asked where no interface has a public address, which would be taken on its own; the address was
  given, over HTTPS with status 200 and within the size limit, as a public address, by at least as many different resolvers
  as the result says; with two or more configured these are at least two; and if all but one of them tell the same
  address or nothing, that last one cannot make it another.\<close>

theorem one_resolver_cannot_move_the_answer:
  assumes "Detect resolvers ips get = Inr (a, SourceResolver, n)" and "distinct resolvers"
  shows "(case ips of None \<Rightarrow> True | Some xs \<Rightarrow> \<not> (\<exists>x \<in> set xs. IsPublic x)) \<and>
     (\<exists>k. a = ParseIP k \<and> n \<le> card {u \<in> set resolvers. vouches get k u}) \<and>
     (2 \<le> length resolvers \<longrightarrow> 2 \<le> n \<and>
        (\<forall>liar honest. (\<forall>u \<in> set resolvers - {liar}. answer_text get u \<in> {honest, []}) \<longrightarrow> a = ParseIP honest))"
proof -
  obtain k where t: "tally (ask get resolvers) = Some (k, n)" and q: "quorum resolvers \<le> n" and a: "a = ParseIP k"
    and none: "case ips of None \<Rightarrow> True | Some xs \<Rightarrow> \<not> (\<exists>x \<in> set xs. IsPublic x)"
    by (rule Detect_resolver [OF assms(1)])
  note k = tally_Some [OF t]
  have two: "2 \<le> n" if "2 \<le> length resolvers" using q that by (simp add: quorum_def)
  have "card {u \<in> set resolvers. vouches get k u} = length (filter (vouches get k) resolvers)"
    using assms(2) distinct_card [of "filter (vouches get k) resolvers"] by simp
  then have many: "n \<le> card {u \<in> set resolvers. vouches get k u}" using votes_ask [OF k(2)] k(3) by simp
  have "a = ParseIP honest" if two: "2 \<le> length resolvers"
    and h: "\<forall>u \<in> set resolvers - {liar}. answer_text get u \<in> {honest, []}" for liar honest
  proof (rule ccontr)
    assume "a \<noteq> ParseIP honest"
    then have "k \<noteq> honest" using a by auto
    then have "\<forall>u \<in> set resolvers. answer_text get u = k \<longrightarrow> u = liar" using h k(2) by auto
    then have "set (filter (\<lambda>u. answer_text get u = k) resolvers) \<subseteq> {liar}" by auto
    then have "length (filter (\<lambda>u. answer_text get u = k) resolvers) \<le> 1"
      using distinct_card [OF distinct_filter [OF assms(2)]] by (metis One_nat_def card_mono card.empty card_insert_disjoint empty_iff finite.emptyI finite.insertI)
    then have "votes (ask get resolvers) k \<le> 1" by (simp add: votes_def ask_def filter_map comp_def)
    then show False using q two k(3) by (simp add: quorum_def)
  qed
  then show ?thesis using none a many two by blast
qed

definition sample_fetch :: fetch where
  "sample_fetch u = (if u = ''https://c'' then Some (200, bytes_of ''8.8.8.8'') else Some (200, bytes_of ''9.9.9.9''))"

theorem one_resolver_cannot_move_the_answer_witness:
  "\<exists>a n. Detect [''https://a'', ''https://b'', ''https://c''] None sample_fetch = Inr (a, SourceResolver, n) \<and> 2 \<le> n \<and>
     a = ParseIP ''9.9.9.9''"
proof -
  have k: "ask sample_fetch [''https://a'', ''https://b'', ''https://c''] = [''9.9.9.9'', ''9.9.9.9'', ''8.8.8.8'']" by code_simp
  have t: "tally [''9.9.9.9'', ''9.9.9.9'', ''8.8.8.8''] = Some (''9.9.9.9'', 2)" by code_simp
  then obtain a n where d: "Detect [''https://a'', ''https://b'', ''https://c''] None sample_fetch = Inr (a, SourceResolver, n)"
    by (simp add: Detect_def k quorum_def)
  have "\<forall>u \<in> set [''https://a'', ''https://b'', ''https://c''] - {''https://c''}. answer_text sample_fetch u \<in> {''9.9.9.9'', []}"
    using k by (auto simp: ask_def)
  moreover have "distinct [''https://a'', ''https://b'', ''https://c'']" "2 \<le> length [''https://a'', ''https://b'', ''https://c'']"
    by simp_all
  ultimately have "2 \<le> n \<and> a = ParseIP ''9.9.9.9''" using one_resolver_cannot_move_the_answer [OF d] by blast
  with d show ?thesis by blast
qed

text \<open>
  Nothing refuses a list that names one resolver twice, and each entry has a vote: then that one
  resolver is its own quorum.
\<close>

lemma resolver_configured_twice:
  "get u = Some (200, bytes_of ''8.8.8.8'') \<Longrightarrow> CheckResolver u \<Longrightarrow>
     Detect [u, u] None get = Inr (ParseIP ''8.8.8.8'', SourceResolver, 2)"
proof -
  assume u: "get u = Some (200, bytes_of ''8.8.8.8'')" "CheckResolver u"
  have "read_answer (200, bytes_of ''8.8.8.8'') = Some (ParseIP ''8.8.8.8'')" "ip_text (ParseIP ''8.8.8.8'') = ''8.8.8.8''"
    by code_simp+
  then have "ask get [u, u] = [''8.8.8.8'', ''8.8.8.8'']" using u by (simp add: ask_def answer_text_def askOne_def)
  then show ?thesis by (simp add: Detect_def tally_def votes_def quorum_def)
qed

section \<open>The service\<close>

text \<open>What the snapshot shows: the configured host, or else what was detected.\<close>

definition effective :: "string \<Rightarrow> net_state \<Rightarrow> bool" where
  "effective host st \<longleftrightarrow> ns_configured st = host \<and>
     (if host \<noteq> [] then ns_host st = host \<and> ns_source st = Some SourceConfigured
      else ns_host st = ns_detected st \<and> (ns_detected st = [] \<longrightarrow> ns_source st = None))"

lemma effective_with: "ns_configured st = host \<Longrightarrow> effective host (withEffectiveHost st host)"
  by (simp add: effective_def withEffectiveHost_def)

lemma checked_effective: "effective host (checked_state s out host)"
proof -
  have eff: "effective host (st\<lparr>ns_mismatch := m\<rparr>) = effective host st" for st m
    by (simp add: effective_def)
  show ?thesis
    unfolding checked_state_def Let_def
    by (auto simp: eff split: sum.split prod.split intro!: effective_with)
qed

definition settled :: "service \<Rightarrow> bool" where
  "settled s \<longleftrightarrow> effective (sv_host s) (sv_state s)"

inductive runs :: "service \<Rightarrow> service \<Rightarrow> bool" where
  runs_set: "runs s (SetHost h s)"
| runs_refresh: "runs s (Refresh out s)"
| runs_check: "runs s (check out s)"

inductive_cases runsE: "runs s s'"

text \<open>A configured name always wins: whatever sequence of host changes, checks and refreshes runs one
  after the other on a new service, with whatever they find outside, the snapshot shows the
  configured host and calls it configured, or, with none configured, what the last check detected;
  and a change of the host takes effect at once, without asking anyone.\<close>

theorem configured_host_wins:
  assumes "runs\<^sup>*\<^sup>* (NewService host0 d rf mi rs) s"
  shows "settled s \<and> settled (SetHost h s) \<and> sv_host (SetHost h s) = trim_space h"
proof -
  have set: "settled (SetHost x v)" if "settled v" for x v
    using that by (auto simp: settled_def SetHost_def Let_def intro: effective_with)
  have check: "settled (check out v)" for out v
    by (simp add: settled_def check_def checked_effective)
  have "settled s" using assms
  proof (induction rule: rtranclp_induct)
    case base
    then show ?case by (simp add: NewService_def settled_def effective_def no_state_def Let_def)
  next
    case (step v w)
    from step(2) show ?case
      by (cases rule: runs.cases) (auto simp: Refresh_def set check step split: option.split)
  qed
  then show ?thesis using set by (simp add: SetHost_def Let_def)
qed

theorem configured_host_wins_witness:
  "ns_host (sv_state (SetHost '' rdp.example.org '' (NewService [] True 0 0 []))) = ''rdp.example.org''"
proof -
  have "trim_space '' rdp.example.org '' = ''rdp.example.org''" by code_simp
  then show ?thesis
    using configured_host_wins [OF rtranclp.rtrancl_refl, of "[]" True 0 0 "[]" "'' rdp.example.org ''"]
    by (simp add: settled_def effective_def)
qed

text \<open>
  A host changed while a check is running is lost from the snapshot when the check ends: it stores
  what it computed for the host it read at its start.
\<close>

lemma change_lost_to_running_check:
  "\<exists>s s' f. net_step\<^sup>*\<^sup>* (s, None) (s', None) \<and> settled s \<and> \<not> settled s'"
proof -
  let ?s = "NewService [] False 0 0 []"
  let ?out = "\<lparr>out_ips = None, out_get = (\<lambda>_. None), out_lookup = (\<lambda>_. None), out_now = 0\<rparr>"
  let ?m = "SetHost ''a'' ?s"
  have "net_step (?s, None) (?s, Some (sv_host ?s))" by (rule begin_check)
  moreover have "net_step (?s, Some (sv_host ?s)) (?m, Some (sv_host ?s))" by (rule set_host)
  moreover have "net_step (?m, Some (sv_host ?s)) (?m\<lparr>sv_state := checked_state ?m ?out (sv_host ?s)\<rparr>, None)"
    by (rule end_check)
  ultimately have "net_step\<^sup>*\<^sup>* (?s, None) (?m\<lparr>sv_state := checked_state ?m ?out (sv_host ?s)\<rparr>, None)"
    by (meson rtranclp.rtrancl_refl rtranclp.rtrancl_into_rtrancl)
  moreover have "sv_host ?s = []" "sv_host ?m = ''a''"
    by code_simp+
  moreover have "settled ?s" by code_simp
  moreover have "\<not> settled (?m\<lparr>sv_state := checked_state ?m ?out (sv_host ?s)\<rparr>)"
    using checked_effective [of "sv_host ?s" ?m ?out] calculation(2,3) by (simp add: settled_def effective_def)
  ultimately show ?thesis by blast
qed

section \<open>Probing\<close>

text \<open>The reachability probe only ever dials a public address that the name resolves to, whoever asks for
  it; it says "open" only for a connection that was accepted there.\<close>

theorem probe_dials_public_only:
  "case Probe lookup dial host port of (r, dialled) \<Rightarrow>
     (case dialled of
        None \<Rightarrow> \<not> Confirmed r
      | Some a \<Rightarrow> IsPublic a \<and> 0 < port \<and> port \<le> 65535 \<and> (\<exists>ips. lookup host = Some ips \<and> a \<in> set ips) \<and>
          (Confirmed r \<longleftrightarrow> dial (a, port) = Connected))"
proof -
  have "IsPublic a \<and> a \<in> set ips" if "find IsPublic ips = Some a" for ips a
    using find_holds [OF that] by simp
  then show ?thesis
    by (auto simp: Probe_def Confirmed_def split: option.split dial.split)
qed

end
