(* ===== verification/Notify.thy ===== *)
theory Notify
  imports Netcheck Audit_Log Decimal
begin

text \<open>
  \<open>internal/notify\<close>: messages to a phone about entries of the audit log.  \<open>format.go\<close> turns an entry into
  text and checks the settings; \<open>notify.go\<close> queues entries, lets five through and then one every half
  minute, and retries a delivery.  The far end is a function from the attempt and the request to the
  status it answers with, if it answers.
\<close>

section \<open>What an entry reads like\<close>

record message =
  ms_title :: string
  ms_body :: string
  ms_event :: string
  ms_urgent :: bool
  ms_suppressed :: nat

definition titles :: "(string \<times> string \<times> bool) list" where
  "titles =
    [(''relay.open'', ''Remote desktop connected'', False),
     (''relay.close'', ''Remote desktop disconnected'', False),
     (''relay.rejected'', ''Connection refused'', False),
     (''grant.issued'', ''Access granted'', False),
     (''grant.denied'', ''Access denied'', True),
     (''login.ok'', ''Signed in'', False),
     (''login.fail'', ''Sign-in failed'', False),
     (''mfa.fail'', ''Second factor failed'', False),
     (''lockout'', ''Account locked'', True),
     (''jit.requested'', ''Approval requested'', True),
     (''jit.approved'', ''Approval given'', False),
     (''jit.denied'', ''Approval refused'', True),
     (''jit.timeout'', ''Approval timed out'', False),
     (''wol.sent'', ''Waking a machine'', False),
     (''target.online'', ''Machine is up'', False),
     (''target.timeout'', ''Machine did not come up'', False),
     (''user.created'', ''Account created'', True),
     (''mfa.reset'', ''Second factor reset'', True),
     (''settings.updated'', ''Settings changed'', False),
     (''update.applied'', ''Update installed'', False)]"

definition Notifiable :: "string list" where
  "Notifiable = filter (\<lambda>a. map_of titles a \<noteq> None) Actions"

definition DefaultEvents :: "string list" where
  "DefaultEvents = [''relay.open'', ''lockout'', ''jit.requested'']"

definition IsControl :: "rune \<Rightarrow> bool" where
  "IsControl r \<longleftrightarrow> r < 32 \<or> (127 \<le> r \<and> r < 160)"

text \<open>\<open>strings.Fields\<close> and \<open>strings.Join\<close> with a blank, on runes: what \<open>strings.Map\<close> returns is UTF-8.\<close>

definition rune_blank :: "rune \<Rightarrow> bool" where
  "rune_blank r \<longleftrightarrow> r \<in> set space_runes"

function rune_fields :: "rune list \<Rightarrow> rune list list" where
  "rune_fields rs =
     (if dropWhile rune_blank rs = [] then []
      else takeWhile (Not \<circ> rune_blank) (dropWhile rune_blank rs) # rune_fields (dropWhile (Not \<circ> rune_blank) (dropWhile rune_blank rs)))"
  by pat_completeness auto
termination
proof (relation "measure length", goal_cases)
  case (2 rs)
  then obtain q qs where q: "dropWhile rune_blank rs = q # qs" by (cases "dropWhile rune_blank rs") auto
  then have "\<not> rune_blank q" by (metis dropWhile_eq_Cons_conv)
  moreover have "length (q # qs) \<le> length rs" by (metis q length_dropWhile_le)
  moreover have "length (dropWhile (Not \<circ> rune_blank) qs) \<le> length qs" by (rule length_dropWhile_le)
  ultimately show ?case by (simp add: q)
qed simp

declare rune_fields.simps [simp del]

fun join_runes :: "rune list list \<Rightarrow> rune list" where
  "join_runes [] = []"
| "join_runes [w] = w"
| "join_runes (w # ws) = w @ 32 # join_runes ws"

definition clean_runes :: "string \<Rightarrow> rune list" where
  "clean_runes s = join_runes (rune_fields (map (\<lambda>r. if IsControl r then 32 else r) (runes s)))"

definition clean :: "string \<Rightarrow> nat \<Rightarrow> string" where
  "clean s limit =
     (let rs = clean_runes s in
      if length rs > limit then string_of_runes (take limit rs) @ utf8 8230 else string_of_runes rs)"

definition appendLine :: "string \<Rightarrow> string \<Rightarrow> string" where
  "appendLine body line = (if body = [] then line else body @ CHR 0x0A # line)"

definition detail_text :: "entry \<Rightarrow> string \<Rightarrow> string" where
  "detail_text e k = (case en_detail e of None \<Rightarrow> []
     | Some d \<Rightarrow> (case map_of d k of Some (JStr s) \<Rightarrow> s | _ \<Rightarrow> []))"

definition who_what_where :: "entry \<Rightarrow> string" where
  "who_what_where e = join_byte (CHR '' '') (filter (\<lambda>p. p \<noteq> [])
     [clean (en_actor e) 48,
      if clean (en_object e) 48 = [] then [] else utf8 8594 @ '' '' @ clean (en_object e) 48,
      if clean (en_src e) 45 = [] then [] else ''from '' @ clean (en_src e) 45])"

definition named_line :: "string \<Rightarrow> string \<Rightarrow> nat \<Rightarrow> string \<Rightarrow> string" where
  "named_line name v limit body = (if v = [] then body else appendLine body (name @ clean v limit))"

text \<open>\<open>rfc1123\<close> is \<open>Time.Format\<close>, which knows the time zone.\<close>

definition render :: "(time option \<Rightarrow> string) \<Rightarrow> entry \<Rightarrow> message" where
  "render rfc1123 e =
     (let (title, urgent) = (case map_of titles (en_action e) of Some t \<Rightarrow> t | None \<Rightarrow> (en_action e, False));
          body = named_line ''Name given: '' (detail_text e ''hint'') 40
                   (named_line ''Reason: '' (detail_text e ''reason'') 80 (who_what_where e)) in
      \<lparr>ms_title = title, ms_body = (if body = [] then rfc1123 (en_ts e) else body),
       ms_event = en_action e, ms_urgent = urgent, ms_suppressed = 0\<rparr>)"

definition message_text :: "message \<Rightarrow> string" where
  "message_text m =
     (if 0 < ms_suppressed m
      then appendLine (ms_body m) (CHR ''('' # decimal (ms_suppressed m) @ '' further events were not sent)'')
      else ms_body m)"

section \<open>Settings\<close>

record notify_config =
  nc_enabled :: bool
  nc_url :: string
  nc_format :: string
  nc_events :: "string list"
  nc_timeout :: int

definition CheckFormat :: "string \<Rightarrow> bool" where
  "CheckFormat v \<longleftrightarrow> v \<in> set [''ntfy'', ''discord'', ''slack'', ''json'']"

definition isLocal :: "string \<Rightarrow> bool" where
  "isLocal host \<longleftrightarrow> host = ''localhost'' \<or>
     (let a = ParseIP host in
      a \<noteq> NilIP \<and> \<not> (IsLinkLocalUnicast a \<or> IsLinkLocalMulticast a) \<and> (IsLoopback a \<or> IsPrivate a))"

definition CheckURL :: "string \<Rightarrow> bool" where
  "CheckURL raw \<longleftrightarrow>
     (let v = trim_space raw in
      v = [] \<or>
      (case url_Parse v of None \<Rightarrow> False
       | Some u \<Rightarrow> url_host u \<noteq> [] \<and>
           (url_scheme u = ''https'' \<or> (url_scheme u = ''http'' \<and> isLocal (Hostname u)))))"

definition CheckEvents :: "string list \<Rightarrow> bool" where
  "CheckEvents evs \<longleftrightarrow> list_all (\<lambda>e. map_of titles e \<noteq> None) evs"

section \<open>Delivery\<close>

datatype body = TextBody string | JsonBody json

record http_request =
  hr_url :: string
  hr_body :: body
  hr_headers :: "(string \<times> string) list"

definition newline :: string where
  "newline = [CHR 0x0A]"

definition jsonRequest :: "string \<Rightarrow> json \<Rightarrow> http_request option" where
  "jsonRequest url payload =
     (if marshal payload = None \<or> url_Parse url = None then None
      else Some \<lparr>hr_url = url, hr_body = JsonBody payload, hr_headers = [(''Content-Type'', ''application/json'')]\<rparr>)"

definition notify_request :: "time \<Rightarrow> notify_config \<Rightarrow> message \<Rightarrow> http_request option" where
  "notify_request now cfg m =
     (if nc_format cfg = ''discord'' then
        jsonRequest (nc_url cfg) (JObj [(''content'', JStr (''**'' @ ms_title m @ ''**'' @ newline @ message_text m))])
      else if nc_format cfg = ''slack'' then
        jsonRequest (nc_url cfg) (JObj [(''text'', JStr (''*'' @ ms_title m @ ''*'' @ newline @ message_text m))])
      else if nc_format cfg = ''json'' then
        jsonRequest (nc_url cfg)
          (JObj [(''event'', JStr (ms_event m)), (''title'', JStr (ms_title m)), (''body'', JStr (message_text m)),
                 (''urgent'', JBool (ms_urgent m)), (''suppressed'', JInt (int (ms_suppressed m))),
                 (''ts'', JStr (rfc3339 (unix now)))])
      else if nc_format cfg = ''ntfy'' \<or> nc_format cfg = [] then
        (if url_Parse (nc_url cfg) = None then None
         else Some \<lparr>hr_url = nc_url cfg, hr_body = TextBody (message_text m),
                    hr_headers = [(''Content-Type'', ''text/plain; charset=utf-8''), (''X-Title'', ms_title m)] @
                      (if ms_urgent m then [(''X-Priority'', ''high'')] else [])\<rparr>)
      else None)"

datatype delivery_error = NoURL | BrokenRequest | Unanswered | Objected nat | Answered nat

text \<open>The far end: the attempt and the request to the status it answers with, \<open>None\<close> when it does not.\<close>

type_synonym far_end = "nat \<Rightarrow> http_request \<Rightarrow> nat option"

definition try_once :: "far_end \<Rightarrow> time \<Rightarrow> notify_config \<Rightarrow> message \<Rightarrow> nat \<Rightarrow> int \<times> delivery_error option" where
  "try_once far now cfg m k =
     (case notify_request now cfg m of None \<Rightarrow> (- 1, Some BrokenRequest)
      | Some r \<Rightarrow>
          (case far k r of None \<Rightarrow> (0, Some Unanswered)
           | Some status \<Rightarrow>
               (int status, if 400 \<le> status \<and> status < 500 \<and> status \<noteq> 429 then Some (Objected status) else None)))"

text \<open>
  The attempts that are left, the error of the last one and whether the context ends while waiting for
  the next; the result is the error, if any, and the attempts made.
\<close>

fun deliver_rest ::
    "far_end \<Rightarrow> time \<Rightarrow> (nat \<Rightarrow> bool) \<Rightarrow> notify_config \<Rightarrow> message \<Rightarrow> nat list \<Rightarrow> delivery_error option \<Rightarrow> nat list \<Rightarrow>
      delivery_error option \<times> nat list" where
  "deliver_rest far now ended cfg m [] failed made = (failed, made)"
| "deliver_rest far now ended cfg m (k # ks) failed made =
     (if 0 < k \<and> ended k then (failed, made)
      else case try_once far now cfg m k of
        (status, Some err) \<Rightarrow>
          if status = 0 then deliver_rest far now ended cfg m ks (Some err) (made @ [k]) else (Some err, made @ [k])
      | (status, None) \<Rightarrow>
          if status < 300 then (None, made @ [k])
          else deliver_rest far now ended cfg m ks (Some (Answered (nat status))) (made @ [k]))"

definition deliver ::
    "far_end \<Rightarrow> time \<Rightarrow> (nat \<Rightarrow> bool) \<Rightarrow> notify_config \<Rightarrow> message \<Rightarrow> delivery_error option \<times> nat list" where
  "deliver far now ended cfg m = deliver_rest far now ended cfg m [0, 1, 2] None []"

section \<open>The notifier\<close>

definition queueDepth :: nat where "queueDepth = 64"
definition burst :: nat where "burst = 5"
definition refill :: int where "refill = seconds 30"

text \<open>\<open>nf_tokens\<close>, \<open>nf_last\<close> and \<open>nf_held\<close> are the locals of \<open>Run\<close>, the last one \<open>suppressed\<close> in the code.\<close>

record notifier =
  nf_cfg :: notify_config
  nf_queue :: "entry list"
  nf_dropped :: nat
  nf_sent :: nat
  nf_tokens :: nat
  nf_last :: time
  nf_held :: nat

definition Configure :: "notify_config \<Rightarrow> notifier \<Rightarrow> notifier" where
  "Configure cfg n =
     (let cfg1 = (if nc_timeout cfg \<le> 0 then cfg\<lparr>nc_timeout := seconds 10\<rparr> else cfg) in
      n\<lparr>nf_cfg := (if nc_format cfg1 = [] then cfg1\<lparr>nc_format := ''ntfy''\<rparr> else cfg1)\<rparr>)"

text \<open>\<open>New\<close>, and the first lines of \<open>Run\<close> at time \<open>now\<close>.\<close>

definition New :: "notify_config \<Rightarrow> time \<Rightarrow> notifier" where
  "New cfg now = Configure cfg
     \<lparr>nf_cfg = cfg, nf_queue = [], nf_dropped = 0, nf_sent = 0, nf_tokens = burst, nf_last = now, nf_held = 0\<rparr>"

definition wanted :: "string list \<Rightarrow> string \<Rightarrow> bool" where
  "wanted evs action \<longleftrightarrow> list_ex (\<lambda>e. e = action) evs"

definition wants :: "notifier \<Rightarrow> entry \<Rightarrow> bool" where
  "wants n e \<longleftrightarrow> nc_enabled (nf_cfg n) \<and> nc_url (nf_cfg n) \<noteq> [] \<and> wanted (nc_events (nf_cfg n)) (en_action e)"

definition Handle_entry :: "entry \<Rightarrow> notifier \<Rightarrow> notifier" where
  "Handle_entry e n =
     (if \<not> wants n e then n
      else if length (nf_queue n) < queueDepth then n\<lparr>nf_queue := nf_queue n @ [e]\<rparr>
      else n\<lparr>nf_dropped := nf_dropped n + 1\<rparr>)"

definition grow :: "time \<Rightarrow> notifier \<Rightarrow> notifier" where
  "grow now n =
     (let grown = (now - nf_last n) div refill;
          n1 = (if 0 < grown
                then n\<lparr>nf_tokens := min (nf_tokens n + nat grown) burst, nf_last := nf_last n + grown * refill\<rparr> else n) in
      if nf_tokens n1 = burst then n1\<lparr>nf_last := now\<rparr> else n1)"

text \<open>One turn of \<open>Run\<close>'s loop up to the delivery: the message to deliver, if the bucket has a token.\<close>

definition take_entry :: "(time option \<Rightarrow> string) \<Rightarrow> time \<Rightarrow> notifier \<Rightarrow> message option \<times> notifier" where
  "take_entry rfc1123 now n =
     (case nf_queue n of [] \<Rightarrow> (None, n)
      | e # q \<Rightarrow>
          (let n1 = grow now (n\<lparr>nf_queue := q\<rparr>) in
           if nf_tokens n1 = 0 then (None, n1\<lparr>nf_held := nf_held n1 + 1\<rparr>)
           else (Some ((render rfc1123 e)\<lparr>ms_suppressed := nf_held n1 + nf_dropped n1\<rparr>),
                 n1\<lparr>nf_tokens := nf_tokens n1 - 1, nf_dropped := 0, nf_held := 0\<rparr>)))"

definition delivered :: "delivery_error option \<Rightarrow> notifier \<Rightarrow> notifier" where
  "delivered err n = (if err = None then n\<lparr>nf_sent := nf_sent n + 1\<rparr> else n)"

definition Test :: "far_end \<Rightarrow> time \<Rightarrow> (nat \<Rightarrow> bool) \<Rightarrow> notifier \<Rightarrow> delivery_error option" where
  "Test far now ended n =
     (if nc_url (nf_cfg n) = [] then Some NoURL
      else fst (deliver far now ended (nf_cfg n)
        \<lparr>ms_title = ''Revpd test'', ms_body = ''Notifications from this gateway arrive here.'', ms_event = ''test'',
         ms_urgent = False, ms_suppressed = 0\<rparr>))"

text \<open>
  The notifier at work: entries and settings come from other goroutines, the loop of \<open>Run\<close> is at the top
  or delivering a message.  The labels say what happened; that of an entry,
  whether anybody wants to hear of it.
\<close>

datatype notify_event = Handled entry bool | Configured notify_config | Held time | Admitted time message | Finished "delivery_error option"

inductive nstep ::
    "(time option \<Rightarrow> string) \<Rightarrow> notifier \<times> message option \<Rightarrow> notify_event \<Rightarrow> notifier \<times> message option \<Rightarrow> bool"
  for rfc1123 where
  handle: "nstep rfc1123 (n, p) (Handled e (wants n e)) (Handle_entry e n, p)"
| configure: "nstep rfc1123 (n, p) (Configured cfg) (Configure cfg n, p)"
| hold: "nf_queue n \<noteq> [] \<Longrightarrow> nf_last n \<le> now \<Longrightarrow> take_entry rfc1123 now n = (None, n') \<Longrightarrow>
    nstep rfc1123 (n, None) (Held now) (n', None)"
| admit: "nf_queue n \<noteq> [] \<Longrightarrow> nf_last n \<le> now \<Longrightarrow> take_entry rfc1123 now n = (Some m, n') \<Longrightarrow>
    nstep rfc1123 (n, None) (Admitted now m) (n', Some m)"
| finish: "deliver far now ended (nf_cfg n) m = (err, made) \<Longrightarrow>
    nstep rfc1123 (n, Some m) (Finished err) (delivered err n, None)"

inductive nsteps ::
    "(time option \<Rightarrow> string) \<Rightarrow> notifier \<times> message option \<Rightarrow> notify_event list \<Rightarrow> notifier \<times> message option \<Rightarrow> bool"
  for rfc1123 where
  none: "nsteps rfc1123 s [] s"
| more: "nsteps rfc1123 s evs s1 \<Longrightarrow> nstep rfc1123 s1 ev s2 \<Longrightarrow> nsteps rfc1123 s (evs @ [ev]) s2"

inductive_cases nstepE: "nstep rfc1123 s ev s'"

text \<open>What a sequence of events contains.\<close>

fun taken_at :: "notify_event \<Rightarrow> time list" where
  "taken_at (Held t) = [t]"
| "taken_at (Admitted t m) = [t]"
| "taken_at _ = []"

definition take_times :: "notify_event list \<Rightarrow> time list" where
  "take_times evs = concat (map taken_at evs)"

fun announced :: "notify_event \<Rightarrow> message list" where
  "announced (Admitted t m) = [m]"
| "announced _ = []"

definition messages :: "notify_event list \<Rightarrow> message list" where
  "messages evs = concat (map announced evs)"

definition wanted_events :: "notify_event list \<Rightarrow> nat" where
  "wanted_events evs = length (filter (\<lambda>ev. case ev of Handled e w \<Rightarrow> w | _ \<Rightarrow> False) evs)"

end
