(* ===== verification/Notify_Guarantees.thy ===== *)
theory Notify_Guarantees
  imports Notify
begin

text \<open>
  What the notifier guarantees: what a stranger's text can do to a message, where a message may go, how
  often one is sent, that every wanted entry is accounted for, and how a delivery ends.
\<close>

section \<open>Text\<close>

definition plain_rune :: "rune \<Rightarrow> bool" where
  "plain_rune r \<longleftrightarrow> valid_rune r \<and> \<not> IsControl r"

lemma rune_error_valid [simp]: "valid_rune rune_error"
  by (simp add: valid_rune_def rune_error_def)

lemma decode2_valid: "decode2 a b = Some r \<Longrightarrow> valid_rune r"
  by (auto simp: decode2_def valid_rune_def cont_def split: if_splits)

lemma decode3_valid: "decode3 a b c = Some r \<Longrightarrow> valid_rune r"
proof -
  assume d: "decode3 a b c = Some r"
  then obtain a' b' c' where s: "a = 224 + a'" "b = 128 + b'" "c = 128 + c'"
    by (auto simp: decode3_def cont_def dest!: le_Suc_ex split: if_splits)
  with d have r: "r = a' * 4096 + b' * 64 + c'" "a' < 16" "b' < 64" "c' < 64" "a' = 13 \<longrightarrow> b' < 32"
    by (auto simp: decode3_def cont_def split: if_splits)
  consider "a' < 13" | "a' = 13" | "14 \<le> a'" by linarith
  then show ?thesis by cases (use r in \<open>auto simp: valid_rune_def\<close>)
qed

lemma decode4_valid: "decode4 a b c d = Some r \<Longrightarrow> valid_rune r"
proof -
  assume d: "decode4 a b c d = Some r"
  then obtain a' b' c' d' where s: "a = 240 + a'" "b = 128 + b'" "c = 128 + c'" "d = 128 + d'"
    by (auto simp: decode4_def cont_def dest!: le_Suc_ex split: if_splits)
  with d have r: "r = a' * 262144 + b' * 4096 + c' * 64 + d'" "a' < 5" "b' < 64" "c' < 64" "d' < 64"
      "a' = 0 \<longrightarrow> 16 \<le> b'" "a' = 4 \<longrightarrow> b' < 16"
    by (auto simp: decode4_def cont_def split: if_splits)
  consider "a' = 0" | "1 \<le> a'" "a' < 4" | "a' = 4" using r(2) by linarith
  then show ?thesis by cases (use r in \<open>auto simp: valid_rune_def\<close>)
qed

lemmas decode_valid = decode2_valid decode3_valid decode4_valid

lemma decode_rune_valid: "valid_rune (fst (decode_rune bs))"
proof -
  have "rune2 bs = Some r \<Longrightarrow> valid_rune r" "rune3 bs = Some r \<Longrightarrow> valid_rune r" "rune4 bs = Some r \<Longrightarrow> valid_rune r" for r
    by (auto simp: rune2_def rune3_def rune4_def dest: decode_valid split: list.splits)
  moreover have "x < 128 \<Longrightarrow> valid_rune x" for x by (simp add: valid_rune_def)
  ultimately show ?thesis by (auto simp: decode_rune_def split: option.splits)
qed

lemma runes_of_valid: "r \<in> set (runes_of bs) \<Longrightarrow> valid_rune r"
proof (induction bs rule: runes_of.induct)
  case (2 b bs)
  then show ?case using decode_rune_valid [of "b # bs"] by auto
qed simp

lemma fields_subset: "w \<in> set (rune_fields rs) \<Longrightarrow> set w \<subseteq> set rs \<and> (\<forall>r \<in> set w. \<not> rune_blank r) \<and> w \<noteq> []"
proof (induction rs arbitrary: w rule: rune_fields.induct)
  case (1 rs)
  show ?case
  proof (cases "dropWhile rune_blank rs")
    case Nil
    with 1(2) show ?thesis by (subst (asm) rune_fields.simps) simp
  next
    case (Cons q qs)
    then have q: "\<not> rune_blank q" by (metis dropWhile_eq_Cons_conv)
    have sub: "set (q # qs) \<subseteq> set rs" using Cons by (metis set_dropWhileD subsetI)
    from 1(2) Cons consider "w = takeWhile (Not \<circ> rune_blank) (q # qs)"
      | "w \<in> set (rune_fields (dropWhile (Not \<circ> rune_blank) (q # qs)))"
      by (subst (asm) rune_fields.simps) (auto simp del: dropWhile.simps takeWhile.simps)
    then show ?thesis
    proof cases
      case 1
      then have "set w \<subseteq> set (q # qs)" "\<forall>r \<in> set w. \<not> rune_blank r" by (auto dest: set_takeWhileD)
      with 1 q sub show ?thesis by auto
    next
      case 2
      have "set (dropWhile (Not \<circ> rune_blank) (q # qs)) \<subseteq> set rs" using sub by (meson set_dropWhileD subset_iff)
      with 1(1) [of w] 2 Cons show ?thesis by (auto simp del: dropWhile.simps)
    qed
  qed
qed

lemma join_subset: "set (join_runes ws) \<subseteq> \<Union> (set ` set ws) \<union> {32}"
  by (induction ws rule: join_runes.induct) auto

lemma clean_runes_plain: "r \<in> set (clean_runes s) \<Longrightarrow> plain_rune r"
proof -
  let ?rs = "map (\<lambda>r. if IsControl r then 32 else r) (runes s)"
  have "plain_rune x" if "x \<in> set ?rs" for x
    using that runes_of_valid [of _ "map of_char s"]
    by (auto simp: plain_rune_def IsControl_def runes_def valid_rune_def split: if_splits)
  moreover have "plain_rune 32" by (simp add: plain_rune_def valid_rune_def IsControl_def)
  moreover assume "r \<in> set (clean_runes s)"
  then have "r \<in> \<Union> (set ` set (rune_fields ?rs)) \<union> {32}"
    using join_subset unfolding clean_runes_def by blast
  ultimately show ?thesis using fields_subset [of _ ?rs] by blast
qed

lemma clean_is_utf8:
  "runes (clean s n) = (if length (clean_runes s) > n then take n (clean_runes s) @ [8230] else clean_runes s)"
proof -
  have v: "\<forall>r \<in> set (clean_runes s). valid_rune r" using clean_runes_plain by (auto simp: plain_rune_def)
  have e: "string_of_runes (take n (clean_runes s)) @ utf8 8230 = string_of_runes (take n (clean_runes s) @ [8230])"
    by (simp add: string_of_runes_def)
  have "valid_rune 8230" by (simp add: valid_rune_def)
  with v have "\<forall>r \<in> set (take n (clean_runes s) @ [8230]). valid_rune r" by (auto dest: in_set_takeD)
  with v show ?thesis unfolding clean_def Let_def e by (simp add: runes_string_of_runes)
qed

theorem notification_text_is_tame:
  "length (runes (clean s n)) \<le> n + 1 \<and> list_all (\<lambda>r. \<not> IsControl r) (runes (clean s n))"
proof -
  have "IsControl 8230 = False" by (simp add: IsControl_def)
  then show ?thesis
    using clean_runes_plain [of _ s] by (auto simp: clean_is_utf8 list_all_iff plain_rune_def dest: in_set_takeD)
qed

section \<open>Where a message may go\<close>

text \<open>A notification address that passes the check is empty, speaks https, or speaks http to this machine or to
  an address that is neither public nor link-local.\<close>

theorem plain_http_stays_local:
  assumes "CheckURL v"
  shows "trim_space v = [] \<or> (\<exists>u. url_Parse (trim_space v) = Some u \<and> url_host u \<noteq> [] \<and>
     (url_scheme u = ''https'' \<or> url_scheme u = ''http'' \<and>
       (Hostname u = ''localhost'' \<or>
        (\<not> IsPublic (ParseIP (Hostname u)) \<and> \<not> IsLinkLocalUnicast (ParseIP (Hostname u)) \<and>
         \<not> IsLinkLocalMulticast (ParseIP (Hostname u))))))"
  using assms
  by (auto simp: CheckURL_def isLocal_def Let_def IsPublic_def IsGlobalUnicast_def split: option.splits)

theorem plain_http_stays_local_witness:
  "CheckURL ''http://10.0.0.7:8080/door'' \<and> \<not> CheckURL ''http://169.254.169.254/latest'' \<and>
   \<not> CheckURL ''http://ntfy.sh/door'' \<and> url_Parse (trim_space ''http://10.0.0.7:8080/door'') \<noteq> None"
proof -
  have c: "CheckURL ''http://10.0.0.7:8080/door''" by code_simp
  have "trim_space ''http://10.0.0.7:8080/door'' \<noteq> []" by code_simp
  with plain_http_stays_local [OF c] have "url_Parse (trim_space ''http://10.0.0.7:8080/door'') \<noteq> None" by auto
  moreover have "\<not> CheckURL ''http://169.254.169.254/latest''" "\<not> CheckURL ''http://ntfy.sh/door''" by code_simp+
  ultimately show ?thesis using c by blast
qed

section \<open>How often\<close>

lemmas bucket_defs = take_entry_def grow_def Let_def

lemma refill_pos: "0 < refill"
  by (simp add: refill_def seconds_def)

lemma grow_tokens: "nf_tokens n \<le> burst \<Longrightarrow> nf_tokens (grow now n) \<le> burst"
  by (auto simp: grow_def Let_def min_def)

lemma grow_last: "nf_last n \<le> now \<Longrightarrow> nf_last (grow now n) \<le> now"
  using refill_pos by (auto simp: grow_def Let_def) (simp add: minus_mod_eq_div_mult [symmetric])

text \<open>What the bucket has earned by a time never grows, and is at most five turns ahead of the clock.\<close>

definition credit :: "notifier \<Rightarrow> int" where
  "credit n = int (nf_tokens n) * refill - nf_last n"

lemma grow_credit:
  assumes "nf_last n \<le> now"
  shows "credit (grow now n) \<le> credit n"
proof -
  define g where "g = (now - nf_last n) div refill"
  have l: "nf_last n + g * refill \<le> now"
    using grow_last [OF assms] refill_pos by (simp add: g_def minus_mod_eq_div_mult [symmetric])
  have "int (min (nf_tokens n + nat g) burst) * refill \<le> (int (nf_tokens n) + g) * refill" if "0 < g"
    using that refill_pos by (intro mult_right_mono) auto
  with l assms show ?thesis
    by (auto simp: grow_def Let_def credit_def g_def [symmetric] algebra_simps split: if_splits)
qed

lemma grow_ahead:
  assumes "nf_tokens n \<le> burst" and "nf_last n \<le> now"
  shows "credit (grow now n) \<le> int burst * refill - now"
proof (cases "nf_tokens (grow now n) = burst")
  case True
  then have "nf_last (grow now n) = now" by (auto simp: grow_def Let_def split: if_splits)
  with True show ?thesis by (simp add: credit_def)
next
  case False
  with grow_tokens [OF assms(1), of now] have "int (nf_tokens (grow now n)) \<le> int burst - 1" by linarith
  then have "int (nf_tokens (grow now n)) * refill \<le> (int burst - 1) * refill"
    using refill_pos by (intro mult_right_mono) auto
  moreover have "now - nf_last (grow now n) < refill"
  proof -
    define g where "g = (now - nf_last n) div refill"
    have "0 \<le> g" using assms(2) refill_pos by (simp add: g_def pos_imp_zdiv_nonneg_iff)
    moreover have "now - nf_last n - g * refill < refill"
      using refill_pos by (simp add: g_def minus_div_mult_eq_mod)
    ultimately show ?thesis
      using False by (auto simp: grow_def Let_def g_def [symmetric] split: if_splits)
  qed
  ultimately show ?thesis by (simp add: credit_def algebra_simps)
qed

lemma take_entry_cases:
  assumes "nf_queue n \<noteq> []"
  obtains (held) n1 where "nf_tokens (grow now n) = 0" "take_entry rfc1123 now n = (None, n1)"
      "nf_tokens n1 = 0" "nf_last n1 = nf_last (grow now n)" "nf_held n1 = nf_held n + 1" "nf_dropped n1 = nf_dropped n"
      "nf_queue n1 = tl (nf_queue n)" "nf_sent n1 = nf_sent n"
  | (sent) n1 m where "0 < nf_tokens (grow now n)" "take_entry rfc1123 now n = (Some m, n1)"
      "nf_tokens n1 = nf_tokens (grow now n) - 1" "nf_last n1 = nf_last (grow now n)" "nf_held n1 = 0" "nf_dropped n1 = 0"
      "nf_queue n1 = tl (nf_queue n)" "nf_sent n1 = nf_sent n" "ms_suppressed m = nf_held n + nf_dropped n"
proof -
  obtain e q where q: "nf_queue n = e # q" using assms by (cases "nf_queue n") auto
  have f: "nf_tokens (grow now (n\<lparr>nf_queue := q\<rparr>)) = nf_tokens (grow now n)"
      "nf_last (grow now (n\<lparr>nf_queue := q\<rparr>)) = nf_last (grow now n)"
      "nf_held (grow now (n\<lparr>nf_queue := q\<rparr>)) = nf_held n" "nf_dropped (grow now (n\<lparr>nf_queue := q\<rparr>)) = nf_dropped n"
      "nf_queue (grow now (n\<lparr>nf_queue := q\<rparr>)) = q" "nf_sent (grow now (n\<lparr>nf_queue := q\<rparr>)) = nf_sent n"
    by (simp_all add: grow_def Let_def)
  show ?thesis
  proof (cases "nf_tokens (grow now n) = 0")
    case True
    show ?thesis
      by (rule held [of "(grow now (n\<lparr>nf_queue := q\<rparr>))\<lparr>nf_held := nf_held n + 1\<rparr>"])
        (use True in \<open>simp_all add: take_entry_def q f Let_def\<close>)
  next
    case False
    show ?thesis
      by (rule sent [of "(render rfc1123 e)\<lparr>ms_suppressed := nf_held n + nf_dropped n\<rparr>"
            "(grow now (n\<lparr>nf_queue := q\<rparr>))\<lparr>nf_tokens := nf_tokens (grow now n) - 1, nf_dropped := 0, nf_held := 0\<rparr>"])
        (use False in \<open>simp_all add: take_entry_def q f Let_def\<close>)
  qed
qed

lemma handle_frame: "nf_tokens (Handle_entry e n) = nf_tokens n" "nf_last (Handle_entry e n) = nf_last n"
    "nf_held (Handle_entry e n) = nf_held n" "nf_sent (Handle_entry e n) = nf_sent n"
  by (simp_all add: Handle_entry_def)

lemma configure_frame: "nf_tokens (Configure c n) = nf_tokens n" "nf_last (Configure c n) = nf_last n"
    "nf_held (Configure c n) = nf_held n" "nf_sent (Configure c n) = nf_sent n" "nf_queue (Configure c n) = nf_queue n"
    "nf_dropped (Configure c n) = nf_dropped n"
  by (simp_all add: Configure_def Let_def)

lemma delivered_frame: "nf_tokens (delivered r n) = nf_tokens n" "nf_last (delivered r n) = nf_last n"
    "nf_held (delivered r n) = nf_held n" "nf_queue (delivered r n) = nf_queue n" "nf_dropped (delivered r n) = nf_dropped n"
  by (simp_all add: delivered_def)

lemmas frame = handle_frame configure_frame delivered_frame

lemma step_tokens: "nstep rfc1123 s ev s' \<Longrightarrow> nf_tokens (fst s) \<le> burst \<Longrightarrow> nf_tokens (fst s') \<le> burst"
proof (cases rule: nstep.cases, assumption)
  fix n now m n'
  assume *: "nf_tokens (fst s) \<le> burst" "s = (n, None)" "s' = (n', Some m)" "nf_queue n \<noteq> []"
    "take_entry rfc1123 now n = (Some m, n')"
  show ?thesis
    by (rule take_entry_cases [OF *(4), of now rfc1123]) (use * grow_tokens [of n now] in auto)
next
  fix n now n'
  assume *: "nf_tokens (fst s) \<le> burst" "s = (n, None)" "s' = (n', None)" "nf_queue n \<noteq> []"
    "take_entry rfc1123 now n = (None, n')"
  show ?thesis
    by (rule take_entry_cases [OF *(4), of now rfc1123]) (use * in auto)
qed (simp_all add: frame)

lemma steps_tokens: "nsteps rfc1123 s evs s' \<Longrightarrow> nf_tokens (fst s) \<le> burst \<Longrightarrow> nf_tokens (fst s') \<le> burst"
  by (induction rule: nsteps.induct) (auto dest: step_tokens)

text \<open>One step takes at most what it announces out of the credit.\<close>

lemma step_credit:
  assumes "nstep rfc1123 s ev s'"
  shows "int (length (announced ev)) * refill + credit (fst s') \<le> credit (fst s) \<and>
    (\<forall>t \<in> set (taken_at ev). nf_last (fst s') \<le> t \<and>
       (nf_tokens (fst s) \<le> burst \<longrightarrow>
        int (length (announced ev)) * refill + credit (fst s') \<le> int burst * refill - t))"
  using assms
proof cases
  case (hold n now n')
  show ?thesis
    by (rule take_entry_cases [OF hold(4), of now rfc1123])
      (use hold grow_credit [of n now] grow_last [of n now] grow_ahead [of n now] in \<open>auto simp: credit_def\<close>)
next
  case (admit n now m n')
  show ?thesis
    by (rule take_entry_cases [OF admit(4), of now rfc1123])
      (use admit grow_credit [of n now] grow_last [of n now] grow_ahead [of n now] in
        \<open>auto simp: credit_def of_nat_diff algebra_simps\<close>)
qed (auto simp: credit_def frame)

lemma take_times_snoc [simp]: "take_times (evs @ [ev]) = take_times evs @ taken_at ev"
  and messages_snoc [simp]: "messages (evs @ [ev]) = messages evs @ announced ev"
  and wanted_snoc [simp]: "wanted_events (evs @ [ev]) =
    wanted_events evs + (case ev of Handled e w \<Rightarrow> if w then 1 else 0 | _ \<Rightarrow> 0)"
  and no_events [simp]: "take_times [] = []" "messages [] = []" "wanted_events [] = 0"
  by (simp_all add: take_times_def messages_def wanted_events_def split: notify_event.split)

lemma announced_taken: "announced ev \<noteq> [] \<Longrightarrow> taken_at ev \<noteq> []"
  by (cases ev) auto

lemma steps_credit:
  assumes "nsteps rfc1123 s evs s'" and "nf_tokens (fst s) \<le> burst"
    and "\<forall>t \<in> set (take_times evs). t1 \<le> t \<and> t \<le> t2"
  shows "(take_times evs = [] \<longrightarrow> messages evs = []) \<and>
    (take_times evs \<noteq> [] \<longrightarrow> nf_last (fst s') \<le> t2 \<and>
       int (length (messages evs)) * refill + credit (fst s') \<le> int burst * refill - t1)"
  using assms
proof (induction rule: nsteps.induct)
  case (more s evs s1 ev s2)
  have b: "nf_tokens (fst s1) \<le> burst" using steps_tokens [OF more(1)] more.prems by simp
  note c = step_credit [OF more(2)]
  have l: "nf_last (fst s2) = nf_last (fst s1)" if "taken_at ev = []"
    using more(2) that by (cases rule: nstep.cases) (simp_all add: frame)
  show ?case
  proof (cases "taken_at ev = []")
    case True
    then have "announced ev = []" using announced_taken by blast
    then show ?thesis using more c l True by auto
  next
    case False
    then obtain t where t: "taken_at ev = [t]" by (cases ev) auto
    with c b more.prems(2) have "nf_last (fst s2) \<le> t2" and
        h: "int (length (announced ev)) * refill + credit (fst s2) \<le> int burst * refill - t1" by auto
    then show ?thesis using more c t by (cases "take_times evs = []") (auto simp: algebra_simps)
  qed
qed simp

text \<open>C38. However many entries are logged and whatever is configured meanwhile, the messages announced between two
  readings of the clock are at most five and one for every full half minute between them.\<close>

theorem notifications_rate_limited:
  assumes "nsteps rfc1123 (New cfg start, None) before s" and "nsteps rfc1123 s evs s'"
    and "\<forall>t \<in> set (take_times evs). t1 \<le> t \<and> t \<le> t2" and "t1 \<le> t2"
  shows "int (length (messages evs)) \<le> 5 + (t2 - t1) div seconds 30"
proof -
  have "nf_tokens (fst s) \<le> burst"
    using steps_tokens [OF assms(1)] by (simp add: New_def Configure_def Let_def)
  note c = steps_credit [OF assms(2) this assms(3)]
  have "int (length (messages evs)) * refill \<le> int burst * refill + (t2 - t1)"
  proof (cases "take_times evs = []")
    case True
    with c assms(4) refill_pos show ?thesis by simp
  next
    case False
    moreover have "0 \<le> int (nf_tokens (fst s')) * refill" using refill_pos by simp
    ultimately show ?thesis using c unfolding credit_def by linarith
  qed
  then have "int (length (messages evs)) - int burst \<le> (t2 - t1) div refill"
    using refill_pos zdiv_mono1 [of "(int (length (messages evs)) - int burst) * refill" "t2 - t1" refill]
    by (simp add: algebra_simps)
  then show ?thesis by (simp add: burst_def refill_def)
qed

section \<open>What becomes of an entry\<close>

definition accounted :: "notify_event list \<Rightarrow> notifier \<Rightarrow> nat" where
  "accounted evs n = length (messages evs) + sum_list (map ms_suppressed (messages evs)) +
     length (nf_queue n) + nf_dropped n + nf_held n"

lemma step_accounted:
  assumes "nstep rfc1123 s ev s'" and "wanted_events evs = accounted evs (fst s)" and "length (nf_queue (fst s)) \<le> queueDepth"
  shows "wanted_events (evs @ [ev]) = accounted (evs @ [ev]) (fst s') \<and> length (nf_queue (fst s')) \<le> queueDepth"
  using assms(1)
proof cases
  case (hold n now n')
  show ?thesis
    by (rule take_entry_cases [OF hold(4), of now rfc1123]) (use hold assms(2,3) in \<open>auto simp: accounted_def\<close>)
next
  case (admit n now m n')
  show ?thesis
    by (rule take_entry_cases [OF admit(4), of now rfc1123]) (use admit assms(2,3) in \<open>auto simp: accounted_def\<close>)
qed (use assms(2,3) in \<open>auto simp: accounted_def frame Handle_entry_def\<close>)

text \<open>Every entry somebody wanted to hear of, when it was logged, is in a message, counted by one, still counted
  as dropped or suppressed, or waiting; at most 64 wait.\<close>

theorem every_wanted_entry_is_accounted_for:
  assumes "nsteps rfc1123 (New cfg start, None) evs s"
  shows "wanted_events evs = length (messages evs) + sum_list (map ms_suppressed (messages evs)) +
           length (nf_queue (fst s)) + nf_dropped (fst s) + nf_held (fst s) \<and>
         length (nf_queue (fst s)) \<le> 64"
proof -
  have "nsteps rfc1123 s0 evs s \<Longrightarrow> wanted_events [] = accounted [] (fst s0) \<Longrightarrow> length (nf_queue (fst s0)) \<le> queueDepth \<Longrightarrow>
      wanted_events evs = accounted evs (fst s) \<and> length (nf_queue (fst s)) \<le> queueDepth" for s0
    by (induction rule: nsteps.induct) (use step_accounted in blast)+
  from this [OF assms] show ?thesis by (simp add: accounted_def New_def Configure_def Let_def queueDepth_def)
qed

text \<open>A run: the notifier starts, an entry comes in and is announced.\<close>

definition sample_config :: notify_config where
  "sample_config = \<lparr>nc_enabled = True, nc_url = ''https://ntfy.sh/door'', nc_format = ''ntfy'', nc_events = [''lockout''],
     nc_timeout = seconds 10\<rparr>"

definition sample_entry :: entry where
  "sample_entry = \<lparr>en_ts = None, en_actor = ''eve'', en_action = ''lockout'', en_object = [], en_src = ''203.0.113.9'',
     en_detail = None\<rparr>"

definition sample_queued :: notifier where
  "sample_queued = Handle_entry sample_entry (New sample_config 0)"

lemma sample_wants: "wants (New sample_config 0) sample_entry"
  by (simp add: wants_def New_def Configure_def Let_def sample_config_def sample_entry_def wanted_def)

lemma sample_queue: "nf_queue sample_queued = [sample_entry]" "nf_tokens sample_queued = 5" "nf_last sample_queued = 0"
    "nf_held sample_queued = 0" "nf_dropped sample_queued = 0"
  unfolding sample_queued_def Handle_entry_def using sample_wants
  by (simp_all add: New_def Configure_def Let_def sample_config_def queueDepth_def burst_def)

lemma sample_run:
  obtains n m where "nsteps rfc1123 (New sample_config 0, None) [Handled sample_entry True] (sample_queued, None)"
    and "nsteps rfc1123 (sample_queued, None) [Admitted 0 m] (n, Some m)" and "ms_suppressed m = 0"
    and "nf_queue n = []" "nf_dropped n = 0" "nf_held n = 0"
proof -
  have 1: "nsteps rfc1123 (New sample_config 0, None) ([] @ [Handled sample_entry True]) (sample_queued, None)"
    by (rule nsteps.more [OF nsteps.none])
      (use nstep.handle [of rfc1123 "New sample_config 0" None sample_entry] sample_wants in \<open>simp add: sample_queued_def\<close>)
  have q: "nf_queue sample_queued \<noteq> []" "nf_last sample_queued \<le> 0" by (simp_all add: sample_queue)
  have "0 < nf_tokens (grow 0 sample_queued)"
    by (simp add: grow_def Let_def sample_queue burst_def refill_def seconds_def)
  then obtain n m where t: "take_entry rfc1123 0 sample_queued = (Some m, n)" "ms_suppressed m = 0" "nf_queue n = []"
      "nf_dropped n = 0" "nf_held n = 0"
    by (rule_tac take_entry_cases [OF q(1), of 0 rfc1123]) (auto simp: sample_queue)
  have "nsteps rfc1123 (sample_queued, None) ([] @ [Admitted 0 m]) (n, Some m)"
    by (rule nsteps.more [OF nsteps.none nstep.admit [OF q t(1)]])
  then show ?thesis using that 1 t by simp
qed

text \<open>A flood: as many entries wait as there are tokens, and each is announced at once.\<close>

definition flooded :: "nat \<Rightarrow> nat \<Rightarrow> notifier" where
  "flooded k sent = \<lparr>nf_cfg = sample_config, nf_queue = replicate k sample_entry, nf_dropped = 0, nf_sent = sent, nf_tokens = k,
     nf_last = 0, nf_held = 0\<rparr>"

lemma flood_comes:
  "k \<le> 5 \<Longrightarrow> \<exists>evs. nsteps rfc1123 (New sample_config 0, None) evs ((flooded 5 0)\<lparr>nf_queue := replicate k sample_entry\<rparr>, None)"
proof (induction k)
  case 0
  have "New sample_config 0 = (flooded 5 0)\<lparr>nf_queue := replicate 0 sample_entry\<rparr>"
    by (simp add: New_def Configure_def Let_def sample_config_def flooded_def burst_def)
  then show ?case using nsteps.none by metis
next
  case (Suc k)
  let ?n = "(flooded 5 0)\<lparr>nf_queue := replicate k sample_entry\<rparr>"
  have "wants ?n sample_entry"
    by (simp add: wants_def flooded_def sample_config_def sample_entry_def wanted_def)
  then have "Handle_entry sample_entry ?n = (flooded 5 0)\<lparr>nf_queue := replicate (Suc k) sample_entry\<rparr>"
    using Suc.prems by (simp add: Handle_entry_def queueDepth_def replicate_append_same)
  then have "nstep rfc1123 (?n, None) (Handled sample_entry (wants ?n sample_entry))
      ((flooded 5 0)\<lparr>nf_queue := replicate (Suc k) sample_entry\<rparr>, None)"
    using nstep.handle [of rfc1123 ?n None sample_entry] by simp
  with Suc show ?case by (meson Suc_leD nsteps.more)
qed

lemma flood_announced:
  "k \<le> 5 \<Longrightarrow> \<exists>evs sent. nsteps rfc1123 (flooded 5 0, None) evs (flooded (5 - k) sent, None) \<and>
     length (messages evs) = k \<and> set (take_times evs) \<subseteq> {0}"
proof (induction k)
  case 0
  show ?case by (rule exI [of _ "[]"], rule exI [of _ 0]) (simp add: nsteps.none messages_def take_times_def)
next
  case (Suc k)
  then obtain evs sent where e: "nsteps rfc1123 (flooded 5 0, None) evs (flooded (5 - k) sent, None)"
    "length (messages evs) = k" "set (take_times evs) \<subseteq> {0}" by auto
  obtain j where j: "5 - k = Suc j" "j = 5 - Suc k" using Suc.prems by (cases "5 - k") auto
  obtain m where t: "take_entry rfc1123 0 (flooded (5 - k) sent) = (Some m, flooded j sent)"
    unfolding j(1) using j Suc.prems
    by (simp add: take_entry_def flooded_def grow_def Let_def burst_def)
  have a: "nsteps rfc1123 (flooded 5 0, None) (evs @ [Admitted 0 m]) (flooded j sent, Some m)"
    by (rule nsteps.more [OF e(1) nstep.admit [OF _ _ t]]) (simp_all add: flooded_def j(1))
  obtain err made where d: "deliver (\<lambda>_ _. None) 0 (\<lambda>_. False) (nf_cfg (flooded j sent)) m = (err, made)" by fastforce
  have "delivered err (flooded j sent) = flooded j (if err = None then sent + 1 else sent)"
    by (simp add: delivered_def flooded_def)
  with nsteps.more [OF a nstep.finish [OF d]]
  have "nsteps rfc1123 (flooded 5 0, None) ((evs @ [Admitted 0 m]) @ [Finished err]) (flooded (5 - Suc k) (if err = None then sent + 1 else sent), None)"
    by (simp add: j(2))
  moreover have "length (messages ((evs @ [Admitted 0 m]) @ [Finished err])) = Suc k" using e(2) by (simp add: messages_def)
  moreover have "set (take_times ((evs @ [Admitted 0 m]) @ [Finished err])) \<subseteq> {0}" using e(3) by (simp add: take_times_def)
  ultimately show ?case by blast
qed

theorem notifications_rate_limited_witness:
  "\<exists>before s evs s'. nsteps (\<lambda>t. []) (New sample_config 0, None) before s \<and> nsteps (\<lambda>t. []) s evs s' \<and>
     (\<forall>t \<in> set (take_times evs). 0 \<le> t \<and> t \<le> seconds 29) \<and> length (messages evs) = 5 \<and>
     int (length (messages evs)) \<le> 5 + seconds 29 div seconds 30"
proof -
  have all: "(flooded 5 0)\<lparr>nf_queue := replicate 5 sample_entry\<rparr> = flooded 5 0" by (simp add: flooded_def)
  obtain before where b: "nsteps (\<lambda>t. []) (New sample_config 0, None) before (flooded 5 0, None)"
    using flood_comes [of 5 "\<lambda>t. []"] unfolding all by auto
  obtain evs sent where e: "nsteps (\<lambda>t. []) (flooded 5 0, None) evs (flooded (5 - 5) sent, None)"
    "length (messages evs) = 5" "set (take_times evs) \<subseteq> {0}"
    using flood_announced [of 5 "\<lambda>t. []"] by blast
  then have t: "\<forall>t \<in> set (take_times evs). 0 \<le> t \<and> t \<le> seconds 29" by (auto simp: seconds_def)
  have "int (length (messages evs)) \<le> 5 + (seconds 29 - 0) div seconds 30"
    by (rule notifications_rate_limited [OF b e(1) t]) (simp add: seconds_def)
  then have "int (length (messages evs)) \<le> 5 + seconds 29 div seconds 30" by (simp only: diff_zero)
  with b e(1,2) t show ?thesis by blast
qed

theorem every_wanted_entry_is_accounted_for_witness:
  "wanted_events [Handled sample_entry True] = 1 \<and> length (nf_queue sample_queued) \<le> 64"
proof -
  obtain n :: notifier and m :: message
    where r: "nsteps (\<lambda>t. []) (New sample_config 0, None) [Handled sample_entry True] (sample_queued, None)"
    by (rule sample_run)
  show ?thesis using every_wanted_entry_is_accounted_for [OF r] by (simp add: messages_def sample_queue)
qed

section \<open>How a delivery ends\<close>

text \<open>An answer that makes another attempt worth while: none at all, or a status that is nobody's fault here.\<close>

definition retryable :: "nat option \<Rightarrow> bool" where
  "retryable a \<longleftrightarrow> (case a of None \<Rightarrow> True
     | Some status \<Rightarrow> 300 \<le> status \<and> (status < 400 \<or> 500 \<le> status \<or> status = 429))"

lemma try_retry:
  assumes "notify_request now cfg m = Some r" and "retryable (far k r)"
  shows "\<exists>e. deliver_rest far now ended cfg m (k # ks) failed made =
    (if 0 < k \<and> ended k then (failed, made) else deliver_rest far now ended cfg m ks (Some e) (made @ [k]))"
  using assms by (cases "far k r") (auto simp: try_once_def retryable_def)

lemma try_last:
  assumes "notify_request now cfg m = Some r" and "\<not> retryable (far k r)"
  shows "\<exists>e. deliver_rest far now ended cfg m (k # ks) failed made =
    (if 0 < k \<and> ended k then (failed, made) else (e, made @ [k])) \<and> (e = None \<longleftrightarrow> (\<exists>status < 300. far k r = Some status))"
  using assms by (cases "far k r") (auto simp: try_once_def retryable_def)

lemma retry_fails: "retryable a \<Longrightarrow> \<not> (\<exists>status < 300. a = Some status)"
  by (auto simp: retryable_def)

lemma delivery_attempts:
  assumes "notify_request now cfg m = Some r" and "deliver far now ended cfg m = (err, made)"
  shows "\<exists>k \<in> {1, 2, 3}. made = take k [0, 1, 2] \<and>
    (\<forall>i < k - 1. retryable (far i r)) \<and>
    (k < 3 \<longrightarrow> \<not> retryable (far (k - 1) r) \<or> ended k) \<and>
    (err = None \<longleftrightarrow> (\<exists>status < 300. far (k - 1) r = Some status))"
proof -
  note step = try_retry [OF assms(1)] try_last [OF assms(1)]
  have "\<exists>k \<in> {1, 2, 3}. made = take k [0, 1, 2] \<and> list_all (\<lambda>i. retryable (far i r)) [0..<k - 1] \<and>
    (k < 3 \<longrightarrow> \<not> retryable (far (k - 1) r) \<or> ended k) \<and>
    (err = None \<longleftrightarrow> (\<exists>status < 300. far (k - 1) r = Some status))"
  proof (cases "retryable (far 0 r)")
    case False
    with step(2) [of far 0 ended "[1, 2]" None "[]"] assms(2) show ?thesis by (auto simp: deliver_def)
  next
    case r0: True
    obtain e0 where d0: "deliver far now ended cfg m = deliver_rest far now ended cfg m [1, 2] (Some e0) [0]"
      using step(1) [of far 0 ended "[1, 2]" None "[]"] r0 by (auto simp: deliver_def)
    show ?thesis
    proof (cases "ended 1")
      case True
      with d0 assms(2) have "made = [0]" "err = Some e0" by auto
      with True r0 retry_fails [OF r0] show ?thesis by (intro bexI [of _ 1]) auto
    next
      case e1: False
      show ?thesis
      proof (cases "retryable (far 1 r)")
        case False
        with d0 e1 assms(2) step(2) [of far 1 ended "[2]" "Some e0" "[0]"]
        have "made = [0, 1]" "err = None \<longleftrightarrow> (\<exists>status < 300. far 1 r = Some status)" by auto
        with r0 False show ?thesis by (intro bexI [of _ 2]) auto
      next
        case r1: True
        obtain f1 where d1: "deliver far now ended cfg m = deliver_rest far now ended cfg m [2] (Some f1) [0, 1]"
          using step(1) [of far 1 ended "[2]" "Some e0" "[0]"] r1 e1 d0 by auto
        show ?thesis
        proof (cases "ended 2")
          case True
          with d1 assms(2) have "made = [0, 1]" "err = Some f1" by auto
          with True r0 retry_fails [OF r1] show ?thesis by (intro bexI [of _ 2]) auto
        next
          case e2: False
          have "made = [0, 1, 2] \<and> (err = None \<longleftrightarrow> (\<exists>status < 300. far 2 r = Some status))"
          proof (cases "retryable (far 2 r)")
            case True
            with d1 e2 assms(2) step(1) [of far 2 ended "[]" "Some f1" "[0, 1]"] retry_fails [OF True] show ?thesis by auto
          next
            case False
            with d1 e2 assms(2) step(2) [of far 2 ended "[]" "Some f1" "[0, 1]"] show ?thesis by auto
          qed
          with r0 r1 show ?thesis by (intro bexI [of _ 3]) (auto simp: upt_rec)
        qed
      qed
    qed
  qed
  then show ?thesis by (simp add: list_all_iff atLeast0LessThan lessThan_def Ball_def)
qed

end
