(* ===== verification/Config.thy ===== *)
theory Config
  imports Notify
begin

text \<open>
  \<open>internal/config\<close>: the configuration (\<open>config.go\<close>), its defaults and rules, the secrets file
  (\<open>envfile.go\<close>) and the choice of an address to listen on (\<open>listen.go\<close>).  The environment is a map;
  the YAML decoder, \<open>time.ParseDuration\<close> and what the operating system says to a bind are parameters.
  Durations are nanoseconds.
\<close>

section \<open>The configuration\<close>

record web_config =
  cw_listen :: string
  cw_fallbacks :: "string list"
  cw_http_listen :: string
  cw_http_fallbacks :: "string list"
  cw_hostname :: string
  cw_tls_cert :: string
  cw_tls_key :: string
  cw_acme :: bool
  cw_proxies :: "string list"

record public_config =
  cp_host :: string
  cp_detect :: bool
  cp_resolvers :: "string list"
  cp_refresh :: int
  cp_rdp_port :: int
  cp_portal_port :: int

record relay_config =
  cr_listen :: string
  cr_tarpit :: int
  cr_max_conns :: int
  cr_dial_timeout :: int
  cr_idle_timeout :: int

record grant_config =
  cg_ttl :: int
  cg_reuse :: int
  cg_v4_bits :: int
  cg_v6_bits :: int

record login_config =
  cl_enabled :: bool
  cl_tls_cert :: string
  cl_tls_key :: string
  cl_timeout :: int
  cl_step_timeout :: int
  cl_pass_through :: bool

record jit_config =
  cj_enabled :: bool
  cj_hold :: int
  cj_peek :: int
  cj_max_pending :: int
  cj_default_target :: string

record wol_config =
  co_interval :: int
  co_settle :: int
  co_repeat :: int

record auth_config =
  ca_session_ttl :: int
  ca_session_idle :: int
  ca_max_failures :: int
  ca_lockout_base :: int
  ca_lockout_max :: int
  ca_skew :: nat
  ca_second_factor :: bool
  ca_backup_codes :: int
  ca_master_key_env :: string

record rdgw_config =
  cd_enabled :: bool
  cd_listen :: string
  cd_token_ttl :: int

record update_config =
  cu_enabled :: bool
  cu_repo :: string
  cu_auto :: bool
  cu_prerelease :: bool
  cu_interval :: int
  cu_only_idle :: bool

record config =
  cf_data_dir :: string
  cf_web :: web_config
  cf_public :: public_config
  cf_relay :: relay_config
  cf_grant :: grant_config
  cf_login :: login_config
  cf_jit :: jit_config
  cf_wol :: wol_config
  cf_auth :: auth_config
  cf_rdgw :: rdgw_config
  cf_notify :: notify_config
  cf_update :: update_config

definition Defaults :: config where
  "Defaults =
    \<lparr>cf_data_dir = ''/var/lib/revpd'',
     cf_web = \<lparr>cw_listen = '':443'', cw_fallbacks = ['':8443'', '':9443''], cw_http_listen = '':80'',
       cw_http_fallbacks = ['':8080'', '':9080''], cw_hostname = ''localhost'', cw_tls_cert = [], cw_tls_key = [],
       cw_acme = False, cw_proxies = []\<rparr>,
     cf_public = \<lparr>cp_host = [], cp_detect = True,
       cp_resolvers = [''https://api.ipify.org'', ''https://icanhazip.com'', ''https://ifconfig.co/ip''],
       cp_refresh = seconds 3600, cp_rdp_port = 0, cp_portal_port = 0\<rparr>,
     cf_relay = \<lparr>cr_listen = '':3389'', cr_tarpit = seconds 5, cr_max_conns = 8, cr_dial_timeout = seconds 10,
       cr_idle_timeout = seconds 14400\<rparr>,
     cf_grant = \<lparr>cg_ttl = seconds 120, cg_reuse = seconds 600, cg_v4_bits = 32, cg_v6_bits = 64\<rparr>,
     cf_login = \<lparr>cl_enabled = True, cl_tls_cert = [], cl_tls_key = [], cl_timeout = seconds 180,
       cl_step_timeout = seconds 30, cl_pass_through = True\<rparr>,
     cf_jit = \<lparr>cj_enabled = False, cj_hold = seconds 45, cj_peek = seconds 5, cj_max_pending = 3, cj_default_target = []\<rparr>,
     cf_wol = \<lparr>co_interval = 500000000, co_settle = seconds 2, co_repeat = 3\<rparr>,
     cf_auth = \<lparr>ca_session_ttl = seconds 43200, ca_session_idle = seconds 1800, ca_max_failures = 5,
       ca_lockout_base = seconds 30, ca_lockout_max = seconds 3600, ca_skew = 1, ca_second_factor = True,
       ca_backup_codes = 10, ca_master_key_env = ''REVPD_MASTER_KEY''\<rparr>,
     cf_rdgw = \<lparr>cd_enabled = False, cd_listen = '':443'', cd_token_ttl = seconds 300\<rparr>,
     cf_notify = \<lparr>nc_enabled = False, nc_url = [], nc_format = ''ntfy'', nc_events = DefaultEvents, nc_timeout = seconds 10\<rparr>,
     cf_update = \<lparr>cu_enabled = True, cu_repo = [], cu_auto = False, cu_prerelease = False, cu_interval = seconds 21600,
       cu_only_idle = True\<rparr>\<rparr>"

section \<open>The environment\<close>

type_synonym environment = "string \<Rightarrow> string option"

definition Getenv :: "environment \<Rightarrow> string \<Rightarrow> string" where
  "Getenv env k = (case env k of None \<Rightarrow> [] | Some v \<Rightarrow> v)"

text \<open>\<open>strconv.Atoi\<close> and \<open>ParseInt\<close> in base ten, both 64 bits wide here, and \<open>strconv.ParseBool\<close>.\<close>

definition Atoi :: "string \<Rightarrow> int option" where
  "Atoi s =
     (let neg = has_prefix s ''-''; ds = (if neg \<or> has_prefix s ''+'' then drop 1 s else s);
          n = (if neg then - int (digits_value ds) else int (digits_value ds)) in
      if ds = [] \<or> \<not> list_all is_digit ds \<or> n < - (2 ^ 63) \<or> 2 ^ 63 \<le> n then None else Some n)"

definition ParseBool :: "string \<Rightarrow> bool option" where
  "ParseBool s =
     (if s \<in> set [''1'', ''t'', ''T'', ''TRUE'', ''true'', ''True''] then Some True
      else if s \<in> set [''0'', ''f'', ''F'', ''FALSE'', ''false'', ''False''] then Some False
      else None)"

definition split_list :: "string \<Rightarrow> string list" where
  "split_list v = filter (\<lambda>p. p \<noteq> []) (map trim_space (split_byte (CHR '','') v))"

definition env_str :: "environment \<Rightarrow> string \<Rightarrow> string \<Rightarrow> string" where
  "env_str env k old = (if Getenv env k \<noteq> [] then Getenv env k else old)"

definition env_dur :: "(string \<Rightarrow> int option) \<Rightarrow> environment \<Rightarrow> string \<Rightarrow> int \<Rightarrow> int" where
  "env_dur parse_duration env k old =
     (if Getenv env k = [] then old
      else case parse_duration (Getenv env k) of None \<Rightarrow> old | Some d \<Rightarrow> d)"

definition env_bool :: "environment \<Rightarrow> string \<Rightarrow> bool \<Rightarrow> bool" where
  "env_bool env k old =
     (let v = lower_string (Getenv env k) in
      if v \<in> set [''1'', ''true'', ''yes'', ''on''] then True
      else if v \<in> set [''0'', ''false'', ''no'', ''off''] then False else old)"

definition env_int :: "environment \<Rightarrow> string \<Rightarrow> int \<Rightarrow> int" where
  "env_int env k old =
     (if Getenv env k = [] then old
      else case Atoi (trim_space (Getenv env k)) of None \<Rightarrow> old | Some n \<Rightarrow> n)"

definition env_list :: "environment \<Rightarrow> string \<Rightarrow> string list \<Rightarrow> string list" where
  "env_list env k old = (case env k of None \<Rightarrow> old | Some v \<Rightarrow> split_list v)"

definition applyEnv :: "(string \<Rightarrow> int option) \<Rightarrow> environment \<Rightarrow> config \<Rightarrow> config" where
  "applyEnv pd env c =
     c\<lparr>cf_data_dir := env_str env ''REVPD_DATA_DIR'' (cf_data_dir c),
       cf_web := (cf_web c)\<lparr>
         cw_listen := env_str env ''REVPD_WEB_LISTEN'' (cw_listen (cf_web c)),
         cw_hostname := env_str env ''REVPD_WEB_HOSTNAME'' (cw_hostname (cf_web c)),
         cw_tls_cert := env_str env ''REVPD_TLS_CERT'' (cw_tls_cert (cf_web c)),
         cw_tls_key := env_str env ''REVPD_TLS_KEY'' (cw_tls_key (cf_web c)),
         cw_acme := env_bool env ''REVPD_ACME'' (cw_acme (cf_web c)),
         cw_proxies := (if Getenv env ''REVPD_TRUSTED_PROXIES'' = [] then cw_proxies (cf_web c)
                        else split_list (Getenv env ''REVPD_TRUSTED_PROXIES''))\<rparr>,
       cf_public := (cf_public c)\<lparr>
         cp_host := env_str env ''REVPD_PUBLIC_HOST'' (cp_host (cf_public c)),
         cp_detect := env_bool env ''REVPD_PUBLIC_DETECT'' (cp_detect (cf_public c)),
         cp_resolvers := env_list env ''REVPD_PUBLIC_RESOLVERS'' (cp_resolvers (cf_public c)),
         cp_refresh := env_dur pd env ''REVPD_PUBLIC_REFRESH'' (cp_refresh (cf_public c)),
         cp_rdp_port := env_int env ''REVPD_PUBLIC_RDP_PORT'' (cp_rdp_port (cf_public c)),
         cp_portal_port := env_int env ''REVPD_PUBLIC_PORTAL_PORT'' (cp_portal_port (cf_public c))\<rparr>,
       cf_relay := (cf_relay c)\<lparr>cr_listen := env_str env ''REVPD_RELAY_LISTEN'' (cr_listen (cf_relay c))\<rparr>,
       cf_grant := (cf_grant c)\<lparr>
         cg_ttl := env_dur pd env ''REVPD_GRANT_TTL'' (cg_ttl (cf_grant c)),
         cg_reuse := env_dur pd env ''REVPD_GRANT_REUSE_WINDOW'' (cg_reuse (cf_grant c))\<rparr>,
       cf_jit := (cf_jit c)\<lparr>
         cj_enabled := env_bool env ''REVPD_JIT_ENABLED'' (cj_enabled (cf_jit c)),
         cj_hold := env_dur pd env ''REVPD_JIT_HOLD_TIMEOUT'' (cj_hold (cf_jit c))\<rparr>,
       cf_rdgw := (cf_rdgw c)\<lparr>cd_enabled := env_bool env ''REVPD_RDGW_ENABLED'' (cd_enabled (cf_rdgw c))\<rparr>,
       cf_auth := (cf_auth c)\<lparr>
         ca_second_factor := env_bool env ''REVPD_REQUIRE_SECOND_FACTOR'' (ca_second_factor (cf_auth c))\<rparr>,
       cf_notify := (cf_notify c)\<lparr>
         nc_enabled := env_bool env ''REVPD_NOTIFY_ENABLED'' (nc_enabled (cf_notify c)),
         nc_url := env_str env ''REVPD_NOTIFY_URL'' (nc_url (cf_notify c)),
         nc_format := env_str env ''REVPD_NOTIFY_FORMAT'' (nc_format (cf_notify c)),
         nc_events := env_list env ''REVPD_NOTIFY_EVENTS'' (nc_events (cf_notify c)),
         nc_timeout := env_dur pd env ''REVPD_NOTIFY_TIMEOUT'' (nc_timeout (cf_notify c))\<rparr>,
       cf_update := (cf_update c)\<lparr>
         cu_enabled := env_bool env ''REVPD_UPDATE_ENABLED'' (cu_enabled (cf_update c)),
         cu_auto := env_bool env ''REVPD_UPDATE_AUTO_INSTALL'' (cu_auto (cf_update c)),
         cu_prerelease := env_bool env ''REVPD_UPDATE_PRERELEASE'' (cu_prerelease (cf_update c)),
         cu_only_idle := env_bool env ''REVPD_UPDATE_ONLY_WHEN_IDLE'' (cu_only_idle (cf_update c)),
         cu_repo := env_str env ''REVPD_UPDATE_REPO'' (cu_repo (cf_update c)),
         cu_interval := env_dur pd env ''REVPD_UPDATE_CHECK_INTERVAL'' (cu_interval (cf_update c))\<rparr>\<rparr>"

definition MasterKey :: "environment \<Rightarrow> config \<Rightarrow> string" where
  "MasterKey env c =
     (let k = ca_master_key_env (cf_auth c) in
      trim_space (Getenv env (if k = [] then ''REVPD_MASTER_KEY'' else k)))"

definition NotifyConfig :: "config \<Rightarrow> notify_config" where
  "NotifyConfig c = (cf_notify c)\<lparr>nc_url := trim_space (nc_url (cf_notify c))\<rparr>"

text \<open>\<open>parseEnvLine\<close> and \<open>LoadEnvFile\<close>.  A line as long as the scanner's buffer ends the reading with an error.\<close>

definition squote :: char where "squote = char_of (39::nat)"

definition unquote :: "string \<Rightarrow> string" where
  "unquote v =
     (if 2 \<le> length v \<and> ((hd v = quote_char \<and> last v = quote_char) \<or> (hd v = squote \<and> last v = squote))
      then butlast (tl v) else v)"

definition parseEnvLine :: "string \<Rightarrow> (string \<times> string) option" where
  "parseEnvLine line =
     (let l = trim_space line in
      if l = [] \<or> has_prefix l ''#'' then None
      else case index_of (CHR ''='') l of None \<Rightarrow> None
        | Some i \<Rightarrow>
            (let k = trim_space (trim_prefix (take i l) ''export '') in
             if k = [] then None else Some (k, unquote (trim_space (drop (Suc i) l)))))"

definition maxLine :: nat where "maxLine = 65536"

definition drop_cr :: "string \<Rightarrow> string" where
  "drop_cr l = (if l \<noteq> [] \<and> last l = CHR 0x0D then butlast l else l)"

definition file_lines :: "string \<Rightarrow> string list" where
  "file_lines s =
     (let ls = split_byte (CHR 0x0A) s in if last ls = [] then butlast ls else ls)"

definition set_unset :: "string \<times> string \<Rightarrow> environment \<Rightarrow> environment" where
  "set_unset kv env =
     (if env (fst kv) \<noteq> None \<or> CHR 0x00 \<in> set (fst kv) \<or> CHR 0x00 \<in> set (snd kv) then env else env(fst kv \<mapsto> snd kv))"

fun load_lines :: "string list \<Rightarrow> environment \<Rightarrow> bool \<times> environment" where
  "load_lines [] env = (True, env)"
| "load_lines (l # ls) env =
     (if maxLine \<le> length l then (False, env)
      else load_lines ls (case parseEnvLine (drop_cr l) of None \<Rightarrow> env | Some kv \<Rightarrow> set_unset kv env))"

datatype env_file = Missing | Unreadable | Contents string

fun LoadEnvFile :: "env_file \<Rightarrow> environment \<Rightarrow> bool \<times> environment" where
  "LoadEnvFile Missing env = (True, env)"
| "LoadEnvFile Unreadable env = (False, env)"
| "LoadEnvFile (Contents s) env = load_lines (file_lines s) env"

section \<open>Hosts and ports\<close>

definition PortalIsPublic :: "config \<Rightarrow> bool" where
  "PortalIsPublic c =
     (case SplitHostPort (cw_listen (cf_web c)) of
        None \<Rightarrow> True
      | Some (host, _) \<Rightarrow>
          if host = [] then True
          else if host = ''localhost'' then False
          else let a = ParseIP host in a = NilIP \<or> \<not> IsLoopback a)"

definition portOf :: "string \<Rightarrow> int \<Rightarrow> int" where
  "portOf listen fallback =
     (case SplitHostPort listen of None \<Rightarrow> fallback
      | Some (_, port) \<Rightarrow>
          (case Atoi port of None \<Rightarrow> fallback | Some n \<Rightarrow> if n \<le> 0 \<or> n > 65535 then fallback else n))"

definition RelayPort :: "config \<Rightarrow> int" where
  "RelayPort c = portOf (cr_listen (cf_relay c)) 3389"

definition PortalPort :: "config \<Rightarrow> int" where
  "PortalPort c = portOf (cw_listen (cf_web c)) 443"

definition PublicRDPPort :: "config \<Rightarrow> int" where
  "PublicRDPPort c = (if 0 < cp_rdp_port (cf_public c) then cp_rdp_port (cf_public c) else RelayPort c)"

definition PublicPortalPort :: "config \<Rightarrow> int" where
  "PublicPortalPort c = (if 0 < cp_portal_port (cf_public c) then cp_portal_port (cf_public c) else PortalPort c)"

definition PublicHost :: "config \<Rightarrow> string" where
  "PublicHost c =
     (let h = trim_space (cp_host (cf_public c)); w = trim_space (cw_hostname (cf_web c)) in
      if h \<noteq> [] then h else if w \<noteq> [] \<and> w \<noteq> ''localhost'' then w else [])"

fun contains :: "string \<Rightarrow> string \<Rightarrow> bool" where
  "contains [] p = (p = [])"
| "contains (c # s) p = (has_prefix (c # s) p \<or> contains s p)"

definition label_ok :: "string \<Rightarrow> bool" where
  "label_ok l \<longleftrightarrow> l \<noteq> [] \<and> length l \<le> 63 \<and> hd l \<noteq> CHR ''-'' \<and> last l \<noteq> CHR ''-'' \<and>
     list_all (\<lambda>c. alpha c \<or> is_digit c \<or> c = CHR ''-'') l"

definition validHostname :: "string \<Rightarrow> bool" where
  "validHostname v \<longleftrightarrow> length v \<le> 253 \<and> list_all label_ok (split_byte (CHR ''.'') v)"

datatype host_problem = HasScheme | HasPathOrSpace | HasPort | NotAHostname

definition host_breakers :: string where
  "host_breakers = [CHR '' '', CHR 0x09, CHR 0x0D, CHR 0x0A, CHR ''/'', CHR ''?'', CHR ''#'', CHR ''@'']"

definition CheckPublicHost :: "string \<Rightarrow> host_problem option" where
  "CheckPublicHost raw =
     (let v = trim_space raw in
      if v = [] then None
      else if contains v ''://'' then Some HasScheme
      else if list_ex (\<lambda>c. c \<in> set host_breakers) v then Some HasPathOrSpace
      else if ParseIP v \<noteq> NilIP then None
      else if SplitHostPort v \<noteq> None then Some HasPort
      else if \<not> validHostname v then Some NotAHostname
      else None)"

section \<open>The rules\<close>

datatype problem =
    DataDirUnset | WebListenUnset | HostnameUnset | TLSPairBroken | WebListenNotAddr | RelayListenNotAddr
  | RelayListenUnset | PublicHostBad host_problem | ResolverBad string | RDPPortBad int | PortalPortBad int
  | NobodyToAsk | RefreshTooShort | TTLNotPositive | TTLTooLong | V4BitsBad | V6BitsBad | HoldNotPositive
  | LoginTimeoutNotPositive | LoginTLSPairBroken | NothingConnects | JITNeverReached | MaxFailuresBad | SkewTooWide
  | BackupCodesBad | NotifyURLBad | NotifyFormatBad | NotifyEventsBad | NowhereToSend | NothingToSend
  | CheckIntervalTooShort | RepoForm

definition complain :: "bool \<Rightarrow> problem \<Rightarrow> problem list" where
  "complain wrong p = (if wrong then [p] else [])"

definition resolver_problems :: "string list \<Rightarrow> problem list" where
  "resolver_problems rs = map ResolverBad (filter (\<lambda>r. \<not> CheckResolver r) rs)"

definition check_web :: "config \<Rightarrow> problem list" where
  "check_web c =
     (let w = cf_web c in
      complain (cf_data_dir c = []) DataDirUnset @ complain (cw_listen w = []) WebListenUnset @
      complain (cw_hostname w = []) HostnameUnset @
      complain (\<not> cw_acme w \<and> (cw_tls_cert w = []) \<noteq> (cw_tls_key w = [])) TLSPairBroken @
      complain (SplitHostPort (cw_listen w) = None) WebListenNotAddr @
      complain (SplitHostPort (cr_listen (cf_relay c)) = None) RelayListenNotAddr @
      complain (cr_listen (cf_relay c) = []) RelayListenUnset)"

definition check_public :: "public_config \<Rightarrow> problem list" where
  "check_public p =
     (case CheckPublicHost (cp_host p) of None \<Rightarrow> [] | Some e \<Rightarrow> [PublicHostBad e]) @
      resolver_problems (cp_resolvers p) @
      complain (cp_rdp_port p < 0 \<or> cp_rdp_port p > 65535) (RDPPortBad (cp_rdp_port p)) @
      complain (cp_portal_port p < 0 \<or> cp_portal_port p > 65535) (PortalPortBad (cp_portal_port p)) @
      complain (cp_detect p \<and> cp_resolvers p = []) NobodyToAsk @
      complain (cp_detect p \<and> cp_refresh p < seconds 300) RefreshTooShort"

definition check_access :: "config \<Rightarrow> problem list" where
  "check_access c =
     (let g = cf_grant c; j = cf_jit c; l = cf_login c in
      complain (cg_ttl g \<le> 0) TTLNotPositive @ complain (cg_ttl g > seconds 1800) TTLTooLong @
      complain (cg_v4_bits g < 16 \<or> cg_v4_bits g > 32) V4BitsBad @
      complain (cg_v6_bits g < 32 \<or> cg_v6_bits g > 128) V6BitsBad @
      complain (cj_enabled j \<and> cj_hold j \<le> 0) HoldNotPositive @
      complain (cl_enabled l \<and> cl_timeout l \<le> 0) LoginTimeoutNotPositive @
      complain (cl_enabled l \<and> (cl_tls_cert l = []) \<noteq> (cl_tls_key l = [])) LoginTLSPairBroken @
      complain (\<not> cl_enabled l \<and> \<not> cj_enabled j) NothingConnects @
      complain (cl_enabled l \<and> cj_enabled j) JITNeverReached)"

definition check_auth :: "auth_config \<Rightarrow> problem list" where
  "check_auth a =
     complain (ca_max_failures a < 1) MaxFailuresBad @ complain (ca_skew a > 2) SkewTooWide @
     complain (ca_backup_codes a < 0 \<or> ca_backup_codes a > 50) BackupCodesBad"

definition check_notify :: "notify_config \<Rightarrow> problem list" where
  "check_notify n =
     complain (\<not> CheckURL (nc_url n)) NotifyURLBad @
     complain (nc_format n \<noteq> [] \<and> \<not> CheckFormat (nc_format n)) NotifyFormatBad @
     complain (\<not> CheckEvents (nc_events n)) NotifyEventsBad @
     complain (nc_enabled n \<and> trim_space (nc_url n) = []) NowhereToSend @
     complain (nc_enabled n \<and> nc_events n = []) NothingToSend"

definition check_update :: "update_config \<Rightarrow> problem list" where
  "check_update u =
     complain (cu_enabled u \<and> cu_interval u < seconds 900) CheckIntervalTooShort @
     complain (cu_repo u \<noteq> [] \<and> length (filter (\<lambda>c. c = CHR ''/'') (cu_repo u)) \<noteq> 1) RepoForm"

definition Validate :: "config \<Rightarrow> problem list" where
  "Validate c = check_web c @ check_public (cf_public c) @ check_access c @ check_auth (cf_auth c) @
     check_notify (cf_notify c) @ check_update (cf_update c)"

datatype load_error = CannotRead | CannotParse | Invalid "problem list"

text \<open>
  \<open>Load\<close>: the file's text if it can be read, the decoder over the defaults, the secrets file beside it.
  The flag is \<open>envFileErr\<close>.
\<close>

definition Load ::
    "string option \<Rightarrow> (string \<Rightarrow> config \<Rightarrow> config option) \<Rightarrow> env_file \<Rightarrow> (string \<Rightarrow> int option) \<Rightarrow> environment \<Rightarrow>
      (load_error + config) \<times> bool \<times> environment" where
  "Load text yaml secrets pd env =
     (case text of None \<Rightarrow> (Inl CannotRead, True, env)
      | Some s \<Rightarrow>
          (case yaml s Defaults of None \<Rightarrow> (Inl CannotParse, True, env)
           | Some c \<Rightarrow>
               (case LoadEnvFile secrets env of (ok, env1) \<Rightarrow>
                 let c1 = applyEnv pd env1 c in
                 (if Validate c1 = [] then Inr c1 else Inl (Invalid (Validate c1)), ok, env1))))"

section \<open>Listening\<close>

datatype bind_error = InUse | Denied | NoSuchIP | OtherBind string

record bound =
  bd_addr :: string
  bd_fell_back :: bool
  bd_tried :: "(string \<times> bind_error) list"

fun listen_from ::
    "(string \<Rightarrow> bind_error + string) \<Rightarrow> nat \<Rightarrow> string list \<Rightarrow> (string \<times> bind_error) list \<Rightarrow> (string \<times> bind_error) list + bound"
  where
  "listen_from bind i [] tried = Inl tried"
| "listen_from bind i (a # as) tried =
     (if a = [] then listen_from bind (Suc i) as tried
      else case bind a of
        Inr addr \<Rightarrow> Inr \<lparr>bd_addr = addr, bd_fell_back = (0 < i), bd_tried = tried\<rparr>
      | Inl e \<Rightarrow> listen_from bind (Suc i) as (tried @ [(a, e)]))"

datatype listen_error = NothingToBind | NoneWorked "(string \<times> bind_error) list"

definition Listen :: "(string \<Rightarrow> bind_error + string) \<Rightarrow> string \<Rightarrow> string list \<Rightarrow> listen_error + bound" where
  "Listen bind primary fallbacks =
     (if primary = [] then Inl NothingToBind
      else case listen_from bind 0 (primary # fallbacks) [] of Inl tried \<Rightarrow> Inl (NoneWorked tried) | Inr b \<Rightarrow> Inr b)"

definition Port :: "string \<Rightarrow> string" where
  "Port addr = (case SplitHostPort addr of None \<Rightarrow> [] | Some (_, p) \<Rightarrow> p)"

definition PortalURL :: "string \<Rightarrow> string \<Rightarrow> string" where
  "PortalURL hostname listen_addr =
     (let p = Port listen_addr in
      if p = [] \<or> p = ''443'' then ''https://'' @ hostname else ''https://'' @ JoinHostPort hostname p)"

lemmas validate_defs = Validate_def check_web_def check_public_def check_access_def check_auth_def check_notify_def
  check_update_def resolver_problems_def complain_def Let_def

end
