(* ===== verification/Registry.thy ===== *)
theory Registry
  imports Config "HOL-Library.List_Lexorder" "HOL-Library.Char_ord"
begin

text \<open>
  \<open>internal/config/registry.go\<close>: the settings the portal may change, how each is read and written as text,
  and \<open>Apply\<close>, which lays stored overrides over a configuration and validates the result.  The help
  texts are left out.
\<close>

section \<open>Fields\<close>

text \<open>The \<open>ptr\<close> functions: one field of one section, read and written.\<close>

record 'a field_ptr =
  fp_get :: "config \<Rightarrow> 'a"
  fp_put :: "'a \<Rightarrow> config \<Rightarrow> config"

definition ptr ::
    "(config \<Rightarrow> 's) \<Rightarrow> (('s \<Rightarrow> 's) \<Rightarrow> config \<Rightarrow> config) \<Rightarrow> ('s \<Rightarrow> 'a) \<Rightarrow> (('a \<Rightarrow> 'a) \<Rightarrow> 's \<Rightarrow> 's) \<Rightarrow> 'a field_ptr" where
  "ptr sec sec_upd fld fld_upd =
     \<lparr>fp_get = (\<lambda>c. fld (sec c)), fp_put = (\<lambda>x. sec_upd (fld_upd (\<lambda>_. x)))\<rparr>"

section \<open>Settings\<close>

datatype kind = KindBool | KindInt | KindDuration | KindText | KindAddr | KindAddrList | KindTextList | KindChoice

datatype setting_group = GroupPublic | GroupNetwork | GroupAccess | GroupSignIn | GroupRelay | GroupDesktop | GroupWake
  | GroupNotify | GroupUpdates

definition Groups :: "setting_group list" where
  "Groups = [GroupPublic, GroupNetwork, GroupAccess, GroupSignIn, GroupRelay, GroupDesktop, GroupWake, GroupNotify,
     GroupUpdates]"

datatype set_error = NotOnOff | NotWhole | OutOfRange int | NotSeconds | BadHost host_problem | NotPort | NotChoice
  | BadURL | BadEvents | BadAddr | NoUsablePort

record registry_setting =
  st_key :: string
  st_group :: setting_group
  st_kind :: kind
  st_restart :: bool
  st_min :: int
  st_max :: int
  st_options :: "string list"
  st_get :: "config \<Rightarrow> string"
  st_set :: "string \<Rightarrow> config \<Rightarrow> set_error + config"

text \<open>Every constructor prints a field, and parses a text for it or objects.\<close>

definition field_setting ::
    "string \<Rightarrow> setting_group \<Rightarrow> kind \<Rightarrow> bool \<Rightarrow> int \<Rightarrow> int \<Rightarrow> string list \<Rightarrow>
      ('a \<Rightarrow> string) \<Rightarrow> (string \<Rightarrow> set_error + 'a) \<Rightarrow> 'a field_ptr \<Rightarrow> registry_setting" where
  "field_setting key g k restart lo hi options print parse p =
     \<lparr>st_key = key, st_group = g, st_kind = k, st_restart = restart, st_min = lo, st_max = hi, st_options = options,
      st_get = (\<lambda>c. print (fp_get p c)),
      st_set = (\<lambda>v c. case parse v of Inl e \<Rightarrow> Inl e | Inr x \<Rightarrow> Inr (fp_put p x c))\<rparr>"

definition FormatBool :: "bool \<Rightarrow> string" where
  "FormatBool b = (if b then ''true'' else ''false'')"

definition parse_onoff :: "string \<Rightarrow> set_error + bool" where
  "parse_onoff v = (case ParseBool (trim_space v) of None \<Rightarrow> Inl NotOnOff | Some b \<Rightarrow> Inr b)"

definition boolean :: "string \<Rightarrow> setting_group \<Rightarrow> bool \<Rightarrow> bool field_ptr \<Rightarrow> registry_setting" where
  "boolean key g restart p = field_setting key g KindBool restart 0 0 [] FormatBool parse_onoff p"

definition parse_integer :: "int \<Rightarrow> int \<Rightarrow> string \<Rightarrow> set_error + int" where
  "parse_integer lo hi v =
     (case Atoi (trim_space v) of None \<Rightarrow> Inl NotWhole
      | Some n \<Rightarrow> if n < lo \<or> n > hi then Inl (OutOfRange n) else Inr n)"

definition integer :: "string \<Rightarrow> setting_group \<Rightarrow> bool \<Rightarrow> int \<Rightarrow> int \<Rightarrow> int field_ptr \<Rightarrow> registry_setting" where
  "integer key g restart lo hi p = field_setting key g KindInt restart lo hi [] decimal_int (parse_integer lo hi) p"

text \<open>
  \<open>int64(d.Seconds())\<close>: the seconds towards zero.  The code goes through a floating-point number, which
  is exact enough below a hundred days.
\<close>

definition whole_seconds :: "int \<Rightarrow> int" where
  "whole_seconds d = (if d < 0 then - ((- d) div 1000000000) else d div 1000000000)"

definition parse_duration :: "int \<Rightarrow> int \<Rightarrow> string \<Rightarrow> set_error + int" where
  "parse_duration lo hi v =
     (case Atoi (trim_space v) of None \<Rightarrow> Inl NotSeconds
      | Some n \<Rightarrow> if n < lo \<or> n > hi then Inl (OutOfRange n) else Inr (seconds n))"

definition duration :: "string \<Rightarrow> setting_group \<Rightarrow> bool \<Rightarrow> int \<Rightarrow> int \<Rightarrow> int field_ptr \<Rightarrow> registry_setting" where
  "duration key g restart lo hi p =
     field_setting key g KindDuration restart lo hi [] (decimal_int \<circ> whole_seconds) (parse_duration lo hi) p"

definition parse_text :: "string \<Rightarrow> set_error + string" where
  "parse_text v = Inr (trim_space v)"

definition text_setting :: "string \<Rightarrow> setting_group \<Rightarrow> bool \<Rightarrow> string field_ptr \<Rightarrow> registry_setting" where
  "text_setting key g restart p = field_setting key g KindText restart 0 0 [] id parse_text p"

definition parse_host_name :: "string \<Rightarrow> set_error + string" where
  "parse_host_name v =
     (case CheckPublicHost (trim_space v) of Some e \<Rightarrow> Inl (BadHost e) | None \<Rightarrow> Inr (trim_space v))"

definition host_setting :: "string \<Rightarrow> setting_group \<Rightarrow> bool \<Rightarrow> string field_ptr \<Rightarrow> registry_setting" where
  "host_setting key g restart p = field_setting key g KindText restart 0 0 [] id parse_host_name p"

definition parse_port :: "string \<Rightarrow> set_error + int" where
  "parse_port v =
     (case Atoi (if trim_space v = [] then ''0'' else trim_space v) of None \<Rightarrow> Inl NotPort
      | Some n \<Rightarrow> if n < 0 \<or> n > 65535 then Inl NotPort else Inr n)"

definition port_setting :: "string \<Rightarrow> setting_group \<Rightarrow> bool \<Rightarrow> int field_ptr \<Rightarrow> registry_setting" where
  "port_setting key g restart p = field_setting key g KindInt restart 0 65535 [] decimal_int parse_port p"

text \<open>\<open>strings.Join\<close> with comma and blank.\<close>

fun join_list :: "string list \<Rightarrow> string" where
  "join_list [] = []"
| "join_list [s] = s"
| "join_list (s # ss) = s @ '', '' @ join_list ss"

definition parse_list :: "string \<Rightarrow> set_error + string list" where
  "parse_list v = Inr (split_list v)"

definition textList :: "string \<Rightarrow> setting_group \<Rightarrow> bool \<Rightarrow> string list field_ptr \<Rightarrow> registry_setting" where
  "textList key g restart p = field_setting key g KindTextList restart 0 0 [] join_list parse_list p"

definition parse_choice :: "string list \<Rightarrow> string \<Rightarrow> set_error + string" where
  "parse_choice options v = (if trim_space v \<in> set options then Inr (trim_space v) else Inl NotChoice)"

definition choice_setting :: "string \<Rightarrow> setting_group \<Rightarrow> bool \<Rightarrow> string list \<Rightarrow> string field_ptr \<Rightarrow> registry_setting" where
  "choice_setting key g restart options p =
     field_setting key g KindChoice restart 0 0 options id (parse_choice options) p"

definition parse_url :: "string \<Rightarrow> set_error + string" where
  "parse_url v = (if CheckURL (trim_space v) then Inr (trim_space v) else Inl BadURL)"

definition notifyURL :: "string \<Rightarrow> setting_group \<Rightarrow> bool \<Rightarrow> string field_ptr \<Rightarrow> registry_setting" where
  "notifyURL key g restart p = field_setting key g KindText restart 0 0 [] id parse_url p"

definition parse_events :: "string \<Rightarrow> set_error + string list" where
  "parse_events v = (if CheckEvents (split_list v) then Inr (split_list v) else Inl BadEvents)"

definition events_setting :: "string \<Rightarrow> setting_group \<Rightarrow> bool \<Rightarrow> string list field_ptr \<Rightarrow> registry_setting" where
  "events_setting key g restart p = field_setting key g KindTextList restart 0 0 Notifiable join_list parse_events p"

definition checkAddr :: "string \<Rightarrow> set_error option" where
  "checkAddr v =
     (case SplitHostPort v of None \<Rightarrow> Some BadAddr
      | Some (_, port) \<Rightarrow>
          (case Atoi port of None \<Rightarrow> Some NoUsablePort
           | Some n \<Rightarrow> if n < 1 \<or> n > 65535 then Some NoUsablePort else None))"

definition parse_addr_text :: "string \<Rightarrow> set_error + string" where
  "parse_addr_text raw =
     (let v = trim_space raw in
      if v = [] then Inr v else case checkAddr v of Some e \<Rightarrow> Inl e | None \<Rightarrow> Inr v)"

definition addr_setting :: "string \<Rightarrow> setting_group \<Rightarrow> bool \<Rightarrow> string field_ptr \<Rightarrow> registry_setting" where
  "addr_setting key g restart p = field_setting key g KindAddr restart 0 0 [] id parse_addr_text p"

fun check_addrs :: "string list \<Rightarrow> set_error + string list" where
  "check_addrs [] = Inr []"
| "check_addrs (a # as) =
     (case checkAddr a of Some e \<Rightarrow> Inl e
      | None \<Rightarrow> (case check_addrs as of Inl e \<Rightarrow> Inl e | Inr l \<Rightarrow> Inr (a # l)))"

definition parse_addrs :: "string \<Rightarrow> set_error + string list" where
  "parse_addrs v = check_addrs (split_list v)"

definition addrList :: "string \<Rightarrow> setting_group \<Rightarrow> bool \<Rightarrow> string list field_ptr \<Rightarrow> registry_setting" where
  "addrList key g restart p = field_setting key g KindAddrList restart 0 0 [] join_list parse_addrs p"

definition parse_unsigned :: "int \<Rightarrow> int \<Rightarrow> string \<Rightarrow> set_error + nat" where
  "parse_unsigned lo hi v =
     (case Atoi (trim_space v) of None \<Rightarrow> Inl NotWhole
      | Some n \<Rightarrow> if n < lo \<or> n > hi then Inl (OutOfRange n) else Inr (nat n))"

definition unsigned_setting :: "string \<Rightarrow> setting_group \<Rightarrow> bool \<Rightarrow> int \<Rightarrow> int \<Rightarrow> nat field_ptr \<Rightarrow> registry_setting" where
  "unsigned_setting key g restart lo hi p = field_setting key g KindInt restart lo hi [] decimal (parse_unsigned lo hi) p"

section \<open>The registry\<close>

definition Registry :: "registry_setting list" where
  "Registry =
    [host_setting ''public.host'' GroupPublic False (ptr cf_public cf_public_update cp_host cp_host_update),
     boolean ''public.detect'' GroupPublic False (ptr cf_public cf_public_update cp_detect cp_detect_update),
     port_setting ''public.rdp_port'' GroupPublic False (ptr cf_public cf_public_update cp_rdp_port cp_rdp_port_update),
     port_setting ''public.portal_port'' GroupPublic False (ptr cf_public cf_public_update cp_portal_port cp_portal_port_update),
     textList ''public.resolvers'' GroupPublic True (ptr cf_public cf_public_update cp_resolvers cp_resolvers_update),
     duration ''public.refresh'' GroupPublic True 300 604800 (ptr cf_public cf_public_update cp_refresh cp_refresh_update),
     addr_setting ''web.listen'' GroupNetwork True (ptr cf_web cf_web_update cw_listen cw_listen_update),
     addrList ''web.listen_fallbacks'' GroupNetwork True (ptr cf_web cf_web_update cw_fallbacks cw_fallbacks_update),
     addr_setting ''web.http_listen'' GroupNetwork True (ptr cf_web cf_web_update cw_http_listen cw_http_listen_update),
     addrList ''web.http_listen_fallbacks'' GroupNetwork True (ptr cf_web cf_web_update cw_http_fallbacks cw_http_fallbacks_update),
     text_setting ''web.hostname'' GroupNetwork True (ptr cf_web cf_web_update cw_hostname cw_hostname_update),
     addr_setting ''relay.listen'' GroupNetwork True (ptr cf_relay cf_relay_update cr_listen cr_listen_update),
     duration ''grant.ttl'' GroupAccess True 5 86400 (ptr cf_grant cf_grant_update cg_ttl cg_ttl_update),
     duration ''grant.reuse_window'' GroupAccess True 0 86400 (ptr cf_grant cf_grant_update cg_reuse cg_reuse_update),
     integer ''grant.ipv4_prefix_bits'' GroupAccess True 16 32 (ptr cf_grant cf_grant_update cg_v4_bits cg_v4_bits_update),
     integer ''grant.ipv6_prefix_bits'' GroupAccess True 32 128 (ptr cf_grant cf_grant_update cg_v6_bits cg_v6_bits_update),
     duration ''auth.session_ttl'' GroupSignIn True 300 2592000 (ptr cf_auth cf_auth_update ca_session_ttl ca_session_ttl_update),
     duration ''auth.session_idle'' GroupSignIn True 60 604800 (ptr cf_auth cf_auth_update ca_session_idle ca_session_idle_update),
     integer ''auth.max_failures'' GroupSignIn True 1 100 (ptr cf_auth cf_auth_update ca_max_failures ca_max_failures_update),
     duration ''auth.lockout_base'' GroupSignIn True 1 3600 (ptr cf_auth cf_auth_update ca_lockout_base ca_lockout_base_update),
     duration ''auth.lockout_max'' GroupSignIn True 60 2592000 (ptr cf_auth cf_auth_update ca_lockout_max ca_lockout_max_update),
     unsigned_setting ''auth.totp_skew'' GroupSignIn True 0 10 (ptr cf_auth cf_auth_update ca_skew ca_skew_update),
     boolean ''auth.require_second_factor'' GroupSignIn True (ptr cf_auth cf_auth_update ca_second_factor ca_second_factor_update),
     integer ''auth.backup_codes'' GroupSignIn True 0 100 (ptr cf_auth cf_auth_update ca_backup_codes ca_backup_codes_update),
     duration ''relay.tarpit'' GroupRelay True 0 120 (ptr cf_relay cf_relay_update cr_tarpit cr_tarpit_update),
     integer ''relay.max_conns_per_ip'' GroupRelay True 1 1000 (ptr cf_relay cf_relay_update cr_max_conns cr_max_conns_update),
     duration ''relay.dial_timeout'' GroupRelay True 1 300 (ptr cf_relay cf_relay_update cr_dial_timeout cr_dial_timeout_update),
     duration ''relay.idle_timeout'' GroupRelay True 60 86400 (ptr cf_relay cf_relay_update cr_idle_timeout cr_idle_timeout_update),
     boolean ''rdp_login.enabled'' GroupDesktop True (ptr cf_login cf_login_update cl_enabled cl_enabled_update),
     boolean ''rdp_login.pass_through_credentials'' GroupDesktop True (ptr cf_login cf_login_update cl_pass_through cl_pass_through_update),
     duration ''rdp_login.timeout'' GroupDesktop True 30 900 (ptr cf_login cf_login_update cl_timeout cl_timeout_update),
     duration ''rdp_login.step_timeout'' GroupDesktop True 5 300 (ptr cf_login cf_login_update cl_step_timeout cl_step_timeout_update),
     boolean ''jit.enabled'' GroupDesktop True (ptr cf_jit cf_jit_update cj_enabled cj_enabled_update),
     duration ''jit.hold_timeout'' GroupDesktop True 5 300 (ptr cf_jit cf_jit_update cj_hold cj_hold_update),
     duration ''wol.probe_interval'' GroupWake True 0 60 (ptr cf_wol cf_wol_update co_interval co_interval_update),
     duration ''wol.probe_settle'' GroupWake True 0 120 (ptr cf_wol cf_wol_update co_settle co_settle_update),
     integer ''wol.repeat'' GroupWake True 1 10 (ptr cf_wol cf_wol_update co_repeat co_repeat_update),
     boolean ''notify.enabled'' GroupNotify False (ptr cf_notify cf_notify_update nc_enabled nc_enabled_update),
     choice_setting ''notify.format'' GroupNotify False [''ntfy'', ''discord'', ''slack'', ''json''] (ptr cf_notify cf_notify_update nc_format nc_format_update),
     notifyURL ''notify.url'' GroupNotify False (ptr cf_notify cf_notify_update nc_url nc_url_update),
     events_setting ''notify.events'' GroupNotify False (ptr cf_notify cf_notify_update nc_events nc_events_update),
     boolean ''update.enabled'' GroupUpdates True (ptr cf_update cf_update_update cu_enabled cu_enabled_update),
     boolean ''update.auto_install'' GroupUpdates False (ptr cf_update cf_update_update cu_auto cu_auto_update),
     boolean ''update.only_when_idle'' GroupUpdates False (ptr cf_update cf_update_update cu_only_idle cu_only_idle_update),
     boolean ''update.prerelease'' GroupUpdates True (ptr cf_update cf_update_update cu_prerelease cu_prerelease_update),
     duration ''update.check_interval'' GroupUpdates True 1 604800 (ptr cf_update cf_update_update cu_interval cu_interval_update),
     text_setting ''update.repo'' GroupUpdates True (ptr cf_update cf_update_update cu_repo cu_repo_update)]"

definition Lookup_setting :: "string \<Rightarrow> registry_setting option" where
  "Lookup_setting key = find (\<lambda>s. st_key s = key) Registry"

definition Value :: "registry_setting \<Rightarrow> config \<Rightarrow> string" where
  "Value s c = st_get s c"

section \<open>Applying overrides\<close>

datatype apply_error = SetFailed string set_error | ApplyInvalid "problem list"

text \<open>The keys still to apply, the configuration so far and the unknown keys met.  \<open>lookup\<close> is \<open>Lookup_setting\<close>.\<close>

fun apply_keys ::
    "(string \<Rightarrow> registry_setting option) \<Rightarrow> (string \<times> string) list \<Rightarrow> string list \<Rightarrow> config \<Rightarrow> string list \<Rightarrow> (string \<times> set_error) option \<times> config \<times> string list"
  where
  "apply_keys lookup ov [] out unknown = (None, out, unknown)"
| "apply_keys lookup ov (k # ks) out unknown =
     (case lookup k of
        None \<Rightarrow> apply_keys lookup ov ks out (unknown @ [k])
      | Some s \<Rightarrow>
          (case st_set s (the (map_of ov k)) out of
             Inl e \<Rightarrow> (Some (k, e), out, unknown)
           | Inr out1 \<Rightarrow> apply_keys lookup ov ks out1 unknown))"

definition Apply :: "config \<Rightarrow> (string \<times> string) list \<Rightarrow> config \<times> string list \<times> apply_error option" where
  "Apply base overrides =
     (case apply_keys Lookup_setting overrides (sort (map fst overrides)) base [] of
        (Some (k, e), _, unknown) \<Rightarrow> (base, unknown, Some (SetFailed k e))
      | (None, out, unknown) \<Rightarrow>
          if Validate out = [] then (out, unknown, None) else (base, unknown, Some (ApplyInvalid (Validate out))))"

text \<open>
  What \<open>run\<close> in \<open>cmd/revpd/main.go\<close> starts with: the file, and over it what the database holds, if that
  can be read and applied.
\<close>

definition startup_config :: "config \<Rightarrow> (string \<times> string) list option \<Rightarrow> config" where
  "startup_config file stored =
     (case stored of None \<Rightarrow> file
      | Some overrides \<Rightarrow>
          if overrides = [] then file
          else case Apply file overrides of (merged, _, failed) \<Rightarrow> if failed = None then merged else file)"

end
