(* ===== verification/Config_Guarantees.thy ===== *)
theory Config_Guarantees
  imports Registry "HOL-Library.Multiset"
begin

text \<open>
  What the registry guarantees.  A table of settings is lawful when setting one leaves the others alone,
  what a text sets does not depend on the configuration it is set in, and nothing outside the table moves;
  the code's registry is such a table.  The second chapter is about the configuration as a whole.
\<close>

section \<open>Lawful tables\<close>

locale settings_table =
  fixes lookup :: "string \<Rightarrow> registry_setting option" and kept :: "config \<Rightarrow> 'k"
  assumes others: "lookup k = Some s \<Longrightarrow> lookup j = Some t \<Longrightarrow> j \<noteq> k \<Longrightarrow> st_set s v c = Inr c' \<Longrightarrow>
      st_get t c' = st_get t c"
    and same_text: "lookup k = Some s \<Longrightarrow> st_set s v c = Inr c' \<Longrightarrow> \<exists>d'. st_set s v d = Inr d' \<and> st_get s d' = st_get s c'"
    and keeps: "lookup k = Some s \<Longrightarrow> st_set s v c = Inr c' \<Longrightarrow> kept c' = kept c"
begin

lemma kept_throughout: "apply_keys lookup ov ks c unknown = (None, out, unknown') \<Longrightarrow> kept out = kept c"
  by (induction ks arbitrary: c unknown) (auto dest: keeps split: option.splits sum.splits)

lemma applied:
  assumes "apply_keys lookup ov ks c unknown = (None, out, unknown')" and "distinct ks"
  shows "kept out = kept c \<and> unknown' = unknown @ filter (\<lambda>k. lookup k = None) ks \<and>
    (\<forall>k s. lookup k = Some s \<longrightarrow>
       (if k \<in> set ks then \<exists>d. st_set s (the (map_of ov k)) base = Inr d \<and> st_get s out = st_get s d
        else st_get s out = st_get s c))"
  using assms
proof (induction ks arbitrary: c unknown)
  case (Cons k ks)
  show ?case
  proof (cases "lookup k")
    case None
    with Cons.IH [of c "unknown @ [k]"] Cons.prems show ?thesis by auto
  next
    case (Some s)
    with Cons.prems obtain c1 where c1: "st_set s (the (map_of ov k)) c = Inr c1"
      and r: "apply_keys lookup ov ks c1 unknown = (None, out, unknown')"
      by (auto split: sum.splits)
    note IH = Cons.IH [OF r]
    have d: "distinct ks" "k \<notin> set ks" using Cons.prems by auto
    obtain d' where d': "st_set s (the (map_of ov k)) base = Inr d'" "st_get s d' = st_get s c1"
      using same_text [OF Some c1] by blast
    have "st_get t out = st_get t c" if "lookup j = Some t" "j \<notin> set (k # ks)" for j t
      using IH [OF d(1)] that others [OF Some that(1) _ c1] by auto
    moreover have "\<exists>d. st_set t (the (map_of ov j)) base = Inr d \<and> st_get t out = st_get t d"
      if "lookup j = Some t" "j \<in> set (k # ks)" for j t
      using that IH [OF d(1)] d(2) d' Some by (cases "j = k") auto
    moreover have "kept out = kept c" using IH [OF d(1)] keeps [OF Some c1] by simp
    ultimately show ?thesis using IH [OF d(1)] Some by auto
  qed
qed simp

end

section \<open>The registry is one\<close>

lemmas constructor_defs = boolean_def integer_def duration_def text_setting_def host_setting_def port_setting_def
  textList_def choice_setting_def notifyURL_def events_setting_def addr_setting_def addrList_def unsigned_setting_def

lemmas Registry_fields = Registry_def [unfolded constructor_defs field_setting_def ptr_def]

definition leaves_others :: "registry_setting \<Rightarrow> bool" where
  "leaves_others s \<longleftrightarrow> (\<forall>v c c'. st_set s v c = Inr c' \<longrightarrow>
     list_all (\<lambda>t. st_key t = st_key s \<or> st_get t c' = st_get t c) Registry)"

lemma field_leaves_others:
  "(\<And>x c. list_all (\<lambda>t. st_key t = key \<or> st_get t (fp_put p x c) = st_get t c) Registry) \<Longrightarrow>
   leaves_others (field_setting key g k restart lo hi options print parse p)"
  by (auto simp: leaves_others_def field_setting_def split: sum.splits)

lemma registry_leaves_others: "list_all leaves_others Registry"
  by (subst Registry_def) (simp only: list.pred_inject constructor_defs, intro conjI TrueI;
    rule field_leaves_others; simp add: Registry_fields ptr_def)

text \<open>What belongs to whoever installed the machine.\<close>

definition installer_owned :: "config \<Rightarrow>
    string \<times> (string \<times> string \<times> bool \<times> string list) \<times> (string \<times> string) \<times> (int \<times> int \<times> string) \<times> string \<times> rdgw_config \<times> int"
  where
  "installer_owned c =
     (cf_data_dir c,
      (cw_tls_cert (cf_web c), cw_tls_key (cf_web c), cw_acme (cf_web c), cw_proxies (cf_web c)),
      (cl_tls_cert (cf_login c), cl_tls_key (cf_login c)),
      (cj_peek (cf_jit c), cj_max_pending (cf_jit c), cj_default_target (cf_jit c)),
      ca_master_key_env (cf_auth c), cf_rdgw c, nc_timeout (cf_notify c))"

definition lawful_field :: "registry_setting \<Rightarrow> bool" where
  "lawful_field s \<longleftrightarrow> (\<forall>v c c'. st_set s v c = Inr c' \<longrightarrow> installer_owned c' = installer_owned c \<and>
     (\<forall>d. \<exists>d'. st_set s v d = Inr d' \<and> st_get s d' = st_get s c'))"

lemma field_lawful:
  assumes "\<And>x c. installer_owned (fp_put p x c) = installer_owned c" and "\<And>x c. fp_get p (fp_put p x c) = x"
  shows "lawful_field (field_setting key g k restart lo hi options print parse p)"
  using assms by (auto simp: lawful_field_def field_setting_def split: sum.splits)

lemma registry_lawful: "list_all lawful_field Registry"
  by (subst Registry_def) (simp only: list.pred_inject constructor_defs, intro conjI TrueI;
    rule field_lawful; simp add: installer_owned_def ptr_def)

lemma registry_keys: "distinct (map st_key Registry)"
  by (simp add: Registry_fields)

lemma Lookup_setting_Some: "Lookup_setting k = Some s \<Longrightarrow> s \<in> set Registry \<and> st_key s = k"
  unfolding Lookup_setting_def by (drule find_holds) simp

lemma Lookup_key: "s \<in> set Registry \<Longrightarrow> Lookup_setting (st_key s) = Some s"
proof -
  have "distinct (map st_key R) \<Longrightarrow> s \<in> set R \<Longrightarrow> find (\<lambda>t. st_key t = st_key s) R = Some s" for R
    by (induction R) (auto simp: rev_image_eqI)
  then show "s \<in> set Registry \<Longrightarrow> ?thesis" using registry_keys by (simp add: Lookup_setting_def)
qed

interpretation reg: settings_table Lookup_setting installer_owned
proof
  fix k s j t v c c'
  assume *: "Lookup_setting k = Some s" "Lookup_setting j = Some t" "j \<noteq> k" "st_set s v c = Inr c'"
  then show "st_get t c' = st_get t c"
    using registry_leaves_others Lookup_setting_Some [of k s] Lookup_setting_Some [of j t]
    by (fastforce simp: list_all_iff leaves_others_def)
next
  fix k s v c c' d
  assume *: "Lookup_setting k = Some s" "st_set s v c = Inr c'"
  then have "lawful_field s" using registry_lawful Lookup_setting_Some by (auto simp: list_all_iff)
  with *(2) show "\<exists>d'. st_set s v d = Inr d' \<and> st_get s d' = st_get s c'" "installer_owned c' = installer_owned c"
    unfolding lawful_field_def by blast+
qed

section \<open>Applying\<close>

lemma apply_distinct: "distinct (map fst ov) \<Longrightarrow> distinct (sort (map fst ov))"
  by simp

text \<open>Applying overrides fails and leaves the base, or gives a valid configuration in which every setting that is
  named shows what its text sets, every other setting shows what it did, and nothing outside the registry has
  moved.\<close>

theorem apply_changes_what_it_is_told:
  assumes "distinct (map fst overrides)" and "Apply base overrides = (out, unknown, failed)"
  shows "(failed \<noteq> None \<and> out = base) \<or>
    (failed = None \<and> Validate out = [] \<and> installer_owned out = installer_owned base \<and>
     list_all (\<lambda>s. case map_of overrides (st_key s) of
        None \<Rightarrow> Value s out = Value s base
      | Some v \<Rightarrow> (case st_set s v base of Inl e \<Rightarrow> False | Inr c \<Rightarrow> Value s out = Value s c)) Registry)"
proof -
  obtain r o1 u1 where a: "apply_keys Lookup_setting overrides (sort (map fst overrides)) base [] = (r, o1, u1)"
    by (metis prod_cases3)
  show ?thesis
  proof (cases r)
    case (Some ke)
    with a assms(2) show ?thesis by (cases ke) (auto simp: Apply_def)
  next
    case None
    note f = reg.applied [OF a [unfolded None] apply_distinct [OF assms(1)]]
    show ?thesis
    proof (cases "Validate o1 = []")
      case True
      with a None assms(2) have o: "failed = None" "o1 = out" by (auto simp: Apply_def)
      have "case map_of overrides (st_key s) of None \<Rightarrow> Value s out = Value s base
          | Some v \<Rightarrow> (case st_set s v base of Inl e \<Rightarrow> False | Inr c \<Rightarrow> Value s out = Value s c)"
        if "s \<in> set Registry" for s
      proof -
        have "if st_key s \<in> fst ` set overrides
          then \<exists>d. st_set s (the (map_of overrides (st_key s))) base = Inr d \<and> st_get s out = st_get s d
          else st_get s out = st_get s base"
          using f [of base, THEN conjunct2, THEN conjunct2, rule_format, OF Lookup_key [OF that]]
          unfolding o(2) by simp
        moreover have "st_key s \<in> fst ` set overrides \<longleftrightarrow> map_of overrides (st_key s) \<noteq> None"
          by (simp add: map_of_eq_None_iff)
        ultimately show ?thesis by (cases "map_of overrides (st_key s)") (auto simp: Value_def)
      qed
      with f [of base] True o show ?thesis by (auto simp: list_all_iff)
    next
      case False
      with a None assms(2) show ?thesis by (auto simp: Apply_def)
    qed
  qed
qed

lemma apply_order: "distinct (map fst ov) \<Longrightarrow> mset ov = mset ov' \<Longrightarrow> Apply base ov = Apply base ov'"
proof -
  assume d: "distinct (map fst ov)" and m: "mset ov = mset ov'"
  have k: "mset (map fst ov) = mset (map fst ov')" using m by simp
  then have "distinct (map fst ov')" using d mset_eq_imp_distinct_iff by blast
  moreover have "set ov = set ov'" using m by (metis set_mset_mset)
  ultimately have "map_of ov = map_of ov'" using d map_of_inject_set by blast
  moreover have "sort (map fst ov) = sort (map fst ov')" using k by (metis properties_for_sort sorted_sort mset_sort)
  moreover have "map_of ov = map_of ov' \<Longrightarrow> apply_keys l ov ks c u = apply_keys l ov' ks c u" for l ks c u
    by (induction ks arbitrary: c u) (auto split: option.splits sum.splits)
  ultimately show ?thesis by (simp add: Apply_def)
qed

chapter \<open>The running configuration\<close>

text \<open>
  What the configuration guarantees: the defaults obey the rules, the configuration the gateway runs with
  is within the bounds the other parts rely on, the environment beats the secrets file, and a listener
  takes the first address that is free.
\<close>

section \<open>The rules\<close>

lemma defaults_valid: "Validate Defaults = []"
  by code_simp

lemma portOf_range: "1 \<le> d \<Longrightarrow> d \<le> 65535 \<Longrightarrow> 1 \<le> portOf l d \<and> portOf l d \<le> 65535"
  by (auto simp: portOf_def split: option.splits)

text \<open>
  Every rule of \<open>Validate\<close>, said positively, section by section, and the ports that follow from them.
  A duration no rule mentions - the lock-out base, the step of the login, the session and idle times, the timeouts of
  the relay - is bounded by nothing.
\<close>

definition web_formed :: "config \<Rightarrow> bool" where
  "web_formed c \<longleftrightarrow> cf_data_dir c \<noteq> [] \<and> cw_hostname (cf_web c) \<noteq> [] \<and>
     cw_listen (cf_web c) \<noteq> [] \<and> (\<exists>hp. SplitHostPort (cw_listen (cf_web c)) = Some hp) \<and>
     cr_listen (cf_relay c) \<noteq> [] \<and> (\<exists>hp. SplitHostPort (cr_listen (cf_relay c)) = Some hp) \<and>
     (cw_acme (cf_web c) \<or> (cw_tls_cert (cf_web c) = [] \<longleftrightarrow> cw_tls_key (cf_web c) = []))"

definition public_formed :: "config \<Rightarrow> bool" where
  "public_formed c \<longleftrightarrow> CheckPublicHost (cp_host (cf_public c)) = None \<and> list_all CheckResolver (cp_resolvers (cf_public c)) \<and>
     1 \<le> RelayPort c \<and> RelayPort c \<le> 65535 \<and> 1 \<le> PublicRDPPort c \<and> PublicRDPPort c \<le> 65535 \<and>
     1 \<le> PublicPortalPort c \<and> PublicPortalPort c \<le> 65535 \<and>
     (cp_detect (cf_public c) \<longrightarrow> cp_resolvers (cf_public c) \<noteq> [] \<and> seconds 300 \<le> cp_refresh (cf_public c))"

definition access_formed :: "config \<Rightarrow> bool" where
  "access_formed c \<longleftrightarrow> 0 < cg_ttl (cf_grant c) \<and> cg_ttl (cf_grant c) \<le> seconds 1800 \<and>
     16 \<le> cg_v4_bits (cf_grant c) \<and> cg_v4_bits (cf_grant c) \<le> 32 \<and>
     32 \<le> cg_v6_bits (cf_grant c) \<and> cg_v6_bits (cf_grant c) \<le> 128 \<and>
     cl_enabled (cf_login c) \<noteq> cj_enabled (cf_jit c) \<and>
     (cj_enabled (cf_jit c) \<longrightarrow> 0 < cj_hold (cf_jit c)) \<and>
     (cl_enabled (cf_login c) \<longrightarrow> 0 < cl_timeout (cf_login c) \<and>
        (cl_tls_cert (cf_login c) = [] \<longleftrightarrow> cl_tls_key (cf_login c) = [])) \<and>
     1 \<le> ca_max_failures (cf_auth c) \<and> ca_skew (cf_auth c) \<le> 2 \<and>
     0 \<le> ca_backup_codes (cf_auth c) \<and> ca_backup_codes (cf_auth c) \<le> 50"

definition service_formed :: "config \<Rightarrow> bool" where
  "service_formed c \<longleftrightarrow> CheckURL (nc_url (cf_notify c)) \<and> CheckEvents (nc_events (cf_notify c)) \<and>
     (nc_format (cf_notify c) \<noteq> [] \<longrightarrow> CheckFormat (nc_format (cf_notify c))) \<and>
     (nc_enabled (cf_notify c) \<longrightarrow> trim_space (nc_url (cf_notify c)) \<noteq> [] \<and> nc_events (cf_notify c) \<noteq> []) \<and>
     (cu_enabled (cf_update c) \<longrightarrow> seconds 900 \<le> cu_interval (cf_update c)) \<and>
     (cu_repo (cf_update c) \<noteq> [] \<longrightarrow> length (filter (\<lambda>c. c = CHR ''/'') (cu_repo (cf_update c))) = 1)"

definition well_formed :: "config \<Rightarrow> bool" where
  "well_formed c \<longleftrightarrow> web_formed c \<and> public_formed c \<and> access_formed c \<and> service_formed c"

lemmas formed_defs = well_formed_def web_formed_def public_formed_def access_formed_def service_formed_def

lemma complain_Nil [simp]: "complain w p = [] \<longleftrightarrow> \<not> w"
  by (simp add: complain_def)

lemma validate_well_formed: "Validate c = [] \<Longrightarrow> well_formed c"
proof -
  assume v: "Validate c = []"
  then have w: "check_web c = []" "check_access c = []" "check_auth (cf_auth c) = []" "check_public (cf_public c) = []"
      "check_notify (cf_notify c) = []" "check_update (cf_update c) = []"
    by (simp_all add: Validate_def)
  have "web_formed c" using w(1) by (auto simp: check_web_def Let_def web_formed_def)
  moreover have "public_formed c"
  proof -
    have p: "cp_rdp_port (cf_public c) \<le> 65535" "cp_portal_port (cf_public c) \<le> 65535"
        "list_all CheckResolver (cp_resolvers (cf_public c))" "CheckPublicHost (cp_host (cf_public c)) = None"
        "cp_detect (cf_public c) \<longrightarrow> cp_resolvers (cf_public c) \<noteq> [] \<and> seconds 300 \<le> cp_refresh (cf_public c)"
      using w(4) by (auto simp: check_public_def resolver_problems_def filter_empty_conv list_all_iff split: option.split_asm)
    have r: "1 \<le> RelayPort c \<and> RelayPort c \<le> 65535" "1 \<le> PortalPort c \<and> PortalPort c \<le> 65535"
      unfolding RelayPort_def PortalPort_def by (simp_all add: portOf_range)
    with p have "1 \<le> PublicRDPPort c \<and> PublicRDPPort c \<le> 65535" "1 \<le> PublicPortalPort c \<and> PublicPortalPort c \<le> 65535"
      by (simp_all add: PublicRDPPort_def PublicPortalPort_def)
    with p r show ?thesis unfolding public_formed_def by blast
  qed
  moreover have "access_formed c"
    using w(2,3) by (auto simp: check_access_def check_auth_def Let_def access_formed_def)
  moreover have "service_formed c"
    using w(5,6) by (auto simp: check_notify_def check_update_def service_formed_def)
  ultimately show ?thesis by (simp add: well_formed_def)
qed

lemma load_valid: "Load text yaml secrets pd env = (Inr c, ok, env') \<Longrightarrow> Validate c = []"
  by (auto simp: Load_def Let_def split: option.splits prod.splits if_splits)

lemma startup_valid: "Validate file = [] \<Longrightarrow> Validate (startup_config file stored) = []"
  by (auto simp: startup_config_def Apply_def split: option.splits prod.splits if_splits)


lemma apply_no_env: "applyEnv pd Map.empty c = c"
  by (simp add: applyEnv_def env_str_def env_dur_def env_bool_def env_int_def env_list_def Getenv_def lower_string_def)


text \<open>A change of one setting, worked out.\<close>

definition longer_grants :: config where
  "longer_grants = cf_grant_update (cg_ttl_update (\<lambda>_. seconds 300)) Defaults"

lemma longer_grants_valid: "Validate longer_grants = []"
proof -
  have "check_web longer_grants = check_web Defaults" "cf_public longer_grants = cf_public Defaults"
      "cf_auth longer_grants = cf_auth Defaults" "cf_notify longer_grants = cf_notify Defaults"
      "cf_update longer_grants = cf_update Defaults"
    by (simp_all add: longer_grants_def check_web_def Let_def)
  moreover have "check_access longer_grants = []"
    by (simp add: longer_grants_def check_access_def Defaults_def seconds_def)
  ultimately show ?thesis using defaults_valid by (simp add: Validate_def)
qed

definition ttl_setting :: registry_setting where
  "ttl_setting = duration ''grant.ttl'' GroupAccess True 5 86400 (ptr cf_grant cf_grant_update cg_ttl cg_ttl_update)"

lemma ttl_lookup: "Lookup_setting ''grant.ttl'' = Some ttl_setting"
proof -
  have "ttl_setting \<in> set Registry" by (simp add: Registry_def ttl_setting_def)
  from Lookup_key [OF this] show ?thesis by (simp add: ttl_setting_def duration_def field_setting_def)
qed

lemma ttl_set: "st_set ttl_setting ''300'' Defaults = Inr longer_grants"
proof -
  have "parse_duration 5 86400 ''300'' = Inr (seconds 300)" by code_simp
  then show ?thesis by (simp add: ttl_setting_def duration_def field_setting_def ptr_def longer_grants_def)
qed

lemma apply_longer_grants: "Apply Defaults [(''grant.ttl'', ''300'')] = (longer_grants, [], None)"
  by (simp add: Apply_def ttl_lookup ttl_set longer_grants_valid)

section \<open>The environment\<close>

lemma set_unset_keeps: "env k \<noteq> None \<Longrightarrow> set_unset kv env k = env k"
  by (auto simp: set_unset_def)

lemma load_lines_keeps: "env k \<noteq> None \<Longrightarrow> snd (load_lines ls env) k = env k"
proof (induction ls arbitrary: env)
  case (Cons l ls)
  show ?case
  proof (cases "parseEnvLine (drop_cr l)")
    case (Some kv)
    have "set_unset kv env k = env k" using Cons.prems by (rule set_unset_keeps)
    with Cons.IH [of "set_unset kv env"] Cons.prems Some show ?thesis by simp
  qed (use Cons in simp)
qed simp

lemma environment_wins: "env k \<noteq> None \<Longrightarrow> snd (LoadEnvFile f env) k = env k"
  by (cases f) (simp_all add: load_lines_keeps)

section \<open>Listening\<close>

definition works :: "(string \<Rightarrow> bind_error + string) \<Rightarrow> string \<Rightarrow> bool" where
  "works bind a \<longleftrightarrow> a \<noteq> [] \<and> (\<exists>addr. bind a = Inr addr)"

lemma listen_from_finds:
  "listen_from bind i as tried = Inr b \<Longrightarrow>
   \<exists>pre a post. as = pre @ a # post \<and> works bind a \<and> bind a = Inr (bd_addr b) \<and> list_all (\<lambda>x. \<not> works bind x) pre \<and>
     bd_fell_back b = (0 < i + length pre) \<and> map fst (bd_tried b) = map fst tried @ filter (\<lambda>x. x \<noteq> []) pre"
proof (induction as arbitrary: i tried)
  case (Cons a as)
  consider "a = []" | e where "a \<noteq> []" "bind a = Inl e" | addr where "a \<noteq> []" "bind a = Inr addr"
    by (cases "bind a") auto
  then show ?case
  proof cases
    case 1
    with Cons.prems Cons.IH [of "Suc i" tried] obtain pre x post where
      "as = pre @ x # post" "works bind x" "bind x = Inr (bd_addr b)" "list_all (\<lambda>x. \<not> works bind x) pre"
      "bd_fell_back b = (0 < Suc i + length pre)" "map fst (bd_tried b) = map fst tried @ filter (\<lambda>x. x \<noteq> []) pre" by auto
    with 1 show ?thesis by (intro exI [of _ "a # pre"] exI [of _ x] exI [of _ post]) (simp add: works_def)
  next
    case 2
    with Cons.prems Cons.IH [of "Suc i" "tried @ [(a, e)]"] obtain pre x post where
      "as = pre @ x # post" "works bind x" "bind x = Inr (bd_addr b)" "list_all (\<lambda>x. \<not> works bind x) pre"
      "bd_fell_back b = (0 < Suc i + length pre)" "map fst (bd_tried b) = map fst (tried @ [(a, e)]) @ filter (\<lambda>x. x \<noteq> []) pre"
      by auto
    with 2 show ?thesis by (intro exI [of _ "a # pre"] exI [of _ x] exI [of _ post]) (simp add: works_def)
  next
    case 3
    with Cons.prems show ?thesis
      by (intro exI [of _ "[]"] exI [of _ a] exI [of _ as]) (auto simp: works_def)
  qed
qed simp

lemma listen_from_fails: "listen_from bind i as tried = Inl t \<Longrightarrow> list_all (\<lambda>x. \<not> works bind x) as"
  by (induction as arbitrary: i tried) (auto simp: works_def split: if_splits sum.splits)

lemma listens_on_first_free:
  assumes "Listen bind primary fallbacks = r"
  shows "case r of
      Inr b \<Rightarrow> \<exists>pre a post. primary # fallbacks = pre @ a # post \<and> bind a = Inr (bd_addr b) \<and>
                 list_all (\<lambda>x. \<not> works bind x) pre \<and> bd_fell_back b = (pre \<noteq> [])
    | Inl _ \<Rightarrow> primary = [] \<or> list_all (\<lambda>x. \<not> works bind x) (primary # fallbacks)"
proof (cases r)
  case (Inl e)
  then show ?thesis using assms listen_from_fails [of bind 0 "primary # fallbacks" "[]"]
    by (auto simp: Listen_def split: if_splits sum.splits simp del: listen_from.simps)
next
  case (Inr b)
  with assms have "listen_from bind 0 (primary # fallbacks) [] = Inr b"
    by (auto simp: Listen_def split: if_splits sum.splits simp del: listen_from.simps)
  with listen_from_finds [OF this] Inr show ?thesis by auto
qed

theorem apply_changes_what_it_is_told_witness:
  "cg_ttl (cf_grant longer_grants) = seconds 300 \<and> installer_owned longer_grants = installer_owned Defaults \<and>
   Value ttl_setting longer_grants = ''300''"
proof -
  have "distinct (map fst [(''grant.ttl'', ''300'')])" by simp
  note a = apply_changes_what_it_is_told [OF this apply_longer_grants]
  have "ttl_setting \<in> set Registry" by (simp add: Registry_def ttl_setting_def)
  moreover have "st_key ttl_setting = ''grant.ttl''" by (simp add: ttl_setting_def duration_def field_setting_def)
  moreover have "whole_seconds (seconds 300) = 300" "decimal_int 300 = ''300''" by code_simp+
  ultimately show ?thesis using a ttl_set
    by (auto simp: list_all_iff longer_grants_def Value_def ttl_setting_def duration_def field_setting_def ptr_def)
qed

end
