(* ===== verification/Setting_Codecs.thy ===== *)
theory Setting_Codecs
  imports Config_Guarantees
begin

text \<open>
  The text the settings page shows for a value can be saved back: what each kind of setting prints, it
  reads, once a value has been through it.
\<close>

section \<open>Trimming twice\<close>

lemma strip_clean: "p \<in> set seqs \<Longrightarrow> p \<noteq> [] \<Longrightarrow> \<not> has_prefix (strip seqs s) p"
proof (induction seqs s rule: strip.induct)
  case (1 seqs s)
  show ?case
  proof (cases "find (\<lambda>p. p \<noteq> [] \<and> has_prefix s p) seqs")
    case None
    then have "strip seqs s = s" by (subst strip.simps) simp
    with None 1 show ?thesis by (auto simp: find_None_iff)
  next
    case (Some q)
    with 1 show ?thesis by (subst strip.simps) simp
  qed
qed

lemma strip_suffix: "\<exists>n. strip seqs s = drop n s"
proof (induction seqs s rule: strip.induct)
  case (1 seqs s)
  show ?case
  proof (cases "find (\<lambda>p. p \<noteq> [] \<and> has_prefix s p) seqs")
    case None
    then have "strip seqs s = drop 0 s" by (subst strip.simps) simp
    then show ?thesis by blast
  next
    case (Some q)
    with 1 obtain n where "strip seqs (drop (length q) s) = drop n (drop (length q) s)" by blast
    with Some have "strip seqs s = drop (n + length q) s" by (subst strip.simps) simp
    then show ?thesis by blast
  qed
qed

lemma trim_space_prefix: "\<exists>n. trim_space s = take n (strip space_seqs s)"
proof -
  obtain n where "strip (map rev space_seqs) (rev (strip space_seqs s)) = drop n (rev (strip space_seqs s))"
    using strip_suffix by blast
  then show ?thesis by (auto simp: trim_space_def drop_rev)
qed

lemma trim_space_idem [simp]: "trim_space (trim_space s) = trim_space s"
proof -
  let ?t = "strip space_seqs s"
  obtain n where n: "trim_space s = take n ?t" using trim_space_prefix by blast
  have "\<not> has_prefix (take n ?t) p" if "p \<in> set space_seqs" "p \<noteq> []" for p
  proof
    assume "has_prefix (take n ?t) p"
    then have "has_prefix ?t p" by (auto simp: has_prefix_def min_def split: if_splits)
    with strip_clean [OF that] show False by blast
  qed
  then have 1: "strip space_seqs (trim_space s) = trim_space s" unfolding n by (intro strip_id) blast
  have "rev (trim_space s) = strip (map rev space_seqs) (rev ?t)" by (simp add: trim_space_def)
  then have "strip (map rev space_seqs) (rev (trim_space s)) = rev (trim_space s)"
    using strip_clean by (intro strip_id) metis
  with 1 show ?thesis by (subst trim_space_def) simp
qed

lemma trim_space_subset: "set (trim_space s) \<subseteq> set s"
proof -
  obtain n m where "trim_space s = take n (strip space_seqs s)" "strip space_seqs s = drop m s"
    using trim_space_prefix strip_suffix by blast
  then show ?thesis by (metis set_drop_subset set_take_subset subset_trans)
qed

lemma trim_space_blank: "trim_space (CHR '' '' # s) = trim_space s"
proof -
  let ?F = "find (\<lambda>p. p \<noteq> [] \<and> has_prefix (CHR '' '' # s) p) space_seqs"
  have b: "ascii_space (CHR '' '')" by (simp add: ascii_space_def)
  then have "[CHR '' ''] \<in> set space_seqs" using space_table_fwd by (simp add: space_table_def)
  moreover have only: "p = [CHR '' '']" if p: "p \<in> set space_seqs" "p \<noteq> []" "has_prefix (CHR '' '' # s) p" for p
  proof -
    from p(2,3) obtain ps where ps: "p = CHR '' '' # ps" by (cases p) (auto simp: has_prefix_def)
    with p(1) space_table_fwd show ?thesis by (fastforce simp: space_table_def)
  qed
  moreover have "has_prefix (CHR '' '' # s) [CHR '' '']" by (simp add: has_prefix_def)
  ultimately have "?F \<noteq> None" unfolding find_None_iff by blast
  moreover have "?F = Some p \<Longrightarrow> p = [CHR '' '']" for p using only by (blast dest: find_holds)
  ultimately have "?F = Some [CHR '' '']" by blast
  then have "strip space_seqs (CHR '' '' # s) = strip space_seqs s" by (subst strip.simps) simp
  then show ?thesis by (simp add: trim_space_def)
qed

section \<open>Numbers and lists as text\<close>

lemma digit_plain: "is_digit c \<Longrightarrow> byte_val c < 128 \<and> \<not> ascii_space c"
  by (auto simp: is_digit_def ascii_space_def)

lemma decimal_int_plain: "c \<in> set (decimal_int n) \<Longrightarrow> byte_val c < 128 \<and> \<not> ascii_space c"
  by (auto simp: decimal_int_def ascii_space_def dest!: decimal_digits digit_plain split: if_splits)

lemma trim_decimal [simp]: "trim_space (decimal_int n) = decimal_int n"
  using decimal_int_plain by (intro trim_space_id) (auto simp: ascii_string_def)

lemma Atoi_decimal: "- (2 ^ 63) \<le> n \<Longrightarrow> n < 2 ^ 63 \<Longrightarrow> Atoi (decimal_int n) = Some n"
proof -
  assume b: "- (2 ^ 63) \<le> n" "n < 2 ^ 63"
  have d: "list_all is_digit (decimal k)" for k by (auto simp: list_all_iff dest: decimal_digits)
  have h: "\<not> has_prefix (decimal k) ''-''" "\<not> has_prefix (decimal k) ''+''" for k
  proof -
    obtain c cs where cs: "decimal k = c # cs" by (cases "decimal k") auto
    then have "is_digit c" using decimal_digits [of c k] by simp
    then show "\<not> has_prefix (decimal k) ''-''" "\<not> has_prefix (decimal k) ''+''"
      by (auto simp: cs has_prefix_def is_digit_def)
  qed
  show ?thesis
  proof (cases "n < 0")
    case True
    then have p: "decimal_int n = CHR ''-'' # decimal (nat (- n))" by (simp add: decimal_int_def)
    have "has_prefix (CHR ''-'' # decimal (nat (- n))) ''-''" by (simp add: has_prefix_def)
    with True b d show ?thesis by (simp add: Atoi_def p digits_value_decimal)
  next
    case False
    then have "decimal_int n = decimal (nat n)" by (simp add: decimal_int_def)
    with False b d h show ?thesis by (simp add: Atoi_def digits_value_decimal)
  qed
qed

lemma Atoi_range: "Atoi s = Some n \<Longrightarrow> - (2 ^ 63) \<le> n \<and> n < 2 ^ 63"
  by (auto simp: Atoi_def Let_def split: if_splits)

lemma Atoi_again: "Atoi s = Some n \<Longrightarrow> Atoi (decimal_int n) = Some n"
  using Atoi_range Atoi_decimal by blast

definition list_item :: "string \<Rightarrow> bool" where
  "list_item e \<longleftrightarrow> e \<noteq> [] \<and> trim_space e = e \<and> CHR '','' \<notin> set e"

lemma split_list_blank: "split_list (CHR '' '' # s) = split_list s"
  by (cases "split_byte (CHR '','') s") (auto simp: split_list_def trim_space_blank dest: split_byte_nonempty [THEN notE])

lemma split_join: "list_all list_item l \<Longrightarrow> split_list (join_list l) = l"
proof (induction l rule: join_list.induct)
  case 1
  then show ?case by (simp add: split_list_def trim_space_id ascii_string_def)
next
  case (2 s)
  then show ?case by (simp add: split_list_def list_item_def split_byte_single)
next
  case (3 s t ts)
  have "split_list (s @ CHR '','' # CHR '' '' # join_list (t # ts)) = s # split_list (CHR '' '' # join_list (t # ts))"
    using 3(2) by (simp add: split_list_def list_item_def split_byte_append)
  with 3 show ?case by (simp add: split_list_blank)
qed

lemma split_list_items: "list_all list_item (split_list v)"
  using trim_space_subset split_byte_notin by (fastforce simp: split_list_def list_all_iff list_item_def)

lemma join_split_list [simp]: "split_list (join_list (split_list v)) = split_list v"
  by (rule split_join [OF split_list_items])

lemma check_addrs_same: "check_addrs l = Inr l' \<Longrightarrow> l' = l"
  by (induction l arbitrary: l') (auto split: option.splits sum.splits)

section \<open>Codecs\<close>

definition reads_back :: "registry_setting \<Rightarrow> bool" where
  "reads_back s \<longleftrightarrow> (\<forall>v c c'. st_set s v c = Inr c' \<longrightarrow> st_set s (st_get s c') c' = Inr c')"

locale codec =
  fixes print :: "'a \<Rightarrow> string" and parse :: "string \<Rightarrow> set_error + 'a"
  assumes again: "parse v = Inr x \<Longrightarrow> parse (print x) = Inr x"
begin

lemma reads_back:
  assumes "\<And>x c. fp_get p (fp_put p x c) = x" and "\<And>x c. fp_put p x (fp_put p x c) = fp_put p x c"
  shows "reads_back (field_setting key g k restart lo hi options print parse p)"
  using assms again by (auto simp: reads_back_def field_setting_def split: sum.splits)

end

interpretation bool_codec: codec FormatBool parse_onoff
proof
  fix v x
  show "parse_onoff v = Inr x \<Longrightarrow> parse_onoff (FormatBool x) = Inr x"
    by (cases x) (simp_all add: parse_onoff_def FormatBool_def ParseBool_def trim_space_id ascii_string_def ascii_space_def)
qed

interpretation integer_codec: codec decimal_int "parse_integer lo hi" for lo hi
  by unfold_locales (auto simp: parse_integer_def Atoi_again split: option.splits if_splits)

interpretation duration_codec: codec "decimal_int \<circ> whole_seconds" "parse_duration lo hi" for lo hi
proof
  fix v x
  have "whole_seconds (seconds n) = n" for n by (auto simp: whole_seconds_def seconds_def)
  then show "parse_duration lo hi v = Inr x \<Longrightarrow> parse_duration lo hi ((decimal_int \<circ> whole_seconds) x) = Inr x"
    by (auto simp: parse_duration_def Atoi_again split: option.splits if_splits)
qed

interpretation text_codec: codec id parse_text
  by unfold_locales (auto simp: parse_text_def)

interpretation host_codec: codec id parse_host_name
  by unfold_locales (auto simp: parse_host_name_def split: option.splits)

interpretation port_codec: codec decimal_int parse_port
proof
  fix v x
  assume "parse_port v = Inr x"
  moreover have "decimal_int x \<noteq> []" by (simp add: decimal_int_def)
  ultimately show "parse_port (decimal_int x) = Inr x"
    by (auto simp: parse_port_def Atoi_again split: option.splits if_splits)
qed

interpretation list_codec: codec join_list parse_list
  by unfold_locales (auto simp: parse_list_def)

interpretation choice_codec: codec id "parse_choice options" for options
  by unfold_locales (auto simp: parse_choice_def split: if_splits)

interpretation url_codec: codec id parse_url
  by unfold_locales (auto simp: parse_url_def split: if_splits)

interpretation events_codec: codec join_list parse_events
  by unfold_locales (auto simp: parse_events_def split: if_splits)

lemma trim_nothing [simp]: "trim_space [] = []"
  by (rule trim_space_id) (simp_all add: ascii_string_def)

interpretation addr_codec: codec id parse_addr_text
  by unfold_locales (auto simp: parse_addr_text_def Let_def split: if_splits option.splits)

interpretation addrs_codec: codec join_list parse_addrs
proof
  fix v x
  assume "parse_addrs v = Inr x"
  moreover from this have "x = split_list v" unfolding parse_addrs_def by (rule check_addrs_same)
  ultimately show "parse_addrs (join_list x) = Inr x" by (simp add: parse_addrs_def)
qed

interpretation unsigned_codec: codec decimal "parse_unsigned 0 hi" for hi
proof
  fix v x
  assume "parse_unsigned 0 hi v = Inr x"
  then obtain n where n: "Atoi (trim_space v) = Some n" "0 \<le> n" "n \<le> hi" "x = nat n"
    by (auto simp: parse_unsigned_def split: option.splits if_splits)
  then have "decimal x = decimal_int n" by (simp add: decimal_int_def)
  with n show "parse_unsigned 0 hi (decimal x) = Inr x" by (simp add: parse_unsigned_def Atoi_again)
qed

lemmas codecs = bool_codec.reads_back integer_codec.reads_back duration_codec.reads_back text_codec.reads_back
  host_codec.reads_back port_codec.reads_back list_codec.reads_back choice_codec.reads_back url_codec.reads_back
  events_codec.reads_back addr_codec.reads_back addrs_codec.reads_back unsigned_codec.reads_back

lemma registry_reads_back: "list_all reads_back Registry"
  by (subst Registry_def) (simp only: list.pred_inject constructor_defs, intro conjI TrueI;
    rule codecs; simp add: ptr_def)

text \<open>Once a text has been saved for a setting, the text the page then shows is accepted and leaves the
  configuration exactly as it is.\<close>

theorem shown_value_saves_back:
  assumes "Lookup_setting key = Some s" and "st_set s v c = Inr c'"
  shows "st_set s (Value s c') c' = Inr c'"
proof -
  have "reads_back s" using registry_reads_back Lookup_setting_Some [OF assms(1)] by (simp add: list_all_iff)
  with assms(2) show ?thesis by (simp add: reads_back_def Value_def)
qed

theorem shown_value_saves_back_witness:
  "Lookup_setting ''grant.ttl'' = Some ttl_setting \<and> st_set ttl_setting ''300'' Defaults = Inr longer_grants \<and>
   st_set ttl_setting (Value ttl_setting longer_grants) longer_grants = Inr longer_grants"
  using ttl_lookup ttl_set shown_value_saves_back [OF ttl_lookup ttl_set] by blast

text \<open>The default of a half second is no whole number of seconds: the page shows nought.\<close>

lemma probe_interval_shown_as_nought:
  "\<exists>s c'. Lookup_setting ''wol.probe_interval'' = Some s \<and> Value s Defaults = ''0'' \<and>
     st_set s (Value s Defaults) Defaults = Inr c' \<and> c' \<noteq> Defaults"
proof -
  let ?s = "duration ''wol.probe_interval'' GroupWake True 0 60 (ptr cf_wol cf_wol_update co_interval co_interval_update)"
  have "?s \<in> set Registry" by (simp add: Registry_def)
  then have "Lookup_setting ''wol.probe_interval'' = Some ?s"
    using Lookup_key [of ?s] by (simp add: duration_def field_setting_def)
  moreover have z: "Value ?s Defaults = ''0''"
    by (simp add: Value_def duration_def field_setting_def ptr_def Defaults_def whole_seconds_def decimal_int_def decimal.simps digit_def)
  moreover have "parse_duration 0 60 ''0'' = Inr 0" by code_simp
  then have "st_set ?s ''0'' Defaults = Inr (cf_wol_update (co_interval_update (\<lambda>_. 0)) Defaults)"
    by (simp add: duration_def field_setting_def ptr_def)
  moreover have "cf_wol_update (co_interval_update (\<lambda>_. 0)) Defaults \<noteq> Defaults"
    by (simp add: Defaults_def)
  ultimately show ?thesis by (intro exI [of _ ?s]) auto
qed

end
