(* ===== verification/Portal_Settings.thy ===== *)
theory Portal_Settings
  imports Portal_Admin Config_Guarantees
begin

text \<open>
  \<open>internal/api/adminsettings.go\<close> and \<open>network.go\<close>: the settings page, and how the gateway is reached from
  outside.  The snapshot of the public-address service and whether the update helper is installed are
  inputs; the JSON form of the network view, the help texts and the wording of errors are left out.
\<close>

section \<open>Stored overrides\<close>

text \<open>The rows come in no order of their own; \<open>Apply\<close> sorts the keys.\<close>

definition AllSettings :: "db \<Rightarrow> (string \<times> string) list" where
  "AllSettings d = map (\<lambda>k. (k, v_value (the (app_settings d k)))) (sorted_list_of_set (dom (app_settings d)))"

definition SettingsWithMeta :: "db \<Rightarrow> string \<Rightarrow> Store.setting option" where
  "SettingsWithMeta d = app_settings d"

text \<open>The parts of \<open>Server\<close> these pages read.\<close>

record pages =
  pg_cfg :: config
  pg_file :: config
  pg_portal_addr :: string
  pg_public :: "net_state option"
  pg_helper :: bool
  pg_error_text :: "apply_error \<Rightarrow> string"

definition stored_settings :: "(store_error + (string \<times> string) list) act" where
  "stored_settings = query (\<lambda>d. Inr (AllSettings d))"

definition config_over :: "pages \<Rightarrow> (store_error + (string \<times> string) list) \<Rightarrow> config" where
  "config_over G s =
     (case s of Inl _ \<Rightarrow> pg_cfg G
      | Inr stored \<Rightarrow>
          (case Apply (pg_file G) stored of (chosen, _, failed) \<Rightarrow> if failed = None then chosen else pg_cfg G))"

definition wantedConfig :: "pages \<Rightarrow> config act" where
  "wantedConfig G = do { s \<leftarrow> stored_settings; ret (config_over G s) }"

definition restartPending :: "pages \<Rightarrow> bool act" where
  "restartPending G = do {
     chosen \<leftarrow> wantedConfig G;
     ret (list_ex (\<lambda>s. st_restart s \<and> Value s chosen \<noteq> Value s (pg_cfg G)) Registry)
   }"

section \<open>The gateway from outside\<close>

record endpoint_view =
  ep_address :: string
  ep_host :: string
  ep_port :: int
  ep_listen :: string
  ep_forwarded :: bool

record reach_view =
  rv_rdp :: reach
  rv_portal :: reach
  rv_confirmed :: bool

record network_view =
  nv_state :: net_state
  nv_rdp :: endpoint_view
  nv_portal :: endpoint_view
  nv_portal_url :: string
  nv_detecting :: bool
  nv_reach :: "reach_view option"

definition publicHost :: "pages \<Rightarrow> config \<Rightarrow> string" where
  "publicHost G cfg =
     (if PublicHost cfg \<noteq> [] then PublicHost cfg
      else case pg_public G of
        Some st \<Rightarrow> if ns_detected st \<noteq> [] then ns_detected st else cw_hostname (cf_web cfg)
      | None \<Rightarrow> cw_hostname (cf_web cfg))"

definition gateway_of :: "pages \<Rightarrow> config \<Rightarrow> string" where
  "gateway_of G cfg = join_endpoint (publicHost G cfg) (PublicRDPPort cfg) 3389"

definition publicGateway :: "pages \<Rightarrow> string act" where
  "publicGateway G = do { cfg \<leftarrow> wantedConfig G; ret (gateway_of G cfg) }"

definition publicPortalURL :: "string \<Rightarrow> int \<Rightarrow> string" where
  "publicPortalURL host port = (if host = [] then [] else ''https://'' @ join_endpoint host port 443)"

definition shown_state :: "pages \<Rightarrow> config \<Rightarrow> net_state" where
  "shown_state G cfg =
     (let host = publicHost G cfg; configured = cp_host (cf_public cfg);
          st = (case pg_public G of
                  None \<Rightarrow> no_state\<lparr>ns_host := host, ns_configured := configured\<rparr>
                | Some cur \<Rightarrow>
                    (let cur1 = cur\<lparr>ns_configured := configured, ns_host := host\<rparr> in
                     if configured \<noteq> [] then cur1\<lparr>ns_source := Some SourceConfigured\<rparr>
                     else if ns_detected cur1 \<noteq> [] then cur1\<lparr>ns_source := ns_detected_source cur1\<rparr>
                     else cur1)) in
      if host \<noteq> [] \<and> ns_source st = None then st\<lparr>ns_source := Some SourceConfigured\<rparr> else st)"

definition view_of :: "pages \<Rightarrow> config \<Rightarrow> reach_view option \<Rightarrow> network_view" where
  "view_of G cfg knock =
     (let host = publicHost G cfg; rdp = PublicRDPPort cfg; portal = PublicPortalPort cfg in
      \<lparr>nv_state = shown_state G cfg,
       nv_rdp = \<lparr>ep_address = join_endpoint host rdp 3389, ep_host = host, ep_port = rdp,
                 ep_listen = cr_listen (cf_relay cfg), ep_forwarded = (rdp \<noteq> RelayPort cfg)\<rparr>,
       nv_portal = \<lparr>ep_address = join_endpoint host portal 443, ep_host = host, ep_port = portal,
                    ep_listen = pg_portal_addr G, ep_forwarded = (portal \<noteq> PortalPort cfg)\<rparr>,
       nv_portal_url = publicPortalURL host portal, nv_detecting = cp_detect (cf_public cfg), nv_reach = knock\<rparr>)"

definition networkView :: "pages \<Rightarrow> reach_view option \<Rightarrow> network_view act" where
  "networkView G knock = do { cfg \<leftarrow> wantedConfig G; ret (view_of G cfg knock) }"

text \<open>The knock on the gateway's own address: nothing of the request goes into it.\<close>

definition probe_own ::
    "(string \<Rightarrow> ip list option) \<Rightarrow> (ip \<times> int \<Rightarrow> dial) \<Rightarrow> pages \<Rightarrow> reach_view act" where
  "probe_own lookup dial G = do {
     cfg \<leftarrow> wantedConfig G;
     ret (let host = publicHost G cfg; a = fst (Probe lookup dial host (PublicRDPPort cfg));
              b = fst (Probe lookup dial host (PublicPortalPort cfg)) in
          \<lparr>rv_rdp = a, rv_portal = b, rv_confirmed = (Confirmed a \<and> Confirmed b)\<rparr>)
   }"

definition handleNetwork :: "(network_view \<Rightarrow> (string \<times> json) list) \<Rightarrow> pages \<Rightarrow> user \<Rightarrow> handler" where
  "handleNetwork js G u r = do { v \<leftarrow> networkView G None; send [] (js v) }"

definition probe_shape :: shape where
  "probe_shape = SStruct [(''probe'', SBool)]"

definition wants_probe :: "request \<Rightarrow> bool option" where
  "wants_probe r =
     (if rq_body r = [] then Some False
      else case decode probe_shape r of None \<Rightarrow> None | Some req \<Rightarrow> Some (Json_Read.field ''probe'' req = Some (GBool True)))"

text \<open>The service is refreshed before anything is read from it; the second component is its new state.\<close>

definition handleNetworkCheck ::
    "(network_view \<Rightarrow> (string \<times> json) list) \<Rightarrow> (ip \<times> int \<Rightarrow> dial) \<Rightarrow> outside \<Rightarrow> service option \<Rightarrow> portal \<Rightarrow> pages \<Rightarrow> user \<Rightarrow>
      request \<Rightarrow> (response \<times> service option) act" where
  "handleNetworkCheck js dial out svc P G u r =
     (case wants_probe r of
        None \<Rightarrow> do { x \<leftarrow> fail_with 400 ''malformed request body''; ret (x, svc) }
      | Some probe \<Rightarrow>
          (let svc1 = map_option (Refresh out) svc; G1 = G\<lparr>pg_public := map_option sv_state svc1\<rparr> in do {
             knock \<leftarrow> (if probe then do { v \<leftarrow> probe_own (out_lookup out) dial G1; ret (Some v) } else ret None);
             audit (u_username u) ''settings.updated'' [] (clientIP P r)
               [(''public_address_check'', ''true''), (''probe'', FormatBool probe)];
             v \<leftarrow> networkView G1 knock;
             x \<leftarrow> send [] (js v);
             ret (x, svc1)
           }))"

section \<open>The settings page\<close>

definition omit_empty :: "bool \<Rightarrow> string \<times> json \<Rightarrow> (string \<times> json) list" where
  "omit_empty zero kv = (if zero then [] else [kv])"

definition kind_text :: "kind \<Rightarrow> string" where
  "kind_text k = (case k of KindBool \<Rightarrow> ''bool'' | KindInt \<Rightarrow> ''int'' | KindDuration \<Rightarrow> ''duration'' | KindText \<Rightarrow> ''text''
     | KindAddr \<Rightarrow> ''addr'' | KindAddrList \<Rightarrow> ''addr_list'' | KindTextList \<Rightarrow> ''text_list'' | KindChoice \<Rightarrow> ''choice'')"

definition group_text :: "setting_group \<Rightarrow> string" where
  "group_text g = (case g of GroupPublic \<Rightarrow> ''public'' | GroupNetwork \<Rightarrow> ''network'' | GroupAccess \<Rightarrow> ''access''
     | GroupSignIn \<Rightarrow> ''signin'' | GroupRelay \<Rightarrow> ''relay'' | GroupDesktop \<Rightarrow> ''desktop'' | GroupWake \<Rightarrow> ''wake''
     | GroupNotify \<Rightarrow> ''notify'' | GroupUpdates \<Rightarrow> ''updates'')"

definition setting_view :: "pages \<Rightarrow> config \<Rightarrow> Store.setting option \<Rightarrow> registry_setting \<Rightarrow> json" where
  "setting_view G chosen meta s =
     (let value = Value s chosen; running = Value s (pg_cfg G) in
      JObj ([(''key'', JStr (st_key s)), (''group'', JStr (group_text (st_group s))), (''kind'', JStr (kind_text (st_kind s))),
             (''value'', JStr value), (''running'', JStr running), (''file'', JStr (Value s (pg_file G)))] @
            omit_empty (st_min s = 0) (''min'', JInt (st_min s)) @ omit_empty (st_max s = 0) (''max'', JInt (st_max s)) @
            [(''restart'', JBool (st_restart s))] @
            omit_empty (st_options s = []) (''options'', JArr (map JStr (st_options s))) @
            [(''pending'', JBool (st_restart s \<and> value \<noteq> running)), (''overridden'', JBool (meta \<noteq> None))] @
            (case meta of None \<Rightarrow> []
             | Some m \<Rightarrow> omit_empty (v_updated_by m = []) (''changed_by'', JStr (v_updated_by m)) @
                 omit_empty (v_updated_at m \<le> 0) (''changed_at'', JStr (rfc3339 (v_updated_at m))))))"

definition handleSettingsSchema :: "(network_view \<Rightarrow> (string \<times> json) list) \<Rightarrow> pages \<Rightarrow> response act" where
  "handleSettingsSchema js G = do {
     m \<leftarrow> query (\<lambda>d. Inr (SettingsWithMeta d));
     case m of
       Inl _ \<Rightarrow> serverError
     | Inr meta \<Rightarrow> do {
         chosen \<leftarrow> wantedConfig G;
         gw \<leftarrow> publicGateway G;
         pending \<leftarrow> restartPending G;
         net \<leftarrow> networkView G None;
         send []
           [(''groups'', JArr (map (JStr \<circ> group_text) Groups)),
            (''settings'', JArr (map (\<lambda>s. setting_view G chosen (meta (st_key s)) s) Registry)),
            (''runtime'', JObj
               [(''portal'', JStr (pg_portal_addr G)),
                (''portal_url'', JStr (PortalURL (cw_hostname (cf_web (pg_cfg G))) (pg_portal_addr G))),
                (''gateway'', JStr gw), (''restart_needed'', JBool pending), (''can_restart'', JBool (pg_helper G)),
                (''network'', JObj (js net))])]
       }
   }"

text \<open>
  The request: an object of texts by key, and a list of keys to hand back.  As in the decoder, a
  \<open>null\<close> keeps what is there and a field given twice goes over the earlier one.
\<close>

fun fill_texts :: "string list \<Rightarrow> json list \<Rightarrow> string list option" where
  "fill_texts cur [] = Some []"
| "fill_texts cur (v # vs) =
     (case (case v of JNull \<Rightarrow> Some (if cur = [] then [] else hd cur) | JStr t \<Rightarrow> Some t | _ \<Rightarrow> None) of
        None \<Rightarrow> None
      | Some t \<Rightarrow> map_option (\<lambda>ts. t # ts) (fill_texts (tl cur) vs))"

fun fill_map :: "(string \<times> string) list \<Rightarrow> (string \<times> json) list \<Rightarrow> (string \<times> string) list option" where
  "fill_map m [] = Some m"
| "fill_map m ((k, v) # vs) =
     (case v of
        JStr t \<Rightarrow> fill_map (AList.update k t m) vs
      | JNull \<Rightarrow> fill_map (AList.update k [] m) vs
      | _ \<Rightarrow> None)"

fun settings_members ::
    "(string \<times> string) list \<times> string list \<Rightarrow> (string \<times> json) list \<Rightarrow> ((string \<times> string) list \<times> string list) option" where
  "settings_members acc [] = Some acc"
| "settings_members (vals, reset) ((k, v) # ms) =
     (case field_named [(''values'', SString), (''reset'', SString)] k of
        None \<Rightarrow> None
      | Some (n, _) \<Rightarrow>
          (if n = ''values'' then
             (case v of
                JNull \<Rightarrow> settings_members ([], reset) ms
              | JObj fs \<Rightarrow> (case fill_map vals fs of None \<Rightarrow> None | Some m \<Rightarrow> settings_members (m, reset) ms)
              | _ \<Rightarrow> None)
           else
             (case v of
                JNull \<Rightarrow> settings_members (vals, []) ms
              | JArr vs \<Rightarrow> (case fill_texts reset vs of None \<Rightarrow> None | Some ts \<Rightarrow> settings_members (vals, ts) ms)
              | _ \<Rightarrow> None)))"

definition settings_request :: "request \<Rightarrow> ((string \<times> string) list \<times> string list) option" where
  "settings_request r =
     (case json_first (take max_body (rq_body r)) of
        Some (JObj ms, _) \<Rightarrow> settings_members ([], []) ms
      | Some (JNull, _) \<Rightarrow> Some ([], [])
      | _ \<Rightarrow> None)"

definition wanted_overrides ::
    "(string \<times> string) list \<Rightarrow> string list \<Rightarrow> (string \<times> string) list \<Rightarrow> (string \<times> string) list" where
  "wanted_overrides stored reset vals =
     AList.updates (map fst vals) (map snd vals) (filter (\<lambda>kv. fst kv \<notin> set reset) stored)"

fun clear_settings :: "string list \<Rightarrow> bool act" where
  "clear_settings [] = ret True"
| "clear_settings (k # ks) = do {
     s \<leftarrow> exec (ClearSetting k);
     case s of Inl _ \<Rightarrow> ret False | Inr _ \<Rightarrow> clear_settings ks
   }"

fun upsert_settings :: "string \<Rightarrow> (string \<times> string) list \<Rightarrow> bool act" where
  "upsert_settings who [] = ret True"
| "upsert_settings who (kv # kvs) = do {
     stamp \<leftarrow> read_clock;
     s \<leftarrow> exec (SetSetting (unix stamp) (fst kv) (snd kv) who);
     case s of Inl _ \<Rightarrow> ret False | Inr _ \<Rightarrow> upsert_settings who kvs
   }"

text \<open>\<open>ReplaceSettings\<close> as a transaction: a failed statement or commit takes everything back.\<close>

definition store_settings :: "string \<Rightarrow> (string \<times> string) list \<Rightarrow> bool act" where
  "store_settings who kvs = do {
     begin_failed \<leftarrow> fault;
     if begin_failed then ret False
     else do {
       before \<leftarrow> get_db;
       ok \<leftarrow> upsert_settings who kvs;
       commit_failed \<leftarrow> fault;
       if ok \<and> \<not> commit_failed then ret True else do { put_db before; ret False }
     }
   }"

text \<open>What a save does once it has been judged: the answer, and the configuration made live.\<close>

definition save_settings ::
    "(network_view \<Rightarrow> (string \<times> json) list) \<Rightarrow> portal \<Rightarrow> pages \<Rightarrow> user \<Rightarrow> request \<Rightarrow> (string \<times> string) list \<Rightarrow> string list \<Rightarrow>
      (response \<times> config option) act" where
  "save_settings js P G u r vals reset = do {
     cleared \<leftarrow> clear_settings reset;
     if \<not> cleared then do { x \<leftarrow> serverError; ret (x, None) }
     else do {
       replaced \<leftarrow> (if vals = [] then ret True else store_settings (u_username u) vals);
       if \<not> replaced then do { x \<leftarrow> serverError; ret (x, None) }
       else do {
         live \<leftarrow> wantedConfig G;
         audit (u_username u) ''settings.updated'' [] (clientIP P r)
           [(''keys'', join_byte (CHR '' '') (map fst vals @ reset))];
         x \<leftarrow> handleSettingsSchema js G;
         ret (x, Some live)
       }
     }
   }"

definition handleSettingsSave ::
    "(network_view \<Rightarrow> (string \<times> json) list) \<Rightarrow> portal \<Rightarrow> pages \<Rightarrow> user \<Rightarrow> request \<Rightarrow> (response \<times> config option) act" where
  "handleSettingsSave js P G u r =
     (case settings_request r of
        None \<Rightarrow> do { x \<leftarrow> fail_with 400 ''malformed request body''; ret (x, None) }
      | Some (vals, reset) \<Rightarrow>
          if vals = [] \<and> reset = [] then do { x \<leftarrow> fail_with 400 ''nothing to change''; ret (x, None) }
          else do {
            s \<leftarrow> stored_settings;
            case s of
              Inl _ \<Rightarrow> do { x \<leftarrow> serverError; ret (x, None) }
            | Inr stored \<Rightarrow>
                (case find (\<lambda>k. Lookup_setting k = None) (map fst vals) of
                   Some k \<Rightarrow> do { x \<leftarrow> fail_with 400 (''there is no setting called '' @ k); ret (x, None) }
                 | None \<Rightarrow>
                     (case snd (snd (Apply (pg_file G) (wanted_overrides stored reset vals))) of
                        Some e \<Rightarrow> do { x \<leftarrow> fail_with 400 (pg_error_text G e); ret (x, None) }
                      | None \<Rightarrow> save_settings js P G u r vals reset))
          })"

text \<open>What a saved configuration reaches at once: the public-address service and the notifier.\<close>

definition made_live :: "config option \<Rightarrow> service option \<times> notifier option \<Rightarrow> service option \<times> notifier option" where
  "made_live live parts =
     (case live of None \<Rightarrow> parts
      | Some c \<Rightarrow> (map_option (SetHost (PublicHost c)) (fst parts), map_option (Configure (NotifyConfig c)) (snd parts)))"

definition handleRestart :: "bool \<Rightarrow> (store_error + unit) \<Rightarrow> portal \<Rightarrow> pages \<Rightarrow> user \<Rightarrow> handler" where
  "handleRestart updates requested P G u r =
     (if \<not> updates then fail_with 501 (''this deployment cannot restart itself '' @ utf8 0x2014 @
          '' restart the container or the service by hand'')
      else if \<not> pg_helper G then fail_with 412 (''the privileged helper is not installed, so the service cannot be '' @
          ''restarted from here. Run: sudo systemctl restart revpd'')
      else do {
        ls \<leftarrow> query (\<lambda>d. Inr (ListLiveSessions d));
        let n = int (case ls of Inl _ \<Rightarrow> 0 | Inr live \<Rightarrow> length live);
        case requested of
          Inl _ \<Rightarrow> serverError
        | Inr _ \<Rightarrow> do {
            audit (u_username u) ''settings.updated'' [] (clientIP P r)
              [(''restart'', ''true''), (''sessions_dropped'', decimal_int n)];
            send [] [(''ok'', JBool True), (''sessions_dropped'', JInt n)]
          }
      })"

text \<open>\<open>handleNotifyTest\<close> of \<open>notify.go\<close>: the saved settings are tried, nothing of the request is.\<close>

definition handleNotifyTest ::
    "(delivery_error \<Rightarrow> string) \<Rightarrow> far_end \<Rightarrow> (nat \<Rightarrow> bool) \<Rightarrow> notifier option \<Rightarrow> pages \<Rightarrow> user \<Rightarrow> handler" where
  "handleNotifyTest reason far ended n G u r =
     (case n of None \<Rightarrow> fail_with 501 ''notifications are not available in this deployment''
      | Some nf \<Rightarrow> do {
          cfg \<leftarrow> wantedConfig G;
          if \<not> nc_enabled (cf_notify cfg)
          then fail_with 412 (''notifications are switched off '' @ utf8 0x2014 @ '' turn them on and save first'')
          else do {
            now \<leftarrow> read_clock;
            case Test far now ended nf of
              Some e \<Rightarrow> fail_with 502 (''the message could not be delivered: '' @ reason e)
            | None \<Rightarrow> send [] [(''ok'', JBool True)]
          }
        })"

end
