(* ===== verification/Settings_Guarantees.thy ===== *)
theory Settings_Guarantees
  imports Portal_Settings Portal_Guarantees Config_Guarantees
begin

text \<open>
  What a save of the settings page guarantees: the set that ends up in the database is the one that was
  judged, and a refused save changes nothing.
\<close>

section \<open>The stored set\<close>

definition setting_map :: "db \<Rightarrow> string \<Rightarrow> string option" where
  "setting_map d = (\<lambda>k. Setting k d)"

text \<open>Nothing but the settings table differs.\<close>

definition settings_only :: "db \<Rightarrow> db \<Rightarrow> bool" where
  "settings_only d d' \<longleftrightarrow> d'\<lparr>app_settings := Map.empty\<rparr> = d\<lparr>app_settings := Map.empty\<rparr>"

interpretation settings: frame settings_only
  by unfold_locales (simp_all add: settings_only_def)

lemma dom_setting_map: "dom (setting_map d) = dom (app_settings d)"
  by (auto simp: setting_map_def Setting_def)

lemma all_settings_distinct: "distinct (map fst (AllSettings d))"
  by (simp add: AllSettings_def comp_def)

lemma all_settings_map: "finite (dom (app_settings d)) \<Longrightarrow> map_of (AllSettings d) = setting_map d"
proof
  fix k
  assume f: "finite (dom (app_settings d))"
  show "map_of (AllSettings d) k = setting_map d k"
  proof (cases "app_settings d k")
    case None
    then have "k \<notin> dom (app_settings d)" by blast
    then have "k \<notin> fst ` set (AllSettings d)" using f by (simp add: AllSettings_def image_image)
    with None show ?thesis by (simp add: setting_map_def Setting_def map_of_eq_None_iff)
  next
    case (Some s)
    then have "(k, v_value s) \<in> set (AllSettings d)" using f by (force simp: AllSettings_def)
    with Some show ?thesis using all_settings_distinct [of d] by (simp add: setting_map_def Setting_def)
  qed
qed

lemma apply_by_map:
  assumes "distinct (map fst a)" and "distinct (map fst b)" and "map_of a = map_of b"
  shows "Apply c a = Apply c b"
proof -
  have "set a = set b" using assms map_of_inject_set by blast
  moreover have "distinct a" "distinct b" using assms distinct_map by blast+
  ultimately have "mset a = mset b" by (simp add: set_eq_iff_mset_eq_distinct)
  then show ?thesis by (rule apply_order [OF assms(1)])
qed

lemma chosen_distinct: "distinct (map fst stored) \<Longrightarrow> distinct (map fst (wanted_overrides stored reset vals))"
  unfolding wanted_overrides_def by (intro distinct_updates distinct_map_filter)

lemma chosen_map:
  "map_of (wanted_overrides stored reset vals) =
   (\<lambda>k. if k \<in> set reset then None else map_of stored k)(map fst vals [\<mapsto>] map snd vals)"
proof -
  have "map_of (filter (\<lambda>kv. fst kv \<notin> set reset) stored) = (\<lambda>k. if k \<in> set reset then None else map_of stored k)"
    by (induction stored) auto
  then show ?thesis by (simp add: wanted_overrides_def updates_conv')
qed

section \<open>Writing\<close>

lemma clear_run:
  "run_state (clear_settings ks) w = (True, w') \<Longrightarrow>
   setting_map (w_db w') = (\<lambda>k. if k \<in> set ks then None else setting_map (w_db w) k)"
proof (induction ks arbitrary: w)
  case (Cons k ks)
  then have "\<not> faulty w" by (auto simp: run_simps outcome_def split: if_splits)
  with Cons.prems have "run_state (clear_settings ks) (calm w\<lparr>w_db := (w_db w)\<lparr>app_settings := (app_settings (w_db w))(k := None)\<rparr>\<rparr>) = (True, w')"
    by (auto simp: run_simps outcome_def ClearSetting_def)
  from Cons.IH [OF this] show ?case by (auto simp: setting_map_def Setting_def fun_eq_iff)
qed simp

lemma upsert_run:
  "run_state (upsert_settings who kvs) w = (True, w') \<Longrightarrow>
   setting_map (w_db w') = (setting_map (w_db w))(map fst kvs [\<mapsto>] map snd kvs)"
proof (induction kvs arbitrary: w)
  case (Cons kv kvs)
  let ?t = "w_clock w (w_tick w)"
  let ?d = "(w_db w)\<lparr>app_settings := (app_settings (w_db w))(fst kv \<mapsto> \<lparr>v_value = snd kv, v_updated_at = unix ?t, v_updated_by = who\<rparr>)\<rparr>"
  from Cons.prems have "\<not> faulty w" by (auto simp: run_simps outcome_def split: if_splits)
  with Cons.prems have "run_state (upsert_settings who kvs) (calm (w\<lparr>w_tick := Suc (w_tick w)\<rparr>)\<lparr>w_db := ?d\<rparr>) = (True, w')"
    by (auto simp: run_simps outcome_def SetSetting_def)
  from Cons.IH [OF this] have "setting_map (w_db w') = (setting_map ?d)(map fst kvs [\<mapsto>] map snd kvs)" by simp
  moreover have "setting_map ?d = (setting_map (w_db w))(fst kv \<mapsto> snd kv)" by (auto simp: setting_map_def Setting_def)
  ultimately show ?case by simp
qed simp

lemma store_run:
  assumes "run_state (store_settings who kvs) w = (b, w')"
  shows "if b then setting_map (w_db w') = (setting_map (w_db w))(map fst kvs [\<mapsto>] map snd kvs) else w_db w' = w_db w"
proof (cases "faulty w")
  case True
  with assms show ?thesis by (auto simp: store_settings_def fault_def)
next
  case False
  obtain ok w1 where u: "run_state (upsert_settings who kvs) (calm w) = (ok, w1)" by (cases "run_state (upsert_settings who kvs) (calm w)")
  with assms False show ?thesis
    by (auto simp: store_settings_def fault_def get_db_def put_db_def dest!: upsert_run split: if_splits)
qed

lemma settings_stmts: "stmt_leaves settings_only (ClearSetting k)" "stmt_leaves settings_only (SetSetting t k v who)"
  by (auto simp: stmt_leaves_def settings_only_def ClearSetting_def SetSetting_def)

lemma leaves_clear: "leaves settings_only (clear_settings ks)"
proof (induction ks)
  case (Cons k ks)
  then show ?case unfolding clear_settings.simps by (intro settings.rules settings_stmts)
qed (simp add: settings.rules)

lemma leaves_upsert: "leaves settings_only (upsert_settings who kvs)"
proof (induction kvs)
  case (Cons kv kvs)
  then show ?case unfolding upsert_settings.simps by (intro settings.rules settings_stmts)
qed (simp add: settings.rules)

lemma store_only:
  assumes "run_state (store_settings who kvs) w = (b, w')"
  shows "settings_only (w_db w) (w_db w')"
proof (cases "faulty w")
  case True
  with assms show ?thesis by (auto simp: store_settings_def fault_def settings_only_def)
next
  case False
  obtain ok w1 where u: "run_state (upsert_settings who kvs) (calm w) = (ok, w1)" by (cases "run_state (upsert_settings who kvs) (calm w)")
  from leavesD [OF leaves_upsert u] have "settings_only (w_db w) (w_db w1)" by simp
  with u assms False show ?thesis
    by (auto simp: store_settings_def fault_def get_db_def put_db_def settings_only_def split: if_splits)
qed

section \<open>Reading\<close>

interpretation same_db: frame "\<lambda>a b. b = (a :: db)"
  by unfold_locales simp_all

lemma reads_wanted: "leaves (\<lambda>a b. b = (a :: db)) (wantedConfig G)"
  unfolding wantedConfig_def stored_settings_def by (intro same_db.rules)

lemma reads_pages:
  "leaves (\<lambda>a b. b = (a :: db)) (publicGateway G)" "leaves (\<lambda>a b. b = (a :: db)) (restartPending G)"
  "leaves (\<lambda>a b. b = (a :: db)) (networkView G kn)"
  unfolding publicGateway_def restartPending_def networkView_def by (intro same_db.rules reads_wanted)+

lemma reads_schema: "leaves (\<lambda>a b. b = (a :: db)) (handleSettingsSchema js G)"
  unfolding handleSettingsSchema_def by (intro same_db.rules reads_wanted reads_pages)

section \<open>Saving\<close>

lemma run_fail:
  "run_state (fail_with c m) v = (reply c [] (JObj [(''error'', JStr m)]), v)"
  "run_state serverError v = (reply 500 [] (JObj [(''error'', JStr ''internal error'')]), v)"
  by (simp_all add: fail_with_def serverError_def)

lemma fill_map_distinct: "fill_map m fs = Some m' \<Longrightarrow> distinct (map fst m) \<Longrightarrow> distinct (map fst m')"
  by (induction m fs rule: fill_map.induct) (auto split: json.splits dest: distinct_update)

lemma save_run:
  assumes "run_state (save_settings js P G u r vals reset) w = ((resp, live), w')"
  shows "settings_only (w_db w) (w_db w') \<and>
    (case live of
       None \<Rightarrow> rs_status resp = 500
     | Some c \<Rightarrow> setting_map (w_db w') =
         (\<lambda>k. if k \<in> set reset then None else setting_map (w_db w) k)(map fst vals [\<mapsto>] map snd vals))"
proof -
  obtain ok w1 where c: "run_state (clear_settings reset) w = (ok, w1)" by (cases "run_state (clear_settings reset) w")
  have o1: "settings_only (w_db w) (w_db w1)" using leavesD [OF leaves_clear c] .
  define put where "put = (if vals = [] then ret True else store_settings (u_username u) vals)"
  obtain ok2 w2 where p: "run_state put w1 = (ok2, w2)" by (cases "run_state put w1")
  have o2: "settings_only (w_db w1) (w_db w2)"
    using p store_only [of "u_username u" vals w1 ok2 w2] by (auto simp: put_def settings.stays split: if_splits)
  have s2: "ok2 \<Longrightarrow> setting_map (w_db w2) = (setting_map (w_db w1))(map fst vals [\<mapsto>] map snd vals)"
    using p store_run [of "u_username u" vals w1 ok2 w2] by (auto simp: put_def split: if_splits)
  define rest where "rest = do { live \<leftarrow> wantedConfig G;
    audit (u_username u) ''settings.updated'' [] (clientIP P r) [(''keys'', join_byte (CHR '' '') (map fst vals @ reset))];
    x \<leftarrow> handleSettingsSchema js G; ret (x, Some live) }"
  have l: "leaves (\<lambda>a b. b = (a :: db)) rest"
    unfolding rest_def by (intro same_db.rules reads_wanted reads_schema)
  have run: "run_state (save_settings js P G u r vals reset) w =
      (if ok then if ok2 then run_state rest w2 else run_state (do { x \<leftarrow> serverError; ret (x, None) }) w2
       else run_state (do { x \<leftarrow> serverError; ret (x, None) }) w1)"
    unfolding save_settings_def rest_def [symmetric] put_def [symmetric] using c p by simp
  have some: "run_state rest v = ((x, y), v') \<Longrightarrow> y \<noteq> None" for x y v v'
    unfolding rest_def by (auto split: prod.splits)
  consider "\<not> ok" | "ok" "\<not> ok2" | "ok" "ok2" by blast
  then show ?thesis
  proof cases
    case 1
    with run assms o1 show ?thesis by (auto simp: run_fail reply_def)
  next
    case 2
    with run assms settings.joins [OF o1 o2] show ?thesis by (auto simp: run_fail reply_def)
  next
    case 3
    then have r: "run_state rest w2 = ((resp, live), w')" using run assms by simp
    then have "w_db w' = w_db w2" using leavesD [OF l r] by simp
    with 3 some [OF r] s2 clear_run [of reset w w1] c settings.joins [OF o1 o2] show ?thesis by auto
  qed
qed

text \<open>While no statement fails, everything that was judged is written.\<close>

lemma clear_calm: "w_faults w = [] \<Longrightarrow> \<exists>w'. run_state (clear_settings ks) w = (True, w') \<and> w_faults w' = []"
proof (induction ks arbitrary: w)
  case (Cons k ks)
  let ?w = "calm w\<lparr>w_db := (w_db w)\<lparr>app_settings := (app_settings (w_db w))(k := None)\<rparr>\<rparr>"
  from Cons.prems have "w_faults ?w = []" by simp
  from Cons.IH [OF this] Cons.prems show ?case by (simp add: run_simps outcome_def ClearSetting_def)
qed simp

lemma upsert_calm: "w_faults w = [] \<Longrightarrow> \<exists>w'. run_state (upsert_settings who kvs) w = (True, w') \<and> w_faults w' = []"
proof (induction kvs arbitrary: w)
  case (Cons kv kvs)
  let ?d = "(w_db w)\<lparr>app_settings := (app_settings (w_db w))(fst kv \<mapsto>
    \<lparr>v_value = snd kv, v_updated_at = unix (w_clock w (w_tick w)), v_updated_by = who\<rparr>)\<rparr>"
  let ?w = "w\<lparr>w_tick := Suc (w_tick w), w_faults := [], w_db := ?d\<rparr>"
  have "w_faults ?w = []" by simp
  from Cons.IH [OF this] Cons.prems show ?case by (simp add: run_simps outcome_def SetSetting_def)
qed simp

lemma store_calm: "w_faults w = [] \<Longrightarrow> \<exists>w'. run_state (store_settings who kvs) w = (True, w') \<and> w_faults w' = []"
  using upsert_calm [of "calm w" who kvs] by (auto simp: store_settings_def fault_def get_db_def)

lemma save_calm:
  assumes "w_faults w = []"
  shows "\<exists>resp c w'. run_state (save_settings js P G u r vals reset) w = ((resp, Some c), w')"
proof -
  obtain w1 where c: "run_state (clear_settings reset) w = (True, w1)" "w_faults w1 = []" using clear_calm [OF assms] by blast
  obtain w2 where p: "run_state (if vals = [] then ret True else store_settings (u_username u) vals) w1 = (True, w2)"
    using store_calm [OF c(2)] by (cases "vals = []") auto
  then show ?thesis using c(1) unfolding save_settings_def by (auto split: prod.splits)
qed

text \<open>
  Handing keys back and storing values are two writes: when the second fails, the first stays, and the set
  that is left was never judged.
\<close>

lemma failed_store_keeps_resets:
  assumes "w_faults w = replicate (length reset) False @ [True]" and "vals \<noteq> []"
  shows "\<exists>resp w'. run_state (save_settings js P G u r vals reset) w = ((resp, None), w') \<and> rs_status resp = 500 \<and>
    setting_map (w_db w') = (\<lambda>k. if k \<in> set reset then None else setting_map (w_db w) k)"
proof -
  have "w_faults w = replicate (length ks) False @ [True] \<Longrightarrow>
      \<exists>w1. run_state (clear_settings ks) w = (True, w1) \<and> w_faults w1 = [True]" for ks w
  proof (induction ks arbitrary: w)
    case (Cons k ks)
    let ?w = "calm w\<lparr>w_db := (w_db w)\<lparr>app_settings := (app_settings (w_db w))(k := None)\<rparr>\<rparr>"
    from Cons.prems have "w_faults ?w = replicate (length ks) False @ [True]" by simp
    from Cons.IH [OF this] Cons.prems show ?case by (simp add: run_simps outcome_def ClearSetting_def)
  qed simp
  from this [OF assms(1)] obtain w1 where w1: "run_state (clear_settings reset) w = (True, w1)" "w_faults w1 = [True]" by blast
  then show ?thesis using assms(2) clear_run [OF w1(1)]
    by (auto simp: save_settings_def store_settings_def fault_def run_fail reply_def)
qed

text \<open>C24. A save is judged as a whole.  When it goes through, the stored set is what was there, less the keys
  handed back, with the new values over it; that is the set the rules accepted over the file, and no other
  table has changed.  When it is refused the database is as it was; what is left is a failing database.\<close>

theorem settings_save_is_judged_whole:
  assumes "run_state (handleSettingsSave js P G u r) w = ((resp, live), w')" and "finite (dom (app_settings (w_db w)))"
  shows "settings_only (w_db w) (w_db w') \<and>
    (case live of
       None \<Rightarrow> rs_status resp = 500 \<or> (rs_status resp = 400 \<and> w_db w' = w_db w)
     | Some c \<Rightarrow> (case settings_request r of None \<Rightarrow> False
        | Some (vals, reset) \<Rightarrow>
            setting_map (w_db w') =
              (\<lambda>k. if k \<in> set reset then None else setting_map (w_db w) k)(map fst vals [\<mapsto>] map snd vals) \<and>
            list_all (\<lambda>k. Lookup_setting k \<noteq> None) (map fst vals) \<and>
            snd (snd (Apply (pg_file G) (AllSettings (w_db w')))) = None))"
proof (cases "settings_request r")
  case None
  with assms(1) show ?thesis by (auto simp: handleSettingsSave_def run_fail reply_def settings.stays)
next
  case (Some vr)
  obtain vals reset where vr: "vr = (vals, reset)" by (cases vr)
  define chosen where "chosen = (\<lambda>stored. wanted_overrides stored reset vals)"
  show ?thesis
  proof (cases "vals = [] \<and> reset = [] \<or> faulty w \<or> find (\<lambda>k. Lookup_setting k = None) (map fst vals) \<noteq> None \<or>
      snd (snd (Apply (pg_file G) (chosen (AllSettings (w_db w))))) \<noteq> None")
    case True
    with assms(1) show ?thesis
      by (auto simp: handleSettingsSave_def Some vr run_fail reply_def settings.stays stored_settings_def run_query
          outcome_def chosen_def split: if_splits option.splits)
  next
    case False
    then have r: "run_state (save_settings js P G u r vals reset) (calm w) = ((resp, live), w')"
      using assms(1)
      by (auto simp: handleSettingsSave_def Some vr stored_settings_def run_query outcome_def chosen_def split: option.splits if_splits)
    have cw: "w_db (calm w) = w_db w" by simp
    note s = save_run [OF r, unfolded cw]
    show ?thesis
    proof (cases live)
      case None
      with s show ?thesis by simp
    next
      case (Some c)
      with s have m: "setting_map (w_db w') =
          (\<lambda>k. if k \<in> set reset then None else setting_map (w_db w) k)(map fst vals [\<mapsto>] map snd vals)" by simp
      have "dom (\<lambda>k. if k \<in> set reset then None else setting_map (w_db w) k) \<subseteq> dom (app_settings (w_db w))"
        by (auto simp: dom_setting_map [symmetric])
      then have "finite (dom (setting_map (w_db w')))"
        unfolding m dom_map_upds using assms(2) finite_subset by blast
      then have "map_of (AllSettings (w_db w')) = map_of (chosen (AllSettings (w_db w)))"
        unfolding chosen_def chosen_map dom_setting_map by (simp only: all_settings_map assms(2) m)
      then have "Apply (pg_file G) (AllSettings (w_db w')) = Apply (pg_file G) (chosen (AllSettings (w_db w)))"
        by (intro apply_by_map all_settings_distinct) (simp_all add: chosen_def chosen_distinct all_settings_distinct)
      with False s m \<open>settings_request r = Some vr\<close> show ?thesis
        by (auto simp: Some vr find_None_iff list_all_iff)
    qed
  qed
qed

definition sample_pages :: pages where
  "sample_pages = \<lparr>pg_cfg = Defaults, pg_file = Defaults, pg_portal_addr = '':443'', pg_public = None, pg_helper = False,
     pg_error_text = (\<lambda>e. [])\<rparr>"

definition sample_save :: request where
  "sample_save = \<lparr>rq_method = ''POST'', rq_cookies = [], rq_header = (\<lambda>h. []), rq_remote = [], rq_tls = True, rq_host = [],
     rq_body = ''{'' @ quote_char # ''values'' @ quote_char # '':{'' @ quote_char # ''grant.ttl'' @ quote_char # '':'' @
       quote_char # ''300'' @ quote_char # ''}}'', rq_id = [], rq_query = (\<lambda>q. [])\<rparr>"

lemma sample_request: "settings_request sample_save = Some ([(''grant.ttl'', ''300'')], [])"
  by code_simp

definition settings_admin :: user where
  "settings_admin = \<lparr>u_id = 1, u_username = ''root'', u_display = [], u_pwhash = [], u_role = ''admin'', u_rdp_hint = [],
     u_totp_secret = [], u_totp_counter = 0, u_status = ''active'', u_created = 0\<rparr>"

theorem settings_save_is_judged_whole_witness:
  "\<exists>resp c w'. run_state (handleSettingsSave (\<lambda>v. []) sample_portal sample_pages settings_admin sample_save) (sample_world\<lparr>w_db := empty_db\<rparr>) = ((resp, Some c), w') \<and>
     setting_map (w_db w') = [''grant.ttl'' \<mapsto> ''300''] \<and> snd (snd (Apply Defaults (AllSettings (w_db w')))) = None"
proof -
  let ?w = "sample_world\<lparr>w_db := empty_db\<rparr>"
  have e: "AllSettings (w_db ?w) = []" by (simp add: AllSettings_def empty_db_def)
  have o: "wanted_overrides [] [] [(''grant.ttl'', ''300'')] = [(''grant.ttl'', ''300'')]" by (simp add: wanted_overrides_def)
  have nf: "w_faults (calm ?w) = []" by (simp add: sample_world_def)
  obtain resp c w' where s: "run_state (save_settings (\<lambda>v. []) sample_portal sample_pages settings_admin sample_save [(''grant.ttl'', ''300'')] []) (calm ?w) =
      ((resp, Some c), w')"
    using save_calm [OF nf] by blast
  have r: "run_state (handleSettingsSave (\<lambda>v. []) sample_portal sample_pages settings_admin sample_save) ?w = ((resp, Some c), w')"
    using s e
    by (simp add: handleSettingsSave_def sample_request stored_settings_def run_query outcome_def sample_world_def o
        ttl_lookup apply_longer_grants sample_pages_def)
  have "finite (dom (app_settings (w_db ?w)))" by (simp add: empty_db_def)
  from settings_save_is_judged_whole [OF r this]
  have "setting_map (w_db w') = [''grant.ttl'' \<mapsto> ''300'']" "snd (snd (Apply Defaults (AllSettings (w_db w')))) = None"
    by (simp_all add: sample_request sample_pages_def setting_map_def Setting_def empty_db_def)
  with r show ?thesis by blast
qed

end
