(* ===== verification/Machine.thy ===== *)
theory Machine
  imports Crypto "HOL-Library.AList" "HOL-Library.State_Monad" "HOL-Library.List_Lexorder" "HOL-Library.Char_ord"
begin

text \<open>
  The machine the updater and the backup run on: files, a clock that only moves forward, and the process the
  service manager runs.  Every operation may fail; a write that fails leaves anything in the file it was
  writing, and a process that is killed is one whose remaining operations all fail without an effect.
\<close>

section \<open>State\<close>

record disk_file =
  fi_data :: string
  fi_time :: time

text \<open>What becomes of an operation: it works, or it fails and leaves the file at a path like this.\<close>

datatype trouble = Works | Breaks "string \<Rightarrow> disk_file option"

record 's machine =
  mc_files :: "(string \<times> disk_file) list"
  mc_trouble :: "trouble list"
  mc_now :: time
  mc_jitter :: "nat \<Rightarrow> nat"
  mc_tick :: nat
  mc_running :: "string option"
  mc_prog :: 's

type_synonym ('s, 'a) op = "('s machine, 'a) state"

abbreviation yield_op :: "'a \<Rightarrow> ('s, 'a) op" where
  "yield_op \<equiv> State_Monad.return"

definition file_at :: "'s machine \<Rightarrow> string \<Rightarrow> disk_file option" where
  "file_at m p = map_of (mc_files m) p"

definition data_at :: "'s machine \<Rightarrow> string \<Rightarrow> string option" where
  "data_at m p = map_option fi_data (file_at m p)"

definition set_file :: "string \<Rightarrow> disk_file option \<Rightarrow> 's machine \<Rightarrow> 's machine" where
  "set_file p f m = m\<lparr>mc_files := (case f of None \<Rightarrow> AList.delete p (mc_files m) | Some x \<Rightarrow> AList.update p x (mc_files m))\<rparr>"

lemma file_at_set [simp]: "file_at (set_file p f m) = (file_at m)(p := f)"
  by (rule ext) (auto simp: file_at_def set_file_def AList.update_conv' AList.delete_conv' split: option.split)

lemma data_at_set [simp]: "data_at (set_file p f m) = (data_at m)(p := map_option fi_data f)"
  by (rule ext) (simp add: data_at_def)

section \<open>Operations\<close>

definition next_trouble :: "('s, trouble) op" where
  "next_trouble = State (\<lambda>m. case mc_trouble m of [] \<Rightarrow> (Works, m) | t # ts \<Rightarrow> (t, m\<lparr>mc_trouble := ts\<rparr>))"

text \<open>\<open>time.Now\<close>: the clock has moved on since the last reading, or stands.\<close>

definition read_time :: "('s, time) op" where
  "read_time = State (\<lambda>m. let t = mc_now m + int (mc_jitter m (mc_tick m)) in
     (t, m\<lparr>mc_now := t, mc_tick := Suc (mc_tick m)\<rparr>))"

definition sleep :: "int \<Rightarrow> ('s, unit) op" where
  "sleep d = State (\<lambda>m. ((), m\<lparr>mc_now := mc_now m + d\<rparr>))"

definition get_file :: "string \<Rightarrow> ('s, string option) op" where
  "get_file p = State (\<lambda>m. (data_at m p, m))"

definition change :: "('s machine \<Rightarrow> 's machine) \<Rightarrow> ('s, unit) op" where
  "change f = State (\<lambda>m. ((), f m))"

datatype disk_error = NotExist | IoFailed

definition read_file :: "string \<Rightarrow> ('s, disk_error + string) op" where
  "read_file p = do {
     t \<leftarrow> next_trouble;
     d \<leftarrow> get_file p;
     yield_op (case t of Breaks _ \<Rightarrow> Inl IoFailed | Works \<Rightarrow> (case d of None \<Rightarrow> Inl NotExist | Some s \<Rightarrow> Inr s))
   }"

text \<open>Creating or truncating a file and writing it whole, up to its close.\<close>

definition write_file :: "string \<Rightarrow> string \<Rightarrow> ('s, bool) op" where
  "write_file p s = do {
     t \<leftarrow> next_trouble;
     now \<leftarrow> read_time;
     case t of
       Works \<Rightarrow> do { change (set_file p (Some \<lparr>fi_data = s, fi_time = now\<rparr>)); yield_op True }
     | Breaks left \<Rightarrow> do { change (set_file p (left p)); yield_op False }
   }"

text \<open>An operation that works or changes nothing.\<close>

definition attempt_op :: "('s machine \<Rightarrow> 's machine) \<Rightarrow> ('s, bool) op" where
  "attempt_op f = do {
     t \<leftarrow> next_trouble;
     case t of Works \<Rightarrow> do { change f; yield_op True } | Breaks _ \<Rightarrow> yield_op False
   }"

definition rename_file :: "string \<Rightarrow> string \<Rightarrow> ('s, bool) op" where
  "rename_file a b = do {
     d \<leftarrow> State (\<lambda>m. (file_at m a, m));
     case d of None \<Rightarrow> do { t \<leftarrow> next_trouble; yield_op False }
     | Some x \<Rightarrow> attempt_op (\<lambda>m. set_file b (Some x) (set_file a None m))
   }"

definition remove_file :: "string \<Rightarrow> ('s, bool) op" where
  "remove_file p = attempt_op (set_file p None)"

definition make_dir :: "('s, bool) op" where
  "make_dir = attempt_op id"

definition under :: "string \<Rightarrow> string \<Rightarrow> bool" where
  "under dir p \<longleftrightarrow> has_prefix p (dir @ ''/'')"

text \<open>\<open>os.RemoveAll\<close>: when it fails, some of the files may be gone.\<close>

definition remove_tree :: "string \<Rightarrow> ('s, bool) op" where
  "remove_tree dir = do {
     t \<leftarrow> next_trouble;
     case t of
       Works \<Rightarrow> do { change (\<lambda>m. m\<lparr>mc_files := filter (\<lambda>(p, _). \<not> under dir p) (mc_files m)\<rparr>); yield_op True }
     | Breaks left \<Rightarrow> do {
         change (\<lambda>m. m\<lparr>mc_files := filter (\<lambda>(p, _). \<not> under dir p \<or> left p \<noteq> None) (mc_files m)\<rparr>); yield_op False }
   }"

text \<open>\<open>os.ReadDir\<close>: the files right under a directory, by name, with the times of their last change.\<close>

definition list_dir :: "string \<Rightarrow> ('s, (string \<times> time) list option) op" where
  "list_dir dir = do {
     t \<leftarrow> next_trouble;
     fs \<leftarrow> State (\<lambda>m. (mc_files m, m));
     yield_op (case t of Breaks _ \<Rightarrow> None
       | Works \<Rightarrow> Some (map (\<lambda>(p, f). (p, fi_time f))
           (filter (\<lambda>(p, _). under dir p \<and> CHR ''/'' \<notin> set (drop (length dir + 1) p)) (sort_key fst fs))))
   }"

section \<open>Running them\<close>

named_theorems op_simps \<open>the effect of an operation on the machine\<close>

definition trouble_of :: "'s machine \<Rightarrow> trouble" where
  "trouble_of m = (case mc_trouble m of [] \<Rightarrow> Works | t # _ \<Rightarrow> t)"

definition spend :: "'s machine \<Rightarrow> 's machine" where
  "spend m = m\<lparr>mc_trouble := tl (mc_trouble m)\<rparr>"

lemma spend_parts [simp]:
  "mc_files (spend m) = mc_files m" "mc_now (spend m) = mc_now m" "mc_jitter (spend m) = mc_jitter m"
  "mc_tick (spend m) = mc_tick m" "mc_running (spend m) = mc_running m" "mc_prog (spend m) = mc_prog m" "file_at (spend m) = file_at m" "data_at (spend m) = data_at m"
  by (simp_all add: spend_def fun_eq_iff file_at_def data_at_def)

lemma run_next_trouble [op_simps]: "run_state next_trouble m = (trouble_of m, spend m)"
  by (simp add: next_trouble_def trouble_of_def spend_def split: list.split)

lemma run_change [op_simps]: "run_state (change f) m = ((), f m)"
  by (simp add: change_def)

lemma run_get_file [op_simps]: "run_state (get_file p) m = (data_at m p, m)"
  by (simp add: get_file_def)

lemma set_file_parts [simp]:
  "mc_trouble (set_file p f m) = mc_trouble m" "mc_now (set_file p f m) = mc_now m" "mc_running (set_file p f m) = mc_running m"
  "mc_tick (set_file p f m) = mc_tick m" "mc_jitter (set_file p f m) = mc_jitter m"
  "mc_prog (set_file p f m) = mc_prog m"
  by (simp_all add: set_file_def)

end
