(* ===== verification/Json_Indent.thy ===== *)
theory Json_Indent
  imports Json_Read
begin

text \<open>
  \<open>json.MarshalIndent(v, "", "  ")\<close>: values printed over several lines, fields in the order they are given,
  and the fact that reading gives back what was printed.
\<close>

section \<open>Printing\<close>

definition line_pad :: "nat \<Rightarrow> string" where
  "line_pad d = CHR 0x0A # replicate (2 * d) CHR '' ''"

fun pretty :: "nat \<Rightarrow> json \<Rightarrow> string"
  and pretty_elems :: "nat \<Rightarrow> json list \<Rightarrow> string"
  and pretty_members :: "nat \<Rightarrow> (string \<times> json) list \<Rightarrow> string" where
  "pretty d JNull = ''null''"
| "pretty d (JBool b) = (if b then ''true'' else ''false'')"
| "pretty d (JInt i) = decimal_int i"
| "pretty d (JStr s) = json_string s"
| "pretty d (JArr vs) = (if vs = [] then ''[]'' else CHR ''['' # pretty_elems (Suc d) vs @ line_pad d @ '']'')"
| "pretty d (JObj fs) = (if fs = [] then ''{}'' else CHR ''{'' # pretty_members (Suc d) fs @ line_pad d @ ''}'')"
| "pretty d JUnsupported = []"
| "pretty_elems d [] = []"
| "pretty_elems d (v # vs) = line_pad d @ pretty d v @ (if vs = [] then [] else CHR '','' # pretty_elems d vs)"
| "pretty_members d [] = []"
| "pretty_members d ((k, v) # fs) =
     line_pad d @ json_string k @ '': '' @ pretty d v @ (if fs = [] then [] else CHR '','' # pretty_members d fs)"

text \<open>What Go can represent: text that is UTF-8, and nothing unsupported.\<close>

definition utf8_text :: "string \<Rightarrow> bool" where
  "utf8_text s \<longleftrightarrow> string_of_runes (runes s) = s \<and> list_all valid_rune (runes s)"

fun plain_json :: "nat \<Rightarrow> json \<Rightarrow> bool"
  and plain_elems :: "nat \<Rightarrow> json list \<Rightarrow> bool"
  and plain_members :: "nat \<Rightarrow> (string \<times> json) list \<Rightarrow> bool" where
  "plain_json n JNull \<longleftrightarrow> True"
| "plain_json n (JBool b) \<longleftrightarrow> True"
| "plain_json n (JInt i) \<longleftrightarrow> True"
| "plain_json n (JStr s) \<longleftrightarrow> utf8_text s"
| "plain_json n (JArr vs) \<longleftrightarrow> n < max_nesting \<and> plain_elems (Suc n) vs"
| "plain_json n (JObj fs) \<longleftrightarrow> n < max_nesting \<and> plain_members (Suc n) fs"
| "plain_json n JUnsupported \<longleftrightarrow> False"
| "plain_elems n [] \<longleftrightarrow> True"
| "plain_elems n (v # vs) \<longleftrightarrow> plain_json n v \<and> plain_elems n vs"
| "plain_members n [] \<longleftrightarrow> True"
| "plain_members n ((k, v) # fs) \<longleftrightarrow> utf8_text k \<and> plain_json n v \<and> plain_members n fs"

section \<open>Text\<close>

lemma hex_rune_hex4: "n < 65536 \<Longrightarrow> hex_rune (hex4 n @ t) = Some (n, t)"
proof -
  assume n: "n < 65536"
  have a: "unat (word_of_nat (n div 256) :: byte) = n div 256" using n by (simp add: unat_of_nat)
  have b: "unat (word_of_nat n :: byte) = n mod 256" by (simp add: unat_of_nat)
  have "n div 256 < 256" using n by auto
  then have d: "n div 256 div 16 < 16" by auto
  have e: "n mod 256 div 16 < 16" "n mod 256 mod 16 < 16" by auto
  have "n div 256 div 16 * 16 + n div 256 mod 16 = n div 256" "n mod 256 div 16 * 16 + n mod 256 mod 16 = n mod 256"
    "n div 256 * 256 + n mod 256 = n" by simp_all
  then have "n div 256 div 16 * 4096 + n div 256 mod 16 * 256 + n mod 256 div 16 * 16 + n mod 256 mod 16 = n" by linarith
  then show ?thesis using d e by (simp add: hex4_def hex_encode_def a b hex_val_digit)
qed

lemma json_text_plain:
  "byte_val c \<noteq> 34 \<Longrightarrow> byte_val c \<noteq> 92 \<Longrightarrow> 32 \<le> byte_val c \<Longrightarrow> byte_val c < 128 \<Longrightarrow>
    json_text (c # t) = map_option (\<lambda>(s, r). (c # s, r)) (json_text t)"
  by simp

lemma json_text_escape:
  "byte_val c = 92 \<Longrightarrow> json_escape t = Some (x, r) \<Longrightarrow> json_text (c # t) = map_option (\<lambda>(s, r'). (x @ s, r')) (json_text r)"
  by simp

declare json_text.simps [simp del]

lemma backslash: "char_of (92::nat) = CHR 0x5C"
  using char_of_char [of "CHR 0x5C"] by simp

lemma line_separators: "''2028'' = hex4 8232" "''2029'' = hex4 8233"
  by (simp_all add: hex4_def hex_encode_def hex_digits_def)

lemma utf8_ascii: "r < 128 \<Longrightarrow> utf8 r = [char_of r]"
  by (simp add: utf8_def utf8_bytes_def valid_rune_def)

text \<open>One byte, as it is printed, read back.\<close>

lemma json_text_byte:
  assumes "b < 128"
  shows "json_text (json_byte b @ t) = map_option (\<lambda>(s, r). (utf8 b @ s, r)) (json_text t)"
proof -
  have q: "byte_val quote_char = 34" by (simp add: quote_char_def)
  consider "b = 34" | "b = 92" | "b = 8" | "b = 12" | "b = 10" | "b = 13" | "b = 9"
    | "b \<notin> {34, 92, 8, 12, 10, 13, 9}" "b < 32 \<or> b = 60 \<or> b = 62 \<or> b = 38"
    | "b \<notin> {34, 92, 8, 12, 10, 13, 9}" "\<not> (b < 32 \<or> b = 60 \<or> b = 62 \<or> b = 38)" by auto
  then show ?thesis
  proof cases
    case 8
    have "json_escape (CHR ''u'' # hex4 b @ t) = Some (utf8 b, t)"
      using 8 assms by (simp add: json_escape_def hex_rune_hex4 unescape_rune_def high_surrogate_def low_surrogate_def)
    from json_text_escape [OF _ this, of "CHR 0x5C"] 8 show ?thesis by (simp add: json_byte_def)
  next
    case 9
    then show ?thesis using assms json_text_plain [of "char_of b" t] by (simp add: json_byte_def utf8_ascii)
  qed (simp_all add: json_byte_def json_text_escape json_escape_def q utf8_ascii quote_char_def backslash)
qed

text \<open>One rune beyond ASCII: itself, or one of the two line separators of JavaScript as an escape.\<close>

definition json_rune :: "rune \<Rightarrow> string" where
  "json_rune r =
     (if r < 128 then json_byte r
      else if r = 8232 then CHR 0x5C # ''u2028''
      else if r = 8233 then CHR 0x5C # ''u2029''
      else utf8 r)"

lemma utf8_bytes_wide:
  assumes "valid_rune r" and "128 \<le> r"
  shows "\<exists>b bs. utf8_bytes r = b # bs \<and> 128 \<le> b" and "r = rune_error \<Longrightarrow> length (utf8_bytes r) = 3"
  using assms by (auto simp: utf8_bytes_def Let_def rune_error_def valid_rune_def)

lemma json_chars_rune: "valid_rune r \<Longrightarrow> json_chars (utf8_bytes r @ bs) = json_rune r @ json_chars bs"
proof (cases "r < 128")
  case True
  then show ?thesis by (simp add: json_rune_def utf8_bytes_def valid_rune_def)
next
  case False
  assume v: "valid_rune r"
  then obtain b t where b: "utf8_bytes r = b # t" "128 \<le> b" using utf8_bytes_wide(1) False by fastforce
  have d: "decode_rune (b # t @ bs) = (r, length (b # t))" using decode_utf8 [OF v, of bs] b by simp
  have e: "\<not> (r = rune_error \<and> length (b # t) = 1)" using utf8_bytes_wide(2) [OF v] False b by fastforce
  have m: "map char_of (b # t) = utf8 r" using b by (simp add: utf8_def)
  show ?thesis using False b(2) d e m by (auto simp: b(1) json_rune_def rune_error_def)
qed

lemma json_chars_runes:
  "list_all valid_rune rs \<Longrightarrow> json_chars (map of_char (string_of_runes rs)) = concat (map json_rune rs)"
  by (induction rs) (simp_all add: string_of_runes_def of_char_utf8 json_chars_rune)

lemma json_text_rune:
  assumes "valid_rune r"
  shows "json_text (json_rune r @ t) = map_option (\<lambda>(s, r'). (utf8 r @ s, r')) (json_text t)"
proof -
  consider "r < 128" | "r = 8232" | "r = 8233" | "128 \<le> r" "r \<noteq> 8232" "r \<noteq> 8233" by linarith
  then show ?thesis
  proof cases
    case 1
    then show ?thesis by (simp add: json_rune_def json_text_byte)
  next
    case 2
    have "json_escape (CHR ''u'' # ''2028'' @ t) = Some (utf8 8232, t)"
      unfolding line_separators
      by (simp add: json_escape_def hex_rune_hex4 unescape_rune_def high_surrogate_def low_surrogate_def)
    from json_text_escape [OF _ this, of "CHR 0x5C"] 2 show ?thesis by (simp add: json_rune_def)
  next
    case 3
    have "json_escape (CHR ''u'' # ''2029'' @ t) = Some (utf8 8233, t)"
      unfolding line_separators
      by (simp add: json_escape_def hex_rune_hex4 unescape_rune_def high_surrogate_def low_surrogate_def)
    from json_text_escape [OF _ this, of "CHR 0x5C"] 3 show ?thesis by (simp add: json_rune_def)
  next
    case 4
    obtain b u where b: "utf8_bytes r = b # u" "128 \<le> b" using utf8_bytes_wide(1) assms 4 by fastforce
    then have c: "utf8 r = char_of b # map char_of u" "b < 256" using utf8_bytes_range [of r] by (simp_all add: utf8_def)
    have d: "decode_rune (map of_char (utf8 r @ t)) = (r, length (utf8 r))"
      using decode_utf8 [OF assms, of "map of_char t"] by (simp add: of_char_utf8) (simp add: utf8_def)
    have "json_text (utf8 r @ t) = map_option (\<lambda>(s, r'). (utf8 r @ s, r')) (json_text (drop (length (utf8 r)) (utf8 r @ t)))"
      using b(2) c d by (subst json_text.simps(2) [of "char_of b" "map char_of u @ t", folded append_Cons, folded c(1)]) simp
    with 4 show ?thesis by (simp add: json_rune_def)
  qed
qed

lemma json_text_quote: "json_text (quote_char # t) = Some ([], t)"
  by (simp add: quote_char_def json_text.simps(2))

lemma json_text_runes:
  "list_all valid_rune rs \<Longrightarrow> json_text (concat (map json_rune rs) @ quote_char # t) = Some (string_of_runes rs, t)"
  by (induction rs) (simp_all add: json_text_quote json_text_rune string_of_runes_def)

lemma json_string_reads: "utf8_text s \<Longrightarrow> json_text (tl (json_string s) @ t) = Some (s, t)"
proof -
  assume "utf8_text s"
  then have v: "list_all valid_rune (runes s)" and s: "string_of_runes (runes s) = s" by (simp_all add: utf8_text_def)
  from json_chars_runes [OF v] json_text_runes [OF v, of t] show ?thesis by (simp add: json_string_def s)
qed

section \<open>Values\<close>

text \<open>What may follow a value: nothing, or a byte that no number goes on with.\<close>

definition value_end :: "string \<Rightarrow> bool" where
  "value_end r \<longleftrightarrow> (case r of [] \<Rightarrow> True | c # _ \<Rightarrow> c \<in> {CHR '','', CHR 0x0A})"

lemma value_end_not_digit: "value_end r \<Longrightarrow> takeWhile is_digit r = [] \<and> number_tail r = Some (True, r)"
  by (cases r) (auto simp: value_end_def number_tail_def fraction_def exponent_def is_digit_def)

lemma decimal_zero: "decimal n = CHR ''0'' # t \<Longrightarrow> n = 0 \<and> t = []"
proof (induction n arbitrary: t rule: decimal.induct)
  case (1 n)
  show ?case
  proof (cases "n < 10")
    case True
    have "\<forall>n \<in> set [1..<10]. digit n \<noteq> CHR ''0''" by (simp add: upt_rec digit_def)
    with True 1(2) show ?thesis by (cases "n = 0") (auto simp: decimal.simps [of n] decimal.simps [of 0])
  next
    case False
    then have e: "decimal (n div 10) @ [digit (n mod 10)] = CHR ''0'' # t" using 1(2) by (simp add: decimal.simps [of n])
    then obtain u where "decimal (n div 10) = CHR ''0'' # u" by (cases "decimal (n div 10)") auto
    then have "n div 10 = 0" using 1(1) False by blast
    with False show ?thesis by simp
  qed
qed

lemma int_digits_decimal: "takeWhile is_digit r = [] \<Longrightarrow> int_digits (decimal n @ r) = decimal n"
proof -
  assume r: "takeWhile is_digit r = []"
  have d: "\<forall>c \<in> set (decimal n). is_digit c" using decimal_digits by blast
  show ?thesis
  proof (cases "hd (decimal n) = CHR ''0''")
    case True
    then obtain t where t: "decimal n = CHR ''0'' # t" by (cases "decimal n") auto
    then show ?thesis using decimal_zero [OF t] by (simp add: int_digits_def)
  next
    case False
    then have "int_digits (decimal n @ r) = takeWhile is_digit (decimal n @ r)" by (simp add: int_digits_def)
    also have "\<dots> = decimal n" using d r by simp
    finally show ?thesis .
  qed
qed

lemma unsigned_reads:
  "value_end r \<Longrightarrow> unsigned_number neg (decimal n @ r) = Some (JInt (if neg then - int n else int n), r)"
  using value_end_not_digit [of r] by (simp add: unsigned_number_def int_digits_decimal digits_value_decimal)

lemma number_reads: "value_end r \<Longrightarrow> json_number (decimal_int i @ r) = Some (JInt i, r)"
proof (cases "i < 0")
  case True
  assume r: "value_end r"
  show ?thesis using True unsigned_reads [OF r, of True "nat (- i)"] by (simp add: json_number_def decimal_int_def)
next
  case False
  assume r: "value_end r"
  have "hd (decimal (nat i)) \<noteq> CHR ''-''"
    using decimal_digits [of "hd (decimal (nat i))" "nat i"] by (auto simp: is_digit_def)
  then show ?thesis using False unsigned_reads [OF r, of False "nat i"] by (simp add: json_number_def decimal_int_def)
qed

lemma decimal_head: "\<exists>c t. decimal_int i = c # t \<and> (is_digit c \<or> c = CHR ''-'')"
proof -
  have "is_digit (hd (decimal n))" for n using decimal_digits [of "hd (decimal n)" n] by simp
  then show ?thesis by (cases "i < 0"; cases "decimal (nat i)") (auto simp: decimal_int_def, metis list.sel(1) decimal_nonempty)
qed

lemma skip_blanks: "dropWhile json_space (replicate n (CHR '' '') @ s) = dropWhile json_space s"
  by (induction n) (simp_all add: json_space_def)

lemma skip_pad [simp]: "skip_ws (line_pad d @ s) = skip_ws s"
  by (simp add: skip_ws_def line_pad_def skip_blanks) (simp add: json_space_def)

lemma skip_none: "\<not> json_space c \<Longrightarrow> skip_ws (c # s) = c # s"
  by (simp add: skip_ws_def)

lemma pad_end: "value_end (line_pad d @ s)"
  by (simp add: value_end_def line_pad_def)

lemma quote_eq: "quote_char = CHR 0x22"
  using char_of_char [of "CHR 0x22"] by (simp add: quote_char_def)

lemma literal_reads: "literal w v (w @ r) = Some (v, r)"
  by (simp add: literal_def)

lemma value_starts: "plain_json n j \<Longrightarrow> \<exists>c t. pretty d j = c # t \<and> \<not> json_space c \<and> c \<noteq> CHR ''}'' \<and> c \<noteq> CHR '']''"
proof (cases j)
  case (JInt i)
  obtain c t where "decimal_int i = c # t" "is_digit c \<or> c = CHR ''-''" using decimal_head by blast
  then show ?thesis using JInt by (auto simp: json_space_def is_digit_def)
qed (auto simp: json_string_def quote_eq json_space_def split: if_splits)

lemma elems_start: "plain_elems n (v # vs) \<Longrightarrow> \<exists>c t. skip_ws (pretty_elems d (v # vs) @ r) = c # t \<and> c \<noteq> CHR '']''"
  using value_starts [of n v d] by (auto simp: skip_none)

lemma members_start: "\<exists>t. skip_ws (pretty_members d (kv # fs) @ r) = quote_char # t"
  by (cases kv) (simp add: json_string_def skip_none json_space_def quote_eq)

text \<open>Reading what was printed; the depth of the indentation does not matter.\<close>

lemma pretty_reads:
  "plain_json n j \<Longrightarrow> value_end r \<Longrightarrow> 2 * length (pretty d j @ r) < f \<Longrightarrow> json_val f n (pretty d j @ r) = Some (j, r)"
  "plain_elems n vs \<Longrightarrow> vs \<noteq> [] \<Longrightarrow> 2 * length (pretty_elems d vs @ line_pad e @ CHR '']'' # r) + 1 < f \<Longrightarrow>
    json_elems f n (pretty_elems d vs @ line_pad e @ CHR '']'' # r) = Some (vs, r)"
  "plain_members n fs \<Longrightarrow> fs \<noteq> [] \<Longrightarrow> 2 * length (pretty_members d fs @ line_pad e @ CHR ''}'' # r) + 1 < f \<Longrightarrow>
    json_members f n (pretty_members d fs @ line_pad e @ CHR ''}'' # r) = Some (fs, r)"
proof (induction d j and d vs and d fs arbitrary: n r f and n r f e and n r f e rule: pretty_pretty_elems_pretty_members.induct)
  case (1 d)
  then obtain g where "f = Suc g" by (cases f) auto
  then show ?case using literal_reads [of "''null''" JNull r] by (simp add: skip_none json_space_def)
next
  case (2 d b)
  then obtain g where "f = Suc g" by (cases f) auto
  then show ?case using literal_reads [of "''true''" "JBool True" r] literal_reads [of "''false''" "JBool False" r]
    by (simp add: skip_none json_space_def)
next
  case (3 d i)
  then obtain g where "f = Suc g" by (cases f) auto
  moreover obtain c t where c: "decimal_int i = c # t" "is_digit c \<or> c = CHR ''-''" using decimal_head by blast
  moreover have "\<not> json_space c" using c(2) by (auto simp: json_space_def is_digit_def)
  moreover have "c \<notin> {CHR ''{'', CHR ''['', CHR ''t'', CHR ''f'', CHR ''n''}" "byte_val c \<noteq> 34"
    using c(2) by (auto simp: is_digit_def)
  ultimately show ?case using number_reads [OF 3(2), of i] by (simp add: skip_none)
next
  case (4 d s)
  then obtain g where "f = Suc g" by (cases f) auto
  then show ?case using json_string_reads [of s r] 4(1)
    by (simp add: json_string_def skip_none json_space_def quote_eq)
next
  case (5 d vs)
  then obtain g where f: "f = Suc g" by (cases f) auto
  show ?case
  proof (cases vs)
    case Nil
    with 5 f show ?thesis by (simp add: skip_none json_space_def)
  next
    case (Cons v us)
    from 5(2) have p: "n < max_nesting" "plain_elems (Suc n) vs" by simp_all
    have "json_elems g (Suc n) (pretty_elems (Suc d) vs @ line_pad d @ CHR '']'' # r) = Some (vs, r)"
      using 5(1) [OF _ p(2), of d r g] 5(4) f Cons by simp
    moreover obtain c t where "skip_ws (pretty_elems (Suc d) vs @ line_pad d @ CHR '']'' # r) = c # t" "c \<noteq> CHR '']''"
      using elems_start [of "Suc n" v us] p(2) Cons by blast
    ultimately show ?thesis using Cons f p(1) by (simp add: skip_none json_space_def del: pretty_elems.simps)
  qed
next
  case (6 d fs)
  then obtain g where f: "f = Suc g" by (cases f) auto
  show ?case
  proof (cases fs)
    case Nil
    with 6 f show ?thesis by (simp add: skip_none json_space_def)
  next
    case (Cons kv us)
    from 6(2) have p: "n < max_nesting" "plain_members (Suc n) fs" by simp_all
    have "json_members g (Suc n) (pretty_members (Suc d) fs @ line_pad d @ CHR ''}'' # r) = Some (fs, r)"
      using 6(1) [OF _ p(2), of d r g] 6(4) f Cons by simp
    moreover obtain t where "skip_ws (pretty_members (Suc d) fs @ line_pad d @ CHR ''}'' # r) = quote_char # t"
      using members_start Cons by blast
    ultimately show ?thesis using Cons f p(1) by (simp add: skip_none json_space_def quote_eq del: pretty_members.simps)
  qed
next
  case (9 d v vs)
  then obtain g where f: "f = Suc g" by (cases f) auto
  let ?r = "(if vs = [] then [] else CHR '','' # pretty_elems d vs) @ line_pad e @ CHR '']'' # r"
  have e: "value_end ?r" by (simp add: pad_end) (simp add: value_end_def)
  have "json_val g n (pretty d v @ ?r) = Some (v, ?r)" using 9 e f by simp
  then have v: "json_val g n (line_pad d @ pretty d v @ ?r) = Some (v, ?r)"
    by (cases g) simp_all
  show ?case
  proof (cases "vs = []")
    case True
    with v f show ?thesis by (simp add: skip_none json_space_def)
  next
    case False
    have "json_elems g n (pretty_elems d vs @ line_pad e @ CHR '']'' # r) = Some (vs, r)" using 9 False f by simp
    with v f False show ?thesis by (simp add: skip_none json_space_def)
  qed
next
  case (11 d k v fs)
  then obtain g where f: "f = Suc g" by (cases f) auto
  let ?r = "(if fs = [] then [] else CHR '','' # pretty_members d fs) @ line_pad e @ CHR ''}'' # r"
  have e: "value_end ?r" by (simp add: pad_end) (simp add: value_end_def)
  have "json_val g n (pretty d v @ ?r) = Some (v, ?r)" using 11 e f by simp
  then have v: "json_val g n (CHR '' '' # pretty d v @ ?r) = Some (v, ?r)"
    by (cases g) (simp_all add: skip_ws_def json_space_def)
  have k: "json_text (tl (json_string k) @ '': '' @ pretty d v @ ?r) = Some (k, '': '' @ pretty d v @ ?r)"
    using 11 json_string_reads by simp
  show ?case
  proof (cases "fs = []")
    case True
    with v k f show ?thesis by (simp add: skip_none json_space_def json_string_def quote_eq)
  next
    case False
    have "json_members g n (pretty_members d fs @ line_pad e @ CHR ''}'' # r) = Some (fs, r)" using 11 False f by simp
    with v k f False show ?thesis by (simp add: skip_none json_space_def json_string_def quote_eq)
  qed
qed simp_all

text \<open>\<open>Unmarshal\<close> of an indented document.\<close>

lemma unmarshal_pretty:
  assumes "plain_json 0 j"
  shows "unmarshal sh (pretty 0 j) = fill False sh (zero_value sh) j"
proof -
  have "json_first (pretty 0 j) = Some (j, [])"
    using pretty_reads(1) [OF assms, of "[]" 0 "2 * length (pretty 0 j) + 3"] by (simp add: json_first_def value_end_def)
  then show ?thesis by (simp add: unmarshal_def skip_ws_def)
qed

end
