(* ===== verification/Update_Docs.thy ===== *)
theory Update_Docs
  imports Machine Json_Indent
begin

text \<open>
  \<open>internal/update/state.go\<close> and the documents the two halves of the updater leave for each other: what they
  hold, how they are printed, and how \<open>json.Unmarshal\<close> reads them.  A moment is \<open>None\<close> when it is the zero
  time; how a moment is written is a parameter.
\<close>

section \<open>Reading a document\<close>

record moments =
  mo_text :: "time option \<Rightarrow> string"
  mo_read :: "string \<Rightarrow> time option option"

type_synonym 'r slots = "(string \<times> (json \<Rightarrow> 'r \<Rightarrow> 'r option)) list"

definition text_slot :: "(string \<Rightarrow> 'r \<Rightarrow> 'r) \<Rightarrow> json \<Rightarrow> 'r \<Rightarrow> 'r option" where
  "text_slot put v r = (case v of JNull \<Rightarrow> Some r | JStr s \<Rightarrow> Some (put s r) | _ \<Rightarrow> None)"

definition bool_slot :: "(bool \<Rightarrow> 'r \<Rightarrow> 'r) \<Rightarrow> json \<Rightarrow> 'r \<Rightarrow> 'r option" where
  "bool_slot put v r = (case v of JNull \<Rightarrow> Some r | JBool b \<Rightarrow> Some (put b r) | _ \<Rightarrow> None)"

definition int_slot :: "(int \<Rightarrow> 'r \<Rightarrow> 'r) \<Rightarrow> json \<Rightarrow> 'r \<Rightarrow> 'r option" where
  "int_slot put v r = (case v of JNull \<Rightarrow> Some r | JInt i \<Rightarrow> if fits_int i then Some (put i r) else None | _ \<Rightarrow> None)"

definition time_slot :: "moments \<Rightarrow> (time option \<Rightarrow> 'r \<Rightarrow> 'r) \<Rightarrow> json \<Rightarrow> 'r \<Rightarrow> 'r option" where
  "time_slot M put v r =
     (case v of JNull \<Rightarrow> Some r | JStr s \<Rightarrow> map_option (\<lambda>t. put t r) (mo_read M s) | _ \<Rightarrow> None)"

text \<open>The slot a key fills: by its exact name, else by its name in another case.\<close>

definition slot_named :: "'r slots \<Rightarrow> string \<Rightarrow> (json \<Rightarrow> 'r \<Rightarrow> 'r option) option" where
  "slot_named fs k =
     (case map_of fs k of Some put \<Rightarrow> Some put | None \<Rightarrow> map_option snd (find (\<lambda>(n, _). equal_fold k n) fs))"

fun fill_slots :: "'r slots \<Rightarrow> (string \<times> json) list \<Rightarrow> 'r \<Rightarrow> 'r option" where
  "fill_slots fs [] r = Some r"
| "fill_slots fs ((k, v) # ms) r =
     (case slot_named fs k of
        None \<Rightarrow> fill_slots fs ms r
      | Some put \<Rightarrow> (case put v r of None \<Rightarrow> None | Some r' \<Rightarrow> fill_slots fs ms r'))"

text \<open>A pointer to a struct: \<open>null\<close> clears it, an object fills what is there or a fresh one.\<close>

definition ptr_slot ::
    "'p slots \<Rightarrow> 'p \<Rightarrow> ('r \<Rightarrow> 'p option) \<Rightarrow> ('p option \<Rightarrow> 'r \<Rightarrow> 'r) \<Rightarrow> json \<Rightarrow> 'r \<Rightarrow> 'r option" where
  "ptr_slot fs zero get put v r =
     (case v of
        JNull \<Rightarrow> Some (put None r)
      | JObj ms \<Rightarrow> map_option (\<lambda>p. put (Some p) r) (fill_slots fs ms (case get r of None \<Rightarrow> zero | Some p \<Rightarrow> p))
      | _ \<Rightarrow> None)"

definition read_doc :: "'r slots \<Rightarrow> 'r \<Rightarrow> string \<Rightarrow> 'r option" where
  "read_doc fs zero s =
     (case json_first s of
        Some (JObj ms, r) \<Rightarrow> if skip_ws r = [] then fill_slots fs ms zero else None
      | Some (JNull, r) \<Rightarrow> if skip_ws r = [] then Some zero else None
      | _ \<Rightarrow> None)"

section \<open>The state\<close>

definition PhaseIdle :: string where "PhaseIdle = ''idle''"
definition PhaseChecking :: string where "PhaseChecking = ''checking''"
definition PhaseDownloading :: string where "PhaseDownloading = ''downloading''"
definition PhaseVerifying :: string where "PhaseVerifying = ''verifying''"
definition PhaseStaged :: string where "PhaseStaged = ''staged''"
definition PhaseApplying :: string where "PhaseApplying = ''applying''"
definition PhaseFailed :: string where "PhaseFailed = ''failed''"

lemmas phase_defs = PhaseIdle_def PhaseChecking_def PhaseDownloading_def PhaseVerifying_def PhaseStaged_def
  PhaseApplying_def PhaseFailed_def

record available =
  av_version :: string
  av_notes :: string
  av_url :: string
  av_published :: "time option"
  av_prerelease :: bool
  av_size :: int
  av_ready :: bool

record staged_update =
  sg_version :: string
  sg_sha256 :: string
  sg_path :: string
  sg_at :: "time option"
  sg_by :: string
  sg_automatic :: bool

record update_result =
  ur_version :: string
  ur_from :: string
  ur_ok :: bool
  ur_message :: string
  ur_rolled_back :: bool
  ur_at :: "time option"

record update_state =
  us_phase :: string
  us_last_check :: "time option"
  us_check_error :: string
  us_check_reason :: string
  us_available :: "available option"
  us_staged :: "staged_update option"
  us_last :: "update_result option"
  us_downloaded :: int
  us_total :: int

record apply_request =
  rq_version :: string
  rq_sha256 :: string
  rq_by :: string

definition no_available :: available where
  "no_available = \<lparr>av_version = [], av_notes = [], av_url = [], av_published = None, av_prerelease = False, av_size = 0, av_ready = False\<rparr>"

definition no_staged :: staged_update where
  "no_staged = \<lparr>sg_version = [], sg_sha256 = [], sg_path = [], sg_at = None, sg_by = [], sg_automatic = False\<rparr>"

definition no_result :: update_result where
  "no_result = \<lparr>ur_version = [], ur_from = [], ur_ok = False, ur_message = [], ur_rolled_back = False, ur_at = None\<rparr>"

definition no_update :: update_state where
  "no_update = \<lparr>us_phase = [], us_last_check = None, us_check_error = [], us_check_reason = [], us_available = None,
     us_staged = None, us_last = None, us_downloaded = 0, us_total = 0\<rparr>"

definition no_request :: apply_request where
  "no_request = \<lparr>rq_version = [], rq_sha256 = [], rq_by = []\<rparr>"

section \<open>The documents\<close>

definition available_slots :: "moments \<Rightarrow> available slots" where
  "available_slots M = [(''version'', text_slot (\<lambda>s. av_version_update (\<lambda>_. s))), (''notes'', text_slot (\<lambda>s. av_notes_update (\<lambda>_. s))),
     (''url'', text_slot (\<lambda>s. av_url_update (\<lambda>_. s))), (''published_at'', time_slot M (\<lambda>t. av_published_update (\<lambda>_. t))),
     (''prerelease'', bool_slot (\<lambda>b. av_prerelease_update (\<lambda>_. b))), (''size'', int_slot (\<lambda>i. av_size_update (\<lambda>_. i))),
     (''asset_ready'', bool_slot (\<lambda>b. av_ready_update (\<lambda>_. b)))]"

definition staged_slots :: "moments \<Rightarrow> staged_update slots" where
  "staged_slots M = [(''version'', text_slot (\<lambda>s. sg_version_update (\<lambda>_. s))), (''sha256'', text_slot (\<lambda>s. sg_sha256_update (\<lambda>_. s))),
     (''path'', text_slot (\<lambda>s. sg_path_update (\<lambda>_. s))), (''staged_at'', time_slot M (\<lambda>t. sg_at_update (\<lambda>_. t))),
     (''staged_by'', text_slot (\<lambda>s. sg_by_update (\<lambda>_. s))), (''automatic'', bool_slot (\<lambda>b. sg_automatic_update (\<lambda>_. b)))]"

definition result_slots :: "moments \<Rightarrow> update_result slots" where
  "result_slots M = [(''version'', text_slot (\<lambda>s. ur_version_update (\<lambda>_. s))), (''from'', text_slot (\<lambda>s. ur_from_update (\<lambda>_. s))),
     (''ok'', bool_slot (\<lambda>b. ur_ok_update (\<lambda>_. b))), (''message'', text_slot (\<lambda>s. ur_message_update (\<lambda>_. s))),
     (''rolled_back'', bool_slot (\<lambda>b. ur_rolled_back_update (\<lambda>_. b))), (''at'', time_slot M (\<lambda>t. ur_at_update (\<lambda>_. t)))]"

definition state_slots :: "moments \<Rightarrow> update_state slots" where
  "state_slots M = [(''phase'', text_slot (\<lambda>s. us_phase_update (\<lambda>_. s))), (''last_check'', time_slot M (\<lambda>t. us_last_check_update (\<lambda>_. t))),
     (''last_check_error'', text_slot (\<lambda>s. us_check_error_update (\<lambda>_. s))),
     (''last_check_reason'', text_slot (\<lambda>s. us_check_reason_update (\<lambda>_. s))),
     (''available'', ptr_slot (available_slots M) no_available us_available (\<lambda>p. us_available_update (\<lambda>_. p))),
     (''staged'', ptr_slot (staged_slots M) no_staged us_staged (\<lambda>p. us_staged_update (\<lambda>_. p))),
     (''last_result'', ptr_slot (result_slots M) no_result us_last (\<lambda>p. us_last_update (\<lambda>_. p))),
     (''downloaded'', int_slot (\<lambda>i. us_downloaded_update (\<lambda>_. i))), (''total'', int_slot (\<lambda>i. us_total_update (\<lambda>_. i)))]"

definition request_slots :: "apply_request slots" where
  "request_slots = [(''version'', text_slot (\<lambda>s. rq_version_update (\<lambda>_. s))), (''sha256'', text_slot (\<lambda>s. rq_sha256_update (\<lambda>_. s))),
     (''requested_by'', text_slot (\<lambda>s. rq_by_update (\<lambda>_. s)))]"

definition available_json :: "moments \<Rightarrow> available \<Rightarrow> json" where
  "available_json M a = JObj [(''version'', JStr (av_version a)), (''notes'', JStr (av_notes a)), (''url'', JStr (av_url a)),
     (''published_at'', JStr (mo_text M (av_published a))), (''prerelease'', JBool (av_prerelease a)),
     (''size'', JInt (av_size a)), (''asset_ready'', JBool (av_ready a))]"

definition staged_json :: "moments \<Rightarrow> staged_update \<Rightarrow> json" where
  "staged_json M s = JObj [(''version'', JStr (sg_version s)), (''sha256'', JStr (sg_sha256 s)), (''path'', JStr (sg_path s)),
     (''staged_at'', JStr (mo_text M (sg_at s))), (''staged_by'', JStr (sg_by s)), (''automatic'', JBool (sg_automatic s))]"

definition result_json :: "moments \<Rightarrow> update_result \<Rightarrow> json" where
  "result_json M r = JObj [(''version'', JStr (ur_version r)), (''from'', JStr (ur_from r)), (''ok'', JBool (ur_ok r)),
     (''message'', JStr (ur_message r)), (''rolled_back'', JBool (ur_rolled_back r)), (''at'', JStr (mo_text M (ur_at r)))]"

definition omitted :: "bool \<Rightarrow> string \<Rightarrow> json \<Rightarrow> (string \<times> json) list" where
  "omitted zero k v = (if zero then [] else [(k, v)])"

definition optional :: "('p \<Rightarrow> json) \<Rightarrow> 'p option \<Rightarrow> json" where
  "optional js p = (case p of None \<Rightarrow> JNull | Some x \<Rightarrow> js x)"

definition state_json :: "moments \<Rightarrow> update_state \<Rightarrow> json" where
  "state_json M s = JObj ([(''phase'', JStr (us_phase s)), (''last_check'', JStr (mo_text M (us_last_check s)))] @
     omitted (us_check_error s = []) ''last_check_error'' (JStr (us_check_error s)) @
     omitted (us_check_reason s = []) ''last_check_reason'' (JStr (us_check_reason s)) @
     omitted (us_available s = None) ''available'' (optional (available_json M) (us_available s)) @
     omitted (us_staged s = None) ''staged'' (optional (staged_json M) (us_staged s)) @
     omitted (us_last s = None) ''last_result'' (optional (result_json M) (us_last s)) @
     [(''downloaded'', JInt (us_downloaded s)), (''total'', JInt (us_total s))])"

definition request_json :: "string \<Rightarrow> string \<Rightarrow> string \<Rightarrow> string \<Rightarrow> json" where
  "request_json moment by sha version =
     JObj [(''requested_at'', JStr moment), (''requested_by'', JStr by), (''sha256'', JStr sha), (''version'', JStr version)]"

section \<open>Files\<close>

definition writeFileAtomic :: "string \<Rightarrow> string \<Rightarrow> ('s, bool) op" where
  "writeFileAtomic path body = do {
     written \<leftarrow> write_file (path @ ''.tmp'') body;
     if \<not> written then yield_op False
     else do {
       renamed \<leftarrow> rename_file (path @ ''.tmp'') path;
       if renamed then yield_op True else do { remove_file (path @ ''.tmp''); yield_op False }
     }
   }"

definition in_dir :: "string \<Rightarrow> string \<Rightarrow> string" where
  "in_dir dir name = dir @ CHR ''/'' # name"

definition loadState :: "moments \<Rightarrow> string \<Rightarrow> ('s, update_state) op" where
  "loadState M dir = do {
     body \<leftarrow> read_file (in_dir dir ''state.json'');
     yield_op (case body of Inl _ \<Rightarrow> no_update\<lparr>us_phase := PhaseIdle\<rparr>
       | Inr s \<Rightarrow>
           (case read_doc (state_slots M) no_update s of None \<Rightarrow> no_update\<lparr>us_phase := PhaseIdle\<rparr>
            | Some st \<Rightarrow>
                if us_phase st \<in> set [[], PhaseChecking, PhaseDownloading, PhaseVerifying]
                then st\<lparr>us_phase := PhaseIdle\<rparr> else st))
   }"

definition saveState :: "moments \<Rightarrow> string \<Rightarrow> update_state \<Rightarrow> ('s, bool) op" where
  "saveState M dir st = writeFileAtomic (in_dir dir ''state.json'') (pretty 0 (state_json M st))"

end
