(* ===== verification/Update_Release.thy ===== *)
theory Update_Release
  imports Config "HOL-Library.Product_Lexorder"
begin

text \<open>
  \<open>internal/update/version.go\<close>: which of two releases is the later one.  The code compares part by part; a
  version also has a key in a linear order, and the comparison is the one of the keys.  The second chapter is
  \<open>internal/update/github.go\<close>, which asks for the releases there are.
\<close>

section \<open>Reading a version\<close>

record version =
  vn_nums :: "int list"
  vn_pre :: "string list"

definition before_byte :: "char \<Rightarrow> string \<Rightarrow> string" where
  "before_byte c s = (case index_of c s of None \<Rightarrow> s | Some i \<Rightarrow> take i s)"

definition after_byte :: "char \<Rightarrow> string \<Rightarrow> string" where
  "after_byte c s = (case index_of c s of None \<Rightarrow> [] | Some i \<Rightarrow> drop (Suc i) s)"

definition version_part :: "string \<Rightarrow> int option" where
  "version_part p = (if p = [] \<or> \<not> list_all is_digit p then None else Atoi p)"

fun version_parts :: "string list \<Rightarrow> int list option" where
  "version_parts [] = Some []"
| "version_parts (p # ps) =
     (case version_part p of None \<Rightarrow> None | Some n \<Rightarrow> map_option (\<lambda>ns. n # ns) (version_parts ps))"

definition parse_version :: "string \<Rightarrow> version option" where
  "parse_version s0 =
     (let s = trim_prefix (trim_prefix (trim_space s0) ''v'') ''V'' in
      if s = [] then None
      else let s1 = before_byte (CHR ''+'') s;
               tail = after_byte (CHR ''-'') s1;
               parts = split_byte (CHR ''.'') (before_byte (CHR ''-'') s1) in
        if 4 < length parts then None
        else map_option (\<lambda>ns. \<lparr>vn_nums = ns, vn_pre = (if tail = [] then [] else split_byte (CHR ''.'') tail)\<rparr>)
          (version_parts parts))"

definition IsRelease :: "string \<Rightarrow> bool" where
  "IsRelease v \<longleftrightarrow> parse_version v \<noteq> None"

section \<open>Comparing\<close>

definition sign :: "int \<Rightarrow> int" where
  "sign n = (if n < 0 then - 1 else if 0 < n then 1 else 0)"

text \<open>Numbers are 64 bits wide, and so is their difference.\<close>

definition diff_sign :: "int \<Rightarrow> int \<Rightarrow> int" where
  "diff_sign x y = sign (wrap64 (x - y))"

text \<open>The loop over both lists of numbers: \<open>at\<close> reads nought past the end.\<close>

fun compare_nums :: "int list \<Rightarrow> int list \<Rightarrow> int" where
  "compare_nums [] [] = 0"
| "compare_nums (x # xs) [] = (if x \<noteq> 0 then diff_sign x 0 else compare_nums xs [])"
| "compare_nums [] (y # ys) = (if y \<noteq> 0 then diff_sign 0 y else compare_nums [] ys)"
| "compare_nums (x # xs) (y # ys) = (if x \<noteq> y then diff_sign x y else compare_nums xs ys)"

text \<open>The number at the front; too large a one is the largest there is.\<close>

definition leadingDigits :: "string \<Rightarrow> string \<times> int" where
  "leadingDigits s = (dropWhile is_digit s, min (int (digits_value (takeWhile is_digit s))) max_int64)"

function compareNatural :: "string \<Rightarrow> string \<Rightarrow> int" where
  "compareNatural [] b = sign (0 - int (length b))"
| "compareNatural (x # a) [] = sign (int (length (x # a)))"
| "compareNatural (x # a) (y # b) =
     (if is_digit x \<and> is_digit y then
        (let (ra, na) = leadingDigits (x # a); (rb, nb) = leadingDigits (y # b) in
         if na \<noteq> nb then diff_sign na nb else compareNatural ra rb)
      else if x \<noteq> y then sign (int (byte_val x) - int (byte_val y))
      else compareNatural a b)"
  by pat_completeness auto
termination
  by (relation "measure (\<lambda>(a, b). length a)")
    (auto simp: leadingDigits_def less_Suc_eq_le length_dropWhile_le)

definition comparePre :: "string \<Rightarrow> string \<Rightarrow> int" where
  "comparePre a b =
     (case (Atoi a, Atoi b) of
        (Some na, Some nb) \<Rightarrow> diff_sign na nb
      | (Some _, None) \<Rightarrow> - 1
      | (None, Some _) \<Rightarrow> 1
      | (None, None) \<Rightarrow> compareNatural a b)"

fun compare_pres :: "string list \<Rightarrow> string list \<Rightarrow> int" where
  "compare_pres [] [] = 0"
| "compare_pres [] (b # bs) = - 1"
| "compare_pres (a # as) [] = 1"
| "compare_pres (a # as) (b # bs) = (let c = comparePre a b in if c \<noteq> 0 then c else compare_pres as bs)"

definition compare_version :: "version \<Rightarrow> version \<Rightarrow> int" where
  "compare_version a b =
     (let c = compare_nums (vn_nums a) (vn_nums b) in
      if c \<noteq> 0 then c
      else if vn_pre a = [] \<and> vn_pre b = [] then 0
      else if vn_pre a = [] then 1
      else if vn_pre b = [] then - 1
      else compare_pres (vn_pre a) (vn_pre b))"

definition Compare :: "string \<Rightarrow> string \<Rightarrow> int option" where
  "Compare a b =
     (case parse_version a of None \<Rightarrow> None
      | Some va \<Rightarrow> (case parse_version b of None \<Rightarrow> None | Some vb \<Rightarrow> Some (compare_version va vb)))"

definition Newer :: "string \<Rightarrow> string \<Rightarrow> bool option" where
  "Newer current candidate = map_option (\<lambda>c. c < 0) (Compare current candidate)"

section \<open>The order\<close>

text \<open>A comparison that is the one of keys in a linear order.\<close>

definition key_sign :: "'k::linorder \<Rightarrow> 'k \<Rightarrow> int" where
  "key_sign x y = (if x < y then - 1 else if y < x then 1 else 0)"

locale keyed_comparison =
  fixes compare :: "'a \<Rightarrow> 'a \<Rightarrow> int" and rank :: "'a \<Rightarrow> 'k::linorder" and tame :: "'a \<Rightarrow> bool"
  assumes compare_rank: "tame a \<Longrightarrow> tame b \<Longrightarrow> compare a b = key_sign (rank a) (rank b)"
begin

lemma compare_sym: "tame a \<Longrightarrow> tame b \<Longrightarrow> compare b a = - compare a b"
  by (auto simp: compare_rank key_sign_def)

lemma compare_le_trans:
  "tame a \<Longrightarrow> tame b \<Longrightarrow> tame c \<Longrightarrow> compare a b \<le> 0 \<Longrightarrow> compare b c \<le> 0 \<Longrightarrow> compare a c \<le> 0"
  by (auto simp: compare_rank key_sign_def split: if_split_asm)

lemma compare_zero: "tame a \<Longrightarrow> tame b \<Longrightarrow> compare a b = 0 \<longleftrightarrow> rank a = rank b"
  by (auto simp: compare_rank key_sign_def)

end

text \<open>Text is a list of tokens: runs of digits by their number, other bytes by their value.\<close>

function tokens :: "string \<Rightarrow> (int \<times> int) list" where
  "tokens [] = []"
| "tokens (c # s) =
     (if is_digit c then (let (r, n) = leadingDigits (c # s) in (48, n) # tokens r)
      else (int (byte_val c), 0) # tokens s)"
  by pat_completeness auto
termination
  by (relation "measure length") (auto simp: leadingDigits_def less_Suc_eq_le length_dropWhile_le)

definition pre_key :: "string \<Rightarrow> int \<times> int \<times> (int \<times> int) list" where
  "pre_key s = (case Atoi s of Some n \<Rightarrow> (0, n, []) | None \<Rightarrow> (1, 0, tokens s))"

fun strip_zeros :: "int list \<Rightarrow> int list" where
  "strip_zeros [] = []"
| "strip_zeros (x # xs) = (case strip_zeros xs of [] \<Rightarrow> if x = 0 then [] else [x] | y # ys \<Rightarrow> x # y # ys)"

definition version_key :: "version \<Rightarrow> int list \<times> bool \<times> (int \<times> int \<times> (int \<times> int) list) list" where
  "version_key v = (strip_zeros (vn_nums v), vn_pre v = [], map pre_key (vn_pre v))"

definition tame_pre :: "string \<Rightarrow> bool" where
  "tame_pre s \<longleftrightarrow> \<not> has_prefix s ''-''"

definition tame_version :: "version \<Rightarrow> bool" where
  "tame_version v \<longleftrightarrow> list_all (\<lambda>n. 0 \<le> n \<and> n < 2 ^ 63) (vn_nums v) \<and> list_all tame_pre (vn_pre v)"

lemma diff_sign_key: "0 \<le> x \<Longrightarrow> x < 2 ^ 63 \<Longrightarrow> 0 \<le> y \<Longrightarrow> y < 2 ^ 63 \<Longrightarrow> diff_sign x y = key_sign x y"
  by (simp add: diff_sign_def sign_def key_sign_def wrap64_id)

lemma key_sign_Cons: "key_sign (x # xs) (y # ys) = (if x = y then key_sign xs ys else key_sign x y)"
  by (auto simp: key_sign_def)

lemma key_sign_pair: "key_sign (a, b) (c, d) = (if a = c then key_sign b d else key_sign a c)"
  by (auto simp: key_sign_def)

lemma key_sign_simps [simp]: "key_sign x x = 0" "key_sign [] (y # ys) = - 1" "key_sign (y # ys) [] = 1" "key_sign False True = - 1" "key_sign True False = 1"
  by (auto simp: key_sign_def)

lemma key_sign_zero: "key_sign x y = 0 \<longleftrightarrow> x = y"
  by (auto simp: key_sign_def)

lemma strip_zeros_Nil: "list_all (\<lambda>n. 0 \<le> n \<and> n < 2 ^ 63) xs \<Longrightarrow> compare_nums xs [] = key_sign (strip_zeros xs) [] \<and>
    compare_nums [] xs = key_sign [] (strip_zeros xs)"
  by (induction xs) (auto simp: diff_sign_key diff_sign_def sign_def wrap64_id split: list.splits)

lemma strip_zeros_Cons: "strip_zeros (x # xs) = (if x = 0 \<and> strip_zeros xs = [] then [] else x # strip_zeros xs)"
  by (auto split: list.splits)

lemma compare_nums_key:
  "list_all (\<lambda>n. 0 \<le> n \<and> n < 2 ^ 63) xs \<Longrightarrow> list_all (\<lambda>n. 0 \<le> n \<and> n < 2 ^ 63) ys \<Longrightarrow>
    compare_nums xs ys = key_sign (strip_zeros xs) (strip_zeros ys)"
proof (induction xs ys rule: compare_nums.induct)
  case (4 x xs y ys)
  show ?case
  proof (cases "x = y")
    case True
    with 4 have "compare_nums xs ys = key_sign (strip_zeros xs) (strip_zeros ys)" by simp
    with True show ?thesis
      unfolding strip_zeros_Cons by (auto simp: key_sign_Cons) (metis key_sign_simps(2,3) list.exhaust)+
  next
    case False
    with 4 have d: "compare_nums (x # xs) (y # ys) = key_sign x y" by (simp add: diff_sign_key)
    from 4 have "0 \<le> x" "0 \<le> y" by simp_all
    with False d show ?thesis
      unfolding strip_zeros_Cons by (auto simp: key_sign_Cons) (auto simp: key_sign_def)
  qed
next
  case (2 x xs)
  then show ?case by (metis strip_zeros.simps(1) strip_zeros_Nil)
next
  case (3 y ys)
  then show ?case by (metis strip_zeros.simps(1) strip_zeros_Nil)
qed simp

lemma leading_range: "leadingDigits s = (r, n) \<Longrightarrow> 0 \<le> n \<and> n < 2 ^ 63"
  by (auto simp: leadingDigits_def max_int64_def)

lemma digit_bytes: "is_digit x \<Longrightarrow> \<not> is_digit y \<Longrightarrow> byte_val y < 48 \<and> byte_val y < byte_val x \<or> 48 < byte_val y \<and> byte_val x < byte_val y"
  by (auto simp: is_digit_def)

lemma compareNatural_key: "compareNatural a b = key_sign (tokens a) (tokens b)"
proof (induction a b rule: compareNatural.induct)
  case (1 b)
  then show ?case by (cases b) (auto simp: sign_def Let_def split: prod.splits)
next
  case (2 x a)
  then show ?case by (auto simp: sign_def Let_def split: prod.splits)
next
  case (3 x a y b)
  consider "is_digit x \<and> is_digit y" | "x = y" "\<not> is_digit x" | "x \<noteq> y" "\<not> (is_digit x \<and> is_digit y)" by blast
  then show ?case
  proof cases
    case 1
    obtain ra na where a: "leadingDigits (x # a) = (ra, na)" by fastforce
    obtain rb nb where b: "leadingDigits (y # b) = (rb, nb)" by fastforce
    show ?thesis
      using 1 "3.IH"(1) [OF 1 a [symmetric] refl b [symmetric] refl] leading_range [OF a] leading_range [OF b]
      by (simp add: a b key_sign_Cons key_sign_pair diff_sign_key)
  next
    case 2
    then show ?thesis using "3.IH"(2) by (simp add: key_sign_Cons)
  next
    case 3
    then have "byte_val x \<noteq> byte_val y" by (metis char_of_char)
    then show ?thesis
      using 3 digit_bytes [of x y] digit_bytes [of y x]
      by (auto simp: key_sign_Cons key_sign_pair Let_def sign_def split: prod.splits) (auto simp: key_sign_def)
  qed
qed

lemma Atoi_tame: "Atoi s = Some n \<Longrightarrow> tame_pre s \<Longrightarrow> 0 \<le> n \<and> n < 2 ^ 63"
  by (auto simp: Atoi_def tame_pre_def Let_def split: if_splits)

lemma comparePre_key: "tame_pre a \<Longrightarrow> tame_pre b \<Longrightarrow> comparePre a b = key_sign (pre_key a) (pre_key b)"
  using Atoi_tame [of a] Atoi_tame [of b]
  by (auto simp: comparePre_def pre_key_def key_sign_pair diff_sign_key compareNatural_key split: option.splits)
    (auto simp: key_sign_def)

lemma compare_pres_key:
  "list_all tame_pre as \<Longrightarrow> list_all tame_pre bs \<Longrightarrow> compare_pres as bs = key_sign (map pre_key as) (map pre_key bs)"
  by (induction as bs rule: compare_pres.induct) (simp_all add: key_sign_Cons comparePre_key key_sign_zero)

lemma compare_version_key:
  assumes "tame_version a" and "tame_version b"
  shows "compare_version a b = key_sign (version_key a) (version_key b)"
  using assms
  by (auto simp: compare_version_def version_key_def tame_version_def key_sign_pair compare_nums_key compare_pres_key
      key_sign_zero Let_def)

interpretation releases: keyed_comparison compare_version version_key tame_version
  by unfold_locales (rule compare_version_key)

chapter \<open>Asking for releases\<close>

text \<open>
  \<open>internal/update/github.go\<close>: asking GitHub which releases there are.  The far end is a function from the
  address asked to what came back; reading the JSON of a reply into a release is a parameter, and the
  sentences that explain a failure are left out, its reason is kept.
\<close>

section \<open>Failures\<close>

datatype reason = ReasonNetwork | ReasonRateLimit | ReasonAuth | ReasonNoRelease | ReasonNotFound | ReasonNoAssets
  | ReasonNoBuild | ReasonServer | ReasonCorrupt | ReasonUnorderable

definition reason_text :: "reason \<Rightarrow> string" where
  "reason_text r = (case r of ReasonNetwork \<Rightarrow> ''network'' | ReasonRateLimit \<Rightarrow> ''rate_limit'' | ReasonAuth \<Rightarrow> ''auth''
     | ReasonNoRelease \<Rightarrow> ''no_release'' | ReasonNotFound \<Rightarrow> ''not_found'' | ReasonNoAssets \<Rightarrow> ''no_assets''
     | ReasonNoBuild \<Rightarrow> ''no_build'' | ReasonServer \<Rightarrow> ''server'' | ReasonCorrupt \<Rightarrow> ''corrupt'' | ReasonUnorderable \<Rightarrow> ''unorderable'')"

record failure_report =
  fr_reason :: reason
  fr_retry_after :: "int option"

definition failf :: "reason \<Rightarrow> failure_report" where
  "failf r = \<lparr>fr_reason = r, fr_retry_after = None\<rparr>"

section \<open>Releases\<close>

record asset =
  as_name :: string
  as_url :: string
  as_size :: int

record github_release =
  rl_tag :: string
  rl_notes :: string
  rl_url :: string
  rl_draft :: bool
  rl_prerelease :: bool
  rl_published :: "time option"
  rl_assets :: "asset list"

definition Asset :: "string \<Rightarrow> github_release \<Rightarrow> asset option" where
  "Asset name rel = find (\<lambda>a. as_name a = name) (rl_assets rel)"

section \<open>The client\<close>

text \<open>\<open>ct_module\<close> is the module path of the build, \<open>ct_env_token\<close> what \<open>GITHUB_TOKEN\<close> holds.\<close>

record client =
  ct_repo :: string
  ct_token :: string
  ct_base :: string
  ct_module :: string
  ct_env_token :: string

record http_answer =
  ha_status :: nat
  ha_header :: "string \<Rightarrow> string"
  ha_body :: string
  ha_broken :: bool

text \<open>\<open>None\<close>: the request did not get an answer; an answer may break off in its body.\<close>

record github =
  gh_answer :: "string \<Rightarrow> http_answer option"
  gh_release :: "string \<Rightarrow> github_release option"
  gh_releases :: "string \<Rightarrow> github_release list option"

definition DefaultRepo :: "string \<Rightarrow> string" where
  "DefaultRepo module =
     (let p = trim_prefix module ''github.com/'' in
      if p = module then []
      else case split_byte (CHR ''/'') p of owner # name # _ \<Rightarrow> owner @ CHR ''/'' # name | _ \<Rightarrow> [])"

definition repo :: "client \<Rightarrow> string" where
  "repo c = (if ct_repo c \<noteq> [] then ct_repo c else DefaultRepo (ct_module c))"

definition token :: "client \<Rightarrow> string" where
  "token c = (if ct_token c \<noteq> [] then ct_token c else ct_env_token c)"

definition api_url :: "client \<Rightarrow> string \<Rightarrow> string" where
  "api_url c path = (if ct_base c = [] then ''https://api.github.com/repos/'' else ct_base c) @ repo c @ path"

text \<open>\<open>url.PathEscape\<close>.\<close>

definition path_plain :: "char \<Rightarrow> bool" where
  "path_plain c \<longleftrightarrow> (let n = byte_val c in (48 \<le> n \<and> n \<le> 57) \<or> (65 \<le> n \<and> n \<le> 90) \<or> (97 \<le> n \<and> n \<le> 122)) \<or>
     c \<in> set ''-_.~$&+=:@''"

definition PathEscape :: "string \<Rightarrow> string" where
  "PathEscape s = concat (map (\<lambda>c. if path_plain c then [c]
     else CHR ''%'' # map (\<lambda>d. char_of (ascii_upper (of_char d))) (hex_encode [byte_of c])) s)"

definition rateLimitFailure :: "(string \<Rightarrow> string) \<Rightarrow> failure_report" where
  "rateLimitFailure header =
     (if header ''X-RateLimit-Remaining'' \<noteq> ''0'' then failf ReasonAuth
      else (failf ReasonRateLimit)\<lparr>fr_retry_after := Atoi (header ''X-RateLimit-Reset'')\<rparr>)"

text \<open>One call: a missing thing is a status, everything else that is not 200 is a failure.\<close>

datatype 'a api_reply = Failed failure_report | Missing | Got 'a

definition get_api :: "github \<Rightarrow> (string \<Rightarrow> 'a option) \<Rightarrow> string \<Rightarrow> 'a api_reply" where
  "get_api gh read endpoint =
     (case gh_answer gh endpoint of
        None \<Rightarrow> Failed (failf ReasonNetwork)
      | Some a \<Rightarrow>
          (let status = ha_status a; text = take 8388608 (ha_body a) in
           if ha_broken a then Failed (failf ReasonNetwork)
           else if status = 200 then (case read text of None \<Rightarrow> Failed (failf ReasonServer) | Some x \<Rightarrow> Got x)
           else if status = 404 then Missing
           else if status = 401 then Failed (failf ReasonAuth)
           else if status = 403 \<or> status = 429 then Failed (rateLimitFailure (ha_header a))
           else Failed (failf ReasonServer)))"

definition list_releases :: "client \<Rightarrow> github \<Rightarrow> failure_report + github_release list" where
  "list_releases c gh =
     (case get_api gh (gh_releases gh) (api_url c ''/releases?per_page=100'') of
        Failed f \<Rightarrow> Inl f | Missing \<Rightarrow> Inl (failf ReasonNotFound) | Got rels \<Rightarrow> Inr rels)"

definition Latest :: "client \<Rightarrow> github \<Rightarrow> bool \<Rightarrow> failure_report + github_release" where
  "Latest c gh includePrerelease =
     (if repo c = [] then Inl (failf ReasonNotFound)
      else if includePrerelease then
        (case list_releases c gh of
           Inl f \<Rightarrow> Inl f
         | Inr rels \<Rightarrow> (case find (\<lambda>r. \<not> rl_draft r) rels of Some r \<Rightarrow> Inr r | None \<Rightarrow> Inl (failf ReasonNoRelease)))
      else
        (case get_api gh (gh_release gh) (api_url c ''/releases/latest'') of
           Failed f \<Rightarrow> Inl f
         | Missing \<Rightarrow> (case list_releases c gh of Inl f \<Rightarrow> Inl f | Inr _ \<Rightarrow> Inl (failf ReasonNoRelease))
         | Got rel \<Rightarrow> if rl_tag rel = [] then Inl (failf ReasonServer) else Inr rel))"

definition ByTag :: "client \<Rightarrow> github \<Rightarrow> string \<Rightarrow> failure_report + github_release" where
  "ByTag c gh tag =
     (case get_api gh (gh_release gh) (api_url c (''/releases/tags/'' @ PathEscape tag)) of
        Failed f \<Rightarrow> Inl f | Missing \<Rightarrow> Inl (failf ReasonNotFound) | Got rel \<Rightarrow> Inr rel)"

end
