(* ===== verification/Update_Stage.thy ===== *)
theory Update_Stage
  imports Update_Docs Update_Release
begin

text \<open>
  \<open>internal/update/update.go\<close>: the half of the updater that runs inside the service.  It looks for a release,
  downloads and verifies it, leaves it in the staging directory with a manifest, and asks the privileged half
  to install it.  The archive format, the ELF header and what a binary prints are parameters; progress
  reports during a download are left out.
\<close>

section \<open>The site\<close>

record tar_entry =
  te_regular :: bool
  te_name :: string
  te_data :: string
  te_broken :: bool

text \<open>
  \<open>si_untar\<close> gives the entries of a gzipped archive up to its end or the first damage, \<open>si_elf\<close> the machine an
  executable is built for, \<open>si_output\<close> what a binary prints for \<open>version\<close>, \<open>si_unit\<close> what \<open>systemctl is-active\<close>
  says; the last one depends on the moment and on the binary that runs.
\<close>

record site =
  si_env :: env
  si_when :: moments
  si_text :: "failure_report \<Rightarrow> string"
  si_untar :: "string \<Rightarrow> tar_entry list option"
  si_elf :: "string \<Rightarrow> nat option"
  si_output :: "string \<Rightarrow> string option"
  si_unit :: "nat \<Rightarrow> string option \<Rightarrow> string"

definition sha256_hex :: "site \<Rightarrow> string \<Rightarrow> string" where
  "sha256_hex S s = hex_encode (x_sha256 (si_env S) (bytes_of s))"

section \<open>The manager\<close>

record manager =
  mg_dir :: string
  mg_current :: string
  mg_client :: client
  mg_os :: string
  mg_arch :: string

type_synonym 'a update_op = "(update_state, 'a) op"

definition get_state :: "update_state update_op" where
  "get_state = State (\<lambda>m. (mc_prog m, m))"

text \<open>\<open>Manager.update\<close>: losing the state file costs a check, nothing more.\<close>

definition update_to :: "site \<Rightarrow> manager \<Rightarrow> (update_state \<Rightarrow> update_state) \<Rightarrow> unit update_op" where
  "update_to S mg f = do {
     change (\<lambda>m. m\<lparr>mc_prog := f (mc_prog m)\<rparr>);
     st \<leftarrow> get_state;
     saveState (si_when S) (mg_dir mg) st;
     yield_op ()
   }"

definition result_taken :: "update_result \<Rightarrow> update_state \<Rightarrow> update_state" where
  "result_taken res st =
     (let st1 = st\<lparr>us_last := Some res, us_staged := None, us_downloaded := 0, us_total := 0\<rparr> in
      if ur_ok res then st1\<lparr>us_phase := PhaseIdle, us_available := None\<rparr> else st1\<lparr>us_phase := PhaseFailed\<rparr>)"

definition absorbResult :: "site \<Rightarrow> manager \<Rightarrow> unit update_op" where
  "absorbResult S mg = do {
     body \<leftarrow> read_file (in_dir (mg_dir mg) ''result.json'');
     case body of
       Inl _ \<Rightarrow> yield_op ()
     | Inr s \<Rightarrow>
         (case read_doc (result_slots (si_when S)) no_result s of
            None \<Rightarrow> do { remove_file (in_dir (mg_dir mg) ''result.json''); yield_op () }
          | Some res \<Rightarrow> do {
              change (\<lambda>m. m\<lparr>mc_prog := result_taken res (mc_prog m)\<rparr>);
              remove_file (in_dir (mg_dir mg) ''result.json'');
              st \<leftarrow> get_state;
              saveState (si_when S) (mg_dir mg) st;
              yield_op ()
            })
   }"

definition NewManager :: "site \<Rightarrow> manager \<Rightarrow> bool update_op" where
  "NewManager S mg = do {
     made \<leftarrow> make_dir;
     if \<not> made then yield_op False
     else do {
       st \<leftarrow> loadState (si_when S) (mg_dir mg);
       change (\<lambda>m. m\<lparr>mc_prog := st\<rparr>);
       absorbResult S mg;
       yield_op True
     }
   }"

definition Manager_State :: "site \<Rightarrow> manager \<Rightarrow> update_state update_op" where
  "Manager_State S mg = do { absorbResult S mg; get_state }"

definition assetName :: "manager \<Rightarrow> string \<Rightarrow> string" where
  "assetName mg tag = ''revpd_'' @ trim_prefix tag ''v'' @ ''_'' @ mg_os mg @ ''_'' @ mg_arch mg @ ''.tar.gz''"

definition stagedDir :: "manager \<Rightarrow> string" where "stagedDir mg = in_dir (mg_dir mg) ''staged''"
definition stagedBin :: "manager \<Rightarrow> string" where "stagedBin mg = in_dir (stagedDir mg) ''revpd''"
definition manifestPath :: "manager \<Rightarrow> string" where "manifestPath mg = in_dir (stagedDir mg) ''manifest.json''"
definition requestPath :: "manager \<Rightarrow> string" where "requestPath mg = in_dir (mg_dir mg) ''apply.request''"

section \<open>Looking for a release\<close>

definition recordCheckError :: "site \<Rightarrow> manager \<Rightarrow> failure_report \<Rightarrow> unit update_op" where
  "recordCheckError S mg f = do {
     now \<leftarrow> read_time;
     update_to S mg (\<lambda>s. (s\<lparr>us_last_check := Some now, us_check_error := si_text S f, us_check_reason := reason_text (fr_reason f)\<rparr>)
       \<lparr>us_phase := (if us_phase s = PhaseChecking then PhaseIdle else us_phase s)\<rparr>)
   }"

definition available_release :: "manager \<Rightarrow> github_release \<Rightarrow> available" where
  "available_release mg rel =
     (let asset = Asset (assetName mg (rl_tag rel)) rel in
      \<lparr>av_version = rl_tag rel, av_notes = rl_notes rel, av_url = rl_url rel, av_published = rl_published rel,
       av_prerelease = rl_prerelease rel, av_size = (case asset of None \<Rightarrow> 0 | Some a \<Rightarrow> as_size a), av_ready = (asset \<noteq> None)\<rparr>)"

definition Check :: "site \<Rightarrow> manager \<Rightarrow> github \<Rightarrow> bool \<Rightarrow> (failure_report + available option) update_op" where
  "Check S mg gh prerelease = do {
     update_to S mg (\<lambda>s. if us_phase s \<in> set [PhaseIdle, PhaseFailed] then s\<lparr>us_phase := PhaseChecking\<rparr> else s);
     case Latest (mg_client mg) gh prerelease of
       Inl f \<Rightarrow> do { recordCheckError S mg f; yield_op (Inl f) }
     | Inr rel \<Rightarrow>
         (case Newer (mg_current mg) (rl_tag rel) of
            None \<Rightarrow> do { recordCheckError S mg (failf ReasonUnorderable); yield_op (Inl (failf ReasonUnorderable)) }
          | Some newer \<Rightarrow> do {
              let avail = (if newer then Some (available_release mg rel) else None);
              now \<leftarrow> read_time;
              update_to S mg (\<lambda>s. (s\<lparr>us_last_check := Some now, us_check_error := [], us_check_reason := [], us_available := avail\<rparr>)
                \<lparr>us_phase := (if us_staged s \<noteq> None then PhaseStaged
                             else if us_phase s = PhaseChecking then PhaseIdle else us_phase s)\<rparr>);
              yield_op (Inr avail)
            })
   }"

section \<open>Downloading and verifying\<close>

definition setFailed :: "site \<Rightarrow> manager \<Rightarrow> failure_report \<Rightarrow> (failure_report + 'a) update_op" where
  "setFailed S mg f = do {
     update_to S mg (\<lambda>s. s\<lparr>us_phase := PhaseFailed, us_check_error := si_text S f,
       us_check_reason := reason_text (fr_reason f), us_downloaded := 0, us_total := 0\<rparr>);
     yield_op (Inl f)
   }"

definition download :: "site \<Rightarrow> github \<Rightarrow> string \<Rightarrow> string \<Rightarrow> (failure_report + string) update_op" where
  "download S gh url dest =
     (case gh_answer gh url of
        None \<Rightarrow> yield_op (Inl (failf ReasonNetwork))
      | Some a \<Rightarrow>
          if ha_status a \<noteq> 200 then yield_op (Inl (failf ReasonServer))
          else do {
            opened \<leftarrow> write_file dest [];
            if \<not> opened then yield_op (Inl (failf ReasonCorrupt))
            else do {
              copied \<leftarrow> write_file dest (ha_body a);
              if \<not> copied \<or> ha_broken a then yield_op (Inl (failf ReasonNetwork))
              else do {
                synced \<leftarrow> attempt_op id;
                yield_op (if \<not> synced then Inl (failf ReasonCorrupt) else Inr (sha256_hex S (ha_body a)))
              }
            }
          })"

text \<open>\<open>strings.Fields\<close>, over the bytes of the text.\<close>

function text_fields :: "string \<Rightarrow> string \<Rightarrow> string list" where
  "text_fields cur [] = (if cur = [] then [] else [cur])"
| "text_fields cur (c # s) =
     (case find (has_prefix (c # s)) space_seqs of
        Some p \<Rightarrow> (if cur = [] then [] else [cur]) @ text_fields [] (drop (max 1 (length p)) (c # s))
      | None \<Rightarrow>
          (let n = snd (decode_rune (map of_char (c # s))) in
           text_fields (cur @ take n (c # s)) (drop n (c # s))))"
  by pat_completeness auto
termination
  by (relation "measure (\<lambda>(cur, s). length s)") (use decode_rune_width in \<open>auto simp: Suc_le_eq\<close>)

text \<open>The digest \<open>checksums.txt\<close> gives for a file, in small letters.\<close>

definition checksum_line :: "string \<Rightarrow> string \<Rightarrow> string option" where
  "checksum_line name line =
     (case text_fields [] line of
        [digest, named] \<Rightarrow> if trim_prefix named ''*'' = name then Some (lower_string digest) else None
      | _ \<Rightarrow> None)"

fun first_some :: "('a \<Rightarrow> 'b option) \<Rightarrow> 'a list \<Rightarrow> 'b option" where
  "first_some f [] = None"
| "first_some f (x # xs) = (case f x of Some y \<Rightarrow> Some y | None \<Rightarrow> first_some f xs)"

definition vouched :: "string \<Rightarrow> string \<Rightarrow> string option" where
  "vouched body name = first_some (checksum_line name) (split_byte (CHR 0x0A) body)"

definition verifyChecksum :: "github \<Rightarrow> github_release \<Rightarrow> string \<Rightarrow> string \<Rightarrow> failure_report option" where
  "verifyChecksum gh rel name digest =
     (case Asset ''checksums.txt'' rel of
        None \<Rightarrow> Some (failf ReasonCorrupt)
      | Some asset \<Rightarrow>
          (case gh_answer gh (as_url asset) of
             None \<Rightarrow> Some (failf ReasonNetwork)
           | Some a \<Rightarrow>
               if ha_status a \<noteq> 200 then Some (failf ReasonServer)
               else if ha_broken a then Some (failf ReasonNetwork)
               else
                 (case vouched (take 1048576 (ha_body a)) name of
                    None \<Rightarrow> Some (failf ReasonCorrupt)
                  | Some vouch \<Rightarrow> if equal_fold vouch digest then None else Some (failf ReasonCorrupt))))"

text \<open>\<open>filepath.Clean\<close>.\<close>

definition clean_step :: "bool \<Rightarrow> string list \<Rightarrow> string \<Rightarrow> string list" where
  "clean_step rooted done_parts p =
     (if p = [] \<or> p = ''.'' then done_parts
      else if p = ''..'' then
        (if done_parts \<noteq> [] \<and> List.last done_parts \<noteq> ''..'' then butlast done_parts
         else if rooted then done_parts else done_parts @ [p])
      else done_parts @ [p])"

definition Clean_path :: "string \<Rightarrow> string" where
  "Clean_path s =
     (let rooted = has_prefix s ''/''; parts = foldl (clean_step rooted) [] (split_byte (CHR ''/'') s);
          t = (if rooted then ''/'' else []) @ join_byte (CHR ''/'') parts in
      if t = [] then ''.'' else t)"

definition wanted_entry :: "tar_entry \<Rightarrow> bool" where
  "wanted_entry e \<longleftrightarrow> te_regular e \<and> Clean_path (te_name e) = ''revpd''"

definition max_binary :: nat where
  "max_binary = 536870912"

definition unpacked :: "tar_entry \<Rightarrow> string" where
  "unpacked e = take max_binary (te_data e)"

definition extractBinary :: "site \<Rightarrow> string \<Rightarrow> string \<Rightarrow> failure_report option update_op" where
  "extractBinary S archive dest = do {
     body \<leftarrow> read_file archive;
     case body of
       Inl _ \<Rightarrow> yield_op (Some (failf ReasonCorrupt))
     | Inr s \<Rightarrow>
         (case si_untar S s of
            None \<Rightarrow> yield_op (Some (failf ReasonCorrupt))
          | Some entries \<Rightarrow>
              (case find wanted_entry entries of
                 None \<Rightarrow> yield_op (Some (failf ReasonCorrupt))
               | Some e \<Rightarrow> do {
                   written \<leftarrow> write_file dest (unpacked e);
                   yield_op (if written \<and> \<not> te_broken e then None else Some (failf ReasonCorrupt))
                 }))
   }"

definition elfMachines :: "(string \<times> nat) list" where
  "elfMachines = [(''amd64'', 62), (''arm64'', 183), (''arm'', 40), (''386'', 3), (''riscv64'', 243)]"

definition executable_here :: "site \<Rightarrow> string \<Rightarrow> string \<Rightarrow> failure_report option" where
  "executable_here S arch body =
     (case si_elf S body of
        None \<Rightarrow> Some (failf ReasonCorrupt)
      | Some machine \<Rightarrow>
          (case map_of elfMachines arch of None \<Rightarrow> None
           | Some want \<Rightarrow> if machine = want then None else Some (failf ReasonNoBuild)))"

definition checkExecutable :: "site \<Rightarrow> string \<Rightarrow> string \<Rightarrow> string \<Rightarrow> ('s, failure_report option) op" where
  "checkExecutable S path os arch =
     (if os \<noteq> ''linux'' then yield_op None
      else do {
        body \<leftarrow> read_file path;
        yield_op (case body of Inl _ \<Rightarrow> Some (failf ReasonCorrupt) | Inr s \<Rightarrow> executable_here S arch s)
      })"

definition sha256File :: "site \<Rightarrow> string \<Rightarrow> ('s, string option) op" where
  "sha256File S path = do {
     body \<leftarrow> read_file path;
     yield_op (case body of Inl _ \<Rightarrow> None | Inr s \<Rightarrow> Some (sha256_hex S s))
   }"

section \<open>Staging\<close>

text \<open>What follows a download that went through: the archive is verified, unpacked, looked at, and vouched for.\<close>

definition park :: "site \<Rightarrow> manager \<Rightarrow> github_release \<Rightarrow> string \<Rightarrow> bool \<Rightarrow> (failure_report + staged_update) update_op" where
  "park S mg rel by automatic = do {
     digest \<leftarrow> sha256File S (stagedBin mg);
     case digest of
       None \<Rightarrow> setFailed S mg (failf ReasonCorrupt)
     | Some d \<Rightarrow> do {
         now \<leftarrow> read_time;
         let st = \<lparr>sg_version = rl_tag rel, sg_sha256 = d, sg_path = stagedBin mg, sg_at = Some now, sg_by = by, sg_automatic = automatic\<rparr>;
         written \<leftarrow> writeFileAtomic (manifestPath mg) (pretty 0 (staged_json (si_when S) st));
         if \<not> written then setFailed S mg (failf ReasonCorrupt)
         else do {
           update_to S mg (\<lambda>s. s\<lparr>us_phase := PhaseStaged, us_staged := Some st, us_downloaded := 0, us_total := 0\<rparr>);
           yield_op (Inr st)
         }
       }
   }"

definition unpack_archive :: "site \<Rightarrow> manager \<Rightarrow> github_release \<Rightarrow> string \<Rightarrow> string \<Rightarrow> bool \<Rightarrow> (failure_report + staged_update) update_op" where
  "unpack_archive S mg rel archive by automatic = do {
     bad \<leftarrow> extractBinary S archive (stagedBin mg);
     case bad of
       Some f \<Rightarrow> setFailed S mg f
     | None \<Rightarrow> do {
         remove_file archive;
         wrong \<leftarrow> checkExecutable S (stagedBin mg) (mg_os mg) (mg_arch mg);
         case wrong of Some f \<Rightarrow> setFailed S mg f | None \<Rightarrow> park S mg rel by automatic
       }
   }"

definition fetch_archive :: "site \<Rightarrow> manager \<Rightarrow> github \<Rightarrow> github_release \<Rightarrow> asset \<Rightarrow> string \<Rightarrow> bool \<Rightarrow> (failure_report + staged_update) update_op" where
  "fetch_archive S mg gh rel asset by automatic = do {
     let name = assetName mg (rl_tag rel);
     let archive = in_dir (stagedDir mg) name;
     digest \<leftarrow> download S gh (as_url asset) archive;
     case digest of
       Inl f \<Rightarrow> setFailed S mg f
     | Inr d \<Rightarrow> do {
         update_to S mg (us_phase_update (\<lambda>_. PhaseVerifying));
         case verifyChecksum gh rel name d of
           Some f \<Rightarrow> setFailed S mg f
         | None \<Rightarrow> unpack_archive S mg rel archive by automatic
       }
   }"

definition Stage :: "site \<Rightarrow> manager \<Rightarrow> github \<Rightarrow> string \<Rightarrow> string \<Rightarrow> bool \<Rightarrow> (failure_report + staged_update) update_op" where
  "Stage S mg gh tag by automatic =
     (case ByTag (mg_client mg) gh tag of
        Inl f \<Rightarrow> setFailed S mg f
      | Inr rel \<Rightarrow>
          (case Asset (assetName mg (rl_tag rel)) rel of
             None \<Rightarrow> setFailed S mg (failf (if rl_assets rel = [] then ReasonNoAssets else ReasonNoBuild))
           | Some asset \<Rightarrow> do {
               update_to S mg (\<lambda>s. s\<lparr>us_phase := PhaseDownloading, us_downloaded := 0, us_total := as_size asset\<rparr>);
               cleared \<leftarrow> remove_tree (stagedDir mg);
               if \<not> cleared then setFailed S mg (failf ReasonCorrupt)
               else do {
                 made \<leftarrow> make_dir;
                 if \<not> made then setFailed S mg (failf ReasonCorrupt) else fetch_archive S mg gh rel asset by automatic
               }
             }))"

section \<open>Asking the privileged half\<close>

datatype request_error = NothingStaged | RequestNotWritten

definition RequestApply :: "site \<Rightarrow> manager \<Rightarrow> string \<Rightarrow> (request_error + unit) update_op" where
  "RequestApply S mg by = do {
     st \<leftarrow> Manager_State S mg;
     case us_staged st of
       None \<Rightarrow> yield_op (Inl NothingStaged)
     | Some sg \<Rightarrow> do {
         now \<leftarrow> read_time;
         written \<leftarrow> writeFileAtomic (requestPath mg)
           (pretty 0 (request_json (mo_text (si_when S) (Some now)) by (sg_sha256 sg) (sg_version sg)));
         if \<not> written then yield_op (Inl RequestNotWritten)
         else do { update_to S mg (us_phase_update (\<lambda>_. PhaseApplying)); yield_op (Inr ()) }
       }
   }"

definition RequestRestart :: "site \<Rightarrow> manager \<Rightarrow> string \<Rightarrow> bool update_op" where
  "RequestRestart S mg by = do {
     now \<leftarrow> read_time;
     writeFileAtomic (in_dir (mg_dir mg) ''restart.request'')
       (pretty 0 (JObj [(''requested_at'', JStr (mo_text (si_when S) (Some now))), (''requested_by'', JStr by)]))
   }"

fun any_present :: "string list \<Rightarrow> ('s, bool) op" where
  "any_present [] = yield_op False"
| "any_present (p # ps) = do {
     body \<leftarrow> read_file p;
     case body of Inr _ \<Rightarrow> yield_op True | Inl _ \<Rightarrow> any_present ps
   }"

definition ApplierInstalled :: "('s, bool) op" where
  "ApplierInstalled = any_present [''/etc/systemd/system/revpd-update.path'', ''/run/systemd/system/revpd-update.path'']"

end
