(* ===== verification/Discover.thy ===== *)
theory Discover
  imports Netcheck Update_Stage
begin

text \<open>
  \<open>internal/discover\<close>: finding machines on the local network.  Which addresses a sweep visits, what is asked of
  each port, what the kernel knows of hardware addresses, what the answers say about a machine, and how nmap
  is asked.  What a port answers is an input; connections are probed side by side, so nothing here depends on
  their order.
\<close>

section \<open>Networks\<close>

definition MaxHosts :: int where "MaxHosts = 1024"

datatype range_error = NotANetwork | NotIPv4 | NotPrivate | TooLarge int

text \<open>\<open>netip.ParsePrefix\<close>: the length is written without a sign or a leading nought.\<close>

definition prefix_length :: "nat \<Rightarrow> string \<Rightarrow> nat option" where
  "prefix_length most s =
     (if 1 < length s \<and> \<not> (is_digit (hd s) \<and> hd s \<noteq> CHR ''0'') then None
      else case Atoi s of None \<Rightarrow> None | Some n \<Rightarrow> if n < 0 \<or> int most < n then None else Some (nat n))"

definition ParsePrefix :: "string \<Rightarrow> (ip \<times> nat) option" where
  "ParsePrefix s =
     (case last_index_of (CHR ''/'') s of None \<Rightarrow> None
      | Some i \<Rightarrow>
          (case parse_addr (take i s) of
             Some (V4 w) \<Rightarrow> map_option (\<lambda>n. (V4 w, n)) (prefix_length 32 (drop (Suc i) s))
           | Some (V6 w) \<Rightarrow> map_option (\<lambda>n. (V6 w, n)) (prefix_length 128 (drop (Suc i) s))
           | _ \<Rightarrow> None))"

definition hostCount :: "nat \<Rightarrow> int" where
  "hostCount bits = (if 31 \<le> bits then 2 ^ (32 - bits) else 2 ^ (32 - bits) - 2)"

definition isPrivate :: "32 word \<Rightarrow> bool" where
  "isPrivate w \<longleftrightarrow> IsPrivate (V4 w) \<or> IsLinkLocalUnicast (V4 w)"

definition next_addr :: "32 word \<Rightarrow> 32 word option" where
  "next_addr a = (if unat a = 2 ^ 32 - 1 then None else Some (a + 1))"

definition in_prefix :: "32 word \<Rightarrow> nat \<Rightarrow> 32 word option \<Rightarrow> bool" where
  "in_prefix base bits a = (case a of None \<Rightarrow> False | Some x \<Rightarrow> mask_bits 32 (int bits) x = base)"

text \<open>The loop from the base address on, for as long as the address is in the network.\<close>

function visit :: "32 word \<Rightarrow> nat \<Rightarrow> 32 word option \<Rightarrow> 32 word list" where
  "visit base bits None = []"
| "visit base bits (Some a) =
     (if \<not> in_prefix base bits (Some a) then []
      else (if bits < 31 \<and> (a = base \<or> \<not> in_prefix base bits (next_addr a)) then [] else [a]) @ visit base bits (next_addr a))"
  by pat_completeness auto
termination
proof (relation "measure (\<lambda>(base, bits, a). case a of None \<Rightarrow> 0 | Some x \<Rightarrow> 2 ^ 32 - unat x)", simp)
  fix base a :: "32 word" and bits
  have small: "unat a < 4294967296" using unsigned_less [of a] by simp
  show "((base, bits, next_addr a), base, bits, Some a) \<in> measure (\<lambda>(base, bits, a). case a of None \<Rightarrow> 0 | Some x \<Rightarrow> 2 ^ 32 - unat x)"
  proof (cases "unat a = 2 ^ 32 - 1")
    case False
    with small have "unat (a + 1) = Suc (unat a)" by (simp add: unat_word_ariths)
    with False small show ?thesis by (simp add: next_addr_def)
  qed (use small in \<open>simp add: next_addr_def\<close>)
qed

definition Expand :: "string \<Rightarrow> range_error + 32 word list" where
  "Expand cidr =
     (case ParsePrefix cidr of
        None \<Rightarrow> Inl NotANetwork
      | Some (V4 w, bits) \<Rightarrow>
          (let base = mask_bits 32 (int bits) w in
           if \<not> isPrivate base then Inl NotPrivate
           else if MaxHosts < hostCount bits then Inl (TooLarge (hostCount bits))
           else Inr (visit base bits (Some base)))
      | Some _ \<Rightarrow> Inl NotIPv4)"

text \<open>The networks the machine is attached to: interfaces that are up and no loopback, their IPv4 addresses.\<close>

record net_interface =
  if_name :: string
  if_up :: bool
  if_loopback :: bool
  if_addrs :: "(ip \<times> nat) list option"

record local_range =
  lr_interface :: string
  lr_cidr :: string
  lr_address :: string
  lr_hosts :: int
  lr_too_large :: bool

definition range_of :: "string \<Rightarrow> ip \<times> nat \<Rightarrow> local_range option" where
  "range_of name a =
     (case to4 (fst a) of None \<Rightarrow> None
      | Some w \<Rightarrow>
          (let base = mask_bits 32 (int (snd a)) w; hosts = hostCount (snd a) in
           if snd a > 32 \<or> \<not> isPrivate base then None
           else Some \<lparr>lr_interface = name, lr_cidr = v4_text base @ CHR ''/'' # decimal (snd a), lr_address = v4_text w,
                      lr_hosts = hosts, lr_too_large = (MaxHosts < hosts)\<rparr>))"

definition LocalRanges :: "net_interface list option \<Rightarrow> local_range list option" where
  "LocalRanges ifs = map_option (\<lambda>is. sort_key lr_cidr (concat (map (\<lambda>i.
     if \<not> if_up i \<or> if_loopback i then []
     else case if_addrs i of None \<Rightarrow> [] | Some as \<Rightarrow> List.map_filter (range_of (if_name i)) as) is))) ifs"

section \<open>Hardware addresses\<close>

fun hex_flag :: "nat \<Rightarrow> string \<Rightarrow> nat option" where
  "hex_flag n [] = Some n"
| "hex_flag n (c # cs) =
     (let b = byte_val c in
      if 48 \<le> b \<and> b \<le> 57 then hex_flag (n * 16 + (b - 48)) cs
      else if 97 \<le> b \<and> b \<le> 102 then hex_flag (n * 16 + (b - 97) + 10) cs
      else None)"

text \<open>Only the second bit counts, so that the width of the number does not.\<close>

definition hasCompleteFlag :: "string \<Rightarrow> bool" where
  "hasCompleteFlag flags \<longleftrightarrow> (case hex_flag 0 (trim_prefix (lower_string flags) ''0x'') of None \<Rightarrow> False | Some n \<Rightarrow> odd (n div 2))"

definition small_hex :: "char \<Rightarrow> bool" where
  "small_hex c \<longleftrightarrow> (let b = byte_val c in (48 \<le> b \<and> b \<le> 57) \<or> (97 \<le> b \<and> b \<le> 102))"

definition looksLikeMAC :: "string \<Rightarrow> bool" where
  "looksLikeMAC s \<longleftrightarrow> (let parts = split_byte (CHR '':'') s in
     length parts = 6 \<and> list_all (\<lambda>p. length p = 2 \<and> list_all small_hex p) parts)"

definition arp_line :: "string \<Rightarrow> (string \<times> string) option" where
  "arp_line line =
     (case text_fields [] line of
        ip # _ # flags # hw # _ \<Rightarrow>
          (let mac = lower_string hw in
           if \<not> hasCompleteFlag flags \<or> mac = [] \<or> mac = ''00:00:00:00:00:00'' \<or> \<not> looksLikeMAC mac then None else Some (ip, mac))
      | _ \<Rightarrow> None)"

definition parseARP :: "string \<Rightarrow> string \<Rightarrow> string option" where
  "parseARP body = foldl (\<lambda>m (k, v). m(k \<mapsto> v)) Map.empty (List.map_filter arp_line (tl (split_byte (CHR 0x0A) body)))"

definition arpTable :: "string option list \<Rightarrow> string \<Rightarrow> string option" where
  "arpTable paths = (case find (\<lambda>p. p \<noteq> None) paths of Some (Some body) \<Rightarrow> parseARP body | _ \<Rightarrow> Map.empty)"

section \<open>What a machine is\<close>

datatype os = OSWindows | OSLinux | OSMac | OSUnknown

datatype confidence = High | Medium | Low

record signals =
  sn_open :: "int list"
  sn_banner :: string
  sn_rdp :: bool

record guess =
  gs_os :: os
  gs_distro :: string
  gs_confidence :: confidence
  gs_why :: "string list"

fun contains_text :: "string \<Rightarrow> string \<Rightarrow> bool" where
  "contains_text [] w \<longleftrightarrow> w = []"
| "contains_text (c # s) w \<longleftrightarrow> has_prefix (c # s) w \<or> contains_text s w"

definition to_lower :: "(rune \<Rightarrow> rune) \<Rightarrow> string \<Rightarrow> string" where
  "to_lower lc s = string_of_runes (map (\<lambda>r. if r < 128 then ascii_lower r else lc r) (runes s))"

definition cut_text :: "string \<Rightarrow> nat \<Rightarrow> string" where
  "cut_text s n = (if length s \<le> n then s else take n s @ utf8 0x2026)"

fun small_itoa_digits :: "nat \<Rightarrow> int \<Rightarrow> string option" where
  "small_itoa_digits room n = (if n \<le> 0 then Some [] else case room of 0 \<Rightarrow> None
     | Suc k \<Rightarrow> map_option (\<lambda>ds. ds @ [char_of (48 + nat (n mod 10))]) (small_itoa_digits k (n div 10)))"

text \<open>The buffer has eight bytes; a longer number would index in front of it.\<close>

definition small_itoa :: "int \<Rightarrow> string option" where
  "small_itoa n = (if n = 0 then Some ''0'' else small_itoa_digits 8 n)"

definition join_text :: "string \<Rightarrow> string list \<Rightarrow> string" where
  "join_text sep ps = (case ps of [] \<Rightarrow> [] | p # qs \<Rightarrow> p @ concat (map (\<lambda>q. sep @ q) qs))"

definition joinPorts :: "int list \<Rightarrow> string" where
  "joinPorts ports = join_text '', '' (map (the \<circ> small_itoa) (sort ports))"

definition ssh_names :: "(string \<times> os \<times> string) list" where
  "ssh_names = [(''raspbian'', OSLinux, ''Raspberry Pi OS''), (''ubuntu'', OSLinux, ''Ubuntu''), (''debian'', OSLinux, ''Debian''),
     (''freebsd'', OSLinux, ''FreeBSD''), (''windows'', OSWindows, ''Windows''), (''_for_windows'', OSWindows, ''Windows'')]"

definition from_ssh :: "(rune \<Rightarrow> rune) \<Rightarrow> string \<Rightarrow> guess \<Rightarrow> guess" where
  "from_ssh lc raw g =
     (let banner = trim_space raw in
      if banner = [] then g
      else
        (let g1 = g\<lparr>gs_os := OSLinux, gs_confidence := Medium, gs_why := gs_why g @ [''answers SSH: '' @ cut_text banner 60]\<rparr>;
             g2 = (case find (\<lambda>(w, _, _). contains_text (to_lower lc banner) w) ssh_names of
                     None \<Rightarrow> g1
                   | Some (w, os, distro) \<Rightarrow>
                       (let g' = g1\<lparr>gs_os := os, gs_distro := distro, gs_confidence := High\<rparr> in
                        if w = ''windows'' then g'\<lparr>gs_why := gs_why g' @ [''the SSH greeting names Windows'']\<rparr> else g')) in
         if gs_distro g2 \<noteq> [] \<and> gs_os g2 = OSLinux then g2\<lparr>gs_why := gs_why g2 @ [''the greeting names '' @ gs_distro g2]\<rparr> else g2))"

definition from_rdp :: "guess \<Rightarrow> guess" where
  "from_rdp g =
     (let g1 = g\<lparr>gs_os := OSWindows, gs_confidence := High, gs_why := gs_why g @ [''answers a Remote Desktop negotiation on 3389'']\<rparr> in
      if gs_distro g1 \<in> set [[], ''Debian'', ''Ubuntu''] then
        (if gs_distro g1 \<noteq> []
         then g1\<lparr>gs_why := gs_why g1 @ [''but SSH says '' @ gs_distro g1 @ CHR '' '' # utf8 0x2014 @ '' probably xrdp''],
                 gs_os := OSLinux, gs_confidence := Medium\<rparr>
         else g1\<lparr>gs_distro := ''Windows''\<rparr>)
      else g1)"

definition windows_ports :: "string \<Rightarrow> confidence \<Rightarrow> guess \<Rightarrow> guess" where
  "windows_ports why conf g = g\<lparr>gs_os := OSWindows, gs_distro := ''Windows'', gs_confidence := conf, gs_why := gs_why g @ [why]\<rparr>"

definition from_ports :: "int list \<Rightarrow> guess \<Rightarrow> guess" where
  "from_ports open g =
     (let has = (\<lambda>p. p \<in> set open) in
      if gs_os g \<noteq> OSUnknown then g
      else if has 5985 \<or> has 5986 then windows_ports ''answers on the Windows remote-management port'' High g
      else if has 445 \<and> has 139 then windows_ports ''answers on the Windows file-sharing ports'' Medium g
      else if has 3389 then windows_ports ''port 3389 is open'' Medium g
      else if has 548 \<or> (has 88 \<and> has 445)
        then g\<lparr>gs_os := OSMac, gs_confidence := Low, gs_why := gs_why g @ [''answers on ports macOS file sharing uses'']\<rparr>
      else g)"

definition no_guess :: guess where
  "no_guess = \<lparr>gs_os = OSUnknown, gs_distro = [], gs_confidence = Low, gs_why = []\<rparr>"

definition Identify :: "(rune \<Rightarrow> rune) \<Rightarrow> signals \<Rightarrow> guess" where
  "Identify lc s =
     (let g1 = from_ssh lc (sn_banner s) no_guess;
          g2 = (if sn_rdp s then from_rdp g1 else g1);
          g3 = from_ports (sn_open s) g2 in
      if gs_why g3 = [] \<and> sn_open s \<noteq> []
      then g3\<lparr>gs_why := [''answered on '' @ joinPorts (sn_open s) @ '' but did not identify itself'']\<rparr> else g3)"

definition CanRDP :: "signals \<Rightarrow> bool" where
  "CanRDP s \<longleftrightarrow> sn_rdp s \<or> 3389 \<in> set (sn_open s)"

section \<open>Asking a port\<close>

datatype probe_kind = ProbeNone | ProbeSSH | ProbeRDP

definition DefaultPorts :: "int list" where
  "DefaultPorts = [3389, 22, 445, 139, 5985, 80, 443]"

definition DefaultRoles :: "int \<Rightarrow> probe_kind" where
  "DefaultRoles p = (if p = 22 then ProbeSSH else if p = 3389 then ProbeRDP else ProbeNone)"

text \<open>
  What a port that takes connections does: the text up to the first line end, whether reading it ended
  in an error, whether it takes the negotiation request, and the chunks it answers with, each with or without an error.
\<close>

record port_answer =
  pa_line :: string
  pa_line_broken :: bool
  pa_takes :: bool
  pa_chunks :: "(bytes \<times> bool) list"

type_synonym network = "32 word \<Rightarrow> int \<Rightarrow> port_answer option"

definition trimCRLF :: "string \<Rightarrow> string" where
  "trimCRLF s = rev (dropWhile (\<lambda>c. c = CHR 0x0A \<or> c = CHR 0x0D) (rev s))"

definition readSSHBanner :: "port_answer \<Rightarrow> string" where
  "readSSHBanner a =
     (if pa_line_broken a \<and> pa_line a = [] then []
      else let line = trimCRLF (pa_line a) in if \<not> has_prefix line ''SSH-'' then [] else cut_text line 200)"

definition negotiation_request :: bytes where
  "negotiation_request = [0x03, 0x00, 0x00, 0x13, 0x0e, 0xe0, 0x00, 0x00, 0x00, 0x00, 0x00, 0x01, 0x00, 0x08, 0x00, 0x03, 0x00, 0x00, 0x00]"

text \<open>\<open>readAtLeast\<close>: a read gives no more than there is room for; one that gives nothing ends the loop.\<close>

fun readAtLeast :: "nat \<Rightarrow> nat \<Rightarrow> bytes \<Rightarrow> (bytes \<times> bool) list \<Rightarrow> bytes \<times> bool" where
  "readAtLeast room least got [] = (got, length got < least)"
| "readAtLeast room least got ((chunk, bad) # later) =
     (if least \<le> length got then (got, False)
      else let now = take (room - length got) chunk in
        if bad then (got @ now, True)
        else if now = [] then (got, False)
        else readAtLeast room least (got @ now) later)"

definition rdpNegotiate :: "port_answer \<Rightarrow> bool" where
  "rdpNegotiate a \<longleftrightarrow> pa_takes a \<and>
     (case readAtLeast 19 6 [] (pa_chunks a) of (resp, bad) \<Rightarrow> \<not> bad \<and> 6 \<le> length resp \<and> resp ! 0 = 0x03 \<and> resp ! 5 = 0xd0)"

section \<open>A machine\<close>

record host =
  ho_ip :: string
  ho_mac :: string
  ho_hostname :: string
  ho_open :: "int list"
  ho_os :: os
  ho_distro :: string
  ho_confidence :: confidence
  ho_why :: "string list"
  ho_suggested :: bool
  ho_wakeable :: bool

record scanner =
  sc_ports :: "int list"
  sc_roles :: "int \<Rightarrow> probe_kind"

definition default_scanner :: scanner where
  "default_scanner = \<lparr>sc_ports = DefaultPorts, sc_roles = DefaultRoles\<rparr>"

definition collect :: "scanner \<Rightarrow> network \<Rightarrow> 32 word \<Rightarrow> signals" where
  "collect sc N ip =
     (let open = sort (filter (\<lambda>p. N ip p \<noteq> None) (sc_ports sc));
          banners = filter (\<lambda>b. b \<noteq> []) (map (\<lambda>p. readSSHBanner (the (N ip p))) (filter (\<lambda>p. sc_roles sc p = ProbeSSH) open)) in
      \<lparr>sn_open = open, sn_banner = (case banners of [] \<Rightarrow> [] | b # _ \<Rightarrow> b),
       sn_rdp = list_ex (\<lambda>p. sc_roles sc p = ProbeRDP \<and> rdpNegotiate (the (N ip p))) open\<rparr>)"

definition probe :: "(rune \<Rightarrow> rune) \<Rightarrow> scanner \<Rightarrow> network \<Rightarrow> 32 word \<Rightarrow> host option" where
  "probe lc sc N ip =
     (let sigs = collect sc N ip; g = Identify lc sigs in
      if sn_open sigs = [] then None
      else Some \<lparr>ho_ip = v4_text ip, ho_mac = [], ho_hostname = [], ho_open = sn_open sigs, ho_os = gs_os g, ho_distro = gs_distro g,
                 ho_confidence = gs_confidence g, ho_why = gs_why g, ho_suggested = CanRDP sigs, ho_wakeable = False\<rparr>)"

definition attachHardware :: "(string \<Rightarrow> string option) \<Rightarrow> host \<Rightarrow> host" where
  "attachHardware table h =
     (case table (ho_ip h) of
        Some mac \<Rightarrow> h\<lparr>ho_mac := mac, ho_wakeable := True\<rparr>
      | None \<Rightarrow> h\<lparr>ho_why := ho_why h @ [''no hardware address '' @ utf8 0x2014 @
          '' it cannot be woken from here, only reached while it is already on'']\<rparr>)"

definition trimTrailingDot :: "string \<Rightarrow> string" where
  "trimTrailingDot s = (if s \<noteq> [] \<and> List.last s = CHR ''.'' then butlast s else s)"

definition reverseDNS :: "(string \<Rightarrow> string list option) \<Rightarrow> string \<Rightarrow> string" where
  "reverseDNS names ip = (case names ip of Some (n # _) \<Rightarrow> trimTrailingDot n | _ \<Rightarrow> [])"

definition lessIP :: "string \<Rightarrow> string \<Rightarrow> bool" where
  "lessIP a b =
     (case (parse_addr a, parse_addr b) of
        (Some (V4 x), Some (V4 y)) \<Rightarrow> x < y
      | (Some (V4 _), Some (V6 _)) \<Rightarrow> True
      | (Some (V6 _), Some (V4 _)) \<Rightarrow> False
      | (Some (V6 x), Some (V6 y)) \<Rightarrow> x < y
      | _ \<Rightarrow> a < b)"

section \<open>nmap\<close>

record nmap_service =
  nm_port :: int
  nm_name :: string
  nm_product :: string
  nm_version :: string
  nm_extra :: string
  nm_ostype :: string

text \<open>The report as \<open>encoding/xml\<close> reads it.\<close>

record xml_port =
  xp_id :: string
  xp_state :: string
  xp_service :: nmap_service

record xml_host =
  xh_addresses :: "(string \<times> string) list"
  xh_ports :: "xml_port list"

definition atoiStrict :: "string \<Rightarrow> int option" where
  "atoiStrict s =
     (if s = [] \<or> \<not> list_all is_digit s then None
      else Some (foldl (\<lambda>n c. wrap64 (n * 10 + int (byte_val c - 48))) 0 s))"

definition usable_service :: "xml_port \<Rightarrow> nmap_service option" where
  "usable_service p =
     (if xp_state p \<noteq> ''open'' then None
      else case atoiStrict (xp_id p) of None \<Rightarrow> None
        | Some port \<Rightarrow>
            if nm_name (xp_service p) = [] \<and> nm_product (xp_service p) = [] \<and> nm_ostype (xp_service p) = [] then None
            else Some ((xp_service p)\<lparr>nm_port := port\<rparr>))"

definition report_address :: "xml_host \<Rightarrow> string" where
  "report_address h = (case find (\<lambda>(a, t). t \<in> set [''ipv4'', ''ipv6'']) (xh_addresses h) of None \<Rightarrow> [] | Some (a, _) \<Rightarrow> a)"

definition parseNmapXML :: "xml_host list \<Rightarrow> string \<Rightarrow> nmap_service list option" where
  "parseNmapXML run = foldl (\<lambda>m h.
     let ip = report_address h; services = List.map_filter usable_service (xh_ports h) in
     if ip = [] \<or> services = [] then m else m(ip \<mapsto> services)) Map.empty run"

text \<open>The arguments of the one call: fixed but for the ports and the addresses.\<close>

definition nmap_args :: "string list \<Rightarrow> int list \<Rightarrow> string list" where
  "nmap_args targets ports =
     [''-sT'', ''-sV'', ''--version-light'', ''-Pn'', ''-p'', joinPorts ports, ''-oX'', ''-'', ''-T4''] @ targets"

definition nmap_targets :: "host list \<Rightarrow> string list" where
  "nmap_targets hosts = List.map_filter (\<lambda>h. map_option ip_text (parse_addr (ho_ip h))) hosts"

definition nmap_ports :: "host list \<Rightarrow> int list" where
  "nmap_ports hosts = sort (remdups (concat (map ho_open hosts)))"

definition confidenceRank :: "confidence \<Rightarrow> nat" where
  "confidenceRank c = (case c of High \<Rightarrow> 2 | Medium \<Rightarrow> 1 | Low \<Rightarrow> 0)"

definition title_word :: "string \<Rightarrow> string" where
  "title_word w = (case w of [] \<Rightarrow> [] | c # cs \<Rightarrow> char_of (ascii_upper (of_char c)) # cs)"

definition titleCase :: "string \<Rightarrow> string" where
  "titleCase s = join_byte (CHR '' '') (map title_word (text_fields [] s))"

definition windows_markers :: "string list" where
  "windows_markers = [''windows server 2022'', ''windows server 2019'', ''windows server 2016'', ''windows server 2012'',
     ''windows server 2008'', ''windows 11'', ''windows 10'', ''windows 8'', ''windows 7'', ''windows vista'', ''windows xp'']"

definition windowsVersionFrom :: "string \<Rightarrow> string" where
  "windowsVersionFrom lower =
     (case find (contains_text lower) windows_markers of
        Some m \<Rightarrow> titleCase m
      | None \<Rightarrow> if contains_text lower ''windows'' then ''Windows'' else [])"

definition firstNonEmpty :: "string list \<Rightarrow> string" where
  "firstNonEmpty vals = (case find (\<lambda>v. v \<noteq> []) vals of Some v \<Rightarrow> v | None \<Rightarrow> ''an open port'')"

definition nmapGuess :: "(rune \<Rightarrow> rune) \<Rightarrow> nmap_service \<Rightarrow> os \<times> string \<times> confidence \<times> string" where
  "nmapGuess lc v =
     (let lower = to_lower lc (nm_product v @ '' '' @ nm_extra v @ '' '' @ nm_version v);
          ostype = to_lower lc (nm_ostype v);
          says = (\<lambda>w. ''nmap: port '' @ decimal_int (nm_port v) @ w);
          seen = firstNonEmpty [nm_product v, nm_name v];
          has = contains_text lower in
      if ostype = ''windows'' then (OSWindows, windowsVersionFrom lower, High, says ('' looks like Windows ('' @ seen @ '')''))
      else if ostype = ''linux'' then (OSLinux, [], Medium, says ('' looks like Linux ('' @ seen @ '')''))
      else if ostype = ''mac os x'' \<or> ostype = ''macos'' then (OSMac, [], Medium, says ('' looks like macOS ('' @ seen @ '')''))
      else if has ''samba'' then (OSLinux, ''Samba (Linux)'', Medium, says '' is Samba, not Windows, serving the same ports'')
      else if has ''microsoft terminal services'' \<or> has ''ms-wbt-server''
        then (OSWindows, windowsVersionFrom lower, High, says '' identifies as Microsoft Terminal Services'')
      else if has ''microsoft windows rpc'' \<or> has ''microsoft-ds''
        then (OSWindows, windowsVersionFrom lower, Medium, says '' identifies as a Windows service'')
      else if has ''microsoft'' \<or> has ''windows''
        then (OSWindows, windowsVersionFrom lower, Medium, says '' names Microsoft in its version string'')
      else (OSUnknown, [], Low, []))"

definition refine_one :: "(rune \<Rightarrow> rune) \<Rightarrow> host \<Rightarrow> nmap_service \<Rightarrow> host" where
  "refine_one lc h v =
     (case nmapGuess lc v of (os, distro, conf, reason) \<Rightarrow>
        let h1 = (if reason \<noteq> [] then h\<lparr>ho_why := ho_why h @ [reason]\<rparr> else h) in
        if os = OSUnknown then h1
        else if ho_os h1 = OSUnknown \<or> confidenceRank (ho_confidence h1) < confidenceRank conf
          then (let h2 = h1\<lparr>ho_os := os, ho_confidence := conf\<rparr> in if distro \<noteq> [] then h2\<lparr>ho_distro := distro\<rparr> else h2)
        else h1)"

definition refineWithNmap :: "(rune \<Rightarrow> rune) \<Rightarrow> host \<Rightarrow> nmap_service list \<Rightarrow> host" where
  "refineWithNmap lc = foldl (refine_one lc)"

text \<open>\<open>run\<close>: what nmap reports when it is called with these arguments; \<open>None\<close> when it is not installed or fails.\<close>

definition enrichWithNmap :: "(rune \<Rightarrow> rune) \<Rightarrow> (string list \<Rightarrow> xml_host list option) \<Rightarrow> host list \<Rightarrow> host list" where
  "enrichWithNmap lc run hosts =
     (let targets = nmap_targets hosts; ports = nmap_ports hosts in
      if targets = [] \<or> ports = [] then hosts
      else case run (nmap_args targets ports) of None \<Rightarrow> hosts
        | Some report \<Rightarrow>
            map (\<lambda>h. case parseNmapXML report (ho_ip h) of None \<Rightarrow> h | Some vs \<Rightarrow> refineWithNmap lc h vs) hosts)"

section \<open>Sweeping\<close>

text \<open>Everything outside: the ports, the kernel's table after the connections, the names, nmap, and the case table.\<close>

record surroundings =
  su_network :: network
  su_arp :: "string option list"
  su_names :: "string \<Rightarrow> string list option"
  su_nmap :: "string list \<Rightarrow> xml_host list option"
  su_lower :: "rune \<Rightarrow> rune"

definition attach_name :: "surroundings \<Rightarrow> host \<Rightarrow> host" where
  "attach_name E h = h\<lparr>ho_hostname := reverseDNS (su_names E) (ho_ip h)\<rparr>"

text \<open>Machines answer in any order; the last step brings them into the order of their addresses, which is the one they were asked in.\<close>

definition Sweep :: "surroundings \<Rightarrow> scanner \<Rightarrow> string \<Rightarrow> range_error + host list" where
  "Sweep E sc cidr =
     (case Expand cidr of
        Inl e \<Rightarrow> Inl e
      | Inr addrs \<Rightarrow>
          Inr (enrichWithNmap (su_lower E) (su_nmap E) (map (attach_name E \<circ> attachHardware (arpTable (su_arp E)))
            (List.map_filter (probe (su_lower E) sc (su_network E)) addrs))))"

definition silent_host :: "scanner \<Rightarrow> 32 word \<Rightarrow> host" where
  "silent_host sc ip =
     \<lparr>ho_ip = v4_text ip, ho_mac = [], ho_hostname = [], ho_open = [], ho_os = OSUnknown, ho_distro = [], ho_confidence = Low,
      ho_why = [''nothing answered on '' @ joinPorts (sc_ports sc) @ CHR '' '' # utf8 0x2014 @ '' the machine may be asleep or firewalled''],
      ho_suggested = False, ho_wakeable = False\<rparr>"

definition Probe_host :: "surroundings \<Rightarrow> scanner \<Rightarrow> string \<Rightarrow> range_error + host" where
  "Probe_host E sc ip =
     (case parse_addr ip of
        None \<Rightarrow> Inl NotANetwork
      | Some (V4 a) \<Rightarrow>
          (let h = (case probe (su_lower E) sc (su_network E) a of Some h \<Rightarrow> h | None \<Rightarrow> silent_host sc a) in
           Inr (hd (enrichWithNmap (su_lower E) (su_nmap E) [attach_name E (attachHardware (arpTable (su_arp E)) h)])))
      | Some _ \<Rightarrow> Inl NotIPv4)"

end
