(* ===== verification/Portal_Pages.thy ===== *)
theory Portal_Pages
  imports Portal_Settings Audit_Log Discover
begin

text \<open>
  The pages of \<open>internal/api/api.go\<close> that show the gateway: targets and their state, unlocking, the
  connection file, the history, the running configuration, and the set-up status.  A connection file is
  no JSON, so it has an answer of its own.  The second chapter holds the pages of \<open>discover.go\<close> and the access log.
\<close>

section \<open>Targets\<close>

definition Status :: "env \<Rightarrow> target \<Rightarrow> string act" where
  "Status E t = do {
     busy \<leftarrow> World.ask (\<lambda>n. x_waking E n (t_id t));
     if busy then ret ''waking''
     else do { up \<leftarrow> World.ask (\<lambda>n. x_alive E n (Addr t)); ret (if up then ''online'' else ''offline'') }
   }"

definition target_view :: "env \<Rightarrow> target \<Rightarrow> json act" where
  "target_view E t = do {
     st \<leftarrow> Status E t;
     ret (JObj [(''id'', JInt (t_id t)), (''name'', JStr (t_name t)), (''hostname'', JStr (t_hostname t)),
       (''ip'', JStr (t_ip t)), (''rdp_port'', JInt (t_rdp_port t)), (''mac'', JStr (t_mac t)),
       (''wol_broadcast'', JStr (t_wol_broadcast t)), (''boot_timeout_s'', JInt (t_boot_timeout t)),
       (''notes'', JStr (t_notes t)), (''state'', JStr st)])
   }"

fun target_views :: "env \<Rightarrow> target list \<Rightarrow> json list act" where
  "target_views E [] = ret []"
| "target_views E (t # ts) = do { v \<leftarrow> target_view E t; vs \<leftarrow> target_views E ts; ret (v # vs) }"

definition handleTargets :: "env \<Rightarrow> pages \<Rightarrow> user \<Rightarrow> handler" where
  "handleTargets E G u r = do {
     ts \<leftarrow> query (\<lambda>d. Inr (ListTargetsForUser u d));
     case ts of
       Inl _ \<Rightarrow> serverError
     | Inr mine \<Rightarrow> do {
         out \<leftarrow> target_views E mine;
         gw \<leftarrow> publicGateway G;
         send [] [(''targets'', JArr out), (''gateway'', JStr gw)]
       }
   }"

definition handleListTargets :: "env \<Rightarrow> user \<Rightarrow> handler" where
  "handleListTargets E u r = do {
     ts \<leftarrow> query (\<lambda>d. Inr (ListTargets d));
     case ts of
       Inl _ \<Rightarrow> serverError
     | Inr every \<Rightarrow> do { out \<leftarrow> target_views E every; send [] [(''targets'', JArr out)] }
   }"

text \<open>One push of \<open>handleEvents\<close>: the text put on the stream, or the end of it.\<close>

definition push_targets :: "env \<Rightarrow> user \<Rightarrow> string option act" where
  "push_targets E u = do {
     ts \<leftarrow> query (\<lambda>d. Inr (ListTargetsForUser u d));
     case ts of
       Inl _ \<Rightarrow> ret None
     | Inr mine \<Rightarrow> do {
         out \<leftarrow> target_views E mine;
         ret (case marshal (JObj [(''targets'', JArr out)]) of None \<Rightarrow> None
              | Some s \<Rightarrow> Some (''event: targets'' @ newline @ ''data: '' @ s @ newline @ newline))
       }
   }"

text \<open>\<open>ticks\<close> is how often the ticker fires before the client goes.\<close>

fun handleEvents :: "env \<Rightarrow> user \<Rightarrow> nat \<Rightarrow> string list act" where
  "handleEvents E u 0 = do { p \<leftarrow> push_targets E u; ret (case p of None \<Rightarrow> [] | Some s \<Rightarrow> [s]) }"
| "handleEvents E u (Suc ticks) = do {
     p \<leftarrow> push_targets E u;
     case p of None \<Rightarrow> ret [] | Some s \<Rightarrow> do { more \<leftarrow> handleEvents E u ticks; ret (s # more) }
   }"

definition handleUnlock :: "env \<Rightarrow> portal \<Rightarrow> pages \<Rightarrow> user \<Rightarrow> handler" where
  "handleUnlock E P G u r =
     (case pathID r of None \<Rightarrow> fail_with 400 ''invalid id''
      | Some tid \<Rightarrow> do {
          res \<leftarrow> Unlock (pt_engine P) u tid (clientIP P r);
          case res of
            Inl _ \<Rightarrow> fail_with 403 ''not allowed to reach this target''
          | Inr tg \<Rightarrow> do {
              gw \<leftarrow> publicGateway G;
              v \<leftarrow> target_view E (fst tg);
              send [] [(''grant_id'', JInt (snd tg)), (''expires_in'', JInt (whole_seconds (cg_ttl (cf_grant (pg_cfg G))))),
                (''gateway'', JStr gw), (''target'', v)]
            }
        })"

definition handleTestWoL :: "(wol_error \<Rightarrow> string) \<Rightarrow> env \<Rightarrow> portal \<Rightarrow> user \<Rightarrow> handler" where
  "handleTestWoL reason E P u r =
     (case pathID r of None \<Rightarrow> fail_with 400 ''invalid id''
      | Some tid \<Rightarrow> do {
          rt \<leftarrow> query (TargetByID tid);
          case rt of
            Inl _ \<Rightarrow> fail_with 404 ''target not found''
          | Inr t \<Rightarrow> do {
              res \<leftarrow> TestWake E t;
              case res of
                Inl e \<Rightarrow> fail_with 400 (reason e)
              | Inr _ \<Rightarrow> do {
                  audit (u_username u) ''wol.sent'' (t_name t) (clientIP P r) [(''test'', ''true'')];
                  send [] [(''ok'', JBool True)]
                }
            }
        })"

section \<open>The connection file\<close>

definition safe_rune :: "rune \<Rightarrow> bool" where
  "safe_rune r \<longleftrightarrow> (97 \<le> r \<and> r \<le> 122) \<or> (65 \<le> r \<and> r \<le> 90) \<or> (48 \<le> r \<and> r \<le> 57) \<or> r = 45 \<or> r = 95"

definition safeFilename :: "string \<Rightarrow> string" where
  "safeFilename s =
     (let b = map (\<lambda>r. if safe_rune r then char_of r else CHR ''-'') (runes s) in if b = [] then ''connection'' else b)"

definition crlf :: string where
  "crlf = [CHR 0x0D, CHR 0x0A]"

fun join_lines :: "string list \<Rightarrow> string" where
  "join_lines [] = []"
| "join_lines [l] = l"
| "join_lines (l # ls) = l @ crlf @ join_lines ls"

definition rdp_lines :: "string \<Rightarrow> string \<Rightarrow> string list" where
  "rdp_lines host username =
     [''full address:s:'' @ host, ''username:s:'' @ username, ''prompt for credentials:i:1'',
      ''authentication level:i:2'', ''redirectclipboard:i:1'', ''audiomode:i:0'', ''screen mode id:i:2'', []]"

datatype file_answer = Refuse nat string | RdpFile string string

definition handleRDPFile :: "pages \<Rightarrow> user \<Rightarrow> request \<Rightarrow> file_answer act" where
  "handleRDPFile G u r =
     (case pathID r of None \<Rightarrow> ret (Refuse 400 ''invalid id'')
      | Some tid \<Rightarrow> do {
          ok \<leftarrow> Policy.reach u tid;
          if ok \<noteq> Inr True then ret (Refuse 403 ''not allowed to reach this target'')
          else do {
            rt \<leftarrow> query (TargetByID tid);
            case rt of
              Inl _ \<Rightarrow> ret (Refuse 404 ''target not found'')
            | Inr t \<Rightarrow> do {
                cfg \<leftarrow> wantedConfig G;
                ret (RdpFile (safeFilename (t_name t) @ ''.rdp'')
                  (join_lines (rdp_lines (JoinHostPort (publicHost G cfg) (decimal_int (PublicRDPPort cfg))) (u_username u))))
              }
          }
        })"

section \<open>History, configuration, set-up status\<close>

definition history_query :: "user \<Rightarrow> request \<Rightarrow> audit_query" where
  "history_query u r =
     \<lparr>qu_actor = (if is_admin u then [] else u_username u), qu_action = rq_query r ''action'', qu_since = None,
      qu_limit = atoiDefault (rq_query r ''limit'') 100\<rparr>"

text \<open>The detail column is shown as the JSON it holds; \<open>parsed\<close> reads it back.\<close>

definition history_json :: "(string \<Rightarrow> json) \<Rightarrow> audit_row \<Rightarrow> json" where
  "history_json parsed a =
     (let c = al_content a in
      JObj [(''id'', JInt (al_id a)), (''ts'', JStr (rfc3339 (au_ts c div 1000))), (''actor'', JStr (au_actor c)),
        (''action'', JStr (au_action c)), (''object'', JStr (au_object c)), (''src_ip'', JStr (au_src c)),
        (''detail'', parsed (au_detail c))])"

text \<open>\<open>listed\<close> is whether the query worked, \<open>verified\<close> how far the check of the chain got.\<close>

definition handleAudit ::
    "(string \<Rightarrow> json) \<Rightarrow> env \<Rightarrow> bool \<Rightarrow> nat option \<Rightarrow> audit_row list \<Rightarrow> user \<Rightarrow> handler" where
  "handleAudit parsed E listed verified rows u r =
     (if \<not> listed then serverError
      else send []
        ((''entries'', JArr (map (history_json parsed) (Audit_Log.List (history_query u r) rows))) #
         (if \<not> is_admin u then []
          else case Verify_log E verified rows of
            Inl _ \<Rightarrow> [(''chain'', JObj [(''intact'', JBool False), (''count'', JInt 0)])]
          | Inr (broken, n) \<Rightarrow> [(''chain'', JObj [(''intact'', JBool (broken = None)), (''count'', JInt (int n))])])))"

definition handleSettings :: "pages \<Rightarrow> user \<Rightarrow> handler" where
  "handleSettings G u r = do {
     gw \<leftarrow> publicGateway G;
     let c = pg_cfg G;
     send []
       [(''hostname'', JStr (cw_hostname (cf_web c))), (''relay_listen'', JStr (cr_listen (cf_relay c))), (''gateway'', JStr gw),
        (''grant_ttl_s'', JInt (whole_seconds (cg_ttl (cf_grant c)))),
        (''reuse_window_s'', JInt (whole_seconds (cg_reuse (cf_grant c)))),
        (''jit_enabled'', JBool (cj_enabled (cf_jit c))), (''jit_hold_timeout_s'', JInt (whole_seconds (cj_hold (cf_jit c)))),
        (''max_failures'', JInt (ca_max_failures (cf_auth c))), (''tarpit_s'', JInt (whole_seconds (cr_tarpit (cf_relay c)))),
        (''max_conns_per_ip'', JInt (cr_max_conns (cf_relay c))), (''rdgw_enabled'', JBool (cd_enabled (cf_rdgw c)))]
   }"

text \<open>\<open>BoolSetting\<close> answers with its default when the database fails.\<close>

definition handleSetupStatus :: "portal \<Rightarrow> pages \<Rightarrow> handler" where
  "handleSetupStatus P G r = do {
     n \<leftarrow> setupNeeded;
     case n of
       Inl _ \<Rightarrow> serverError
     | Inr needed \<Rightarrow> do {
         csrf \<leftarrow> NewCSRFToken (secure P r);
         gw \<leftarrow> publicGateway G;
         finished \<leftarrow> (if needed then ret False
            else do { b \<leftarrow> query (\<lambda>d. Inr (BoolSetting setupCompleteKey False d)); ret (b = Inr True) });
         send (snd csrf)
           [(''setup_required'', JBool needed), (''hostname'', JStr (cw_hostname (cf_web (pg_cfg G)))), (''gateway'', JStr gw),
            (''csrf'', JStr (fst csrf)), (''second_factor_required'', JBool (ca_second_factor (cf_auth (pg_cfg G)))),
            (''setup_complete'', JBool finished)]
       }
   }"

chapter \<open>Looking for machines\<close>

text \<open>
  \<open>internal/api/discover.go\<close>: the pages that look for machines to add, and \<open>accesslog.go\<close>: the line that is
  logged for each request.  What lies around the gateway is an input, and so is the wording of a refusal; a
  sweep that runs out of time is left out.
\<close>

section \<open>What is shown\<close>

definition OS_text :: "os \<Rightarrow> string" where
  "OS_text x = (case x of OSWindows \<Rightarrow> ''windows'' | OSLinux \<Rightarrow> ''linux'' | OSMac \<Rightarrow> ''macos'' | OSUnknown \<Rightarrow> ''unknown'')"

definition Confidence_text :: "confidence \<Rightarrow> string" where
  "Confidence_text c = (case c of High \<Rightarrow> ''high'' | Medium \<Rightarrow> ''medium'' | Low \<Rightarrow> ''low'')"

definition host_view :: "host \<Rightarrow> json" where
  "host_view h = JObj ([(''ip'', JStr (ho_ip h))] @ omit_empty (ho_mac h = []) (''mac'', JStr (ho_mac h)) @
     omit_empty (ho_hostname h = []) (''hostname'', JStr (ho_hostname h)) @
     [(''open_ports'', JArr (map JInt (ho_open h))), (''os'', JStr (OS_text (ho_os h)))] @
     omit_empty (ho_distro h = []) (''distro'', JStr (ho_distro h)) @
     [(''confidence'', JStr (Confidence_text (ho_confidence h))), (''why'', JArr (map JStr (ho_why h))),
      (''suggested'', JBool (ho_suggested h)), (''wakeable'', JBool (ho_wakeable h))])"

definition range_view :: "local_range \<Rightarrow> json" where
  "range_view l = JObj [(''interface'', JStr (lr_interface l)), (''cidr'', JStr (lr_cidr l)), (''address'', JStr (lr_address l)),
     (''hosts'', JInt (lr_hosts l)), (''too_large'', JBool (lr_too_large l))]"

text \<open>A slice nothing was appended to is \<open>nil\<close>, and goes out as \<open>null\<close>.\<close>

definition slice_view :: "json list \<Rightarrow> json" where
  "slice_view xs = (if xs = [] then JNull else JArr xs)"

definition knownAddresses :: "json act" where
  "knownAddresses = do {
     ts \<leftarrow> query (\<lambda>d. Inr (ListTargets d));
     ret (case ts of Inl _ \<Rightarrow> JArr [] | Inr saved \<Rightarrow> JArr (map JStr (filter (\<lambda>a. a \<noteq> []) (map t_ip saved))))
   }"

section \<open>The pages\<close>

definition handleDiscoverRanges :: "net_interface list option \<Rightarrow> bool \<Rightarrow> user \<Rightarrow> handler" where
  "handleDiscoverRanges ifs nmap u r =
     (case LocalRanges ifs of
        None \<Rightarrow> serverError
      | Some rs \<Rightarrow> send [] [(''ranges'', slice_view (map range_view rs)), (''limit'', JInt MaxHosts), (''nmap_available'', JBool nmap)])"

definition scan_shape :: shape where
  "scan_shape = SStruct [(''cidr'', SString)]"

definition handleDiscoverScan :: "(string \<Rightarrow> range_error \<Rightarrow> string) \<Rightarrow> surroundings \<Rightarrow> user \<Rightarrow> handler" where
  "handleDiscoverScan say E u r =
     (case decode scan_shape r of None \<Rightarrow> fail_with 400 ''malformed request body''
      | Some req \<Rightarrow>
          (let cidr = str_field ''cidr'' req in
           if cidr = [] then fail_with 400 (''no network to scan '' @ utf8 0x2014 @ '' pick one of the ranges this machine is on'')
           else case Sweep E default_scanner cidr of
               Inl e \<Rightarrow> fail_with 400 (say cidr e)
             | Inr hosts \<Rightarrow> do { known \<leftarrow> knownAddresses; send [] [(''hosts'', slice_view (map host_view hosts)), (''known'', known)] }))"

definition address_shape :: shape where
  "address_shape = SStruct [(''ip'', SString)]"

definition handleDiscoverHost :: "(string \<Rightarrow> range_error \<Rightarrow> string) \<Rightarrow> surroundings \<Rightarrow> user \<Rightarrow> handler" where
  "handleDiscoverHost say E u r =
     (case decode address_shape r of None \<Rightarrow> fail_with 400 ''malformed request body''
      | Some req \<Rightarrow>
          (case Probe_host E default_scanner (str_field ''ip'' req) of
             Inl e \<Rightarrow> fail_with 400 (say (str_field ''ip'' req) e)
           | Inr h \<Rightarrow> do { known \<leftarrow> knownAddresses; send [] [(''hosts'', JArr [host_view h]), (''known'', known)] }))"

section \<open>The access log\<close>

record status_writer =
  sw_status :: nat
  sw_written :: int
  sw_wrote :: bool

datatype write_call = CallHeader nat | CallWrite nat

definition WriteHeader :: "nat \<Rightarrow> status_writer \<Rightarrow> status_writer" where
  "WriteHeader code w = (if sw_wrote w then w else w\<lparr>sw_wrote := True, sw_status := code\<rparr>)"

text \<open>\<open>n\<close> is how much of the text the connection took.\<close>

definition Write_body :: "nat \<Rightarrow> status_writer \<Rightarrow> status_writer" where
  "Write_body n w = (let w1 = (if \<not> sw_wrote w then WriteHeader 200 w else w) in w1\<lparr>sw_written := wrap64 (sw_written w1 + int n)\<rparr>)"

definition written_by :: "write_call list \<Rightarrow> status_writer" where
  "written_by calls =
     foldl (\<lambda>w c. case c of CallHeader code \<Rightarrow> WriteHeader code w | CallWrite n \<Rightarrow> Write_body n w)
       \<lparr>sw_status = 200, sw_written = 0, sw_wrote = False\<rparr> calls"

datatype log_level = LogInfo | LogWarn | LogError

datatype log_value = LogText string | LogNumber int

definition withAccessLog ::
    "portal \<Rightarrow> request \<Rightarrow> string \<Rightarrow> string \<Rightarrow> int \<Rightarrow> string \<Rightarrow> write_call list \<Rightarrow> log_level \<times> (string \<times> log_value) list" where
  "withAccessLog P r meth path took who calls =
     (let sw = written_by calls in
      (if 500 \<le> sw_status sw then LogError else if 400 \<le> sw_status sw then LogWarn else LogInfo,
       [(''method'', LogText meth), (''path'', LogText path), (''status'', LogNumber (int (sw_status sw))),
        (''bytes'', LogNumber (sw_written sw)), (''duration_ms'', LogNumber took), (''src'', LogText (ip_text (clientIP P r)))] @
       (if who = [] then [] else [(''user'', LogText who)])))"

text \<open>Only the first status of an answer counts, and 200 where none was given.\<close>

lemma first_status_counts:
  "sw_status (written_by calls) = (case calls of CallHeader code # _ \<Rightarrow> code | _ \<Rightarrow> 200)"
proof -
  have step: "sw_wrote w \<Longrightarrow> sw_status (foldl (\<lambda>w c. case c of CallHeader code \<Rightarrow> WriteHeader code w | CallWrite n \<Rightarrow> Write_body n w) w cs) = sw_status w" for w cs
    by (induction cs arbitrary: w) (simp_all add: WriteHeader_def Write_body_def Let_def split: write_call.splits)
  show ?thesis
    by (cases calls) (simp_all add: written_by_def step WriteHeader_def Write_body_def Let_def split: write_call.splits)
qed

text \<open>Where the machine is on no private network, the ranges are \<open>null\<close> and no list.\<close>

lemma ranges_may_be_null:
  "run_state (handleDiscoverRanges (Some []) False u r) w =
    run_state (send [] [(''ranges'', JNull), (''limit'', JInt 1024), (''nmap_available'', JBool False)]) w"
  by (simp add: handleDiscoverRanges_def LocalRanges_def slice_view_def MaxHosts_def)

chapter \<open>Routing\<close>

text \<open>
  \<open>Server.Handler\<close>: every route with the guard it is registered under and the handler behind it, and the headers each answer
  carries.  A path is the list of its segments, already clean; a segment in braces stands for any that is not empty.
\<close>

datatype route_guard = Anyone | DuringSetup | SignedIn | Administrator

type_synonym route_entry = "string \<times> string list \<times> route_guard \<times> string"

definition api_routes :: "route_entry list" where
  "api_routes =
     [(''POST'', [''api'', ''login''], Anyone, ''handleLogin''),
      (''POST'', [''api'', ''mfa''], Anyone, ''handleMFA''),
      (''POST'', [''api'', ''logout''], Anyone, ''handleLogout''),
      (''GET'', [''api'', ''setup'', ''status''], Anyone, ''handleSetupStatus''),
      (''POST'', [''api'', ''setup'', ''admin''], DuringSetup, ''handleSetupAdmin''),
      (''POST'', [''api'', ''setup'', ''enroll''], SignedIn, ''handleEnrollStart''),
      (''POST'', [''api'', ''setup'', ''enroll'', ''confirm''], SignedIn, ''handleEnrollConfirm''),
      (''POST'', [''api'', ''setup'', ''target''], Administrator, ''handleSetupTarget''),
      (''POST'', [''api'', ''setup'', ''complete''], SignedIn, ''handleSetupComplete''),
      (''POST'', [''api'', ''passkey'', ''login'', ''begin''], Anyone, ''handlePasskeyLoginBegin''),
      (''POST'', [''api'', ''passkey'', ''login'', ''finish''], Anyone, ''handlePasskeyLoginFinish''),
      (''GET'', [''api'', ''passkey''], SignedIn, ''handlePasskeyList''),
      (''POST'', [''api'', ''passkey'', ''register'', ''begin''], SignedIn, ''handlePasskeyRegisterBegin''),
      (''POST'', [''api'', ''passkey'', ''register'', ''finish''], SignedIn, ''handlePasskeyRegisterFinish''),
      (''DELETE'', [''api'', ''passkey'', ''{id}''], SignedIn, ''handlePasskeyDelete''),
      (''GET'', [''api'', ''me''], SignedIn, ''handleMe''),
      (''GET'', [''api'', ''targets''], SignedIn, ''handleTargets''),
      (''POST'', [''api'', ''targets'', ''{id}'', ''unlock''], SignedIn, ''handleUnlock''),
      (''GET'', [''api'', ''targets'', ''{id}'', ''rdpfile''], SignedIn, ''handleRDPFile''),
      (''GET'', [''api'', ''events''], SignedIn, ''handleEvents''),
      (''GET'', [''api'', ''sessions''], SignedIn, ''handleSessions''),
      (''GET'', [''api'', ''audit''], SignedIn, ''handleAudit''),
      (''GET'', [''api'', ''admin'', ''users''], Administrator, ''handleListUsers''),
      (''POST'', [''api'', ''admin'', ''users''], Administrator, ''handleCreateUser''),
      (''POST'', [''api'', ''admin'', ''users'', ''{id}'', ''status''], Administrator, ''handleUserStatus''),
      (''POST'', [''api'', ''admin'', ''users'', ''{id}'', ''targets''], Administrator, ''handleUserTargets''),
      (''GET'', [''api'', ''admin'', ''targets''], Administrator, ''handleListTargets''),
      (''POST'', [''api'', ''admin'', ''targets''], Administrator, ''handleCreateTarget''),
      (''POST'', [''api'', ''admin'', ''targets'', ''{id}'', ''testwol''], Administrator, ''handleTestWoL''),
      (''GET'', [''api'', ''admin'', ''settings''], Administrator, ''handleSettings''),
      (''GET'', [''api'', ''admin'', ''config''], Administrator, ''handleSettingsSchema''),
      (''POST'', [''api'', ''admin'', ''config''], Administrator, ''handleSettingsSave''),
      (''POST'', [''api'', ''admin'', ''restart''], Administrator, ''handleRestart''),
      (''POST'', [''api'', ''admin'', ''notify'', ''test''], Administrator, ''handleNotifyTest''),
      (''GET'', [''api'', ''admin'', ''network''], Administrator, ''handleNetwork''),
      (''POST'', [''api'', ''admin'', ''network'', ''check''], Administrator, ''handleNetworkCheck''),
      (''GET'', [''api'', ''admin'', ''discover'', ''ranges''], Administrator, ''handleDiscoverRanges''),
      (''POST'', [''api'', ''admin'', ''discover'', ''scan''], Administrator, ''handleDiscoverScan''),
      (''POST'', [''api'', ''admin'', ''discover'', ''host''], Administrator, ''handleDiscoverHost''),
      (''GET'', [''api'', ''update''], SignedIn, ''handleUpdateStatus''),
      (''POST'', [''api'', ''admin'', ''update'', ''check''], Administrator, ''handleUpdateCheck''),
      (''POST'', [''api'', ''admin'', ''update'', ''install''], Administrator, ''handleUpdateInstall''),
      (''POST'', [''api'', ''admin'', ''update'', ''settings''], Administrator, ''handleUpdateSettings'')]"

definition segment_matches :: "string \<Rightarrow> string \<Rightarrow> bool" where
  "segment_matches pat s \<longleftrightarrow> (if pat = ''{id}'' then s \<noteq> [] else pat = s)"

text \<open>A pattern for GET also answers HEAD.\<close>

definition route_matches :: "string \<Rightarrow> string list \<Rightarrow> route_entry \<Rightarrow> bool" where
  "route_matches meth path = (\<lambda>(m, pat, _, _). (meth = m \<or> (m = ''GET'' \<and> meth = ''HEAD'')) \<and> list_all2 segment_matches pat path)"

datatype served = Handled route_guard string | FrontEnd | NoRoute

definition Handler :: "bool \<Rightarrow> string \<Rightarrow> string list \<Rightarrow> served" where
  "Handler assets meth path =
     (case find (route_matches meth path) api_routes of
        Some (_, _, g, h) \<Rightarrow> Handled g h
      | None \<Rightarrow> if assets then FrontEnd else NoRoute)"

definition in_quotes :: "string \<Rightarrow> string" where
  "in_quotes s = squote # s @ [squote]"

definition content_policy :: string where
  "content_policy = ''default-src '' @ in_quotes ''self'' @ ''; script-src '' @ in_quotes ''self'' @ ''; style-src '' @
     in_quotes ''self'' @ '' '' @ in_quotes ''unsafe-inline'' @ ''; img-src '' @ in_quotes ''self'' @ '' data:; connect-src '' @
     in_quotes ''self'' @ ''; font-src '' @ in_quotes ''self'' @ ''; frame-ancestors '' @ in_quotes ''none'' @ ''; base-uri '' @
     in_quotes ''none'' @ ''; form-action '' @ in_quotes ''self''"

definition withSecurityHeaders :: "bool \<Rightarrow> string \<Rightarrow> (string \<times> string) list" where
  "withSecurityHeaders tls path =
     [(''Content-Security-Policy'', content_policy), (''X-Content-Type-Options'', ''nosniff''),
      (''Referrer-Policy'', ''no-referrer''), (''X-Frame-Options'', ''DENY''),
      (''Permissions-Policy'', ''geolocation=(), microphone=(), camera=()''), (''Cross-Origin-Opener-Policy'', ''same-origin'')] @
     (if tls then [(''Strict-Transport-Security'', ''max-age=31536000; includeSubDomains'')] else []) @
     (if has_prefix path ''/api/'' then [(''Cache-Control'', ''no-store'')] else [])"

text \<open>The table names each handler of \<open>portal_handler\<close>.\<close>

fun handler_name :: "route \<Rightarrow> string" where
  "handler_name RLogin = ''handleLogin''"
| "handler_name RMFA = ''handleMFA''"
| "handler_name RLogout = ''handleLogout''"
| "handler_name RSetupAdmin = ''handleSetupAdmin''"
| "handler_name REnroll = ''handleEnrollStart''"
| "handler_name REnrollConfirm = ''handleEnrollConfirm''"
| "handler_name RSetupTarget = ''handleSetupTarget''"
| "handler_name RSetupComplete = ''handleSetupComplete''"
| "handler_name RPasskeyLoginBegin = ''handlePasskeyLoginBegin''"
| "handler_name RPasskeyLoginFinish = ''handlePasskeyLoginFinish''"
| "handler_name RPasskeyList = ''handlePasskeyList''"
| "handler_name RPasskeyRegisterBegin = ''handlePasskeyRegisterBegin''"
| "handler_name RPasskeyRegisterFinish = ''handlePasskeyRegisterFinish''"
| "handler_name RPasskeyDelete = ''handlePasskeyDelete''"
| "handler_name RMe = ''handleMe''"
| "handler_name RSessions = ''handleSessions''"
| "handler_name RListUsers = ''handleListUsers''"
| "handler_name RCreateUser = ''handleCreateUser''"
| "handler_name RUserStatus = ''handleUserStatus''"
| "handler_name RUserTargets = ''handleUserTargets''"
| "handler_name RCreateTarget = ''handleCreateTarget''"

definition guard_of :: "string \<Rightarrow> route_guard option" where
  "guard_of h = map_option (\<lambda>(_, _, g, _). g) (find (\<lambda>(_, _, _, x). x = h) api_routes)"

text \<open>
  What the theorems about \<open>portal_handler\<close> rest on: each of its handlers stands behind the guard its route is registered
  under; everything under \<open>/api/admin\<close> is for administrators; what anyone may call is what leads to a session and the
  set-up status; and no path matches two routes, so that their order does not matter.
\<close>

lemma handlers_are_guarded:
  "(case guard_of (handler_name r) of
      Some Administrator \<Rightarrow> \<exists>h. portal_handler E P r = admin E P h
    | Some SignedIn \<Rightarrow> \<exists>h. portal_handler E P r = authed E P h
    | Some DuringSetup \<Rightarrow> \<exists>h. portal_handler E P r = openDuringSetup h
    | Some Anyone \<Rightarrow> r \<in> {RLogin, RMFA, RLogout, RPasskeyLoginBegin, RPasskeyLoginFinish}
    | None \<Rightarrow> False)"
  by (cases r) (auto simp: guard_of_def api_routes_def)

lemma admin_routes_need_admin:
  "list_all (\<lambda>(_, pat, g, _). take 2 pat = [''api'', ''admin''] \<longrightarrow> g = Administrator) api_routes"
  by code_simp

lemma open_routes:
  "map (\<lambda>(_, _, _, h). h) (filter (\<lambda>(_, _, g, _). g = Anyone) api_routes) =
     [''handleLogin'', ''handleMFA'', ''handleLogout'', ''handleSetupStatus'', ''handlePasskeyLoginBegin'', ''handlePasskeyLoginFinish'']"
  by code_simp

definition overlap :: "route_entry \<Rightarrow> route_entry \<Rightarrow> bool" where
  "overlap = (\<lambda>(m, p, _, _) (n, q, _, _). m = n \<and> list_all2 (\<lambda>a b. a = b \<or> a = ''{id}'' \<or> b = ''{id}'') p q)"

fun apart_from_each_other :: "route_entry list \<Rightarrow> bool" where
  "apart_from_each_other [] = True"
| "apart_from_each_other (r # rs) \<longleftrightarrow> list_all (\<lambda>s. \<not> overlap r s) rs \<and> apart_from_each_other rs"

lemma routes_apart: "apart_from_each_other api_routes"
  by code_simp

end
