(* ===== verification/Update_Apply.thy ===== *)
theory Update_Apply
  imports Update_Stage
begin

text \<open>
  \<open>internal/update/apply.go\<close>: the privileged half.  It verifies what is staged once more, keeps the installed
  binary, puts the new one in its place, restarts the service and watches it for a while; if that goes wrong it
  puts the old one back.  It also restarts the service on request and goes back to a kept binary by hand.
  The second chapter is \<open>cmd/revpd/update.go\<close>, which runs either half from the command line.
\<close>

section \<open>Options\<close>

text \<open>\<open>ao_os\<close> and \<open>ao_arch\<close> are what the binary was built for; the log function is left out.\<close>

record apply_options =
  ao_dir :: string
  ao_binary :: string
  ao_settle :: int
  ao_timeout :: int
  ao_os :: string
  ao_arch :: string

text \<open>\<open>self\<close> is the path of the running program with links resolved.\<close>

definition withDefaults :: "string \<Rightarrow> apply_options \<Rightarrow> apply_options" where
  "withDefaults self ao =
     (let a = (if ao_binary ao = [] then ao\<lparr>ao_binary := self\<rparr> else ao);
          b = (if ao_settle a \<le> 0 then a\<lparr>ao_settle := seconds 8\<rparr> else a) in
      if ao_timeout b \<le> 0 then b\<lparr>ao_timeout := seconds 90\<rparr> else b)"

definition orUnknown :: "string \<Rightarrow> string" where
  "orUnknown v = (if v = [] then ''unknown'' else v)"

section \<open>Files\<close>

definition dir_name :: "string \<Rightarrow> string" where
  "dir_name p = (case last_index_of (CHR ''/'') p of None \<Rightarrow> ''.'' | Some 0 \<Rightarrow> ''/'' | Some i \<Rightarrow> take i p)"

definition base_name :: "string \<Rightarrow> string" where
  "base_name p = (case last_index_of (CHR ''/'') p of None \<Rightarrow> p | Some i \<Rightarrow> drop (Suc i) p)"

definition new_path :: "string \<Rightarrow> string" where
  "new_path dest = (if dir_name dest = ''/'' then [] else dir_name dest) @ ''/.'' @ base_name dest @ ''.new''"

text \<open>Reading the source, writing the copy through to the disk, then its mode.\<close>

definition copyFile :: "string \<Rightarrow> string \<Rightarrow> ('s, bool) op" where
  "copyFile src dest = do {
     body \<leftarrow> read_file src;
     case body of
       Inl _ \<Rightarrow> yield_op False
     | Inr s \<Rightarrow> do {
         written \<leftarrow> write_file dest s;
         if \<not> written then yield_op False else attempt_op id
       }
   }"

definition installBinary :: "string \<Rightarrow> string \<Rightarrow> ('s, bool) op" where
  "installBinary src dest = do {
     copied \<leftarrow> copyFile src (new_path dest);
     if \<not> copied then do { remove_file (new_path dest); yield_op False }
     else do {
       renamed \<leftarrow> rename_file (new_path dest) dest;
       if renamed then yield_op True else do { remove_file (new_path dest); yield_op False }
     }
   }"

text \<open>Running a binary once: the second word it prints.\<close>

definition binaryVersion :: "site \<Rightarrow> string \<Rightarrow> ('s, string option) op" where
  "binaryVersion S path = do {
     body \<leftarrow> read_file path;
     yield_op (case body of
         Inl _ \<Rightarrow> None
       | Inr s \<Rightarrow> (case si_output S s of None \<Rightarrow> None
           | Some out \<Rightarrow> (case text_fields [] out of _ # v # _ \<Rightarrow> Some v | _ \<Rightarrow> None)))
   }"

section \<open>The service\<close>

text \<open>A restart that works runs what is installed; one that fails may leave anything running.\<close>

definition restart_unit :: "apply_options \<Rightarrow> ('s, bool) op" where
  "restart_unit ao = do {
     t \<leftarrow> next_trouble;
     case t of
       Works \<Rightarrow> do { change (\<lambda>m. m\<lparr>mc_running := data_at m (ao_binary ao)\<rparr>); yield_op True }
     | Breaks left \<Rightarrow> do { change (\<lambda>m. m\<lparr>mc_running := map_option fi_data (left (ao_binary ao))\<rparr>); yield_op False }
   }"

definition unitState :: "site \<Rightarrow> ('s, string) op" where
  "unitState S = State (\<lambda>m. (si_unit S (mc_tick m) (mc_running m), m\<lparr>mc_tick := Suc (mc_tick m)\<rparr>))"

datatype health = Healthy | FailedToStart | NotStable | Watching

text \<open>
  One look at the unit: since when it has been up without a break, and whether that settles the matter.
  \<open>wait_loop\<close> takes a look a second until the deadline.
\<close>

definition look :: "site \<Rightarrow> apply_options \<Rightarrow> time option \<Rightarrow> ('s, health \<times> time option) op" where
  "look S ao since = do {
     st \<leftarrow> unitState S;
     if st = ''active'' then do {
       up \<leftarrow> (case since of None \<Rightarrow> read_time | Some t \<Rightarrow> yield_op t);
       now \<leftarrow> read_time;
       yield_op (if ao_settle ao \<le> now - up then (Healthy, Some up) else (Watching, Some up))
     }
     else if st = ''failed'' then yield_op (FailedToStart, since)
     else yield_op (Watching, None)
   }"

fun wait_loop :: "nat \<Rightarrow> site \<Rightarrow> apply_options \<Rightarrow> time \<Rightarrow> time option \<Rightarrow> ('s, health) op" where
  "wait_loop 0 S ao deadline since = yield_op Watching"
| "wait_loop (Suc n) S ao deadline since = do {
     now \<leftarrow> read_time;
     if \<not> now < deadline then yield_op NotStable
     else do {
       r \<leftarrow> look S ao since;
       if fst r \<noteq> Watching then yield_op (fst r)
       else do { sleep (seconds 1); wait_loop n S ao deadline (snd r) }
     }
   }"

definition waitHealthy :: "site \<Rightarrow> apply_options \<Rightarrow> ('s, health) op" where
  "waitHealthy S ao = do {
     now \<leftarrow> read_time;
     wait_loop (Suc (Suc (nat (ao_timeout ao div seconds 1)))) S ao (now + ao_timeout ao) None
   }"

section \<open>The request\<close>

datatype apply_refusal = NoRequest | RequestUnreadable | RequestDiscarded

definition readRequest :: "string \<Rightarrow> ('s, apply_refusal + apply_request) op" where
  "readRequest path = do {
     body \<leftarrow> read_file path;
     case body of
       Inl NotExist \<Rightarrow> yield_op (Inl NoRequest)
     | Inl IoFailed \<Rightarrow> yield_op (Inl RequestUnreadable)
     | Inr s \<Rightarrow>
         (case read_doc request_slots no_request s of
            None \<Rightarrow> do { remove_file path; yield_op (Inl RequestDiscarded) }
          | Some req \<Rightarrow>
              if rq_version req = [] \<or> rq_sha256 req = [] then do { remove_file path; yield_op (Inl RequestDiscarded) }
              else yield_op (Inr req))
   }"

definition readManifest :: "site \<Rightarrow> string \<Rightarrow> ('s, staged_update option) op" where
  "readManifest S path = do {
     body \<leftarrow> read_file path;
     yield_op (case body of Inl _ \<Rightarrow> None | Inr s \<Rightarrow> read_doc (staged_slots (si_when S)) no_staged s)
   }"

section \<open>The outcome\<close>

text \<open>Why an update was not installed, or not kept.\<close>

datatype verdict =
    Incomplete | OtherVersion | Unreadable | HashMismatch | NotExecutable failure_report | DoesNotRun | OtherBuild
  | NoBackupDir | NoBackup | NotReplaced | RestartFailed | Unhealthy health | Installed | RestoreFailed

record apply_result =
  ar_version :: string
  ar_from :: string
  ar_verdict :: verdict
  ar_rolled_back :: bool
  ar_running_again :: bool

definition ar_ok :: "apply_result \<Rightarrow> bool" where
  "ar_ok r \<longleftrightarrow> ar_verdict r = Installed"

text \<open>\<open>words\<close> is the sentence for the person at the dashboard.\<close>

definition finish ::
    "site \<Rightarrow> (apply_result \<Rightarrow> string) \<Rightarrow> apply_options \<Rightarrow> apply_result \<Rightarrow> ('s, apply_result) op" where
  "finish S words ao res = do {
     now \<leftarrow> read_time;
     writeFileAtomic (in_dir (ao_dir ao) ''result.json'')
       (pretty 0 (result_json (si_when S) \<lparr>ur_version = ar_version res, ur_from = ar_from res, ur_ok = ar_ok res,
          ur_message = words res, ur_rolled_back = ar_rolled_back res, ur_at = Some now\<rparr>));
     remove_file (in_dir (ao_dir ao) ''apply.request'');
     yield_op res
   }"

definition refuse_update ::
    "site \<Rightarrow> (apply_result \<Rightarrow> string) \<Rightarrow> apply_options \<Rightarrow> string \<Rightarrow> string \<Rightarrow> verdict \<Rightarrow> ('s, apply_result) op" where
  "refuse_update S words ao version from v =
     finish S words ao \<lparr>ar_version = version, ar_from = from, ar_verdict = v, ar_rolled_back = False, ar_running_again = False\<rparr>"

definition rollback ::
    "site \<Rightarrow> (apply_result \<Rightarrow> string) \<Rightarrow> apply_options \<Rightarrow> string \<Rightarrow> string \<Rightarrow> string \<Rightarrow> verdict \<Rightarrow> ('s, apply_result) op" where
  "rollback S words ao backup version previous v = do {
     back \<leftarrow> installBinary backup (ao_binary ao);
     if \<not> back then refuse_update S words ao version previous v
     else do {
       again \<leftarrow> restart_unit ao;
       finish S words ao \<lparr>ar_version = version, ar_from = previous, ar_verdict = v, ar_rolled_back = True, ar_running_again = again\<rparr>
     }
   }"

text \<open>The exchange sort of \<open>pruneRollbacks\<close>: newest first.\<close>

fun pick_newest :: "string \<times> time \<Rightarrow> (string \<times> time) list \<Rightarrow> (string \<times> time) \<times> (string \<times> time) list" where
  "pick_newest x [] = (x, [])"
| "pick_newest x (y # ys) =
     (if snd x < snd y then (let (z, zs) = pick_newest y ys in (z, x # zs))
      else (let (z, zs) = pick_newest x ys in (z, y # zs)))"

lemma pick_newest_length: "length (snd (pick_newest x ys)) = length ys"
  by (induction x ys rule: pick_newest.induct) (auto simp: case_prod_unfold Let_def)

function newest_first :: "(string \<times> time) list \<Rightarrow> (string \<times> time) list" where
  "newest_first [] = []"
| "newest_first (x # xs) = (let (z, zs) = pick_newest x xs in z # newest_first zs)"
  by pat_completeness auto
termination
  by (relation "measure length") (auto, metis lessI pick_newest_length snd_conv)

fun remove_files :: "string list \<Rightarrow> ('s, unit) op" where
  "remove_files [] = yield_op ()"
| "remove_files (p # ps) = do { remove_file p; remove_files ps }"

definition pruneRollbacks :: "apply_options \<Rightarrow> ('s, unit) op" where
  "pruneRollbacks ao = do {
     entries \<leftarrow> list_dir (in_dir (ao_dir ao) ''rollback'');
     case entries of
       None \<Rightarrow> yield_op ()
     | Some es \<Rightarrow> if length es \<le> 2 then yield_op () else remove_files (map fst (drop 2 (newest_first es)))
   }"

section \<open>Installing\<close>

text \<open>From the moment the new binary is in place: restart, watch, keep it or go back.\<close>

definition take_over ::
    "site \<Rightarrow> (apply_result \<Rightarrow> string) \<Rightarrow> apply_options \<Rightarrow> string \<Rightarrow> string \<Rightarrow> string \<Rightarrow> ('s, apply_result) op" where
  "take_over S words ao backup version previous = do {
     up \<leftarrow> restart_unit ao;
     if \<not> up then rollback S words ao backup version previous RestartFailed
     else do {
       h \<leftarrow> waitHealthy S ao;
       if h \<noteq> Healthy then rollback S words ao backup version previous (Unhealthy h)
       else do {
         remove_tree (in_dir (ao_dir ao) ''staged'');
         pruneRollbacks ao;
         finish S words ao \<lparr>ar_version = version, ar_from = previous, ar_verdict = Installed, ar_rolled_back = False, ar_running_again = True\<rparr>
       }
     }
   }"

definition backup_path :: "apply_options \<Rightarrow> string \<Rightarrow> string" where
  "backup_path ao previous = in_dir (in_dir (ao_dir ao) ''rollback'') (''revpd-'' @ orUnknown previous)"

definition staged_path :: "apply_options \<Rightarrow> string" where
  "staged_path ao = in_dir (in_dir (ao_dir ao) ''staged'') ''revpd''"

definition place_binary ::
    "site \<Rightarrow> (apply_result \<Rightarrow> string) \<Rightarrow> apply_options \<Rightarrow> string \<Rightarrow> string \<Rightarrow> ('s, apply_result) op" where
  "place_binary S words ao version previous = do {
     placed \<leftarrow> installBinary (staged_path ao) (ao_binary ao);
     if \<not> placed then refuse_update S words ao version previous NotReplaced
     else take_over S words ao (backup_path ao previous) version previous
   }"

definition replace_binary ::
    "site \<Rightarrow> (apply_result \<Rightarrow> string) \<Rightarrow> apply_options \<Rightarrow> string \<Rightarrow> ('s, apply_result) op" where
  "replace_binary S words ao version = do {
     prev \<leftarrow> binaryVersion S (ao_binary ao);
     let previous = (case prev of None \<Rightarrow> [] | Some v \<Rightarrow> v);
     made \<leftarrow> make_dir;
     if \<not> made then refuse_update S words ao version previous NoBackupDir
     else do {
       kept \<leftarrow> copyFile (ao_binary ao) (backup_path ao previous);
       if \<not> kept then refuse_update S words ao version previous NoBackup
       else place_binary S words ao version previous
     }
   }"

text \<open>What the staged binary reports must be the version asked for, with or without its \<open>v\<close>.\<close>

definition try_staged ::
    "site \<Rightarrow> (apply_result \<Rightarrow> string) \<Rightarrow> apply_options \<Rightarrow> string \<Rightarrow> ('s, apply_result) op" where
  "try_staged S words ao version = do {
     wrong \<leftarrow> checkExecutable S (staged_path ao) (ao_os ao) (ao_arch ao);
     case wrong of
       Some f \<Rightarrow> refuse_update S words ao version [] (NotExecutable f)
     | None \<Rightarrow> do {
         reported \<leftarrow> binaryVersion S (staged_path ao);
         case reported of
           None \<Rightarrow> refuse_update S words ao version [] DoesNotRun
         | Some got \<Rightarrow>
             if got \<noteq> trim_prefix version ''v'' \<and> got \<noteq> version then refuse_update S words ao version [] OtherBuild
             else replace_binary S words ao version
       }
   }"

definition Apply_update ::
    "site \<Rightarrow> (apply_result \<Rightarrow> string) \<Rightarrow> string \<Rightarrow> apply_options \<Rightarrow> ('s, apply_refusal + apply_result) op" where
  "Apply_update S words self ao0 = do {
     let ao = withDefaults self ao0;
     req \<leftarrow> readRequest (in_dir (ao_dir ao) ''apply.request'');
     case req of
       Inl e \<Rightarrow> yield_op (Inl e)
     | Inr rq \<Rightarrow> do {
         manifest \<leftarrow> readManifest S (in_dir (in_dir (ao_dir ao) ''staged'') ''manifest.json'');
         res \<leftarrow> (case manifest of
             None \<Rightarrow> refuse_update S words ao (rq_version rq) [] Incomplete
           | Some mf \<Rightarrow>
               if sg_version mf \<noteq> rq_version rq then refuse_update S words ao (rq_version rq) [] OtherVersion
               else do {
                 digest \<leftarrow> sha256File S (staged_path ao);
                 case digest of
                   None \<Rightarrow> refuse_update S words ao (rq_version rq) [] Unreadable
                 | Some d \<Rightarrow>
                     if d \<noteq> sg_sha256 mf \<or> d \<noteq> rq_sha256 rq then refuse_update S words ao (rq_version rq) [] HashMismatch
                     else try_staged S words ao (rq_version rq)
               });
         yield_op (Inr res)
       }
   }"

section \<open>By request and by hand\<close>

definition RestartRequested :: "string \<Rightarrow> ('s, string option) op" where
  "RestartRequested dir = do {
     body \<leftarrow> read_file (in_dir dir ''restart.request'');
     case body of
       Inl _ \<Rightarrow> yield_op None
     | Inr s \<Rightarrow> do {
         remove_file (in_dir dir ''restart.request'');
         yield_op (Some (case read_doc request_slots no_request s of None \<Rightarrow> [] | Some rq \<Rightarrow> rq_by rq))
       }
   }"

datatype restart_outcome = RestartedHealthy | WouldNotRestart | DidNotStayUp health

definition RestartService :: "site \<Rightarrow> string \<Rightarrow> apply_options \<Rightarrow> ('s, restart_outcome) op" where
  "RestartService S self ao0 = do {
     let ao = withDefaults self ao0;
     up \<leftarrow> restart_unit ao;
     if \<not> up then yield_op WouldNotRestart
     else do { h \<leftarrow> waitHealthy S ao; yield_op (if h = Healthy then RestartedHealthy else DidNotStayUp h) }
   }"

definition Restore ::
    "site \<Rightarrow> (apply_result \<Rightarrow> string) \<Rightarrow> string \<Rightarrow> apply_options \<Rightarrow> string \<Rightarrow> ('s, apply_result) op" where
  "Restore S words self ao0 backup = do {
     let ao = withDefaults self ao0;
     runs \<leftarrow> binaryVersion S backup;
     if runs = None then refuse_update S words ao [] [] DoesNotRun
     else do {
       current \<leftarrow> binaryVersion S (ao_binary ao);
       target \<leftarrow> binaryVersion S backup;
       let from = (case current of None \<Rightarrow> [] | Some v \<Rightarrow> v);
       let version = (case target of None \<Rightarrow> [] | Some v \<Rightarrow> v);
       placed \<leftarrow> installBinary backup (ao_binary ao);
       if \<not> placed then refuse_update S words ao version from RestoreFailed
       else do {
         up \<leftarrow> restart_unit ao;
         if \<not> up then refuse_update S words ao version from RestartFailed
         else do {
           h \<leftarrow> waitHealthy S ao;
           if h \<noteq> Healthy then refuse_update S words ao version from (Unhealthy h)
           else finish S words ao \<lparr>ar_version = version, ar_from = from, ar_verdict = Installed, ar_rolled_back = False, ar_running_again = True\<rparr>
         }
       }
     }
   }"

chapter \<open>The command line\<close>

text \<open>
  \<open>cmd/revpd/update.go\<close>: updating from the command line, and what systemd runs as root when the service asks for
  something.  What is printed is left out, but for the two helpers that shape the release notes; loading the
  configuration comes before, and becoming root through sudo is an answer of the caller.
\<close>

section \<open>Text\<close>

definition firstLines :: "string \<Rightarrow> nat \<Rightarrow> string" where
  "firstLines s n =
     (let ls = split_byte (CHR 0x0A) s in
      if length ls \<le> n then s else join_byte (CHR 0x0A) (take n ls) @ CHR 0x0A # utf8 0x2026)"

definition indent :: "string \<Rightarrow> string \<Rightarrow> string" where
  "indent s pad = join_byte (CHR 0x0A) (map (\<lambda>l. pad @ l) (split_byte (CHR 0x0A) s))"

definition cliActor :: "string \<Rightarrow> string" where
  "cliActor sudo_user = (if sudo_user \<noteq> [] then sudo_user @ '' (cli)'' else ''cli'')"

definition orUnknownActor :: "string \<Rightarrow> string" where
  "orUnknownActor by = (if by = [] then ''the web interface'' else by)"

section \<open>Commands\<close>

datatype update_command = CmdCheck | CmdInstall "string list" | CmdApply | CmdRollback | CmdUnknown string

definition cmdUpdate :: "string list \<Rightarrow> update_command" where
  "cmdUpdate args =
     (let sub = (case args of [] \<Rightarrow> [] | a # _ \<Rightarrow> a) in
      if sub = [] \<or> sub = ''check'' then CmdCheck
      else if sub = ''install'' \<or> sub = ''apply'' then CmdInstall (tl args)
      else if sub = ''apply-requests'' \<or> sub = ''apply-staged'' then CmdApply
      else if sub = ''rollback'' then CmdRollback
      else CmdUnknown sub)"

text \<open>How a command ends; \<open>Said\<close> is the message the program ends with.\<close>

datatype command_end = Fine | NotRoot | CheckError failure_report | StageError failure_report | AskError request_error
  | RestartError restart_outcome | RefusalError apply_refusal | Said string | NoBackups | NoUsableBackup

definition applyStaged ::
    "site \<Rightarrow> (apply_result \<Rightarrow> string) \<Rightarrow> string \<Rightarrow> apply_options \<Rightarrow> ('s, command_end) op" where
  "applyStaged S words self ao = do {
     r \<leftarrow> Apply_update S words self ao;
     yield_op (case r of
         Inl NoRequest \<Rightarrow> Fine
       | Inl e \<Rightarrow> RefusalError e
       | Inr res \<Rightarrow> if ar_ok res then Fine else Said (words res))
   }"

definition applyRequests ::
    "site \<Rightarrow> (apply_result \<Rightarrow> string) \<Rightarrow> string \<Rightarrow> bool \<Rightarrow> apply_options \<Rightarrow> ('s, command_end) op" where
  "applyRequests S words self root ao =
     (if \<not> root then yield_op NotRoot
      else do {
        asked \<leftarrow> RestartRequested (ao_dir ao);
        case asked of
          None \<Rightarrow> applyStaged S words self ao
        | Some _ \<Rightarrow> do {
            r \<leftarrow> RestartService S self ao;
            if r \<noteq> RestartedHealthy then yield_op (RestartError r) else applyStaged S words self ao
          }
      })"

text \<open>The most recently changed entry after the zero time; \<open>None\<close> for an entry without its details.\<close>

definition later_backup :: "(string \<times> time) option \<Rightarrow> string \<times> time option \<Rightarrow> (string \<times> time) option" where
  "later_backup best e =
     (case snd e of
        None \<Rightarrow> best
      | Some t \<Rightarrow> (case best of None \<Rightarrow> Some (fst e, t) | Some (p, u) \<Rightarrow> if u < t then Some (fst e, t) else Some (p, u)))"

definition newest_backup :: "(string \<times> time option) list \<Rightarrow> (string \<times> time) option" where
  "newest_backup es = foldl later_backup None es"

definition updateRollback ::
    "site \<Rightarrow> (apply_result \<Rightarrow> string) \<Rightarrow> string \<Rightarrow> bool \<Rightarrow> apply_options \<Rightarrow> ('s, command_end) op" where
  "updateRollback S words self root ao =
     (if \<not> root then yield_op NotRoot
      else do {
        entries \<leftarrow> list_dir (in_dir (ao_dir ao) ''rollback'');
        case entries of
          None \<Rightarrow> yield_op NoBackups
        | Some es \<Rightarrow>
            if es = [] then yield_op NoBackups
            else (case newest_backup (map (\<lambda>(p, t). (p, Some t)) es) of
                None \<Rightarrow> yield_op NoUsableBackup
              | Some (newest, _) \<Rightarrow> do {
                  res \<leftarrow> Restore S words self ao newest;
                  yield_op (if ar_ok res then Fine else Said ''the rollback did not complete'')
                })
      })"

section \<open>Checking and installing\<close>

definition updateCheck :: "site \<Rightarrow> manager \<Rightarrow> github \<Rightarrow> bool \<Rightarrow> (failure_report + available option) update_op" where
  "updateCheck S mg gh prerelease = Check S mg gh prerelease"

text \<open>What to install: the argument that is no flag, else what a check finds.\<close>

definition named_target :: "string list \<Rightarrow> string" where
  "named_target args = (case args of a # _ \<Rightarrow> if has_prefix a ''-'' then [] else a | [] \<Rightarrow> [])"

definition install_version ::
    "site \<Rightarrow> (apply_result \<Rightarrow> string) \<Rightarrow> string \<Rightarrow> manager \<Rightarrow> github \<Rightarrow> bool \<Rightarrow> string \<Rightarrow> apply_options \<Rightarrow> string \<Rightarrow> command_end update_op" where
  "install_version S words self mg gh root by ao target = do {
     can \<leftarrow> (if root then yield_op True else ApplierInstalled);
     if \<not> can then yield_op NotRoot
     else do {
       staged \<leftarrow> Stage S mg gh target by False;
       case staged of
         Inl f \<Rightarrow> yield_op (StageError f)
       | Inr _ \<Rightarrow> do {
           asked \<leftarrow> RequestApply S mg by;
           case asked of
             Inl e \<Rightarrow> yield_op (AskError e)
           | Inr _ \<Rightarrow> if root then applyStaged S words self ao else yield_op Fine
         }
     }
   }"

definition updateInstall ::
    "site \<Rightarrow> (apply_result \<Rightarrow> string) \<Rightarrow> string \<Rightarrow> manager \<Rightarrow> github \<Rightarrow> bool \<Rightarrow> bool \<Rightarrow> string \<Rightarrow> apply_options \<Rightarrow> string list \<Rightarrow>
      command_end update_op" where
  "updateInstall S words self mg gh prerelease root by ao args =
     (if named_target args \<noteq> [] then install_version S words self mg gh root by ao (named_target args)
      else do {
        avail \<leftarrow> Check S mg gh prerelease;
        case avail of
          Inl f \<Rightarrow> yield_op (CheckError f)
        | Inr None \<Rightarrow> yield_op Fine
        | Inr (Some a) \<Rightarrow> install_version S words self mg gh root by ao (av_version a)
      })"

end
