(* ===== verification/Portal_Update.thy ===== *)
theory Portal_Update
  imports Portal_Settings Update_Apply
begin

text \<open>
  \<open>internal/api/update.go\<close>: the updates page, and the timer that checks for releases and may install them.  The
  updater's files and its state are a machine of their own beside the gateway's database; a handler takes it
  and gives it back.  The wording of log lines is left out.
\<close>

section \<open>The page\<close>

record updater =
  up_site :: site
  up_manager :: manager
  up_github :: github

type_synonym update_machine = "update_state machine"

definition SettingAutoUpdate :: string where
  "SettingAutoUpdate = ''update.auto_install''"

definition autoInstallEnabled :: "pages \<Rightarrow> bool act" where
  "autoInstallEnabled G = do {
     s \<leftarrow> query (\<lambda>d. Inr (BoolSetting SettingAutoUpdate (cu_auto (cf_update (pg_cfg G))) d));
     ret (case s of Inl _ \<Rightarrow> cu_auto (cf_update (pg_cfg G)) | Inr b \<Rightarrow> b)
   }"

text \<open>A moment as RFC 3339 in UTC; the zero time is the first moment of the year one.\<close>

definition moment_shown :: "time option \<Rightarrow> string" where
  "moment_shown t = (case t of None \<Rightarrow> ''0001-01-01T00:00:00Z'' | Some x \<Rightarrow> rfc3339 (unix x))"

definition available_view :: "available \<Rightarrow> json" where
  "available_view a = JObj [(''version'', JStr (av_version a)), (''notes'', JStr (av_notes a)), (''url'', JStr (av_url a)),
     (''published_at'', JStr (moment_shown (av_published a))), (''prerelease'', JBool (av_prerelease a)),
     (''size'', JInt (av_size a)), (''asset_ready'', JBool (av_ready a))]"

definition result_view :: "update_result \<Rightarrow> json" where
  "result_view l = JObj [(''version'', JStr (ur_version l)), (''from'', JStr (ur_from l)), (''ok'', JBool (ur_ok l)),
     (''message'', JStr (ur_message l)), (''rolled_back'', JBool (ur_rolled_back l)), (''at'', JStr (moment_shown (ur_at l)))]"

definition state_view :: "update_state \<Rightarrow> (string \<times> json) list" where
  "state_view st =
     (case us_last_check st of None \<Rightarrow> [] | Some t \<Rightarrow> [(''last_check'', JStr (moment_shown (Some t)))]) @
     (if us_check_error st = [] then []
      else [(''error'', JStr (us_check_error st)), (''error_reason'', JStr (us_check_reason st))]) @
     (case us_available st of None \<Rightarrow> [] | Some a \<Rightarrow> [(''available'', available_view a)]) @
     (case us_staged st of None \<Rightarrow> []
      | Some g \<Rightarrow> [(''staged'', JObj [(''version'', JStr (sg_version g)), (''staged_at'', JStr (moment_shown (sg_at g)))])]) @
     (if us_total st \<le> 0 then []
      else [(''progress'', JObj [(''downloaded'', JInt (us_downloaded st)), (''total'', JInt (us_total st))])]) @
     (case us_last st of None \<Rightarrow> [] | Some l \<Rightarrow> [(''last_result'', result_view l)])"

definition updateView ::
    "updater option \<Rightarrow> string \<Rightarrow> pages \<Rightarrow> update_machine \<Rightarrow> ((string \<times> json) list \<times> update_machine) act" where
  "updateView U version G m =
     (case U of
        None \<Rightarrow> ret ([(''supported'', JBool False),
            (''reason'', JStr ''This gateway was not started with the updater enabled. In Docker, pull a new image instead.''),
            (''current'', JStr version)], m)
      | Some u \<Rightarrow>
          (case run_state (Manager_State (up_site u) (up_manager u)) m of (st, m1) \<Rightarrow> do {
             auto \<leftarrow> autoInstallEnabled G;
             let (can, m2) = run_state ApplierInstalled m1;
             ret ([(''supported'', JBool True), (''current'', JStr (mg_current (up_manager u))),
                   (''repo'', JStr (repo (mg_client (up_manager u)))), (''phase'', JStr (us_phase st)),
                   (''auto_install'', JBool auto), (''check_enabled'', JBool (cu_enabled (cf_update (pg_cfg G)))),
                   (''prerelease'', JBool (cu_prerelease (cf_update (pg_cfg G)))), (''can_install'', JBool can)] @ state_view st, m2)
           }))"

definition send_view ::
    "updater option \<Rightarrow> string \<Rightarrow> pages \<Rightarrow> update_machine \<Rightarrow> (response \<times> update_machine) act" where
  "send_view U version G m = do { v \<leftarrow> updateView U version G m; x \<leftarrow> send [] (fst v); ret (x, snd v) }"

definition handleUpdateStatus ::
    "updater option \<Rightarrow> string \<Rightarrow> pages \<Rightarrow> update_machine \<Rightarrow> user \<Rightarrow> request \<Rightarrow> (response \<times> update_machine) act" where
  "handleUpdateStatus U version G m who r = send_view U version G m"

section \<open>Checking\<close>

definition versionOrNone :: "available option \<Rightarrow> string" where
  "versionOrNone a = (case a of None \<Rightarrow> ''up to date'' | Some v \<Rightarrow> av_version v)"

definition run_check :: "updater \<Rightarrow> pages \<Rightarrow> update_machine \<Rightarrow> (failure_report + available option) \<times> update_machine" where
  "run_check u G m = run_state (Check (up_site u) (up_manager u) (up_github u) (cu_prerelease (cf_update (pg_cfg G)))) m"

definition stop_with :: "nat \<Rightarrow> string \<Rightarrow> update_machine \<Rightarrow> (response \<times> update_machine) act" where
  "stop_with code msg m = do { x \<leftarrow> fail_with code msg; ret (x, m) }"

definition handleUpdateCheck ::
    "updater option \<Rightarrow> string \<Rightarrow> portal \<Rightarrow> pages \<Rightarrow> update_machine \<Rightarrow> user \<Rightarrow> request \<Rightarrow> (response \<times> update_machine) act" where
  "handleUpdateCheck U version P G m who r =
     (case U of
        None \<Rightarrow> stop_with 501 ''updating is not available in this deployment'' m
      | Some u \<Rightarrow>
          (case run_check u G m of
             (Inl f, m1) \<Rightarrow> stop_with 502 (si_text (up_site u) f) m1
           | (Inr avail, m1) \<Rightarrow> do {
               audit (u_username who) ''update.checked'' (versionOrNone avail) (clientIP P r) [];
               send_view U version G m1
             }))"

section \<open>Installing\<close>

text \<open>The body is read only when a length was announced; the field is empty when none was.\<close>

definition install_shape :: shape where
  "install_shape = SStruct [(''version'', SString)]"

definition asked_version :: "request \<Rightarrow> string option" where
  "asked_version r =
     (if rq_body r = [] then Some [] else map_option (str_field ''version'') (decode install_shape r))"

definition not_attached :: "string \<Rightarrow> string" where
  "not_attached v = ''release '' @ v @ '' is published but its build for this machine has not been attached yet. '' @
     ''That usually takes a couple of minutes after a release goes up '' @ utf8 0x2014 @ '' check again shortly.''"

text \<open>Which version to install: the one asked for, else what the last check found.\<close>

definition install_target :: "string \<Rightarrow> update_state \<Rightarrow> (nat \<times> string) + string" where
  "install_target asked st =
     (if asked \<noteq> [] then Inr asked
      else case us_available st of
        None \<Rightarrow> Inl (400, ''there is no newer release to install '' @ utf8 0x2014 @ '' check for one first'')
      | Some a \<Rightarrow> if \<not> av_ready a then Inl (409, not_attached (av_version a)) else Inr (av_version a))"

text \<open>The last component is the job that goes on after the answer: what to install, and for whom.\<close>

definition handleUpdateInstall ::
    "updater option \<Rightarrow> string \<Rightarrow> portal \<Rightarrow> pages \<Rightarrow> update_machine \<Rightarrow> user \<Rightarrow> request \<Rightarrow>
      (response \<times> update_machine \<times> (string \<times> string) option) act" where
  "handleUpdateInstall U version P G m who r =
     (case U of
        None \<Rightarrow> do { x \<leftarrow> fail_with 501 ''updating is not available in this deployment''; ret (x, m, None) }
      | Some u \<Rightarrow>
          (case asked_version r of
             None \<Rightarrow> do { x \<leftarrow> fail_with 400 ''malformed request body''; ret (x, m, None) }
           | Some asked \<Rightarrow>
               (case run_state (Manager_State (up_site u) (up_manager u)) m of (st, m1) \<Rightarrow>
                  (case install_target asked st of
                     Inl (code, msg) \<Rightarrow> do { x \<leftarrow> fail_with code msg; ret (x, m1, None) }
                   | Inr v \<Rightarrow>
                       (case run_state ApplierInstalled m1 of (can, m2) \<Rightarrow>
                          if \<not> can then do {
                            x \<leftarrow> fail_with 412 (''the privileged updater is not installed on this machine, so a downloaded update '' @
                              ''could not be applied. Re-run install.sh to add it, or update from the command line with: '' @
                              ''sudo revpd update install'');
                            ret (x, m2, None) }
                          else do {
                            audit (u_username who) ''update.staged'' v (clientIP P r) [];
                            x \<leftarrow> send_view U version G m2;
                            ret (fst x, snd x, Some (v, u_username who))
                          })))))"

datatype stage_end = StagingFailed failure_report | NotHandedOver request_error | HandedOver

definition stageAndApply :: "updater \<Rightarrow> string \<Rightarrow> string \<Rightarrow> stage_end update_op" where
  "stageAndApply u version by = do {
     staged \<leftarrow> Stage (up_site u) (up_manager u) (up_github u) version by False;
     case staged of
       Inl f \<Rightarrow> yield_op (StagingFailed f)
     | Inr _ \<Rightarrow> do {
         asked \<leftarrow> RequestApply (up_site u) (up_manager u) by;
         yield_op (case asked of Inl e \<Rightarrow> NotHandedOver e | Inr _ \<Rightarrow> HandedOver)
       }
   }"

section \<open>The switch\<close>

text \<open>The field is a pointer: \<open>null\<close> is as good as nothing.\<close>

fun toggle_members :: "bool option \<Rightarrow> (string \<times> json) list \<Rightarrow> bool option option" where
  "toggle_members acc [] = Some acc"
| "toggle_members acc ((k, v) # ms) =
     (case field_named [(''auto_install'', SBool)] k of
        None \<Rightarrow> None
      | Some _ \<Rightarrow> (case v of JNull \<Rightarrow> toggle_members None ms | JBool b \<Rightarrow> toggle_members (Some b) ms | _ \<Rightarrow> None))"

definition toggle_request :: "request \<Rightarrow> bool option option" where
  "toggle_request r =
     (case json_first (take max_body (rq_body r)) of
        Some (JObj ms, _) \<Rightarrow> toggle_members None ms
      | Some (JNull, _) \<Rightarrow> Some None
      | _ \<Rightarrow> None)"

definition handleUpdateSettings ::
    "updater option \<Rightarrow> string \<Rightarrow> portal \<Rightarrow> pages \<Rightarrow> update_machine \<Rightarrow> user \<Rightarrow> request \<Rightarrow> (response \<times> update_machine) act" where
  "handleUpdateSettings U version P G m who r =
     (case toggle_request r of
        None \<Rightarrow> stop_with 400 ''malformed request body'' m
      | Some None \<Rightarrow> stop_with 400 ''nothing to change'' m
      | Some (Some b) \<Rightarrow> do {
          stamp \<leftarrow> read_clock;
          s \<leftarrow> exec (SetBoolSetting (unix stamp) SettingAutoUpdate b (u_username who));
          case s of
            Inl _ \<Rightarrow> do { x \<leftarrow> serverError; ret (x, m) }
          | Inr _ \<Rightarrow> do {
              audit (u_username who) ''settings.updated'' [] (clientIP P r) [(''auto_install'', FormatBool b)];
              send_view U version G m
            }
        })"

section \<open>The timer\<close>

text \<open>What one tick came to.\<close>

datatype tick_end = CheckFailed failure_report | UpToDate | BuildMissing | LeftToPerson | NoHelper | HeldBack nat | WentAhead stage_end

definition auto_stage :: "updater \<Rightarrow> string \<Rightarrow> update_machine \<Rightarrow> (tick_end \<times> update_machine) act" where
  "auto_stage u v m =
     (case run_state (stageAndApply u v ''auto-update'') m of (e, m1) \<Rightarrow> ret (WentAhead e, m1))"

text \<open>The second half of a tick: the release is there and may be installed.\<close>

definition maybe_install :: "updater \<Rightarrow> pages \<Rightarrow> string \<Rightarrow> update_machine \<Rightarrow> (tick_end \<times> update_machine) act" where
  "maybe_install u G v m = do {
     auto \<leftarrow> autoInstallEnabled G;
     if \<not> auto then ret (LeftToPerson, m)
     else (case run_state ApplierInstalled m of (can, m1) \<Rightarrow>
       if \<not> can then ret (NoHelper, m1)
       else if \<not> cu_only_idle (cf_update (pg_cfg G)) then auto_stage u v m1
       else do {
         ls \<leftarrow> query (\<lambda>d. Inr (ListLiveSessions d));
         case ls of
           Inl _ \<Rightarrow> auto_stage u v m1
         | Inr live \<Rightarrow> if live \<noteq> [] then ret (HeldBack (length live), m1) else auto_stage u v m1
       })
   }"

definition checkAndMaybeInstall :: "updater \<Rightarrow> pages \<Rightarrow> update_machine \<Rightarrow> (tick_end \<times> update_machine) act" where
  "checkAndMaybeInstall u G m =
     (case run_check u G m of
        (Inl f, m1) \<Rightarrow> ret (CheckFailed f, m1)
      | (Inr None, m1) \<Rightarrow> ret (UpToDate, m1)
      | (Inr (Some a), m1) \<Rightarrow> if \<not> av_ready a then ret (BuildMissing, m1) else maybe_install u G (av_version a) m1)"

text \<open>
  The loop, over what GitHub has to say at each tick: it does not run without an updater or with checking
  switched off.  The first tick is two minutes after the start; the timer is set again before each check.
\<close>

definition auto_interval :: "pages \<Rightarrow> int" where
  "auto_interval G =
     (let every = cu_interval (cf_update (pg_cfg G)) in if every < seconds 900 then seconds 900 else every)"

fun run_ticks :: "updater \<Rightarrow> pages \<Rightarrow> github list \<Rightarrow> update_machine \<Rightarrow> (tick_end list \<times> update_machine) act" where
  "run_ticks u G [] m = ret ([], m)"
| "run_ticks u G (gh # ghs) m = do {
     one \<leftarrow> checkAndMaybeInstall (u\<lparr>up_github := gh\<rparr>) G m;
     rest \<leftarrow> run_ticks u G ghs (snd one);
     ret (fst one # fst rest, snd rest)
   }"

definition RunAutoUpdate :: "updater option \<Rightarrow> pages \<Rightarrow> github list \<Rightarrow> update_machine \<Rightarrow> (tick_end list \<times> update_machine) act" where
  "RunAutoUpdate U G ghs m =
     (case U of None \<Rightarrow> ret ([], m)
      | Some u \<Rightarrow> if \<not> cu_enabled (cf_update (pg_cfg G)) then ret ([], m) else run_ticks u G ghs m)"

end
