(* ===== verification/Machine_Rules.thy ===== *)
theory Machine_Rules
  imports Update_Apply
begin

text \<open>
  Reasoning about programs on a machine.  \<open>after p m Q\<close>: running \<open>p\<close> on \<open>m\<close> ends with a result and a machine
  that satisfy \<open>Q\<close>.  The rules push \<open>Q\<close> through a program; each operation of the updater then has one rule
  that says all its callers need to know.
\<close>

section \<open>Pushing a condition through\<close>

definition after :: "('s, 'a) op \<Rightarrow> 's machine \<Rightarrow> ('a \<Rightarrow> 's machine \<Rightarrow> bool) \<Rightarrow> bool" where
  "after p m Q \<longleftrightarrow> (case run_state p m of (x, m') \<Rightarrow> Q x m')"

named_theorems after_simps \<open>how a condition goes through a program\<close>

lemma after_yield [after_simps]: "after (yield_op x) m Q \<longleftrightarrow> Q x m"
  by (simp add: after_def)

lemma after_bind [after_simps]: "after (State_Monad.bind p k) m Q \<longleftrightarrow> after p m (\<lambda>x m'. after (k x) m' Q)"
  by (simp add: after_def split: prod.split)

lemma after_let [after_simps]: "after (let x = a in k x) m Q \<longleftrightarrow> after (k a) m Q"
  by simp

lemma after_run: "run_state p m = (x, m') \<Longrightarrow> after p m Q \<Longrightarrow> Q x m'"
  by (simp add: after_def)

lemma after_mono: "after p m R \<Longrightarrow> (\<And>x m'. R x m' \<Longrightarrow> Q x m') \<Longrightarrow> after p m Q"
  by (auto simp: after_def)

lemma after_trouble [after_simps]: "after next_trouble m Q \<longleftrightarrow> Q (trouble_of m) (spend m)"
  by (simp add: after_def op_simps)

lemma after_change [after_simps]: "after (change f) m Q \<longleftrightarrow> Q () (f m)"
  by (simp add: after_def op_simps)

lemma after_get_file [after_simps]: "after (get_file p) m Q \<longleftrightarrow> Q (data_at m p) m"
  by (simp add: after_def op_simps)

lemma after_State [after_simps]: "after (State g) m Q \<longleftrightarrow> (case g m of (x, m') \<Rightarrow> Q x m')"
  by (simp add: after_def)

lemma after_branches [after_simps]:
  "after (if b then p else p') m Q \<longleftrightarrow> (if b then after p m Q else after p' m Q)"
  "after (case oa of None \<Rightarrow> p | Some x \<Rightarrow> k x) m Q \<longleftrightarrow> (case oa of None \<Rightarrow> after p m Q | Some x \<Rightarrow> after (k x) m Q)"
  "after (case sa of Inl e \<Rightarrow> f e | Inr y \<Rightarrow> g y) m Q \<longleftrightarrow> (case sa of Inl e \<Rightarrow> after (f e) m Q | Inr y \<Rightarrow> after (g y) m Q)"
  by (simp_all split: option.split sum.split)

section \<open>What an operation leaves alone\<close>

text \<open>\<open>only A m m'\<close>: at most the files of \<open>A\<close> have changed, and the service runs what it ran.\<close>

definition only :: "(string \<Rightarrow> bool) \<Rightarrow> 's machine \<Rightarrow> 's machine \<Rightarrow> bool" where
  "only A m m' \<longleftrightarrow> (\<forall>q. \<not> A q \<longrightarrow> file_at m' q = file_at m q) \<and> mc_running m' = mc_running m \<and> mc_prog m' = mc_prog m"

abbreviation none_of :: "string \<Rightarrow> bool" where
  "none_of \<equiv> (\<lambda>q. False)"

lemma only_refl [simp]: "only A m m"
  by (simp add: only_def)

lemma only_trans: "only A m m' \<Longrightarrow> only B m' m'' \<Longrightarrow> (\<And>q. A q \<or> B q \<Longrightarrow> C q) \<Longrightarrow> only C m m''"
  unfolding only_def by metis

lemma only_weaken: "only A m m' \<Longrightarrow> (\<And>q. A q \<Longrightarrow> C q) \<Longrightarrow> only C m m'"
  unfolding only_def by metis

lemma only_data: "only A m m' \<Longrightarrow> \<not> A q \<Longrightarrow> data_at m' q = data_at m q"
  by (simp add: only_def data_at_def)

lemma only_spend [simp]: "only A m (spend m')  \<longleftrightarrow> only A m m'" "only A (spend m) m' \<longleftrightarrow> only A m m'"
  by (simp_all add: only_def)

lemma only_set: "only ((=) p) m (set_file p f m)"
  by (auto simp: only_def)

section \<open>Reading and writing\<close>

lemma after_read:
  assumes "\<And>r m'. only none_of m m' \<Longrightarrow> (\<And>s. r = Inr s \<Longrightarrow> data_at m p = Some s) \<Longrightarrow> Q r m'"
  shows "after (read_file p) m Q"
  using assms [of "spend m"] by (auto simp: read_file_def after_simps split: trouble.split option.split)

lemma after_time:
  assumes "\<And>t m'. only none_of m m' \<Longrightarrow> t = mc_now m' \<Longrightarrow> mc_now m \<le> t \<Longrightarrow> Q t m'"
  shows "after read_time m Q"
  by (auto simp: read_time_def after_simps Let_def intro!: assms) (simp add: only_def file_at_def)

lemma time_moves [simp]:
  "file_at (m\<lparr>mc_now := t, mc_tick := n\<rparr>) = file_at m" "data_at (m\<lparr>mc_now := t, mc_tick := n\<rparr>) = data_at m"
  by (simp_all add: fun_eq_iff file_at_def data_at_def)

lemma after_write:
  assumes "\<And>ok m'. only ((=) p) m m' \<Longrightarrow> (ok \<Longrightarrow> data_at m' p = Some s) \<Longrightarrow> Q ok m'"
  shows "after (write_file p s) m Q"
  unfolding write_file_def after_simps read_time_def Let_def
  by (auto simp: after_simps only_def split: trouble.split intro!: assms)

lemma after_attempt:
  assumes "\<And>ok m'. only A m m' \<Longrightarrow> (ok \<Longrightarrow> file_at m' = file_at (f m)) \<Longrightarrow> (\<not> ok \<Longrightarrow> file_at m' = file_at m) \<Longrightarrow> Q ok m'"
    and "\<And>m. only A m (f m)" and "\<And>m. file_at (f (spend m)) = file_at (f m)"
  shows "after (attempt_op f) m Q"
  using assms(2) [of "spend m"]
  by (auto simp: attempt_op_def after_simps assms(3) split: trouble.split intro!: assms(1))

lemma after_remove:
  assumes "\<And>ok m'. only ((=) p) m m' \<Longrightarrow> (ok \<Longrightarrow> file_at m' p = None) \<Longrightarrow> Q ok m'"
  shows "after (remove_file p) m Q"
  unfolding remove_file_def by (rule after_attempt [where A = "(=) p"]) (auto simp: only_set intro!: assms)

lemma after_mkdir:
  assumes "\<And>ok m'. only none_of m m' \<Longrightarrow> Q ok m'"
  shows "after make_dir m Q"
  unfolding make_dir_def by (rule after_attempt [where A = none_of]) (auto intro!: assms)

lemma after_sync:
  assumes "\<And>ok m'. only none_of m m' \<Longrightarrow> Q ok m'"
  shows "after (attempt_op id) m Q"
  by (rule after_attempt [where A = none_of]) (auto intro!: assms)

lemma after_rename:
  assumes "\<And>ok m'. only (\<lambda>q. q = a \<or> q = b) m m' \<Longrightarrow> a \<noteq> b \<longrightarrow> ok \<longrightarrow> data_at m' b = data_at m a \<Longrightarrow>
      ok \<longrightarrow> data_at m a \<noteq> None \<Longrightarrow> \<not> ok \<longrightarrow> file_at m' = file_at m \<Longrightarrow> Q ok m'"
  shows "after (rename_file a b) m Q"
proof (cases "file_at m a")
  case None
  then show ?thesis using assms [of "spend m" False] by (simp add: rename_file_def after_simps)
next
  case (Some x)
  then have e: "after (rename_file a b) m Q \<longleftrightarrow> after (attempt_op (\<lambda>m. set_file b (Some x) (set_file a None m))) m Q"
    by (simp add: rename_file_def after_simps)
  show ?thesis
    unfolding e
    by (rule after_attempt [where A = "\<lambda>q. q = a \<or> q = b"]) (auto simp: only_def data_at_def Some intro!: assms)
qed

section \<open>Copying, replacing, watching\<close>

lemma after_atomic:
  assumes "\<And>ok m'. only (\<lambda>q. q = p \<or> q = p @ ''.tmp'') m m' \<Longrightarrow> (ok \<Longrightarrow> data_at m' p = Some s) \<Longrightarrow>
      (\<not> ok \<Longrightarrow> data_at m' p = data_at m p) \<Longrightarrow> Q ok m'"
  shows "after (writeFileAtomic p s) m Q"
proof -
  have d: "p @ ''.tmp'' \<noteq> p" by simp
  show ?thesis
    unfolding writeFileAtomic_def after_simps
  proof (rule after_write)
    fix ok m1
    assume a: "only ((=) (p @ ''.tmp'')) m m1" "ok \<Longrightarrow> data_at m1 (p @ ''.tmp'') = Some s"
    have stays: "data_at m1 p = data_at m p" using a(1) d by (intro only_data) auto
    show "if \<not> ok then Q False m1 else after (rename_file (p @ ''.tmp'') p) m1
        (\<lambda>x m'. if x then Q True m' else after (remove_file (p @ ''.tmp'')) m' (\<lambda>x. Q False))"
    proof (cases ok)
      case False
      with a stays show ?thesis by (auto intro!: assms elim: only_weaken)
    next
      case True
      show ?thesis
        unfolding if_not_P [OF not_not [THEN iffD2, OF True]]
      proof (rule after_rename)
        fix ok2 m2
        assume b: "only (\<lambda>q. q = p @ ''.tmp'' \<or> q = p) m1 m2" "p @ ''.tmp'' \<noteq> p \<longrightarrow> ok2 \<longrightarrow> data_at m2 p = data_at m1 (p @ ''.tmp'')"
          "\<not> ok2 \<longrightarrow> file_at m2 = file_at m1"
        have o: "only (\<lambda>q. q = p \<or> q = p @ ''.tmp'') m m2" by (rule only_trans [OF a(1) b(1)]) auto
        show "if ok2 then Q True m2 else after (remove_file (p @ ''.tmp'')) m2 (\<lambda>x. Q False)"
        proof (cases ok2)
          case True
          with b(2) d a(2) [OF \<open>ok\<close>] o show ?thesis by (auto intro!: assms)
        next
          case False
          with b(3) stays have k: "data_at m2 p = data_at m p" by (simp add: data_at_def)
          have "after (remove_file (p @ ''.tmp'')) m2 (\<lambda>x. Q False)"
          proof (rule after_remove)
            fix ok3 m3
            assume c: "only ((=) (p @ ''.tmp'')) m2 m3"
            have "data_at m3 p = data_at m2 p" by (rule only_data [OF c]) (use d in auto)
            moreover have "only (\<lambda>q. q = p \<or> q = p @ ''.tmp'') m m3" by (rule only_trans [OF o c]) auto
            ultimately show "Q False m3" using k by (intro assms) simp_all
          qed
          with False show ?thesis by simp
        qed
      qed
    qed
  qed
qed

lemma after_copy:
  assumes "\<And>ok m'. only ((=) dest) m m' \<Longrightarrow> (ok \<Longrightarrow> data_at m src \<noteq> None \<and> data_at m' dest = data_at m src) \<Longrightarrow> Q ok m'"
  shows "after (copyFile src dest) m Q"
  unfolding copyFile_def after_simps
proof (rule after_read)
  fix r m1
  assume a: "only none_of m m1" "\<And>s. r = Inr s \<Longrightarrow> data_at m src = Some s"
  show "case r of Inl _ \<Rightarrow> Q False m1 | Inr s \<Rightarrow> after (write_file dest s) m1
      (\<lambda>x m'. if \<not> x then Q False m' else after (attempt_op id) m' Q)"
  proof (cases r)
    case (Inl e)
    with a(1) show ?thesis by (auto intro!: assms elim: only_weaken)
  next
    case (Inr s)
    have "after (write_file dest s) m1 (\<lambda>x m'. if \<not> x then Q False m' else after (attempt_op id) m' Q)"
    proof (rule after_write)
      fix ok m2
      assume b: "only ((=) dest) m1 m2" "ok \<Longrightarrow> data_at m2 dest = Some s"
      have o: "only ((=) dest) m m2" by (rule only_trans [OF a(1) b(1)]) auto
      have "after (attempt_op id) m2 Q" if ok
      proof (rule after_sync)
        fix ok' m3
        assume c: "only none_of m2 m3"
        have "only ((=) dest) m m3" by (rule only_trans [OF o c]) auto
        then show "Q ok' m3" using a(2) [OF Inr] b(2) [OF that] only_data [OF c, of dest] by (intro assms) simp_all
      qed
      then show "if \<not> ok then Q False m2 else after (attempt_op id) m2 Q" using o by (auto intro!: assms)
    qed
    with Inr show ?thesis by simp
  qed
qed

lemma last_index_split: "last_index_of c s = Some i \<Longrightarrow> s = take i s @ c # drop (Suc i) s \<and> i < length s"
  by (induction s arbitrary: i) (auto split: option.splits if_splits)

lemma new_path_longer: "length dest < length (new_path dest)"
proof (cases "last_index_of (CHR ''/'') dest")
  case None
  then show ?thesis unfolding new_path_def dir_name_def base_name_def None by simp
next
  case (Some i)
  then have "length dest = Suc i + length (drop (Suc i) dest)" using last_index_split [OF Some, THEN conjunct2] by simp
  with Some show ?thesis by (auto simp: new_path_def dir_name_def base_name_def min_def split: nat.split dest!: arg_cong [where f = length])
qed

lemma after_install:
  assumes "\<And>ok m'. only (\<lambda>q. q = dest \<or> q = new_path dest) m m' \<Longrightarrow>
      (ok \<Longrightarrow> data_at m src \<noteq> None \<and> data_at m' dest = data_at m src) \<Longrightarrow> (\<not> ok \<Longrightarrow> data_at m' dest = data_at m dest) \<Longrightarrow> Q ok m'"
  shows "after (installBinary src dest) m Q"
proof -
  let ?n = "new_path dest" and ?A = "\<lambda>q. q = dest \<or> q = new_path dest"
  have d: "?n \<noteq> dest" using new_path_longer [of dest] by auto
  have drop_new: "after (remove_file ?n) m1 (\<lambda>x. Q False)" if o: "only ?A m m1" "data_at m1 dest = data_at m dest" for m1
  proof (rule after_remove)
    fix ok' m2
    assume c: "only ((=) ?n) m1 m2"
    have "only ?A m m2" by (rule only_trans [OF o(1) c]) auto
    then show "Q False m2" using only_data [OF c, of dest] d o(2) by (intro assms) auto
  qed
  show ?thesis
    unfolding installBinary_def after_simps
  proof (rule after_copy)
    fix ok m1
    assume a: "only ((=) ?n) m m1" "ok \<Longrightarrow> data_at m src \<noteq> None \<and> data_at m1 ?n = data_at m src"
    have o: "only ?A m m1" by (rule only_weaken [OF a(1)]) auto
    have k: "data_at m1 dest = data_at m dest" by (rule only_data [OF a(1)]) (use d in auto)
    have "after (rename_file ?n dest) m1 (\<lambda>x m'. if x then Q True m' else after (remove_file ?n) m' (\<lambda>x. Q False))" if ok
    proof (rule after_rename)
      fix ok2 m2
      assume b: "only (\<lambda>q. q = ?n \<or> q = dest) m1 m2" "?n \<noteq> dest \<longrightarrow> ok2 \<longrightarrow> data_at m2 dest = data_at m1 ?n"
        "\<not> ok2 \<longrightarrow> file_at m2 = file_at m1"
      have o2: "only ?A m m2" by (rule only_trans [OF a(1) b(1)]) auto
      have "Q True m2" if ok2 using a(2) [OF \<open>ok\<close>] b(2) d that by (intro assms o2) simp_all
      moreover have "after (remove_file ?n) m2 (\<lambda>x. Q False)" if "\<not> ok2"
        using b(3) that k by (intro drop_new o2) (simp add: data_at_def)
      ultimately show "if ok2 then Q True m2 else after (remove_file ?n) m2 (\<lambda>x. Q False)" by simp
    qed
    then show "if \<not> ok then after (remove_file ?n) m1 (\<lambda>x. Q False) else after (rename_file ?n dest) m1
        (\<lambda>x m'. if x then Q True m' else after (remove_file ?n) m' (\<lambda>x. Q False))"
      using drop_new [OF o k] by simp
  qed
qed

lemma after_version:
  assumes "\<And>r m'. only none_of m m' \<Longrightarrow> (\<And>v. r = Some v \<Longrightarrow> \<exists>s out ws. data_at m p = Some s \<and> si_output S s = Some out \<and>
      text_fields [] out = hd (text_fields [] out) # v # ws) \<Longrightarrow> Q r m'"
  shows "after (binaryVersion S p) m Q"
  unfolding binaryVersion_def after_simps
  by (rule after_read) (auto intro!: assms split: sum.split_asm option.split_asm list.split_asm)

lemma after_unit: "after (unitState S) m Q \<longleftrightarrow> Q (si_unit S (mc_tick m) (mc_running m)) (m\<lparr>mc_tick := Suc (mc_tick m)\<rparr>)"
  by (simp add: unitState_def after_simps)

text \<open>Watching the service changes nothing.\<close>

definition watches :: "('s, 'a) op \<Rightarrow> bool" where
  "watches p \<longleftrightarrow> (\<forall>m. only none_of m (snd (run_state p m)))"

lemma watches_after: "watches p \<Longrightarrow> (\<And>x m'. only none_of m m' \<Longrightarrow> Q x m') \<Longrightarrow> after p m Q"
  by (auto simp: watches_def after_def split: prod.split) (metis snd_conv)

lemma watches_bind: "watches p \<Longrightarrow> (\<And>x. watches (k x)) \<Longrightarrow> watches (State_Monad.bind p k)"
  by (auto simp: watches_def split: prod.split) (metis (no_types, lifting) only_def snd_conv)

lemma watches_basics:
  "watches (yield_op x)" "watches read_time" "watches (sleep d)" "watches (unitState S)"
  "watches p \<Longrightarrow> watches p' \<Longrightarrow> watches (if b then p else p')"
  "watches p \<Longrightarrow> (\<And>x. watches (k x)) \<Longrightarrow> watches (case oa of None \<Rightarrow> p | Some x \<Rightarrow> k x)"
  by (auto simp: watches_def read_time_def sleep_def unitState_def only_def file_at_def Let_def split: option.split)

lemma watches_look: "watches (look S ao since)"
  unfolding look_def by (intro watches_bind watches_basics)

lemma watches_wait: "watches (waitHealthy S ao)"
proof -
  have "watches (wait_loop n S ao deadline since)" for n deadline since
    by (induction n arbitrary: since) (auto intro!: watches_bind watches_basics watches_look)
  then show ?thesis unfolding waitHealthy_def by (intro watches_bind watches_basics)
qed

section \<open>Paths\<close>

lemma under_in_dir [simp]: "under d (in_dir d n)"
  by (simp add: under_def in_dir_def has_prefix_def)

lemma in_dir_eq [simp]: "in_dir d a = in_dir d b \<longleftrightarrow> a = b"
  by (simp add: in_dir_def)

lemma in_dir_app: "in_dir (in_dir d a) b = in_dir d (a @ CHR ''/'' # b)" "in_dir d a @ s = in_dir d (a @ s)"
  by (simp_all add: in_dir_def)

lemma under_sub: "under (in_dir d n) q \<Longrightarrow> under d q"
proof -
  assume "under (in_dir d n) q"
  then obtain t where "q = (d @ CHR ''/'' # n @ ''/'') @ t"
    by (auto simp: under_def in_dir_def has_prefix_def) (metis append.assoc append_Cons append_take_drop_id)
  then show ?thesis by (simp add: under_def has_prefix_def)
qed

lemma under_prefix: "under d q \<longleftrightarrow> (\<exists>t. q = d @ CHR ''/'' # t)"
  by (auto simp: under_def has_prefix_def) (metis append.assoc append_Cons append_Nil append_take_drop_id)

section \<open>Removing\<close>

lemma file_at_filter:
  "file_at (m\<lparr>mc_files := filter (\<lambda>(q, _). P q) (mc_files m)\<rparr>) q = (if P q then file_at m q else None)"
proof -
  have "map_of (filter (\<lambda>(q, _). P q) fs) q = (if P q then map_of fs q else None)" for fs :: "(string \<times> disk_file) list"
    by (induction fs) auto
  then show ?thesis by (simp add: file_at_def)
qed

lemma kept_files:
  "file_at (spend m\<lparr>mc_files := filter (\<lambda>(q, _). P q) (mc_files m)\<rparr>) q = (if P q then file_at m q else None)"
  using file_at_filter [where m = "spend m" and P = P] by simp

lemma after_tree:
  assumes "\<And>ok m'. only (under d) m m' \<Longrightarrow> (ok \<Longrightarrow> \<forall>q. under d q \<longrightarrow> file_at m' q = None) \<Longrightarrow>
      \<forall>q. file_at m' q = None \<or> file_at m' q = file_at m q \<Longrightarrow> Q ok m'"
  shows "after (remove_tree d) m Q"
  by (auto simp: remove_tree_def after_simps only_def kept_files split: trouble.split intro!: assms)

end
