(* ===== verification/Update_Rules.thy ===== *)
theory Update_Rules
  imports Machine_Rules
begin

text \<open>
  One rule per step of the privileged half (which files it may change, and what its outcome says about the
  installed binary, the kept one, and the service), and then one per step of staging.
\<close>

section \<open>The installed binary\<close>

text \<open>The installed binary, and the name its successor is prepared under, lie outside the updater's directory.\<close>

definition apart :: "string \<Rightarrow> string \<Rightarrow> bool" where
  "apart d p \<longleftrightarrow> \<not> under d p \<and> \<not> under d (new_path p)"

lemma apart_in_dir: "apart d p \<Longrightarrow> in_dir d n \<noteq> p \<and> in_dir d n \<noteq> new_path p"
  using under_in_dir [of d n] by (auto simp: apart_def simp del: under_in_dir)

section \<open>Removing\<close>

lemma after_list_dir:
  assumes "\<And>(r :: (string \<times> time) list option) m'. only none_of m m' \<Longrightarrow> (\<And>es. r = Some es \<Longrightarrow> \<forall>e \<in> set es. under d (fst e)) \<Longrightarrow> Q r m'"
  shows "after (list_dir d) m Q"
  by (auto simp: list_dir_def after_simps split: trouble.split intro!: assms)

lemma after_remove_files:
  assumes "\<And>m'. only (\<lambda>q. q \<in> set ps) m m' \<Longrightarrow> Q () m'"
  shows "after (remove_files ps) m Q"
  using assms
proof (induction ps arbitrary: m)
  case (Cons p ps)
  show ?case
    unfolding remove_files.simps after_simps
  proof (rule after_remove)
    fix ok m1
    assume a: "only ((=) p) m m1"
    show "after (remove_files ps) m1 Q"
      by (rule Cons.IH, rule Cons.prems) (rule only_trans [OF a], auto)
  qed
qed (simp add: after_simps)

lemma pick_newest_set: "set (snd (pick_newest x ys)) \<union> {fst (pick_newest x ys)} = insert x (set ys)"
  by (induction x ys rule: pick_newest.induct) (auto simp: case_prod_unfold Let_def)

lemma newest_first_set: "set (newest_first es) = set es"
proof (induction es rule: newest_first.induct)
  case (2 x xs)
  obtain z zs where p: "pick_newest x xs = (z, zs)" by fastforce
  then show ?case using pick_newest_set [of x xs] "2.IH" [OF p [symmetric]] by (cases z) auto
qed simp

lemma after_prune:
  assumes "\<And>m'. only (under (in_dir (ao_dir ao) ''rollback'')) m m' \<Longrightarrow> Q () m'"
  shows "after (pruneRollbacks ao) m Q"
  unfolding pruneRollbacks_def after_simps
proof (rule after_list_dir)
  fix r :: "(string \<times> time) list option" and m1
  assume a: "only none_of m m1" "\<And>es. r = Some es \<Longrightarrow> \<forall>e \<in> set es. under (in_dir (ao_dir ao) ''rollback'') (fst e)"
  have "after (remove_files (map fst (drop 2 (newest_first es)))) m1 Q" if "r = Some es" for es
  proof (rule after_remove_files)
    fix m2
    assume b: "only (\<lambda>q. q \<in> set (map fst (drop 2 (newest_first es)))) m1 m2"
    show "Q () m2"
      by (rule assms, rule only_trans [OF a(1) b]) (use a(2) [OF that] newest_first_set [of es] in \<open>auto dest!: in_set_dropD\<close>)
  qed
  then show "case r of None \<Rightarrow> Q () m1 | Some es \<Rightarrow> if length es \<le> 2 then Q () m1
      else after (remove_files (map fst (drop 2 (newest_first es)))) m1 Q"
    using a(1) by (auto split: option.split intro!: assms elim: only_weaken)
qed

section \<open>Leaving word\<close>

definition word_files :: "string \<Rightarrow> string \<Rightarrow> bool" where
  "word_files d q \<longleftrightarrow> q \<in> {in_dir d ''result.json'', in_dir d ''result.json.tmp'', in_dir d ''apply.request''}"

lemma word_files_under: "word_files d q \<Longrightarrow> under d q"
  by (auto simp: word_files_def)

lemma after_finish:
  assumes "\<And>m'. only (word_files (ao_dir ao)) m m' \<Longrightarrow> Q res m'"
  shows "after (finish S words ao res) m Q"
  unfolding finish_def after_simps
proof (rule after_time, rule after_atomic)
  fix t m1 ok m2
  assume a: "only none_of m m1" and b: "only (\<lambda>q. q = in_dir (ao_dir ao) ''result.json'' \<or> q = in_dir (ao_dir ao) ''result.json'' @ ''.tmp'') m1 m2"
  show "after (remove_file (in_dir (ao_dir ao) ''apply.request'')) m2 (\<lambda>x. Q res)"
  proof (rule after_remove)
    fix ok3 m3
    assume c: "only ((=) (in_dir (ao_dir ao) ''apply.request'')) m2 m3"
    have ab: "only (word_files (ao_dir ao)) m m2" by (rule only_trans [OF a b]) (auto simp: word_files_def in_dir_app)
    have "only (word_files (ao_dir ao)) m m3" by (rule only_trans [OF ab c]) (auto simp: word_files_def)
    then show "Q res m3" by (rule assms)
  qed
qed

lemma after_refuse:
  assumes "\<And>m'. only (word_files (ao_dir ao)) m m' \<Longrightarrow>
      Q \<lparr>ar_version = version, ar_from = from, ar_verdict = v, ar_rolled_back = False, ar_running_again = False\<rparr> m'"
  shows "after (refuse_update S words ao version from v) m Q"
  unfolding refuse_update_def by (rule after_finish) (rule assms)

section \<open>The service\<close>

lemma after_restart:
  assumes "\<And>ok m'. file_at m' = file_at m \<Longrightarrow> mc_prog m' = mc_prog m \<Longrightarrow> (ok \<Longrightarrow> mc_running m' = data_at m (ao_binary ao)) \<Longrightarrow> Q ok m'"
  shows "after (restart_unit ao) m Q"
  unfolding restart_unit_def after_simps
  by (auto simp: after_simps fun_eq_iff file_at_def split: trouble.split intro!: assms)

section \<open>Going back, and taking over\<close>

lemma data_same: "file_at m' = file_at m \<Longrightarrow> data_at m' q = data_at m q"
  by (simp add: data_at_def)

lemma after_rollback:
  assumes ap: "apart (ao_dir ao) (ao_binary ao)" and b: "under (ao_dir ao) backup" "\<not> word_files (ao_dir ao) backup"
    and Q: "\<And>res m'. ar_verdict res = v \<Longrightarrow> ar_from res = previous \<Longrightarrow> data_at m' backup = data_at m backup \<Longrightarrow>
      (ar_rolled_back res \<Longrightarrow> data_at m' (ao_binary ao) = data_at m backup \<and> (ar_running_again res \<longrightarrow> mc_running m' = data_at m backup)) \<Longrightarrow>
      (\<not> ar_rolled_back res \<Longrightarrow> data_at m' (ao_binary ao) = data_at m (ao_binary ao)) \<Longrightarrow> Q res m'"
  shows "after (rollback S words ao backup version previous v) m Q"
proof -
  let ?p = "ao_binary ao"
  have outside: "\<not> word_files (ao_dir ao) ?p" using ap word_files_under by (auto simp: apart_def)
  have bp: "backup \<noteq> ?p" "backup \<noteq> new_path ?p" using ap b(1) by (auto simp: apart_def)
  show ?thesis
    unfolding rollback_def after_simps
  proof (rule after_install)
    fix ok m1
    assume a: "only (\<lambda>q. q = ?p \<or> q = new_path ?p) m m1" "ok \<Longrightarrow> data_at m backup \<noteq> None \<and> data_at m1 ?p = data_at m backup"
      "\<not> ok \<Longrightarrow> data_at m1 ?p = data_at m ?p"
    have k: "data_at m1 backup = data_at m backup" by (rule only_data [OF a(1)]) (use bp in auto)
    have "after (refuse_update S words ao version previous v) m1 Q" if "\<not> ok"
    proof (rule after_refuse)
      fix m2
      assume c: "only (word_files (ao_dir ao)) m1 m2"
      show "Q \<lparr>ar_version = version, ar_from = previous, ar_verdict = v, ar_rolled_back = False, ar_running_again = False\<rparr> m2"
        using only_data [OF c outside] only_data [OF c b(2)] a(3) [OF that] k by (intro Q) simp_all
    qed
    moreover have "after (restart_unit ao) m1 (\<lambda>x m'. after (finish S words ao
        \<lparr>ar_version = version, ar_from = previous, ar_verdict = v, ar_rolled_back = True, ar_running_again = x\<rparr>) m' Q)" if ok
    proof (rule after_restart, rule after_finish)
      fix up m2 m3
      assume r: "file_at m2 = file_at m1" "mc_prog m2 = mc_prog m1" "up \<Longrightarrow> mc_running m2 = data_at m1 ?p" and c: "only (word_files (ao_dir ao)) m2 m3"
      show "Q \<lparr>ar_version = version, ar_from = previous, ar_verdict = v, ar_rolled_back = True, ar_running_again = up\<rparr> m3"
        using only_data [OF c outside] only_data [OF c b(2)] a(2) [OF that] k r c data_same [OF r(1)]
        by (intro Q) (simp_all add: only_def)
    qed
    ultimately show "if \<not> ok then after (refuse_update S words ao version previous v) m1 Q
      else after (restart_unit ao) m1 (\<lambda>x m'. after (finish S words ao
        \<lparr>ar_version = version, ar_from = previous, ar_verdict = v, ar_rolled_back = True, ar_running_again = x\<rparr>) m' Q)" by simp
  qed
qed

text \<open>What an attempt leaves, told from the moment the new binary is in place.\<close>

definition taken_over :: "apply_options \<Rightarrow> string \<Rightarrow> 's machine \<Rightarrow> apply_result \<Rightarrow> 's machine \<Rightarrow> bool" where
  "taken_over ao backup m res m' \<longleftrightarrow>
     (if ar_ok res then data_at m' (ao_binary ao) = data_at m (ao_binary ao) \<and> mc_running m' = data_at m (ao_binary ao) \<and> \<not> ar_rolled_back res
      else data_at m' backup = data_at m backup \<and>
        (if ar_rolled_back res
         then data_at m' (ao_binary ao) = data_at m backup \<and> (ar_running_again res \<longrightarrow> mc_running m' = data_at m backup)
         else data_at m' (ao_binary ao) = data_at m (ao_binary ao)))"

lemma after_take_over:
  assumes ap: "apart (ao_dir ao) (ao_binary ao)" and b: "under (ao_dir ao) backup" "\<not> word_files (ao_dir ao) backup"
    and Q: "\<And>res m'. ar_from res = previous \<Longrightarrow> taken_over ao backup m res m' \<Longrightarrow> Q res m'"
  shows "after (take_over S words ao backup version previous) m Q"
proof -
  let ?p = "ao_binary ao" and ?d = "ao_dir ao"
  have out: "\<not> under ?d ?p" using ap by (simp add: apart_def)
  have goes_back: "after (rollback S words ao backup version previous v) m1 Q" if "file_at m1 = file_at m" "v \<noteq> Installed" for v m1
    by (rule after_rollback [OF ap b], rule Q) (auto simp: taken_over_def ar_ok_def data_same [OF that(1)] that(2))
  show ?thesis
    unfolding take_over_def after_simps
  proof (rule after_restart)
    fix up m1
    assume r: "file_at m1 = file_at m" "mc_prog m1 = mc_prog m" "up \<Longrightarrow> mc_running m1 = data_at m ?p"
    let ?fin = "finish S words ao \<lparr>ar_version = version, ar_from = previous, ar_verdict = Installed, ar_rolled_back = False, ar_running_again = True\<rparr>"
    have "after (waitHealthy S ao) m1 (\<lambda>h m2. if h \<noteq> Healthy then after (rollback S words ao backup version previous (Unhealthy h)) m2 Q
        else after (remove_tree (in_dir ?d ''staged'')) m2 (\<lambda>x m3. after (pruneRollbacks ao) m3 (\<lambda>x m4. after ?fin m4 Q)))" if up
    proof (rule watches_after [OF watches_wait])
      fix h m2
      assume w: "only none_of m1 m2"
      have f: "file_at m2 = file_at m" using w r(1) by (simp add: only_def fun_eq_iff)
      have "after (remove_tree (in_dir ?d ''staged'')) m2 (\<lambda>x m3. after (pruneRollbacks ao) m3 (\<lambda>x m4. after ?fin m4 Q))"
      proof (rule after_tree, rule after_prune, rule after_finish)
        fix ok m3 m4 m5
        assume c: "only (under (in_dir ?d ''staged'')) m2 m3" "only (under (in_dir ?d ''rollback'')) m3 m4" "only (word_files ?d) m4 m5"
        have o: "only (under ?d) m2 m4" by (rule only_trans [OF c(1,2)]) (auto dest: under_sub)
        have o2: "only (under ?d) m2 m5" by (rule only_trans [OF o c(3)]) (auto dest: word_files_under)
        have o3: "only (under ?d) m1 m5" by (rule only_trans [OF w o2]) auto
        show "Q \<lparr>ar_version = version, ar_from = previous, ar_verdict = Installed, ar_rolled_back = False, ar_running_again = True\<rparr> m5"
          using only_data [OF o3 out] r(3) [OF that] data_same [OF r(1)] o3
          by (intro Q) (simp_all add: taken_over_def ar_ok_def only_def)
      qed
      with goes_back [OF f] show "if h \<noteq> Healthy then after (rollback S words ao backup version previous (Unhealthy h)) m2 Q
        else after (remove_tree (in_dir ?d ''staged'')) m2 (\<lambda>x m3. after (pruneRollbacks ao) m3 (\<lambda>x m4. after ?fin m4 Q))" by simp
    qed
    with goes_back [OF r(1)] show "if \<not> up then after (rollback S words ao backup version previous RestartFailed) m1 Q
      else after (waitHealthy S ao) m1 (\<lambda>h m2. if h \<noteq> Healthy then after (rollback S words ao backup version previous (Unhealthy h)) m2 Q
        else after (remove_tree (in_dir ?d ''staged'')) m2 (\<lambda>x m3. after (pruneRollbacks ao) m3 (\<lambda>x m4. after ?fin m4 Q)))" by simp
  qed
qed

chapter \<open>Staging\<close>

text \<open>
  One rule per step of staging: the files it may change, and what it found out.
\<close>

section \<open>Looking at a file\<close>

lemma after_executable:
  assumes "\<And>r m'. only none_of m m' \<Longrightarrow> (\<And>body. r = None \<Longrightarrow> data_at m p = Some body \<Longrightarrow> os = ''linux'' \<longrightarrow> executable_here S arch body = None) \<Longrightarrow> Q r m'"
  shows "after (checkExecutable S p os arch) m Q"
proof (cases "os = ''linux''")
  case True
  show ?thesis
    unfolding checkExecutable_def after_simps
    by (simp add: True, rule after_read) (auto intro!: assms split: sum.split_asm)
qed (auto simp: checkExecutable_def after_simps intro!: assms)

lemma after_digest:
  assumes "\<And>r m'. only none_of m m' \<Longrightarrow> (\<And>d. r = Some d \<Longrightarrow> \<exists>body. data_at m p = Some body \<and> d = sha256_hex S body) \<Longrightarrow> Q r m'"
  shows "after (sha256File S p) m Q"
  unfolding sha256File_def after_simps by (rule after_read) (auto intro!: assms split: sum.split_asm)

section \<open>The manager's own files\<close>

text \<open>\<open>outside A m m'\<close>: like \<open>only\<close>, for programs that also change what the manager knows.\<close>

definition outside :: "(string \<Rightarrow> bool) \<Rightarrow> 's machine \<Rightarrow> 's machine \<Rightarrow> bool" where
  "outside A m m' \<longleftrightarrow> (\<forall>q. \<not> A q \<longrightarrow> data_at m' q = data_at m q)"

lemma only_outside: "only A m m' \<Longrightarrow> (\<And>q. A q \<Longrightarrow> B q) \<Longrightarrow> outside B m m'"
  unfolding outside_def by (meson only_data)

lemma outside_trans: "outside A m m' \<Longrightarrow> outside B m' m'' \<Longrightarrow> (\<And>q. A q \<or> B q \<Longrightarrow> C q) \<Longrightarrow> outside C m m''"
  unfolding outside_def by metis

definition state_files :: "manager \<Rightarrow> string \<Rightarrow> bool" where
  "state_files mg q \<longleftrightarrow> q \<in> {in_dir (mg_dir mg) ''state.json'', in_dir (mg_dir mg) ''state.json'' @ ''.tmp''}"

lemma after_update_to:
  assumes "\<And>m'. outside (state_files mg) m m' \<Longrightarrow> mc_prog m' = f (mc_prog m) \<Longrightarrow> Q () m'"
  shows "after (update_to S mg f) m Q"
  unfolding update_to_def get_state_def saveState_def after_simps prod.case
proof (rule after_atomic)
  let ?m = "m\<lparr>mc_prog := f (mc_prog m)\<rparr>"
  fix ok m'
  assume o: "only (\<lambda>q. q = in_dir (mg_dir mg) ''state.json'' \<or> q = in_dir (mg_dir mg) ''state.json'' @ ''.tmp'') ?m m'"
  have "outside (state_files mg) ?m m'" by (rule only_outside [OF o]) (auto simp: state_files_def)
  then have "outside (state_files mg) m m'" by (simp add: outside_def data_at_def file_at_def)
  moreover have "mc_prog m' = f (mc_prog m)" using o by (simp add: only_def)
  ultimately show "Q () m'" by (rule assms)
qed

lemma after_setFailed:
  assumes "\<And>m'. outside (state_files mg) m m' \<Longrightarrow> Q (Inl f) m'"
  shows "after (setFailed S mg f) m Q"
  unfolding setFailed_def after_simps by (rule after_update_to) (rule assms)

lemma after_download:
  assumes "\<And>r m'. only ((=) dest) m m' \<Longrightarrow> (\<And>d. r = Inr d \<Longrightarrow> \<exists>a. gh_answer gh url = Some a \<and> ha_status a = 200 \<and> \<not> ha_broken a \<and>
      data_at m' dest = Some (ha_body a) \<and> d = sha256_hex S (ha_body a)) \<Longrightarrow> Q r m'"
  shows "after (download S gh url dest) m Q"
proof (cases "gh_answer gh url")
  case None
  then show ?thesis unfolding download_def by (auto simp: after_simps intro!: assms)
next
  case (Some a)
  have "after (do {
      opened \<leftarrow> write_file dest [];
      if \<not> opened then yield_op (Inl (failf ReasonCorrupt))
      else do {
        copied \<leftarrow> write_file dest (ha_body a);
        if \<not> copied \<or> ha_broken a then yield_op (Inl (failf ReasonNetwork))
        else do {
          synced \<leftarrow> attempt_op id;
          yield_op (if \<not> synced then Inl (failf ReasonCorrupt) else Inr (sha256_hex S (ha_body a)))
        }
      }
    }) m Q" if "ha_status a = 200"
    unfolding after_simps
  proof (rule after_write)
    fix opened m1
    assume o1: "only ((=) dest) m m1"
    have "after (write_file dest (ha_body a)) m1 (\<lambda>x m'. if \<not> x \<or> ha_broken a then Q (Inl (failf ReasonNetwork)) m'
        else after (attempt_op id) m' (\<lambda>x. Q (if \<not> x then Inl (failf ReasonCorrupt) else Inr (sha256_hex S (ha_body a)))))"
    proof (rule after_write)
      fix copied m2
      assume o2: "only ((=) dest) m1 m2" and w: "copied \<Longrightarrow> data_at m2 dest = Some (ha_body a)"
      have o: "only ((=) dest) m m2" by (rule only_trans [OF o1 o2]) auto
      have "after (attempt_op id) m2 (\<lambda>x. Q (if \<not> x then Inl (failf ReasonCorrupt) else Inr (sha256_hex S (ha_body a))))"
        if "copied" "\<not> ha_broken a"
      proof (rule after_sync)
        fix ok m3
        assume o3: "only none_of m2 m3"
        have "only ((=) dest) m m3" by (rule only_trans [OF o o3]) auto
        then show "Q (if \<not> ok then Inl (failf ReasonCorrupt) else Inr (sha256_hex S (ha_body a))) m3"
          using Some \<open>ha_status a = 200\<close> that w only_data [OF o3, of dest] by (intro assms) (auto split: if_splits)
      qed
      then show "if \<not> copied \<or> ha_broken a then Q (Inl (failf ReasonNetwork)) m2
          else after (attempt_op id) m2 (\<lambda>x. Q (if \<not> x then Inl (failf ReasonCorrupt) else Inr (sha256_hex S (ha_body a))))"
        by (auto intro!: assms o)
    qed
    then show "if \<not> opened then Q (Inl (failf ReasonCorrupt)) m1 else after (write_file dest (ha_body a)) m1
        (\<lambda>x m'. if \<not> x \<or> ha_broken a then Q (Inl (failf ReasonNetwork)) m'
          else after (attempt_op id) m' (\<lambda>x. Q (if \<not> x then Inl (failf ReasonCorrupt) else Inr (sha256_hex S (ha_body a)))))"
      by (auto intro!: assms o1)
  qed
  then show ?thesis unfolding download_def Some by (auto simp: after_yield intro!: assms)
qed

lemma after_extract:
  assumes "\<And>r m'. only ((=) dest) m m' \<Longrightarrow> (r = None \<Longrightarrow> \<exists>s es e. data_at m archive = Some s \<and> si_untar S s = Some es \<and>
      find wanted_entry es = Some e \<and> \<not> te_broken e \<and> data_at m' dest = Some (unpacked e)) \<Longrightarrow> Q r m'"
  shows "after (extractBinary S archive dest) m Q"
  unfolding extractBinary_def after_bind
proof (rule after_read, goal_cases)
  case (1 r m1)
  have o: "only ((=) dest) m m1" by (rule only_weaken [OF 1(1)]) simp
  have stop: "Q (Some (failf ReasonCorrupt)) m1" by (rule assms [OF o]) simp
  show ?case
  proof (cases "\<exists>s es e. r = Inr s \<and> si_untar S s = Some es \<and> find wanted_entry es = Some e")
    case False
    then show ?thesis by (auto simp: after_simps stop split: sum.split option.split)
  next
    case True
    then obtain s es e where e: "r = Inr s" "si_untar S s = Some es" "find wanted_entry es = Some e" by blast
    have "after (write_file dest (unpacked e)) m1 (\<lambda>w. Q (if w \<and> \<not> te_broken e then None else Some (failf ReasonCorrupt)))"
    proof (rule after_write)
      fix ok m2
      assume o2: "only ((=) dest) m1 m2" and w: "ok \<Longrightarrow> data_at m2 dest = Some (unpacked e)"
      have "only ((=) dest) m m2" by (rule only_trans [OF o o2]) auto
      then show "Q (if ok \<and> \<not> te_broken e then None else Some (failf ReasonCorrupt)) m2"
        using 1(2) [OF e(1)] e(2,3) w by (intro assms) (auto split: if_splits)
    qed
    then show ?thesis using e by (simp add: after_simps)
  qed
qed

section \<open>Vouched for\<close>

text \<open>The archive of a release as GitHub sent it, whole and with the digest its \<open>checksums.txt\<close> gives.\<close>

definition release_archive :: "site \<Rightarrow> manager \<Rightarrow> github \<Rightarrow> github_release \<Rightarrow> string \<Rightarrow> bool" where
  "release_archive S mg gh rel body \<longleftrightarrow>
     (\<exists>asset a sums b vouch.
        Asset (assetName mg (rl_tag rel)) rel = Some asset \<and> gh_answer gh (as_url asset) = Some a \<and>
        ha_status a = 200 \<and> \<not> ha_broken a \<and> ha_body a = body \<and>
        Asset ''checksums.txt'' rel = Some sums \<and> gh_answer gh (as_url sums) = Some b \<and> ha_status b = 200 \<and> \<not> ha_broken b \<and>
        vouched (take 1048576 (ha_body b)) (assetName mg (rl_tag rel)) = Some vouch \<and> equal_fold vouch (sha256_hex S body))"

definition staged_from :: "site \<Rightarrow> manager \<Rightarrow> string \<Rightarrow> string \<Rightarrow> bool" where
  "staged_from S mg body binary \<longleftrightarrow>
     (\<exists>es e. si_untar S body = Some es \<and> find wanted_entry es = Some e \<and> \<not> te_broken e \<and> binary = unpacked e) \<and>
     (mg_os mg = ''linux'' \<longrightarrow> executable_here S (mg_arch mg) binary = None)"

lemma checksum_passed:
  "verifyChecksum gh rel name d = None \<Longrightarrow> \<exists>sums b vouch. Asset ''checksums.txt'' rel = Some sums \<and> gh_answer gh (as_url sums) = Some b \<and>
     ha_status b = 200 \<and> \<not> ha_broken b \<and> vouched (take 1048576 (ha_body b)) name = Some vouch \<and> equal_fold vouch d"
  by (auto simp: verifyChecksum_def split: option.splits if_splits)

text \<open>How staging ends: with a binary and a manifest that name each other, or without a new manifest.\<close>

definition staged_well :: "site \<Rightarrow> manager \<Rightarrow> string option \<Rightarrow> (string \<Rightarrow> bool) \<Rightarrow> failure_report + staged_update \<Rightarrow> update_state machine \<Rightarrow> bool" where
  "staged_well S mg before good r m' \<longleftrightarrow> (case r of
      Inl _ \<Rightarrow> data_at m' (manifestPath mg) = before
    | Inr sg \<Rightarrow> (\<exists>binary. good binary \<and> data_at m' (stagedBin mg) = Some binary \<and> sg_sha256 sg = sha256_hex S binary) \<and>
        data_at m' (manifestPath mg) = Some (pretty 0 (staged_json (si_when S) sg)) \<and> us_staged (mc_prog m') = Some sg)"

lemma stage_places:
  "manifestPath mg \<noteq> stagedBin mg" "\<not> state_files mg (manifestPath mg)" "\<not> state_files mg (stagedBin mg)"
  "stagedBin mg \<noteq> manifestPath mg @ ''.tmp''"
  by (simp_all add: manifestPath_def stagedBin_def stagedDir_def state_files_def in_dir_app in_dir_def)

lemma failed_staging:
  assumes "data_at m (manifestPath mg) = before"
  shows "after (setFailed S mg f) m (staged_well S mg before good)"
  by (rule after_setFailed) (use assms stage_places in \<open>simp add: staged_well_def outside_def\<close>)

lemma after_park:
  assumes "\<And>binary. data_at m (stagedBin mg) = Some binary \<Longrightarrow> good binary" and before: "data_at m (manifestPath mg) = before"
  shows "after (park S mg rel by automatic) m (\<lambda>r m'. staged_well S mg before good r m' \<and> (\<forall>sg. r = Inr sg \<longrightarrow> sg_version sg = rl_tag rel))"
  unfolding park_def after_bind
proof (rule after_digest, goal_cases)
  case (1 d m1)
  have same: "data_at m1 q = data_at m q" for q using only_data [OF 1(1)] by simp
  have fail: "after (setFailed S mg f) m' (\<lambda>r m'. staged_well S mg before good r m' \<and> (\<forall>sg. r = Inr sg \<longrightarrow> sg_version sg = rl_tag rel))"
    if "data_at m' (manifestPath mg) = before" for f m'
    by (rule after_setFailed) (use that stage_places in \<open>simp add: staged_well_def outside_def\<close>)
  show ?case
  proof (cases d)
    case None
    then show ?thesis using fail [of m1] same before by simp
  next
    case (Some x)
    with 1(2) obtain binary where b: "data_at m (stagedBin mg) = Some binary" "x = sha256_hex S binary" by blast
    let ?st = "\<lambda>now. \<lparr>sg_version = rl_tag rel, sg_sha256 = x, sg_path = stagedBin mg, sg_at = Some now, sg_by = by, sg_automatic = automatic\<rparr>"
    show ?thesis
      unfolding Some option.case after_bind after_let
    proof (rule after_time, rule after_atomic, goal_cases)
      case (1 now m2 ok m3)
      have kept: "data_at m3 (stagedBin mg) = Some binary"
        using only_data [OF 1(4), of "stagedBin mg"] only_data [OF 1(1), of "stagedBin mg"] same b(1) stage_places [of mg] by auto
      have old: "\<not> ok \<Longrightarrow> data_at m3 (manifestPath mg) = before"
        using 1(6) only_data [OF 1(1), of "manifestPath mg"] same before by simp
      have "after (update_to S mg (\<lambda>s. s\<lparr>us_phase := PhaseStaged, us_staged := Some (?st now), us_downloaded := 0, us_total := 0\<rparr>)) m3
          (\<lambda>_ m'. staged_well S mg before good (Inr (?st now)) m')" if ok
        by (rule after_update_to)
          (use 1(5) [OF that] kept assms(1) [OF b(1)] b(2) stage_places in \<open>simp add: staged_well_def outside_def\<close>)
      then show ?case using fail old by (simp add: after_simps)
    qed
  qed
qed

text \<open>What staging promises of a release: on success its version, and a binary out of its archive.\<close>

definition stage_promise :: "site \<Rightarrow> manager \<Rightarrow> github \<Rightarrow> github_release \<Rightarrow> string option \<Rightarrow> failure_report + staged_update \<Rightarrow> update_state machine \<Rightarrow> bool" where
  "stage_promise S mg gh rel before r m' \<longleftrightarrow>
     staged_well S mg before (\<lambda>binary. \<exists>body. release_archive S mg gh rel body \<and> staged_from S mg body binary) r m' \<and>
     (\<forall>sg. r = Inr sg \<longrightarrow> sg_version sg = rl_tag rel)"

abbreviation archive_path :: "manager \<Rightarrow> github_release \<Rightarrow> string" where
  "archive_path mg rel \<equiv> in_dir (stagedDir mg) (assetName mg (rl_tag rel))"

lemma promise_fails:
  assumes "data_at m (manifestPath mg) = before"
  shows "after (setFailed S mg f) m (stage_promise S mg gh rel before)"
  by (rule after_setFailed) (use assms stage_places in \<open>simp add: stage_promise_def staged_well_def outside_def\<close>)

lemma asset_place: "archive_path mg rel \<noteq> manifestPath mg" "archive_path mg rel \<noteq> stagedBin mg" "\<not> state_files mg (archive_path mg rel)"
proof -
  have "assetName mg (rl_tag rel) \<noteq> ''manifest.json''" "assetName mg (rl_tag rel) \<noteq> ''revpd''" by (simp_all add: assetName_def)
  then show "archive_path mg rel \<noteq> manifestPath mg" "archive_path mg rel \<noteq> stagedBin mg"
    by (simp_all add: manifestPath_def stagedBin_def)
  show "\<not> state_files mg (archive_path mg rel)"
    by (simp add: state_files_def stagedDir_def in_dir_app in_dir_def)
qed

lemma after_unpack:
  assumes body: "data_at m (archive_path mg rel) = Some body" and good: "release_archive S mg gh rel body"
    and before: "data_at m (manifestPath mg) = before"
  shows "after (unpack_archive S mg rel (archive_path mg rel) by automatic) m (stage_promise S mg gh rel before)"
  unfolding unpack_archive_def after_bind
proof (rule after_extract, goal_cases)
  case (1 r m1)
  have b1: "data_at m1 (manifestPath mg) = before" using only_data [OF 1(1), of "manifestPath mg"] before stage_places(1) [of mg] by auto
  show ?case
  proof (cases r)
    case (Some f)
    then show ?thesis using promise_fails [OF b1] by simp
  next
    case None
    with 1(2) body obtain es e where e: "si_untar S body = Some es" "find wanted_entry es = Some e" "\<not> te_broken e"
      "data_at m1 (stagedBin mg) = Some (unpacked e)" by auto
    show ?thesis
      unfolding None option.case after_bind
    proof (rule after_remove, rule after_executable, goal_cases)
      case (1 ok m2 r2 m3)
      have o: "only ((=) (archive_path mg rel)) m1 m3" by (rule only_trans [OF 1(1,3)]) auto
      have b3: "data_at m3 (manifestPath mg) = before" "data_at m3 (stagedBin mg) = Some (unpacked e)" "data_at m2 (stagedBin mg) = Some (unpacked e)"
        using only_data [OF o] only_data [OF 1(1)] asset_place [of mg rel] b1 e(4) by auto
      show ?case
      proof (cases r2)
        case (Some f)
        then show ?thesis using promise_fails [OF b3(1)] by simp
      next
        case None
        have "staged_from S mg body (unpacked e)" using e(1-3) 1(4) [OF None b3(3)] by (auto simp: staged_from_def)
        with good b3(2) have "after (park S mg rel by automatic) m3 (\<lambda>r m'. staged_well S mg before
            (\<lambda>binary. \<exists>body. release_archive S mg gh rel body \<and> staged_from S mg body binary) r m' \<and> (\<forall>sg. r = Inr sg \<longrightarrow> sg_version sg = rl_tag rel))"
          by (intro after_park) (use b3(1) in auto)
        with None show ?thesis by (simp add: stage_promise_def [abs_def])
      qed
    qed
  qed
qed

lemma after_fetch:
  assumes asset: "Asset (assetName mg (rl_tag rel)) rel = Some asset" and before: "data_at m (manifestPath mg) = before"
  shows "after (fetch_archive S mg gh rel asset by automatic) m (stage_promise S mg gh rel before)"
  unfolding fetch_archive_def after_let after_bind
proof (rule after_download, goal_cases)
  case (1 r m1)
  have b1: "data_at m1 (manifestPath mg) = before" using only_data [OF 1(1), of "manifestPath mg"] before asset_place(1) [of mg rel] by auto
  show ?case
  proof (cases r)
    case (Inl f)
    then show ?thesis using promise_fails [OF b1] by simp
  next
    case (Inr d)
    with 1(2) obtain a where a: "gh_answer gh (as_url asset) = Some a" "ha_status a = 200" "\<not> ha_broken a"
      "data_at m1 (archive_path mg rel) = Some (ha_body a)" "d = sha256_hex S (ha_body a)" by blast
    show ?thesis
      unfolding Inr sum.case after_bind
    proof (rule after_update_to, goal_cases)
      case (1 m2)
      have b2: "data_at m2 (manifestPath mg) = before" "data_at m2 (archive_path mg rel) = Some (ha_body a)"
        using 1(1) b1 a(4) asset_place(3) [of mg rel] stage_places(2) [of mg] by (simp_all add: outside_def)
      show ?case
      proof (cases "verifyChecksum gh rel (assetName mg (rl_tag rel)) d")
        case (Some f)
        then show ?thesis using promise_fails [OF b2(1)] by simp
      next
        case None
        have "release_archive S mg gh rel (ha_body a)"
          using asset a checksum_passed [OF None] by (auto simp: release_archive_def)
        with None show ?thesis using after_unpack [OF b2(2) _ b2(1)] by simp
      qed
    qed
  qed
qed

end
