(* ===== verification/Update_Guarantees.thy ===== *)
theory Update_Guarantees
  imports Update_Rules
begin

text \<open>
  What the updater guarantees: how releases are ordered, that only a binary that was verified is installed and
  the old one is never lost, and what a staged update is vouched for by.
\<close>

section \<open>Replacing the binary\<close>

text \<open>What the privileged half has checked about a file before it takes the place of the installed one.\<close>

definition update_verified :: "site \<Rightarrow> apply_options \<Rightarrow> 's machine \<Rightarrow> string \<Rightarrow> bool" where
  "update_verified S ao m body \<longleftrightarrow>
     (\<exists>req man rq mf out ws got.
        data_at m (in_dir (ao_dir ao) ''apply.request'') = Some req \<and> read_doc request_slots no_request req = Some rq \<and>
        data_at m (in_dir (in_dir (ao_dir ao) ''staged'') ''manifest.json'') = Some man \<and>
        read_doc (staged_slots (si_when S)) no_staged man = Some mf \<and>
        rq_version rq \<noteq> [] \<and> sg_version mf = rq_version rq \<and>
        sha256_hex S body = sg_sha256 mf \<and> sha256_hex S body = rq_sha256 rq \<and>
        (ao_os ao = ''linux'' \<longrightarrow> executable_here S (ao_arch ao) body = None) \<and>
        si_output S body = Some out \<and> text_fields [] out = hd (text_fields [] out) # got # ws \<and>
        got \<in> {rq_version rq, trim_prefix (rq_version rq) ''v''})"

definition update_outcome :: "apply_options \<Rightarrow> 's machine \<Rightarrow> string \<Rightarrow> apply_result \<Rightarrow> 's machine \<Rightarrow> bool" where
  "update_outcome ao m body res m' \<longleftrightarrow>
     (let now = data_at m' (ao_binary ao); before = data_at m (ao_binary ao) in
      if ar_ok res then now = Some body \<and> mc_running m' = Some body
      else if ar_rolled_back res then now = before \<and> (ar_running_again res \<longrightarrow> mc_running m' = before)
      else now = before \<or> (now = Some body \<and> data_at m' (backup_path ao (ar_from res)) = before))"

lemma backup_place: "under (ao_dir ao) (backup_path ao v)" "\<not> word_files (ao_dir ao) (backup_path ao v)" "backup_path ao v \<noteq> staged_path ao"
  by (simp_all add: backup_path_def staged_path_def word_files_def in_dir_app)

lemma staged_place: "under (ao_dir ao) (staged_path ao)"
  by (simp add: staged_path_def in_dir_app)

lemma untouched: "apart (ao_dir ao) (ao_binary ao) \<Longrightarrow> only (word_files (ao_dir ao)) m m' \<Longrightarrow> data_at m' (ao_binary ao) = data_at m (ao_binary ao)"
  by (rule only_data) (auto simp: apart_def dest: word_files_under)

lemma update_stopped:
  assumes "apart (ao_dir ao) (ao_binary ao)" and "data_at m1 (ao_binary ao) = data_at m (ao_binary ao)" and "v \<noteq> Installed"
    and Q: "\<And>res m'. update_outcome ao m body res m' \<Longrightarrow> Q res m'"
  shows "after (refuse_update S words ao version from v) m1 Q"
proof (rule after_refuse)
  fix m2
  assume o: "only (word_files (ao_dir ao)) m1 m2"
  show "Q \<lparr>ar_version = version, ar_from = from, ar_verdict = v, ar_rolled_back = False, ar_running_again = False\<rparr> m2"
    using untouched [OF assms(1) o] assms(2,3) by (intro Q) (simp add: update_outcome_def ar_ok_def Let_def)
qed

lemma after_place:
  assumes ap: "apart (ao_dir ao) (ao_binary ao)"
    and m3: "data_at m3 (ao_binary ao) = data_at m (ao_binary ao)" "data_at m3 (staged_path ao) = Some body"
      "data_at m3 (backup_path ao v) = data_at m (ao_binary ao)"
    and Q: "\<And>res m'. update_outcome ao m body res m' \<Longrightarrow> Q res m'"
  shows "after (place_binary S words ao version v) m3 Q"
  unfolding place_binary_def after_simps
proof (rule after_install)
  let ?p = "ao_binary ao" and ?b = "backup_path ao v"
  fix placed m4
  assume d: "only (\<lambda>q. q = ?p \<or> q = new_path ?p) m3 m4" "placed \<Longrightarrow> data_at m3 (staged_path ao) \<noteq> None \<and> data_at m4 ?p = data_at m3 (staged_path ao)"
    "\<not> placed \<Longrightarrow> data_at m4 ?p = data_at m3 ?p"
  have b4: "data_at m4 ?b = data_at m ?p"
    unfolding m3(3) [symmetric] by (rule only_data [OF d(1)]) (use ap backup_place(1) [of ao v] in \<open>auto simp: apart_def\<close>)
  have "after (take_over S words ao ?b version v) m4 Q" if placed
  proof (rule after_take_over [OF ap backup_place(1,2)])
    fix res m5
    assume "ar_from res = v" "taken_over ao ?b m4 res m5"
    with d(2) [OF that] m3 b4 show "Q res m5"
      by (intro Q) (auto simp: update_outcome_def taken_over_def Let_def split: if_splits)
  qed
  moreover have "after (refuse_update S words ao version v NotReplaced) m4 Q" if "\<not> placed"
    by (rule update_stopped [OF ap _ _ Q]) (use d(3) [OF that] m3 in auto)
  ultimately show "if \<not> placed then after (refuse_update S words ao version v NotReplaced) m4 Q
      else after (take_over S words ao ?b version v) m4 Q" by simp
qed

lemma after_replace:
  assumes ap: "apart (ao_dir ao) (ao_binary ao)" and body: "data_at m (staged_path ao) = Some body"
    and Q: "\<And>res m'. update_outcome ao m body res m' \<Longrightarrow> Q res m'"
  shows "after (replace_binary S words ao version) m Q"
  unfolding replace_binary_def after_simps
proof (rule after_version, rule after_mkdir)
  let ?p = "ao_binary ao"
  fix r :: "string option" and m1 ok m2
  assume a: "only none_of m m1" "only none_of m1 m2"
  let ?v = "case r of None \<Rightarrow> [] | Some v \<Rightarrow> v"
  let ?b = "backup_path ao ?v"
  have o: "only none_of m m2" by (rule only_trans [OF a]) auto
  have bp: "?p \<noteq> ?b" "staged_path ao \<noteq> ?b" using ap backup_place [of ao ?v] by (auto simp: apart_def)
  have "after (copyFile ?p ?b) m2 (\<lambda>kept m3. if \<not> kept then after (refuse_update S words ao version ?v NoBackup) m3 Q
      else after (place_binary S words ao version ?v) m3 Q)"
  proof (rule after_copy)
    fix kept m3
    assume c: "only ((=) ?b) m2 m3" "kept \<Longrightarrow> data_at m2 ?p \<noteq> None \<and> data_at m3 ?b = data_at m2 ?p"
    have o3: "only ((=) ?b) m m3" by (rule only_trans [OF o c(1)]) auto
    have p3: "data_at m3 ?p = data_at m ?p" "data_at m3 (staged_path ao) = Some body"
      using only_data [OF o3] bp body by auto
    have "after (refuse_update S words ao version ?v NoBackup) m3 Q" by (rule update_stopped [OF ap p3(1) _ Q]) simp_all
    moreover have "after (place_binary S words ao version ?v) m3 Q" if kept
      by (rule after_place [OF ap p3 _ Q]) (use c(2) [OF that] only_data [OF o, of ?p] in simp_all)
    ultimately show "if \<not> kept then after (refuse_update S words ao version ?v NoBackup) m3 Q
      else after (place_binary S words ao version ?v) m3 Q" by simp
  qed
  moreover have "after (refuse_update S words ao version ?v NoBackupDir) m2 Q"
    by (rule update_stopped [OF ap _ _ Q]) (use only_data [OF o, of ?p] in simp_all)
  ultimately show "if \<not> ok then after (refuse_update S words ao version ?v NoBackupDir) m2 Q
    else after (copyFile ?p ?b) m2 (\<lambda>kept m3. if \<not> kept then after (refuse_update S words ao version ?v NoBackup) m3 Q
      else after (place_binary S words ao version ?v) m3 Q)" by simp
qed

text \<open>What has been found out by the time the old binary is replaced.\<close>

definition staged_checked :: "site \<Rightarrow> apply_options \<Rightarrow> string \<Rightarrow> string \<Rightarrow> bool" where
  "staged_checked S ao version body \<longleftrightarrow>
     (ao_os ao = ''linux'' \<longrightarrow> executable_here S (ao_arch ao) body = None) \<and>
     (\<exists>out got ws. si_output S body = Some out \<and> text_fields [] out = hd (text_fields [] out) # got # ws \<and>
        got \<in> {version, trim_prefix version ''v''})"

lemma after_try:
  assumes ap: "apart (ao_dir ao) (ao_binary ao)" and body: "data_at m (staged_path ao) = Some body"
    and stop: "\<And>res m'. \<not> ar_ok res \<Longrightarrow> \<not> ar_rolled_back res \<Longrightarrow> data_at m' (ao_binary ao) = data_at m (ao_binary ao) \<Longrightarrow> Q res m'"
    and Q: "\<And>res m'. staged_checked S ao version body \<Longrightarrow> update_outcome ao m body res m' \<Longrightarrow> Q res m'"
  shows "after (try_staged S words ao version) m Q"
proof -
  have refuse: "after (refuse_update S words ao version [] v) m1 Q" if "only none_of m m1" "v \<noteq> Installed" for v m1
  proof (rule after_refuse)
    fix m2
    assume o: "only (word_files (ao_dir ao)) m1 m2"
    show "Q \<lparr>ar_version = version, ar_from = [], ar_verdict = v, ar_rolled_back = False, ar_running_again = False\<rparr> m2"
      using untouched [OF ap o] only_data [OF that(1)] that(2) by (intro stop) (simp_all add: ar_ok_def)
  qed
  show ?thesis
    unfolding try_staged_def after_simps
  proof (rule after_executable)
    fix r :: "failure_report option" and m1
    assume a: "only none_of m m1" and x: "\<And>b. r = None \<Longrightarrow> data_at m (staged_path ao) = Some b \<Longrightarrow> ao_os ao = ''linux'' \<longrightarrow> executable_here S (ao_arch ao) b = None"
    let ?rest = "\<lambda>m1. after (binaryVersion S (staged_path ao)) m1 (\<lambda>rep m2. case rep of
        None \<Rightarrow> after (refuse_update S words ao version [] DoesNotRun) m2 Q
      | Some got \<Rightarrow> if got \<noteq> trim_prefix version ''v'' \<and> got \<noteq> version then after (refuse_update S words ao version [] OtherBuild) m2 Q
          else after (replace_binary S words ao version) m2 Q)"
    have "?rest m1" if "r = None"
    proof (rule after_version)
      fix rep m2
      assume b: "only none_of m1 m2" and v: "\<And>v. rep = Some v \<Longrightarrow> \<exists>s out ws. data_at m1 (staged_path ao) = Some s \<and> si_output S s = Some out \<and>
          text_fields [] out = hd (text_fields [] out) # v # ws"
      have o: "only none_of m m2" by (rule only_trans [OF a b]) auto
      have "after (replace_binary S words ao version) m2 Q" if g: "rep = Some got" "got \<in> {version, trim_prefix version ''v''}" for got
      proof (rule after_replace [OF ap])
        show "data_at m2 (staged_path ao) = Some body" using only_data [OF o] body by simp
        have "data_at m1 (staged_path ao) = Some body" using only_data [OF a] body by simp
        then have c: "staged_checked S ao version body"
          using v [OF g(1)] g(2) x [OF \<open>r = None\<close> body] by (fastforce simp: staged_checked_def)
        show "Q res m'" if "update_outcome ao m2 body res m'" for res m'
          using that only_data [OF o] by (intro Q [OF c]) (simp add: update_outcome_def)
      qed
      then show "case rep of None \<Rightarrow> after (refuse_update S words ao version [] DoesNotRun) m2 Q
        | Some got \<Rightarrow> if got \<noteq> trim_prefix version ''v'' \<and> got \<noteq> version then after (refuse_update S words ao version [] OtherBuild) m2 Q
            else after (replace_binary S words ao version) m2 Q"
        using refuse [OF o] by (cases rep) simp_all
    qed
    then show "case r of Some f \<Rightarrow> after (refuse_update S words ao version [] (NotExecutable f)) m1 Q | None \<Rightarrow> ?rest m1"
      using refuse [OF a] by (cases r) simp_all
  qed
qed

lemma after_manifest:
  assumes "\<And>r m'. only none_of m m' \<Longrightarrow> (\<And>mf. r = Some mf \<Longrightarrow> \<exists>t. data_at m p = Some t \<and> read_doc (staged_slots (si_when S)) no_staged t = Some mf) \<Longrightarrow> Q r m'"
  shows "after (readManifest S p) m Q"
  unfolding readManifest_def after_simps by (rule after_read) (auto intro!: assms split: sum.split_asm)

lemma after_request:
  assumes "\<And>r m'. only ((=) p) m m' \<Longrightarrow> (\<And>rq. r = Inr rq \<Longrightarrow> \<exists>t. data_at m p = Some t \<and> data_at m' p = Some t \<and>
      read_doc request_slots no_request t = Some rq \<and> rq_version rq \<noteq> []) \<Longrightarrow> Q r m'"
  shows "after (readRequest p) m Q"
proof -
  have discard: "after (remove_file p) m1 (\<lambda>x. Q (Inl RequestDiscarded))" if "only none_of m m1" for m1
  proof (rule after_remove)
    fix ok m2
    assume a: "only ((=) p) m1 m2"
    have "only ((=) p) m m2" by (rule only_trans [OF that a]) auto
    then show "Q (Inl RequestDiscarded) m2" by (rule assms) simp
  qed
  show ?thesis
    unfolding readRequest_def after_bind
  proof (rule after_read)
    fix r :: "disk_error + string" and m1
    assume a: "only none_of m m1" "\<And>s. r = Inr s \<Longrightarrow> data_at m p = Some s"
    have o: "only ((=) p) m m1" by (rule only_weaken [OF a(1)]) simp
    show "after (case r of Inl NotExist \<Rightarrow> yield_op (Inl NoRequest) | Inl IoFailed \<Rightarrow> yield_op (Inl RequestUnreadable)
        | Inr s \<Rightarrow> (case read_doc request_slots no_request s of
            None \<Rightarrow> do { remove_file p; yield_op (Inl RequestDiscarded) }
          | Some req \<Rightarrow>
              if rq_version req = [] \<or> rq_sha256 req = [] then do { remove_file p; yield_op (Inl RequestDiscarded) }
              else yield_op (Inr req))) m1 Q"
    proof (cases r)
      case (Inl e)
      then show ?thesis by (cases e) (auto simp: after_simps intro!: assms o)
    next
      case (Inr s)
      then show ?thesis
        using discard [OF a(1)] a(2) [OF Inr] only_data [OF a(1), of p]
        by (auto simp: after_simps split: option.split intro!: assms o)
    qed
  qed
qed

text \<open>What the caller is told of an attempt, against what was on the disk before it.\<close>

definition update_safe :: "site \<Rightarrow> apply_options \<Rightarrow> 's machine \<Rightarrow> apply_result \<Rightarrow> 's machine \<Rightarrow> bool" where
  "update_safe S ao m res m' \<longleftrightarrow>
     (\<not> ar_ok res \<and> \<not> ar_rolled_back res \<and> data_at m' (ao_binary ao) = data_at m (ao_binary ao)) \<or>
     (\<exists>body. data_at m (staged_path ao) = Some body \<and> update_verified S ao m body \<and> update_outcome ao m body res m')"

abbreviation request_path :: "apply_options \<Rightarrow> string" where
  "request_path ao \<equiv> in_dir (ao_dir ao) ''apply.request''"

abbreviation manifest_path :: "apply_options \<Rightarrow> string" where
  "manifest_path ao \<equiv> in_dir (in_dir (ao_dir ao) ''staged'') ''manifest.json''"

lemma request_place:
  "apart (ao_dir ao) (ao_binary ao) \<Longrightarrow> request_path ao \<noteq> ao_binary ao"
  "request_path ao \<noteq> staged_path ao" "request_path ao \<noteq> manifest_path ao"
  using apart_in_dir [of "ao_dir ao" "ao_binary ao" "''apply.request''"] by (simp_all add: staged_path_def in_dir_app)

lemma refused_safely:
  assumes "apart (ao_dir ao) (ao_binary ao)" and "data_at m1 (ao_binary ao) = data_at m (ao_binary ao)" and "v \<noteq> Installed"
  shows "after (refuse_update S words ao version [] v) m1 (\<lambda>res m'. update_safe S ao m res m')"
proof (rule after_refuse)
  fix m2
  assume o: "only (word_files (ao_dir ao)) m1 m2"
  show "update_safe S ao m \<lparr>ar_version = version, ar_from = [], ar_verdict = v, ar_rolled_back = False, ar_running_again = False\<rparr> m2"
    using untouched [OF assms(1) o] assms(2,3) by (simp add: update_safe_def ar_ok_def)
qed

lemma after_checked:
  assumes ap: "apart (ao_dir ao) (ao_binary ao)" and o: "only ((=) (request_path ao)) m m1"
    and rq: "data_at m (request_path ao) = Some t" "read_doc request_slots no_request t = Some rq" "rq_version rq \<noteq> []"
    and mf: "data_at m (manifest_path ao) = Some u" "read_doc (staged_slots (si_when S)) no_staged u = Some mf"
    and same: "sg_version mf = rq_version rq"
  shows "after (do {
          digest \<leftarrow> sha256File S (staged_path ao);
          case digest of
            None \<Rightarrow> refuse_update S words ao (rq_version rq) [] Unreadable
          | Some d \<Rightarrow>
              if d \<noteq> sg_sha256 mf \<or> d \<noteq> rq_sha256 rq then refuse_update S words ao (rq_version rq) [] HashMismatch
              else try_staged S words ao (rq_version rq)
        }) m1 (update_safe S ao m)"
  unfolding after_simps
proof (rule after_digest)
  fix dg m2
  assume a: "only none_of m1 m2" and dg: "\<And>d. dg = Some d \<Longrightarrow> \<exists>body. data_at m1 (staged_path ao) = Some body \<and> d = sha256_hex S body"
  have o2: "only ((=) (request_path ao)) m m2" by (rule only_trans [OF o a]) auto
  have p2: "data_at m2 (ao_binary ao) = data_at m (ao_binary ao)" "data_at m2 (staged_path ao) = data_at m (staged_path ao)"
    using only_data [OF o2] request_place [of ao] ap by auto
  have "after (try_staged S words ao (rq_version rq)) m2 (update_safe S ao m)"
    if d: "dg = Some d" "d = sg_sha256 mf" "d = rq_sha256 rq" for d
  proof -
    obtain body where body: "data_at m (staged_path ao) = Some body" "d = sha256_hex S body"
      using dg [OF d(1)] only_data [OF a, of "staged_path ao"] p2(2) by auto
    show ?thesis
    proof (rule after_try [OF ap p2(2) [unfolded body(1)]])
      fix res m3
      assume c: "staged_checked S ao (rq_version rq) body" and u: "update_outcome ao m2 body res m3"
      have "update_verified S ao m body"
        unfolding update_verified_def
        using rq mf same c d(2,3) body(2) by (auto simp: staged_checked_def)
      moreover have "update_outcome ao m body res m3" using u p2(1) by (simp add: update_outcome_def)
      ultimately show "update_safe S ao m res m3" using body(1) by (simp add: update_safe_def)
    qed (simp add: update_safe_def p2(1))
  qed
  then show "case dg of
      None \<Rightarrow> after (refuse_update S words ao (rq_version rq) [] Unreadable) m2 (update_safe S ao m)
    | Some d \<Rightarrow> if d \<noteq> sg_sha256 mf \<or> d \<noteq> rq_sha256 rq
        then after (refuse_update S words ao (rq_version rq) [] HashMismatch) m2 (update_safe S ao m)
        else after (try_staged S words ao (rq_version rq)) m2 (update_safe S ao m)"
    using refused_safely [OF ap p2(1)] by (cases dg) simp_all
qed

lemma after_staged_manifest:
  assumes ap: "apart (ao_dir ao) (ao_binary ao)" and o: "only ((=) (request_path ao)) m m1"
    and rq: "data_at m (request_path ao) = Some t" "read_doc request_slots no_request t = Some rq" "rq_version rq \<noteq> []"
  shows "after (readManifest S (manifest_path ao)) m1 (\<lambda>manifest m2. after (case manifest of
      None \<Rightarrow> refuse_update S words ao (rq_version rq) [] Incomplete
    | Some mf \<Rightarrow>
        if sg_version mf \<noteq> rq_version rq then refuse_update S words ao (rq_version rq) [] OtherVersion
        else do {
          digest \<leftarrow> sha256File S (staged_path ao);
          case digest of
            None \<Rightarrow> refuse_update S words ao (rq_version rq) [] Unreadable
          | Some d \<Rightarrow>
              if d \<noteq> sg_sha256 mf \<or> d \<noteq> rq_sha256 rq then refuse_update S words ao (rq_version rq) [] HashMismatch
              else try_staged S words ao (rq_version rq)
        }) m2 (update_safe S ao m))"
proof (rule after_manifest, goal_cases)
  case (1 r m2)
  have o2: "only ((=) (request_path ao)) m m2" by (rule only_trans [OF o 1(1)]) auto
  have p2: "data_at m2 (ao_binary ao) = data_at m (ao_binary ao)"
    using only_data [OF o2] request_place [of ao] ap by auto
  show ?case
  proof (cases r)
    case None
    then show ?thesis using refused_safely [OF ap p2] by simp
  next
    case (Some mf)
    with 1(2) obtain u where u: "data_at m1 (manifest_path ao) = Some u" "read_doc (staged_slots (si_when S)) no_staged u = Some mf" by blast
    have "data_at m (manifest_path ao) = Some u" using only_data [OF o, of "manifest_path ao"] request_place [of ao] u(1) by simp
    from after_checked [OF ap o2 rq this u(2), of words] Some show ?thesis
      using refused_safely [OF ap p2] by (cases "sg_version mf = rq_version rq") simp_all
  qed
qed

lemma after_apply:
  assumes ap: "apart (ao_dir ao) (ao_binary ao)" and full: "ao = withDefaults self ao0"
  shows "after (Apply_update S words self ao0) m (\<lambda>r m'. case r of
      Inl _ \<Rightarrow> data_at m' (ao_binary ao) = data_at m (ao_binary ao)
    | Inr res \<Rightarrow> update_safe S ao m res m')"
  unfolding Apply_update_def full [symmetric] after_let after_bind
  proof (rule after_request, goal_cases)
    case (1 r m1)
    show ?case
    proof (cases r)
      case (Inl e)
      then show ?thesis using only_data [OF 1(1)] request_place(1) [OF ap] by (simp add: after_simps)
    next
      case (Inr rq)
      with 1(2) obtain t where t: "data_at m (request_path ao) = Some t" "read_doc request_slots no_request t = Some rq"
        "rq_version rq \<noteq> []" by blast
      from after_staged_manifest [OF ap 1(1) t] Inr show ?thesis by (simp add: after_bind after_yield)
    qed
  qed

text \<open>C25. Whatever the service left in the update directory and whatever fails on the way, a crash included: the installed
  binary is the old one, or the staged one after its digest was found in both the request and the manifest,
  it was built for this machine and it ran and named the version asked for.  An update that is reported as
  done runs the new binary; one reported as rolled back has the old one in place; and as long as the new one
  is in place without having proved itself, the old one is kept.\<close>

theorem update_replaces_safely:
  assumes "run_state (Apply_update S words self ao0) m = (r, m')" and "ao = withDefaults self ao0"
    and "apart (ao_dir ao) (ao_binary ao)"
  shows "case r of
      Inl _ \<Rightarrow> data_at m' (ao_binary ao) = data_at m (ao_binary ao)
    | Inr res \<Rightarrow> update_safe S ao m res m'"
  by (rule after_run [OF assms(1) after_apply [OF assms(3,2)]])

definition sample_moments :: moments where
  "sample_moments = \<lparr>mo_text = (\<lambda>_. ''2026-01-01T00:00:00Z''), mo_read = (\<lambda>_. Some (Some 5))\<rparr>"

definition sample_site :: site where
  "sample_site = \<lparr>si_env = sample_env, si_when = sample_moments, si_text = (\<lambda>_. ''failed''), si_untar = (\<lambda>_. None),
     si_elf = (\<lambda>_. None), si_output = (\<lambda>s. if s = ''new'' then Some ''revpd 1.1.0'' else Some ''revpd 1.0.0''),
     si_unit = (\<lambda>_ _. ''active'')\<rparr>"

definition sample_options :: apply_options where
  "sample_options = \<lparr>ao_dir = ''/u'', ao_binary = ''/b/revpd'', ao_settle = 1, ao_timeout = seconds 3, ao_os = ''freebsd'', ao_arch = ''amd64''\<rparr>"

definition sample_machine :: "unit machine" where
  "sample_machine = \<lparr>mc_files = map (\<lambda>(p, s). (p, \<lparr>fi_data = s, fi_time = 0\<rparr>))
       [(''/b/revpd'', ''old''), (''/u/staged/revpd'', ''new''),
        (''/u/staged/manifest.json'', pretty 0 (staged_json sample_moments
            (no_staged\<lparr>sg_version := ''v1.1.0'', sg_sha256 := sha256_hex sample_site ''new''\<rparr>))),
        (''/u/apply.request'', pretty 0 (request_json ''2026-01-01T00:00:00Z'' ''root'' (sha256_hex sample_site ''new'') ''v1.1.0''))],
     mc_trouble = [], mc_now = 0, mc_jitter = (\<lambda>_. 1000000000), mc_tick = 0, mc_running = Some ''old'', mc_prog = ()\<rparr>"

definition sample_install :: "(apply_refusal + apply_result) \<times> unit machine" where
  "sample_install = run_state (Apply_update sample_site (\<lambda>_. ''word'') ''/b/revpd'' sample_options) sample_machine"

lemma sample_install_done: "map_sum id ar_verdict (fst sample_install) = Inr Installed"
  by code_simp

lemma sample_install_places: "apart (ao_dir sample_options) (ao_binary sample_options)"
  by code_simp

lemma sample_options_full: "withDefaults ''/b/revpd'' sample_options = sample_options"
  by code_simp

lemma sample_install_binary: "data_at (snd sample_install) ''/b/revpd'' = Some ''new''"
  by code_simp

theorem update_replaces_safely_witness:
  "\<exists>res. fst sample_install = Inr res \<and> ar_ok res \<and> data_at (snd sample_install) ''/b/revpd'' = Some ''new'' \<and>
     update_safe sample_site sample_options sample_machine res (snd sample_install)"
proof -
  from sample_install_done obtain res where res: "fst sample_install = Inr res" "ar_ok res"
    by (cases "fst sample_install") (auto simp: ar_ok_def)
  have run: "run_state (Apply_update sample_site (\<lambda>_. ''word'') ''/b/revpd'' sample_options) sample_machine = (Inr res, snd sample_install)"
    using res(1) by (simp add: sample_install_def prod_eq_iff)
  note safe = update_replaces_safely [OF run sample_options_full [symmetric] sample_install_places]
  from safe res sample_install_binary show ?thesis by simp
qed

section \<open>The watch ends\<close>

lemma after_look:
  assumes "\<And>x m'. mc_now m \<le> mc_now m' \<Longrightarrow> Q x m'"
  shows "after (look S ao since) m Q"
  unfolding look_def after_simps
  by (auto simp: after_unit after_simps read_time_def Let_def intro!: assms split: option.split)

lemma wait_ends:
  fixes m :: "'s machine"
  assumes "deadline \<le> mc_now m + seconds 1 * int n"
  shows "after (wait_loop (Suc n) S ao deadline since) m (\<lambda>h m'. h \<noteq> Watching)"
  using assms
proof (induction n arbitrary: m since)
  case 0
  show ?case
    unfolding wait_loop.simps after_simps by (rule after_time) (use 0 in simp)
next
  case (Suc n)
  show ?case
    unfolding wait_loop.simps(2) [of "Suc n"] after_simps
  proof (rule after_time)
    fix t and m1 :: "'s machine"
    assume t: "t = mc_now m1" "mc_now m \<le> t"
    have "after (look S ao since) m1 (\<lambda>x m2. if fst x \<noteq> Watching then fst x \<noteq> Watching
        else after (sleep (seconds 1)) m2 (\<lambda>_ m3. after (wait_loop (Suc n) S ao deadline (snd x)) m3 (\<lambda>h m'. h \<noteq> Watching)))"
    proof (rule after_look)
      fix x :: "health \<times> time option" and m2 :: "'s machine"
      assume "mc_now m1 \<le> mc_now m2"
      then have "after (wait_loop (Suc n) S ao deadline (snd x)) (m2\<lparr>mc_now := mc_now m2 + seconds 1\<rparr>) (\<lambda>h m'. h \<noteq> Watching)"
        using Suc.prems t by (intro Suc.IH) (simp add: algebra_simps)
      then show "if fst x \<noteq> Watching then fst x \<noteq> Watching
          else after (sleep (seconds 1)) m2 (\<lambda>_ m3. after (wait_loop (Suc n) S ao deadline (snd x)) m3 (\<lambda>h m'. h \<noteq> Watching))"
        by (simp add: sleep_def after_simps del: wait_loop.simps)
    qed
    then show "if \<not> t < deadline then NotStable \<noteq> Watching
      else after (look S ao since) m1 (\<lambda>x m'. if fst x \<noteq> Watching then fst x \<noteq> Watching
        else after (sleep (seconds 1)) m' (\<lambda>_ m'. after (wait_loop (Suc n) S ao deadline (snd x)) m' (\<lambda>h m'. h \<noteq> Watching)))"
      by simp
  qed
qed

text \<open>Watching a restarted service ends: by the deadline, whatever the service manager says and however the clock
  moves on, the watch has found it healthy, failed, or not stable.\<close>

theorem update_watch_ends: "fst (run_state (waitHealthy S ao) m) \<in> {Healthy, FailedToStart, NotStable}"
proof -
  have "after (waitHealthy S ao) m (\<lambda>h m'. h \<noteq> Watching)"
    unfolding waitHealthy_def after_simps
  proof (rule after_time, rule wait_ends)
    fix t and m' :: "'a machine"
    assume "t = mc_now m'"
    moreover have "ao_timeout ao \<le> seconds 1 * int (Suc (nat (ao_timeout ao div seconds 1)))"
      using div_mult_mod_eq [of "ao_timeout ao" "seconds 1"] pos_mod_bound [of "seconds 1" "ao_timeout ao"]
      by (auto simp: seconds_def)
    ultimately show "t + ao_timeout ao \<le> mc_now m' + seconds 1 * int (Suc (nat (ao_timeout ao div seconds 1)))" by simp
  qed
  then have "fst (run_state (waitHealthy S ao) m) \<noteq> Watching" by (simp add: after_def split: prod.splits)
  then show ?thesis by (cases "fst (run_state (waitHealthy S ao) m)") simp_all
qed

section \<open>What is staged\<close>

definition stage_result :: "site \<Rightarrow> manager \<Rightarrow> github \<Rightarrow> string \<Rightarrow> update_state machine \<Rightarrow> failure_report + staged_update \<Rightarrow> update_state machine \<Rightarrow> bool" where
  "stage_result S mg gh tag m r m' \<longleftrightarrow> (case r of
      Inl _ \<Rightarrow> data_at m' (manifestPath mg) \<in> {None, data_at m (manifestPath mg)}
    | Inr sg \<Rightarrow> \<exists>rel body binary. ByTag (mg_client mg) gh tag = Inr rel \<and> release_archive S mg gh rel body \<and> staged_from S mg body binary \<and>
       data_at m' (stagedBin mg) = Some binary \<and> sg_sha256 sg = sha256_hex S binary \<and> sg_version sg = rl_tag rel \<and>
       data_at m' (manifestPath mg) = Some (pretty 0 (staged_json (si_when S) sg)) \<and> us_staged (mc_prog m') = Some sg)"

lemma after_stage: "after (Stage S mg gh tag by automatic) m (stage_result S mg gh tag m)"
proof -
  let ?Q = "stage_result S mg gh tag m"
  have fail: "after (setFailed S mg f) m1 ?Q" if "data_at m1 (manifestPath mg) \<in> {None, data_at m (manifestPath mg)}" for f m1
    by (rule after_setFailed) (use that stage_places in \<open>auto simp: stage_result_def outside_def\<close>)
  show ?thesis
  proof (cases "ByTag (mg_client mg) gh tag")
    case (Inl f)
    then show ?thesis unfolding Stage_def by (simp add: fail)
  next
    case (Inr rel)
    show ?thesis
    proof (cases "Asset (assetName mg (rl_tag rel)) rel")
      case None
      then show ?thesis unfolding Stage_def Inr by (simp add: fail)
    next
      case (Some asset)
      show ?thesis
        unfolding Stage_def Inr sum.case Some option.case after_bind
      proof (rule after_update_to, rule after_tree, goal_cases)
        case (1 m1 ok m2)
        have o: "data_at m1 (manifestPath mg) = data_at m (manifestPath mg)" using 1(1) stage_places(2) by (simp add: outside_def)
        have "file_at m2 (manifestPath mg) = None \<or> file_at m2 (manifestPath mg) = file_at m1 (manifestPath mg)" using 1(5) by blast
        then have part: "data_at m2 (manifestPath mg) \<in> {None, data_at m (manifestPath mg)}" using o by (auto simp: data_at_def)
        have "after make_dir m2 (\<lambda>made m3. if \<not> made then after (setFailed S mg (failf ReasonCorrupt)) m3 ?Q
            else after (fetch_archive S mg gh rel asset by automatic) m3 ?Q)" if ok
        proof (rule after_mkdir)
          fix made m3
          assume "only none_of m2 m3"
          moreover have "data_at m2 (manifestPath mg) = None" using 1(4) [OF that] by (simp add: data_at_def manifestPath_def)
          ultimately have gone: "data_at m3 (manifestPath mg) = None" using only_data by metis
          have "after (fetch_archive S mg gh rel asset by automatic) m3 ?Q"
            by (rule after_mono [OF after_fetch [OF Some gone]])
              (use Inr in \<open>auto simp: stage_result_def stage_promise_def staged_well_def split: sum.splits\<close>)
          then show "if \<not> made then after (setFailed S mg (failf ReasonCorrupt)) m3 ?Q
              else after (fetch_archive S mg gh rel asset by automatic) m3 ?Q"
            using fail gone by simp
        qed
        then show ?case using fail [OF part] by (simp add: after_simps)
      qed
    qed
  qed
qed

text \<open>What a download leaves for the privileged half: when staging succeeds, the binary in the staging directory came
  out of the release's own archive, whole and with the digest the release's \<open>checksums.txt\<close> gives for it, it was
  built for this machine, and the manifest on the disk names its digest and its version.  When staging fails
  at any point, no manifest has appeared for what was fetched.\<close>

theorem staged_is_vouched:
  "case run_state (Stage S mg gh tag by automatic) m of
     (Inl _, m') \<Rightarrow> data_at m' (manifestPath mg) \<in> {None, data_at m (manifestPath mg)}
   | (Inr sg, m') \<Rightarrow> \<exists>rel body binary.
       ByTag (mg_client mg) gh tag = Inr rel \<and> release_archive S mg gh rel body \<and> staged_from S mg body binary \<and>
       data_at m' (stagedBin mg) = Some binary \<and> sg_sha256 sg = sha256_hex S binary \<and> sg_version sg = rl_tag rel \<and>
       data_at m' (manifestPath mg) = Some (pretty 0 (staged_json (si_when S) sg)) \<and> us_staged (mc_prog m') = Some sg"
  using after_stage [of S mg gh tag "by" automatic m] by (simp add: after_def stage_result_def split: prod.splits sum.splits)

section \<open>Which release is the later one\<close>

lemma version_parts_range: "version_parts ps = Some ns \<Longrightarrow> list_all (\<lambda>n. 0 \<le> n \<and> n < 2 ^ 63) ns"
proof (induction ps arbitrary: ns)
  case (Cons p ps)
  then obtain n ms where n: "version_part p = Some n" "version_parts ps = Some ms" "ns = n # ms"
    by (auto split: option.splits)
  from n(1) have p: "Atoi p = Some n" "list_all is_digit p" "p \<noteq> []" by (auto simp: version_part_def split: if_splits)
  have "tame_pre p" using p(2,3) by (cases p) (auto simp: tame_pre_def has_prefix_def is_digit_def)
  with Cons.IH [OF n(2)] Atoi_tame [OF p(1)] n(3) show ?case by simp
qed simp

lemma parse_tame: "parse_version a = Some va \<Longrightarrow> list_all tame_pre (vn_pre va) \<Longrightarrow> tame_version va"
  by (auto simp: parse_version_def tame_version_def Let_def dest!: version_parts_range split: if_splits)

text \<open>Releases are ordered by a key: their numbers, with noughts at the end dropped, then whether they are final, then their
  pre-release identifiers, numeric ones first and by value, others with runs of digits taken as numbers.  As long
  as no identifier starts with a minus sign, comparing two releases compares their keys, so the comparison is
  a total order: a release is never newer than itself, and of two that differ exactly one is newer.\<close>

theorem releases_ordered_by_key:
  assumes "parse_version a = Some va" and "parse_version b = Some vb"
    and "list_all tame_pre (vn_pre va)" and "list_all tame_pre (vn_pre vb)"
  shows "Newer a b = Some (version_key va < version_key vb) \<and>
    (Compare a b = Some 0 \<longleftrightarrow> version_key va = version_key vb) \<and> Compare b a = map_option uminus (Compare a b)"
proof -
  note t = parse_tame [OF assms(1,3)] parse_tame [OF assms(2,4)]
  have "Compare a b = Some (key_sign (version_key va) (version_key vb))" "Compare b a = Some (key_sign (version_key vb) (version_key va))"
    using assms(1,2) compare_version_key [OF t] compare_version_key [OF t(2,1)] by (simp_all add: Compare_def)
  then show ?thesis using releases.compare_zero [OF t] by (auto simp: Newer_def key_sign_def)
qed

theorem releases_ordered_by_key_witness:
  "Newer ''v1.2-rc9'' ''1.2.0-rc10'' = Some True"
proof -
  have a: "parse_version ''v1.2-rc9'' = Some \<lparr>vn_nums = [1, 2], vn_pre = [''rc9'']\<rparr>"
    and b: "parse_version ''1.2.0-rc10'' = Some \<lparr>vn_nums = [1, 2, 0], vn_pre = [''rc10'']\<rparr>" by code_simp+
  have "version_key \<lparr>vn_nums = [1, 2], vn_pre = [''rc9'']\<rparr> < version_key \<lparr>vn_nums = [1, 2, 0], vn_pre = [''rc10'']\<rparr>" by code_simp
  with releases_ordered_by_key [OF a b] show ?thesis by (simp add: tame_pre_def has_prefix_def)
qed

text \<open>With a minus sign the difference of two identifiers may not fit: each of these is older than the other.\<close>

lemma releases_out_of_order:
  "Compare ''1.0.0-9223372036854775807'' ''1.0.0--1'' = Some (- 1) \<and> Compare ''1.0.0--1'' ''1.0.0-9223372036854775807'' = Some (- 1)"
  by code_simp

section \<open>State on the disk\<close>

lemma read_pretty:
  assumes "plain_json 0 (JObj ms)"
  shows "read_doc fs zero (pretty 0 (JObj ms)) = fill_slots fs ms zero"
proof -
  have "json_first (pretty 0 (JObj ms)) = Some (JObj ms, [])"
    using pretty_reads(1) [OF assms, of "[]" 0 "2 * length (pretty 0 (JObj ms)) + 3"]
    by (simp add: json_first_def value_end_def del: pretty.simps)
  then show ?thesis by (simp add: read_doc_def skip_ws_def del: pretty.simps)
qed

lemma fill_slots_append:
  "fill_slots fs (xs @ ys) r = (case fill_slots fs xs r of None \<Rightarrow> None | Some r' \<Rightarrow> fill_slots fs ys r')"
  by (induction xs arbitrary: r) (auto split: option.split)

lemma fill_omitted:
  "fill_slots fs (omitted zero k v) r = (if zero then Some r else case slot_named fs k of None \<Rightarrow> Some r | Some put \<Rightarrow> put v r)"
  by (auto simp: omitted_def split: option.split)

text \<open>A moment is read back as it was written.\<close>

definition true_moment :: "moments \<Rightarrow> time option \<Rightarrow> bool" where
  "true_moment M t \<longleftrightarrow> mo_read M (mo_text M t) = Some t \<and> utf8_text (mo_text M t)"

definition plain_available :: "moments \<Rightarrow> available \<Rightarrow> bool" where
  "plain_available M a \<longleftrightarrow> true_moment M (av_published a) \<and> list_all utf8_text [av_version a, av_notes a, av_url a] \<and> fits_int (av_size a)"

definition plain_staged :: "moments \<Rightarrow> staged_update \<Rightarrow> bool" where
  "plain_staged M s \<longleftrightarrow> true_moment M (sg_at s) \<and> list_all utf8_text [sg_version s, sg_sha256 s, sg_path s, sg_by s]"

definition plain_result :: "moments \<Rightarrow> update_result \<Rightarrow> bool" where
  "plain_result M r \<longleftrightarrow> true_moment M (ur_at r) \<and> list_all utf8_text [ur_version r, ur_from r, ur_message r]"

definition plain_state :: "moments \<Rightarrow> update_state \<Rightarrow> bool" where
  "plain_state M st \<longleftrightarrow> true_moment M (us_last_check st) \<and> list_all utf8_text [us_phase st, us_check_error st, us_check_reason st] \<and>
     pred_option (plain_available M) (us_available st) \<and> pred_option (plain_staged M) (us_staged st) \<and> pred_option (plain_result M) (us_last st) \<and>
     fits_int (us_downloaded st) \<and> fits_int (us_total st)"

lemmas slot_kinds = ptr_slot_def slot_named_def text_slot_def time_slot_def bool_slot_def int_slot_def

lemma reads_available: "plain_available M a \<Longrightarrow> get r = None \<Longrightarrow>
    ptr_slot (available_slots M) no_available get put (available_json M a) r = Some (put (Some a) r)"
  by (cases a) (simp add: slot_kinds available_json_def available_slots_def no_available_def true_moment_def plain_available_def)

lemma reads_staged: "plain_staged M a \<Longrightarrow> get r = None \<Longrightarrow>
    ptr_slot (staged_slots M) no_staged get put (staged_json M a) r = Some (put (Some a) r)"
  by (cases a) (simp add: slot_kinds staged_json_def staged_slots_def no_staged_def true_moment_def plain_staged_def)

lemma reads_result: "plain_result M a \<Longrightarrow> get r = None \<Longrightarrow>
    ptr_slot (result_slots M) no_result get put (result_json M a) r = Some (put (Some a) r)"
  by (cases a) (simp add: slot_kinds result_json_def result_slots_def no_result_def true_moment_def plain_result_def)

lemma state_slot_names:
  "slot_named (state_slots M) ''phase'' = Some (text_slot (\<lambda>s. us_phase_update (\<lambda>_. s)))"
  "slot_named (state_slots M) ''last_check'' = Some (time_slot M (\<lambda>t. us_last_check_update (\<lambda>_. t)))"
  "slot_named (state_slots M) ''last_check_error'' = Some (text_slot (\<lambda>s. us_check_error_update (\<lambda>_. s)))"
  "slot_named (state_slots M) ''last_check_reason'' = Some (text_slot (\<lambda>s. us_check_reason_update (\<lambda>_. s)))"
  "slot_named (state_slots M) ''available'' = Some (ptr_slot (available_slots M) no_available us_available (\<lambda>p. us_available_update (\<lambda>_. p)))"
  "slot_named (state_slots M) ''staged'' = Some (ptr_slot (staged_slots M) no_staged us_staged (\<lambda>p. us_staged_update (\<lambda>_. p)))"
  "slot_named (state_slots M) ''last_result'' = Some (ptr_slot (result_slots M) no_result us_last (\<lambda>p. us_last_update (\<lambda>_. p)))"
  "slot_named (state_slots M) ''downloaded'' = Some (int_slot (\<lambda>i. us_downloaded_update (\<lambda>_. i)))"
  "slot_named (state_slots M) ''total'' = Some (int_slot (\<lambda>i. us_total_update (\<lambda>_. i)))"
  by (simp_all add: slot_named_def state_slots_def)

lemma plain_append: "plain_members n (xs @ ys) \<longleftrightarrow> plain_members n xs \<and> plain_members n ys"
  by (induction xs) auto

lemma plain_omitted: "plain_members n (omitted zero k v) \<longleftrightarrow> zero \<or> utf8_text k \<and> plain_json n v"
  by (simp add: omitted_def)

lemma document_keys:
  "utf8_text ''version''" "utf8_text ''notes''" "utf8_text ''url''" "utf8_text ''published_at''" "utf8_text ''prerelease''"
  "utf8_text ''size''" "utf8_text ''asset_ready''" "utf8_text ''sha256''" "utf8_text ''path''" "utf8_text ''staged_at''"
  "utf8_text ''staged_by''" "utf8_text ''automatic''" "utf8_text ''from''" "utf8_text ''ok''" "utf8_text ''message''"
  "utf8_text ''rolled_back''" "utf8_text ''at''" "utf8_text ''phase''" "utf8_text ''last_check''" "utf8_text ''last_check_error''"
  "utf8_text ''last_check_reason''" "utf8_text ''available''" "utf8_text ''staged''" "utf8_text ''last_result''"
  "utf8_text ''downloaded''" "utf8_text ''total''" "utf8_text ''requested_at''" "utf8_text ''requested_by''"
  by code_simp+

lemma parts_plain:
  "plain_available M a \<Longrightarrow> plain_json (Suc 0) (available_json M a)"
  "plain_staged M g \<Longrightarrow> plain_json (Suc 0) (staged_json M g)"
  "plain_result M q \<Longrightarrow> plain_json (Suc 0) (result_json M q)"
  by (simp_all add: available_json_def staged_json_def result_json_def plain_available_def plain_staged_def plain_result_def
      true_moment_def max_nesting_def document_keys)

lemma state_json_plain: "plain_state M st \<Longrightarrow> plain_json 0 (state_json M st)"
  by (cases "us_available st"; cases "us_staged st"; cases "us_last st")
    (simp_all add: state_json_def plain_append plain_omitted document_keys plain_state_def parts_plain optional_def max_nesting_def
      true_moment_def)

lemma fill_texts:
  "us_check_error r = [] \<Longrightarrow> fill_slots (state_slots M) (omitted (e = []) ''last_check_error'' (JStr e)) r = Some (r\<lparr>us_check_error := e\<rparr>)"
  "us_check_reason r = [] \<Longrightarrow> fill_slots (state_slots M) (omitted (e = []) ''last_check_reason'' (JStr e)) r = Some (r\<lparr>us_check_reason := e\<rparr>)"
  by (simp_all add: fill_omitted state_slot_names text_slot_def)

lemma fill_parts:
  "us_available r = None \<Longrightarrow> pred_option (plain_available M) p \<Longrightarrow>
    fill_slots (state_slots M) (omitted (p = None) ''available'' (optional (available_json M) p)) r = Some (r\<lparr>us_available := p\<rparr>)"
  "us_staged r = None \<Longrightarrow> pred_option (plain_staged M) g \<Longrightarrow>
    fill_slots (state_slots M) (omitted (g = None) ''staged'' (optional (staged_json M) g)) r = Some (r\<lparr>us_staged := g\<rparr>)"
  "us_last r = None \<Longrightarrow> pred_option (plain_result M) q \<Longrightarrow>
    fill_slots (state_slots M) (omitted (q = None) ''last_result'' (optional (result_json M) q)) r = Some (r\<lparr>us_last := q\<rparr>)"
  by (cases p; simp add: fill_omitted state_slot_names optional_def reads_available)
    (cases g; cases q; simp add: fill_omitted state_slot_names optional_def reads_staged reads_result)+

text \<open>What the updater knows survives a restart of the service: the state it writes is the state it reads, whatever the
  state holds - a release that is waiting, an update that is staged, the outcome of the last one, or none of
  them - as long as its text is UTF-8, its counts fit 64 bits and its
  moments are read as they were written.\<close>

theorem update_state_roundtrip:
  assumes "plain_state M st"
  shows "read_doc (state_slots M) no_update (pretty 0 (state_json M st)) = Some st"
proof -
  obtain ms where ms: "state_json M st = JObj ms" by (simp add: state_json_def)
  note e = ms [unfolded state_json_def json.inject, symmetric]
  have "read_doc (state_slots M) no_update (pretty 0 (state_json M st)) = fill_slots (state_slots M) ms no_update"
    unfolding ms by (rule read_pretty [OF state_json_plain [OF assms, unfolded ms]])
  also have "\<dots> = Some st"
    using assms unfolding e
    by (cases st) (simp add: fill_slots_append fill_texts fill_parts state_slot_names text_slot_def time_slot_def int_slot_def
        true_moment_def plain_state_def no_update_def)
  finally show ?thesis .
qed

text \<open>A state in the middle of an update.\<close>

definition sample_state :: update_state where
  "sample_state = no_update\<lparr>us_phase := PhaseStaged, us_last_check := Some 5,
     us_staged := Some (no_staged\<lparr>sg_version := ''v1.1.0'', sg_by := ''ops'', sg_at := Some 5\<rparr>),
     us_last := Some (no_result\<lparr>ur_ok := True, ur_at := Some 5\<rparr>), us_total := 7\<rparr>"

lemma sample_texts: "utf8_text ''2026-01-01T00:00:00Z''" "utf8_text ''staged''" "utf8_text ''v1.1.0''" "utf8_text ''ops''" "utf8_text []"
  by code_simp+

lemma sample_state_plain: "plain_state sample_moments sample_state"
  by (simp add: plain_state_def sample_state_def sample_moments_def true_moment_def plain_staged_def plain_result_def no_update_def
      no_staged_def no_result_def PhaseStaged_def sample_texts fits_int_def)

theorem update_state_roundtrip_witness:
  "read_doc (state_slots sample_moments) no_update (pretty 0 (state_json sample_moments sample_state)) = Some sample_state"
  by (rule update_state_roundtrip [OF sample_state_plain])

end
