(* ===== verification/Update_Chain.thy ===== *)
theory Update_Chain
  imports Portal_Update Update_Guarantees Settings_Guarantees
begin

text \<open>
  Updating from end to end: the timer and the page, staging by the service, and the privileged half that
  installs.
\<close>

section \<open>Handing over\<close>

definition own_files :: "manager \<Rightarrow> string \<Rightarrow> bool" where
  "own_files mg q \<longleftrightarrow> state_files mg q \<or> q = in_dir (mg_dir mg) ''result.json'' \<or> q = requestPath mg \<or> q = requestPath mg @ ''.tmp''"

lemma own_places: "\<not> own_files mg (stagedBin mg)" "\<not> own_files mg (manifestPath mg)"
  using stage_places(2,3) [of mg] by (simp_all add: own_files_def requestPath_def stagedBin_def manifestPath_def stagedDir_def in_dir_app in_dir_def)

lemma outside_refl [simp]: "outside A m m"
  by (simp add: outside_def)

lemma after_save:
  assumes "\<And>m'. outside (state_files mg) m m' \<Longrightarrow> mc_prog m' = mc_prog m \<Longrightarrow> Q m'"
  shows "after (saveState M (mg_dir mg) st) m (\<lambda>_ m'. Q m')"
  unfolding saveState_def
proof (rule after_atomic, rule assms, goal_cases)
  case (1 ok m')
  show ?case by (rule only_outside [OF 1(1)]) (auto simp: state_files_def)
next
  case (2 ok m')
  then show ?case by (simp add: only_def)
qed

lemma after_absorb:
  assumes "\<And>m'. outside (own_files mg) m m' \<Longrightarrow> Q () m'"
  shows "after (absorbResult S mg) m Q"
  unfolding absorbResult_def after_bind
proof (rule after_read, goal_cases)
  case (1 r m1)
  let ?res = "in_dir (mg_dir mg) ''result.json''"
  have o: "outside (own_files mg) m m1" by (rule only_outside [OF 1(1)]) simp
  have rm: "outside (own_files mg) m m3" if "outside (own_files mg) m m2" "only ((=) ?res) m2 m3" for m2 m3
    by (rule outside_trans [OF that(1) only_outside [OF that(2), of "own_files mg"]]) (auto simp: own_files_def)
  show ?case
  proof (cases r)
    case (Inl e)
    then show ?thesis using o by (simp add: after_simps assms)
  next
    case (Inr s)
    show ?thesis
    proof (cases "read_doc (result_slots (si_when S)) no_result s")
      case None
      then show ?thesis unfolding Inr by (simp add: after_simps) (rule after_remove, rule assms, rule rm [OF o])
    next
      case (Some res)
      let ?m = "m1\<lparr>mc_prog := result_taken res (mc_prog m1)\<rparr>"
      have "outside (own_files mg) m ?m" using o by (simp add: outside_def data_at_def file_at_def)
      then show ?thesis
        unfolding Inr sum.case Some option.case get_state_def after_simps prod.case
        by (intro after_remove after_save assms)
          (rule outside_trans [OF rm], assumption+, auto simp: own_files_def)
    qed
  qed
qed

lemma after_handing_over:
  assumes "\<And>r m'. outside (own_files mg) m m' \<Longrightarrow> Q r m'"
  shows "after (RequestApply S mg by) m Q"
  unfolding RequestApply_def Manager_State_def get_state_def after_bind after_State prod.case
proof (rule after_absorb, goal_cases)
  case (1 m1)
  show ?case
  proof (cases "us_staged (mc_prog m1)")
    case None
    with 1 show ?thesis by (simp add: after_simps assms)
  next
    case (Some sg)
    show ?thesis
      unfolding Some option.case after_bind
    proof (rule after_time, rule after_atomic, goal_cases)
      case (1 t m2 ok m3)
      have "outside (own_files mg) m1 m2" by (rule only_outside [OF 1(1)]) simp
      then have "outside (own_files mg) m m2" by (rule outside_trans [OF \<open>outside (own_files mg) m m1\<close>]) simp
      then have o: "outside (own_files mg) m m3"
        by (rule outside_trans [OF _ only_outside [OF 1(4), of "own_files mg"]]) (auto simp: own_files_def)
      have "after (update_to S mg (us_phase_update (\<lambda>_. PhaseApplying))) m3 (\<lambda>_. Q (Inr ()))"
        by (rule after_update_to, rule assms, rule outside_trans [OF o]) (auto simp: own_files_def)
      then show ?case using o by (simp add: after_simps assms)
    qed
  qed
qed

lemma handed_over:
  assumes "run_state (stageAndApply u v by) m = (HandedOver, m1)"
  obtains sg m0 where "run_state (Stage (up_site u) (up_manager u) (up_github u) v by False) m = (Inr sg, m0)"
    "outside (own_files (up_manager u)) m0 m1"
proof -
  obtain r m0 where st: "run_state (Stage (up_site u) (up_manager u) (up_github u) v by False) m = (r, m0)" by fastforce
  with assms obtain sg where r: "r = Inr sg" by (cases r) (auto simp: stageAndApply_def)
  obtain x m2 where rq: "run_state (RequestApply (up_site u) (up_manager u) by) m0 = (x, m2)" by fastforce
  have "outside (own_files (up_manager u)) m0 m2"
    by (rule after_run [OF rq]) (rule after_handing_over)
  with st r rq assms show ?thesis by (auto intro!: that simp: stageAndApply_def)
qed

text \<open>C26. The chain from a release to the installed binary: when the service has staged a version and handed it over, and the
  privileged half then reports it installed, what is in place and running is a binary out of that release's own
  archive, with the digest the release's \<open>checksums.txt\<close> gives for it - provided nobody else wrote to the
  staged binary in between.\<close>

theorem installed_update_is_vouched:
  assumes "run_state (stageAndApply u v by) m = (HandedOver, m1)"
    and "run_state (Apply_update S words self ao0) m2 = (Inr res, m3)" and "ar_ok res"
    and "ao = withDefaults self ao0" and "ao_dir ao = mg_dir (up_manager u)" and "apart (ao_dir ao) (ao_binary ao)"
    and "data_at m2 (staged_path ao) = data_at m1 (staged_path ao)"
  shows "\<exists>rel body binary. ByTag (mg_client (up_manager u)) (up_github u) v = Inr rel \<and>
    release_archive (up_site u) (up_manager u) (up_github u) rel body \<and> staged_from (up_site u) (up_manager u) body binary \<and>
    data_at m3 (ao_binary ao) = Some binary \<and> mc_running m3 = Some binary"
proof -
  from handed_over [OF assms(1)] obtain sg m0 where
    st: "run_state (Stage (up_site u) (up_manager u) (up_github u) v by False) m = (Inr sg, m0)" and
    o: "outside (own_files (up_manager u)) m0 m1" by blast
  from after_run [OF st after_stage]
  obtain rel body binary where v: "ByTag (mg_client (up_manager u)) (up_github u) v = Inr rel"
    "release_archive (up_site u) (up_manager u) (up_github u) rel body" "staged_from (up_site u) (up_manager u) body binary"
    "data_at m0 (stagedBin (up_manager u)) = Some binary" by (auto simp: stage_result_def)
  have "data_at m2 (staged_path ao) = Some binary"
    using assms(5,7) o v(4) own_places(1) [of "up_manager u"] by (simp add: outside_def staged_path_def stagedBin_def stagedDir_def)
  moreover from after_run [OF assms(2) after_apply [OF assms(6,4)]] assms(3) obtain b where
    "data_at m2 (staged_path ao) = Some b" "update_outcome ao m2 b res m3" by (auto simp: update_safe_def)
  ultimately show ?thesis using v(1-3) assms(3) by (auto simp: update_outcome_def)
qed

text \<open>A release, its archive, and an update from one to the other.\<close>

definition chain_site :: site where
  "chain_site = sample_site\<lparr>si_untar := (\<lambda>s. if s = ''arc'' then
     Some [\<lparr>te_regular = True, te_name = ''./README'', te_data = ''x'', te_broken = False\<rparr>,
           \<lparr>te_regular = True, te_name = ''./revpd'', te_data = ''new'', te_broken = False\<rparr>] else None)\<rparr>"

definition chain_github :: github where
  "chain_github = \<lparr>gh_answer = (\<lambda>url. Some \<lparr>ha_status = 200, ha_header = (\<lambda>_. []),
       ha_body = (if url = ''sums'' then sha256_hex chain_site ''arc'' @ ''  revpd_1.1.0_freebsd_amd64.tar.gz'' else ''arc''), ha_broken = False\<rparr>),
     gh_release = (\<lambda>_. Some \<lparr>rl_tag = ''v1.1.0'', rl_notes = [], rl_url = [], rl_draft = False, rl_prerelease = False, rl_published = Some 5,
       rl_assets = [\<lparr>as_name = ''revpd_1.1.0_freebsd_amd64.tar.gz'', as_url = ''arc'', as_size = 3\<rparr>,
                    \<lparr>as_name = ''checksums.txt'', as_url = ''sums'', as_size = 90\<rparr>]\<rparr>),
     gh_releases = (\<lambda>_. None)\<rparr>"

definition chain_updater :: updater where
  "chain_updater = \<lparr>up_site = chain_site,
     up_manager = \<lparr>mg_dir = ''/u'', mg_current = ''1.0.0'', mg_client = \<lparr>ct_repo = ''p/r'', ct_token = [], ct_base = [], ct_module = [], ct_env_token = []\<rparr>,
       mg_os = ''freebsd'', mg_arch = ''amd64''\<rparr>, up_github = chain_github\<rparr>"

definition chain_machine :: update_machine where
  "chain_machine = \<lparr>mc_files = [(''/b/revpd'', \<lparr>fi_data = ''old'', fi_time = 0\<rparr>)], mc_trouble = [], mc_now = 0,
     mc_jitter = (\<lambda>_. 1000000000), mc_tick = 0, mc_running = Some ''old'', mc_prog = no_update\<rparr>"

definition chain_staged :: "stage_end \<times> update_machine" where
  "chain_staged = run_state (stageAndApply chain_updater ''v1.1.0'' ''ops'') chain_machine"

lemma chain_handed_over: "fst chain_staged = HandedOver"
  by code_simp

lemma chain_binary: "data_at (snd chain_staged) (staged_path sample_options) = data_at sample_machine (staged_path sample_options)"
  by code_simp

theorem installed_update_is_vouched_witness:
  "\<exists>rel body binary. ByTag (mg_client (up_manager chain_updater)) chain_github ''v1.1.0'' = Inr rel \<and>
     release_archive chain_site (up_manager chain_updater) chain_github rel body \<and> mc_running (snd sample_install) = Some binary"
proof -
  from sample_install_done obtain res where res: "fst sample_install = Inr res" "ar_ok res"
    by (cases "fst sample_install") (auto simp: ar_ok_def)
  have staged: "run_state (stageAndApply chain_updater ''v1.1.0'' ''ops'') chain_machine = (HandedOver, snd chain_staged)"
    using chain_handed_over by (simp add: chain_staged_def prod_eq_iff)
  have run: "run_state (Apply_update sample_site (\<lambda>_. ''word'') ''/b/revpd'' sample_options) sample_machine = (Inr res, snd sample_install)"
    using res(1) by (simp add: sample_install_def prod_eq_iff)
  have "ao_dir sample_options = mg_dir (up_manager chain_updater)" by (simp add: sample_options_def chain_updater_def)
  from installed_update_is_vouched [OF staged run res(2) sample_options_full [symmetric] this sample_install_places chain_binary [symmetric]]
  show ?thesis by (auto simp: chain_updater_def)
qed

section \<open>The timer\<close>

lemma after_present:
  assumes "\<And>b m'. only none_of m m' \<Longrightarrow> Q b m'"
  shows "after (any_present ps) m Q"
  using assms
proof (induction ps arbitrary: m)
  case (Cons p ps)
  show ?case
    unfolding any_present.simps after_bind
  proof (rule after_read, goal_cases)
    case (1 r m1)
    have "after (any_present ps) m1 Q"
      by (rule Cons.IH, rule Cons.prems, rule only_trans [OF 1(1)]) auto
    then show ?case using Cons.prems 1(1) by (cases r) (auto simp: after_simps)
  qed
qed (simp add: after_simps)

lemma after_check:
  "after (Check S mg gh pre) m (\<lambda>r m'. outside (state_files mg) m m' \<and>
     (\<forall>a. r = Inr (Some a) \<longrightarrow> Newer (mg_current mg) (av_version a) = Some True))"
proof -
  let ?Q = "\<lambda>r m'. outside (state_files mg) m m' \<and> (\<forall>a. r = Inr (Some a) \<longrightarrow> Newer (mg_current mg) (av_version a) = Some True)"
  have further: "outside (state_files mg) m m2" if "outside (state_files mg) m m1" "outside (state_files mg) m1 m2" for m1 m2 :: update_machine
    by (rule outside_trans [OF that]) auto
  have noted: "after (recordCheckError S mg f) m1 (\<lambda>_. ?Q (Inl f))" if "outside (state_files mg) m m1" for f and m1 :: update_machine
    unfolding recordCheckError_def after_bind
  proof (rule after_time, rule after_update_to, goal_cases)
    case (1 t m2 m3)
    have "outside (state_files mg) m1 m2" by (rule only_outside [OF 1(1)]) simp
    with that 1(4) further show ?case by blast
  qed
  show ?thesis
    unfolding Check_def after_bind
  proof (rule after_update_to, goal_cases)
    case (1 m1)
    show ?case
    proof (cases "Latest (mg_client mg) gh pre")
      case (Inl f)
      then show ?thesis using noted [OF 1(1)] by (simp add: after_simps)
    next
      case (Inr rel)
      show ?thesis
      proof (cases "Newer (mg_current mg) (rl_tag rel)")
        case None
        then show ?thesis using noted [OF 1(1)] by (simp add: Inr after_simps)
      next
        case (Some newer)
        show ?thesis
          unfolding Inr sum.case Some option.case after_let after_bind
        proof (rule after_time, rule after_update_to, goal_cases)
          case (1 t m2 m3)
          have "outside (state_files mg) m1 m2" by (rule only_outside [OF 1(1)]) simp
          with \<open>outside (state_files mg) m m1\<close> 1(4) further have "outside (state_files mg) m m3" by blast
          then show ?case using Some by (auto simp: after_simps available_release_def Let_def)
        qed
      qed
    qed
  qed
qed

text \<open>The switch as the timer reads it: the stored setting, or the file when the database does not answer.\<close>

definition switched_on :: "pages \<Rightarrow> world \<Rightarrow> bool" where
  "switched_on G w \<longleftrightarrow>
     (let file = cu_auto (cf_update (pg_cfg G)) in
      if faulty w then file else BoolSetting SettingAutoUpdate file (w_db w))"

lemma run_switch: "run_state (autoInstallEnabled G) w = (switched_on G w, calm w)"
  by (simp add: autoInstallEnabled_def run_simps outcome_def switched_on_def Let_def)

lemma maybe_install_cases:
  assumes "run_state (maybe_install u G v m) w = ((e, m'), w')"
  shows "w_db w' = w_db w \<and>
    (if \<exists>x. e = WentAhead x
     then switched_on G w \<and> fst (run_state ApplierInstalled m) \<and> (cu_only_idle (cf_update (pg_cfg G)) \<longrightarrow> faulty (calm w) \<or> ListLiveSessions (w_db w) = [])
     else only none_of m m')"
proof -
  have "after ApplierInstalled m (\<lambda>_ m'. only none_of m m')"
    unfolding ApplierInstalled_def by (rule after_present)
  then have o: "only none_of m (snd (run_state ApplierInstalled m))" by (simp add: after_def split: prod.splits)
  show ?thesis
    using assms o
    by (auto simp: maybe_install_def run_switch auto_stage_def run_simps outcome_def
        split: prod.splits if_splits sum.splits)
qed

text \<open>C27. What a tick of the timer lets through.  It goes ahead with an installation only when the release is newer than the
  running version and its build is there, the privileged helper is installed, the switch is on - as the database
  says, or as the file says when the database does not answer - and, if installing is reserved for idle times, the list of live
  sessions is empty or could not be read: the code takes a list that cannot be read for an empty one, against
  its own comment.  Otherwise it leaves alone the staged binary, its manifest and the request the
  privileged helper acts on.\<close>

theorem auto_update_gate:
  assumes "run_state (checkAndMaybeInstall u G m) w = ((e, m'), w')"
  shows "if \<exists>x. e = WentAhead x
    then (if faulty w then cu_auto (cf_update (pg_cfg G))
          else BoolSetting SettingAutoUpdate (cu_auto (cf_update (pg_cfg G))) (w_db w)) \<and>
      (cu_only_idle (cf_update (pg_cfg G)) \<longrightarrow> faulty (calm w) \<or> ListLiveSessions (w_db w) = []) \<and>
      (\<exists>a m1. run_check u G m = (Inr (Some a), m1) \<and> Newer (mg_current (up_manager u)) (av_version a) = Some True \<and> av_ready a \<and>
         fst (run_state ApplierInstalled m1))
    else \<forall>q \<in> {stagedBin (up_manager u), manifestPath (up_manager u), requestPath (up_manager u)}. data_at m' q = data_at m q"
proof -
  obtain r m1 where c: "run_check u G m = (r, m1)" by fastforce
  have k: "outside (state_files (up_manager u)) m m1 \<and> (\<forall>a. r = Inr (Some a) \<longrightarrow> Newer (mg_current (up_manager u)) (av_version a) = Some True)"
    by (rule after_run [OF c [unfolded run_check_def] after_check])
  have places: "\<not> state_files (up_manager u) q" if "q \<in> {stagedBin (up_manager u), manifestPath (up_manager u), requestPath (up_manager u)}" for q
    using that stage_places by (auto simp: state_files_def requestPath_def in_dir_app)
  consider f where "r = Inl f" | "r = Inr None" | a where "r = Inr (Some a)" by (cases r) auto
  then show ?thesis
  proof cases
    case 3
    show ?thesis
    proof (cases "av_ready a")
      case False
      with assms c 3 k places show ?thesis by (auto simp: checkAndMaybeInstall_def outside_def)
    next
      case True
      with assms c 3 have "run_state (maybe_install u G (av_version a) m1) w = ((e, m'), w')" by (simp add: checkAndMaybeInstall_def)
      from maybe_install_cases [OF this] c 3 k True places show ?thesis
        by (auto simp: outside_def only_data switched_on_def Let_def split: if_splits)
    qed
  qed (use assms c k places in \<open>auto simp: checkAndMaybeInstall_def outside_def\<close>)
qed

definition tick_pages :: pages where
  "tick_pages = sample_pages\<lparr>pg_cfg := Defaults\<lparr>cf_update := (cf_update Defaults)\<lparr>cu_auto := True\<rparr>\<rparr>\<rparr>"

definition tick_machine :: update_machine where
  "tick_machine = chain_machine\<lparr>mc_files := (''/etc/systemd/system/revpd-update.path'', \<lparr>fi_data = [], fi_time = 0\<rparr>) # mc_files chain_machine\<rparr>"

definition tick_world :: world where
  "tick_world = sample_world\<lparr>w_db := empty_db\<rparr>"

lemma tick_checked: "map_sum id (map_option av_ready) (fst (run_check chain_updater tick_pages tick_machine)) = Inr (Some True)"
  by code_simp

lemma tick_helper: "fst (run_state ApplierInstalled (snd (run_check chain_updater tick_pages tick_machine)))"
  by code_simp

lemma tick_switch: "switched_on tick_pages tick_world" "ListLiveSessions (w_db tick_world) = []"
  by (simp_all add: switched_on_def tick_pages_def tick_world_def sample_pages_def sample_world_def Let_def
      BoolSetting_def Setting_def ListLiveSessions_def empty_db_def)

theorem auto_update_gate_witness:
  "\<exists>x (a :: available). fst (fst (run_state (checkAndMaybeInstall chain_updater tick_pages tick_machine) tick_world)) = WentAhead x \<and>
     Newer ''1.0.0'' (av_version a) = Some True"
proof -
  let ?run = "run_state (checkAndMaybeInstall chain_updater tick_pages tick_machine) tick_world"
  obtain m1 a where c: "run_check chain_updater tick_pages tick_machine = (Inr (Some a), m1)" "av_ready a"
    using tick_checked by (cases "run_check chain_updater tick_pages tick_machine"; cases "fst (run_check chain_updater tick_pages tick_machine)") auto
  have "fst (run_state ApplierInstalled m1)" using tick_helper c(1) by simp
  with c tick_switch have w: "\<exists>x. fst (fst ?run) = WentAhead x"
    by (auto simp: checkAndMaybeInstall_def maybe_install_def run_switch auto_stage_def run_simps outcome_def tick_world_def
        sample_world_def  split: prod.split)
  have cur: "mg_current (up_manager chain_updater) = ''1.0.0''" by (simp add: chain_updater_def)
  have "?run = ((fst (fst ?run), snd (fst ?run)), snd ?run)" by simp
  note gate = auto_update_gate [OF this, unfolded if_P [OF w] cur]
  from w gate show ?thesis by blast
qed

end
