(* ===== verification/Backup.thy ===== *)
theory Backup
  imports Machine Webauthn Decimal
begin

text \<open>
  \<open>internal/backup\<close>: one encrypted file that holds the database, the master key and the configuration; and the
  part of \<open>cmd/revpd/manage.go\<close> that puts them back in place.  The archive format (a gzipped tar) and the reading of
  a moment are parameters.
\<close>

section \<open>What a backup holds\<close>

definition Extension :: string where "Extension = ''.revpd-backup''"

datatype backup_error = NoPassphrase | NoRandom | NotABackup | WrongVersion | BadPassphrase | BadArchive | NoDatabase | NotOpened | NotWritten

record backup_contents =
  bk_database :: bytes
  bk_env :: bytes
  bk_config :: bytes
  bk_created :: time
  bk_hostname :: string
  bk_version :: string

record archiver =
  ar_env :: env
  ar_pack :: "(string \<times> bytes) list \<Rightarrow> bytes"
  ar_unpack :: "bytes \<Rightarrow> (string \<times> bytes) list option"
  ar_moment :: "string \<Rightarrow> time option"

section \<open>The header\<close>

definition magic :: bytes where "magic = bytes_of ''REVPDBAK''"
definition formatVersion :: byte where "formatVersion = 1"
definition saltLen :: nat where "saltLen = 16"
definition headerLen :: nat where "headerLen = 8 + 1 + saltLen + 8"

definition buildHeader :: "bytes \<Rightarrow> time \<Rightarrow> bytes" where
  "buildHeader salt created = magic @ formatVersion # salt @ be64 (unix created)"

text \<open>The eight bytes as a signed number of seconds.\<close>

definition header_time :: "bytes \<Rightarrow> time" where
  "header_time h = seconds (sint (word_of_nat (be_value (drop (headerLen - 8) h)) :: 64 word))"

text \<open>What \<open>Peek\<close> and \<open>Read\<close> do alike with the first bytes.\<close>

definition take_header :: "bytes \<Rightarrow> backup_error + bytes \<times> bytes" where
  "take_header s =
     (if length s < headerLen then Inl NotABackup
      else let h = take headerLen s in
        if take 8 h \<noteq> magic then Inl NotABackup
        else if formatVersion < h ! 8 then Inl WrongVersion
        else Inr (h, drop headerLen s))"

definition Peek :: "bytes \<Rightarrow> backup_error + time" where
  "Peek s = map_sum id (\<lambda>(h, _). header_time h) (take_header s)"

section \<open>The archive\<close>

definition meta_text :: "backup_contents \<Rightarrow> string" where
  "meta_text c = ''hostname='' @ bk_hostname c @ [CHR 0x0A] @ ''version='' @ bk_version c @ [CHR 0x0A] @
     ''created='' @ rfc3339 (unix (bk_created c)) @ [CHR 0x0A]"

definition pack_entries :: "backup_contents \<Rightarrow> (string \<times> bytes) list" where
  "pack_entries c = filter (\<lambda>(name, body). body \<noteq> [] \<or> name = ''revpd.yaml'')
     [(''meta'', bytes_of (meta_text c)), (''revpd.db'', bk_database c), (''env'', bk_env c), (''revpd.yaml'', bk_config c)]"

definition splitLines :: "string \<Rightarrow> string list" where
  "splitLines s = filter (\<lambda>l. l \<noteq> []) (split_byte (CHR 0x0A) s)"

definition cut :: "string \<Rightarrow> char \<Rightarrow> (string \<times> string) option" where
  "cut s sep = (case index_of sep s of None \<Rightarrow> None | Some i \<Rightarrow> Some (take i s, drop (Suc i) s))"

definition meta_line :: "archiver \<Rightarrow> string \<Rightarrow> backup_contents \<Rightarrow> backup_contents" where
  "meta_line A line c =
     (case cut line (CHR ''='') of
        None \<Rightarrow> c
      | Some (key, v) \<Rightarrow>
          if key = ''hostname'' then c\<lparr>bk_hostname := v\<rparr>
          else if key = ''version'' then c\<lparr>bk_version := v\<rparr>
          else if key = ''created'' then (case ar_moment A v of None \<Rightarrow> c | Some t \<Rightarrow> c\<lparr>bk_created := t\<rparr>)
          else c)"

definition parseMeta :: "archiver \<Rightarrow> string \<Rightarrow> backup_contents \<Rightarrow> backup_contents" where
  "parseMeta A s c = fold (meta_line A) (splitLines s) c"

definition max_entry :: nat where "max_entry = 536870912"

definition zero_moment :: time where "zero_moment = - seconds 62135596800"

definition no_contents :: backup_contents where
  "no_contents = \<lparr>bk_database = [], bk_env = [], bk_config = [], bk_created = zero_moment, bk_hostname = [], bk_version = []\<rparr>"

fun unpack_entries :: "archiver \<Rightarrow> (string \<times> bytes) list \<Rightarrow> backup_contents \<Rightarrow> backup_contents" where
  "unpack_entries A [] c = c"
| "unpack_entries A ((name, data) # es) c =
     (let body = take max_entry data in
      unpack_entries A es
        (if name = ''revpd.db'' then c\<lparr>bk_database := body\<rparr>
         else if name = ''env'' then c\<lparr>bk_env := body\<rparr>
         else if name = ''revpd.yaml'' then c\<lparr>bk_config := body\<rparr>
         else if name = ''meta'' then parseMeta A (string_of body) c
         else c))"

definition unpack :: "archiver \<Rightarrow> bytes \<Rightarrow> backup_error + backup_contents" where
  "unpack A archive =
     (case ar_unpack A archive of
        None \<Rightarrow> Inl BadArchive
      | Some es \<Rightarrow> (let c = unpack_entries A es no_contents in if bk_database c = [] then Inl NoDatabase else Inr c))"

section \<open>The seal\<close>

definition kdf_key :: "archiver \<Rightarrow> string \<Rightarrow> bytes \<Rightarrow> bytes option" where
  "kdf_key A passphrase salt = x_argon2id (ar_env A) (bytes_of passphrase) salt 4 (128 * 1024) 4 32"

text \<open>\<open>salt\<close> and \<open>nonce\<close> are what the random source gives; the key length is one AES takes.\<close>

definition Write_backup :: "archiver \<Rightarrow> bytes option \<Rightarrow> bytes option \<Rightarrow> backup_contents \<Rightarrow> string \<Rightarrow> backup_error + bytes" where
  "Write_backup A salt nonce c passphrase =
     (if passphrase = [] then Inl NoPassphrase
      else case salt of None \<Rightarrow> Inl NoRandom
        | Some sa \<Rightarrow> (case kdf_key A passphrase sa of None \<Rightarrow> Inl NoRandom
            | Some key \<Rightarrow> (case nonce of None \<Rightarrow> Inl NoRandom
                | Some n \<Rightarrow>
                    (let header = buildHeader sa (bk_created c) in
                     Inr (header @ n @ x_gcm_seal (ar_env A) key n (ar_pack A (pack_entries c)) header)))))"

definition Read_backup :: "archiver \<Rightarrow> bytes \<Rightarrow> string \<Rightarrow> backup_error + backup_contents" where
  "Read_backup A s passphrase =
     (case take_header s of
        Inl e \<Rightarrow> Inl e
      | Inr (h, rest) \<Rightarrow>
          (case kdf_key A passphrase (take saltLen (drop 9 h)) of
             None \<Rightarrow> Inl BadPassphrase
           | Some key \<Rightarrow>
               if length rest < nonce_size then Inl NotABackup
               else (case x_gcm_open (ar_env A) key (take nonce_size rest) (take max_entry (drop nonce_size rest)) h of
                       None \<Rightarrow> Inl BadPassphrase
                     | Some archive \<Rightarrow> unpack A archive)))"

section \<open>Files\<close>

text \<open>A file that cannot be written whole is removed; one that cannot be flushed stays.\<close>

definition write_private :: "string \<Rightarrow> bytes \<Rightarrow> ('s, backup_error option) op" where
  "write_private path body = do {
     opened \<leftarrow> write_file path [];
     if \<not> opened then yield_op (Some NotOpened)
     else do {
       written \<leftarrow> write_file path (string_of body);
       if \<not> written then do { remove_file path; yield_op (Some NotWritten) }
       else do { synced \<leftarrow> attempt_op id; yield_op (if synced then None else Some NotWritten) }
     }
   }"

definition WriteFile :: "archiver \<Rightarrow> bytes option \<Rightarrow> bytes option \<Rightarrow> string \<Rightarrow> backup_contents \<Rightarrow> string \<Rightarrow> ('s, backup_error option) op" where
  "WriteFile A salt nonce path c passphrase =
     (if passphrase = [] then yield_op (Some NoPassphrase)
      else case Write_backup A salt nonce c passphrase of Inl e \<Rightarrow> yield_op (Some e) | Inr body \<Rightarrow> write_private path body)"

definition ReadFile :: "archiver \<Rightarrow> string \<Rightarrow> string \<Rightarrow> ('s, backup_error + backup_contents) op" where
  "ReadFile A path passphrase = do {
     body \<leftarrow> read_file path;
     yield_op (case body of Inl _ \<Rightarrow> Inl NotOpened | Inr s \<Rightarrow> Read_backup A (bytes_of s) passphrase)
   }"

definition PeekFile :: "string \<Rightarrow> ('s, backup_error + time) op" where
  "PeekFile path = do {
     body \<leftarrow> read_file path;
     yield_op (case body of Inl _ \<Rightarrow> Inl NotOpened | Inr s \<Rightarrow> Peek (bytes_of s))
   }"

section \<open>Putting it back\<close>

text \<open>
  The files of \<open>cmdRestore\<close>: where the database, the secrets and the configuration lie.  Becoming root, stopping
  and starting the service and the ownership of the files are left out.
\<close>

record install_paths =
  ip_data :: string
  ip_env :: string
  ip_config :: string

datatype restore_part = DataDir | ConfDir | DatabaseFile | EnvFile | ConfigFile

datatype restore_end = BackupRefused backup_error | NotConfirmed | NoPassword | NotRestored restore_part | Restored

definition database_path :: "install_paths \<Rightarrow> string" where
  "database_path P = ip_data P @ ''/revpd.db''"

definition write_if :: "string \<Rightarrow> bytes \<Rightarrow> ('s, bool) op" where
  "write_if path body = (if body = [] then yield_op True else write_file path (string_of body))"

definition swap_files :: "install_paths \<Rightarrow> backup_contents \<Rightarrow> ('s, restore_end) op" where
  "swap_files P c = do {
     a \<leftarrow> write_file (database_path P) (string_of (bk_database c));
     if \<not> a then yield_op (NotRestored DatabaseFile)
     else do {
       b \<leftarrow> write_if (ip_env P) (bk_env c);
       if \<not> b then yield_op (NotRestored EnvFile)
       else do {
         d \<leftarrow> write_if (ip_config P) (bk_config c);
         yield_op (if d then Restored else NotRestored ConfigFile)
       }
     }
   }"

definition restore_files :: "install_paths \<Rightarrow> backup_contents \<Rightarrow> ('s, restore_end) op" where
  "restore_files P c = do {
     made \<leftarrow> make_dir;
     if \<not> made then yield_op (NotRestored DataDir)
     else do {
       made2 \<leftarrow> make_dir;
       if \<not> made2 then yield_op (NotRestored ConfDir)
       else do {
         remove_file (database_path P @ ''-wal'');
         remove_file (database_path P @ ''-shm'');
         swap_files P c
       }
     }
   }"

text \<open>\<open>confirmed\<close> is the answer to the question, or the flag; \<open>typed\<close> what was read at the prompt.\<close>

definition cmdRestore :: "archiver \<Rightarrow> install_paths \<Rightarrow> bool \<Rightarrow> string option \<Rightarrow> string \<Rightarrow> ('s, restore_end) op" where
  "cmdRestore A P confirmed typed path = do {
     made \<leftarrow> PeekFile path;
     case made of
       Inl e \<Rightarrow> yield_op (BackupRefused e)
     | Inr _ \<Rightarrow>
         if \<not> confirmed then yield_op NotConfirmed
         else (case typed of
             None \<Rightarrow> yield_op NoPassword
           | Some passphrase \<Rightarrow> do {
               c \<leftarrow> ReadFile A path passphrase;
               case c of Inl e \<Rightarrow> yield_op (BackupRefused e) | Inr x \<Rightarrow> restore_files P x
             })
   }"

end
