(* ===== verification/Backup_Guarantees.thy ===== *)
theory Backup_Guarantees
  imports Backup Machine_Rules Setting_Codecs
begin

text \<open>
  What a backup guarantees: what was put in comes out again.
\<close>

section \<open>The clear part\<close>

lemma header_length: "length salt = saltLen \<Longrightarrow> length (buildHeader salt t) = headerLen"
  by (simp add: buildHeader_def headerLen_def magic_def be64_def bytes_of_def)

lemma header_reads:
  assumes "length salt = saltLen" and "fits_int (unix t)"
  shows "take_header (buildHeader salt t @ r) = Inr (buildHeader salt t, r)" and "header_time (buildHeader salt t) = seconds (unix t)"
    and "take saltLen (drop 9 (buildHeader salt t)) = salt"
proof -
  have m: "length magic = 8" by (simp add: magic_def bytes_of_def)
  have e: "take 8 (buildHeader salt t) = magic" "buildHeader salt t ! 8 = formatVersion" "drop 9 (buildHeader salt t) = salt @ be64 (unix t)"
    using m by (simp_all add: buildHeader_def nth_append numeral_eq_Suc)
  show "take_header (buildHeader salt t @ r) = Inr (buildHeader salt t, r)"
    using header_length [OF assms(1), of t] e by (simp add: take_header_def Let_def)
  show "take saltLen (drop 9 (buildHeader salt t)) = salt" using e(3) assms(1) by simp
  have d: "drop (headerLen - 8) (buildHeader salt t) = be64 (unix t)"
    using m assms(1) by (simp add: buildHeader_def headerLen_def)
  have "int (be_value (be64 (unix t))) = unix t mod 2 ^ 64"
    by (simp add: be64_def be_value_digits nat_less_iff)
  moreover have "(word_of_nat (be_value (be64 (unix t))) :: 64 word) = word_of_int (int (be_value (be64 (unix t))))" by simp
  ultimately have "(word_of_nat (be_value (be64 (unix t))) :: 64 word) = word_of_int (unix t)"
    by (simp only:) (simp add: word_of_int_eq_iff take_bit_eq_mod)
  then show "header_time (buildHeader salt t) = seconds (unix t)"
    using assms(2) by (simp add: header_time_def d fits_int_def signed_of_int signed_take_bit_int_eq_self)
qed

section \<open>The archive\<close>

definition line_end :: char where "line_end = CHR 0x0A"

lemma rfc3339_line: "line_end \<notin> set (rfc3339 t)"
proof -
  have "line_end \<notin> set (decimal_int n)" for n
    using decimal_int_plain [of line_end n] by (auto simp: line_end_def ascii_space_def)
  then show ?thesis by (auto simp: rfc3339_def padded_def Let_def line_end_def split: prod.split)
qed

lemma meta_lines:
  assumes "line_end \<notin> set (bk_hostname c)" and "line_end \<notin> set (bk_version c)"
  shows "splitLines (meta_text c) = [''hostname='' @ bk_hostname c, ''version='' @ bk_version c, ''created='' @ rfc3339 (unix (bk_created c))]"
proof -
  have three: "split_byte line_end (p @ line_end # q @ line_end # r @ [line_end]) = [p, q, r, []]"
    if "line_end \<notin> set p" "line_end \<notin> set q" "line_end \<notin> set r" for p q r
    using that split_byte_append [of line_end r "[]"] by (simp add: split_byte_append)
  have "meta_text c = (''hostname='' @ bk_hostname c) @ line_end # (''version='' @ bk_version c) @ line_end #
      (''created='' @ rfc3339 (unix (bk_created c))) @ [line_end]"
    by (simp add: meta_text_def line_end_def)
  moreover have "line_end \<notin> set (''hostname='' @ bk_hostname c)" "line_end \<notin> set (''version='' @ bk_version c)"
    "line_end \<notin> set (''created='' @ rfc3339 (unix (bk_created c)))"
    using assms rfc3339_line by (auto simp: line_end_def)
  ultimately have "split_byte line_end (meta_text c) = [''hostname='' @ bk_hostname c, ''version='' @ bk_version c, ''created='' @ rfc3339 (unix (bk_created c)), []]"
    using three by presburger
  then show ?thesis by (simp add: splitLines_def line_end_def)
qed

lemma cut_key: "sep \<notin> set k \<Longrightarrow> cut (k @ sep # v) sep = Some (k, v)"
proof -
  assume "sep \<notin> set k"
  then have "index_of sep (k @ sep # v) = Some (length k)" by (induction k) auto
  then show ?thesis by (simp add: cut_def)
qed

lemma cut_keys:
  "cut (''hostname='' @ v) (CHR ''='') = Some (''hostname'', v)" "cut (''version='' @ v) (CHR ''='') = Some (''version'', v)"
  "cut (''created='' @ v) (CHR ''='') = Some (''created'', v)"
  using cut_key [of "CHR ''=''" "''hostname''" v] cut_key [of "CHR ''=''" "''version''" v] cut_key [of "CHR ''=''" "''created''" v] by simp_all

lemma meta_reads:
  assumes "line_end \<notin> set (bk_hostname c)" and "line_end \<notin> set (bk_version c)"
    and "ar_moment A (rfc3339 (unix (bk_created c))) = Some t"
  shows "parseMeta A (meta_text c) c0 = c0\<lparr>bk_hostname := bk_hostname c, bk_version := bk_version c, bk_created := t\<rparr>"
  by (simp add: parseMeta_def meta_lines [OF assms(1,2)] meta_line_def cut_keys [simplified] assms(3))

text \<open>What can be written: text on one line, parts within the size that is read back.\<close>

definition writable :: "backup_contents \<Rightarrow> bool" where
  "writable c \<longleftrightarrow> line_end \<notin> set (bk_hostname c) \<and> line_end \<notin> set (bk_version c) \<and> bk_database c \<noteq> [] \<and>
     fits_int (unix (bk_created c)) \<and>
     list_all (\<lambda>b. length b \<le> max_entry) [bk_database c, bk_env c, bk_config c, bytes_of (meta_text c)]"

text \<open>The codecs undo each other on what this backup holds; the last part is the moment in its text form.\<close>

definition codecs_agree :: "archiver \<Rightarrow> backup_contents \<Rightarrow> bool" where
  "codecs_agree A c \<longleftrightarrow>
     ar_unpack A (ar_pack A (pack_entries c)) = Some (pack_entries c) \<and>
     (\<forall>k n p h. x_gcm_open (ar_env A) k n (x_gcm_seal (ar_env A) k n p h) h = Some p) \<and>
     ar_moment A (rfc3339 (unix (bk_created c))) = Some (seconds (unix (bk_created c)))"

lemma unpack_packed:
  assumes "writable c" and "codecs_agree A c"
  shows "unpack A (ar_pack A (pack_entries c)) = Inr (c\<lparr>bk_created := seconds (unix (bk_created c))\<rparr>)"
proof -
  note w = assms(1) [unfolded writable_def]
  have "meta_text c \<noteq> []" by (simp add: meta_text_def)
  then have m: "bytes_of (meta_text c) \<noteq> []" by (simp add: bytes_of_def)
  have "unpack_entries A (pack_entries c) no_contents = c\<lparr>bk_created := seconds (unix (bk_created c))\<rparr>"
    using w m assms(2)
    by (cases c) (simp add: pack_entries_def no_contents_def meta_reads codecs_agree_def)
  with w assms(2) show ?thesis by (simp add: unpack_def codecs_agree_def Let_def)
qed

lemma read_written:
  assumes "Write_backup A (Some salt) (Some n) c pw = Inr s" and "length salt = saltLen" and "length n = nonce_size"
    and "length s \<le> max_entry" and "writable c" and "codecs_agree A c"
  shows "Read_backup A s pw = Inr (c\<lparr>bk_created := seconds (unix (bk_created c))\<rparr>) \<and> Peek s = Inr (seconds (unix (bk_created c)))"
proof -
  let ?h = "buildHeader salt (bk_created c)"
  obtain key where k: "kdf_key A pw salt = Some key" and s: "s = ?h @ n @ x_gcm_seal (ar_env A) key n (ar_pack A (pack_entries c)) ?h"
    using assms(1) by (auto simp: Write_backup_def Let_def split: if_splits option.splits)
  have fits: "fits_int (unix (bk_created c))" using assms(5) by (simp add: writable_def)
  note h = header_reads [OF assms(2) fits]
  have "take max_entry (x_gcm_seal (ar_env A) key n (ar_pack A (pack_entries c)) ?h) = x_gcm_seal (ar_env A) key n (ar_pack A (pack_entries c)) ?h"
    using assms(4) s by simp
  moreover have "x_gcm_open (ar_env A) key n (x_gcm_seal (ar_env A) key n (ar_pack A (pack_entries c)) ?h) ?h = Some (ar_pack A (pack_entries c))"
    using assms(6) by (simp add: codecs_agree_def)
  ultimately show ?thesis
    using h k assms(3) unpack_packed [OF assms(5,6)] by (simp add: Read_backup_def Peek_def s h)
qed

section \<open>The file\<close>

lemma after_private:
  assumes "\<And>r m'. only ((=) path) m m' \<Longrightarrow> (r = None \<Longrightarrow> data_at m' path = Some (string_of body)) \<Longrightarrow> Q r m'"
  shows "after (write_private path body) m Q"
  unfolding write_private_def after_simps
proof (rule after_write)
  fix opened m1
  assume o1: "only ((=) path) m m1"
  have on: "only ((=) path) m m3" if "only ((=) path) m m2" "only A m2 m3" "\<And>q. A q \<Longrightarrow> path = q" for m2 m3 A
    by (rule only_trans [OF that(1,2)]) (use that(3) in auto)
  have "after (write_file path (string_of body)) m1 (\<lambda>x m'. if \<not> x then after (remove_file path) m' (\<lambda>x. Q (Some NotWritten))
      else after (attempt_op id) m' (\<lambda>x. Q (if x then None else Some NotWritten)))"
  proof (rule after_write)
    fix written m2
    assume w: "only ((=) path) m1 m2" "written \<Longrightarrow> data_at m2 path = Some (string_of body)"
    have o2: "only ((=) path) m m2" by (rule on [OF o1 w(1)]) simp
    have "after (remove_file path) m2 (\<lambda>x. Q (Some NotWritten))"
      by (rule after_remove, rule assms, rule on [OF o2]) auto
    moreover have "after (attempt_op id) m2 (\<lambda>x. Q (if x then None else Some NotWritten))" if written
    proof (rule after_sync)
      fix ok m3
      assume o3: "only none_of m2 m3"
      have "only ((=) path) m m3" by (rule on [OF o2 o3]) simp
      then show "Q (if ok then None else Some NotWritten) m3"
        using w(2) [OF that] only_data [OF o3, of path] by (intro assms) auto
    qed
    ultimately show "if \<not> written then after (remove_file path) m2 (\<lambda>x. Q (Some NotWritten))
        else after (attempt_op id) m2 (\<lambda>x. Q (if x then None else Some NotWritten))" by simp
  qed
  then show "if \<not> opened then Q (Some NotOpened) m1 else after (write_file path (string_of body)) m1
      (\<lambda>x m'. if \<not> x then after (remove_file path) m' (\<lambda>x. Q (Some NotWritten))
        else after (attempt_op id) m' (\<lambda>x. Q (if x then None else Some NotWritten)))"
    using o1 by (auto intro!: assms)
qed

text \<open>C28. A backup that was written is a backup that can be restored: when writing it to a file succeeds, reading that file with
  the same passphrase gives back the database, the master key, the configuration, the host and the version, and
  the moment to the second; and the moment can be told from the file without the passphrase.\<close>

theorem backup_roundtrip:
  assumes "run_state (WriteFile A (Some salt) (Some n) path c pw) m = (None, m')"
    and "length salt = saltLen" and "length n = nonce_size" and "writable c" and "codecs_agree A c"
    and "\<forall>s. data_at m' path = Some s \<longrightarrow> length s \<le> max_entry" and "trouble_of m' = Works"
  shows "fst (run_state (ReadFile A path pw) m') = Inr (c\<lparr>bk_created := seconds (unix (bk_created c))\<rparr>) \<and>
    fst (run_state (PeekFile path) m') = Inr (seconds (unix (bk_created c)))"
proof -
  from assms(1) obtain s where w: "Write_backup A (Some salt) (Some n) c pw = Inr s" and p: "run_state (write_private path s) m = (None, m')"
    by (auto simp: WriteFile_def split: if_splits sum.splits)
  have d: "data_at m' path = Some (string_of s)"
    by (rule after_run [OF p, where Q = "\<lambda>r m'. r = None \<longrightarrow> data_at m' path = Some (string_of s)", THEN mp]) (rule after_private, simp_all)
  then have "length s \<le> max_entry" using assms(6) by (simp add: string_of_def)
  from read_written [OF w assms(2,3) this assms(4,5)] d assms(7) show ?thesis
    by (simp add: ReadFile_def PeekFile_def read_file_def op_simps)
qed

definition sample_contents :: backup_contents where
  "sample_contents = \<lparr>bk_database = [7, 8], bk_env = [], bk_config = [9], bk_created = seconds 120 + 5, bk_hostname = ''a=b'', bk_version = ''1.0''\<rparr>"

definition sample_archiver :: archiver where
  "sample_archiver = \<lparr>ar_env = sample_env\<lparr>x_argon2id := \<lambda>_ _ _ _ _ _. Some [1], x_gcm_seal := \<lambda>_ _ p _. p @ [3], x_gcm_open := \<lambda>_ _ s _. Some (butlast s)\<rparr>,
     ar_pack = (\<lambda>_. [2]), ar_unpack = (\<lambda>_. Some (pack_entries sample_contents)), ar_moment = (\<lambda>_. Some (seconds 120))\<rparr>"

definition sample_disk :: "unit machine" where
  "sample_disk = \<lparr>mc_files = [], mc_trouble = [], mc_now = 0, mc_jitter = (\<lambda>_. 1), mc_tick = 0, mc_running = None, mc_prog = ()\<rparr>"

definition sample_backup :: "backup_error option \<times> unit machine" where
  "sample_backup = run_state (WriteFile sample_archiver (Some (replicate 16 5)) (Some (replicate 12 6)) ''/tmp/b'' sample_contents ''pw'') sample_disk"

lemma sample_backup_written: "fst sample_backup = None" "mc_trouble (snd sample_backup) = []"
  by code_simp+

lemma sample_backup_length: "map_option length (data_at (snd sample_backup) ''/tmp/b'') = Some 47"
  by code_simp

lemma sample_contents_fine: "writable sample_contents" "codecs_agree sample_archiver sample_contents"
proof -
  have "length (bytes_of (meta_text sample_contents)) = 54" by code_simp
  then show "writable sample_contents"
    by (simp add: writable_def max_entry_def) (simp add: sample_contents_def line_end_def fits_int_def unix_def seconds_def)
  have "unix (bk_created sample_contents) = 120" by code_simp
  then show "codecs_agree sample_archiver sample_contents" by (simp add: codecs_agree_def) (simp add: sample_archiver_def)
qed

theorem backup_roundtrip_witness:
  "fst (run_state (ReadFile sample_archiver ''/tmp/b'' ''pw'') (snd sample_backup)) = Inr (sample_contents\<lparr>bk_created := seconds 120\<rparr>)"
proof -
  have run: "run_state (WriteFile sample_archiver (Some (replicate 16 5)) (Some (replicate 12 6)) ''/tmp/b'' sample_contents ''pw'') sample_disk =
      (None, snd sample_backup)"
    using sample_backup_written(1) by (simp add: sample_backup_def prod_eq_iff)
  have "unix (bk_created sample_contents) = 120" by code_simp
  moreover have "\<forall>s. data_at (snd sample_backup) ''/tmp/b'' = Some s \<longrightarrow> length s \<le> max_entry"
    using sample_backup_length by (auto simp: max_entry_def)
  ultimately show ?thesis
    using backup_roundtrip [OF run _ _ sample_contents_fine] sample_backup_written(2)
    by (simp add: saltLen_def nonce_size_def trouble_of_def)
qed

section \<open>Restoring\<close>

definition restored_files :: "install_paths \<Rightarrow> string \<Rightarrow> bool" where
  "restored_files P q \<longleftrightarrow> q \<in> {database_path P, database_path P @ ''-wal'', database_path P @ ''-shm'', ip_env P, ip_config P}"

lemma restored_trans: "only (restored_files P) m m1 \<Longrightarrow> only A m1 m2 \<Longrightarrow> (\<And>q. A q \<Longrightarrow> restored_files P q) \<Longrightarrow> only (restored_files P) m m2"
  by (rule only_trans) auto

lemma after_write_if:
  assumes "\<And>ok m'. only ((=) p) m m' \<Longrightarrow> (ok \<Longrightarrow> data_at m' p = (if body = [] then data_at m p else Some (string_of body))) \<Longrightarrow> Q ok m'"
  shows "after (write_if p body) m Q"
  by (cases "body = []") (auto simp: write_if_def after_simps intro!: assms after_write)

definition put_back :: "install_paths \<Rightarrow> backup_contents \<Rightarrow> 's machine \<Rightarrow> 's machine \<Rightarrow> bool" where
  "put_back P c m m' \<longleftrightarrow> data_at m' (database_path P) = Some (string_of (bk_database c)) \<and>
     data_at m' (ip_env P) = (if bk_env c = [] then data_at m (ip_env P) else Some (string_of (bk_env c))) \<and>
     data_at m' (ip_config P) = (if bk_config c = [] then data_at m (ip_config P) else Some (string_of (bk_config c)))"

definition apart_files :: "install_paths \<Rightarrow> bool" where
  "apart_files P \<longleftrightarrow> distinct [database_path P, database_path P @ ''-wal'', database_path P @ ''-shm'', ip_env P, ip_config P]"

lemma apart_each: "apart_files P \<Longrightarrow> database_path P \<noteq> ip_env P \<and> ip_env P \<noteq> database_path P \<and> database_path P \<noteq> ip_config P \<and>
    ip_config P \<noteq> database_path P \<and> ip_env P \<noteq> ip_config P \<and> ip_config P \<noteq> ip_env P"
  by (auto simp: apart_files_def)

lemma after_swap:
  assumes "apart_files P" and "only (restored_files P) m m1" and "data_at m1 (ip_env P) = data_at m (ip_env P)"
    and "data_at m1 (ip_config P) = data_at m (ip_config P)"
    and Q: "\<And>r m'. only (restored_files P) m m' \<Longrightarrow> (r = Restored \<Longrightarrow> put_back P c m m') \<Longrightarrow> r \<in> {Restored} \<union> range NotRestored \<Longrightarrow> Q r m'"
  shows "after (swap_files P c) m1 Q"
  unfolding swap_files_def after_bind
proof (rule after_write, goal_cases)
  case (1 a m2)
  note w1 = 1 and ap = apart_each [OF assms(1)]
  have o2: "only (restored_files P) m m2" by (rule restored_trans [OF assms(2) 1(1)]) (simp add: restored_files_def)
  have "after (write_if (ip_env P) (bk_env c)) m2 (\<lambda>b m3. after (if \<not> b then yield_op (NotRestored EnvFile)
      else do { d \<leftarrow> write_if (ip_config P) (bk_config c); yield_op (if d then Restored else NotRestored ConfigFile) }) m3 Q)" if a
  proof (rule after_write_if, goal_cases)
    case (1 b m3)
    note w2 = 1
    have o3: "only (restored_files P) m m3" by (rule restored_trans [OF o2 1(1)]) (simp add: restored_files_def)
    have "after (write_if (ip_config P) (bk_config c)) m3 (\<lambda>d. Q (if d then Restored else NotRestored ConfigFile))" if b
    proof (rule after_write_if, goal_cases)
      case (1 d m4)
      have o4: "only (restored_files P) m m4" by (rule restored_trans [OF o3 1(1)]) (simp add: restored_files_def)
      have "put_back P c m m4" if d
        unfolding put_back_def
        using ap w1(2) [OF \<open>a\<close>] w2(2) [OF \<open>b\<close>] 1(2) [OF that] only_data [OF w1(1)] only_data [OF w2(1)] only_data [OF 1(1)] assms(3,4)
        by simp
      then show ?case by (intro Q o4) (auto split: if_splits)
    qed
    then show ?case using o3 by (auto simp: after_simps intro!: Q)
  qed
  then show ?case using o2 by (auto simp: after_simps intro!: Q)
qed

lemma after_restore:
  assumes "apart_files P"
    and Q: "\<And>r m'. only (restored_files P) m m' \<Longrightarrow> (r = Restored \<Longrightarrow> put_back P c m m') \<Longrightarrow> r \<in> {Restored} \<union> range NotRestored \<Longrightarrow> Q r m'"
  shows "after (restore_files P c) m Q"
  unfolding restore_files_def after_bind
proof (rule after_mkdir, goal_cases)
  case (1 made m1)
  have o1: "only (restored_files P) m m1" by (rule only_weaken [OF 1]) simp
  have "after (swap_files P c) m4 Q" if o: "only none_of m1 m2" "only ((=) (database_path P @ ''-wal'')) m2 m3" "only ((=) (database_path P @ ''-shm'')) m3 m4"
    for m2 m3 m4
  proof (rule after_swap [OF assms(1) _ _ _ Q])
    have "only (restored_files P) m m2" by (rule restored_trans [OF o1 o(1)]) simp
    then have "only (restored_files P) m m3" by (rule restored_trans [OF _ o(2)]) (simp add: restored_files_def)
    then show "only (restored_files P) m m4" by (rule restored_trans [OF _ o(3)]) (simp add: restored_files_def)
    show "data_at m4 (ip_env P) = data_at m (ip_env P)" "data_at m4 (ip_config P) = data_at m (ip_config P)"
      using assms(1) only_data [OF 1] only_data [OF o(1)] only_data [OF o(2)] only_data [OF o(3)] by (auto simp: apart_files_def)
  qed
  then have "after make_dir m1 (\<lambda>made2 m2. if \<not> made2 then Q (NotRestored ConfDir) m2
      else after (remove_file (database_path P @ ''-wal'')) m2 (\<lambda>x m3. after (remove_file (database_path P @ ''-shm'')) m3 (\<lambda>x m4. after (swap_files P c) m4 Q)))"
    by (intro after_mkdir) (auto intro!: after_remove Q dest: restored_trans [OF o1])
  then show ?case
    unfolding after_simps using Q [OF o1, of "NotRestored DataDir"] by (cases made) (simp_all split del: if_split)
qed

lemma after_readfile:
  assumes "\<And>r m'. only none_of m m' \<Longrightarrow> (\<And>c. r = Inr c \<Longrightarrow> \<exists>s. data_at m path = Some s \<and> Read_backup A (bytes_of s) pw = Inr c) \<Longrightarrow> Q r m'"
  shows "after (ReadFile A path pw) m Q"
  unfolding ReadFile_def after_simps by (rule after_read) (auto intro!: assms split: sum.split_asm)

lemma after_peek:
  assumes "\<And>r m'. only none_of m m' \<Longrightarrow> Q r m'"
  shows "after (PeekFile path) m Q"
  unfolding PeekFile_def after_simps by (rule after_read) (auto intro!: assms)

text \<open>C29. Restoring replaces nothing until the backup has been recognised, the question answered and the passphrase found right;
  when it reports success, the database, and the key and the configuration where the backup has them, are the ones of
  the backup; and whatever happens, no file but these and the journals of the old database changes.\<close>

theorem restore_puts_back:
  assumes "run_state (cmdRestore A P confirmed typed path) m = (r, m')" and "apart_files P"
  shows "only (restored_files P) m m' \<and>
    (if \<exists>x. r = NotRestored x \<or> r = Restored
     then confirmed \<and> (\<exists>pw s c. typed = Some pw \<and> data_at m path = Some s \<and> Read_backup A (bytes_of s) pw = Inr c \<and>
       (r = Restored \<longrightarrow> put_back P c m m'))
     else only none_of m m')"
proof -
  have "after (cmdRestore A P confirmed typed path) m (\<lambda>r m'. only (restored_files P) m m' \<and>
      (if \<exists>x. r = NotRestored x \<or> r = Restored
       then confirmed \<and> (\<exists>pw s c. typed = Some pw \<and> data_at m path = Some s \<and> Read_backup A (bytes_of s) pw = Inr c \<and>
         (r = Restored \<longrightarrow> put_back P c m m'))
       else only none_of m m'))" (is "after _ _ ?Q")
    unfolding cmdRestore_def after_bind
  proof (rule after_peek, goal_cases)
    case (1 r m1)
    have o: "only (restored_files P) m m1" by (rule only_weaken [OF 1]) simp
    have "after (ReadFile A path pw) m1 (\<lambda>c m2. after (case c of Inl e \<Rightarrow> yield_op (BackupRefused e) | Inr x \<Rightarrow> restore_files P x) m2 ?Q)"
      if t: "typed = Some pw" "confirmed" for pw
    proof (rule after_readfile, goal_cases)
      case (1 c m2)
      have same: "only none_of m m2" by (rule only_trans [OF \<open>only none_of m m1\<close> 1(1)]) simp
      have rs: "only (restored_files P) m m2" by (rule only_weaken [OF same]) simp
      show ?case
      proof (cases c)
        case (Inl e)
        then show ?thesis using same rs by (auto simp: after_simps)
      next
        case (Inr x)
        with 1(2) obtain s where s: "data_at m path = Some s" "Read_backup A (bytes_of s) pw = Inr x"
          using only_data [OF \<open>only none_of m m1\<close>, of path] by auto
        have stays: "put_back P x m m3" if "put_back P x m2 m3" for m3
          using that only_data [OF same] by (simp add: put_back_def)
        have "after (restore_files P x) m2 ?Q"
          by (rule after_restore [OF assms(2)]) (use rs t s stays in \<open>auto dest: restored_trans [OF rs]\<close>)
        then show ?thesis using Inr by simp
      qed
    qed
    then show ?case using 1 o by (cases r; cases confirmed; cases typed) (simp_all add: after_yield after_bind)
  qed
  from after_run [OF assms(1) this] show ?thesis .
qed

definition sample_places :: install_paths where
  "sample_places = \<lparr>ip_data = ''/d'', ip_env = ''/e/.env'', ip_config = ''/e/revpd.yaml''\<rparr>"

definition sample_restore :: "restore_end \<times> unit machine" where
  "sample_restore = run_state (cmdRestore sample_archiver sample_places True (Some ''pw'') ''/tmp/b'') (snd sample_backup)"

lemma sample_restored: "fst sample_restore = Restored"
  by code_simp

theorem restore_puts_back_witness:
  "\<exists>c. Read_backup sample_archiver (bytes_of (the (data_at (snd sample_backup) ''/tmp/b''))) ''pw'' = Inr c \<and>
     put_back sample_places c (snd sample_backup) (snd sample_restore)"
proof -
  have "run_state (cmdRestore sample_archiver sample_places True (Some ''pw'') ''/tmp/b'') (snd sample_backup) = (Restored, snd sample_restore)"
    using sample_restored by (simp add: sample_restore_def prod_eq_iff)
  moreover have "apart_files sample_places" by code_simp
  ultimately show ?thesis using restore_puts_back [of sample_archiver sample_places True "Some ''pw''" "''/tmp/b''"] by force
qed

end
