(* ===== verification/Discover_Guarantees.thy ===== *)
theory Discover_Guarantees
  imports Discover
begin

text \<open>
  What a search of the network may do: it visits exactly the machines of a private network of moderate size,
  and nmap is only ever asked for what the gateway is allowed to do.
\<close>

section \<open>The addresses of a network\<close>

lemma unat_masked:
  fixes w :: "32 word"
  assumes "bits \<le> 32"
  shows "unat (mask_bits 32 (int bits) w) = unat w div 2 ^ (32 - bits) * 2 ^ (32 - bits)"
proof -
  have "unat w div 2 ^ (32 - bits) * 2 ^ (32 - bits) \<le> unat w" by simp
  also have small: "unat w < 2 ^ 32" using unsigned_less [of w] by simp
  finally have "take_bit 32 (unat w div 2 ^ (32 - bits) * 2 ^ (32 - bits)) = unat w div 2 ^ (32 - bits) * 2 ^ (32 - bits)"
    by (simp add: take_bit_nat_eq_self)
  moreover have "unat w mod 4294967296 = unat w" using small by simp
  ultimately show ?thesis
    unfolding mask_bits_def unsigned_push_bit_eq unsigned_drop_bit_eq
    by (simp add: push_bit_eq_mult drop_bit_eq_div take_bit_eq_mod)
qed

lemma unat_small: "n < 2 ^ 32 \<Longrightarrow> unat (word_of_nat n :: 32 word) = n"
  by (simp add: unat_of_nat)

definition addr_at :: "nat \<Rightarrow> 32 word option" where
  "addr_at n = (if n < 2 ^ 32 then Some (word_of_nat n) else None)"

lemma next_at: "n < 2 ^ 32 \<Longrightarrow> next_addr (word_of_nat n) = addr_at (Suc n)"
  using unat_small [of n] by (simp add: next_addr_def addr_at_def)

lemma at_unat: "addr_at (unat a) = Some a"
  using unsigned_less [of a] by (simp add: addr_at_def)

text \<open>A network by its first number and its size.\<close>

definition network_of :: "32 word \<Rightarrow> nat \<Rightarrow> nat \<Rightarrow> nat \<Rightarrow> bool" where
  "network_of base bits b sz \<longleftrightarrow> bits \<le> 32 \<and> b = unat base \<and> sz = 2 ^ (32 - bits) \<and> b mod sz = 0 \<and> b + sz \<le> 2 ^ 32"

lemma masked_network:
  assumes "bits \<le> 32"
  shows "network_of (mask_bits 32 (int bits) w) bits (unat (mask_bits 32 (int bits) w)) (2 ^ (32 - bits))"
proof -
  let ?s = "2 ^ (32 - bits) :: nat" and ?q = "unat w div 2 ^ (32 - bits)"
  have p: "2 ^ 32 = 2 ^ bits * ?s" using assms by (simp flip: power_add)
  have "unat w < 2 ^ bits * ?s" using unsigned_less [of w] p by simp
  then have "Suc ?q \<le> 2 ^ bits" by (simp add: Suc_le_eq less_mult_imp_div_less)
  then have "Suc ?q * ?s \<le> 2 ^ bits * ?s" by (rule mult_le_mono1)
  then have "?q * ?s + ?s \<le> 2 ^ 32" using p by simp
  with unat_masked [OF assms, of w] show ?thesis by (simp add: network_of_def assms)
qed

lemma in_network:
  assumes "network_of base bits b sz" and "b \<le> m" and "m \<le> b + sz"
  shows "in_prefix base bits (addr_at m) \<longleftrightarrow> m < b + sz"
proof (cases "m < 2 ^ 32")
  case True
  have s: "0 < sz" "b = b div sz * sz" using assms(1) by (auto simp: network_of_def)
  have "in_prefix base bits (addr_at m) \<longleftrightarrow> m div sz * sz = b"
    using assms(1) True unat_masked [of bits "word_of_nat m"]
    by (auto simp: in_prefix_def addr_at_def network_of_def unat_small word_unat_eq_iff)
  also have "\<dots> \<longleftrightarrow> m < b + sz"
  proof
    assume "m div sz * sz = b"
    then show "m < b + sz" using div_mult_mod_eq [of m sz] mod_less_divisor [OF s(1), of m] by linarith
  next
    assume "m < b + sz"
    then have "m div sz = b div sz"
      using assms(2) s by (metis add.commute div_nat_eqI mult.commute mult_Suc_right)
    with s(2) show "m div sz * sz = b" by simp
  qed
  finally show ?thesis .
next
  case False
  then show ?thesis using assms by (simp add: in_prefix_def addr_at_def network_of_def)
qed

lemma visit_from:
  assumes n: "network_of base bits b sz" and "j \<le> sz"
  shows "map unat (visit base bits (addr_at (b + j))) =
    (if bits < 31 then [max (b + j) (Suc b)..<b + sz - 1] else [b + j..<b + sz])"
  using assms(2)
proof (induction rule: inc_induct)
  case base
  have "\<not> in_prefix base bits (addr_at (b + sz))" using in_network [OF n, of "b + sz"] by simp
  then have "visit base bits (addr_at (b + sz)) = []" by (cases "addr_at (b + sz)") simp_all
  then show ?case by simp
next
  case (step i)
  have lt: "b + i < 2 ^ 32" using step.hyps n by (simp add: network_of_def)
  obtain x where at: "addr_at (b + i) = Some x" "unat x = b + i" "next_addr x = addr_at (Suc (b + i))"
    using lt next_at [OF lt] unat_small [OF lt] by (auto simp: addr_at_def)
  have here: "in_prefix base bits (Some x)" using in_network [OF n, of "b + i"] step.hyps at(1) by simp
  have after: "in_prefix base bits (addr_at (Suc (b + i))) \<longleftrightarrow> Suc i < sz" using in_network [OF n, of "Suc (b + i)"] step.hyps by simp
  have first: "x = base \<longleftrightarrow> i = 0"
    using n at(2) unfolding word_unat_eq_iff by (auto simp: network_of_def)
  have unrolled: "visit base bits (addr_at (b + i)) =
      (if bits < 31 \<and> (i = 0 \<or> \<not> Suc i < sz) then [] else [x]) @ visit base bits (addr_at (b + Suc i))"
    unfolding at(1) visit.simps using here first after at(3) by simp
  show ?case
  proof (cases "i \<le> 1")
    case True
    then consider "i = 0" | "i = 1" by linarith
    then show ?thesis unfolding unrolled using step.IH step.hyps at(2) by cases (auto simp: upt_conv_Cons)
  next
    case False
    then show ?thesis unfolding unrolled using step.IH step.hyps at(2) by (auto simp: upt_conv_Cons max_def)
  qed
qed

text \<open>A small network lies within one of the private blocks, or outside all of them.\<close>

lemma private_together:
  assumes n: "network_of base bits b sz" and "sz \<le> 65536" and "isPrivate base" and "b \<le> unat a" and "unat a < b + sz"
  shows "isPrivate a"
proof -
  obtain k where k: "sz = 2 ^ k" "k \<le> 16"
    using assms(2) n power_le_imp_le_exp [of "2 :: nat" "32 - bits" 16] by (auto simp: network_of_def)
  have "b = sz * (b div sz)" using n by (auto simp: network_of_def)
  then have "unat a div sz = b div sz" using assms(4,5) by (intro div_nat_eqI) auto
  moreover have "(65536 :: nat) = sz * 2 ^ (16 - k)" using k by (simp flip: power_add)
  ultimately have same: "unat a div 65536 = b div 65536" by (metis div_mult2_eq)
  have b: "b = unat base" using n by (simp add: network_of_def)
  have "unat x div 16777216 = unat x div 65536 div 256" for x :: "32 word" by (simp flip: div_mult2_eq)
  then have "take 2 (v4_octets a) = take 2 (v4_octets base)" using same b by (simp add: v4_octets_def Let_def)
  then have "v4_octets a ! 0 = v4_octets base ! 0" "v4_octets a ! 1 = v4_octets base ! 1" by (metis nth_take zero_less_numeral one_less_numeral_iff semiring_norm(76))+
  with assms(3) show ?thesis by (simp add: isPrivate_def IsPrivate_def IsLinkLocalUnicast_def Let_def)
qed

text \<open>C34. A sweep visits exactly the machines of the network it was given: every address between the network and the broadcast
  address in order, or all of them where a network has neither, each once; all of them are private addresses, and
  there are at most 1024 of them, whatever text was typed.\<close>

theorem sweep_visits_exactly:
  assumes "Expand cidr = Inr as"
  shows "\<exists>w bits. ParsePrefix cidr = Some (V4 w, bits) \<and>
    (let b = unat w div 2 ^ (32 - bits) * 2 ^ (32 - bits) in
     map unat as = (if bits < 31 then [Suc b..<b + 2 ^ (32 - bits) - 1] else [b..<b + 2 ^ (32 - bits)])) \<and>
    list_all isPrivate as \<and> int (length as) = hostCount bits \<and> length as \<le> 1024"
proof -
  obtain w bits where p: "ParsePrefix cidr = Some (V4 w, bits)" and pr: "isPrivate (mask_bits 32 (int bits) w)"
    and few: "hostCount bits \<le> MaxHosts" and as: "as = visit (mask_bits 32 (int bits) w) bits (Some (mask_bits 32 (int bits) w))"
    using assms by (auto simp: Expand_def Let_def split: option.splits prod.splits ip.splits if_splits)
  let ?base = "mask_bits 32 (int bits) w" and ?sz = "2 ^ (32 - bits) :: nat"
  have le: "bits \<le> 32"
    using p by (auto simp: ParsePrefix_def prefix_length_def split: option.splits ip.splits if_splits)
  note n = masked_network [OF le, of w]
  have all: "map unat as = (if bits < 31 then [Suc (unat ?base)..<unat ?base + ?sz - 1] else [unat ?base..<unat ?base + ?sz])"
    using visit_from [OF n, of 0] by (simp add: as at_unat)
  have "length as = (if bits < 31 then ?sz - 2 else ?sz)"
    using arg_cong [OF all, of length] by (simp split: if_splits)
  moreover have four: "4 \<le> ?sz" if "bits < 31"
  proof -
    have "(2 :: nat) ^ 2 \<le> 2 ^ (32 - bits)" using that by (intro power_increasing) auto
    then show ?thesis by simp
  qed
  ultimately have len: "int (length as) = hostCount bits"
    by (auto simp: hostCount_def of_nat_diff not_less)
  have "?sz \<le> 65536"
  proof (cases "bits < 31")
    case True
    then have "int ?sz \<le> 1026" using few by (simp add: hostCount_def MaxHosts_def)
    then show ?thesis using of_nat_le_iff [where 'a = int, of ?sz 1026] by simp
  next
    case False
    then have "?sz \<le> 2 ^ 1" by (intro power_increasing) auto
    then show ?thesis by simp
  qed
  moreover have "unat ?base \<le> unat a \<and> unat a < unat ?base + ?sz" if "a \<in> set as" for a
  proof -
    have "unat a \<in> set (map unat as)" using that by simp
    then show ?thesis unfolding all by (auto split: if_splits)
  qed
  ultimately have "list_all isPrivate as" using private_together [OF n _ pr] by (auto simp: list_all_iff)
  then show ?thesis using p all len few unat_masked [OF le, of w] by (auto simp: MaxHosts_def Let_def)
qed

lemma expand_sample: "Expand ''10.0.0.9/30'' = Inr [0x0a000009, 0x0a00000a]"
  by code_simp

theorem sweep_visits_exactly_witness:
  "Expand ''10.0.0.9/30'' = Inr [0x0a000009, 0x0a00000a] \<and>
    list_all isPrivate [0x0a000009, 0x0a00000a] \<and> int (length [0x0a000009, 0x0a00000a :: 32 word]) = hostCount 30"
  using sweep_visits_exactly [OF expand_sample] expand_sample by (auto simp: hostCount_def)

section \<open>What a sweep asks\<close>

text \<open>An IPv4 address that was printed is read back.\<close>

lemma decimal_starts: "hd (decimal n) = CHR ''0'' \<Longrightarrow> n = 0"
proof (induction n rule: decimal.induct)
  case (1 n)
  have small: "k < 10 \<Longrightarrow> digit k = CHR ''0'' \<Longrightarrow> k = 0" for k
    using digit_val_digit [of k] by (simp add: digit_val_def)
  from 1 show ?case
    by (subst (asm) (2) decimal.simps) (auto simp: small split: if_splits)
qed

lemma octet_decimal: "n \<le> 255 \<Longrightarrow> octet (decimal n) = Some n"
  using decimal_starts [of n] by (auto simp: octet_def digits_value_decimal list_all_iff dest: decimal_digits) (simp add: decimal.simps [of 0] digit_def)

lemma parse_v4_text: "parse_v4 (v4_text a) = Some a"
proof -
  define n where "n = unat a"
  have n: "n < 4294967296" using unsigned_less [of a] by (simp add: n_def)
  then have top: "n div 16777216 \<le> 255" by (simp add: less_mult_imp_div_less less_Suc_eq_le [symmetric])
  have clean: "CHR ''.'' \<notin> set (decimal k)" for k using decimal_digits [of "CHR ''.''" k] by (auto simp: is_digit_def)
  have octets: "map octet (split_byte (CHR ''.'') (v4_text a)) =
      [Some (n div 16777216), Some (n div 65536 mod 256), Some (n div 256 mod 256), Some (n mod 256)]"
    unfolding v4_text_def Let_def n_def [symmetric]
    by (subst split_join_byte) (use clean top in \<open>auto simp: octet_decimal less_Suc_eq_le [symmetric]\<close>)
  have "n div 65536 = n div 16777216 * 256 + n div 65536 mod 256" "n div 256 = n div 65536 * 256 + n div 256 mod 256"
    "n = n div 256 * 256 + n mod 256"
    using div_mult_mod_eq [of "n div 65536" 256] div_mult_mod_eq [of "n div 256" 256] div_mult_mod_eq [of n 256]
    by (simp_all flip: div_mult2_eq)
  then have "((n div 16777216 * 256 + n div 65536 mod 256) * 256 + n div 256 mod 256) * 256 + n mod 256 = n"
    by presburger
  then show ?thesis unfolding parse_v4_def octets by (simp add: n_def)
qed

lemma parse_addr_text_v4: "parse_addr (v4_text a) = Some (V4 a)"
proof -
  have "\<exists>k r. v4_text a = decimal k @ CHR ''.'' # r" unfolding v4_text_def Let_def by auto
  then obtain k r where t: "v4_text a = decimal k @ CHR ''.'' # r" by blast
  have "c \<notin> {CHR ''.'', CHR '':'', CHR ''%''}" if "c \<in> set (decimal k)" for c
    using decimal_digits [OF that] by (auto simp: is_digit_def)
  then have "dropWhile (\<lambda>c. c \<notin> {CHR ''.'', CHR '':'', CHR ''%''}) (v4_text a) = CHR ''.'' # r"
    unfolding t by (subst dropWhile_append2) auto
  then show ?thesis by (simp add: parse_addr_def parse_v4_text)
qed

lemma map_filter_local: "\<forall>x \<in> set xs. f x = g x \<Longrightarrow> List.map_filter f xs = List.map_filter g xs"
  by (induction xs) (simp_all split: option.split)

lemma in_map_filter: "y \<in> set (List.map_filter f xs) \<longleftrightarrow> (\<exists>x \<in> set xs. f x = Some y)"
  by (induction xs) (auto split: option.splits)

text \<open>What is asked of one address, and what is found, depends only on its own ports.\<close>

lemma collect_local:
  assumes "\<forall>p \<in> set (sc_ports sc). N' a p = N a p"
  shows "collect sc N' a = collect sc N a"
proof -
  have answering: "filter (\<lambda>p. N' a p \<noteq> None) (sc_ports sc) = filter (\<lambda>p. N a p \<noteq> None) (sc_ports sc)"
    using assms by (intro filter_cong) auto
  have "map (\<lambda>p. readSSHBanner (the (N' a p))) (filter Q (sort (filter R (sc_ports sc)))) =
      map (\<lambda>p. readSSHBanner (the (N a p))) (filter Q (sort (filter R (sc_ports sc))))" for Q R
    using assms by (intro map_cong) auto
  moreover have "list_ex (\<lambda>p. Q p \<and> rdpNegotiate (the (N' a p))) (sort (filter R (sc_ports sc))) =
      list_ex (\<lambda>p. Q p \<and> rdpNegotiate (the (N a p))) (sort (filter R (sc_ports sc)))" for Q R
    using assms by (auto simp: list_ex_iff)
  ultimately show ?thesis by (simp only: collect_def answering Let_def)
qed

lemma probe_local: "\<forall>p \<in> set (sc_ports sc). N' a p = N a p \<Longrightarrow> probe lc sc N' a = probe lc sc N a"
  using collect_local [of sc N' a N] by (simp add: probe_def)

lemma probe_found:
  assumes "probe lc sc N a = Some h"
  shows "ho_ip h = v4_text a \<and> set (ho_open h) \<subseteq> set (sc_ports sc) \<and> (\<exists>p \<in> set (sc_ports sc). N a p \<noteq> None)"
proof -
  have "sn_open (collect sc N a) \<noteq> []" "h = h\<lparr>ho_ip := v4_text a, ho_open := sn_open (collect sc N a)\<rparr>"
    using assms by (auto simp: probe_def Let_def split: if_splits)
  moreover have "set (sn_open (collect sc N a)) = {p \<in> set (sc_ports sc). N a p \<noteq> None}"
    by (auto simp: collect_def Let_def)
  ultimately show ?thesis by (cases h) (auto simp flip: set_empty)
qed

lemma attachHardware_ip [simp]: "ho_ip (attachHardware table h) = ho_ip h"
  by (simp add: attachHardware_def split: option.split)

definition dressed :: "surroundings \<Rightarrow> host \<Rightarrow> host" where
  "dressed E h = attach_name E (attachHardware (arpTable (su_arp E)) h)"

lemma dressed_comp: "attach_name E \<circ> attachHardware (arpTable (su_arp E)) = dressed E"
  by (simp add: fun_eq_iff dressed_def)

lemma dressed_keeps [simp]: "ho_ip (dressed E h) = ho_ip h" "ho_open (dressed E h) = ho_open h"
  by (simp_all add: dressed_def attach_name_def attachHardware_def split: option.splits)

lemma enrich_local:
  assumes "set (nmap_targets hs) \<subseteq> T \<longrightarrow> set (nmap_ports hs) \<subseteq> R \<longrightarrow>
      run' (nmap_args (nmap_targets hs) (nmap_ports hs)) = run (nmap_args (nmap_targets hs) (nmap_ports hs))"
    and "\<forall>h \<in> set hs. \<exists>a. ho_ip h = v4_text a \<and> v4_text a \<in> T \<and> set (ho_open h) \<subseteq> R"
  shows "enrichWithNmap lc run' hs = enrichWithNmap lc run hs"
proof -
  have "set (nmap_targets hs) \<subseteq> T"
    using assms(2) by (fastforce simp: nmap_targets_def in_map_filter parse_addr_text_v4 ip_text_def)
  moreover have "set (nmap_ports hs) \<subseteq> R" using assms(2) by (fastforce simp: nmap_ports_def)
  ultimately show ?thesis using assms(1) by (simp add: enrichWithNmap_def Let_def)
qed

text \<open>C35. A sweep asks nothing outside the network it was given: its result depends on nothing but what the scanned ports of its
  addresses answer, what the kernel knows, the names of those addresses, and what nmap says when it is started with the fixed flags
  on addresses that answered and on scanned ports; whatever else is out there, the result is the same.\<close>

theorem sweep_asks_only_inside:
  assumes inside: "Expand cidr = Inr as"
    and ports: "\<forall>a \<in> set as. \<forall>p \<in> set (sc_ports sc). su_network E' a p = su_network E a p"
    and names: "\<forall>a \<in> set as. su_names E' (v4_text a) = su_names E (v4_text a)"
    and nmap: "\<forall>ts ps. set ts \<subseteq> v4_text ` {a \<in> set as. \<exists>p \<in> set (sc_ports sc). su_network E a p \<noteq> None} \<longrightarrow>
      set ps \<subseteq> set (sc_ports sc) \<longrightarrow> su_nmap E' (nmap_args ts ps) = su_nmap E (nmap_args ts ps)"
    and same: "su_arp E' = su_arp E" "su_lower E' = su_lower E"
  shows "Sweep E' sc cidr = Sweep E sc cidr"
proof -
  let ?lc = "su_lower E" and ?hit = "{a \<in> set as. \<exists>p \<in> set (sc_ports sc). su_network E a p \<noteq> None}"
  let ?found = "List.map_filter (probe ?lc sc (su_network E)) as"
  have "\<forall>a \<in> set as. probe ?lc sc (su_network E') a = probe ?lc sc (su_network E) a" using ports by (auto intro: probe_local)
  then have probes: "List.map_filter (probe ?lc sc (su_network E')) as = ?found" by (rule map_filter_local)
  have found: "\<exists>a. ho_ip h = v4_text a \<and> a \<in> ?hit \<and> set (ho_open h) \<subseteq> set (sc_ports sc)" if "h \<in> set ?found" for h
    using that by (auto simp: in_map_filter dest!: probe_found)
  have dress: "map (dressed E') ?found = map (dressed E) ?found"
  proof (rule map_cong [OF refl])
    show "dressed E' h = dressed E h" if h: "h \<in> set ?found" for h
    proof -
      obtain a where "ho_ip (attachHardware (arpTable (su_arp E)) h) = v4_text a" "a \<in> set as"
        using found [OF h] by auto
      then show ?thesis using names same by (simp add: dressed_def attach_name_def reverseDNS_def)
    qed
  qed
  have "enrichWithNmap ?lc (su_nmap E') (map (dressed E) ?found) = enrichWithNmap ?lc (su_nmap E) (map (dressed E) ?found)"
    by (rule enrich_local [of _ "v4_text ` ?hit" "set (sc_ports sc)"]) (use nmap found in \<open>fastforce+\<close>)
  then show ?thesis
    unfolding Sweep_def inside sum.case dressed_comp unfolding same probes dress by simp
qed

text \<open>Two neighbourhoods that differ outside the network: one machine more, one more name, and an nmap that would say more.\<close>

definition quiet_street :: surroundings where
  "quiet_street = \<lparr>su_network = (\<lambda>a p. if a = 0x0a000009 \<and> p = 3389 then Some \<lparr>pa_line = [], pa_line_broken = True, pa_takes = True,
       pa_chunks = [([3, 0, 0, 19, 14, 0xd0], False)]\<rparr> else None),
     su_arp = [], su_names = Map.empty, su_nmap = (\<lambda>_. None), su_lower = id\<rparr>"

definition busy_street :: surroundings where
  "busy_street = quiet_street\<lparr>su_network := (\<lambda>a p. if a = 0x0a00000d then Some \<lparr>pa_line = ''SSH-2.0-OpenSSH'', pa_line_broken = False,
       pa_takes = False, pa_chunks = []\<rparr> else su_network quiet_street a p),
     su_names := (\<lambda>t. if t = ''10.0.0.13'' then Some [''nas.''] else None),
     su_nmap := (\<lambda>args. if List.last args = ''10.0.0.13'' then Some [] else None)\<rparr>"

theorem sweep_asks_only_inside_witness:
  "Sweep busy_street default_scanner ''10.0.0.9/30'' = Sweep quiet_street default_scanner ''10.0.0.9/30''"
proof (rule sweep_asks_only_inside [OF expand_sample])
  have shown: "v4_text 0x0a000009 = ''10.0.0.9''" "v4_text 0x0a00000a = ''10.0.0.10''" by code_simp+
  show "\<forall>a \<in> set [0x0a000009, 0x0a00000a]. su_names busy_street (v4_text a) = su_names quiet_street (v4_text a)"
    by (simp add: shown busy_street_def quiet_street_def)
  have "List.last (nmap_args ts ps) \<noteq> ''10.0.0.13''" if "set ts \<subseteq> {''10.0.0.9'', ''10.0.0.10''}" for ts ps
  proof (cases "ts = []")
    case False
    then have "List.last ts \<in> {''10.0.0.9'', ''10.0.0.10''}" using that last_in_set by blast
    with False show ?thesis by (auto simp: nmap_args_def)
  qed (simp add: nmap_args_def)
  then show "\<forall>ts ps. set ts \<subseteq> v4_text ` {a \<in> set [0x0a000009, 0x0a00000a]. \<exists>p \<in> set (sc_ports default_scanner). su_network quiet_street a p \<noteq> None} \<longrightarrow>
      set ps \<subseteq> set (sc_ports default_scanner) \<longrightarrow> su_nmap busy_street (nmap_args ts ps) = su_nmap quiet_street (nmap_args ts ps)"
    by (simp add: busy_street_def quiet_street_def) (use shown in \<open>auto split: if_splits\<close>)
qed (simp_all add: busy_street_def quiet_street_def)

section \<open>What the code does and does not say\<close>

text \<open>Examining a single address knows no limits: a public address is probed as well.\<close>

lemma single_address_anywhere:
  "\<not> isPrivate 0x08080808 \<and>
    map_sum id ho_open (Probe_host (quiet_street\<lparr>su_network := (\<lambda>a p. if a = 0x08080808 \<and> p = 443
      then Some \<lparr>pa_line = [], pa_line_broken = True, pa_takes = False, pa_chunks = []\<rparr> else None)\<rparr>) default_scanner ''8.8.8.8'') = Inr [443]"
  by code_simp

text \<open>A Raspberry Pi that runs xrdp is taken for Windows, of the distribution Raspberry Pi OS.\<close>

lemma pi_taken_for_windows:
  "let g = Identify id \<lparr>sn_open = [22, 3389], sn_banner = ''SSH-2.0-OpenSSH_8.4p1 Raspbian-5'', sn_rdp = True\<rparr> in
    gs_os g = OSWindows \<and> gs_distro g = ''Raspberry Pi OS'' \<and> gs_confidence g = High"
  by code_simp

end
