(* ===== verification/Duo.thy ===== *)
theory Duo
  imports Json_Read Go_Url Decimal Net_Text "HOL-Library.List_Lexorder" "HOL-Library.Char_ord" "HOL-Library.AList"
begin

text \<open>
  \<open>internal/mfa/duo\<close>: asking for an approval on a telephone.  Requests are signed the way the service wants it; a push is
  sent and its outcome polled for.  HMAC-SHA1, the clock, the far end and the moments at which the caller's deadline has
  passed are inputs; the log line of a declined push is left out.
\<close>

datatype duo_error = ErrNotConfigured | ErrDenied | BuildRequest | CallFailed | ReadFailed | UnreadableBody nat
  | DuoError int string string | UnreadableAuth | NotStarted string | UnreadableStatus | UnexpectedResult string | ContextDone

record duo_client =
  du_host :: string
  du_ikey :: string
  du_skey :: string

definition NewClient :: "string \<Rightarrow> string \<Rightarrow> string \<Rightarrow> duo_client option" where
  "NewClient host ikey skey =
     (if host = [] \<or> ikey = [] \<or> skey = [] then None
      else Some \<lparr>du_host = trim_prefix (trim_prefix host ''https://'') ''http://'', du_ikey = ikey, du_skey = skey\<rparr>)"

section \<open>Parameters\<close>

type_synonym url_values = "(string \<times> string list) list"

definition set_value :: "string \<Rightarrow> string \<Rightarrow> url_values \<Rightarrow> url_values" where
  "set_value k v ps = AList.update k [v] ps"

text \<open>\<open>url.QueryEscape\<close>.\<close>

definition query_plain :: "char \<Rightarrow> bool" where
  "query_plain c \<longleftrightarrow> (let n = byte_val c in (48 \<le> n \<and> n \<le> 57) \<or> (65 \<le> n \<and> n \<le> 90) \<or> (97 \<le> n \<and> n \<le> 122)) \<or> c \<in> set ''-_.~''"

definition percent :: "char \<Rightarrow> string" where
  "percent c = CHR ''%'' # map (\<lambda>d. char_of (ascii_upper (of_char d))) (hex_encode [byte_of c])"

definition QueryEscape :: "string \<Rightarrow> string" where
  "QueryEscape s = concat (map (\<lambda>c. if query_plain c then [c] else if c = CHR '' '' then ''+'' else percent c) s)"

definition escape :: "string \<Rightarrow> string" where
  "escape s = concat (map (\<lambda>c. if c = CHR ''+'' then ''%20'' else [c]) (QueryEscape s))"

definition encodeParams :: "url_values \<Rightarrow> string" where
  "encodeParams ps =
     (if ps = [] then []
      else join_byte (CHR ''&'') (concat (map (\<lambda>k. map (\<lambda>v. escape k @ CHR ''='' # escape v) (the (map_of ps k))) (sort (map fst ps)))))"

section \<open>Signing\<close>

text \<open>\<open>basicAuth\<close>: three bytes at a time through a 32-bit number.\<close>

definition sextet :: "32 word \<Rightarrow> nat \<Rightarrow> char" where
  "sextet n shift = b64_std ! unat (and (drop_bit shift n) 0x3F)"

fun b64_groups :: "bytes \<Rightarrow> string" where
  "b64_groups [] = []"
| "b64_groups [a] =
     (let n = push_bit 16 (ucast a) in [sextet n 18, sextet n 12, CHR ''='', CHR ''=''])"
| "b64_groups [a, b] =
     (let n = or (push_bit 16 (ucast a)) (push_bit 8 (ucast b)) in [sextet n 18, sextet n 12, sextet n 6, CHR ''=''])"
| "b64_groups (a # b # c # rest) =
     (let n = or (or (push_bit 16 (ucast a)) (push_bit 8 (ucast b))) (ucast c) in
      [sextet n 18, sextet n 12, sextet n 6, sextet n 0] @ b64_groups rest)"

definition basicAuth :: "string \<Rightarrow> string \<Rightarrow> string" where
  "basicAuth user pass = ''Basic '' @ b64_groups (map byte_of (user @ CHR '':'' # pass))"

definition weekdays :: "string list" where
  "weekdays = [''Sun'', ''Mon'', ''Tue'', ''Wed'', ''Thu'', ''Fri'', ''Sat'']"

definition months :: "string list" where
  "months = [''Jan'', ''Feb'', ''Mar'', ''Apr'', ''May'', ''Jun'', ''Jul'', ''Aug'', ''Sep'', ''Oct'', ''Nov'', ''Dec'']"

definition rfc1123z :: "int \<Rightarrow> string" where
  "rfc1123z t =
     (case civil (t div 86400) of (y, m, d) \<Rightarrow>
       let s = t mod 86400 in
       weekdays ! nat ((t div 86400 + 4) mod 7) @ '', '' @ padded 2 d @ '' '' @ months ! nat (m - 1) @ '' '' @ padded 4 y @ '' '' @
       padded 2 (s div 3600) @ '':'' @ padded 2 (s div 60 mod 60) @ '':'' @ padded 2 (s mod 60) @ '' +0000'')"

text \<open>What happens outside while a push is out: \<open>n\<close> counts the requests.\<close>

record duo_request =
  dq_method :: string
  dq_url :: string
  dq_body :: string
  dq_auth :: string
  dq_date :: string

record duo_world =
  dw_hmac :: "bytes \<Rightarrow> bytes \<Rightarrow> bytes"
  dw_lower :: "rune \<Rightarrow> rune"
  dw_clock :: "nat \<Rightarrow> int"
  dw_answer :: "nat \<Rightarrow> duo_request \<Rightarrow> (nat \<times> string \<times> bool) option"
  dw_late_before :: "nat \<Rightarrow> bool"
  dw_late_after :: "nat \<Rightarrow> bool"
  dw_late_pausing :: "nat \<Rightarrow> bool"

definition host_lower :: "(rune \<Rightarrow> rune) \<Rightarrow> string \<Rightarrow> string" where
  "host_lower lc s = string_of_runes (map (\<lambda>r. if r < 128 then ascii_lower r else lc r) (runes s))"

definition canonical :: "duo_world \<Rightarrow> duo_client \<Rightarrow> string \<Rightarrow> string \<Rightarrow> string \<Rightarrow> url_values \<Rightarrow> string" where
  "canonical W c date meth path ps =
     join_byte (CHR 0x0A) [date, map (\<lambda>x. char_of (ascii_upper (of_char x))) meth, host_lower (dw_lower W) (du_host c), path, encodeParams ps]"

definition signature :: "duo_world \<Rightarrow> duo_client \<Rightarrow> string \<Rightarrow> string" where
  "signature W c canon = hex_encode (dw_hmac W (map byte_of (du_skey c)) (map byte_of canon))"

definition sign_request :: "duo_world \<Rightarrow> duo_client \<Rightarrow> string \<Rightarrow> string \<Rightarrow> url_values \<Rightarrow> int \<Rightarrow> string \<times> string" where
  "sign_request W c meth path ps now =
     (let date = rfc1123z now in (basicAuth (du_ikey c) (signature W c (canonical W c date meth path ps)), date))"

section \<open>Requests\<close>

definition make_request :: "duo_world \<Rightarrow> duo_client \<Rightarrow> nat \<Rightarrow> string \<Rightarrow> string \<Rightarrow> url_values \<Rightarrow> duo_request" where
  "make_request W c n meth path ps =
     (case sign_request W c meth path ps (dw_clock W n) of (auth, date) \<Rightarrow>
       let endpoint = ''https://'' @ du_host c @ path in
       \<lparr>dq_method = meth,
        dq_url = (if meth = ''GET'' \<and> ps \<noteq> [] then endpoint @ CHR ''?'' # encodeParams ps else endpoint),
        dq_body = (if meth = ''GET'' then [] else encodeParams ps), dq_auth = auth, dq_date = date\<rparr>)"

definition reply_shape :: shape where
  "reply_shape = SStruct [(''stat'', SString), (''code'', SInt), (''message'', SString), (''message_detail'', SString)]"

text \<open>The part of the reply kept as it is; a key given twice keeps the later value.\<close>

definition raw_response :: "string \<Rightarrow> json option" where
  "raw_response body =
     (case json_first body of
        Some (JObj ms, _) \<Rightarrow> foldl (\<lambda>acc (k, v). if equal_fold k ''response'' then Some v else acc) None ms
      | _ \<Rightarrow> None)"

definition max_reply :: nat where
  "max_reply = 2 ^ 20"

definition read_reply :: "nat \<Rightarrow> string \<Rightarrow> duo_error + json option" where
  "read_reply status body =
     (case unmarshal reply_shape body of
        None \<Rightarrow> Inl (UnreadableBody status)
      | Some out \<Rightarrow>
          if str_field ''stat'' out \<noteq> ''OK''
          then Inl (DuoError (int_field ''code'' out) (str_field ''message'' out) (str_field ''message_detail'' out))
          else Inr (raw_response body))"

definition call :: "duo_world \<Rightarrow> duo_client \<Rightarrow> nat \<Rightarrow> string \<Rightarrow> string \<Rightarrow> url_values \<Rightarrow> duo_error + json option" where
  "call W c n meth path ps =
     (let q = make_request W c n meth path ps in
      if url_Parse (dq_url q) = None then Inl BuildRequest
      else case dw_answer W n q of
        None \<Rightarrow> Inl CallFailed
      | Some (status, body, broken) \<Rightarrow>
          if broken then Inl ReadFailed else read_reply status (take max_reply body))"

text \<open>\<open>json.Unmarshal\<close> of the part that was kept.\<close>

definition unmarshal_raw :: "shape \<Rightarrow> json option \<Rightarrow> goval option" where
  "unmarshal_raw sh raw = (case raw of None \<Rightarrow> None | Some v \<Rightarrow> fill False sh (zero_value sh) v)"

definition Check_duo :: "duo_world \<Rightarrow> duo_client option \<Rightarrow> duo_error option" where
  "Check_duo W c =
     (case c of None \<Rightarrow> Some ErrNotConfigured
      | Some c \<Rightarrow> (case call W c 0 ''GET'' ''/auth/v2/check'' [] of Inl e \<Rightarrow> Some e | Inr _ \<Rightarrow> None))"

section \<open>Approving\<close>

definition poll_shape :: shape where
  "poll_shape = SStruct [(''result'', SString), (''status'', SString), (''status_msg'', SString)]"

partial_function (option) wait :: "duo_world \<Rightarrow> duo_client \<Rightarrow> string \<Rightarrow> nat \<Rightarrow> (duo_error + bool) option" where
  "wait W c txid n =
     (if dw_late_before W n then Some (Inl ContextDone)
      else case call W c n ''GET'' ''/auth/v2/auth_status'' [(''txid'', [txid])] of
        Inl e \<Rightarrow> Some (Inl (if dw_late_after W n then ContextDone else e))
      | Inr raw \<Rightarrow>
          (case unmarshal_raw poll_shape raw of
             None \<Rightarrow> Some (Inl UnreadableStatus)
           | Some st \<Rightarrow>
               if str_field ''result'' st = ''allow'' then Some (Inr True)
               else if str_field ''result'' st = ''deny'' then Some (Inl ErrDenied)
               else if str_field ''result'' st = ''waiting'' \<or> str_field ''result'' st = []
                 then (if dw_late_pausing W n then Some (Inl ContextDone) else wait W c txid (Suc n))
               else Some (Inl (UnexpectedResult (str_field ''result'' st)))))"

definition orDash :: "string \<Rightarrow> string" where
  "orDash s = (if s = [] then ''-'' else s)"

definition push_params :: "string \<Rightarrow> string \<Rightarrow> string \<Rightarrow> url_values" where
  "push_params username srcIP target =
     (let ps = fold (\<lambda>(k, v). set_value k v) [(''username'', username), (''factor'', ''push''), (''device'', ''auto''), (''async'', ''1''),
         (''type'', ''Remote Desktop'')] [] in
      if srcIP \<noteq> []
      then set_value ''ipaddr'' srcIP (set_value ''pushinfo'' (''from='' @ QueryEscape srcIP @ ''&to='' @ QueryEscape (orDash target)) ps)
      else ps)"

definition auth_shape :: shape where
  "auth_shape = SStruct [(''txid'', SString), (''result'', SString), (''status_msg'', SString)]"

definition Approve :: "duo_world \<Rightarrow> duo_client option \<Rightarrow> string \<Rightarrow> string \<Rightarrow> string \<Rightarrow> (duo_error + bool) option" where
  "Approve W client username srcIP target =
     (case client of None \<Rightarrow> Some (Inl ErrNotConfigured)
      | Some c \<Rightarrow>
          (case call W c 0 ''POST'' ''/auth/v2/auth'' (push_params username srcIP target) of
             Inl e \<Rightarrow> Some (Inl e)
           | Inr raw \<Rightarrow>
               (case unmarshal_raw auth_shape raw of
                  None \<Rightarrow> Some (Inl UnreadableAuth)
                | Some started \<Rightarrow>
                    if str_field ''txid'' started = []
                    then Some (if str_field ''result'' started = ''allow'' then Inr True
                               else if str_field ''result'' started = ''deny'' then Inl ErrDenied
                               else Inl (NotStarted (str_field ''status_msg'' started)))
                    else wait W c (str_field ''txid'' started) 1)))"

end
