(* ===== verification/Duo_Guarantees.thy ===== *)
theory Duo_Guarantees
  imports Duo Gateway
begin

text \<open>
  What an approval over Duo rests on, what is signed and what is sent, and when the wait ends.
\<close>

section \<open>Parameters on the wire\<close>

text \<open>\<open>url.ParseQuery\<close> as the far end reads them, for texts without a semicolon.\<close>

fun query_unescape :: "string \<Rightarrow> string option" where
  "query_unescape [] = Some []"
| "query_unescape (c # s) =
     (if c = CHR ''%'' then
        (case s of a # b # r \<Rightarrow>
           (case (hex_val a, hex_val b) of
              (Some x, Some y) \<Rightarrow> map_option (\<lambda>t. char_of (x * 16 + y) # t) (query_unescape r)
            | _ \<Rightarrow> None)
         | _ \<Rightarrow> None)
      else map_option (\<lambda>t. (if c = CHR ''+'' then CHR '' '' else c) # t) (query_unescape s))"

definition query_pair :: "string \<Rightarrow> (string \<times> string) option" where
  "query_pair p =
     (let k = takeWhile (\<lambda>c. c \<noteq> CHR ''='') p; v = drop (Suc (length k)) p in
      case (query_unescape k, query_unescape v) of (Some k', Some v') \<Rightarrow> Some (k', v') | _ \<Rightarrow> None)"

definition parse_query :: "string \<Rightarrow> (string \<times> string) option list" where
  "parse_query s = (if s = [] then [] else map query_pair (split_byte (CHR ''&'') s))"

definition upper_hex :: "nat \<Rightarrow> char" where
  "upper_hex n = char_of (ascii_upper (of_char (hex_digits ! n)))"

lemma upper_hex_table:
  "\<forall>n \<in> set [0..<16]. hex_val (upper_hex n) = Some n \<and> upper_hex n \<notin> set ''&=+% ''"
  by code_simp

lemma upper_hex_facts: "n < 16 \<Longrightarrow> hex_val (upper_hex n) = Some n \<and> upper_hex n \<notin> set ''&=+% ''"
  using upper_hex_table by auto

lemma percent_parts: "percent c = [CHR ''%'', upper_hex (unat (byte_of c) div 16), upper_hex (unat (byte_of c) mod 16)]"
  by (simp add: percent_def hex_encode_def upper_hex_def)

lemma nibbles: "unat (byte_of c) div 16 < 16" "unat (byte_of c) mod 16 < 16"
  using unat_lt_256 [of "byte_of c"] by auto

lemma percent_clean: "d \<in> set (percent c) \<Longrightarrow> d \<notin> set ''&=+''"
  using upper_hex_facts [OF nibbles(1), of c] upper_hex_facts [OF nibbles(2), of c] by (auto simp: percent_parts)

lemma escape_Nil [simp]: "escape [] = []"
  by (simp add: escape_def QueryEscape_def)

lemma escape_Cons:
  "escape (c # s) = (if query_plain c then [c] else if c = CHR '' '' then ''%20'' else percent c) @ escape s"
proof -
  have same: "concat (map (\<lambda>c. if c = CHR ''+'' then ''%20'' else [c]) t) = t" if "CHR ''+'' \<notin> set t" for t
    using that by (induction t) auto
  have "CHR ''+'' \<notin> set (percent c)" using percent_clean [of "CHR ''+''" c] by auto
  from same [OF this] have "concat (map (\<lambda>c. if c = CHR ''+'' then ''%20'' else [c]) (percent c)) = percent c" .
  moreover have "\<not> query_plain (CHR ''+'')" by (simp add: query_plain_def)
  ultimately show ?thesis by (auto simp: escape_def QueryEscape_def)
qed

lemma plain_clean: "query_plain c \<Longrightarrow> c \<notin> set ''&=+%''"
  by (auto simp: query_plain_def)

lemma escape_clean: "d \<in> set (escape s) \<Longrightarrow> d \<notin> set ''&=+''"
proof (induction s)
  case (Cons c s)
  then show ?case using plain_clean [of c] percent_clean [of d c] by (auto simp: escape_Cons split: if_splits)
qed simp

lemma unescape_escape: "query_unescape (escape s) = Some s"
proof (induction s)
  case (Cons c s)
  have "unat (byte_of c) div 16 * 16 + unat (byte_of c) mod 16 = unat (byte_of c)" by simp
  then have "query_unescape (percent c @ escape s) = Some (c # s)"
    using upper_hex_facts [OF nibbles(1), of c] upper_hex_facts [OF nibbles(2), of c] Cons by (simp add: percent_parts)
  moreover have "hex_val CHR ''2'' = Some 2 \<and> hex_val CHR ''0'' = Some 0 \<and> char_of (32 :: nat) = CHR '' ''" by code_simp
  then have "query_unescape (''%20'' @ escape s) = Some (CHR '' '' # s)" using Cons by simp
  ultimately show ?case using plain_clean [of c] Cons by (auto simp: escape_Cons)
qed simp

text \<open>The parameters that are sent, in the order of their keys.\<close>

definition in_order :: "url_values \<Rightarrow> (string \<times> string) list" where
  "in_order ps = concat (map (\<lambda>k. map (\<lambda>v. (k, v)) (the (map_of ps k))) (sort (map fst ps)))"

lemma pair_read: "query_pair (escape k @ CHR ''='' # escape v) = Some (k, v)"
proof -
  have "takeWhile (\<lambda>c. c \<noteq> CHR ''='') (escape k @ CHR ''='' # escape v) = escape k"
    using escape_clean [of "CHR ''=''" k] by (subst takeWhile_append2) auto
  then show ?thesis by (simp add: query_pair_def unescape_escape)
qed

lemma params_read: "parse_query (encodeParams ps) = map Some (in_order ps)"
proof -
  have enc: "encodeParams ps = join_byte (CHR ''&'') (map (\<lambda>(k, v). escape k @ CHR ''='' # escape v) (in_order ps))"
    by (simp add: encodeParams_def in_order_def map_concat comp_def)
  show ?thesis
  proof (cases "in_order ps")
    case (Cons kv rest)
    let ?parts = "map (\<lambda>(k, v). escape k @ CHR ''='' # escape v) (in_order ps)"
    have "\<forall>p \<in> set ?parts. CHR ''&'' \<notin> set p" using escape_clean [of "CHR ''&''"] by auto
    then have "split_byte (CHR ''&'') (encodeParams ps) = ?parts" unfolding enc using Cons by (intro split_join_byte) auto
    moreover have "encodeParams ps \<noteq> []" unfolding enc using Cons by (cases rest) (auto split: prod.splits)
    ultimately show ?thesis by (auto simp: parse_query_def pair_read)
  qed (simp add: enc parse_query_def)
qed


section \<open>What is signed is what is sent\<close>

text \<open>The hand-written encoder is the standard one, with padding.\<close>

definition pad_text :: "bytes \<Rightarrow> string" where
  "pad_text bs = replicate ((3 - length bs mod 3) mod 3) (CHR ''='')"

lemma ucast_byte: "unat (ucast (a :: byte) :: 32 word) = unat a"
  using unat_lt_256 [of a] by (simp add: unsigned_ucast_eq take_bit_nat_eq_self)

lemma or_shift: "y < 2 ^ k \<Longrightarrow> or (push_bit k x) y = x * 2 ^ k + (y :: nat)"
proof -
  assume "y < 2 ^ k"
  then have "take_bit k y = y" by (rule take_bit_nat_eq_self)
  then have low: "bit y n \<Longrightarrow> n < k" for n by (metis bit_take_bit_iff)
  have "push_bit k x + y = or (push_bit k x) y"
  proof (rule disjunctive_add)
    show "\<not> bit (push_bit k x) n \<or> \<not> bit y n" for n using low [of n] by (auto simp: bit_simps)
  qed
  then show ?thesis by (simp add: push_bit_eq_mult)
qed

lemma unat_shifted: "unat (a :: byte) * 2 ^ k < 2 ^ 32 \<Longrightarrow> unat (push_bit k (ucast a) :: 32 word) = push_bit k (unat a)"
  by (simp only: unsigned_push_bit_eq ucast_byte) (simp add: take_bit_nat_eq_self push_bit_eq_mult)

lemma groups_value:
  fixes a b c :: byte
  shows "unat (push_bit 16 (ucast a) :: 32 word) = unat a * 65536"
    "unat (or (push_bit 16 (ucast a)) (push_bit 8 (ucast b)) :: 32 word) = (unat a * 256 + unat b) * 256"
    "unat (or (or (push_bit 16 (ucast a)) (push_bit 8 (ucast b))) (ucast c) :: 32 word) = (unat a * 256 + unat b) * 256 + unat c"
proof -
  have small: "unat a < 256" "unat b < 256" "unat c < 256" by (simp_all add: unat_lt_256)
  have p: "unat (push_bit 16 (ucast a) :: 32 word) = push_bit 16 (unat a)" "unat (push_bit 8 (ucast b) :: 32 word) = push_bit 8 (unat b)"
    by (rule unat_shifted; use small in simp)+
  then show "unat (push_bit 16 (ucast a) :: 32 word) = unat a * 65536" by (simp add: push_bit_eq_mult)
  have "or (push_bit 16 (unat a)) (push_bit 8 (unat b)) = push_bit 8 (or (push_bit 8 (unat a)) (unat b))" by simp
  also have "\<dots> = push_bit 8 (unat a * 256 + unat b)" using or_shift [of "unat b" 8 "unat a"] small by simp
  finally have two: "unat (or (push_bit 16 (ucast a)) (push_bit 8 (ucast b)) :: 32 word) = push_bit 8 (unat a * 256 + unat b)"
    by (simp add: unsigned_or_eq p)
  then show "unat (or (push_bit 16 (ucast a)) (push_bit 8 (ucast b)) :: 32 word) = (unat a * 256 + unat b) * 256"
    by (simp add: push_bit_eq_mult)
  show "unat (or (or (push_bit 16 (ucast a)) (push_bit 8 (ucast b))) (ucast c) :: 32 word) = (unat a * 256 + unat b) * 256 + unat c"
    unfolding unsigned_or_eq [of "or _ _"] two ucast_byte using or_shift [of "unat c" 8 "unat a * 256 + unat b"] small by simp
qed

lemma sextet_value: "sextet n k = b64_std ! (unat n div 2 ^ k mod 64)"
proof -
  have "(0x3F :: 32 word) = mask 6" by (simp add: mask_eq_exp_minus_1)
  then have m: "and (drop_bit k n) 0x3F = take_bit 6 (drop_bit k n)" by (simp add: take_bit_eq_mask)
  have "unat n < 2 ^ 32" using unsigned_less [of n] by simp
  then show ?thesis
    unfolding sextet_def m unfolding unsigned_take_bit_eq unsigned_drop_bit_eq unfolding drop_bit_eq_div take_bit_eq_mod by simp
qed

lemma group_digits:
  fixes a b c :: nat
  assumes "a < 256" "b < 256" "c < 256"
  shows "((a * 256 + b) * 256 + c) div 2 ^ 18 mod 64 = a div 4"
    "((a * 256 + b) * 256 + c) div 2 ^ 12 mod 64 = a mod 4 * 16 + b div 16"
    "((a * 256 + b) * 256 + c) div 2 ^ 6 mod 64 = b mod 16 * 4 + c div 64"
    "((a * 256 + b) * 256 + c) div 2 ^ 0 mod 64 = c mod 64"
proof -
  have high: "((a * 256 + b) * 256 + c) div 256 = a * 256 + b" "(a * 256 + b) div 256 = a" using assms by simp_all
  have "((a * 256 + b) * 256 + c) div 2 ^ 18 = ((a * 256 + b) * 256 + c) div 256 div 256 div 4" by (simp flip: div_mult2_eq)
  then show "((a * 256 + b) * 256 + c) div 2 ^ 18 mod 64 = a div 4" using assms unfolding high by simp
  have "((a * 256 + b) * 256 + c) div 2 ^ 12 = ((a * 256 + b) * 256 + c) div 256 div 16" by (simp flip: div_mult2_eq)
  also have "\<dots> = a * 16 + b div 16" unfolding high by (simp add: div_add1_eq [of "a * 256"] algebra_simps) 
  finally have e: "((a * 256 + b) * 256 + c) div 2 ^ 12 = a * 16 + b div 16" .
  have "x < 16 \<Longrightarrow> (a * 16 + x) mod 64 = a mod 4 * 16 + x" for x
    using mod_mult2_eq [of "a * 16 + x" 16 4] by simp
  then show "((a * 256 + b) * 256 + c) div 2 ^ 12 mod 64 = a mod 4 * 16 + b div 16" unfolding e using assms(2) by simp
  have e: "((a * 256 + b) * 256 + c) div 2 ^ 6 = a * 1024 + b * 4 + c div 64"
    using div_mult_self3 [of 64 "a * 1024 + b * 4" c] by (simp add: algebra_simps)
  have "(a * 1024 + b * 4 + x) mod 64 = (b * 4 + x) mod 64" for x
    using mod_mult_self3 [of "a * 16" 64 "b * 4 + x"] by (simp add: algebra_simps)
  then have "x < 4 \<Longrightarrow> (a * 1024 + b * 4 + x) mod 64 = b mod 16 * 4 + x" for x
    using mod_mult2_eq [of "b * 4 + x" 4 16] by simp
  then show "((a * 256 + b) * 256 + c) div 2 ^ 6 mod 64 = b mod 16 * 4 + c div 64" unfolding e using assms(3) by simp
  show "((a * 256 + b) * 256 + c) div 2 ^ 0 mod 64 = c mod 64"
    using mod_mult_self3 [of "a * 1024 + b * 4" 64 c] by (simp add: algebra_simps)
qed

lemma two_signs: "replicate 2 c = [c, c]"
  by (simp add: numeral_2_eq_2)

lemma b64_groups_standard: "b64_groups bs = b64_encode b64_std bs @ pad_text bs"
proof (induction bs rule: b64_groups.induct)
  case (2 a)
  show ?case using group_digits [of "unat a" 0 0] unat_lt_256 [of a]
    by (simp add: sextet_value groups_value b64_encode_def pad_text_def Let_def two_signs)
next
  case (3 a b)
  show ?case using group_digits [of "unat a" "unat b" 0] unat_lt_256 [of a] unat_lt_256 [of b]
    by (simp add: sextet_value groups_value b64_encode_def pad_text_def Let_def)
next
  case (4 a b c rest)
  have "pad_text (a # b # c # rest) = pad_text rest" by (simp add: pad_text_def)
  with 4 show ?case
    unfolding b64_groups.simps Let_def sextet_value groups_value group_digits [OF unat_lt_256 unat_lt_256 unat_lt_256]
    by (simp add: b64_encode_def)
qed (simp add: b64_encode_def pad_text_def)

text \<open>The parameters of a request as they go out: behind the question mark, or as the body.\<close>

definition sent_params :: "duo_client \<Rightarrow> string \<Rightarrow> duo_request \<Rightarrow> string" where
  "sent_params c path q =
     (if dq_method q = ''GET'' then drop (Suc (length (''https://'' @ du_host c @ path))) (dq_url q) else dq_body q)"

text \<open>C33. What is signed is what is sent: the header of a request is the standard Base64 text of the integration key and the
  HMAC, under the secret key, of exactly the date header, the method, the host, the path and the parameter text of that same
  request, and the far end reads every parameter back from that text, in the order of the keys.\<close>

theorem signed_is_sent:
  "let q = make_request W c n meth path ps;
       canon = join_byte (CHR 0x0A) [dq_date q, map (\<lambda>x. char_of (ascii_upper (of_char x))) (dq_method q),
         host_lower (dw_lower W) (du_host c), path, sent_params c path q];
       login = map byte_of (du_ikey c @ CHR '':'' # hex_encode (dw_hmac W (map byte_of (du_skey c)) (map byte_of canon))) in
    dq_auth q = ''Basic '' @ b64_encode b64_std login @ pad_text login \<and> dq_date q = rfc1123z (dw_clock W n) \<and>
    has_prefix (dq_url q) (''https://'' @ du_host c @ path) \<and> parse_query (sent_params c path q) = map Some (in_order ps)"
proof -
  have "sent_params c path (make_request W c n meth path ps) = encodeParams ps"
    by (simp add: sent_params_def make_request_def sign_request_def Let_def encodeParams_def)
  then show ?thesis
    by (simp add: make_request_def sign_request_def signature_def canonical_def basicAuth_def b64_groups_standard params_read has_prefix_def Let_def)
qed

section \<open>What an approval rests on\<close>

text \<open>What the far end said to the request with this number, when it said that all is well.\<close>

definition said :: "duo_world \<Rightarrow> duo_client \<Rightarrow> nat \<Rightarrow> string \<Rightarrow> string \<Rightarrow> url_values \<Rightarrow> shape \<Rightarrow> goval option" where
  "said W c n meth path ps sh =
     (case dw_answer W n (make_request W c n meth path ps) of
        Some (status, body, False) \<Rightarrow>
          (case unmarshal reply_shape (take max_reply body) of
             Some out \<Rightarrow> if str_field ''stat'' out = ''OK'' then unmarshal_raw sh (raw_response (take max_reply body)) else None
           | None \<Rightarrow> None)
      | _ \<Rightarrow> None)"

lemma call_said:
  assumes "call W c n meth path ps = Inr raw" and "unmarshal_raw sh raw = Some g"
  shows "said W c n meth path ps sh = Some g"
  using assms by (auto simp: call_def said_def read_reply_def Let_def split: option.splits prod.splits if_splits)

abbreviation polled :: "duo_world \<Rightarrow> duo_client \<Rightarrow> string \<Rightarrow> nat \<Rightarrow> goval option" where
  "polled W c txid n \<equiv> said W c n ''GET'' ''/auth/v2/auth_status'' [(''txid'', [txid])] poll_shape"

definition still_waiting :: "goval option \<Rightarrow> bool" where
  "still_waiting r \<longleftrightarrow> (case r of Some st \<Rightarrow> str_field ''result'' st \<in> {''waiting'', []} | None \<Rightarrow> False)"

definition answers :: "string \<Rightarrow> goval option \<Rightarrow> bool" where
  "answers word r \<longleftrightarrow> (case r of Some st \<Rightarrow> str_field ''result'' st = word | None \<Rightarrow> False)"

definition polled_until_allowed :: "duo_world \<Rightarrow> duo_client \<Rightarrow> string \<Rightarrow> nat \<Rightarrow> bool" where
  "polled_until_allowed W c txid m \<longleftrightarrow>
     (\<exists>n \<ge> m. answers ''allow'' (polled W c txid n) \<and> (\<forall>k \<in> {m..<n}. still_waiting (polled W c txid k)) \<and>
       (\<forall>k \<in> {m..n}. \<not> dw_late_before W k))"

lemma wait_answer:
  "wait W c txid m = Some r \<Longrightarrow> r = Inr b \<longrightarrow> b \<and> polled_until_allowed W c txid m"
proof (induction W c txid m r rule: wait.raw_induct [rotated, consumes 1])
  case (1 rec W c txid m r)
  show ?case
  proof
    assume r: "r = Inr b"
    let ?call = "call W c m ''GET'' ''/auth/v2/auth_status'' [(''txid'', [txid])]"
    from "1"(2) r obtain raw st where step: "\<not> dw_late_before W m" "?call = Inr raw" "unmarshal_raw poll_shape raw = Some st"
      by (auto split: if_splits sum.splits option.splits)
    from call_said [OF step(2,3)] have here: "polled W c txid m = Some st" .
    show "b \<and> polled_until_allowed W c txid m"
    proof (cases "str_field ''result'' st = ''allow''")
      case True
      with "1"(2) r step have b by simp
      with True here step(1) show ?thesis by (auto simp: polled_until_allowed_def answers_def intro!: exI [of _ m])
    next
      case False
      with "1"(2) r step have w: "str_field ''result'' st \<in> {''waiting'', []}" "rec W c txid (Suc m) = Some r"
        by (auto split: if_splits)
      from "1"(1) [OF w(2)] r obtain n where n: "b" "Suc m \<le> n" "answers ''allow'' (polled W c txid n)"
        "\<forall>k \<in> {Suc m..<n}. still_waiting (polled W c txid k)" "\<forall>k \<in> {Suc m..n}. \<not> dw_late_before W k"
        by (auto simp: polled_until_allowed_def)
      have "still_waiting (polled W c txid m)" using here w(1) by (simp add: still_waiting_def)
      with n step(1) have "(\<forall>k \<in> {m..<n}. still_waiting (polled W c txid k)) \<and> (\<forall>k \<in> {m..n}. \<not> dw_late_before W k)"
        by (metis Suc_leI atLeastAtMost_iff atLeastLessThan_iff le_neq_implies_less)
      with n show ?thesis unfolding polled_until_allowed_def by (intro conjI exI [of _ n]) auto
    qed
  qed
qed

definition push_answered :: "duo_world \<Rightarrow> duo_client \<Rightarrow> string \<Rightarrow> string \<Rightarrow> string \<Rightarrow> bool" where
  "push_answered W c username srcIP target \<longleftrightarrow>
     (\<exists>st. said W c 0 ''POST'' ''/auth/v2/auth'' (push_params username srcIP target) auth_shape = Some st \<and>
       (if str_field ''txid'' st = [] then str_field ''result'' st = ''allow''
        else polled_until_allowed W c (str_field ''txid'' st) 1))"

lemma approve_answered:
  assumes "Approve W client username srcIP target = Some (Inr b)"
  shows "b \<and> (\<exists>c. client = Some c \<and> push_answered W c username srcIP target)"
proof -
  obtain c where c: "client = Some c" using assms by (cases client) (auto simp: Approve_def)
  let ?call = "call W c 0 ''POST'' ''/auth/v2/auth'' (push_params username srcIP target)"
  obtain raw st where raw: "?call = Inr raw" "unmarshal_raw auth_shape raw = Some st"
    using assms c by (auto simp: Approve_def split: sum.splits option.splits)
  note st = call_said [OF raw]
  show ?thesis
  proof (cases "str_field ''txid'' st = []")
    case True
    with assms c raw have "b \<and> str_field ''result'' st = ''allow''" by (auto simp: Approve_def split: if_splits)
    with True st c show ?thesis by (auto simp: push_answered_def)
  next
    case False
    with assms c raw have "wait W c (str_field ''txid'' st) 1 = Some (Inr b)" by (simp add: Approve_def)
    from wait_answer [OF this] False st c show ?thesis by (auto simp: push_answered_def)
  qed
qed

section \<open>The approver of the gateway\<close>

text \<open>
  \<open>Client\<close> as a \<open>policy.Approver\<close>: the \<open>n\<close>-th push happens in \<open>D n\<close>, and \<open>late n\<close> tells whether the caller's deadline
  had passed when it came back.  A push that nobody ends never comes back; under a deadline there is none
  (\<open>approve_returns\<close>).
\<close>

definition duo_approver ::
    "(nat \<Rightarrow> duo_world) \<Rightarrow> (nat \<Rightarrow> bool) \<Rightarrow> duo_client option \<Rightarrow> nat \<Rightarrow> string \<Rightarrow> ip \<Rightarrow> string \<Rightarrow> approval" where
  "duo_approver D late client n username src target =
     (case Approve (D n) client username (ip_text src) target of
        None \<Rightarrow> ApprovalError True
      | Some (Inl _) \<Rightarrow> ApprovalError (late n)
      | Some (Inr b) \<Rightarrow> (if b then Approved else Declined))"

lemma wait_returns:
  assumes "dw_late_before W k" and "m \<le> k"
  shows "\<exists>r. wait W c txid m = Some r"
  using assms(2)
proof (induction rule: inc_induct)
  case base
  then show ?case using assms(1) by (subst wait.simps) simp
next
  case (step i)
  then show ?case by (subst wait.simps) (auto split: sum.split option.split)
qed

lemma approve_returns:
  assumes "dw_late_before W k" and "0 < k"
  shows "\<exists>r. Approve W client username srcIP target = Some r"
proof -
  have "\<exists>r. wait W c txid (Suc 0) = Some r" for c txid using wait_returns [OF assms(1)] assms(2) by simp
  then show ?thesis by (auto simp: Approve_def split: option.split sum.split)
qed

text \<open>The client reports a push that was declined as an error; it never answers no.  So the branch of the policy that
  records \<open>jit.denied\<close> cannot be reached with the only approver the program has.\<close>

lemma decline_is_never_reported: "duo_approver D late client n username src target \<noteq> Declined"
  using approve_answered [of "D n" client username "ip_text src" target]
  by (auto simp: duo_approver_def split: option.split sum.split)

text \<open>C32. A direct connection is let through only when a telephone said yes: with Duo as the approver, whenever the review of a
  connection allows it, the client is configured, the account is the one the connection names and may reach the machine, and
  for a push that names this account, this address and this machine the service answered a signed request with the word allow -
  at once, or, before any deadline had passed, at the end of polls for the very transaction it had opened, all of which said that it was
  still waiting.\<close>

theorem direct_connection_was_approved:
  assumes "run_state (Review E C src cr) w = (d, w')" and "dc_allow d"
    and "x_approver E = Some (duo_approver D late client)"
  shows "\<exists>c n u t gid. client = Some c \<and> UserByRDPHint (cq_cookie cr) (w_db w) = Inr u \<and>
    CanReach u (t_id t) (w_db w) \<and> d = allow t gid \<and> push_answered (D n) c (u_username u) (ip_text src) (t_name t)"
proof -
  obtain n u t gid where a: "duo_approver D late client n (u_username u) src (t_name t) = Approved"
    "UserByRDPHint (cq_cookie cr) (w_db w) = Inr u" "CanReach u (t_id t) (w_db w)" "d = allow t gid"
    using Review_allow [OF assms(1,2)] assms(3) by auto
  from a(1) have "Approve (D n) client (u_username u) (ip_text src) (t_name t) = Some (Inr True)"
    by (auto simp: duo_approver_def split: option.splits sum.splits if_splits)
  from approve_answered [OF this] a show ?thesis by blast
qed

section \<open>A push that is answered\<close>

definition duo_says :: "(string \<times> json) list \<Rightarrow> string" where
  "duo_says ms = the (marshal (JObj [(''stat'', JStr ''OK''), (''response'', JObj ms)]))"

definition sample_phone :: duo_world where
  "sample_phone = \<lparr>dw_hmac = (\<lambda>k t. take 20 (t @ k)), dw_lower = id, dw_clock = (\<lambda>n. 1700000000 + int n),
     dw_answer = (\<lambda>n q. Some (200, duo_says (if n = 0 then [(''txid'', JStr ''t1'')] else [(''result'', JStr (if n = 1 then ''waiting'' else ''allow''))]), False)),
     dw_late_before = (\<lambda>n. 20 < n), dw_late_after = (\<lambda>_. False), dw_late_pausing = (\<lambda>_. False)\<rparr>"

definition sample_duo :: "duo_client option" where
  "sample_duo = NewClient ''https://api-1.duosecurity.com'' ''DIK'' ''secret''"

lemma phone_call:
  assumes "url_Parse (''https://api-1.duosecurity.com'' @ path @ (if meth = ''GET'' \<and> ps \<noteq> [] then CHR ''?'' # encodeParams ps else [])) \<noteq> None"
  shows "call sample_phone (the sample_duo) n meth path ps =
    read_reply 200 (take max_reply (duo_says (if n = 0 then [(''txid'', JStr ''t1'')] else [(''result'', JStr (if n = 1 then ''waiting'' else ''allow''))])))"
  using assms by (auto simp: call_def make_request_def sample_phone_def sample_duo_def NewClient_def trim_prefix_def has_prefix_def Let_def
    split: prod.split)

lemma phone_urls:
  "url_Parse (''https://api-1.duosecurity.com'' @ ''/auth/v2/auth'') \<noteq> None"
  "url_Parse (''https://api-1.duosecurity.com'' @ ''/auth/v2/auth_status'' @ CHR ''?'' # encodeParams [(''txid'', [''t1''])]) \<noteq> None"
  by code_simp+

lemma phone_replies:
  "read_reply 200 (take max_reply (duo_says [(''txid'', JStr ''t1'')])) = Inr (Some (JObj [(''txid'', JStr ''t1'')]))"
  "read_reply 200 (take max_reply (duo_says [(''result'', JStr ''waiting'')])) = Inr (Some (JObj [(''result'', JStr ''waiting'')]))"
  "read_reply 200 (take max_reply (duo_says [(''result'', JStr ''allow'')])) = Inr (Some (JObj [(''result'', JStr ''allow'')]))"
  by code_simp+

lemma phone_words:
  "map_option (\<lambda>g. (str_field ''txid'' g, str_field ''result'' g)) (unmarshal_raw auth_shape (Some (JObj [(''txid'', JStr ''t1'')]))) = Some (''t1'', [])"
  "map_option (str_field ''result'') (unmarshal_raw poll_shape (Some (JObj [(''result'', JStr ''waiting'')]))) = Some ''waiting''"
  "map_option (str_field ''result'') (unmarshal_raw poll_shape (Some (JObj [(''result'', JStr ''allow'')]))) = Some ''allow''"
  by code_simp+

lemma phone_polls: "wait sample_phone (the sample_duo) ''t1'' 1 = Some (Inr True)"
proof -
  have get: "call sample_phone (the sample_duo) n ''GET'' ''/auth/v2/auth_status'' [(''txid'', [''t1''])] =
      Inr (Some (JObj [(''result'', JStr (if n = 1 then ''waiting'' else ''allow''))]))" if "0 < n" for n
    using phone_urls(2) that phone_replies(2,3) by (subst phone_call) auto
  obtain st1 st2 where st: "unmarshal_raw poll_shape (Some (JObj [(''result'', JStr ''waiting'')])) = Some st1" "str_field ''result'' st1 = ''waiting''"
    "unmarshal_raw poll_shape (Some (JObj [(''result'', JStr ''allow'')])) = Some st2" "str_field ''result'' st2 = ''allow''"
    using phone_words(2,3) by blast
  have late: "\<not> dw_late_before sample_phone 1" "\<not> dw_late_before sample_phone 2" "\<not> dw_late_pausing sample_phone 1"
    by (simp_all add: sample_phone_def)
  have "wait sample_phone (the sample_duo) ''t1'' 2 = Some (Inr True)"
    by (subst wait.simps) (simp add: late get st)
  then show ?thesis using late by (subst wait.simps) (simp add: get st numeral_2_eq_2)
qed

lemma phone_says_yes: "Approve sample_phone sample_duo ''alice'' ''203.0.113.5'' ''desk'' = Some (Inr True)"
proof -
  obtain c where c: "sample_duo = Some c" by (simp add: sample_duo_def NewClient_def)
  have "call sample_phone c 0 ''POST'' ''/auth/v2/auth'' ps = Inr (Some (JObj [(''txid'', JStr ''t1'')]))" for ps
    using phone_urls(1) phone_replies(1) phone_call [of "''/auth/v2/auth''" "''POST''" ps 0] by (auto simp: c)
  moreover obtain st where "unmarshal_raw auth_shape (Some (JObj [(''txid'', JStr ''t1'')])) = Some st" "str_field ''txid'' st = ''t1''"
    using phone_words(1) by blast
  ultimately show ?thesis using phone_polls by (simp add: Approve_def c)
qed

lemma approver_says_yes: "duo_approver (\<lambda>_. sample_phone) (\<lambda>_. False) sample_duo n ''alice'' (V4 0xCB007105) ''desk'' = Approved"
proof -
  have "ip_text (V4 0xCB007105) = ''203.0.113.5''" by code_simp
  then show ?thesis by (simp add: duo_approver_def phone_says_yes)
qed

definition sample_approver :: "nat \<Rightarrow> string \<Rightarrow> ip \<Rightarrow> string \<Rightarrow> approval" where
  "sample_approver = duo_approver (\<lambda>_. sample_phone) (\<lambda>_. False) sample_duo"

lemma sample_approver_code [code]:
  "sample_approver n u src t =
    (if u = ''alice'' \<and> src = V4 0xCB007105 \<and> t = ''desk'' then Approved else duo_approver (\<lambda>_. sample_phone) (\<lambda>_. False) sample_duo n u src t)"
  by (simp add: sample_approver_def approver_says_yes)

definition push_env :: env where
  "push_env = sample_env\<lparr>x_approver := Some sample_approver\<rparr>"

definition push_request :: connection_request where
  "push_request = \<lparr>cq_raw = [], cq_cookie = ''al'', cq_routing_token = []\<rparr>"


lemma push_allowed: "fst (run_state (Review push_env sample_engine (V4 0xCB007105) push_request) sample_world) = allow desk 2"
  by code_simp

theorem direct_connection_was_approved_witness:
  "\<exists>c t gid. sample_duo = Some c \<and> fst (run_state (Review push_env sample_engine (V4 0xCB007105) push_request) sample_world) = allow t gid \<and>
    push_answered sample_phone c ''alice'' (ip_text (V4 0xCB007105)) (t_name t)"
proof -
  obtain w' where r: "run_state (Review push_env sample_engine (V4 0xCB007105) push_request) sample_world = (allow desk 2, w')"
    using push_allowed by (metis prod.collapse)
  have yes: "dc_allow (allow desk 2)" by (simp add: allow_def)
  have "x_approver push_env = Some (duo_approver (\<lambda>_. sample_phone) (\<lambda>_. False) sample_duo)"
    by (simp add: push_env_def sample_approver_def)
  from direct_connection_was_approved [OF r yes this]
  obtain c u t gid where a: "sample_duo = Some c" "UserByRDPHint (cq_cookie push_request) (w_db sample_world) = Inr u"
    "allow desk 2 = allow t gid" "push_answered sample_phone c (u_username u) (ip_text (V4 0xCB007105)) (t_name t)" by auto
  have "UserByRDPHint (cq_cookie push_request) (w_db sample_world) = Inr alice" by code_simp
  with a(2) have "u_username u = ''alice''" by (auto simp: alice_def)
  with a r show ?thesis by auto
qed


end
