(* ===== verification/Commands.thy ===== *)
theory Commands
  imports Portal_Admin
begin

text \<open>
  \<open>cmd/revpd\<close>: managing accounts, machines, access and sessions from the command line (\<open>manage.go\<close>,
  \<open>commands.go\<close>, \<open>main.go\<close>), what needs root (\<open>elevate.go\<close>), what is asked at the terminal (\<open>term.go\<close>), the
  redirect from plain HTTP and the housekeeping of a running gateway.  The database is opened before; what is
  printed is left out, an answer at the terminal is an input, and a command line was cut into words by the shell.
  The second chapter removes the program.
\<close>

section \<open>Words\<close>

definition is_flag :: "string \<Rightarrow> bool" where
  "is_flag a \<longleftrightarrow> has_prefix a ''-''"

definition splitName :: "string list \<Rightarrow> string \<times> string list" where
  "splitName args = ((case find (\<lambda>a. \<not> is_flag a \<and> a \<noteq> []) args of Some n \<Rightarrow> n | None \<Rightarrow> []), filter is_flag args)"

definition has_arg :: "string list \<Rightarrow> string list \<Rightarrow> bool" where
  "has_arg args names \<longleftrightarrow> list_ex (\<lambda>a. a \<in> set names) args"

fun value_at :: "string list \<Rightarrow> string \<Rightarrow> string list \<Rightarrow> string option" where
  "value_at [] a later = None"
| "value_at (n # ns) a later =
     (if a = n \<and> later \<noteq> [] then Some (hd later)
      else if has_prefix a (n @ ''='') then Some (trim_prefix a (n @ ''=''))
      else value_at ns a later)"

fun valueOf :: "string list \<Rightarrow> string list \<Rightarrow> string" where
  "valueOf [] names = []"
| "valueOf (a # later) names = (case value_at names a later of Some v \<Rightarrow> v | None \<Rightarrow> valueOf later names)"

text \<open>Without a limit on the length, the number wraps around.\<close>

definition parseID :: "string \<Rightarrow> int option" where
  "parseID s =
     (if s = [] \<or> \<not> list_all is_digit s then None
      else Some (foldl (\<lambda>n c. wrap64 (n * 10 + int (digit_val c))) 0 s))"

definition cleanPipedLine :: "string \<Rightarrow> string" where
  "cleanPipedLine s = trim_prefix (rev (dropWhile (\<lambda>c. c = CHR 0x0A \<or> c = CHR 0x0D) (rev s))) (utf8 0xFEFF)"

section \<open>At the terminal\<close>

text \<open>Lines are \<open>None\<close> where reading fails with nothing read.\<close>

definition confirm :: "(rune \<Rightarrow> rune) \<Rightarrow> bool \<Rightarrow> string option \<Rightarrow> bool" where
  "confirm lc interactive line \<longleftrightarrow> interactive \<and>
     (case line of None \<Rightarrow> False
      | Some l \<Rightarrow>
          (let answer = string_of_runes (map (\<lambda>r. if r < 128 then ascii_lower r else lc r) (runes (trim_space (cleanPipedLine l)))) in
           answer = ''y'' \<or> answer = ''yes''))"

definition confirmTyped :: "string \<Rightarrow> bool \<Rightarrow> string option \<Rightarrow> bool" where
  "confirmTyped wanted interactive line \<longleftrightarrow> interactive \<and>
     (case line of None \<Rightarrow> False | Some l \<Rightarrow> trim_space (cleanPipedLine l) = wanted)"

text \<open>The dialogue reads until two equal answers of sufficient length came, or reading failed.\<close>

fun ask_twice :: "nat \<Rightarrow> string option list \<Rightarrow> string option" where
  "ask_twice least [] = None"
| "ask_twice least (None # later) = None"
| "ask_twice least (Some pw # later) =
     (if length pw < least then ask_twice least later
      else case later of [] \<Rightarrow> None
        | None # _ \<Rightarrow> None
        | Some again # rest \<Rightarrow> if pw \<noteq> again then ask_twice least rest else Some pw)"

definition askNewPassword :: "bool \<Rightarrow> string option list \<Rightarrow> string option" where
  "askNewPassword interactive answers =
     (if interactive then ask_twice 12 answers
      else case answers of
        Some line # _ \<Rightarrow> (let pw = cleanPipedLine line in if length pw < 12 then None else Some pw)
      | _ \<Rightarrow> None)"

definition askNewPassphrase :: "bool \<Rightarrow> string \<Rightarrow> string option list \<Rightarrow> string option" where
  "askNewPassphrase interactive from_env answers =
     (if interactive then ask_twice 8 answers else if from_env \<noteq> [] then Some from_env else None)"

section \<open>Becoming root\<close>

definition rootCommands :: "string list" where
  "rootCommands = [''user'', ''target'', ''machine'', ''access'', ''passkey'', ''passkeys'', ''wake'', ''sessions'',
     ''session'', ''logs'', ''status'', ''config'', ''doctor'', ''check'', ''audit'', ''backup'', ''restore'', ''uninstall'',
     ''service'', ''useradd'', ''enroll'', ''targetadd'']"

record process =
  pr_root :: bool
  pr_marked :: bool
  pr_self :: "string option"
  pr_sudo :: "string option"
  pr_interactive :: bool
  pr_args :: "string list"

text \<open>Go on as root, refuse, or run a command line as a child and end with it, whatever its outcome.\<close>

datatype elevation = CarryOn | RefuseRoot | RunAsRoot "string list"

definition needRoot :: "process \<Rightarrow> string list \<Rightarrow> elevation" where
  "needRoot p argv0 =
     (if pr_root p then CarryOn
      else (let argv = (if argv0 = [] then pr_args p else argv0) in
        if argv = [] \<or> pr_marked p then RefuseRoot
        else (case (pr_self p, pr_sudo p) of
            (Some self, Some sudo) \<Rightarrow> if \<not> pr_interactive p then RefuseRoot else RunAsRoot (sudo # self # argv)
          | _ \<Rightarrow> RefuseRoot)))"

definition elevateIfNeeded :: "process \<Rightarrow> elevation" where
  "elevateIfNeeded p =
     (case pr_args p of [] \<Rightarrow> CarryOn
      | c # rest \<Rightarrow>
          if c \<notin> set rootCommands then CarryOn
          else if c = ''service'' \<and> rest \<noteq> [] \<and> hd rest = ''status'' then CarryOn
          else needRoot p (pr_args p))"

section \<open>Accounts\<close>

text \<open>How a command ends.\<close>

datatype cli_end = CliDone | CliUsage | CliUnchanged | NoPasswordGiven | NotCreated store_error | NoSuchUser string
  | NoSuchMachine string | StoreFailed store_error | HashFailed | EnrollFailed | OnlyFactor | BadID string | BadMAC wol_error
  | AlreadyAwake | WakeNotSent

definition cli_audit :: "string \<Rightarrow> string \<Rightarrow> (string \<times> string) list \<Rightarrow> unit act" where
  "cli_audit action object detail = record_event (event_of ''cli'' action object None detail)"

definition userAdd :: "env \<Rightarrow> string option \<Rightarrow> string list \<Rightarrow> cli_end act" where
  "userAdd E password args =
     (let (name, flags) = splitName args; role = (if has_arg flags [''--admin'', ''-admin''] then ''admin'' else ''user'') in
      if name = [] then ret CliUsage
      else case password of None \<Rightarrow> ret NoPasswordGiven
        | Some pw \<Rightarrow> do {
            h \<leftarrow> hash_password E pw;
            case h of
              Inl _ \<Rightarrow> ret HashFailed
            | Inr hash \<Rightarrow> do {
                stamp \<leftarrow> read_clock;
                c \<leftarrow> insert_row (CreateUser (unix stamp) ((first_admin name name hash)\<lparr>u_role := role\<rparr>));
                case c of
                  Inl e \<Rightarrow> ret (NotCreated e)
                | Inr _ \<Rightarrow> do { cli_audit ''user.created'' name []; ret CliDone }
              }
          })"

definition with_user :: "string \<Rightarrow> (user \<Rightarrow> cli_end act) \<Rightarrow> cli_end act" where
  "with_user name f = do {
     r \<leftarrow> query (UserByName name);
     case r of Inl _ \<Rightarrow> ret (NoSuchUser name) | Inr u \<Rightarrow> f u
   }"

definition with_machine :: "string \<Rightarrow> (target \<Rightarrow> cli_end act) \<Rightarrow> cli_end act" where
  "with_machine name f = do {
     r \<leftarrow> query (TargetByName name);
     case r of Inl _ \<Rightarrow> ret (NoSuchMachine name) | Inr t \<Rightarrow> f t
   }"

text \<open>A statement whose failure ends the command, and what follows it.\<close>

definition after_exec :: "(db \<Rightarrow> store_error + db) \<Rightarrow> cli_end act \<Rightarrow> cli_end act" where
  "after_exec st k = do { r \<leftarrow> exec st; case r of Inl e \<Rightarrow> ret (StoreFailed e) | Inr _ \<Rightarrow> k }"

definition userRemove :: "bool \<Rightarrow> string list \<Rightarrow> cli_end act" where
  "userRemove confirmed args =
     (let (name, flags) = splitName args in
      if name = [] then ret CliUsage
      else with_user name (\<lambda>u.
        if \<not> has_arg flags [''--yes'', ''-y''] \<and> \<not> confirmed then ret CliUnchanged
        else after_exec (DeleteUser (u_id u)) (do { cli_audit ''user.deleted'' name []; ret CliDone })))"

definition userSetStatus :: "string \<Rightarrow> string list \<Rightarrow> cli_end act" where
  "userSetStatus st args =
     (let name = fst (splitName args) in
      if name = [] then ret CliUsage
      else with_user name (\<lambda>u. after_exec (SetUserStatus (u_id u) st) (do {
        (if st \<noteq> ''active'' then do { now \<leftarrow> read_clock; _ \<leftarrow> exec (RevokeGrantsForUser (unix now) (u_id u)); ret () } else ret ());
        cli_audit ''user.updated'' name [(''status'', st)];
        ret CliDone
      })))"

text \<open>\<open>P\<close> holds the master key, the name of the gateway and the number of codes.\<close>

definition enrollUser :: "env \<Rightarrow> portal \<Rightarrow> string \<Rightarrow> (cli_end \<times> string list) act" where
  "enrollUser E P name = do {
     r \<leftarrow> query (UserByName name);
     case r of
       Inl _ \<Rightarrow> ret (NoSuchUser name, [])
     | Inr u \<Rightarrow> do {
         e \<leftarrow> World.ask (\<lambda>n. x_totp_enroll E n (''Revpd ('' @ pt_hostname P @ '')'') (u_username u));
         case e of None \<Rightarrow> ret (EnrollFailed, [])
         | Some (secret, _) \<Rightarrow> do {
             nonce \<leftarrow> read_rand nonce_size;
             case Seal E (pt_sealer P) nonce (totp_label u) (bytes_of secret) of
               Inl _ \<Rightarrow> ret (EnrollFailed, [])
             | Inr enc \<Rightarrow> do {
                 s \<leftarrow> exec (SetTOTPSecret (u_id u) enc);
                 case s of
                   Inl x \<Rightarrow> ret (StoreFailed x, [])
                 | Inr _ \<Rightarrow> do {
                     cs \<leftarrow> regenerateBackupCodes E P (u_id u);
                     case cs of None \<Rightarrow> ret (EnrollFailed, [])
                     | Some fresh \<Rightarrow> do { cli_audit ''enroll.totp'' (u_username u) []; ret (CliDone, fresh) }
                   }
               }
           }
       }
   }"

definition userReset :: "env \<Rightarrow> portal \<Rightarrow> string list \<Rightarrow> (cli_end \<times> string list) act" where
  "userReset E P args = (let name = fst (splitName args) in if name = [] then ret (CliUsage, []) else enrollUser E P name)"

text \<open>\<open>useradd\<close>, the older spelling, after its flags were read.\<close>

definition cmdUserAdd :: "env \<Rightarrow> string \<Rightarrow> string \<Rightarrow> bool \<Rightarrow> string \<Rightarrow> string option \<Rightarrow> cli_end act" where
  "cmdUserAdd E name display as_admin hint password =
     (if name = [] then ret CliUsage
      else case password of None \<Rightarrow> ret NoPasswordGiven
        | Some pw \<Rightarrow>
            if length pw < 12 then ret NoPasswordGiven
            else do {
              h \<leftarrow> hash_password E pw;
              case h of
                Inl _ \<Rightarrow> ret HashFailed
              | Inr hash \<Rightarrow> do {
                  stamp \<leftarrow> read_clock;
                  c \<leftarrow> insert_row (CreateUser (unix stamp)
                     ((first_admin name (if display = [] then name else display) hash)
                        \<lparr>u_role := (if as_admin then ''admin'' else ''user''), u_rdp_hint := (if hint = [] then name else hint)\<rparr>));
                  case c of
                    Inl e \<Rightarrow> ret (NotCreated e)
                  | Inr _ \<Rightarrow> do { cli_audit ''user.created'' name []; ret CliDone }
                }
            })"

section \<open>Machines\<close>

definition grant_to :: "string \<Rightarrow> int \<Rightarrow> cli_end act \<Rightarrow> cli_end act" where
  "grant_to name tid k = (if name = [] then k else with_user name (\<lambda>u. after_exec (GrantTargetAccess (u_id u) tid) k))"

definition targetAdd :: "string list \<Rightarrow> cli_end act" where
  "targetAdd args =
     (case filter (\<lambda>a. \<not> is_flag a) args of
        name # addr # mac # more_names \<Rightarrow> do {
          c \<leftarrow> insert_row (CreateTarget (new_target name [] addr 0 mac [] 0 []));
          case c of
            Inl e \<Rightarrow> ret (NotCreated e)
          | Inr tid \<Rightarrow>
              (let flagged = valueOf args [''--for'', ''-for''];
                   to = (if flagged = [] \<and> more_names \<noteq> [] then hd more_names else flagged) in
               grant_to to tid (do { cli_audit ''target.created'' name []; ret CliDone }))
        }
      | _ \<Rightarrow> ret CliUsage)"

definition cmdTargetAdd :: "string \<Rightarrow> string \<Rightarrow> string \<Rightarrow> string \<Rightarrow> int \<Rightarrow> string \<Rightarrow> int \<Rightarrow> string \<Rightarrow> cli_end act" where
  "cmdTargetAdd name host addr mac port bcast boot to =
     (if name = [] \<or> (addr = [] \<and> host = []) \<or> mac = [] then ret CliUsage
      else do {
        c \<leftarrow> insert_row (CreateTarget (new_target name host addr port mac bcast boot []));
        case c of
          Inl e \<Rightarrow> ret (NotCreated e)
        | Inr tid \<Rightarrow> grant_to to tid (do { cli_audit ''target.created'' name []; ret CliDone })
      })"

definition targetRemove :: "bool \<Rightarrow> string list \<Rightarrow> cli_end act" where
  "targetRemove confirmed args =
     (let (name, flags) = splitName args in
      if name = [] then ret CliUsage
      else with_machine name (\<lambda>t.
        if \<not> has_arg flags [''--yes'', ''-y''] \<and> \<not> confirmed then ret CliUnchanged
        else after_exec (DeleteTarget (t_id t)) (do { cli_audit ''target.deleted'' name []; ret CliDone })))"

text \<open>\<open>wake\<close>, up to the message; watching the machine come up with \<open>--wait\<close> is left out.\<close>

definition cmdWake :: "env \<Rightarrow> string list \<Rightarrow> cli_end act" where
  "cmdWake E args =
     (let name = fst (splitName args) in
      if name = [] then ret CliUsage
      else with_machine name (\<lambda>t.
        case ParseMAC (t_mac t) of
          Inl e \<Rightarrow> ret (BadMAC e)
        | Inr mac \<Rightarrow> do {
            up \<leftarrow> World.ask (\<lambda>n. x_alive E n (Addr t));
            if up then ret AlreadyAwake
            else do {
              sent \<leftarrow> World.ask (x_send_ok E);
              if \<not> sent then ret WakeNotSent
              else do { cli_audit ''wol.sent'' name []; ret CliDone }
            }
          }))"

section \<open>Sessions, access, passkeys\<close>

definition sessionKick :: "string list \<Rightarrow> cli_end act" where
  "sessionKick args =
     (let name = fst (splitName args) in
      if name = [] then ret CliUsage
      else case parseID name of None \<Rightarrow> ret (BadID name)
        | Some i \<Rightarrow> do {
            now \<leftarrow> read_clock;
            after_exec (CloseRDPSession (unix now) i 0 0 ''disconnected from the command line'') (do {
              cli_audit ''relay.close'' [] [(''session'', decimal_int i), (''reason'', ''kicked'')];
              ret CliDone
            })
          })"

definition accessChange :: "bool \<Rightarrow> string list \<Rightarrow> cli_end act" where
  "accessChange granted args =
     (case filter (\<lambda>a. \<not> is_flag a) args of
        who # machine # _ \<Rightarrow>
          with_user who (\<lambda>u. with_machine machine (\<lambda>t. do {
            r \<leftarrow> (if granted then exec (GrantTargetAccess (u_id u) (t_id t))
                  else do {
                    x \<leftarrow> exec (RevokeTargetAccess (u_id u) (t_id t));
                    now \<leftarrow> read_clock;
                    _ \<leftarrow> exec (RevokeGrantsForUser (unix now) (u_id u));
                    ret x
                  });
            case r of
              Inl e \<Rightarrow> ret (StoreFailed e)
            | Inr _ \<Rightarrow> do {
                cli_audit ''user.updated'' (u_username u) [(''target'', t_name t), (''granted'', if granted then ''true'' else ''false'')];
                ret CliDone
              }
          }))
      | _ \<Rightarrow> ret CliUsage)"

fun reachable_names :: "user \<Rightarrow> target list \<Rightarrow> string list act" where
  "reachable_names u [] = ret []"
| "reachable_names u (t # ts) = do {
     ok \<leftarrow> query (\<lambda>d. Inr (CanReach u (t_id t) d));
     names \<leftarrow> reachable_names u ts;
     ret (if ok = Inr True then t_name t # names else names)
   }"

definition passkeyRemove :: "string list \<Rightarrow> cli_end act" where
  "passkeyRemove args =
     (case filter (\<lambda>a. \<not> is_flag a) args of
        who # key_id # _ \<Rightarrow>
          (case parseID key_id of None \<Rightarrow> ret (BadID key_id)
           | Some i \<Rightarrow>
               with_user who (\<lambda>u. do {
                 n \<leftarrow> (if u_totp_secret u = [] then query (\<lambda>d. Inr (CountPasskeys (u_id u) d)) else ret (Inr 2));
                 if (case n of Inr k \<Rightarrow> k \<le> 1 | Inl _ \<Rightarrow> False) then ret OnlyFactor
                 else after_exec (DeletePasskey (u_id u) i) (do {
                   cli_audit ''user.updated'' (u_username u) [(''removed_passkey'', decimal_int i)];
                   ret CliDone
                 })
               }))
      | _ \<Rightarrow> ret CliUsage)"

section \<open>A running gateway\<close>

definition housekeeping :: "unit act" where
  "housekeeping = do {
     t1 \<leftarrow> read_clock;
     _ \<leftarrow> exec (PurgeExpired (unix (t1 - seconds 86400)));
     t2 \<leftarrow> read_clock;
     t3 \<leftarrow> read_clock;
     _ \<leftarrow> exec (ExpirePendingJIT (unix t3) (unix (t2 - seconds 600)));
     t4 \<leftarrow> read_clock;
     m \<leftarrow> get_lock;
     put_lock (SweepLockouts t4 m)
   }"

text \<open>\<open>startHTTPRedirect\<close>: where a request on the plain port is sent.\<close>

definition redirect_target :: "string \<Rightarrow> string \<Rightarrow> string \<Rightarrow> string \<Rightarrow> string" where
  "redirect_target portalPort hostname request_host uri =
     (let asked = (case SplitHostPort request_host of Some (h, _) \<Rightarrow> h | None \<Rightarrow> request_host);
          host = (if asked = [] then hostname else asked) in
      ''https://'' @ (if portalPort \<noteq> [] \<and> portalPort \<noteq> ''443'' then JoinHostPort host portalPort else host) @ uri)"

chapter \<open>Uninstalling\<close>

text \<open>
  Removing the program (\<open>uninstallPlan\<close>, \<open>safeToRemove\<close> and \<open>cmdUninstall\<close> of \<open>cmd/revpd/manage.go\<close>): the list of steps, the guard
  in front of it, and what is done once somebody has agreed.  Whether a path can be removed is an answer of the file system.
\<close>

section \<open>Paths\<close>

text \<open>\<open>path.Clean\<close>: empty elements and dots go, two dots take the element before them with them.\<close>

definition clean_step :: "bool \<Rightarrow> string list \<Rightarrow> string \<Rightarrow> string list" where
  "clean_step rooted st c =
     (if c = [] \<or> c = ''.'' then st
      else if c = ''..'' then
        (case st of [] \<Rightarrow> (if rooted then [] else [''..'']) | x # xs \<Rightarrow> (if x = ''..'' then ''..'' # st else xs))
      else c # st)"

definition path_Clean :: "string \<Rightarrow> string" where
  "path_Clean p =
     (if p = [] then ''.''
      else (let rooted = hd p = CHR ''/'';
                body = join_byte (CHR ''/'') (rev (foldl (clean_step rooted) [] (split_byte (CHR ''/'') p))) in
        if rooted then CHR ''/'' # body else if body = [] then ''.'' else body))"

definition unix_slashes :: "string \<Rightarrow> string" where
  "unix_slashes p = map (\<lambda>c. if c = CHR 0x5C then CHR ''/'' else c) p"

fun has_dots :: "string \<Rightarrow> bool" where
  "has_dots (a # b # s) \<longleftrightarrow> (a = CHR ''.'' \<and> b = CHR ''.'') \<or> has_dots (b # s)"
| "has_dots _ \<longleftrightarrow> False"

definition trim_slash :: "string \<Rightarrow> string" where
  "trim_slash s = (if s \<noteq> [] \<and> List.last s = CHR ''/'' then butlast s else s)"

definition safeToRemove :: "string \<Rightarrow> bool" where
  "safeToRemove p \<longleftrightarrow>
     (let clean = path_Clean (unix_slashes p) in
      has_prefix clean ''/'' \<and> clean \<notin> {''/'', ''.'', ''..''} \<and> \<not> has_dots clean \<and>
      2 \<le> length (filter (\<lambda>c. c = CHR ''/'') (trim_slash clean)))"

section \<open>The plan\<close>

definition installBinPath :: string where "installBinPath = ''/usr/local/bin/revpd''"
definition installConfDir :: string where "installConfDir = ''/etc/revpd''"
definition installDataDir :: string where "installDataDir = ''/var/lib/revpd''"
definition installService :: string where "installService = ''/etc/systemd/system/revpd.service''"
definition installUpdatePath :: string where "installUpdatePath = ''/etc/systemd/system/revpd-update.path''"
definition installUpdateService :: string where "installUpdateService = ''/etc/systemd/system/revpd-update.service''"
definition installUnit :: string where "installUnit = ''revpd''"
definition installUser :: string where "installUser = ''revpd''"

record removal_step =
  rs_description :: string
  rs_path :: string
  rs_command :: "string list"

definition run_step :: "string \<Rightarrow> string list \<Rightarrow> removal_step" where
  "run_step what cmd = \<lparr>rs_description = what, rs_path = [], rs_command = cmd\<rparr>"

definition delete_step :: "string \<Rightarrow> string \<Rightarrow> removal_step" where
  "delete_step what p = \<lparr>rs_description = what, rs_path = p, rs_command = []\<rparr>"

definition removal_steps :: "string \<Rightarrow> bool \<Rightarrow> removal_step list" where
  "removal_steps dataDir keepData =
     [run_step ''stop the service'' [''systemctl'', ''stop'', installUnit],
      run_step ''disable the service'' [''systemctl'', ''disable'', installUnit],
      run_step ''stop watching for updates'' [''systemctl'', ''disable'', ''--now'', installUnit @ ''-update.path''],
      delete_step ''remove the service definition'' installService,
      delete_step ''remove the updater definitions'' installUpdatePath,
      delete_step ''remove the updater service'' installUpdateService,
      run_step ''reload systemd'' [''systemctl'', ''daemon-reload''],
      run_step ''clear any failed state'' [''systemctl'', ''reset-failed'', installUnit]] @
     (if keepData then []
      else [delete_step ''delete the database and all accounts'' dataDir,
            delete_step ''delete the master key and configuration'' installConfDir]) @
     [run_step ''remove the system account'' [''userdel'', installUser],
      delete_step ''remove the program'' installBinPath]"

definition uninstallPlan :: "string \<Rightarrow> bool \<Rightarrow> string + removal_step list" where
  "uninstallPlan dir keepData =
     (let steps = removal_steps (if dir = [] then installDataDir else dir) keepData in
      case find (\<lambda>s. rs_path s \<noteq> [] \<and> \<not> safeToRemove (rs_path s)) steps of
        Some s \<Rightarrow> Inl (rs_path s)
      | None \<Rightarrow> Inr steps)"

definition uninstallArgv :: "string list \<Rightarrow> string list" where
  "uninstallArgv args = ''uninstall'' # (if has_arg args [''--keep-data'', ''-keep-data''] then [''--keep-data''] else [])"

section \<open>Removing\<close>

text \<open>What was done, in order; \<open>Tried\<close> is a path that could not be removed.\<close>

datatype deed = Removed string | Tried string | Ran "string list"

definition do_step :: "(string \<Rightarrow> bool) \<Rightarrow> removal_step \<Rightarrow> deed list" where
  "do_step removable s =
     (if rs_path s \<noteq> [] then [if removable (rs_path s) then Removed (rs_path s) else Tried (rs_path s)]
      else if rs_command s \<noteq> [] then [Ran (rs_command s)] else [])"

datatype uninstall_end = NotAdmin elevation | BadPlan string | LeftAlone | WithProblems "string list" | AllRemoved

text \<open>\<open>configured\<close> is the data directory of the configuration, if there is one; \<open>typed\<close> whether the word was typed.\<close>

definition cmdUninstall ::
    "process \<Rightarrow> string option \<Rightarrow> bool \<Rightarrow> (string \<Rightarrow> bool) \<Rightarrow> string list \<Rightarrow> uninstall_end \<times> deed list" where
  "cmdUninstall p configured typed removable args =
     (let keepData = has_arg args [''--keep-data'', ''-keep-data''];
          assumeYes = has_arg args [''--yes'', ''-y''];
          may = needRoot p (uninstallArgv args);
          dataDir = (case configured of Some d \<Rightarrow> if d \<noteq> [] then d else installDataDir | None \<Rightarrow> installDataDir) in
      if may \<noteq> CarryOn then (NotAdmin may, [])
      else case uninstallPlan dataDir keepData of
          Inl bad \<Rightarrow> (BadPlan bad, [])
        | Inr steps \<Rightarrow>
            if \<not> assumeYes \<and> \<not> typed then (LeftAlone, [])
            else (let deeds = concat (map (do_step removable) steps);
                      failures = List.map_filter (\<lambda>d. case d of Tried q \<Rightarrow> Some q | _ \<Rightarrow> None) deeds in
              (if failures \<noteq> [] then WithProblems failures else AllRemoved, deeds)))"

section \<open>What is never removed\<close>

text \<open>A path that, cleaned, names something at least two levels below the root, with nothing that leads upwards.\<close>

definition deep_path :: "string \<Rightarrow> bool" where
  "deep_path p \<longleftrightarrow>
     (\<exists>cs. 2 \<le> length cs \<and> path_Clean p = concat (map (\<lambda>c. CHR ''/'' # c) cs) \<and>
       (\<forall>c \<in> set cs. c \<noteq> [] \<and> c \<noteq> ''.'' \<and> \<not> has_dots c \<and> CHR ''/'' \<notin> set c))"

lemma has_dots_tl: "has_dots t \<Longrightarrow> has_dots (c # t)"
  by (cases t) auto

lemma has_dots_append: "has_dots s \<or> has_dots t \<Longrightarrow> has_dots (s @ t)"
  by (induction s rule: has_dots.induct) (auto intro: has_dots_tl)

lemma clean_stack:
  assumes "\<forall>c \<in> set st. c \<noteq> [] \<and> CHR ''/'' \<notin> set c" and "\<forall>c \<in> set cs. CHR ''/'' \<notin> set c"
  shows "\<forall>c \<in> set (foldl (clean_step rooted) st cs). c \<noteq> [] \<and> CHR ''/'' \<notin> set c"
  using assms
proof (induction cs arbitrary: st)
  case (Cons c cs)
  have "\<forall>x \<in> set (clean_step rooted st c). x \<noteq> [] \<and> CHR ''/'' \<notin> set x"
    using Cons.prems by (auto simp: clean_step_def split: list.split)
  from Cons.IH [OF this] Cons.prems show ?case by simp
qed simp

lemma clean_rooted:
  assumes "\<forall>c \<in> set st. c \<noteq> ''.''"
  shows "\<forall>c \<in> set (foldl (clean_step True) st cs). c \<noteq> ''.''"
  using assms
proof (induction cs arbitrary: st)
  case (Cons c cs)
  have "\<forall>x \<in> set (clean_step True st c). x \<noteq> ''.''"
    using Cons.prems by (auto simp: clean_step_def split: list.split)
  from Cons.IH [OF this] show ?case by simp
qed simp

lemma slashes_joined: "CHR ''/'' # join_byte (CHR ''/'') (c # cs) = concat (map (\<lambda>c. CHR ''/'' # c) (c # cs))"
  by (induction cs arbitrary: c) auto

lemma has_dots_Cons: "has_dots s \<Longrightarrow> has_dots (c # s)"
  by (cases s) auto

lemma prefix_hd: "has_prefix s ''/'' \<Longrightarrow> s \<noteq> [] \<and> hd s = CHR ''/''"
  by (cases s) (auto simp: has_prefix_def)

lemma dots_inside: "c \<in> set cs \<Longrightarrow> has_dots c \<Longrightarrow> has_dots (concat (map (\<lambda>c. CHR ''/'' # c) cs))"
  by (induction cs) (auto intro: has_dots_append has_dots_Cons)

lemma slash_count: "\<forall>c \<in> set cs. CHR ''/'' \<notin> set c \<Longrightarrow>
    length (filter (\<lambda>c. c = CHR ''/'') (concat (map (\<lambda>c. CHR ''/'' # c) cs))) = length cs"
proof (induction cs)
  case (Cons c cs)
  then have "filter (\<lambda>x. x = CHR ''/'') c = []" by (auto simp: filter_empty_conv)
  with Cons show ?case by simp
qed simp

lemma no_last_slash:
  assumes "cs \<noteq> []" and "\<forall>c \<in> set cs. c \<noteq> [] \<and> CHR ''/'' \<notin> set c"
  shows "trim_slash (concat (map (\<lambda>c. CHR ''/'' # c) cs)) = concat (map (\<lambda>c. CHR ''/'' # c) cs)"
proof -
  let ?l = "List.last cs"
  have l: "?l \<noteq> []" "CHR ''/'' \<notin> set ?l" using assms by auto
  have "concat (map (\<lambda>c. CHR ''/'' # c) cs) = concat (map (\<lambda>c. CHR ''/'' # c) (butlast cs)) @ CHR ''/'' # ?l"
    using append_butlast_last_id [OF assms(1)] by (metis (no_types, lifting) concat.simps concat_append list.map map_append append_Nil2)
  with l show ?thesis by (auto simp: trim_slash_def) (metis last_in_set)
qed

lemma safe_is_deep: "safeToRemove p \<Longrightarrow> deep_path (unix_slashes p)"
proof -
  assume safe: "safeToRemove p"
  let ?q = "unix_slashes p"
  let ?rooted = "hd ?q = CHR ''/''"
  let ?cs = "rev (foldl (clean_step ?rooted) [] (split_byte (CHR ''/'') ?q))"
  have q: "?q \<noteq> []" using safe by (auto simp: safeToRemove_def path_Clean_def has_prefix_def Let_def)
  have cs: "\<forall>c \<in> set ?cs. c \<noteq> [] \<and> CHR ''/'' \<notin> set c"
    using clean_stack [of "[]" "split_byte (CHR ''/'') ?q" ?rooted] split_byte_notin [of _ "CHR ''/''" ?q] by auto
  have rooted: ?rooted
  proof (rule ccontr)
    assume no: "\<not> ?rooted"
    then have "path_Clean ?q = (let body = join_byte (CHR ''/'') ?cs in if body = [] then ''.'' else body)"
      using q by (simp add: path_Clean_def Let_def)
    moreover have "join_byte (CHR ''/'') ?cs = [] \<or> hd (join_byte (CHR ''/'') ?cs) \<noteq> CHR ''/''"
      using cs by (cases ?cs; cases "tl ?cs") (auto simp: neq_Nil_conv)
    moreover have "hd (path_Clean ?q) = CHR ''/''" using safe prefix_hd by (auto simp: safeToRemove_def Let_def)
    ultimately show False by (auto simp: Let_def split: if_splits)
  qed
  then have clean: "path_Clean ?q = CHR ''/'' # join_byte (CHR ''/'') ?cs" using q by (simp add: path_Clean_def Let_def)
  have some: "?cs \<noteq> []"
  proof
    assume "?cs = []"
    then have "path_Clean ?q = ''/''" unfolding clean by simp
    then show False using safe by (simp add: safeToRemove_def Let_def)
  qed
  then obtain c0 cr where c0: "?cs = c0 # cr" by (cases ?cs) auto
  have whole: "path_Clean ?q = concat (map (\<lambda>c. CHR ''/'' # c) ?cs)" unfolding clean c0 by (rule slashes_joined)
  have "2 \<le> length ?cs"
    using safe no_last_slash [OF some cs] slash_count [of ?cs] cs unfolding safeToRemove_def Let_def whole by simp
  moreover have "\<not> has_dots c" if "c \<in> set ?cs" for c
    using dots_inside [OF that] safe unfolding safeToRemove_def Let_def whole by blast
  moreover have "\<forall>c \<in> set ?cs. c \<noteq> ''.''" using clean_rooted [of "[]" "split_byte (CHR ''/'') ?q"] rooted by simp
  ultimately show ?thesis unfolding deep_path_def using whole cs by blast
qed

text \<open>The paths the plan may name.\<close>

definition own_paths :: "string \<Rightarrow> bool \<Rightarrow> string set" where
  "own_paths dataDir keepData =
     {installService, installUpdatePath, installUpdateService, installBinPath} \<union> (if keepData then {} else {dataDir, installConfDir})"

lemma find_none: "find P xs = None \<Longrightarrow> x \<in> set xs \<Longrightarrow> \<not> P x"
  by (induction xs) (auto split: if_splits)

lemma step_parts: "rs_path (run_step what cmd) = []" "rs_path (delete_step what q) = q"
  by (simp_all add: run_step_def delete_step_def)

lemma named_paths: "installService \<noteq> []" "installUpdatePath \<noteq> []" "installUpdateService \<noteq> []" "installBinPath \<noteq> []" "installConfDir \<noteq> []"
  by (simp_all add: installService_def installUpdatePath_def installUpdateService_def installBinPath_def installConfDir_def)

lemma step_paths: "dir \<noteq> [] \<Longrightarrow> rs_path ` set (removal_steps dir keep) - {[]} = own_paths dir keep"
  using named_paths by (cases keep) (auto simp: removal_steps_def own_paths_def step_parts)

lemma map_filter_none: "List.map_filter f xs = [] \<Longrightarrow> x \<in> set xs \<Longrightarrow> f x = None"
  by (induction xs) (auto split: option.splits)

lemma needRoot_root: "needRoot p argv = CarryOn \<longleftrightarrow> pr_root p"
  by (simp add: needRoot_def Let_def split: option.split)

lemma plan_paths:
  assumes "uninstallPlan dir keep = Inr steps" and "dir \<noteq> []"
  shows "steps = removal_steps dir keep \<and> (\<forall>s \<in> set steps. rs_path s \<noteq> [] \<longrightarrow> deep_path (unix_slashes (rs_path s)))"
  using assms by (auto simp: uninstallPlan_def Let_def split: option.splits dest: find_none intro!: safe_is_deep)

lemma unix_slashes_plain: "CHR 0x5C \<notin> set p \<Longrightarrow> unix_slashes p = p"
  by (auto simp: unix_slashes_def intro!: map_idI)

lemma backslash_is_data:
  assumes "q \<in> own_paths dir keep" and "CHR 0x5C \<in> set q"
  shows "q = dir"
proof -
  have "CHR 0x5C \<notin> set installService" "CHR 0x5C \<notin> set installUpdatePath" "CHR 0x5C \<notin> set installUpdateService"
    "CHR 0x5C \<notin> set installBinPath" "CHR 0x5C \<notin> set installConfDir"
    by (simp_all add: installService_def installUpdatePath_def installUpdateService_def installBinPath_def installConfDir_def)
  with assms show ?thesis by (auto simp: own_paths_def split: if_splits)
qed

text \<open>C30. Uninstalling does nothing at all before somebody who is root has agreed; it never touches a path but the ones the
  installer made - with --keep-data neither the database nor the keys; each of them lies at least two levels below the
  root of the file system, with no way up, except for a configured data directory written with a backslash, which the guard
  judges with its backslashes turned and which is removed as written; and when it reports success every one of them is gone.\<close>

theorem uninstall_removes_only_its_own:
  assumes "cmdUninstall p configured typed removable args = (e, deeds)"
    and "dir = (case configured of Some d \<Rightarrow> if d \<noteq> [] then d else installDataDir | None \<Rightarrow> installDataDir)"
    and "keep = has_arg args [''--keep-data'', ''-keep-data'']"
  shows "(deeds \<noteq> [] \<longrightarrow> pr_root p \<and> (has_arg args [''--yes'', ''-y''] \<or> typed)) \<and>
    (\<forall>q. Removed q \<in> set deeds \<or> Tried q \<in> set deeds \<longrightarrow>
       q \<in> own_paths dir keep \<and> (deep_path q \<or> q = dir \<and> CHR 0x5C \<in> set q)) \<and>
    (e = AllRemoved \<longrightarrow> (\<forall>q \<in> own_paths dir keep. Removed q \<in> set deeds \<and> removable q))"
proof (cases "\<exists>steps. uninstallPlan dir keep = Inr steps \<and> pr_root p \<and> (has_arg args [''--yes'', ''-y''] \<or> typed)")
  case False
  then have "deeds = [] \<and> e \<noteq> AllRemoved"
    using assms by (auto simp: cmdUninstall_def Let_def needRoot_root split: sum.splits if_splits)
  then show ?thesis by simp
next
  case True
  have dir: "dir \<noteq> []" unfolding assms(2) by (auto simp: installDataDir_def split: option.split)
  from True obtain steps where plan: "uninstallPlan dir keep = Inr steps" and ok: "pr_root p"
    "has_arg args [''--yes'', ''-y''] \<or> typed" by blast
  note steps = plan_paths [OF plan dir]
  let ?failures = "List.map_filter (\<lambda>d. case d of Tried q \<Rightarrow> Some q | _ \<Rightarrow> None) deeds"
  have run: "deeds = concat (map (do_step removable) steps)" "e = (if ?failures \<noteq> [] then WithProblems ?failures else AllRemoved)"
    using assms(1) plan [unfolded assms(2,3)] ok by (auto simp: cmdUninstall_def Let_def needRoot_root split: if_splits)
  have touched: "(Removed q \<in> set deeds \<longleftrightarrow> q \<in> own_paths dir keep \<and> removable q) \<and>
      (Tried q \<in> set deeds \<longleftrightarrow> q \<in> own_paths dir keep \<and> \<not> removable q)" for q
    unfolding run(1) step_paths [OF dir, symmetric] using steps by (auto simp: do_step_def image_iff split: if_splits)
  have "deep_path q \<or> q = dir \<and> CHR 0x5C \<in> set q" if own: "q \<in> own_paths dir keep" for q
  proof (cases "CHR 0x5C \<in> set q")
    case True
    with backslash_is_data [OF own] show ?thesis by blast
  next
    case False
    from own have "deep_path (unix_slashes q)" unfolding step_paths [OF dir, symmetric] using steps by blast
    with False show ?thesis by (simp add: unix_slashes_plain)
  qed
  moreover have "e = AllRemoved \<Longrightarrow> Tried q \<notin> set deeds" for q
    unfolding run(2) using map_filter_none [of "\<lambda>d. case d of Tried q \<Rightarrow> Some q | _ \<Rightarrow> None" deeds "Tried q"] by (auto split: if_splits)
  ultimately show ?thesis using touched ok by blast
qed

lemma uninstall_runs:
  "fst (cmdUninstall \<lparr>pr_root = True, pr_marked = False, pr_self = None, pr_sudo = None, pr_interactive = True, pr_args = []\<rparr>
      (Some ''/srv/revpd/data'') True (\<lambda>_. True) [''--keep-data'']) = AllRemoved"
  by code_simp

theorem uninstall_removes_only_its_own_witness:
  "\<exists>deeds. cmdUninstall \<lparr>pr_root = True, pr_marked = False, pr_self = None, pr_sudo = None, pr_interactive = True, pr_args = []\<rparr>
      (Some ''/srv/revpd/data'') True (\<lambda>_. True) [''--keep-data''] = (AllRemoved, deeds) \<and>
    Removed ''/usr/local/bin/revpd'' \<in> set deeds \<and> \<not> Removed ''/srv/revpd/data'' \<in> set deeds"
proof -
  obtain deeds where run: "cmdUninstall \<lparr>pr_root = True, pr_marked = False, pr_self = None, pr_sudo = None, pr_interactive = True, pr_args = []\<rparr>
      (Some ''/srv/revpd/data'') True (\<lambda>_. True) [''--keep-data''] = (AllRemoved, deeds)"
    using uninstall_runs by (metis prod.collapse)
  from uninstall_removes_only_its_own [OF run refl refl] show ?thesis
    using run by (auto simp: own_paths_def has_arg_def installService_def installUpdatePath_def installUpdateService_def installBinPath_def)
qed

text \<open>The guard looks at the path with its backslashes turned; what is removed is the path as it was written, which on the
  systems the program runs on is then relative.  And two levels are enough for it.\<close>

lemma guard_reads_another_path:
  "safeToRemove [CHR 0x5C, CHR ''v'', CHR 0x5C, CHR ''l''] \<and> safeToRemove ''/var/lib'' \<and> safeToRemove ''/usr/bin'' \<and> \<not> safeToRemove ''./data''"
  by code_simp

end
