(* ===== verification/Command_Guarantees.thy ===== *)
theory Command_Guarantees
  imports Commands Gateway
begin

text \<open>
  What the commands mean to the running gateway: a locked account is out at once, and where the plain port sends people.
\<close>

section \<open>Locking\<close>

lemma status_command:
  assumes "run_state (userSetStatus st args) w = (CliDone, w')"
  shows "\<exists>u. UserByName (fst (splitName args)) (w_db w) = Inr u \<and>
    users (w_db w') = update_where (\<lambda>v. u_id v = u_id u) (\<lambda>v. v\<lparr>u_status := st\<rparr>) (users (w_db w))"
  using assms unfolding userSetStatus_def Let_def
  by (auto simp: with_user_def after_exec_def cli_audit_def run_simps SetUserStatus_def RevokeGrantsForUser_def
      split: sum.split_asm if_split_asm prod.split_asm)

lemma locked_rows:
  assumes "users d = update_where (\<lambda>v. u_id v = i) (\<lambda>v. v\<lparr>u_status := st\<rparr>) us" and "st \<noteq> ''active''"
    and "UserByID j d = Inr v" and "is_active v"
  shows "j \<noteq> i"
proof
  assume "j = i"
  from assms(3) have v: "v \<in> set (users d)" "u_id v = j"
    by (auto simp: UserByID_def row_or_not_found_def split: option.split_asm dest: find_holds)
  with assms(1) obtain x where "x \<in> set us" "v = (if u_id x = i then x\<lparr>u_status := st\<rparr> else x)"
    by (auto simp: set_update_where)
  with v \<open>j = i\<close> assms(2,4) show False by (auto simp: is_active_def split: if_splits)
qed

lemma claim_keeps_users: "claim_token now th src d = Inr d1 \<Longrightarrow> users d1 = users d"
  by (auto simp: claim_token_def Let_def split: if_splits)

text \<open>C31. Locking an account from the command line takes effect at once: after the command has reported success, the gateway
  lets no connection through on a grant or a redirect token of that account, whatever is still open and whatever statement
  failed on the way; only other accounts get in.\<close>

theorem locked_account_is_out:
  assumes "run_state (userSetStatus st args) w = (CliDone, w')" and "st \<noteq> ''active''"
  shows "\<exists>u. UserByName (fst (splitName args)) (w_db w) = Inr u \<and>
    (\<forall>C src d w2. run_state (Authorize C src) w' = (d, w2) \<and> dc_allow d \<longrightarrow>
      (\<exists>g. ActiveGrant (key C src) (unix (w_clock w' (w_tick w'))) (w_db w') = Inr g \<and> dc_grant d = g_id g \<and> g_user g \<noteq> u_id u)) \<and>
    (\<forall>E C src token d w2. run_state (AuthorizeToken E C src token) w' = (d, w2) \<and> dc_allow d \<longrightarrow>
      (\<exists>rt d1. claim_token (unix (w_clock w' (w_tick w'))) (HashToken E token) (key C src) (w_db w') = Inr d1 \<and>
        token_by_hash (HashToken E token) d1 = Inr rt \<and> r_user rt \<noteq> u_id u))"
proof -
  from status_command [OF assms(1)] obtain u where u: "UserByName (fst (splitName args)) (w_db w) = Inr u"
    "users (w_db w') = update_where (\<lambda>v. u_id v = u_id u) (\<lambda>v. v\<lparr>u_status := st\<rparr>) (users (w_db w))" by blast
  note out = locked_rows [OF _ assms(2)]
  have "\<exists>g. ActiveGrant (key C src) (unix (w_clock w' (w_tick w'))) (w_db w') = Inr g \<and> dc_grant d = g_id g \<and> g_user g \<noteq> u_id u"
    if "run_state (Authorize C src) w' = (d, w2) \<and> dc_allow d" for C src d w2
    using Authorize_allow [of C src w' d w2] that out [OF u(2)] by (auto simp: allow_def)
  moreover have "\<exists>rt d1. claim_token (unix (w_clock w' (w_tick w'))) (HashToken E token) (key C src) (w_db w') = Inr d1 \<and>
      token_by_hash (HashToken E token) d1 = Inr rt \<and> r_user rt \<noteq> u_id u"
    if allowed: "run_state (AuthorizeToken E C src token) w' = (d, w2) \<and> dc_allow d" for E C src token d w2
  proof -
    obtain d1 rt v and t :: target where c: "claim_token (unix (w_clock w' (w_tick w'))) (HashToken E token) (key C src) (w_db w') = Inr d1"
      "token_by_hash (HashToken E token) d1 = Inr rt" "UserByID (r_user rt) d1 = Inr v" "CanReach v (t_id t) d1"
      using AuthorizeToken_allow [OF conjunct1 [OF allowed] conjunct2 [OF allowed]] by blast
    from out [OF _ c(3)] c(4) claim_keeps_users [OF c(1)] u(2) have "r_user rt \<noteq> u_id u" by (auto simp: CanReach_iff)
    with c show ?thesis by blast
  qed
  ultimately show ?thesis using u(1) by blast
qed

lemma alice_locked:
  "fst (run_state (userSetStatus ''locked'' [''alice'']) sample_world) = CliDone"
  by code_simp

theorem locked_account_is_out_witness:
  "\<exists>w' u. run_state (userSetStatus ''locked'' [''alice'']) sample_world = (CliDone, w') \<and> UserByName ''alice'' (w_db sample_world) = Inr u \<and>
    (\<forall>C src d w2. run_state (Authorize C src) w' = (d, w2) \<and> dc_allow d \<longrightarrow>
      (\<exists>g. ActiveGrant (key C src) (unix (w_clock w' (w_tick w'))) (w_db w') = Inr g \<and> dc_grant d = g_id g \<and> g_user g \<noteq> u_id u))"
proof -
  obtain w' where run: "run_state (userSetStatus ''locked'' [''alice'']) sample_world = (CliDone, w')"
    using alice_locked by (metis prod.collapse)
  have "''locked'' \<noteq> ''active''" by simp
  moreover have "fst (splitName [''alice'']) = ''alice''" by code_simp
  ultimately show ?thesis using locked_account_is_out [OF run] run by auto
qed

section \<open>The plain port\<close>

text \<open>An IPv6 address without a port keeps its brackets and gets a second pair; one with a port loses them where the portal
  is on 443.  Neither text is an address a browser can go to.\<close>

lemma redirect_breaks_ipv6:
  "redirect_target ''8443'' ''gw'' ''[2001:db8::1]'' ''/'' = ''https://[[2001:db8::1]]:8443/''"
  "redirect_target ''443'' ''gw'' ''[2001:db8::1]:80'' ''/'' = ''https://2001:db8::1/''"
  "redirect_target ''8443'' ''gw'' ''host:80'' ''/login'' = ''https://host:8443/login''"
  by code_simp+

section \<open>Words\<close>

text \<open>The value of a flag is a word like any other: given first, it is taken for the name of the machine.\<close>

lemma flag_value_taken_for_name:
  "filter (\<lambda>a. \<not> is_flag a) [''--for'', ''bob'', ''desk2'', ''10.0.0.9'', ''aa:bb:cc:dd:ee:ff''] = [''bob'', ''desk2'', ''10.0.0.9'', ''aa:bb:cc:dd:ee:ff'']"
  by code_simp

end
