(* ===== verification/Startup.thy ===== *)
theory Startup
  imports Machine_Rules Setting_Codecs Policy Duo Gateway Http
begin

text \<open>
  What happens before the gateway serves anybody: the database is brought to the latest schema
  (\<open>internal/store/store.go\<close>), a certificate is loaded or made (\<open>internal/proxy/rdp/cert.go\<close>), and \<open>cmdServe\<close>
  of \<open>cmd/revpd/main.go\<close> turns the configuration into the options of every part.  What an SQL script does to a
  database, X.509 and the addresses of the network interfaces are parameters.
\<close>

section \<open>Migrations\<close>

text \<open>\<open>sf_versions\<close> is the table of migrations that were applied, empty before it exists; \<open>sf_faults\<close> says which of
  the coming statements fail.\<close>

record 's store_file =
  sf_versions :: "(string \<times> int) list"
  sf_data :: 's
  sf_faults :: "bool list"

datatype open_error = NotOpenedFile | NoPing | NoMigrationTable | VersionsUnread | NotBegun string | NotApplied string
  | NotRecorded string | NotCommitted string

definition statement_fails :: "('s store_file, bool) state" where
  "statement_fails = State (\<lambda>s. case sf_faults s of [] \<Rightarrow> (False, s) | f # fs \<Rightarrow> (f, s\<lparr>sf_faults := fs\<rparr>))"

definition trim_suffix :: "string \<Rightarrow> string \<Rightarrow> string" where
  "trim_suffix s suf = rev (trim_prefix (rev s) (rev suf))"

definition version_of :: "string \<Rightarrow> string" where
  "version_of f = trim_suffix (trim_prefix f ''migrations/'') ''.sql''"

text \<open>One migration is one transaction: the script and the row that records it, or neither.\<close>

definition migrate_one ::
    "(string \<Rightarrow> 's \<Rightarrow> 's option) \<Rightarrow> int \<Rightarrow> string \<Rightarrow> string \<Rightarrow> ('s store_file, open_error option) state" where
  "migrate_one script now v body = do {
     b \<leftarrow> statement_fails;
     if b then State_Monad.return (Some (NotBegun v))
     else do {
       a \<leftarrow> statement_fails;
       s \<leftarrow> State (\<lambda>s. (s, s));
       case (if a then None else script body (sf_data s)) of
         None \<Rightarrow> State_Monad.return (Some (NotApplied v))
       | Some d \<Rightarrow> do {
           r \<leftarrow> statement_fails;
           if r \<or> v \<in> fst ` set (sf_versions s) then State_Monad.return (Some (NotRecorded v))
           else do {
             c \<leftarrow> statement_fails;
             if c then State_Monad.return (Some (NotCommitted v))
             else State (\<lambda>s. (None, s\<lparr>sf_data := d, sf_versions := sf_versions s @ [(v, now)]\<rparr>))
           }
         }
     }
   }"

fun migrate_files ::
    "(string \<Rightarrow> 's \<Rightarrow> 's option) \<Rightarrow> int \<Rightarrow> string set \<Rightarrow> (string \<times> string) list \<Rightarrow> ('s store_file, open_error option) state"
  where
  "migrate_files script now applied [] = State_Monad.return None"
| "migrate_files script now applied ((f, body) # fs) =
     (if version_of f \<in> applied then migrate_files script now applied fs
      else do {
        e \<leftarrow> migrate_one script now (version_of f) body;
        case e of Some x \<Rightarrow> State_Monad.return (Some x) | None \<Rightarrow> migrate_files script now applied fs
      })"

definition migrate ::
    "(string \<Rightarrow> 's \<Rightarrow> 's option) \<Rightarrow> int \<Rightarrow> (string \<times> string) list \<Rightarrow> ('s store_file, open_error option) state" where
  "migrate script now files = do {
     c \<leftarrow> statement_fails;
     if c then State_Monad.return (Some NoMigrationTable)
     else do {
       q \<leftarrow> statement_fails;
       if q then State_Monad.return (Some VersionsUnread)
       else do {
         s \<leftarrow> State (\<lambda>s. (s, s));
         migrate_files script now (fst ` set (sf_versions s)) (sort_key fst files)
       }
     }
   }"

definition open_store ::
    "(string \<Rightarrow> 's \<Rightarrow> 's option) \<Rightarrow> int \<Rightarrow> (string \<times> string) list \<Rightarrow> ('s store_file, open_error option) state" where
  "open_store script now files = do {
     opened \<leftarrow> statement_fails;
     if opened then State_Monad.return (Some NotOpenedFile)
     else do {
       p \<leftarrow> statement_fails;
       if p then State_Monad.return (Some NoPing) else migrate script now files
     }
   }"

text \<open>\<open>BackupTo\<close>: the path is quoted by hand.\<close>

definition sql_quote :: "string \<Rightarrow> string" where
  "sql_quote s = squote # concat (map (\<lambda>c. if c = squote then [squote, squote] else [c]) s) @ [squote]"

definition backup_statement :: "string \<Rightarrow> string" where
  "backup_statement path = ''VACUUM INTO '' @ sql_quote path"

subsection \<open>An opening that fails can be repeated\<close>

text \<open>How SQL reads a literal: the text up to the first quote that is not doubled, and what follows it.\<close>

fun read_quoted :: "string \<Rightarrow> (string \<times> string) option" where
  "read_quoted [] = None"
| "read_quoted (c # s) =
     (if c \<noteq> squote then map_option (apfst ((#) c)) (read_quoted s)
      else case s of [] \<Rightarrow> Some ([], [])
        | c2 # s2 \<Rightarrow> if c2 = squote then map_option (apfst ((#) squote)) (read_quoted s2) else Some ([], s))"

lemma quoted_path_is_the_path: "read_quoted (tl (sql_quote path)) = Some (path, [])"
  by (induction path) (auto simp: sql_quote_def)

text \<open>What the scripts of a list of files make of a database, one after the other.\<close>

fun replay :: "(string \<Rightarrow> 's \<Rightarrow> 's option) \<Rightarrow> (string \<times> string) list \<Rightarrow> 's \<Rightarrow> 's option" where
  "replay script [] d = Some d"
| "replay script ((f, body) # fs) d = Option.bind (script body d) (replay script fs)"

definition missing :: "'s store_file \<Rightarrow> (string \<times> string) list \<Rightarrow> (string \<times> string) list" where
  "missing s files = filter (\<lambda>(f, _). version_of f \<notin> fst ` set (sf_versions s)) (sort_key fst files)"

lemma replay_append: "replay script (fs @ gs) d = Option.bind (replay script fs d) (replay script gs)"
  by (induction fs arbitrary: d) (auto split: bind_split)

lemma migrate_one_result:
  assumes "run_state (migrate_one script now v body) s = (e, s')"
  shows "(e = None \<longrightarrow> script body (sf_data s) = Some (sf_data s') \<and> sf_versions s' = sf_versions s @ [(v, now)]) \<and>
     (e \<noteq> None \<longrightarrow> sf_data s' = sf_data s \<and> sf_versions s' = sf_versions s)"
  using assms
  by (auto simp: migrate_one_def statement_fails_def split: list.splits if_splits option.splits)

lemma migrate_files_result:
  assumes "run_state (migrate_files script now applied fs) s = (e, s')"
  shows "\<exists>k. let todo = filter (\<lambda>(f, _). version_of f \<notin> applied) fs in
     sf_versions s' = sf_versions s @ map (\<lambda>(f, _). (version_of f, now)) (take k todo) \<and>
     replay script (take k todo) (sf_data s) = Some (sf_data s') \<and> (e = None \<longrightarrow> length todo \<le> k)"
  using assms
proof (induction fs arbitrary: s)
  case Nil
  then show ?case by simp
next
  case (Cons p fs)
  obtain f body where p: "p = (f, body)" by fastforce
  show ?case
  proof (cases "version_of f \<in> applied")
    case True
    with Cons p show ?thesis by simp
  next
    case False
    obtain e1 s1 where one: "run_state (migrate_one script now (version_of f) body) s = (e1, s1)" by fastforce
    note r = migrate_one_result [OF one]
    show ?thesis
    proof (cases e1)
      case None
      then have "run_state (migrate_files script now applied fs) s1 = (e, s')" using Cons.prems p False one by simp
      from Cons.IH [OF this] obtain k where k: "let todo = filter (\<lambda>(f, _). version_of f \<notin> applied) fs in
         sf_versions s' = sf_versions s1 @ map (\<lambda>(f, _). (version_of f, now)) (take k todo) \<and>
         replay script (take k todo) (sf_data s1) = Some (sf_data s') \<and> (e = None \<longrightarrow> length todo \<le> k)" by blast
      show ?thesis using k r None False p by (intro exI [of _ "Suc k"]) (simp add: Let_def)
    next
      case (Some x)
      then have "e = Some x" "s' = s1" using Cons.prems p False one by auto
      then show ?thesis using r Some by (intro exI [of _ 0]) (simp add: Let_def)
    qed
  qed
qed

text \<open>
  However opening the database ends, the scripts of some of the missing migrations, in the order of their names, have
  been run whole, they are the ones recorded, and on success there are none left.
\<close>

theorem open_applies_a_prefix:
  assumes "run_state (open_store script now files) s = (e, s')"
  shows "\<exists>k. sf_versions s' = sf_versions s @ map (\<lambda>(f, _). (version_of f, now)) (take k (missing s files)) \<and>
     replay script (take k (missing s files)) (sf_data s) = Some (sf_data s') \<and> (e = None \<longrightarrow> length (missing s files) \<le> k)"
proof -
  have stop: "\<exists>k. sf_versions s' = sf_versions s @ map (\<lambda>(f, _). (version_of f, now)) (take k (missing s files)) \<and>
     replay script (take k (missing s files)) (sf_data s) = Some (sf_data s') \<and> (e = None \<longrightarrow> length (missing s files) \<le> k)"
    if "e \<noteq> None" "sf_versions s' = sf_versions s" "sf_data s' = sf_data s"
    by (rule exI [of _ 0]) (use that in auto)
  have run: "\<exists>k. sf_versions s' = sf_versions s @ map (\<lambda>(f, _). (version_of f, now)) (take k (missing s files)) \<and>
     replay script (take k (missing s files)) (sf_data s) = Some (sf_data s') \<and> (e = None \<longrightarrow> length (missing s files) \<le> k)"
    if "run_state (migrate_files script now (fst ` set (sf_versions s)) (sort_key fst files)) t = (e, s')"
      "sf_versions t = sf_versions s" "sf_data t = sf_data s" for t
    using migrate_files_result [OF that(1)] that(2,3) by (simp add: missing_def Let_def)
  from assms show ?thesis
    unfolding open_store_def migrate_def statement_fails_def
    by (auto split: list.split_asm if_split_asm intro: stop run)
qed

lemma recorded_names: "map fst (map (\<lambda>(f, _). (version_of f, now)) fs) = map (version_of \<circ> fst) fs"
  by (induction fs) auto

text \<open>So an opening that failed half-way is made good by the next one.\<close>

theorem reopening_completes:
  assumes "run_state (open_store script now files) s = (e, s1)"
    and "run_state (open_store script later files) s1 = (None, s2)"
    and "distinct (map (version_of \<circ> fst) files)"
  shows "replay script (missing s files) (sf_data s) = Some (sf_data s2) \<and>
     map fst (sf_versions s2) = map fst (sf_versions s) @ map (version_of \<circ> fst) (missing s files)"
proof -
  obtain k where k: "sf_versions s1 = sf_versions s @ map (\<lambda>(f, _). (version_of f, now)) (take k (missing s files))"
      "replay script (take k (missing s files)) (sf_data s) = Some (sf_data s1)"
    using open_applies_a_prefix [OF assms(1)] by blast
  have d: "distinct (map (version_of \<circ> fst) (missing s files))"
  proof -
    have "inj_on (version_of \<circ> fst) (set files)" "distinct files" using assms(3) by (auto simp: distinct_map)
    then show ?thesis by (auto simp: missing_def distinct_map intro: inj_on_subset)
  qed
  have part: "fst ` set (sf_versions s1) = fst ` set (sf_versions s) \<union> (version_of \<circ> fst) ` set (take k (missing s files))"
    by (auto simp: k(1) image_iff split: prod.splits) force+
  have split: "missing s files = take k (missing s files) @ drop k (missing s files)" by simp
  have left: "missing s1 files = filter (\<lambda>(f, _). version_of f \<notin> fst ` set (sf_versions s1)) (missing s files)"
    unfolding missing_def filter_filter by (rule filter_cong) (auto simp: k(1))
  have "\<forall>x \<in> set (take k (missing s files)). version_of (fst x) \<in> fst ` set (sf_versions s1)"
    unfolding part by simp
  then have "filter (\<lambda>(f, _). version_of f \<notin> fst ` set (sf_versions s1)) (take k (missing s files)) = []"
    unfolding filter_empty_conv by (metis fst_conv surj_pair case_prod_conv)
  moreover have fresh: "version_of (fst x) \<notin> fst ` set (sf_versions s1)" if x: "x \<in> set (drop k (missing s files))" for x
  proof
    assume b: "version_of (fst x) \<in> fst ` set (sf_versions s1)"
    have "x \<in> set (missing s files)" using x by (rule in_set_dropD)
    then have "version_of (fst x) \<notin> fst ` set (sf_versions s)" by (simp add: missing_def split_beta)
    then have "version_of (fst x) \<in> set (map (version_of \<circ> fst) (take k (missing s files)))" using b part by auto
    moreover have "version_of (fst x) \<in> set (map (version_of \<circ> fst) (drop k (missing s files)))" using x by force
    moreover have "distinct (map (version_of \<circ> fst) (take k (missing s files) @ drop k (missing s files)))" using d by simp
    ultimately show False unfolding map_append distinct_append by blast
  qed
  moreover have "filter (\<lambda>(f, _). version_of f \<notin> fst ` set (sf_versions s1)) (drop k (missing s files)) = drop k (missing s files)"
    using fresh by (intro filter_True ballI) (simp add: split_beta)
  ultimately have rest: "missing s1 files = drop k (missing s files)"
    unfolding left by (subst split, subst filter_append) simp
  obtain j where j: "sf_versions s2 = sf_versions s1 @ map (\<lambda>(f, _). (version_of f, later)) (take j (missing s1 files))"
      "replay script (take j (missing s1 files)) (sf_data s1) = Some (sf_data s2)" "length (missing s1 files) \<le> j"
    using open_applies_a_prefix [OF assms(2)] by blast
  have all: "take j (missing s1 files) = drop k (missing s files)" using j(3) rest by simp
  have "replay script (take k (missing s files) @ drop k (missing s files)) (sf_data s) = Some (sf_data s2)"
    unfolding replay_append using k(2) j(2) all by simp
  moreover have "map fst (sf_versions s2) = map fst (sf_versions s) @
      map (version_of \<circ> fst) (take k (missing s files) @ drop k (missing s files))"
    unfolding j(1) k(1) all map_append recorded_names append_assoc by (rule refl)
  ultimately show ?thesis unfolding append_take_drop_id by blast
qed

section \<open>The certificate\<close>

record leaf =
  lf_until :: time
  lf_ips :: "ip list"

record cert_template =
  ct_name :: string
  ct_dns :: "string list"
  ct_ips :: "ip list"
  ct_from :: time
  ct_until :: time

text \<open>
  Reading a pair out of two PEM files, its first certificate, making a pair signed by itself (with its two
  files), and what the interfaces hold.  Making fails where random numbers or the encoding do.
\<close>

record 'c cert_library =
  cl_pair :: "string \<Rightarrow> string \<Rightarrow> 'c option"
  cl_leaf :: "'c \<Rightarrow> leaf option"
  cl_self :: "cert_template \<Rightarrow> ('c \<times> string \<times> string) option"
  cl_local :: "ip list option"

datatype cert_error = PairNotLoaded | PairNotMade | CertDirNotMade | CertNotWritten | KeyNotWritten

definition localIPs :: "'c cert_library \<Rightarrow> ip list" where
  "localIPs L = (case cl_local L of None \<Rightarrow> []
     | Some addrs \<Rightarrow> filter (\<lambda>a. \<not> IsLoopback a \<and> \<not> IsLinkLocalUnicast a \<and> \<not> IsUnspecified a) addrs)"

definition coversLocalAddresses :: "'c cert_library \<Rightarrow> leaf \<Rightarrow> bool" where
  "coversLocalAddresses L lf \<longleftrightarrow> list_all (\<lambda>a. list_ex (\<lambda>w. ip_equal w a) (lf_ips lf)) (localIPs L)"

text \<open>The first of several with the same key stays; of addresses the key is their text.\<close>

fun dedup :: "('a \<Rightarrow> 'k) \<Rightarrow> 'k set \<Rightarrow> 'a list \<Rightarrow> 'a list" where
  "dedup kf seen [] = []"
| "dedup kf seen (x # xs) = (if kf x \<in> seen then dedup kf seen xs else x # dedup kf (insert (kf x) seen) xs)"

definition sanFor :: "'c cert_library \<Rightarrow> string \<Rightarrow> string list \<times> ip list" where
  "sanFor L hostname =
     (let a = ParseIP hostname;
          dns = (if a = NilIP \<and> hostname \<noteq> [] \<and> hostname \<noteq> ''localhost'' then [''localhost'', hostname] else [''localhost'']);
          ips = [as16 (V4 0x7F000001), V6 1] @ (if a = NilIP then [] else [a]) @ localIPs L in
      (dedup id {} dns, dedup ip_string {} ips))"

definition selfSigned :: "'c cert_library \<Rightarrow> string \<Rightarrow> ('s, ('c \<times> string \<times> string) option) op" where
  "selfSigned L hostname0 = do {
     let hostname = (if hostname0 = [] then ''revpd'' else hostname0);
     t1 \<leftarrow> read_time;
     t2 \<leftarrow> read_time;
     yield_op (cl_self L \<lparr>ct_name = hostname, ct_dns = fst (sanFor L hostname), ct_ips = snd (sanFor L hostname),
       ct_from = t1 - seconds 3600, ct_until = t2 + seconds (825 * 86400)\<rparr>)
   }"

definition load_pair :: "'c cert_library \<Rightarrow> string \<Rightarrow> string \<Rightarrow> ('s, 'c option) op" where
  "load_pair L crt pem = do {
     a \<leftarrow> read_file crt;
     case a of Inl _ \<Rightarrow> yield_op None
     | Inr c \<Rightarrow> do {
         b \<leftarrow> read_file pem;
         yield_op (case b of Inl _ \<Rightarrow> None | Inr k \<Rightarrow> cl_pair L c k)
       }
   }"

text \<open>The pair kept in the directory is good for another thirty days and for every address of the machine.\<close>

definition still_good :: "'c cert_library \<Rightarrow> 'c option \<Rightarrow> time \<Rightarrow> bool" where
  "still_good L pair now \<longleftrightarrow>
     (case Option.bind pair (cl_leaf L) of None \<Rightarrow> False
      | Some lf \<Rightarrow> seconds (30 * 86400) < lf_until lf - now \<and> coversLocalAddresses L lf)"

definition make_pair :: "'c cert_library \<Rightarrow> string \<Rightarrow> string \<Rightarrow> ('s, cert_error + 'c) op" where
  "make_pair L dir hostname = do {
     made \<leftarrow> selfSigned L hostname;
     case made of None \<Rightarrow> yield_op (Inl PairNotMade)
     | Some (c, crt, pem) \<Rightarrow> do {
         d \<leftarrow> make_dir;
         if \<not> d then yield_op (Inl CertDirNotMade)
         else do {
           a \<leftarrow> write_file (in_dir dir ''rdp-cert.pem'') crt;
           if \<not> a then yield_op (Inl CertNotWritten)
           else do {
             b \<leftarrow> write_file (in_dir dir ''rdp-key.pem'') pem;
             yield_op (if b then Inr c else Inl KeyNotWritten)
           }
         }
       }
   }"

definition LoadOrCreateCert ::
    "'c cert_library \<Rightarrow> string \<Rightarrow> string \<Rightarrow> string \<Rightarrow> string \<Rightarrow> ('s, cert_error + 'c) op" where
  "LoadOrCreateCert L dir hostname certFile keyFile =
     (if certFile \<noteq> [] \<and> keyFile \<noteq> [] then do {
        c \<leftarrow> load_pair L certFile keyFile;
        yield_op (case c of None \<Rightarrow> Inl PairNotLoaded | Some x \<Rightarrow> Inr x)
      }
      else do {
        c \<leftarrow> load_pair L (in_dir dir ''rdp-cert.pem'') (in_dir dir ''rdp-key.pem'');
        now \<leftarrow> read_time;
        if still_good L c now then yield_op (Inr (the c)) else make_pair L dir hostname
      })"

subsection \<open>What it covers\<close>

lemma dedup_keys: "kf ` set (dedup kf seen xs) = kf ` set xs - seen"
  by (induction xs arbitrary: seen) auto

lemma san_covers:
  "coversLocalAddresses L \<lparr>lf_until = t, lf_ips = snd (sanFor L hostname)\<rparr>"
  "''localhost'' \<in> set (fst (sanFor L hostname))"
  "ParseIP hostname \<noteq> NilIP \<Longrightarrow> \<exists>a \<in> set (snd (sanFor L hostname)). ip_equal a (ParseIP hostname)"
  "ParseIP hostname = NilIP \<Longrightarrow> hostname \<noteq> [] \<Longrightarrow> hostname \<in> set (fst (sanFor L hostname))"
proof -
  have keys: "ip_string ` set (snd (sanFor L hostname)) \<supseteq> ip_string ` set (localIPs L)"
      "ParseIP hostname \<noteq> NilIP \<Longrightarrow> ip_string (ParseIP hostname) \<in> ip_string ` set (snd (sanFor L hostname))"
    by (auto simp: sanFor_def Let_def dedup_keys image_Un simp del: dedup.simps)
  then show "coversLocalAddresses L \<lparr>lf_until = t, lf_ips = snd (sanFor L hostname)\<rparr>"
    unfolding coversLocalAddresses_def list_all_iff list_ex_iff ip_equal_def by fastforce
  show "ParseIP hostname \<noteq> NilIP \<Longrightarrow> \<exists>a \<in> set (snd (sanFor L hostname)). ip_equal a (ParseIP hostname)"
    using keys(2) unfolding ip_equal_def by force
qed (auto simp: sanFor_def Let_def)

text \<open>
  Without a pair of the administrator's own, the certificate that is presented is either one that has more than thirty
  days left and names every address of the machine, or it was made just now, names them all and the host, and is what
  the two files hold.
\<close>

lemma load_pair_result:
  assumes "run_state (load_pair L crt pem) m = (c, m')"
  shows "only none_of m m' \<and> mc_now m' = mc_now m"
  using assms by (auto simp: load_pair_def read_file_def op_simps split: prod.split_asm sum.split_asm disk_error.split_asm)

lemma after_self:
  assumes "\<And>T m'. only none_of m m' \<Longrightarrow> mc_now m + seconds (825 * 86400) \<le> ct_until T \<Longrightarrow>
     coversLocalAddresses L \<lparr>lf_until = ct_until T, lf_ips = ct_ips T\<rparr> \<Longrightarrow> Q (cl_self L T) m'"
  shows "after (selfSigned L hostname) m Q"
  unfolding selfSigned_def after_simps Let_def
proof (rule after_time, rule after_time)
  fix t m1 u m2
  assume "only none_of m m1" "t = mc_now m1" "mc_now m \<le> t" "only none_of m1 m2" "u = mc_now m2" "mc_now m1 \<le> u"
  then show "Q (cl_self L \<lparr>ct_name = (if hostname = [] then ''revpd'' else hostname),
     ct_dns = fst (sanFor L (if hostname = [] then ''revpd'' else hostname)),
     ct_ips = snd (sanFor L (if hostname = [] then ''revpd'' else hostname)),
     ct_from = t - seconds 3600, ct_until = u + seconds (825 * 86400)\<rparr>) m2"
    by (intro assms) (auto simp del: if_split intro: only_trans san_covers(1))
qed

lemma after_make_pair:
  fixes m :: "'s machine" and L :: "'c cert_library"
  assumes "\<And>T c crt pem m'. cl_self L T = Some (c, crt, pem) \<Longrightarrow> mc_now m + seconds (825 * 86400) \<le> ct_until T \<Longrightarrow>
       coversLocalAddresses L \<lparr>lf_until = ct_until T, lf_ips = ct_ips T\<rparr> \<Longrightarrow>
       data_at m' (in_dir dir ''rdp-cert.pem'') = Some crt \<Longrightarrow> data_at m' (in_dir dir ''rdp-key.pem'') = Some pem \<Longrightarrow> Q (Inr c) m'"
    and "\<And>e m'. Q (Inl e) m'"
  shows "after (make_pair L dir hostname) m Q"
  unfolding make_pair_def after_bind
proof (rule after_self)
  fix T :: cert_template and m1
  assume T: "mc_now m + seconds (825 * 86400) \<le> ct_until T" "coversLocalAddresses L \<lparr>lf_until = ct_until T, lf_ips = ct_ips T\<rparr>"
  have apart: "in_dir dir ''rdp-key.pem'' \<noteq> in_dir dir ''rdp-cert.pem''" by (simp add: in_dir_def)
  have written: "after (write_file (in_dir dir ''rdp-cert.pem'') crt) m2 (\<lambda>a m3.
      after (if \<not> a then yield_op (Inl CertNotWritten) else State_Monad.bind (write_file (in_dir dir ''rdp-key.pem'') pem)
        (\<lambda>b. yield_op (if b then Inr c else Inl KeyNotWritten))) m3 Q)"
    if "cl_self L T = Some (c, crt, pem)" for c crt pem and m2 :: "'s machine"
  proof (rule after_write)
    fix a and m3 :: "'s machine" assume a: "a \<Longrightarrow> data_at m3 (in_dir dir ''rdp-cert.pem'') = Some crt"
    show "after (if \<not> a then yield_op (Inl CertNotWritten) else State_Monad.bind (write_file (in_dir dir ''rdp-key.pem'') pem)
        (\<lambda>b. yield_op (if b then Inr c else Inl KeyNotWritten))) m3 Q"
    proof (cases a)
      case True
      have "after (write_file (in_dir dir ''rdp-key.pem'') pem) m3
        (\<lambda>b m4. after (yield_op (if b then Inr c else Inl KeyNotWritten)) m4 Q)"
      proof (rule after_write)
        fix b and m4 :: "'s machine"
        assume o: "only ((=) (in_dir dir ''rdp-key.pem'')) m3 m4" and b: "b \<Longrightarrow> data_at m4 (in_dir dir ''rdp-key.pem'') = Some pem"
        have "data_at m4 (in_dir dir ''rdp-cert.pem'') = Some crt"
          using only_data [OF o apart] a [OF True] by simp
        then show "after (yield_op (if b then Inr c else Inl KeyNotWritten)) m4 Q"
          using assms(1) [OF that T] b assms(2) by (cases b) (simp_all add: after_yield)
      qed
      then show ?thesis using True by (simp add: after_bind)
    qed (simp add: after_simps assms(2))
  qed
  show "after (case cl_self L T of None \<Rightarrow> yield_op (Inl PairNotMade)
     | Some (c, crt, pem) \<Rightarrow> do {
         d \<leftarrow> make_dir;
         if \<not> d then yield_op (Inl CertDirNotMade)
         else do {
           a \<leftarrow> write_file (in_dir dir ''rdp-cert.pem'') crt;
           if \<not> a then yield_op (Inl CertNotWritten)
           else do {
             b \<leftarrow> write_file (in_dir dir ''rdp-key.pem'') pem;
             yield_op (if b then Inr c else Inl KeyNotWritten)
           }
         }
       }) m1 Q"
  proof (cases "cl_self L T")
    case (Some r)
    obtain c crt pem where r: "r = (c, crt, pem)" by (metis surj_pair)
    show ?thesis
      unfolding Some r option.case prod.case after_bind
      by (rule after_mkdir) (auto simp: after_yield after_bind assms(2) intro: written Some [unfolded r])
  qed (simp add: after_simps assms(2))
qed

theorem certificate_is_current:
  assumes "run_state (LoadOrCreateCert L dir hostname certFile keyFile) m = (Inr c, m')" and "certFile = [] \<or> keyFile = []"
  shows "(\<exists>lf now. cl_leaf L c = Some lf \<and> seconds (30 * 86400) < lf_until lf - now \<and> mc_now m \<le> now \<and>
       coversLocalAddresses L lf \<and> only none_of m m') \<or>
     (\<exists>T crt pem. cl_self L T = Some (c, crt, pem) \<and> mc_now m + seconds (825 * 86400) \<le> ct_until T \<and>
       coversLocalAddresses L \<lparr>lf_until = ct_until T, lf_ips = ct_ips T\<rparr> \<and>
       data_at m' (in_dir dir ''rdp-cert.pem'') = Some crt \<and> data_at m' (in_dir dir ''rdp-key.pem'') = Some pem)"
proof -
  obtain pair m1 where load: "run_state (load_pair L (in_dir dir ''rdp-cert.pem'') (in_dir dir ''rdp-key.pem'')) m = (pair, m1)"
    by fastforce
  note same = load_pair_result [OF load]
  obtain now m2 where time: "run_state read_time m1 = (now, m2)" by fastforce
  have step: "only none_of m1 m2 \<and> now = mc_now m2 \<and> mc_now m1 \<le> now"
    using after_time [of m1 "\<lambda>t m'. only none_of m1 m' \<and> t = mc_now m' \<and> mc_now m1 \<le> t"] time by (simp add: after_def)
  have rest: "run_state (if still_good L pair now then yield_op (Inr (the pair)) else make_pair L dir hostname) m2 = (Inr c, m')"
    using assms load time by (auto simp: LoadOrCreateCert_def)
  show ?thesis
  proof (cases "still_good L pair now")
    case True
    then have "c = the pair" "m' = m2" using rest by auto
    then show ?thesis using True same step only_trans [of none_of m m1 none_of m2 none_of]
      by (auto simp: still_good_def split: bind_splits option.splits)
  next
    case False
    then have "run_state (make_pair L dir hostname) m2 = (Inr c, m')" using rest by simp
    moreover have "after (make_pair L dir hostname) m2 (\<lambda>r m'. \<forall>c. r = Inr c \<longrightarrow>
       (\<exists>T crt pem. cl_self L T = Some (c, crt, pem) \<and> mc_now m2 + seconds (825 * 86400) \<le> ct_until T \<and>
         coversLocalAddresses L \<lparr>lf_until = ct_until T, lf_ips = ct_ips T\<rparr> \<and>
         data_at m' (in_dir dir ''rdp-cert.pem'') = Some crt \<and> data_at m' (in_dir dir ''rdp-key.pem'') = Some pem))"
      by (rule after_make_pair) auto
    ultimately show ?thesis using same step by (auto simp: after_def)
  qed
qed

section \<open>Serving\<close>

text \<open>The options of the parts, out of the configuration the gateway runs with.\<close>

definition auth_options :: "config \<Rightarrow> auth_opts" where
  "auth_options c = \<lparr>o_ttl = ca_session_ttl (cf_auth c), o_idle = ca_session_idle (cf_auth c),
     o_max_failures = ca_max_failures (cf_auth c), o_lockout_base = ca_lockout_base (cf_auth c),
     o_lockout_max = ca_lockout_max (cf_auth c)\<rparr>"

definition engine_options :: "config \<Rightarrow> bytes \<Rightarrow> engine" where
  "engine_options c sealer = \<lparr>g_v4bits = cg_v4_bits (cf_grant c), g_v6bits = cg_v6_bits (cf_grant c), g_ttl = cg_ttl (cf_grant c),
     g_reuse = cg_reuse (cf_grant c), g_jit = cj_enabled (cf_jit c), g_default_target = cj_default_target (cf_jit c),
     g_require_factor = ca_second_factor (cf_auth c), g_totp_skew = ca_skew (cf_auth c),
     g_pass_through = cl_pass_through (cf_login c), g_sealer = Some sealer, g_lockout = Some (auth_options c)\<rparr>"

definition relay_options :: "config \<Rightarrow> relay_opts" where
  "relay_options c = \<lparr>ro_jit = cj_enabled (cf_jit c), ro_max_per_ip = cr_max_conns (cf_relay c)\<rparr>"

definition portal_options :: "config \<Rightarrow> bytes \<Rightarrow> portal" where
  "portal_options c sealer = \<lparr>pt_engine = engine_options c sealer, pt_auth = auth_options c, pt_sealer = sealer,
     pt_require_factor = ca_second_factor (cf_auth c), pt_totp_skew = ca_skew (cf_auth c),
     pt_backup_codes = ca_backup_codes (cf_auth c), pt_trusted = cw_proxies (cf_web c),
     pt_tls = (cw_acme (cf_web c) \<or> cw_tls_cert (cf_web c) \<noteq> []), pt_hostname = cw_hostname (cf_web c)\<rparr>"

text \<open>
  What the world answers while the gateway comes up.  The stored settings are \<open>None\<close> where they cannot be read;
  the outcomes of \<open>LoadOrCreateCert\<close> for the two listeners and of the probe sent to Duo are Booleans.
\<close>

record start_world =
  sw_config :: "load_error + config"
  sw_env :: environment
  sw_data_dir :: bool
  sw_store :: "open_error option"
  sw_audit :: bool
  sw_stored :: "(string \<times> string) list option"
  sw_duo :: "duo_client \<Rightarrow> bool"
  sw_login_cert :: bool
  sw_bind :: "string \<Rightarrow> bind_error + string"
  sw_portal_cert :: bool

datatype start_error = NoConfig load_error | NoMasterKey | BadMasterKey seal_error | NoDataDir | NoStore open_error | NoAuditLog
  | DuoIncomplete | DuoRefused | NoLoginCert | NoPortalPort listen_error | NoPortalCert

record running =
  rn_file :: config
  rn_config :: config
  rn_relay :: relay_opts
  rn_engine :: engine
  rn_portal :: portal
  rn_approver :: "duo_client option"
  rn_login :: bool
  rn_bound :: bound

text \<open>\<open>openData\<close>, down to the key; the log and the database it returns are the world's.\<close>

definition openData :: "start_world \<Rightarrow> config \<Rightarrow> start_error + bytes" where
  "openData W c =
     (let k = MasterKey (sw_env W) c in
      if k = [] then Inl NoMasterKey
      else case NewSealer k of Inl e \<Rightarrow> Inl (BadMasterKey e)
        | Inr sealer \<Rightarrow>
            if \<not> sw_data_dir W then Inl NoDataDir
            else case sw_store W of Some e \<Rightarrow> Inl (NoStore e)
              | None \<Rightarrow> if \<not> sw_audit W then Inl NoAuditLog else Inr sealer)"

definition Duo_keys :: "environment \<Rightarrow> string \<times> string \<times> string" where
  "Duo_keys env = (Getenv env ''REVPD_DUO_API_HOST'', Getenv env ''REVPD_DUO_IKEY'', Getenv env ''REVPD_DUO_SKEY'')"

definition start_approver :: "start_world \<Rightarrow> start_error + duo_client option" where
  "start_approver W =
     (case Duo_keys (sw_env W) of (host, ikey, skey) \<Rightarrow>
        if host = [] then Inr None
        else case NewClient host ikey skey of None \<Rightarrow> Inl DuoIncomplete
          | Some c \<Rightarrow> if sw_duo W c then Inr (Some c) else Inl DuoRefused)"

definition start_listeners :: "start_world \<Rightarrow> config \<Rightarrow> start_error + bound" where
  "start_listeners W c =
     (if cl_enabled (cf_login c) \<and> \<not> sw_login_cert W then Inl NoLoginCert
      else case Listen (sw_bind W) (cw_listen (cf_web c)) (cw_fallbacks (cf_web c)) of
        Inl e \<Rightarrow> Inl (NoPortalPort e)
      | Inr b \<Rightarrow> if \<not> sw_portal_cert W then Inl NoPortalCert else Inr b)"

definition cmdServe :: "start_world \<Rightarrow> start_error + running" where
  "cmdServe W =
     (case sw_config W of Inl e \<Rightarrow> Inl (NoConfig e)
      | Inr file \<Rightarrow>
          (case openData W file of Inl e \<Rightarrow> Inl e
           | Inr sealer \<Rightarrow>
               (let c = startup_config file (sw_stored W) in
                case start_approver W of Inl e \<Rightarrow> Inl e
                | Inr approver \<Rightarrow>
                    (case start_listeners W c of Inl e \<Rightarrow> Inl e
                     | Inr b \<Rightarrow> Inr \<lparr>rn_file = file, rn_config = c, rn_relay = relay_options c, rn_engine = engine_options c sealer,
                         rn_portal = portal_options c sealer, rn_approver = approver, rn_login = cl_enabled (cf_login c),
                         rn_bound = b\<rparr>))))"

text \<open>
  A gateway that comes up, out of a file that \<open>Load\<close> accepted and whatever settings are stored: connections are
  decided either inside the RDP client or by push, never both; relay, portal and policy count failures by the same options
  and with at least one attempt, seal with the same key of 32 bytes, bind addresses with prefixes that keep strangers
  apart, and give grants of at most half an hour.
\<close>

theorem started_gateway_is_sound:
  assumes "cmdServe W = Inr G" and "sw_config W = Inr file" and "Validate file = []"
  shows "well_formed (rn_config G)" and "rn_login G \<longleftrightarrow> \<not> ro_jit (rn_relay G)" and "ro_jit (rn_relay G) = g_jit (rn_engine G)"
    and "g_lockout (rn_engine G) = Some (pt_auth (rn_portal G))" and "1 \<le> o_max_failures (pt_auth (rn_portal G))"
    and "g_sealer (rn_engine G) = Some (pt_sealer (rn_portal G))" and "length (pt_sealer (rn_portal G)) = 32"
    and "16 \<le> g_v4bits (rn_engine G) \<and> g_v4bits (rn_engine G) \<le> 32" and "32 \<le> g_v6bits (rn_engine G) \<and> g_v6bits (rn_engine G) \<le> 128"
    and "0 < g_ttl (rn_engine G) \<and> g_ttl (rn_engine G) \<le> seconds 1800" and "g_totp_skew (rn_engine G) \<le> 2"
    and "pt_engine (rn_portal G) = rn_engine G"
proof -
  obtain sealer b approver where s: "openData W file = Inr sealer"
      and G: "G = \<lparr>rn_file = file, rn_config = startup_config file (sw_stored W), rn_relay = relay_options (startup_config file (sw_stored W)),
        rn_engine = engine_options (startup_config file (sw_stored W)) sealer,
        rn_portal = portal_options (startup_config file (sw_stored W)) sealer, rn_approver = approver,
        rn_login = cl_enabled (cf_login (startup_config file (sw_stored W))), rn_bound = b\<rparr>"
    using assms(1,2) by (auto simp: cmdServe_def Let_def split: sum.split_asm)
  have w: "well_formed (startup_config file (sw_stored W))"
    using assms(3) by (intro validate_well_formed startup_valid)
  have "length sealer = 32"
    using s by (auto simp: openData_def NewSealer_def Let_def split: if_split_asm sum.split_asm option.split_asm)
  then show "well_formed (rn_config G)" "rn_login G \<longleftrightarrow> \<not> ro_jit (rn_relay G)" "ro_jit (rn_relay G) = g_jit (rn_engine G)"
    "g_lockout (rn_engine G) = Some (pt_auth (rn_portal G))" "1 \<le> o_max_failures (pt_auth (rn_portal G))"
    "g_sealer (rn_engine G) = Some (pt_sealer (rn_portal G))" "length (pt_sealer (rn_portal G)) = 32"
    "16 \<le> g_v4bits (rn_engine G) \<and> g_v4bits (rn_engine G) \<le> 32" "32 \<le> g_v6bits (rn_engine G) \<and> g_v6bits (rn_engine G) \<le> 128"
    "0 < g_ttl (rn_engine G) \<and> g_ttl (rn_engine G) \<le> seconds 1800" "g_totp_skew (rn_engine G) \<le> 2" "pt_engine (rn_portal G) = rn_engine G"
    using w by (simp_all add: G formed_defs relay_options_def engine_options_def portal_options_def auth_options_def)
qed

text \<open>Duo is asked only with all three keys, and a gateway without its host name comes up without push approvals.\<close>

lemma approver_is_complete:
  "start_approver W = Inr (Some c) \<Longrightarrow> du_ikey c = Getenv (sw_env W) ''REVPD_DUO_IKEY'' \<and> du_ikey c \<noteq> [] \<and>
     du_skey c = Getenv (sw_env W) ''REVPD_DUO_SKEY'' \<and> du_skey c \<noteq> [] \<and> sw_duo W c"
  by (auto simp: start_approver_def Duo_keys_def NewClient_def split: if_split_asm option.split_asm)

end
