(* ===== verification/Operator.thy ===== *)
theory Operator
  imports Commands Backup_Guarantees Audit_Log
begin

text \<open>
  The rest of \<open>cmd/revpd\<close>: which command a command line names (\<open>run\<close> and the commands of one group), the diagnosis of
  \<open>revpd doctor\<close>, the state and control of the service, taking a backup, and the helpers for paths and columns.
  What is printed is kept where something is decided by it: of a check its name, its status and the advice.
\<close>

section \<open>Commands\<close>

datatype invoked =
    OpenMenu | ShowUsage | UserGroup "string list" | TargetGroup "string list" | AccessGroup "string list"
  | PasskeyGroup "string list" | Wake "string list" | SessionGroup "string list" | ServiceGroup "string list"
  | ShowLogs "string list" | ShowStatus | ConfigGroup "string list" | Doctor | UpdateGroup "string list"
  | TakeBackup "string list" | RestoreBackup "string list" | Uninstall "string list" | ServeGateway "string list"
  | AuditVerify "string list" | AuditShow "string list" | GenKey | UserAddOld "string list" | EnrollOld "string list"
  | TargetAddOld "string list" | ShowVersion | UnknownCommand string

definition dispatch :: "string \<Rightarrow> string list \<Rightarrow> invoked" where
  "dispatch c args =
     (if c = ''menu'' then OpenMenu
      else if c = ''user'' then UserGroup args
      else if c \<in> {''target'', ''machine''} then TargetGroup args
      else if c = ''access'' then AccessGroup args
      else if c \<in> {''passkey'', ''passkeys''} then PasskeyGroup args
      else if c = ''wake'' then Wake args
      else if c \<in> {''sessions'', ''session''} then SessionGroup args
      else if c = ''service'' then ServiceGroup args
      else if c = ''logs'' then ShowLogs args
      else if c = ''status'' then ShowStatus
      else if c = ''config'' then ConfigGroup args
      else if c \<in> {''doctor'', ''check''} then Doctor
      else if c \<in> {''update'', ''upgrade''} then UpdateGroup args
      else if c = ''backup'' then TakeBackup args
      else if c = ''restore'' then RestoreBackup args
      else if c = ''uninstall'' then Uninstall args
      else if c = ''serve'' then ServeGateway args
      else if c = ''audit'' then (if args \<noteq> [] \<and> hd args = ''verify'' then AuditVerify args else AuditShow args)
      else if c = ''genkey'' then GenKey
      else if c = ''useradd'' then UserAddOld args
      else if c = ''enroll'' then EnrollOld args
      else if c = ''targetadd'' then TargetAddOld args
      else if c \<in> {''version'', ''-v'', ''--version''} then ShowVersion
      else if c \<in> {''help'', ''-h'', ''--help''} then ShowUsage
      else UnknownCommand c)"

datatype run_outcome = Elevate elevation | Invoke invoked

definition run_command :: "process \<Rightarrow> run_outcome" where
  "run_command p =
     (case pr_args p of
        [] \<Rightarrow> Invoke (if pr_interactive p then OpenMenu else ShowUsage)
      | c # args \<Rightarrow> (let e = elevateIfNeeded p in if e \<noteq> CarryOn then Elevate e else Invoke (dispatch c args)))"

datatype group_action =
    GUserAdd "string list" | GUserList | GUserRemove "string list" | GUserReset "string list" | GUserStatus string "string list"
  | GTargetAdd "string list" | GTargetList | GTargetRemove "string list" | GAccessList | GAccess bool "string list"
  | GPasskeyList "string list" | GPasskeyRemove "string list" | GSessionKick "string list" | GSessionList | GUnknown

definition cmdUser :: "string list \<Rightarrow> group_action" where
  "cmdUser args =
     (case args of [] \<Rightarrow> GUnknown
      | a # rest \<Rightarrow>
          if a = ''add'' then GUserAdd rest
          else if a \<in> {''list'', ''ls''} then GUserList
          else if a \<in> {''rm'', ''remove'', ''delete''} then GUserRemove rest
          else if a = ''reset'' then GUserReset rest
          else if a = ''lock'' then GUserStatus ''locked'' rest
          else if a = ''unlock'' then GUserStatus ''active'' rest
          else GUnknown)"

definition cmdSessions :: "string list \<Rightarrow> group_action" where
  "cmdSessions args =
     (case args of a # rest \<Rightarrow> if a \<in> {''kick'', ''close''} then GSessionKick rest else GSessionList | [] \<Rightarrow> GSessionList)"

text \<open>Every command the rights are asked for is one the program knows, so no mistyped word asks for a password.\<close>

definition is_unknown :: "invoked \<Rightarrow> bool" where
  "is_unknown i \<longleftrightarrow> (case i of UnknownCommand _ \<Rightarrow> True | _ \<Rightarrow> False)"

lemma unknown_for_all: "is_unknown (dispatch c args) \<Longrightarrow> is_unknown (dispatch c bargs) \<and> dispatch c args = UnknownCommand c"
  unfolding dispatch_def is_unknown_def by (simp split: if_split_asm)

lemma root_commands_listed: "list_all (\<lambda>c. \<not> is_unknown (dispatch c [])) rootCommands"
  by code_simp

lemma root_commands_are_known: "c \<in> set rootCommands \<Longrightarrow> \<not> is_unknown (dispatch c args)"
  using root_commands_listed unknown_for_all [of c args "[]"] by (auto simp: list_all_iff)

lemma unknown_needs_no_root:
  "pr_args p = c # args \<Longrightarrow> is_unknown (dispatch c args) \<Longrightarrow> run_command p = Invoke (UnknownCommand c)"
  using root_commands_are_known [of c args] unknown_for_all [of c args args]
  by (auto simp: run_command_def elevateIfNeeded_def)

section \<open>Helpers\<close>

definition filepath_Join :: "string \<Rightarrow> string \<Rightarrow> string" where
  "filepath_Join a b = (if a = [] \<and> b = [] then [] else if a = [] then path_Clean b else if b = [] then path_Clean a else path_Clean (a @ ''/'' @ b))"

definition expandPath :: "string option \<Rightarrow> string \<Rightarrow> string" where
  "expandPath home p0 =
     (let p = trim_space p0 in
      if p = ''~'' \<or> has_prefix p ''~/'' then
        (case home of None \<Rightarrow> p | Some h \<Rightarrow> filepath_Join h (trim_prefix (trim_prefix p ''~'') ''/''))
      else p)"

function shrink_to :: "string \<Rightarrow> string \<Rightarrow> string" where
  "shrink_to s p = (if has_prefix s p then p else shrink_to s (butlast p))"
  by pat_completeness auto

termination
proof (relation "measure (\<lambda>(s, p). length p)")
  fix s p assume "\<not> has_prefix s p"
  then have "p \<noteq> []" by (auto simp: has_prefix_def)
  then show "((s, butlast p), (s, p)) \<in> measure (\<lambda>(s, p). length p)" by simp
qed simp

declare shrink_to.simps [simp del]

definition commonPrefix :: "string list \<Rightarrow> string" where
  "commonPrefix items = (case items of [] \<Rightarrow> [] | p # rest \<Rightarrow> foldl (\<lambda>p s. shrink_to s p) p rest)"

definition truncate_text :: "string \<Rightarrow> nat \<Rightarrow> string" where
  "truncate_text s n = (if length s \<le> n then s else if n < 2 then take n s else take (n - 1) s @ utf8 0x2026)"

text \<open>What is completed is common to all entries, and nothing longer is.\<close>

lemma shrink_to_prefix: "has_prefix s (shrink_to s p) \<and> has_prefix p (shrink_to s p) \<and>
   (\<forall>q. has_prefix s q \<and> has_prefix p q \<longrightarrow> has_prefix (shrink_to s p) q)"
proof (induction s p rule: shrink_to.induct)
  case (1 s p)
  show ?case
  proof (cases "has_prefix s p")
    case False
    then have "p \<noteq> []" by (auto simp: has_prefix_def)
    have shorter: "has_prefix (butlast p) q" if "has_prefix s q" "has_prefix p q" for q
    proof -
      have "q \<noteq> p" using that False by auto
      then have "length q < length p" using that(2) unfolding has_prefix_def
        by (metis take_all_iff le_neq_implies_less nat_le_linear)
      then have "length q \<le> length p - 1" by simp
      then show ?thesis using that(2) by (simp add: has_prefix_def butlast_conv_take min_def)
    qed
    have "has_prefix p q" if "has_prefix (butlast p) q" for q
      using that by (auto simp: has_prefix_def butlast_conv_take min_def split: if_splits)
    with 1 [OF False] shorter False show ?thesis by (auto simp: shrink_to.simps [of s p])
  qed (auto simp: shrink_to.simps [of s p] has_prefix_def)
qed

lemma has_prefix_trans: "has_prefix s p \<Longrightarrow> has_prefix p q \<Longrightarrow> has_prefix s q"
  unfolding has_prefix_def by (metis take_take min.absorb_iff1 nat_le_linear take_all_iff)

lemma shrink_all:
  "has_prefix p (foldl (\<lambda>p s. shrink_to s p) p xs) \<and> (\<forall>s \<in> set xs. has_prefix s (foldl (\<lambda>p s. shrink_to s p) p xs)) \<and>
   (\<forall>q. has_prefix p q \<and> (\<forall>s \<in> set xs. has_prefix s q) \<longrightarrow> has_prefix (foldl (\<lambda>p s. shrink_to s p) p xs) q)"
proof (induction xs arbitrary: p)
  case (Cons s xs)
  show ?case using Cons [of "shrink_to s p"] shrink_to_prefix [of s p]
    by (auto intro: has_prefix_trans)
qed (simp add: has_prefix_def)

lemma common_prefix_of_all:
  "x \<in> set items \<Longrightarrow> has_prefix x (commonPrefix items)"
  "items \<noteq> [] \<Longrightarrow> (\<And>y. y \<in> set items \<Longrightarrow> has_prefix y q) \<Longrightarrow> has_prefix (commonPrefix items) q"
  using shrink_all [of "hd items" "tl items"] by (cases items; auto simp: commonPrefix_def)+

section \<open>The service\<close>

text \<open>\<open>serviceState\<close>: what systemd printed and whether asking it failed.\<close>

definition serviceState :: "bool \<Rightarrow> string \<Rightarrow> bool \<Rightarrow> string" where
  "serviceState linux out failed =
     (if \<not> linux then ''not managed on this platform''
      else (let state = trim_space out in
        if state = ''active'' then ''running''
        else if state = ''inactive'' then ''stopped''
        else if state = ''failed'' then ''failed '' @ utf8 0x2014 @ '' see: revpd logs''
        else if failed \<and> state = [] then ''not installed''
        else state))"

datatype service_end = ServiceUsage | ServiceUnknown string | WrongPlatform | ServiceElevated elevation | SystemctlFailed | ServiceDone

text \<open>\<open>called\<close> tells whether systemctl, called like this, succeeded.\<close>

definition cmdService :: "process \<Rightarrow> bool \<Rightarrow> (string list \<Rightarrow> bool) \<Rightarrow> string list \<Rightarrow> service_end" where
  "cmdService p linux called args =
     (case args of [] \<Rightarrow> ServiceUsage
      | action # _ \<Rightarrow>
          if action \<notin> {''start'', ''stop'', ''restart'', ''status''} then ServiceUnknown action
          else if \<not> linux then WrongPlatform
          else (let may = (if action = ''status'' then CarryOn else needRoot p [''service'', action]) in
            if may \<noteq> CarryOn then ServiceElevated may
            else if \<not> called [''systemctl'', action, installUnit] \<and> action \<noteq> ''status'' then SystemctlFailed
            else ServiceDone))"

definition journal_args :: "string list \<Rightarrow> string list" where
  "journal_args args =
     (if has_arg args [''-f'', ''--follow''] then [''-u'', installUnit, ''-f'']
      else [''-u'', installUnit, ''-n'', ''50'', ''--no-pager''])"

section \<open>The diagnosis\<close>

datatype check_status = CheckOk | CheckWarn | CheckFail

record diagnosis =
  dg_name :: string
  dg_status :: check_status
  dg_fix :: string

definition fine :: "string \<Rightarrow> diagnosis" where
  "fine name = \<lparr>dg_name = name, dg_status = CheckOk, dg_fix = []\<rparr>"

definition warn :: "string \<Rightarrow> string \<Rightarrow> diagnosis" where
  "warn name fix = \<lparr>dg_name = name, dg_status = CheckWarn, dg_fix = fix\<rparr>"

definition failed_check :: "string \<Rightarrow> string \<Rightarrow> diagnosis" where
  "failed_check name fix = \<lparr>dg_name = name, dg_status = CheckFail, dg_fix = fix\<rparr>"

text \<open>What is printed at the end: nothing to do, or the advice there is.\<close>

definition summarise :: "diagnosis list \<Rightarrow> (string \<times> string) list option" where
  "summarise checks =
     (let problems = filter (\<lambda>c. dg_status c \<noteq> CheckOk) checks in
      if problems = [] then None
      else Some (map (\<lambda>c. (dg_name c, dg_fix c)) (filter (\<lambda>c. dg_fix c \<noteq> []) problems)))"

definition listening :: "(string \<Rightarrow> bool) \<Rightarrow> string \<Rightarrow> bool" where
  "listening dial addr \<longleftrightarrow>
     (case SplitHostPort addr of None \<Rightarrow> False
      | Some (h, p) \<Rightarrow> dial (JoinHostPort (if h = [] \<or> h = ''0.0.0.0'' \<or> h = ''::'' then ''127.0.0.1'' else h) p))"

text \<open>What the diagnosis finds outside the database; \<open>hs_env_mode\<close> are the permissions of the key file, if it is there.\<close>

record patient =
  hs_config :: "config option"
  hs_path :: string
  hs_env :: environment
  hs_opens :: bool
  hs_audit :: "audit_error + (chain_break option \<times> nat)"
  hs_linux :: bool
  hs_systemctl :: "string \<times> bool"
  hs_dial :: "string \<Rightarrow> bool"
  hs_env_mode :: "nat option"
  hs_exists :: "string \<Rightarrow> bool"

text \<open>Counts that cannot be read count as none.\<close>

fun without_factor :: "user list \<Rightarrow> string list act" where
  "without_factor [] = ret []"
| "without_factor (u # us) = do {
     ks \<leftarrow> query (\<lambda>d. Inr (CountPasskeys (u_id u) d));
     cs \<leftarrow> query (\<lambda>d. Inr (CountBackupCodes (u_id u) d));
     names \<leftarrow> without_factor us;
     ret (if u_totp_secret u = [] \<and> ks \<in> {Inl ErrDatabase, Inr 0} \<and> cs \<in> {Inl ErrDatabase, Inr 0}
          then u_username u # names else names)
   }"

fun reachable_by :: "user list \<Rightarrow> target \<Rightarrow> bool act" where
  "reachable_by [] t = ret False"
| "reachable_by (u # us) t = do {
     ok \<leftarrow> query (\<lambda>d. Inr (CanReach u (t_id t) d));
     if ok = Inr True then ret True else reachable_by us t
   }"

definition check_accounts :: "user list \<Rightarrow> string list \<Rightarrow> diagnosis list" where
  "check_accounts us lacking =
     (if us = [] then [failed_check ''Accounts'' ''Nobody can sign in. Create one:  revpd user add NAME --admin'']
      else if \<not> list_ex is_admin us then [warn ''Accounts'' ''Nobody can manage the gateway from the web interface.'']
      else [fine ''Accounts'']) @
     (if lacking \<noteq> [] then [warn ''Second factors'' (''Set one up:  revpd user reset '' @ hd lacking)]
      else if us \<noteq> [] then [fine ''Second factors''] else [])"

definition check_macs :: "target list \<Rightarrow> diagnosis list" where
  "check_macs ts = map (\<lambda>t. failed_check ''MAC address'' (''Wake-on-LAN cannot work for it. Fix it:  revpd target rm '' @ t_name t))
     (filter (\<lambda>t. case ParseMAC (t_mac t) of Inl _ \<Rightarrow> True | Inr _ \<Rightarrow> False) ts)"

fun check_reach :: "user list \<Rightarrow> target list \<Rightarrow> diagnosis list act" where
  "check_reach us [] = ret []"
| "check_reach us (t # ts) = do {
     ok \<leftarrow> reachable_by us t;
     later \<leftarrow> check_reach us ts;
     ret (if ok then later else warn ''Access'' (''Grant it:  revpd access grant USER \"'' @ t_name t @ ''\"'') # later)
   }"

definition check_service :: "patient \<Rightarrow> diagnosis list" where
  "check_service H =
     (if \<not> hs_linux H then []
      else (let state = serviceState True (fst (hs_systemctl H)) (snd (hs_systemctl H)) in
        if has_prefix state ''running'' then [fine ''Service'']
        else if state = ''not installed'' then [warn ''Service'' ''Reinstall to set it up as a service.'']
        else [failed_check ''Service'' ''Start it:  revpd service start   then:  revpd logs'']))"

definition check_port :: "patient \<Rightarrow> string \<Rightarrow> string \<Rightarrow> diagnosis" where
  "check_port H what addr =
     (if listening (hs_dial H) addr then fine what
      else warn what ''Normal if the service is stopped. Otherwise check:  revpd logs'')"

text \<open>The last octal digit of the permissions is what everybody else may do; its bit 4 is reading.\<close>

definition check_key_file :: "patient \<Rightarrow> diagnosis list" where
  "check_key_file H =
     (if \<not> hs_linux H then []
      else case hs_env_mode H of None \<Rightarrow> []
        | Some mode \<Rightarrow>
            if mode div 4 mod 2 \<noteq> 0 then
              [failed_check ''Key file permissions''
                (''Anyone on this machine can read every second factor. Fix:  chmod 640 '' @ installConfDir @ ''/.env'')]
            else [fine ''Key file permissions''])"

definition check_certificate :: "patient \<Rightarrow> config \<Rightarrow> diagnosis" where
  "check_certificate H c =
     (let cert = cw_tls_cert (cf_web c) in
      if cert = [] then warn ''Certificate''
        ''Browsers warn, and passkeys still work. Point web.tls_cert at a real one to stop the warning.''
      else if \<not> hs_exists H cert then failed_check ''Certificate'' ''The web interface will not start. Check the path and permissions.''
      else fine ''Certificate'')"

definition check_audit :: "patient \<Rightarrow> diagnosis" where
  "check_audit H =
     (case hs_audit H of Inl _ \<Rightarrow> warn ''Audit trail'' []
      | Inr (Some (Break _ why), _) \<Rightarrow> failed_check ''Audit trail''
          (''Someone edited the log. '' @ (case why of RowRemoved \<Rightarrow> ''prev_hash does not match the entry before it '' @ utf8 0x2014 @ '' a row was removed or reordered''
             | RowEdited \<Rightarrow> ''content hash mismatch '' @ utf8 0x2014 @ '' this row was edited''))
      | Inr (None, _) \<Rightarrow> fine ''Audit trail'')"

definition check_key :: "patient \<Rightarrow> config \<Rightarrow> diagnosis" where
  "check_key H c =
     (if MasterKey (hs_env H) c = [] then failed_check ''Encryption key''
        (''Every second factor is encrypted with it. Check '' @ installConfDir @ ''/.env'')
      else fine ''Encryption key'')"

text \<open>A list that cannot be read is an empty one.\<close>

definition listed :: "store_error + 'a list \<Rightarrow> 'a list" where
  "listed r = (case r of Inl _ \<Rightarrow> [] | Inr xs \<Rightarrow> xs)"

definition check_database :: "patient \<Rightarrow> config \<Rightarrow> diagnosis list act" where
  "check_database H c = do {
     us \<leftarrow> query (\<lambda>d. Inr (ListUsers d));
     lacking \<leftarrow> without_factor (listed us);
     ts \<leftarrow> query (\<lambda>d. Inr (ListTargets d));
     unreached \<leftarrow> check_reach (listed us) (listed ts);
     ret (check_audit H # check_accounts (listed us) lacking @
       [if listed ts = [] then warn ''Machines'' ''Add one:  revpd target add \"Office PC\" 192.168.1.40 aa:bb:cc:dd:ee:ff'' else fine ''Machines''] @
       check_macs (listed ts) @ unreached)
   }"

definition cmdDoctor :: "patient \<Rightarrow> diagnosis list act" where
  "cmdDoctor H =
     (case hs_config H of
        None \<Rightarrow> ret [failed_check ''Configuration'' (''Fix '' @ hs_path H @ '', or reinstall to get a fresh one.'')]
      | Some c \<Rightarrow>
          if \<not> hs_opens H then
            ret [fine ''Configuration'', check_key H c,
              failed_check ''Database'' (''Check that '' @ cf_data_dir c @ '' exists and the revpd user can write to it.'')]
          else do {
            inside \<leftarrow> check_database H c;
            ret ([fine ''Configuration'', check_key H c, fine ''Database''] @ inside @ check_service H @
              [check_port H ''Remote Desktop port'' (cr_listen (cf_relay c)), check_port H ''Web interface port'' (cw_listen (cf_web c))] @
              check_key_file H @ [check_certificate H c])
          })"

subsection \<open>What a clean diagnosis means\<close>

lemma without_factor_none:
  "run_state (without_factor us) w = ([], w') \<Longrightarrow> w_db w' = w_db w \<and>
     (\<forall>u \<in> set us. u_totp_secret u \<noteq> [] \<or> 0 < CountPasskeys (u_id u) (w_db w) \<or> 0 < CountBackupCodes (u_id u) (w_db w))"
proof (induction us arbitrary: w)
  case (Cons u us)
  obtain names w1 where rest: "run_state (without_factor us) (calm (calm w)) = (names, w1)" by fastforce
  have "names = [] \<and> w1 = w' \<and> (u_totp_secret u \<noteq> [] \<or> 0 < CountPasskeys (u_id u) (w_db w) \<or> 0 < CountBackupCodes (u_id u) (w_db w))"
    using Cons.prems rest by (auto simp: run_simps outcome_def split: if_split_asm)
  then show ?case using Cons.IH [of "calm (calm w)"] rest by simp
qed simp

lemma reachable_by_someone:
  "run_state (reachable_by us t) w = (ok, w') \<Longrightarrow> w_db w' = w_db w \<and> (ok \<longrightarrow> (\<exists>u \<in> set us. CanReach u (t_id t) (w_db w)))"
proof (induction us arbitrary: w)
  case (Cons u us)
  show ?case
  proof (cases "\<not> faulty w \<and> CanReach u (t_id t) (w_db w)")
    case True
    then have "w' = calm w" using Cons.prems by (simp add: run_simps outcome_def)
    with True show ?thesis by simp
  next
    case False
    then have "run_state (reachable_by us t) (calm w) = (ok, w')"
      using Cons.prems by (auto simp: run_simps outcome_def split: if_split_asm)
    from Cons.IH [OF this] show ?thesis by auto
  qed
qed simp

lemma check_reach_clean:
  "run_state (check_reach us ts) w = (cs, w') \<Longrightarrow> w_db w' = w_db w \<and>
     (list_all (\<lambda>c. dg_status c = CheckOk) cs \<longrightarrow> (\<forall>t \<in> set ts. \<exists>u \<in> set us. CanReach u (t_id t) (w_db w)))"
proof (induction ts arbitrary: w cs w')
  case (Cons t ts)
  obtain ok w1 where o: "run_state (reachable_by us t) w = (ok, w1)" by fastforce
  obtain later w2 where l: "run_state (check_reach us ts) w1 = (later, w2)" by fastforce
  show ?case using Cons.IH [OF l] reachable_by_someone [OF o] Cons.prems o l by (auto simp: warn_def split: if_split_asm)
qed auto

lemma summarise_clean: "summarise cs = None \<longleftrightarrow> list_all (\<lambda>c. dg_status c = CheckOk) cs"
  by (auto simp: summarise_def Let_def filter_empty_conv list_all_iff)

lemma check_status_simps [simp]:
  "dg_status (fine n) = CheckOk" "dg_status (warn n x) = CheckWarn" "dg_status (failed_check n x) = CheckFail"
  by (simp_all add: fine_def warn_def failed_check_def)

text \<open>
  When the diagnosis has nothing to say, whatever statements failed meanwhile: the key is there, the log is intact, there is
  an administrator, everybody has a second factor, every machine has an address that can be woken and somebody who may
  reach it, both ports answer, and the key file is closed to others.
\<close>

theorem clean_diagnosis:
  assumes "run_state (cmdDoctor H) w = (cs, w')" and "summarise cs = None"
  shows "\<exists>c n. hs_config H = Some c \<and> MasterKey (hs_env H) c \<noteq> [] \<and> hs_opens H \<and> hs_audit H = Inr (None, n) \<and>
     (\<exists>u \<in> set (users (w_db w)). is_admin u) \<and>
     (\<forall>u \<in> set (users (w_db w)). u_totp_secret u \<noteq> [] \<or> 0 < CountPasskeys (u_id u) (w_db w) \<or> 0 < CountBackupCodes (u_id u) (w_db w)) \<and>
     (\<forall>t \<in> set (targets (w_db w)). (\<exists>mac. ParseMAC (t_mac t) = Inr mac) \<and> (\<exists>u \<in> set (users (w_db w)). CanReach u (t_id t) (w_db w))) \<and>
     listening (hs_dial H) (cr_listen (cf_relay c)) \<and> listening (hs_dial H) (cw_listen (cf_web c)) \<and>
     (hs_linux H \<longrightarrow> (case hs_env_mode H of None \<Rightarrow> True | Some mode \<Rightarrow> mode div 4 mod 2 = 0))"
proof -
  obtain c where c: "hs_config H = Some c" and o: "hs_opens H"
    using assms by (auto simp: cmdDoctor_def summarise_clean split: option.split_asm if_split_asm)
  obtain inside where i: "run_state (check_database H c) w = (inside, w')"
      and cs: "cs = [fine ''Configuration'', check_key H c, fine ''Database''] @ inside @ check_service H @
              [check_port H ''Remote Desktop port'' (cr_listen (cf_relay c)), check_port H ''Web interface port'' (cw_listen (cf_web c))] @
              check_key_file H @ [check_certificate H c]"
    using assms(1) c o by (auto simp: cmdDoctor_def split: prod.split_asm)
  note ok = assms(2) [unfolded summarise_clean cs]
  obtain us w1 where u: "run_state (query (\<lambda>d. Inr (ListUsers d))) w = (us, w1)" by fastforce
  obtain lacking w2 where l: "run_state (without_factor (listed us)) w1 = (lacking, w2)" by fastforce
  obtain ts w3 where t: "run_state (query (\<lambda>d. Inr (ListTargets d))) w2 = (ts, w3)" by fastforce
  obtain un w4 where r: "run_state (check_reach (listed us) (listed ts)) w3 = (un, w4)" by fastforce
  have ins: "inside = check_audit H # check_accounts (listed us) lacking @
       [if listed ts = [] then warn ''Machines'' ''Add one:  revpd target add \"Office PC\" 192.168.1.40 aa:bb:cc:dd:ee:ff'' else fine ''Machines''] @
       check_macs (listed ts) @ un"
    using i u l t r by (simp add: check_database_def)
  have acc: "list_all (\<lambda>c. dg_status c = CheckOk) (check_accounts (listed us) lacking)"
      and mac: "list_all (\<lambda>c. dg_status c = CheckOk) (check_macs (listed ts))" and un: "list_all (\<lambda>c. dg_status c = CheckOk) un"
      and some: "listed ts \<noteq> []" and aud: "dg_status (check_audit H) = CheckOk"
    using ok unfolding ins by (auto split: if_split_asm)
  have adm: "list_ex is_admin (listed us)" "lacking = []" "listed us \<noteq> []"
    using acc by (auto simp: check_accounts_def split: if_split_asm)
  have us: "listed us = ListUsers (w_db w)" "w_db w1 = w_db w"
    using u adm(3) by (auto simp: run_simps outcome_def listed_def split: if_split_asm)
  have w2: "w_db w2 = w_db w" and fac: "\<forall>u \<in> set (ListUsers (w_db w)). u_totp_secret u \<noteq> [] \<or> 0 < CountPasskeys (u_id u) (w_db w) \<or> 0 < CountBackupCodes (u_id u) (w_db w)"
    using without_factor_none [of "listed us" w1 w2] l us adm(2) by simp_all
  have ts: "listed ts = ListTargets (w_db w)" "w_db w3 = w_db w"
    using t some w2 by (auto simp: run_simps outcome_def listed_def split: if_split_asm)
  have reach: "\<forall>t \<in> set (ListTargets (w_db w)). \<exists>u \<in> set (ListUsers (w_db w)). CanReach u (t_id t) (w_db w)"
    using check_reach_clean [OF r] un us ts by simp
  have macs: "\<forall>t \<in> set (ListTargets (w_db w)). \<exists>mac. ParseMAC (t_mac t) = Inr mac"
    using mac unfolding ts by (auto simp: check_macs_def list_all_iff split: sum.split_asm) (metis sum.exhaust_sel)
  obtain n where n: "hs_audit H = Inr (None, n)"
    using aud by (auto simp: check_audit_def split: sum.split_asm option.split_asm chain_break.split_asm prod.split_asm)
  have "MasterKey (hs_env H) c \<noteq> []" "listening (hs_dial H) (cr_listen (cf_relay c))" "listening (hs_dial H) (cw_listen (cf_web c))"
      "hs_linux H \<longrightarrow> (case hs_env_mode H of None \<Rightarrow> True | Some mode \<Rightarrow> mode div 4 mod 2 = 0)"
    using ok by (auto simp: check_key_def check_port_def check_key_file_def split: if_split_asm option.split_asm)
  with c o n adm(1) fac reach macs show ?thesis
    unfolding us ListUsers_def ListTargets_def by (simp add: list_ex_iff)
qed

section \<open>Taking a backup\<close>

definition defaultBackupPath :: "string \<Rightarrow> string option \<Rightarrow> string \<Rightarrow> string" where
  "defaultBackupPath host home today =
     (let name = ''revpd-'' @ (if host = [] then ''revpd'' else host) @ ''-'' @ today @ Extension in
      case home of Some h \<Rightarrow> filepath_Join h name | None \<Rightarrow> name)"

text \<open>Directories with what they hold: the name, whether it is a directory, and when it was last changed, if that can be told.\<close>

definition newer_backup :: "string \<Rightarrow> string \<times> bool \<times> time option \<Rightarrow> (string \<times> time) option \<Rightarrow> (string \<times> time) option" where
  "newer_backup dir = (\<lambda>(name, is_dir, changed) best.
     if is_dir \<or> \<not> has_prefix (rev name) (rev Extension) then best
     else case changed of None \<Rightarrow> best
       | Some t \<Rightarrow> (case best of None \<Rightarrow> (if zero_moment < t then Some (filepath_Join dir name, t) else None)
           | Some (_, t0) \<Rightarrow> if t0 < t then Some (filepath_Join dir name, t) else best))"

definition findNewestBackup :: "(string \<times> (string \<times> bool \<times> time option) list option) list \<Rightarrow> string" where
  "findNewestBackup dirs =
     (case fold (\<lambda>(dir, entries) best. case entries of None \<Rightarrow> best | Some es \<Rightarrow> fold (newer_backup dir) es best) dirs None of
        None \<Rightarrow> [] | Some (p, _) \<Rightarrow> p)"

text \<open>
  \<open>cmdBackup\<close>, from the path that was chosen: whether overwriting was confirmed, the passphrase that was typed, whether the
  database opens, the name of the temporary file, and what \<open>VACUUM INTO\<close> writes.  The temporary file, once it was
  made, goes away however the command ends.
\<close>

datatype backup_end = BackupUnchanged | NoPassphraseTyped | DatabaseClosed | SnapshotFailed | NotBackedUp backup_error | BackedUp

record backup_inputs =
  bi_overwrite :: bool
  bi_passphrase :: "string option"
  bi_opens :: bool
  bi_snapshot :: string
  bi_dump :: "string option"
  bi_salt :: "bytes option"
  bi_nonce :: "bytes option"
  bi_host :: string
  bi_version :: string

definition take_snapshot :: "backup_inputs \<Rightarrow> ('s, string option) op" where
  "take_snapshot I = do {
     remove_file (bi_snapshot I);
     dumped \<leftarrow> (case bi_dump I of None \<Rightarrow> yield_op False | Some d \<Rightarrow> write_file (bi_snapshot I) d);
     if \<not> dumped then yield_op None
     else do { r \<leftarrow> read_file (bi_snapshot I); yield_op (case r of Inl _ \<Rightarrow> None | Inr d \<Rightarrow> Some d) }
   }"

definition read_or_none :: "string \<Rightarrow> ('s, bytes) op" where
  "read_or_none p = do { r \<leftarrow> read_file p; yield_op (case r of Inl _ \<Rightarrow> [] | Inr s \<Rightarrow> bytes_of s) }"

definition write_backup :: "archiver \<Rightarrow> install_paths \<Rightarrow> backup_inputs \<Rightarrow> string \<Rightarrow> string \<Rightarrow> string \<Rightarrow> ('s, backup_end) op" where
  "write_backup A P I passphrase path dump = do {
     env \<leftarrow> read_or_none (ip_env P);
     conf \<leftarrow> read_or_none (ip_config P);
     now \<leftarrow> read_time;
     e \<leftarrow> WriteFile A (bi_salt I) (bi_nonce I) path
       \<lparr>bk_database = bytes_of dump, bk_env = env, bk_config = conf, bk_created = now, bk_hostname = bi_host I,
        bk_version = bi_version I\<rparr> passphrase;
     yield_op (case e of None \<Rightarrow> BackedUp | Some x \<Rightarrow> NotBackedUp x)
   }"

definition back_up :: "archiver \<Rightarrow> install_paths \<Rightarrow> backup_inputs \<Rightarrow> string \<Rightarrow> string \<Rightarrow> ('s, backup_end) op" where
  "back_up A P I passphrase path = do {
     dump \<leftarrow> take_snapshot I;
     e \<leftarrow> (case dump of None \<Rightarrow> yield_op SnapshotFailed | Some d \<Rightarrow> write_backup A P I passphrase path d);
     remove_file (bi_snapshot I);
     yield_op e
   }"

definition cmdBackup :: "archiver \<Rightarrow> install_paths \<Rightarrow> backup_inputs \<Rightarrow> string \<Rightarrow> ('s, backup_end) op" where
  "cmdBackup A P I path = do {
     there \<leftarrow> get_file path;
     if there \<noteq> None \<and> \<not> bi_overwrite I then yield_op BackupUnchanged
     else (case bi_passphrase I of
         None \<Rightarrow> yield_op NoPassphraseTyped
       | Some passphrase \<Rightarrow>
           if \<not> bi_opens I then yield_op DatabaseClosed
           else do {
             created \<leftarrow> write_file (bi_snapshot I) [];
             if \<not> created then yield_op SnapshotFailed else back_up A P I passphrase path
           })
   }"

subsection \<open>What a backup leaves behind\<close>

lemma after_read_or_none:
  assumes "\<And>b m'. only none_of m m' \<Longrightarrow> Q b m'"
  shows "after (read_or_none p) m Q"
  unfolding read_or_none_def after_simps by (rule after_read) (rule assms)

lemma after_snapshot:
  assumes "\<And>d m'. only ((=) (bi_snapshot I)) m m' \<Longrightarrow> d = None \<or> d = bi_dump I \<Longrightarrow> Q d m'"
  shows "after (take_snapshot I) m Q"
  unfolding take_snapshot_def after_bind
proof (rule after_remove)
  fix gone m1
  assume o1: "only ((=) (bi_snapshot I)) m m1"
  have on: "only ((=) (bi_snapshot I)) m m3" if "only ((=) (bi_snapshot I)) m m2" "only A m2 m3" "\<And>q. A q \<Longrightarrow> bi_snapshot I = q" for m2 m3 A
    by (rule only_trans [OF that(1,2)]) (use that(3) in auto)
  have dumped: "after (write_file (bi_snapshot I) d) m1 (\<lambda>ok m'. after (if \<not> ok then yield_op None
      else do { r \<leftarrow> read_file (bi_snapshot I); yield_op (case r of Inl _ \<Rightarrow> None | Inr d \<Rightarrow> Some d) }) m' Q)"
    if d: "bi_dump I = Some d" for d
  proof (rule after_write)
    fix ok m3
    assume o3: "only ((=) (bi_snapshot I)) m1 m3" and w: "ok \<Longrightarrow> data_at m3 (bi_snapshot I) = Some d"
    have o: "only ((=) (bi_snapshot I)) m m3" by (rule on [OF o1 o3]) simp
    have "after (read_file (bi_snapshot I)) m3 (\<lambda>r. Q (case r of Inl _ \<Rightarrow> None | Inr d \<Rightarrow> Some d))" if ok
    proof (rule after_read)
      fix r m4
      assume o4: "only none_of m3 m4" and r: "\<And>s. r = Inr s \<Longrightarrow> data_at m3 (bi_snapshot I) = Some s"
      have "only ((=) (bi_snapshot I)) m m4" by (rule on [OF o o4]) simp
      then show "Q (case r of Inl _ \<Rightarrow> None | Inr d \<Rightarrow> Some d) m4"
        using w [OF that] r d by (intro assms) (auto split: sum.split)
    qed
    then show "after (if \<not> ok then yield_op None
      else do { r \<leftarrow> read_file (bi_snapshot I); yield_op (case r of Inl _ \<Rightarrow> None | Inr d \<Rightarrow> Some d) }) m3 Q"
      using o by (simp add: after_simps assms)
  qed
  show "after (case bi_dump I of None \<Rightarrow> yield_op False | Some d \<Rightarrow> write_file (bi_snapshot I) d) m1
     (\<lambda>ok m'. after (if \<not> ok then yield_op None
      else do { r \<leftarrow> read_file (bi_snapshot I); yield_op (case r of Inl _ \<Rightarrow> None | Inr d \<Rightarrow> Some d) }) m' Q)"
    using dumped o1 by (cases "bi_dump I") (auto simp: after_simps intro: assms)
qed

definition backup_files :: "backup_inputs \<Rightarrow> string \<Rightarrow> string \<Rightarrow> bool" where
  "backup_files I path q \<longleftrightarrow> q = path \<or> q = bi_snapshot I"

lemma after_write_backup:
  assumes "\<And>e m'. only ((=) path) m m' \<Longrightarrow>
     (e = BackedUp \<Longrightarrow> \<exists>c body. bk_database c = bytes_of dump \<and>
        Write_backup A (bi_salt I) (bi_nonce I) c passphrase = Inr body \<and> data_at m' path = Some (string_of body)) \<Longrightarrow> Q e m'"
  shows "after (write_backup A P I passphrase path dump) m Q"
  unfolding write_backup_def after_bind
proof (rule after_read_or_none, rule after_read_or_none, rule after_time)
  fix env m1 conf m2 now m3
  assume o: "only none_of m m1" "only none_of m1 m2" "only none_of m2 m3"
  define c where "c = \<lparr>bk_database = bytes_of dump, bk_env = env, bk_config = conf, bk_created = now, bk_hostname = bi_host I,
        bk_version = bi_version I\<rparr>"
  have same: "only none_of m m3"
    by (rule only_trans [OF only_trans [OF o(1,2)] o(3)]) auto
  have untouched: "only ((=) path) m m3" by (rule only_weaken [OF same]) simp
  have "after (WriteFile A (bi_salt I) (bi_nonce I) path c passphrase) m3
     (\<lambda>e. Q (case e of None \<Rightarrow> BackedUp | Some x \<Rightarrow> NotBackedUp x))"
  proof (cases "passphrase = []")
    case False
    show ?thesis
    proof (cases "Write_backup A (bi_salt I) (bi_nonce I) c passphrase")
      case (Inr body)
      show ?thesis
        unfolding WriteFile_def if_not_P [OF False] Inr sum.case
      proof (rule after_private)
        fix r :: "backup_error option" and m4
        assume p: "only ((=) path) m3 m4" "r = None \<Longrightarrow> data_at m4 path = Some (string_of body)"
        have "only ((=) path) m m4" by (rule only_trans [OF same p(1)]) auto
        then show "Q (case r of None \<Rightarrow> BackedUp | Some x \<Rightarrow> NotBackedUp x) m4"
        proof (rule assms)
          assume "(case r of None \<Rightarrow> BackedUp | Some x \<Rightarrow> NotBackedUp x) = BackedUp"
          then have "r = None" by (cases r) auto
          with p(2) Inr show "\<exists>c body. bk_database c = bytes_of dump \<and>
             Write_backup A (bi_salt I) (bi_nonce I) c passphrase = Inr body \<and> data_at m4 path = Some (string_of body)"
            by (intro exI [of _ c] exI [of _ body]) (simp add: c_def)
        qed
      qed
    qed (use untouched in \<open>auto simp: WriteFile_def False after_yield intro!: assms\<close>)
  qed (use untouched in \<open>auto simp: WriteFile_def after_yield intro!: assms\<close>)
  then show "after (WriteFile A (bi_salt I) (bi_nonce I) path
       \<lparr>bk_database = bytes_of dump, bk_env = env, bk_config = conf, bk_created = now, bk_hostname = bi_host I,
        bk_version = bi_version I\<rparr> passphrase) m3
     (\<lambda>e m'. after (yield_op (case e of None \<Rightarrow> BackedUp | Some x \<Rightarrow> NotBackedUp x)) m' Q)"
    unfolding after_yield c_def .
qed

text \<open>
  Taking a backup touches nothing but its own file and the temporary one; without the answer that it may be overwritten
  an existing file stays, and nothing else changes either; and success means the file holds the dump of the database,
  sealed with the passphrase that was typed.
\<close>

theorem backup_command_keeps_to_its_files:
  assumes "run_state (cmdBackup A P I path) m = (e, m')" and "bi_snapshot I \<noteq> path"
  shows "only (backup_files I path) m m'" and "data_at m path \<noteq> None \<Longrightarrow> \<not> bi_overwrite I \<Longrightarrow> e = BackupUnchanged \<and> m' = m"
    and "e = BackedUp \<Longrightarrow> \<exists>c body passphrase dump. bi_passphrase I = Some passphrase \<and> bi_dump I = Some dump \<and>
       bk_database c = bytes_of dump \<and> Write_backup A (bi_salt I) (bi_nonce I) c passphrase = Inr body \<and>
       data_at m' path = Some (string_of body)"
proof -
  let ?good = "\<lambda>e m'. only (backup_files I path) m m' \<and> (e = BackedUp \<longrightarrow>
     (\<exists>c body passphrase dump. bi_passphrase I = Some passphrase \<and> bi_dump I = Some dump \<and>
       bk_database c = bytes_of dump \<and> Write_backup A (bi_salt I) (bi_nonce I) c passphrase = Inr body \<and>
       data_at m' path = Some (string_of body)))"
  have clean: "after (remove_file (bi_snapshot I)) m2 (\<lambda>_ m3. after (yield_op e) m3 ?good)" if "?good e m2" for e m2
    unfolding after_yield
  proof (rule after_remove)
    fix ok m3 assume o: "only ((=) (bi_snapshot I)) m2 m3"
    have "only (backup_files I path) m m3" by (rule only_trans [OF conjunct1 [OF that] o]) (auto simp: backup_files_def)
    moreover have "data_at m3 path = data_at m2 path" using only_data [OF o] assms(2) by auto
    ultimately show "?good e m3" using that by auto
  qed
  have body: "after (back_up A P I passphrase path) m0 ?good"
    if p: "bi_passphrase I = Some passphrase" and o0: "only ((=) (bi_snapshot I)) m m0" for passphrase m0
    unfolding back_up_def after_bind
  proof (rule after_snapshot)
    fix d m1
    assume o1: "only ((=) (bi_snapshot I)) m0 m1" and d: "d = None \<or> d = bi_dump I"
    have f1: "only (backup_files I path) m m1" by (rule only_trans [OF o0 o1]) (auto simp: backup_files_def)
    show "after (case d of None \<Rightarrow> yield_op SnapshotFailed | Some d \<Rightarrow> write_backup A P I passphrase path d) m1
       (\<lambda>e m2. after (remove_file (bi_snapshot I)) m2 (\<lambda>_ m3. after (yield_op e) m3 ?good))"
    proof (cases d)
      case None
      show ?thesis
        unfolding None option.case after_yield [of SnapshotFailed m1] by (rule clean) (simp add: f1)
    next
      case (Some dump)
      have "after (write_backup A P I passphrase path dump) m1
         (\<lambda>e m2. after (remove_file (bi_snapshot I)) m2 (\<lambda>_ m3. after (yield_op e) m3 ?good))"
      proof (rule after_write_backup, rule clean, rule conjI)
        fix e m2
        assume o2: "only ((=) path) m1 m2" and w: "e = BackedUp \<Longrightarrow> \<exists>c body. bk_database c = bytes_of dump \<and>
          Write_backup A (bi_salt I) (bi_nonce I) c passphrase = Inr body \<and> data_at m2 path = Some (string_of body)"
        show "only (backup_files I path) m m2" by (rule only_trans [OF f1 o2]) (auto simp: backup_files_def)
        show "e = BackedUp \<longrightarrow> (\<exists>c body passphrase dump. bi_passphrase I = Some passphrase \<and> bi_dump I = Some dump \<and>
          bk_database c = bytes_of dump \<and> Write_backup A (bi_salt I) (bi_nonce I) c passphrase = Inr body \<and>
          data_at m2 path = Some (string_of body))"
        proof
          assume "e = BackedUp"
          from w [OF this] obtain c body where "bk_database c = bytes_of dump"
            "Write_backup A (bi_salt I) (bi_nonce I) c passphrase = Inr body" "data_at m2 path = Some (string_of body)" by blast
          moreover have "bi_dump I = Some dump" using d Some by simp
          ultimately show "\<exists>c body passphrase dump. bi_passphrase I = Some passphrase \<and> bi_dump I = Some dump \<and>
            bk_database c = bytes_of dump \<and> Write_backup A (bi_salt I) (bi_nonce I) c passphrase = Inr body \<and>
            data_at m2 path = Some (string_of body)"
            using p by blast
        qed
      qed
      then show ?thesis using Some by simp
    qed
  qed
  have n: "?good e m" if "e \<noteq> BackedUp" for e using that by simp
  let ?rest = "case bi_passphrase I of None \<Rightarrow> yield_op NoPassphraseTyped
     | Some passphrase \<Rightarrow>
         if \<not> bi_opens I then yield_op DatabaseClosed
         else do {
           created \<leftarrow> write_file (bi_snapshot I) [];
           if \<not> created then yield_op SnapshotFailed else back_up A P I passphrase path
         }"
  have "after ?rest m ?good"
  proof (cases "bi_passphrase I")
    case None
    show ?thesis unfolding None option.case after_yield by simp
  next
    case (Some passphrase)
    have "after (do {
           created \<leftarrow> write_file (bi_snapshot I) [];
           if \<not> created then yield_op SnapshotFailed else back_up A P I passphrase path
         }) m ?good"
      unfolding after_bind [of "write_file (bi_snapshot I) []"]
    proof (rule after_write)
      fix created m0
      assume o: "only ((=) (bi_snapshot I)) m m0"
      have f: "only (backup_files I path) m m0" by (rule only_weaken [OF o]) (simp add: backup_files_def)
      show "after (if \<not> created then yield_op SnapshotFailed else back_up A P I passphrase path) m0 ?good"
        using body [OF Some o] f by (cases created) (simp_all only: after_yield if_True if_False simp_thms backup_end.distinct not_False_eq_True)
    qed
    then show ?thesis using n [of DatabaseClosed]
      by (cases "bi_opens I") (simp_all only: Some option.case after_yield if_True if_False simp_thms backup_end.distinct not_False_eq_True)
  qed
  then have "after (if data_at m path \<noteq> None \<and> \<not> bi_overwrite I then yield_op BackupUnchanged else ?rest) m ?good"
    using n [of BackupUnchanged]
    by (cases "data_at m path \<noteq> None \<and> \<not> bi_overwrite I") (simp_all only: after_yield if_True if_False simp_thms backup_end.distinct not_False_eq_True)
  then have "after (cmdBackup A P I path) m ?good"
    unfolding cmdBackup_def after_bind [of "get_file path"] after_get_file .
  from after_run [OF assms(1) this] show "only (backup_files I path) m m'"
      "e = BackedUp \<Longrightarrow> \<exists>c body passphrase dump. bi_passphrase I = Some passphrase \<and> bi_dump I = Some dump \<and>
       bk_database c = bytes_of dump \<and> Write_backup A (bi_salt I) (bi_nonce I) c passphrase = Inr body \<and>
       data_at m' path = Some (string_of body)" by blast+
  show "data_at m path \<noteq> None \<Longrightarrow> \<not> bi_overwrite I \<Longrightarrow> e = BackupUnchanged \<and> m' = m"
    using assms(1) by (simp add: cmdBackup_def op_simps)
qed

end
