(* ===== verification/Spec2Isabelle.thy ===== *)
theory Spec2Isabelle
  imports Gateway Audit_Guarantees Rdgw_Guarantees Rdp_Login_Guarantees Portal_Guarantees Netcheck_Guarantees
    Notify_Guarantees Setting_Codecs Settings_Guarantees Portal_Pages Update_Chain Backup_Guarantees Discover_Guarantees
    Duo_Guarantees Command_Guarantees Startup Operator
begin

text \<open>
  Verification development for Revpd, a gateway that lets people reach Windows machines over RDP from the
  internet.  A person signs in on a web portal (or inside the RDP client), proves a second factor, and is given
  a short permission for one machine and one source address; the relay forwards bytes only to connections that
  hold such a permission, waking the machine when it sleeps.

  \<^bold>\<open>How the program runs in the model.\<close>  Operations of the Go code that touch the database, the clock, the random
  source, the audit log or the outside world are programs of \<open>World\<close>: \<open>'a act\<close> is the state monad over the record
  \<open>world\<close>, which holds the database, the clock as a function of readings, the queue of random bytes, the maps
  kept in memory (lockout counters, passkey challenges), the entries handed to the audit log, and the list \<open>w_faults\<close> that says which of the coming statements fail for reasons of their own (a full disk, a
  cancelled context).  Theorems that quantify over the world therefore cover every failing statement.
  Cryptography, SQLite's storage, DNS, TCP, TLS and third-party services are fields of the record \<open>env\<close> or
  arguments; what a property needs of them is among its hypotheses.  Handlers are functions from a request to
  an \<open>act\<close> of a response; errors are values of sum types.  A cursor of the RDP parsers records what
  went wrong and carries on, as the code's does, and a read that would panic is marked as such (\<open>Tpkt\<close>).  Integers that can wrap are words or go through \<open>wrap64\<close>; text is a list of bytes, read as
  UTF-8 by \<open>Go_Strings\<close>.

  \<^bold>\<open>Parts, theories and code.\<close>
  \<^item> Vocabulary: \<open>Revpd_Prelude\<close> (bytes, fixed-width integers, collections of simplification rules),
    \<open>Go_Strings\<close> (\<open>strings\<close>, \<open>unicode\<close>, \<open>utf8\<close>), \<open>Net_Addr\<close> and \<open>Net_Text\<close> (\<open>net.IP\<close>, \<open>ParseIP\<close>, \<open>ParseCIDR\<close>), \<open>Base64\<close>,
    \<open>Decimal\<close>, \<open>Utf16\<close>, \<open>Json\<close>, \<open>Json_Read\<close>, \<open>Json_Indent\<close>, \<open>Go_Url\<close>: what the program uses of the standard library.
    The interfaces are locales, each interpreted on the model's own operations: \<open>guarded_system\<close> (an invariant
    kept by steps) and \<open>one_shot\<close> (a resource claimed once) of \<open>Contracts\<close>, \<open>fixed_field\<close> (integers of fixed width),
    \<open>b64_alphabet\<close>, \<open>relay_contract\<close> (what the relay may assume of the policy that decides for it), \<open>frame\<close> (what an operation leaves
    alone), \<open>settings_table\<close> (settings that do not interfere) and \<open>codec\<close> (what is shown saves back).
  \<^item> \<open>internal/store\<close>: \<open>Startup\<close> (opening and migrations), \<open>Store\<close> (tables as lists of records in one \<open>db\<close>, one definition per statement),
    \<open>Store_Inv\<close> (the step relation \<open>db_step\<close> over all statements and its invariant), \<open>Store_Props\<close>.
  \<^item> \<open>internal/crypto\<close>: \<open>Crypto\<close>.  \<open>internal/auth\<close>: \<open>Auth\<close>, \<open>Auth_Guarantees\<close>, and the HTTP half in \<open>Http\<close>.
    \<open>internal/mfa/totp.go\<close>: \<open>Totp\<close>.  \<open>internal/mfa/webauthn\<close>: \<open>Cbor\<close>, \<open>Webauthn\<close>.
  \<^item> \<open>internal/policy\<close>: \<open>Policy\<close> (\<open>policy.go\<close>), \<open>Login_Policy\<close> (\<open>login.go\<close>), with \<open>Policy_Guarantees\<close>,
    \<open>Login_Guarantees\<close> and \<open>Refusals\<close>.  \<open>internal/wol\<close>: \<open>Wol\<close>.
  \<^item> \<open>internal/proxy/x224\<close>, \<open>relay\<close>: \<open>X224\<close>, \<open>Relay\<close>; \<open>Gateway\<close> is the relay with the policy plugged in, as
    \<open>cmd/revpd\<close> wires them.
  \<^item> \<open>internal/proxy/rdp\<close>: \<open>Tpkt\<close>, \<open>Ber_Per\<close>, \<open>Mcs\<close> (\<open>gcc.go\<close>, \<open>mcs.go\<close>), \<open>Client_Info\<close> (\<open>clientinfo.go\<close>,
    \<open>redirect.go\<close>), \<open>Rdp_Login\<close> (\<open>server.go\<close>); \<open>Rdp_Parsing\<close> and \<open>Rdp_Login_Guarantees\<close> prove.
    \<open>internal/proxy/rdgw\<close>: \<open>Rdgw\<close>, \<open>Rdgw_Guarantees\<close>.
  \<^item> \<open>internal/audit\<close>: \<open>Audit_Log\<close>, \<open>Audit_Guarantees\<close>.  \<open>internal/notify\<close>: \<open>Notify\<close>, \<open>Notify_Guarantees\<close>.
  \<^item> \<open>internal/config\<close>: \<open>Config\<close> (\<open>config.go\<close>, \<open>envfile.go\<close>, \<open>listen.go\<close>), \<open>Registry\<close> (\<open>registry.go\<close>),
    \<open>Config_Guarantees\<close>, \<open>Setting_Codecs\<close>.
  \<^item> \<open>internal/netcheck\<close>: \<open>Netcheck\<close>, \<open>Netcheck_Guarantees\<close>.
  \<^item> \<open>internal/api\<close>: \<open>Portal_Login\<close> (sign-in, passkeys), \<open>Portal_Admin\<close> (\<open>setup.go\<close> and the administrator's
    handlers), \<open>Portal_Settings\<close> (\<open>adminsettings.go\<close>, \<open>network.go\<close>, \<open>notify.go\<close>), \<open>Portal_Pages\<close> (targets, unlock,
    connection file, history, \<open>discover.go\<close>, \<open>accesslog.go\<close>, and the table of all routes), \<open>Portal_Update\<close> (\<open>update.go\<close>); \<open>Portal_Frames\<close> says what each operation leaves alone, \<open>Portal_Guarantees\<close> and
    \<open>Settings_Guarantees\<close> prove.
  \<^item> \<open>internal/update\<close>, on the files, the clock and the service of \<open>Machine\<close>: \<open>Update_Release\<close> (\<open>version.go\<close>,
    \<open>github.go\<close>), \<open>Update_Docs\<close> (\<open>state.go\<close> and the documents the two halves exchange), \<open>Update_Stage\<close>
    (\<open>update.go\<close>, the half inside the service), \<open>Update_Apply\<close> (\<open>apply.go\<close>, the half that runs as root, and
    \<open>cmd/revpd/update.go\<close>).  \<open>Machine_Rules\<close> and \<open>Update_Rules\<close> are a small Hoare calculus with one rule per step,
    \<open>Update_Guarantees\<close> proves about each half, \<open>Update_Chain\<close> about both with the page and the timer in front.
  \<^item> \<open>internal/backup\<close> and the restore command: \<open>Backup\<close>, \<open>Backup_Guarantees\<close>.
  \<^item> \<open>internal/discover\<close>: \<open>Discover\<close>, \<open>Discover_Guarantees\<close>.  \<open>internal/mfa/duo\<close>: \<open>Duo\<close>, \<open>Duo_Guarantees\<close>, which
    puts the client into the relay as its approver.
  \<^item> \<open>cmd/revpd\<close>: \<open>Commands\<close> (accounts, machines, access, sessions, becoming root, the questions asked at the
    terminal, the plain-HTTP redirect, housekeeping, uninstalling), \<open>Command_Guarantees\<close>; \<open>Operator\<close> (the choice of a
    command, the diagnosis, the service, taking a backup); \<open>Startup\<close> (how \<open>cmdServe\<close> comes up, and the certificates
    of \<open>internal/proxy/rdp/cert.go\<close>).

  \<^bold>\<open>What the lemmas show.\<close>  Access: when the relay contacts a machine, the decision it followed is the one this
  run took, on a live grant, an open redirect token or a human approval for that address (C1); grants and
  tokens are issued only to a proved person (C2, C6), count only while live and are spent once (C3, C4), and are confined
  to their address (C14); who may reach what changes only through administrators (C5).
  The unauthenticated surface: the login conversation writes what the authenticator's answer calls for and nothing
  else (C7), looks the same whatever the reason of a refusal (C8), serves the clients that follow the protocol
  (C9, C12), takes at most 65 frames (C10), and its cursor parsers stay in their buffers (C11); a refusal before
  the person is proved is uniform and counted (C13).  The relay passes the stream on unaltered (C16).  State:
  the database keeps its constraints (C15), lockout, one-time codes, the audit log and passkey challenges
  behave exactly (C17 to C22), and notifications are rationed (C38).  Configuration: the running configuration keeps
  every rule of \<open>Validate\<close> (C37), and a save is judged as a whole (C24).  Updates: whatever is staged and wherever the
  machine stops, the installed binary is the old one or a checked one, vouched for by the release, and the timer goes
  ahead only when it may (C25 to C27).
  Backups come back whole (C28, C29), uninstalling touches only what the installer made (C30), a locked account
  is out at once (C31), a push names what it approves (C32, C33), a sweep stays on its own network (C34, C35), and
  an address learned from resolvers rests on more than one of them (C36).  The remote desktop gateway's tunnel
  follows its sequence and is no open proxy (C39, C40).
  The theories named \<open>_Guarantees\<close> and \<open>_Props\<close> hold the
  properties; the rest define the model, with the lemmas a part owes to its callers.

  \<^bold>\<open>Bounds and fuel.\<close>  The bounds are the code's: eight attempts of an append, 64 PDUs and one during negotiation,
  packets of at most 16 KiB, CBOR nested eight deep, answers of at most 128 bytes from an address service, a
  queue of 64 notifications, five messages and one more per half minute, three delivery attempts, lines of
  65536 bytes in the secrets file.  Fuel appears where the code has a loop over its input: the JSON reader has
  twice the length of the text and three more, which is enough because every call consumes a byte or closes a
  value.  Loops over timers take the number of ticks, or what happens at each, as an argument.  The updater reads
  replies of at most 8 MiB, checksums of at most 1 MiB and unpacks at most 512 MiB, as the backup does.  The
  privileged half watches the restarted service with as much fuel as the timeout has seconds and two more;
  \<open>update_watch_ends\<close> shows that this is enough, because each turn sleeps for a second.  Polling for the outcome of
  a push has no bound of its own: it is a \<open>partial_function\<close>, and \<open>approve_returns\<close> shows that it returns once the
  caller's deadline passes.  A sweep visits at most 1024 addresses.

  \<^bold>\<open>Not modelled.\<close>  The embedded front end and the event stream that feeds it; the menu, the listings, the key-by-key
  completion of paths and the editor of the command line; the goroutines \<open>cmdServe\<close> starts, beyond the options it
  gives them; deadlines and TCP tuning of the relay and its accept loop (a missed deadline is a failing read or write);
  help and error texts; log lines and progress reports; Windows and macOS variants of reading a password or the table
  of neighbours.  Parameters, because their code is not part of the repository: the YAML decoder, \<open>time.ParseDuration\<close>,
  \<open>Time.Format\<close> of layouts other than RFC 3339, SQLite, X.509 and PEM, TLS, tar and gzip, Argon2id, the ciphers, hashes
  and signatures, nmap, systemd, and every far end.  Scheduling: handlers are atomic except where the code relies on a
  statement to decide a race (claimed tokens, codes, steps), which is modelled by the statement.
\<close>

end
